(* ===== verification/C_Prelude.thy ===== *)
theory C_Prelude
  imports "HOL-Library.Word" "HOL-Library.Monad_Syntax"
begin

text \<open>
  Shared vocabulary of the development: machine integers, byte buffers with
  bounds-checked access, network byte order, and the contract of a fixed-width
  field encoding.

  A C function that reads through a pointer is a HOL function into \<open>'a option\<close>:
  \<open>None\<close> stands for an access outside the object the pointer points into (undefined
  behaviour of the C code), and \<open>Some r\<close> for a run that stays inside and yields \<open>r\<close>.
  Memory safety of an operation is then the statement that its result is not \<open>None\<close>.
\<close>

unbundle bit_operations_syntax

section \<open>Machine integers and byte buffers\<close>

type_synonym u8 = "8 word"
type_synonym u16 = "16 word"
type_synonym u32 = "32 word"
type_synonym u64 = "64 word"
type_synonym bytes = "8 word list"

named_theorems mem_simps \<open>unfolding of the bounds-checked buffer accesses\<close>

definition rd8 :: "bytes \<Rightarrow> nat \<Rightarrow> u8 option" where
  "rd8 b i = (if i < length b then Some (b ! i) else None)"

definition rd_block :: "bytes \<Rightarrow> nat \<Rightarrow> nat \<Rightarrow> bytes option" where
  "rd_block b off n = (if off + n \<le> length b then Some (take n (drop off b)) else None)"

definition wr_block :: "bytes \<Rightarrow> nat \<Rightarrow> bytes \<Rightarrow> bytes option" where
  "wr_block b off src =
     (if off + length src \<le> length b
      then Some (take off b @ src @ drop (off + length src) b) else None)"

definition be16 :: "u8 \<Rightarrow> u8 \<Rightarrow> u16" where
  "be16 a b = push_bit 8 (ucast a) OR ucast b"

definition be32 :: "u8 \<Rightarrow> u8 \<Rightarrow> u8 \<Rightarrow> u8 \<Rightarrow> u32" where
  "be32 a b c d =
     push_bit 24 (ucast a) OR push_bit 16 (ucast b) OR push_bit 8 (ucast c) OR ucast d"

definition enc16 :: "u16 \<Rightarrow> bytes" where
  "enc16 w = [ucast (drop_bit 8 w), ucast w]"

definition enc32 :: "u32 \<Rightarrow> bytes" where
  "enc32 w = [ucast (drop_bit 24 w), ucast (drop_bit 16 w), ucast (drop_bit 8 w), ucast w]"

text \<open>\<open>ntohs\<close> and \<open>ntohl\<close> of a field at a byte offset.\<close>

definition rd16 :: "bytes \<Rightarrow> nat \<Rightarrow> u16 option" where
  "rd16 b i = do { x \<leftarrow> rd8 b i; y \<leftarrow> rd8 b (i + 1); Some (be16 x y) }"

definition rd32 :: "bytes \<Rightarrow> nat \<Rightarrow> u32 option" where
  "rd32 b i = do { x \<leftarrow> rd8 b i; y \<leftarrow> rd8 b (i + 1); z \<leftarrow> rd8 b (i + 2);
                   w \<leftarrow> rd8 b (i + 3); Some (be32 x y z w) }"

section \<open>Words\<close>

lemma u8_bit_high [simp]: "8 \<le> n \<Longrightarrow> \<not> bit (b :: u8) n"
  using bit_imp_le_length [of b n] by auto

lemma u8_unat_less [simp]: "unat (b :: u8) < 256"
  using unsigned_less [of b] by simp

lemma u16_unat_less [simp]: "unat (b :: u16) < 65536"
  using unsigned_less [of b] by simp

lemma u32_unat_less [simp]: "unat (b :: u32) < 4294967296"
  using unsigned_less [of b] by simp

lemma unat_ucast_u8_u16 [simp]: "unat (ucast (a :: u8) :: u16) = unat a"
  by (simp add: unsigned_ucast_eq take_bit_nat_eq_self order_less_trans [OF u8_unat_less])

lemma unat_ucast_u8_u32 [simp]: "unat (ucast (a :: u8) :: u32) = unat a"
  by (simp add: unsigned_ucast_eq take_bit_nat_eq_self order_less_trans [OF u8_unat_less])

lemma unat_ucast_u16_u32 [simp]: "unat (ucast (a :: u16) :: u32) = unat a"
  by (simp add: unsigned_ucast_eq take_bit_nat_eq_self order_less_trans [OF u16_unat_less])

lemma u16_overflow: "(65536 :: u16) = 0"
  by simp

lemma unat_and_le: "unat (x AND y) \<le> unat y"
  by (metis word_and_le1 word_le_nat_alt)

lemma be16_enc16 [simp]: "be16 (ucast (drop_bit 8 w)) (ucast w) = w"
  unfolding be16_def
  by (rule bit_word_eqI) (auto simp: bit_simps)

lemma be32_enc32 [simp]:
  "be32 (ucast (drop_bit 24 w)) (ucast (drop_bit 16 w)) (ucast (drop_bit 8 w)) (ucast w) = w"
proof (rule bit_word_eqI)
  fix n assume n: "n < LENGTH(32)"
  consider "n < 8" | "8 \<le> n" "n < 16" | "16 \<le> n" "n < 24" | "24 \<le> n" by linarith
  then show "bit (be32 (ucast (drop_bit 24 w)) (ucast (drop_bit 16 w))
      (ucast (drop_bit 8 w)) (ucast w)) n = bit w n"
    using n by cases (auto simp: be32_def bit_simps)
qed

lemma enc16_be16: "enc16 (be16 a b) = [a, b]"
  unfolding enc16_def be16_def
  by (auto intro!: bit_word_eqI simp: bit_simps)

lemma enc32_be32: "enc32 (be32 a b c d) = [a, b, c, d]"
  unfolding enc32_def be32_def
  by (auto intro!: bit_word_eqI simp: bit_simps)

lemma unat_be16: "unat (be16 a b) = 256 * unat a + unat b"
proof -
  have "be16 a b = push_bit 8 (ucast a) + ucast b"
    unfolding be16_def
    by (rule disjunctive_add [symmetric]) (auto simp: bit_simps)
  moreover have "unat (push_bit 8 (ucast a) + ucast b :: u16) = 256 * unat a + unat b"
  proof -
    have "unat a * 256 + unat b < 65536"
      using u8_unat_less [of a] u8_unat_less [of b] by linarith
    then show ?thesis
      by (simp add: push_bit_eq_mult unat_word_ariths mult.commute)
  qed
  ultimately show ?thesis by simp
qed

text \<open>The two halves of a 32-bit field.\<close>

lemma be32_high: "ucast (drop_bit 16 (be32 a b c d)) = be16 a b"
  unfolding be32_def be16_def by (rule bit_word_eqI) (auto simp: bit_simps)

lemma be32_low: "be32 a b c d AND 0xFFFF = ucast (be16 c d)"
proof -
  have m: "(0xFFFF :: u32) = mask 16" by (simp add: mask_eq_exp_minus_1)
  show ?thesis
    unfolding be32_def be16_def m by (rule bit_word_eqI) (auto simp: bit_simps)
qed

lemma length_enc [simp]: "length (enc16 w) = 2" "length (enc32 v) = 4"
  by (simp_all add: enc16_def enc32_def)

section \<open>Bounds-checked reads and writes\<close>

lemma rd8_eq_Some [mem_simps]: "rd8 b i = Some x \<longleftrightarrow> i < length b \<and> x = b ! i"
  by (auto simp: rd8_def)

lemma rd8_eq_None [mem_simps]: "rd8 b i = None \<longleftrightarrow> length b \<le> i"
  by (auto simp: rd8_def)

lemma rd8_in [simp]: "i < length b \<Longrightarrow> rd8 b i = Some (b ! i)"
  by (simp add: rd8_def)

lemma rd16_in [simp]: "i + 2 \<le> length b \<Longrightarrow> rd16 b i = Some (be16 (b ! i) (b ! (i + 1)))"
  by (simp add: rd16_def)

lemma rd32_in [simp]:
  "i + 4 \<le> length b \<Longrightarrow> rd32 b i = Some (be32 (b ! i) (b ! (i + 1)) (b ! (i + 2)) (b ! (i + 3)))"
  by (simp add: rd32_def)

lemma rd16_eq_None [mem_simps]: "rd16 b i = None \<longleftrightarrow> length b < i + 2"
  by (auto simp: rd16_def rd8_def)

lemma rd32_eq_None [mem_simps]: "rd32 b i = None \<longleftrightarrow> length b < i + 4"
  by (auto simp: rd32_def rd8_def)

lemma rd_block_in [simp]: "off + n \<le> length b \<Longrightarrow> rd_block b off n = Some (take n (drop off b))"
  by (simp add: rd_block_def)

lemma rd_block_eq_None [mem_simps]: "rd_block b off n = None \<longleftrightarrow> length b < off + n"
  by (auto simp: rd_block_def)

lemma rd_block_length: "rd_block b off n = Some c \<Longrightarrow> length c = n"
  by (auto simp: rd_block_def split: if_splits)

lemma wr_block_length: "wr_block b off src = Some b' \<Longrightarrow> length b' = length b"
  by (auto simp: wr_block_def split: if_splits)

lemma wr_block_defined: "off + length src \<le> length b \<longleftrightarrow> (\<exists>b'. wr_block b off src = Some b')"
  by (simp add: wr_block_def)

text \<open>A read of what was just written, and a read beside it.\<close>

lemma rd_wr_same: "wr_block b off src = Some b' \<Longrightarrow> rd_block b' off (length src) = Some src"
  by (auto simp: wr_block_def rd_block_def split: if_splits)

lemma rd_wr_before:
  "wr_block b off src = Some b' \<Longrightarrow> i + n \<le> off \<Longrightarrow> rd_block b' i n = rd_block b i n"
  by (auto simp: wr_block_def rd_block_def drop_take split: if_splits)

lemma rd_wr_after:
  assumes "wr_block b off src = Some b'" and "off + length src \<le> i"
  shows "rd_block b' i n = rd_block b i n"
proof -
  have b': "b' = take off b @ src @ drop (off + length src) b" "off + length src \<le> length b"
    using assms(1) by (auto simp: wr_block_def split: if_splits)
  have "drop i b' = drop i b"
    using assms(2) b' by (simp add: min_def)
  moreover have "length b' = length b"
    using assms(1) by (rule wr_block_length)
  ultimately show ?thesis by (simp add: rd_block_def)
qed

lemma rd16_at: "length p = i \<Longrightarrow> rd16 (p @ enc16 w @ r) i = Some w"
  by (simp add: rd16_def rd8_def enc16_def nth_append)

lemma rd32_at: "length p = i \<Longrightarrow> rd32 (p @ enc32 w @ r) i = Some w"
  by (simp add: rd32_def rd8_def enc32_def nth_append)

lemma rd32_bytes: "length p = i \<Longrightarrow> rd32 (p @ [a, b, c, d] @ r) i = Some (be32 a b c d)"
  by (simp add: rd32_def rd8_def nth_append)

lemma rd_block_at: "length p = i \<Longrightarrow> length c = n \<Longrightarrow> rd_block (p @ c @ r) i n = Some c"
  by (simp add: rd_block_def)

section \<open>Fixed-width fields\<close>

text \<open>
  The contract between a field writer and its reader: the writer fills exactly
  \<open>width\<close> bytes and the reader gets the value back at any offset.
\<close>

locale field_codec =
  fixes enc :: "'a \<Rightarrow> bytes" and rd :: "bytes \<Rightarrow> nat \<Rightarrow> 'a option" and width :: nat
  assumes enc_width: "length (enc x) = width"
    and rd_enc: "rd (p @ enc x @ r) (length p) = Some x"
    and rd_bounds: "rd b i = None \<longleftrightarrow> length b < i + width"
begin

lemma enc_inj: "enc x = enc y \<Longrightarrow> x = y"
  using rd_enc [of "[]" x "[]"] rd_enc [of "[]" y "[]"] by simp

lemma rd_after_write:
  assumes "wr_block b off (enc x) = Some b'"
  shows "rd b' off = Some x"
proof -
  have "b' = take off b @ enc x @ drop (off + width) b" and le: "off + width \<le> length b"
    using assms by (auto simp: wr_block_def enc_width split: if_splits)
  with rd_enc [of "take off b" x "drop (off + width) b"] show ?thesis
    by simp
qed

lemma rd_defined: "i + width \<le> length b \<Longrightarrow> \<exists>x. rd b i = Some x"
  using rd_bounds [of b i] by auto

end

interpretation f16: field_codec enc16 rd16 2
  by unfold_locales (rule length_enc rd16_at [OF refl] rd16_eq_None)+

interpretation f32: field_codec enc32 rd32 4
  by unfold_locales (rule length_enc rd32_at [OF refl] rd32_eq_None)+

end
