(* ===== verification/Ortp_Mblk.thy ===== *)
theory Ortp_Mblk
  imports C_Prelude
begin

text \<open>
  oRTP's STREAMS-like message blocks: \<open>ortp/src/str_utils.c\<close> with the structures of
  \<open>ortp/include/ortp/str_utils.h\<close> and the reference-counted data blocks of
  \<open>ortp/src/dblk.cc\<close>.

  The memory is an explicit store: message blocks (\<open>mblk_t\<close>) and data blocks (\<open>dblk_t\<close>)
  are records at addresses, freed blocks leave the store, and an access through NULL or
  through a dangling pointer is \<open>None\<close>. A pointer into a data block (\<open>b_rptr\<close>, \<open>b_wptr\<close>)
  is its distance from \<open>db_base\<close>. Message sizes are below 2 to the 31, so the casts of
  the source between \<open>size_t\<close> and \<open>int\<close> are exact and sizes are natural numbers.
  Allocation never fails (\<open>ortp_malloc\<close> of the source is not checked either); the
  content of a fresh, uninitialised buffer is given by the arbitrary field \<open>junk\<close>.
\<close>

section \<open>The store\<close>

type_synonym ptr = nat

datatype freefn = FreeNone | FreeUser | FreeMsgbAllocator

record dblk =
  db_buf :: bytes
  db_freefn :: freefn
  db_ref :: int

record mblk =
  b_prev :: "ptr option"
  b_next :: "ptr option"
  b_cont :: "ptr option"
  b_datap :: "ptr option"
  b_rptr :: nat
  b_wptr :: nat
  reserved1 :: u32
  reserved2 :: u32
  mb_timestamp :: "int \<times> int"
  recv_addr :: bytes
  net_addr :: bytes
  net_addrlen :: nat
  ttl_or_hl :: u8

record mem =
  mblks :: "ptr \<Rightarrow> mblk option"
  dblks :: "ptr \<Rightarrow> dblk option"
  brk :: ptr
  junk :: "nat \<Rightarrow> u8"

definition upd_m :: "mem \<Rightarrow> ptr \<Rightarrow> (mblk \<Rightarrow> mblk) \<Rightarrow> mem option" where
  "upd_m s p f = do { m \<leftarrow> mblks s p; Some (s\<lparr>mblks := (mblks s)(p \<mapsto> f m)\<rparr>) }"

definition upd_d :: "mem \<Rightarrow> ptr \<Rightarrow> (dblk \<Rightarrow> dblk) \<Rightarrow> mem option" where
  "upd_d s p f = do { d \<leftarrow> dblks s p; Some (s\<lparr>dblks := (dblks s)(p \<mapsto> f d)\<rparr>) }"

section \<open>Data blocks\<close>

definition dblk_alloc :: "mem \<Rightarrow> nat \<Rightarrow> ptr \<times> mem" where
  "dblk_alloc s sz =
     (brk s, s\<lparr>dblks := (dblks s)(brk s \<mapsto>
                \<lparr>db_buf = map (junk s) [0..<sz], db_freefn = FreeNone, db_ref = 1\<rparr>),
               brk := Suc (brk s)\<rparr>)"

definition dblk_alloc2 :: "mem \<Rightarrow> bytes \<Rightarrow> freefn \<Rightarrow> ptr \<times> mem" where
  "dblk_alloc2 s buf fn =
     (brk s, s\<lparr>dblks := (dblks s)(brk s \<mapsto> \<lparr>db_buf = buf, db_freefn = fn, db_ref = 1\<rparr>),
               brk := Suc (brk s)\<rparr>)"

definition dblk_ref :: "mem \<Rightarrow> ptr \<Rightarrow> mem option" where
  "dblk_ref s d = upd_d s d (\<lambda>x. x\<lparr>db_ref := db_ref x + 1\<rparr>)"

definition dblk_unref :: "mem \<Rightarrow> ptr \<Rightarrow> mem option" where
  "dblk_unref s d = do {
     x \<leftarrow> dblks s d;
     if db_ref x = 1 then Some (s\<lparr>dblks := (dblks s)(d := None)\<rparr>)
     else upd_d s d (\<lambda>x. x\<lparr>db_ref := db_ref x - 1\<rparr>) }"

definition dblk_ref_value :: "mem \<Rightarrow> ptr \<Rightarrow> int option" where
  "dblk_ref_value s d = do { x \<leftarrow> dblks s d; Some (db_ref x) }"

section \<open>Message blocks\<close>

definition mblk_zero :: mblk where
  "mblk_zero = \<lparr>b_prev = None, b_next = None, b_cont = None, b_datap = None, b_rptr = 0,
     b_wptr = 0, reserved1 = 0, reserved2 = 0, mb_timestamp = (0, 0), recv_addr = [],
     net_addr = [], net_addrlen = 0, ttl_or_hl = 0\<rparr>"

definition mblk_init :: "mem \<Rightarrow> ptr \<Rightarrow> mem option" where
  "mblk_init s mp = upd_m s mp (\<lambda>_. mblk_zero)"

definition mblk_meta_copy :: "mblk \<Rightarrow> mblk \<Rightarrow> mblk" where
  "mblk_meta_copy source dest =
     dest\<lparr>reserved1 := reserved1 source, reserved2 := reserved2 source,
          net_addr := take (net_addrlen source) (net_addr source)
                        @ drop (net_addrlen source) (net_addr dest),
          net_addrlen := net_addrlen source,
          mb_timestamp := mb_timestamp source, ttl_or_hl := ttl_or_hl source\<rparr>"

definition new_mblk :: "mem \<Rightarrow> mblk \<Rightarrow> ptr \<times> mem" where
  "new_mblk s m = (brk s, s\<lparr>mblks := (mblks s)(brk s \<mapsto> m), brk := Suc (brk s)\<rparr>)"

definition allocb :: "mem \<Rightarrow> nat \<Rightarrow> ptr \<times> mem" where
  "allocb s sz =
     (let (mp, s) = new_mblk s mblk_zero;
          (d, s) = dblk_alloc s sz
      in (mp, s\<lparr>mblks := (mblks s)(mp \<mapsto> mblk_zero\<lparr>b_datap := Some d\<rparr>)\<rparr>))"

definition esballoc :: "mem \<Rightarrow> bytes \<Rightarrow> freefn \<Rightarrow> ptr \<times> mem" where
  "esballoc s buf fn =
     (let (mp, s) = new_mblk s mblk_zero;
          (d, s) = dblk_alloc2 s buf fn
      in (mp, s\<lparr>mblks := (mblks s)(mp \<mapsto> mblk_zero\<lparr>b_datap := Some d\<rparr>)\<rparr>))"

definition freeb :: "mem \<Rightarrow> ptr \<Rightarrow> mem option" where
  "freeb s mp = do {
     m \<leftarrow> mblks s mp;
     case b_datap m of
       None \<Rightarrow> Some s
     | Some d \<Rightarrow> do {
         s \<leftarrow> dblk_unref s d;
         Some (s\<lparr>mblks := (mblks s)(mp := None)\<rparr>) } }"

partial_function (option) freemsg :: "mem \<Rightarrow> ptr option \<Rightarrow> mem option" where
  "freemsg s mp =
     (case mp of
        None \<Rightarrow> Some s
      | Some tmp1 \<Rightarrow> do {
          m \<leftarrow> mblks s tmp1;
          s' \<leftarrow> freeb s tmp1;
          freemsg s' (b_cont m) })"

definition dupb :: "mem \<Rightarrow> ptr \<Rightarrow> (ptr option \<times> mem) option" where
  "dupb s mp = do {
     m \<leftarrow> mblks s mp;
     case b_datap m of
       None \<Rightarrow> Some (None, s)
     | Some d \<Rightarrow> do {
         s \<leftarrow> dblk_ref s d;
         let (newm, s) = new_mblk s
           ((mblk_meta_copy m mblk_zero)\<lparr>b_datap := Some d, b_rptr := b_rptr m, b_wptr := b_wptr m\<rparr>);
         Some (Some newm, s) } }"

partial_function (option) dupmsg_loop :: "mem \<Rightarrow> ptr option \<Rightarrow> ptr option \<Rightarrow> mem option" where
  "dupmsg_loop s prev m =
     (case m of
        None \<Rightarrow> Some s
      | Some mm \<Rightarrow> do {
          (mp, s) \<leftarrow> dupb s mm;
          pv \<leftarrow> prev;
          s \<leftarrow> upd_m s pv (\<lambda>x. x\<lparr>b_cont := mp\<rparr>);
          mb \<leftarrow> mblks s mm;
          dupmsg_loop s mp (b_cont mb) })"

definition dupmsg :: "mem \<Rightarrow> ptr \<Rightarrow> (ptr option \<times> mem) option" where
  "dupmsg s m = do {
     (newm, s) \<leftarrow> dupb s m;
     mb \<leftarrow> mblks s m;
     s \<leftarrow> dupmsg_loop s newm (b_cont mb);
     Some (newm, s) }"

section \<open>Message content\<close>

text \<open>The bytes between \<open>b_rptr\<close> and \<open>b_wptr\<close> of one block.\<close>

definition frag_bytes :: "mem \<Rightarrow> mblk \<Rightarrow> bytes option" where
  "frag_bytes s m = do {
     d \<leftarrow> b_datap m;
     x \<leftarrow> dblks s d;
     if b_rptr m \<le> b_wptr m then rd_block (db_buf x) (b_rptr m) (b_wptr m - b_rptr m) else None }"

partial_function (option) msgdsize_loop :: "mem \<Rightarrow> nat \<Rightarrow> ptr option \<Rightarrow> nat option" where
  "msgdsize_loop s msgsize mp =
     (case mp of
        None \<Rightarrow> Some msgsize
      | Some p \<Rightarrow> do {
          m \<leftarrow> mblks s p;
          msgdsize_loop s (msgsize + (b_wptr m - b_rptr m)) (b_cont m) })"

definition msgdsize :: "mem \<Rightarrow> ptr option \<Rightarrow> nat option" where
  "msgdsize s mp = msgdsize_loop s 0 mp"

definition size_max :: nat where
  "size_max = 2 ^ 64 - 1"

partial_function (option)
  msgpullup_loop :: "mem \<Rightarrow> bytes \<Rightarrow> nat \<Rightarrow> nat \<Rightarrow> ptr option \<Rightarrow> (bytes \<times> nat) option" where
  "msgpullup_loop s base wlen len mp =
     (if wlen < len then
        (case mp of
           None \<Rightarrow> Some (base, wlen)
         | Some p \<Rightarrow> do {
             m \<leftarrow> mblks s p;
             bs \<leftarrow> frag_bytes s m;
             let remain = len - wlen; mlen = b_wptr m - b_rptr m in
             if mlen \<le> remain then do {
               base' \<leftarrow> wr_block base wlen bs;
               msgpullup_loop s base' (wlen + mlen) len (b_cont m)
             } else do {
               base' \<leftarrow> wr_block base wlen (take remain bs);
               msgpullup_loop s base' (wlen + remain) len (Some p)
             } })
      else Some (base, wlen))"

text \<open>The end of both pull-up functions: the first block gets the new data block alone.\<close>

definition set_datab :: "mem \<Rightarrow> ptr \<Rightarrow> ptr \<Rightarrow> nat \<Rightarrow> mem option" where
  "set_datab s firstm db wlen = do {
     m \<leftarrow> mblks s firstm;
     s \<leftarrow> freemsg s (b_cont m);
     s \<leftarrow> upd_m s firstm (\<lambda>x. x\<lparr>b_cont := None\<rparr>);
     od \<leftarrow> b_datap m;
     s \<leftarrow> dblk_unref s od;
     upd_m s firstm (\<lambda>x. x\<lparr>b_datap := Some db, b_rptr := 0, b_wptr := wlen\<rparr>) }"

definition msgpullup :: "mem \<Rightarrow> ptr \<Rightarrow> nat \<Rightarrow> mem option" where
  "msgpullup s mp len = do {
     m \<leftarrow> mblks s mp;
     d \<leftarrow> b_datap m;
     x \<leftarrow> dblks s d;
     if b_cont m = None \<and> (len = size_max \<or> len \<le> length (db_buf x)) then Some s
     else do {
       len \<leftarrow> (if len = size_max then msgdsize s (Some mp) else Some len);
       let (db, s) = dblk_alloc s len;
       nd \<leftarrow> dblks s db;
       (base, wlen) \<leftarrow> msgpullup_loop s (db_buf nd) 0 len (Some mp);
       s \<leftarrow> upd_d s db (\<lambda>y. y\<lparr>db_buf := base\<rparr>);
       set_datab s mp db wlen } }"

partial_function (option)
  insert_loop :: "mem \<Rightarrow> bytes \<Rightarrow> nat \<Rightarrow> nat \<Rightarrow> nat \<Rightarrow> ptr option \<Rightarrow> (bytes \<times> nat) option" where
  "insert_loop s base wlen offset insert_size mp =
     (case mp of
        None \<Rightarrow> Some (base, wlen)
      | Some p \<Rightarrow> do {
          m \<leftarrow> mblks s p;
          bs \<leftarrow> frag_bytes s m;
          let mlen = b_wptr m - b_rptr m in
          if wlen + mlen \<le> offset \<or> wlen > offset then do {
            base \<leftarrow> wr_block base wlen bs;
            insert_loop s base (wlen + mlen) offset insert_size (b_cont m)
          } else do {
            base \<leftarrow> wr_block base wlen (take (offset - wlen) bs);
            base \<leftarrow> wr_block base offset (replicate insert_size 0);
            base \<leftarrow> wr_block base (offset + insert_size) (drop (offset - wlen) bs);
            insert_loop s base (wlen + (mlen + insert_size)) offset insert_size (b_cont m)
          } })"

definition msgpullup_with_insert :: "mem \<Rightarrow> ptr \<Rightarrow> nat \<Rightarrow> nat \<Rightarrow> mem option" where
  "msgpullup_with_insert s mp offset insert_size = do {
     len \<leftarrow> msgdsize s (Some mp);
     if offset \<ge> len then do {
       s \<leftarrow> msgpullup s mp (len + insert_size);
       upd_m s mp (\<lambda>x. x\<lparr>b_wptr := b_wptr x + (offset - len + insert_size)\<rparr>)
     } else do {
       let (db, s) = dblk_alloc s (len + insert_size);
       nd \<leftarrow> dblks s db;
       (base, wlen) \<leftarrow> insert_loop s (db_buf nd) 0 offset insert_size (Some mp);
       s \<leftarrow> upd_d s db (\<lambda>y. y\<lparr>db_buf := base\<rparr>);
       set_datab s mp db wlen } }"

text \<open>
  \<open>copyb\<close> copies \<open>recv_addr\<close> only; \<open>appendb\<close> pads to a multiple of four of the address of
  the write pointer, which here is \<open>base\<close> (the address of \<open>db_base\<close>, of which only the
  value modulo 4 matters) plus the offset.
\<close>

definition copyb :: "mem \<Rightarrow> ptr \<Rightarrow> (ptr \<times> mem) option" where
  "copyb s mp = do {
     m \<leftarrow> mblks s mp;
     bs \<leftarrow> frag_bytes s m;
     let (newm, s) = allocb s (length bs);
     n \<leftarrow> mblks s newm;
     d \<leftarrow> b_datap n;
     x \<leftarrow> dblks s d;
     buf \<leftarrow> wr_block (db_buf x) (b_wptr n) bs;
     s \<leftarrow> upd_d s d (\<lambda>y. y\<lparr>db_buf := buf\<rparr>);
     s \<leftarrow> upd_m s newm (\<lambda>y. y\<lparr>b_wptr := b_wptr y + length bs, recv_addr := recv_addr m\<rparr>);
     Some (newm, s) }"

partial_function (option) copymsg_loop :: "mem \<Rightarrow> ptr \<Rightarrow> ptr option \<Rightarrow> mem option" where
  "copymsg_loop s m mp =
     (case mp of
        None \<Rightarrow> Some s
      | Some p \<Rightarrow> do {
          (c, s) \<leftarrow> copyb s p;
          s \<leftarrow> upd_m s m (\<lambda>x. x\<lparr>b_cont := Some c\<rparr>);
          mb \<leftarrow> mblks s p;
          copymsg_loop s c (b_cont mb) })"

definition copymsg :: "mem \<Rightarrow> ptr \<Rightarrow> (ptr \<times> mem) option" where
  "copymsg s mp = do {
     (newm, s) \<leftarrow> copyb s mp;
     mb \<leftarrow> mblks s mp;
     s \<leftarrow> copymsg_loop s newm (b_cont mb);
     Some (newm, s) }"

definition appendb :: "(ptr \<Rightarrow> nat) \<Rightarrow> mem \<Rightarrow> ptr \<Rightarrow> bytes \<Rightarrow> bool \<Rightarrow> (ptr \<times> mem) option" where
  "appendb base_addr s mp data pad = do {
     m \<leftarrow> mblks s mp;
     d \<leftarrow> b_datap m;
     x \<leftarrow> dblks s d;
     let dsize = length data;
     let padcnt = (if pad then (4 - (base_addr d + b_wptr m + dsize) mod 4) mod 4 else 0);
     let lim = length (db_buf x);
     (mp, s) \<leftarrow>
       (if b_wptr m + dsize + padcnt > lim then do {
          let (c, s) = allocb s (max lim dsize);
          s \<leftarrow> upd_m s mp (\<lambda>y. y\<lparr>b_cont := Some c\<rparr>);
          Some (c, s)
        } else Some (mp, s));
     m \<leftarrow> mblks s mp;
     d \<leftarrow> b_datap m;
     x \<leftarrow> dblks s d;
     buf \<leftarrow> wr_block (db_buf x) (b_wptr m) (data @ replicate padcnt 0);
     s \<leftarrow> upd_d s d (\<lambda>y. y\<lparr>db_buf := buf\<rparr>);
     s \<leftarrow> upd_m s mp (\<lambda>y. y\<lparr>b_wptr := b_wptr y + dsize + padcnt\<rparr>);
     Some (mp, s) }"

partial_function (option) last_frag :: "mem \<Rightarrow> ptr \<Rightarrow> ptr option" where
  "last_frag s mp = do {
     m \<leftarrow> mblks s mp;
     case b_cont m of None \<Rightarrow> Some mp | Some c \<Rightarrow> last_frag s c }"

definition msgappend :: "(ptr \<Rightarrow> nat) \<Rightarrow> mem \<Rightarrow> ptr \<Rightarrow> bytes \<Rightarrow> bool \<Rightarrow> mem option" where
  "msgappend base_addr s mp data pad = do {
     l \<leftarrow> last_frag s mp;
     (_, s) \<leftarrow> appendb base_addr s l data pad;
     Some s }"

definition concatb :: "mem \<Rightarrow> ptr \<Rightarrow> ptr \<Rightarrow> (ptr \<times> mem) option" where
  "concatb s mp newm = do {
     l \<leftarrow> last_frag s mp;
     s \<leftarrow> upd_m s l (\<lambda>x. x\<lparr>b_cont := Some newm\<rparr>);
     n \<leftarrow> last_frag s newm;
     Some (n, s) }"

definition msgown :: "mem \<Rightarrow> ptr \<Rightarrow> mem option" where
  "msgown s mp = do {
     m \<leftarrow> mblks s mp;
     d \<leftarrow> b_datap m;
     x \<leftarrow> dblks s d;
     let single_owner_ref = (if db_freefn x = FreeMsgbAllocator then 2 else 1);
     r \<leftarrow> dblk_ref_value s d;
     if r > single_owner_ref then do {
       n \<leftarrow> msgdsize s (Some mp);
       msgpullup s mp n
     } else Some s }"

end
