(* ===== verification/Ortp_Mblk_Props.thy ===== *)
theory Ortp_Mblk_Props
  imports Ortp_Mblk
begin

text \<open>
  Correctness of the message block operations: reference counts are exact (no leak, no
  dangling data block), the loops over \<open>b_cont\<close> end, and the pull-up functions keep the
  bytes of the message.
\<close>

section \<open>Exact reference counts\<close>

definition owners :: "mem \<Rightarrow> ptr \<Rightarrow> ptr set" where
  "owners s d = {p. \<exists>m. mblks s p = Some m \<and> b_datap m = Some d}"

text \<open>
  A data block is live exactly when something refers to it, and its counter is the number
  of message blocks that point to it plus \<open>ext d\<close>, the references held by local variables.
\<close>

definition entry_ok :: "dblk option \<Rightarrow> ptr set \<Rightarrow> nat \<Rightarrow> bool" where
  "entry_ok x ow n =
     (case x of
        Some y \<Rightarrow> db_ref y = int (card ow + n) \<and> 0 < card ow + n
      | None \<Rightarrow> ow = {} \<and> n = 0)"

definition refs_ok :: "mem \<Rightarrow> (ptr \<Rightarrow> nat) \<Rightarrow> bool" where
  "refs_ok s ext \<longleftrightarrow>
     finite (dom (mblks s)) \<and> (\<forall>p. mblks s p \<noteq> None \<or> dblks s p \<noteq> None \<longrightarrow> p < brk s) \<and>
     (\<forall>d. entry_ok (dblks s d) (owners s d) (ext d))"

abbreviation no_ext :: "ptr \<Rightarrow> nat" where
  "no_ext \<equiv> \<lambda>_. 0"

lemma entry_ok_simps [simp]:
  "entry_ok None ow n \<longleftrightarrow> ow = {} \<and> n = 0"
  "entry_ok (Some y) ow n \<longleftrightarrow> db_ref y = int (card ow + n) \<and> 0 < card ow + n"
  by (simp_all add: entry_ok_def)

lemma entry_ok_cases:
  assumes "entry_ok x ow n"
  obtains (none) "x = None" "ow = {}" "n = 0"
    | (some) y where "x = Some y" "db_ref y = int (card ow + n)" "0 < card ow + n"
  using assms by (cases x) auto

lemma refs_okD:
  assumes "refs_ok s ext"
  shows "entry_ok (dblks s d) (owners s d) (ext d)" "finite (dom (mblks s))"
    "mblks s p = Some m \<Longrightarrow> p < brk s" "dblks s p = Some x \<Longrightarrow> p < brk s"
  using assms by (auto simp: refs_ok_def)

lemma refs_ok_fresh: "refs_ok s ext \<Longrightarrow> mblks s (brk s) = None \<and> dblks s (brk s) = None"
  by (metis refs_okD(3,4) less_irrefl option.exhaust)

lemma finite_owners: "refs_ok s ext \<Longrightarrow> finite (owners s d)"
  unfolding refs_ok_def owners_def
  by (rule finite_subset [of _ "dom (mblks s)"]) auto

lemma refs_ok_dblk:
  assumes "refs_ok s ext" and "mblks s p = Some m" and "b_datap m = Some d"
  obtains x where "dblks s d = Some x" "db_ref x = int (card (owners s d) + ext d)"
    "p \<in> owners s d"
proof -
  have "p \<in> owners s d" using assms(2,3) by (auto simp: owners_def)
  with refs_okD(1) [OF assms(1), of d] show ?thesis
    by (cases rule: entry_ok_cases) (use that in auto)
qed

lemma owners_upd_other:
  "b_datap m' = b_datap m \<Longrightarrow> mblks s p = Some m \<Longrightarrow>
   owners (s\<lparr>mblks := (mblks s)(p \<mapsto> m')\<rparr>) = owners s"
  by (auto simp: owners_def fun_eq_iff)

lemma owners_del:
  "owners (s\<lparr>mblks := (mblks s)(p := None)\<rparr>) d = owners s d - {p}"
  by (auto simp: owners_def split: if_splits)

lemma owners_dblks [simp]: "owners (s\<lparr>dblks := D\<rparr>) = owners s" "owners (s\<lparr>brk := b\<rparr>) = owners s"
  by (simp_all add: owners_def fun_eq_iff)

lemma refs_ok_upd_m:
  assumes ok: "refs_ok s ext" and "upd_m s p f = Some s'" and "\<And>m. b_datap (f m) = b_datap m"
  shows "refs_ok s' ext"
proof -
  obtain m where m: "mblks s p = Some m" and s': "s' = s\<lparr>mblks := (mblks s)(p \<mapsto> f m)\<rparr>"
    using assms(2) by (auto simp: upd_m_def bind_eq_Some_conv)
  have "owners s' = owners s"
    unfolding s' by (rule owners_upd_other [OF assms(3) m])
  then show ?thesis using ok m unfolding s' refs_ok_def by auto
qed

subsection \<open>Freeing\<close>

lemma dblk_unref_ok:
  assumes ok: "refs_ok s (ext(d := Suc n))"
  obtains s' where "dblk_unref s d = Some s'" "refs_ok s' (ext(d := n))" "mblks s' = mblks s"
    "brk s' = brk s" "junk s' = junk s"
    "\<And>e x. dblks s' e = Some x \<Longrightarrow> \<exists>y. dblks s e = Some y \<and> db_buf x = db_buf y"
proof -
  have e: "e \<noteq> d \<Longrightarrow> entry_ok (dblks s e) (owners s e) (ext e)" for e
    using refs_okD(1) [OF ok, of e] by simp
  obtain x where x: "dblks s d = Some x" and r: "db_ref x = int (card (owners s d) + Suc n)"
    using refs_okD(1) [OF ok, of d] by (cases rule: entry_ok_cases) auto
  show ?thesis
  proof (cases "db_ref x = 1")
    case True
    then have z: "card (owners s d) = 0" "n = 0" using r by auto
    then have "owners s d = {}" using finite_owners [OF ok, of d] by simp
    with e z ok have "refs_ok (s\<lparr>dblks := (dblks s)(d := None)\<rparr>) (ext(d := n))"
      by (simp add: refs_ok_def)
    with True x show ?thesis
      by (intro that [of "s\<lparr>dblks := (dblks s)(d := None)\<rparr>"])
        (auto simp: dblk_unref_def split: if_splits)
  next
    case False
    let ?s = "s\<lparr>dblks := (dblks s)(d \<mapsto> x\<lparr>db_ref := db_ref x - 1\<rparr>)\<rparr>"
    have z: "0 < card (owners s d) + n" using r False by auto
    with e ok r x have "refs_ok ?s (ext(d := n))"
      by (simp add: refs_ok_def)
    with False x show ?thesis
      by (intro that [of ?s]) (auto simp: dblk_unref_def upd_d_def split: if_splits)
  qed
qed

text \<open>Ownership moves between a message block and a local variable.\<close>

lemma refs_ok_take:
  assumes ok: "refs_ok s ext" and m: "mblks s p = Some m" and d: "b_datap m = Some d"
  shows "refs_ok (s\<lparr>mblks := (mblks s)(p := None)\<rparr>) (ext(d := Suc (ext d)))"
proof -
  let ?s = "s\<lparr>mblks := (mblks s)(p := None)\<rparr>"
  have other: "e \<noteq> d \<Longrightarrow> owners ?s e = owners s e" for e
    using m d by (auto simp: owners_def)
  obtain x where x: "dblks s d = Some x" "db_ref x = int (card (owners s d) + ext d)"
    and in_d: "p \<in> owners s d"
    by (rule refs_ok_dblk [OF ok m d])
  have card: "card (owners s d) = Suc (card (owners ?s d))"
    using card_Suc_Diff1 [OF finite_owners [OF ok] in_d] by (simp only: owners_del)
  have "entry_ok (dblks ?s e) (owners ?s e) ((ext(d := Suc (ext d))) e)" for e
  proof (cases "e = d")
    case True
    with x card show ?thesis by simp
  next
    case False
    with refs_okD(1) [OF ok, of e] other [of e] show ?thesis by simp
  qed
  moreover have "\<forall>q. mblks ?s q \<noteq> None \<or> dblks ?s q \<noteq> None \<longrightarrow> q < brk ?s"
    and "finite (dom (mblks ?s))"
    using ok by (auto simp: refs_ok_def)
  ultimately show ?thesis unfolding refs_ok_def by blast
qed

lemma refs_ok_give:
  assumes ok: "refs_ok s (ext(d := Suc n))" and p: "mblks s p = None" "p < brk s"
    and d: "b_datap m = Some d"
  shows "refs_ok (s\<lparr>mblks := (mblks s)(p \<mapsto> m)\<rparr>) (ext(d := n))"
proof -
  let ?s = "s\<lparr>mblks := (mblks s)(p \<mapsto> m)\<rparr>"
  have other: "e \<noteq> d \<Longrightarrow> owners ?s e = owners s e" for e
    using p d by (auto simp: owners_def)
  have "p \<notin> owners s d" and "owners ?s d = insert p (owners s d)"
    using p d by (auto simp: owners_def)
  then have card: "card (owners ?s d) = Suc (card (owners s d))"
    using finite_owners [OF ok, of d] by auto
  have "entry_ok (dblks ?s e) (owners ?s e) ((ext(d := n)) e)" for e
    using refs_okD(1) [OF ok, of e] other [of e] card
    by (cases "e = d") (auto elim!: entry_ok_cases)
  moreover have "\<forall>q. mblks ?s q \<noteq> None \<or> dblks ?s q \<noteq> None \<longrightarrow> q < brk ?s"
    and "finite (dom (mblks ?s))"
    using ok p(2) by (auto simp: refs_ok_def)
  ultimately show ?thesis unfolding refs_ok_def by blast
qed

lemma dblk_unref_mblks:
  "dblk_unref (s\<lparr>mblks := M\<rparr>) d = map_option (\<lambda>t. t\<lparr>mblks := M\<rparr>) (dblk_unref s d)"
  by (cases "dblks s d") (auto simp: dblk_unref_def upd_d_def)

text \<open>
  \<open>freeb\<close> gives back exactly one reference: the block leaves the store, every other
  message block stays as it is and keeps its data.
\<close>

lemma freeb_ok:
  assumes ok: "refs_ok s ext" and m: "mblks s p = Some m" and d: "b_datap m = Some d"
  obtains s' where "freeb s p = Some s'" "refs_ok s' ext" "mblks s' = (mblks s)(p := None)"
    "brk s' = brk s" "junk s' = junk s"
    "\<And>e x. dblks s' e = Some x \<Longrightarrow> \<exists>y. dblks s e = Some y \<and> db_buf x = db_buf y"
proof -
  let ?s = "s\<lparr>mblks := (mblks s)(p := None)\<rparr>"
  obtain t where t: "dblk_unref ?s d = Some t" "refs_ok t (ext(d := ext d))"
      "mblks t = mblks ?s" "brk t = brk ?s" "junk t = junk ?s"
      "\<And>e x. dblks t e = Some x \<Longrightarrow> \<exists>y. dblks ?s e = Some y \<and> db_buf x = db_buf y"
    using dblk_unref_ok [OF refs_ok_take [OF ok m d]] by blast
  obtain u where u: "dblk_unref s d = Some u" "t = u\<lparr>mblks := (mblks s)(p := None)\<rparr>"
    using t(1) by (auto simp: dblk_unref_mblks)
  have "mblks u = mblks s"
    using u(1) by (auto simp: dblk_unref_def upd_d_def bind_eq_Some_conv split: if_splits)
  then have "freeb s p = Some t"
    using m d u by (simp add: freeb_def)
  with t show ?thesis by (intro that [of t]) auto
qed

section \<open>Fragmented messages\<close>

primrec chain :: "mem \<Rightarrow> ptr option \<Rightarrow> ptr list \<Rightarrow> bool" where
  "chain s mp [] \<longleftrightarrow> mp = None"
| "chain s mp (p # ps) \<longleftrightarrow> mp = Some p \<and> (\<exists>m. mblks s p = Some m \<and> chain s (b_cont m) ps)"

primrec msg_bytes :: "mem \<Rightarrow> ptr list \<Rightarrow> bytes option" where
  "msg_bytes s [] = Some []"
| "msg_bytes s (p # ps) = do {
     m \<leftarrow> mblks s p; b \<leftarrow> frag_bytes s m; r \<leftarrow> msg_bytes s ps; Some (b @ r) }"

lemma chain_cong:
  "(\<And>q. q \<in> set ps \<Longrightarrow> mblks s' q = mblks s q) \<Longrightarrow> chain s' mp ps = chain s mp ps"
  by (induction ps arbitrary: mp) auto

lemma chain_unique: "chain s mp xs \<Longrightarrow> chain s mp ys \<Longrightarrow> xs = ys"
proof (induction xs arbitrary: mp ys)
  case Nil
  then show ?case by (cases ys) auto
next
  case (Cons x xs)
  then show ?case by (cases ys) auto
qed

lemma chain_suffix: "chain s mp (xs @ p # ys) \<Longrightarrow> chain s (Some p) (p # ys)"
  by (induction xs arbitrary: mp) auto

lemma chain_distinct: "chain s mp ps \<Longrightarrow> distinct ps"
proof (induction ps arbitrary: mp)
  case (Cons p ps)
  have "p \<notin> set ps"
  proof
    assume "p \<in> set ps"
    then obtain xs ys where ps: "ps = xs @ p # ys" by (meson split_list)
    with Cons.prems have "chain s mp ((p # xs) @ p # ys)" by simp
    then have "chain s (Some p) (p # ys)" by (rule chain_suffix)
    moreover have "chain s (Some p) (p # ps)" using Cons.prems by simp
    ultimately have "p # ps = p # ys" using chain_unique by blast
    with ps show False by simp
  qed
  with Cons show ?case by auto
qed simp

lemma msg_bytes_cong:
  assumes "\<And>q. q \<in> set ps \<Longrightarrow> mblks s' q = mblks s q"
    and "\<And>q m. q \<in> set ps \<Longrightarrow> mblks s q = Some m \<Longrightarrow> frag_bytes s' m = frag_bytes s m"
  shows "msg_bytes s' ps = msg_bytes s ps"
  using assms
proof (induction ps)
  case (Cons p ps)
  have "msg_bytes s' ps = msg_bytes s ps"
    by (rule Cons.IH) (use Cons.prems in auto)
  then show ?case
    using Cons.prems(1) [of p] Cons.prems(2) [of p] by (cases "mblks s p") auto
qed simp

lemma msg_bytes_datap:
  "msg_bytes s ps = Some bs \<Longrightarrow> p \<in> set ps \<Longrightarrow> \<exists>m d. mblks s p = Some m \<and> b_datap m = Some d"
  by (induction ps arbitrary: bs) (auto simp: bind_eq_Some_conv frag_bytes_def)

lemma msg_bytes_frag:
  "msg_bytes s ps = Some bs \<Longrightarrow> p \<in> set ps \<Longrightarrow> mblks s p = Some m \<Longrightarrow> \<exists>b. frag_bytes s m = Some b"
  by (induction ps arbitrary: bs) (auto simp: bind_eq_Some_conv)

lemma frag_bytes_length: "frag_bytes s m = Some b \<Longrightarrow> length b = b_wptr m - b_rptr m"
  by (auto simp: frag_bytes_def bind_eq_Some_conv rd_block_def split: if_splits)

lemma msgdsize_loop_ok:
  "chain s mp ps \<Longrightarrow> msg_bytes s ps = Some bs \<Longrightarrow>
   msgdsize_loop s n mp = Some (n + length bs)"
proof (induction ps arbitrary: mp bs n)
  case Nil
  then show ?case by (simp add: msgdsize_loop.simps)
next
  case (Cons p ps)
  then obtain m b r where "mp = Some p" "mblks s p = Some m" "chain s (b_cont m) ps"
    "frag_bytes s m = Some b" "msg_bytes s ps = Some r" "bs = b @ r"
    by (auto simp: bind_eq_Some_conv)
  with Cons.IH show ?case
    by (simp add: msgdsize_loop.simps [of s n] frag_bytes_length add.assoc)
qed

lemma msgdsize_ok:
  "chain s mp ps \<Longrightarrow> msg_bytes s ps = Some bs \<Longrightarrow> msgdsize s mp = Some (length bs)"
  by (simp add: msgdsize_def msgdsize_loop_ok)

text \<open>\<open>freemsg\<close> ends on every NULL-terminated chain and frees exactly its blocks.\<close>

lemma freemsg_ok:
  assumes "refs_ok s ext" and "chain s mp ps"
    and "\<And>p. p \<in> set ps \<Longrightarrow> \<exists>m d. mblks s p = Some m \<and> b_datap m = Some d"
  shows "\<exists>s'. freemsg s mp = Some s' \<and> refs_ok s' ext \<and>
    mblks s' = (\<lambda>q. if q \<in> set ps then None else mblks s q) \<and> brk s' = brk s \<and> junk s' = junk s \<and>
    (\<forall>e x. dblks s' e = Some x \<longrightarrow> (\<exists>y. dblks s e = Some y \<and> db_buf x = db_buf y))"
  using assms
proof (induction ps arbitrary: s mp)
  case Nil
  then show ?case by (simp add: freemsg.simps)
next
  case (Cons p ps)
  obtain m where m: "mp = Some p" "mblks s p = Some m" "chain s (b_cont m) ps"
    using Cons.prems(2) by auto
  obtain d where d: "b_datap m = Some d" using Cons.prems(3) [of p] m by auto
  have pn: "p \<notin> set ps" using chain_distinct [OF Cons.prems(2)] by simp
  obtain t where t: "freeb s p = Some t" "refs_ok t ext" "mblks t = (mblks s)(p := None)"
      "brk t = brk s" "junk t = junk s"
      "\<And>e x. dblks t e = Some x \<Longrightarrow> \<exists>y. dblks s e = Some y \<and> db_buf x = db_buf y"
    using freeb_ok [OF Cons.prems(1) m(2) d] by blast
  have "mblks t q = mblks s q" if "q \<in> set ps" for q
    using that pn t(3) by auto
  then have "chain t (b_cont m) ps"
    using m(3) by (simp cong: chain_cong)
  moreover have "\<exists>m d. mblks t q = Some m \<and> b_datap m = Some d" if "q \<in> set ps" for q
    using Cons.prems(3) [of q] that pn t(3) by auto
  ultimately obtain u where u: "freemsg t (b_cont m) = Some u" "refs_ok u ext"
      "mblks u = (\<lambda>q. if q \<in> set ps then None else mblks t q)" "brk u = brk t" "junk u = junk t"
      "\<forall>e x. dblks u e = Some x \<longrightarrow> (\<exists>y. dblks t e = Some y \<and> db_buf x = db_buf y)"
    using Cons.IH [OF t(2)] by blast
  have "freemsg s mp = Some u"
    using m t(1) u(1) by (simp add: freemsg.simps [of s])
  moreover have "mblks u = (\<lambda>q. if q \<in> set (p # ps) then None else mblks s q)"
    using u(3) t(3) by (auto simp: fun_eq_iff)
  moreover have "\<exists>y. dblks s e = Some y \<and> db_buf x = db_buf y" if "dblks u e = Some x" for e x
    using u(6) t(6) that by metis
  ultimately show ?case using u(2,4,5) t(4,5) by auto
qed

section \<open>Pull-up\<close>

lemma msgpullup_loop_ok:
  assumes "chain s mp ps" and "msg_bytes s ps = Some bs" and "wlen \<le> len" and "length base = len"
  shows "msgpullup_loop s base wlen len mp =
    Some (take wlen base @ take (len - wlen) bs @ drop (wlen + length bs) base,
          wlen + min (len - wlen) (length bs))"
  using assms
proof (induction ps arbitrary: mp bs wlen base)
  case Nil
  then show ?case by (simp add: msgpullup_loop.simps)
next
  case (Cons p ps)
  then obtain m b r where m: "mp = Some p" "mblks s p = Some m" "chain s (b_cont m) ps"
    "frag_bytes s m = Some b" "msg_bytes s ps = Some r" "bs = b @ r"
    by (auto simp: bind_eq_Some_conv)
  have lb: "b_wptr m - b_rptr m = length b" using frag_bytes_length [OF m(4)] by simp
  show ?case
  proof (cases "wlen < len")
    case False
    with Cons.prems(3,4) show ?thesis
      by (subst msgpullup_loop.simps) simp
  next
    case w: True
    show ?thesis
    proof (cases "length b \<le> len - wlen")
      case True
      let ?base = "take wlen base @ b @ drop (wlen + length b) base"
      have wb: "wr_block base wlen b = Some ?base" and lenb: "length ?base = len"
        using True w Cons.prems(4) by (auto simp: wr_block_def)
      have "msgpullup_loop s base wlen len mp
          = msgpullup_loop s ?base (wlen + length b) len (b_cont m)"
        using m w True wb by (simp add: msgpullup_loop.simps [of s base wlen] lb)
      also have "\<dots> = Some (take (wlen + length b) ?base @ take (len - (wlen + length b)) r @
            drop (wlen + length b + length r) ?base,
          wlen + length b + min (len - (wlen + length b)) (length r))"
        by (rule Cons.IH [OF m(3,5) _ lenb]) (use True w in simp)
      finally show ?thesis
        using True w m(6) Cons.prems(4)
        by (auto simp: min_def ac_simps)
    next
      case False
      let ?b = "take (len - wlen) b"
      let ?base = "take wlen base @ ?b @ drop (wlen + length ?b) base"
      have wb: "wr_block base wlen ?b = Some ?base"
        using False w Cons.prems(4) by (simp add: wr_block_def)
      have "msgpullup_loop s base wlen len mp = msgpullup_loop s ?base len len (Some p)"
        using m w False wb by (simp add: msgpullup_loop.simps [of s base wlen] lb)
      also have "\<dots> = Some (?base, len)"
        by (simp add: msgpullup_loop.simps)
      finally show ?thesis
        using False w m(6) Cons.prems(4) by simp
    qed
  qed
qed

lemma set_datab_ok:
  assumes ok: "refs_ok s (ext(db := Suc (ext db)))"
    and m: "mblks s mp = Some m" and c: "chain s (b_cont m) ps" "mp \<notin> set ps"
    and od: "b_datap m = Some od" "od \<noteq> db"
    and data: "\<And>p. p \<in> set ps \<Longrightarrow> \<exists>m d. mblks s p = Some m \<and> b_datap m = Some d"
    and nd: "dblks s db = Some nd"
  shows "\<exists>s' nd'. set_datab s mp db wlen = Some s' \<and> refs_ok s' ext \<and>
    mblks s' = (\<lambda>q. if q \<in> set ps then None else mblks s q)
      (mp \<mapsto> m\<lparr>b_cont := None, b_datap := Some db, b_rptr := 0, b_wptr := wlen\<rparr>) \<and>
    dblks s' db = Some nd' \<and> db_buf nd' = db_buf nd"
proof -
  let ?e = "ext(db := Suc (ext db))"
  obtain s1 where s1: "freemsg s (b_cont m) = Some s1" "refs_ok s1 ?e"
      "mblks s1 = (\<lambda>q. if q \<in> set ps then None else mblks s q)"
      "\<forall>e x. dblks s1 e = Some x \<longrightarrow> (\<exists>y. dblks s e = Some y \<and> db_buf x = db_buf y)"
    using freemsg_ok [OF ok c(1) data] by blast
  let ?m2 = "m\<lparr>b_cont := None\<rparr>"
  let ?s2 = "s1\<lparr>mblks := (mblks s1)(mp \<mapsto> ?m2)\<rparr>"
  have m1: "mblks s1 mp = Some m" using s1(3) c(2) m by simp
  then have u2: "upd_m s1 mp (\<lambda>x. x\<lparr>b_cont := None\<rparr>) = Some ?s2" by (simp add: upd_m_def)
  have ok2: "refs_ok ?s2 ?e" by (rule refs_ok_upd_m [OF s1(2) u2]) simp
  let ?t = "?s2\<lparr>mblks := (mblks ?s2)(mp := None)\<rparr>"
  have okt: "refs_ok ?t (?e(od := Suc (?e od)))"
    by (rule refs_ok_take [OF ok2, of mp ?m2]) (simp_all add: od)
  obtain t' where t': "dblk_unref ?t od = Some t'" "refs_ok t' (?e(od := ?e od))"
      "mblks t' = mblks ?t" "brk t' = brk ?t"
      "\<And>e x. dblks t' e = Some x \<Longrightarrow> \<exists>y. dblks ?t e = Some y \<and> db_buf x = db_buf y"
    using dblk_unref_ok [OF okt] by blast
  obtain u where u: "dblk_unref ?s2 od = Some u" "t' = u\<lparr>mblks := (mblks ?s2)(mp := None)\<rparr>"
    using t'(1) dblk_unref_mblks [where s = ?s2 and M = "(mblks ?s2)(mp := None)"] by auto
  have mu: "mblks u = mblks ?s2"
    using u(1) by (auto simp: dblk_unref_def upd_d_def bind_eq_Some_conv split: if_splits)
  let ?m3 = "?m2\<lparr>b_datap := Some db, b_rptr := 0, b_wptr := wlen\<rparr>"
  let ?s3 = "u\<lparr>mblks := (mblks u)(mp \<mapsto> ?m3)\<rparr>"
  have run: "set_datab s mp db wlen = Some ?s3"
    using m m1 s1(1) u(1) mu od by (simp add: set_datab_def upd_m_def)
  have "mp < brk t'"
    using refs_okD(3) [OF s1(2) m1] t'(4) by simp
  moreover have "refs_ok t' ?e" using t'(2) by (simp only: fun_upd_triv)
  ultimately have "refs_ok (t'\<lparr>mblks := (mblks t')(mp \<mapsto> ?m3)\<rparr>) (ext(db := ext db))"
    using t'(3) by (intro refs_ok_give) simp_all
  moreover have "t'\<lparr>mblks := (mblks t')(mp \<mapsto> ?m3)\<rparr> = ?s3"
    using u(2) mu by simp
  ultimately have "refs_ok ?s3 ext" by simp
  moreover from this obtain nd' where nd': "dblks ?s3 db = Some nd'"
    by (rule refs_ok_dblk [of ?s3 ext mp ?m3 db]) auto
  moreover have "db_buf nd' = db_buf nd"
    using nd' t'(5) [of db nd'] s1(4) u(2) nd by force
  ultimately show ?thesis using run mu s1(3) by (auto simp: fun_eq_iff)
qed

lemma dblk_alloc_ok:
  assumes ok: "refs_ok s ext" and a: "dblk_alloc s n = (db, s')"
  shows "refs_ok s' (ext(db := Suc (ext db)))" and "mblks s' = mblks s" and "db = brk s"
    and "\<exists>x. dblks s' db = Some x \<and> length (db_buf x) = n"
    and "e \<noteq> db \<Longrightarrow> dblks s' e = dblks s e"
proof -
  have f: "dblks s (brk s) = None" "mblks s (brk s) = None" using refs_ok_fresh [OF ok] by auto
  have z: "owners s (brk s) = {}" "ext (brk s) = 0"
    using refs_okD(1) [OF ok, of "brk s"] f by auto
  have s': "db = brk s" "s' = s\<lparr>dblks := (dblks s)(brk s \<mapsto>
      \<lparr>db_buf = map (junk s) [0..<n], db_freefn = FreeNone, db_ref = 1\<rparr>), brk := Suc (brk s)\<rparr>"
    using a by (auto simp: dblk_alloc_def)
  have "entry_ok (dblks s' e) (owners s' e) ((ext(db := Suc (ext db))) e)" for e
    using refs_okD(1) [OF ok, of e] z unfolding s' by (cases "e = brk s") auto
  moreover have "\<forall>p. mblks s' p \<noteq> None \<or> dblks s' p \<noteq> None \<longrightarrow> p < brk s'"
    using refs_okD(3,4) [OF ok] by (auto simp: s' less_Suc_eq)
  ultimately show "refs_ok s' (ext(db := Suc (ext db)))"
    using refs_okD(2) [OF ok] unfolding refs_ok_def by (simp add: s')
  show "mblks s' = mblks s" "db = brk s" "\<exists>x. dblks s' db = Some x \<and> length (db_buf x) = n"
    and "e \<noteq> db \<Longrightarrow> dblks s' e = dblks s e"
    by (simp_all add: s')
qed

lemma frag_bytes_b_cont [simp]: "frag_bytes s (m\<lparr>b_cont := c\<rparr>) = frag_bytes s m"
  by (simp add: frag_bytes_def cong: if_cong)

lemma frag_bytes_other:
  "(\<And>d. b_datap m = Some d \<Longrightarrow> dblks s' d = dblks s d) \<Longrightarrow> frag_bytes s' m = frag_bytes s m"
  by (cases "b_datap m") (auto simp: frag_bytes_def)

lemma refs_ok_upd_d:
  assumes ok: "refs_ok s ext" and x: "dblks s d = Some x" and r: "db_ref y = db_ref x"
  shows "refs_ok (s\<lparr>dblks := (dblks s)(d \<mapsto> y)\<rparr>) ext"
proof -
  let ?s = "s\<lparr>dblks := (dblks s)(d \<mapsto> y)\<rparr>"
  have "entry_ok (dblks ?s e) (owners ?s e) (ext e)" for e
    using refs_okD(1) [OF ok, of e] x r by (cases "e = d") auto
  then show ?thesis using ok x unfolding refs_ok_def by auto
qed

text \<open>
  What the two pull-up functions share: the message is copied into a new data block of
  \<open>n\<close> bytes, the copy \<open>f\<close> yields the new content and its length, and the first message
  block ends up alone with it.
\<close>

lemma pullup_copy_ok:
  assumes ok: "refs_ok s ext" and m: "mblks s mp = Some m" and c: "chain s (b_cont m) ps"
    and bytes: "msg_bytes s (mp # ps) = Some bs"
    and a: "dblk_alloc s n = (db, s1)" and nd: "dblks s1 db = Some nd" and "w \<le> length base"
  shows "\<exists>s' m'. set_datab (s1\<lparr>dblks := (dblks s1)(db \<mapsto> nd\<lparr>db_buf := base\<rparr>)\<rparr>) mp db w = Some s' \<and>
    refs_ok s' ext \<and> mblks s' mp = Some m' \<and> b_cont m' = None \<and>
    msg_bytes s' [mp] = Some (take w base) \<and>
    (\<forall>q. q \<notin> set (mp # ps) \<longrightarrow> mblks s' q = mblks s q) \<and> (\<forall>q \<in> set ps. mblks s' q = None)"
proof -
  let ?s2 = "s1\<lparr>dblks := (dblks s1)(db \<mapsto> nd\<lparr>db_buf := base\<rparr>)\<rparr>"
  note al = dblk_alloc_ok [OF ok a]
  have ok2: "refs_ok ?s2 (ext(db := Suc (ext db)))"
    by (rule refs_ok_upd_d [OF al(1) nd]) simp
  obtain od where od: "b_datap m = Some od"
    using msg_bytes_datap [OF bytes, of mp] m by auto
  have odb: "od \<noteq> db"
    using refs_ok_dblk [OF ok m od] refs_ok_fresh [OF ok] al(3) by (metis option.distinct(1))
  have np: "mp \<notin> set ps"
    using chain_distinct [of s "Some mp" "mp # ps"] m c by simp
  have "\<exists>s' nd'. set_datab ?s2 mp db w = Some s' \<and> refs_ok s' ext \<and>
    mblks s' = (\<lambda>q. if q \<in> set ps then None else mblks ?s2 q)
      (mp \<mapsto> m\<lparr>b_cont := None, b_datap := Some db, b_rptr := 0, b_wptr := w\<rparr>) \<and>
    dblks s' db = Some nd' \<and> db_buf nd' = db_buf (nd\<lparr>db_buf := base\<rparr>)"
  proof (rule set_datab_ok [OF ok2])
    show "mblks ?s2 mp = Some m" using m al(2) by simp
    show "chain ?s2 (b_cont m) ps" using c al(2) by (simp cong: chain_cong)
    show "\<exists>m d. mblks ?s2 p = Some m \<and> b_datap m = Some d" if "p \<in> set ps" for p
      using msg_bytes_datap [OF bytes, of p] that al(2) by simp
  qed (use np od odb in simp_all)
  with al(2) np assms(7) show ?thesis
    by (auto simp: frag_bytes_def)
qed

lemma insert_loop_after:
  assumes "chain s mp ps" and "msg_bytes s ps = Some bs" and "offset < wlen"
    and "length base = wlen + length bs"
  shows "insert_loop s base wlen offset ins mp = Some (take wlen base @ bs, wlen + length bs)"
  using assms
proof (induction ps arbitrary: mp bs wlen base)
  case Nil
  then show ?case by (simp add: insert_loop.simps)
next
  case (Cons p ps)
  then obtain m b r where m: "mp = Some p" "mblks s p = Some m" "chain s (b_cont m) ps"
    "frag_bytes s m = Some b" "msg_bytes s ps = Some r" "bs = b @ r"
    by (auto simp: bind_eq_Some_conv)
  let ?base = "take wlen base @ b @ drop (wlen + length b) base"
  have wb: "wr_block base wlen b = Some ?base"
    using Cons.prems(4) m(6) by (simp add: wr_block_def)
  have "insert_loop s base wlen offset ins mp
      = insert_loop s ?base (wlen + length b) offset ins (b_cont m)"
    using m wb Cons.prems(3) frag_bytes_length [OF m(4)]
    by (simp add: insert_loop.simps [of s base wlen])
  also have "\<dots> = Some (take (wlen + length b) ?base @ r, wlen + length b + length r)"
    by (rule Cons.IH [OF m(3,5)]) (use Cons.prems(3,4) m(6) in auto)
  finally show ?case using m(6) Cons.prems(4) by simp
qed

lemma insert_loop_before:
  assumes "chain s mp ps" and "msg_bytes s ps = Some bs" and "wlen \<le> offset"
    and "offset < wlen + length bs" and "length base = wlen + length bs + ins"
  shows "insert_loop s base wlen offset ins mp =
    Some (take wlen base @ take (offset - wlen) bs @ replicate ins 0 @ drop (offset - wlen) bs,
          wlen + length bs + ins)"
  using assms
proof (induction ps arbitrary: mp bs wlen base)
  case (Cons p ps)
  then obtain m b r where m: "mp = Some p" "mblks s p = Some m" "chain s (b_cont m) ps"
    "frag_bytes s m = Some b" "msg_bytes s ps = Some r" "bs = b @ r"
    by (auto simp: bind_eq_Some_conv)
  note lb = frag_bytes_length [OF m(4)]
  show ?case
  proof (cases "wlen + length b \<le> offset")
    case True
    let ?base = "take wlen base @ b @ drop (wlen + length b) base"
    have wb: "wr_block base wlen b = Some ?base"
      using Cons.prems(5) m(6) by (simp add: wr_block_def)
    have "insert_loop s base wlen offset ins mp
        = insert_loop s ?base (wlen + length b) offset ins (b_cont m)"
      using m wb True lb by (simp add: insert_loop.simps [of s base wlen])
    also have "\<dots> = Some (take (wlen + length b) ?base @ take (offset - (wlen + length b)) r @
        replicate ins 0 @ drop (offset - (wlen + length b)) r, wlen + length b + length r + ins)"
      by (rule Cons.IH [OF m(3,5)]) (use True Cons.prems(4,5) m(6) in auto)
    finally show ?thesis using m(6) Cons.prems(5) True by simp
  next
    case False
    let ?k = "offset - wlen"
    define b1 where "b1 = take wlen base @ take ?k b @ drop (wlen + ?k) base"
    define b2 where "b2 = take offset b1 @ replicate ins 0 @ drop (offset + ins) b1"
    define b3 where "b3 = take (offset + ins) b2 @ drop ?k b @ drop (wlen + ins + length b) b2"
    have k: "?k < length b" "wlen + ?k = offset" using False Cons.prems(3) by auto
    have l1: "length b1 = length base" using k Cons.prems(5) m(6) by (simp add: b1_def)
    have l2: "length b2 = length base" using k Cons.prems(5) m(6) l1 by (simp add: b2_def)
    have w1: "wr_block base wlen (take ?k b) = Some b1"
      using k Cons.prems(5) m(6) by (simp add: wr_block_def b1_def)
    have w2: "wr_block b1 offset (replicate ins 0) = Some b2"
      using k l1 Cons.prems(5) m(6) by (simp add: wr_block_def b2_def)
    have w3: "wr_block b2 (offset + ins) (drop ?k b) = Some b3"
      using k l2 Cons.prems(5) m(6) by (simp add: wr_block_def b3_def ac_simps)
    have p3: "take (wlen + length b + ins) b3
        = take wlen base @ take ?k b @ replicate ins 0 @ drop ?k b"
      using k Cons.prems(5) m(6) l2 l1 by (simp add: b3_def b2_def b1_def)
    have l3: "length b3 = wlen + length b + ins + length r"
      using k l2 Cons.prems(5) m(6) by (simp add: b3_def)
    have "insert_loop s base wlen offset ins mp
        = insert_loop s b3 (wlen + length b + ins) offset ins (b_cont m)"
      using m w1 w2 w3 False Cons.prems(3)
      by (simp add: insert_loop.simps [of s base wlen] lb [symmetric] add.assoc)
    also have "\<dots> = Some (take (wlen + length b + ins) b3 @ r, wlen + length b + ins + length r)"
      by (rule insert_loop_after [OF m(3,5)]) (use False l3 in auto)
    finally show ?thesis using m(6) k p3 by simp
  qed
qed simp

section \<open>Duplicating a message\<close>

text \<open>The copy \<open>c\<close> of a block is linked behind \<open>pv\<close>; the rest of the message is as before.\<close>

lemma link_clone_ok:
  assumes ok: "refs_ok s1 ext" and m1: "mblks s1 = (mblks s)(c \<mapsto> n)" and x: "mblks s pv = Some x"
    and dist: "pv \<notin> set ps" "c \<notin> set ps" "c \<noteq> pv"
    and rest: "chain s mq ps" "msg_bytes s ps = Some r"
    and fr: "\<forall>m' b'. frag_bytes s m' = Some b' \<longrightarrow> frag_bytes s1 m' = Some b'"
    and s2: "s2 = s1\<lparr>mblks := (mblks s1)(pv \<mapsto> x\<lparr>b_cont := Some c\<rparr>)\<rparr>"
  shows "upd_m s1 pv (\<lambda>x. x\<lparr>b_cont := Some c\<rparr>) = Some s2" "refs_ok s2 ext" "frag_bytes s2 = frag_bytes s1"
    "chain s2 mq ps" "msg_bytes s2 ps = Some r"
proof -
  show u: "upd_m s1 pv (\<lambda>x. x\<lparr>b_cont := Some c\<rparr>) = Some s2" using m1 x dist by (simp add: upd_m_def s2)
  show "refs_ok s2 ext" by (rule refs_ok_upd_m [OF ok u]) simp
  show fb: "frag_bytes s2 = frag_bytes s1" by (simp add: s2 frag_bytes_def fun_eq_iff)
  have same: "mblks s2 q = mblks s q" if "q \<in> set ps" for q using that m1 dist by (auto simp: s2)
  then show "chain s2 mq ps" using rest(1) chain_cong [of ps s2 s mq] by metis
  have "frag_bytes s2 m' = frag_bytes s m'" if "q \<in> set ps" "mblks s q = Some m'" for q m'
    using msg_bytes_frag [OF rest(2) that] fr fb by auto
  then show "msg_bytes s2 ps = Some r" using msg_bytes_cong [of ps s2 s] same rest(2) by metis
qed

text \<open>
  \<open>dupmsg\<close> and \<open>copymsg\<close> have the same shape: clone the first block, then walk the chain,
  clone each block and hang it after the previous clone. They differ in what a clone is
  (a reference to the same data block, or a copy of the bytes). The contract of one clone
  and of the walk is the following interface; its client lemma is the correctness of the
  whole duplication.
\<close>

locale msg_clone =
  fixes clone :: "mem \<Rightarrow> ptr \<Rightarrow> (ptr \<times> mem) option"
    and walk :: "mem \<Rightarrow> ptr \<Rightarrow> ptr option \<Rightarrow> mem option"
    and deep :: bool
  assumes clone_law:
      "refs_ok s ext \<Longrightarrow> mblks s p = Some m \<Longrightarrow> frag_bytes s m = Some b \<Longrightarrow>
       \<exists>c s' n. clone s p = Some (c, s') \<and> refs_ok s' ext \<and> mblks s c = None \<and>
         mblks s' = (mblks s)(c \<mapsto> n) \<and> b_cont n = None \<and> frag_bytes s' n = Some b \<and>
         (\<forall>m' b'. frag_bytes s m' = Some b' \<longrightarrow> frag_bytes s' m' = Some b') \<and>
         dom (dblks s) \<subseteq> dom (dblks s') \<and> (deep \<longrightarrow> (\<forall>d. b_datap n = Some d \<longrightarrow> dblks s d = None))"
    and walk_end: "walk s pv None = Some s"
    and walk_step:
      "clone s p = Some (c, s1) \<Longrightarrow> upd_m s1 pv (\<lambda>x. x\<lparr>b_cont := Some c\<rparr>) = Some s2 \<Longrightarrow>
       mblks s2 p = Some mb \<Longrightarrow> walk s pv (Some p) = walk s2 c (b_cont mb)"
begin

lemma walk_ok:
  assumes "refs_ok s ext" "chain s mp ps" "msg_bytes s ps = Some bs"
    "mblks s pv = Some x" "b_cont x = None" "pv \<notin> set ps"
  shows "\<exists>s' ps' x'. walk s pv mp = Some s' \<and> refs_ok s' ext \<and> length ps' = length ps \<and>
    mblks s' pv = Some x' \<and> x' = x\<lparr>b_cont := b_cont x'\<rparr> \<and> chain s' (b_cont x') ps' \<and>
    msg_bytes s' ps' = Some bs \<and> set ps' \<inter> dom (mblks s) = {} \<and>
    (\<forall>q. q \<in> dom (mblks s) \<and> q \<noteq> pv \<longrightarrow> mblks s' q = mblks s q) \<and>
    (\<forall>m' b'. frag_bytes s m' = Some b' \<longrightarrow> frag_bytes s' m' = Some b') \<and>
    (deep \<longrightarrow> (\<forall>q \<in> set ps'. \<forall>n d. mblks s' q = Some n \<and> b_datap n = Some d \<longrightarrow> dblks s d = None))"
  using assms
proof (induction ps arbitrary: s mp bs pv x)
  case Nil
  then show ?case
    by (intro exI [of _ s] exI [of _ "[]"] exI [of _ x]) (simp add: walk_end)
next
  case (Cons p ps)
  then obtain m b r where m: "mp = Some p" "mblks s p = Some m" "chain s (b_cont m) ps"
    "frag_bytes s m = Some b" "msg_bytes s ps = Some r" "bs = b @ r"
    by (auto simp: bind_eq_Some_conv)
  obtain c s1 n where c: "clone s p = Some (c, s1)" "refs_ok s1 ext" "mblks s c = None"
      "mblks s1 = (mblks s)(c \<mapsto> n)" "b_cont n = None" "frag_bytes s1 n = Some b"
      "\<forall>m' b'. frag_bytes s m' = Some b' \<longrightarrow> frag_bytes s1 m' = Some b'"
      "dom (dblks s) \<subseteq> dom (dblks s1)" "deep \<longrightarrow> (\<forall>d. b_datap n = Some d \<longrightarrow> dblks s d = None)"
    using clone_law [OF Cons.prems(1) m(2,4)] by blast
  define x2 where "x2 = x\<lparr>b_cont := Some c\<rparr>"
  define s2 where "s2 = s1\<lparr>mblks := (mblks s1)(pv \<mapsto> x2)\<rparr>"
  have dist: "p \<noteq> pv" "c \<noteq> pv" "c \<noteq> p" "p \<notin> set ps" "pv \<notin> set ps" "c \<notin> set ps"
    using Cons.prems c(3) m(2) chain_distinct [OF Cons.prems(2)]
      msg_bytes_datap [OF m(5), of c] by auto
  note l = link_clone_ok [OF c(2,4) Cons.prems(4) dist(5,6,2) m(3,5) c(7) s2_def [unfolded x2_def]]
  note u = l(1) and fb2 = l(3)
  have same: "mblks s2 q = mblks s q" if "q \<noteq> c" "q \<noteq> pv" for q
    using that c(4) by (simp add: s2_def)
  note l(4,5)
  moreover have "mblks s2 c = Some n" using c(4) dist by (simp add: s2_def)
  ultimately obtain s' ps' n' where r: "walk s2 c (b_cont m) = Some s'" "refs_ok s' ext"
      "length ps' = length ps" "mblks s' c = Some n'" "n' = n\<lparr>b_cont := b_cont n'\<rparr>"
      "chain s' (b_cont n') ps'" "msg_bytes s' ps' = Some r" "set ps' \<inter> dom (mblks s2) = {}"
      "\<forall>q. q \<in> dom (mblks s2) \<and> q \<noteq> c \<longrightarrow> mblks s' q = mblks s2 q"
      "\<forall>m' b'. frag_bytes s2 m' = Some b' \<longrightarrow> frag_bytes s' m' = Some b'"
      "deep \<longrightarrow> (\<forall>q \<in> set ps'. \<forall>n d. mblks s' q = Some n \<and> b_datap n = Some d \<longrightarrow> dblks s2 d = None)"
    using Cons.IH [OF l(2), of "b_cont m" r c n] c(5) dist by blast
  have fn: "frag_bytes s' n' = Some b"
  proof -
    have "frag_bytes s' n' = frag_bytes s' n"
      by (subst r(5)) simp
    with r(10) c(6) fb2 show ?thesis by simp
  qed
  have "walk s pv mp = Some s'"
    using walk_step [OF c(1) u, of m] same [of p] dist m(1,2) r(1) by simp
  moreover have "mblks s' pv = Some x2" using r(9) dist by (auto simp: s2_def)
  moreover have "chain s' (b_cont x2) (c # ps')" using r(4,6) by (simp add: x2_def)
  moreover have "msg_bytes s' (c # ps') = Some bs" using r(4,7) fn m(6) by simp
  moreover have "set (c # ps') \<inter> dom (mblks s) = {}"
    using r(8) c(3,4) by (auto simp: s2_def)
  moreover have "mblks s' q = mblks s q" if "q \<in> dom (mblks s)" "q \<noteq> pv" for q
  proof -
    have "q \<noteq> c" using that c(3) by auto
    with that r(9) [rule_format, of q] same [of q] show ?thesis by (auto simp: dom_def)
  qed
  moreover have "dblks s d = None"
    if "deep" "q \<in> set (c # ps')" "mblks s' q = Some k" "b_datap k = Some d" for q k d
  proof (cases "q = c")
    case True
    then have "k = n\<lparr>b_cont := b_cont n'\<rparr>" using that(3) r(4,5) by simp
    with that(1,4) c(9) show ?thesis by simp
  next
    case False
    with that r(11) have "dblks s1 d = None" by (auto simp: s2_def)
    with c(8) show ?thesis by auto
  qed
  ultimately show ?case
    using r(2,3,10) c(7) fb2
    by (intro exI [of _ s'] exI [of _ "c # ps'"] exI [of _ x2]) (simp add: x2_def)
qed

lemma clone_msg_ok:
  assumes ok: "refs_ok s ext" and c: "chain s (Some mp) (mp # ps)"
    and bytes: "msg_bytes s (mp # ps) = Some bs"
  shows "\<exists>np s1 mb s' ps'. clone s mp = Some (np, s1) \<and> mblks s1 mp = Some mb \<and>
    walk s1 np (b_cont mb) = Some s' \<and> refs_ok s' ext \<and>
    chain s' (Some np) (np # ps') \<and> msg_bytes s' (np # ps') = Some bs \<and>
    set (np # ps') \<inter> dom (mblks s) = {} \<and> (\<forall>q \<in> dom (mblks s). mblks s' q = mblks s q) \<and>
    (\<forall>m' b'. frag_bytes s m' = Some b' \<longrightarrow> frag_bytes s' m' = Some b') \<and>
    (deep \<longrightarrow> (\<forall>q \<in> set (np # ps'). \<forall>n d. mblks s' q = Some n \<and> b_datap n = Some d \<longrightarrow> dblks s d = None))"
proof -
  obtain m b r where m: "mblks s mp = Some m" "chain s (b_cont m) ps"
    "frag_bytes s m = Some b" "msg_bytes s ps = Some r" "bs = b @ r"
    using c bytes by (auto simp: bind_eq_Some_conv)
  obtain np s1 n where np: "clone s mp = Some (np, s1)" "refs_ok s1 ext" "mblks s np = None"
      "mblks s1 = (mblks s)(np \<mapsto> n)" "b_cont n = None" "frag_bytes s1 n = Some b"
      "\<forall>m' b'. frag_bytes s m' = Some b' \<longrightarrow> frag_bytes s1 m' = Some b'"
      "dom (dblks s) \<subseteq> dom (dblks s1)" "deep \<longrightarrow> (\<forall>d. b_datap n = Some d \<longrightarrow> dblks s d = None)"
    using clone_law [OF ok m(1,3)] by blast
  have dist: "np \<noteq> mp" "np \<notin> set ps"
    using np(3) m(1) msg_bytes_datap [OF m(4), of np] by auto
  have "chain s1 (b_cont m) ps"
    using m(2) chain_cong [of ps s1 s "b_cont m"] dist np(4) by (metis fun_upd_other)
  moreover have "msg_bytes s1 ps = Some r"
  proof -
    have "frag_bytes s1 m' = frag_bytes s m'" if "q \<in> set ps" "mblks s q = Some m'" for q m'
      using msg_bytes_frag [OF m(4) that] np(7) by force
    with msg_bytes_cong [of ps s1 s] dist np(4) m(4) show ?thesis by (metis fun_upd_other)
  qed
  moreover have "mblks s1 np = Some n" using np(4) by simp
  ultimately obtain s' ps' n' where w: "walk s1 np (b_cont m) = Some s'" "refs_ok s' ext"
      "mblks s' np = Some n'" "n' = n\<lparr>b_cont := b_cont n'\<rparr>"
      "chain s' (b_cont n') ps'" "msg_bytes s' ps' = Some r" "set ps' \<inter> dom (mblks s1) = {}"
      "\<forall>q. q \<in> dom (mblks s1) \<and> q \<noteq> np \<longrightarrow> mblks s' q = mblks s1 q"
      "\<forall>m' b'. frag_bytes s1 m' = Some b' \<longrightarrow> frag_bytes s' m' = Some b'"
      "deep \<longrightarrow> (\<forall>q \<in> set ps'. \<forall>n d. mblks s' q = Some n \<and> b_datap n = Some d \<longrightarrow> dblks s1 d = None)"
    using walk_ok [OF np(2), of "b_cont m" ps r np n] np(5) dist by blast
  have fn: "frag_bytes s' n' = Some b"
    using w(9) np(6) by (subst w(4)) simp
  have keep: "mblks s' q = mblks s q" if "q \<in> dom (mblks s)" for q
  proof -
    have "q \<noteq> np" using that np(3) by auto
    with that w(8) [rule_format, of q] np(4) show ?thesis by (auto simp: dom_def)
  qed
  have fresh: "dblks s d = None"
    if "deep" "q \<in> set (np # ps')" "mblks s' q = Some k" "b_datap k = Some d" for q k d
  proof (cases "q = np")
    case True
    then have "k = n\<lparr>b_cont := b_cont n'\<rparr>" using that(3) w(3,4) by simp
    with that(1,4) np(9) show ?thesis by simp
  next
    case False
    with that w(10) have "dblks s1 d = None" by auto
    with np(8) show ?thesis by auto
  qed
  have "chain s' (Some np) (np # ps')" "msg_bytes s' (np # ps') = Some bs"
    using w(3,5,6) fn m(5) by auto
  moreover have "set (np # ps') \<inter> dom (mblks s) = {}" using w(7) np(3,4) by auto
  moreover have "mblks s1 mp = Some m" using np(4) dist m(1) by simp
  ultimately show ?thesis
    using np(1,7) w(1,2,9) keep fresh
    by (intro exI [of _ np] exI [of _ s1] exI [of _ m] exI [of _ s'] exI [of _ ps']) auto
qed

lemma clone_msg_keeps:
  assumes bytes: "msg_bytes s ps = Some bs"
    and same: "\<forall>q \<in> dom (mblks s). mblks s' q = mblks s q"
    and frag: "\<forall>m' b'. frag_bytes s m' = Some b' \<longrightarrow> frag_bytes s' m' = Some b'"
  shows "msg_bytes s' ps = Some bs"
proof -
  have "mblks s' q = mblks s q" if "q \<in> set ps" for q
    using msg_bytes_datap [OF bytes that] same by auto
  moreover have "frag_bytes s' m = frag_bytes s m" if "q \<in> set ps" "mblks s q = Some m" for q m
    using msg_bytes_frag [OF bytes that] frag by force
  ultimately show ?thesis using msg_bytes_cong [of ps s' s] bytes by metis
qed

end

text \<open>Updates of different fields of the store commute; this is the normal order.\<close>

lemma mem_upd_order:
  "s\<lparr>brk := b, mblks := M\<rparr> = s\<lparr>mblks := M, brk := b\<rparr>"
  "s\<lparr>dblks := D, mblks := M\<rparr> = s\<lparr>mblks := M, dblks := D\<rparr>"
  "s\<lparr>brk := b, dblks := D\<rparr> = s\<lparr>dblks := D, brk := b\<rparr>"
  for s :: mem
  by simp_all

lemma refs_ok_new_mblk:
  assumes ok: "refs_ok s (ext(d := Suc n))" and d: "b_datap m = Some d"
  shows "refs_ok (s\<lparr>mblks := (mblks s)(brk s \<mapsto> m), brk := Suc (brk s)\<rparr>) (ext(d := n))"
proof -
  have "refs_ok (s\<lparr>brk := Suc (brk s)\<rparr>) (ext(d := Suc n))"
    using ok by (auto simp: refs_ok_def less_Suc_eq)
  from refs_ok_give [OF this, of "brk s" m] refs_ok_fresh [OF ok] d show ?thesis
    by (simp add: mem_upd_order)
qed

lemma dblk_ref_ok:
  assumes ok: "refs_ok s ext" and x: "dblks s d = Some x"
  shows "refs_ok (s\<lparr>dblks := (dblks s)(d \<mapsto> x\<lparr>db_ref := db_ref x + 1\<rparr>)\<rparr>) (ext(d := Suc (ext d)))"
proof -
  let ?s = "s\<lparr>dblks := (dblks s)(d \<mapsto> x\<lparr>db_ref := db_ref x + 1\<rparr>)\<rparr>"
  have "entry_ok (dblks ?s e) (owners ?s e) ((ext(d := Suc (ext d))) e)" for e
    using refs_okD(1) [OF ok, of e] x by (cases "e = d") auto
  then show ?thesis using ok x unfolding refs_ok_def by auto
qed

lemma dupb_law:
  assumes ok: "refs_ok s ext" and m: "mblks s p = Some m" and b: "frag_bytes s m = Some b"
  shows "\<exists>c s' n. dupb s p = Some (Some c, s') \<and> refs_ok s' ext \<and> mblks s c = None \<and>
    mblks s' = (mblks s)(c \<mapsto> n) \<and> b_cont n = None \<and> frag_bytes s' n = Some b \<and>
    (\<forall>m' b'. frag_bytes s m' = Some b' \<longrightarrow> frag_bytes s' m' = Some b') \<and>
    dom (dblks s) \<subseteq> dom (dblks s')"
proof -
  obtain d x where d: "b_datap m = Some d" "dblks s d = Some x"
    using b by (auto simp: frag_bytes_def bind_eq_Some_conv)
  let ?s1 = "s\<lparr>dblks := (dblks s)(d \<mapsto> x\<lparr>db_ref := db_ref x + 1\<rparr>)\<rparr>"
  let ?n = "(mblk_meta_copy m mblk_zero)\<lparr>b_datap := Some d, b_rptr := b_rptr m, b_wptr := b_wptr m\<rparr>"
  let ?s2 = "?s1\<lparr>mblks := (mblks s)(brk s \<mapsto> ?n), brk := Suc (brk s)\<rparr>"
  have "dupb s p = Some (Some (brk s), ?s2)"
    using m d by (simp add: dupb_def dblk_ref_def upd_d_def new_mblk_def)
  moreover have "refs_ok ?s2 ext"
    using refs_ok_new_mblk [OF dblk_ref_ok [OF ok d(2)], of ?n] by simp
  moreover have "frag_bytes ?s2 ?n = Some b"
    using b d by (simp add: frag_bytes_def split: if_splits)
  moreover have "frag_bytes ?s2 m' = Some b'" if "frag_bytes s m' = Some b'" for m' b'
    using that d(2) by (auto simp: frag_bytes_def bind_eq_Some_conv split: if_splits)
  ultimately show ?thesis
    using refs_ok_fresh [OF ok]
    by (intro exI [of _ "brk s"] exI [of _ ?s2] exI [of _ ?n])
      (auto simp: mblk_meta_copy_def mblk_zero_def)
qed

lemma allocb_ok:
  assumes ok: "refs_ok s ext" and a: "allocb s k = (c, s')"
  shows "refs_ok s' ext" and "mblks s c = None"
    and "mblks s' = (mblks s)(c \<mapsto> mblk_zero\<lparr>b_datap := Some (Suc c)\<rparr>)" and "c = brk s"
    and "\<exists>x. dblks s' (Suc c) = Some x \<and> length (db_buf x) = k"
    and "dblks s (Suc c) = None" and "e \<noteq> Suc c \<Longrightarrow> dblks s' e = dblks s e"
proof -
  let ?x = "\<lparr>db_buf = map (junk s) [0..<k], db_freefn = FreeNone, db_ref = 1\<rparr>"
  let ?m = "mblk_zero\<lparr>b_datap := Some (Suc (brk s))\<rparr>"
  have e: "c = brk s" "s' = s\<lparr>mblks := (mblks s)(brk s \<mapsto> ?m),
      dblks := (dblks s)(Suc (brk s) \<mapsto> ?x), brk := Suc (Suc (brk s))\<rparr>"
    using a by (auto simp: allocb_def new_mblk_def dblk_alloc_def)
  let ?s0 = "s\<lparr>brk := Suc (brk s)\<rparr>"
  have "refs_ok ?s0 ext" using ok by (auto simp: refs_ok_def less_Suc_eq)
  from dblk_alloc_ok(1) [OF this, of k] have
    "refs_ok (snd (dblk_alloc ?s0 k)) (ext(Suc (brk s) := Suc (ext (Suc (brk s)))))"
    by (simp add: dblk_alloc_def)
  from refs_ok_give [OF this, of "brk s" ?m] refs_ok_fresh [OF ok]
  show "refs_ok s' ext" by (simp add: e dblk_alloc_def mem_upd_order)
  show "mblks s c = None" "dblks s (Suc c) = None"
    using refs_okD(3,4) [OF ok] e(1) by (metis less_irrefl option.exhaust Suc_lessD)+
qed (use a in \<open>auto simp: allocb_def new_mblk_def dblk_alloc_def\<close>)

lemma copyb_law:
  assumes ok: "refs_ok s ext" and m: "mblks s p = Some m" and b: "frag_bytes s m = Some b"
  shows "\<exists>c s' n. copyb s p = Some (c, s') \<and> refs_ok s' ext \<and> mblks s c = None \<and>
    mblks s' = (mblks s)(c \<mapsto> n) \<and> b_cont n = None \<and> frag_bytes s' n = Some b \<and>
    (\<forall>m' b'. frag_bytes s m' = Some b' \<longrightarrow> frag_bytes s' m' = Some b') \<and>
    dom (dblks s) \<subseteq> dom (dblks s') \<and> (\<forall>d. b_datap n = Some d \<longrightarrow> dblks s d = None)"
proof -
  obtain c s1 where a: "allocb s (length b) = (c, s1)" by fastforce
  note al = allocb_ok [OF ok a]
  obtain x where x: "dblks s1 (Suc c) = Some x" "length (db_buf x) = length b" using al(5) by auto
  let ?s2 = "s1\<lparr>dblks := (dblks s1)(Suc c \<mapsto> x\<lparr>db_buf := b\<rparr>)\<rparr>"
  let ?n = "mblk_zero\<lparr>b_datap := Some (Suc c), b_wptr := length b, recv_addr := recv_addr m\<rparr>"
  let ?s3 = "?s2\<lparr>mblks := (mblks s1)(c \<mapsto> ?n)\<rparr>"
  have u: "upd_m ?s2 c (\<lambda>y. y\<lparr>b_wptr := b_wptr y + length b, recv_addr := recv_addr m\<rparr>) = Some ?s3"
    using al(3) by (simp add: upd_m_def mblk_zero_def)
  have "copyb s p = Some (c, ?s3)"
    using m b a x u al(3) by (simp add: copyb_def upd_d_def wr_block_def mblk_zero_def)
  moreover have "refs_ok ?s3 ext"
    by (rule refs_ok_upd_m [OF refs_ok_upd_d [OF al(1) x(1)] u]) simp_all
  moreover have "frag_bytes ?s3 ?n = Some b"
    by (simp add: frag_bytes_def mblk_zero_def)
  moreover have "frag_bytes ?s3 m' = Some b'" if "frag_bytes s m' = Some b'" for m' b'
  proof -
    have "b_datap m' \<noteq> Some (Suc c)"
      using that al(6) by (auto simp: frag_bytes_def bind_eq_Some_conv)
    then have "dblks ?s3 d = dblks s d" if "b_datap m' = Some d" for d
      using that al(7) [of d] by auto
    then have "frag_bytes ?s3 m' = frag_bytes s m'" by (rule frag_bytes_other)
    with that show ?thesis by simp
  qed
  moreover have "dom (dblks s) \<subseteq> dom (dblks ?s3)" using al(7) by (auto simp: dom_def)
  ultimately show ?thesis
    using al(2,3,6) by (intro exI [of _ c] exI [of _ ?s3] exI [of _ ?n]) (simp add: mblk_zero_def)
qed

abbreviation dupb_clone :: "mem \<Rightarrow> ptr \<Rightarrow> (ptr \<times> mem) option" where
  "dupb_clone s p \<equiv> (case dupb s p of Some (Some c, s') \<Rightarrow> Some (c, s') | _ \<Rightarrow> None)"

interpretation dup: msg_clone dupb_clone "\<lambda>s pv. dupmsg_loop s (Some pv)" False
proof
  fix s ext p m b
  assume "refs_ok s ext" "mblks s p = Some m" "frag_bytes s m = Some b"
  then show "\<exists>c s' n. dupb_clone s p = Some (c, s') \<and> refs_ok s' ext \<and> mblks s c = None \<and>
         mblks s' = (mblks s)(c \<mapsto> n) \<and> b_cont n = None \<and> frag_bytes s' n = Some b \<and>
         (\<forall>m' b'. frag_bytes s m' = Some b' \<longrightarrow> frag_bytes s' m' = Some b') \<and>
         dom (dblks s) \<subseteq> dom (dblks s') \<and> (False \<longrightarrow> (\<forall>d. b_datap n = Some d \<longrightarrow> dblks s d = None))"
    using dupb_law [of s ext p m b] by fastforce
next
  fix s p c s1 pv s2 mb
  assume "dupb_clone s p = Some (c, s1)" "upd_m s1 pv (\<lambda>x. x\<lparr>b_cont := Some c\<rparr>) = Some s2"
    "mblks s2 p = Some mb"
  then show "dupmsg_loop s (Some pv) (Some p) = dupmsg_loop s2 (Some c) (b_cont mb)"
    by (simp add: dupmsg_loop.simps [of s] split: option.splits prod.splits)
qed (simp add: dupmsg_loop.simps)

interpretation cpy: msg_clone copyb copymsg_loop True
  by unfold_locales (simp only: simp_thms, erule (2) copyb_law, simp add: copymsg_loop.simps,
    subst copymsg_loop.simps, simp)

section \<open>Whole messages\<close>

lemma dblk_alloc_msg:
  assumes ok: "refs_ok s ext" and a: "dblk_alloc s n = (db, s1)"
  shows "chain s1 mp ps = chain s mp ps" and "msg_bytes s1 ps = msg_bytes s ps"
proof -
  note al = dblk_alloc_ok [OF ok a]
  show "chain s1 mp ps = chain s mp ps" by (rule chain_cong) (simp add: al(2))
  have "frag_bytes s1 m' = frag_bytes s m'" if "mblks s q = Some m'" for q m'
    using al(5) refs_ok_fresh [OF ok] al(3) refs_ok_dblk [OF ok that]
    by (intro frag_bytes_other) (metis option.distinct(1))
  then show "msg_bytes s1 ps = msg_bytes s ps"
    by (intro msg_bytes_cong) (simp_all add: al(2))
qed

lemma msgpullup_ok:
  assumes ok: "refs_ok s ext" and c: "chain s (Some mp) (mp # ps)"
    and bytes: "msg_bytes s (mp # ps) = Some bs" and len: "len = size_max \<or> length bs \<le> len \<or> ps \<noteq> []"
  shows "\<exists>s'. msgpullup s mp len = Some s' \<and> refs_ok s' ext \<and> chain s' (Some mp) [mp] \<and>
    msg_bytes s' [mp] = Some (if len = size_max then bs else take len bs) \<and>
    (\<forall>q. q \<notin> set (mp # ps) \<longrightarrow> mblks s' q = mblks s q) \<and> (\<forall>q \<in> set ps. mblks s' q = None)"
proof -
  obtain m b where m: "mblks s mp = Some m" "chain s (b_cont m) ps" "frag_bytes s m = Some b"
    using c bytes by (auto simp: bind_eq_Some_conv)
  then obtain d x where d: "b_datap m = Some d" "dblks s d = Some x"
    by (auto simp: frag_bytes_def bind_eq_Some_conv)
  show ?thesis
  proof (cases "b_cont m = None \<and> (len = size_max \<or> len \<le> length (db_buf x))")
    case True
    then have "ps = []" using m(2) by (cases ps) auto
    with ok len bytes c True m(1) d show ?thesis
      by (intro exI [of _ s]) (auto simp: msgpullup_def)
  next
    case False
    define n where "n = (if len = size_max then length bs else len)"
    obtain db s1 where a: "dblk_alloc s n = (db, s1)" by fastforce
    note al = dblk_alloc_ok [OF ok a]
    obtain nd where nd: "dblks s1 db = Some nd" "length (db_buf nd) = n" using al(4) by auto
    note keep = dblk_alloc_msg [OF ok a, where ps = "mp # ps"]
    have loop: "msgpullup_loop s1 (db_buf nd) 0 n (Some mp) =
        Some (take n bs @ drop (length bs) (db_buf nd), min n (length bs))"
      using msgpullup_loop_ok [of s1 "Some mp" "mp # ps" bs 0 n "db_buf nd"] nd(2) keep c bytes
      by (simp only: min_0L le0 diff_zero take0 append_Nil add_0)
    let ?base = "take n bs @ drop (length bs) (db_buf nd)" and ?w = "min n (length bs)"
    let ?s2 = "s1\<lparr>dblks := (dblks s1)(db \<mapsto> nd\<lparr>db_buf := ?base\<rparr>)\<rparr>"
    have "(if len = size_max then msgdsize s (Some mp) else Some len) = Some n"
      using msgdsize_ok [OF c bytes] by (simp add: n_def)
    then have "msgpullup s mp len = set_datab ?s2 mp db ?w"
      using m(1) d False a nd(1) loop by (auto simp: msgpullup_def upd_d_def)
    moreover have "?w \<le> length ?base" by simp
    moreover have "take ?w ?base = (if len = size_max then bs else take len bs)"
      by (simp add: n_def min_def)
    ultimately show ?thesis
      using pullup_copy_ok [OF ok m(1,2) bytes a nd(1), of ?w ?base] by auto
  qed
qed

lemma msgpullup_with_insert_ok:
  assumes ok: "refs_ok s ext" and c: "chain s (Some mp) (mp # ps)"
    and bytes: "msg_bytes s (mp # ps) = Some bs" and off: "offset < length bs"
  shows "\<exists>s'. msgpullup_with_insert s mp offset ins = Some s' \<and> refs_ok s' ext \<and>
    chain s' (Some mp) [mp] \<and>
    msg_bytes s' [mp] = Some (take offset bs @ replicate ins 0 @ drop offset bs) \<and>
    (\<forall>q. q \<notin> set (mp # ps) \<longrightarrow> mblks s' q = mblks s q) \<and> (\<forall>q \<in> set ps. mblks s' q = None)"
proof -
  obtain m where m: "mblks s mp = Some m" "chain s (b_cont m) ps"
    using c by auto
  let ?n = "length bs + ins"
  obtain db s1 where a: "dblk_alloc s ?n = (db, s1)" by fastforce
  obtain nd where nd: "dblks s1 db = Some nd" "length (db_buf nd) = ?n"
    using dblk_alloc_ok(4) [OF ok a] by auto
  let ?base = "take offset bs @ replicate ins 0 @ drop offset bs"
  have "insert_loop s1 (db_buf nd) 0 offset ins (Some mp) = Some (?base, ?n)"
    using insert_loop_before [of s1 "Some mp" "mp # ps" bs 0 offset "db_buf nd" ins]
      nd(2) dblk_alloc_msg [OF ok a, where ps = "mp # ps"] c bytes off
    by (simp only: take0 append_Nil add_0 le0 diff_zero)
  then have "msgpullup_with_insert s mp offset ins =
      set_datab (s1\<lparr>dblks := (dblks s1)(db \<mapsto> nd\<lparr>db_buf := ?base\<rparr>)\<rparr>) mp db ?n"
    using msgdsize_ok [OF c bytes] off a nd(1) by (simp add: msgpullup_with_insert_def upd_d_def)
  moreover have "?n \<le> length ?base" "take ?n ?base = ?base"
    using off by (simp, intro take_all, simp)
  ultimately show ?thesis
    using pullup_copy_ok [OF ok m bytes a nd(1), of ?n ?base] by auto
qed

text \<open>
  The content of a message only depends on its own blocks: freeing another message keeps it,
  because a shared data block stays alive as long as one message block refers to it. The buffer
  of the data block \<open>e\<close> in \<open>s'\<close> is the one it had in \<open>s\<close>:
\<close>

definition bufs_from :: "mem \<Rightarrow> mem \<Rightarrow> ptr \<Rightarrow> bool" where
  "bufs_from s s' e \<longleftrightarrow>
     (\<forall>x. dblks s' e = Some x \<longrightarrow> (\<exists>y. dblks s e = Some y \<and> db_buf x = db_buf y))"

lemma msg_bytes_bufs:
  assumes ok: "refs_ok s' ext" and c: "msg_bytes s ps = Some bs"
    and same: "\<And>q. q \<in> set ps \<Longrightarrow> mblks s' q = mblks s q"
    and d: "\<And>q m e. q \<in> set ps \<Longrightarrow> mblks s q = Some m \<Longrightarrow> b_datap m = Some e \<Longrightarrow> bufs_from s s' e"
  shows "msg_bytes s' ps = Some bs"
proof -
  have "frag_bytes s' m = frag_bytes s m" if q: "q \<in> set ps" "mblks s q = Some m" for q m
  proof (cases "b_datap m")
    case (Some e)
    obtain x where x: "dblks s' e = Some x"
      using refs_ok_dblk [OF ok, of q m e] same q Some by metis
    with d [OF q Some] obtain y where "dblks s e = Some y" "db_buf x = db_buf y" by (auto simp: bufs_from_def)
    with x Some show ?thesis by (simp add: frag_bytes_def)
  qed (simp add: frag_bytes_def)
  with msg_bytes_cong [of ps s' s] same c show ?thesis by metis
qed

lemma msg_bytes_free_other:
  assumes "refs_ok s' ext" "msg_bytes s ps = Some bs" "\<And>q. q \<in> set ps \<Longrightarrow> mblks s' q = mblks s q"
    and "\<forall>e x. dblks s' e = Some x \<longrightarrow> (\<exists>y. dblks s e = Some y \<and> db_buf x = db_buf y)"
  shows "msg_bytes s' ps = Some bs"
  by (rule msg_bytes_bufs [OF assms(1-3)]) (use assms(4) in \<open>auto simp: bufs_from_def\<close>)

lemma dupmsg_ok:
  assumes ok: "refs_ok s ext" and c: "chain s (Some mp) (mp # ps)"
    and bytes: "msg_bytes s (mp # ps) = Some bs"
  shows "\<exists>np s' ps'. dupmsg s mp = Some (Some np, s') \<and> refs_ok s' ext \<and>
    chain s' (Some np) (np # ps') \<and> msg_bytes s' (np # ps') = Some bs \<and>
    set (np # ps') \<inter> dom (mblks s) = {} \<and> (\<forall>q \<in> dom (mblks s). mblks s' q = mblks s q) \<and>
    (\<forall>m' b'. frag_bytes s m' = Some b' \<longrightarrow> frag_bytes s' m' = Some b')"
proof -
  obtain np s1 mb s' ps' where r: "dupb_clone s mp = Some (np, s1)" "mblks s1 mp = Some mb"
      "dupmsg_loop s1 (Some np) (b_cont mb) = Some s'" "refs_ok s' ext"
      "chain s' (Some np) (np # ps')" "msg_bytes s' (np # ps') = Some bs"
      "set (np # ps') \<inter> dom (mblks s) = {}" "\<forall>q \<in> dom (mblks s). mblks s' q = mblks s q"
      "\<forall>m' b'. frag_bytes s m' = Some b' \<longrightarrow> frag_bytes s' m' = Some b'"
    using dup.clone_msg_ok [OF assms] by blast
  have "dupb s mp = Some (Some np, s1)"
    using r(1) by (simp split: option.splits prod.splits)
  with r show ?thesis
    by (intro exI [of _ np] exI [of _ s'] exI [of _ ps']) (simp add: dupmsg_def)
qed

lemma copymsg_ok:
  assumes ok: "refs_ok s ext" and c: "chain s (Some mp) (mp # ps)"
    and bytes: "msg_bytes s (mp # ps) = Some bs"
  shows "\<exists>np s' ps'. copymsg s mp = Some (np, s') \<and> refs_ok s' ext \<and>
    chain s' (Some np) (np # ps') \<and> msg_bytes s' (np # ps') = Some bs \<and>
    set (np # ps') \<inter> dom (mblks s) = {} \<and> (\<forall>q \<in> dom (mblks s). mblks s' q = mblks s q) \<and>
    (\<forall>q \<in> set (np # ps'). \<forall>n d. mblks s' q = Some n \<and> b_datap n = Some d \<longrightarrow> dblks s d = None)"
proof -
  obtain np s1 mb s' ps' where r: "copyb s mp = Some (np, s1)" "mblks s1 mp = Some mb"
      "copymsg_loop s1 np (b_cont mb) = Some s'" "refs_ok s' ext"
      "chain s' (Some np) (np # ps')" "msg_bytes s' (np # ps') = Some bs"
      "set (np # ps') \<inter> dom (mblks s) = {}" "\<forall>q \<in> dom (mblks s). mblks s' q = mblks s q"
      "True \<longrightarrow> (\<forall>q \<in> set (np # ps'). \<forall>n d. mblks s' q = Some n \<and> b_datap n = Some d \<longrightarrow> dblks s d = None)"
    using cpy.clone_msg_ok [OF assms] by blast
  then show ?thesis
    by (intro exI [of _ np] exI [of _ s'] exI [of _ ps']) (simp add: copymsg_def)
qed

section \<open>Appending\<close>

lemma msg_bytes_append:
  "msg_bytes s (xs @ ys) = do { a \<leftarrow> msg_bytes s xs; b \<leftarrow> msg_bytes s ys; Some (a @ b) }"
  by (induction xs) (auto simp: bind_eq_None_conv split: bind_split)

lemma chain_append_last:
  assumes "chain s mp (ps @ [l])" and "\<And>q. q \<in> set ps \<Longrightarrow> mblks s' q = mblks s q"
    and "mblks s' l = Some m'" and "chain s' (b_cont m') qs"
  shows "chain s' mp (ps @ l # qs)"
  using assms by (induction ps arbitrary: mp) auto

lemma last_frag_ok: "chain s (Some p) (ps @ [l]) \<Longrightarrow> last_frag s p = Some l"
proof (induction ps arbitrary: p)
  case Nil
  then show ?case by (auto simp: last_frag.simps)
next
  case (Cons q ps)
  then obtain m where m: "mblks s p = Some m" "chain s (b_cont m) (ps @ [l])" by auto
  then obtain c where "b_cont m = Some c" by (cases ps) auto
  with m Cons.IH show ?case by (simp add: last_frag.simps [of s p])
qed

text \<open>Number of zero bytes \<open>appendb\<close> adds after \<open>n\<close> bytes of data at write offset \<open>w\<close>.\<close>

definition pad_count :: "nat \<Rightarrow> nat \<Rightarrow> nat \<Rightarrow> bool \<Rightarrow> nat" where
  "pad_count addr w n pad = (if pad then (4 - (addr + w + n) mod 4) mod 4 else 0)"

lemma msg_bytes_upd_sole:
  assumes bytes: "msg_bytes s ps = Some bs" and sole: "owners s d = {l}" and l: "l \<notin> set ps"
    and m: "\<And>q. q \<in> set ps \<Longrightarrow> mblks s' q = mblks s q"
    and d: "\<And>e. e \<noteq> d \<Longrightarrow> dblks s e \<noteq> None \<Longrightarrow> dblks s' e = dblks s e"
  shows "msg_bytes s' ps = Some bs"
proof -
  have "frag_bytes s' k = frag_bytes s k" if q: "q \<in> set ps" "mblks s q = Some k" for q k
  proof (rule frag_bytes_other)
    fix e assume e: "b_datap k = Some e"
    have "e \<noteq> d" using sole e q l by (auto simp: owners_def)
    moreover have "dblks s e \<noteq> None"
      using msg_bytes_frag [OF bytes q] e by (auto simp: frag_bytes_def bind_eq_Some_conv)
    ultimately show "dblks s' e = dblks s e" by (rule d)
  qed
  with msg_bytes_cong [of ps s' s] m bytes show ?thesis by metis
qed

lemma msgappend_fits:
  assumes ok: "refs_ok s ext" and c: "chain s (Some mp) (ps @ [l])"
    and bytes: "msg_bytes s (ps @ [l]) = Some bs" and m: "mblks s l = Some m"
    and d: "b_datap m = Some d" "dblks s d = Some x" "owners s d = {l}"
    and fit: "b_wptr m + length data + pad_count (base_addr d) (b_wptr m) (length data) pad
               \<le> length (db_buf x)"
  shows "\<exists>s'. msgappend base_addr s mp data pad = Some s' \<and> refs_ok s' ext \<and>
    chain s' (Some mp) (ps @ [l]) \<and>
    msg_bytes s' (ps @ [l]) = Some (bs @ data @
      replicate (pad_count (base_addr d) (b_wptr m) (length data) pad) 0)"
proof -
  define k where "k = pad_count (base_addr d) (b_wptr m) (length data) pad"
  define new where "new = data @ replicate k (0 :: u8)"
  define x' where "x' = x\<lparr>db_buf := take (b_wptr m) (db_buf x) @ new @
    drop (b_wptr m + length new) (db_buf x)\<rparr>"
  define m' where "m' = m\<lparr>b_wptr := b_wptr m + length data + k\<rparr>"
  define s1 where "s1 = s\<lparr>dblks := (dblks s)(d \<mapsto> x')\<rparr>"
  define s' where "s' = s1\<lparr>mblks := (mblks s)(l \<mapsto> m')\<rparr>"
  have fit': "b_wptr m + length data + k \<le> length (db_buf x)" using fit by (simp add: k_def)
  obtain as b where ab: "msg_bytes s ps = Some as" "frag_bytes s m = Some b" "bs = as @ b"
    using bytes m by (auto simp: msg_bytes_append bind_eq_Some_conv)
  have l: "l \<notin> set ps" using chain_distinct [OF c] by simp
  have u: "upd_m s1 l (\<lambda>y. y\<lparr>b_wptr := b_wptr y + length data + k\<rparr>) = Some s'"
    using m by (simp add: upd_m_def s1_def s'_def m'_def)
  have w: "wr_block (db_buf x) (b_wptr m) (data @ replicate k 0) = Some (db_buf x')"
    using fit' by (simp add: wr_block_def x'_def new_def)
  have "appendb base_addr s l data pad = Some (l, s')"
    using m d fit' w u
    by (simp add: appendb_def k_def [unfolded pad_count_def, symmetric] upd_d_def x'_def s1_def)
  then have run: "msgappend base_addr s mp data pad = Some s'"
    using last_frag_ok [OF c] by (simp add: msgappend_def)
  have "refs_ok s1 ext"
    unfolding s1_def x'_def by (rule refs_ok_upd_d [OF ok d(2)]) simp
  from refs_ok_upd_m [OF this u] have ok': "refs_ok s' ext" by simp
  have "b_cont m = None" using chain_suffix [OF c] m by simp
  then have ch: "chain s' (Some mp) (ps @ [l])"
    using l by (intro chain_append_last [OF c, of s' m']) (auto simp: s'_def m'_def)
  have "frag_bytes s' m' = Some (b @ new)"
  proof -
    have r: "b_rptr m \<le> b_wptr m" "b_wptr m \<le> length (db_buf x)"
      "b = take (b_wptr m - b_rptr m) (drop (b_rptr m) (db_buf x))"
      using ab(2) d by (auto simp: frag_bytes_def rd_block_def split: if_splits)
    have "length new = length data + k" by (simp add: new_def)
    with r fit' d show ?thesis
      by (simp add: frag_bytes_def s'_def s1_def m'_def x'_def rd_block_def drop_take)
  qed
  moreover have "msg_bytes s' ps = Some as"
    by (rule msg_bytes_upd_sole [OF ab(1) d(3) l]) (use l in \<open>auto simp: s'_def s1_def\<close>)
  ultimately have "msg_bytes s' (ps @ [l]) = Some (bs @ new)"
    by (simp add: msg_bytes_append ab(3)) (simp add: s'_def)
  with run ok' ch show ?thesis by (auto simp: new_def k_def)
qed

section \<open>Buffers are only written by their owner\<close>

text \<open>Releasing and pulling up never change a buffer that existed before.\<close>

lemma bufs_from_refl [simp]: "bufs_from s s e"
  by (simp add: bufs_from_def)

lemma bufs_from_trans: "bufs_from s t e \<Longrightarrow> bufs_from t u e \<Longrightarrow> bufs_from s u e"
  unfolding bufs_from_def by metis

lemma dblk_unref_bufs: "dblk_unref s d = Some s' \<Longrightarrow> bufs_from s s' e"
  by (auto simp: bufs_from_def dblk_unref_def upd_d_def bind_eq_Some_conv split: if_splits)

lemma upd_m_bufs: "upd_m s p f = Some s' \<Longrightarrow> bufs_from s s' e"
  by (auto simp: bufs_from_def upd_m_def bind_eq_Some_conv)

lemma freeb_bufs: "freeb s p = Some s' \<Longrightarrow> bufs_from s s' e"
  using dblk_unref_bufs by (fastforce simp: freeb_def bind_eq_Some_conv bufs_from_def split: option.splits)

lemma freemsg_bufs:
  assumes "freemsg s mp = Some s'"
  shows "bufs_from s s' e"
proof (rule freemsg.raw_induct [of "\<lambda>s mp s'. bufs_from s s' e", OF _ assms])
  fix f s mp s'
  assume ih: "\<And>s mp s'. f s mp = Some s' \<Longrightarrow> bufs_from s s' e"
    and run: "(case mp of None \<Rightarrow> Some s
      | Some tmp1 \<Rightarrow> do { m \<leftarrow> mblks s tmp1; s' \<leftarrow> freeb s tmp1; f s' (b_cont m) }) = Some s'"
  show "bufs_from s s' e"
    using run
    by (auto simp: bind_eq_Some_conv split: option.splits
        intro: bufs_from_trans dest!: freeb_bufs [where e = e] ih)
qed

lemma set_datab_bufs: "set_datab s mp db w = Some s' \<Longrightarrow> bufs_from s s' e"
  unfolding set_datab_def
  by (clarsimp simp: bind_eq_Some_conv)
    (meson bufs_from_trans freemsg_bufs dblk_unref_bufs upd_m_bufs)

lemma msgpullup_bufs:
  assumes "msgpullup s mp len = Some s'" and "e \<noteq> brk s"
  shows "bufs_from s s' e"
proof -
  have "bufs_from s u e"
    if "set_datab (s\<lparr>brk := b, dblks := (dblks s)(brk s \<mapsto> z)\<rparr>) mp db w = Some u" for z b db w u
    using set_datab_bufs [OF that, of e] assms(2) by (simp add: bufs_from_def)
  then show ?thesis
    using assms(1)
    by (auto simp: msgpullup_def dblk_alloc_def upd_d_def bind_eq_Some_conv Let_def
        split: if_splits prod.splits)
qed

end
