(* ===== verification/Ortp_Mblk_Spec.thy ===== *)
theory Ortp_Mblk_Spec
  imports Ortp_Mblk_Props
begin

text \<open>
  What the message block layer promises to the rest of oRTP: the content of a message
  through pull-up, insertion, duplication, copy, append and release, and the exact
  reference counts (\<open>refs_ok\<close>) through all of them. The examples at the end of each
  group run the operations on a message of two fragments.
\<close>

section \<open>An example store\<close>

text \<open>
  Message block 0 holds the bytes 1 2 at offset 1 of data block 1 (5 bytes long) and
  continues in message block 2, which holds 3 4 5 in data block 3.
\<close>

definition ex_store :: mem where
  "ex_store = \<lparr>mblks = [0 \<mapsto> mblk_zero\<lparr>b_cont := Some 2, b_datap := Some 1, b_rptr := 1, b_wptr := 3\<rparr>,
                        2 \<mapsto> mblk_zero\<lparr>b_datap := Some 3, b_wptr := 3\<rparr>],
     dblks = [1 \<mapsto> \<lparr>db_buf = [9, 1, 2, 9, 9], db_freefn = FreeNone, db_ref = 1\<rparr>,
              3 \<mapsto> \<lparr>db_buf = [3, 4, 5], db_freefn = FreeNone, db_ref = 1\<rparr>],
     brk = 4, junk = (\<lambda>_. 7)\<rparr>"

lemma ex_owners: "owners ex_store d = (if d = 1 then {0} else if d = 3 then {2} else {})"
  by (auto simp: owners_def ex_store_def mblk_zero_def split: if_splits)

lemma ex_refs: "refs_ok ex_store no_ext"
  unfolding refs_ok_def ex_owners
  by (auto simp: ex_store_def entry_ok_def)

lemma ex_chain: "chain ex_store (Some 0) [0, 2]"
  by (simp add: ex_store_def mblk_zero_def)

lemma ex_bytes: "msg_bytes ex_store [0, 2] = Some [1, 2, 3, 4, 5]"
  by (simp add: ex_store_def mblk_zero_def frag_bytes_def rd_block_def)

lemmas ex_facts = ex_refs ex_chain ex_bytes

text \<open>The same message with a last fragment of one byte in a data block of five.\<close>

definition ex_last :: mblk where
  "ex_last = mblk_zero\<lparr>b_datap := Some 3, b_wptr := 1\<rparr>"

definition ex_room :: mem where
  "ex_room = ex_store\<lparr>mblks := (mblks ex_store)(2 \<mapsto> ex_last),
     dblks := (dblks ex_store)(3 \<mapsto> \<lparr>db_buf = [3, 7, 7, 7, 7], db_freefn = FreeNone, db_ref = 1\<rparr>)\<rparr>"

lemma ex_room_owners: "owners ex_room d = (if d = 1 then {0} else if d = 3 then {2} else {})"
  by (auto simp: owners_def ex_room_def ex_last_def ex_store_def mblk_zero_def split: if_splits)

lemma ex_room_facts:
  "refs_ok ex_room no_ext" "chain ex_room (Some 0) [0, 2]"
  "msg_bytes ex_room [0, 2] = Some [1, 2, 3]"
  unfolding refs_ok_def ex_room_owners
  by (auto simp: ex_room_def ex_last_def ex_store_def entry_ok_def mblk_zero_def frag_bytes_def
      rd_block_def)

section \<open>Pull-up\<close>

text \<open>C3: \<open>msgpullup\<close> always returns on a well-formed message, leaves it in a single block
  whose content is the concatenation of the fragments (cut to \<open>len\<close> bytes when a length is
  asked for), frees exactly the other fragments, touches no other message block and keeps
  every reference count exact.\<close>

theorem msgpullup_content:
  assumes "refs_ok s ext" and "chain s (Some mp) (mp # ps)" and "msg_bytes s (mp # ps) = Some bs"
    and "len = size_max \<or> length bs \<le> len \<or> ps \<noteq> []"
  shows "\<exists>s'. msgpullup s mp len = Some s' \<and> refs_ok s' ext \<and> chain s' (Some mp) [mp] \<and>
    msg_bytes s' [mp] = Some (if len = size_max then bs else take len bs) \<and>
    (\<forall>q. q \<notin> set (mp # ps) \<longrightarrow> mblks s' q = mblks s q) \<and> (\<forall>q \<in> set ps. mblks s' q = None)"
  using assms by (rule msgpullup_ok)

theorem msgpullup_content_witness:
  "\<exists>s'. msgpullup ex_store 0 4 = Some s' \<and> refs_ok s' no_ext \<and> chain s' (Some 0) [0] \<and>
     msg_bytes s' [0] = Some [1, 2, 3, 4] \<and> mblks s' 2 = None"
  using msgpullup_content [of ex_store no_ext 0 "[2]" "[1, 2, 3, 4, 5]" 4] ex_facts
  by (auto simp: size_max_def)

text \<open>\<open>msgpullup_with_insert\<close> at an offset inside the message returns, and the message is
  then one block holding the bytes before the offset, \<open>insert_size\<close> zero bytes and the rest,
  with every reference count exact.\<close>

theorem msgpullup_with_insert_content:
  assumes "refs_ok s ext" and "chain s (Some mp) (mp # ps)" and "msg_bytes s (mp # ps) = Some bs"
    and "offset < length bs"
  shows "\<exists>s'. msgpullup_with_insert s mp offset ins = Some s' \<and> refs_ok s' ext \<and>
    chain s' (Some mp) [mp] \<and>
    msg_bytes s' [mp] = Some (take offset bs @ replicate ins 0 @ drop offset bs) \<and>
    (\<forall>q. q \<notin> set (mp # ps) \<longrightarrow> mblks s' q = mblks s q) \<and> (\<forall>q \<in> set ps. mblks s' q = None)"
  using assms by (rule msgpullup_with_insert_ok)

theorem msgpullup_with_insert_content_witness:
  "\<exists>s'. msgpullup_with_insert ex_store 0 3 2 = Some s' \<and>
     msg_bytes s' [0] = Some [1, 2, 3, 0, 0, 4, 5]"
  using msgpullup_with_insert_content [of ex_store no_ext 0 "[2]" "[1, 2, 3, 4, 5]" 3 2] ex_facts
  by (auto simp: numeral_2_eq_2)

text \<open>When the offset is the end of an unfragmented message whose data block has room for
  the insertion, \<open>msgpullup_with_insert\<close> only moves \<open>b_wptr\<close>: the inserted bytes are what the
  buffer held before, not zeros, although its comment announces a zeroised buffer.\<close>

theorem insert_at_end_not_zeroised:
  assumes "mblks s mp = Some m" and "b_cont m = None" and "b_datap m = Some d"
    and "dblks s d = Some x" and "b_rptr m \<le> b_wptr m"
    and "b_wptr m + ins \<le> length (db_buf x)"
  shows "\<exists>s'. msgpullup_with_insert s mp (b_wptr m - b_rptr m) ins = Some s' \<and>
    msg_bytes s' [mp] = Some (take (b_wptr m - b_rptr m + ins) (drop (b_rptr m) (db_buf x)))"
proof -
  have "msgdsize s (Some mp) = Some (b_wptr m - b_rptr m)"
    using assms by (simp add: msgdsize_def msgdsize_loop.simps)
  moreover have "b_wptr m + ins - b_rptr m \<le> length (db_buf x)"
    using assms(5,6) by linarith
  ultimately show ?thesis
    using assms
    by (simp add: msgpullup_with_insert_def msgpullup_def upd_m_def frag_bytes_def)
qed

theorem insert_at_end_not_zeroised_witness:
  "\<exists>s'. msgpullup_with_insert (ex_store\<lparr>mblks := (mblks ex_store)
        (0 \<mapsto> mblk_zero\<lparr>b_datap := Some 1, b_wptr := 3\<rparr>)\<rparr>) 0 3 2 = Some s' \<and>
     msg_bytes s' [0] = Some [9, 1, 2, 9, 9]"
  using insert_at_end_not_zeroised [of "ex_store\<lparr>mblks := (mblks ex_store)
        (0 \<mapsto> mblk_zero\<lparr>b_datap := Some 1, b_wptr := 3\<rparr>)\<rparr>" 0
      "mblk_zero\<lparr>b_datap := Some 1, b_wptr := 3\<rparr>" 1
      "\<lparr>db_buf = [9, 1, 2, 9, 9], db_freefn = FreeNone, db_ref = 1\<rparr>" 2]
  by (simp add: ex_store_def mblk_zero_def)

section \<open>Duplication and release\<close>

text \<open>C14: A duplicate made by \<open>dupmsg\<close> has fresh message blocks and the same content; releasing
  it with \<open>freemsg\<close> succeeds, removes exactly its own blocks, leaves the original message
  untouched and readable, and restores exact reference counts (no use after free, no leak).\<close>

theorem dupmsg_freemsg_safe:
  assumes ok: "refs_ok s ext" and c: "chain s (Some mp) (mp # ps)"
    and bytes: "msg_bytes s (mp # ps) = Some bs"
  shows "\<exists>np s1 ps' s2. dupmsg s mp = Some (Some np, s1) \<and> refs_ok s1 ext \<and>
    chain s1 (Some np) (np # ps') \<and> msg_bytes s1 (np # ps') = Some bs \<and>
    set (np # ps') \<inter> dom (mblks s) = {} \<and>
    freemsg s1 (Some np) = Some s2 \<and> refs_ok s2 ext \<and> (\<forall>q \<in> set (np # ps'). mblks s2 q = None) \<and>
    chain s2 (Some mp) (mp # ps) \<and> msg_bytes s2 (mp # ps) = Some bs"
proof -
  obtain np s1 ps' where r: "dupmsg s mp = Some (Some np, s1)" "refs_ok s1 ext"
      "chain s1 (Some np) (np # ps')" "msg_bytes s1 (np # ps') = Some bs"
      "set (np # ps') \<inter> dom (mblks s) = {}" "\<forall>q \<in> dom (mblks s). mblks s1 q = mblks s q"
      "\<forall>m' b'. frag_bytes s m' = Some b' \<longrightarrow> frag_bytes s1 m' = Some b'"
    using dupmsg_ok [OF assms] by blast
  obtain s2 where f: "freemsg s1 (Some np) = Some s2" "refs_ok s2 ext"
      "mblks s2 = (\<lambda>q. if q \<in> set (np # ps') then None else mblks s1 q)"
      "\<forall>e x. dblks s2 e = Some x \<longrightarrow> (\<exists>y. dblks s1 e = Some y \<and> db_buf x = db_buf y)"
    using freemsg_ok [OF r(2,3)] msg_bytes_datap [OF r(4)] by blast
  have in_s: "q \<in> dom (mblks s)" if "q \<in> set (mp # ps)" for q
    using msg_bytes_datap [OF bytes that] by auto
  have keep: "mblks s2 q = mblks s1 q" "mblks s1 q = mblks s q" if "q \<in> set (mp # ps)" for q
    using in_s [OF that] r(5,6) f(3) by auto
  have "msg_bytes s1 (mp # ps) = Some bs"
    by (rule dup.clone_msg_keeps [OF bytes r(6,7)])
  from msg_bytes_free_other [OF f(2) this keep(1) f(4)] have "msg_bytes s2 (mp # ps) = Some bs" .
  moreover have "chain s2 (Some mp) (mp # ps)"
    using c keep chain_cong [of "mp # ps" s2 s] by metis
  ultimately show ?thesis using r f by (intro exI [of _ np] exI [of _ s1] exI [of _ ps'] exI [of _ s2]) simp
qed

theorem dupmsg_freemsg_safe_witness:
  "\<exists>np s1 s2. dupmsg ex_store 0 = Some (Some np, s1) \<and> freemsg s1 (Some np) = Some s2 \<and>
     refs_ok s2 no_ext \<and> msg_bytes s2 [0, 2] = Some [1, 2, 3, 4, 5]"
  using dupmsg_freemsg_safe [OF ex_facts] by blast

text \<open>\<open>copymsg\<close> returns a message of fresh blocks with the same content, every data block of
  the copy is new (so a later write to one message cannot be seen through the other), the
  original blocks are unchanged and the reference counts stay exact.\<close>

theorem copymsg_independent:
  assumes "refs_ok s ext" and "chain s (Some mp) (mp # ps)" and "msg_bytes s (mp # ps) = Some bs"
  shows "\<exists>np s' ps'. copymsg s mp = Some (np, s') \<and> refs_ok s' ext \<and>
    chain s' (Some np) (np # ps') \<and> msg_bytes s' (np # ps') = Some bs \<and>
    set (np # ps') \<inter> dom (mblks s) = {} \<and> (\<forall>q \<in> dom (mblks s). mblks s' q = mblks s q) \<and>
    (\<forall>q \<in> set (np # ps'). \<forall>n d. mblks s' q = Some n \<and> b_datap n = Some d \<longrightarrow> dblks s d = None)"
  using assms by (rule copymsg_ok)

theorem copymsg_independent_witness:
  "\<exists>np s' ps'. copymsg ex_store 0 = Some (np, s') \<and> msg_bytes s' (np # ps') = Some [1, 2, 3, 4, 5]"
  using copymsg_independent [OF ex_facts] by blast

section \<open>Appending\<close>

text \<open>\<open>msgappend\<close> with room in the last block, which is the only owner of its data block,
  writes the data and the zero padding right after the content of the message, inside the
  buffer, without touching the other fragments or the reference counts.\<close>

theorem msgappend_content:
  assumes "refs_ok s ext" and "chain s (Some mp) (ps @ [l])"
    and "msg_bytes s (ps @ [l]) = Some bs" and "mblks s l = Some m"
    and "b_datap m = Some d" "dblks s d = Some x" "owners s d = {l}"
    and "b_wptr m + length data + pad_count (base_addr d) (b_wptr m) (length data) pad
           \<le> length (db_buf x)"
  shows "\<exists>s'. msgappend base_addr s mp data pad = Some s' \<and> refs_ok s' ext \<and>
    chain s' (Some mp) (ps @ [l]) \<and>
    msg_bytes s' (ps @ [l]) = Some (bs @ data @
      replicate (pad_count (base_addr d) (b_wptr m) (length data) pad) 0)"
  using assms by (rule msgappend_fits)

theorem msgappend_content_witness:
  "\<exists>s'. msgappend (\<lambda>_. 0) ex_room 0 [8, 8] True = Some s' \<and>
     msg_bytes s' [0, 2] = Some [1, 2, 3, 8, 8, 0]"
proof -
  have "\<exists>s'. msgappend (\<lambda>_. 0) ex_room 0 [8, 8] True = Some s' \<and> refs_ok s' no_ext \<and>
      chain s' (Some 0) ([0] @ [2]) \<and> msg_bytes s' ([0] @ [2]) = Some ([1, 2, 3] @ [8, 8] @
        replicate (pad_count 0 (b_wptr ex_last) (length [8, 8 :: u8]) True) 0)"
    by (rule msgappend_content [where x = "\<lparr>db_buf = [3, 7, 7, 7, 7], db_freefn = FreeNone, db_ref = 1\<rparr>"
          and d = 3])
      (simp_all add: ex_room_facts ex_room_owners, simp_all add: ex_room_def ex_last_def ex_store_def
        mblk_zero_def pad_count_def frag_bytes_def rd_block_def)
  then show ?thesis by (auto simp: pad_count_def ex_last_def mblk_zero_def)
qed

text \<open>The block that \<open>appendb\<close> allocates when the data do not fit has room for the data but
  not for the padding: with \<open>pad\<close> set, data at least as long as the old block and a padding
  of at least one byte, the zero bytes are written past the end of the new buffer.\<close>

theorem appendb_pad_overflow:
  assumes "mblks s mp = Some m" and "b_datap m = Some d" and "dblks s d = Some x"
    and "length (db_buf x) \<le> length data"
    and "0 < pad_count (base_addr d) (b_wptr m) (length data) True"
  shows "appendb base_addr s mp data True = None"
proof -
  let ?k = "(4 - (base_addr d + b_wptr m + length data) mod 4) mod 4"
  have "0 < ?k" using assms(5) by (simp add: pad_count_def)
  moreover have "max (length (db_buf x)) (length data) = length data" using assms(4) by simp
  ultimately show ?thesis
    using assms(1-4)
    by (auto simp: appendb_def allocb_def new_mblk_def dblk_alloc_def upd_m_def wr_block_def
        mblk_zero_def Let_def bind_eq_None_conv)
qed

theorem appendb_pad_overflow_witness:
  "appendb (\<lambda>_. 0) ex_store 2 [1, 2, 3] True = None"
  by (rule appendb_pad_overflow [of ex_store 2 "mblk_zero\<lparr>b_datap := Some 3, b_wptr := 3\<rparr>" 3
        "\<lparr>db_buf = [3, 4, 5], db_freefn = FreeNone, db_ref = 1\<rparr>"])
    (simp_all add: ex_store_def mblk_zero_def pad_count_def)

end
