(* ===== verification/Ortp_Queue.thy ===== *)
theory Ortp_Queue
  imports Ortp_Mblk_Props
begin

text \<open>
  oRTP's message queues (\<open>queue_t\<close>, \<open>putq\<close> to \<open>flushq\<close> of \<open>ortp/src/str_utils.c\<close>), the message
  block allocator built on them, and the conversions between \<open>ortp_recv_addr_t\<close> and socket
  addresses.

  A queue is a doubly linked ring through \<open>b_prev\<close> and \<open>b_next\<close> closed by the stopper block
  embedded in \<open>queue_t\<close>: here the stopper is a block of the store and the queue record holds
  its address. Each assignment through a pointer is one update of the store, in the order
  of the source.
\<close>

section \<open>Operations\<close>

record queue =
  q_stopper :: ptr
  q_mcount :: int

definition qinit :: "mem \<Rightarrow> queue \<Rightarrow> (mem \<times> queue) option" where
  "qinit s q = do {
     s \<leftarrow> mblk_init s (q_stopper q);
     s \<leftarrow> upd_m s (q_stopper q) (\<lambda>m. m\<lparr>b_next := Some (q_stopper q)\<rparr>);
     s \<leftarrow> upd_m s (q_stopper q) (\<lambda>m. m\<lparr>b_prev := Some (q_stopper q)\<rparr>);
     Some (s, q\<lparr>q_mcount := 0\<rparr>) }"

definition putq :: "mem \<Rightarrow> queue \<Rightarrow> ptr \<Rightarrow> (mem \<times> queue) option" where
  "putq s q mp = do {
     st \<leftarrow> mblks s (q_stopper q);
     lst \<leftarrow> b_prev st;
     s \<leftarrow> upd_m s lst (\<lambda>m. m\<lparr>b_next := Some mp\<rparr>);
     st \<leftarrow> mblks s (q_stopper q);
     s \<leftarrow> upd_m s mp (\<lambda>m. m\<lparr>b_prev := b_prev st\<rparr>);
     s \<leftarrow> upd_m s mp (\<lambda>m. m\<lparr>b_next := Some (q_stopper q)\<rparr>);
     s \<leftarrow> upd_m s (q_stopper q) (\<lambda>m. m\<lparr>b_prev := Some mp\<rparr>);
     Some (s, q\<lparr>q_mcount := q_mcount q + 1\<rparr>) }"

definition getq :: "mem \<Rightarrow> queue \<Rightarrow> (ptr option \<times> mem \<times> queue) option" where
  "getq s q = do {
     st \<leftarrow> mblks s (q_stopper q);
     tmp \<leftarrow> b_next st;
     if tmp = q_stopper q then Some (None, s, q)
     else do {
       t \<leftarrow> mblks s tmp;
       s \<leftarrow> upd_m s (q_stopper q) (\<lambda>m. m\<lparr>b_next := b_next t\<rparr>);
       nx \<leftarrow> b_next t;
       s \<leftarrow> upd_m s nx (\<lambda>m. m\<lparr>b_prev := Some (q_stopper q)\<rparr>);
       s \<leftarrow> upd_m s tmp (\<lambda>m. m\<lparr>b_prev := None\<rparr>);
       s \<leftarrow> upd_m s tmp (\<lambda>m. m\<lparr>b_next := None\<rparr>);
       Some (Some tmp, s, q\<lparr>q_mcount := q_mcount q - 1\<rparr>) } }"

definition peekq :: "mem \<Rightarrow> queue \<Rightarrow> ptr option option" where
  "peekq s q = do {
     st \<leftarrow> mblks s (q_stopper q);
     tmp \<leftarrow> b_next st;
     if tmp = q_stopper q then Some None else Some (Some tmp) }"

definition insq :: "mem \<Rightarrow> queue \<Rightarrow> ptr option \<Rightarrow> ptr \<Rightarrow> (mem \<times> queue) option" where
  "insq s q emp mp =
     (case emp of
        None \<Rightarrow> putq s q mp
      | Some e \<Rightarrow> do {
          em \<leftarrow> mblks s e;
          ep \<leftarrow> b_prev em;
          s \<leftarrow> upd_m s ep (\<lambda>m. m\<lparr>b_next := Some mp\<rparr>);
          em \<leftarrow> mblks s e;
          s \<leftarrow> upd_m s mp (\<lambda>m. m\<lparr>b_prev := b_prev em\<rparr>);
          s \<leftarrow> upd_m s e (\<lambda>m. m\<lparr>b_prev := Some mp\<rparr>);
          s \<leftarrow> upd_m s mp (\<lambda>m. m\<lparr>b_next := Some e\<rparr>);
          Some (s, q\<lparr>q_mcount := q_mcount q + 1\<rparr>) })"

definition remq :: "mem \<Rightarrow> queue \<Rightarrow> ptr \<Rightarrow> (mem \<times> queue) option" where
  "remq s q mp = do {
     m \<leftarrow> mblks s mp;
     pv \<leftarrow> b_prev m;
     s \<leftarrow> upd_m s pv (\<lambda>x. x\<lparr>b_next := b_next m\<rparr>);
     m \<leftarrow> mblks s mp;
     nx \<leftarrow> b_next m;
     s \<leftarrow> upd_m s nx (\<lambda>x. x\<lparr>b_prev := b_prev m\<rparr>);
     s \<leftarrow> upd_m s mp (\<lambda>x. x\<lparr>b_next := None\<rparr>);
     s \<leftarrow> upd_m s mp (\<lambda>x. x\<lparr>b_prev := None\<rparr>);
     Some (s, q\<lparr>q_mcount := q_mcount q - 1\<rparr>) }"

partial_function (option) flushq :: "mem \<Rightarrow> queue \<Rightarrow> (mem \<times> queue) option" where
  "flushq s q = do {
     (mp, s, q) \<leftarrow> getq s q;
     case mp of
       None \<Rightarrow> Some (s, q)
     | Some p \<Rightarrow> do {
         s \<leftarrow> freemsg s (Some p);
         flushq s q } }"

section \<open>The block allocator\<close>

record msgb_allocator =
  ma_q :: queue
  max_blocks :: int

definition msgb_allocator_init :: "mem \<Rightarrow> msgb_allocator \<Rightarrow> (mem \<times> msgb_allocator) option" where
  "msgb_allocator_init s a = do {
     (s, q) \<leftarrow> qinit s (ma_q a);
     Some (s, a\<lparr>ma_q := q, max_blocks := 0\<rparr>) }"

definition msgb_allocator_set_max_blocks :: "msgb_allocator \<Rightarrow> int \<Rightarrow> msgb_allocator" where
  "msgb_allocator_set_max_blocks a n = a\<lparr>max_blocks := n\<rparr>"

text \<open>The lookup loop: the first large enough unused block, and the busy blocks before it.\<close>

partial_function (option)
  alloc_lookup :: "mem \<Rightarrow> queue \<Rightarrow> nat \<Rightarrow> ptr option \<Rightarrow> int \<Rightarrow> (ptr option \<times> int) option" where
  "alloc_lookup s q sz m busy = do {
     mp \<leftarrow> m;
     if mp = q_stopper q then Some (None, busy)
     else do {
       mb \<leftarrow> mblks s mp;
       d \<leftarrow> b_datap mb;
       x \<leftarrow> dblks s d;
       if length (db_buf x) \<ge> sz then
         (if db_ref x = 1 then Some (Some mp, busy)
          else alloc_lookup s q sz (b_next mb) (busy + 1))
       else alloc_lookup s q sz (b_next mb) busy } }"

definition msgb_allocator_alloc ::
  "mem \<Rightarrow> msgb_allocator \<Rightarrow> nat \<Rightarrow> (ptr option \<times> mem \<times> msgb_allocator) option" where
  "msgb_allocator_alloc s a sz = do {
     st \<leftarrow> mblks s (q_stopper (ma_q a));
     (found, busy) \<leftarrow> alloc_lookup s (ma_q a) sz (b_next st) 0;
     if max_blocks a \<noteq> 0 \<and> busy \<ge> max_blocks a then Some (None, s, a)
     else do {
       (f, s, a) \<leftarrow>
         (case found of
            Some f \<Rightarrow> Some (f, s, a)
          | None \<Rightarrow> do {
              let (f, s) = allocb s sz;
              fm \<leftarrow> mblks s f;
              d \<leftarrow> b_datap fm;
              s \<leftarrow> upd_d s d (\<lambda>x. x\<lparr>db_freefn := FreeMsgbAllocator\<rparr>);
              (s, q) \<leftarrow> putq s (ma_q a) f;
              Some (f, s, a\<lparr>ma_q := q\<rparr>) });
       (m, s) \<leftarrow> dupb s f;
       Some (m, s, a) } }"

definition msgb_allocator_uninit :: "mem \<Rightarrow> msgb_allocator \<Rightarrow> (mem \<times> msgb_allocator) option" where
  "msgb_allocator_uninit s a = do {
     (s, q) \<leftarrow> flushq s (ma_q a);
     Some (s, a\<lparr>ma_q := q\<rparr>) }"

section \<open>Receive addresses\<close>

text \<open>
  \<open>ortp_recv_addr_t\<close> keeps the address in a union of \<open>struct in_addr\<close> (4 bytes) and
  \<open>struct in6_addr\<close> (16 bytes). A socket address is the storage of a \<open>struct sockaddr_in\<close> or
  \<open>struct sockaddr_in6\<close>; the two share the family and the port. The address families have
  their values on Linux.
\<close>

definition AF_INET :: int where "AF_INET = 2"
definition AF_INET6 :: int where "AF_INET6 = 10"

record ortp_recv_addr_t =
  ra_family :: int
  ra_addr :: bytes
  ra_port :: u16

record sockaddr =
  sa_family :: int
  sin_port :: u16
  sin_addr :: bytes
  sin6_addr :: bytes

definition ortp_recvaddr_to_sockaddr :: "ortp_recv_addr_t \<Rightarrow> sockaddr \<Rightarrow> sockaddr \<times> nat" where
  "ortp_recvaddr_to_sockaddr recvaddr addr =
     (if ra_family recvaddr = AF_INET then
        (addr\<lparr>sa_family := AF_INET, sin_addr := take 4 (ra_addr recvaddr),
              sin_port := ra_port recvaddr\<rparr>, 16)
      else if ra_family recvaddr = AF_INET6 then
        (addr\<lparr>sa_family := AF_INET6, sin_port := ra_port recvaddr,
              sin6_addr := ra_addr recvaddr\<rparr>, 28)
      else (addr, 0))"

definition ortp_sockaddr_to_recvaddr :: "sockaddr \<Rightarrow> ortp_recv_addr_t \<Rightarrow> ortp_recv_addr_t" where
  "ortp_sockaddr_to_recvaddr addr recvaddr =
     (if sa_family addr = AF_INET then
        recvaddr\<lparr>ra_family := AF_INET, ra_port := sin_port addr,
                 ra_addr := sin_addr addr @ drop 4 (ra_addr recvaddr)\<rparr>
      else if sa_family addr = AF_INET6 then
        recvaddr\<lparr>ra_family := AF_INET6, ra_port := sin_port addr, ra_addr := sin6_addr addr\<rparr>
      else recvaddr)"

section \<open>Rings\<close>

text \<open>
  A ring as two pointer functions: \<open>dseg n p a xs b\<close> says that following \<open>n\<close> from \<open>a\<close> visits
  \<open>xs\<close> and then \<open>b\<close>, and that \<open>p\<close> leads back the same way.
\<close>

type_synonym links = "ptr \<Rightarrow> ptr option"

primrec dseg :: "links \<Rightarrow> links \<Rightarrow> ptr \<Rightarrow> ptr list \<Rightarrow> ptr \<Rightarrow> bool" where
  "dseg n p a [] b \<longleftrightarrow> n a = Some b \<and> p b = Some a"
| "dseg n p a (x # xs) b \<longleftrightarrow> n a = Some x \<and> p x = Some a \<and> dseg n p x xs b"

definition ring :: "links \<Rightarrow> links \<Rightarrow> ptr \<Rightarrow> ptr list \<Rightarrow> bool" where
  "ring n p st xs \<longleftrightarrow> dseg n p st xs st \<and> distinct (st # xs)"

lemma dseg_append: "dseg n p a (xs @ x # ys) b \<longleftrightarrow> dseg n p a xs x \<and> dseg n p x ys b"
  by (induction xs arbitrary: a) auto

lemma dseg_last: "dseg n p a xs b \<Longrightarrow> p b = Some (last (a # xs))"
  by (induction xs arbitrary: a) auto

lemma dseg_hd: "dseg n p a xs b \<Longrightarrow> n a = Some (hd (xs @ [b]))"
  by (cases xs) auto

lemma dseg_other [simp]:
  "c \<notin> set (a # xs) \<Longrightarrow> dseg (n(c := v)) p a xs b = dseg n p a xs b"
  "c \<notin> set (xs @ [b]) \<Longrightarrow> dseg n (p(c := v)) a xs b = dseg n p a xs b"
  by (induction xs arbitrary: a) auto

text \<open>The last link of a segment is moved to another end.\<close>

lemma dseg_retarget:
  assumes "dseg n p a ys e" and "distinct (a # ys)" and "x \<notin> set ys" and "l = last (a # ys)"
  shows "dseg (n(l := Some x)) (p(x := Some l)) a ys x"
  using assms
proof (induction ys arbitrary: a)
  case (Cons y ys)
  then have "a \<noteq> l" "x \<noteq> y" by (auto split: if_splits)
  with Cons show ?case by simp
qed simp

lemma ring_insert:
  assumes r: "ring n p st (ys @ zs)" and x: "x \<notin> set (st # ys @ zs)"
    and e: "e = hd (zs @ [st])" and l: "p e = Some l"
  shows "ring (n(l := Some x, x := Some e)) (p(x := Some l, e := Some x)) st (ys @ x # zs)"
proof (cases zs)
  case Nil
  have d: "dseg n p st ys st" and dist: "distinct (st # ys)" using r Nil by (auto simp: ring_def)
  have ll: "l = last (st # ys)" using dseg_last [OF d] l e Nil by simp
  have "l \<in> set (st # ys)" using ll last_in_set [of "st # ys"] by simp
  then show ?thesis
    using dseg_retarget [OF d dist _ ll, of x] x dist e Nil
    by (auto simp: ring_def dseg_append)
next
  case (Cons z zs')
  have d: "dseg n p st ys z" "dseg n p z zs' st" and dist: "distinct (st # ys @ z # zs')"
    using r Cons by (auto simp: ring_def dseg_append)
  have ll: "l = last (st # ys)" using dseg_last [OF d(1)] l e Cons by simp
  have "l \<in> set (st # ys)" using ll last_in_set [of "st # ys"] by simp
  then have "l \<notin> set (z # zs')" "l \<noteq> x" using dist x by auto
  then show ?thesis
    using dseg_retarget [OF d(1) _ _ ll, of x] d(2) x dist e Cons
    by (auto simp: ring_def dseg_append)
qed

lemma ring_remove:
  assumes r: "ring n p st (ys @ x # zs)" and l: "p x = Some l" and e: "n x = Some e"
  shows "ring (n(l := Some e, x := None)) (p(e := Some l, x := None)) st (ys @ zs)"
proof -
  have d: "dseg n p st ys x" "dseg n p x zs st" and dist: "distinct (st # ys @ x # zs)"
    using r by (auto simp: ring_def dseg_append)
  have ll: "l = last (st # ys)" using dseg_last [OF d(1)] l by simp
  then have lin: "l \<in> set (st # ys)" using last_in_set [of "st # ys"] by simp
  have ee: "e = hd (zs @ [st])" using dseg_hd [OF d(2)] e by simp
  show ?thesis
  proof (cases zs)
    case Nil
    then show ?thesis
      using dseg_retarget [OF d(1) _ _ ll, of st] dist ee lin by (auto simp: ring_def)
  next
    case (Cons z zs')
    then have "dseg n p z zs' st" "l \<notin> set (z # zs')" using d(2) dist lin by auto
    then show ?thesis
      using dseg_retarget [OF d(1) _ _ ll, of z] dist ee lin Cons
      by (auto simp: ring_def dseg_append)
  qed
qed

section \<open>Queues as lists\<close>

definition nx :: "mem \<Rightarrow> links" where
  "nx s a = do { m \<leftarrow> mblks s a; b_next m }"

definition pv :: "mem \<Rightarrow> links" where
  "pv s a = do { m \<leftarrow> mblks s a; b_prev m }"

text \<open>Everything but the queue links.\<close>

definition strip :: "mem \<Rightarrow> mem" where
  "strip s = s\<lparr>mblks := \<lambda>a. map_option (\<lambda>m. m\<lparr>b_prev := None, b_next := None\<rparr>) (mblks s a)\<rparr>"

definition qrep :: "mem \<Rightarrow> queue \<Rightarrow> ptr list \<Rightarrow> bool" where
  "qrep s q xs \<longleftrightarrow> ring (nx s) (pv s) (q_stopper q) xs \<and> q_mcount q = int (length xs)"

end
