(* ===== verification/Ortp_Queue_Props.thy ===== *)
theory Ortp_Queue_Props
  imports Ortp_Queue
begin

text \<open>
  The queue operations refine the list operations: each of them runs without a bad access
  on a well-formed ring, keeps the ring well formed and the counter exact, and changes
  nothing in the store but queue links.
\<close>

section \<open>Single assignments\<close>

abbreviation live :: "mem \<Rightarrow> ptr \<Rightarrow> bool" where
  "live s p \<equiv> mblks s p \<noteq> None"

lemma strip_mblks:
  "mblks (strip s) p = map_option (\<lambda>m. m\<lparr>b_prev := None, b_next := None\<rparr>) (mblks s p)"
  by (simp add: strip_def)

lemma strip_rest [simp]:
  "dblks (strip s) = dblks s" "brk (strip s) = brk s" "junk (strip s) = junk s"
  by (simp_all add: strip_def)

lemma strip_live: "strip s' = strip s \<Longrightarrow> live s' p = live s p"
  by (metis option.map_disc_iff strip_mblks)

lemma strip_fields:
  assumes "strip s' = strip s" and "mblks s p = Some m"
  obtains m' where "mblks s' p = Some m'" "b_cont m' = b_cont m" "b_datap m' = b_datap m"
    "frag_bytes s' m' = frag_bytes s m"
proof -
  obtain m' where m': "mblks s' p = Some m'"
    using strip_live [OF assms(1), of p] assms(2) by auto
  have "m'\<lparr>b_prev := None, b_next := None\<rparr> = m\<lparr>b_prev := None, b_next := None\<rparr>"
    using strip_mblks [of s' p] strip_mblks [of s p] assms m' by simp
  then have f: "b_cont m' = b_cont m" "b_datap m' = b_datap m" "b_rptr m' = b_rptr m"
    "b_wptr m' = b_wptr m"
    by (cases m, cases m', simp)+
  moreover have "dblks s' = dblks s" using assms(1) strip_rest(1) by metis
  ultimately show ?thesis using that m' by (simp add: frag_bytes_def cong: if_cong)
qed

lemma live_Some: "live s p \<Longrightarrow> \<exists>m. mblks s p = Some m" by auto

lemma pvD: "pv s a = Some b \<Longrightarrow> \<exists>m. mblks s a = Some m \<and> b_prev m = Some b"
  by (auto simp: pv_def bind_eq_Some_conv)

lemma nxD: "nx s a = Some b \<Longrightarrow> \<exists>m. mblks s a = Some m \<and> b_next m = Some b"
  by (auto simp: nx_def bind_eq_Some_conv)

lemma upd_next:
  assumes "live s p"
  obtains s' where "upd_m s p (\<lambda>m. m\<lparr>b_next := v\<rparr>) = Some s'" "nx s' = (nx s)(p := v)"
    "pv s' = pv s" "strip s' = strip s"
  using assms by (auto simp: upd_m_def nx_def pv_def strip_def fun_eq_iff)

lemma upd_prev:
  assumes "live s p"
  obtains s' where "upd_m s p (\<lambda>m. m\<lparr>b_prev := v\<rparr>) = Some s'" "pv s' = (pv s)(p := v)"
    "nx s' = nx s" "strip s' = strip s"
  using assms by (auto simp: upd_m_def nx_def pv_def strip_def fun_eq_iff)

lemma dseg_live: "dseg n p a xs b \<Longrightarrow> c \<in> set (a # xs) \<Longrightarrow> n c \<noteq> None"
  by (induction xs arbitrary: a) auto

lemma ring_live:
  "ring (nx s) (pv s) st xs \<Longrightarrow> c \<in> set (st # xs) \<Longrightarrow> live s c"
  using dseg_live [of "nx s" "pv s" st xs st c] by (auto simp: ring_def nx_def bind_eq_Some_conv)

lemma ring_prev:
  assumes "ring n p st (ys @ zs)" and "e = hd (zs @ [st])"
  shows "p e = Some (last (st # ys))"
  using assms by (cases zs) (auto simp: ring_def dseg_append dest: dseg_last)

section \<open>Operations on well-formed rings\<close>

lemma insert_steps:
  assumes r: "ring (nx s) (pv s) st (ys @ zs)" and x: "live s x" "x \<notin> set (st # ys @ zs)"
    and e: "e = hd (zs @ [st])"
  obtains m0 l s1 m1 s2 s3 s4 where "mblks s e = Some m0" "b_prev m0 = Some l"
    "upd_m s l (\<lambda>m. m\<lparr>b_next := Some x\<rparr>) = Some s1"
    "mblks s1 e = Some m1"
    "upd_m s1 x (\<lambda>m. m\<lparr>b_prev := b_prev m1\<rparr>) = Some s2"
    "upd_m s2 x (\<lambda>m. m\<lparr>b_next := Some e\<rparr>) = Some s3"
    "upd_m s3 e (\<lambda>m. m\<lparr>b_prev := Some x\<rparr>) = Some s4"
    "ring (nx s4) (pv s4) st (ys @ x # zs)" "strip s4 = strip s"
proof -
  have p: "pv s e = Some (last (st # ys))" (is "_ = Some ?l") by (rule ring_prev [OF r e])
  obtain m0 where m0: "mblks s e = Some m0" "b_prev m0 = Some ?l" using pvD [OF p] by blast
  have "?l \<in> set (st # ys @ zs)" using last_in_set [of "st # ys"] by auto
  then have "live s ?l" by (rule ring_live [OF r])
  then obtain s1 where s1: "upd_m s ?l (\<lambda>m. m\<lparr>b_next := Some x\<rparr>) = Some s1"
      "nx s1 = (nx s)(?l := Some x)" "pv s1 = pv s" "strip s1 = strip s" by (rule upd_next)
  obtain m1 where m1: "mblks s1 e = Some m1" "b_prev m1 = Some ?l"
    using pvD [of s1 e ?l] s1(3) p by auto
  have "live s1 x" using x strip_live [OF s1(4)] by simp
  then obtain s2 where s2: "upd_m s1 x (\<lambda>m. m\<lparr>b_prev := b_prev m1\<rparr>) = Some s2"
      "pv s2 = (pv s1)(x := b_prev m1)" "nx s2 = nx s1" "strip s2 = strip s1" by (rule upd_prev)
  have "live s2 x" using x strip_live [OF s1(4)] strip_live [OF s2(4)] by simp
  then obtain s3 where s3: "upd_m s2 x (\<lambda>m. m\<lparr>b_next := Some e\<rparr>) = Some s3"
      "nx s3 = (nx s2)(x := Some e)" "pv s3 = pv s2" "strip s3 = strip s2" by (rule upd_next)
  have "live s3 e"
    using m0(1) strip_live [OF s1(4)] strip_live [OF s2(4)] strip_live [OF s3(4)] by simp
  then obtain s4 where s4: "upd_m s3 e (\<lambda>m. m\<lparr>b_prev := Some x\<rparr>) = Some s4"
      "pv s4 = (pv s3)(e := Some x)" "nx s4 = nx s3" "strip s4 = strip s3" by (rule upd_prev)
  have "ring (nx s4) (pv s4) st (ys @ x # zs)"
    using ring_insert [OF r x(2) e p] s1(2,3) s2(2,3) s3(2,3) s4(2,3) m1(2) by simp
  moreover have "strip s4 = strip s" using s1(4) s2(4) s3(4) s4(4) by simp
  ultimately show ?thesis
    by (intro that [OF m0 s1(1) m1(1) s2(1) s3(1) s4(1)])
qed

lemma upd_m_swap:
  "x \<noteq> e \<Longrightarrow> do { s \<leftarrow> upd_m s x f; upd_m s e g } = do { s \<leftarrow> upd_m s e g; upd_m s x f }"
  by (auto simp: upd_m_def fun_upd_twist bind_eq_None_conv split: bind_splits)

lemma putq_ok:
  assumes q: "qrep s q xs" and x: "live s x" "x \<notin> set (q_stopper q # xs)"
  obtains s' q' where "putq s q x = Some (s', q')" "qrep s' q' (xs @ [x])"
    "strip s' = strip s" "q_stopper q' = q_stopper q"
proof -
  have r: "ring (nx s) (pv s) (q_stopper q) (xs @ [])" using q by (simp add: qrep_def)
  obtain m0 l s1 m1 s2 s3 s4 where m: "mblks s (q_stopper q) = Some m0" "b_prev m0 = Some l"
    "upd_m s l (\<lambda>m. m\<lparr>b_next := Some x\<rparr>) = Some s1"
    "mblks s1 (q_stopper q) = Some m1"
    "upd_m s1 x (\<lambda>m. m\<lparr>b_prev := b_prev m1\<rparr>) = Some s2"
    "upd_m s2 x (\<lambda>m. m\<lparr>b_next := Some (q_stopper q)\<rparr>) = Some s3"
    "upd_m s3 (q_stopper q) (\<lambda>m. m\<lparr>b_prev := Some x\<rparr>) = Some s4"
    "ring (nx s4) (pv s4) (q_stopper q) (xs @ [x])" "strip s4 = strip s"
    using insert_steps [OF r x(1) _ refl] x(2) by (metis append_Nil append_Nil2 list.sel(1))
  have "putq s q x = Some (s4, q\<lparr>q_mcount := q_mcount q + 1\<rparr>)"
    using m(1-7) by (simp add: putq_def)
  then show ?thesis
    by (rule that) (use q m(8,9) in \<open>auto simp: qrep_def\<close>)
qed

lemma insq_before:
  assumes q: "qrep s q (ys @ zs)" and x: "live s x" "x \<notin> set (q_stopper q # ys @ zs)"
    and e: "e = hd (zs @ [q_stopper q])"
  obtains s' q' where "insq s q (Some e) x = Some (s', q')" "qrep s' q' (ys @ x # zs)"
    "strip s' = strip s" "q_stopper q' = q_stopper q"
proof -
  have r: "ring (nx s) (pv s) (q_stopper q) (ys @ zs)" using q by (simp add: qrep_def)
  obtain m0 l s1 m1 s2 s3 s4 where m: "mblks s e = Some m0" "b_prev m0 = Some l"
    "upd_m s l (\<lambda>m. m\<lparr>b_next := Some x\<rparr>) = Some s1"
    "mblks s1 e = Some m1"
    "upd_m s1 x (\<lambda>m. m\<lparr>b_prev := b_prev m1\<rparr>) = Some s2"
    "upd_m s2 x (\<lambda>m. m\<lparr>b_next := Some e\<rparr>) = Some s3"
    "upd_m s3 e (\<lambda>m. m\<lparr>b_prev := Some x\<rparr>) = Some s4"
    "ring (nx s4) (pv s4) (q_stopper q) (ys @ x # zs)" "strip s4 = strip s"
    using insert_steps [OF r x e] by metis
  have "x \<noteq> e" using x(2) e by (cases zs) auto
  from upd_m_swap [OF this, of s2 "\<lambda>m. m\<lparr>b_next := Some e\<rparr>" "\<lambda>m. m\<lparr>b_prev := Some x\<rparr>", symmetric]
    m(6,7)
  have "do { s \<leftarrow> upd_m s2 e (\<lambda>m. m\<lparr>b_prev := Some x\<rparr>); upd_m s x (\<lambda>m. m\<lparr>b_next := Some e\<rparr>) } = Some s4"
    by simp
  then obtain s3' where "upd_m s2 e (\<lambda>m. m\<lparr>b_prev := Some x\<rparr>) = Some s3'"
    "upd_m s3' x (\<lambda>m. m\<lparr>b_next := Some e\<rparr>) = Some s4"
    by (auto simp: bind_eq_Some_conv)
  then have "insq s q (Some e) x = Some (s4, q\<lparr>q_mcount := q_mcount q + 1\<rparr>)"
    using m(1-5) by (simp add: insq_def)
  then show ?thesis
    by (rule that) (use q m(8,9) in \<open>auto simp: qrep_def\<close>)
qed

lemma remove_steps:
  assumes r: "ring (nx s) (pv s) st (ys @ x # zs)"
  obtains m l e s1 s2 s3 s4 where "mblks s x = Some m" "b_prev m = Some l" "b_next m = Some e"
    "l = last (st # ys)" "l \<noteq> x"
    "upd_m s l (\<lambda>m. m\<lparr>b_next := Some e\<rparr>) = Some s1"
    "upd_m s1 e (\<lambda>m. m\<lparr>b_prev := Some l\<rparr>) = Some s2"
    "upd_m s2 x (\<lambda>m. m\<lparr>b_prev := None\<rparr>) = Some s3"
    "upd_m s3 x (\<lambda>m. m\<lparr>b_next := None\<rparr>) = Some s4"
    "ring (nx s4) (pv s4) st (ys @ zs)" "strip s4 = strip s"
proof -
  have p: "pv s x = Some (last (st # ys))" (is "_ = Some ?l")
    using ring_prev [of _ _ st ys "x # zs"] r by simp
  obtain e where e: "nx s x = Some e"
    using r dseg_hd [of "nx s" "pv s" x zs st] by (auto simp: ring_def dseg_append)
  obtain m where m: "mblks s x = Some m" "b_prev m = Some ?l" "b_next m = Some e"
    using p e by (auto simp: pv_def nx_def bind_eq_Some_conv)
  have lin: "?l \<in> set (st # ys)" using last_in_set [of "st # ys"] by simp
  then have lx: "?l \<noteq> x" using r by (auto simp: ring_def)
  have ein: "e \<in> set (st # ys @ x # zs)"
    using r e dseg_hd [of "nx s" "pv s" x zs st] by (cases zs) (auto simp: ring_def dseg_append)
  have lv: "live s ?l" "live s e" "live s x"
    using ring_live [OF r] lin ein m(1) by auto
  from lv(1) obtain s1 where s1: "upd_m s ?l (\<lambda>m. m\<lparr>b_next := Some e\<rparr>) = Some s1"
      "nx s1 = (nx s)(?l := Some e)" "pv s1 = pv s" "strip s1 = strip s" by (rule upd_next)
  have "live s1 e" using lv strip_live [OF s1(4)] by simp
  then obtain s2 where s2: "upd_m s1 e (\<lambda>m. m\<lparr>b_prev := Some ?l\<rparr>) = Some s2"
      "pv s2 = (pv s1)(e := Some ?l)" "nx s2 = nx s1" "strip s2 = strip s1" by (rule upd_prev)
  have "live s2 x" using lv strip_live [OF s1(4)] strip_live [OF s2(4)] by simp
  then obtain s3 where s3: "upd_m s2 x (\<lambda>m. m\<lparr>b_prev := None\<rparr>) = Some s3"
      "pv s3 = (pv s2)(x := None)" "nx s3 = nx s2" "strip s3 = strip s2" by (rule upd_prev)
  have "live s3 x"
    using lv strip_live [OF s1(4)] strip_live [OF s2(4)] strip_live [OF s3(4)] by simp
  then obtain s4 where s4: "upd_m s3 x (\<lambda>m. m\<lparr>b_next := None\<rparr>) = Some s4"
      "nx s4 = (nx s3)(x := None)" "pv s4 = pv s3" "strip s4 = strip s3" by (rule upd_next)
  have "ring (nx s4) (pv s4) st (ys @ zs)"
    using ring_remove [OF r p e] s1(2,3) s2(2,3) s3(2,3) s4(2,3) by simp
  moreover have "strip s4 = strip s" using s1(4) s2(4) s3(4) s4(4) by simp
  ultimately show ?thesis
    by (intro that [OF m refl lx s1(1) s2(1) s3(1) s4(1)])
qed

lemma getq_ok:
  assumes q: "qrep s q (x # xs)"
  obtains s' q' where "getq s q = Some (Some x, s', q')" "qrep s' q' xs" "strip s' = strip s"
    "q_stopper q' = q_stopper q"
proof -
  have r: "ring (nx s) (pv s) (q_stopper q) ([] @ x # xs)" using q by (simp add: qrep_def)
  have "nx s (q_stopper q) = Some x" and xst: "x \<noteq> q_stopper q" using r by (auto simp: ring_def)
  then obtain m0 where m0: "mblks s (q_stopper q) = Some m0" "b_next m0 = Some x"
    using nxD by blast
  obtain m l e s1 s2 s3 s4 where m: "mblks s x = Some m" "b_next m = Some e"
    "l = last [q_stopper q]"
    "upd_m s l (\<lambda>m. m\<lparr>b_next := Some e\<rparr>) = Some s1"
    "upd_m s1 e (\<lambda>m. m\<lparr>b_prev := Some l\<rparr>) = Some s2"
    "upd_m s2 x (\<lambda>m. m\<lparr>b_prev := None\<rparr>) = Some s3"
    "upd_m s3 x (\<lambda>m. m\<lparr>b_next := None\<rparr>) = Some s4"
    "ring (nx s4) (pv s4) (q_stopper q) ([] @ xs)" "strip s4 = strip s"
    using remove_steps [OF r] by metis
  have "getq s q = Some (Some x, s4, q\<lparr>q_mcount := q_mcount q - 1\<rparr>)"
    using m0 m(1-7) xst by (simp add: getq_def)
  then show ?thesis
    by (rule that) (use q m(8,9) in \<open>auto simp: qrep_def\<close>)
qed

lemma getq_empty: "qrep s q [] \<Longrightarrow> getq s q = Some (None, s, q)"
  by (auto simp: qrep_def ring_def getq_def nx_def bind_eq_Some_conv)

lemma peekq_ok:
  assumes "qrep s q xs"
  shows "peekq s q = Some (case xs of [] \<Rightarrow> None | x # _ \<Rightarrow> Some x)"
proof -
  have "nx s (q_stopper q) = Some (hd (xs @ [q_stopper q]))"
    using assms by (auto simp: qrep_def ring_def dest: dseg_hd)
  then obtain m where "mblks s (q_stopper q) = Some m" "b_next m = Some (hd (xs @ [q_stopper q]))"
    using nxD by blast
  with assms show ?thesis by (cases xs) (auto simp: peekq_def qrep_def ring_def)
qed

lemma mblk_upd_order: "m\<lparr>b_next := a, b_prev := b\<rparr> = m\<lparr>b_prev := b, b_next := a\<rparr>"
  for m :: mblk
  by simp

lemma remq_ok:
  assumes q: "qrep s q (ys @ x # zs)"
  obtains s' q' where "remq s q x = Some (s', q')" "qrep s' q' (ys @ zs)" "strip s' = strip s"
    "q_stopper q' = q_stopper q"
proof -
  have r: "ring (nx s) (pv s) (q_stopper q) (ys @ x # zs)" using q by (simp add: qrep_def)
  obtain m l e s1 s2 s3 s4 where m: "mblks s x = Some m" "b_prev m = Some l" "b_next m = Some e"
    "l \<noteq> x"
    "upd_m s l (\<lambda>m. m\<lparr>b_next := Some e\<rparr>) = Some s1"
    "upd_m s1 e (\<lambda>m. m\<lparr>b_prev := Some l\<rparr>) = Some s2"
    "upd_m s2 x (\<lambda>m. m\<lparr>b_prev := None\<rparr>) = Some s3"
    "upd_m s3 x (\<lambda>m. m\<lparr>b_next := None\<rparr>) = Some s4"
    "ring (nx s4) (pv s4) (q_stopper q) (ys @ zs)" "strip s4 = strip s"
    using remove_steps [OF r] by metis
  have m1: "mblks s1 x = Some m"
    using m(1,4,5) by (auto simp: upd_m_def bind_eq_Some_conv)
  have "do { s \<leftarrow> upd_m s2 x (\<lambda>m. m\<lparr>b_next := None\<rparr>); upd_m s x (\<lambda>m. m\<lparr>b_prev := None\<rparr>) } = Some s4"
    using m(7,8) by (auto simp: upd_m_def bind_eq_Some_conv mblk_upd_order)
  then have "remq s q x = Some (s4, q\<lparr>q_mcount := q_mcount q - 1\<rparr>)"
    using m(1-3,5,6) m1 by (auto simp: remq_def bind_eq_Some_conv)
  then show ?thesis
    by (rule that) (use q m(9,10) in \<open>auto simp: qrep_def\<close>)
qed

section \<open>Messages in a queue\<close>

lemma owners_strip: "strip s' = strip s \<Longrightarrow> owners s d \<subseteq> owners s' d"
proof
  fix p assume e: "strip s' = strip s" and "p \<in> owners s d"
  then obtain m where m: "mblks s p = Some m" "b_datap m = Some d" by (auto simp: owners_def)
  obtain m' where "mblks s' p = Some m'" "b_datap m' = b_datap m" by (rule strip_fields [OF e m(1)])
  with m(2) show "p \<in> owners s' d" by (auto simp: owners_def)
qed

lemma refs_ok_strip:
  assumes "strip s' = strip s" and "refs_ok s ext"
  shows "refs_ok s' ext"
proof -
  have d: "dblks s' = dblks s" "brk s' = brk s" using assms(1) strip_rest by metis+
  have "owners s' = owners s"
    using owners_strip [OF assms(1)] owners_strip [OF assms(1) [symmetric]] by blast
  moreover have "dom (mblks s') = dom (mblks s)"
    using strip_live [OF assms(1)] by auto
  ultimately show ?thesis using assms(2) d strip_live [OF assms(1)] unfolding refs_ok_def by simp
qed

lemma chain_strip: "strip s' = strip s \<Longrightarrow> chain s mp ps \<Longrightarrow> chain s' mp ps"
proof (induction ps arbitrary: mp)
  case (Cons p ps)
  then obtain m where m: "mp = Some p" "mblks s p = Some m" "chain s (b_cont m) ps" by auto
  obtain m' where "mblks s' p = Some m'" "b_cont m' = b_cont m"
    by (rule strip_fields [OF Cons.prems(1) m(2)])
  with Cons.IH [OF Cons.prems(1) m(3)] m(1) show ?case by auto
qed simp

lemma dseg_cong:
  "\<forall>c \<in> set (a # xs). n' c = n c \<Longrightarrow> \<forall>c \<in> set (xs @ [b]). p' c = p c \<Longrightarrow>
   dseg n' p' a xs b = dseg n p a xs b"
  by (induction xs arbitrary: a) auto

lemma qrep_cong:
  assumes "\<And>c. c \<in> set (q_stopper q # xs) \<Longrightarrow> mblks s' c = mblks s c" and "qrep s q xs"
  shows "qrep s' q xs"
proof -
  have "dseg (nx s') (pv s') (q_stopper q) xs (q_stopper q)
      = dseg (nx s) (pv s) (q_stopper q) xs (q_stopper q)"
    using assms(1) by (intro dseg_cong) (auto simp: nx_def pv_def)
  with assms(2) show ?thesis by (simp add: qrep_def ring_def)
qed

text \<open>\<open>has_data s ps\<close>: every block of the chain \<open>ps\<close> refers to a data block.\<close>

definition has_data :: "mem \<Rightarrow> ptr list \<Rightarrow> bool" where
  "has_data s ps \<longleftrightarrow> (\<forall>p \<in> set ps. \<exists>m d. mblks s p = Some m \<and> b_datap m = Some d)"

lemma has_data_strip: "strip s' = strip s \<Longrightarrow> has_data s ps \<Longrightarrow> has_data s' ps"
  unfolding has_data_def by (metis strip_fields)

lemma flushq_ok:
  assumes "refs_ok s ext" and "qrep s q xs"
    and "\<And>x. x \<in> set xs \<Longrightarrow> chain s (Some x) (x # cs x) \<and> has_data s (x # cs x)"
    and "distinct (q_stopper q # concat (map (\<lambda>x. x # cs x) xs))"
  shows "\<exists>s' q'. flushq s q = Some (s', q') \<and> qrep s' q' [] \<and> refs_ok s' ext \<and>
    (\<forall>x \<in> set xs. \<forall>p \<in> set (x # cs x). mblks s' p = None) \<and>
    (\<forall>p. mblks s p = None \<longrightarrow> mblks s' p = None)"
  using assms
proof (induction xs arbitrary: s q)
  case Nil
  then show ?case by (auto simp: flushq.simps getq_empty)
next
  case (Cons x xs)
  obtain s1 q1 where g: "getq s q = Some (Some x, s1, q1)" "qrep s1 q1 xs" "strip s1 = strip s"
    "q_stopper q1 = q_stopper q"
    by (rule getq_ok [OF Cons.prems(2)])
  have ok1: "refs_ok s1 ext" by (rule refs_ok_strip [OF g(3) Cons.prems(1)])
  have ch1: "chain s1 (Some y) (y # cs y)" "has_data s1 (y # cs y)" if "y \<in> set (x # xs)" for y
    using Cons.prems(3) [OF that] chain_strip [OF g(3)] has_data_strip [OF g(3)] by blast+
  obtain s2 where f: "freemsg s1 (Some x) = Some s2" "refs_ok s2 ext"
      "mblks s2 = (\<lambda>c. if c \<in> set (x # cs x) then None else mblks s1 c)"
    using freemsg_ok [OF ok1, of "Some x" "x # cs x"] ch1 [of x] unfolding has_data_def by auto
  have keep: "mblks s2 c = mblks s1 c"
    if "c = q_stopper q \<or> c \<in> (\<Union>y \<in> set xs. set (y # cs y))" for c
    using that Cons.prems(4) f(3) by auto
  have d2: "distinct (q_stopper q1 # concat (map (\<lambda>x. x # cs x) xs))"
    using Cons.prems(4) g(4) by auto
  have "qrep s2 q1 xs"
    by (rule qrep_cong [OF _ g(2)]) (use keep g(4) in auto)
  moreover have "chain s2 (Some y) (y # cs y) \<and> has_data s2 (y # cs y)" if "y \<in> set xs" for y
  proof -
    have k: "mblks s2 c = mblks s1 c" if "c \<in> set (y # cs y)" for c
      using keep \<open>y \<in> set xs\<close> that by blast
    have "chain s2 (Some y) (y # cs y)"
      using ch1(1) [of y] chain_cong [of "y # cs y" s2 s1] k that by auto
    with ch1(2) [of y] that k show ?thesis unfolding has_data_def by auto
  qed
  ultimately obtain s' q' where r: "flushq s2 q1 = Some (s', q')" "qrep s' q' []" "refs_ok s' ext"
      "\<forall>y \<in> set xs. \<forall>p \<in> set (y # cs y). mblks s' p = None"
      "\<forall>p. mblks s2 p = None \<longrightarrow> mblks s' p = None"
    using Cons.IH [OF f(2) _ _ d2] by blast
  have "flushq s q = Some (s', q')"
    using g(1) f(1) r(1) by (simp add: flushq.simps [of s])
  moreover have "mblks s2 p = None" if "mblks s p = None" for p
    using that strip_live [OF g(3), of p] f(3) by auto
  moreover have "\<forall>p \<in> set (x # cs x). mblks s2 p = None" using f(3) by auto
  ultimately show ?case using r(2-5) by auto
qed

section \<open>First in, first out\<close>

text \<open>
  The contract of a queue as its users see it, and what follows from it for any sequence
  of insertions followed by removals.
\<close>

primrec feed :: "('s \<Rightarrow> 'a \<Rightarrow> 's option) \<Rightarrow> 's \<Rightarrow> 'a list \<Rightarrow> 's option" where
  "feed enq s [] = Some s"
| "feed enq s (x # xs) = do { s \<leftarrow> enq s x; feed enq s xs }"

primrec drain :: "('s \<Rightarrow> ('a option \<times> 's) option) \<Rightarrow> nat \<Rightarrow> 's \<Rightarrow> ('a list \<times> 's) option" where
  "drain deq 0 s = Some ([], s)"
| "drain deq (Suc n) s = do {
     (x, s) \<leftarrow> deq s;
     case x of None \<Rightarrow> Some ([], s)
     | Some y \<Rightarrow> do { (ys, s) \<leftarrow> drain deq n s; Some (y # ys, s) } }"

locale fifo =
  fixes rep :: "'s \<Rightarrow> 'a list \<Rightarrow> bool" and node :: "'s \<Rightarrow> 'a \<Rightarrow> bool"
    and enq :: "'s \<Rightarrow> 'a \<Rightarrow> 's option" and deq :: "'s \<Rightarrow> ('a option \<times> 's) option"
  assumes enq_law: "rep s xs \<Longrightarrow> node s x \<Longrightarrow> x \<notin> set xs \<Longrightarrow>
      \<exists>s'. enq s x = Some s' \<and> rep s' (xs @ [x]) \<and> node s' = node s"
    and deq_empty: "rep s [] \<Longrightarrow> deq s = Some (None, s)"
    and deq_law: "rep s (x # xs) \<Longrightarrow> \<exists>s'. deq s = Some (Some x, s') \<and> rep s' xs"
begin

lemma feed_ok:
  "rep s xs \<Longrightarrow> distinct (xs @ ys) \<Longrightarrow> \<forall>y \<in> set ys. node s y \<Longrightarrow>
   \<exists>s'. feed enq s ys = Some s' \<and> rep s' (xs @ ys)"
proof (induction ys arbitrary: s xs)
  case (Cons y ys)
  obtain s1 where "enq s y = Some s1" "rep s1 (xs @ [y])" "node s1 = node s"
    using enq_law [of s xs y] Cons.prems by auto
  with Cons.IH [of s1 "xs @ [y]"] Cons.prems show ?case by auto
qed simp

lemma drain_ok:
  "rep s xs \<Longrightarrow> \<exists>s'. drain deq (length xs + n) s = Some (xs, s') \<and> rep s' []"
proof (induction xs arbitrary: s)
  case Nil
  then show ?case by (cases n) (simp_all add: deq_empty)
next
  case (Cons x xs)
  obtain s1 where "deq s = Some (Some x, s1)" "rep s1 xs" using deq_law [OF Cons.prems] by blast
  with Cons.IH [of s1] show ?case by auto
qed

lemma fifo_order:
  assumes "rep s xs" and "distinct (xs @ ys)" and "\<forall>y \<in> set ys. node s y"
  shows "\<exists>s1 s2. feed enq s ys = Some s1 \<and> drain deq (length (xs @ ys) + n) s1 = Some (xs @ ys, s2) \<and>
    rep s2 []"
  using feed_ok [OF assms] drain_ok by blast

end

abbreviation q_node :: "mem \<times> queue \<Rightarrow> ptr \<Rightarrow> bool" where
  "q_node t x \<equiv> live (fst t) x \<and> x \<noteq> q_stopper (snd t)"

interpretation lq: fifo "\<lambda>t. qrep (fst t) (snd t)" q_node "\<lambda>t. putq (fst t) (snd t)"
  "\<lambda>t. getq (fst t) (snd t)"
proof
  fix t xs x
  assume "qrep (fst t) (snd t) xs" "q_node t x" "x \<notin> set xs"
  then obtain s' q' where "putq (fst t) (snd t) x = Some (s', q')" "qrep s' q' (xs @ [x])"
    "strip s' = strip (fst t)" "q_stopper q' = q_stopper (snd t)"
    using putq_ok [of "fst t" "snd t" xs x] by auto
  then show "\<exists>t'. putq (fst t) (snd t) x = Some t' \<and> qrep (fst t') (snd t') (xs @ [x]) \<and>
      q_node t' = q_node t"
    using strip_live [of s' "fst t"] by (auto simp: fun_eq_iff)
next
  fix t xs x
  assume "qrep (fst t) (snd t) (x # xs)"
  then show "\<exists>t'. getq (fst t) (snd t) = Some (Some x, t') \<and> qrep (fst t') (snd t') xs"
    by (rule getq_ok) auto
qed (simp add: getq_empty)

end
