(* ===== verification/Ortp_Queue_Spec.thy ===== *)
theory Ortp_Queue_Spec
  imports Ortp_Queue_Props
begin

text \<open>
  What the queues and the block allocator promise: first-in first-out order, insertion and
  removal in the middle, release of every queued message, and the reuse of free blocks.
\<close>

section \<open>The allocator\<close>

lemma alloc_lookup_ok:
  assumes "dseg (nx s) p a xs (q_stopper q)" and "q_stopper q \<notin> set xs" and "has_data s xs"
    and "refs_ok s ext" and "nx s a = Some c"
  shows "\<exists>r b. alloc_lookup s q sz (Some c) busy = Some (r, b) \<and> busy \<le> b \<and>
    (\<forall>f. r = Some f \<longrightarrow> f \<in> set xs \<and>
      (\<exists>m d x. mblks s f = Some m \<and> b_datap m = Some d \<and> dblks s d = Some x \<and>
        sz \<le> length (db_buf x) \<and> db_ref x = 1))"
  using assms
proof (induction xs arbitrary: a c busy)
  case Nil
  then show ?case by (simp add: alloc_lookup.simps)
next
  case (Cons y ys)
  have c: "c = y" "y \<noteq> q_stopper q" using Cons.prems(1,2,5) by auto
  obtain m d where m: "mblks s y = Some m" "b_datap m = Some d"
    using Cons.prems(3) by (auto simp: has_data_def)
  obtain x where x: "dblks s d = Some x" using refs_ok_dblk [OF Cons.prems(4) m] by blast
  have ds: "dseg (nx s) p y ys (q_stopper q)" using Cons.prems(1) by simp
  obtain c' where c': "nx s y = Some c'" using dseg_hd [OF ds] by blast
  then have nm: "b_next m = Some c'" using m by (simp add: nx_def)
  have hd: "has_data s ys" "q_stopper q \<notin> set ys"
    using Cons.prems(2,3) by (auto simp: has_data_def)
  have IH: "\<exists>r b. alloc_lookup s q sz (Some c') busy' = Some (r, b) \<and> busy' \<le> b \<and>
    (\<forall>f. r = Some f \<longrightarrow> f \<in> set ys \<and>
      (\<exists>m d x. mblks s f = Some m \<and> b_datap m = Some d \<and> dblks s d = Some x \<and>
        sz \<le> length (db_buf x) \<and> db_ref x = 1))" for busy'
    by (rule Cons.IH [OF ds hd(2,1) Cons.prems(4) c'])
  show ?case
  proof (cases "sz \<le> length (db_buf x) \<and> db_ref x = 1")
    case True
    with c m x show ?thesis by (simp add: alloc_lookup.simps)
  next
    case False
    then have "alloc_lookup s q sz (Some c) busy =
        alloc_lookup s q sz (Some c') (if sz \<le> length (db_buf x) then busy + 1 else busy)"
      using c m x nm by (simp add: alloc_lookup.simps [of s q sz "Some y"])
    with IH [of "if sz \<le> length (db_buf x) then busy + 1 else busy"] show ?thesis
      by (auto split: if_splits)
  qed
qed

lemma dupb_ref:
  assumes "mblks s f = Some m" "b_datap m = Some d" "dblks s d = Some x"
  shows "\<exists>n s' mb. dupb s f = Some (Some n, s') \<and> mblks s' = (mblks s)(n \<mapsto> mb) \<and>
    n = brk s \<and> b_datap mb = Some d \<and> dblks s' d = Some (x\<lparr>db_ref := db_ref x + 1\<rparr>)"
  using assms by (auto simp: dupb_def dblk_ref_def upd_d_def new_mblk_def)

text \<open>A message block that refers to a data block of at least \<open>sz\<close> bytes with \<open>n\<close> owners.\<close>

definition block_of :: "mem \<Rightarrow> ptr \<Rightarrow> nat \<Rightarrow> int \<Rightarrow> bool" where
  "block_of s f sz n \<longleftrightarrow> (\<exists>m d x. mblks s f = Some m \<and> b_datap m = Some d \<and> dblks s d = Some x \<and>
     sz \<le> length (db_buf x) \<and> db_ref x = n)"

lemma dup_found:
  assumes ok: "refs_ok s ext" and q: "qrep s q xs" and hd: "has_data s xs"
    and f: "f \<in> set xs" "block_of s f sz 1"
  shows "\<exists>n s'. dupb s f = Some (Some n, s') \<and> refs_ok s' ext \<and> qrep s' q xs \<and> has_data s' xs \<and>
    n \<notin> set xs \<and> block_of s' n sz 2"
proof -
  obtain m d x where m: "mblks s f = Some m" "b_datap m = Some d" "dblks s d = Some x"
    "sz \<le> length (db_buf x)" "db_ref x = 1" using f(2) by (auto simp: block_of_def)
  obtain n s' mb where r: "dupb s f = Some (Some n, s')" "mblks s' = (mblks s)(n \<mapsto> mb)" "n = brk s"
    "b_datap mb = Some d" "dblks s' d = Some (x\<lparr>db_ref := db_ref x + 1\<rparr>)"
    using dupb_ref [OF m(1-3)] by blast
  have ok': "refs_ok s' ext"
  proof -
    have "refs_ok (s\<lparr>dblks := (dblks s)(d \<mapsto> x\<lparr>db_ref := db_ref x + 1\<rparr>)\<rparr>) (ext(d := Suc (ext d)))"
      by (rule dblk_ref_ok [OF ok m(3)])
    from refs_ok_new_mblk [OF this, of "(mblk_meta_copy m mblk_zero)
        \<lparr>b_datap := Some d, b_rptr := b_rptr m, b_wptr := b_wptr m\<rparr>"]
    show ?thesis using r(1) m(1-3)
      by (auto simp: dupb_def dblk_ref_def upd_d_def new_mblk_def mem_upd_order)
  qed
  have fresh: "mblks s n = None" using refs_ok_fresh [OF ok] r(3) by simp
  have live: "live s c" if "c \<in> set (q_stopper q # xs)" for c
    using q ring_live [of s "q_stopper q" xs c] that by (simp add: qrep_def)
  then have nn: "n \<notin> set (q_stopper q # xs)" using fresh by blast
  have "qrep s' q xs" by (rule qrep_cong [OF _ q]) (use nn r(2) in auto)
  moreover have "has_data s' xs" using hd nn r(2) by (auto simp: has_data_def)
  moreover have "block_of s' n sz 2" using r(2,4,5) m(4,5) by (auto simp: block_of_def)
  ultimately show ?thesis using r(1) ok' nn by auto
qed

lemma new_block:
  assumes ok: "refs_ok s ext" and q: "qrep s q xs" and hd: "has_data s xs"
    and a: "allocb s sz = (f, s1)"
  shows "\<exists>m d s2 s3 q'. mblks s1 f = Some m \<and> b_datap m = Some d \<and>
    upd_d s1 d (\<lambda>x. x\<lparr>db_freefn := FreeMsgbAllocator\<rparr>) = Some s2 \<and> putq s2 q f = Some (s3, q') \<and>
    refs_ok s3 ext \<and> qrep s3 q' (xs @ [f]) \<and> has_data s3 (xs @ [f]) \<and> block_of s3 f sz 1 \<and>
    mblks s f = None"
proof -
  note al = allocb_ok [OF ok a]
  let ?m = "mblk_zero\<lparr>b_datap := Some (Suc f)\<rparr>"
  obtain x where x: "dblks s1 (Suc f) = Some x" "length (db_buf x) = sz" using al(5) by blast
  have "owners s1 (Suc f) = {f}"
  proof -
    have "owners s (Suc f) = {}" using refs_okD(1) [OF ok, of "Suc f"] al(6) by simp
    then have "mblks s p = Some k \<Longrightarrow> b_datap k \<noteq> Some (Suc f)" for p k
      by (auto simp: owners_def)
    then show ?thesis using al(3) by (auto simp: owners_def split: if_splits)
  qed
  moreover have "ext (Suc f) = 0" using refs_okD(1) [OF ok, of "Suc f"] al(6) by simp
  ultimately have r1: "db_ref x = 1" using refs_okD(1) [OF al(1), of "Suc f"] x(1) by simp
  define y where "y = x\<lparr>db_freefn := FreeMsgbAllocator\<rparr>"
  define s2 where "s2 = s1\<lparr>dblks := (dblks s1)(Suc f \<mapsto> y)\<rparr>"
  have u: "upd_d s1 (Suc f) (\<lambda>x. x\<lparr>db_freefn := FreeMsgbAllocator\<rparr>) = Some s2"
    using x by (simp add: upd_d_def s2_def y_def)
  have ok2: "refs_ok s2 ext"
    unfolding s2_def y_def by (rule refs_ok_upd_d [OF al(1) x(1)]) simp
  have "live s c" if "c \<in> set (q_stopper q # xs)" for c
    using q ring_live [of s "q_stopper q" xs c] that by (simp add: qrep_def)
  then have nf: "f \<notin> set (q_stopper q # xs)" using al(2) by blast
  have m2: "mblks s2 = (mblks s)(f \<mapsto> ?m)" using al(3) by (simp add: s2_def)
  have q2: "qrep s2 q xs" by (rule qrep_cong [OF _ q]) (use nf m2 in auto)
  obtain s3 q' where p: "putq s2 q f = Some (s3, q')" "qrep s3 q' (xs @ [f])" "strip s3 = strip s2"
    by (rule putq_ok [OF q2, of f]) (use m2 nf in auto)
  have "has_data s2 (xs @ [f])" using hd nf m2 by (auto simp: has_data_def mblk_zero_def)
  then have hd3: "has_data s3 (xs @ [f])" by (rule has_data_strip [OF p(3)])
  obtain m3 where m3: "mblks s3 f = Some m3" "b_datap m3 = b_datap ?m"
    using strip_fields [OF p(3), of f ?m] m2 by auto
  have "dblks s3 = dblks s2" using p(3) strip_rest(1) by metis
  then have "block_of s3 f sz 1"
    using m3 x(2) r1 by (simp add: block_of_def s2_def y_def)
  with u p refs_ok_strip [OF p(3) ok2] hd3 al(2,3) show ?thesis by auto
qed

text \<open>\<open>msgb_allocator_alloc\<close> never touches freed or foreign memory on a well-formed pool:
  it returns NULL only when a block limit is set and then changes nothing; otherwise it
  returns a block outside the pool, with room for \<open>size\<close> bytes, whose data block is shared by
  exactly the pool and the caller, and the pool has grown by at most one block.\<close>

theorem msgb_allocator_alloc_exclusive:
  assumes ok: "refs_ok s ext" and q: "qrep s (ma_q a) xs" and hd: "has_data s xs"
  shows "\<exists>r s' a' xs'. msgb_allocator_alloc s a sz = Some (r, s', a') \<and> refs_ok s' ext \<and>
    qrep s' (ma_q a') xs' \<and> has_data s' xs' \<and>
    (case r of
       None \<Rightarrow> max_blocks a \<noteq> 0 \<and> s' = s \<and> a' = a
     | Some n \<Rightarrow> n \<notin> set xs' \<and> block_of s' n sz 2 \<and>
         (xs' = xs \<or> (\<exists>f. xs' = xs @ [f] \<and> mblks s f = None)))"
proof -
  have r: "dseg (nx s) (pv s) (q_stopper (ma_q a)) xs (q_stopper (ma_q a))"
    "q_stopper (ma_q a) \<notin> set xs" using q by (auto simp: qrep_def ring_def)
  obtain c where c: "nx s (q_stopper (ma_q a)) = Some c" using dseg_hd [OF r(1)] by blast
  then obtain st where st: "mblks s (q_stopper (ma_q a)) = Some st" "b_next st = Some c"
    using nxD by blast
  obtain fo b where lk: "alloc_lookup s (ma_q a) sz (Some c) 0 = Some (fo, b)"
    "\<And>f. fo = Some f \<Longrightarrow> f \<in> set xs \<and> block_of s f sz 1"
    using alloc_lookup_ok [OF r hd ok c, of sz 0] unfolding block_of_def by blast
  show ?thesis
  proof (cases "max_blocks a \<noteq> 0 \<and> b \<ge> max_blocks a")
    case True
    with st lk ok q hd show ?thesis by (auto simp: msgb_allocator_alloc_def)
  next
    case lim: False
    show ?thesis
    proof (cases fo)
      case (Some f)
      with lk(2) dup_found [OF ok q hd] obtain n s' where
        "dupb s f = Some (Some n, s')" "refs_ok s' ext" "qrep s' (ma_q a) xs" "has_data s' xs"
        "n \<notin> set xs" "block_of s' n sz 2" by metis
      with Some st lk(1) lim show ?thesis
        by (intro exI [of _ "Some n"] exI [of _ s'] exI [of _ a] exI [of _ xs])
          (simp add: msgb_allocator_alloc_def)
    next
      case None
      obtain f s1 where al: "allocb s sz = (f, s1)" by fastforce
      obtain m d s2 s3 q' where nb: "mblks s1 f = Some m" "b_datap m = Some d"
        "upd_d s1 d (\<lambda>x. x\<lparr>db_freefn := FreeMsgbAllocator\<rparr>) = Some s2"
        "putq s2 (ma_q a) f = Some (s3, q')" "refs_ok s3 ext" "qrep s3 q' (xs @ [f])"
        "has_data s3 (xs @ [f])" "block_of s3 f sz 1" "mblks s f = None"
        using new_block [OF ok q hd al] by (elim exE conjE) rule
      obtain n s' where d: "dupb s3 f = Some (Some n, s')" "refs_ok s' ext"
        "qrep s' q' (xs @ [f])" "has_data s' (xs @ [f])" "n \<notin> set (xs @ [f])" "block_of s' n sz 2"
        using dup_found [OF nb(5-7) _ nb(8)] by auto
      with None st lk(1) lim al nb show ?thesis
        by (intro exI [of _ "Some n"] exI [of _ s'] exI [of _ "a\<lparr>ma_q := q'\<rparr>"] exI [of _ "xs @ [f]"])
          (simp add: msgb_allocator_alloc_def)
    qed
  qed
qed

section \<open>An example queue\<close>

text \<open>The stopper is block 0, message 1 is queued and message 3 is not; 2 and 4 are their data.\<close>

definition ex_q_store :: mem where
  "ex_q_store = \<lparr>mblks = [0 \<mapsto> mblk_zero\<lparr>b_prev := Some 1, b_next := Some 1\<rparr>,
                   1 \<mapsto> mblk_zero\<lparr>b_prev := Some 0, b_next := Some 0, b_datap := Some 2\<rparr>,
                   3 \<mapsto> mblk_zero\<lparr>b_datap := Some 4\<rparr>],
     dblks = [2 \<mapsto> \<lparr>db_buf = [1, 2], db_freefn = FreeNone, db_ref = 1\<rparr>,
              4 \<mapsto> \<lparr>db_buf = [3], db_freefn = FreeNone, db_ref = 1\<rparr>],
     brk = 5, junk = (\<lambda>_. 0)\<rparr>"

definition ex_q :: queue where
  "ex_q = \<lparr>q_stopper = 0, q_mcount = 1\<rparr>"

lemma ex_q_owners: "owners ex_q_store d = (if d = 2 then {1} else if d = 4 then {3} else {})"
  by (auto simp: owners_def ex_q_store_def mblk_zero_def split: if_splits)

lemma ex_q_facts:
  "refs_ok ex_q_store no_ext" "qrep ex_q_store ex_q [1]" "has_data ex_q_store [1]"
  unfolding refs_ok_def ex_q_owners
  by (auto simp: ex_q_store_def ex_q_def entry_ok_def qrep_def ring_def nx_def pv_def
      has_data_def mblk_zero_def)

theorem msgb_allocator_alloc_exclusive_witness:
  "\<exists>n s' a' xs'. msgb_allocator_alloc ex_q_store \<lparr>ma_q = ex_q, max_blocks = 0\<rparr> 2 = Some (Some n, s', a') \<and>
     n \<notin> set xs' \<and> block_of s' n 2 2 \<and> qrep s' (ma_q a') xs'"
  using msgb_allocator_alloc_exclusive
    [of ex_q_store no_ext "\<lparr>ma_q = ex_q, max_blocks = 0\<rparr>" "[1]" 2] ex_q_facts
  by (force split: option.splits)

section \<open>Queue operations\<close>

text \<open>C20: The queue is first in first out: from a queue holding \<open>xs\<close>, putting the messages \<open>ys\<close>
  with \<open>putq\<close> and then calling \<open>getq\<close> at least as many times as there are messages returns
  exactly \<open>xs\<close> followed by \<open>ys\<close>, in order, and leaves a well-formed empty queue.\<close>

theorem putq_getq_fifo:
  assumes "qrep s q xs" and "distinct (xs @ ys)" and "\<forall>y \<in> set ys. live s y \<and> y \<noteq> q_stopper q"
  shows "\<exists>t1 t2. feed (\<lambda>t. putq (fst t) (snd t)) (s, q) ys = Some t1 \<and>
    drain (\<lambda>t. getq (fst t) (snd t)) (length (xs @ ys) + n) t1 = Some (xs @ ys, t2) \<and>
    qrep (fst t2) (snd t2) []"
  using lq.fifo_order [of "(s, q)" xs ys n] assms by simp

theorem putq_getq_fifo_witness:
  "\<exists>t1 t2. feed (\<lambda>t. putq (fst t) (snd t)) (ex_q_store, ex_q) [3] = Some t1 \<and>
     drain (\<lambda>t. getq (fst t) (snd t)) 3 t1 = Some ([1, 3], t2)"
  using putq_getq_fifo [of ex_q_store ex_q "[1]" "[3]" 1] ex_q_facts
  by (auto simp: ex_q_store_def ex_q_def numeral_3_eq_3)

text \<open>\<open>insq\<close> puts a message right before the given one, \<open>remq\<close> of that message undoes it, and
  both keep the ring, the counter, and everything in the store except queue links.\<close>

theorem insq_remq_roundtrip:
  assumes q: "qrep s q (ys @ e # zs)" and x: "live s x" "x \<notin> set (q_stopper q # ys @ e # zs)"
  shows "\<exists>s1 q1 s2 q2. insq s q (Some e) x = Some (s1, q1) \<and> qrep s1 q1 (ys @ x # e # zs) \<and>
    remq s1 q1 x = Some (s2, q2) \<and> qrep s2 q2 (ys @ e # zs) \<and> q2 = q \<and> strip s2 = strip s"
proof -
  obtain s1 q1 where 1: "insq s q (Some e) x = Some (s1, q1)" "qrep s1 q1 (ys @ x # e # zs)"
    "strip s1 = strip s" "q_stopper q1 = q_stopper q"
    by (rule insq_before [OF q x]) auto
  obtain s2 q2 where 2: "remq s1 q1 x = Some (s2, q2)" "qrep s2 q2 (ys @ e # zs)"
    "strip s2 = strip s1" "q_stopper q2 = q_stopper q1"
    by (rule remq_ok [OF 1(2)])
  have "q_mcount q2 = q_mcount q" using q 2(2) by (simp add: qrep_def)
  then have "q2 = q" using 1(4) 2(4) by (cases q, cases q2) simp
  with 1 2 show ?thesis by auto
qed

theorem insq_remq_roundtrip_witness:
  "\<exists>s1 q1 s2. insq ex_q_store ex_q (Some 1) 3 = Some (s1, q1) \<and> qrep s1 q1 [3, 1] \<and>
     remq s1 q1 3 = Some (s2, ex_q) \<and> qrep s2 ex_q [1]"
  using insq_remq_roundtrip [of ex_q_store ex_q "[]" 1 "[]" 3] ex_q_facts
  by (auto simp: ex_q_store_def ex_q_def)

text \<open>\<open>flushq\<close> ends on every well-formed queue, leaves it empty and well formed, releases every
  block of every queued message and keeps the reference counts exact.\<close>

theorem flushq_releases_all:
  assumes "refs_ok s ext" and "qrep s q xs"
    and "\<And>x. x \<in> set xs \<Longrightarrow> chain s (Some x) (x # cs x) \<and> has_data s (x # cs x)"
    and "distinct (q_stopper q # concat (map (\<lambda>x. x # cs x) xs))"
  shows "\<exists>s' q'. flushq s q = Some (s', q') \<and> qrep s' q' [] \<and> refs_ok s' ext \<and>
    (\<forall>x \<in> set xs. \<forall>p \<in> set (x # cs x). mblks s' p = None) \<and>
    (\<forall>p. mblks s p = None \<longrightarrow> mblks s' p = None)"
  by (rule flushq_ok [OF assms])

theorem flushq_releases_all_witness:
  "\<exists>s' q'. flushq ex_q_store ex_q = Some (s', q') \<and> qrep s' q' [] \<and> mblks s' 1 = None"
proof -
  have "\<exists>s' q'. flushq ex_q_store ex_q = Some (s', q') \<and> qrep s' q' [] \<and> refs_ok s' no_ext \<and>
    (\<forall>x \<in> set [1]. \<forall>p \<in> set (x # (\<lambda>_. []) x). mblks s' p = None) \<and>
    (\<forall>p. mblks ex_q_store p = None \<longrightarrow> mblks s' p = None)"
    by (rule flushq_releases_all [OF ex_q_facts(1,2)])
      (simp_all add: ex_q_store_def ex_q_def has_data_def mblk_zero_def)
  then show ?thesis by auto
qed

text \<open>A socket address stored with \<open>ortp_sockaddr_to_recvaddr\<close> and read back with
  \<open>ortp_recvaddr_to_sockaddr\<close> has the same family, port and address, for IPv4 and IPv6, and
  the length written is not zero.\<close>

theorem recvaddr_roundtrip:
  assumes "sa_family addr = AF_INET \<and> length (sin_addr addr) = 4 \<or> sa_family addr = AF_INET6"
  shows "let (a, n) = ortp_recvaddr_to_sockaddr (ortp_sockaddr_to_recvaddr addr r) b in
    sa_family a = sa_family addr \<and> sin_port a = sin_port addr \<and>
    (sa_family addr = AF_INET \<longrightarrow> sin_addr a = sin_addr addr) \<and>
    (sa_family addr = AF_INET6 \<longrightarrow> sin6_addr a = sin6_addr addr) \<and> 0 < n"
  using assms
  by (auto simp: ortp_recvaddr_to_sockaddr_def ortp_sockaddr_to_recvaddr_def AF_INET_def AF_INET6_def)

theorem recvaddr_roundtrip_witness:
  "sin_addr (fst (ortp_recvaddr_to_sockaddr (ortp_sockaddr_to_recvaddr
      \<lparr>sa_family = 2, sin_port = 5060, sin_addr = [10, 0, 0, 1], sin6_addr = []\<rparr>
      \<lparr>ra_family = 0, ra_addr = replicate 16 0, ra_port = 0\<rparr>)
      \<lparr>sa_family = 0, sin_port = 0, sin_addr = [], sin6_addr = []\<rparr>)) = [10, 0, 0, 1]"
  using recvaddr_roundtrip [of "\<lparr>sa_family = 2, sin_port = 5060, sin_addr = [10, 0, 0, 1], sin6_addr = []\<rparr>"
      "\<lparr>ra_family = 0, ra_addr = replicate 16 0, ra_port = 0\<rparr>"
      "\<lparr>sa_family = 0, sin_port = 0, sin_addr = [], sin6_addr = []\<rparr>"]
  by (simp add: AF_INET_def AF_INET6_def Let_def split: prod.splits)

end
