(* ===== verification/Ortp_Rtp.thy ===== *)
theory Ortp_Rtp
  imports Ortp_Queue_Props
begin

text \<open>
  RTP packets in the jitter buffer: the header accessors and comparison macros of
  \<open>ortp/include/ortp/rtp.h\<close>, \<open>rtp_putq\<close>, \<open>rtp_peekq\<close>, \<open>rtp_peekq_permissive\<close> and
  \<open>check_for_seq_number_gap\<close> of \<open>ortp/src/rtpsession.c\<close>, \<open>queue_packet\<close> and
  \<open>check_for_seq_number_gap_immediate\<close> of \<open>ortp/src/rtpparse.c\<close>.

  A packet is a message block of the store; its header is read from its data block at
  \<open>b_rptr\<close>. Arguments of the comparison macros that C promotes to \<open>int\<close> are integers here.
\<close>

section \<open>Header access\<close>

definition view :: "mem \<Rightarrow> ptr \<Rightarrow> (bytes \<times> nat \<times> nat) option" where
  "view s p = do {
     m \<leftarrow> mblks s p;
     d \<leftarrow> b_datap m;
     x \<leftarrow> dblks s d;
     Some (db_buf x, b_rptr m, b_wptr m) }"

definition rtp_get_seqnumber :: "mem \<Rightarrow> ptr \<Rightarrow> u16 option" where
  "rtp_get_seqnumber s p = do { (b, r, w) \<leftarrow> view s p; rd16 b (r + 2) }"

definition rtp_get_timestamp :: "mem \<Rightarrow> ptr \<Rightarrow> u32 option" where
  "rtp_get_timestamp s p = do { (b, r, w) \<leftarrow> view s p; rd32 b (r + 4) }"

definition rtp_get_ssrc :: "mem \<Rightarrow> ptr \<Rightarrow> u32 option" where
  "rtp_get_ssrc s p = do { (b, r, w) \<leftarrow> view s p; rd32 b (r + 8) }"

definition rtp_get_version :: "mem \<Rightarrow> ptr \<Rightarrow> nat option" where
  "rtp_get_version s p = do { (b, r, w) \<leftarrow> view s p; x \<leftarrow> rd8 b r; Some (unat (drop_bit 6 x)) }"

definition rtp_get_extbit :: "mem \<Rightarrow> ptr \<Rightarrow> bool option" where
  "rtp_get_extbit s p = do { (b, r, w) \<leftarrow> view s p; x \<leftarrow> rd8 b r; Some (bit x 4) }"

definition rtp_get_cc :: "mem \<Rightarrow> ptr \<Rightarrow> nat option" where
  "rtp_get_cc s p = do { (b, r, w) \<leftarrow> view s p; x \<leftarrow> rd8 b r; Some (unat (x AND 15)) }"

definition rtp_get_markbit :: "mem \<Rightarrow> ptr \<Rightarrow> bool option" where
  "rtp_get_markbit s p = do { (b, r, w) \<leftarrow> view s p; x \<leftarrow> rd8 b (r + 1); Some (bit x 7) }"

definition rtp_get_payload_type :: "mem \<Rightarrow> ptr \<Rightarrow> nat option" where
  "rtp_get_payload_type s p = do { (b, r, w) \<leftarrow> view s p; x \<leftarrow> rd8 b (r + 1); Some (unat (x AND 127)) }"

definition RTP_FIXED_HEADER_SIZE :: nat where
  "RTP_FIXED_HEADER_SIZE = 12"

definition RTP_TIMESTAMP_IS_NEWER_THAN :: "u32 \<Rightarrow> u32 \<Rightarrow> bool" where
  "RTP_TIMESTAMP_IS_NEWER_THAN ts1 ts2 \<longleftrightarrow> ts1 - ts2 < 2147483648"

definition RTP_TIMESTAMP_IS_STRICTLY_NEWER_THAN :: "u32 \<Rightarrow> u32 \<Rightarrow> bool" where
  "RTP_TIMESTAMP_IS_STRICTLY_NEWER_THAN ts1 ts2 \<longleftrightarrow> ts1 - ts2 < 2147483648 \<and> ts1 \<noteq> ts2"

text \<open>The last comparison of this macro is done on the promoted arguments.\<close>

definition RTP_SEQ_IS_STRICTLY_GREATER_THAN :: "int \<Rightarrow> int \<Rightarrow> bool" where
  "RTP_SEQ_IS_STRICTLY_GREATER_THAN seq1 seq2 \<longleftrightarrow>
     (word_of_int seq1 - word_of_int seq2 :: u16) < 32768 \<and> seq1 \<noteq> seq2"

section \<open>The jitter buffer queue\<close>

definition qfirst :: "mem \<Rightarrow> queue \<Rightarrow> ptr option option" where
  "qfirst s q = do {
     st \<leftarrow> mblks s (q_stopper q);
     f \<leftarrow> b_next st;
     Some (if f \<noteq> q_stopper q then Some f else None) }"

definition qlast :: "mem \<Rightarrow> queue \<Rightarrow> ptr option option" where
  "qlast s q = do {
     st \<leftarrow> mblks s (q_stopper q);
     l \<leftarrow> b_prev st;
     Some (if l \<noteq> q_stopper q then Some l else None) }"

definition qempty :: "mem \<Rightarrow> queue \<Rightarrow> bool option" where
  "qempty s q = do { st \<leftarrow> mblks s (q_stopper q); Some (b_next st = Some (q_stopper q)) }"

partial_function (option)
  rtp_putq_loop :: "mem \<Rightarrow> queue \<Rightarrow> ptr \<Rightarrow> u16 \<Rightarrow> ptr option \<Rightarrow> (int \<times> mem \<times> queue) option" where
  "rtp_putq_loop s q mp seq_number tmp = do {
     t \<leftarrow> tmp;
     if t = q_stopper q then do {
       f \<leftarrow> qfirst s q;
       (s, q) \<leftarrow> insq s q f mp;
       Some (0, s, q)
     } else do {
       tm \<leftarrow> mblks s t;
       tmp_seq_number \<leftarrow> rtp_get_seqnumber s t;
       if seq_number = tmp_seq_number then do {
         s \<leftarrow> freemsg s (Some mp);
         Some (-1, s, q)
       } else if RTP_SEQ_IS_STRICTLY_GREATER_THAN (uint seq_number) (uint tmp_seq_number) then do {
         (s, q) \<leftarrow> insq s q (b_next tm) mp;
         Some (0, s, q)
       } else rtp_putq_loop s q mp seq_number (b_prev tm) } }"

definition rtp_putq :: "mem \<Rightarrow> queue \<Rightarrow> ptr \<Rightarrow> (int \<times> mem \<times> queue) option" where
  "rtp_putq s q mp = do {
     seq_number \<leftarrow> rtp_get_seqnumber s mp;
     e \<leftarrow> qempty s q;
     if e then do {
       (s, q) \<leftarrow> putq s q mp;
       Some (0, s, q)
     } else do {
       tmp \<leftarrow> qlast s q;
       rtp_putq_loop s q mp seq_number tmp } }"

partial_function (option)
  rtp_peekq_loop :: "mem \<Rightarrow> queue \<Rightarrow> u32 \<Rightarrow> ptr option \<Rightarrow> ptr option \<Rightarrow> u32 \<Rightarrow> int
      \<Rightarrow> (ptr option \<times> int \<times> mem) option" where
  "rtp_peekq_loop s q timestamp ret old ts_found rejected = do {
     tmp \<leftarrow> qfirst s q;
     case tmp of
       None \<Rightarrow> Some (ret, rejected, s)
     | Some t \<Rightarrow> do {
         tmp_timestamp \<leftarrow> rtp_get_timestamp s t;
         if RTP_TIMESTAMP_IS_NEWER_THAN timestamp tmp_timestamp then
           (if ret \<noteq> None \<and> tmp_timestamp = ts_found then Some (ret, rejected, s)
            else do {
              (rejected, s) \<leftarrow>
                (case old of
                   None \<Rightarrow> Some (rejected, s)
                 | Some o1 \<Rightarrow> do { s \<leftarrow> freemsg s (Some o1); Some (rejected + 1, s) });
              ret \<leftarrow> peekq s q;
              rtp_peekq_loop s q timestamp ret ret tmp_timestamp rejected })
         else Some (ret, rejected, s) } }"

definition rtp_peekq :: "mem \<Rightarrow> queue \<Rightarrow> u32 \<Rightarrow> (ptr option \<times> int \<times> mem) option" where
  "rtp_peekq s q timestamp = do {
     e \<leftarrow> qempty s q;
     if e then Some (None, 0, s) else rtp_peekq_loop s q timestamp None None 0 0 }"

definition rtp_peekq_permissive :: "mem \<Rightarrow> queue \<Rightarrow> u32 \<Rightarrow> (ptr option \<times> int \<times> mem) option" where
  "rtp_peekq_permissive s q timestamp = do {
     e \<leftarrow> qempty s q;
     if e then Some (None, 0, s)
     else do {
       f \<leftarrow> qfirst s q;
       tmp \<leftarrow> f;
       tmp_timestamp \<leftarrow> rtp_get_timestamp s tmp;
       if RTP_TIMESTAMP_IS_NEWER_THAN timestamp tmp_timestamp then do {
         ret \<leftarrow> peekq s q;
         Some (ret, 0, s)
       } else Some (None, 0, s) } }"

text \<open>
  \<open>queue_packet\<close>: the result is the returned flag with \<open>*discarded\<close> and \<open>*duplicate\<close>. The
  warning of the trimming loop reads the timestamp of the packet it drops.
\<close>

partial_function (option)
  queue_trim :: "mem \<Rightarrow> queue \<Rightarrow> int \<Rightarrow> int \<Rightarrow> (int \<times> mem \<times> queue) option" where
  "queue_trim s q maxrqsz discarded =
     (if q_mcount q > maxrqsz then do {
        (tmp, s, q) \<leftarrow> getq s q;
        t \<leftarrow> tmp;
        ts \<leftarrow> rtp_get_timestamp s t;
        s \<leftarrow> freemsg s (Some t);
        queue_trim s q maxrqsz (discarded + 1)
      } else Some (discarded, s, q))"

definition queue_packet :: "mem \<Rightarrow> queue \<Rightarrow> int \<Rightarrow> ptr \<Rightarrow> (bool \<times> int \<times> int \<times> mem \<times> queue) option" where
  "queue_packet s q maxrqsz mp = do {
     cc \<leftarrow> rtp_get_cc s mp;
     let header_size = RTP_FIXED_HEADER_SIZE + 4 * cc;
     (b, r, w) \<leftarrow> view s mp;
     if int w - int r = int header_size then do {
       s \<leftarrow> freemsg s (Some mp);
       Some (False, 1, 0, s, q)
     } else do {
       (ret, s, q) \<leftarrow> rtp_putq s q mp;
       if ret < 0 then Some (False, 0, 1, s, q)
       else do {
         (discarded, s, q) \<leftarrow> queue_trim s q maxrqsz 0;
         Some (True, discarded, 0, s, q) } } }"

section \<open>Requesting missing packets\<close>

text \<open>
  A generic NACK names packet \<open>pid\<close> and, by the bits of \<open>blp\<close>, packets after it. A shift by a
  negative amount is undefined in C and \<open>None\<close> here.
\<close>

function nack_blp :: "u16 \<Rightarrow> u16 \<Rightarrow> u16 \<Rightarrow> u16 \<Rightarrow> (u16 \<times> u16) option" where
  "nack_blp pid seq_number seq blp =
     (if seq < seq_number \<and> uint seq - uint pid < 16 then
        (if uint seq - uint pid - 1 < 0 then None
         else nack_blp pid seq_number (seq + 1) (blp OR push_bit (nat (uint seq - uint pid - 1)) 1))
      else Some (seq, blp))"
  by pat_completeness auto
termination
proof (relation "measure (\<lambda>(pid, seq_number, seq, blp). unat seq_number - unat seq)")
  fix pid seq_number seq blp :: u16
  assume "seq < seq_number \<and> uint seq - uint pid < 16"
  then have "unat seq < unat seq_number" by (simp add: word_less_nat_alt)
  moreover have "unat (seq + 1) = unat seq + 1"
  proof -
    have "unat seq + 1 < 65536" using calculation u16_unat_less [of seq_number] by linarith
    then show ?thesis by (simp add: unat_word_ariths)
  qed
  ultimately show "((pid, seq_number, seq + 1, blp OR push_bit (nat (uint seq - uint pid - 1)) 1),
      (pid, seq_number, seq, blp)) \<in> measure (\<lambda>(pid, seq_number, seq, blp). unat seq_number - unat seq)"
    by simp
qed simp

declare nack_blp.simps [simp del]

primrec nack_loop :: "nat \<Rightarrow> u16 \<Rightarrow> u16 \<Rightarrow> (u16 \<times> u16) list option" where
  "nack_loop 0 pid seq_number = Some []"
| "nack_loop (Suc n) pid seq_number = do {
     (seq, blp) \<leftarrow> nack_blp pid seq_number (pid + 1) 0;
     rest \<leftarrow> nack_loop n seq seq_number;
     Some ((pid, blp) # rest) }"

definition nacks_from :: "u16 \<Rightarrow> u16 \<Rightarrow> (u16 \<times> u16) list option" where
  "nacks_from first_missed_seq seq_number =
     (let diff = seq_number - first_missed_seq in
      nack_loop (unat diff div 16 + 1) first_missed_seq seq_number)"

text \<open>\<open>check_for_seq_number_gap\<close>: the NACKs it sends.\<close>

definition check_for_seq_number_gap :: "bool \<Rightarrow> u16 \<Rightarrow> u16 \<Rightarrow> (u16 \<times> u16) list option" where
  "check_for_seq_number_gap first_packet_delivered rcv_last_seq seq_number =
     (if first_packet_delivered \<and>
         RTP_SEQ_IS_STRICTLY_GREATER_THAN (uint seq_number) (uint rcv_last_seq + 1)
      then nacks_from (rcv_last_seq + 1) seq_number
      else Some [])"

text \<open>
  \<open>check_for_seq_number_gap_immediate\<close>: the NACKs it sends, the new \<open>stats.loss_before_nack\<close>
  and the new \<open>rtp.snd_last_nack\<close>. Under congestion the first turn of the loop returns from
  the function.
\<close>

definition check_for_seq_number_gap_immediate ::
  "bool \<Rightarrow> bool \<Rightarrow> u16 \<Rightarrow> u16 \<Rightarrow> u64 \<Rightarrow> u16 \<Rightarrow> ((u16 \<times> u16) list \<times> u64 \<times> u16) option" where
  "check_for_seq_number_gap_immediate first_packet_delivered congested rcv_last_seq snd_last_nack
     loss_before_nack seq_number =
     (let last_nack =
        (if RTP_SEQ_IS_STRICTLY_GREATER_THAN (uint seq_number) (uint snd_last_nack)
         then seq_number else snd_last_nack) in
      if first_packet_delivered \<and>
         RTP_SEQ_IS_STRICTLY_GREATER_THAN (uint seq_number) (uint rcv_last_seq + 1) \<and>
         RTP_SEQ_IS_STRICTLY_GREATER_THAN (uint seq_number) (uint snd_last_nack + 1)
      then
        (let first_missed_seq = rcv_last_seq + 1;
             first_missed_seq = (if first_missed_seq \<le> snd_last_nack then snd_last_nack + 1
                                 else first_missed_seq);
             diff = seq_number - first_missed_seq;
             loss = loss_before_nack + ucast diff in
         do {
           (seq, blp) \<leftarrow> nack_blp first_missed_seq seq_number (first_missed_seq + 1) 0;
           if congested then Some ([], loss, snd_last_nack)
           else do {
             ns \<leftarrow> nacks_from first_missed_seq seq_number;
             Some (ns, loss, last_nack) } })
      else Some ([], loss_before_nack, last_nack))"

section \<open>Wait points\<close>

record wait_point =
  wp_time :: u32
  wp_wakeup :: bool

definition wait_point_init :: wait_point where
  "wait_point_init = \<lparr>wp_time = 0, wp_wakeup = False\<rparr>"

text \<open>\<open>wait_point_wakeup_at\<close> without the wait on the condition variable that follows.\<close>

definition wait_point_wakeup_at :: "wait_point \<Rightarrow> u32 \<Rightarrow> wait_point" where
  "wait_point_wakeup_at wp t = wp\<lparr>wp_time := t, wp_wakeup := True\<rparr>"

definition wait_point_check :: "wait_point \<Rightarrow> u32 \<Rightarrow> bool \<times> wait_point" where
  "wait_point_check wp t =
     (if wp_wakeup wp \<and> RTP_TIMESTAMP_IS_NEWER_THAN t (wp_time wp)
      then (True, wp\<lparr>wp_wakeup := False\<rparr>) else (False, wp))"

end
