(* ===== verification/Ortp_Rtp_Ext.thy ===== *)
theory Ortp_Rtp_Ext
  imports Ortp_Rtp
begin

text \<open>
  The packet API of \<open>ortp/src/rtpsession.c\<close>: CSRC list, payload and RFC 8285 header extensions,
  with its users \<open>ortp/src/rtpaudiolevel.c\<close> and \<open>ortp/src/rtpframemarking.c\<close>.

  A pointer into a packet is an offset in the data block of its message block. Output
  parameters that a call may leave unset are options, and reading an unset one is \<open>None\<close>.
  A \<open>data\<close> pointer with its \<open>size\<close> is a byte list.
\<close>

section \<open>Writing into a packet\<close>

definition mwrite :: "mem \<Rightarrow> ptr \<Rightarrow> nat \<Rightarrow> bytes \<Rightarrow> mem option" where
  "mwrite s p off bs = do {
     m \<leftarrow> mblks s p;
     d \<leftarrow> b_datap m;
     x \<leftarrow> dblks s d;
     b \<leftarrow> wr_block (db_buf x) off bs;
     upd_d s d (\<lambda>y. y\<lparr>db_buf := b\<rparr>) }"

definition rtp_set_extbit :: "mem \<Rightarrow> ptr \<Rightarrow> mem option" where
  "rtp_set_extbit s p = do {
     (b, r, w) \<leftarrow> view s p;
     x \<leftarrow> rd8 b r;
     mwrite s p r [x OR 16] }"

definition rtp_add_csrc :: "mem \<Rightarrow> ptr \<Rightarrow> u32 \<Rightarrow> mem option" where
  "rtp_add_csrc s p csrc = do {
     (b, r, w) \<leftarrow> view s p;
     x \<leftarrow> rd8 b r;
     let cc = unat (x AND 15);
     s \<leftarrow> mwrite s p (r + 12 + 4 * cc) (enc32 csrc);
     mwrite s p r [(x AND 0xF0) OR ((x + 1) AND 15)] }"

definition rtp_get_csrc :: "mem \<Rightarrow> ptr \<Rightarrow> nat \<Rightarrow> u32 option" where
  "rtp_get_csrc s p i = do { (b, r, w) \<leftarrow> view s p; rd32 b (r + 12 + 4 * i) }"

section \<open>Payload and extension header\<close>

definition rtp_get_extheader :: "mem \<Rightarrow> ptr \<Rightarrow> (int \<times> u16 option \<times> nat option) option" where
  "rtp_get_extheader s p = do {
     (b, r, w) \<leftarrow> view s p;
     e \<leftarrow> rtp_get_extbit s p;
     if e then do {
       cc \<leftarrow> rtp_get_cc s p;
       let ext_header = r + RTP_FIXED_HEADER_SIZE + cc * 4;
       if ext_header + 4 \<le> w then do {
         h \<leftarrow> rd32 b ext_header;
         let sz = unat (h AND 0xFFFF) * 4;
         let profile = (ucast (drop_bit 16 h) :: u16);
         if ext_header + 4 + sz > w then Some (-1, Some profile, None)
         else Some (int sz, Some profile, Some (ext_header + 4))
       } else Some (-1, None, None)
     } else Some (-1, None, None) }"

text \<open>The start is a position in the packet's block or in the block that follows it.\<close>

definition rtp_get_payload :: "mem \<Rightarrow> ptr \<Rightarrow> (int \<times> (ptr \<times> nat) option) option" where
  "rtp_get_payload s p = do {
     (b, r, w) \<leftarrow> view s p;
     cc \<leftarrow> rtp_get_cc s p;
     e \<leftarrow> rtp_get_extbit s p;
     header_len \<leftarrow>
       (if e then do {
          (extsize, _, _) \<leftarrow> rtp_get_extheader s p;
          Some (if extsize \<ge> 0 then RTP_FIXED_HEADER_SIZE + cc * 4 + 4 + nat extsize
                else RTP_FIXED_HEADER_SIZE + cc * 4)
        } else Some (RTP_FIXED_HEADER_SIZE + cc * 4));
     let tmp = r + header_len;
     if tmp \<ge> w then do {
       m \<leftarrow> mblks s p;
       case b_cont m of
         None \<Rightarrow> Some (-1, None)
       | Some c \<Rightarrow> do {
           (cb, cr, cw) \<leftarrow> view s c;
           let tmp = cr + (header_len - (w - r));
           if tmp \<le> cw then Some (int (cw - tmp), Some (c, tmp)) else Some (-1, None) }
     } else Some (int (w - tmp), Some (p, tmp)) }"

text \<open>The search loops over one-byte and two-byte extension elements.\<close>

function find_ext1 :: "bytes \<Rightarrow> int \<Rightarrow> nat \<Rightarrow> nat \<Rightarrow> (nat \<times> nat) option option" where
  "find_ext1 b i tmp lim =
     (if tmp < lim then do {
        x \<leftarrow> rd8 b tmp;
        if x = 15 then Some None
        else if x = 0 then find_ext1 b i (tmp + 1) lim
        else if i = uint (drop_bit 4 x) then Some (Some (tmp, unat (x AND 15) + 1))
        else find_ext1 b i (tmp + (unat (x AND 15) + 1) + 1) lim
      } else Some None)"
  by pat_completeness auto
termination by (relation "measure (\<lambda>(b, i, tmp, lim). lim - tmp)") auto

function find_ext2 :: "bytes \<Rightarrow> int \<Rightarrow> nat \<Rightarrow> nat \<Rightarrow> (nat \<times> nat) option option" where
  "find_ext2 b i tmp lim =
     (if tmp < lim then do {
        x \<leftarrow> rd8 b tmp;
        if x = 0 then find_ext2 b i (tmp + 1) lim
        else do {
          y \<leftarrow> rd8 b (tmp + 1);
          if i = uint x then Some (Some (tmp, unat y))
          else find_ext2 b i (tmp + unat y + 2) lim }
      } else Some None)"
  by pat_completeness auto
termination by (relation "measure (\<lambda>(b, i, tmp, lim). lim - tmp)") auto

declare find_ext1.simps [simp del] find_ext2.simps [simp del]

text \<open>\<open>rtp_get_extension_header\<close> returns the size and the position of the data.\<close>

definition rtp_get_extension_header :: "mem \<Rightarrow> ptr \<Rightarrow> int \<Rightarrow> (int \<times> nat option) option" where
  "rtp_get_extension_header s p i = do {
     e \<leftarrow> rtp_get_extbit s p;
     if \<not> e then Some (-1, None)
     else do {
       (ext_header_size, profile, ext_header) \<leftarrow> rtp_get_extheader s p;
       if ext_header_size = -1 then Some (-1, None)
       else do {
         (b, r, w) \<leftarrow> view s p;
         pr \<leftarrow> profile;
         tmp \<leftarrow> ext_header;
         let lim = tmp + nat ext_header_size;
         if pr = 0xBEDE then do {
           f \<leftarrow> find_ext1 b i tmp lim;
           Some (case f of None \<Rightarrow> (-1, None) | Some (t, sz) \<Rightarrow> (int sz, Some (t + 1)))
         } else do {
           f \<leftarrow> find_ext2 b i tmp lim;
           Some (case f of None \<Rightarrow> (-1, None) | Some (t, sz) \<Rightarrow> (int sz, Some (t + 2))) } } } }"

definition rtp_delete_extension_header :: "mem \<Rightarrow> ptr \<Rightarrow> int \<Rightarrow> mem option" where
  "rtp_delete_extension_header s p i = do {
     e \<leftarrow> rtp_get_extbit s p;
     if \<not> e then Some s
     else do {
       (ext_header_size, profile, ext_header) \<leftarrow> rtp_get_extheader s p;
       if ext_header_size = -1 then Some s
       else do {
         (b, r, w) \<leftarrow> view s p;
         pr \<leftarrow> profile;
         tmp \<leftarrow> ext_header;
         if pr \<noteq> 0xBEDE then Some s
         else do {
           f \<leftarrow> find_ext1 b i tmp (tmp + nat ext_header_size);
           case f of
             None \<Rightarrow> Some s
           | Some (t, sz) \<Rightarrow> mwrite s p t (replicate (sz + 1) 0) } } } }"

text \<open>The trailing padding of the extension header.\<close>

function used_padding :: "bytes \<Rightarrow> nat \<Rightarrow> nat \<Rightarrow> nat \<Rightarrow> nat option" where
  "used_padding b tmp lim n =
     (if tmp < lim then do {
        x \<leftarrow> rd8 b tmp;
        if x = 0 then used_padding b (tmp + 1) lim (n + 1)
        else used_padding b (tmp + unat (x AND 15) + 1 + 1) lim 0
      } else Some n)"
  by pat_completeness auto
termination by (relation "measure (\<lambda>(b, tmp, lim, n). lim - tmp)") auto

declare used_padding.simps [simp del]

definition ext_elem :: "int \<Rightarrow> bytes \<Rightarrow> bytes" where
  "ext_elem i data = (word_of_int (i * 16) OR of_nat (length data - 1)) # data"

definition pad4 :: "nat \<Rightarrow> nat" where
  "pad4 n = (if n mod 4 \<noteq> 0 then 4 - n mod 4 else 0)"

definition rtp_add_extension_header_base :: "mem \<Rightarrow> ptr \<Rightarrow> int \<Rightarrow> bytes \<Rightarrow> bool \<Rightarrow> mem option" where
  "rtp_add_extension_header_base s p i data allocate_buffer =
     (if data = [] then Some s
      else do {
        let sz = length data;
        e \<leftarrow> rtp_get_extbit s p;
        if \<not> e then do {
          let padding = pad4 (sz + 1);
          s \<leftarrow> rtp_set_extbit s p;
          cc \<leftarrow> rtp_get_cc s p;
          s \<leftarrow> (if allocate_buffer
                then msgpullup_with_insert s p (RTP_FIXED_HEADER_SIZE + cc * 4) (sz + 5 + padding)
                else Some s);
          (b, r, w) \<leftarrow> view s p;
          cc \<leftarrow> rtp_get_cc s p;
          mwrite s p (r + RTP_FIXED_HEADER_SIZE + cc * 4)
            (enc16 0xBEDE @ enc16 (of_nat ((sz + 1 + padding) div 4)) @ ext_elem i data
               @ replicate padding 0)
        } else do {
          (ext_header_size, profile, ext_header) \<leftarrow> rtp_get_extheader s p;
          pr \<leftarrow> profile;
          if pr \<noteq> 0xBEDE then Some s
          else do {
            s \<leftarrow> rtp_delete_extension_header s p i;
            eh \<leftarrow> ext_header;
            let esz = nat ext_header_size;
            (b, r, w) \<leftarrow> view s p;
            used_pad \<leftarrow> used_padding b eh (eh + esz) 0;
            let used_size = esz - used_pad;
            let padding = pad4 (used_size + sz + 1);
            if sz + 1 + padding > used_pad then do {
              cc \<leftarrow> rtp_get_cc s p;
              (s, eh) \<leftarrow>
                (if allocate_buffer then do {
                   s \<leftarrow> msgpullup_with_insert s p (RTP_FIXED_HEADER_SIZE + cc * 4 + 4 + esz)
                          (sz + 1 + padding - used_pad);
                   (_, _, st) \<leftarrow> rtp_get_extheader s p;
                   eh \<leftarrow> st;
                   Some (s, eh)
                 } else Some (s, eh));
              s \<leftarrow> mwrite s p (eh - 2) (enc16 (of_nat ((used_size + (sz + 1) + padding) div 4)));
              mwrite s p (eh + used_size) (ext_elem i data @ replicate padding 0)
            } else mwrite s p (eh + used_size) (ext_elem i data @ replicate padding 0) } } })"

definition rtp_write_extension_header :: "mem \<Rightarrow> ptr \<Rightarrow> int \<Rightarrow> bytes \<Rightarrow> mem option" where
  "rtp_write_extension_header s p i data = rtp_add_extension_header_base s p i data False"

definition rtp_add_extension_header :: "mem \<Rightarrow> ptr \<Rightarrow> int \<Rightarrow> bytes \<Rightarrow> mem option" where
  "rtp_add_extension_header s p i data = rtp_add_extension_header_base s p i data True"

section \<open>Remapping\<close>

text \<open>\<open>mapping\<close> is the array of 16 new identifiers; an index outside it is \<open>None\<close>.\<close>

function remap1 :: "bytes \<Rightarrow> int list \<Rightarrow> nat \<Rightarrow> nat \<Rightarrow> bytes option" where
  "remap1 b mapping tmp lim =
     (if tmp < lim then do {
        x \<leftarrow> rd8 b tmp;
        if x = 15 then Some b
        else if x = 0 then remap1 b mapping (tmp + 1) lim
        else do {
          let i = unat (drop_bit 4 x);
          let sz = unat (x AND 15) + 1;
          if i < length mapping then do {
            let b' = (if mapping ! i > 0
                      then b[tmp := word_of_int (mapping ! i * 16) OR of_nat (sz - 1)] else b);
            remap1 b' mapping (tmp + (unat (x AND 15) + 1) + 1) lim
          } else None }
      } else Some b)"
  by pat_completeness auto
termination by (relation "measure (\<lambda>(b, mapping, tmp, lim). lim - tmp)") auto

function remap2 :: "bytes \<Rightarrow> int list \<Rightarrow> nat \<Rightarrow> nat \<Rightarrow> bytes option" where
  "remap2 b mapping tmp lim =
     (if tmp < lim then do {
        x \<leftarrow> rd8 b tmp;
        if x = 0 then remap2 b mapping (tmp + 1) lim
        else do {
          y \<leftarrow> rd8 b (tmp + 1);
          let i = unat x;
          if i < length mapping then do {
            let b' = (if mapping ! i > 0 then b[tmp := word_of_int (mapping ! i)] else b);
            remap2 b' mapping (tmp + unat y + 2) lim
          } else None }
      } else Some b)"
  by pat_completeness auto
termination by (relation "measure (\<lambda>(b, mapping, tmp, lim). lim - tmp)") auto

declare remap1.simps [simp del] remap2.simps [simp del]

definition rtp_remap_header_extension_ids :: "mem \<Rightarrow> ptr \<Rightarrow> int list \<Rightarrow> mem option" where
  "rtp_remap_header_extension_ids s p mapping = do {
     e \<leftarrow> rtp_get_extbit s p;
     if \<not> e then Some s
     else do {
       (ext_header_size, profile, ext_header) \<leftarrow> rtp_get_extheader s p;
       if ext_header_size = -1 then Some s
       else do {
         (b, r, w) \<leftarrow> view s p;
         pr \<leftarrow> profile;
         tmp \<leftarrow> ext_header;
         let lim = tmp + nat ext_header_size;
         b' \<leftarrow> (if pr = 0xBEDE then remap1 b mapping tmp lim else remap2 b mapping tmp lim);
         mwrite s p 0 b' } } }"

section \<open>Audio levels and frame marking\<close>

definition rtp_add_client_to_mixer_audio_level :: "mem \<Rightarrow> ptr \<Rightarrow> int \<Rightarrow> bool \<Rightarrow> int \<Rightarrow> mem option" where
  "rtp_add_client_to_mixer_audio_level s p i voice_activity audio_level =
     rtp_add_extension_header s p i
       [word_of_int (if voice_activity then 128 else 0) OR word_of_int (- audio_level)]"

definition RTP_AUDIO_LEVEL_NO_VOLUME :: int where
  "RTP_AUDIO_LEVEL_NO_VOLUME = -255"

text \<open>The level, and the voice activity flag when it is set.\<close>

definition rtp_get_client_to_mixer_audio_level :: "mem \<Rightarrow> ptr \<Rightarrow> int \<Rightarrow> (int \<times> bool option) option" where
  "rtp_get_client_to_mixer_audio_level s p i = do {
     (ret, data) \<leftarrow> rtp_get_extension_header s p i;
     if ret \<noteq> -1 then do {
       (b, r, w) \<leftarrow> view s p;
       dp \<leftarrow> data;
       x \<leftarrow> rd8 b dp;
       Some (- uint (x AND 0x7F), Some (bit x 7))
     } else Some (RTP_AUDIO_LEVEL_NO_VOLUME, None) }"

record rtp_audio_level =
  al_csrc :: u32
  al_dbov :: int

primrec add_csrcs :: "mem \<Rightarrow> ptr \<Rightarrow> rtp_audio_level list \<Rightarrow> mem option" where
  "add_csrcs s p [] = Some s"
| "add_csrcs s p (a # as) = do { s \<leftarrow> rtp_add_csrc s p (al_csrc a); add_csrcs s p as }"

definition rtp_add_mixer_to_client_audio_level_base ::
  "mem \<Rightarrow> ptr \<Rightarrow> int \<Rightarrow> rtp_audio_level list \<Rightarrow> bool \<Rightarrow> mem option" where
  "rtp_add_mixer_to_client_audio_level_base s p i audio_levels allocate_buffer =
     (if audio_levels = [] then Some s
      else do {
        cc \<leftarrow> rtp_get_cc s p;
        s \<leftarrow> (if allocate_buffer
              then msgpullup_with_insert s p (RTP_FIXED_HEADER_SIZE + cc * 4) (length audio_levels * 4)
              else Some s);
        s \<leftarrow> add_csrcs s p audio_levels;
        let data = map (\<lambda>a. word_of_int (- al_dbov a)) audio_levels;
        if allocate_buffer then rtp_add_extension_header s p i data
        else rtp_write_extension_header s p i data })"

definition rtp_write_mixer_to_client_audio_level ::
  "mem \<Rightarrow> ptr \<Rightarrow> int \<Rightarrow> rtp_audio_level list \<Rightarrow> mem option" where
  "rtp_write_mixer_to_client_audio_level s p i levels =
     rtp_add_mixer_to_client_audio_level_base s p i levels False"

definition rtp_add_mixer_to_client_audio_level ::
  "mem \<Rightarrow> ptr \<Rightarrow> int \<Rightarrow> rtp_audio_level list \<Rightarrow> mem option" where
  "rtp_add_mixer_to_client_audio_level s p i levels =
     rtp_add_mixer_to_client_audio_level_base s p i levels True"

primrec read_levels :: "mem \<Rightarrow> ptr \<Rightarrow> nat \<Rightarrow> nat \<Rightarrow> rtp_audio_level list option" where
  "read_levels s p dp 0 = Some []"
| "read_levels s p dp (Suc n) = do {
     as \<leftarrow> read_levels s p dp n;
     c \<leftarrow> rtp_get_csrc s p n;
     (b, r, w) \<leftarrow> view s p;
     x \<leftarrow> rd8 b (dp + n);
     Some (as @ [\<lparr>al_csrc = c, al_dbov = - uint (x AND 0x7F)\<rparr>]) }"

definition rtp_get_mixer_to_client_audio_level ::
  "mem \<Rightarrow> ptr \<Rightarrow> int \<Rightarrow> (int \<times> rtp_audio_level list) option" where
  "rtp_get_mixer_to_client_audio_level s p i = do {
     (ret, data) \<leftarrow> rtp_get_extension_header s p i;
     if ret \<noteq> -1 then do {
       cc \<leftarrow> rtp_get_cc s p;
       if ret \<noteq> int cc then Some (-1, [])
       else do {
         dp \<leftarrow> data;
         as \<leftarrow> read_levels s p dp (nat ret);
         Some (ret, as) }
     } else Some (ret, []) }"

definition rtp_add_frame_marker :: "mem \<Rightarrow> ptr \<Rightarrow> int \<Rightarrow> u8 \<Rightarrow> mem option" where
  "rtp_add_frame_marker s p i marker = rtp_add_extension_header s p i [marker]"

definition rtp_get_frame_marker :: "mem \<Rightarrow> ptr \<Rightarrow> int \<Rightarrow> (int \<times> u8 option) option" where
  "rtp_get_frame_marker s p i = do {
     (ret, data) \<leftarrow> rtp_get_extension_header s p i;
     if ret \<noteq> -1 then do {
       (b, r, w) \<leftarrow> view s p;
       dp \<leftarrow> data;
       x \<leftarrow> rd8 b dp;
       Some (1, Some x)
     } else Some (0, None) }"

end
