(* ===== verification/Ortp_Rtp_Props.thy ===== *)
theory Ortp_Rtp_Props
  imports Ortp_Rtp "HOL-Library.Multiset"
begin

text \<open>
  The jitter buffer as a list of packets: \<open>rtp_putq\<close> is an insertion into a list ordered by
  circular sequence numbers, \<open>queue_packet\<close> bounds its length, and the NACK loops ask for
  the missing packets.
\<close>

section \<open>Circular sequence numbers\<close>

abbreviation seq_gt :: "u16 \<Rightarrow> u16 \<Rightarrow> bool" where
  "seq_gt a b \<equiv> RTP_SEQ_IS_STRICTLY_GREATER_THAN (uint a) (uint b)"

lemma seq_gt_word: "seq_gt a b \<longleftrightarrow> a - b < 32768 \<and> a \<noteq> b"
  by (simp add: RTP_SEQ_IS_STRICTLY_GREATER_THAN_def word_uint_eq_iff [symmetric])

text \<open>All sequence numbers of a buffer lie in half of the circle, from \<open>base\<close> on.\<close>

definition in_window :: "u16 \<Rightarrow> u16 \<Rightarrow> bool" where
  "in_window base k \<longleftrightarrow> k - base < 32768"

lemma seq_gt_window:
  assumes "in_window base a" and "in_window base b"
  shows "seq_gt a b \<longleftrightarrow> unat (b - base) < unat (a - base)"
proof -
  define x y where "x = a - base" and "y = b - base"
  have less: "unat x < 32768" "unat y < 32768"
    using assms by (auto simp: in_window_def x_def y_def word_less_nat_alt)
  have ab: "a - b = x - y" "a = b \<longleftrightarrow> unat x = unat y"
    by (auto simp: x_def y_def word_unat_eq_iff [symmetric])
  show ?thesis
  proof (cases "unat y \<le> unat x")
    case True
    then have "unat (x - y) = unat x - unat y" by (simp add: unat_sub word_le_nat_alt)
    with True less show ?thesis
      by (auto simp: seq_gt_word ab x_def [symmetric] y_def [symmetric] word_less_nat_alt)
  next
    case False
    then have "unat (x - y) = 65536 - unat y + unat x"
      using less by (simp add: unat_sub_if')
    with False less show ?thesis
      by (simp add: seq_gt_word ab x_def [symmetric] y_def [symmetric] word_less_nat_alt)
  qed
qed

text \<open>Insertion from the newest packet down, on the reversed buffer.\<close>

primrec rtp_ins :: "('a \<Rightarrow> u16) \<Rightarrow> 'a \<Rightarrow> 'a list \<Rightarrow> 'a list option" where
  "rtp_ins key x [] = Some [x]"
| "rtp_ins key x (y # ys) =
     (if key x = key y then None
      else if seq_gt (key x) (key y) then Some (x # y # ys)
      else map_option ((#) y) (rtp_ins key x ys))"

definition seq_sorted :: "u16 \<Rightarrow> ('a \<Rightarrow> u16) \<Rightarrow> 'a list \<Rightarrow> bool" where
  "seq_sorted base key xs \<longleftrightarrow> (\<forall>x \<in> set xs. in_window base (key x)) \<and>
     sorted_wrt (\<lambda>a b. unat (key a - base) < unat (key b - base)) xs"

lemma rtp_ins_set: "rtp_ins key x ys = Some zs \<Longrightarrow> set zs = insert x (set ys) \<and> length zs = Suc (length ys)"
  by (induction ys arbitrary: zs) (auto split: if_splits)

lemma rtp_ins_mset: "rtp_ins key x ys = Some zs \<Longrightarrow> mset zs = add_mset x (mset ys)"
  by (induction ys arbitrary: zs) (auto split: if_splits)

lemma distinct_concat_mset:
  assumes "mset xs = mset ys"
  shows "distinct (concat (map f xs)) \<longleftrightarrow> distinct (concat (map f ys))"
proof -
  have "mset (concat (map f zs)) = sum_mset (image_mset (\<lambda>z. mset (f z)) (mset zs))" for zs
    by (induction zs) auto
  then have "mset (concat (map f xs)) = mset (concat (map f ys))" using assms by simp
  then show ?thesis by (rule mset_eq_imp_distinct_iff)
qed

lemma rtp_ins_sorted:
  assumes "\<forall>y \<in> set (x # ys). in_window base (key y)"
    and "sorted_wrt (\<lambda>a b. unat (key b - base) < unat (key a - base)) ys"
    and "rtp_ins key x ys = Some zs"
  shows "sorted_wrt (\<lambda>a b. unat (key b - base) < unat (key a - base)) zs"
  using assms
proof (induction ys arbitrary: zs)
  case (Cons y ys)
  have w: "in_window base (key x)" "in_window base (key y)" using Cons.prems(1) by auto
  show ?case
  proof (cases "seq_gt (key x) (key y)")
    case True
    then have "unat (key y - base) < unat (key x - base)" using seq_gt_window [OF w] by simp
    moreover from this have "\<forall>z \<in> set ys. unat (key z - base) < unat (key x - base)"
      using Cons.prems(2) by force
    ultimately show ?thesis using True Cons.prems(2,3) by (auto split: if_splits)
  next
    case False
    then obtain us where us: "rtp_ins key x ys = Some us" "zs = y # us" "key x \<noteq> key y"
      using Cons.prems(3) by (auto split: if_splits)
    have "unat (key x - base) < unat (key y - base)"
    proof -
      have "key x - base \<noteq> key y - base" using us(3) by simp
      with False seq_gt_window [OF w] show ?thesis
        by (metis linorder_less_linear word_unat_eq_iff)
    qed
    with us Cons.IH [OF _ _ us(1)] Cons.prems(1,2) rtp_ins_set [OF us(1)] show ?thesis by auto
  qed
qed auto

lemma rtp_ins_dup:
  assumes "\<forall>y \<in> set (x # ys). in_window base (key y)"
    and "sorted_wrt (\<lambda>a b. unat (key b - base) < unat (key a - base)) ys"
  shows "rtp_ins key x ys = None \<longleftrightarrow> key x \<in> key ` set ys"
  using assms
proof (induction ys)
  case (Cons y ys)
  have w: "in_window base (key x)" "in_window base (key y)" using Cons.prems(1) by auto
  have "key z \<noteq> key x" if "seq_gt (key x) (key y)" "z \<in> set ys" for z
    using that Cons.prems(2) seq_gt_window [OF w] by force
  with Cons show ?case by auto
qed simp

section \<open>Insertion into the queue\<close>

lemma view_strip:
  assumes "strip s' = strip s" shows "view s' p = view s p"
proof (cases "mblks s p")
  case None
  then show ?thesis using strip_live [OF assms, of p] by (simp add: view_def)
next
  case (Some m)
  obtain m' where "mblks s' p = Some m'" "m'\<lparr>b_prev := None, b_next := None\<rparr> = m\<lparr>b_prev := None, b_next := None\<rparr>"
    using strip_mblks [of s' p] strip_mblks [of s p] assms Some
    by (cases "mblks s' p") auto
  moreover from this have "b_datap m' = b_datap m" "b_rptr m' = b_rptr m" "b_wptr m' = b_wptr m"
    by (cases m, cases m', simp)+
  moreover have "dblks s' = dblks s" using assms strip_rest(1) by metis
  ultimately show ?thesis using Some by (simp add: view_def)
qed

lemma qempty_ok: "qrep s q xs \<Longrightarrow> qempty s q = Some (xs = [])"
  by (cases xs) (auto simp: qempty_def qrep_def ring_def nx_def bind_eq_Some_conv)

lemma qfirst_peekq: "qfirst s q = peekq s q"
  unfolding qfirst_def peekq_def by (intro Option.bind_cong) auto

lemma qfirst_ok: "qrep s q xs \<Longrightarrow> qfirst s q = Some (case xs of [] \<Rightarrow> None | x # _ \<Rightarrow> Some x)"
  using peekq_ok [of s q xs] by (simp add: qfirst_peekq)

lemma qlast_ok:
  assumes "qrep s q xs"
  shows "qlast s q = Some (if xs = [] then None else Some (last xs))"
proof -
  have "pv s (q_stopper q) = Some (last (q_stopper q # xs))"
    using assms by (auto simp: qrep_def ring_def dest: dseg_last)
  then obtain m where "mblks s (q_stopper q) = Some m" "b_prev m = Some (last (q_stopper q # xs))"
    using pvD by blast
  moreover have "last xs \<noteq> q_stopper q" if "xs \<noteq> []"
    using last_in_set [OF that] assms by (auto simp: qrep_def ring_def)
  ultimately show ?thesis by (simp add: qlast_def)
qed

text \<open>A packet outside the queue: a message whose blocks are not queue nodes.\<close>

definition packet_ok :: "mem \<Rightarrow> queue \<Rightarrow> ptr list \<Rightarrow> ptr \<Rightarrow> ptr list \<Rightarrow> bool" where
  "packet_ok s q xs x cs \<longleftrightarrow> chain s (Some x) (x # cs) \<and> has_data s (x # cs) \<and>
     set (x # cs) \<inter> set (q_stopper q # xs) = {}"

lemma packet_free:
  assumes ok: "refs_ok s ext" and q: "qrep s q xs" and p: "packet_ok s q xs x cs"
  shows "\<exists>s'. freemsg s (Some x) = Some s' \<and> refs_ok s' ext \<and> qrep s' q xs \<and>
    (\<forall>p \<in> set (x # cs). mblks s' p = None) \<and>
    (\<forall>p. p \<notin> set (x # cs) \<longrightarrow> mblks s' p = mblks s p)"
proof -
  obtain s' where f: "freemsg s (Some x) = Some s'" "refs_ok s' ext"
      "mblks s' = (\<lambda>c. if c \<in> set (x # cs) then None else mblks s c)"
    using freemsg_ok [OF ok, of "Some x" "x # cs"] p unfolding packet_ok_def has_data_def by blast
  have "qrep s' q xs"
    by (rule qrep_cong [OF _ q]) (use f(3) p in \<open>auto simp: packet_ok_def\<close>)
  with f show ?thesis by auto
qed

lemma rtp_putq_loop_ok:
  assumes "refs_ok s ext" and "qrep s q (ys @ zs)" and "packet_ok s q (ys @ zs) x cs"
    and "\<forall>y \<in> set (ys @ zs). rtp_get_seqnumber s y = Some (key y)"
    and "(ys @ zs) \<noteq> []"
  shows "\<exists>s' q'. case rtp_ins key x (rev ys) of
      Some us \<Rightarrow> rtp_putq_loop s q x (key x) (Some (last (q_stopper q # ys))) = Some (0, s', q') \<and>
        qrep s' q' (rev us @ zs) \<and> strip s' = strip s \<and> q_stopper q' = q_stopper q
    | None \<Rightarrow> rtp_putq_loop s q x (key x) (Some (last (q_stopper q # ys))) = Some (-1, s', q) \<and>
        qrep s' q (ys @ zs) \<and> refs_ok s' ext \<and> (\<forall>p \<in> set (x # cs). mblks s' p = None) \<and>
        (\<forall>p. p \<notin> set (x # cs) \<longrightarrow> mblks s' p = mblks s p)"
  using assms
proof (induction ys arbitrary: zs rule: rev_induct)
  case Nil
  have x: "live s x" "x \<notin> set (q_stopper q # [] @ zs)"
    using Nil.prems(3) by (auto simp: packet_ok_def)
  obtain z zs' where z: "zs = z # zs'" using Nil.prems(5) by (cases zs) auto
  obtain s' q' where "insq s q (Some z) x = Some (s', q')" "qrep s' q' ([] @ x # zs)"
    "strip s' = strip s" "q_stopper q' = q_stopper q"
    by (rule insq_before [OF Nil.prems(2) x, of z]) (use z in auto)
  then show ?case
    using qfirst_ok [OF Nil.prems(2)] z
    by (intro exI [of _ s'] exI [of _ q']) (simp add: rtp_putq_loop.simps)
next
  case (snoc y ys)
  have q: "qrep s q (ys @ y # zs)" using snoc.prems(2) by simp
  have r: "ring (nx s) (pv s) (q_stopper q) (ys @ y # zs)" using q by (simp add: qrep_def)
  have yst: "y \<noteq> q_stopper q" using r by (auto simp: ring_def)
  have "pv s y = Some (last (q_stopper q # ys))" using ring_prev [OF r] by simp
  moreover have "nx s y = Some (hd (zs @ [q_stopper q]))"
    using r dseg_hd [of "nx s" "pv s" y zs] by (auto simp: ring_def dseg_append)
  ultimately obtain m where m: "mblks s y = Some m" "b_prev m = Some (last (q_stopper q # ys))"
    "b_next m = Some (hd (zs @ [q_stopper q]))"
    by (auto simp: nx_def pv_def bind_eq_Some_conv)
  have ky: "rtp_get_seqnumber s y = Some (key y)" using snoc.prems(4) by simp
  have p: "packet_ok s q (ys @ y # zs) x cs" using snoc.prems(3) by simp
  show ?case
  proof (cases "key x = key y")
    case True
    obtain s' where "freemsg s (Some x) = Some s'" "refs_ok s' ext" "qrep s' q (ys @ y # zs)"
      "\<forall>p \<in> set (x # cs). mblks s' p = None" "\<forall>p. p \<notin> set (x # cs) \<longrightarrow> mblks s' p = mblks s p"
      using packet_free [OF snoc.prems(1) q p] by blast
    with True m(1) ky yst show ?thesis
      by (intro exI [of _ s'] exI [of _ q]) (simp add: rtp_putq_loop.simps)
  next
    case ne: False
    show ?thesis
    proof (cases "seq_gt (key x) (key y)")
      case True
      have x: "live s x" "x \<notin> set (q_stopper q # (ys @ [y]) @ zs)"
        using p by (auto simp: packet_ok_def)
      obtain s' q' where "insq s q (Some (hd (zs @ [q_stopper q]))) x = Some (s', q')"
        "qrep s' q' ((ys @ [y]) @ x # zs)" "strip s' = strip s" "q_stopper q' = q_stopper q"
        by (rule insq_before [OF snoc.prems(2) x refl])
      with True ne m ky yst show ?thesis
        by (intro exI [of _ s'] exI [of _ q']) (simp add: rtp_putq_loop.simps)
    next
      case False
      have step: "rtp_putq_loop s q x (key x) (Some (last (q_stopper q # ys @ [y])))
          = rtp_putq_loop s q x (key x) (Some (last (q_stopper q # ys)))"
        using False ne m ky yst by (subst rtp_putq_loop.simps) simp
      have "rtp_ins key x (rev (ys @ [y])) = map_option ((#) y) (rtp_ins key x (rev ys))"
        using False ne by simp
      with snoc.IH [of "y # zs"] snoc.prems(1,4) q p show ?thesis
        unfolding step by (cases "rtp_ins key x (rev ys)") auto
    qed
  qed
qed

lemma rtp_putq_ok:
  assumes ok: "refs_ok s ext" and q: "qrep s q xs" and p: "packet_ok s q xs x cs"
    and k: "\<forall>y \<in> set (x # xs). rtp_get_seqnumber s y = Some (key y)"
  shows "\<exists>s' q'. case rtp_ins key x (rev xs) of
      Some us \<Rightarrow> rtp_putq s q x = Some (0, s', q') \<and>
        qrep s' q' (rev us) \<and> strip s' = strip s \<and> q_stopper q' = q_stopper q
    | None \<Rightarrow> rtp_putq s q x = Some (-1, s', q) \<and>
        qrep s' q xs \<and> refs_ok s' ext \<and> (\<forall>p \<in> set (x # cs). mblks s' p = None) \<and>
        (\<forall>p. p \<notin> set (x # cs) \<longrightarrow> mblks s' p = mblks s p)"
proof (cases "xs = []")
  case True
  have x: "live s x" "x \<notin> set (q_stopper q # [])" using p True by (auto simp: packet_ok_def)
  obtain s' q' where "putq s q x = Some (s', q')" "qrep s' q' ([] @ [x])" "strip s' = strip s"
    "q_stopper q' = q_stopper q"
    by (rule putq_ok [of s q "[]" x]) (use x q True in auto)
  with True k q show ?thesis
    by (intro exI [of _ s'] exI [of _ q']) (simp add: rtp_putq_def qempty_ok)
next
  case False
  have "rtp_putq s q x = rtp_putq_loop s q x (key x) (Some (last (q_stopper q # xs)))"
    using False k q by (simp add: rtp_putq_def qempty_ok qlast_ok)
  with rtp_putq_loop_ok [OF ok, of q xs "[]" x cs key] q p k False show ?thesis
    by (simp cong: option.case_cong)
qed

section \<open>Bounded queues\<close>

text \<open>Every queued packet is a message of its own, and its header can be read.\<close>

definition buffer_ok :: "mem \<Rightarrow> queue \<Rightarrow> ptr list \<Rightarrow> (ptr \<Rightarrow> ptr list) \<Rightarrow> bool" where
  "buffer_ok s q xs cs \<longleftrightarrow> qrep s q xs \<and>
     (\<forall>x \<in> set xs. chain s (Some x) (x # cs x) \<and> has_data s (x # cs x) \<and>
        (\<exists>b r w. view s x = Some (b, r, w) \<and> r + 12 \<le> length b)) \<and>
     distinct (q_stopper q # concat (map (\<lambda>x. x # cs x) xs))"

lemma freemsg_view:
  assumes ok': "refs_ok s' ext" and m: "mblks s' p = mblks s p"
    and d: "\<forall>e x. dblks s' e = Some x \<longrightarrow> (\<exists>y. dblks s e = Some y \<and> db_buf x = db_buf y)"
    and v: "view s p = Some v"
  shows "view s' p = Some v"
proof -
  obtain mb e y where mb: "mblks s p = Some mb" "b_datap mb = Some e" "dblks s e = Some y"
    using v by (auto simp: view_def bind_eq_Some_conv)
  obtain x where "dblks s' e = Some x" using refs_ok_dblk [OF ok', of p mb e] m mb by auto
  moreover from this d obtain y' where "dblks s e = Some y'" "db_buf x = db_buf y'" by blast
  ultimately show ?thesis using v m mb by (simp add: view_def)
qed

text \<open>Taking the oldest packet out of the buffer and releasing it.\<close>

lemma drop_oldest:
  assumes ok: "refs_ok s ext" and b: "buffer_ok s q (x # xs) cs"
  shows "\<exists>s1 q1 s2 ts. getq s q = Some (Some x, s1, q1) \<and> rtp_get_timestamp s1 x = Some ts \<and>
    freemsg s1 (Some x) = Some s2 \<and> refs_ok s2 ext \<and> buffer_ok s2 q1 xs cs \<and>
    q_stopper q1 = q_stopper q \<and> (\<forall>p \<in> set (x # cs x). mblks s2 p = None) \<and>
    (\<forall>p. mblks s p = None \<longrightarrow> mblks s2 p = None)"
proof -
  have q: "qrep s q (x # xs)" using b by (simp add: buffer_ok_def)
  obtain s1 q1 where g: "getq s q = Some (Some x, s1, q1)" "qrep s1 q1 xs" "strip s1 = strip s"
    "q_stopper q1 = q_stopper q" by (rule getq_ok [OF q])
  have ok1: "refs_ok s1 ext" by (rule refs_ok_strip [OF g(3) ok])
  obtain bb r w where v: "view s x = Some (bb, r, w)" "r + 12 \<le> length bb"
    using b by (auto simp: buffer_ok_def)
  then have ts: "\<exists>ts. rtp_get_timestamp s1 x = Some ts"
    using view_strip [OF g(3)] by (simp add: rtp_get_timestamp_def)
  have el: "chain s1 (Some y) (y # cs y)" "has_data s1 (y # cs y)"
    "\<exists>b r w. view s1 y = Some (b, r, w) \<and> r + 12 \<le> length b" if "y \<in> set (x # xs)" for y
  proof -
    have "chain s (Some y) (y # cs y)" "has_data s (y # cs y)"
      "\<exists>b r w. view s y = Some (b, r, w) \<and> r + 12 \<le> length b"
      using that b unfolding buffer_ok_def by blast+
    then show "chain s1 (Some y) (y # cs y)" "has_data s1 (y # cs y)"
      "\<exists>b r w. view s1 y = Some (b, r, w) \<and> r + 12 \<le> length b"
      using chain_strip [OF g(3)] has_data_strip [OF g(3)] view_strip [OF g(3)] by metis+
  qed
  obtain s2 where f: "freemsg s1 (Some x) = Some s2" "refs_ok s2 ext"
      "mblks s2 = (\<lambda>c. if c \<in> set (x # cs x) then None else mblks s1 c)"
      "\<forall>e x. dblks s2 e = Some x \<longrightarrow> (\<exists>y. dblks s1 e = Some y \<and> db_buf x = db_buf y)"
    using freemsg_ok [OF ok1 el(1) [of x]] el(2) [of x] unfolding has_data_def by auto
  have dist: "distinct (q_stopper q # concat (map (\<lambda>x. x # cs x) (x # xs)))"
    using b by (simp add: buffer_ok_def)
  have keep: "mblks s2 c = mblks s1 c" if "c = q_stopper q \<or> (\<exists>y \<in> set xs. c \<in> set (y # cs y))" for c
    using that dist f(3) by auto
  have "qrep s2 q1 xs" by (rule qrep_cong [OF _ g(2)]) (use keep g(4) in auto)
  moreover have "chain s2 (Some y) (y # cs y) \<and> has_data s2 (y # cs y) \<and>
      (\<exists>b r w. view s2 y = Some (b, r, w) \<and> r + 12 \<le> length b)" if y: "y \<in> set xs" for y
  proof -
    have k: "mblks s2 c = mblks s1 c" if "c \<in> set (y # cs y)" for c using keep y that by blast
    have "chain s2 (Some y) (y # cs y)"
      using el(1) [of y] chain_cong [of "y # cs y" s2 s1] k y by auto
    moreover have "has_data s2 (y # cs y)" using el(2) [of y] k y unfolding has_data_def by auto
    moreover have "\<exists>b r w. view s2 y = Some (b, r, w) \<and> r + 12 \<le> length b"
      using el(3) [of y] freemsg_view [OF f(2) _ f(4)] k [of y] y by fastforce
    ultimately show ?thesis by blast
  qed
  ultimately have "buffer_ok s2 q1 xs cs" using dist g(4) by (auto simp: buffer_ok_def)
  moreover have "mblks s2 p = None" if "mblks s p = None" for p
    using that strip_live [OF g(3), of p] f(3) by auto
  ultimately show ?thesis using g ts f by auto
qed

lemma queue_trim_ok:
  assumes "refs_ok s ext" and "buffer_ok s q xs cs" and "0 \<le> maxrqsz"
  shows "\<exists>s' q'. queue_trim s q maxrqsz n
      = Some (n + max 0 (int (length xs) - maxrqsz), s', q') \<and> refs_ok s' ext \<and>
    buffer_ok s' q' (drop (length xs - nat maxrqsz) xs) cs \<and>
    (\<forall>x \<in> set (take (length xs - nat maxrqsz) xs). \<forall>p \<in> set (x # cs x). mblks s' p = None) \<and>
    (\<forall>p. mblks s p = None \<longrightarrow> mblks s' p = None)"
  using assms
proof (induction xs arbitrary: s q n)
  case Nil
  then show ?case
    by (intro exI [of _ s] exI [of _ q])
      (simp add: queue_trim.simps buffer_ok_def qrep_def)
next
  case (Cons x xs)
  have c: "q_mcount q = int (length (x # xs))"
    using Cons.prems(2) by (simp add: buffer_ok_def qrep_def)
  show ?case
  proof (cases "int (length (x # xs)) \<le> maxrqsz")
    case True
    with c Cons.prems show ?thesis
      by (intro exI [of _ s] exI [of _ q]) (simp add: queue_trim.simps)
  next
    case False
    obtain s1 q1 s2 ts where d: "getq s q = Some (Some x, s1, q1)" "rtp_get_timestamp s1 x = Some ts"
      "freemsg s1 (Some x) = Some s2" "refs_ok s2 ext" "buffer_ok s2 q1 xs cs"
      "\<forall>p \<in> set (x # cs x). mblks s2 p = None" "\<forall>p. mblks s p = None \<longrightarrow> mblks s2 p = None"
      using drop_oldest [OF Cons.prems(1,2)] by blast
    obtain s' q' where r: "queue_trim s2 q1 maxrqsz (n + 1)
        = Some (n + 1 + max 0 (int (length xs) - maxrqsz), s', q')" "refs_ok s' ext"
      "buffer_ok s' q' (drop (length xs - nat maxrqsz) xs) cs"
      "\<forall>x \<in> set (take (length xs - nat maxrqsz) xs). \<forall>p \<in> set (x # cs x). mblks s' p = None"
      "\<forall>p. mblks s2 p = None \<longrightarrow> mblks s' p = None"
      using Cons.IH [OF d(4,5) Cons.prems(3), of "n + 1"] by blast
    have "queue_trim s q maxrqsz n = queue_trim s2 q1 maxrqsz (n + 1)"
      using False c d(1-3) by (simp add: queue_trim.simps [of s])
    moreover have "length (x # xs) - nat maxrqsz = Suc (length xs - nat maxrqsz)"
      using False Cons.prems(3) by simp
    moreover have "n + 1 + max 0 (int (length xs) - maxrqsz) = n + max 0 (int (length (x # xs)) - maxrqsz)"
      using False by simp
    ultimately show ?thesis
      using r d(6,7) by (intro exI [of _ s'] exI [of _ q']) auto
  qed
qed

section \<open>Peeking\<close>

lemma rtp_peekq_loop_found:
  assumes q: "qrep s q (x # xs)" and ts: "rtp_get_timestamp s x = Some t"
    and newer: "RTP_TIMESTAMP_IS_NEWER_THAN timestamp t"
  shows "rtp_peekq_loop s q timestamp None None 0 0 = Some (Some x, 0, s)"
proof -
  have f: "qfirst s q = Some (Some x)" "peekq s q = Some (Some x)"
    using qfirst_ok [OF q] peekq_ok [OF q] by simp_all
  have "rtp_peekq_loop s q timestamp (Some x) (Some x) t 0 = Some (Some x, 0, s)"
    using f ts newer by (simp add: rtp_peekq_loop.simps)
  then show ?thesis
    using f ts newer by (subst rtp_peekq_loop.simps) simp
qed

end
