(* ===== verification/Ortp_Rtp_Parse.thy ===== *)
theory Ortp_Rtp_Parse
  imports Ortp_Rtp_Props
begin

text \<open>
  Reception of an RTP packet: \<open>rtp_session_rtp_parse\<close> of \<open>ortp/src/rtpparse.c\<close> with
  \<open>update_rtcp_xr_stat_summary\<close>.

  The session record holds the fields this code reads and writes; \<open>rest\<close> stands for the
  others. Calls into other parts of oRTP (remote address update, event queues, signal
  tables, payload type change, jitter control, bandwidth and congestion estimators, RTCP
  feedback, clock) are the fields of an environment record: functions on the session, and on
  the store too where the callee may touch the queues. The four running means of
  \<open>update_rtcp_xr_stat_summary\<close> are C doubles and are left out; its minima, maxima and
  differences are kept at their width.
\<close>

section \<open>State\<close>

record rtp_stats =
  packet_recv :: u64
  packet_dup_recv :: u64
  hw_recv :: u64
  outoftime :: u64
  bad :: u64
  discarded :: u64
  loss_before_nack :: u64

record xr_stats =
  rcv_seq_at_last_stat_summary :: u16
  rcv_since_last_stat_summary :: u32
  dup_since_last_stat_summary :: u32
  min_jitter :: u32
  max_jitter :: u32
  last_jitter_diff :: u64
  min_ttl_or_hl :: u8
  max_ttl_or_hl :: u8
  first_rcv_seq :: u32
  last_rcv_seq :: u32
  rcv_count :: u32
  discarded_count :: u32

record 'x rtp_session =
  stats :: rtp_stats
  gstats :: rtp_stats
  xr :: xr_stats
  rq :: queue
  tev_rq :: queue
  max_packets :: int
  first_packet_delivered :: bool
  recv_seq_init :: bool
  flush_flag :: bool
  ssrc_set :: bool
  rcv_ssrc :: u32
  inc_ssrc_candidate :: u32
  inc_same_ssrc_count :: int
  ssrc_changed_thres :: int
  hw_recv_pt :: int
  rcv_last_ts :: u32
  rcv_last_seq :: u16
  snd_last_nack :: u16
  ts_jump :: u32
  hwrcv_extseq :: u32
  hwrcv_seq_at_last_SR :: u32
  hwrcv_since_last_SR :: u32
  rest :: 'x

type_synonym 'x rtp_state = "mem \<times> 'x rtp_session"

record 'x rtp_env =
  has_eventqs :: "'x rtp_session \<Rightarrow> bool"
  is_telephone_event :: "'x rtp_session \<Rightarrow> nat \<Rightarrow> bool"
  immediate_nack :: "'x rtp_session \<Rightarrow> bool"
  congested :: "'x rtp_session \<Rightarrow> bool"
  update_remote_sock_addr :: "mem \<Rightarrow> ptr \<Rightarrow> 'x rtp_session \<Rightarrow> 'x rtp_session"
  set_last_recv_time :: "'x rtp_session \<Rightarrow> 'x rtp_session"
  jitter_control_new_packet :: "u32 \<Rightarrow> u32 \<Rightarrow> 'x rtp_session \<Rightarrow> 'x rtp_session"
  video_bandwidth_estimate :: "u32 \<Rightarrow> int \<times> int \<Rightarrow> nat \<Rightarrow> bool \<Rightarrow> 'x rtp_session \<Rightarrow> 'x rtp_session"
  congestion_detector_record :: "u32 \<Rightarrow> u32 \<Rightarrow> 'x rtp_session \<Rightarrow> 'x rtp_session"
  send_generic_nack :: "u16 \<times> u16 \<Rightarrow> 'x rtp_session \<Rightarrow> 'x rtp_session"
  jitter_control_update_size :: "mem \<Rightarrow> 'x rtp_session \<Rightarrow> 'x rtp_session"
  dispatch_stun_event :: "ptr \<Rightarrow> 'x rtp_state \<Rightarrow> 'x rtp_state"
  emit_ssrc_changed :: "'x rtp_state \<Rightarrow> 'x rtp_state"
  emit_timestamp_jump :: "u32 \<Rightarrow> 'x rtp_state \<Rightarrow> 'x rtp_state"
  update_payload_type :: "nat \<Rightarrow> 'x rtp_state \<Rightarrow> 'x rtp_state"

section \<open>Parts of the parser\<close>

definition count_bad :: "'x rtp_session \<Rightarrow> 'x rtp_session" where
  "count_bad se = se\<lparr>stats := (stats se)\<lparr>bad := bad (stats se) + 1\<rparr>,
                    gstats := (gstats se)\<lparr>bad := bad (gstats se) + 1\<rparr>\<rparr>"

definition count_recv :: "nat \<Rightarrow> 'x rtp_session \<Rightarrow> 'x rtp_session" where
  "count_recv msgsize se =
     se\<lparr>stats := (stats se)\<lparr>packet_recv := packet_recv (stats se) + 1,
                           hw_recv := hw_recv (stats se) + of_nat msgsize\<rparr>,
        gstats := (gstats se)\<lparr>packet_recv := packet_recv (gstats se) + 1,
                             hw_recv := hw_recv (gstats se) + of_nat msgsize\<rparr>,
        hwrcv_since_last_SR := hwrcv_since_last_SR se + 1,
        xr := (xr se)\<lparr>rcv_since_last_stat_summary := rcv_since_last_stat_summary (xr se) + 1\<rparr>\<rparr>"

text \<open>Locking on the incoming SSRC: \<open>False\<close> means that the packet is to be discarded.\<close>

definition ssrc_lock ::
  "'x rtp_env \<Rightarrow> mem \<Rightarrow> 'x rtp_session \<Rightarrow> ptr \<Rightarrow> u32 \<Rightarrow> u32 \<Rightarrow> bool \<times> 'x rtp_state" where
  "ssrc_lock env s se mp ssrc timestamp =
     (if ssrc_set se then
        (if rcv_ssrc se \<noteq> ssrc then
           (let se = (if inc_ssrc_candidate se = ssrc
                      then se\<lparr>inc_same_ssrc_count := inc_same_ssrc_count se + 1\<rparr>
                      else se\<lparr>inc_same_ssrc_count := 0, inc_ssrc_candidate := ssrc\<rparr>) in
            if inc_same_ssrc_count se \<ge> ssrc_changed_thres se then
              (let se = update_remote_sock_addr env s mp se in
               (True, emit_ssrc_changed env (s, se\<lparr>rcv_last_ts := timestamp, rcv_ssrc := ssrc\<rparr>)))
            else (False, s, se))
         else (True, s, update_remote_sock_addr env s mp (se\<lparr>inc_same_ssrc_count := 0\<rparr>)))
      else (True, s, update_remote_sock_addr env s mp (se\<lparr>ssrc_set := True, rcv_ssrc := ssrc\<rparr>)))"

text \<open>The extended sequence number: \<open>poly32_t\<close> with its two halves.\<close>

definition join32 :: "u16 \<Rightarrow> u16 \<Rightarrow> u32" where
  "join32 hi lo = push_bit 16 (ucast hi) OR ucast lo"

definition lo16 :: "u32 \<Rightarrow> u16" where "lo16 x = ucast x"
definition hi16 :: "u32 \<Rightarrow> u16" where "hi16 x = ucast (drop_bit 16 x)"

definition update_extseq :: "u32 \<Rightarrow> u16 \<Rightarrow> u32" where
  "update_extseq extseq seq_number =
     (if seq_number > lo16 extseq then join32 (hi16 extseq) seq_number
      else if seq_number < 200 \<and> lo16 extseq > 65336 then join32 (hi16 extseq + 1) seq_number
      else extseq)"

definition update_seq_stats :: "u16 \<Rightarrow> 'x rtp_session \<Rightarrow> 'x rtp_session" where
  "update_seq_stats seq_number se =
     (let ext = update_extseq (hwrcv_extseq se) seq_number;
          se = se\<lparr>hwrcv_extseq := ext\<rparr>;
          se = (if recv_seq_init se then se
                else se\<lparr>recv_seq_init := True,
                        hwrcv_seq_at_last_SR := word_of_int (uint seq_number - 1),
                        xr := (xr se)\<lparr>rcv_seq_at_last_stat_summary := seq_number - 1\<rparr>\<rparr>);
          se = (if packet_recv (stats se) = 1
                then se\<lparr>xr := (xr se)\<lparr>first_rcv_seq := ext\<rparr>\<rparr> else se)
      in se\<lparr>xr := (xr se)\<lparr>last_rcv_seq := ext\<rparr>\<rparr>)"

definition update_rtcp_xr_stat_summary :: "u8 \<Rightarrow> u32 \<Rightarrow> u32 \<Rightarrow> xr_stats \<Rightarrow> xr_stats" where
  "update_rtcp_xr_stat_summary ttl timestamp local_str_ts x =
     (let diff = word_of_int (uint timestamp - uint local_str_ts) :: u64;
          first = (rcv_since_last_stat_summary x = 1);
          x = (if first then x\<lparr>min_ttl_or_hl := 255, max_ttl_or_hl := 0\<rparr> else x);
          x = (if ttl < min_ttl_or_hl x then x\<lparr>min_ttl_or_hl := ttl\<rparr> else x);
          x = (if ttl > max_ttl_or_hl x then x\<lparr>max_ttl_or_hl := ttl\<rparr> else x);
          x = (if first then x\<lparr>min_jitter := 0xFFFFFFFF, max_jitter := 0\<rparr>
               else
                 (let signed_jitter = diff - last_jitter_diff x;
                      jitter = (if sint signed_jitter < 0 then ucast (- signed_jitter)
                                else ucast signed_jitter) :: u32;
                      x = (if jitter < min_jitter x then x\<lparr>min_jitter := jitter\<rparr> else x)
                  in (if jitter > max_jitter x then x\<lparr>max_jitter := jitter\<rparr> else x)))
      in x\<lparr>last_jitter_diff := diff\<rparr>)"

text \<open>Old packets and timestamp jumps once a packet has been delivered.\<close>

definition timestamp_check ::
  "'x rtp_env \<Rightarrow> u32 \<Rightarrow> u16 \<Rightarrow> 'x rtp_state \<Rightarrow> bool \<times> 'x rtp_state" where
  "timestamp_check env timestamp seq_number st =
     (let se = snd st in
      if \<not> first_packet_delivered se then (True, st)
      else if RTP_TIMESTAMP_IS_NEWER_THAN timestamp (rcv_last_ts se + ts_jump se) then
        (True, emit_timestamp_jump env timestamp st)
      else if RTP_TIMESTAMP_IS_STRICTLY_NEWER_THAN (rcv_last_ts se) timestamp \<or>
              RTP_SEQ_IS_STRICTLY_GREATER_THAN (uint (rcv_last_seq se)) (uint seq_number) then
        (False,
         if RTP_TIMESTAMP_IS_STRICTLY_NEWER_THAN (rcv_last_ts se) (timestamp + ts_jump se)
         then emit_timestamp_jump env timestamp st else st)
      else (True, st))"

definition count_outoftime :: "'x rtp_session \<Rightarrow> 'x rtp_session" where
  "count_outoftime se =
     se\<lparr>stats := (stats se)\<lparr>outoftime := outoftime (stats se) + 1\<rparr>,
        gstats := (gstats se)\<lparr>outoftime := outoftime (gstats se) + 1\<rparr>,
        xr := (xr se)\<lparr>discarded_count := discarded_count (xr se) + 1\<rparr>\<rparr>"

definition count_queued :: "int \<Rightarrow> int \<Rightarrow> 'x rtp_session \<Rightarrow> 'x rtp_session" where
  "count_queued dis dup se =
     se\<lparr>stats := (stats se)\<lparr>discarded := discarded (stats se) + word_of_int dis,
                           packet_dup_recv := packet_dup_recv (stats se) + word_of_int dup\<rparr>,
        gstats := (gstats se)\<lparr>discarded := discarded (gstats se) + word_of_int dis,
                             packet_dup_recv := packet_dup_recv (gstats se) + word_of_int dup\<rparr>,
        xr := (xr se)\<lparr>discarded_count := discarded_count (xr se) + word_of_int dis,
                      dup_since_last_stat_summary :=
                        dup_since_last_stat_summary (xr se) + word_of_int dup\<rparr>\<rparr>"

definition immediate_gap_check :: "'x rtp_env \<Rightarrow> u16 \<Rightarrow> 'x rtp_session \<Rightarrow> 'x rtp_session option" where
  "immediate_gap_check env seq_number se =
     (if immediate_nack env se then do {
        (ns, loss, lastn) \<leftarrow> check_for_seq_number_gap_immediate (first_packet_delivered se)
           (congested env se) (rcv_last_seq se) (snd_last_nack se) (loss_before_nack (stats se)) seq_number;
        let se = se\<lparr>stats := (stats se)\<lparr>loss_before_nack := loss\<rparr>\<rparr>;
        let se = fold (send_generic_nack env) ns se;
        Some (se\<lparr>snd_last_nack := lastn\<rparr>)
      } else Some se)"

section \<open>The parser\<close>

text \<open>From the check of telephone events on: the packet has passed the header and SSRC checks.\<close>

definition rtp_parse_queue ::
  "'x rtp_env \<Rightarrow> 'x rtp_state \<Rightarrow> ptr \<Rightarrow> u32 \<Rightarrow> nat \<Rightarrow> u16 \<Rightarrow> u32 \<Rightarrow> nat \<Rightarrow> bool \<Rightarrow> 'x rtp_state option" where
  "rtp_parse_queue env st mp local_str_ts msgsize seq_number timestamp paytype markbit = do {
     let (s, se) = st;
     if is_telephone_event env se paytype then do {
       (fl, dis, dup, s, q) \<leftarrow> queue_packet s (tev_rq se) (max_packets se) mp;
       Some (s, count_queued dis dup (se\<lparr>tev_rq := q\<rparr>))
     } else do {
       let (s, se) = (if hw_recv_pt se \<noteq> int paytype then update_payload_type env paytype (s, se)
                      else (s, se));
       if flush_flag se then do { s \<leftarrow> freemsg s (Some mp); Some (s, se) }
       else do {
         m \<leftarrow> mblks s mp;
         let se = jitter_control_new_packet env timestamp local_str_ts se;
         let se = video_bandwidth_estimate env timestamp (mb_timestamp m) msgsize markbit se;
         let se = congestion_detector_record env timestamp local_str_ts se;
         let se = se\<lparr>xr := update_rtcp_xr_stat_summary (ttl_or_hl m) timestamp local_str_ts (xr se)\<rparr>;
         let (keep, s, se) = timestamp_check env timestamp seq_number (s, se);
         if \<not> keep then do {
           s \<leftarrow> freemsg s (Some mp);
           Some (s, count_outoftime se)
         } else do {
           se \<leftarrow> immediate_gap_check env seq_number se;
           (fl, dis, dup, s, q) \<leftarrow> queue_packet s (rq se) (max_packets se) mp;
           let se = se\<lparr>rq := q\<rparr>;
           let se = (if fl then jitter_control_update_size env s se else se);
           let se = count_queued dis dup se;
           Some (s, if dis = 0 \<and> dup = 0
                    then se\<lparr>xr := (xr se)\<lparr>rcv_count := rcv_count (xr se) + 1\<rparr>\<rparr> else se) } } } }"

definition rtp_session_rtp_parse ::
  "'x rtp_env \<Rightarrow> 'x rtp_state \<Rightarrow> ptr \<Rightarrow> u32 \<Rightarrow> 'x rtp_state option" where
  "rtp_session_rtp_parse env st mp local_str_ts = do {
     let (s, se) = st;
     (b, r, w) \<leftarrow> view s mp;
     if int w - int r < int RTP_FIXED_HEADER_SIZE then do {
       s \<leftarrow> freemsg s (Some mp);
       Some (s, count_bad se)
     } else do {
       let msgsize = w - r;
       version \<leftarrow> rtp_get_version s mp;
       if version \<noteq> 2 then do {
         stunlen \<leftarrow> rd16 b (r + 2);
         if unat stunlen + 20 = msgsize \<and> has_eventqs env (update_remote_sock_addr env s mp se) then
           Some (dispatch_stun_event env mp (s, update_remote_sock_addr env s mp se))
         else do {
           let se = (if unat stunlen + 20 = msgsize then update_remote_sock_addr env s mp se else se);
           s \<leftarrow> freemsg s (Some mp);
           Some (s, count_bad se) }
       } else do {
         let se = count_recv msgsize se;
         seq_number \<leftarrow> rtp_get_seqnumber s mp;
         timestamp \<leftarrow> rtp_get_timestamp s mp;
         ssrc \<leftarrow> rtp_get_ssrc s mp;
         cc \<leftarrow> rtp_get_cc s mp;
         paytype \<leftarrow> rtp_get_payload_type s mp;
         markbit \<leftarrow> rtp_get_markbit s mp;
         if cc * 4 > msgsize - RTP_FIXED_HEADER_SIZE then do {
           s \<leftarrow> freemsg s (Some mp);
           Some (s, count_bad se)
         } else do {
           let se = set_last_recv_time env se;
           let (accept, s, se) = ssrc_lock env s se mp ssrc timestamp;
           if \<not> accept then do {
             s \<leftarrow> freemsg s (Some mp);
             Some (s, count_bad se)
           } else
             rtp_parse_queue env (s, update_seq_stats seq_number se) mp local_str_ts msgsize
               seq_number timestamp paytype markbit } } } }"

end
