(* ===== verification/Ortp_Rtp_Spec.thy ===== *)
theory Ortp_Rtp_Spec
  imports Ortp_Rtp_Props
begin

text \<open>
  What the jitter buffer promises: order by sequence number, detection of duplicates, a
  bounded length, and requests for the packets that are missing.
\<close>

section \<open>Order of the jitter buffer\<close>

text \<open>C5: \<open>rtp_putq\<close> keeps the jitter buffer ordered. From a buffer whose sequence numbers lie in
  half of the 16-bit circle and increase strictly, and for a packet in the same half, it
  returns -1 exactly when a packet with this sequence number is already queued, and then
  releases the new packet and leaves the buffer as it was; otherwise it returns 0 and the
  buffer is the ordered list with the new packet added. Links apart, the store is unchanged.\<close>

theorem rtp_putq_sorted:
  assumes ok: "refs_ok s ext" and q: "qrep s q xs" and p: "packet_ok s q xs x cs"
    and k: "\<forall>y \<in> set (x # xs). rtp_get_seqnumber s y = Some (key y)"
    and w: "in_window base (key x)" and srt: "seq_sorted base key xs"
  shows "if key x \<in> key ` set xs
    then \<exists>s'. rtp_putq s q x = Some (-1, s', q) \<and> qrep s' q xs \<and> refs_ok s' ext \<and>
      (\<forall>p \<in> set (x # cs). mblks s' p = None)
    else \<exists>s' q' zs. rtp_putq s q x = Some (0, s', q') \<and> qrep s' q' zs \<and> strip s' = strip s \<and>
      seq_sorted base key zs \<and> set zs = insert x (set xs) \<and> length zs = Suc (length xs)"
proof -
  have win: "\<forall>y \<in> set (x # rev xs). in_window base (key y)"
    and rs: "sorted_wrt (\<lambda>a b. unat (key b - base) < unat (key a - base)) (rev xs)"
    using w srt by (auto simp: seq_sorted_def sorted_wrt_rev)
  have dup: "rtp_ins key x (rev xs) = None \<longleftrightarrow> key x \<in> key ` set xs"
    using rtp_ins_dup [OF win rs] by simp
  show ?thesis
  proof (cases "rtp_ins key x (rev xs)")
    case None
    with dup rtp_putq_ok [OF ok q p k] show ?thesis by auto
  next
    case (Some us)
    have "seq_sorted base key (rev us)"
      using rtp_ins_sorted [OF win rs Some] rtp_ins_set [OF Some] win
      by (auto simp: seq_sorted_def sorted_wrt_rev)
    moreover obtain s' q' where "rtp_putq s q x = Some (0, s', q')" "qrep s' q' (rev us)"
      "strip s' = strip s"
      using rtp_putq_ok [OF ok q p k] Some by auto
    moreover have "key x \<notin> key ` set xs" using dup Some by simp
    ultimately show ?thesis using rtp_ins_set [OF Some] by force
  qed
qed

text \<open>Example: a queue with one packet (sequence number 65535) and a new packet (0), both 13
  bytes long; 0 follows 65535 on the circle.\<close>

definition ex_pkt :: "u16 \<Rightarrow> bytes" where
  "ex_pkt n = [128, 0] @ enc16 n @ enc32 160 @ enc32 1 @ [7]"

definition ex_rtp :: mem where
  "ex_rtp = \<lparr>mblks = [0 \<mapsto> mblk_zero\<lparr>b_prev := Some 1, b_next := Some 1\<rparr>,
                   1 \<mapsto> mblk_zero\<lparr>b_prev := Some 0, b_next := Some 0, b_datap := Some 2, b_wptr := 13\<rparr>,
                   3 \<mapsto> mblk_zero\<lparr>b_datap := Some 4, b_wptr := 13\<rparr>],
     dblks = [2 \<mapsto> \<lparr>db_buf = ex_pkt 65535, db_freefn = FreeNone, db_ref = 1\<rparr>,
              4 \<mapsto> \<lparr>db_buf = ex_pkt 0, db_freefn = FreeNone, db_ref = 1\<rparr>],
     brk = 5, junk = (\<lambda>_. 0)\<rparr>"

definition ex_rq :: queue where
  "ex_rq = \<lparr>q_stopper = 0, q_mcount = 1\<rparr>"

definition ex_key :: "ptr \<Rightarrow> u16" where
  "ex_key p = (if p = 1 then 65535 else 0)"

lemma ex_rtp_owners: "owners ex_rtp d = (if d = 2 then {1} else if d = 4 then {3} else {})"
  by (auto simp: owners_def ex_rtp_def mblk_zero_def split: if_splits)

lemma ex_rtp_facts:
  "refs_ok ex_rtp no_ext" "qrep ex_rtp ex_rq [1]" "packet_ok ex_rtp ex_rq [1] 3 []"
  unfolding refs_ok_def ex_rtp_owners
  by (auto simp: ex_rtp_def ex_rq_def entry_ok_def qrep_def ring_def nx_def pv_def
      has_data_def packet_ok_def mblk_zero_def)

lemma ex_view:
  "view ex_rtp 1 = Some (ex_pkt 65535, 0, 13)" "view ex_rtp 3 = Some (ex_pkt 0, 0, 13)"
  by (simp_all add: view_def ex_rtp_def mblk_zero_def)

lemma ex_pkt_seq: "rd16 (ex_pkt n) 2 = Some n"
  unfolding ex_pkt_def by (rule rd16_at) simp

lemma ex_pkt_ts: "rd32 (ex_pkt n) 4 = Some 160"
proof -
  have "rd32 (([128, 0] @ enc16 n) @ enc32 160 @ (enc32 1 @ [7])) 4 = Some 160"
    by (rule rd32_at) simp
  then show ?thesis by (simp add: ex_pkt_def)
qed

lemma ex_seqs: "rtp_get_seqnumber ex_rtp 1 = Some 65535" "rtp_get_seqnumber ex_rtp 3 = Some 0"
  unfolding rtp_get_seqnumber_def ex_view
  by (simp_all add: ex_pkt_seq del: add_2_eq_Suc add_2_eq_Suc')

theorem rtp_putq_sorted_witness:
  "\<exists>s' q' zs. rtp_putq ex_rtp ex_rq 3 = Some (0, s', q') \<and> qrep s' q' zs \<and>
     seq_sorted 65000 ex_key zs \<and> set zs = insert 3 (set [1])"
proof -
  have pre: "\<forall>y \<in> set [3, 1]. rtp_get_seqnumber ex_rtp y = Some (ex_key y)"
    "in_window 65000 (ex_key 3)" "seq_sorted 65000 ex_key [1]"
    using ex_seqs by (simp_all add: ex_key_def in_window_def seq_sorted_def)
  have "ex_key 3 \<notin> ex_key ` set [1]" by (simp add: ex_key_def)
  with rtp_putq_sorted [OF ex_rtp_facts pre] show ?thesis by (simp only: if_False) blast
qed

section \<open>Bounded length\<close>

text \<open>The buffer after an insertion, and the tests of \<open>queue_packet\<close> before it.\<close>

lemma putq_buffer_ok:
  assumes b: "buffer_ok s q xs cs" and p: "packet_ok s q xs x (cs x)"
    and v: "view s x = Some (bb, r, w)" "r + 12 \<le> length bb"
    and d: "set (x # cs x) \<inter> (\<Union>y \<in> set xs. set (y # cs y)) = {}" "distinct (x # cs x)"
    and us: "rtp_ins key x (rev xs) = Some us"
    and f: "qrep s1 q1 (rev us)" "strip s1 = strip s" "q_stopper q1 = q_stopper q"
  shows "buffer_ok s1 q1 (rev us) cs"
proof -
  have su: "set us = insert x (set xs)" using rtp_ins_set [OF us] by auto
  have "distinct (concat (map (\<lambda>y. y # cs y) (x # xs)))" using b d by (auto simp: buffer_ok_def)
  then have "distinct (concat (map (\<lambda>y. y # cs y) (rev us)))"
    using distinct_concat_mset [of "rev us" "x # xs" "\<lambda>y. y # cs y"] rtp_ins_mset [OF us] by simp
  moreover have "q_stopper q \<notin> (\<Union>y \<in> set (rev us). set (y # cs y))"
    using b p su by (auto simp: buffer_ok_def packet_ok_def)
  ultimately have dist: "distinct (q_stopper q1 # concat (map (\<lambda>y. y # cs y) (rev us)))" using f(3) by simp
  have "chain s (Some y) (y # cs y) \<and> has_data s (y # cs y) \<and>
      (\<exists>b r w. view s y = Some (b, r, w) \<and> r + 12 \<le> length b)" if "y \<in> set (rev us)" for y
    using that su b p v by (auto simp: buffer_ok_def packet_ok_def)
  then have "chain s1 (Some y) (y # cs y) \<and> has_data s1 (y # cs y) \<and>
      (\<exists>b r w. view s1 y = Some (b, r, w) \<and> r + 12 \<le> length b)" if "y \<in> set (rev us)" for y
    using that chain_strip [OF f(2)] has_data_strip [OF f(2)] view_strip [OF f(2)] by metis
  then show ?thesis using f(1) dist unfolding buffer_ok_def by blast
qed

lemma queue_packet_eq:
  assumes "view s x = Some (b, r, w)" "rd8 b r = Some h"
  shows "queue_packet s q maxrqsz x =
    (if int w - int r = int (12 + 4 * unat (h AND 15))
     then freemsg s (Some x) \<bind> (\<lambda>s. Some (False, 1, 0, s, q))
     else rtp_putq s q x \<bind> (\<lambda>(rc, s, q). if rc < 0 then Some (False, 0, 1, s, q)
       else queue_trim s q maxrqsz 0 \<bind> (\<lambda>(n, s, q). Some (True, n, 0, s, q))))"
  using assms by (simp add: queue_packet_def rtp_get_cc_def RTP_FIXED_HEADER_SIZE_def)

text \<open>C24: \<open>queue_packet\<close> (with a limit that is not negative) never accesses freed memory, always
  ends, and either rejects the packet (no payload, or duplicate), releasing it and leaving
  the buffer, or queues it and drops the oldest packets until at most \<open>maxrqsz\<close> are left,
  counting exactly the packets it dropped.\<close>

theorem queue_packet_bounded:
  assumes ok: "refs_ok s ext" and b: "buffer_ok s q xs cs" and p: "packet_ok s q xs x (cs x)"
    and k: "\<forall>y \<in> set (x # xs). rtp_get_seqnumber s y = Some (key y)"
    and v: "view s x = Some (bb, r, w)" "r + 12 \<le> length bb"
    and d: "set (x # cs x) \<inter> (\<Union>y \<in> set xs. set (y # cs y)) = {}" "distinct (x # cs x)"
    and m: "0 \<le> maxrqsz"
  shows "\<exists>fl dis dup s' q' ys. queue_packet s q maxrqsz x = Some (fl, dis, dup, s', q') \<and>
    refs_ok s' ext \<and> qrep s' q' ys \<and>
    (if fl then int (length ys) \<le> maxrqsz \<and> dup = 0 \<and> dis = int (Suc (length xs)) - int (length ys) \<and>
       set ys \<subseteq> insert x (set xs)
     else ys = xs \<and> dis + dup = 1 \<and> (\<forall>p \<in> set (x # cs x). mblks s' p = None))"
proof -
  have q: "qrep s q xs" using b by (simp add: buffer_ok_def)
  obtain h where h: "rd8 bb r = Some h" using v(2) by simp
  note qp = queue_packet_eq [OF v(1) h, of q maxrqsz]
  consider (empty) "int w - int r = int (12 + 4 * unat (h AND 15))"
    | (duplicate) "int w - int r \<noteq> int (12 + 4 * unat (h AND 15))" "rtp_ins key x (rev xs) = None"
    | (inserted) us where "int w - int r \<noteq> int (12 + 4 * unat (h AND 15))" "rtp_ins key x (rev xs) = Some us"
    by fastforce
  then show ?thesis
  proof cases
    case empty
    obtain s' where f: "freemsg s (Some x) = Some s'" "refs_ok s' ext" "qrep s' q xs"
      "\<forall>p \<in> set (x # cs x). mblks s' p = None"
      using packet_free [OF ok q p] by blast
    with empty qp have "queue_packet s q maxrqsz x = Some (False, 1, 0, s', q)" by simp
    with f show ?thesis by force
  next
    case duplicate
    obtain s' where f: "rtp_putq s q x = Some (-1, s', q)" "qrep s' q xs" "refs_ok s' ext"
      "\<forall>p \<in> set (x # cs x). mblks s' p = None"
      using rtp_putq_ok [OF ok q p k] duplicate(2) by auto
    with duplicate(1) qp have "queue_packet s q maxrqsz x = Some (False, 0, 1, s', q)" by simp
    with f show ?thesis by force
  next
    case (inserted us)
    obtain s1 q1 where f: "rtp_putq s q x = Some (0, s1, q1)" "qrep s1 q1 (rev us)"
      "strip s1 = strip s" "q_stopper q1 = q_stopper q"
      using rtp_putq_ok [OF ok q p k] inserted(2) by auto
    let ?ys = "drop (length (rev us) - nat maxrqsz) (rev us)"
    obtain s' q' where t: "queue_trim s1 q1 maxrqsz 0 = Some (0 + max 0 (int (length (rev us)) - maxrqsz), s', q')"
      "refs_ok s' ext" "buffer_ok s' q' ?ys cs"
      using queue_trim_ok [OF refs_ok_strip [OF f(3) ok] putq_buffer_ok [OF b p v d inserted(2) f(2-4)] m, of 0] by blast
    have us: "set us = insert x (set xs)" "length us = Suc (length xs)" using rtp_ins_set [OF inserted(2)] by auto
    have "queue_packet s q maxrqsz x = Some (True, max 0 (int (length us) - maxrqsz), 0, s', q')"
      using inserted(1) f(1) t(1) qp by simp
    moreover have "qrep s' q' ?ys" using t(3) by (simp add: buffer_ok_def)
    moreover have "set ?ys \<subseteq> insert x (set xs)" using us(1) set_drop_subset [of _ "rev us"] by auto
    moreover have "int (length ?ys) \<le> maxrqsz"
      "max 0 (int (length us) - maxrqsz) = int (Suc (length xs)) - int (length ?ys)"
      using m us(2) by (auto simp: nat_le_iff)
    ultimately show ?thesis using t(2)
      by (intro exI [of _ True] exI [of _ "max 0 (int (length us) - maxrqsz)"] exI [of _ 0]
          exI [of _ s'] exI [of _ q'] exI [of _ ?ys]) simp
  qed
qed

theorem queue_packet_bounded_witness:
  "\<exists>fl dis dup s' q' ys. queue_packet ex_rtp ex_rq 1 3 = Some (fl, dis, dup, s', q') \<and> qrep s' q' ys \<and>
     length ys \<le> 1"
proof -
  have "buffer_ok ex_rtp ex_rq [1] (\<lambda>_. [])"
    using ex_rtp_facts(2) ex_view
    by (auto simp: buffer_ok_def has_data_def ex_pkt_def)
      (simp_all add: ex_rtp_def mblk_zero_def ex_rq_def)
  moreover have "\<forall>y \<in> set [3, 1]. rtp_get_seqnumber ex_rtp y = Some (ex_key y)"
    using ex_seqs by (simp add: ex_key_def)
  ultimately obtain fl dis dup s' q' ys where
    r: "queue_packet ex_rtp ex_rq 1 3 = Some (fl, dis, dup, s', q')" "qrep s' q' ys"
    "if fl then int (length ys) \<le> 1 \<and> dup = 0 \<and> dis = int (Suc (length [1 :: ptr])) - int (length ys) \<and>
       set ys \<subseteq> insert 3 (set [1])
     else ys = [1] \<and> dis + dup = 1 \<and> (\<forall>p \<in> set [3]. mblks s' p = None)"
    using queue_packet_bounded [of ex_rtp no_ext ex_rq "[1]" "\<lambda>_. []" 3 ex_key "ex_pkt 0" 0 13 1]
      ex_rtp_facts ex_view(2)
    by (auto simp: ex_pkt_def)
  then have "length ys \<le> 1" by (cases fl) auto
  with r(1,2) show ?thesis by blast
qed

section \<open>Peeking\<close>

text \<open>C27: \<open>rtp_peekq\<close> and \<open>rtp_peekq_permissive\<close> compute the same result on every well-formed
  queue: the first packet when the wanted timestamp is not older than its own, NULL
  otherwise. Neither of them discards or removes a packet, although the comments in
  \<open>rtp_peekq\<close> say that packets with older timestamps are discarded.\<close>

theorem rtp_peekq_permissive_equiv:
  assumes q: "qrep s q xs" and ts: "\<forall>x \<in> set xs. \<exists>t. rtp_get_timestamp s x = Some t"
  shows "rtp_peekq s q timestamp = rtp_peekq_permissive s q timestamp \<and>
    rtp_peekq s q timestamp = Some (case xs of
      [] \<Rightarrow> None
    | x # _ \<Rightarrow> if RTP_TIMESTAMP_IS_NEWER_THAN timestamp (the (rtp_get_timestamp s x)) then Some x else None,
      0, s)"
proof (cases xs)
  case Nil
  with qempty_ok [OF q] show ?thesis by (simp add: rtp_peekq_def rtp_peekq_permissive_def)
next
  case (Cons x ys)
  obtain t where t: "rtp_get_timestamp s x = Some t" using ts Cons by auto
  have f: "qfirst s q = Some (Some x)" "peekq s q = Some (Some x)" "qempty s q = Some False"
    using qfirst_ok [OF q] peekq_ok [OF q] qempty_ok [OF q] Cons by simp_all
  show ?thesis
  proof (cases "RTP_TIMESTAMP_IS_NEWER_THAN timestamp t")
    case True
    with rtp_peekq_loop_found [OF _ t True, of q ys] q Cons f t show ?thesis
      by (simp add: rtp_peekq_def rtp_peekq_permissive_def)
  next
    case False
    with f t Cons show ?thesis
      by (simp add: rtp_peekq_def rtp_peekq_permissive_def rtp_peekq_loop.simps)
  qed
qed

theorem rtp_peekq_permissive_equiv_witness:
  "rtp_peekq ex_rtp ex_rq 200 = Some (Some 1, 0, ex_rtp) \<and>
   rtp_peekq ex_rtp ex_rq 100 = Some (None, 0, ex_rtp)"
proof -
  have t: "rtp_get_timestamp ex_rtp 1 = Some 160"
    using ex_pkt_ts by (simp add: rtp_get_timestamp_def ex_view del: One_nat_def)
  then show ?thesis
    using rtp_peekq_permissive_equiv [OF ex_rtp_facts(2), THEN conjunct2, of 200]
      rtp_peekq_permissive_equiv [OF ex_rtp_facts(2), THEN conjunct2, of 100]
    by (simp add: RTP_TIMESTAMP_IS_NEWER_THAN_def)
qed

section \<open>Negative acknowledgements\<close>

text \<open>The packets a generic NACK asks for.\<close>

definition nacked :: "u16 \<times> u16 \<Rightarrow> u16 set" where
  "nacked n = insert (fst n) {fst n + 1 + of_nat i | i. i < 16 \<and> bit (snd n) i}"

lemma nack_blp_ok:
  assumes "unat pid < unat seq" and "unat seq \<le> e" and "e = min (unat pid + 16) (unat sn)"
  shows "\<exists>b. nack_blp pid sn seq blp = Some (of_nat e, b) \<and>
    (\<forall>i. bit b i \<longleftrightarrow> bit blp i \<or> unat seq - unat pid - 1 \<le> i \<and> i < e - unat pid - 1)"
  using assms
proof (induction "e - unat seq" arbitrary: seq blp)
  case 0
  then have "unat seq = e" by (auto simp: min_def split: if_splits)
  have "\<not> (seq < sn \<and> uint seq - uint pid < 16)"
  proof (cases "e = unat sn")
    case True
    with \<open>unat seq = e\<close> show ?thesis by (simp add: word_less_nat_alt)
  next
    case False
    then have "e = unat pid + 16" using 0 by (auto simp: min_def split: if_splits)
    then have "int (unat seq) = int (unat pid + 16)" using \<open>unat seq = e\<close> by (simp only:)
    then have "uint seq = uint pid + 16" by (simp only: uint_nat of_nat_add of_nat_numeral)
    then show ?thesis by linarith
  qed
  then have "nack_blp pid sn seq blp = Some (seq, blp)" by (subst nack_blp.simps) (rule if_not_P)
  moreover have "of_nat e = seq" using \<open>unat seq = e\<close> by auto
  ultimately show ?case using \<open>unat seq = e\<close> by auto
next
  case (Suc n)
  let ?k = "unat seq - unat pid - 1"
  have lt: "unat seq < e" using Suc.hyps(2) by simp
  have lsn: "unat seq < unat sn" using lt Suc.prems(3) by simp
  then have "unat seq + 1 < 65536" using u16_unat_less [of sn] by linarith
  with lsn lt Suc.prems have sn: "seq < sn" "unat seq + 1 < 65536" "?k < 16" "e \<le> unat pid + 16"
    by (auto simp: word_less_nat_alt)
  have us: "unat (seq + 1) = unat seq + 1" using sn(2) by (simp add: unat_word_ariths)
  have nk: "nat (uint seq - uint pid - 1) = ?k" "\<not> uint seq - uint pid - 1 < 0"
    "uint seq - uint pid < 16"
    using Suc.prems(1) lt sn(4) unfolding uint_nat by linarith+
  have "\<exists>b. nack_blp pid sn (seq + 1) (blp OR push_bit ?k 1) = Some (of_nat e, b) \<and>
    (\<forall>i. bit b i \<longleftrightarrow> bit (blp OR push_bit ?k 1) i \<or>
       unat (seq + 1) - unat pid - 1 \<le> i \<and> i < e - unat pid - 1)"
    by (rule Suc.hyps(1)) (use Suc.hyps(2) Suc.prems us lt in auto)
  moreover have "nack_blp pid sn seq blp = nack_blp pid sn (seq + 1) (blp OR push_bit ?k 1)"
    using sn(1) nk by (subst nack_blp.simps) simp
  moreover have "bit (blp OR push_bit ?k 1) i \<longleftrightarrow> bit blp i \<or> i = ?k" for i
    using sn(3) by (auto simp: bit_simps)
  ultimately show ?case
    using us Suc.prems(1) lt by (elim exE conjE) (intro exI conjI, simp, auto)
qed

lemma nacked_turn:
  assumes p: "unat pid \<le> unat sn" and sn: "unat sn < 65535" and e: "e = min (unat pid + 16) (unat sn)"
  shows "\<exists>b. nack_blp pid sn (pid + 1) 0 = Some (if pid = sn then pid + 1 else of_nat e, b) \<and>
    nacked (pid, b) = (if pid = sn then {sn} else of_nat ` {unat pid..<e})"
proof (cases "pid = sn")
  case True
  have "\<not> sn + 1 < sn"
    using sn by (simp add: word_less_nat_alt unat_word_ariths)
  with True show ?thesis by (simp add: nack_blp.simps nacked_def)
next
  case False
  then have lt: "unat pid < unat sn" using p by (simp add: le_neq_implies_less word_unat_eq_iff)
  then have "unat pid + 1 < 65536" using sn by simp
  then have u1: "unat (pid + 1) = unat pid + 1" by (simp add: unat_word_ariths)
  then obtain b where b: "nack_blp pid sn (pid + 1) 0 = Some (of_nat e, b)"
    "\<forall>i. bit b i \<longleftrightarrow> i < e - unat pid - 1"
    using nack_blp_ok [of pid "pid + 1" e sn 0] e lt by auto
  have e16: "unat pid < e" "e - unat pid - 1 < 16" using e lt by auto
  have "nacked (pid, b) = insert pid {pid + 1 + of_nat i | i. i < e - unat pid - 1}"
    using b(2) e16 by (auto simp: nacked_def)
  also have "\<dots> = of_nat ` {unat pid..<e}"
  proof -
    have "{unat pid..<e} = insert (unat pid) ((+) (Suc (unat pid)) ` {0..<e - unat pid - 1})"
    proof -
      have "(+) (Suc (unat pid)) ` {0..<e - unat pid - 1} = {Suc (unat pid)..<e}"
        using e16 image_add_atLeastLessThan [of "Suc (unat pid)" 0 "e - unat pid - 1"] by simp
      then show ?thesis using e16 by auto
    qed
    moreover have "(\<lambda>i. of_nat (Suc (unat pid) + i)) = (\<lambda>i. pid + 1 + of_nat i)"
      by (simp add: fun_eq_iff ac_simps)
    ultimately have "of_nat ` {unat pid..<e} = insert pid ((\<lambda>i. pid + 1 + of_nat i) ` {0..<e - unat pid - 1})"
      by (simp only: image_insert image_image) simp
    then show ?thesis by auto
  qed
  finally show ?thesis using b(1) False by auto
qed

lemma nack_loop_ok:
  assumes "unat pid \<le> unat sn" and "unat sn < 65535" and "n = (unat sn - unat pid) div 16"
  shows "\<exists>ns. nack_loop (Suc n) pid sn = Some ns \<and>
    (\<Union>x \<in> set ns. nacked x) = of_nat ` {unat pid..<unat sn} \<union>
      (if 16 dvd (unat sn - unat pid) then {sn} else {})"
  using assms
proof (induction n arbitrary: pid)
  case 0
  let ?e = "min (unat pid + 16) (unat sn)"
  obtain b where b: "nack_blp pid sn (pid + 1) 0 = Some (if pid = sn then pid + 1 else of_nat ?e, b)"
    "nacked (pid, b) = (if pid = sn then {sn} else of_nat ` {unat pid..<?e})"
    using nacked_turn [OF 0(1,2) refl] by blast
  have d: "unat sn - unat pid < 16" using 0(3) by linarith
  then have "?e = unat sn" by simp
  moreover have "16 dvd (unat sn - unat pid) \<longleftrightarrow> pid = sn"
    using d 0(1) by (auto simp: word_unat_eq_iff dest: nat_dvd_not_less)
  ultimately show ?case using b by auto
next
  case (Suc n)
  let ?d = "unat sn - unat pid"
  have d: "16 \<le> ?d" using Suc.prems(3) by (cases "?d < 16") auto
  have e: "min (unat pid + 16) (unat sn) = unat pid + 16" and ne: "pid \<noteq> sn" using d by auto
  obtain b where b: "nack_blp pid sn (pid + 1) 0 = Some (of_nat (unat pid + 16), b)"
    "nacked (pid, b) = of_nat ` {unat pid..<unat pid + 16}"
    using nacked_turn [OF Suc.prems(1,2) refl] e ne by auto
  define p where "p = (of_nat (unat pid + 16) :: u16)"
  note b = b [folded p_def]
  have up: "unat p = unat pid + 16"
  proof -
    have "p = pid + 16" by (simp add: p_def)
    moreover
    have "unat pid + 16 < 65536" using d Suc.prems(2) by simp
    ultimately show ?thesis by (simp add: unat_word_ariths)
  qed
  have p_le: "unat p \<le> unat sn" using d up by linarith
  have "n = (unat sn - unat p) div 16" using Suc.prems(3) d up by simp
  then obtain ns where ns: "nack_loop (Suc n) p sn = Some ns"
    "(\<Union>x \<in> set ns. nacked x) = of_nat ` {unat p..<unat sn} \<union>
      (if 16 dvd (unat sn - unat p) then {sn} else {})"
    using Suc.IH [of p] Suc.prems(2) p_le by blast
  have "16 dvd (unat sn - unat p) \<longleftrightarrow> 16 dvd ?d"
    using d up dvd_minus_self [of 16 ?d] by (simp only: diff_diff_left [symmetric]) auto
  moreover have "{unat pid..<unat sn} = {unat pid..<unat pid + 16} \<union> {unat p..<unat sn}"
    using d up by auto
  moreover have "nack_loop (Suc (Suc n)) pid sn = Some ((pid, b) # ns)"
    using ns(1) by (subst nack_loop.simps(2)) (simp only: b(1) bind.simps prod.case)
  ultimately show ?case
    using b(2) ns(2) by (intro exI [of _ "(pid, b) # ns"]) (simp only: image_Un, auto)
qed



text \<open>When the last delivered packet has sequence number 65535 and its successor, number 0,
  arrives in order, both gap checks see a gap, because the comparison macro compares 0 with
  the promoted value 65536: a NACK is sent for the packet that has just been received.\<close>

theorem nack_false_gap_at_wrap:
  "check_for_seq_number_gap True 65535 0 = Some [(0, 0)] \<and>
   check_for_seq_number_gap_immediate True False 65535 65535 l 0 = Some ([(0, 0)], l, 0)"
  by (simp add: check_for_seq_number_gap_def check_for_seq_number_gap_immediate_def nacks_from_def
      RTP_SEQ_IS_STRICTLY_GREATER_THAN_def nack_blp.simps [of 65536 0 65537])

text \<open>Across the wrap of the sequence numbers the gap check asks for the first missing packet
  only: with 65529 delivered and 5 received, packets 65531 to 65535 and 0 to 4 are missing
  and are not requested.\<close>

theorem nack_incomplete_across_wrap:
  "check_for_seq_number_gap True 65529 5 = Some [(65530, 0)] \<and> nacked (65530, 0) = {65530}"
  by (simp add: check_for_seq_number_gap_def nacks_from_def nacked_def
      RTP_SEQ_IS_STRICTLY_GREATER_THAN_def nack_blp.simps [of 65530])

end
