(* ===== verification/Ortp_Rtp_Parse_Spec.thy ===== *)
theory Ortp_Rtp_Parse_Spec
  imports Ortp_Rtp_Parse Ortp_Rtp_Spec Ortp_Mblk_Spec
begin

text \<open>
  Reception of RTP packets: the extended sequence number, the lock on the incoming SSRC, and
  what happens to packets that are rejected.
\<close>

section \<open>Extended sequence numbers\<close>

lemma lo_join [simp]: "lo16 (join32 h l) = l"
  unfolding lo16_def join32_def by (rule bit_word_eqI) (auto simp: bit_simps)

lemma hi_join [simp]: "hi16 (join32 h l) = h"
  unfolding hi16_def join32_def
proof (rule bit_word_eqI)
  fix n assume "n < LENGTH(16)"
  then show "bit (ucast (drop_bit 16 (push_bit 16 (ucast h) OR ucast l :: u32)) :: u16) n = bit h n"
    using bit_imp_le_length [of l "16 + n"] by (auto simp: bit_simps)
qed

lemma join_split [simp]: "join32 (hi16 x) (lo16 x) = x"
  unfolding lo16_def hi16_def join32_def by (rule bit_word_eqI) (auto simp: bit_simps)

lemma join32_nat: "join32 h l = of_nat (65536 * unat h + unat l)"
proof -
  have "join32 h l = push_bit 16 (ucast h) + ucast l"
    unfolding join32_def
    by (rule disjunctive_add [symmetric]) (auto simp: bit_simps dest: bit_imp_le_length)
  also have "\<dots> = 65536 * of_nat (unat h) + of_nat (unat l)"
    by (simp add: push_bit_eq_mult mult.commute)
  finally show ?thesis by simp
qed

text \<open>The extended sequence number follows an in-order stream exactly: when the next packet
  has the next 16-bit sequence number, the 32-bit value grows by one, also when the 16-bit
  number wraps to 0.\<close>

lemma update_extseq_in_order: "update_extseq x (lo16 x + 1) = x + 1"
proof (cases "lo16 x = 65535")
  case True
  then have "update_extseq x (lo16 x + 1) = join32 (hi16 x + 1) 0"
    by (simp add: update_extseq_def u16_overflow)
  also have "\<dots> = join32 (hi16 x) 65535 + 1"
  proof -
    let ?n = "unat (hi16 x)"
    have size32: "2 ^ LENGTH(32) = (4294967296 :: nat)" by simp
    have "join32 (hi16 x + 1) 0 = of_nat (65536 * ((?n + 1) mod 65536))"
      by (simp add: join32_nat unat_word_ariths del: of_nat_mult)
    also have "65536 * ((?n + 1) mod 65536) = (65536 * (?n + 1)) mod 4294967296"
      using mult_mod_right [of 65536 "?n + 1" 65536] by simp
    also have "(of_nat ((65536 * (?n + 1)) mod 4294967296) :: u32) = of_nat (65536 * (?n + 1))"
      by (simp only: word_of_nat_eq_iff take_bit_nat_def mod_mod_trivial size32)
    also have "65536 * (?n + 1) = Suc (65536 * ?n + unat (65535 :: u16))" by simp
    finally show ?thesis by (simp only: join32_nat of_nat_Suc add.commute)
  qed
  finally show ?thesis using True join_split [of x] by simp
next
  case False
  then have "unat (lo16 x) \<noteq> 65535" by (auto simp: word_unat_eq_iff)
  then have "unat (lo16 x) + 1 < 65536"
    using u16_unat_less [of "lo16 x"] by linarith
  then have "unat (lo16 x + 1) = unat (lo16 x) + 1"
    by (simp add: unat_word_ariths)
  then have "update_extseq x (lo16 x + 1) = join32 (hi16 x) (lo16 x) + 1"
    by (simp add: update_extseq_def word_less_nat_alt join32_nat)
  then show ?thesis by simp
qed

text \<open>A late packet from before a wrap moves the extended sequence number far ahead: after the
  stream has wrapped (low half below 200), a reordered packet with a high sequence number is
  taken as the newest of the current cycle, so the value grows by the whole distance.\<close>

theorem update_extseq_late_packet:
  assumes "lo < 200" and "late > 65336"
  shows "update_extseq (join32 h lo) late = join32 h late \<and>
    unat (join32 h late) - unat (join32 h lo) = unat late - unat lo \<and> unat late - unat lo > 65000"
proof -
  have b: "unat lo < 200" "65336 < unat late" using assms by (simp_all add: word_less_nat_alt)
  have "unat (join32 h k) = 65536 * unat h + unat k" for k
  proof -
    have "65536 * unat h + unat k < 4294967296"
      using u16_unat_less [of h] u16_unat_less [of k] by linarith
    then show ?thesis by (simp add: join32_nat unat_of_nat take_bit_nat_eq_self del: of_nat_add of_nat_mult)
  qed
  with b show ?thesis by (simp add: update_extseq_def word_less_nat_alt)
qed

theorem update_extseq_late_packet_witness:
  "update_extseq (join32 1 5) 65500 = join32 1 65500"
  using update_extseq_late_packet [of 5 65500 1] by simp

section \<open>An example session\<close>

text \<open>Callees that change nothing, and a session locked on SSRC 1.\<close>

definition ex_env :: "unit rtp_env" where
  "ex_env = \<lparr>has_eventqs = (\<lambda>_. False), is_telephone_event = (\<lambda>_ _. False),
     immediate_nack = (\<lambda>_. False), congested = (\<lambda>_. False),
     update_remote_sock_addr = (\<lambda>_ _ se. se), set_last_recv_time = (\<lambda>se. se),
     jitter_control_new_packet = (\<lambda>_ _ se. se), video_bandwidth_estimate = (\<lambda>_ _ _ _ se. se),
     congestion_detector_record = (\<lambda>_ _ se. se), send_generic_nack = (\<lambda>_ se. se),
     jitter_control_update_size = (\<lambda>_ se. se), dispatch_stun_event = (\<lambda>_ st. st),
     emit_ssrc_changed = (\<lambda>st. st), emit_timestamp_jump = (\<lambda>_ st. st),
     update_payload_type = (\<lambda>_ st. st)\<rparr>"

definition ex_stats :: rtp_stats where
  "ex_stats = \<lparr>packet_recv = 0, packet_dup_recv = 0, hw_recv = 0, outoftime = 0, bad = 0,
     discarded = 0, loss_before_nack = 0\<rparr>"

definition ex_session :: "unit rtp_session" where
  "ex_session = \<lparr>stats = ex_stats, gstats = ex_stats,
     xr = \<lparr>rcv_seq_at_last_stat_summary = 0, rcv_since_last_stat_summary = 0,
           dup_since_last_stat_summary = 0, min_jitter = 0, max_jitter = 0, last_jitter_diff = 0,
           min_ttl_or_hl = 0, max_ttl_or_hl = 0, first_rcv_seq = 0, last_rcv_seq = 0, rcv_count = 0,
           discarded_count = 0\<rparr>,
     rq = ex_rq, tev_rq = ex_rq, max_packets = 100, first_packet_delivered = False,
     recv_seq_init = False, flush_flag = False, ssrc_set = True, rcv_ssrc = 1,
     inc_ssrc_candidate = 0, inc_same_ssrc_count = 0, ssrc_changed_thres = 3, hw_recv_pt = 0,
     rcv_last_ts = 0, rcv_last_seq = 0, snd_last_nack = 0, ts_jump = 0, hwrcv_extseq = 0,
     hwrcv_seq_at_last_SR = 0, hwrcv_since_last_SR = 0, rest = ()\<rparr>"

section \<open>SSRC lock\<close>

text \<open>The session after \<open>n\<close> packets in a row with the same SSRC, when all of them are rejected.\<close>

primrec lock_rejects ::
  "'x rtp_env \<Rightarrow> mem \<Rightarrow> ptr \<Rightarrow> u32 \<Rightarrow> u32 \<Rightarrow> nat \<Rightarrow> 'x rtp_session \<Rightarrow> 'x rtp_session option" where
  "lock_rejects env s mp ssrc ts 0 se = Some se"
| "lock_rejects env s mp ssrc ts (Suc n) se =
     (case ssrc_lock env s se mp ssrc ts of
        (accept, st) \<Rightarrow> if accept then None else lock_rejects env s mp ssrc ts n (snd st))"

lemma lock_rejects_candidate:
  assumes "ssrc_set se" "rcv_ssrc se \<noteq> b" "inc_ssrc_candidate se = b" "inc_same_ssrc_count se = int c"
    and "c + n < t" "ssrc_changed_thres se = int t"
  shows "lock_rejects env s mp b ts n se = Some (se\<lparr>inc_same_ssrc_count := int (c + n)\<rparr>)"
  using assms
proof (induction n arbitrary: se c)
  case (Suc n)
  let ?se = "se\<lparr>inc_same_ssrc_count := int (Suc c)\<rparr>"
  have "ssrc_lock env s se mp b ts = (False, s, ?se)"
    using Suc.prems by (simp add: ssrc_lock_def)
  with Suc.IH [of ?se "Suc c"] Suc.prems show ?case by simp
qed simp

text \<open>A session locked on one SSRC follows another one only after the configured number of
  packets in a row: from a session that has not yet seen SSRC \<open>b\<close>, the first \<open>t\<close> packets with
  SSRC \<open>b\<close> are all rejected, leaving the locked SSRC, and the next one is accepted, where \<open>t\<close>
  is \<open>ssrc_changed_thres\<close>.\<close>

theorem ssrc_switch_threshold:
  assumes "ssrc_set se" "rcv_ssrc se \<noteq> b" "inc_ssrc_candidate se \<noteq> b"
    and "ssrc_changed_thres se = int (Suc t)"
  shows "\<exists>se'. lock_rejects env s mp b ts (Suc t) se = Some se' \<and> rcv_ssrc se' = rcv_ssrc se \<and>
    fst (ssrc_lock env s se' mp b ts)"
proof -
  let ?se = "se\<lparr>inc_same_ssrc_count := 0, inc_ssrc_candidate := b\<rparr>"
  have "ssrc_lock env s se mp b ts = (False, s, ?se)"
    using assms by (simp add: ssrc_lock_def)
  moreover have "lock_rejects env s mp b ts t ?se = Some (?se\<lparr>inc_same_ssrc_count := int (0 + t)\<rparr>)"
    by (rule lock_rejects_candidate [where t = "Suc t"]) (use assms in simp_all)
  ultimately show ?thesis using assms by (simp add: ssrc_lock_def Let_def)
qed

theorem ssrc_switch_threshold_witness:
  "\<exists>se'. lock_rejects ex_env ex_rtp 3 9 0 3 ex_session = Some se' \<and> rcv_ssrc se' = 1 \<and>
     fst (ssrc_lock ex_env ex_rtp se' 3 9 0)"
  using ssrc_switch_threshold [of ex_session 9 2 ex_env ex_rtp 3 0]
  by (simp add: ex_session_def numeral_3_eq_3)

text \<open>A packet of the locked SSRC resets the count of foreign packets, so a switch needs the
  foreign packets to be consecutive; it is accepted and leaves the lock.\<close>

lemma ssrc_lock_same_resets:
  assumes "ssrc_set se"
    and "\<And>se'. inc_same_ssrc_count (update_remote_sock_addr env s mp se') = inc_same_ssrc_count se'"
    and "\<And>se'. rcv_ssrc (update_remote_sock_addr env s mp se') = rcv_ssrc se'"
  shows "\<exists>se'. ssrc_lock env s se mp (rcv_ssrc se) ts = (True, s, se') \<and>
    inc_same_ssrc_count se' = 0 \<and> rcv_ssrc se' = rcv_ssrc se"
  using assms by (simp add: ssrc_lock_def)

lemma ssrc_lock_same_resets_witness:
  "\<exists>se'. ssrc_lock ex_env ex_rtp (ex_session\<lparr>inc_same_ssrc_count := 2\<rparr>) 3 1 0 = (True, ex_rtp, se') \<and>
     inc_same_ssrc_count se' = 0"
  using ssrc_lock_same_resets [of "ex_session\<lparr>inc_same_ssrc_count := 2\<rparr>" ex_env ex_rtp 3 0]
  by (auto simp: ex_env_def ex_session_def)

section \<open>Rejected packets\<close>



end
