(* ===== verification/Ortp_Rtp_Ext_Spec.thy ===== *)
theory Ortp_Rtp_Ext_Spec
  imports Ortp_Rtp_Ext Ortp_Rtp_Parse_Spec
begin

text \<open>
  Header extensions: bounds of what the accessors read and return, and round trips from
  writing an extension to reading it back, payload included.
\<close>

section \<open>Packets as byte strings\<close>

lemma single_block:
  "msg_bytes s [p] = Some bs \<longleftrightarrow>
   (\<exists>b r w. view s p = Some (b, r, w) \<and> r \<le> w \<and> w \<le> length b \<and> bs = take (w - r) (drop r b))"
  by (auto simp: view_def frag_bytes_def bind_eq_Some_conv rd_block_def split: if_splits)

lemma view_mwrite:
  assumes "view s p = Some (b, r, w)" and "wr_block b off c = Some b'"
  obtains s' where "mwrite s p off c = Some s'" "view s' p = Some (b', r, w)" "mblks s' = mblks s"
proof -
  obtain m d x where m: "mblks s p = Some m" "b_datap m = Some d" "dblks s d = Some x"
    "db_buf x = b" "b_rptr m = r" "b_wptr m = w"
    using assms(1) by (auto simp: view_def bind_eq_Some_conv)
  show ?thesis
    by (rule that [of "s\<lparr>dblks := (dblks s)(d \<mapsto> x\<lparr>db_buf := b'\<rparr>)\<rparr>"])
      (use m assms(2) in \<open>auto simp: mwrite_def upd_d_def view_def\<close>)
qed

section \<open>Bounds\<close>

lemma find_ext1_defined: "lim \<le> length b \<Longrightarrow> find_ext1 b i tmp lim \<noteq> None"
proof (induction b i tmp lim rule: find_ext1.induct)
  case (1 b i tmp lim)
  show ?case
  proof (cases "tmp < lim")
    case True
    then have "rd8 b tmp = Some (b ! tmp)" using 1(3) by simp
    with True 1 show ?thesis by (subst find_ext1.simps) auto
  qed (subst find_ext1.simps, simp)
qed

lemma find_ext1_inside:
  "find_ext1 b i tmp lim = Some (Some (t, n)) \<Longrightarrow> tmp \<le> t \<and> t < lim \<and> 1 \<le> n \<and> n \<le> 16"
proof (induction b i tmp lim rule: find_ext1.induct)
  case (1 b i tmp lim)
  from 1(3) have "tmp < lim" by (subst (asm) find_ext1.simps) (auto split: if_splits)
  with 1(3) obtain x where x: "rd8 b tmp = Some x" "x \<noteq> 15"
    by (subst (asm) find_ext1.simps) (auto simp: bind_eq_Some_conv split: if_splits)
  have n16: "unat (x AND 15) \<le> 15" using unat_and_le [of x 15] by simp
  show ?case
  proof (cases "x = 0")
    case True
    with 1(3) x \<open>tmp < lim\<close> have "find_ext1 b i (tmp + 1) lim = Some (Some (t, n))"
      by (subst (asm) find_ext1.simps) simp
    with 1(1) [OF \<open>tmp < lim\<close> x True] show ?thesis by simp
  next
    case False
    show ?thesis
    proof (cases "i = uint (drop_bit 4 x)")
      case True
      with False 1(3) x \<open>tmp < lim\<close> n16 show ?thesis by (subst (asm) find_ext1.simps) auto
    next
      case ne: False
      with False 1(3) x \<open>tmp < lim\<close>
      have "find_ext1 b i (tmp + (unat (x AND 15) + 1) + 1) lim = Some (Some (t, n))"
        by (subst (asm) find_ext1.simps) simp
      with 1(2) [OF \<open>tmp < lim\<close> x False ne] show ?thesis by simp
    qed
  qed
qed

text \<open>A packet: one message block whose buffer holds at least the fixed header.\<close>

definition packet_view :: "mem \<Rightarrow> ptr \<Rightarrow> bytes \<Rightarrow> nat \<Rightarrow> nat \<Rightarrow> bool" where
  "packet_view s p b r w \<longleftrightarrow> view s p = Some (b, r, w) \<and> r + 12 \<le> w \<and> w \<le> length b"

lemma header_bits:
  assumes "packet_view s p b r w"
  shows "rtp_get_extbit s p = Some (bit (b ! r) 4)" "rtp_get_cc s p = Some (unat (b ! r AND 15))"
  using assms by (auto simp: packet_view_def rtp_get_extbit_def rtp_get_cc_def)

lemma extheader_cases:
  assumes v: "packet_view s p b r w"
  obtains (none) pr where "rtp_get_extheader s p = Some (-1, pr, None)"
  | (ext) n pr e where "rtp_get_extheader s p = Some (int n, Some pr, Some e)"
      "bit (b ! r) 4" "e = r + 12 + unat (b ! r AND 15) * 4 + 4" "e + n \<le> w"
proof -
  let ?eh = "r + 12 + unat (b ! r AND 15) * 4"
  consider "\<not> bit (b ! r) 4" | "bit (b ! r) 4" "\<not> ?eh + 4 \<le> w" | "bit (b ! r) 4" "?eh + 4 \<le> w" by blast
  then show ?thesis
  proof cases
    case 1
    with v header_bits [OF v] show ?thesis
      by (intro none [of None]) (simp add: rtp_get_extheader_def packet_view_def)
  next
    case 2
    with v header_bits [OF v] show ?thesis
      by (intro none [of None])
        (simp add: rtp_get_extheader_def packet_view_def RTP_FIXED_HEADER_SIZE_def)
  next
    case 3
    obtain h where h: "rd32 b ?eh = Some h" using 3 v by (auto simp: packet_view_def)
    let ?n = "unat (h AND 0xFFFF) * 4" and ?pr = "ucast (drop_bit 16 h) :: u16"
    have eq: "rtp_get_extheader s p =
        (if ?eh + 4 + ?n > w then Some (-1, Some ?pr, None) else Some (int ?n, Some ?pr, Some (?eh + 4)))"
      using v header_bits [OF v] 3 h
      by (simp add: rtp_get_extheader_def packet_view_def RTP_FIXED_HEADER_SIZE_def Let_def)
    show ?thesis
    proof (cases "?eh + 4 + ?n > w")
      case True
      with eq show ?thesis by (intro none) simp
    next
      case False
      with eq 3(1) show ?thesis by (intro ext [of ?n ?pr "?eh + 4"]) simp_all
    qed
  qed
qed


text \<open>
  Example packets of 20 bytes with a one-word extension: one-byte profile with the element
  (id 1, length 16) in the last byte, and two-byte profile with an identifier there.
\<close>

definition ex_ext :: "u8 \<Rightarrow> u8 \<Rightarrow> u8 \<Rightarrow> mem" where
  "ex_ext p1 p2 x = \<lparr>mblks = [0 \<mapsto> mblk_zero\<lparr>b_datap := Some 1, b_wptr := 20\<rparr>],
     dblks = [1 \<mapsto> \<lparr>db_buf = [144, 0, 0, 1, 0, 0, 0, 0, 0, 0, 0, 0, p1, p2, 0, 1, 0, 0, 0, x],
                    db_freefn = FreeNone, db_ref = 1\<rparr>],
     brk = 2, junk = (\<lambda>_. 0)\<rparr>"

lemma ex_ext_view:
  "packet_view (ex_ext p1 p2 x) 0 [144, 0, 0, 1, 0, 0, 0, 0, 0, 0, 0, 0, p1, p2, 0, 1, 0, 0, 0, x] 0 20"
  by (simp add: packet_view_def view_def ex_ext_def mblk_zero_def)

lemma ex_ext_header:
  "rtp_get_extheader (ex_ext 0xBE 0xDE x) 0 = Some (4, Some 0xBEDE, Some 16)"
  "rtp_get_extheader (ex_ext 0x10 0 x) 0 = Some (4, Some 0x1000, Some 16)"
  using ex_ext_view [of "0xBE" "0xDE" x] header_bits [OF ex_ext_view [of "0xBE" "0xDE" x]]
    ex_ext_view [of "0x10" 0 x] header_bits [OF ex_ext_view [of "0x10" 0 x]]
  by (simp_all add: rtp_get_extheader_def packet_view_def RTP_FIXED_HEADER_SIZE_def be32_def)


text \<open>A found element may run past the packet: for an element header in the last byte of the
  extension, \<open>rtp_get_extension_header\<close> returns a size of 16 and a position one past the end
  of the packet, and \<open>rtp_get_frame_marker\<close> and \<open>rtp_get_client_to_mixer_audio_level\<close> then read
  outside the buffer. With the two-byte profile the search itself reads outside the buffer.\<close>

theorem extension_overrun:
  "rtp_get_extension_header (ex_ext 0xBE 0xDE 0x1F) 0 1 = Some (16, Some 20) \<and>
   rtp_get_frame_marker (ex_ext 0xBE 0xDE 0x1F) 0 1 = None \<and>
   rtp_get_client_to_mixer_audio_level (ex_ext 0xBE 0xDE 0x1F) 0 1 = None \<and>
   rtp_get_extension_header (ex_ext 0x10 0 1) 0 1 = None"
proof -
  let ?b = "[144, 0, 0, 1, 0, 0, 0, 0, 0, 0, 0, 0, 0xBE, 0xDE, 0, 1, 0, 0, 0, 0x1F :: u8]"
  let ?c = "[144, 0, 0, 1, 0, 0, 0, 0, 0, 0, 0, 0, 0x10, 0, 0, 1, 0, 0, 0, 1 :: u8]"
  have "find_ext1 ?b 1 16 20 = Some (Some (19, 16))"
    by (simp add: find_ext1.simps [of ?b])
  then have 1: "rtp_get_extension_header (ex_ext 0xBE 0xDE 0x1F) 0 1 = Some (16, Some 20)"
    using ex_ext_header(1) [of "0x1F"] ex_ext_view [of "0xBE" "0xDE" "0x1F"]
      header_bits [OF ex_ext_view [of "0xBE" "0xDE" "0x1F"]]
    by (simp add: rtp_get_extension_header_def packet_view_def)
  have "find_ext2 ?c 1 16 20 = None"
    by (simp add: find_ext2.simps [of ?c] rd8_def)
  then have 2: "rtp_get_extension_header (ex_ext 0x10 0 1) 0 1 = None"
    using ex_ext_header(2) [of 1] ex_ext_view [of "0x10" 0 1]
      header_bits [OF ex_ext_view [of "0x10" 0 1]]
    by (simp add: rtp_get_extension_header_def packet_view_def)
  show ?thesis
    using 1 2 ex_ext_view [of "0xBE" "0xDE" "0x1F"]
    by (simp add: rtp_get_frame_marker_def rtp_get_client_to_mixer_audio_level_def packet_view_def
        rd8_def)
qed

section \<open>Adding an extension\<close>

lemma nibble_bit: "k < 16 \<Longrightarrow> bit (k :: nat) j \<Longrightarrow> j < 4"
  using take_bit_nat_eq_self [of k 4] bit_take_bit_iff [of 4 k j] by auto

text \<open>The first byte of a one-byte-header element: identifier and length minus one.\<close>

lemma elem_byte:
  fixes i :: int and n :: nat
  assumes "0 \<le> i" "i \<le> 15" "n < 16"
  defines "x \<equiv> (word_of_int (i * 16) OR of_nat n :: u8)"
  shows "uint (drop_bit 4 x) = i" and "unat (x AND 15) = n"
proof -
  define a where "a = nat i"
  have a: "i = int a" "a < 16" using assms(1,2) by (auto simp: a_def)
  have x: "x = push_bit 4 (of_nat a) OR of_nat n"
    by (simp add: x_def a(1) push_bit_eq_mult mult.commute)
  have "drop_bit 4 x = of_nat a"
    using nibble_bit [OF a(2)] nibble_bit [OF assms(3)]
    by (intro bit_word_eqI) (auto simp: x bit_simps)
  then show "uint (drop_bit 4 x) = i"
    using a by (simp add: uint_nat unat_of_nat take_bit_nat_eq_self del: of_nat_unat)
  have m: "(15 :: u8) = mask 4" by (simp add: mask_eq_exp_minus_1)
  have "x AND 15 = of_nat n"
    using nibble_bit [OF assms(3)]
    by (intro bit_word_eqI) (auto simp: x m bit_simps)
  then show "unat (x AND 15) = n"
    using assms(3) by (simp add: unat_of_nat take_bit_nat_eq_self)
qed

lemma mwrite_refs: "refs_ok s ext \<Longrightarrow> mwrite s p off c = Some s' \<Longrightarrow> refs_ok s' ext"
  by (auto simp: mwrite_def upd_d_def bind_eq_Some_conv intro!: refs_ok_upd_d)

lemma split_window:
  assumes "r \<le> w" and "take (w - r) (drop r b) = c"
  shows "b = take r b @ c @ drop w b"
proof -
  have "drop r b = c @ drop w b"
    using assms append_take_drop_id [of "w - r" "drop r b"] by simp
  then show ?thesis using append_take_drop_id [of r b] by simp
qed

lemma mwrite_bytes:
  assumes v: "view s p = Some (b, r, w)" "r \<le> w" "w \<le> length b"
    and bs: "take (w - r) (drop r b) = A @ Z @ C" and len: "length c = length Z"
  obtains s' where "mwrite s p (r + length A) c = Some s'" "view s' p = Some (take r b @ A @ c @ C @ drop w b, r, w)"
    "mblks s' = mblks s" "msg_bytes s' [p] = Some (A @ c @ C)"
proof -
  have b: "b = take r b @ A @ Z @ C @ drop w b" using split_window [OF v(2) bs] by simp
  have l: "w - r = length A + length Z + length C"
    using bs v by (metis length_append length_take length_drop add.assoc diff_le_mono min.absorb2)
  have lr: "length (take r b) = r" using v by simp
  have wb: "wr_block b (r + length A) c = Some (take r b @ A @ c @ C @ drop w b)"
  proof -
    have "wr_block (take r b @ A @ Z @ C @ drop w b) (r + length A) c
        = Some (take r b @ A @ c @ C @ drop w b)"
      using lr len by (simp add: wr_block_def)
    with b show ?thesis by metis
  qed
  obtain s' where s': "mwrite s p (r + length A) c = Some s'"
      "view s' p = Some (take r b @ A @ c @ C @ drop w b, r, w)" "mblks s' = mblks s"
    by (rule view_mwrite [OF v(1) wb])
  have "take (w - r) (drop r (take r b @ A @ c @ C @ drop w b)) = A @ c @ C"
    using lr l len by simp
  moreover have "w \<le> length (take r b @ A @ c @ C @ drop w b)"
    using lr l len v by simp
  ultimately have "msg_bytes s' [p] = Some (A @ c @ C)"
    unfolding single_block using s'(2) v(2) by metis
  with s' show ?thesis by (rule that)
qed

text \<open>The extension header that a packet without extensions gets for one element.\<close>

definition ext_block :: "int \<Rightarrow> bytes \<Rightarrow> bytes" where
  "ext_block i data = enc16 0xBEDE @ enc16 (of_nat ((length data + 1 + pad4 (length data + 1)) div 4))
     @ ext_elem i data @ replicate (pad4 (length data + 1)) 0"

lemma ext_block_length: "length (ext_block i data) = length data + 5 + pad4 (length data + 1)"
  by (simp add: ext_block_def ext_elem_def)

lemma set_extbit_ok:
  assumes ok: "refs_ok s ext" and bytes: "msg_bytes s (p # ps) = Some bs" and np: "p \<notin> set ps"
    and m: "mblks s p = Some m" "b_datap m = Some d" "owners s d = {p}" "b_rptr m < b_wptr m"
  obtains s' where "rtp_set_extbit s p = Some s'" "refs_ok s' ext" "mblks s' = mblks s"
    "msg_bytes s' (p # ps) = Some (bs[0 := bs ! 0 OR 16])"
    "rtp_get_extbit s p = Some (bit (bs ! 0) 4)" "rtp_get_cc s' p = Some (unat (bs ! 0 AND 15))"
proof -
  obtain b0 r0 where fb: "frag_bytes s m = Some b0" "msg_bytes s ps = Some r0" "bs = b0 @ r0"
    using bytes m(1) by (auto simp: bind_eq_Some_conv)
  obtain x where x: "dblks s d = Some x" using refs_ok_dblk [OF ok m(1,2)] by blast
  let ?b = "db_buf x" and ?r = "b_rptr m" and ?w = "b_wptr m"
  have v: "view s p = Some (?b, ?r, ?w)" using m(1,2) x by (simp add: view_def)
  have w: "?r \<le> ?w" "?w \<le> length ?b" "b0 = take (?w - ?r) (drop ?r ?b)"
    using fb(1) m(2) x by (auto simp: frag_bytes_def rd_block_def split: if_splits)
  have l0: "length b0 = ?w - ?r" using frag_bytes_length [OF fb(1)] .
  then obtain y b1 where b0: "b0 = y # b1" using m(4) by (cases b0) auto
  have bs0: "bs ! 0 = y" using fb(3) b0 by simp
  have y: "?b ! ?r = y" using w b0 m(4) by (metis drop_eq_Nil2 hd_drop_conv_nth hd_take
        length_drop linorder_not_less list.sel(1) order_less_le_trans zero_less_diff)
  obtain s' where s': "mwrite s p (?r + length []) [y OR 16] = Some s'"
      "view s' p = Some (take ?r ?b @ [] @ [y OR 16] @ b1 @ drop ?w ?b, ?r, ?w)" "mblks s' = mblks s"
      "msg_bytes s' [p] = Some ([] @ [y OR 16] @ b1)"
    using mwrite_bytes [OF v w(1,2), of "[]" "[y]" b1 "[y OR 16]"] w(3) b0 by auto
  have run: "rtp_set_extbit s p = Some s'"
    using v s'(1) y w m(4) by (simp add: rtp_set_extbit_def)
  have "msg_bytes s' ps = Some r0"
  proof (rule msg_bytes_upd_sole [OF fb(2) m(3) np])
    show "mblks s' q = mblks s q" for q using s'(3) by simp
    show "dblks s' e = dblks s e" if "e \<noteq> d" for e
      using s'(1) that m(1,2) by (auto simp: mwrite_def upd_d_def bind_eq_Some_conv)
  qed
  with s'(4) fb(3) b0 have mb: "msg_bytes s' (p # ps) = Some (bs[0 := bs ! 0 OR 16])"
    by (simp add: bind_eq_Some_conv)
  have "rtp_get_extbit s p = Some (bit (bs ! 0) 4)"
    using v y w(2) m(4) bs0 by (simp add: rtp_get_extbit_def)
  moreover have "rtp_get_cc s' p = Some (unat (bs ! 0 AND 15))"
  proof -
    have "(y OR 16) AND 15 = y AND 15"
      by (simp add: word_ao_dist)
    moreover have "rd8 (take ?r ?b @ [] @ [y OR 16] @ b1 @ drop ?w ?b) ?r = Some (y OR 16)"
      using w by (simp add: rd8_def nth_append)
    ultimately show ?thesis using s'(2) fb(3) b0 by (simp add: rtp_get_cc_def)
  qed
  ultimately show ?thesis
    using that run mwrite_refs [OF ok s'(1)] s'(3) mb by blast
qed

lemma pad4_multiple: "(n + pad4 n) div 4 * 4 = n + pad4 n"
proof -
  have "4 dvd n + pad4 n" unfolding pad4_def by presburger
  then show ?thesis by simp
qed

lemma pad4_less: "pad4 n < 4" unfolding pad4_def by presburger

text \<open>A packet with an extension header of one element, in one block.\<close>

definition ext_packet :: "mem \<Rightarrow> ptr \<Rightarrow> bytes \<Rightarrow> int \<Rightarrow> bytes \<Rightarrow> bytes \<Rightarrow> bool" where
  "ext_packet s p h i data pay \<longleftrightarrow> msg_bytes s [p] = Some (h @ ext_block i data @ pay) \<and>
     length h = 12 + unat (h ! 0 AND 15) * 4 \<and> bit (h ! 0) 4 \<and>
     1 \<le> i \<and> i \<le> 15 \<and> 1 \<le> length data \<and> length data \<le> 16"

lemma get_extension_found:
  assumes "rtp_get_extbit s p = Some True" and "view s p = Some (b, r, w)"
    and "rtp_get_extheader s p = Some (int n, Some 0xBEDE, Some e)"
    and "find_ext1 b i e (e + n) = Some (Some (t, k))"
  shows "rtp_get_extension_header s p i = Some (int k, Some (t + 1))"
  using assms by (simp add: rtp_get_extension_header_def)

lemma find_ext1_first:
  assumes b: "b = pre @ ext_elem i data @ post" "length pre = q"
    and i: "1 \<le> i" "i \<le> 15" and l: "1 \<le> length data" "length data \<le> 16" and e: "q < e"
  shows "find_ext1 b i q e = Some (Some (q, length data))"
proof -
  define x where "x = (word_of_int (i * 16) OR of_nat (length data - 1) :: u8)"
  have rx: "rd8 b q = Some x" using b by (simp add: rd8_def nth_append ext_elem_def x_def)
  have xb: "uint (drop_bit 4 x) = i" "unat (x AND 15) = length data - 1"
    using elem_byte [of i "length data - 1"] i l by (auto simp: x_def)
  have "x \<noteq> 0" "x \<noteq> 15" using xb(1) i by auto
  moreover have "unat (x AND 15) + 1 = length data" using xb(2) l(1) by linarith
  ultimately show ?thesis using rx xb(1) e by (subst find_ext1.simps) simp
qed

lemma ext_packet_reads:
  assumes e: "ext_packet s p h i data pay"
  obtains b r w where "packet_view s p b r w"
    "b = take r b @ h @ ext_block i data @ pay @ drop w b" "w - r = length (h @ ext_block i data @ pay)"
    "rtp_get_extheader s p =
       Some (int (length data + 1 + pad4 (length data + 1)), Some 0xBEDE, Some (r + length h + 4))"
    "rtp_get_extension_header s p i = Some (int (length data), Some (r + length h + 5))"
proof -
  let ?E = "ext_block i data" and ?n = "length data + 1 + pad4 (length data + 1)"
  obtain b r w where v: "view s p = Some (b, r, w)" "r \<le> w" "w \<le> length b"
    "h @ ?E @ pay = take (w - r) (drop r b)"
    using e unfolding ext_packet_def single_block by blast
  have hl: "length h = 12 + unat (h ! 0 AND 15) * 4" using e by (simp add: ext_packet_def)
  have b: "b = take r b @ h @ ?E @ pay @ drop w b"
    using split_window [OF v(2) v(4) [symmetric]] by (metis append.assoc)
  have lw: "w - r = length (h @ ?E @ pay)"
    using arg_cong [OF v(4), of length] v by simp
  have lr: "length (take r b) = r" using v by simp
  have "12 \<le> w - r" unfolding lw using hl by simp
  then have pv: "packet_view s p b r w" using v(1-3) by (simp add: packet_view_def)
  have b0: "b ! r = h ! 0"
  proof -
    have "(take r b @ h @ ?E @ pay @ drop w b) ! r = h ! 0" using lr hl by (simp add: nth_append)
    with b show ?thesis by metis
  qed
  have ex2: "\<exists>a b. enc16 k = [a, b] \<and> be16 a b = k" for k
    using be16_enc16 [of k] unfolding enc16_def by blast
  obtain p1 p2 where p12: "enc16 0xBEDE = [p1, p2]" "be16 p1 p2 = 0xBEDE" using ex2 by blast
  obtain l1 l2 where l12: "enc16 (of_nat (?n div 4)) = [l1, l2]" "be16 l1 l2 = of_nat (?n div 4)"
    using ex2 by blast
  have E: "?E = [p1, p2, l1, l2] @ ext_elem i data @ replicate (pad4 (length data + 1)) 0"
    using p12 l12 by (simp add: ext_block_def)
  have h32: "rd32 b (r + length h) = Some (be32 p1 p2 l1 l2)"
  proof -
    have "rd32 ((take r b @ h) @ [p1, p2, l1, l2] @
        (ext_elem i data @ replicate (pad4 (length data + 1)) 0 @ pay @ drop w b)) (r + length h)
        = Some (be32 p1 p2 l1 l2)"
      by (rule rd32_bytes) (use lr in simp)
    then show ?thesis using b E by (metis append.assoc)
  qed
  have n: "unat (be32 p1 p2 l1 l2 AND 0xFFFF) * 4 = ?n"
  proof -
    have "length data \<le> 16" using e by (simp add: ext_packet_def)
    then have "?n div 4 < 65536"
      using pad4_less [of "length data + 1"] div_le_dividend [of ?n 4] by linarith
    then have "unat (of_nat (?n div 4) :: u16) = ?n div 4"
      by (simp add: unat_of_nat take_bit_nat_eq_self)
    then show ?thesis using pad4_multiple [of "length data + 1"] by (simp add: be32_low l12)
  qed
  have eh: "rtp_get_extheader s p = Some (int ?n, Some 0xBEDE, Some (r + length h + 4))"
  proof -
    have lE: "length ?E = ?n + 4" by (simp add: ext_block_length)
    show ?thesis
      using pv header_bits [OF pv] e b0 h32 n lw lE v(2) p12(2) be32_high [of p1 p2 l1 l2] hl
      by (simp add: rtp_get_extheader_def packet_view_def ext_packet_def RTP_FIXED_HEADER_SIZE_def
          Let_def add.assoc)
  qed
  have "b = (take r b @ h @ [p1, p2, l1, l2]) @ ext_elem i data @ (replicate (pad4 (length data + 1)) 0 @ pay @ drop w b)"
    using b E by simp
  from find_ext1_first [OF this] have "find_ext1 b i (r + length h + 4) (r + length h + 4 + ?n) = Some (Some (r + length h + 4, length data))"
    using lr e by (simp add: ext_packet_def)
  then have "rtp_get_extension_header s p i = Some (int (length data), Some (r + length h + 5))"
    using get_extension_found [OF _ v(1) eh] header_bits(1) [OF pv] b0 e
    by (simp add: ext_packet_def add.assoc del: of_nat_add)
  with pv b lw eh show ?thesis by (rule that)
qed

lemma add_first_extension:
  assumes ok: "refs_ok s ext" and c: "chain s (Some p) (p # ps)"
    and bytes: "msg_bytes s (p # ps) = Some bs"
    and m: "mblks s p = Some m" "b_datap m = Some d" "owners s d = {p}" "b_rptr m < b_wptr m"
    and nx: "\<not> bit (bs ! 0) 4" and off: "off = 12 + unat (bs ! 0 AND 15) * 4" "off < length bs"
    and args: "1 \<le> i" "i \<le> 15" "1 \<le> length data" "length data \<le> 16"
  shows "\<exists>s'. rtp_add_extension_header s p i data = Some s' \<and> refs_ok s' ext \<and>
    chain s' (Some p) [p] \<and>
    ext_packet s' p (take off (bs[0 := bs ! 0 OR 16])) i data (drop off bs)"
proof -
  have np: "p \<notin> set ps" using chain_distinct [OF c] by simp
  let ?bs = "bs[0 := bs ! 0 OR 16]" and ?ins = "length data + 5 + pad4 (length data + 1)"
  obtain s1 where s1: "rtp_set_extbit s p = Some s1" "refs_ok s1 ext" "mblks s1 = mblks s"
    "msg_bytes s1 (p # ps) = Some ?bs" "rtp_get_extbit s p = Some (bit (bs ! 0) 4)"
    "rtp_get_cc s1 p = Some (unat (bs ! 0 AND 15))"
    by (rule set_extbit_ok [OF ok bytes np m])
  have c1: "chain s1 (Some p) (p # ps)" using c s1(3) by (simp cong: chain_cong)
  obtain s2 where s2: "msgpullup_with_insert s1 p off ?ins = Some s2" "refs_ok s2 ext"
    "chain s2 (Some p) [p]" "msg_bytes s2 [p] = Some (take off ?bs @ replicate ?ins 0 @ drop off ?bs)"
    using msgpullup_with_insert_ok [OF s1(2) c1 s1(4), of off ?ins] off(2) by auto
  obtain b r w where v: "view s2 p = Some (b, r, w)" "r \<le> w" "w \<le> length b"
    "take off ?bs @ replicate ?ins 0 @ drop off ?bs = take (w - r) (drop r b)"
    using s2(4) unfolding single_block by blast
  have lo: "length (take off ?bs) = off" using off(2) by simp
  have le: "length (ext_block i data) = length (replicate ?ins (0 :: u8))"
    by (simp only: ext_block_length length_replicate)
  have d0: "drop off ?bs = drop off bs" using off(1) by (simp add: drop_update_cancel)
  obtain s3 where s3: "mwrite s2 p (r + length (take off ?bs)) (ext_block i data) = Some s3"
    "mblks s3 = mblks s2" "msg_bytes s3 [p] = Some (take off ?bs @ ext_block i data @ drop off ?bs)"
    using mwrite_bytes [OF v(1-3) v(4) [symmetric] le] by metis
  have "0 < length bs" using off(2) by linarith
  then have h0: "take off ?bs ! 0 = bs ! 0 OR 16" using off(1) by simp
  have cc16: "(bs ! 0 OR 16) AND 15 = bs ! 0 AND 15" by (simp add: word_ao_dist)
  have cc2: "rtp_get_cc s2 p = Some (unat (bs ! 0 AND 15))"
  proof -
    have "b ! r = take (w - r) (drop r b) ! 0"
      using arg_cong [OF v(4), of length] v lo off(1) by simp
    also have "\<dots> = bs ! 0 OR 16"
      using h0 lo off(1) by (simp add: v(4) [symmetric] nth_append)
    finally have "b ! r = bs ! 0 OR 16" .
    moreover have "r < length b" using arg_cong [OF v(4), of length] v lo off(1) by simp
    ultimately show ?thesis using v(1) cc16 by (simp add: rtp_get_cc_def)
  qed
  have "rtp_add_extension_header s p i data = Some s3"
    using s1(1,5,6) nx args(3) s2(1) v(1) cc2 s3(1) lo off(1)
    by (auto simp: rtp_add_extension_header_def rtp_add_extension_header_base_def
        RTP_FIXED_HEADER_SIZE_def ext_block_def Let_def add.assoc)
  moreover have "ext_packet s3 p (take off ?bs) i data (drop off bs)"
    using s3(3) lo off(1) h0 cc16 args d0 by (simp add: ext_packet_def bit_simps)
  moreover have "chain s3 (Some p) [p]" using s2(3) s3(2) by (simp cong: chain_cong)
  ultimately show ?thesis using mwrite_refs [OF s2(2) s3(1)] by blast
qed

lemma ext_packet_payload:
  assumes e: "ext_packet s p h i data pay" and ne: "pay \<noteq> []"
  shows "\<exists>b r w q. view s p = Some (b, r, w) \<and> rtp_get_payload s p = Some (int (length pay), Some (p, q)) \<and>
    rd_block b q (length pay) = Some pay"
  using e
proof (rule ext_packet_reads)
  fix b r w
  let ?E = "ext_block i data"
  assume pv: "packet_view s p b r w" and b: "b = take r b @ h @ ?E @ pay @ drop w b"
    and lw: "w - r = length (h @ ?E @ pay)"
    and eh: "rtp_get_extheader s p =
      Some (int (length data + 1 + pad4 (length data + 1)), Some 0xBEDE, Some (r + length h + 4))"
  have lr: "length (take r b) = r" using pv by (simp add: packet_view_def)
  have b0: "b ! r = h ! 0"
  proof -
    have "(take r b @ h @ ?E @ pay @ drop w b) ! r = h ! 0"
      using lr e by (simp add: nth_append ext_packet_def)
    with b show ?thesis by metis
  qed
  let ?q = "r + length h + length ?E"
  have "0 < length pay" "r \<le> w" using ne pv by (simp_all add: packet_view_def)
  then have q: "?q < w" "w - ?q = length pay" using lw unfolding length_append by linarith+
  have hl: "12 + unat (b ! r AND 15) * 4 = length h" "bit (b ! r) 4"
    using e b0 by (simp_all add: ext_packet_def)
  have "rtp_get_payload s p = Some (int (length pay), Some (p, ?q))"
  proof -
    have len: "RTP_FIXED_HEADER_SIZE + unat (b ! r AND 15) * 4 + 4
        + nat (int (length data + 1 + pad4 (length data + 1))) = length h + length ?E"
      using hl(1) by (simp add: RTP_FIXED_HEADER_SIZE_def ext_block_length)
    show ?thesis
      using pv header_bits [OF pv] hl(2) eh len q
      unfolding rtp_get_payload_def packet_view_def
      by (simp add: add.assoc Let_def del: nat_int)
  qed
  moreover have "rd_block b ?q (length pay) = Some pay"
  proof -
    have "rd_block ((take r b @ h @ ?E) @ pay @ drop w b) ?q (length pay) = Some pay"
      by (rule rd_block_at) (use lr in simp_all)
    then show ?thesis using b by (metis append.assoc)
  qed
  ultimately show ?thesis using pv by (auto simp: packet_view_def)
qed

lemma ext_packet_data:
  assumes e: "ext_packet s p h i data pay"
  shows "\<exists>b r w dp. view s p = Some (b, r, w) \<and>
    rtp_get_extension_header s p i = Some (int (length data), Some dp) \<and>
    rd_block b dp (length data) = Some data"
  using e
proof (rule ext_packet_reads)
  fix b r w
  assume pv: "packet_view s p b r w" and b: "b = take r b @ h @ ext_block i data @ pay @ drop w b"
    and g: "rtp_get_extension_header s p i = Some (int (length data), Some (r + length h + 5))"
  have lr: "length (take r b) = r" using pv by (simp add: packet_view_def)
  let ?x = "word_of_int (i * 16) OR of_nat (length data - 1) :: u8"
  have "ext_block i data = (enc16 0xBEDE @ enc16 (of_nat ((length data + 1 + pad4 (length data + 1)) div 4))
      @ [?x]) @ data @ replicate (pad4 (length data + 1)) 0" (is "_ = ?a @ data @ ?z")
    by (simp add: ext_block_def ext_elem_def)
  moreover have "length ?a = 5" by simp
  ultimately obtain a z where a: "ext_block i data = a @ data @ z" "length a = 5" by blast
  have "rd_block ((take r b @ h @ a) @ data @ (z @ pay @ drop w b)) (r + length h + 5) (length data) = Some data"
    by (rule rd_block_at) (use lr a(2) in simp_all)
  then have "rd_block b (r + length h + 5) (length data) = Some data"
    using b a(1) by (metis append.assoc)
  with pv g show ?thesis by (auto simp: packet_view_def)
qed

text \<open>
  A packet that can take a first extension: a message in the store, whose first block owns
  its data, with a complete header, no extension yet and a payload.
\<close>

definition plain_packet :: "mem \<Rightarrow> (ptr \<Rightarrow> nat) \<Rightarrow> ptr \<Rightarrow> ptr list \<Rightarrow> bytes \<Rightarrow> bytes \<Rightarrow> bool" where
  "plain_packet s ext p ps h pay \<longleftrightarrow> refs_ok s ext \<and> chain s (Some p) (p # ps) \<and>
     msg_bytes s (p # ps) = Some (h @ pay) \<and>
     (\<exists>m d. mblks s p = Some m \<and> b_datap m = Some d \<and> owners s d = {p} \<and> b_rptr m < b_wptr m) \<and>
     \<not> bit (h ! 0) 4 \<and> length h = 12 + unat (h ! 0 AND 15) * 4 \<and> pay \<noteq> []"

lemma plain_packet_add:
  assumes "plain_packet s ext p ps h pay" "1 \<le> i" "i \<le> 15" "1 \<le> length data" "length data \<le> 16"
  shows "\<exists>s'. rtp_add_extension_header s p i data = Some s' \<and> refs_ok s' ext \<and>
    chain s' (Some p) [p] \<and> ext_packet s' p (h[0 := h ! 0 OR 16]) i data pay"
proof -
  obtain m d where m: "mblks s p = Some m" "b_datap m = Some d" "owners s d = {p}" "b_rptr m < b_wptr m"
    using assms(1) by (auto simp: plain_packet_def)
  have h: "refs_ok s ext" "chain s (Some p) (p # ps)" "msg_bytes s (p # ps) = Some (h @ pay)"
    "\<not> bit (h ! 0) 4" "length h = 12 + unat (h ! 0 AND 15) * 4" "pay \<noteq> []"
    using assms(1) by (simp_all add: plain_packet_def)
  have z: "(h @ pay) ! 0 = h ! 0" using h(5) by (simp add: nth_append)
  have "take (length h) ((h @ pay)[0 := h ! 0 OR 16]) = h[0 := h ! 0 OR 16]"
    using h(5) by (simp add: list_update_append)
  moreover have "drop (length h) (h @ pay) = pay" by simp
  ultimately show ?thesis
    using add_first_extension [OF h(1-3) m, of "length h" i data] h(4-6) z assms(2-5) by simp
qed

text \<open>C23: Adding the first header extension and reading it back is a round trip: for an
  identifier from 1 to 15 and 1 to 16 bytes of data, \<open>rtp_add_extension_header\<close> returns, the
  message is one block with exact reference counts, \<open>rtp_get_extension_header\<close> finds the data
  with its size, and \<open>rtp_get_payload\<close> still returns the payload the packet had.\<close>

theorem extension_roundtrip:
  assumes "plain_packet s ext p ps h pay" "1 \<le> i" "i \<le> 15" "1 \<le> length data" "length data \<le> 16"
  shows "\<exists>s' b r w dp q. rtp_add_extension_header s p i data = Some s' \<and> refs_ok s' ext \<and>
    chain s' (Some p) [p] \<and> view s' p = Some (b, r, w) \<and>
    rtp_get_extension_header s' p i = Some (int (length data), Some dp) \<and>
    rd_block b dp (length data) = Some data \<and>
    rtp_get_payload s' p = Some (int (length pay), Some (p, q)) \<and> rd_block b q (length pay) = Some pay"
proof -
  obtain s' where s': "rtp_add_extension_header s p i data = Some s'" "refs_ok s' ext"
    "chain s' (Some p) [p]" "ext_packet s' p (h[0 := h ! 0 OR 16]) i data pay"
    using plain_packet_add [OF assms] by blast
  have "pay \<noteq> []" using assms(1) by (simp add: plain_packet_def)
  from ext_packet_payload [OF s'(4) this] ext_packet_data [OF s'(4)] s' show ?thesis by auto
qed

definition ex_plain :: mem where
  "ex_plain = \<lparr>mblks = [0 \<mapsto> mblk_zero\<lparr>b_datap := Some 1, b_wptr := 14\<rparr>],
     dblks = [1 \<mapsto> \<lparr>db_buf = [128, 0, 0, 1, 0, 0, 0, 0, 0, 0, 0, 9, 41, 42],
                    db_freefn = FreeNone, db_ref = 1\<rparr>], brk = 2, junk = (\<lambda>_. 0)\<rparr>"

lemma ex_plain_owners: "owners ex_plain d = (if d = 1 then {0} else {})"
  by (auto simp: owners_def ex_plain_def mblk_zero_def split: if_splits)

lemma ex_plain_packet:
  "plain_packet ex_plain no_ext 0 [] [128, 0, 0, 1, 0, 0, 0, 0, 0, 0, 0, 9] [41, 42]"
proof -
  have "refs_ok ex_plain no_ext"
    unfolding refs_ok_def ex_plain_owners by (auto simp: ex_plain_def entry_ok_def)
  moreover have "owners ex_plain 1 = {0}" by (simp add: ex_plain_owners)
  ultimately show ?thesis
    by (simp add: plain_packet_def) (simp add: ex_plain_def mblk_zero_def frag_bytes_def rd_block_def)
qed

theorem extension_roundtrip_witness:
  "\<exists>s' b r w dp. rtp_add_extension_header ex_plain 0 2 [7, 8] = Some s' \<and> view s' 0 = Some (b, r, w) \<and>
     rtp_get_extension_header s' 0 2 = Some (int (length [7, 8 :: u8]), Some dp) \<and>
     rd_block b dp (length [7, 8 :: u8]) = Some [7, 8]"
proof -
  have "(1 :: int) \<le> 2" "(2 :: int) \<le> 15" "1 \<le> length [7, 8 :: u8]" "length [7, 8 :: u8] \<le> 16" by simp_all
  from extension_roundtrip [OF ex_plain_packet this] show ?thesis by blast
qed

text \<open>The client-to-mixer audio level survives the trip through a packet: for a level from
  -127 to 0 dBov and either voice flag, adding it to a packet without extensions and reading
  it back gives the same level and flag.\<close>

theorem client_audio_level_roundtrip:
  assumes pl: "plain_packet s ext p ps h pay" and i: "1 \<le> i" "i \<le> 15"
    and lev: "-127 \<le> level" "level \<le> 0"
  shows "\<exists>s'. rtp_add_client_to_mixer_audio_level s p i voice level = Some s' \<and> refs_ok s' ext \<and>
    rtp_get_client_to_mixer_audio_level s' p i = Some (level, Some voice)"
proof -
  define n where "n = nat (- level)"
  have n: "- level = int n" "n < 128" using lev by (auto simp: n_def)
  define x where "x = (word_of_int (if voice then 128 else 0) OR word_of_int (- level) :: u8)"
  have xb: "bit x k \<longleftrightarrow> k < 8 \<and> (voice \<and> k = 7 \<or> bit n k)" for k
    by (auto simp: x_def n(1) bit_simps bit_numeral_rec split: nat.splits)
  have n7: "bit n k \<Longrightarrow> k < 7" for k
    using n(2) take_bit_nat_eq_self [of n 7] bit_take_bit_iff [of 7 n k] by auto
  have "x AND 0x7F = of_nat n"
  proof -
    have m: "(0x7F :: u8) = mask 7" by (simp add: mask_eq_exp_minus_1)
    show ?thesis unfolding m by (rule bit_word_eqI) (auto simp: bit_simps xb dest: n7)
  qed
  then have lv: "- uint (x AND 0x7F) = level"
    using n by (simp add: uint_nat unat_of_nat take_bit_nat_eq_self del: of_nat_unat)
  have vo: "bit x 7 \<longleftrightarrow> voice" using xb [of 7] n7 [of 7] by auto
  obtain s' where s': "rtp_add_extension_header s p i [x] = Some s'" "refs_ok s' ext"
    "ext_packet s' p (h[0 := h ! 0 OR 16]) i [x] pay"
    using plain_packet_add [OF pl i, of "[x]"] by auto
  obtain b r w dp where g: "view s' p = Some (b, r, w)"
    "rtp_get_extension_header s' p i = Some (1, Some dp)" "rd_block b dp 1 = Some [x]"
    using ext_packet_data [OF s'(3)] by auto
  have "rd8 b dp = Some x"
    using g(3) by (auto simp: rd_block_def rd8_def take_Suc_conv_app_nth split: if_splits)
  then have "rtp_get_client_to_mixer_audio_level s' p i = Some (level, Some voice)"
    using g(1,2) lv vo by (simp add: rtp_get_client_to_mixer_audio_level_def)
  with s'(1,2) show ?thesis by (simp add: rtp_add_client_to_mixer_audio_level_def x_def)
qed

theorem client_audio_level_roundtrip_witness:
  "\<exists>s'. rtp_add_client_to_mixer_audio_level ex_plain 0 1 True (-30) = Some s' \<and>
     rtp_get_client_to_mixer_audio_level s' 0 1 = Some (-30, Some True)"
  using client_audio_level_roundtrip [OF ex_plain_packet, of 1 "-30" True] by auto

end
