(* ===== verification/Ortp_Rtcp.thy ===== *)
theory Ortp_Rtcp
  imports Ortp_Rtp
begin

text \<open>
  The RTCP parser: \<open>ortp/src/rtcpparse.c\<close> with the structures and inline accessors of
  \<open>ortp/include/ortp/rtcp.h\<close>.

  A packet is an unfragmented message block; \<open>b_rptr\<close> points at the current packet of a
  compound. A structure overlaid on the data (\<open>rtcp_sr_t\<close> and so on) is a byte offset from
  \<open>b_rptr\<close>, and a pointer a function returns is its distance from \<open>db_base\<close>. Reads outside
  the data block are \<open>None\<close>, as is \<open>ortp_fatal\<close>, which ends the process. The indices of report
  blocks and sources are natural numbers: no caller passes a negative one.
\<close>

section \<open>Fields of the current packet\<close>

definition fld8 :: "mem \<Rightarrow> ptr \<Rightarrow> nat \<Rightarrow> u8 option" where
  "fld8 s m off = do { (b, r, w) \<leftarrow> view s m; rd8 b (r + off) }"

definition fld16 :: "mem \<Rightarrow> ptr \<Rightarrow> nat \<Rightarrow> u16 option" where
  "fld16 s m off = do { (b, r, w) \<leftarrow> view s m; rd16 b (r + off) }"

definition fld32 :: "mem \<Rightarrow> ptr \<Rightarrow> nat \<Rightarrow> u32 option" where
  "fld32 s m off = do { (b, r, w) \<leftarrow> view s m; rd32 b (r + off) }"

definition rtcp_common_header_get_rc :: "mem \<Rightarrow> ptr \<Rightarrow> nat option" where
  "rtcp_common_header_get_rc s m = do { x \<leftarrow> fld8 s m 0; Some (unat (x AND 31)) }"

definition rtcp_common_header_get_packet_type :: "mem \<Rightarrow> ptr \<Rightarrow> u8 option" where
  "rtcp_common_header_get_packet_type s m = fld8 s m 1"

definition rtcp_common_header_get_length :: "mem \<Rightarrow> ptr \<Rightarrow> nat option" where
  "rtcp_common_header_get_length s m = do { x \<leftarrow> fld16 s m 2; Some (unat x) }"

datatype rtcp_type_t = RTCP_SR | RTCP_RR | RTCP_SDES | RTCP_BYE | RTCP_APP | RTCP_RTPFB
  | RTCP_PSFB | RTCP_XR

primrec rtcp_type_code :: "rtcp_type_t \<Rightarrow> u8" where
  "rtcp_type_code RTCP_SR = 200"
| "rtcp_type_code RTCP_RR = 201"
| "rtcp_type_code RTCP_SDES = 202"
| "rtcp_type_code RTCP_BYE = 203"
| "rtcp_type_code RTCP_APP = 204"
| "rtcp_type_code RTCP_RTPFB = 205"
| "rtcp_type_code RTCP_PSFB = 206"
| "rtcp_type_code RTCP_XR = 207"

section \<open>Compound packets\<close>

text \<open>\<open>Some None\<close> is the NULL result for a packet that is too short.\<close>

definition rtcp_get_common_header :: "mem \<Rightarrow> ptr \<Rightarrow> nat option option" where
  "rtcp_get_common_header s m = do {
     sz \<leftarrow> msgdsize s (Some m);
     if sz < 4 then Some None
     else do {
       mb \<leftarrow> mblks s m;
       if b_cont mb \<noteq> None then None
       else Some (Some (b_rptr mb)) } }"

definition rtcp_get_size :: "mem \<Rightarrow> ptr \<Rightarrow> nat option" where
  "rtcp_get_size s m = do {
     ch \<leftarrow> rtcp_get_common_header s m;
     case ch of
       None \<Rightarrow> Some 0
     | Some _ \<Rightarrow> do {
         len \<leftarrow> rtcp_common_header_get_length s m;
         mb \<leftarrow> mblks s m;
         let ret = (1 + len) * 4;
         let totalsize = b_wptr mb - b_rptr mb;
         Some (if ret > totalsize then totalsize else ret) } }"

text \<open>\<open>_rtcp_next_packet\<close>, and the deprecated function that calls it.\<close>

definition rtcp_next_packet_impl :: "mem \<Rightarrow> ptr \<Rightarrow> (bool \<times> mem) option" where
  "rtcp_next_packet_impl s m = do {
     nextlen \<leftarrow> rtcp_get_size s m;
     mb \<leftarrow> mblks s m;
     if nextlen > 0 \<and> b_rptr mb + nextlen < b_wptr mb then do {
       s \<leftarrow> upd_m s m (\<lambda>x. x\<lparr>b_rptr := b_rptr x + nextlen\<rparr>);
       Some (True, s)
     } else Some (False, s) }"

definition rtcp_next_packet :: "mem \<Rightarrow> ptr \<Rightarrow> (bool \<times> mem) option" where
  "rtcp_next_packet s m = rtcp_next_packet_impl s m"

definition rtcp_rewind :: "mem \<Rightarrow> ptr \<Rightarrow> mem option" where
  "rtcp_rewind s m = do {
     mb \<leftarrow> mblks s m;
     d \<leftarrow> b_datap mb;
     x \<leftarrow> dblks s d;
     upd_m s m (\<lambda>x. x\<lparr>b_rptr := 0\<rparr>) }"

record rtcp_parser_context =
  current_packet :: "ptr option"
  start :: nat

definition rtcp_parser_context_init :: "mem \<Rightarrow> ptr \<Rightarrow> (rtcp_parser_context \<times> mem) option" where
  "rtcp_parser_context_init s compound_packet = do {
     (np, s) \<leftarrow> dupmsg s compound_packet;
     p \<leftarrow> np;
     mb \<leftarrow> mblks s p;
     s \<leftarrow> (if b_cont mb \<noteq> None then msgpullup s p size_max else Some s);
     mb \<leftarrow> mblks s p;
     Some (\<lparr>current_packet = Some p, start = b_rptr mb\<rparr>, s) }"

definition rtcp_parser_context_next_packet ::
    "mem \<Rightarrow> rtcp_parser_context \<Rightarrow> (ptr option \<times> mem) option" where
  "rtcp_parser_context_next_packet s c = do {
     p \<leftarrow> current_packet c;
     (ok, s) \<leftarrow> rtcp_next_packet_impl s p;
     Some (if ok then Some p else None, s) }"

definition rtcp_parser_context_start ::
    "mem \<Rightarrow> rtcp_parser_context \<Rightarrow> (ptr option \<times> mem) option" where
  "rtcp_parser_context_start s c = do {
     p \<leftarrow> current_packet c;
     s \<leftarrow> upd_m s p (\<lambda>x. x\<lparr>b_rptr := start c\<rparr>);
     Some (Some p, s) }"

definition rtcp_parser_context_uninit :: "mem \<Rightarrow> rtcp_parser_context \<Rightarrow> mem option" where
  "rtcp_parser_context_uninit s c =
     (case current_packet c of None \<Rightarrow> Some s | Some p \<Rightarrow> freemsg s (Some p))"

text \<open>The test that the \<open>rtcp_is\<close> functions share: the header is there and names the type.\<close>

definition has_type :: "mem \<Rightarrow> ptr \<Rightarrow> rtcp_type_t \<Rightarrow> bool option" where
  "has_type s m t = do {
     ch \<leftarrow> rtcp_get_common_header s m;
     case ch of
       None \<Rightarrow> Some False
     | Some _ \<Rightarrow> do {
         pt \<leftarrow> rtcp_common_header_get_packet_type s m;
         Some (pt = rtcp_type_code t) } }"

section \<open>Sender and receiver reports\<close>

definition rtcp_is_SR :: "mem \<Rightarrow> ptr \<Rightarrow> bool option" where
  "rtcp_is_SR s m = do {
     t \<leftarrow> has_type s m RTCP_SR;
     if t then do { sz \<leftarrow> msgdsize s (Some m); Some (\<not> sz < 28) } else Some False }"

definition rtcp_SR_get_ssrc :: "mem \<Rightarrow> ptr \<Rightarrow> u32 option" where
  "rtcp_SR_get_ssrc s m = fld32 s m 4"

definition rtcp_SR_get_sender_info :: "mem \<Rightarrow> ptr \<Rightarrow> nat option" where
  "rtcp_SR_get_sender_info s m = do { (b, r, w) \<leftarrow> view s m; Some (r + 8) }"

definition get_report_block :: "nat \<Rightarrow> mem \<Rightarrow> ptr \<Rightarrow> nat \<Rightarrow> nat option option" where
  "get_report_block first s m idx = do {
     (b, r, w) \<leftarrow> view s m;
     let rb = r + first + 24 * idx;
     sz \<leftarrow> rtcp_get_size s m;
     if rb + 24 \<le> r + sz then Some (Some rb)
     else do {
       _ \<leftarrow> rtcp_common_header_get_rc s m;
       Some None } }"

definition rtcp_SR_get_report_block :: "mem \<Rightarrow> ptr \<Rightarrow> nat \<Rightarrow> nat option option" where
  "rtcp_SR_get_report_block s m idx = get_report_block 28 s m idx"

definition rtcp_is_RR :: "mem \<Rightarrow> ptr \<Rightarrow> bool option" where
  "rtcp_is_RR s m = do {
     t \<leftarrow> has_type s m RTCP_RR;
     if t then do { sz \<leftarrow> msgdsize s (Some m); Some (\<not> sz < 32) } else Some False }"

definition rtcp_RR_get_ssrc :: "mem \<Rightarrow> ptr \<Rightarrow> u32 option" where
  "rtcp_RR_get_ssrc s m = fld32 s m 4"

definition rtcp_RR_get_report_block :: "mem \<Rightarrow> ptr \<Rightarrow> nat \<Rightarrow> nat option option" where
  "rtcp_RR_get_report_block s m idx = get_report_block 8 s m idx"

text \<open>Accessors of a sender info or report block at a position of the buffer.\<close>

definition sender_info_get_ntp_timestamp :: "bytes \<Rightarrow> nat \<Rightarrow> u64 option" where
  "sender_info_get_ntp_timestamp b si = do {
     msw \<leftarrow> rd32 b si;
     lsw \<leftarrow> rd32 b (si + 4);
     Some (push_bit 32 (ucast msw) + ucast lsw) }"

definition sender_info_get_rtp_timestamp :: "bytes \<Rightarrow> nat \<Rightarrow> u32 option" where
  "sender_info_get_rtp_timestamp b si = rd32 b (si + 8)"

definition sender_info_get_packet_count :: "bytes \<Rightarrow> nat \<Rightarrow> u32 option" where
  "sender_info_get_packet_count b si = rd32 b (si + 12)"

definition sender_info_get_octet_count :: "bytes \<Rightarrow> nat \<Rightarrow> u32 option" where
  "sender_info_get_octet_count b si = rd32 b (si + 16)"

definition report_block_get_ssrc :: "bytes \<Rightarrow> nat \<Rightarrow> u32 option" where
  "report_block_get_ssrc b rb = rd32 b rb"

definition report_block_get_high_ext_seq :: "bytes \<Rightarrow> nat \<Rightarrow> u32 option" where
  "report_block_get_high_ext_seq b rb = rd32 b (rb + 8)"

definition report_block_get_interarrival_jitter :: "bytes \<Rightarrow> nat \<Rightarrow> u32 option" where
  "report_block_get_interarrival_jitter b rb = rd32 b (rb + 12)"

definition report_block_get_last_SR_time :: "bytes \<Rightarrow> nat \<Rightarrow> u32 option" where
  "report_block_get_last_SR_time b rb = rd32 b (rb + 16)"

definition report_block_get_last_SR_delay :: "bytes \<Rightarrow> nat \<Rightarrow> u32 option" where
  "report_block_get_last_SR_delay b rb = rd32 b (rb + 20)"

definition report_block_get_fraction_lost :: "bytes \<Rightarrow> nat \<Rightarrow> u32 option" where
  "report_block_get_fraction_lost b rb = do { v \<leftarrow> rd32 b (rb + 4); Some (drop_bit 24 v) }"

definition report_block_get_cum_packet_lost :: "bytes \<Rightarrow> nat \<Rightarrow> int option" where
  "report_block_get_cum_packet_lost b rb = do {
     cum_loss \<leftarrow> rd32 b (rb + 4);
     Some (if drop_bit 23 cum_loss AND 1 = 0 then sint (0x00FFFFFF AND cum_loss)
           else sint (0xFF000000 OR (cum_loss - 0xFFFFFF - 1))) }"

definition report_block_set_fraction_lost :: "bytes \<Rightarrow> nat \<Rightarrow> int \<Rightarrow> bytes option" where
  "report_block_set_fraction_lost b rb fl = do {
     v \<leftarrow> rd32 b (rb + 4);
     wr_block b (rb + 4) (enc32 ((v AND 0xFFFFFF) OR push_bit 24 (word_of_int fl AND 0xFF))) }"

definition cpl_clamp :: "int \<Rightarrow> u32" where
  "cpl_clamp cpl = word_of_int (2 ^ 24 +
     (if cpl \<ge> 0 then (if cpl > 0x7FFFFF then 0x7FFFFF else cpl)
      else (if - cpl > 0x800000 then - 0x800000 else cpl)))"

definition report_block_set_cum_packet_lost :: "bytes \<Rightarrow> nat \<Rightarrow> int \<Rightarrow> bytes option" where
  "report_block_set_cum_packet_lost b rb cpl = do {
     v \<leftarrow> rd32 b (rb + 4);
     wr_block b (rb + 4) (enc32 ((v AND 0xFF000000) OR
       (if cpl \<ge> 0 then cpl_clamp cpl AND 0x7FFFFF else cpl_clamp cpl OR 0x800000))) }"

section \<open>Source descriptions\<close>

definition rtcp_is_SDES :: "mem \<Rightarrow> ptr \<Rightarrow> bool option" where
  "rtcp_is_SDES s m = do {
     t \<leftarrow> has_type s m RTCP_SDES;
     if t then do {
       sz \<leftarrow> msgdsize s (Some m);
       n \<leftarrow> rtcp_get_size s m;
       Some (\<not> sz < n)
     } else Some False }"

text \<open>
  The loop of \<open>rtcp_sdes_parse\<close>. The result lists the calls of the callback, each with the
  SSRC, the item type, the position of the content and its length. \<open>addr\<close> is the address of
  \<open>db_base\<close>: padding is skipped up to a multiple of four of the memory address.
\<close>

function sdes_loop :: "nat \<Rightarrow> bytes \<Rightarrow> nat \<Rightarrow> nat \<Rightarrow> nat \<Rightarrow> bool \<Rightarrow> nat \<Rightarrow> u32 \<Rightarrow>
    (u32 \<times> u8 \<times> nat \<times> nat) list option" where
  "sdes_loop addr b rc e rptr chunk_start nchunk ssrc =
     (if rptr < e then
        (if chunk_start then
           (if rptr + 4 \<le> e then do {
              ssrc \<leftarrow> rd32 b rptr;
              sdes_loop addr b rc e (rptr + 4) False nchunk ssrc
            } else Some [])
         else if rptr + 2 \<le> e then do {
           type \<leftarrow> rd8 b rptr;
           len \<leftarrow> rd8 b (rptr + 1);
           if type = 0 then
             (if nchunk + 1 < rc
              then sdes_loop addr b rc e ((addr + rptr + 4) div 4 * 4 - addr) True (nchunk + 1) ssrc
              else Some [])
           else if rptr + 2 + unat len \<le> e then do {
             items \<leftarrow> sdes_loop addr b rc e (rptr + 2 + unat len) False nchunk ssrc;
             Some ((ssrc, type, rptr + 2, unat len) # items)
           } else Some []
         } else Some [])
      else Some [])"
  by pat_completeness auto

termination
  by (relation "measure (\<lambda>(addr, b, rc, e, rptr, cs, n, ssrc). e - rptr)") auto

definition rtcp_sdes_parse :: "(ptr \<Rightarrow> nat) \<Rightarrow> mem \<Rightarrow> ptr \<Rightarrow> (u32 \<times> u8 \<times> nat \<times> nat) list option" where
  "rtcp_sdes_parse base_addr s m = do {
     mb \<leftarrow> mblks s m;
     d \<leftarrow> b_datap mb;
     x \<leftarrow> dblks s d;
     len \<leftarrow> rtcp_common_header_get_length s m;
     rc \<leftarrow> rtcp_common_header_get_rc s m;
     let rptr = b_rptr mb + 4;
     let e = rptr + 4 * (len + 1);
     let e = (if e > b_wptr mb then b_wptr mb else e);
     sdes_loop (base_addr d) (db_buf x) rc e rptr True 0 0 }"

section \<open>BYE and APP\<close>

definition rtcp_is_BYE :: "mem \<Rightarrow> ptr \<Rightarrow> bool option" where
  "rtcp_is_BYE s m = do {
     t \<leftarrow> has_type s m RTCP_BYE;
     if t then do {
       sz \<leftarrow> msgdsize s (Some m);
       n \<leftarrow> rtcp_get_size s m;
       Some (\<not> sz < n)
     } else Some False }"

definition rtcp_BYE_get_ssrc :: "mem \<Rightarrow> ptr \<Rightarrow> nat \<Rightarrow> u32 option option" where
  "rtcp_BYE_get_ssrc s m idx = do {
     rc \<leftarrow> rtcp_common_header_get_rc s m;
     if idx < rc then do {
       n \<leftarrow> rtcp_get_size s m;
       if 4 + 4 * idx + 4 \<le> n then do { x \<leftarrow> fld32 s m (4 + 4 * idx); Some (Some x) }
       else Some None
     } else Some None }"

definition rtcp_BYE_get_reason :: "mem \<Rightarrow> ptr \<Rightarrow> (nat \<times> nat) option option" where
  "rtcp_BYE_get_reason s m = do {
     (b, r, w) \<leftarrow> view s m;
     rc \<leftarrow> rtcp_common_header_get_rc s m;
     let rptr = r + 4 + rc * 4;
     n \<leftarrow> rtcp_get_size s m;
     let e = r + n;
     if rptr < e then do {
       content_len \<leftarrow> rd8 b rptr;
       if rptr + 1 + unat content_len \<le> e then Some (Some (rptr + 1, unat content_len))
       else Some None
     } else Some None }"

definition rtcp_is_APP :: "mem \<Rightarrow> ptr \<Rightarrow> bool option" where
  "rtcp_is_APP s m = do {
     n \<leftarrow> rtcp_get_size s m;
     t \<leftarrow> has_type s m RTCP_APP;
     if t then do {
       sz \<leftarrow> msgdsize s (Some m);
       Some (\<not> sz < n \<and> \<not> n < 12)
     } else Some False }"

definition rtcp_APP_get_subtype :: "mem \<Rightarrow> ptr \<Rightarrow> nat option" where
  "rtcp_APP_get_subtype s m = rtcp_common_header_get_rc s m"

definition rtcp_APP_get_ssrc :: "mem \<Rightarrow> ptr \<Rightarrow> u32 option" where
  "rtcp_APP_get_ssrc s m = fld32 s m 4"

definition rtcp_APP_get_name :: "mem \<Rightarrow> ptr \<Rightarrow> bytes option" where
  "rtcp_APP_get_name s m = do { (b, r, w) \<leftarrow> view s m; rd_block b (r + 8) 4 }"

definition rtcp_APP_get_data :: "mem \<Rightarrow> ptr \<Rightarrow> (nat option \<times> nat) option" where
  "rtcp_APP_get_data s m = do {
     (b, r, w) \<leftarrow> view s m;
     n \<leftarrow> rtcp_get_size s m;
     if int n - 12 > 0 then Some (Some (r + 12), n - 12) else Some (None, 0) }"

section \<open>Extended reports\<close>

definition rtcp_is_XR :: "mem \<Rightarrow> ptr \<Rightarrow> bool option" where
  "rtcp_is_XR s m = do {
     t \<leftarrow> has_type s m RTCP_XR;
     if t then do { sz \<leftarrow> msgdsize s (Some m); Some (\<not> sz < 12) } else Some False }"

definition rtcp_XR_get_block_type :: "mem \<Rightarrow> ptr \<Rightarrow> u8 option" where
  "rtcp_XR_get_block_type s m = fld8 s m 8"

definition rtcp_XR_get_ssrc :: "mem \<Rightarrow> ptr \<Rightarrow> u32 option" where
  "rtcp_XR_get_ssrc s m = fld32 s m 4"

definition rtcp_XR_rcvr_rtt_get_ntp_timestamp :: "mem \<Rightarrow> ptr \<Rightarrow> u64 option" where
  "rtcp_XR_rcvr_rtt_get_ntp_timestamp s m = do {
     msw \<leftarrow> fld32 s m 12;
     lsw \<leftarrow> fld32 s m 16;
     Some (push_bit 32 (ucast msw) OR ucast lsw) }"

definition rtcp_XR_dlrr_get_ssrc :: "mem \<Rightarrow> ptr \<Rightarrow> u32 option" where
  "rtcp_XR_dlrr_get_ssrc s m = fld32 s m 12"

definition rtcp_XR_dlrr_get_lrr :: "mem \<Rightarrow> ptr \<Rightarrow> u32 option" where
  "rtcp_XR_dlrr_get_lrr s m = fld32 s m 16"

definition rtcp_XR_dlrr_get_dlrr :: "mem \<Rightarrow> ptr \<Rightarrow> u32 option" where
  "rtcp_XR_dlrr_get_dlrr s m = fld32 s m 20"

text \<open>The statistics summary block, behind the block header at offset 8.\<close>

definition rtcp_XR_stat_summary_get_flags :: "mem \<Rightarrow> ptr \<Rightarrow> u8 option" where
  "rtcp_XR_stat_summary_get_flags s m = fld8 s m 9"

definition rtcp_XR_stat_summary_get_ssrc :: "mem \<Rightarrow> ptr \<Rightarrow> u32 option" where
  "rtcp_XR_stat_summary_get_ssrc s m = fld32 s m 12"

definition rtcp_XR_stat_summary_get_begin_seq :: "mem \<Rightarrow> ptr \<Rightarrow> u16 option" where
  "rtcp_XR_stat_summary_get_begin_seq s m = fld16 s m 16"

definition rtcp_XR_stat_summary_get_end_seq :: "mem \<Rightarrow> ptr \<Rightarrow> u16 option" where
  "rtcp_XR_stat_summary_get_end_seq s m = fld16 s m 18"

definition rtcp_XR_stat_summary_get_lost_packets :: "mem \<Rightarrow> ptr \<Rightarrow> u32 option" where
  "rtcp_XR_stat_summary_get_lost_packets s m = fld32 s m 20"

definition rtcp_XR_stat_summary_get_dup_packets :: "mem \<Rightarrow> ptr \<Rightarrow> u32 option" where
  "rtcp_XR_stat_summary_get_dup_packets s m = fld32 s m 24"

definition rtcp_XR_stat_summary_get_min_jitter :: "mem \<Rightarrow> ptr \<Rightarrow> u32 option" where
  "rtcp_XR_stat_summary_get_min_jitter s m = fld32 s m 28"

definition rtcp_XR_stat_summary_get_max_jitter :: "mem \<Rightarrow> ptr \<Rightarrow> u32 option" where
  "rtcp_XR_stat_summary_get_max_jitter s m = fld32 s m 32"

definition rtcp_XR_stat_summary_get_mean_jitter :: "mem \<Rightarrow> ptr \<Rightarrow> u32 option" where
  "rtcp_XR_stat_summary_get_mean_jitter s m = fld32 s m 36"

definition rtcp_XR_stat_summary_get_dev_jitter :: "mem \<Rightarrow> ptr \<Rightarrow> u32 option" where
  "rtcp_XR_stat_summary_get_dev_jitter s m = fld32 s m 40"

definition rtcp_XR_stat_summary_get_min_ttl_or_hl :: "mem \<Rightarrow> ptr \<Rightarrow> u8 option" where
  "rtcp_XR_stat_summary_get_min_ttl_or_hl s m = fld8 s m 44"

definition rtcp_XR_stat_summary_get_max_ttl_or_hl :: "mem \<Rightarrow> ptr \<Rightarrow> u8 option" where
  "rtcp_XR_stat_summary_get_max_ttl_or_hl s m = fld8 s m 45"

definition rtcp_XR_stat_summary_get_mean_ttl_or_hl :: "mem \<Rightarrow> ptr \<Rightarrow> u8 option" where
  "rtcp_XR_stat_summary_get_mean_ttl_or_hl s m = fld8 s m 46"

definition rtcp_XR_stat_summary_get_dev_ttl_or_hl :: "mem \<Rightarrow> ptr \<Rightarrow> u8 option" where
  "rtcp_XR_stat_summary_get_dev_ttl_or_hl s m = fld8 s m 47"

text \<open>The VoIP metrics block, behind the block header at offset 8.\<close>

definition rtcp_XR_voip_metrics_get_ssrc :: "mem \<Rightarrow> ptr \<Rightarrow> u32 option" where
  "rtcp_XR_voip_metrics_get_ssrc s m = fld32 s m 12"

definition rtcp_XR_voip_metrics_get_loss_rate :: "mem \<Rightarrow> ptr \<Rightarrow> u8 option" where
  "rtcp_XR_voip_metrics_get_loss_rate s m = fld8 s m 16"

definition rtcp_XR_voip_metrics_get_discard_rate :: "mem \<Rightarrow> ptr \<Rightarrow> u8 option" where
  "rtcp_XR_voip_metrics_get_discard_rate s m = fld8 s m 17"

definition rtcp_XR_voip_metrics_get_burst_density :: "mem \<Rightarrow> ptr \<Rightarrow> u8 option" where
  "rtcp_XR_voip_metrics_get_burst_density s m = fld8 s m 18"

definition rtcp_XR_voip_metrics_get_gap_density :: "mem \<Rightarrow> ptr \<Rightarrow> u8 option" where
  "rtcp_XR_voip_metrics_get_gap_density s m = fld8 s m 19"

definition rtcp_XR_voip_metrics_get_burst_duration :: "mem \<Rightarrow> ptr \<Rightarrow> u16 option" where
  "rtcp_XR_voip_metrics_get_burst_duration s m = fld16 s m 20"

definition rtcp_XR_voip_metrics_get_gap_duration :: "mem \<Rightarrow> ptr \<Rightarrow> u16 option" where
  "rtcp_XR_voip_metrics_get_gap_duration s m = fld16 s m 22"

definition rtcp_XR_voip_metrics_get_round_trip_delay :: "mem \<Rightarrow> ptr \<Rightarrow> u16 option" where
  "rtcp_XR_voip_metrics_get_round_trip_delay s m = fld16 s m 24"

definition rtcp_XR_voip_metrics_get_end_system_delay :: "mem \<Rightarrow> ptr \<Rightarrow> u16 option" where
  "rtcp_XR_voip_metrics_get_end_system_delay s m = fld16 s m 26"

definition rtcp_XR_voip_metrics_get_signal_level :: "mem \<Rightarrow> ptr \<Rightarrow> u8 option" where
  "rtcp_XR_voip_metrics_get_signal_level s m = fld8 s m 28"

definition rtcp_XR_voip_metrics_get_noise_level :: "mem \<Rightarrow> ptr \<Rightarrow> u8 option" where
  "rtcp_XR_voip_metrics_get_noise_level s m = fld8 s m 29"

definition rtcp_XR_voip_metrics_get_rerl :: "mem \<Rightarrow> ptr \<Rightarrow> u8 option" where
  "rtcp_XR_voip_metrics_get_rerl s m = fld8 s m 30"

definition rtcp_XR_voip_metrics_get_gmin :: "mem \<Rightarrow> ptr \<Rightarrow> u8 option" where
  "rtcp_XR_voip_metrics_get_gmin s m = fld8 s m 31"

definition rtcp_XR_voip_metrics_get_r_factor :: "mem \<Rightarrow> ptr \<Rightarrow> u8 option" where
  "rtcp_XR_voip_metrics_get_r_factor s m = fld8 s m 32"

definition rtcp_XR_voip_metrics_get_ext_r_factor :: "mem \<Rightarrow> ptr \<Rightarrow> u8 option" where
  "rtcp_XR_voip_metrics_get_ext_r_factor s m = fld8 s m 33"

definition rtcp_XR_voip_metrics_get_mos_lq :: "mem \<Rightarrow> ptr \<Rightarrow> u8 option" where
  "rtcp_XR_voip_metrics_get_mos_lq s m = fld8 s m 34"

definition rtcp_XR_voip_metrics_get_mos_cq :: "mem \<Rightarrow> ptr \<Rightarrow> u8 option" where
  "rtcp_XR_voip_metrics_get_mos_cq s m = fld8 s m 35"

definition rtcp_XR_voip_metrics_get_rx_config :: "mem \<Rightarrow> ptr \<Rightarrow> u8 option" where
  "rtcp_XR_voip_metrics_get_rx_config s m = fld8 s m 36"

definition rtcp_XR_voip_metrics_get_jb_nominal :: "mem \<Rightarrow> ptr \<Rightarrow> u16 option" where
  "rtcp_XR_voip_metrics_get_jb_nominal s m = fld16 s m 38"

definition rtcp_XR_voip_metrics_get_jb_maximum :: "mem \<Rightarrow> ptr \<Rightarrow> u16 option" where
  "rtcp_XR_voip_metrics_get_jb_maximum s m = fld16 s m 40"

definition rtcp_XR_voip_metrics_get_jb_abs_max :: "mem \<Rightarrow> ptr \<Rightarrow> u16 option" where
  "rtcp_XR_voip_metrics_get_jb_abs_max s m = fld16 s m 42"

section \<open>Transport and payload-specific feedback\<close>

definition rtcp_is_RTPFB :: "mem \<Rightarrow> ptr \<Rightarrow> bool option" where
  "rtcp_is_RTPFB s m = do {
     t \<leftarrow> has_type s m RTCP_RTPFB;
     if t then do { sz \<leftarrow> msgdsize s (Some m); Some (\<not> sz < 12) } else Some False }"

definition rtcp_is_RTPFB_internal :: "mem \<Rightarrow> ptr \<Rightarrow> bool option" where
  "rtcp_is_RTPFB_internal s m = do {
     pt \<leftarrow> rtcp_common_header_get_packet_type s m;
     Some (pt = rtcp_type_code RTCP_RTPFB) }"

definition rtcp_RTPFB_get_type :: "mem \<Rightarrow> ptr \<Rightarrow> nat option" where
  "rtcp_RTPFB_get_type s m = rtcp_common_header_get_rc s m"

definition rtcp_RTPFB_get_packet_sender_ssrc :: "mem \<Rightarrow> ptr \<Rightarrow> u32 option" where
  "rtcp_RTPFB_get_packet_sender_ssrc s m = fld32 s m 4"

definition rtcp_RTPFB_get_media_source_ssrc :: "mem \<Rightarrow> ptr \<Rightarrow> u32 option" where
  "rtcp_RTPFB_get_media_source_ssrc s m = fld32 s m 8"

text \<open>The common shape of the FCI accessors: NULL unless \<open>needed\<close> bytes fit in the packet.\<close>

definition get_fci :: "nat \<Rightarrow> nat \<Rightarrow> mem \<Rightarrow> ptr \<Rightarrow> nat option option" where
  "get_fci needed fci_size s m = do {
     rtcp_size \<leftarrow> rtcp_get_size s m;
     if needed > rtcp_size then Some None
     else do { (b, r, w) \<leftarrow> view s m; Some (Some (r + needed - fci_size)) } }"

definition rtcp_RTPFB_generic_nack_get_fci :: "mem \<Rightarrow> ptr \<Rightarrow> nat option option" where
  "rtcp_RTPFB_generic_nack_get_fci s m = get_fci (4 + 8 + 4) 4 s m"

definition rtcp_RTPFB_tmmbr_get_fci :: "mem \<Rightarrow> ptr \<Rightarrow> nat option option" where
  "rtcp_RTPFB_tmmbr_get_fci s m = get_fci (4 + 8 + 8) 8 s m"

definition rtcp_fb_tmmbr_fci_get_mxtbr_exp :: "bytes \<Rightarrow> nat \<Rightarrow> nat option" where
  "rtcp_fb_tmmbr_fci_get_mxtbr_exp b fci =
     do { v \<leftarrow> rd32 b (fci + 4); Some (unat (drop_bit 26 v AND 0x3F)) }"

definition rtcp_fb_tmmbr_fci_get_mxtbr_mantissa :: "bytes \<Rightarrow> nat \<Rightarrow> u32 option" where
  "rtcp_fb_tmmbr_fci_get_mxtbr_mantissa b fci =
     do { v \<leftarrow> rd32 b (fci + 4); Some (drop_bit 9 v AND 0x1FFFF) }"

text \<open>
  The product is one of 32-bit unsigned integers, and \<open>1 << e\<close> on an \<open>int\<close> is undefined from
  31 on. The FCI is not compared with NULL.
\<close>

definition mantissa_shift :: "u32 \<Rightarrow> nat \<Rightarrow> u64 option" where
  "mantissa_shift mantissa e = (if e < 31 then Some (ucast (mantissa * 2 ^ e)) else None)"

definition rtcp_RTPFB_tmmbr_get_max_bitrate :: "mem \<Rightarrow> ptr \<Rightarrow> u64 option" where
  "rtcp_RTPFB_tmmbr_get_max_bitrate s m = do {
     fci \<leftarrow> rtcp_RTPFB_tmmbr_get_fci s m;
     p \<leftarrow> fci;
     (b, r, w) \<leftarrow> view s m;
     mantissa \<leftarrow> rtcp_fb_tmmbr_fci_get_mxtbr_mantissa b p;
     e \<leftarrow> rtcp_fb_tmmbr_fci_get_mxtbr_exp b p;
     mantissa_shift mantissa e }"

definition rtcp_PSFB_goog_remb_get_fci :: "mem \<Rightarrow> ptr \<Rightarrow> nat option option" where
  "rtcp_PSFB_goog_remb_get_fci s m = get_fci (4 + 8 + 8) 8 s m"

definition rtcp_PSFB_goog_remb_get_max_bitrate :: "mem \<Rightarrow> ptr \<Rightarrow> u64 option" where
  "rtcp_PSFB_goog_remb_get_max_bitrate s m = do {
     fci \<leftarrow> rtcp_PSFB_goog_remb_get_fci s m;
     p \<leftarrow> fci;
     (b, r, w) \<leftarrow> view s m;
     v \<leftarrow> rd32 b (p + 4);
     mantissa_shift (v AND 0x3FFFF) (unat (drop_bit 18 v AND 0x3F)) }"

definition rtcp_PSFB_is_goog_remb :: "mem \<Rightarrow> ptr \<Rightarrow> bool option" where
  "rtcp_PSFB_is_goog_remb s m = do {
     fci \<leftarrow> rtcp_PSFB_goog_remb_get_fci s m;
     case fci of
       None \<Rightarrow> Some False
     | Some p \<Rightarrow> do { (b, r, w) \<leftarrow> view s m; x \<leftarrow> rd32 b p; Some (x = 0x52454d42) } }"

definition rtcp_is_PSFB :: "mem \<Rightarrow> ptr \<Rightarrow> bool option" where
  "rtcp_is_PSFB s m = do {
     t \<leftarrow> has_type s m RTCP_PSFB;
     if t then do { sz \<leftarrow> msgdsize s (Some m); Some (\<not> sz < 12) } else Some False }"

definition rtcp_is_PSFB_internal :: "mem \<Rightarrow> ptr \<Rightarrow> bool option" where
  "rtcp_is_PSFB_internal s m = do {
     pt \<leftarrow> rtcp_common_header_get_packet_type s m;
     Some (pt = rtcp_type_code RTCP_PSFB) }"

definition rtcp_PSFB_get_type :: "mem \<Rightarrow> ptr \<Rightarrow> nat option" where
  "rtcp_PSFB_get_type s m = rtcp_common_header_get_rc s m"

definition rtcp_PSFB_get_packet_sender_ssrc :: "mem \<Rightarrow> ptr \<Rightarrow> u32 option" where
  "rtcp_PSFB_get_packet_sender_ssrc s m = fld32 s m 4"

definition rtcp_PSFB_get_media_source_ssrc :: "mem \<Rightarrow> ptr \<Rightarrow> u32 option" where
  "rtcp_PSFB_get_media_source_ssrc s m = fld32 s m 8"

text \<open>\<open>idx + 1\<close> is computed at the width of \<open>unsigned int\<close>.\<close>

definition rtcp_PSFB_fir_get_fci :: "mem \<Rightarrow> ptr \<Rightarrow> u32 \<Rightarrow> nat option option" where
  "rtcp_PSFB_fir_get_fci s m idx = get_fci (4 + 8 + unat (idx + 1) * 8) 8 s m"

definition rtcp_PSFB_sli_get_fci :: "mem \<Rightarrow> ptr \<Rightarrow> u32 \<Rightarrow> nat option option" where
  "rtcp_PSFB_sli_get_fci s m idx = get_fci (4 + 8 + unat (idx + 1) * 4) 4 s m"

definition rtcp_PSFB_rpsi_get_fci :: "mem \<Rightarrow> ptr \<Rightarrow> nat option" where
  "rtcp_PSFB_rpsi_get_fci s m = do { (b, r, w) \<leftarrow> view s m; Some (r + 4 + 8) }"

definition rtcp_PSFB_rpsi_get_fci_bit_string_len :: "mem \<Rightarrow> ptr \<Rightarrow> u16 option" where
  "rtcp_PSFB_rpsi_get_fci_bit_string_len s m = do {
     (b, r, w) \<leftarrow> view s m;
     fci \<leftarrow> rtcp_PSFB_rpsi_get_fci s m;
     n \<leftarrow> rtcp_get_size s m;
     let bit_string_len_in_bytes = (of_nat n - 14 :: u16);
     pb \<leftarrow> rd8 b fci;
     Some (bit_string_len_in_bytes * 8 - ucast pb) }"

end
