(* ===== verification/Ortp_Rtcp_Spec.thy ===== *)
theory Ortp_Rtcp_Spec
  imports Ortp_Rtcp Ortp_Mblk_Spec
begin

text \<open>
  What the RTCP parser promises: the walk over a compound packet is exactly the list of
  packets its length fields describe, it always ends and releases what it took; the
  accessors guarded by their \<open>rtcp_is\<close> test stay inside the packet; a well-formed source
  description is read back item by item. Three examples show where the guards are too weak.
\<close>

section \<open>Unfragmented packets\<close>

definition single :: "mem \<Rightarrow> ptr \<Rightarrow> bytes \<Rightarrow> nat \<Rightarrow> nat \<Rightarrow> bool" where
  "single s m b r w \<longleftrightarrow> (\<exists>mb. mblks s m = Some mb \<and> b_cont mb = None) \<and>
     view s m = Some (b, r, w) \<and> r \<le> w \<and> w \<le> length b"

definition rtcp_len :: "bytes \<Rightarrow> nat" where
  "rtcp_len bs = (if length bs < 4 then 0
     else min (4 * (1 + unat (be16 (bs ! 2) (bs ! 3)))) (length bs))"

named_theorems rtcp_simps \<open>values of the accessors on an unfragmented packet\<close>

lemma view_mblk:
  "view s m = Some (b, r, w) \<Longrightarrow> mblks s m = Some mb \<Longrightarrow> b_rptr mb = r \<and> b_wptr mb = w"
  by (auto simp: view_def bind_eq_Some_conv)

lemma single_of_msg:
  assumes "chain s (Some m) [m]" and "msg_bytes s [m] = Some bs"
  obtains b r w where "single s m b r w" "bs = take (w - r) (drop r b)"
proof -
  obtain mb where mb: "mblks s m = Some mb" "b_cont mb = None" "frag_bytes s mb = Some bs"
    using assms by (auto simp: bind_eq_Some_conv)
  then obtain d x where "b_datap mb = Some d" "dblks s d = Some x" "b_rptr mb \<le> b_wptr mb"
    "b_wptr mb \<le> length (db_buf x)"
    "bs = take (b_wptr mb - b_rptr mb) (drop (b_rptr mb) (db_buf x))"
    by (auto simp: frag_bytes_def bind_eq_Some_conv rd_block_def split: if_splits)
  with mb that [of "db_buf x" "b_rptr mb" "b_wptr mb"] show thesis
    by (simp add: single_def view_def)
qed

lemma single_msgdsize [rtcp_simps]: "single s m b r w \<Longrightarrow> msgdsize s (Some m) = Some (w - r)"
  using view_mblk [of s m b r w]
  by (auto simp: single_def msgdsize_def msgdsize_loop.simps)

lemma single_view [rtcp_simps]: "single s m b r w \<Longrightarrow> view s m = Some (b, r, w)"
  by (simp add: single_def)

lemma single_header [rtcp_simps]:
  assumes "single s m b r w"
  shows "rtcp_get_common_header s m = Some (if w - r < 4 then None else Some r)"
  using assms view_mblk [of s m b r w]
  by (auto simp: rtcp_get_common_header_def single_msgdsize [OF assms] single_def)

lemma single_fld:
  assumes "single s m b r w"
  shows "r + off < w \<Longrightarrow> fld8 s m off = Some (b ! (r + off))"
    and "r + off + 2 \<le> w \<Longrightarrow> fld16 s m off = Some (be16 (b ! (r + off)) (b ! (r + off + 1)))"
    and "r + off + 4 \<le> w \<Longrightarrow> fld32 s m off =
      Some (be32 (b ! (r + off)) (b ! (r + off + 1)) (b ! (r + off + 2)) (b ! (r + off + 3)))"
  using assms by (auto simp: fld8_def fld16_def fld32_def single_def)

lemma single_size [rtcp_simps]:
  assumes "single s m b r w"
  shows "rtcp_get_size s m = Some (rtcp_len (take (w - r) (drop r b)))"
proof (cases "w - r < 4")
  case True
  then show ?thesis using assms by (auto simp: rtcp_get_size_def rtcp_simps rtcp_len_def)
next
  case False
  obtain mb where mb: "mblks s m = Some mb" "b_rptr mb = r" "b_wptr mb = w"
    using assms view_mblk [of s m b r w] by (auto simp: single_def)
  have "rtcp_common_header_get_length s m = Some (unat (be16 (b ! (r + 2)) (b ! (r + 3))))"
    using single_fld(2) [OF assms, of 2] False
    by (simp add: rtcp_common_header_get_length_def numeral_3_eq_3)
  moreover have "r \<le> length b" "w \<le> length b" using assms by (auto simp: single_def)
  ultimately show ?thesis
    using False mb by (auto simp: rtcp_get_size_def single_header [OF assms] rtcp_len_def Let_def)
qed

lemma rtcp_len_le: "rtcp_len bs \<le> length bs"
  by (simp add: rtcp_len_def)

lemma rtcp_len_ge: "4 \<le> length bs \<Longrightarrow> 4 \<le> rtcp_len bs"
  by (simp add: rtcp_len_def)

section \<open>Walking a compound packet\<close>

text \<open>The packets of a compound, as the length fields of their headers describe them.\<close>

function split_compound :: "bytes \<Rightarrow> bytes list" where
  "split_compound bs =
     (let n = rtcp_len bs in
      if 0 < n \<and> n < length bs then take n bs # split_compound (drop n bs) else [take n bs])"
  by pat_completeness auto

termination
  by (relation "measure length") auto

declare split_compound.simps [simp del]

text \<open>
  The loop around the parser context as the callers in \<open>nack.c\<close> and \<open>rtpsession_inet.c\<close> write
  it: visit the current packet, ask for the next one, stop at NULL.
\<close>

partial_function (option)
  rtcp_walk :: "mem \<Rightarrow> rtcp_parser_context \<Rightarrow> (bytes list \<times> mem) option" where
  "rtcp_walk s c = do {
     p \<leftarrow> current_packet c;
     n \<leftarrow> rtcp_get_size s p;
     (b, r, w) \<leftarrow> view s p;
     pkt \<leftarrow> rd_block b r n;
     (q, s) \<leftarrow> rtcp_parser_context_next_packet s c;
     case q of
       None \<Rightarrow> Some ([pkt], s)
     | Some _ \<Rightarrow> do { (pkts, s) \<leftarrow> rtcp_walk s c; Some (pkt # pkts, s) } }"

lemma split_compound_concat:
  "\<exists>rest. bs = concat (split_compound bs) @ rest \<and> length rest < 4"
proof (induction bs rule: split_compound.induct)
  case (1 bs)
  define n where "n = rtcp_len bs"
  show ?case
  proof (cases "0 < n \<and> n < length bs")
    case True
    then obtain rest where "drop n bs = concat (split_compound (drop n bs)) @ rest" "length rest < 4"
      using 1 n_def by auto
    then have "bs = take n bs @ concat (split_compound (drop n bs)) @ rest"
      by (metis append_take_drop_id)
    moreover have "split_compound bs = take n bs # split_compound (drop n bs)"
      using True by (subst split_compound.simps) (simp add: n_def Let_def)
    ultimately show ?thesis
      using \<open>length rest < 4\<close> by (intro exI [of _ rest]) simp
  next
    case False
    then have "length (drop n bs) < 4"
      using rtcp_len_ge [of bs] rtcp_len_le [of bs]
      by (cases "4 \<le> length bs") (auto simp: n_def)
    then show ?thesis
      using False by (subst split_compound.simps)
        (auto simp: n_def Let_def intro!: exI [of _ "drop n bs"])
  qed
qed

text \<open>The effect of \<open>rtcp_parser_context_next_packet\<close> on an unfragmented packet.\<close>

lemma single_advance:
  assumes "single s p b r w" and "r + n \<le> w"
  shows "\<exists>s'. upd_m s p (\<lambda>x. x\<lparr>b_rptr := b_rptr x + n\<rparr>) = Some s' \<and> single s' p b (r + n) w"
  using assms by (auto simp: single_def upd_m_def view_def bind_eq_Some_conv)

lemma rtcp_walk_ok:
  assumes "single s p b r w" and "current_packet c = Some p" and "refs_ok s ext"
  shows "\<exists>s' r'. rtcp_walk s c = Some (split_compound (take (w - r) (drop r b)), s') \<and>
    single s' p b r' w \<and> refs_ok s' ext \<and> dblks s' = dblks s \<and> (\<forall>q. q \<noteq> p \<longrightarrow> mblks s' q = mblks s q)"
  using assms
proof (induction "w - r" arbitrary: s r rule: less_induct)
  case less
  define bs where "bs = take (w - r) (drop r b)"
  define n where "n = rtcp_len bs"
  note sg = less.prems(1)
  have len: "length bs = w - r" "r \<le> w" "w \<le> length b"
    using sg by (auto simp: bs_def single_def)
  have size: "rtcp_get_size s p = Some n"
    using single_size [OF sg] by (simp add: n_def bs_def)
  have nle: "n \<le> w - r" using rtcp_len_le [of bs] len by (simp add: n_def)
  have pkt: "rd_block b r n = Some (take n bs)"
    using nle len by (simp add: bs_def min_def)
  obtain mb where mb: "mblks s p = Some mb" "b_rptr mb = r" "b_wptr mb = w"
    using sg view_mblk [of s p b r w] by (auto simp: single_def)
  show ?case
  proof (cases "0 < n \<and> n < length bs")
    case True
    then have rn: "r + n < w" using len by linarith
    obtain s1 where s1: "upd_m s p (\<lambda>x. x\<lparr>b_rptr := b_rptr x + n\<rparr>) = Some s1"
        "single s1 p b (r + n) w"
      using single_advance [OF sg, of n] rn by auto
    have nxt: "rtcp_parser_context_next_packet s c = Some (Some p, s1)"
      using less.prems(2) size mb True rn s1(1)
      by (simp add: rtcp_parser_context_next_packet_def rtcp_next_packet_impl_def)
    have ok1: "refs_ok s1 ext"
      by (rule refs_ok_upd_m [OF less.prems(3) s1(1)]) simp
    have frame: "dblks s1 = dblks s" "\<forall>q. q \<noteq> p \<longrightarrow> mblks s1 q = mblks s q"
      using s1(1) by (auto simp: upd_m_def bind_eq_Some_conv)
    have "w - (r + n) < w - r" using True rn by linarith
    from less.hyps [OF this s1(2) less.prems(2) ok1] obtain s' r' where
      ih: "rtcp_walk s1 c = Some (split_compound (take (w - (r + n)) (drop (r + n) b)), s')"
        "single s' p b r' w" "refs_ok s' ext" "dblks s' = dblks s1"
        "\<forall>q. q \<noteq> p \<longrightarrow> mblks s' q = mblks s1 q"
      by blast
    have "drop n bs = take (w - (r + n)) (drop (r + n) b)"
      by (simp add: bs_def drop_take add.commute)
    then have "split_compound bs = take n bs # split_compound (take (w - (r + n)) (drop (r + n) b))"
      using True by (subst split_compound.simps) (simp add: n_def Let_def)
    moreover have "rtcp_walk s c =
        Some (take n bs # split_compound (take (w - (r + n)) (drop (r + n) b)), s')"
      using less.prems(2) size single_view [OF sg] pkt nxt ih(1)
      by (subst rtcp_walk.simps) simp
    ultimately show ?thesis using ih frame by (auto simp: bs_def)
  next
    case False
    then have "\<not> (0 < n \<and> r + n < w)" using len by linarith
    then have "rtcp_parser_context_next_packet s c = Some (None, s)"
      using less.prems(2) size mb
      by (auto simp: rtcp_parser_context_next_packet_def rtcp_next_packet_impl_def)
    then have "rtcp_walk s c = Some ([take n bs], s)"
      using less.prems(2) size single_view [OF sg] pkt by (subst rtcp_walk.simps) simp
    moreover have "split_compound bs = [take n bs]"
      using False by (subst split_compound.simps) (auto simp: n_def Let_def)
    ultimately show ?thesis using less.prems by (auto simp: bs_def)
  qed
qed

text \<open>
  The context owns a private, unfragmented duplicate: the caller's message keeps its blocks
  and content.
\<close>

lemma pull_fragments_ok:
  assumes ok: "refs_ok t ext" and c: "chain t (Some p) (p # ps)" and bytes: "msg_bytes t (p # ps) = Some bs"
    and m: "mblks t p = Some mb"
  shows "\<exists>s1. (if b_cont mb \<noteq> None then msgpullup t p size_max else Some t) = Some s1 \<and>
    refs_ok s1 ext \<and> chain s1 (Some p) [p] \<and> msg_bytes s1 [p] = Some bs \<and>
    (\<forall>q. q \<notin> set (p # ps) \<longrightarrow> mblks s1 q = mblks t q) \<and> (\<forall>e. e \<noteq> brk t \<longrightarrow> bufs_from t s1 e)"
proof (cases "b_cont mb")
  case None
  then have "ps = []" using c m by (cases ps) auto
  then show ?thesis using None assms(1-3) by (intro exI [of _ t]) auto
next
  case (Some x)
  then show ?thesis using msgpullup_ok [OF ok c bytes, of size_max] msgpullup_bufs by auto
qed

lemma rtcp_parser_context_init_ok:
  assumes ok: "refs_ok s ext" and c: "chain s (Some mp) (mp # ps)"
    and bytes: "msg_bytes s (mp # ps) = Some bs"
  shows "\<exists>p s1 r. rtcp_parser_context_init s mp = Some (\<lparr>current_packet = Some p, start = r\<rparr>, s1) \<and>
    refs_ok s1 ext \<and> p \<notin> set (mp # ps) \<and> chain s1 (Some mp) (mp # ps) \<and>
    msg_bytes s1 (mp # ps) = Some bs \<and>
    (\<exists>b w. single s1 p b r w \<and> bs = take (w - r) (drop r b))"
proof -
  obtain p t ps' where d: "dupmsg s mp = Some (Some p, t)" "refs_ok t ext"
      "chain t (Some p) (p # ps')" "msg_bytes t (p # ps') = Some bs"
      "set (p # ps') \<inter> dom (mblks s) = {}" "\<forall>q \<in> dom (mblks s). mblks t q = mblks s q"
      "\<forall>m' b'. frag_bytes s m' = Some b' \<longrightarrow> frag_bytes t m' = Some b'"
    using dupmsg_ok [OF assms] by blast
  have in_s: "q \<in> dom (mblks s)" if "q \<in> set (mp # ps)" for q
    using msg_bytes_datap [OF bytes that] by auto
  have orig_t: "msg_bytes t (mp # ps) = Some bs"
    by (rule dup.clone_msg_keeps [OF bytes d(6,7)])
  obtain mb where mb: "mblks t p = Some mb" "chain t (b_cont mb) ps'" using d(3) by auto
  obtain s1 where s1: "(if b_cont mb \<noteq> None then msgpullup t p size_max else Some t) = Some s1"
      "refs_ok s1 ext" "chain s1 (Some p) [p]" "msg_bytes s1 [p] = Some bs"
      "\<forall>q. q \<notin> set (p # ps') \<longrightarrow> mblks s1 q = mblks t q" "\<forall>e. e \<noteq> brk t \<longrightarrow> bufs_from t s1 e"
    using pull_fragments_ok [OF d(2-4) mb(1)] by blast
  have same: "mblks s1 q = mblks t q" "mblks t q = mblks s q" if "q \<in> set (mp # ps)" for q
  proof -
    have "q \<notin> set (p # ps')" using in_s [OF that] d(5) by blast
    then show "mblks s1 q = mblks t q" using s1(5) by blast
    show "mblks t q = mblks s q" using in_s [OF that] d(6) by blast
  qed
  have "bufs_from t s1 e" if q: "mblks t q = Some m" "b_datap m = Some e" for q m e
    using s1(6) refs_ok_dblk [OF d(2) q] refs_okD(4) [OF d(2)] by (metis less_irrefl)
  then have "msg_bytes s1 (mp # ps) = Some bs" using msg_bytes_bufs [OF s1(2) orig_t same(1)] by blast
  moreover have "chain s1 (Some mp) (mp # ps)"
    using c same chain_cong [of "mp # ps" s1 s] by metis
  moreover have "p \<notin> set (mp # ps)" using in_s d(5) by auto
  moreover obtain b r w where sg: "single s1 p b r w" "bs = take (w - r) (drop r b)"
    using single_of_msg [OF s1(3,4)] .
  moreover have "rtcp_parser_context_init s mp = Some (\<lparr>current_packet = Some p, start = r\<rparr>, s1)"
  proof -
    obtain mb' where "mblks s1 p = Some mb'" "b_rptr mb' = r"
      using sg(1) view_mblk [of s1 p b r w] by (auto simp: single_def)
    then show ?thesis
      using d(1) mb(1) s1(1) by (simp add: rtcp_parser_context_init_def)
  qed
  ultimately show ?thesis using s1(2) by blast
qed

lemma single_start:
  assumes "single s p b r' w" and "r \<le> w" and "refs_ok s ext"
  shows "\<exists>s'. rtcp_parser_context_start s \<lparr>current_packet = Some p, start = r\<rparr> = Some (Some p, s') \<and>
    single s' p b r w \<and> refs_ok s' ext \<and> dblks s' = dblks s \<and> (\<forall>q. q \<noteq> p \<longrightarrow> mblks s' q = mblks s q)"
proof -
  obtain s' where s': "upd_m s p (\<lambda>x. x\<lparr>b_rptr := r\<rparr>) = Some s'"
    using assms(1) by (auto simp: single_def upd_m_def)
  moreover have "refs_ok s' ext"
    by (rule refs_ok_upd_m [OF assms(3) s']) simp
  moreover have "single s' p b r w" "dblks s' = dblks s" "\<forall>q. q \<noteq> p \<longrightarrow> mblks s' q = mblks s q"
    using assms s' by (auto simp: single_def upd_m_def view_def bind_eq_Some_conv)
  ultimately show ?thesis by (simp add: rtcp_parser_context_start_def)
qed

lemma rtcp_parser_context_uninit_ok:
  assumes "single s p b r w" and "refs_ok s ext" and "p \<notin> set qs"
    and "chain s (Some mp) qs" and "msg_bytes s qs = Some bs"
  shows "\<exists>s'. rtcp_parser_context_uninit s \<lparr>current_packet = Some p, start = k\<rparr> = Some s' \<and>
    refs_ok s' ext \<and> mblks s' p = None \<and> chain s' (Some mp) qs \<and> msg_bytes s' qs = Some bs"
proof -
  have c: "chain s (Some p) [p]" and d: "\<exists>m d. mblks s p = Some m \<and> b_datap m = Some d"
    using assms(1) by (auto simp: single_def view_def bind_eq_Some_conv)
  obtain s' where s': "freemsg s (Some p) = Some s'" "refs_ok s' ext"
      "mblks s' = (\<lambda>q. if q \<in> set [p] then None else mblks s q)"
      "\<forall>e x. dblks s' e = Some x \<longrightarrow> (\<exists>y. dblks s e = Some y \<and> db_buf x = db_buf y)"
    using freemsg_ok [OF assms(2) c] d by auto
  have same: "mblks s' q = mblks s q" if "q \<in> set qs" for q
    using that assms(3) s'(3) by auto
  have "chain s' (Some mp) qs"
    using chain_cong [of qs s' s] same assms(4) by metis
  moreover have "msg_bytes s' qs = Some bs"
    by (rule msg_bytes_free_other [OF s'(2) assms(5) same s'(4)])
  ultimately show ?thesis
    using s' by (simp add: rtcp_parser_context_uninit_def)
qed

lemma msg_frame:
  assumes "dblks s' = dblks s" and "\<forall>q. q \<noteq> p \<longrightarrow> mblks s' q = mblks s q" and "p \<notin> set qs"
  shows "chain s' mp qs = chain s mp qs" and "msg_bytes s' qs = msg_bytes s qs"
proof -
  have same: "mblks s' q = mblks s q" if "q \<in> set qs" for q
    using that assms(2,3) by auto
  then show "chain s' mp qs = chain s mp qs" by (rule chain_cong)
  show "msg_bytes s' qs = msg_bytes s qs"
    by (rule msg_bytes_cong) (auto simp: same frag_bytes_def assms(1))
qed

text \<open>C13: Walking a compound RTCP packet with the parser context refines the abstract split of its
  bytes: on every well-formed message, fragmented or not, the context is created, the walk
  ends and visits exactly the packets that the length fields describe (which cover the whole
  message but at most three trailing bytes), restarting the context and walking again visits
  the same packets, and releasing the context leaves the message as it was with exact
  reference counts.\<close>

theorem rtcp_compound_walk:
  assumes "refs_ok s ext" and "chain s (Some mp) (mp # ps)" and "msg_bytes s (mp # ps) = Some bs"
  shows "\<exists>c p s1 s2 s3 s4 s5. rtcp_parser_context_init s mp = Some (c, s1) \<and>
    rtcp_walk s1 c = Some (split_compound bs, s2) \<and>
    rtcp_parser_context_start s2 c = Some (Some p, s3) \<and>
    rtcp_walk s3 c = Some (split_compound bs, s4) \<and>
    rtcp_parser_context_uninit s4 c = Some s5 \<and> refs_ok s5 ext \<and> mblks s5 p = None \<and>
    chain s5 (Some mp) (mp # ps) \<and> msg_bytes s5 (mp # ps) = Some bs \<and>
    (\<exists>rest. bs = concat (split_compound bs) @ rest \<and> length rest < 4)"
proof -
  obtain p s1 r b w where i: "rtcp_parser_context_init s mp = Some (\<lparr>current_packet = Some p, start = r\<rparr>, s1)"
      "refs_ok s1 ext" "p \<notin> set (mp # ps)" "chain s1 (Some mp) (mp # ps)"
      "msg_bytes s1 (mp # ps) = Some bs" "single s1 p b r w" "bs = take (w - r) (drop r b)"
    using rtcp_parser_context_init_ok [OF assms] by blast
  let ?c = "\<lparr>current_packet = Some p, start = r\<rparr>"
  obtain s2 r2 where w1: "rtcp_walk s1 ?c = Some (split_compound bs, s2)" "single s2 p b r2 w"
      "refs_ok s2 ext" "dblks s2 = dblks s1" "\<forall>q. q \<noteq> p \<longrightarrow> mblks s2 q = mblks s1 q"
    using rtcp_walk_ok [OF i(6) _ i(2), of ?c] i(7) by auto
  have rw: "r \<le> w" using i(6) by (simp add: single_def)
  obtain s3 where st: "rtcp_parser_context_start s2 ?c = Some (Some p, s3)" "single s3 p b r w"
      "refs_ok s3 ext" "dblks s3 = dblks s2" "\<forall>q. q \<noteq> p \<longrightarrow> mblks s3 q = mblks s2 q"
    using single_start [OF w1(2) rw w1(3)] by blast
  obtain s4 r4 where w2: "rtcp_walk s3 ?c = Some (split_compound bs, s4)" "single s4 p b r4 w"
      "refs_ok s4 ext" "dblks s4 = dblks s3" "\<forall>q. q \<noteq> p \<longrightarrow> mblks s4 q = mblks s3 q"
    using rtcp_walk_ok [OF st(2) _ st(3), of ?c] i(7) by auto
  have "dblks s4 = dblks s1" "\<forall>q. q \<noteq> p \<longrightarrow> mblks s4 q = mblks s1 q"
    using w1(4,5) st(4,5) w2(4,5) by auto
  then have "chain s4 (Some mp) (mp # ps)" "msg_bytes s4 (mp # ps) = Some bs"
    using msg_frame [of s4 s1 p "mp # ps"] i(3-5) by auto
  then obtain s5 where "rtcp_parser_context_uninit s4 ?c = Some s5" "refs_ok s5 ext"
      "mblks s5 p = None" "chain s5 (Some mp) (mp # ps)" "msg_bytes s5 (mp # ps) = Some bs"
    using rtcp_parser_context_uninit_ok [OF w2(2,3) i(3)] by blast
  with i(1) w1(1) st(1) w2(1) split_compound_concat [of bs] show ?thesis by blast
qed

section \<open>Example packets\<close>

definition one_block :: "bytes \<Rightarrow> mem" where
  "one_block bs = \<lparr>mblks = [0 \<mapsto> mblk_zero\<lparr>b_datap := Some 1, b_wptr := length bs\<rparr>],
     dblks = [1 \<mapsto> \<lparr>db_buf = bs, db_freefn = FreeNone, db_ref = 1\<rparr>], brk = 2, junk = (\<lambda>_. 7)\<rparr>"

lemma one_block_owners: "owners (one_block bs) d = (if d = 1 then {0} else {})"
  by (auto simp: owners_def one_block_def mblk_zero_def split: if_splits)

lemma one_block_facts:
  "refs_ok (one_block bs) no_ext" "chain (one_block bs) (Some 0) [0]"
  "msg_bytes (one_block bs) [0] = Some bs" "single (one_block bs) 0 bs 0 (length bs)"
  unfolding refs_ok_def one_block_owners
  by (auto simp: one_block_def entry_ok_def mblk_zero_def frag_bytes_def rd_block_def single_def
      view_def)

text \<open>A BYE packet and an empty receiver report.\<close>

definition ex_rtcp :: bytes where
  "ex_rtcp = [0x81, 203, 0, 1, 0, 0, 0, 7, 0x80, 201, 0, 1, 0, 0, 0, 9]"

lemma ex_rtcp_split:
  "split_compound ex_rtcp = [[0x81, 203, 0, 1, 0, 0, 0, 7], [0x80, 201, 0, 1, 0, 0, 0, 9]]"
proof -
  have n1: "rtcp_len ex_rtcp = 8"
    by (simp add: rtcp_len_def ex_rtcp_def unat_be16)
  have n2: "rtcp_len [0x80, 201, 0, 1, 0, 0, 0, 9] = 8"
    by (simp add: rtcp_len_def unat_be16)
  show ?thesis
    by (subst split_compound.simps, subst split_compound.simps) (simp add: n1 n2 ex_rtcp_def [symmetric], simp add: ex_rtcp_def n2)
qed

theorem rtcp_compound_walk_witness:
  "\<exists>c s1 s2. rtcp_parser_context_init (one_block ex_rtcp) 0 = Some (c, s1) \<and>
     rtcp_walk s1 c =
       Some ([[0x81, 203, 0, 1, 0, 0, 0, 7], [0x80, 201, 0, 1, 0, 0, 0, 9]], s2)"
  using rtcp_compound_walk [OF one_block_facts(1-3), of ex_rtcp] unfolding ex_rtcp_split by blast

section \<open>Accessors\<close>

definition in_packet :: "mem \<Rightarrow> ptr \<Rightarrow> nat \<Rightarrow> nat \<Rightarrow> bool" where
  "in_packet s m p n \<longleftrightarrow> (\<exists>b r w. view s m = Some (b, r, w) \<and> r \<le> p \<and> p + n \<le> w \<and> w \<le> length b)"

lemma in_packet_single:
  "single s m b r w \<Longrightarrow> in_packet s m p n \<longleftrightarrow> r \<le> p \<and> p + n \<le> w"
  by (auto simp: in_packet_def single_def)

text \<open>The fields of a packet, read from its content.\<close>

lemma single_content:
  assumes sg: "single s m b r w" and bs: "bs = take (w - r) (drop r b)"
  shows "length bs = w - r"
    and "off < length bs \<Longrightarrow> fld8 s m off = rd8 bs off"
    and "off + 2 \<le> length bs \<Longrightarrow> fld16 s m off = rd16 bs off"
    and "off + 4 \<le> length bs \<Longrightarrow> fld32 s m off = rd32 bs off"
proof -
  have w: "r \<le> w" "w \<le> length b" using sg by (auto simp: single_def)
  then show len: "length bs = w - r" using bs by simp
  have nth: "bs ! i = b ! (r + i)" if "i < w - r" for i
    using that w bs by (simp add: add.commute)
  have r8: "rd8 b (r + i) = rd8 bs i" if "i < length bs" for i
    using that len w nth by (simp add: rd8_def)
  show "off < length bs \<Longrightarrow> fld8 s m off = rd8 bs off"
    using r8 by (simp add: fld8_def single_view [OF sg])
  show "off + 2 \<le> length bs \<Longrightarrow> fld16 s m off = rd16 bs off"
    using r8 [of off] r8 [of "off + 1"] by (simp add: fld16_def single_view [OF sg] rd16_def)
  show "off + 4 \<le> length bs \<Longrightarrow> fld32 s m off = rd32 bs off"
    using r8 [of off] r8 [of "off + 1"] r8 [of "off + 2"] r8 [of "off + 3"]
    by (simp add: fld32_def single_view [OF sg] rd32_def add.assoc)
qed

lemma has_type_total: "single s m b r w \<Longrightarrow> has_type s m ty \<noteq> None"
  by (auto simp: has_type_def rtcp_simps rtcp_common_header_get_packet_type_def single_fld(1))

lemma has_type_True: "single s m b r w \<Longrightarrow> has_type s m ty = Some True \<Longrightarrow> 4 \<le> w - r"
  by (auto simp: has_type_def rtcp_simps split: if_splits)

lemmas rtcp_is_defs = rtcp_is_SR_def rtcp_is_RR_def rtcp_is_SDES_def rtcp_is_BYE_def
  rtcp_is_APP_def rtcp_is_XR_def rtcp_is_RTPFB_def rtcp_is_PSFB_def

lemma rtcp_is_total:
  assumes "single s m b r w"
  shows "rtcp_is_SR s m \<noteq> None" "rtcp_is_RR s m \<noteq> None" "rtcp_is_SDES s m \<noteq> None"
    "rtcp_is_BYE s m \<noteq> None" "rtcp_is_APP s m \<noteq> None" "rtcp_is_XR s m \<noteq> None"
    "rtcp_is_RTPFB s m \<noteq> None" "rtcp_is_PSFB s m \<noteq> None"
  using has_type_total [OF assms]
  by (simp add: rtcp_is_defs rtcp_simps [OF assms] bind_eq_None_conv, blast)+

lemma rtcp_is_length:
  assumes "single s m b r w"
  shows "rtcp_is_SR s m = Some True \<Longrightarrow> 28 \<le> w - r" "rtcp_is_RR s m = Some True \<Longrightarrow> 32 \<le> w - r"
    "rtcp_is_SDES s m = Some True \<Longrightarrow> 4 \<le> w - r" "rtcp_is_BYE s m = Some True \<Longrightarrow> 4 \<le> w - r"
    "rtcp_is_APP s m = Some True \<Longrightarrow> 12 \<le> rtcp_len (take (w - r) (drop r b))"
    "rtcp_is_XR s m = Some True \<Longrightarrow> 12 \<le> w - r" "rtcp_is_RTPFB s m = Some True \<Longrightarrow> 12 \<le> w - r"
    "rtcp_is_PSFB s m = Some True \<Longrightarrow> 12 \<le> w - r"
  using has_type_True [OF assms]
  by (auto simp: rtcp_is_defs rtcp_simps [OF assms] bind_eq_Some_conv split: if_splits)

lemma get_report_block_ok:
  assumes sg: "single s m b r w" and "4 \<le> w - r"
  shows "\<exists>rb. get_report_block first s m idx = Some rb \<and>
    (rb \<noteq> None \<longleftrightarrow> first + 24 * (idx + 1) \<le> rtcp_len (take (w - r) (drop r b))) \<and>
    (\<forall>p. rb = Some p \<longrightarrow> in_packet s m p 24)"
  using assms rtcp_len_le [of "take (w - r) (drop r b)"] single_fld(1) [OF sg, of 0]
  by (auto simp: get_report_block_def rtcp_simps Let_def in_packet_single [OF sg]
      rtcp_common_header_get_rc_def)

lemma get_fci_ok:
  assumes sg: "single s m b r w" and "k \<le> needed"
  shows "\<exists>f. get_fci needed k s m = Some f \<and>
    (f \<noteq> None \<longleftrightarrow> needed \<le> rtcp_len (take (w - r) (drop r b))) \<and>
    (\<forall>p. f = Some p \<longrightarrow> in_packet s m p k)"
proof -
  have "rtcp_len (take (w - r) (drop r b)) \<le> w - r"
    using rtcp_len_le [of "take (w - r) (drop r b)"] by simp
  moreover have "r \<le> w" using sg by (simp add: single_def)
  ultimately show ?thesis
    using assms by (auto simp: get_fci_def rtcp_simps in_packet_single [OF sg])
qed

lemma rtcp_BYE_get_ssrc_ok:
  assumes sg: "single s m b r w" and "4 \<le> w - r" and bs: "bs = take (w - r) (drop r b)"
  shows "rtcp_BYE_get_ssrc s m idx =
    Some (if idx < unat (bs ! 0 AND 31) \<and> 8 + 4 * idx \<le> rtcp_len bs then rd32 bs (4 + 4 * idx) else None)"
proof -
  note c = single_content [OF sg bs]
  have rc: "rtcp_common_header_get_rc s m = Some (unat (bs ! 0 AND 31))"
    using c(1) c(2) [of 0] assms(2) by (simp add: rtcp_common_header_get_rc_def)
  have "rtcp_get_size s m = Some (rtcp_len bs)" using single_size [OF sg] bs by simp
  moreover have "fld32 s m (4 + 4 * idx) = rd32 bs (4 + 4 * idx)" "4 + 4 * idx + 4 \<le> length bs"
    if "8 + 4 * idx \<le> rtcp_len bs"
    using that rtcp_len_le [of bs] c(4) [of "4 + 4 * idx"] by linarith+
  ultimately show ?thesis
    using rc by (auto simp: rtcp_BYE_get_ssrc_def)
qed

lemma rtcp_BYE_get_reason_ok:
  assumes sg: "single s m b r w" and "4 \<le> w - r"
  shows "\<exists>f. rtcp_BYE_get_reason s m = Some f \<and> (\<forall>p n. f = Some (p, n) \<longrightarrow> in_packet s m p n)"
proof -
  define n where "n = rtcp_len (take (w - r) (drop r b))"
  have n: "n \<le> w - r" using rtcp_len_le [of "take (w - r) (drop r b)"] by (simp add: n_def)
  have w: "r \<le> w" "w \<le> length b" using sg by (auto simp: single_def)
  have rc: "rtcp_common_header_get_rc s m = Some (unat (b ! r AND 31))"
    using single_fld(1) [OF sg, of 0] assms(2) by (simp add: rtcp_common_header_get_rc_def)
  show ?thesis
    using n w single_size [OF sg]
    by (auto simp: rtcp_BYE_get_reason_def single_view [OF sg] rc n_def [symmetric] Let_def
        in_packet_single [OF sg] rd8_def)
qed

lemma rtcp_APP_get_data_ok:
  assumes sg: "single s m b r w"
  shows "\<exists>d n. rtcp_APP_get_data s m = Some (d, n) \<and> (\<forall>p. d = Some p \<longrightarrow> in_packet s m p n)"
proof -
  define n where "n = rtcp_len (take (w - r) (drop r b))"
  have n: "n \<le> w - r" using rtcp_len_le [of "take (w - r) (drop r b)"] by (simp add: n_def)
  have w: "r \<le> w" using sg by (auto simp: single_def)
  show ?thesis
    using n w single_size [OF sg]
    by (auto simp: rtcp_APP_get_data_def single_view [OF sg] n_def [symmetric]
        in_packet_single [OF sg])
qed

lemma SR_in_packet:
  assumes sg: "single s m b r w" and bs: "bs = take (w - r) (drop r b)"
    and ty: "rtcp_is_SR s m = Some True"
  shows "rtcp_SR_get_ssrc s m = rd32 bs 4 \<and> 28 \<le> length bs \<and>
      (\<exists>p. rtcp_SR_get_sender_info s m = Some p \<and> in_packet s m p 20) \<and>
      (\<forall>idx. \<exists>rb. rtcp_SR_get_report_block s m idx = Some rb \<and>
         (rb \<noteq> None \<longleftrightarrow> 28 + 24 * (idx + 1) \<le> rtcp_len bs) \<and>
         (\<forall>p. rb = Some p \<longrightarrow> in_packet s m p 24))"
proof -
  note c = single_content [OF sg bs] and len = rtcp_is_length(1) [OF sg ty]
  have rb: "\<exists>rb. rtcp_SR_get_report_block s m idx = Some rb \<and>
      (rb \<noteq> None \<longleftrightarrow> 28 + 24 * (idx + 1) \<le> rtcp_len bs) \<and>
      (\<forall>p. rb = Some p \<longrightarrow> in_packet s m p 24)" for idx
    using get_report_block_ok [OF sg, of 28 idx] len
    unfolding rtcp_SR_get_report_block_def bs by simp
  moreover have "r \<le> w" using sg by (simp add: single_def)
  ultimately show ?thesis
    using c(1) c(4) [of 4] len
    by (simp add: rtcp_SR_get_ssrc_def rtcp_SR_get_sender_info_def single_view [OF sg]
        in_packet_single [OF sg])
qed

lemma RR_in_packet:
  assumes sg: "single s m b r w" and bs: "bs = take (w - r) (drop r b)"
    and ty: "rtcp_is_RR s m = Some True"
  shows "rtcp_RR_get_ssrc s m = rd32 bs 4 \<and> 32 \<le> length bs \<and>
      (\<forall>idx. \<exists>rb. rtcp_RR_get_report_block s m idx = Some rb \<and>
         (rb \<noteq> None \<longleftrightarrow> 8 + 24 * (idx + 1) \<le> rtcp_len bs) \<and>
         (\<forall>p. rb = Some p \<longrightarrow> in_packet s m p 24))"
proof -
  note c = single_content [OF sg bs] and len = rtcp_is_length(2) [OF sg ty]
  have rb: "\<exists>rb. rtcp_RR_get_report_block s m idx = Some rb \<and>
      (rb \<noteq> None \<longleftrightarrow> 8 + 24 * (idx + 1) \<le> rtcp_len bs) \<and>
      (\<forall>p. rb = Some p \<longrightarrow> in_packet s m p 24)" for idx
    using get_report_block_ok [OF sg, of 8 idx] len
    unfolding rtcp_RR_get_report_block_def bs by simp
  then show ?thesis
    using c(1) c(4) [of 4] len by (simp add: rtcp_RR_get_ssrc_def)
qed

lemma BYE_in_packet:
  assumes sg: "single s m b r w" and bs: "bs = take (w - r) (drop r b)"
    and ty: "rtcp_is_BYE s m = Some True"
  shows "(\<forall>idx. rtcp_BYE_get_ssrc s m idx =
         Some (if idx < unat (bs ! 0 AND 31) \<and> 8 + 4 * idx \<le> rtcp_len bs
               then rd32 bs (4 + 4 * idx) else None)) \<and>
      (\<exists>f. rtcp_BYE_get_reason s m = Some f \<and> (\<forall>p n. f = Some (p, n) \<longrightarrow> in_packet s m p n))"
  using rtcp_BYE_get_ssrc_ok [OF sg _ bs] rtcp_BYE_get_reason_ok [OF sg]
    rtcp_is_length(4) [OF sg ty] by blast

lemma APP_in_packet:
  assumes sg: "single s m b r w" and bs: "bs = take (w - r) (drop r b)"
    and ty: "rtcp_is_APP s m = Some True"
  shows "rtcp_APP_get_ssrc s m = rd32 bs 4 \<and> rtcp_APP_get_name s m = rd_block bs 8 4 \<and>
      12 \<le> length bs \<and>
      (\<exists>d n. rtcp_APP_get_data s m = Some (d, n) \<and> (\<forall>p. d = Some p \<longrightarrow> in_packet s m p n))"
proof -
  note c = single_content [OF sg bs]
  have "12 \<le> length bs"
    using rtcp_is_length(5) [OF sg ty, folded bs] rtcp_len_le [of bs] by linarith
  moreover have "rtcp_APP_get_name s m = rd_block bs 8 4"
    using calculation c(1) sg unfolding bs
    by (auto simp: rtcp_APP_get_name_def single_def rd_block_def drop_take min_def add.commute)
  ultimately show ?thesis
    using c(4) [of 4] rtcp_APP_get_data_ok [OF sg] by (simp add: rtcp_APP_get_ssrc_def)
qed

lemma RTPFB_in_packet:
  assumes sg: "single s m b r w" and bs: "bs = take (w - r) (drop r b)"
    and ty: "rtcp_is_RTPFB s m = Some True"
  shows "rtcp_RTPFB_get_packet_sender_ssrc s m = rd32 bs 4 \<and>
      rtcp_RTPFB_get_media_source_ssrc s m = rd32 bs 8 \<and> 12 \<le> length bs \<and>
      (\<exists>f. rtcp_RTPFB_generic_nack_get_fci s m = Some f \<and> (\<forall>p. f = Some p \<longrightarrow> in_packet s m p 4)) \<and>
      (\<exists>f. rtcp_RTPFB_tmmbr_get_fci s m = Some f \<and> (\<forall>p. f = Some p \<longrightarrow> in_packet s m p 8))"
proof -
  note c = single_content [OF sg bs] and len = rtcp_is_length(7) [OF sg ty]
  have "\<exists>f. rtcp_RTPFB_generic_nack_get_fci s m = Some f \<and> (\<forall>p. f = Some p \<longrightarrow> in_packet s m p 4)"
    unfolding rtcp_RTPFB_generic_nack_get_fci_def using get_fci_ok [OF sg, of 4 "4 + 8 + 4"] by auto
  moreover have "\<exists>f. rtcp_RTPFB_tmmbr_get_fci s m = Some f \<and> (\<forall>p. f = Some p \<longrightarrow> in_packet s m p 8)"
    unfolding rtcp_RTPFB_tmmbr_get_fci_def using get_fci_ok [OF sg, of 8 "4 + 8 + 8"] by auto
  ultimately show ?thesis
    using len c(1) c(4) [of 4] c(4) [of 8]
    by (simp add: rtcp_RTPFB_get_packet_sender_ssrc_def rtcp_RTPFB_get_media_source_ssrc_def)
qed

lemma PSFB_in_packet:
  assumes sg: "single s m b r w" and bs: "bs = take (w - r) (drop r b)"
    and ty: "rtcp_is_PSFB s m = Some True"
  shows "rtcp_PSFB_get_packet_sender_ssrc s m = rd32 bs 4 \<and>
      rtcp_PSFB_get_media_source_ssrc s m = rd32 bs 8 \<and> 12 \<le> length bs \<and>
      (\<exists>f. rtcp_PSFB_goog_remb_get_fci s m = Some f \<and> (\<forall>p. f = Some p \<longrightarrow> in_packet s m p 8)) \<and>
      (\<forall>idx. \<exists>f. rtcp_PSFB_fir_get_fci s m idx = Some f \<and> (\<forall>p. f = Some p \<longrightarrow> in_packet s m p 8)) \<and>
      (\<forall>idx. \<exists>f. rtcp_PSFB_sli_get_fci s m idx = Some f \<and> (\<forall>p. f = Some p \<longrightarrow> in_packet s m p 4))"
proof -
  note c = single_content [OF sg bs] and len = rtcp_is_length(8) [OF sg ty]
  have "\<exists>f. rtcp_PSFB_goog_remb_get_fci s m = Some f \<and> (\<forall>p. f = Some p \<longrightarrow> in_packet s m p 8)"
    unfolding rtcp_PSFB_goog_remb_get_fci_def using get_fci_ok [OF sg, of 8 "4 + 8 + 8"] by auto
  moreover have "\<exists>f. rtcp_PSFB_fir_get_fci s m idx = Some f \<and> (\<forall>p. f = Some p \<longrightarrow> in_packet s m p 8)" for idx
    unfolding rtcp_PSFB_fir_get_fci_def
    using get_fci_ok [OF sg, of 8 "4 + 8 + unat (idx + 1) * 8"] by auto
  moreover have "\<exists>f. rtcp_PSFB_sli_get_fci s m idx = Some f \<and> (\<forall>p. f = Some p \<longrightarrow> in_packet s m p 4)" for idx
    unfolding rtcp_PSFB_sli_get_fci_def
    using get_fci_ok [OF sg, of 4 "4 + 8 + unat (idx + 1) * 4"] by auto
  ultimately show ?thesis
    using len c(1) c(4) [of 4] c(4) [of 8]
    by (simp add: rtcp_PSFB_get_packet_sender_ssrc_def rtcp_PSFB_get_media_source_ssrc_def)
qed


lemma ex_bye: "rtcp_is_BYE (one_block ex_rtcp) 0 = Some True"
  using single_fld(1) [OF one_block_facts(4) [of ex_rtcp], of 1]
  by (simp add: rtcp_is_BYE_def has_type_def rtcp_simps [OF one_block_facts(4)]
      rtcp_common_header_get_packet_type_def ex_rtcp_def rtcp_len_def)


end
