(* ===== verification/Ortp_Rtcp_Sdes.thy ===== *)
theory Ortp_Rtcp_Sdes
  imports Ortp_Rtcp_Spec
begin

text \<open>
  Source descriptions and report blocks: \<open>rtcp_sdes_parse\<close> is safe on arbitrary bytes and reads
  back every item of a well-formed packet, the loss fields of a report block survive a write
  and a read, and the accessors that rely on too weak a test read outside the packet.
\<close>

section \<open>Source descriptions\<close>

declare sdes_loop.simps [simp del]

lemma sdes_loop_safe:
  assumes "e \<le> length b"
  shows "\<exists>calls. sdes_loop addr b rc e rptr cs n ss = Some calls \<and>
    (\<forall>(x, ty, p, len) \<in> set calls. ty \<noteq> 0 \<and> rptr \<le> p \<and> p + len \<le> e)"
  using assms
proof (induction addr b rc e rptr cs n ss rule: sdes_loop.induct)
  case (1 addr b rc e rptr cs n ss)
  consider (stop) "\<not> rptr < e" | (start) "rptr < e" "cs" | (item) "rptr < e" "\<not> cs" by blast
  then show ?case
  proof cases
    case stop
    then show ?thesis by (subst sdes_loop.simps) simp
  next
    case start
    show ?thesis
    proof (cases "rptr + 4 \<le> e")
      case True
      then obtain v where v: "rd32 b rptr = Some v" using 1(4) by simp
      show ?thesis
        using 1(1) [OF start True] 1(4) start True v
        by (subst sdes_loop.simps) (fastforce simp: v)
    qed (use start in \<open>subst sdes_loop.simps, simp\<close>)
  next
    case item
    show ?thesis
    proof (cases "rptr + 2 \<le> e")
      case True
      then have rd: "rd8 b rptr = Some (b ! rptr)" "rd8 b (rptr + 1) = Some (b ! (rptr + 1))"
        using 1(4) by simp_all
      define q where "q = (addr + rptr + 4) div 4 * 4 - addr"
      have q: "rptr \<le> q" by (simp add: q_def)
      show ?thesis
        using 1(2) [OF item True] 1(3) [OF item True] 1(4) item True rd q
        by (subst sdes_loop.simps) (fastforce simp: rd q_def [symmetric])
    qed (use item in \<open>subst sdes_loop.simps, simp\<close>)
  qed
qed

text \<open>C29: \<open>rtcp_sdes_parse\<close> is safe on every packet that \<open>rtcp_is_SDES\<close> accepts, whatever its
  bytes and lengths: it ends, and every item it hands to the callback lies inside the
  message.\<close>

theorem rtcp_sdes_parse_safe:
  assumes "chain s (Some m) [m]" and "msg_bytes s [m] = Some bs" and "rtcp_is_SDES s m = Some True"
  shows "\<exists>calls. rtcp_sdes_parse base_addr s m = Some calls \<and>
    (\<forall>(ssrc, ty, p, len) \<in> set calls. ty \<noteq> 0 \<and> in_packet s m p len)"
proof -
  obtain b r w where sg: "single s m b r w" and bs: "bs = take (w - r) (drop r b)"
    using single_of_msg [OF assms(1,2)] .
  obtain mb d x where mb: "mblks s m = Some mb" "b_datap mb = Some d" "dblks s d = Some x"
      "db_buf x = b" "b_rptr mb = r" "b_wptr mb = w" and w: "w \<le> length b"
    using sg by (auto simp: single_def view_def bind_eq_Some_conv)
  have len: "4 \<le> w - r" using rtcp_is_length(3) [OF sg assms(3)] .
  then obtain l rc where hd: "rtcp_common_header_get_length s m = Some l"
      "rtcp_common_header_get_rc s m = Some rc"
    using single_fld(1) [OF sg, of 0] single_fld(2) [OF sg, of 2]
    by (simp add: rtcp_common_header_get_length_def rtcp_common_header_get_rc_def)
  define e where "e = (if r + 4 + 4 * (l + 1) > w then w else r + 4 + 4 * (l + 1))"
  have e: "e \<le> w" by (simp add: e_def)
  obtain calls where "sdes_loop (base_addr d) b rc e (r + 4) True 0 0 = Some calls"
      "\<forall>(x, ty, p, len) \<in> set calls. ty \<noteq> 0 \<and> r + 4 \<le> p \<and> p + len \<le> e"
    using sdes_loop_safe [of e b "base_addr d" rc "r + 4" True 0 0] e w by auto
  moreover have "rtcp_sdes_parse base_addr s m = sdes_loop (base_addr d) b rc e (r + 4) True 0 0"
    using mb hd by (simp add: rtcp_sdes_parse_def e_def)
  ultimately show ?thesis
    using e by (fastforce simp: in_packet_single [OF sg])
qed

text \<open>The layout of RFC 3550 section 6.5: chunks of items, each chunk closed by 1 to 4 zeros.\<close>

type_synonym sdes_chunks = "(u32 \<times> (u8 \<times> bytes) list) list"

definition enc_item :: "u8 \<times> bytes \<Rightarrow> bytes" where
  "enc_item it = fst it # of_nat (length (snd it)) # snd it"

definition enc_chunk :: "u32 \<times> (u8 \<times> bytes) list \<Rightarrow> bytes" where
  "enc_chunk c = (let its = concat (map enc_item (snd c))
                  in enc32 (fst c) @ its @ replicate (4 - length its mod 4) 0)"

definition enc_chunks :: "sdes_chunks \<Rightarrow> bytes" where
  "enc_chunks cs = concat (map enc_chunk cs)"

definition item_ok :: "u8 \<times> bytes \<Rightarrow> bool" where
  "item_ok it \<longleftrightarrow> fst it \<noteq> 0 \<and> length (snd it) < 256"

definition chunks_items :: "sdes_chunks \<Rightarrow> (u32 \<times> u8 \<times> bytes) list" where
  "chunks_items cs = concat (map (\<lambda>(ssrc, its). map (\<lambda>(ty, c). (ssrc, ty, c)) its) cs)"

definition call_content :: "bytes \<Rightarrow> u32 \<times> u8 \<times> nat \<times> nat \<Rightarrow> u32 \<times> u8 \<times> bytes" where
  "call_content b = (\<lambda>(ssrc, ty, p, n). (ssrc, ty, take n (drop p b)))"

lemma drop_Cons_nth: "drop p b = x # ys \<Longrightarrow> p < length b \<and> b ! p = x \<and> drop (Suc p) b = ys"
  by (metis Cons_nth_drop_Suc drop_eq_Nil list.inject list.distinct(1) not_le)

lemma unat_u8_length: "n < 256 \<Longrightarrow> unat (of_nat n :: u8) = n"
  by (simp add: unat_of_nat)

lemma sdes_items_step:
  assumes "drop rptr b = concat (map enc_item its) @ ys" and "\<forall>it \<in> set its. item_ok it"
    and "rptr + length (concat (map enc_item its)) \<le> e" and "e \<le> length b"
    and "sdes_loop addr b rc e (rptr + length (concat (map enc_item its))) False n ss = Some calls"
  shows "\<exists>calls'. sdes_loop addr b rc e rptr False n ss = Some calls' \<and>
    map (call_content b) calls' = map (\<lambda>(ty, c). (ss, ty, c)) its @ map (call_content b) calls"
  using assms
proof (induction its arbitrary: rptr)
  case (Cons it its)
  obtain ty c where it: "it = (ty, c)" by fastforce
  have ok: "ty \<noteq> 0" "length c < 256" using Cons.prems(2) it by (auto simp: item_ok_def)
  have d: "drop rptr b = ty # of_nat (length c) # c @ concat (map enc_item its) @ ys"
    using Cons.prems(1) by (simp add: it enc_item_def [of "(ty, c)"])
  then have b0: "b ! rptr = ty" "b ! Suc rptr = of_nat (length c)" "Suc rptr < length b"
    and d2: "drop (Suc (Suc rptr)) b = c @ concat (map enc_item its) @ ys"
    using drop_Cons_nth by metis+
  let ?q = "rptr + 2 + length c"
  have dq: "drop ?q b = concat (map enc_item its) @ ys"
    using arg_cong [OF d2, of "drop (length c)"] by (simp add: add.commute)
  have e2: "?q + length (concat (map enc_item its)) \<le> e"
    and len: "rptr + length (concat (map enc_item (it # its))) = ?q + length (concat (map enc_item its))"
    using Cons.prems(3) by (simp_all add: it enc_item_def [of "(ty, c)"])
  have oks: "\<forall>it \<in> set its. item_ok it" using Cons.prems(2) by simp
  obtain calls' where ih: "sdes_loop addr b rc e ?q False n ss = Some calls'"
      "map (call_content b) calls' = map (\<lambda>(ty, c). (ss, ty, c)) its @ map (call_content b) calls"
    using Cons.IH [OF dq oks e2 Cons.prems(4) Cons.prems(5) [unfolded len]] by blast
  have "sdes_loop addr b rc e rptr False n ss = Some ((ss, ty, rptr + 2, length c) # calls')"
    using b0 ok ih(1) e2 by (subst sdes_loop.simps) (simp add: unat_u8_length rd8_def)
  moreover have "call_content b (ss, ty, rptr + 2, length c) = (ss, ty, c)"
    using d2 by (simp add: call_content_def)
  ultimately show ?case using ih(2) it by simp
qed simp

text \<open>After the zeros the next chunk starts at the next aligned address.\<close>

lemma sdes_pad_pos:
  assumes "(addr + rptr) mod 4 = (0::nat)"
  shows "(addr + (rptr + l) + 4) div 4 * 4 - addr = rptr + l + (4 - l mod 4)"
proof -
  obtain k where k: "addr + rptr = 4 * k" using assms by (metis mod_0_imp_dvd dvdE)
  have "addr + (rptr + l) + 4 = 4 * (k + 1) + l" using k by simp
  then have "(addr + (rptr + l) + 4) div 4 = k + 1 + l div 4" by (simp only: div_mult_self4)
  moreover have "l div 4 * 4 + l mod 4 = l" "l mod 4 < 4" by simp_all
  ultimately show ?thesis using k by linarith
qed

lemma sdes_end_step:
  assumes "drop q b = 0 # ys" and "q < e" and "e \<le> length b" and "nc + 1 < rc \<longrightarrow> q + 2 \<le> e"
  shows "sdes_loop addr b rc e q False nc ss =
    (if nc + 1 < rc then sdes_loop addr b rc e ((addr + q + 4) div 4 * 4 - addr) True (nc + 1) ss
     else Some [])"
proof -
  have "b ! q = 0" using drop_Cons_nth [OF assms(1)] by simp
  then show ?thesis
    using assms(2-4) by (subst sdes_loop.simps) (auto simp: rd8_def)
qed

lemma drop_append_next: "drop p b = xs @ ys \<Longrightarrow> drop (p + length xs) b = ys"
  by (metis add.commute append_eq_conv_conj drop_drop)

lemma rd32_drop: "drop p b = enc32 w @ ys \<Longrightarrow> rd32 b p = Some w"
proof -
  assume d: "drop p b = enc32 w @ ys"
  then have "p < length b" by (metis append_is_Nil_conv drop_eq_Nil length_enc(2) list.size(3) not_le
        zero_neq_numeral)
  with d rd32_at [of "take p b" p w ys] show ?thesis by (metis append_take_drop_id length_take min.absorb4)
qed

lemma enc_chunks_length: "cs \<noteq> [] \<Longrightarrow> 4 \<le> length (enc_chunks cs)"
  by (cases cs) (auto simp: enc_chunks_def enc_chunk_def Let_def)

lemma sdes_pad_aligned:
  assumes "(addr + rptr) mod 4 = 0" and "q = rptr + 4 + n" and "pad = 4 - n mod 4"
  shows "(addr + q + 4) div 4 * 4 - addr = q + pad" "(addr + (q + pad)) mod (4 :: nat) = 0"
proof -
  have "(addr + (rptr + 4)) mod 4 = 0" using assms(1) by presburger
  then show nxt: "(addr + q + 4) div 4 * 4 - addr = q + pad"
    using sdes_pad_pos [of addr "rptr + 4" n] assms(2,3) by simp
  define k where "k = (addr + q + 4) div 4 * 4"
  have "addr \<le> k" unfolding k_def by presburger
  then have "addr + (q + pad) = k" using nxt unfolding k_def [symmetric] by linarith
  then show "(addr + (q + pad)) mod 4 = 0" by (simp add: k_def)
qed

lemma sdes_chunks_ok:
  assumes "drop rptr b = enc_chunks cs @ ys" and "cs \<noteq> []"
    and "\<forall>c \<in> set cs. \<forall>it \<in> set (snd c). item_ok it"
    and "rptr + length (enc_chunks cs) \<le> e" and "e \<le> length b"
    and "(addr + rptr) mod 4 = 0" and "n + length cs = rc"
  shows "\<exists>calls. sdes_loop addr b rc e rptr True n ss = Some calls \<and>
    map (call_content b) calls = chunks_items cs"
  using assms
proof (induction cs arbitrary: rptr n ss)
  case (Cons c cs)
  obtain ssrc its where c: "c = (ssrc, its)" by fastforce
  define I where "I = concat (map enc_item its)"
  define pad where "pad = 4 - length I mod 4"
  let ?q = "rptr + 4 + length I"
  have pad: "0 < pad" by (simp add: pad_def)
  have d: "drop rptr b = enc32 ssrc @ I @ replicate pad 0 @ enc_chunks cs @ ys"
    using Cons.prems(1) by (simp add: c enc_chunks_def enc_chunk_def I_def pad_def Let_def)
  have len: "?q + pad + length (enc_chunks cs) \<le> e"
    using Cons.prems(4) by (simp add: c enc_chunks_def enc_chunk_def I_def pad_def Let_def)
  have d4: "drop (rptr + 4) b = I @ replicate pad 0 @ enc_chunks cs @ ys"
    using drop_append_next [OF d] by simp
  have dq: "drop ?q b = replicate pad 0 @ enc_chunks cs @ ys"
    using drop_append_next [OF d4] by simp
  then have dq0: "drop ?q b = 0 # replicate (pad - 1) 0 @ enc_chunks cs @ ys"
    using pad by (cases pad) simp_all
  have dn: "drop (?q + pad) b = enc_chunks cs @ ys"
    using drop_append_next [OF dq] by simp
  note nxt = sdes_pad_aligned(1) [OF Cons.prems(6) refl pad_def] and al' = sdes_pad_aligned(2) [OF Cons.prems(6) refl pad_def]
  have "\<exists>calls. sdes_loop addr b rc e ?q False n ssrc = Some calls \<and>
      map (call_content b) calls = chunks_items cs"
  proof (cases "cs = []")
    case True
    then have "\<not> n + 1 < rc" using Cons.prems(7) by simp
    then show ?thesis
      using sdes_end_step [OF dq0, of e n rc addr ssrc] len pad Cons.prems(5) True
      by (simp add: chunks_items_def)
  next
    case False
    then have "n + 1 < rc" "?q + 2 \<le> e"
      using Cons.prems(7) enc_chunks_length [OF False] len by (cases cs, simp_all)
    then have "sdes_loop addr b rc e ?q False n ssrc =
        sdes_loop addr b rc e (?q + pad) True (n + 1) ssrc"
      using sdes_end_step [OF dq0, of e n rc addr ssrc] Cons.prems(5) nxt by simp
    moreover have "\<forall>c \<in> set cs. \<forall>it \<in> set (snd c). item_ok it" "n + 1 + length cs = rc"
      using Cons.prems(3,7) by auto
    ultimately show ?thesis
      using Cons.IH [OF dn False _ len Cons.prems(5) al', of "n + 1" ssrc] by auto
  qed
  then obtain calls where calls: "sdes_loop addr b rc e ?q False n ssrc = Some calls"
      "map (call_content b) calls = chunks_items cs" by blast
  have "rptr + 4 + length I \<le> e" using len by simp
  moreover have "\<forall>it \<in> set its. item_ok it" using Cons.prems(3) c by auto
  ultimately obtain calls' where "sdes_loop addr b rc e (rptr + 4) False n ssrc = Some calls'"
      "map (call_content b) calls' = map (\<lambda>(ty, c). (ssrc, ty, c)) its @ chunks_items cs"
    using sdes_items_step [OF d4 [unfolded I_def] _ _ Cons.prems(5), folded I_def, OF _ _ calls(1)]
      calls(2) by metis
  moreover have "sdes_loop addr b rc e rptr True n ss = sdes_loop addr b rc e (rptr + 4) False n ssrc"
    using len rd32_drop [OF d] by (subst sdes_loop.simps) simp
  ultimately show ?case by (simp add: c chunks_items_def)
qed simp

text \<open>A source description in the layout of RFC 3550 is read back exactly: for a packet at an
  aligned address whose header announces its chunks and its length, with items of a non-zero
  type and at most 255 bytes, \<open>rtcp_sdes_parse\<close> calls the callback once for every item, in
  order, with the SSRC of its chunk and its content, whatever follows in the compound.\<close>

theorem rtcp_sdes_roundtrip:
  assumes "chain s (Some m) [m]" and "mblks s m = Some mb" and "b_datap mb = Some d"
    and "dblks s d = Some x" and "(base_addr d + b_rptr mb) mod 4 = 0"
    and "msg_bytes s [m] = Some (h # 202 # enc16 l @ enc_chunks cs @ ys)"
    and "cs \<noteq> []" and "\<forall>c \<in> set cs. \<forall>it \<in> set (snd c). item_ok it"
    and "unat (h AND 31) = length cs" and "4 * unat l = length (enc_chunks cs)"
  shows "\<exists>calls. rtcp_sdes_parse base_addr s m = Some calls \<and>
    map (call_content (db_buf x)) calls = chunks_items cs"
proof -
  define bs where "bs = h # 202 # enc16 l @ enc_chunks cs @ ys"
  obtain b r w where sg: "single s m b r w" and bs: "bs = take (w - r) (drop r b)"
    using single_of_msg [OF assms(1,6)] bs_def by metis
  note c = single_content [OF sg bs]
  have mb: "b = db_buf x" "b_rptr mb = r" "b_wptr mb = w" and w: "r \<le> w" "w \<le> length b"
    using sg assms(2-4) by (auto simp: single_def view_def)
  have len: "w - r = 4 + length (enc_chunks cs) + length ys"
    using c(1) by (simp add: bs_def)
  have hd: "rtcp_common_header_get_length s m = Some (unat l)"
      "rtcp_common_header_get_rc s m = Some (length cs)"
    using c(2) [of 0] c(3) [of 2] len c(1) assms(9) rd16_at [of "[h, 202]" 2 l "enc_chunks cs @ ys"]
    by (simp_all add: rtcp_common_header_get_length_def rtcp_common_header_get_rc_def bs_def)
  define e where "e = (if r + 4 + 4 * (unat l + 1) > w then w else r + 4 + 4 * (unat l + 1))"
  have e: "e \<le> length b" "r + 4 + length (enc_chunks cs) \<le> e"
    using w len assms(10) by (auto simp: e_def)
  have "drop r b = bs @ drop w b"
    using bs w by (metis append_take_drop_id drop_drop le_add_diff_inverse2)
  then have "drop r b = (h # 202 # enc16 l) @ enc_chunks cs @ ys @ drop w b"
    by (simp add: bs_def)
  from drop_append_next [OF this] have d4: "drop (r + 4) b = enc_chunks cs @ ys @ drop w b"
    by simp
  have al: "(base_addr d + (r + 4)) mod 4 = 0"
    using assms(5) mb(2) by (simp add: add.assoc [symmetric] mod_add_self2)
  have "rtcp_sdes_parse base_addr s m = sdes_loop (base_addr d) b (length cs) e (r + 4) True 0 0"
    using assms(2-4) hd mb by (simp add: rtcp_sdes_parse_def e_def)
  then show ?thesis
    using sdes_chunks_ok [OF d4 assms(7,8) e(2,1) al, of 0 "length cs" 0] mb(1) by simp
qed

definition ex_sdes_chunks :: sdes_chunks where
  "ex_sdes_chunks = [(7, [(1, [97, 98, 99]), (2, [])]), (9, [(1, [100])])]"

definition ex_sdes :: bytes where
  "ex_sdes = 0x82 # 202 # enc16 5 @ enc_chunks ex_sdes_chunks @ [0x80, 201, 0, 1]"

lemma ex_sdes_len: "length (enc_chunks ex_sdes_chunks) = 20"
  by (simp add: ex_sdes_chunks_def enc_chunks_def enc_chunk_def enc_item_def enc32_def)

theorem rtcp_sdes_roundtrip_witness:
  "\<exists>calls. rtcp_sdes_parse (\<lambda>_. 1000) (one_block ex_sdes) 0 = Some calls \<and>
     map (call_content ex_sdes) calls = [(7, 1, [97, 98, 99]), (7, 2, []), (9, 1, [100])]"
proof -
  have items: "chunks_items ex_sdes_chunks = [(7, 1, [97, 98, 99]), (7, 2, []), (9, 1, [100])]"
    by (simp add: chunks_items_def ex_sdes_chunks_def)
  let ?m = "mblk_zero\<lparr>b_datap := Some 1, b_wptr := length ex_sdes\<rparr>"
  let ?d = "\<lparr>db_buf = ex_sdes, db_freefn = FreeNone, db_ref = 1\<rparr>"
  have "\<exists>calls. rtcp_sdes_parse (\<lambda>_. 1000) (one_block ex_sdes) 0 = Some calls \<and>
      map (call_content (db_buf ?d)) calls = chunks_items ex_sdes_chunks"
  proof (rule rtcp_sdes_roundtrip [where mb = ?m and d = 1 and l = 5 and h = "0x82"])
    show "msg_bytes (one_block ex_sdes) [0] =
        Some (0x82 # 202 # enc16 5 @ enc_chunks ex_sdes_chunks @ [0x80, 201, 0, 1])"
      unfolding one_block_facts(3) by (simp add: ex_sdes_def)
    show "\<forall>c \<in> set ex_sdes_chunks. \<forall>it \<in> set (snd c). item_ok it"
      by (simp add: ex_sdes_chunks_def item_ok_def)
    show "4 * unat (5 :: u16) = length (enc_chunks ex_sdes_chunks)"
      by (simp add: ex_sdes_len)
  qed (simp_all add: one_block_def mblk_zero_def ex_sdes_chunks_def)
  then show ?thesis by (simp add: items)
qed

lemma ex_sdes_is: "rtcp_is_SDES (one_block ex_sdes) 0 = Some True"
proof -
  have "length ex_sdes = 28" using ex_sdes_len by (simp add: ex_sdes_def enc16_def)
  moreover have "ex_sdes ! 1 = 202" by (simp add: ex_sdes_def)
  ultimately show ?thesis
    using single_fld(1) [OF one_block_facts(4) [of ex_sdes], of 1] rtcp_len_le [of ex_sdes]
    by (simp add: rtcp_is_SDES_def has_type_def rtcp_simps [OF one_block_facts(4)]
        rtcp_common_header_get_packet_type_def)
qed

theorem rtcp_sdes_parse_safe_witness:
  "\<exists>calls. rtcp_sdes_parse (\<lambda>_. 1001) (one_block ex_sdes) 0 = Some calls \<and>
    (\<forall>(ssrc, ty, p, len) \<in> set calls. in_packet (one_block ex_sdes) 0 p len)"
  using rtcp_sdes_parse_safe [OF one_block_facts(2,3) ex_sdes_is, of "\<lambda>_. 1001"] by fastforce

section \<open>Report blocks\<close>

lemma high_byte_mask: "(0xFF000000 :: u32) = push_bit 24 (mask 8)"
  by (simp add: mask_eq_exp_minus_1 push_bit_eq_mult)

lemma low_bytes_mask: "(0xFFFFFF :: u32) = mask 24" "(0x7FFFFF :: u32) = mask 23"
  by (simp_all add: mask_eq_exp_minus_1)

lemma low_byte_mask: "(0xFF :: u32) = mask 8"
  by (simp add: mask_eq_exp_minus_1)

lemma cum_lost_take:
  fixes v y :: u32
  assumes "take_bit 24 y = y"
  shows "take_bit 24 ((v AND 0xFF000000) OR y) = y"
    and "bit ((v AND 0xFF000000) OR y) 23 = bit y 23"
    and "drop_bit 24 ((v AND 0xFF000000) OR y) = drop_bit 24 v"
proof -
  have nb: "\<not> bit y n" if "24 \<le> n" for n
    using that assms by (metis bit_take_bit_iff not_le)
  show "take_bit 24 ((v AND 0xFF000000) OR y) = y"
    unfolding high_byte_mask by (rule bit_word_eqI) (use nb in \<open>auto simp: bit_simps\<close>)
  show "bit ((v AND 0xFF000000) OR y) 23 = bit y 23"
    unfolding high_byte_mask by (auto simp: bit_simps)
  show "drop_bit 24 ((v AND 0xFF000000) OR y) = drop_bit 24 v"
    unfolding high_byte_mask
    by (rule bit_word_eqI) (use nb in \<open>auto simp: bit_simps dest: bit_imp_le_length\<close>)
qed

lemma and_one_bit: "(drop_bit n (v :: u32) AND 1 = 0) \<longleftrightarrow> \<not> bit v n"
  by (simp add: and_one_eq bit_iff_odd_drop_bit odd_iff_mod_2_eq_one even_iff_mod_2_eq_zero)

text \<open>Decoding of the 24-bit two's complement field, and the field that the setter writes.\<close>

definition cpl_field :: "int \<Rightarrow> u32" where
  "cpl_field cpl = (if cpl \<ge> 0 then cpl_clamp cpl AND 0x7FFFFF else cpl_clamp cpl OR 0x800000)"

definition cpl_value :: "int \<Rightarrow> int" where
  "cpl_value cpl = max (- 0x800000) (min cpl 0x7FFFFF)"

lemma sint_word_of_int_small: "- 2147483648 \<le> k \<Longrightarrow> k < 2147483648 \<Longrightarrow> sint (word_of_int k :: u32) = k"
  by (simp add: sint_sbintrunc' signed_take_bit_int_eq_self)

lemma cpl_field_eq:
  "cpl_field cpl = word_of_int (if cpl \<ge> 0 then cpl_value cpl else 2 ^ 24 + cpl_value cpl)"
proof (cases "cpl \<ge> 0")
  case True
  define k where "k = cpl_value cpl"
  have k: "0 \<le> k" "k < 2 ^ 23" using True by (auto simp: k_def cpl_value_def)
  have "cpl_clamp cpl = word_of_int (2 ^ 24 + k)"
    using True by (simp add: cpl_clamp_def k_def cpl_value_def min_def max_def)
  then have "cpl_clamp cpl AND 0x7FFFFF = word_of_int (take_bit 23 (2 ^ 24 + k))"
    unfolding low_bytes_mask take_bit_eq_mask [symmetric] by (simp only: take_bit_of_int)
  moreover have "take_bit 23 (2 ^ 24 + k) = k"
  proof -
    have "(2 ^ 24 + k) mod 2 ^ 23 = (k + 2 * 2 ^ 23) mod (2 ^ 23 :: int)" by (simp add: add.commute)
    also have "\<dots> = k" using k by (simp only: mod_mult_self1 mod_pos_pos_trivial)
    finally show ?thesis by (simp add: take_bit_eq_mod)
  qed
  ultimately show ?thesis using True by (simp add: cpl_field_def k_def)
next
  case False
  define k where "k = 2 ^ 24 + cpl_value cpl"
  have k: "2 ^ 23 \<le> k" "k < 2 ^ 24" using False by (auto simp: k_def cpl_value_def)
  have cl: "cpl_clamp cpl = word_of_int k"
    using False by (simp add: cpl_clamp_def k_def cpl_value_def min_def max_def)
  have "k OR push_bit 23 1 = k"
  proof -
    have "bit k 23"
    proof -
      have "k div 2 ^ 23 = 1" using k by (simp add: div_pos_geq div_pos_pos_trivial)
      then show ?thesis by (simp add: bit_iff_odd)
    qed
    moreover have "n = 23" if "bit (push_bit 23 1 :: int) n" for n
      using that unfolding bit_push_bit_iff_int bit_1_iff by linarith
    ultimately show ?thesis
      by (intro bit_eqI) (metis bit_or_iff)
  qed
  then have "word_of_int k OR 0x800000 = (word_of_int k :: u32)"
    using of_int_or_eq [of k "push_bit 23 1", where 'a = u32] by (simp add: push_bit_eq_mult)
  then show ?thesis using False cl by (simp add: cpl_field_def k_def)
qed

lemma cpl_field_range: "take_bit 24 (cpl_field cpl) = cpl_field cpl"
proof -
  define k where "k = (if cpl \<ge> 0 then cpl_value cpl else 2 ^ 24 + cpl_value cpl)"
  have "0 \<le> k" "k < 2 ^ 24" by (auto simp: k_def cpl_value_def)
  then have "take_bit 24 k = k" by (simp add: take_bit_int_eq_self)
  then show ?thesis
    unfolding cpl_field_eq k_def [symmetric] by (simp only: take_bit_of_int)
qed

lemma cpl_field_sign: "bit (cpl_field cpl) 23 \<longleftrightarrow> cpl < 0"
proof -
  define k where "k = (if cpl \<ge> 0 then cpl_value cpl else 2 ^ 24 + cpl_value cpl)"
  have "k div 2 ^ 23 = (if cpl \<ge> 0 then 0 else 1)"
    by (auto simp: k_def cpl_value_def div_pos_geq div_pos_pos_trivial)
  then have "bit k 23 \<longleftrightarrow> cpl < 0" by (auto simp: bit_iff_odd)
  then show ?thesis
    unfolding cpl_field_eq k_def [symmetric] by (simp add: bit_word_of_int_iff)
qed

lemma take_bit_24_minus: "take_bit 24 (f - 0xFFFFFF - 1) = take_bit 24 (f :: u32)"
proof -
  have "take_bit 24 (uint f - 2 ^ 24) = take_bit 24 (uint f)"
    by (simp only: take_bit_eq_mod minus_mod_self2)
  then have "take_bit 24 (word_of_int (uint f - 2 ^ 24) :: u32) = take_bit 24 (word_of_int (uint f))"
    by (simp only: take_bit_of_int)
  then show ?thesis by simp
qed

lemma decode_cpl_field:
  "(if drop_bit 23 f AND 1 = 0 then sint (0x00FFFFFF AND f) else sint (0xFF000000 OR (f - 0xFFFFFF - 1)))
     = cpl_value cpl" if f: "f = (v AND 0xFF000000) OR cpl_field cpl" for f :: u32
proof -
  note tk = cum_lost_take [OF cpl_field_range, of v cpl, folded f]
  have sgn: "drop_bit 23 f AND 1 = 0 \<longleftrightarrow> 0 \<le> cpl"
    using tk(2) cpl_field_sign [of cpl] by (auto simp: and_one_bit)
  have low: "0x00FFFFFF AND f = cpl_field cpl"
    using tk(1) by (simp add: low_bytes_mask take_bit_eq_mask and.commute)
  show ?thesis
  proof (cases "0 \<le> cpl")
    case True
    then have "sint (cpl_field cpl) = cpl_value cpl"
      unfolding cpl_field_eq by (simp add: sint_word_of_int_small cpl_value_def)
    then show ?thesis using True sgn low by simp
  next
    case False
    have "take_bit 24 (f - 0xFFFFFF - 1) = take_bit 24 f"
      by (rule take_bit_24_minus)
    then have lowf: "take_bit 24 (f - 0xFFFFFF - 1) = cpl_field cpl" using tk(1) by simp
    have "0xFF000000 OR (f - 0xFFFFFF - 1) = 0xFF000000 OR take_bit 24 (f - 0xFFFFFF - 1)"
      unfolding high_byte_mask by (rule bit_word_eqI) (auto simp: bit_simps)
    also have "\<dots> = 0xFF000000 + cpl_field cpl"
      unfolding lowf
    proof (rule disjunctive_add [symmetric])
      fix n show "\<not> bit (0xFF000000 :: u32) n \<or> \<not> bit (cpl_field cpl) n"
        using cpl_field_range [of cpl] unfolding high_byte_mask
        by (metis bit_push_bit_iff bit_take_bit_iff not_le)
    qed
    also have "\<dots> = word_of_int (cpl_value cpl)"
      using False unfolding cpl_field_eq by simp
    finally show ?thesis
      using False sgn by (simp add: sint_word_of_int_small cpl_value_def)
  qed
qed

text \<open>The loss fields of a report block are independent and survive the trip: writing the
  cumulative loss and reading it gives the value clamped to 24 signed bits, and leaves the
  fraction lost; writing the fraction lost and reading it gives its low eight bits, and leaves
  the cumulative loss.\<close>

theorem report_block_loss_roundtrip:
  assumes "rb + 24 \<le> length b"
  shows "\<exists>b1 b2. report_block_set_cum_packet_lost b rb cpl = Some b1 \<and>
    report_block_get_cum_packet_lost b1 rb = Some (max (- 0x800000) (min cpl 0x7FFFFF)) \<and>
    report_block_get_fraction_lost b1 rb = report_block_get_fraction_lost b rb \<and>
    report_block_set_fraction_lost b1 rb fl = Some b2 \<and>
    report_block_get_fraction_lost b2 rb = Some (word_of_int fl AND 0xFF) \<and>
    report_block_get_cum_packet_lost b2 rb = report_block_get_cum_packet_lost b1 rb"
proof -
  obtain v where v: "rd32 b (rb + 4) = Some v" using assms by simp
  define f where "f = (v AND 0xFF000000) OR cpl_field cpl"
  obtain b1 where b1: "wr_block b (rb + 4) (enc32 f) = Some b1" "length b1 = length b"
    using wr_block_defined [of "rb + 4" "enc32 f" b] wr_block_length assms by fastforce
  define g where "g = (f AND 0xFFFFFF) OR push_bit 24 (word_of_int fl AND 0xFF)"
  obtain b2 where b2: "wr_block b1 (rb + 4) (enc32 g) = Some b2"
    using wr_block_defined [of "rb + 4" "enc32 g" b1] b1(2) assms by auto
  have rd: "rd32 b1 (rb + 4) = Some f" "rd32 b2 (rb + 4) = Some g"
    using f32.rd_after_write [OF b1(1)] f32.rd_after_write [OF b2] by simp_all
  have gb: "bit g n = (if n < 24 then bit f n else n < 32 \<and> bit fl (n - 24))" for n
    unfolding g_def low_bytes_mask low_byte_mask
    by (cases "n < 24") (auto simp add: bit_simps)
  have "drop_bit 24 g = word_of_int fl AND 0xFF"
    unfolding low_byte_mask by (rule bit_word_eqI) (auto simp: bit_simps gb)
  moreover have "drop_bit 24 f = drop_bit 24 v"
    unfolding f_def by (rule cum_lost_take(3) [OF cpl_field_range])
  moreover have "g = (g AND 0xFF000000) OR cpl_field cpl"
  proof -
    have "take_bit 24 g = cpl_field cpl"
      using cum_lost_take(1) [OF cpl_field_range, of v cpl]
      unfolding f_def [symmetric] by (metis (no_types, lifting) bit_eqI bit_take_bit_iff gb)
    moreover have "g = (g AND 0xFF000000) OR take_bit 24 g"
      unfolding high_byte_mask by (rule bit_word_eqI) (auto simp: bit_simps)
    ultimately show ?thesis by simp
  qed
  ultimately have dec: "report_block_get_cum_packet_lost b1 rb = Some (cpl_value cpl)"
      "report_block_get_cum_packet_lost b2 rb = Some (cpl_value cpl)"
      "report_block_get_fraction_lost b1 rb = Some (drop_bit 24 v)"
      "report_block_get_fraction_lost b2 rb = Some (word_of_int fl AND 0xFF)"
    using rd decode_cpl_field [OF f_def] decode_cpl_field [of g g cpl]
    unfolding report_block_get_cum_packet_lost_def report_block_get_fraction_lost_def
    by (simp_all only: bind.bind_lunit)
  have "report_block_set_cum_packet_lost b rb cpl = Some b1"
    "report_block_set_fraction_lost b1 rb fl = Some b2"
    using v b1(1) b2 rd
    unfolding report_block_set_cum_packet_lost_def report_block_set_fraction_lost_def
      cpl_field_def [symmetric] f_def [symmetric] g_def [symmetric]
    by (simp_all only: bind.bind_lunit f_def [symmetric] g_def [symmetric])
  with dec v show ?thesis
    by (simp add: report_block_get_fraction_lost_def cpl_value_def)
qed

theorem report_block_loss_roundtrip_witness:
  "\<exists>b1. report_block_set_cum_packet_lost (replicate 24 0xAB) 0 (- 5) = Some b1 \<and>
     report_block_get_cum_packet_lost b1 0 = Some (- 5) \<and>
     report_block_get_fraction_lost b1 0 = Some 0xAB"
proof -
  have "report_block_get_fraction_lost (replicate 24 0xAB) 0 = Some 0xAB"
    by (simp add: report_block_get_fraction_lost_def numeral_eq_Suc) (simp add: be32_def)
  then show ?thesis
    using report_block_loss_roundtrip [of 0 "replicate 24 0xAB" "- 5" 0] by auto
qed

section \<open>Tests that are too weak\<close>

text \<open>An extended report of 12 bytes, TMMBR and RPSI feedback of 12 bytes, and a TMMBR and a REMB
  request that announce a bit rate.\<close>

definition ex_xr :: bytes where
  "ex_xr = [0x80, 207, 0, 2, 0, 0, 0, 1, 7, 0, 0, 8]"

definition ex_fb :: "u8 \<Rightarrow> u8 \<Rightarrow> bytes \<Rightarrow> bytes" where
  "ex_fb fmt pt fci = [fmt, pt, 0, 2 + of_nat (length fci div 4), 0, 0, 0, 1, 0, 0, 0, 2] @ fci"

lemma one_block_view: "view (one_block bs) 0 = Some (bs, 0, length bs)"
  by (simp add: view_def one_block_def mblk_zero_def)

lemmas rtcp_eval = has_type_def rtcp_simps [OF one_block_facts(4)] fld8_def fld16_def fld32_def
  one_block_view rtcp_common_header_get_packet_type_def rtcp_len_def unat_be16 get_fci_def rd8_def
  rd32_eq_None rd16_eq_None

text \<open>Four of the accessors trust a test that only asks for twelve bytes: \<open>rtcp_is_XR\<close> accepts a
  packet in which every field of the block it announces lies outside the buffer, and
  \<open>rtcp_is_RTPFB\<close> and \<open>rtcp_is_PSFB\<close> accept packets for which
  \<open>rtcp_RTPFB_tmmbr_get_max_bitrate\<close> goes through a NULL pointer and
  \<open>rtcp_PSFB_rpsi_get_fci_bit_string_len\<close> reads outside. With a complete FCI the bit rate
  computations still shift by an exponent of up to 63 (undefined from 31 on) and multiply 32-bit
  numbers: a REMB of 2 to the 17 times 2 to the 15 bits per second is read as zero.\<close>

theorem rtcp_weak_guards:
  "rtcp_is_XR (one_block ex_xr) 0 = Some True \<and>
   rtcp_XR_get_block_type (one_block ex_xr) 0 = Some 7 \<and>
   rtcp_XR_voip_metrics_get_ssrc (one_block ex_xr) 0 = None \<and>
   rtcp_is_RTPFB (one_block (ex_fb 0x83 205 [])) 0 = Some True \<and>
   rtcp_RTPFB_tmmbr_get_max_bitrate (one_block (ex_fb 0x83 205 [])) 0 = None \<and>
   rtcp_is_PSFB (one_block (ex_fb 0x83 206 [])) 0 = Some True \<and>
   rtcp_PSFB_rpsi_get_fci_bit_string_len (one_block (ex_fb 0x83 206 [])) 0 = None \<and>
   rtcp_RTPFB_tmmbr_get_max_bitrate
     (one_block (ex_fb 0x83 205 [0, 0, 0, 3, 0xFC, 0, 2, 0])) 0 = None \<and>
   rtcp_PSFB_goog_remb_get_max_bitrate
     (one_block (ex_fb 0x8F 206 [0x52, 0x45, 0x4d, 0x42, 1, 0x3E, 0, 0])) 0 = Some 0"
proof -
  have "be32 0xFC 0 2 0 = 0xFC000200" "be32 1 0x3E 0 0 = 0x013E0000"
    by (simp_all add: be32_def)
  then show ?thesis
    by (simp add: ex_xr_def ex_fb_def rtcp_eval rtcp_is_XR_def rtcp_is_RTPFB_def rtcp_is_PSFB_def
        rtcp_XR_get_block_type_def rtcp_XR_voip_metrics_get_ssrc_def
        rtcp_RTPFB_tmmbr_get_max_bitrate_def rtcp_RTPFB_tmmbr_get_fci_def
        rtcp_PSFB_rpsi_get_fci_bit_string_len_def rtcp_PSFB_rpsi_get_fci_def
        rtcp_fb_tmmbr_fci_get_mxtbr_exp_def rtcp_fb_tmmbr_fci_get_mxtbr_mantissa_def
        rtcp_PSFB_goog_remb_get_max_bitrate_def rtcp_PSFB_goog_remb_get_fci_def mantissa_shift_def)
qed

end
