(* ===== verification/Bzrtp_Crypto.thy ===== *)
theory Bzrtp_Crypto
  imports C_Prelude
begin

text \<open>
  The tables of \<open>bzrtp/src/cryptoUtils.cc\<close> that the packet code relies on: the codes of the
  algorithms with their names in messages, the lengths of public values, the algorithms that
  are added to a received list, and the CRC of a packet.

  Algorithm codes (\<open>bzrtp.h\<close>) are bytes. The sizes of the keys and cipher texts of the
  post-quantum library are the parameters \<open>pk\<close> and \<open>ct\<close>, which stand for
  \<open>bzrtp_getKEMPublicKeyLength\<close> and \<open>bzrtp_getKEMCipherTextLength\<close>.
\<close>

section \<open>Algorithm codes\<close>

abbreviation asc :: "string \<Rightarrow> bytes" where
  "asc s \<equiv> map of_char s"

abbreviation (input) ZRTP_UNSET_ALGO :: u8 where "ZRTP_UNSET_ALGO \<equiv> 0"
abbreviation (input) ZRTP_HASH_S256 :: u8 where "ZRTP_HASH_S256 \<equiv> 0x11"
abbreviation (input) ZRTP_HASH_S384 :: u8 where "ZRTP_HASH_S384 \<equiv> 0x12"
abbreviation (input) ZRTP_HASH_S512 :: u8 where "ZRTP_HASH_S512 \<equiv> 0x13"
abbreviation (input) ZRTP_HASH_N256 :: u8 where "ZRTP_HASH_N256 \<equiv> 0x14"
abbreviation (input) ZRTP_HASH_N384 :: u8 where "ZRTP_HASH_N384 \<equiv> 0x15"
abbreviation (input) ZRTP_CIPHER_AES1 :: u8 where "ZRTP_CIPHER_AES1 \<equiv> 0x21"
abbreviation (input) ZRTP_CIPHER_AES2 :: u8 where "ZRTP_CIPHER_AES2 \<equiv> 0x22"
abbreviation (input) ZRTP_CIPHER_AES3 :: u8 where "ZRTP_CIPHER_AES3 \<equiv> 0x23"
abbreviation (input) ZRTP_CIPHER_2FS1 :: u8 where "ZRTP_CIPHER_2FS1 \<equiv> 0x24"
abbreviation (input) ZRTP_CIPHER_2FS2 :: u8 where "ZRTP_CIPHER_2FS2 \<equiv> 0x25"
abbreviation (input) ZRTP_CIPHER_2FS3 :: u8 where "ZRTP_CIPHER_2FS3 \<equiv> 0x26"
abbreviation (input) ZRTP_AUTHTAG_HS32 :: u8 where "ZRTP_AUTHTAG_HS32 \<equiv> 0x31"
abbreviation (input) ZRTP_AUTHTAG_HS80 :: u8 where "ZRTP_AUTHTAG_HS80 \<equiv> 0x32"
abbreviation (input) ZRTP_AUTHTAG_SK32 :: u8 where "ZRTP_AUTHTAG_SK32 \<equiv> 0x33"
abbreviation (input) ZRTP_AUTHTAG_SK64 :: u8 where "ZRTP_AUTHTAG_SK64 \<equiv> 0x34"
abbreviation (input) ZRTP_AUTHTAG_GCM :: u8 where "ZRTP_AUTHTAG_GCM \<equiv> 0x35"
abbreviation (input) ZRTP_KEYAGREEMENT_DH2k :: u8 where "ZRTP_KEYAGREEMENT_DH2k \<equiv> 0x41"
abbreviation (input) ZRTP_KEYAGREEMENT_X255 :: u8 where "ZRTP_KEYAGREEMENT_X255 \<equiv> 0x42"
abbreviation (input) ZRTP_KEYAGREEMENT_K255 :: u8 where "ZRTP_KEYAGREEMENT_K255 \<equiv> 0x43"
abbreviation (input) ZRTP_KEYAGREEMENT_EC25 :: u8 where "ZRTP_KEYAGREEMENT_EC25 \<equiv> 0x44"
abbreviation (input) ZRTP_KEYAGREEMENT_X448 :: u8 where "ZRTP_KEYAGREEMENT_X448 \<equiv> 0x45"
abbreviation (input) ZRTP_KEYAGREEMENT_K448 :: u8 where "ZRTP_KEYAGREEMENT_K448 \<equiv> 0x46"
abbreviation (input) ZRTP_KEYAGREEMENT_DH3k :: u8 where "ZRTP_KEYAGREEMENT_DH3k \<equiv> 0x47"
abbreviation (input) ZRTP_KEYAGREEMENT_EC38 :: u8 where "ZRTP_KEYAGREEMENT_EC38 \<equiv> 0x48"
abbreviation (input) ZRTP_KEYAGREEMENT_EC52 :: u8 where "ZRTP_KEYAGREEMENT_EC52 \<equiv> 0x49"
abbreviation (input) ZRTP_KEYAGREEMENT_KYB1 :: u8 where "ZRTP_KEYAGREEMENT_KYB1 \<equiv> 0x4a"
abbreviation (input) ZRTP_KEYAGREEMENT_KYB2 :: u8 where "ZRTP_KEYAGREEMENT_KYB2 \<equiv> 0x4b"
abbreviation (input) ZRTP_KEYAGREEMENT_KYB3 :: u8 where "ZRTP_KEYAGREEMENT_KYB3 \<equiv> 0x4c"
abbreviation (input) ZRTP_KEYAGREEMENT_HQC1 :: u8 where "ZRTP_KEYAGREEMENT_HQC1 \<equiv> 0x4d"
abbreviation (input) ZRTP_KEYAGREEMENT_HQC2 :: u8 where "ZRTP_KEYAGREEMENT_HQC2 \<equiv> 0x4e"
abbreviation (input) ZRTP_KEYAGREEMENT_HQC3 :: u8 where "ZRTP_KEYAGREEMENT_HQC3 \<equiv> 0x4f"
abbreviation (input) ZRTP_KEYAGREEMENT_K255_KYB512 :: u8 where "ZRTP_KEYAGREEMENT_K255_KYB512 \<equiv> 0x51"
abbreviation (input) ZRTP_KEYAGREEMENT_K255_HQC128 :: u8 where "ZRTP_KEYAGREEMENT_K255_HQC128 \<equiv> 0x52"
abbreviation (input) ZRTP_KEYAGREEMENT_K448_KYB1024 :: u8 where "ZRTP_KEYAGREEMENT_K448_KYB1024 \<equiv> 0x53"
abbreviation (input) ZRTP_KEYAGREEMENT_K448_HQC256 :: u8 where "ZRTP_KEYAGREEMENT_K448_HQC256 \<equiv> 0x54"
abbreviation (input) ZRTP_KEYAGREEMENT_K255_KYB512_HQC128 :: u8 where "ZRTP_KEYAGREEMENT_K255_KYB512_HQC128 \<equiv> 0x55"
abbreviation (input) ZRTP_KEYAGREEMENT_K448_KYB1024_HQC256 :: u8 where "ZRTP_KEYAGREEMENT_K448_KYB1024_HQC256 \<equiv> 0x56"
abbreviation (input) ZRTP_KEYAGREEMENT_MLK1 :: u8 where "ZRTP_KEYAGREEMENT_MLK1 \<equiv> 0x57"
abbreviation (input) ZRTP_KEYAGREEMENT_MLK2 :: u8 where "ZRTP_KEYAGREEMENT_MLK2 \<equiv> 0x58"
abbreviation (input) ZRTP_KEYAGREEMENT_MLK3 :: u8 where "ZRTP_KEYAGREEMENT_MLK3 \<equiv> 0x59"
abbreviation (input) ZRTP_KEYAGREEMENT_K255_MLK512 :: u8 where "ZRTP_KEYAGREEMENT_K255_MLK512 \<equiv> 0x5a"
abbreviation (input) ZRTP_KEYAGREEMENT_K448_MLK1024 :: u8 where "ZRTP_KEYAGREEMENT_K448_MLK1024 \<equiv> 0x5b"
abbreviation (input) ZRTP_KEYAGREEMENT_Prsh :: u8 where "ZRTP_KEYAGREEMENT_Prsh \<equiv> 0x9e"
abbreviation (input) ZRTP_KEYAGREEMENT_Mult :: u8 where "ZRTP_KEYAGREEMENT_Mult \<equiv> 0x9f"
abbreviation (input) ZRTP_SAS_B32 :: u8 where "ZRTP_SAS_B32 \<equiv> 0xa1"
abbreviation (input) ZRTP_SAS_B256 :: u8 where "ZRTP_SAS_B256 \<equiv> 0xa2"

datatype algo_family = ZRTP_HASH_TYPE | ZRTP_CIPHERBLOCK_TYPE | ZRTP_AUTHTAG_TYPE
  | ZRTP_KEYAGREEMENT_TYPE | ZRTP_SAS_TYPE

text \<open>The comparisons of \<open>bzrtp_cryptoAlgoTypeStringToInt\<close>, in their order.\<close>

primrec algo_names :: "algo_family \<Rightarrow> (bytes \<times> u8) list" where
  "algo_names ZRTP_HASH_TYPE = [
    (asc ''S256'', ZRTP_HASH_S256), (asc ''S384'', ZRTP_HASH_S384),
    (asc ''S512'', ZRTP_HASH_S512), (asc ''N256'', ZRTP_HASH_N256),
    (asc ''N384'', ZRTP_HASH_N384)]"
| "algo_names ZRTP_CIPHERBLOCK_TYPE = [
    (asc ''AES1'', ZRTP_CIPHER_AES1), (asc ''AES2'', ZRTP_CIPHER_AES2),
    (asc ''AES3'', ZRTP_CIPHER_AES3), (asc ''2FS1'', ZRTP_CIPHER_2FS1),
    (asc ''2FS2'', ZRTP_CIPHER_2FS2), (asc ''2FS3'', ZRTP_CIPHER_2FS3)]"
| "algo_names ZRTP_AUTHTAG_TYPE = [
    (asc ''HS32'', ZRTP_AUTHTAG_HS32), (asc ''HS80'', ZRTP_AUTHTAG_HS80),
    (asc ''SK32'', ZRTP_AUTHTAG_SK32), (asc ''SK64'', ZRTP_AUTHTAG_SK64),
    (asc ''GCM '', ZRTP_AUTHTAG_GCM)]"
| "algo_names ZRTP_KEYAGREEMENT_TYPE = [
    (asc ''DH3k'', ZRTP_KEYAGREEMENT_DH3k), (asc ''DH2k'', ZRTP_KEYAGREEMENT_DH2k),
    (asc ''X255'', ZRTP_KEYAGREEMENT_X255), (asc ''K255'', ZRTP_KEYAGREEMENT_K255),
    (asc ''EC25'', ZRTP_KEYAGREEMENT_EC25), (asc ''X448'', ZRTP_KEYAGREEMENT_X448),
    (asc ''K448'', ZRTP_KEYAGREEMENT_K448), (asc ''EC38'', ZRTP_KEYAGREEMENT_EC38),
    (asc ''EC52'', ZRTP_KEYAGREEMENT_EC52), (asc ''KYB1'', ZRTP_KEYAGREEMENT_KYB1),
    (asc ''KYB2'', ZRTP_KEYAGREEMENT_KYB2), (asc ''KYB3'', ZRTP_KEYAGREEMENT_KYB3),
    (asc ''MLK1'', ZRTP_KEYAGREEMENT_MLK1), (asc ''MLK2'', ZRTP_KEYAGREEMENT_MLK2),
    (asc ''MLK3'', ZRTP_KEYAGREEMENT_MLK3), (asc ''HQD1'', ZRTP_KEYAGREEMENT_HQC1),
    (asc ''HQD2'', ZRTP_KEYAGREEMENT_HQC2), (asc ''HQD3'', ZRTP_KEYAGREEMENT_HQC3),
    (asc ''X1K1'', ZRTP_KEYAGREEMENT_K255_KYB512),
    (asc ''X1M1'', ZRTP_KEYAGREEMENT_K255_MLK512),
    (asc ''X1H1'', ZRTP_KEYAGREEMENT_K255_HQC128),
    (asc ''X3M3'', ZRTP_KEYAGREEMENT_K448_MLK1024),
    (asc ''X3K3'', ZRTP_KEYAGREEMENT_K448_KYB1024),
    (asc ''X3H3'', ZRTP_KEYAGREEMENT_K448_HQC256),
    (asc ''XKR1'', ZRTP_KEYAGREEMENT_K255_KYB512_HQC128),
    (asc ''XKR3'', ZRTP_KEYAGREEMENT_K448_KYB1024_HQC256),
    (asc ''Prsh'', ZRTP_KEYAGREEMENT_Prsh), (asc ''Mult'', ZRTP_KEYAGREEMENT_Mult)]"
| "algo_names ZRTP_SAS_TYPE = [
    (asc ''B32 '', ZRTP_SAS_B32), (asc ''B256'', ZRTP_SAS_B256)]"

definition bzrtp_cryptoAlgoTypeStringToInt :: "bytes \<Rightarrow> algo_family \<Rightarrow> u8" where
  "bzrtp_cryptoAlgoTypeStringToInt algoType fam =
     (case map_of (algo_names fam) algoType of Some c \<Rightarrow> c | None \<Rightarrow> ZRTP_UNSET_ALGO)"

definition algo_strings :: "(u8 \<times> bytes) list" where
  "algo_strings = [
    (ZRTP_HASH_S256, asc ''S256''), (ZRTP_HASH_S384, asc ''S384''),
    (ZRTP_HASH_S512, asc ''S512''), (ZRTP_HASH_N256, asc ''N256''),
    (ZRTP_HASH_N384, asc ''N384''), (ZRTP_CIPHER_AES1, asc ''AES1''),
    (ZRTP_CIPHER_AES2, asc ''AES2''), (ZRTP_CIPHER_AES3, asc ''AES3''),
    (ZRTP_CIPHER_2FS1, asc ''2FS1''), (ZRTP_CIPHER_2FS2, asc ''2FS2''),
    (ZRTP_CIPHER_2FS3, asc ''2FS3''), (ZRTP_AUTHTAG_HS32, asc ''HS32''),
    (ZRTP_AUTHTAG_HS80, asc ''HS80''), (ZRTP_AUTHTAG_SK32, asc ''SK32''),
    (ZRTP_AUTHTAG_SK64, asc ''SK64''), (ZRTP_AUTHTAG_GCM, asc ''GCM ''),
    (ZRTP_KEYAGREEMENT_DH2k, asc ''DH2k''), (ZRTP_KEYAGREEMENT_X255, asc ''X255''),
    (ZRTP_KEYAGREEMENT_K255, asc ''K255''), (ZRTP_KEYAGREEMENT_EC25, asc ''EC25''),
    (ZRTP_KEYAGREEMENT_X448, asc ''X448''), (ZRTP_KEYAGREEMENT_K448, asc ''K448''),
    (ZRTP_KEYAGREEMENT_DH3k, asc ''DH3k''), (ZRTP_KEYAGREEMENT_EC38, asc ''EC38''),
    (ZRTP_KEYAGREEMENT_EC52, asc ''EC52''), (ZRTP_KEYAGREEMENT_KYB1, asc ''KYB1''),
    (ZRTP_KEYAGREEMENT_KYB2, asc ''KYB2''), (ZRTP_KEYAGREEMENT_KYB3, asc ''KYB3''),
    (ZRTP_KEYAGREEMENT_MLK1, asc ''MLK1''), (ZRTP_KEYAGREEMENT_MLK2, asc ''MLK2''),
    (ZRTP_KEYAGREEMENT_MLK3, asc ''MLK3''), (ZRTP_KEYAGREEMENT_HQC1, asc ''HQD1''),
    (ZRTP_KEYAGREEMENT_HQC2, asc ''HQD2''), (ZRTP_KEYAGREEMENT_HQC3, asc ''HQD3''),
    (ZRTP_KEYAGREEMENT_K255_MLK512, asc ''X1M1''),
    (ZRTP_KEYAGREEMENT_K255_KYB512, asc ''X1K1''),
    (ZRTP_KEYAGREEMENT_K255_HQC128, asc ''X1H1''),
    (ZRTP_KEYAGREEMENT_K448_MLK1024, asc ''X3M3''),
    (ZRTP_KEYAGREEMENT_K448_KYB1024, asc ''X3K3''),
    (ZRTP_KEYAGREEMENT_K448_HQC256, asc ''X3H3''),
    (ZRTP_KEYAGREEMENT_K255_KYB512_HQC128, asc ''XKR1''),
    (ZRTP_KEYAGREEMENT_K448_KYB1024_HQC256, asc ''XKR3''),
    (ZRTP_KEYAGREEMENT_Prsh, asc ''Prsh''), (ZRTP_KEYAGREEMENT_Mult, asc ''Mult''),
    (ZRTP_SAS_B32, asc ''B32 ''), (ZRTP_SAS_B256, asc ''B256'')]"

definition bzrtp_cryptoAlgoTypeIntToString :: "u8 \<Rightarrow> bytes" where
  "bzrtp_cryptoAlgoTypeIntToString c =
     (case map_of algo_strings c of Some s \<Rightarrow> s | None \<Rightarrow> asc ''NSET'')"

section \<open>Lengths that depend on the key agreement\<close>

definition bzrtp_isKem :: "u8 \<Rightarrow> bool" where
  "bzrtp_isKem a \<longleftrightarrow> a \<in> set [
    ZRTP_KEYAGREEMENT_MLK1, ZRTP_KEYAGREEMENT_MLK2, ZRTP_KEYAGREEMENT_MLK3,
    ZRTP_KEYAGREEMENT_KYB1, ZRTP_KEYAGREEMENT_KYB2, ZRTP_KEYAGREEMENT_KYB3,
    ZRTP_KEYAGREEMENT_HQC1, ZRTP_KEYAGREEMENT_HQC2, ZRTP_KEYAGREEMENT_HQC3,
    ZRTP_KEYAGREEMENT_K255, ZRTP_KEYAGREEMENT_K448, ZRTP_KEYAGREEMENT_K255_KYB512,
    ZRTP_KEYAGREEMENT_K255_MLK512, ZRTP_KEYAGREEMENT_K255_HQC128,
    ZRTP_KEYAGREEMENT_K448_KYB1024, ZRTP_KEYAGREEMENT_K448_MLK1024,
    ZRTP_KEYAGREEMENT_K448_HQC256, ZRTP_KEYAGREEMENT_K255_KYB512_HQC128,
    ZRTP_KEYAGREEMENT_K448_KYB1024_HQC256]"

definition round4 :: "nat \<Rightarrow> nat" where
  "round4 n = (if n mod 4 \<noteq> 0 then n + (4 - n mod 4) else n)"

text \<open>The last argument tells which of the three message types that carry a value is asked for.\<close>

datatype pv_message = PvCommit | PvDHPart1 | PvDHPart2

definition dh_length :: "u8 \<Rightarrow> nat option" where
  "dh_length a = map_of [(ZRTP_KEYAGREEMENT_DH3k, 384), (ZRTP_KEYAGREEMENT_DH2k, 256),
     (ZRTP_KEYAGREEMENT_X255, 32), (ZRTP_KEYAGREEMENT_X448, 56), (ZRTP_KEYAGREEMENT_EC25, 64),
     (ZRTP_KEYAGREEMENT_EC38, 96), (ZRTP_KEYAGREEMENT_EC52, 132)] a"

definition bzrtp_computeKeyAgreementPublicValueLength ::
    "(u8 \<Rightarrow> nat) \<Rightarrow> (u8 \<Rightarrow> nat) \<Rightarrow> u8 \<Rightarrow> pv_message \<Rightarrow> nat" where
  "bzrtp_computeKeyAgreementPublicValueLength pk ct a mt =
     (case dh_length a of
        Some n \<Rightarrow> n
      | None \<Rightarrow>
          (case mt of
             PvCommit \<Rightarrow> round4 (pk a)
           | PvDHPart1 \<Rightarrow> round4 (ct a)
           | PvDHPart2 \<Rightarrow> 16))"

definition bzrtp_computeCommitMessageVariableLength :: "(u8 \<Rightarrow> nat) \<Rightarrow> u8 \<Rightarrow> nat" where
  "bzrtp_computeCommitMessageVariableLength pk a =
     (if a = ZRTP_KEYAGREEMENT_Prsh then 24
      else if a = ZRTP_KEYAGREEMENT_Mult then 16
      else if bzrtp_isKem a then 32 + round4 (pk a)
      else if dh_length a \<noteq> None then 32
      else 0)"

section \<open>Mandatory algorithms\<close>

primrec bzrtpUtils_getMandatoryCryptoTypes :: "algo_family \<Rightarrow> u8 list" where
  "bzrtpUtils_getMandatoryCryptoTypes ZRTP_HASH_TYPE = [ZRTP_HASH_S256]"
| "bzrtpUtils_getMandatoryCryptoTypes ZRTP_CIPHERBLOCK_TYPE = [ZRTP_CIPHER_AES1]"
| "bzrtpUtils_getMandatoryCryptoTypes ZRTP_AUTHTAG_TYPE = [ZRTP_AUTHTAG_HS32, ZRTP_AUTHTAG_HS80]"
| "bzrtpUtils_getMandatoryCryptoTypes ZRTP_KEYAGREEMENT_TYPE =
     [ZRTP_KEYAGREEMENT_DH3k, ZRTP_KEYAGREEMENT_Mult]"
| "bzrtpUtils_getMandatoryCryptoTypes ZRTP_SAS_TYPE = [ZRTP_SAS_B32]"

text \<open>
  The loop that compacts the received list: \<open>out\<close> is the part already kept (its length is the
  index \<open>j\<close>), \<open>missing\<close> the mandatory algorithms not seen yet; the bit masks of the source are
  the sets of these lists.
\<close>

primrec keep_algos :: "u8 list \<Rightarrow> u8 list \<Rightarrow> u8 list \<Rightarrow> u8 list \<times> u8 list" where
  "keep_algos out missing [] = (out, missing)"
| "keep_algos out missing (a # as) =
     (if length out < 7 then
        (if (length out + length missing < 7 \<or> a \<in> set missing) \<and> a \<notin> set out
         then keep_algos (out @ [a]) (removeAll a missing) as
         else keep_algos out missing as)
      else (out, missing))"

definition bzrtp_addMandatoryCryptoTypesIfNeeded :: "algo_family \<Rightarrow> u8 list \<Rightarrow> u8 list" where
  "bzrtp_addMandatoryCryptoTypesIfNeeded fam algoTypes =
     (let (out, missing) = keep_algos [] (bzrtpUtils_getMandatoryCryptoTypes fam) algoTypes
      in out @ missing)"

section \<open>The CRC\<close>

definition CRC32LookupTable :: "u32 list" where
  "CRC32LookupTable = [
    0x00000000, 0xf26b8303, 0xe13b70f7, 0x1350f3f4, 0xc79a971f, 0x35f1141c, 0x26a1e7e8,
    0xd4ca64eb, 0x8ad958cf, 0x78b2dbcc, 0x6be22838, 0x9989ab3b, 0x4d43cfd0, 0xbf284cd3,
    0xac78bf27, 0x5e133c24, 0x105ec76f, 0xe235446c, 0xf165b798, 0x030e349b, 0xd7c45070,
    0x25afd373, 0x36ff2087, 0xc494a384, 0x9a879fa0, 0x68ec1ca3, 0x7bbcef57, 0x89d76c54,
    0x5d1d08bf, 0xaf768bbc, 0xbc267848, 0x4e4dfb4b, 0x20bd8ede, 0xd2d60ddd, 0xc186fe29,
    0x33ed7d2a, 0xe72719c1, 0x154c9ac2, 0x061c6936, 0xf477ea35, 0xaa64d611, 0x580f5512,
    0x4b5fa6e6, 0xb93425e5, 0x6dfe410e, 0x9f95c20d, 0x8cc531f9, 0x7eaeb2fa, 0x30e349b1,
    0xc288cab2, 0xd1d83946, 0x23b3ba45, 0xf779deae, 0x05125dad, 0x1642ae59, 0xe4292d5a,
    0xba3a117e, 0x4851927d, 0x5b016189, 0xa96ae28a, 0x7da08661, 0x8fcb0562, 0x9c9bf696,
    0x6ef07595, 0x417b1dbc, 0xb3109ebf, 0xa0406d4b, 0x522bee48, 0x86e18aa3, 0x748a09a0,
    0x67dafa54, 0x95b17957, 0xcba24573, 0x39c9c670, 0x2a993584, 0xd8f2b687, 0x0c38d26c,
    0xfe53516f, 0xed03a29b, 0x1f682198, 0x5125dad3, 0xa34e59d0, 0xb01eaa24, 0x42752927,
    0x96bf4dcc, 0x64d4cecf, 0x77843d3b, 0x85efbe38, 0xdbfc821c, 0x2997011f, 0x3ac7f2eb,
    0xc8ac71e8, 0x1c661503, 0xee0d9600, 0xfd5d65f4, 0x0f36e6f7, 0x61c69362, 0x93ad1061,
    0x80fde395, 0x72966096, 0xa65c047d, 0x5437877e, 0x4767748a, 0xb50cf789, 0xeb1fcbad,
    0x197448ae, 0x0a24bb5a, 0xf84f3859, 0x2c855cb2, 0xdeeedfb1, 0xcdbe2c45, 0x3fd5af46,
    0x7198540d, 0x83f3d70e, 0x90a324fa, 0x62c8a7f9, 0xb602c312, 0x44694011, 0x5739b3e5,
    0xa55230e6, 0xfb410cc2, 0x092a8fc1, 0x1a7a7c35, 0xe811ff36, 0x3cdb9bdd, 0xceb018de,
    0xdde0eb2a, 0x2f8b6829, 0x82f63b78, 0x709db87b, 0x63cd4b8f, 0x91a6c88c, 0x456cac67,
    0xb7072f64, 0xa457dc90, 0x563c5f93, 0x082f63b7, 0xfa44e0b4, 0xe9141340, 0x1b7f9043,
    0xcfb5f4a8, 0x3dde77ab, 0x2e8e845f, 0xdce5075c, 0x92a8fc17, 0x60c37f14, 0x73938ce0,
    0x81f80fe3, 0x55326b08, 0xa759e80b, 0xb4091bff, 0x466298fc, 0x1871a4d8, 0xea1a27db,
    0xf94ad42f, 0x0b21572c, 0xdfeb33c7, 0x2d80b0c4, 0x3ed04330, 0xccbbc033, 0xa24bb5a6,
    0x502036a5, 0x4370c551, 0xb11b4652, 0x65d122b9, 0x97baa1ba, 0x84ea524e, 0x7681d14d,
    0x2892ed69, 0xdaf96e6a, 0xc9a99d9e, 0x3bc21e9d, 0xef087a76, 0x1d63f975, 0x0e330a81,
    0xfc588982, 0xb21572c9, 0x407ef1ca, 0x532e023e, 0xa145813d, 0x758fe5d6, 0x87e466d5,
    0x94b49521, 0x66df1622, 0x38cc2a06, 0xcaa7a905, 0xd9f75af1, 0x2b9cd9f2, 0xff56bd19,
    0x0d3d3e1a, 0x1e6dcdee, 0xec064eed, 0xc38d26c4, 0x31e6a5c7, 0x22b65633, 0xd0ddd530,
    0x0417b1db, 0xf67c32d8, 0xe52cc12c, 0x1747422f, 0x49547e0b, 0xbb3ffd08, 0xa86f0efc,
    0x5a048dff, 0x8ecee914, 0x7ca56a17, 0x6ff599e3, 0x9d9e1ae0, 0xd3d3e1ab, 0x21b862a8,
    0x32e8915c, 0xc083125f, 0x144976b4, 0xe622f5b7, 0xf5720643, 0x07198540, 0x590ab964,
    0xab613a67, 0xb831c993, 0x4a5a4a90, 0x9e902e7b, 0x6cfbad78, 0x7fab5e8c, 0x8dc0dd8f,
    0xe330a81a, 0x115b2b19, 0x020bd8ed, 0xf0605bee, 0x24aa3f05, 0xd6c1bc06, 0xc5914ff2,
    0x37faccf1, 0x69e9f0d5, 0x9b8273d6, 0x88d28022, 0x7ab90321, 0xae7367ca, 0x5c18e4c9,
    0x4f48173d, 0xbd23943e, 0xf36e6f75, 0x0105ec76, 0x12551f82, 0xe03e9c81, 0x34f4f86a,
    0xc69f7b69, 0xd5cf889d, 0x27a40b9e, 0x79b737ba, 0x8bdcb4b9, 0x988c474d, 0x6ae7c44e,
    0xbe2da0a5, 0x4c4623a6, 0x5f16d052, 0xad7d5351]"

definition crc_step :: "u32 \<Rightarrow> u8 \<Rightarrow> u32" where
  "crc_step crc x = drop_bit 8 crc XOR CRC32LookupTable ! unat ((crc AND 0xFF) XOR ucast x)"

definition swap32 :: "u32 \<Rightarrow> u32" where
  "swap32 crc = drop_bit 24 (crc AND 0xFF000000) OR drop_bit 8 (crc AND 0x00FF0000)
     OR push_bit 8 (crc AND 0x0000FF00) OR push_bit 24 (crc AND 0x000000FF)"

definition bzrtp_CRC32 :: "bytes \<Rightarrow> u32" where
  "bzrtp_CRC32 input = swap32 (NOT (foldl crc_step 0xFFFFFFFF input))"

end
