(* ===== verification/Bzrtp_Packet.thy ===== *)
theory Bzrtp_Packet
  imports Bzrtp_Crypto
begin

text \<open>
  ZRTP packets: \<open>bzrtp/src/packetParser.c\<close> with the structures of \<open>packetParser.h\<close> and the
  fields of the contexts of \<open>typedef.h\<close> that it uses.

  Results are \<open>('a) option\<close> as elsewhere (\<open>None\<close> is an access outside a buffer or through
  NULL), and the error codes of the source are the left side of a sum. A buffer fresh from
  \<open>malloc\<close> has the arbitrary content \<open>junk\<close>. The two fixed crypto functions of bctoolbox
  are in the environment; the agreed ones are function pointers of the channel context, and
  so are fields here. A C array of n bytes is a list of length n. An array with its count (\<open>hc\<close> and \<open>supportedHash\<close>) is a list whose
  length is the count. Memory is released automatically, so \<open>bzrtp_freeZrtpPacket\<close> has no
  counterpart. The build option \<open>GOCLEAR_ENABLED\<close> is on, which is the default.
\<close>

section \<open>Data\<close>

datatype zrtp_error =
    BZRTP_ERROR_INVALIDCONTEXT | BZRTP_ERROR_HELLOHASH_MISMATCH
  | BZRTP_PARSER_ERROR_INVALIDCRC | BZRTP_PARSER_ERROR_INVALIDPACKET
  | BZRTP_PARSER_ERROR_OUTOFORDER | BZRTP_PARSER_ERROR_INVALIDMESSAGE
  | BZRTP_PARSER_ERROR_INVALIDCONTEXT | BZRTP_PARSER_ERROR_UNMATCHINGCONFIRMMAC
  | BZRTP_PARSER_ERROR_UNMATCHINGHASHCHAIN | BZRTP_PARSER_ERROR_UNMATCHINGMAC
  | BZRTP_PARSER_ERROR_UNEXPECTEDMESSAGE | BZRTP_PARSER_ERROR_UNMATCHINGHVI
  | BZRTP_PARSER_INFO_PACKETFRAGMENT
  | BZRTP_BUILDER_ERROR_INVALIDPACKET | BZRTP_BUILDER_ERROR_INVALIDMESSAGE
  | BZRTP_BUILDER_ERROR_INVALIDMESSAGETYPE | BZRTP_BUILDER_ERROR_UNKNOWN
  | BZRTP_BUILDER_ERROR_INVALIDCONTEXT | BZRTP_BUILDER_ERROR_UNABLETOFRAGMENT
  | BZRTP_CREATE_ERROR_INVALIDMESSAGETYPE | BZRTP_CREATE_ERROR_UNABLETOCREATECRYPTOCONTEXT
  | BZRTP_CREATE_ERROR_INVALIDCONTEXT

datatype message_type =
    MSGTYPE_INVALID | MSGTYPE_HELLO | MSGTYPE_HELLOACK | MSGTYPE_COMMIT | MSGTYPE_DHPART1
  | MSGTYPE_DHPART2 | MSGTYPE_CONFIRM1 | MSGTYPE_CONFIRM2 | MSGTYPE_CONF2ACK | MSGTYPE_ERROR
  | MSGTYPE_ERRORACK | MSGTYPE_GOCLEAR | MSGTYPE_CLEARACK | MSGTYPE_SASRELAY | MSGTYPE_RELAYACK
  | MSGTYPE_PING | MSGTYPE_PINGACK | MSGTYPE_FRAGMENT

record hello_message =
  h_version :: bytes
  h_clientIdentifier :: bytes
  h_H3 :: bytes
  h_ZID :: bytes
  h_S :: u8
  h_M :: u8
  h_P :: u8
  h_supportedHash :: "u8 list"
  h_supportedCipher :: "u8 list"
  h_supportedAuthTag :: "u8 list"
  h_supportedKeyAgreement :: "u8 list"
  h_supportedSas :: "u8 list"
  h_MAC :: bytes

record commit_message =
  c_H2 :: bytes
  c_ZID :: bytes
  c_hashAlgo :: u8
  c_cipherAlgo :: u8
  c_authTagAlgo :: u8
  c_keyAgreementAlgo :: u8
  c_sasAlgo :: u8
  c_hvi :: bytes
  c_nonce :: bytes
  c_keyID :: bytes
  c_pv :: "bytes option"
  c_MAC :: bytes

record dhpart_message =
  d_H1 :: bytes
  d_rs1ID :: bytes
  d_rs2ID :: bytes
  d_auxsecretID :: bytes
  d_pbxsecretID :: bytes
  d_pv :: "bytes option"
  d_MAC :: bytes

record confirm_message =
  cf_confirm_mac :: bytes
  cf_CFBIV :: bytes
  cf_H0 :: bytes
  cf_sig_len :: u16
  cf_E :: u8
  cf_V :: u8
  cf_A :: u8
  cf_D :: u8
  cf_cacheExpirationInterval :: u32
  cf_signatureBlockType :: bytes
  cf_signatureBlock :: "bytes option"

record ping_message =
  p_version :: bytes
  p_endpointHash :: bytes

record pingack_message =
  pa_version :: bytes
  pa_endpointHash :: bytes
  pa_endpointHashReceived :: bytes
  pa_SSRC :: u32

text \<open>The pointer \<open>messageData\<close>: \<open>NoData\<close> is NULL. Reading it as the wrong structure is \<open>None\<close>.\<close>

datatype message_data =
    NoData | HelloData hello_message | CommitData commit_message | DHPartData dhpart_message
  | ConfirmData confirm_message | GoClearData bytes | PingData ping_message
  | PingAckData pingack_message

record 'f zrtp_packet =
  sequenceNumber :: u16
  sourceIdentifier :: u32
  messageType :: message_type
  messageLength :: u16
  messageData :: message_data
  packetString :: "bytes option"
  fragments :: 'f

type_synonym fragment_packet = "unit zrtp_packet"
type_synonym packet = "fragment_packet list zrtp_packet"

record fragment_reassembly =
  r_messageId :: u16
  r_messageLength :: u16
  r_packetString :: "bytes option"
  r_fragments :: "(u16 \<times> u16) list"

datatype role = BZRTP_ROLE_INITIATOR | BZRTP_ROLE_RESPONDER

record channel_context =
  role :: role
  selfSSRC :: u32
  selfH :: "nat \<Rightarrow> bytes"
  selfPackets :: "nat \<Rightarrow> packet option"
  peerPackets :: "nat \<Rightarrow> packet option"
  peerHelloHash :: "bytes option"
  selfSequenceNumber :: u16
  selfMessageSequenceNumber :: u16
  peerSequenceNumber :: u16
  hashAlgo :: u8
  hashLength :: u8
  cipherAlgo :: u8
  authTagAlgo :: u8
  keyAgreementAlgo :: u8
  sasAlgo :: u8
  hmacFunction :: "bytes \<Rightarrow> bytes \<Rightarrow> nat \<Rightarrow> bytes"
  hashFunction :: "bytes \<Rightarrow> nat \<Rightarrow> bytes"
  cipherEncryptionFunction :: "bytes \<Rightarrow> bytes \<Rightarrow> bytes \<Rightarrow> bytes"
  cipherDecryptionFunction :: "bytes \<Rightarrow> bytes \<Rightarrow> bytes \<Rightarrow> bytes"
  mackeyi :: "bytes option"
  mackeyr :: "bytes option"
  zrtpkeyi :: "bytes option"
  zrtpkeyr :: "bytes option"
  initiatorAuxsecretID :: bytes
  responderAuxsecretID :: bytes
  incomingFragmentedPacket :: fragment_reassembly
  pingPacket :: "packet option"

text \<open>What \<open>keyAgreementContext\<close> points to; the contexts themselves are objects of bctoolbox.\<close>

datatype agreement_context = DHMContext u8 nat | ECDHContext u8 | KEMContext u8 u8

record zrtp_context =
  mtu :: nat
  selfZID :: bytes
  supportedHash :: "u8 list"
  supportedCipher :: "u8 list"
  supportedAuthTag :: "u8 list"
  supportedKeyAgreement :: "u8 list"
  supportedSas :: "u8 list"
  previouslyVerifiedSas :: u8
  selfAcceptGoClear :: u8
  initiatorRs1ID :: bytes
  initiatorRs2ID :: bytes
  initiatorPbxsecretID :: bytes
  responderRs1ID :: bytes
  responderRs2ID :: bytes
  responderPbxsecretID :: bytes
  keyAgreementContext :: "agreement_context option"
  contextKeyAgreementAlgo :: u8

text \<open>
  The libraries: hash and MAC with the wanted output length, the sizes of the KEM objects,
  the random generator, and the public value of a fresh key pair (\<open>None\<close> when its context
  cannot be created).
\<close>

record zrtp_env =
  sha256 :: "bytes \<Rightarrow> nat \<Rightarrow> bytes"
  hmacSha256 :: "bytes \<Rightarrow> bytes \<Rightarrow> nat \<Rightarrow> bytes"
  kem_pk :: "u8 \<Rightarrow> nat"
  kem_ct :: "u8 \<Rightarrow> nat"
  rng :: "nat \<Rightarrow> bytes"
  dhm_public :: "u8 \<Rightarrow> nat \<Rightarrow> bytes option"
  ecdh_public :: "u8 \<Rightarrow> bytes option"
  kem_public :: "u8 \<Rightarrow> u8 \<Rightarrow> bytes option"
  kem_encaps :: "u8 \<Rightarrow> u8 \<Rightarrow> bytes \<Rightarrow> bytes option"
  zjunk :: "nat \<Rightarrow> u8"

definition HELLO_MESSAGE_STORE_ID :: nat where "HELLO_MESSAGE_STORE_ID = 0"
definition COMMIT_MESSAGE_STORE_ID :: nat where "COMMIT_MESSAGE_STORE_ID = 1"
definition DHPART_MESSAGE_STORE_ID :: nat where "DHPART_MESSAGE_STORE_ID = 2"

definition fresh_buf :: "zrtp_env \<Rightarrow> nat \<Rightarrow> bytes" where
  "fresh_buf env n = map (zjunk env) [0..<n]"

section \<open>Message types\<close>

definition message_names :: "(message_type \<times> bytes) list" where
  "message_names = [
     (MSGTYPE_HELLO, asc ''Hello   ''), (MSGTYPE_HELLOACK, asc ''HelloACK''),
     (MSGTYPE_COMMIT, asc ''Commit  ''), (MSGTYPE_DHPART1, asc ''DHPart1 ''),
     (MSGTYPE_DHPART2, asc ''DHPart2 ''), (MSGTYPE_CONFIRM1, asc ''Confirm1''),
     (MSGTYPE_CONFIRM2, asc ''Confirm2''), (MSGTYPE_CONF2ACK, asc ''Conf2ACK''),
     (MSGTYPE_ERROR, asc ''Error   ''), (MSGTYPE_ERRORACK, asc ''ErrorACK''),
     (MSGTYPE_GOCLEAR, asc ''GoClear ''), (MSGTYPE_CLEARACK, asc ''ClearACK''),
     (MSGTYPE_SASRELAY, asc ''SASrelay''), (MSGTYPE_RELAYACK, asc ''RelayACK''),
     (MSGTYPE_PING, asc ''Ping    ''), (MSGTYPE_PINGACK, asc ''PingACK '')]"

definition messageTypeInttoString :: "message_type \<Rightarrow> bytes option" where
  "messageTypeInttoString t = map_of message_names t"

definition messageTypeStringtoInt :: "bytes \<Rightarrow> message_type" where
  "messageTypeStringtoInt s =
     (case map_of (map (\<lambda>(t, n). (n, t)) message_names) s of
        Some t \<Rightarrow> t | None \<Rightarrow> MSGTYPE_INVALID)"

section \<open>Checking a packet\<close>

text \<open>The search for the place of a fragment; \<open>None\<close> means that it is already there.\<close>

primrec insert_fragment :: "u16 \<Rightarrow> u16 \<Rightarrow> (u16 \<times> u16) list \<Rightarrow> (u16 \<times> u16) list option" where
  "insert_fragment offset len [] = Some [(offset, len)]"
| "insert_fragment offset len (f # fs) =
     (if offset < fst f then Some ((offset, len) # f # fs)
      else if offset = fst f then None
      else map_option ((#) f) (insert_fragment offset len fs))"

definition start_reassembly :: "zrtp_env \<Rightarrow> u16 \<Rightarrow> u16 \<Rightarrow> fragment_reassembly" where
  "start_reassembly env messageId messageTotalLength =
     \<lparr>r_messageId = messageId, r_messageLength = messageTotalLength,
      r_packetString = Some (fresh_buf env (16 + unat messageTotalLength * 4)), r_fragments = []\<rparr>"

definition store_fragment ::
    "bytes \<Rightarrow> nat \<Rightarrow> u16 \<Rightarrow> u16 \<Rightarrow> fragment_reassembly \<Rightarrow> fragment_reassembly option" where
  "store_fragment input inputLength offset fragmentLength ra =
     (case insert_fragment offset fragmentLength (r_fragments ra) of
        None \<Rightarrow> Some ra
      | Some fs \<Rightarrow> do {
          buf \<leftarrow> r_packetString ra;
          part \<leftarrow> rd_block input 20 (inputLength - 24);
          buf \<leftarrow> wr_block buf (12 + 4 * unat offset) part;
          Some (ra\<lparr>r_fragments := fs, r_packetString := Some buf\<rparr>) })"

definition received_length :: "(u16 \<times> u16) list \<Rightarrow> u16" where
  "received_length fs = foldl (\<lambda>n f. n + snd f) 0 fs"

text \<open>
  The part of \<open>bzrtp_packetCheck\<close> for fragments. A complete message gives the buffer to parse
  and its length, which is stored in a 16-bit variable.
\<close>

definition check_fragment ::
    "zrtp_env \<Rightarrow> channel_context \<Rightarrow> bytes \<Rightarrow> nat \<Rightarrow>
     ((zrtp_error + bytes \<times> nat) \<times> channel_context) option" where
  "check_fragment env chan input inputLength = do {
     messageId \<leftarrow> rd16 input 12;
     messageTotalLength \<leftarrow> rd16 input 14;
     offset \<leftarrow> rd16 input 16;
     fragmentLength \<leftarrow> rd16 input 18;
     let ra = incomingFragmentedPacket chan;
     if r_messageId ra > messageId then Some (Inl BZRTP_PARSER_ERROR_OUTOFORDER, chan)
     else do {
       let ra = (if r_messageId ra < messageId
                 then start_reassembly env messageId messageTotalLength else ra);
       ra \<leftarrow> store_fragment input inputLength offset fragmentLength ra;
       if received_length (r_fragments ra) = messageTotalLength then do {
         buf \<leftarrow> r_packetString ra;
         Some (Inr (buf, unat (of_nat (16 + unat messageTotalLength * 4) :: u16)),
               chan\<lparr>incomingFragmentedPacket := ra\<lparr>r_fragments := [], r_messageId := 0\<rparr>\<rparr>)
       } else Some (Inl BZRTP_PARSER_INFO_PACKETFRAGMENT, chan\<lparr>incomingFragmentedPacket := ra\<rparr>) } }"

text \<open>The end of the function: the message header.\<close>

definition check_message :: "bytes \<Rightarrow> u16 \<Rightarrow> (zrtp_error + packet) option" where
  "check_message input sequence = do {
     p0 \<leftarrow> rd8 input 12;
     p1 \<leftarrow> rd8 input 13;
     if p0 \<noteq> 0x50 \<or> p1 \<noteq> 0x5a then Some (Inl BZRTP_PARSER_ERROR_INVALIDMESSAGE)
     else do {
       words \<leftarrow> rd16 input 14;
       name \<leftarrow> rd_block input 16 8;
       let t = messageTypeStringtoInt name;
       if t = MSGTYPE_INVALID then Some (Inl BZRTP_PARSER_ERROR_INVALIDMESSAGE)
       else do {
         ssrc \<leftarrow> rd32 input 8;
         Some (Inr \<lparr>sequenceNumber = sequence, sourceIdentifier = ssrc, messageType = t,
                    messageLength = 4 * words, messageData = NoData, packetString = None,
                    fragments = []\<rparr>) } } }"

text \<open>The result holds the packet and the buffer with its length that are to be parsed.\<close>

definition bzrtp_packetCheck ::
    "zrtp_env \<Rightarrow> channel_context option \<Rightarrow> bytes \<Rightarrow>
     ((zrtp_error + packet \<times> bytes \<times> nat) \<times> channel_context option) option" where
  "bzrtp_packetCheck env chanp input =
     (case chanp of
        None \<Rightarrow> Some (Inl BZRTP_ERROR_INVALIDCONTEXT, None)
      | Some chan \<Rightarrow>
     (let n = length input in
      if n < 28 \<or> n > 3072 then Some (Inl BZRTP_PARSER_ERROR_INVALIDPACKET, chanp)
      else if (input ! 0 \<noteq> 0x10 \<and> input ! 0 \<noteq> 0x11) \<or> input ! 1 \<noteq> 0 \<or> input ! 4 \<noteq> 0x5a \<or>
              input ! 5 \<noteq> 0x52 \<or> input ! 6 \<noteq> 0x54 \<or> input ! 7 \<noteq> 0x50
           then Some (Inl BZRTP_PARSER_ERROR_INVALIDPACKET, chanp)
      else do {
        let isFragmented = (input ! 0 = 0x11);
        sequence \<leftarrow> rd16 input 2;
        if \<not> isFragmented \<and> sequence \<le> peerSequenceNumber chan
        then Some (Inl BZRTP_PARSER_ERROR_OUTOFORDER, chanp)
        else do {
          packetCRC \<leftarrow> rd32 input (n - 4);
          if bzrtp_CRC32 (take (n - 4) input) \<noteq> packetCRC
          then Some (Inl BZRTP_PARSER_ERROR_INVALIDCRC, chanp)
          else do {
            (r, chan) \<leftarrow> (if isFragmented then check_fragment env chan input n
                         else Some (Inr (input, n), chan));
            case r of
              Inl e \<Rightarrow> Some (Inl e, Some chan)
            | Inr (buf, len) \<Rightarrow> do {
                res \<leftarrow> check_message buf sequence;
                case res of
                  Inl e \<Rightarrow> Some (Inl e, Some chan)
                | Inr p \<Rightarrow> Some (Inr (p, buf, len), Some chan) } } } }))"

end
