(* ===== verification/Bzrtp_Parse.thy ===== *)
theory Bzrtp_Parse
  imports Bzrtp_Packet
begin

text \<open>
  Parsing of a checked packet, \<open>bzrtp_packetParser\<close> of \<open>bzrtp/src/packetParser.c\<close>: one
  definition per message type, and one for each of the checks of the hash chain that several
  message types share. On an error the packet is left as it was, so only the error is
  returned; the channel context is never changed. Offsets are those of the packet: the message
  content starts at 24, behind the packet header and the message header.
\<close>

section \<open>The hash chain\<close>

definition hello_of :: "packet \<Rightarrow> hello_message option" where
  "hello_of p = (case messageData p of HelloData h \<Rightarrow> Some h | _ \<Rightarrow> None)"

definition commit_of :: "packet \<Rightarrow> commit_message option" where
  "commit_of p = (case messageData p of CommitData c \<Rightarrow> Some c | _ \<Rightarrow> None)"

definition dhpart_of :: "packet \<Rightarrow> dhpart_message option" where
  "dhpart_of p = (case messageData p of DHPartData d \<Rightarrow> Some d | _ \<Rightarrow> None)"

text \<open>The MAC of a stored message, without the eight bytes of the MAC itself.\<close>

definition message_mac :: "zrtp_env \<Rightarrow> bytes \<Rightarrow> packet \<Rightarrow> bytes option" where
  "message_mac env key p = do {
     s \<leftarrow> packetString p;
     if messageLength p < 8 then None
     else do {
       m \<leftarrow> rd_block s 12 (unat (messageLength p) - 8);
       Some (hmacSha256 env key m 8) } }"

text \<open>
  A value of the chain is checked against the next one in the stored message, then the MAC of
  that message is checked with the value as key. The result is the error, if any.
\<close>

definition check_hello :: "zrtp_env \<Rightarrow> channel_context \<Rightarrow> bytes \<Rightarrow> zrtp_error option option" where
  "check_hello env chan H2 =
     (case peerPackets chan HELLO_MESSAGE_STORE_ID of
        None \<Rightarrow> Some (Some BZRTP_PARSER_ERROR_UNEXPECTEDMESSAGE)
      | Some peer \<Rightarrow> do {
          h \<leftarrow> hello_of peer;
          if sha256 env H2 32 \<noteq> h_H3 h then Some (Some BZRTP_PARSER_ERROR_UNMATCHINGHASHCHAIN)
          else do {
            checkMAC \<leftarrow> message_mac env H2 peer;
            Some (if checkMAC \<noteq> h_MAC h then Some BZRTP_PARSER_ERROR_UNMATCHINGMAC else None) } })"

definition check_commit :: "zrtp_env \<Rightarrow> channel_context \<Rightarrow> bytes \<Rightarrow> zrtp_error option option" where
  "check_commit env chan H1 =
     (case peerPackets chan COMMIT_MESSAGE_STORE_ID of
        None \<Rightarrow> Some (Some BZRTP_PARSER_ERROR_UNEXPECTEDMESSAGE)
      | Some peer \<Rightarrow> do {
          c \<leftarrow> commit_of peer;
          if sha256 env H1 32 \<noteq> c_H2 c then Some (Some BZRTP_PARSER_ERROR_UNMATCHINGHASHCHAIN)
          else do {
            checkMAC \<leftarrow> message_mac env H1 peer;
            Some (if checkMAC \<noteq> c_MAC c then Some BZRTP_PARSER_ERROR_UNMATCHINGMAC else None) } })"

definition check_dhpart :: "zrtp_env \<Rightarrow> channel_context \<Rightarrow> bytes \<Rightarrow> zrtp_error option option" where
  "check_dhpart env chan H0 =
     (case peerPackets chan DHPART_MESSAGE_STORE_ID of
        None \<Rightarrow> Some (Some BZRTP_PARSER_ERROR_UNEXPECTEDMESSAGE)
      | Some peer \<Rightarrow> do {
          d \<leftarrow> dhpart_of peer;
          if sha256 env H0 32 \<noteq> d_H1 d then Some (Some BZRTP_PARSER_ERROR_UNMATCHINGHASHCHAIN)
          else do {
            checkMAC \<leftarrow> message_mac env H0 peer;
            Some (if checkMAC \<noteq> d_MAC d then Some BZRTP_PARSER_ERROR_UNMATCHINGMAC else None) } })"

text \<open>
  The hash of a DHPart message followed by a Hello message. The length of the concatenation
  is a 16-bit variable that sizes the buffer, so a longer one overflows it.
\<close>

definition compute_hvi :: "channel_context \<Rightarrow> bytes \<Rightarrow> u16 \<Rightarrow> packet \<Rightarrow> bytes option" where
  "compute_hvi chan dhpartString dhpartLength hello = do {
     helloString \<leftarrow> packetString hello;
     dhpartMessage \<leftarrow> rd_block dhpartString 12 (unat dhpartLength);
     helloMessage \<leftarrow> rd_block helloString 12 (unat (messageLength hello));
     if unat dhpartLength + unat (messageLength hello) < 65536
     then Some (hashFunction chan (dhpartMessage @ helloMessage) 32) else None }"

section \<open>Hello\<close>

text \<open>One of the loops over the algorithm names.\<close>

primrec read_algos :: "bytes \<Rightarrow> algo_family \<Rightarrow> nat \<Rightarrow> nat \<Rightarrow> u8 list option" where
  "read_algos input fam 0 pos = Some []"
| "read_algos input fam (Suc n) pos = do {
     name \<leftarrow> rd_block input pos 4;
     rest \<leftarrow> read_algos input fam n (pos + 4);
     Some (bzrtp_cryptoAlgoTypeStringToInt name fam # rest) }"

definition nibble_count :: "u8 \<Rightarrow> nat" where
  "nibble_count x = min (unat (x AND 0x0F)) 7"

definition check_hello_hash ::
    "zrtp_env \<Rightarrow> channel_context \<Rightarrow> bytes \<Rightarrow> nat \<Rightarrow> bool option" where
  "check_hello_hash env chan input inputLength =
     (case peerHelloHash chan of
        None \<Rightarrow> Some True
      | Some expected \<Rightarrow>
          if inputLength < 16 then None
          else do {
            m \<leftarrow> rd_block input 12 (inputLength - 16);
            Some (sha256 env m 32 = expected) })"

definition parse_hello ::
    "zrtp_env \<Rightarrow> channel_context \<Rightarrow> bytes \<Rightarrow> nat \<Rightarrow> packet \<Rightarrow> (zrtp_error + packet) option" where
  "parse_hello env chan input inputLength p = do {
     hashOk \<leftarrow> check_hello_hash env chan input inputLength;
     if \<not> hashOk then Some (Inl BZRTP_ERROR_HELLOHASH_MISMATCH)
     else do {
       version \<leftarrow> rd_block input 24 4;
       clientIdentifier \<leftarrow> rd_block input 28 16;
       H3 \<leftarrow> rd_block input 44 32;
       ZID \<leftarrow> rd_block input 76 12;
       flags \<leftarrow> rd8 input 88;
       hcByte \<leftarrow> rd8 input 89;
       ccac \<leftarrow> rd8 input 90;
       kcsc \<leftarrow> rd8 input 91;
       let hc = nibble_count hcByte;
       let cc = nibble_count (drop_bit 4 ccac);
       let ac = nibble_count ccac;
       let kc = nibble_count (drop_bit 4 kcsc);
       let sc = nibble_count kcsc;
       if unat (messageLength p) \<noteq> 88 + 4 * (hc + cc + ac + kc + sc)
       then Some (Inl BZRTP_PARSER_ERROR_INVALIDMESSAGE)
       else do {
         hashes \<leftarrow> read_algos input ZRTP_HASH_TYPE hc 92;
         ciphers \<leftarrow> read_algos input ZRTP_CIPHERBLOCK_TYPE cc (92 + 4 * hc);
         authTags \<leftarrow> read_algos input ZRTP_AUTHTAG_TYPE ac (92 + 4 * (hc + cc));
         keyAgreements \<leftarrow> read_algos input ZRTP_KEYAGREEMENT_TYPE kc (92 + 4 * (hc + cc + ac));
         sass \<leftarrow> read_algos input ZRTP_SAS_TYPE sc (92 + 4 * (hc + cc + ac + kc));
         MAC \<leftarrow> rd_block input (92 + 4 * (hc + cc + ac + kc + sc)) 8;
         whole \<leftarrow> rd_block input 0 inputLength;
         Some (Inr (p\<lparr>
           messageData := HelloData \<lparr>
             h_version = version, h_clientIdentifier = clientIdentifier @ [0], h_H3 = H3,
             h_ZID = ZID, h_S = drop_bit 6 flags AND 1, h_M = drop_bit 5 flags AND 1,
             h_P = drop_bit 4 flags AND 1,
             h_supportedHash = bzrtp_addMandatoryCryptoTypesIfNeeded ZRTP_HASH_TYPE hashes,
             h_supportedCipher =
               bzrtp_addMandatoryCryptoTypesIfNeeded ZRTP_CIPHERBLOCK_TYPE ciphers,
             h_supportedAuthTag = bzrtp_addMandatoryCryptoTypesIfNeeded ZRTP_AUTHTAG_TYPE authTags,
             h_supportedKeyAgreement =
               bzrtp_addMandatoryCryptoTypesIfNeeded ZRTP_KEYAGREEMENT_TYPE keyAgreements,
             h_supportedSas = bzrtp_addMandatoryCryptoTypesIfNeeded ZRTP_SAS_TYPE sass,
             h_MAC = MAC\<rparr>,
           packetString := Some whole\<rparr>)) } } }"

section \<open>Commit\<close>

text \<open>The nonce, the key identifier, the hvi, the public value and the position behind them.\<close>

definition parse_commit_values ::
    "zrtp_env \<Rightarrow> bytes \<Rightarrow> u8 \<Rightarrow> (bytes \<times> bytes \<times> bytes \<times> bytes option \<times> nat) option" where
  "parse_commit_values env input algo =
     (if algo = ZRTP_KEYAGREEMENT_Prsh then do {
        nonce \<leftarrow> rd_block input 88 16;
        keyID \<leftarrow> rd_block input 104 8;
        Some (nonce, keyID, replicate 32 0, None, 112)
      } else if algo = ZRTP_KEYAGREEMENT_Mult then do {
        nonce \<leftarrow> rd_block input 88 16;
        Some (nonce, replicate 8 0, replicate 32 0, None, 104)
      } else do {
        hvi \<leftarrow> rd_block input 88 32;
        if bzrtp_isKem algo then do {
          let pvLength = bzrtp_computeKeyAgreementPublicValueLength (kem_pk env) (kem_ct env) algo
                           PvCommit;
          v \<leftarrow> rd_block input 120 pvLength;
          Some (replicate 16 0, replicate 8 0, hvi, Some v, 120 + pvLength)
        } else Some (replicate 16 0, replicate 8 0, hvi, None, 120) })"

definition parse_commit ::
    "zrtp_env \<Rightarrow> channel_context \<Rightarrow> bytes \<Rightarrow> nat \<Rightarrow> packet \<Rightarrow> (zrtp_error + packet) option" where
  "parse_commit env chan input inputLength p = do {
     H2 \<leftarrow> rd_block input 24 32;
     failed \<leftarrow> check_hello env chan H2;
     case failed of Some e \<Rightarrow> Some (Inl e) | None \<Rightarrow> do {
       ZID \<leftarrow> rd_block input 56 12;
       hashName \<leftarrow> rd_block input 68 4;
       cipherName \<leftarrow> rd_block input 72 4;
       authTagName \<leftarrow> rd_block input 76 4;
       keyAgreementName \<leftarrow> rd_block input 80 4;
       let algo = bzrtp_cryptoAlgoTypeStringToInt keyAgreementName ZRTP_KEYAGREEMENT_TYPE;
       let variableLength = bzrtp_computeCommitMessageVariableLength (kem_pk env) algo;
       if variableLength = 0 then Some (Inl BZRTP_PARSER_ERROR_INVALIDMESSAGE)
       else if unat (messageLength p) \<noteq> 84 + variableLength
       then Some (Inl BZRTP_PARSER_ERROR_INVALIDMESSAGE)
       else do {
         sasName \<leftarrow> rd_block input 84 4;
         (nonce, keyID, hvi, v, pos) \<leftarrow> parse_commit_values env input algo;
         MAC \<leftarrow> rd_block input pos 8;
         whole \<leftarrow> rd_block input 0 inputLength;
         Some (Inr (p\<lparr>
           messageData := CommitData \<lparr>
             c_H2 = H2, c_ZID = ZID,
             c_hashAlgo = bzrtp_cryptoAlgoTypeStringToInt hashName ZRTP_HASH_TYPE,
             c_cipherAlgo = bzrtp_cryptoAlgoTypeStringToInt cipherName ZRTP_CIPHERBLOCK_TYPE,
             c_authTagAlgo = bzrtp_cryptoAlgoTypeStringToInt authTagName ZRTP_AUTHTAG_TYPE,
             c_keyAgreementAlgo = algo,
             c_sasAlgo = bzrtp_cryptoAlgoTypeStringToInt sasName ZRTP_SAS_TYPE,
             c_hvi = hvi, c_nonce = nonce, c_keyID = keyID, c_pv = v, c_MAC = MAC\<rparr>,
           packetString := Some whole\<rparr>)) } } }"

section \<open>DHPart\<close>

definition pv_kind :: "message_type \<Rightarrow> pv_message" where
  "pv_kind t = (if t = MSGTYPE_DHPART1 then PvDHPart1 else PvDHPart2)"

definition dhpart_pv_length :: "zrtp_env \<Rightarrow> channel_context \<Rightarrow> message_type \<Rightarrow> nat" where
  "dhpart_pv_length env chan t =
     bzrtp_computeKeyAgreementPublicValueLength (kem_pk env) (kem_ct env)
       (keyAgreementAlgo chan) (pv_kind t)"

text \<open>The checks that depend on the role.\<close>

definition check_dhpart_sender ::
    "zrtp_env \<Rightarrow> channel_context \<Rightarrow> bytes \<Rightarrow> packet \<Rightarrow> bytes \<Rightarrow> zrtp_error option option" where
  "check_dhpart_sender env chan input p H1 =
     (case role chan of
        BZRTP_ROLE_RESPONDER \<Rightarrow> do {
          failed \<leftarrow> check_commit env chan H1;
          case failed of Some e \<Rightarrow> Some (Some e) | None \<Rightarrow> do {
            peer \<leftarrow> peerPackets chan COMMIT_MESSAGE_STORE_ID;
            c \<leftarrow> commit_of peer;
            own \<leftarrow> selfPackets chan HELLO_MESSAGE_STORE_ID;
            computedHvi \<leftarrow> compute_hvi chan input (messageLength p) own;
            Some (if computedHvi \<noteq> c_hvi c then Some BZRTP_PARSER_ERROR_UNMATCHINGHVI
                  else None) } }
      | BZRTP_ROLE_INITIATOR \<Rightarrow> check_hello env chan (sha256 env H1 32))"

definition parse_dhpart ::
    "zrtp_env \<Rightarrow> channel_context \<Rightarrow> bytes \<Rightarrow> nat \<Rightarrow> packet \<Rightarrow> (zrtp_error + packet) option" where
  "parse_dhpart env chan input inputLength p =
     (let pvLength = dhpart_pv_length env chan (messageType p) in
      if pvLength = 0 then Some (Inl BZRTP_PARSER_ERROR_INVALIDCONTEXT)
      else if unat (messageLength p) \<noteq> 84 + pvLength
      then Some (Inl BZRTP_PARSER_ERROR_INVALIDMESSAGE)
      else do {
        H1 \<leftarrow> rd_block input 24 32;
        failed \<leftarrow> check_dhpart_sender env chan input p H1;
        case failed of Some e \<Rightarrow> Some (Inl e) | None \<Rightarrow> do {
          rs1ID \<leftarrow> rd_block input 56 8;
          rs2ID \<leftarrow> rd_block input 64 8;
          auxsecretID \<leftarrow> rd_block input 72 8;
          pbxsecretID \<leftarrow> rd_block input 80 8;
          v \<leftarrow> rd_block input 88 pvLength;
          MAC \<leftarrow> rd_block input (88 + pvLength) 8;
          whole \<leftarrow> rd_block input 0 inputLength;
          Some (Inr (p\<lparr>
            messageData := DHPartData \<lparr>
              d_H1 = H1, d_rs1ID = rs1ID, d_rs2ID = rs2ID, d_auxsecretID = auxsecretID,
              d_pbxsecretID = pbxsecretID, d_pv = Some v, d_MAC = MAC\<rparr>,
            packetString := Some whole\<rparr>)) } })"

section \<open>Confirm\<close>

text \<open>The keys of the peer, cipher key first.\<close>

definition peer_confirm_keys :: "channel_context \<Rightarrow> (bytes \<times> bytes) option" where
  "peer_confirm_keys chan =
     (case role chan of
        BZRTP_ROLE_RESPONDER \<Rightarrow>
          (case (zrtpkeyi chan, mackeyi chan) of (Some k, Some m) \<Rightarrow> Some (k, m) | _ \<Rightarrow> None)
      | BZRTP_ROLE_INITIATOR \<Rightarrow>
          (case (zrtpkeyr chan, mackeyr chan) of (Some k, Some m) \<Rightarrow> Some (k, m) | _ \<Rightarrow> None))"

definition check_confirm_chain ::
    "zrtp_env \<Rightarrow> channel_context \<Rightarrow> bytes \<Rightarrow> zrtp_error option option" where
  "check_confirm_chain env chan H0 =
     (if keyAgreementAlgo chan = ZRTP_KEYAGREEMENT_Prsh \<or>
         keyAgreementAlgo chan = ZRTP_KEYAGREEMENT_Mult
      then (let checkH1 = sha256 env H0 32 in
            case role chan of
              BZRTP_ROLE_RESPONDER \<Rightarrow> check_commit env chan checkH1
            | BZRTP_ROLE_INITIATOR \<Rightarrow> check_hello env chan (sha256 env checkH1 32))
      else check_dhpart env chan H0)"

text \<open>The fields of the decrypted part; the byte at 32 is unused.\<close>

definition parse_confirm_plain :: "bytes \<Rightarrow> bytes \<Rightarrow> bytes \<Rightarrow> bytes \<Rightarrow> confirm_message option" where
  "parse_confirm_plain mac iv H0 plain = do {
     s0 \<leftarrow> rd8 plain 33;
     s1 \<leftarrow> rd8 plain 34;
     flags \<leftarrow> rd8 plain 35;
     interval \<leftarrow> rd32 plain 36;
     let sigLen = be16 (s0 AND 1) s1;
     (blockType, block) \<leftarrow>
       (if sigLen > 0 then do {
          t \<leftarrow> rd_block plain 40 4;
          b \<leftarrow> rd_block plain 44 (4 * (unat sigLen - 1));
          Some (t, Some b)
        } else Some (replicate 4 0, None));
     Some \<lparr>cf_confirm_mac = mac, cf_CFBIV = iv, cf_H0 = H0, cf_sig_len = sigLen,
           cf_E = drop_bit 3 (flags AND 8), cf_V = drop_bit 2 (flags AND 4),
           cf_A = drop_bit 1 (flags AND 2), cf_D = flags AND 1,
           cf_cacheExpirationInterval = interval, cf_signatureBlockType = blockType,
           cf_signatureBlock = block\<rparr> }"

definition parse_confirm ::
    "zrtp_env \<Rightarrow> channel_context \<Rightarrow> bytes \<Rightarrow> nat \<Rightarrow> packet \<Rightarrow> (zrtp_error + packet) option" where
  "parse_confirm env chan input inputLength p =
     (case peer_confirm_keys chan of
        None \<Rightarrow> Some (Inl BZRTP_PARSER_ERROR_INVALIDCONTEXT)
      | Some (confirmMessageKey, confirmMessageMacKey) \<Rightarrow> do {
          mac \<leftarrow> rd_block input 24 8;
          iv \<leftarrow> rd_block input 32 16;
          let cipherTextLength = unat (messageLength p - 36);
          cipherText \<leftarrow> rd_block input 48 cipherTextLength;
          macKey \<leftarrow> rd_block confirmMessageMacKey 0 (unat (hashLength chan));
          if hmacFunction chan macKey cipherText 8 \<noteq> mac
          then Some (Inl BZRTP_PARSER_ERROR_UNMATCHINGCONFIRMMAC)
          else do {
            let plain = cipherDecryptionFunction chan confirmMessageKey iv cipherText;
            H0 \<leftarrow> rd_block plain 0 32;
            failed \<leftarrow> check_confirm_chain env chan H0;
            case failed of Some e \<Rightarrow> Some (Inl e) | None \<Rightarrow> do {
              message \<leftarrow> parse_confirm_plain mac iv H0 plain;
              whole \<leftarrow> rd_block input 0 inputLength;
              Some (Inr (p\<lparr>messageData := ConfirmData message,
                           packetString := Some whole\<rparr>)) } } })"

section \<open>The parser\<close>

definition parse_ping :: "bytes \<Rightarrow> packet \<Rightarrow> (zrtp_error + packet) option" where
  "parse_ping input p = do {
     version \<leftarrow> rd_block input 24 4;
     endpointHash \<leftarrow> rd_block input 28 8;
     Some (Inr (p\<lparr>messageData := PingData \<lparr>p_version = version,
                                            p_endpointHash = endpointHash\<rparr>\<rparr>)) }"

definition bzrtp_packetParser ::
    "zrtp_env \<Rightarrow> channel_context \<Rightarrow> bytes \<Rightarrow> nat \<Rightarrow> packet \<Rightarrow> (zrtp_error + packet) option" where
  "bzrtp_packetParser env chan input inputLength p =
     (case messageType p of
        MSGTYPE_HELLO \<Rightarrow> parse_hello env chan input inputLength p
      | MSGTYPE_HELLOACK \<Rightarrow>
          Some (if messageLength p \<noteq> 12 then Inl BZRTP_PARSER_ERROR_INVALIDMESSAGE else Inr p)
      | MSGTYPE_COMMIT \<Rightarrow> parse_commit env chan input inputLength p
      | MSGTYPE_DHPART1 \<Rightarrow> parse_dhpart env chan input inputLength p
      | MSGTYPE_DHPART2 \<Rightarrow> parse_dhpart env chan input inputLength p
      | MSGTYPE_CONFIRM1 \<Rightarrow> parse_confirm env chan input inputLength p
      | MSGTYPE_CONFIRM2 \<Rightarrow> parse_confirm env chan input inputLength p
      | MSGTYPE_GOCLEAR \<Rightarrow> do {
          clear_mac \<leftarrow> rd_block input 24 8;
          Some (Inr (p\<lparr>messageData := GoClearData clear_mac\<rparr>)) }
      | MSGTYPE_PING \<Rightarrow> parse_ping input p
      | _ \<Rightarrow> Some (Inr p))"

end
