(* ===== verification/Bzrtp_Build.thy ===== *)
theory Bzrtp_Build
  imports Bzrtp_Parse
begin

text \<open>
  Creation and serialisation of packets: \<open>bzrtp_createZrtpPacket\<close>, \<open>bzrtp_packetBuild\<close> and
  \<open>bzrtp_packetSetSequenceNumber\<close> of \<open>bzrtp/src/packetParser.c\<close>, \<open>bzrtp_sendPacket\<close> of
  \<open>stateMachine.c\<close> and \<open>bzrtp_set_MTU\<close> of \<open>bzrtp.c\<close>. Fresh buffers hold arbitrary bytes, so
  that what is sent is determined only if every byte is written.
\<close>

section \<open>Creating a packet\<close>

definition empty_packet :: "message_type \<Rightarrow> u32 \<Rightarrow> message_data \<Rightarrow> packet" where
  "empty_packet t ssrc d =
     \<lparr>sequenceNumber = 0, sourceIdentifier = ssrc, messageType = t, messageLength = 0,
      messageData = d, packetString = None, fragments = []\<rparr>"

definition create_hello :: "zrtp_context \<Rightarrow> channel_context \<Rightarrow> hello_message" where
  "create_hello ctx chan =
     \<lparr>h_version = asc ''1.10'',
      h_clientIdentifier = asc ''BZRTPv1.1'' @ replicate 8 0,
      h_H3 = selfH chan 3, h_ZID = selfZID ctx, h_S = 0, h_M = 0, h_P = 0,
      h_supportedHash = supportedHash ctx, h_supportedCipher = supportedCipher ctx,
      h_supportedAuthTag = supportedAuthTag ctx,
      h_supportedKeyAgreement = supportedKeyAgreement ctx,
      h_supportedSas = supportedSas ctx, h_MAC = replicate 8 0\<rparr>"

text \<open>A Commit with key encapsulation also makes the key pair; the context then refers to it.\<close>

definition create_commit_kem ::
    "zrtp_env \<Rightarrow> zrtp_context \<Rightarrow> channel_context \<Rightarrow> (bytes option \<times> zrtp_context) option" where
  "create_commit_kem env ctx chan =
     (let algo = keyAgreementAlgo chan in
      if \<not> bzrtp_isKem algo then Some (None, ctx)
      else case kem_public env algo (hashAlgo chan) of
        None \<Rightarrow> Some (None, ctx)
      | Some key \<Rightarrow> do {
          let pvLength = bzrtp_computeKeyAgreementPublicValueLength (kem_pk env) (kem_ct env) algo
                           PvCommit;
          v \<leftarrow> wr_block (replicate pvLength 0) 0 key;
          Some (Some v, ctx\<lparr>keyAgreementContext := Some (KEMContext algo (hashAlgo chan)),
                            contextKeyAgreementAlgo := algo\<rparr>) })"

definition create_commit ::
    "zrtp_env \<Rightarrow> zrtp_context \<Rightarrow> channel_context \<Rightarrow> (commit_message \<times> zrtp_context) option" where
  "create_commit env ctx chan = do {
     let algo = keyAgreementAlgo chan;
     let c = \<lparr>c_H2 = selfH chan 2, c_ZID = selfZID ctx, c_hashAlgo = hashAlgo chan,
              c_cipherAlgo = cipherAlgo chan, c_authTagAlgo = authTagAlgo chan,
              c_keyAgreementAlgo = algo, c_sasAlgo = sasAlgo chan,
              c_hvi = replicate 32 0, c_nonce = replicate 16 0, c_keyID = replicate 8 0,
              c_pv = None, c_MAC = replicate 8 0\<rparr>;
     if algo = ZRTP_KEYAGREEMENT_Prsh \<or> algo = ZRTP_KEYAGREEMENT_Mult
     then Some (c\<lparr>c_nonce := rng env 16\<rparr>, ctx)
     else do {
       dhpart \<leftarrow> selfPackets chan DHPART_MESSAGE_STORE_ID;
       hello \<leftarrow> peerPackets chan HELLO_MESSAGE_STORE_ID;
       dhpartString \<leftarrow> packetString dhpart;
       hvi \<leftarrow> compute_hvi chan dhpartString (messageLength dhpart) hello;
       (v, ctx) \<leftarrow> create_commit_kem env ctx chan;
       Some (c\<lparr>c_hvi := hvi, c_pv := v\<rparr>, ctx) } }"

definition secret_length :: "u8 \<Rightarrow> nat" where
  "secret_length cipher =
     (if cipher = ZRTP_CIPHER_AES3 \<or> cipher = ZRTP_CIPHER_2FS3 then 64
      else if cipher = ZRTP_CIPHER_AES2 \<or> cipher = ZRTP_CIPHER_2FS2 then 48
      else 32)"

text \<open>The public value of a DHPart message; the left result is a failure to create a context.\<close>

definition create_pv ::
    "zrtp_env \<Rightarrow> zrtp_context \<Rightarrow> channel_context \<Rightarrow> message_type \<Rightarrow>
     (zrtp_error + bytes \<times> zrtp_context) option" where
  "create_pv env ctx chan t =
     (let algo = keyAgreementAlgo chan; pvLength = dhpart_pv_length env chan t;
          failed = Some (Inl BZRTP_CREATE_ERROR_UNABLETOCREATECRYPTOCONTEXT);
          keep = (\<lambda>c. ctx\<lparr>keyAgreementContext := Some c, contextKeyAgreementAlgo := algo\<rparr>) in
      if algo = ZRTP_KEYAGREEMENT_DH2k \<or> algo = ZRTP_KEYAGREEMENT_DH3k then
        (case dhm_public env algo (secret_length (cipherAlgo chan)) of
           None \<Rightarrow> failed
         | Some self \<Rightarrow> do {
             v \<leftarrow> rd_block self 0 pvLength;
             Some (Inr (v, keep (DHMContext algo (secret_length (cipherAlgo chan))))) })
      else if algo = ZRTP_KEYAGREEMENT_X255 \<or> algo = ZRTP_KEYAGREEMENT_X448 then
        (case ecdh_public env algo of
           None \<Rightarrow> failed
         | Some self \<Rightarrow> do {
             v \<leftarrow> rd_block self 0 pvLength;
             Some (Inr (v, keep (ECDHContext algo))) })
      else if bzrtp_isKem algo then
        (if t = MSGTYPE_DHPART1 then
           (if kem_public env algo (hashAlgo chan) = None then failed
            else do {
              peer \<leftarrow> peerPackets chan COMMIT_MESSAGE_STORE_ID;
              c \<leftarrow> commit_of peer;
              key \<leftarrow> c_pv c;
              cipherText \<leftarrow> kem_encaps env algo (hashAlgo chan) key;
              v \<leftarrow> wr_block (replicate pvLength 0) 0 cipherText;
              Some (Inr (v, keep (KEMContext algo (hashAlgo chan)))) })
         else Some (Inr (rng env pvLength, ctx)))
      else failed)"

definition create_dhpart ::
    "zrtp_env \<Rightarrow> zrtp_context \<Rightarrow> channel_context \<Rightarrow> message_type \<Rightarrow>
     (zrtp_error + dhpart_message \<times> zrtp_context) option" where
  "create_dhpart env ctx chan t = do {
     let d = (if t = MSGTYPE_DHPART2
              then \<lparr>d_H1 = selfH chan 1, d_rs1ID = initiatorRs1ID ctx, d_rs2ID = initiatorRs2ID ctx,
                    d_auxsecretID = initiatorAuxsecretID chan,
                    d_pbxsecretID = initiatorPbxsecretID ctx, d_pv = None,
                    d_MAC = replicate 8 0\<rparr>
              else \<lparr>d_H1 = selfH chan 1, d_rs1ID = responderRs1ID ctx, d_rs2ID = responderRs2ID ctx,
                    d_auxsecretID = responderAuxsecretID chan,
                    d_pbxsecretID = responderPbxsecretID ctx, d_pv = None,
                    d_MAC = replicate 8 0\<rparr>);
     r \<leftarrow> create_pv env ctx chan t;
     case r of
       Inl e \<Rightarrow> Some (Inl e)
     | Inr (v, ctx) \<Rightarrow> Some (Inr (d\<lparr>d_pv := Some v\<rparr>, ctx)) }"

definition create_confirm :: "zrtp_env \<Rightarrow> zrtp_context \<Rightarrow> channel_context \<Rightarrow> confirm_message" where
  "create_confirm env ctx chan =
     \<lparr>cf_confirm_mac = replicate 8 0, cf_CFBIV = rng env 16, cf_H0 = selfH chan 0,
      cf_sig_len = 0, cf_E = 0, cf_V = previouslyVerifiedSas ctx, cf_A = selfAcceptGoClear ctx,
      cf_D = 0, cf_cacheExpirationInterval = 0xFFFFFFFF, cf_signatureBlockType = replicate 4 0,
      cf_signatureBlock = None\<rparr>"

definition create_goclear :: "channel_context \<Rightarrow> bytes option" where
  "create_goclear chan = do {
     key \<leftarrow> (case role chan of BZRTP_ROLE_INITIATOR \<Rightarrow> mackeyi chan
                             | BZRTP_ROLE_RESPONDER \<Rightarrow> mackeyr chan);
     macKey \<leftarrow> rd_block key 0 (unat (hashLength chan));
     Some (hmacFunction chan macKey (asc ''GoClear '') 8) }"

definition create_pingack ::
    "zrtp_context \<Rightarrow> packet \<Rightarrow> pingack_message option" where
  "create_pingack ctx ping =
     (case messageData ping of
        PingData m \<Rightarrow> do {
          endpointHash \<leftarrow> rd_block (selfZID ctx) 0 8;
          Some \<lparr>pa_version = asc ''1.10'', pa_endpointHash = endpointHash,
                pa_endpointHashReceived = p_endpointHash m, pa_SSRC = sourceIdentifier ping\<rparr> }
      | _ \<Rightarrow> None)"

definition bzrtp_createZrtpPacket ::
    "zrtp_env \<Rightarrow> zrtp_context \<Rightarrow> channel_context \<Rightarrow> message_type \<Rightarrow>
     (zrtp_error + packet \<times> zrtp_context) option" where
  "bzrtp_createZrtpPacket env ctx chan t =
     (let made = (\<lambda>d ctx. Some (Inr (empty_packet t (selfSSRC chan) d, ctx))) in
      case t of
        MSGTYPE_HELLO \<Rightarrow> made (HelloData (create_hello ctx chan)) ctx
      | MSGTYPE_HELLOACK \<Rightarrow> made NoData ctx
      | MSGTYPE_COMMIT \<Rightarrow> do {
          (c, ctx) \<leftarrow> create_commit env ctx chan;
          made (CommitData c) ctx }
      | MSGTYPE_DHPART1 \<Rightarrow> do {
          r \<leftarrow> create_dhpart env ctx chan t;
          case r of Inl e \<Rightarrow> Some (Inl e) | Inr (d, ctx) \<Rightarrow> made (DHPartData d) ctx }
      | MSGTYPE_DHPART2 \<Rightarrow> do {
          r \<leftarrow> create_dhpart env ctx chan t;
          case r of Inl e \<Rightarrow> Some (Inl e) | Inr (d, ctx) \<Rightarrow> made (DHPartData d) ctx }
      | MSGTYPE_CONFIRM1 \<Rightarrow> made (ConfirmData (create_confirm env ctx chan)) ctx
      | MSGTYPE_CONFIRM2 \<Rightarrow> made (ConfirmData (create_confirm env ctx chan)) ctx
      | MSGTYPE_CONF2ACK \<Rightarrow> made NoData ctx
      | MSGTYPE_GOCLEAR \<Rightarrow> do { mac \<leftarrow> create_goclear chan; made (GoClearData mac) ctx }
      | MSGTYPE_CLEARACK \<Rightarrow> made NoData ctx
      | MSGTYPE_PINGACK \<Rightarrow>
          (case pingPacket chan of
             None \<Rightarrow> Some (Inl BZRTP_CREATE_ERROR_INVALIDCONTEXT)
           | Some ping \<Rightarrow> do { m \<leftarrow> create_pingack ctx ping; made (PingAckData m) ctx })
      | MSGTYPE_FRAGMENT \<Rightarrow> made NoData ctx
      | _ \<Rightarrow> Some (Inl BZRTP_CREATE_ERROR_INVALIDMESSAGETYPE))"

section \<open>Message contents\<close>

text \<open>
  A sequence of \<open>memcpy\<close> calls, each followed by an increment of the destination; a field is
  the source buffer with the number of bytes copied from it.
\<close>

primrec copy_fields :: "bytes \<Rightarrow> nat \<Rightarrow> (bytes \<times> nat) list \<Rightarrow> bytes option" where
  "copy_fields buf pos [] = Some buf"
| "copy_fields buf pos (f # fs) = do {
     part \<leftarrow> rd_block (fst f) 0 (snd f);
     buf \<leftarrow> wr_block buf pos part;
     copy_fields buf (pos + snd f) fs }"

definition fields_length :: "(bytes \<times> nat) list \<Rightarrow> nat" where
  "fields_length fs = sum_list (map snd fs)"

definition algo_fields :: "u8 list \<Rightarrow> (bytes \<times> nat) list" where
  "algo_fields as = map (\<lambda>a. (bzrtp_cryptoAlgoTypeIntToString a, 4)) as"

definition hello_fields :: "hello_message \<Rightarrow> (bytes \<times> nat) list" where
  "hello_fields h =
     [(h_version h, 4), (h_clientIdentifier h, 16), (h_H3 h, 32), (h_ZID h, 12),
      ([(push_bit 6 (h_S h AND 1) OR push_bit 5 (h_M h AND 1) OR push_bit 4 (h_P h AND 1))
          AND 0x70], 1),
      ([of_nat (length (h_supportedHash h)) AND 0x0F], 1),
      ([(push_bit 4 (of_nat (length (h_supportedCipher h))) AND 0xF0) OR
          (of_nat (length (h_supportedAuthTag h)) AND 0x0F)], 1),
      ([(push_bit 4 (of_nat (length (h_supportedKeyAgreement h))) AND 0xF0) OR
          (of_nat (length (h_supportedSas h)) AND 0x0F)], 1)]
     @ algo_fields (h_supportedHash h) @ algo_fields (h_supportedCipher h)
     @ algo_fields (h_supportedAuthTag h) @ algo_fields (h_supportedKeyAgreement h)
     @ algo_fields (h_supportedSas h)"

text \<open>
  The content of a message is written into a fresh buffer for the header, the message and the
  CRC. Hello, Commit and DHPart have their MAC behind the last field: its position and key are
  returned with the packet.
\<close>

definition write_content ::
    "zrtp_env \<Rightarrow> packet \<Rightarrow> u16 \<Rightarrow> (bytes \<times> nat) list \<Rightarrow> packet option" where
  "write_content env p len fs = do {
     buf \<leftarrow> copy_fields (fresh_buf env (12 + unat len + 4)) 24 fs;
     Some (p\<lparr>messageLength := len, packetString := Some buf\<rparr>) }"

definition build_hello ::
    "zrtp_env \<Rightarrow> channel_context \<Rightarrow> packet \<Rightarrow>
     (zrtp_error + packet \<times> (nat \<times> bytes) option) option" where
  "build_hello env chan p =
     (case messageData p of
        NoData \<Rightarrow> Some (Inl BZRTP_BUILDER_ERROR_INVALIDMESSAGE)
      | HelloData h \<Rightarrow> do {
          let len = of_nat (88 + 4 * (length (h_supportedHash h) + length (h_supportedCipher h)
                      + length (h_supportedAuthTag h) + length (h_supportedKeyAgreement h)
                      + length (h_supportedSas h)));
          p \<leftarrow> write_content env p len (hello_fields h);
          Some (Inr (p, Some (24 + fields_length (hello_fields h), selfH chan 2))) }
      | _ \<Rightarrow> None)"

definition commit_fields :: "zrtp_env \<Rightarrow> commit_message \<Rightarrow> (bytes \<times> nat) list option" where
  "commit_fields env c =
     (let algo = c_keyAgreementAlgo c;
          common =
            [(c_H2 c, 32), (c_ZID c, 12), (bzrtp_cryptoAlgoTypeIntToString (c_hashAlgo c), 4),
             (bzrtp_cryptoAlgoTypeIntToString (c_cipherAlgo c), 4),
             (bzrtp_cryptoAlgoTypeIntToString (c_authTagAlgo c), 4),
             (bzrtp_cryptoAlgoTypeIntToString algo, 4),
             (bzrtp_cryptoAlgoTypeIntToString (c_sasAlgo c), 4)] in
      if algo = ZRTP_KEYAGREEMENT_Prsh then Some (common @ [(c_nonce c, 16), (c_keyID c, 8)])
      else if algo = ZRTP_KEYAGREEMENT_Mult then Some (common @ [(c_nonce c, 16)])
      else if bzrtp_isKem algo then do {
        v \<leftarrow> c_pv c;
        Some (common @ [(c_hvi c, 32),
          (v, bzrtp_computeKeyAgreementPublicValueLength (kem_pk env) (kem_ct env) algo PvCommit)]) }
      else Some (common @ [(c_hvi c, 32)]))"

definition build_commit ::
    "zrtp_env \<Rightarrow> channel_context \<Rightarrow> packet \<Rightarrow>
     (zrtp_error + packet \<times> (nat \<times> bytes) option) option" where
  "build_commit env chan p =
     (case messageData p of
        NoData \<Rightarrow> Some (Inl BZRTP_BUILDER_ERROR_INVALIDMESSAGE)
      | CommitData c \<Rightarrow> do {
          let variableLength =
            bzrtp_computeCommitMessageVariableLength (kem_pk env) (c_keyAgreementAlgo c);
          if variableLength = 0 then Some (Inl BZRTP_BUILDER_ERROR_INVALIDMESSAGE)
          else do {
            fs \<leftarrow> commit_fields env c;
            p \<leftarrow> write_content env p (of_nat (84 + variableLength)) fs;
            Some (Inr (p, Some (24 + fields_length fs, selfH chan 1))) } }
      | _ \<Rightarrow> None)"

definition build_dhpart ::
    "zrtp_env \<Rightarrow> channel_context \<Rightarrow> packet \<Rightarrow>
     (zrtp_error + packet \<times> (nat \<times> bytes) option) option" where
  "build_dhpart env chan p =
     (case messageData p of
        NoData \<Rightarrow> Some (Inl BZRTP_BUILDER_ERROR_INVALIDMESSAGE)
      | DHPartData d \<Rightarrow> do {
          let pvLength = dhpart_pv_length env chan (messageType p);
          if pvLength = 0 then Some (Inl BZRTP_BUILDER_ERROR_INVALIDCONTEXT)
          else do {
            v \<leftarrow> d_pv d;
            let fs = [(d_H1 d, 32), (d_rs1ID d, 8), (d_rs2ID d, 8), (d_auxsecretID d, 8),
                      (d_pbxsecretID d, 8), (v, pvLength)];
            p \<leftarrow> write_content env p (of_nat (84 + pvLength)) fs;
            Some (Inr (p, Some (24 + fields_length fs, selfH chan 0))) } }
      | _ \<Rightarrow> None)"

definition own_confirm_keys :: "channel_context \<Rightarrow> (bytes \<times> bytes) option" where
  "own_confirm_keys chan =
     (case role chan of
        BZRTP_ROLE_INITIATOR \<Rightarrow>
          (case (zrtpkeyi chan, mackeyi chan) of (Some k, Some m) \<Rightarrow> Some (k, m) | _ \<Rightarrow> None)
      | BZRTP_ROLE_RESPONDER \<Rightarrow>
          (case (zrtpkeyr chan, mackeyr chan) of (Some k, Some m) \<Rightarrow> Some (k, m) | _ \<Rightarrow> None))"

definition confirm_plain_fields :: "confirm_message \<Rightarrow> (bytes \<times> nat) list option" where
  "confirm_plain_fields c = do {
     let fixedPart =
       [(cf_H0 c, 32), ([0], 1), ([ucast (drop_bit 8 (cf_sig_len c) AND 1)], 1),
        ([ucast (cf_sig_len c)], 1),
        ([push_bit 3 (cf_E c AND 1) OR push_bit 2 (cf_V c AND 1) OR push_bit 1 (cf_A c AND 1)
            OR (cf_D c AND 1)], 1),
        (enc32 (cf_cacheExpirationInterval c), 4)];
     if cf_sig_len c > 0 then do {
       block \<leftarrow> cf_signatureBlock c;
       Some (fixedPart @ [(cf_signatureBlockType c, 4), (block, (unat (cf_sig_len c) - 1) * 4)])
     } else Some fixedPart }"

definition build_confirm ::
    "zrtp_env \<Rightarrow> channel_context \<Rightarrow> packet \<Rightarrow>
     (zrtp_error + packet \<times> (nat \<times> bytes) option) option" where
  "build_confirm env chan p =
     (case own_confirm_keys chan of
        None \<Rightarrow> Some (Inl BZRTP_BUILDER_ERROR_INVALIDCONTEXT)
      | Some (confirmMessageKey, confirmMessageMacKey) \<Rightarrow>
     (case messageData p of
        NoData \<Rightarrow> Some (Inl BZRTP_BUILDER_ERROR_INVALIDMESSAGE)
      | ConfirmData c \<Rightarrow> do {
          let len = (76 + cf_sig_len c * 4 :: u16);
          let encryptedPartLength = unat (len - 36);
          fs \<leftarrow> confirm_plain_fields c;
          plain \<leftarrow> copy_fields (fresh_buf env encryptedPartLength) 0 fs;
          let cipherText = cipherEncryptionFunction chan confirmMessageKey (cf_CFBIV c) plain;
          buf \<leftarrow> wr_block (fresh_buf env (12 + unat len + 4)) 48 cipherText;
          macKey \<leftarrow> rd_block confirmMessageMacKey 0 (unat (hashLength chan));
          encrypted \<leftarrow> rd_block buf 48 encryptedPartLength;
          buf \<leftarrow> wr_block buf 24 (hmacFunction chan macKey encrypted 8);
          buf \<leftarrow> copy_fields buf 32 [(cf_CFBIV c, 16)];
          Some (Inr (p\<lparr>messageLength := len, packetString := Some buf\<rparr>, None)) }
      | _ \<Rightarrow> None))"

definition build_goclear ::
    "zrtp_env \<Rightarrow> packet \<Rightarrow> (zrtp_error + packet \<times> (nat \<times> bytes) option) option" where
  "build_goclear env p =
     (case messageData p of
        GoClearData mac \<Rightarrow> do { p \<leftarrow> write_content env p 20 [(mac, 8)]; Some (Inr (p, None)) }
      | _ \<Rightarrow> None)"

definition build_pingack ::
    "zrtp_env \<Rightarrow> packet \<Rightarrow> (zrtp_error + packet \<times> (nat \<times> bytes) option) option" where
  "build_pingack env p =
     (case messageData p of
        PingAckData m \<Rightarrow> do {
          p \<leftarrow> write_content env p 36
            [(pa_version m, 4), (pa_endpointHash m, 8), (pa_endpointHashReceived m, 8),
             (enc32 (pa_SSRC m), 4)];
          Some (Inr (p, None)) }
      | _ \<Rightarrow> None)"

text \<open>The three acknowledgements consist of their header only.\<close>

definition build_ack :: "zrtp_env \<Rightarrow> packet \<Rightarrow> (zrtp_error + packet \<times> (nat \<times> bytes) option) option" where
  "build_ack env p = do { p \<leftarrow> write_content env p 12 []; Some (Inr (p, None)) }"

definition build_message ::
    "zrtp_env \<Rightarrow> channel_context \<Rightarrow> packet \<Rightarrow>
     (zrtp_error + packet \<times> (nat \<times> bytes) option) option" where
  "build_message env chan p =
     (case messageType p of
        MSGTYPE_HELLO \<Rightarrow> build_hello env chan p
      | MSGTYPE_HELLOACK \<Rightarrow> build_ack env p
      | MSGTYPE_COMMIT \<Rightarrow> build_commit env chan p
      | MSGTYPE_DHPART1 \<Rightarrow> build_dhpart env chan p
      | MSGTYPE_DHPART2 \<Rightarrow> build_dhpart env chan p
      | MSGTYPE_CONFIRM1 \<Rightarrow> build_confirm env chan p
      | MSGTYPE_CONFIRM2 \<Rightarrow> build_confirm env chan p
      | MSGTYPE_CONF2ACK \<Rightarrow> build_ack env p
      | MSGTYPE_GOCLEAR \<Rightarrow> build_goclear env p
      | MSGTYPE_CLEARACK \<Rightarrow> build_ack env p
      | MSGTYPE_PINGACK \<Rightarrow> build_pingack env p
      | _ \<Rightarrow> Some (Inr (p, None)))"

section \<open>Headers, MAC, fragments\<close>

definition zrtpMessageSetHeader :: "bytes \<Rightarrow> u16 \<Rightarrow> bytes \<Rightarrow> bytes option" where
  "zrtpMessageSetHeader buf len name =
     wr_block buf 12 ([0x50, 0x5a] @ enc16 (drop_bit 2 len) @ name)"

definition zrtpPacketSetHeader :: "'f zrtp_packet \<Rightarrow> 'f zrtp_packet option" where
  "zrtpPacketSetHeader p = do {
     buf \<leftarrow> packetString p;
     buf \<leftarrow> wr_block buf 0 [if messageType p = MSGTYPE_FRAGMENT then 0x11 else 0x10, 0];
     buf \<leftarrow> wr_block buf 4 ([0x5a, 0x52, 0x54, 0x50] @ enc32 (sourceIdentifier p));
     Some (p\<lparr>packetString := Some buf\<rparr>) }"

definition as_fragment :: "packet \<Rightarrow> fragment_packet" where
  "as_fragment p =
     \<lparr>sequenceNumber = sequenceNumber p, sourceIdentifier = sourceIdentifier p,
      messageType = messageType p, messageLength = messageLength p, messageData = messageData p,
      packetString = packetString p, fragments = ()\<rparr>"

text \<open>\<open>mtu - ZRTP_FRAGMENTEDPACKET_OVERHEAD\<close>, which is computed with the type \<open>size_t\<close>.\<close>

definition fragment_room :: "zrtp_context \<Rightarrow> nat" where
  "fragment_room ctx = unat (of_nat (mtu ctx) - 24 :: u64)"

definition fragment_size :: "zrtp_context \<Rightarrow> u16 \<Rightarrow> u16 \<Rightarrow> u16" where
  "fragment_size ctx len offset =
     (if unat (len - offset) < fragment_room ctx then len - offset
      else of_nat (fragment_room ctx))"

definition make_fragment ::
    "zrtp_env \<Rightarrow> zrtp_context \<Rightarrow> channel_context \<Rightarrow> bytes \<Rightarrow> u16 \<Rightarrow> u16 \<Rightarrow>
     (zrtp_error + fragment_packet) option" where
  "make_fragment env ctx chan message len offset = do {
     created \<leftarrow> bzrtp_createZrtpPacket env ctx chan MSGTYPE_FRAGMENT;
     case created of
       Inl _ \<Rightarrow> Some (Inl BZRTP_BUILDER_ERROR_UNABLETOFRAGMENT)
     | Inr (p, _) \<Rightarrow> do {
         let size' = fragment_size ctx len offset;
         part \<leftarrow> rd_block message (12 + unat offset) (unat size');
         buf \<leftarrow> wr_block (fresh_buf env (24 + unat size')) 20 part;
         p \<leftarrow> zrtpPacketSetHeader ((as_fragment p)\<lparr>messageLength := size',
                                                    packetString := Some buf\<rparr>);
         buf \<leftarrow> packetString p;
         buf \<leftarrow> wr_block buf 12
           (enc16 (selfMessageSequenceNumber chan) @ enc16 (drop_bit 2 len) @
            enc16 (drop_bit 2 offset) @ enc16 (drop_bit 2 size'));
         Some (Inr (p\<lparr>packetString := Some buf\<rparr>)) } }"

text \<open>The loop; \<open>None\<close> is also the value when it never ends.\<close>

partial_function (option) fragment_loop ::
    "zrtp_env \<Rightarrow> zrtp_context \<Rightarrow> channel_context \<Rightarrow> bytes \<Rightarrow> u16 \<Rightarrow> u16 \<Rightarrow> fragment_packet list \<Rightarrow>
     (zrtp_error + fragment_packet list) option" where
  "fragment_loop env ctx chan message len offset frags =
     (if offset < len then
        Option.bind (make_fragment env ctx chan message len offset) (\<lambda>r.
          case r of
            Inl e \<Rightarrow> Some (Inl e)
          | Inr f \<Rightarrow> fragment_loop env ctx chan message len
                       (offset + fragment_size ctx len offset) (frags @ [f]))
      else Some (Inr frags))"

text \<open>The part behind the switch: message header, MAC, then fragments or the packet header.\<close>

definition write_mac :: "zrtp_env \<Rightarrow> bytes \<Rightarrow> u16 \<Rightarrow> (nat \<times> bytes) option \<Rightarrow> bytes option" where
  "write_mac env buf len mac =
     (case mac of
        None \<Rightarrow> Some buf
      | Some (pos, key) \<Rightarrow>
          if len < 8 then None
          else do {
            m \<leftarrow> rd_block buf 12 (unat len - 8);
            wr_block buf pos (hmacSha256 env key m 8) })"

definition finish_packet ::
    "zrtp_env \<Rightarrow> zrtp_context \<Rightarrow> channel_context \<Rightarrow> packet \<Rightarrow> bytes \<Rightarrow>
     (zrtp_error + packet \<times> channel_context) option" where
  "finish_packet env ctx chan p buf =
     (if mtu ctx < unat (messageLength p + 16) then do {
        frags \<leftarrow> fragment_loop env ctx chan buf (messageLength p) 0 (fragments p);
        case frags of
          Inl e \<Rightarrow> Some (Inl e)
        | Inr fs \<Rightarrow>
            Some (Inr (p\<lparr>fragments := fs\<rparr>,
                       chan\<lparr>selfMessageSequenceNumber := selfMessageSequenceNumber chan + 1\<rparr>))
      } else do {
        p \<leftarrow> zrtpPacketSetHeader p;
        Some (Inr (p, chan)) })"

definition bzrtp_packetBuild ::
    "zrtp_env \<Rightarrow> zrtp_context \<Rightarrow> channel_context \<Rightarrow> packet option \<Rightarrow>
     (zrtp_error + packet \<times> channel_context) option" where
  "bzrtp_packetBuild env ctx chan pp =
     (case pp of
        None \<Rightarrow> Some (Inl BZRTP_BUILDER_ERROR_INVALIDPACKET)
      | Some p \<Rightarrow>
     (case messageTypeInttoString (messageType p) of
        None \<Rightarrow> Some (Inl BZRTP_BUILDER_ERROR_INVALIDMESSAGETYPE)
      | Some name \<Rightarrow> do {
          r \<leftarrow> build_message env chan p;
          case r of
            Inl e \<Rightarrow> Some (Inl e)
          | Inr (p, mac) \<Rightarrow>
              (case packetString p of
                 None \<Rightarrow> Some (Inl BZRTP_BUILDER_ERROR_UNKNOWN)
               | Some buf \<Rightarrow> do {
                   let len = messageLength p;
                   buf \<leftarrow> zrtpMessageSetHeader buf len name;
                   buf \<leftarrow> write_mac env buf len mac;
                   finish_packet env ctx chan (p\<lparr>packetString := Some buf\<rparr>) buf }) }))"

section \<open>Sequence number and sending\<close>

definition bzrtp_packetSetSequenceNumber ::
    "'f zrtp_packet option \<Rightarrow> u16 \<Rightarrow> (zrtp_error + 'f zrtp_packet) option" where
  "bzrtp_packetSetSequenceNumber pp n =
     (case pp of
        None \<Rightarrow> Some (Inl BZRTP_BUILDER_ERROR_INVALIDPACKET)
      | Some p \<Rightarrow>
     (case packetString p of
        None \<Rightarrow> Some (Inl BZRTP_BUILDER_ERROR_INVALIDPACKET)
      | Some buf \<Rightarrow> do {
          buf \<leftarrow> wr_block buf 2 (enc16 n);
          let header = (if messageType p = MSGTYPE_FRAGMENT then 20 else 12);
          let bytes' = unat (messageLength p) + header;
          content \<leftarrow> rd_block buf 0 bytes';
          buf \<leftarrow> wr_block buf bytes' (enc32 (bzrtp_CRC32 content));
          Some (Inr (p\<lparr>sequenceNumber := n, packetString := Some buf\<rparr>)) }))"

text \<open>
  The callback is the function \<open>send\<close> from the packet given to it to its return value, and
  what it was given is collected in order. A failure stops the sending of fragments. The
  results are the return value, what was sent, the fragments as they are afterwards and the
  next sequence number.
\<close>

fun send_fragments ::
    "(bytes \<Rightarrow> int) \<Rightarrow> u16 \<Rightarrow> fragment_packet list \<Rightarrow>
     (int \<times> bytes list \<times> fragment_packet list \<times> u16) option" where
  "send_fragments send n [] = Some (0, [], [], n)"
| "send_fragments send n (f # fs) = do {
     r \<leftarrow> bzrtp_packetSetSequenceNumber (Some f) n;
     f \<leftarrow> (case r of Inl _ \<Rightarrow> None | Inr f \<Rightarrow> Some f);
     buf \<leftarrow> packetString f;
     out \<leftarrow> rd_block buf 0 (unat (messageLength f) + 24);
     if send out \<noteq> 0 then Some (send out, [out], f # fs, n)
     else do {
       (r, outs, fs, n) \<leftarrow> send_fragments send (n + 1) fs;
       Some (r, out # outs, f # fs, n) } }"

definition bzrtp_sendPacket ::
    "(bytes \<Rightarrow> int) option \<Rightarrow> channel_context \<Rightarrow> packet \<Rightarrow>
     ((zrtp_error + int) \<times> bytes list \<times> packet \<times> channel_context) option" where
  "bzrtp_sendPacket sendp chan p =
     (case sendp of
        None \<Rightarrow> Some (Inl BZRTP_ERROR_INVALIDCONTEXT, [], p, chan)
      | Some send \<Rightarrow>
          if fragments p = [] then do {
            r \<leftarrow> bzrtp_packetSetSequenceNumber (Some p) (selfSequenceNumber chan);
            p \<leftarrow> (case r of Inl _ \<Rightarrow> None | Inr p \<Rightarrow> Some p);
            buf \<leftarrow> packetString p;
            out \<leftarrow> rd_block buf 0 (unat (messageLength p) + 16);
            Some (Inr (send out), [out], p,
                  chan\<lparr>selfSequenceNumber := selfSequenceNumber chan + 1\<rparr>)
          } else do {
            (r, outs, fs, n) \<leftarrow> send_fragments send (selfSequenceNumber chan) (fragments p);
            Some (Inr r, outs, p\<lparr>fragments := fs\<rparr>, chan\<lparr>selfSequenceNumber := n\<rparr>) })"

definition bzrtp_set_MTU :: "zrtp_context option \<Rightarrow> nat \<Rightarrow> zrtp_error + zrtp_context" where
  "bzrtp_set_MTU ctxp m =
     (case ctxp of
        None \<Rightarrow> Inl BZRTP_ERROR_INVALIDCONTEXT
      | Some ctx \<Rightarrow> Inr (ctx\<lparr>mtu := (if m > 600 then m else 600)\<rparr>))"

end
