(* ===== verification/Bzrtp_Wire.thy ===== *)
theory Bzrtp_Wire
  imports Bzrtp_Build
begin

text \<open>
  What a built packet is as a sequence of bytes, and how such bytes are checked. \<open>wire\<close> is
  the format of RFC 6189, section 5: whatever the fresh buffers hold, building a message and
  setting its sequence number gives exactly these bytes, and \<open>bzrtp_packetCheck\<close> accepts them.
\<close>

section \<open>Writing\<close>

lemma wr_block_at:
  "length p = i \<Longrightarrow> length old = length new \<Longrightarrow> wr_block (p @ old @ r) i new = Some (p @ new @ r)"
  by (simp add: wr_block_def)

lemma split_at:
  assumes "length xs = n + m"
  obtains a b where "xs = a @ b" "length a = n" "length b = m"
  using that [of "take n xs" "drop n xs"] assms by simp

lemma length_fresh_buf [simp]: "length (fresh_buf env n) = n"
  by (simp add: fresh_buf_def)

definition fields_ok :: "(bytes \<times> nat) list \<Rightarrow> bool" where
  "fields_ok fs = list_all (\<lambda>f. snd f \<le> length (fst f)) fs"

definition fields_bytes :: "(bytes \<times> nat) list \<Rightarrow> bytes" where
  "fields_bytes fs = concat (map (\<lambda>f. take (snd f) (fst f)) fs)"

lemma length_fields_bytes: "fields_ok fs \<Longrightarrow> length (fields_bytes fs) = fields_length fs"
  by (induction fs) (auto simp: fields_ok_def fields_bytes_def fields_length_def)

lemma copy_fields_at:
  assumes "fields_ok fs" and "length old = fields_length fs" and "length p = pos"
  shows "copy_fields (p @ old @ r) pos fs = Some (p @ fields_bytes fs @ r)"
  using assms
proof (induction fs arbitrary: p old pos)
  case Nil
  then show ?case by (simp add: fields_length_def fields_bytes_def)
next
  case (Cons f fs)
  have n: "snd f \<le> length (fst f)" and ok: "fields_ok fs"
    using Cons.prems(1) by (auto simp: fields_ok_def)
  have "length old = snd f + fields_length fs"
    using Cons.prems(2) by (simp add: fields_length_def)
  then obtain a b where ab: "old = a @ b" "length a = snd f" "length b = fields_length fs"
    by (rule split_at)
  have "wr_block (p @ a @ (b @ r)) pos (take (snd f) (fst f)) =
      Some (p @ take (snd f) (fst f) @ (b @ r))"
    using n ab Cons.prems(3) by (intro wr_block_at) auto
  moreover have "copy_fields ((p @ take (snd f) (fst f)) @ b @ r) (pos + snd f) fs =
      Some ((p @ take (snd f) (fst f)) @ fields_bytes fs @ r)"
    using ok ab n Cons.prems(3) by (intro Cons.IH) auto
  ultimately show ?case
    using n ab by (simp add: fields_bytes_def)
qed

lemma write_content_at:
  assumes "fields_ok fs" and "unat len = 12 + fields_length fs + m"
  obtains x y where "length x = 24" "length y = m + 4"
    "write_content env p len fs =
       Some (p\<lparr>messageLength := len, packetString := Some (x @ fields_bytes fs @ y)\<rparr>)"
proof -
  have "length (fresh_buf env (12 + unat len + 4)) = 24 + (fields_length fs + (m + 4))"
    using assms(2) by simp
  then obtain x xs where x: "fresh_buf env (12 + unat len + 4) = x @ xs" "length x = 24"
    "length xs = fields_length fs + (m + 4)" by (rule split_at)
  from x(3) obtain old y where y: "xs = old @ y" "length old = fields_length fs"
    "length y = m + 4" by (rule split_at)
  have "copy_fields (fresh_buf env (12 + unat len + 4)) 24 fs = Some (x @ fields_bytes fs @ y)"
    unfolding x(1) y(1) using assms(1) y(2) x(2) by (rule copy_fields_at)
  with that [OF x(2) y(3)] show ?thesis by (simp add: write_content_def)
qed

section \<open>The bytes of a message and of a packet\<close>

definition message_header :: "u16 \<Rightarrow> bytes \<Rightarrow> bytes" where
  "message_header len name = [0x50, 0x5a] @ enc16 (drop_bit 2 len) @ name"

definition message_tail ::
    "zrtp_env \<Rightarrow> u16 \<Rightarrow> bytes \<Rightarrow> bytes \<Rightarrow> (nat \<times> bytes) option \<Rightarrow> bytes" where
  "message_tail env len name content mac =
     (case mac of
        None \<Rightarrow> []
      | Some (_, key) \<Rightarrow> hmacSha256 env key (message_header len name @ content) 8)"

definition wire :: "u8 \<Rightarrow> u16 \<Rightarrow> u32 \<Rightarrow> bytes \<Rightarrow> bytes" where
  "wire first n ssrc message =
     (let b = [first, 0] @ enc16 n @ [0x5a, 0x52, 0x54, 0x50] @ enc32 ssrc @ message
      in b @ enc32 (bzrtp_CRC32 b))"

lemma length_message_header [simp]: "length (message_header len name) = 4 + length name"
  by (simp add: message_header_def)

lemma length_wire [simp]: "length (wire first n ssrc m) = 16 + length m"
  by (simp add: wire_def Let_def)

lemma length_message_name: "messageTypeInttoString t = Some name \<Longrightarrow> length name = 8"
  by (cases t) (auto simp: messageTypeInttoString_def message_names_def)

text \<open>
  The contract of the two fixed crypto functions: they fill the buffer they are given.
\<close>

definition env_ok :: "zrtp_env \<Rightarrow> bool" where
  "env_ok env \<longleftrightarrow> (\<forall>d n. n \<le> 32 \<longrightarrow> length (sha256 env d n) = n) \<and>
                  (\<forall>k d n. n \<le> 32 \<longrightarrow> length (hmacSha256 env k d n) = n)"

lemma length_hmac: "env_ok env \<Longrightarrow> length (hmacSha256 env k d 8) = 8"
  by (simp add: env_ok_def)

text \<open>Message header and MAC over a written content.\<close>

lemma header_and_mac:
  assumes "env_ok env" and "length x = 24" and "length name = 8"
    and mac: "mac = None \<and> m = 0 \<or> mac = Some (24 + length content, key) \<and> m = 8"
    and len: "unat len = 12 + length content + m" and y: "length y = m + 4"
  shows "\<exists>x' c. length x' = 12 \<and> length c = 4 \<and>
    zrtpMessageSetHeader (x @ content @ y) len name =
      Some (x' @ message_header len name @ content @ y) \<and>
    write_mac env (x' @ message_header len name @ content @ y) len mac =
      Some (x' @ (message_header len name @ content @
                  message_tail env len name content mac) @ c)"
proof -
  have "length x = 12 + 12" using assms(2) by simp
  then obtain x' h where x: "x = x' @ h" "length x' = 12" "length h = 12" by (rule split_at)
  from y obtain o8 c where yc: "y = o8 @ c" "length o8 = m" "length c = 4" by (rule split_at)
  have head: "zrtpMessageSetHeader (x @ content @ y) len name =
      Some (x' @ message_header len name @ content @ y)"
    using wr_block_at [of x' 12 h "message_header len name" "content @ y"] x assms(3)
    by (simp add: zrtpMessageSetHeader_def message_header_def)
  have "write_mac env (x' @ message_header len name @ content @ y) len mac =
      Some (x' @ (message_header len name @ content @
                  message_tail env len name content mac) @ c)"
  proof (cases mac)
    case None
    then show ?thesis using mac yc by (simp add: write_mac_def message_tail_def)
  next
    case (Some a)
    then have a: "a = (24 + length content, key)" and m: "m = 8" using mac by auto
    have big: "\<not> len < 8" using len m by (simp add: word_less_nat_alt)
    have rd: "rd_block (x' @ message_header len name @ content @ y) 12 (unat len - 8) =
        Some (message_header len name @ content)"
      using rd_block_at [of x' 12 "message_header len name @ content" "unat len - 8" y]
        x(2) assms(3) len m by simp
    have wr: "wr_block (x' @ message_header len name @ content @ y) (24 + length content)
        (hmacSha256 env key (message_header len name @ content) 8) =
        Some (x' @ message_header len name @ content @
              hmacSha256 env key (message_header len name @ content) 8 @ c)"
      using wr_block_at [of "x' @ message_header len name @ content" "24 + length content" o8
          "hmacSha256 env key (message_header len name @ content) 8" c]
        yc x(2) assms(3) m length_hmac [OF assms(1)] by simp
    show ?thesis
      using Some a big rd wr by (simp add: write_mac_def message_tail_def)
  qed
  with head x(2) yc(3) show ?thesis by blast
qed

text \<open>The packet header, then the sequence number and the CRC.\<close>

lemma set_packet_header:
  assumes "packetString p = Some (x @ r)" and "length x = 12"
  obtains a where "length a = 2"
    "zrtpPacketSetHeader p = Some (p\<lparr>packetString := Some (
       [if messageType p = MSGTYPE_FRAGMENT then 0x11 else 0x10, 0] @ a @
       [0x5a, 0x52, 0x54, 0x50] @ enc32 (sourceIdentifier p) @ r)\<rparr>)"
proof -
  have "length x = 2 + (2 + 8)" using assms(2) by simp
  then obtain f x1 where x1: "x = f @ x1" "length f = 2" "length x1 = 2 + 8" by (rule split_at)
  from x1(3) obtain a g where a: "x1 = a @ g" "length a = 2" "length g = 8" by (rule split_at)
  let ?f = "[if messageType p = MSGTYPE_FRAGMENT then 0x11 else 0x10, 0] :: bytes"
  have w1: "wr_block (x @ r) 0 ?f = Some (?f @ a @ g @ r)"
    using wr_block_at [of "[]" 0 f ?f "a @ g @ r"] x1 a by simp
  have w2: "wr_block (?f @ a @ g @ r) 4 ([0x5a, 0x52, 0x54, 0x50] @ enc32 (sourceIdentifier p)) =
      Some (?f @ a @ ([0x5a, 0x52, 0x54, 0x50] @ enc32 (sourceIdentifier p)) @ r)"
    using wr_block_at [of "?f @ a" 4 g "[0x5a, 0x52, 0x54, 0x50] @ enc32 (sourceIdentifier p)" r]
      a by simp
  show ?thesis
    using that [OF a(2)] w1 w2 assms(1) by (simp add: zrtpPacketSetHeader_def)
qed

lemma set_sequence_number:
  assumes "packetString p = Some ([first, 0] @ a @ [0x5a, 0x52, 0x54, 0x50] @ enc32 ssrc @ m @ c)"
    and "length a = 2" and "length c = 4"
    and "length m = unat (messageLength p) + (if messageType p = MSGTYPE_FRAGMENT then 8 else 0)"
  shows "bzrtp_packetSetSequenceNumber (Some p) n =
    Some (Inr (p\<lparr>sequenceNumber := n, packetString := Some (wire first n ssrc m)\<rparr>))"
proof -
  let ?b = "[first, 0] @ enc16 n @ [0x5a, 0x52, 0x54, 0x50] @ enc32 ssrc @ m"
  let ?k = "unat (messageLength p) + (if messageType p = MSGTYPE_FRAGMENT then 20 else 12)"
  have len: "length ?b = ?k" using assms(4) by simp
  have w1: "wr_block ([first, 0] @ a @ [0x5a, 0x52, 0x54, 0x50] @ enc32 ssrc @ m @ c) 2 (enc16 n)
      = Some (?b @ c)"
    using wr_block_at [of "[first, 0]" 2 a "enc16 n" "[0x5a, 0x52, 0x54, 0x50] @ enc32 ssrc @ m @ c"]
      assms(2) by simp
  have rd: "rd_block (?b @ c) 0 ?k = Some ?b"
    using rd_block_at [of "[]" 0 ?b ?k c] len by simp
  have w2: "wr_block (?b @ c) ?k (enc32 (bzrtp_CRC32 ?b)) = Some (?b @ enc32 (bzrtp_CRC32 ?b))"
    using wr_block_at [of ?b ?k c "enc32 (bzrtp_CRC32 ?b)" "[]"] len assms(3) by simp
  show ?thesis
    using w1 rd w2 assms(1)
    by (simp only: bzrtp_packetSetSequenceNumber_def option.case Option.bind.simps Let_def wire_def)
qed

text \<open>Building a packet that needs no fragments, in one statement.\<close>

lemma build_and_number:
  assumes env: "env_ok env" and name: "messageTypeInttoString (messageType p) = Some name"
    and body: "build_message env chan p =
      Some (Inr (p\<lparr>messageLength := len, packetString := Some (x @ content @ y)\<rparr>, mac))"
    and x: "length x = 24" and y: "length y = m + 4"
    and mac: "mac = None \<and> m = 0 \<or> mac = Some (24 + length content, key) \<and> m = 8"
    and len: "unat len = 12 + length content + m" and fits: "unat (len + 16) \<le> mtu ctx"
  obtains p' where "bzrtp_packetBuild env ctx chan (Some p) = Some (Inr (p', chan))"
    "fragments p' = fragments p" "messageType p' = messageType p" "messageLength p' = len"
    "messageData p' = messageData p" "sourceIdentifier p' = sourceIdentifier p"
    "\<And>n. bzrtp_packetSetSequenceNumber (Some p') n =
       Some (Inr (p'\<lparr>sequenceNumber := n, packetString := Some (wire 0x10 n (sourceIdentifier p)
         (message_header len name @ content @ message_tail env len name content mac))\<rparr>))"
proof -
  note ln = length_message_name [OF name]
  let ?m = "message_header len name @ content @ message_tail env len name content mac"
  from header_and_mac [OF env x ln mac len y] obtain x' c where x': "length x' = 12"
    and c: "length c = 4"
    and h: "zrtpMessageSetHeader (x @ content @ y) len name =
      Some (x' @ message_header len name @ content @ y)"
    and w: "write_mac env (x' @ message_header len name @ content @ y) len mac =
      Some (x' @ ?m @ c)" by blast
  let ?q = "p\<lparr>messageLength := len, packetString := Some (x' @ ?m @ c)\<rparr>"
  have notfrag: "messageType p \<noteq> MSGTYPE_FRAGMENT"
    using name by (auto simp: messageTypeInttoString_def message_names_def)
  obtain a where a: "length a = 2" and ph: "zrtpPacketSetHeader ?q = Some (?q\<lparr>packetString := Some (
       [if messageType ?q = MSGTYPE_FRAGMENT then 0x11 else 0x10, 0] @ a @
       [0x5a, 0x52, 0x54, 0x50] @ enc32 (sourceIdentifier ?q) @ ?m @ c)\<rparr>)"
    using set_packet_header [of ?q x' "?m @ c"] x' by auto
  let ?p' = "?q\<lparr>packetString := Some ([0x10, 0] @ a @
       [0x5a, 0x52, 0x54, 0x50] @ enc32 (sourceIdentifier p) @ ?m @ c)\<rparr>"
  have build: "bzrtp_packetBuild env ctx chan (Some p) = Some (Inr (?p', chan))"
    using name body h w ph fits notfrag by (simp add: bzrtp_packetBuild_def finish_packet_def)
  have tail: "length (message_tail env len name content mac) = m"
    using mac length_hmac [OF env] by (auto simp: message_tail_def)
  have "bzrtp_packetSetSequenceNumber (Some ?p') n =
      Some (Inr (?p'\<lparr>sequenceNumber := n, packetString :=
        Some (wire 0x10 n (sourceIdentifier p) ?m)\<rparr>))" for n
    using a c notfrag len ln tail by (intro set_sequence_number) auto
  with build show ?thesis by (intro that [of ?p']) auto
qed

section \<open>Checking\<close>

lemma nth_wire:
  "wire f n s m ! 0 = f" "wire f n s m ! Suc 0 = 0" "wire f n s m ! 4 = 0x5a" "wire f n s m ! 5 = 0x52"
  "wire f n s m ! 6 = 0x54" "wire f n s m ! 7 = 0x50"
  by (simp_all add: wire_def Let_def enc16_def)

lemma rd16_wire: "rd16 (wire f n s m) 2 = Some n"
  using rd16_at [of "[f, 0]" 2 n] by (simp add: wire_def Let_def)

lemma rd32_wire: "rd32 (wire f n s m) 8 = Some s"
  using rd32_at [of "[f, 0] @ enc16 n @ [0x5a, 0x52, 0x54, 0x50]" 8 s]
  by (simp add: wire_def Let_def)

lemma crc_wire: "rd32 (wire f n s m) (12 + length m) = Some (bzrtp_CRC32 (take (12 + length m) (wire f n s m)))"
proof -
  let ?b = "[f, 0] @ enc16 n @ [0x5a, 0x52, 0x54, 0x50] @ enc32 s @ m"
  have "wire f n s m = ?b @ enc32 (bzrtp_CRC32 ?b) @ []" by (simp add: wire_def Let_def)
  moreover have "length ?b = 12 + length m" by simp
  ultimately show ?thesis
    using rd32_at [of ?b "12 + length m" "bzrtp_CRC32 ?b" "[]"]
    by (metis append.right_neutral append_eq_conv_conj)
qed

lemma drop_wire: "\<exists>c. drop 12 (wire f n s m) = m @ c"
  by (simp add: wire_def Let_def)

lemma rd_block_wire:
  assumes "12 \<le> i" and "i + k \<le> 12 + length m"
  shows "rd_block (wire f n s m) i k = rd_block m (i - 12) k"
proof -
  obtain c where c: "drop 12 (wire f n s m) = m @ c" using drop_wire by blast
  have "drop i (wire f n s m) = drop (i - 12) (drop 12 (wire f n s m))" using assms by simp
  then have "take k (drop i (wire f n s m)) = take k (drop (i - 12) m)"
    using assms unfolding c by simp
  then show ?thesis using assms by (simp add: rd_block_def)
qed

lemma nth_wire_body:
  assumes "12 \<le> i" and "i < 12 + length m"
  shows "wire f n s m ! i = m ! (i - 12)"
proof -
  obtain c where c: "drop 12 (wire f n s m) = m @ c" using drop_wire by blast
  have "i - 12 < length m" using assms by linarith
  moreover have "wire f n s m ! i = drop 12 (wire f n s m) ! (i - 12)" using assms by simp
  ultimately show ?thesis unfolding c by (simp add: nth_append)
qed

lemma rd8_wire:
  "12 \<le> i \<Longrightarrow> i < 12 + length m \<Longrightarrow> rd8 (wire f n s m) i = rd8 m (i - 12)"
  by (simp add: rd8_def nth_wire_body)

lemma rd16_wire_body:
  assumes "12 \<le> i" and "i + 1 < 12 + length m"
  shows "rd16 (wire f n s m) i = rd16 m (i - 12)"
proof -
  have "i + 1 - 12 = i - 12 + 1" using assms(1) by simp
  then show ?thesis using assms rd8_wire [of i m f n s] rd8_wire [of "i + 1" m f n s]
    by (simp only: rd16_def)
qed

text \<open>A table read backwards.\<close>

lemma map_of_swapped:
  assumes "distinct (map snd xs)" and "map_of xs a = Some b"
  shows "map_of (map (\<lambda>(x, y). (y, x)) xs) b = Some a"
proof -
  have "(b, a) \<in> set (map (\<lambda>(x, y). (y, x)) xs)"
    using map_of_SomeD [OF assms(2)] by force
  moreover have "distinct (map fst (map (\<lambda>(x, y). (y, x)) xs))"
    using assms(1) by (simp add: case_prod_beta' comp_def)
  ultimately show ?thesis by (rule map_of_is_SomeI [rotated])
qed

lemma messageTypeStringtoInt_name:
  assumes "messageTypeInttoString t = Some name"
  shows "messageTypeStringtoInt name = t"
proof -
  have "distinct (map snd message_names)" by code_simp
  from map_of_swapped [OF this] assms show ?thesis
    by (simp add: messageTypeInttoString_def messageTypeStringtoInt_def)
qed

lemma messageTypeInttoString_valid:
  "messageTypeInttoString t = Some name \<Longrightarrow> t \<noteq> MSGTYPE_INVALID"
  by (cases t) (auto simp: messageTypeInttoString_def message_names_def)

text \<open>The message header of any buffer whose message starts at 12.\<close>

lemma check_message_at:
  assumes "messageTypeInttoString t = Some name" and "4 dvd unat len"
    and "rd8 buf 12 = Some 0x50" and "rd8 buf 13 = Some 0x5a"
    and "rd16 buf 14 = Some (drop_bit 2 len)" and "rd_block buf 16 8 = Some name"
    and "rd32 buf 8 = Some ssrc"
  shows "check_message buf n = Some (Inr \<lparr>sequenceNumber = n, sourceIdentifier = ssrc,
    messageType = t, messageLength = len, messageData = NoData, packetString = None,
    fragments = []\<rparr>)"
proof -
  have "4 * drop_bit 2 len = len"
  proof (rule word_unat_eq_iff [THEN iffD2])
    have "unat (drop_bit 2 len) = unat len div 4"
      by (simp add: drop_bit_eq_div unat_div)
    then show "unat (4 * drop_bit 2 len) = unat len"
      using assms(2) unsigned_less [of len] by (simp add: unat_word_ariths)
  qed
  then show ?thesis
    using assms messageTypeStringtoInt_name [OF assms(1)] messageTypeInttoString_valid [OF assms(1)]
    by (simp add: check_message_def)
qed

lemma check_wire:
  assumes "messageTypeInttoString t = Some name" and "4 dvd unat len"
    and "unat len = 12 + length content"
    and "peerSequenceNumber chan < n" and "unat len \<le> 3056"
  shows "bzrtp_packetCheck env (Some chan) (wire 0x10 n ssrc (message_header len name @ content)) =
    Some (Inr (\<lparr>sequenceNumber = n, sourceIdentifier = ssrc, messageType = t, messageLength = len,
                messageData = NoData, packetString = None, fragments = []\<rparr>,
               wire 0x10 n ssrc (message_header len name @ content), unat len + 16), Some chan)"
proof -
  let ?m = "message_header len name @ content"
  let ?w = "wire 0x10 n ssrc ?m"
  note ln = length_message_name [OF assms(1)]
  have lm: "length ?m = unat len" using ln assms(3) by simp
  have "check_message ?w n = Some (Inr \<lparr>sequenceNumber = n, sourceIdentifier = ssrc,
      messageType = t, messageLength = len, messageData = NoData, packetString = None,
      fragments = []\<rparr>)"
  proof (rule check_message_at [OF assms(1,2)])
    show "rd8 ?w 12 = Some 0x50" "rd8 ?w 13 = Some 0x5a"
      using ln by (simp_all add: nth_wire_body message_header_def)
    show "rd16 ?w 14 = Some (drop_bit 2 len)"
      using ln rd16_at [of "[0x50, 0x5a]" 2 "drop_bit 2 len" "name @ content"]
      by (subst rd16_wire_body) (auto simp: message_header_def simp del: rd16_in)
    show "rd_block ?w 16 8 = Some name"
      using ln rd_block_at [of "[0x50, 0x5a] @ enc16 (drop_bit 2 len)" 4 name 8 content]
      by (subst rd_block_wire) (auto simp: message_header_def simp del: rd_block_in)
    show "rd32 ?w 8 = Some ssrc" by (rule rd32_wire)
  qed
  then show ?thesis
    using assms(3-5) lm crc_wire [of "0x10" n ssrc ?m] rd16_wire [of "0x10" n ssrc ?m]
    by (simp add: bzrtp_packetCheck_def Let_def nth_wire not_le)
qed

end
