(* ===== verification/Bzrtp_Fragment.thy ===== *)
theory Bzrtp_Fragment
  imports Bzrtp_Wire
begin

text \<open>
  Fragmentation: what the fragments of a long message are as bytes, and their reassembly in
  any order of arrival.
\<close>

section \<open>The list of fragments already received\<close>

lemma insert_fragment_None:
  "sorted_wrt (<) (map fst fs) \<Longrightarrow> insert_fragment off len fs = None \<longleftrightarrow> off \<in> fst ` set fs"
proof (induction fs)
  case (Cons f fs)
  show ?case
  proof (cases "off < fst f")
    case True
    then have "off \<notin> fst ` set (f # fs)" using Cons.prems by fastforce
    with True show ?thesis by simp
  next
    case False
    with Cons show ?thesis by (auto simp: image_iff)
  qed
qed simp

lemma insert_fragment_Some:
  assumes "sorted_wrt (<) (map fst fs)" and "insert_fragment off len fs = Some fs'"
  shows "sorted_wrt (<) (map fst fs') \<and> set fs' = insert (off, len) (set fs)"
  using assms
proof (induction fs arbitrary: fs')
  case (Cons f fs)
  consider "off < fst f" | "fst f < off"
    using Cons.prems(2) by (auto split: if_splits)
  then show ?case
  proof cases
    case 1
    moreover have "off < fst g" if "g \<in> set fs" for g
      using 1 Cons.prems(1) that by (auto intro: order.strict_trans [of off "fst f"])
    ultimately show ?thesis using Cons.prems by auto
  next
    case 2
    then obtain gs where gs: "insert_fragment off len fs = Some gs" "fs' = f # gs"
      using Cons.prems(2) by (auto split: if_splits)
    with Cons.IH [of gs] Cons.prems(1) 2 show ?thesis by auto
  qed
qed simp

lemma received_length_sum:
  assumes "distinct fs"
  shows "received_length fs = (\<Sum>f\<in>set fs. snd f)"
proof -
  have "foldl (\<lambda>n f. n + snd f) a fs = a + sum_list (map snd fs)" for a :: u16
    by (induction fs arbitrary: a) (auto simp: add.assoc)
  then show ?thesis
    using assms by (simp add: received_length_def sum_list_distinct_conv_sum_set)
qed

lemma sorted_fst_distinct: "sorted_wrt (<) (map fst fs) \<Longrightarrow> distinct (fs :: (u16 \<times> u16) list)"
  by (metis distinct_map strict_sorted_iff)

section \<open>The pieces of a message\<close>

definition chunk :: "nat \<Rightarrow> bytes \<Rightarrow> nat \<Rightarrow> bytes" where
  "chunk R m k = take R (drop (k * R) m)"

definition chunks :: "nat \<Rightarrow> bytes \<Rightarrow> nat" where
  "chunks R m = (length m + R - 1) div R"

definition fragment_info :: "nat \<Rightarrow> bytes \<Rightarrow> nat \<Rightarrow> u16 \<times> u16" where
  "fragment_info R m k = (of_nat (k * R div 4), of_nat (length (chunk R m k) div 4))"

definition fragment_bytes :: "u16 \<Rightarrow> nat \<Rightarrow> bytes \<Rightarrow> nat \<Rightarrow> bytes" where
  "fragment_bytes mid R m k =
     (enc16 mid @ enc16 (of_nat (length m div 4)) @ enc16 (fst (fragment_info R m k)) @
      enc16 (snd (fragment_info R m k))) @ chunk R m k"

lemma length_chunk: "length (chunk R m k) = min R (length m - k * R)"
  by (simp add: chunk_def min.commute)

lemma take_chunk: "take (length (chunk R m k)) (drop (k * R) m) = chunk R m k"
  by (simp add: chunk_def min_def)

lemma chunks_bound: "0 < R \<Longrightarrow> k < chunks R m \<longleftrightarrow> k * R < length m"
proof -
  assume R: "0 < R"
  have "k < chunks R m \<longleftrightarrow> Suc k * R \<le> length m + R - 1"
    using R unfolding chunks_def by (simp add: Suc_le_eq [symmetric] less_eq_div_iff_mult_less_eq)
  also have "\<dots> \<longleftrightarrow> k * R < length m" using R by auto
  finally show ?thesis .
qed

lemma chunk_nonempty:
  assumes "0 < R" and "4 dvd R" and "4 dvd length m" and "k < chunks R m"
  shows "4 \<le> length (chunk R m k)" and "4 dvd length (chunk R m k)" and "length (chunk R m k) \<le> R"
    and "k * R + length (chunk R m k) \<le> length m"
proof -
  have lt: "k * R < length m" using assms(1,4) by (simp add: chunks_bound)
  show d: "4 dvd length (chunk R m k)"
    using assms(2,3) by (simp add: length_chunk min_def dvd_diff_nat)
  moreover have "0 < length (chunk R m k)" using assms(1) lt by (simp add: length_chunk)
  ultimately show "4 \<le> length (chunk R m k)" by (simp add: dvd_imp_le)
  show "length (chunk R m k) \<le> R" "k * R + length (chunk R m k) \<le> length m"
    using lt by (auto simp: length_chunk)
qed

lemma chunk_lengths_sum:
  assumes "0 < R" shows "j * R \<le> length m \<Longrightarrow> (\<Sum>k<j. length (chunk R m k)) = j * R"
  using assms by (induction j) (auto simp: length_chunk)

lemma all_chunk_lengths:
  assumes "0 < R" shows "(\<Sum>k<chunks R m. length (chunk R m k)) = length m"
proof (cases "chunks R m")
  case 0
  then show ?thesis using chunks_bound [OF assms, of 0 m] by simp
next
  case (Suc j)
  have j: "j * R < length m" using chunks_bound [OF assms, of j m] Suc by simp
  have "\<not> Suc j * R < length m" using chunks_bound [OF assms, of "Suc j" m] Suc by simp
  then show ?thesis
    using chunk_lengths_sum [OF assms, of j m] j Suc by (simp add: length_chunk)
qed

lemma chunks_cover:
  assumes R: "0 < R" and b: "length b = 16 + length m"
    and all: "\<And>k. k < chunks R m \<Longrightarrow> rd_block b (12 + k * R) (length (chunk R m k)) = Some (chunk R m k)"
  shows "take (length m) (drop 12 b) = m"
proof (rule nth_equalityI)
  show "length (take (length m) (drop 12 b)) = length m" using b by simp
  fix i assume "i < length (take (length m) (drop 12 b))"
  then have i: "i < length m" by simp
  define k where "k = i div R"
  have kR: "k * R \<le> i" "i - k * R < R"
    using R by (simp_all add: k_def div_mult_mod_eq minus_div_mult_eq_mod)
  then have k: "k < chunks R m" using i R by (simp add: chunks_bound)
  have lc: "i - k * R < length (chunk R m k)" using kR i by (simp add: length_chunk)
  have "chunk R m k = take (length (chunk R m k)) (drop (12 + k * R) b)"
    using all [OF k] by (auto simp: rd_block_def split: if_splits)
  then have "chunk R m k ! (i - k * R) = take (length (chunk R m k)) (drop (12 + k * R) b) ! (i - k * R)"
    by simp
  also have "\<dots> = b ! (12 + k * R + (i - k * R))" using lc kR b i by (subst nth_take) auto
  finally have "chunk R m k ! (i - k * R) = b ! (12 + i)"
    using kR by simp
  moreover have "chunk R m k ! (i - k * R) = m ! i"
    using lc kR i by (simp add: chunk_def)
  ultimately show "take (length m) (drop 12 b) ! i = m ! i" using i b by simp
qed

section \<open>Sending\<close>

lemma unat_of_nat_16: "n < 65536 \<Longrightarrow> unat (of_nat n :: u16) = n"
  by (simp add: unat_of_nat)

lemma drop_bit_2_of_nat: "n < 65536 \<Longrightarrow> drop_bit 2 (of_nat n :: u16) = of_nat (n div 4)"
proof -
  assume n: "n < 65536"
  have "unat (drop_bit 2 (of_nat n :: u16)) = n div 4"
    using n by (simp add: drop_bit_eq_div unat_div unat_of_nat_16)
  moreover have "unat (of_nat (n div 4) :: u16) = n div 4"
    using n by (intro unat_of_nat_16) simp
  ultimately show ?thesis by (simp only: word_unat_eq_iff)
qed

lemma fragment_room_eq: "24 \<le> mtu ctx \<Longrightarrow> mtu ctx \<le> 3072 \<Longrightarrow> fragment_room ctx = mtu ctx - 24"
proof -
  assume m: "24 \<le> mtu ctx" "mtu ctx \<le> 3072"
  then have "unat (of_nat (mtu ctx) :: u64) = mtu ctx" by (simp add: unat_of_nat)
  then show ?thesis
    using m by (simp add: fragment_room_def unat_sub_if_size word_le_nat_alt)
qed

lemma fragment_size_eq:
  assumes "24 < mtu ctx" and "mtu ctx \<le> 3072" and "length m < 65536"
    and "k < chunks (mtu ctx - 24) m"
  shows "fragment_size ctx (of_nat (length m)) (of_nat (k * (mtu ctx - 24))) =
    of_nat (length (chunk (mtu ctx - 24) m k))"
proof -
  define R where "R = mtu ctx - 24"
  have k: "k * R < length m" using assms(1,4) by (simp add: R_def chunks_bound)
  have "unat (of_nat (length m) - of_nat (k * R) :: u16) = length m - k * R"
    using k assms(3) by (simp only: unat_sub_if_size unat_of_nat_16) (simp add: word_le_nat_alt unat_of_nat_16)
  moreover have "of_nat (length m) - of_nat (k * R) = (of_nat (length m - k * R) :: u16)"
    using k by (simp only: of_nat_diff less_imp_le)
  moreover have "fragment_room ctx = R"
    using assms(1,2) by (simp add: fragment_room_eq R_def)
  ultimately show ?thesis
    unfolding fragment_size_def R_def [symmetric] by (simp only: length_chunk min_def) auto
qed


text \<open>The fragment with index k, ready to be numbered.\<close>

definition fragment_ready ::
    "channel_context \<Rightarrow> nat \<Rightarrow> bytes \<Rightarrow> nat \<Rightarrow> fragment_packet \<Rightarrow> bool" where
  "fragment_ready chan R m k f \<longleftrightarrow>
     messageType f = MSGTYPE_FRAGMENT \<and> messageLength f = of_nat (length (chunk R m k)) \<and>
     (\<forall>n. bzrtp_packetSetSequenceNumber (Some f) n =
        Some (Inr (f\<lparr>sequenceNumber := n, packetString := Some (wire 0x11 n (selfSSRC chan)
          (fragment_bytes (selfMessageSequenceNumber chan) R m k))\<rparr>)))"

lemma make_fragment_at:
  assumes mtu: "24 < mtu ctx" "mtu ctx \<le> 3072" and R: "R = mtu ctx - 24"
    and buf: "buf = x @ m @ c" "length x = 12" and m: "length m < 65536"
    and k: "k < chunks R m"
  shows "\<exists>f. make_fragment env ctx chan buf (of_nat (length m)) (of_nat (k * R)) = Some (Inr f) \<and>
    fragment_ready chan R m k f"
proof -
  have kR: "k * R < length m" using k mtu R by (simp add: chunks_bound)
  let ?c = "chunk R m k"
  have lc: "length ?c \<le> length m" "k * R + length ?c \<le> length m" using kR by (auto simp: length_chunk)
  have size': "fragment_size ctx (of_nat (length m)) (of_nat (k * R)) = of_nat (length ?c)"
    unfolding R using fragment_size_eq [OF mtu m k [unfolded R]] .
  have us: "unat (of_nat (length ?c) :: u16) = length ?c" "unat (of_nat (k * R) :: u16) = k * R"
    using lc kR m by (intro unat_of_nat_16; linarith)+
  have part: "rd_block buf (12 + k * R) (length ?c) = Some ?c"
    using buf lc by (simp add: rd_block_def take_chunk)
  have "length (fresh_buf env (24 + length ?c)) = 12 + (8 + (length ?c + 4))" by simp
  then obtain x0 x1 where x0: "fresh_buf env (24 + length ?c) = x0 @ x1" "length x0 = 12"
    "length x1 = 8 + (length ?c + 4)" by (rule split_at)
  from x0(3) obtain h x2 where h: "x1 = h @ x2" "length h = 8" "length x2 = length ?c + 4"
    by (rule split_at)
  from h(3) obtain y z where y: "x2 = y @ z" "length y = length ?c" "length z = 4" by (rule split_at)
  have w1: "wr_block (fresh_buf env (24 + length ?c)) 20 ?c = Some (x0 @ h @ ?c @ z)"
    using wr_block_at [of "x0 @ h" 20 y ?c z] x0 h y by simp
  define p0 :: fragment_packet where "p0 = (as_fragment (empty_packet MSGTYPE_FRAGMENT
    (selfSSRC chan) NoData))\<lparr>messageLength := of_nat (length ?c),
    packetString := Some (x0 @ h @ ?c @ z)\<rparr>"
  have p0: "messageType p0 = MSGTYPE_FRAGMENT" "sourceIdentifier p0 = selfSSRC chan"
    "packetString p0 = Some (x0 @ h @ ?c @ z)" "messageLength p0 = of_nat (length ?c)"
    by (simp_all add: p0_def as_fragment_def empty_packet_def)
  obtain a where a: "length a = 2" "zrtpPacketSetHeader p0 = Some (p0\<lparr>packetString := Some (
       [0x11, 0] @ a @ [0x5a, 0x52, 0x54, 0x50] @ enc32 (selfSSRC chan) @ h @ ?c @ z)\<rparr>)"
    using set_packet_header [OF p0(3) x0(2)] p0 by auto
  let ?info = "enc16 (selfMessageSequenceNumber chan) @ enc16 (of_nat (length m div 4)) @
    enc16 (fst (fragment_info R m k)) @ enc16 (snd (fragment_info R m k))"
  have w2: "wr_block ([0x11, 0] @ a @ [0x5a, 0x52, 0x54, 0x50] @ enc32 (selfSSRC chan) @ h @ ?c @ z)
      12 ?info = Some ([0x11, 0] @ a @ [0x5a, 0x52, 0x54, 0x50] @ enc32 (selfSSRC chan) @ ?info @ ?c @ z)"
    using wr_block_at [of "[0x11, 0] @ a @ [0x5a, 0x52, 0x54, 0x50] @ enc32 (selfSSRC chan)" 12 h
        ?info "?c @ z"] a(1) h(2) by simp
  let ?f = "p0\<lparr>packetString := Some ([0x11, 0] @ a @ [0x5a, 0x52, 0x54, 0x50] @
    enc32 (selfSSRC chan) @ ?info @ ?c @ z)\<rparr>"
  have shifts: "drop_bit 2 (of_nat (length m) :: u16) = of_nat (length m div 4)"
    "drop_bit 2 (of_nat (k * R) :: u16) = fst (fragment_info R m k)"
    "drop_bit 2 (of_nat (length ?c) :: u16) = snd (fragment_info R m k)"
    using m kR lc by (simp_all only: drop_bit_2_of_nat fragment_info_def fst_conv snd_conv)
  have created: "bzrtp_createZrtpPacket env ctx chan MSGTYPE_FRAGMENT =
      Some (Inr (empty_packet MSGTYPE_FRAGMENT (selfSSRC chan) NoData, ctx))"
    by (simp add: bzrtp_createZrtpPacket_def)
  have "make_fragment env ctx chan buf (of_nat (length m)) (of_nat (k * R)) = Some (Inr ?f)"
    unfolding make_fragment_def created Let_def size' us shifts
    using part w1 a(2) [unfolded p0_def] w2
    by (simp only: Option.bind.simps sum.case prod.case p0_def [symmetric]) (simp add: p0_def)
  moreover have "bzrtp_packetSetSequenceNumber (Some ?f) n =
      Some (Inr (?f\<lparr>sequenceNumber := n, packetString := Some (wire 0x11 n (selfSSRC chan)
        (?info @ ?c))\<rparr>))" for n
    using a(1) y(3) p0 us(1) by (intro set_sequence_number [of ?f _ a _ "?info @ ?c" z]) auto
  ultimately show ?thesis
    using p0 by (intro exI [of _ ?f]) (simp add: fragment_ready_def fragment_bytes_def)
qed


lemma fragment_loop_at:
  assumes mtu: "24 < mtu ctx" "mtu ctx \<le> 3072" and R: "R = mtu ctx - 24"
    and buf: "buf = x @ m @ c" "length x = 12" and m: "length m < 65536"
  shows "k \<le> chunks R m \<Longrightarrow>
    \<exists>fs. fragment_loop env ctx chan buf (of_nat (length m)) (of_nat (min (k * R) (length m))) acc =
           Some (Inr (acc @ fs)) \<and>
         list_all2 (fragment_ready chan R m) [k..<chunks R m] fs"
proof (induction "chunks R m - k" arbitrary: k acc)
  case 0
  then have "k = chunks R m" by simp
  moreover have "\<not> chunks R m * R < length m"
    using chunks_bound [of R "chunks R m" m] mtu R by simp
  ultimately show ?case
    by (subst fragment_loop.simps) (simp add: min_def)
next
  case (Suc d)
  then have k: "k < chunks R m" by simp
  have kR: "k * R < length m" using chunks_bound [of R k m] k mtu R by simp
  let ?n = "of_nat (length m) :: u16" and ?o = "of_nat (k * R) :: u16"
  have lt: "?o < ?n" using kR m by (simp only: word_less_nat_alt unat_of_nat_16)
  obtain f where f: "make_fragment env ctx chan buf ?n ?o = Some (Inr f)" "fragment_ready chan R m k f"
    using make_fragment_at [OF mtu R buf m k] by blast
  have next': "?o + fragment_size ctx ?n ?o = of_nat (min (Suc k * R) (length m))"
  proof -
    have "k * R + length (chunk R m k) = min (Suc k * R) (length m)"
      using kR by (auto simp: length_chunk min_def)
    then show ?thesis
      using fragment_size_eq [OF mtu m k [unfolded R]]
      unfolding R [symmetric] by (metis of_nat_add)
  qed
  have d: "d = chunks R m - Suc k" and k': "Suc k \<le> chunks R m" using Suc.hyps(2) k by simp_all
  obtain fs where fs: "fragment_loop env ctx chan buf ?n (of_nat (min (Suc k * R) (length m)))
      (acc @ [f]) = Some (Inr ((acc @ [f]) @ fs))"
    "list_all2 (fragment_ready chan R m) [Suc k..<chunks R m] fs"
    using Suc.hyps(1) [OF d k', of "acc @ [f]"] by blast
  have "fragment_loop env ctx chan buf ?n ?o acc = Some (Inr (acc @ (f # fs)))"
    using lt f(1) fs(1) by (subst fragment_loop.simps) (simp only: next', simp)
  moreover have "[k..<chunks R m] = k # [Suc k..<chunks R m]" using k by (simp add: upt_conv_Cons)
  ultimately show ?case using kR f(2) fs(2) by (intro exI [of _ "f # fs"]) (simp add: min_def)
qed

lemma length_fragment_bytes: "length (fragment_bytes mid R m k) = 8 + length (chunk R m k)"
  by (simp add: fragment_bytes_def)

lemma send_fragments_at:
  assumes "list_all2 (fragment_ready chan R m) ks fs" and "length m < 65536"
  shows "\<exists>ns fs' n'. length ns = length ks \<and> send_fragments (\<lambda>_. 0) n fs =
    Some (0, map2 (\<lambda>k j. wire 0x11 j (selfSSRC chan)
       (fragment_bytes (selfMessageSequenceNumber chan) R m k)) ks ns, fs', n')"
  using assms
proof (induction ks fs arbitrary: n rule: list_all2_induct)
  case Nil
  then show ?case by simp
next
  case (Cons k ks f fs)
  let ?w = "wire 0x11 n (selfSSRC chan) (fragment_bytes (selfMessageSequenceNumber chan) R m k)"
  obtain ns fs' n' where IH: "length ns = length ks" "send_fragments (\<lambda>_. 0) (n + 1) fs =
    Some (0, map2 (\<lambda>k j. wire 0x11 j (selfSSRC chan)
       (fragment_bytes (selfMessageSequenceNumber chan) R m k)) ks ns, fs', n')"
    using Cons.IH [OF Cons.prems, of "n + 1"] by blast
  have f: "bzrtp_packetSetSequenceNumber (Some f) n =
      Some (Inr (f\<lparr>sequenceNumber := n, packetString := Some ?w\<rparr>))"
    "messageLength f = of_nat (length (chunk R m k))"
    using Cons.hyps(1) by (simp_all add: fragment_ready_def)
  have "unat (messageLength f) = length (chunk R m k)"
    using f(2) Cons.prems by (simp add: length_chunk unat_of_nat_16)
  then have "rd_block ?w 0 (unat (messageLength f) + 24) = Some ?w"
    by (simp add: rd_block_def length_fragment_bytes)
  then show ?case
    using f IH by (intro exI [of _ "n # ns"]) auto
qed

section \<open>Receiving\<close>

definition reassembling ::
    "u16 \<Rightarrow> nat \<Rightarrow> bytes \<Rightarrow> nat set \<Rightarrow> bytes \<Rightarrow> fragment_reassembly \<Rightarrow> bool" where
  "reassembling mid R m S b ra \<longleftrightarrow>
     r_messageId ra = mid \<and> r_packetString ra = Some b \<and> length b = 16 + length m \<and>
     (\<forall>k\<in>S. rd_block b (12 + k * R) (length (chunk R m k)) = Some (chunk R m k)) \<and>
     sorted_wrt (<) (map fst (r_fragments ra)) \<and> set (r_fragments ra) = fragment_info R m ` S"

lemma start_reassembling:
  assumes "4 dvd length m" and "length m < 65536"
  shows "\<exists>b. reassembling mid R m {} b (start_reassembly env mid (of_nat (length m div 4)))"
proof -
  have "unat (of_nat (length m div 4) :: u16) = length m div 4"
    using assms(2) by (intro unat_of_nat_16) simp
  then show ?thesis
    using assms(1) by (simp add: reassembling_def start_reassembly_def)
qed

lemma fragment_info_inj:
  assumes "0 < R" and "4 dvd R" and "length m < 65536" and "j < chunks R m" and "k < chunks R m"
    and "fst (fragment_info R m j) = fst (fragment_info R m k)"
  shows "j = k"
proof -
  have lt: "j * R < length m" "k * R < length m" using assms by (simp_all add: chunks_bound)
  obtain r where r: "R = 4 * r" using assms(2) by blast
  have "(of_nat (j * R div 4) :: u16) = of_nat (k * R div 4)"
    using assms(6) by (simp only: fragment_info_def fst_conv)
  then have "unat (of_nat (j * R div 4) :: u16) = unat (of_nat (k * R div 4) :: u16)" by simp
  then have "j * R div 4 = k * R div 4"
    using lt assms(3) by (simp only: unat_of_nat_16 div_le_dividend [THEN le_less_trans])
  then show ?thesis using r assms(1) by simp
qed

lemma store_fragment_at:
  assumes R: "0 < R" "4 dvd R" and m: "4 dvd length m" "length m < 65536"
    and k: "k < chunks R m" "k \<notin> S" and S: "S \<subseteq> {..<chunks R m}"
    and ra: "reassembling mid R m S b ra"
  shows "\<exists>b' ra'. store_fragment (wire 0x11 n ssrc (fragment_bytes mid R m k))
      (24 + length (chunk R m k)) (fst (fragment_info R m k)) (snd (fragment_info R m k)) ra =
      Some ra' \<and> reassembling mid R m (insert k S) b' ra'"
proof -
  note c = chunk_nonempty [OF R m(1) k(1)]
  have sorted: "sorted_wrt (<) (map fst (r_fragments ra))"
    and set': "set (r_fragments ra) = fragment_info R m ` S"
    and b: "r_packetString ra = Some b" "length b = 16 + length m"
    and old: "\<And>j. j \<in> S \<Longrightarrow> rd_block b (12 + j * R) (length (chunk R m j)) = Some (chunk R m j)"
    using ra by (auto simp: reassembling_def)
  have "fst (fragment_info R m k) \<notin> fst ` set (r_fragments ra)"
    using fragment_info_inj [OF R m(2) _ k(1)] S k(2) unfolding set' by fastforce
  then obtain fs where fs: "insert_fragment (fst (fragment_info R m k)) (snd (fragment_info R m k))
      (r_fragments ra) = Some fs"
    using insert_fragment_None [OF sorted] by (metis not_None_eq)
  have part: "rd_block (wire 0x11 n ssrc (fragment_bytes mid R m k)) 20 (24 + length (chunk R m k) - 24)
      = Some (chunk R m k)"
    by (subst rd_block_wire) (simp_all add: length_fragment_bytes, simp add: fragment_bytes_def rd_block_def)
  have uo: "unat (fst (fragment_info R m k)) * 4 = k * R"
  proof -
    have "unat (fst (fragment_info R m k)) = k * R div 4"
      unfolding fragment_info_def fst_conv using c(4) m(2) by (intro unat_of_nat_16) linarith
    then show ?thesis using R(2) by (simp add: dvd_div_mult_self)
  qed
  obtain b' where b': "wr_block b (12 + k * R) (chunk R m k) = Some b'"
    using c(4) b(2) wr_block_defined [of "12 + k * R" "chunk R m k" b] by auto
  have "rd_block b' (12 + j * R) (length (chunk R m j)) = Some (chunk R m j)"
    if j: "j \<in> insert k S" for j
  proof -
    have le: "length (chunk R m j) \<le> R" by (simp add: length_chunk)
    consider "j = k" | "j < k" "j \<in> S" | "k < j" "j \<in> S" using j by force
    then show ?thesis
    proof cases
      case 1
      then show ?thesis using rd_wr_same [OF b'] by simp
    next
      case 2
      then have "Suc j * R \<le> k * R" by (intro mult_le_mono1) simp
      then have "12 + j * R + length (chunk R m j) \<le> 12 + k * R" using le by simp
      then show ?thesis using rd_wr_before [OF b'] old [OF 2(2)] by simp
    next
      case 3
      then have "Suc k * R \<le> j * R" by (intro mult_le_mono1) simp
      then have "12 + k * R + length (chunk R m k) \<le> 12 + j * R" using c(3) by simp
      then show ?thesis using rd_wr_after [OF b'] old [OF 3(2)] by simp
    qed
  qed
  moreover have "sorted_wrt (<) (map fst fs)" "set fs = fragment_info R m ` insert k S"
    using insert_fragment_Some [OF sorted fs] set' by auto
  moreover have "length b' = 16 + length m" using wr_block_length [OF b'] b(2) by simp
  ultimately have "reassembling mid R m (insert k S) b' (ra\<lparr>r_fragments := fs, r_packetString := Some b'\<rparr>)"
    using ra by (simp add: reassembling_def)
  moreover have "store_fragment (wire 0x11 n ssrc (fragment_bytes mid R m k))
      (24 + length (chunk R m k)) (fst (fragment_info R m k)) (snd (fragment_info R m k)) ra =
      Some (ra\<lparr>r_fragments := fs, r_packetString := Some b'\<rparr>)"
    using fs b(1) part b' uo by (simp add: store_fragment_def mult.commute)
  ultimately show ?thesis by blast
qed


text \<open>The message is complete exactly when every fragment has arrived.\<close>

lemma received_all_iff:
  assumes R: "0 < R" "4 dvd R" and m: "4 dvd length m" "length m < 65536"
    and S: "S \<subseteq> {..<chunks R m}" and ra: "reassembling mid R m S b ra"
  shows "received_length (r_fragments ra) = of_nat (length m div 4) \<longleftrightarrow> S = {..<chunks R m}"
proof -
  define L where "L k = length (chunk R m k) div 4" for k
  have fin: "finite S" using S finite_subset by blast
  have inj: "inj_on (fragment_info R m) S"
    using fragment_info_inj [OF R m(2)] S by (metis inj_onI lessThan_iff subsetD)
  have pos: "0 < L k" if "k < chunks R m" for k
    using chunk_nonempty(1) [OF R m(1) that] by (simp add: L_def)
  have "(\<Sum>k<chunks R m. length (chunk R m k)) = (\<Sum>k<chunks R m. 4 * L k)"
    using chunk_nonempty(2) [OF R m(1)] by (intro sum.cong) (auto simp: L_def dvd_mult_div_cancel)
  then have all: "(\<Sum>k<chunks R m. L k) = length m div 4"
    using all_chunk_lengths [OF R(1), of m] by (simp add: sum_distrib_left [symmetric])
  have le: "sum L S \<le> length m div 4"
    unfolding all [symmetric] using S by (intro sum_mono2) auto
  have "received_length (r_fragments ra) = (\<Sum>f\<in>fragment_info R m ` S. snd f)"
    using received_length_sum [OF sorted_fst_distinct] ra by (simp add: reassembling_def)
  also have "\<dots> = (\<Sum>k\<in>S. of_nat (L k))"
    by (simp only: sum.reindex [OF inj] comp_def) (simp add: fragment_info_def L_def)
  finally have "received_length (r_fragments ra) = of_nat (sum L S)" by simp
  then have "received_length (r_fragments ra) = of_nat (length m div 4) \<longleftrightarrow>
      (of_nat (sum L S) :: u16) = of_nat (length m div 4)" by simp
  also have "\<dots> \<longleftrightarrow> sum L S = length m div 4"
    using le m(2) by (simp only: word_unat_eq_iff unat_of_nat_16 le_less_trans [OF le]
        div_le_dividend [THEN le_less_trans])
  also have "\<dots> \<longleftrightarrow> S = {..<chunks R m}"
  proof
    assume eq: "sum L S = length m div 4"
    have "sum L ({..<chunks R m} - S) = 0"
      using eq all S fin by (simp add: sum_diff_nat)
    then have "{..<chunks R m} - S = {}" using pos by fastforce
    then show "S = {..<chunks R m}" using S by blast
  next
    assume "S = {..<chunks R m}"
    then show "sum L S = length m div 4" using all by simp
  qed
  finally show ?thesis .
qed

lemma rd16_fragment:
  assumes "w = wire f n ssrc (fragment_bytes mid R m k)"
  shows "rd16 w 12 = Some mid" "rd16 w 14 = Some (of_nat (length m div 4))"
    "rd16 w 16 = Some (fst (fragment_info R m k))" "rd16 w 18 = Some (snd (fragment_info R m k))"
  unfolding assms
  by (subst rd16_wire_body; simp add: length_fragment_bytes;
      simp add: fragment_bytes_def rd16_def rd8_def enc16_def)+

definition pending :: "u16 \<Rightarrow> nat \<Rightarrow> bytes \<Rightarrow> nat set \<Rightarrow> channel_context \<Rightarrow> bool" where
  "pending mid R m S chan \<longleftrightarrow>
     S = {} \<and> r_messageId (incomingFragmentedPacket chan) < mid \<or>
     (\<exists>b. reassembling mid R m S b (incomingFragmentedPacket chan))"

lemma check_fragment_at:
  assumes R: "0 < R" "4 dvd R" and m: "4 dvd length m" "length m + 16 < 65536"
    and k: "k < chunks R m" "k \<notin> S" and S: "S \<subseteq> {..<chunks R m}"
    and pend: "pending mid R m S chan"
    and w: "w = wire 0x11 n ssrc (fragment_bytes mid R m k)" "len = 24 + length (chunk R m k)"
  shows "insert k S \<noteq> {..<chunks R m} \<Longrightarrow>
    \<exists>chan'. check_fragment env chan w len = Some (Inl BZRTP_PARSER_INFO_PACKETFRAGMENT, chan') \<and>
      pending mid R m (insert k S) chan'"
    and "insert k S = {..<chunks R m} \<Longrightarrow>
    \<exists>b chan'. check_fragment env chan w len = Some (Inr (b, length m + 16), chan') \<and>
      length b = 16 + length m \<and> take (length m) (drop 12 b) = m \<and>
      r_messageId (incomingFragmentedPacket chan') = 0 \<and>
      r_fragments (incomingFragmentedPacket chan') = []"
proof -
  have m16: "length m < 65536" using m(2) by simp
  define ra where "ra = (if r_messageId (incomingFragmentedPacket chan) < mid
    then start_reassembly env mid (of_nat (length m div 4)) else incomingFragmentedPacket chan)"
  have notold: "\<not> r_messageId (incomingFragmentedPacket chan) > mid"
    using pend by (auto simp: pending_def reassembling_def)
  have "\<exists>b. reassembling mid R m S b ra"
    using pend start_reassembling [OF m(1) m16] unfolding pending_def ra_def
    by (auto simp: reassembling_def)
  then obtain b0 where "reassembling mid R m S b0 ra" by blast
  from store_fragment_at [OF R m(1) m16 k S this] obtain b ra' where
    st: "store_fragment w len (fst (fragment_info R m k)) (snd (fragment_info R m k)) ra = Some ra'"
    and ra': "reassembling mid R m (insert k S) b ra'"
    unfolding w by blast
  have S': "insert k S \<subseteq> {..<chunks R m}" using k S by simp
  note done' = received_all_iff [OF R m(1) m16 S' ra']
  note hdr = rd16_fragment [OF w(1)]
  have unfold: "check_fragment env chan w len =
      (if received_length (r_fragments ra') = of_nat (length m div 4) then
         Some (Inr (b, unat (of_nat (16 + unat (of_nat (length m div 4) :: u16) * 4) :: u16)),
           chan\<lparr>incomingFragmentedPacket := ra'\<lparr>r_fragments := [], r_messageId := 0\<rparr>\<rparr>)
       else Some (Inl BZRTP_PARSER_INFO_PACKETFRAGMENT, chan\<lparr>incomingFragmentedPacket := ra'\<rparr>))"
    using hdr notold st ra' unfolding check_fragment_def ra_def [symmetric] Let_def
    by (simp add: ra_def [symmetric] reassembling_def)
  show "\<exists>chan'. check_fragment env chan w len = Some (Inl BZRTP_PARSER_INFO_PACKETFRAGMENT, chan') \<and>
      pending mid R m (insert k S) chan'" if "insert k S \<noteq> {..<chunks R m}"
    using unfold done' that ra' by (auto simp: pending_def)
  show "\<exists>b chan'. check_fragment env chan w len = Some (Inr (b, length m + 16), chan') \<and>
      length b = 16 + length m \<and> take (length m) (drop 12 b) = m \<and>
      r_messageId (incomingFragmentedPacket chan') = 0 \<and>
      r_fragments (incomingFragmentedPacket chan') = []" if all: "insert k S = {..<chunks R m}"
  proof -
    have u: "unat (of_nat (length m div 4) :: u16) * 4 = length m"
      using m m16 by (simp add: unat_of_nat_16 dvd_div_mult_self)
    have "unat (of_nat (16 + unat (of_nat (length m div 4) :: u16) * 4) :: u16) = length m + 16"
      unfolding u using m(2) by (subst unat_of_nat_16) simp_all
    moreover have "length b = 16 + length m" using ra' by (simp add: reassembling_def)
    moreover have "take (length m) (drop 12 b) = m"
      using ra' all by (intro chunks_cover [OF R(1)]) (auto simp: reassembling_def)
    ultimately show ?thesis using unfold done' all by auto
  qed
qed

end
