(* ===== verification/Bzrtp_Hello.thy ===== *)
theory Bzrtp_Hello
  imports Bzrtp_Wire
begin

text \<open>
  The Hello message from one end to the other: the names of the algorithms, the counters and
  flags in the four bytes before them, and the parser on the bytes of a built Hello.
\<close>

section \<open>Algorithm names\<close>

definition known_algo :: "algo_family \<Rightarrow> u8 \<Rightarrow> bool" where
  "known_algo fam a \<longleftrightarrow> a \<in> snd ` set (algo_names fam)"

lemma algo_tables:
  "list_all (\<lambda>a. bzrtp_cryptoAlgoTypeStringToInt (bzrtp_cryptoAlgoTypeIntToString a) fam = a)
     (map snd (algo_names fam))"
  by (cases fam) (simp only:, code_simp)+

lemma algo_name_roundtrip:
  "known_algo fam a \<Longrightarrow>
   bzrtp_cryptoAlgoTypeStringToInt (bzrtp_cryptoAlgoTypeIntToString a) fam = a"
  using algo_tables [of fam] by (auto simp: known_algo_def list_all_iff)

lemma length_algo_name [simp]: "length (bzrtp_cryptoAlgoTypeIntToString a) = 4"
proof -
  have "list_all (\<lambda>e. length (snd e) = 4) algo_strings" by code_simp
  then show ?thesis
    by (auto simp: bzrtp_cryptoAlgoTypeIntToString_def list_all_iff dest!: map_of_SomeD
        split: option.split)
qed

lemma fields_append [simp]:
  "fields_ok (fs @ gs) \<longleftrightarrow> fields_ok fs \<and> fields_ok gs"
  "fields_bytes (fs @ gs) = fields_bytes fs @ fields_bytes gs"
  "fields_length (fs @ gs) = fields_length fs + fields_length gs"
  by (simp_all add: fields_ok_def fields_bytes_def fields_length_def)

lemma fields_Nil [simp]: "fields_ok []" "fields_bytes [] = []" "fields_length [] = 0"
  by (simp_all add: fields_ok_def fields_bytes_def fields_length_def)

lemma fields_Cons [simp]:
  "fields_ok (f # fs) \<longleftrightarrow> snd f \<le> length (fst f) \<and> fields_ok fs"
  "fields_bytes (f # fs) = take (snd f) (fst f) @ fields_bytes fs"
  "fields_length (f # fs) = snd f + fields_length fs"
  by (simp_all add: fields_ok_def fields_bytes_def fields_length_def)

lemma algo_fields_simps [simp]:
  "algo_fields [] = []"
  "algo_fields (a # as) = (bzrtp_cryptoAlgoTypeIntToString a, 4) # algo_fields as"
  by (simp_all add: algo_fields_def)

lemma algo_fields_ok [simp]: "fields_ok (algo_fields as)"
  by (induction as) simp_all

lemma algo_fields_length [simp]: "fields_length (algo_fields as) = 4 * length as"
  by (induction as) simp_all

lemma algo_bytes_length [simp]: "length (fields_bytes (algo_fields as)) = 4 * length as"
  by (induction as) simp_all

lemma read_algos_at:
  assumes "list_all (known_algo fam) as" and "length p = pos"
  shows "read_algos (p @ fields_bytes (algo_fields as) @ r) fam (length as) pos = Some as"
  using assms
proof (induction as arbitrary: p pos)
  case Nil
  then show ?case by simp
next
  case (Cons a as)
  let ?n = "bzrtp_cryptoAlgoTypeIntToString a"
  have "read_algos ((p @ ?n) @ fields_bytes (algo_fields as) @ r) fam (length as) (pos + 4) = Some as"
    using Cons.prems by (intro Cons.IH) auto
  moreover have "rd_block (p @ ?n @ fields_bytes (algo_fields as) @ r) pos 4 = Some ?n"
    using Cons.prems(2) by (intro rd_block_at) auto
  ultimately show ?case
    using Cons.prems(1) by (simp add: algo_name_roundtrip)
qed

section \<open>Counters and flags\<close>

lemma counter_table:
  "list_all (\<lambda>a. list_all (\<lambda>b.
     nibble_count (drop_bit 4 ((push_bit 4 (of_nat a) AND 0xF0) OR (of_nat b AND 0x0F))) = a \<and>
     nibble_count ((push_bit 4 (of_nat a) AND 0xF0) OR (of_nat b AND 0x0F)) = b \<and>
     nibble_count (of_nat a AND 0x0F) = a) [0..<8]) [0..<8]"
  by code_simp

lemma counters:
  assumes "a \<le> 7" and "b \<le> 7"
  shows "nibble_count (drop_bit 4 ((push_bit 4 (of_nat a) AND 0xF0) OR (of_nat b AND 0x0F))) = a"
    and "nibble_count ((push_bit 4 (of_nat a) AND 0xF0) OR (of_nat b AND 0x0F)) = b"
    and "nibble_count (of_nat a AND 0x0F) = a"
proof -
  have "a \<in> set [0..<8]" "b \<in> set [0..<8]" using assms by auto
  then show "nibble_count (drop_bit 4 ((push_bit 4 (of_nat a) AND 0xF0) OR (of_nat b AND 0x0F))) = a"
    "nibble_count ((push_bit 4 (of_nat a) AND 0xF0) OR (of_nat b AND 0x0F)) = b"
    "nibble_count (of_nat a AND 0x0F) = a"
    using counter_table unfolding list_all_iff by blast+
qed

lemma hello_flags:
  fixes S M P :: u8
  defines "f \<equiv> (push_bit 6 (S AND 1) OR push_bit 5 (M AND 1) OR push_bit 4 (P AND 1)) AND 0x70"
  shows "drop_bit 6 f AND 1 = S AND 1" and "drop_bit 5 f AND 1 = M AND 1"
    and "drop_bit 4 f AND 1 = P AND 1"
proof -
  have m: "(0x70 :: u8) = push_bit 4 (mask 3)" "(1 :: u8) = mask 1"
    by (simp_all add: mask_eq_exp_minus_1 push_bit_eq_mult)
  show "drop_bit 6 f AND 1 = S AND 1" "drop_bit 5 f AND 1 = M AND 1" "drop_bit 4 f AND 1 = P AND 1"
    unfolding f_def m by (rule bit_word_eqI; auto simp: bit_simps)+
qed

section \<open>Building and parsing\<close>

text \<open>The sizes of the C arrays, and algorithm lists that the tables know.\<close>

definition hello_wf :: "hello_message \<Rightarrow> bool" where
  "hello_wf h \<longleftrightarrow> length (h_version h) = 4 \<and> length (h_clientIdentifier h) = 17 \<and>
     length (h_H3 h) = 32 \<and> length (h_ZID h) = 12 \<and>
     length (h_supportedHash h) \<le> 7 \<and> length (h_supportedCipher h) \<le> 7 \<and>
     length (h_supportedAuthTag h) \<le> 7 \<and> length (h_supportedKeyAgreement h) \<le> 7 \<and>
     length (h_supportedSas h) \<le> 7 \<and>
     list_all (known_algo ZRTP_HASH_TYPE) (h_supportedHash h) \<and>
     list_all (known_algo ZRTP_CIPHERBLOCK_TYPE) (h_supportedCipher h) \<and>
     list_all (known_algo ZRTP_AUTHTAG_TYPE) (h_supportedAuthTag h) \<and>
     list_all (known_algo ZRTP_KEYAGREEMENT_TYPE) (h_supportedKeyAgreement h) \<and>
     list_all (known_algo ZRTP_SAS_TYPE) (h_supportedSas h)"

definition algo_count :: "hello_message \<Rightarrow> nat" where
  "algo_count h = length (h_supportedHash h) + length (h_supportedCipher h) +
     length (h_supportedAuthTag h) + length (h_supportedKeyAgreement h) + length (h_supportedSas h)"

text \<open>What the receiver of a Hello gets: every list with the mandatory algorithms added.\<close>

definition received_hello :: "hello_message \<Rightarrow> bytes \<Rightarrow> hello_message" where
  "received_hello h mac = h\<lparr>
     h_clientIdentifier := take 16 (h_clientIdentifier h) @ [0],
     h_S := h_S h AND 1, h_M := h_M h AND 1, h_P := h_P h AND 1,
     h_supportedHash := bzrtp_addMandatoryCryptoTypesIfNeeded ZRTP_HASH_TYPE (h_supportedHash h),
     h_supportedCipher :=
       bzrtp_addMandatoryCryptoTypesIfNeeded ZRTP_CIPHERBLOCK_TYPE (h_supportedCipher h),
     h_supportedAuthTag :=
       bzrtp_addMandatoryCryptoTypesIfNeeded ZRTP_AUTHTAG_TYPE (h_supportedAuthTag h),
     h_supportedKeyAgreement :=
       bzrtp_addMandatoryCryptoTypesIfNeeded ZRTP_KEYAGREEMENT_TYPE (h_supportedKeyAgreement h),
     h_supportedSas := bzrtp_addMandatoryCryptoTypesIfNeeded ZRTP_SAS_TYPE (h_supportedSas h),
     h_MAC := mac\<rparr>"

lemma hello_wf_counts:
  "hello_wf h \<Longrightarrow> length (h_supportedHash h) \<le> 7 \<and> length (h_supportedCipher h) \<le> 7 \<and>
     length (h_supportedAuthTag h) \<le> 7 \<and> length (h_supportedKeyAgreement h) \<le> 7 \<and>
     length (h_supportedSas h) \<le> 7"
  by (simp add: hello_wf_def)

lemma hello_fields_ok: "hello_wf h \<Longrightarrow> fields_ok (hello_fields h)"
  by (simp add: hello_fields_def hello_wf_def)

lemma hello_fields_length: "fields_length (hello_fields h) = 68 + 4 * algo_count h"
  by (simp add: hello_fields_def algo_count_def)

lemma algo_count_le: "hello_wf h \<Longrightarrow> algo_count h \<le> 35"
  using hello_wf_counts [of h] by (simp add: algo_count_def)

text \<open>The parser on the content of a Hello, wherever the bytes before and behind come from.\<close>

lemma hello_algos_at:
  fixes pre hs cs as ks ss
  defines "H \<equiv> fields_bytes (algo_fields hs)" and "C \<equiv> fields_bytes (algo_fields cs)"
    and "A \<equiv> fields_bytes (algo_fields as)" and "K \<equiv> fields_bytes (algo_fields ks)"
    and "S \<equiv> fields_bytes (algo_fields ss)"
  assumes pre: "length pre = 92" and mac: "length mac = 8"
    and input: "input = pre @ H @ C @ A @ K @ S @ mac @ post"
    and known: "list_all (known_algo ZRTP_HASH_TYPE) hs" "list_all (known_algo ZRTP_CIPHERBLOCK_TYPE) cs"
      "list_all (known_algo ZRTP_AUTHTAG_TYPE) as" "list_all (known_algo ZRTP_KEYAGREEMENT_TYPE) ks"
      "list_all (known_algo ZRTP_SAS_TYPE) ss"
  shows "read_algos input ZRTP_HASH_TYPE (length hs) 92 = Some hs"
    "read_algos input ZRTP_CIPHERBLOCK_TYPE (length cs) (92 + 4 * length hs) = Some cs"
    "read_algos input ZRTP_AUTHTAG_TYPE (length as) (92 + 4 * (length hs + length cs)) = Some as"
    "read_algos input ZRTP_KEYAGREEMENT_TYPE (length ks) (92 + 4 * (length hs + length cs + length as)) = Some ks"
    "read_algos input ZRTP_SAS_TYPE (length ss) (92 + 4 * (length hs + length cs + length as + length ks)) = Some ss"
    "rd_block input (92 + 4 * (length hs + length cs + length as + length ks + length ss)) 8 = Some mac"
proof -
  note defs = H_def C_def A_def K_def S_def
  show "read_algos input ZRTP_HASH_TYPE (length hs) 92 = Some hs"
    using read_algos_at [OF known(1), of pre 92 "C @ A @ K @ S @ mac @ post"] pre by (simp add: input defs)
  show "read_algos input ZRTP_CIPHERBLOCK_TYPE (length cs) (92 + 4 * length hs) = Some cs"
    using read_algos_at [OF known(2), of "pre @ H" _ "A @ K @ S @ mac @ post"] pre by (simp add: input defs)
  show "read_algos input ZRTP_AUTHTAG_TYPE (length as) (92 + 4 * (length hs + length cs)) = Some as"
    using read_algos_at [OF known(3), of "pre @ H @ C" _ "K @ S @ mac @ post"] pre
    by (simp add: input defs algebra_simps)
  show "read_algos input ZRTP_KEYAGREEMENT_TYPE (length ks) (92 + 4 * (length hs + length cs + length as)) = Some ks"
    using read_algos_at [OF known(4), of "pre @ H @ C @ A" _ "S @ mac @ post"] pre
    by (simp add: input defs algebra_simps)
  show "read_algos input ZRTP_SAS_TYPE (length ss) (92 + 4 * (length hs + length cs + length as + length ks)) = Some ss"
    using read_algos_at [OF known(5), of "pre @ H @ C @ A @ K" _ "mac @ post"] pre
    by (simp add: input defs algebra_simps)
  show "rd_block input (92 + 4 * (length hs + length cs + length as + length ks + length ss)) 8 = Some mac"
    using rd_block_at [of "pre @ H @ C @ A @ K @ S" _ mac 8 post] pre mac by (simp add: input defs algebra_simps)
qed

lemma parse_hello_at:
  assumes wf: "hello_wf h" and "length pre = 24" and "length mac = 8"
    and input: "input = pre @ fields_bytes (hello_fields h) @ mac @ post"
    and "inputLength \<le> length input"
    and "unat (messageLength p) = 88 + 4 * algo_count h"
    and hash: "check_hello_hash env chan input inputLength = Some True"
  shows "parse_hello env chan input inputLength p =
    Some (Inr (p\<lparr>messageData := HelloData (received_hello h mac),
                 packetString := Some (take inputLength input)\<rparr>))"
proof -
  let ?H = "fields_bytes (algo_fields (h_supportedHash h))"
  let ?C = "fields_bytes (algo_fields (h_supportedCipher h))"
  let ?A = "fields_bytes (algo_fields (h_supportedAuthTag h))"
  let ?K = "fields_bytes (algo_fields (h_supportedKeyAgreement h))"
  let ?S = "fields_bytes (algo_fields (h_supportedSas h))"
  define fb :: u8 where "fb = (push_bit 6 (h_S h AND 1) OR push_bit 5 (h_M h AND 1) OR
    push_bit 4 (h_P h AND 1)) AND 0x70"
  define b1 :: u8 where "b1 = of_nat (length (h_supportedHash h)) AND 0x0F"
  define b2 :: u8 where "b2 = (push_bit 4 (of_nat (length (h_supportedCipher h))) AND 0xF0) OR
          (of_nat (length (h_supportedAuthTag h)) AND 0x0F)"
  define b3 :: u8 where "b3 = (push_bit 4 (of_nat (length (h_supportedKeyAgreement h))) AND 0xF0) OR
          (of_nat (length (h_supportedSas h)) AND 0x0F)"
  have in1: "input = pre @ h_version h @ take 16 (h_clientIdentifier h) @ h_H3 h @ h_ZID h @
      [fb, b1, b2, b3] @ ?H @ ?C @ ?A @ ?K @ ?S @ mac @ post"
    using wf input by (simp add: hello_fields_def hello_wf_def fb_def b1_def b2_def b3_def)
  have sizes: "length (h_version h) = 4" "length (take 16 (h_clientIdentifier h)) = 16"
    "length (h_H3 h) = 32" "length (h_ZID h) = 12"
    using wf by (auto simp: hello_wf_def)
  note cnt = hello_wf_counts [OF wf]
  have counts: "nibble_count b1 = length (h_supportedHash h)"
    "nibble_count (drop_bit 4 b2) = length (h_supportedCipher h)"
    "nibble_count b2 = length (h_supportedAuthTag h)"
    "nibble_count (drop_bit 4 b3) = length (h_supportedKeyAgreement h)"
    "nibble_count b3 = length (h_supportedSas h)"
    using cnt unfolding b1_def b2_def b3_def by (blast intro: counters)+
  have flags: "drop_bit 6 fb AND 1 = h_S h AND 1" "drop_bit 5 fb AND 1 = h_M h AND 1"
    "drop_bit 4 fb AND 1 = h_P h AND 1"
    unfolding fb_def by (rule hello_flags)+
  let ?p0 = "pre @ h_version h @ take 16 (h_clientIdentifier h) @ h_H3 h @ h_ZID h @ [fb, b1, b2, b3]"
  have r1: "rd_block input 24 4 = Some (h_version h)" "rd_block input 28 16 =
      Some (take 16 (h_clientIdentifier h))" "rd_block input 44 32 = Some (h_H3 h)"
      "rd_block input 76 12 = Some (h_ZID h)"
    unfolding in1 using assms(2) sizes by (simp_all add: rd_block_def)
  have r2: "rd8 input 88 = Some fb" "rd8 input 89 = Some b1" "rd8 input 90 = Some b2"
      "rd8 input 91 = Some b3"
    unfolding in1 using assms(2) sizes by (simp_all add: rd8_def nth_append)
  have known: "list_all (known_algo ZRTP_HASH_TYPE) (h_supportedHash h)"
     "list_all (known_algo ZRTP_CIPHERBLOCK_TYPE) (h_supportedCipher h)"
     "list_all (known_algo ZRTP_AUTHTAG_TYPE) (h_supportedAuthTag h)"
     "list_all (known_algo ZRTP_KEYAGREEMENT_TYPE) (h_supportedKeyAgreement h)"
     "list_all (known_algo ZRTP_SAS_TYPE) (h_supportedSas h)"
    using wf by (auto simp: hello_wf_def)
  have p0: "length ?p0 = 92" using assms(2) sizes by simp
  have in2: "input = ?p0 @ ?H @ ?C @ ?A @ ?K @ ?S @ mac @ post" by (simp add: in1)
  show ?thesis
    using hash r1 r2 hello_algos_at [OF p0 assms(3) in2 known] assms(5,6)
    by (simp add: parse_hello_def counts flags algo_count_def received_hello_def Let_def add.assoc)
qed

end
