(* ===== verification/Bzrtp_Exchange.thy ===== *)
theory Bzrtp_Exchange
  imports Bzrtp_Hello
begin

text \<open>
  Whole exchanges between two endpoints: the Hello, the Commit that reveals the key of its MAC,
  and the encrypted Confirm, each created, built, numbered, checked and parsed by the functions
  of the source.
\<close>

section \<open>A message with a MAC\<close>

text \<open>
  Hello, Commit and DHPart have the same shape: fields, then a MAC over the message so far.
  Together the next lemmas say what is sent and that it is checked and split back.
\<close>

lemma built_fields:
  assumes env: "env_ok env" and ok: "fields_ok fs" and ulen: "unat len = 20 + fields_length fs"
    and name: "messageTypeInttoString (messageType p) = Some name"
    and body: "build_message env chan p = do {
      p \<leftarrow> write_content env p len fs; Some (Inr (p, Some (24 + fields_length fs, key))) }"
    and fits: "unat (len + 16) \<le> mtu ctx"
  shows "\<exists>p' mac. bzrtp_packetBuild env ctx chan (Some p) = Some (Inr (p', chan)) \<and>
    length mac = 8 \<and> mac = hmacSha256 env key (message_header len name @ fields_bytes fs) 8 \<and>
    fragments p' = fragments p \<and> messageLength p' = len \<and>
    (\<forall>n. bzrtp_packetSetSequenceNumber (Some p') n =
       Some (Inr (p'\<lparr>sequenceNumber := n, packetString := Some (wire 0x10 n (sourceIdentifier p)
         (message_header len name @ fields_bytes fs @ mac))\<rparr>)))"
proof -
  note lc = length_fields_bytes [OF ok]
  have "unat len = 12 + fields_length fs + 8" using ulen by simp
  from write_content_at [OF ok this] obtain x y where x: "length x = 24" and y: "length y = 8 + 4"
    and w: "write_content env p len fs =
       Some (p\<lparr>messageLength := len, packetString := Some (x @ fields_bytes fs @ y)\<rparr>)"
    by blast
  let ?mac = "Some (24 + length (fields_bytes fs), key)"
  have body': "build_message env chan p =
      Some (Inr (p\<lparr>messageLength := len, packetString := Some (x @ fields_bytes fs @ y)\<rparr>, ?mac))"
    using w body lc by simp
  have mac': "?mac = None \<and> (8 :: nat) = 0 \<or> ?mac = Some (24 + length (fields_bytes fs), key) \<and>
      (8 :: nat) = 8" by simp
  have ulen': "unat len = 12 + length (fields_bytes fs) + 8" using ulen lc by simp
  obtain p' where p': "bzrtp_packetBuild env ctx chan (Some p) = Some (Inr (p', chan))"
    "fragments p' = fragments p" "messageLength p' = len"
    "\<And>n. bzrtp_packetSetSequenceNumber (Some p') n =
       Some (Inr (p'\<lparr>sequenceNumber := n, packetString := Some (wire 0x10 n (sourceIdentifier p)
         (message_header len name @ fields_bytes fs @
          message_tail env len name (fields_bytes fs) ?mac))\<rparr>))"
    using build_and_number [OF env name body' x y mac' ulen' fits] by metis
  have tail: "message_tail env len name (fields_bytes fs) ?mac =
      hmacSha256 env key (message_header len name @ fields_bytes fs) 8"
    by (simp add: message_tail_def)
  show ?thesis
    using p'(1-3) p'(4) [unfolded tail] length_hmac [OF env]
    by (intro exI [of _ p']
        exI [of _ "hmacSha256 env key (message_header len name @ fields_bytes fs) 8"]) simp
qed

lemma checked_fields:
  assumes "unat len = 12 + length content" and "4 dvd unat len" and "unat len \<le> 3056"
    and name: "messageTypeInttoString t = Some name" and "peerSequenceNumber peer < n"
    and w: "w = wire 0x10 n ssrc (message_header len name @ content)"
    and q: "q = \<lparr>sequenceNumber = n, sourceIdentifier = ssrc, messageType = t,
      messageLength = len, messageData = NoData, packetString = None, fragments = []\<rparr>"
  shows "bzrtp_packetCheck env (Some peer) w = Some (Inr (q, w, length w), Some peer)"
    and "length w = unat len + 16"
    and "\<And>k. k \<le> unat len \<Longrightarrow> rd_block w 12 k = Some (take k (message_header len name @ content))"
    and "\<exists>pre post. w = pre @ content @ post \<and> length pre = 24"
proof -
  note ln = length_message_name [OF name]
  show lw: "length w = unat len + 16" using assms(1) ln by (simp add: w)
  have "bzrtp_packetCheck env (Some peer) w = Some (Inr (q, w, unat len + 16), Some peer)"
    unfolding w q by (rule check_wire [OF name assms(2,1,5,3)])
  then show "bzrtp_packetCheck env (Some peer) w = Some (Inr (q, w, length w), Some peer)"
    using lw by simp
  show "rd_block w 12 k = Some (take k (message_header len name @ content))"
    if "k \<le> unat len" for k
    unfolding w using assms(1) ln that by (subst rd_block_wire) (auto simp: rd_block_def)
  let ?b = "[0x10, 0] @ enc16 n @ [0x5a, 0x52, 0x54, 0x50] @ enc32 ssrc @ message_header len name"
  have "\<exists>post. w = ?b @ content @ post" by (simp add: w wire_def Let_def)
  moreover have "length ?b = 24" using ln by simp
  ultimately show "\<exists>pre post. w = pre @ content @ post \<and> length pre = 24" by blast
qed

section \<open>Hello\<close>

lemma hello_name: "messageTypeInttoString MSGTYPE_HELLO = Some (asc ''Hello   '')"
  by (simp add: messageTypeInttoString_def message_names_def)

lemma hello_length:
  assumes "hello_wf h" and "len = of_nat (88 + 4 * algo_count h)"
  shows "unat (len :: u16) = 88 + 4 * algo_count h" and "unat (len + 16) \<le> 600"
    and "unat len = 20 + fields_length (hello_fields h)" and "4 dvd unat len"
proof -
  note count = algo_count_le [OF assms(1)]
  show ulen: "unat len = 88 + 4 * algo_count h"
    using count by (simp only: assms(2) unat_of_nat) simp
  then show "unat (len + 16) \<le> 600" using count by (simp add: unat_word_ariths)
  show "unat len = 20 + fields_length (hello_fields h)"
    using ulen by (simp add: hello_fields_length)
  show "4 dvd unat len" using ulen by presburger
qed

lemma build_hello_message:
  assumes "messageType p = MSGTYPE_HELLO" and "messageData p = HelloData h"
  shows "build_message env chan p = do {
    p \<leftarrow> write_content env p (of_nat (88 + 4 * algo_count h)) (hello_fields h);
    Some (Inr (p, Some (24 + fields_length (hello_fields h), selfH chan 2))) }"
  using assms by (simp add: build_message_def build_hello_def Let_def algo_count_def)

lemma hello_hash_test:
  "16 \<le> length w \<Longrightarrow> check_hello_hash env peer w (length w) =
     Some (peerHelloHash peer \<in> {None, Some (sha256 env (take (length w - 16) (drop 12 w)) 32)})"
  by (auto simp: check_hello_hash_def rd_block_def split: option.split)

lemma parsed_hello:
  assumes wf: "hello_wf h" and "length mac = 8"
    and w: "w = pre @ (fields_bytes (hello_fields h) @ mac) @ post" "length pre = 24"
    and q: "messageType q = MSGTYPE_HELLO" "unat (messageLength q) = 88 + 4 * algo_count h"
  shows "bzrtp_packetParser env peer w (length w) q =
    (if peerHelloHash peer \<in> {None, Some (sha256 env (take (length w - 16) (drop 12 w)) 32)}
     then Some (Inr (q\<lparr>messageData := HelloData (received_hello h mac), packetString := Some w\<rparr>))
     else Some (Inl BZRTP_ERROR_HELLOHASH_MISMATCH))"
proof -
  have "16 \<le> length w" by (simp add: w)
  note hash = hello_hash_test [OF this, of env peer]
  show ?thesis
    using parse_hello_at [OF wf w(2) assms(2), of w post "length w" q env peer] w(1) hash q
    by (auto simp: bzrtp_packetParser_def parse_hello_def)
qed

text \<open>
  The whole transmission of a Hello. The receiver that stores the parsed packet can check the
  MAC with the key H2 that the Commit reveals later.
\<close>

lemma hello_transmitted:
  assumes env: "env_ok env" and wf: "hello_wf h" and mtu: "600 \<le> mtu ctx"
    and seq: "peerSequenceNumber peer < n"
    and p: "messageType p = MSGTYPE_HELLO" "messageData p = HelloData h"
    and q: "q = \<lparr>sequenceNumber = n, sourceIdentifier = sourceIdentifier p,
      messageType = MSGTYPE_HELLO, messageLength = of_nat (88 + 4 * algo_count h),
      messageData = NoData, packetString = None, fragments = []\<rparr>"
  shows "\<exists>p' w mac. bzrtp_packetBuild env ctx chan (Some p) = Some (Inr (p', chan)) \<and>
    bzrtp_packetSetSequenceNumber (Some p') n =
      Some (Inr (p'\<lparr>sequenceNumber := n, packetString := Some w\<rparr>)) \<and>
    bzrtp_packetCheck env (Some peer) w = Some (Inr (q, w, length w), Some peer) \<and>
    length w = unat (messageLength q) + 16 \<and>
    mac = hmacSha256 env (selfH chan 2) (take (length w - 24) (drop 12 w)) 8 \<and>
    bzrtp_packetParser env peer w (length w) q =
      (if peerHelloHash peer \<in> {None, Some (sha256 env (take (length w - 16) (drop 12 w)) 32)}
       then Some (Inr (q\<lparr>messageData := HelloData (received_hello h mac), packetString := Some w\<rparr>))
       else Some (Inl BZRTP_ERROR_HELLOHASH_MISMATCH))"
proof -
  define len :: u16 where "len = of_nat (88 + 4 * algo_count h)"
  note ulen = hello_length [OF wf len_def]
  have name: "messageTypeInttoString (messageType p) = Some (asc ''Hello   '')"
    using hello_name p(1) by simp
  have fits: "unat (len + 16) \<le> mtu ctx" using ulen(2) mtu by simp
  have lc: "length (fields_bytes (hello_fields h)) = 68 + 4 * algo_count h"
    using length_fields_bytes [OF hello_fields_ok [OF wf]] by (simp add: hello_fields_length)
  from built_fields [OF env hello_fields_ok [OF wf] ulen(3) name
      build_hello_message [OF p, of env chan, folded len_def] fits]
  obtain p' mac where b: "bzrtp_packetBuild env ctx chan (Some p) = Some (Inr (p', chan))"
    and m: "length mac = 8"
    and mac: "mac = hmacSha256 env (selfH chan 2)
       (message_header len (asc ''Hello   '') @ fields_bytes (hello_fields h)) 8"
    and s: "\<forall>n. bzrtp_packetSetSequenceNumber (Some p') n =
       Some (Inr (p'\<lparr>sequenceNumber := n, packetString := Some (wire 0x10 n (sourceIdentifier p)
         (message_header len (asc ''Hello   '') @ fields_bytes (hello_fields h) @ mac))\<rparr>))"
    by blast
  define w where "w = wire 0x10 n (sourceIdentifier p)
    (message_header len (asc ''Hello   '') @ (fields_bytes (hello_fields h) @ mac))"
  have content: "unat len = 12 + length (fields_bytes (hello_fields h) @ mac)"
    using ulen(1) lc m by simp
  have "unat len \<le> 3056" using ulen(1) algo_count_le [OF wf] by simp
  note c = checked_fields [OF content ulen(4) this hello_name seq w_def q [folded len_def]]
  obtain pre post where w: "w = pre @ (fields_bytes (hello_fields h) @ mac) @ post"
    "length pre = 24" using c(4) by blast
  have mq: "messageType q = MSGTYPE_HELLO" "unat (messageLength q) = 88 + 4 * algo_count h"
    using ulen(1) by (simp_all add: q len_def)
  note pr = parsed_hello [OF wf m w mq, of env peer]
  have "take (length w - 24) (drop 12 w) =
      message_header len (asc ''Hello   '') @ fields_bytes (hello_fields h)"
    using c(3) [of "unat len - 8"] c(2) content m by (auto simp: rd_block_def split: if_splits)
  then have mac': "mac = hmacSha256 env (selfH chan 2) (take (length w - 24) (drop 12 w)) 8"
    using mac by simp
  have lw: "length w = unat (messageLength q) + 16" using c(2) ulen(1) mq(2) by simp
  have "bzrtp_packetSetSequenceNumber (Some p') n =
      Some (Inr (p'\<lparr>sequenceNumber := n, packetString := Some w\<rparr>))"
    using s unfolding w_def by blast
  with b c(1) [of env] lw mac' pr show ?thesis by blast
qed

text \<open>A Hello packet created from the context, built and numbered is accepted by
  \<open>bzrtp_packetCheck\<close>, and \<open>bzrtp_packetParser\<close> gives back the created message, its algorithm
  lists completed with the mandatory ones and its MAC computed with H2. If the channel was told a
  hash of the peer's Hello, the message is accepted exactly when its SHA-256 is that hash.\<close>

theorem hello_roundtrip:
  assumes "env_ok env" and "hello_wf (create_hello ctx chan)" and "600 \<le> mtu ctx"
    and "peerSequenceNumber peer < n"
  shows "\<exists>p p' w q mac.
    bzrtp_createZrtpPacket env ctx chan MSGTYPE_HELLO = Some (Inr (p, ctx)) \<and>
    bzrtp_packetBuild env ctx chan (Some p) = Some (Inr (p', chan)) \<and>
    bzrtp_packetSetSequenceNumber (Some p') n =
      Some (Inr (p'\<lparr>sequenceNumber := n, packetString := Some w\<rparr>)) \<and>
    bzrtp_packetCheck env (Some peer) w = Some (Inr (q, w, length w), Some peer) \<and>
    mac = hmacSha256 env (selfH chan 2) (take (length w - 24) (drop 12 w)) 8 \<and>
    bzrtp_packetParser env peer w (length w) q =
      (if peerHelloHash peer \<in> {None, Some (sha256 env (take (length w - 16) (drop 12 w)) 32)}
       then Some (Inr (q\<lparr>messageData := HelloData (received_hello (create_hello ctx chan) mac),
                         packetString := Some w\<rparr>))
       else Some (Inl BZRTP_ERROR_HELLOHASH_MISMATCH))"
proof -
  let ?p = "empty_packet MSGTYPE_HELLO (selfSSRC chan) (HelloData (create_hello ctx chan))"
  have "bzrtp_createZrtpPacket env ctx chan MSGTYPE_HELLO = Some (Inr (?p, ctx))"
    by (simp add: bzrtp_createZrtpPacket_def)
  moreover have "messageType ?p = MSGTYPE_HELLO" "messageData ?p = HelloData (create_hello ctx chan)"
    by (simp_all add: empty_packet_def)
  note hello_transmitted [OF assms this refl, of chan]
  ultimately show ?thesis by blast
qed

section \<open>A concrete pair of endpoints\<close>

text \<open>Simple functions in the place of the crypto library, and two channels that use them.\<close>

definition sample_env :: zrtp_env where
  "sample_env =
     \<lparr>sha256 = (\<lambda>d n. take n (map (\<lambda>b. b + 1) d @ replicate n 0)),
      hmacSha256 = (\<lambda>k d n. replicate n (fold (+) (k @ d) 0)),
      kem_pk = (\<lambda>_. 832), kem_ct = (\<lambda>_. 800), rng = (\<lambda>n. replicate n 9),
      dhm_public = (\<lambda>_ _. Some (replicate 384 5)), ecdh_public = (\<lambda>_. Some (replicate 56 5)),
      kem_public = (\<lambda>_ _. Some (replicate 832 7)), kem_encaps = (\<lambda>_ _ _. Some (replicate 800 7)),
      zjunk = (\<lambda>i. of_nat i)\<rparr>"

definition sample_ctx :: zrtp_context where
  "sample_ctx =
     \<lparr>mtu = 600, selfZID = replicate 12 1, supportedHash = [ZRTP_HASH_S256],
      supportedCipher = [ZRTP_CIPHER_AES1], supportedAuthTag = [ZRTP_AUTHTAG_HS32, ZRTP_AUTHTAG_HS80],
      supportedKeyAgreement = [ZRTP_KEYAGREEMENT_X255, ZRTP_KEYAGREEMENT_DH3k],
      supportedSas = [ZRTP_SAS_B32], previouslyVerifiedSas = 1, selfAcceptGoClear = 0,
      initiatorRs1ID = replicate 8 0, initiatorRs2ID = replicate 8 0,
      initiatorPbxsecretID = replicate 8 0, responderRs1ID = replicate 8 0,
      responderRs2ID = replicate 8 0, responderPbxsecretID = replicate 8 0,
      keyAgreementContext = None, contextKeyAgreementAlgo = 0\<rparr>"

definition sample_chan :: channel_context where
  "sample_chan =
     \<lparr>role = BZRTP_ROLE_INITIATOR, selfSSRC = 0x12345678,
      selfH = (\<lambda>i. replicate 32 (of_nat (i + 1))), selfPackets = (\<lambda>_. None),
      peerPackets = (\<lambda>_. None), peerHelloHash = None, selfSequenceNumber = 1,
      selfMessageSequenceNumber = 1, peerSequenceNumber = 0, hashAlgo = ZRTP_HASH_S256,
      hashLength = 32, cipherAlgo = ZRTP_CIPHER_AES1, authTagAlgo = ZRTP_AUTHTAG_HS32,
      keyAgreementAlgo = ZRTP_KEYAGREEMENT_Mult, sasAlgo = ZRTP_SAS_B32,
      hmacFunction = (\<lambda>k d n. replicate n (fold (+) (k @ d) 0)),
      hashFunction = (\<lambda>d n. replicate n (fold (+) d 0)),
      cipherEncryptionFunction = (\<lambda>k iv x. map (\<lambda>b. b + 1) x),
      cipherDecryptionFunction = (\<lambda>k iv x. map (\<lambda>b. b - 1) x),
      mackeyi = Some (replicate 32 3), mackeyr = Some (replicate 32 4),
      zrtpkeyi = Some (replicate 16 5), zrtpkeyr = Some (replicate 16 6),
      initiatorAuxsecretID = replicate 8 0, responderAuxsecretID = replicate 8 0,
      incomingFragmentedPacket = \<lparr>r_messageId = 0, r_messageLength = 0, r_packetString = None,
        r_fragments = []\<rparr>, pingPacket = None\<rparr>"

lemma sample_env_ok: "env_ok sample_env"
  by (auto simp: env_ok_def sample_env_def)

lemma sample_hello_wf: "hello_wf (create_hello sample_ctx sample_chan)"
  by (simp add: hello_wf_def create_hello_def sample_ctx_def sample_chan_def known_algo_def)

theorem hello_roundtrip_witness:
  "\<exists>p p' w q mac.
    bzrtp_createZrtpPacket sample_env sample_ctx sample_chan MSGTYPE_HELLO =
      Some (Inr (p, sample_ctx)) \<and>
    bzrtp_packetBuild sample_env sample_ctx sample_chan (Some p) = Some (Inr (p', sample_chan)) \<and>
    bzrtp_packetSetSequenceNumber (Some p') 1 =
      Some (Inr (p'\<lparr>sequenceNumber := 1, packetString := Some w\<rparr>)) \<and>
    bzrtp_packetCheck sample_env (Some sample_chan) w =
      Some (Inr (q, w, length w), Some sample_chan) \<and>
    bzrtp_packetParser sample_env sample_chan w (length w) q =
      Some (Inr (q\<lparr>messageData := HelloData (received_hello (create_hello sample_ctx sample_chan) mac),
                   packetString := Some w\<rparr>))"
proof -
  have h: "600 \<le> mtu sample_ctx" "peerSequenceNumber sample_chan < 1"
    and n: "peerHelloHash sample_chan \<in> {None, Some x} \<longleftrightarrow> True" for x
    by (simp_all add: sample_ctx_def sample_chan_def)
  show ?thesis
    using hello_roundtrip [OF sample_env_ok sample_hello_wf h] unfolding n if_True by blast
qed

end
