(* ===== verification/Bzrtp_Commit.thy ===== *)
theory Bzrtp_Commit
  imports Bzrtp_Exchange
begin

text \<open>
  The Commit message, and the hash chain that ties it to the Hello of the same endpoint: an
  honest Hello and Commit are accepted one after the other, and whatever is accepted as Commit,
  DHPart or Confirm has passed the checks of the chain.
\<close>

section \<open>Commit\<close>

abbreviation commit_variable :: "zrtp_env \<Rightarrow> commit_message \<Rightarrow> nat" where
  "commit_variable env c \<equiv>
     bzrtp_computeCommitMessageVariableLength (kem_pk env) (c_keyAgreementAlgo c)"

text \<open>
  The sizes of the arrays, known algorithms, and zero in the fields that the kind of key
  agreement does not use, as \<open>memset\<close> leaves them.
\<close>

definition commit_wf :: "zrtp_env \<Rightarrow> commit_message \<Rightarrow> bool" where
  "commit_wf env c \<longleftrightarrow> length (c_H2 c) = 32 \<and> length (c_ZID c) = 12 \<and>
     known_algo ZRTP_HASH_TYPE (c_hashAlgo c) \<and>
     known_algo ZRTP_CIPHERBLOCK_TYPE (c_cipherAlgo c) \<and>
     known_algo ZRTP_AUTHTAG_TYPE (c_authTagAlgo c) \<and>
     known_algo ZRTP_KEYAGREEMENT_TYPE (c_keyAgreementAlgo c) \<and>
     known_algo ZRTP_SAS_TYPE (c_sasAlgo c) \<and>
     length (c_nonce c) = 16 \<and> length (c_keyID c) = 8 \<and> length (c_hvi c) = 32 \<and>
     (if c_keyAgreementAlgo c \<in> {ZRTP_KEYAGREEMENT_Prsh, ZRTP_KEYAGREEMENT_Mult}
      then c_hvi c = replicate 32 0 \<and> c_pv c = None \<and>
           (c_keyAgreementAlgo c = ZRTP_KEYAGREEMENT_Mult \<longrightarrow> c_keyID c = replicate 8 0)
      else c_nonce c = replicate 16 0 \<and> c_keyID c = replicate 8 0 \<and>
           (if bzrtp_isKem (c_keyAgreementAlgo c)
            then \<exists>v. c_pv c = Some v \<and> length v = round4 (kem_pk env (c_keyAgreementAlgo c))
            else c_pv c = None)) \<and>
     commit_variable env c \<noteq> 0 \<and> commit_variable env c \<le> 2972"

lemma isKem_not_dh: "bzrtp_isKem a \<Longrightarrow> dh_length a = None"
  unfolding bzrtp_isKem_def dh_length_def by (elim set_ConsD [elim_format]) auto

lemma isKem_not_shared:
  "bzrtp_isKem a \<Longrightarrow> a \<noteq> ZRTP_KEYAGREEMENT_Prsh \<and> a \<noteq> ZRTP_KEYAGREEMENT_Mult"
  unfolding bzrtp_isKem_def by auto

lemma round4_dvd: "4 dvd round4 n"
  unfolding round4_def by presburger

lemma commit_variable_dvd: "4 dvd bzrtp_computeCommitMessageVariableLength f a"
  by (auto simp: bzrtp_computeCommitMessageVariableLength_def intro!: dvd_add round4_dvd)

text \<open>The fields of a well-formed Commit and how its values are read back.\<close>

lemma commit_fields_shape:
  assumes "commit_wf env c"
  obtains fs vals where "commit_fields env c = Some fs" "fields_ok fs"
    "fields_length fs = 64 + commit_variable env c"
    "fields_bytes fs = c_H2 c @ c_ZID c @ bzrtp_cryptoAlgoTypeIntToString (c_hashAlgo c) @
       bzrtp_cryptoAlgoTypeIntToString (c_cipherAlgo c) @
       bzrtp_cryptoAlgoTypeIntToString (c_authTagAlgo c) @
       bzrtp_cryptoAlgoTypeIntToString (c_keyAgreementAlgo c) @
       bzrtp_cryptoAlgoTypeIntToString (c_sasAlgo c) @ vals"
    "\<And>pre post. length pre = 88 \<Longrightarrow>
       parse_commit_values env (pre @ vals @ post) (c_keyAgreementAlgo c) =
       Some (c_nonce c, c_keyID c, c_hvi c, c_pv c, 88 + commit_variable env c)"
proof -
  let ?a = "c_keyAgreementAlgo c"
  consider (prsh) "?a = ZRTP_KEYAGREEMENT_Prsh" | (mult) "?a = ZRTP_KEYAGREEMENT_Mult"
    | (kem) "bzrtp_isKem ?a"
    | (dh) "?a \<noteq> ZRTP_KEYAGREEMENT_Prsh" "?a \<noteq> ZRTP_KEYAGREEMENT_Mult" "\<not> bzrtp_isKem ?a" by blast
  then show thesis
  proof cases
    case prsh
    with assms that [where vals = "c_nonce c @ c_keyID c"] show ?thesis
      by (auto simp: commit_wf_def commit_fields_def Let_def parse_commit_values_def rd_block_def
          bzrtp_computeCommitMessageVariableLength_def)
  next
    case mult
    with assms that [where vals = "c_nonce c"] show ?thesis
      by (auto simp: commit_wf_def commit_fields_def Let_def parse_commit_values_def rd_block_def
          bzrtp_computeCommitMessageVariableLength_def)
  next
    case kem
    note ns = isKem_not_shared [OF kem] and nd = isKem_not_dh [OF kem]
    obtain v where v: "c_pv c = Some v" "length v = round4 (kem_pk env ?a)"
      using assms kem ns by (auto simp: commit_wf_def)
    from assms kem ns nd v that [where vals = "c_hvi c @ v"] show ?thesis
      by (auto simp: commit_wf_def commit_fields_def Let_def parse_commit_values_def rd_block_def
          bzrtp_computeCommitMessageVariableLength_def
          bzrtp_computeKeyAgreementPublicValueLength_def)
  next
    case dh
    obtain k where k: "dh_length ?a = Some k"
      using assms dh by (auto simp: commit_wf_def bzrtp_computeCommitMessageVariableLength_def
          split: if_splits)
    with dh assms that [where vals = "c_hvi c"] show ?thesis
      by (auto simp: commit_wf_def commit_fields_def Let_def parse_commit_values_def rd_block_def
          bzrtp_computeCommitMessageVariableLength_def)
  qed
qed

lemma parse_commit_at:
  assumes wf: "commit_wf env c" and fs: "commit_fields env c = Some fs"
    and input: "input = pre @ (fields_bytes fs @ mac) @ post" "length pre = 24" "length mac = 8"
    and len: "unat (messageLength p) = 84 + commit_variable env c"
    and chain: "check_hello env chan (c_H2 c) = Some None"
  shows "parse_commit env chan input (length input) p =
    Some (Inr (p\<lparr>messageData := CommitData (c\<lparr>c_MAC := mac\<rparr>), packetString := Some input\<rparr>))"
proof -
  from commit_fields_shape [OF wf] fs obtain vals where
    shape: "fields_length fs = 64 + commit_variable env c" "fields_ok fs"
    and bytes: "fields_bytes fs = c_H2 c @ c_ZID c @ bzrtp_cryptoAlgoTypeIntToString (c_hashAlgo c) @
       bzrtp_cryptoAlgoTypeIntToString (c_cipherAlgo c) @
       bzrtp_cryptoAlgoTypeIntToString (c_authTagAlgo c) @
       bzrtp_cryptoAlgoTypeIntToString (c_keyAgreementAlgo c) @
       bzrtp_cryptoAlgoTypeIntToString (c_sasAlgo c) @ vals"
    and vals: "\<And>pre post. length pre = 88 \<Longrightarrow>
       parse_commit_values env (pre @ vals @ post) (c_keyAgreementAlgo c) =
       Some (c_nonce c, c_keyID c, c_hvi c, c_pv c, 88 + commit_variable env c)"
    by (metis option.inject)
  have sizes: "length (c_H2 c) = 32" "length (c_ZID c) = 12" "commit_variable env c \<noteq> 0"
    using wf by (auto simp: commit_wf_def)
  have r: "rd_block input 24 32 = Some (c_H2 c)" "rd_block input 56 12 = Some (c_ZID c)"
    "rd_block input 68 4 = Some (bzrtp_cryptoAlgoTypeIntToString (c_hashAlgo c))"
    "rd_block input 72 4 = Some (bzrtp_cryptoAlgoTypeIntToString (c_cipherAlgo c))"
    "rd_block input 76 4 = Some (bzrtp_cryptoAlgoTypeIntToString (c_authTagAlgo c))"
    "rd_block input 80 4 = Some (bzrtp_cryptoAlgoTypeIntToString (c_keyAgreementAlgo c))"
    "rd_block input 84 4 = Some (bzrtp_cryptoAlgoTypeIntToString (c_sasAlgo c))"
    unfolding input(1) bytes using input(2) sizes by (simp_all add: rd_block_def)
  have v: "parse_commit_values env input (c_keyAgreementAlgo c) =
      Some (c_nonce c, c_keyID c, c_hvi c, c_pv c, 88 + commit_variable env c)"
    using vals [of "pre @ c_H2 c @ c_ZID c @ bzrtp_cryptoAlgoTypeIntToString (c_hashAlgo c) @
       bzrtp_cryptoAlgoTypeIntToString (c_cipherAlgo c) @
       bzrtp_cryptoAlgoTypeIntToString (c_authTagAlgo c) @
       bzrtp_cryptoAlgoTypeIntToString (c_keyAgreementAlgo c) @
       bzrtp_cryptoAlgoTypeIntToString (c_sasAlgo c)" "mac @ post"] input sizes bytes by simp
  have m: "rd_block input (88 + commit_variable env c) 8 = Some mac"
    using rd_block_at [of "pre @ fields_bytes fs" "88 + commit_variable env c" mac 8 post]
      input shape length_fields_bytes [OF shape(2)] by simp
  have algos: "bzrtp_cryptoAlgoTypeStringToInt (bzrtp_cryptoAlgoTypeIntToString (c_hashAlgo c))
      ZRTP_HASH_TYPE = c_hashAlgo c"
    "bzrtp_cryptoAlgoTypeStringToInt (bzrtp_cryptoAlgoTypeIntToString (c_cipherAlgo c))
      ZRTP_CIPHERBLOCK_TYPE = c_cipherAlgo c"
    "bzrtp_cryptoAlgoTypeStringToInt (bzrtp_cryptoAlgoTypeIntToString (c_authTagAlgo c))
      ZRTP_AUTHTAG_TYPE = c_authTagAlgo c"
    "bzrtp_cryptoAlgoTypeStringToInt (bzrtp_cryptoAlgoTypeIntToString (c_keyAgreementAlgo c))
      ZRTP_KEYAGREEMENT_TYPE = c_keyAgreementAlgo c"
    "bzrtp_cryptoAlgoTypeStringToInt (bzrtp_cryptoAlgoTypeIntToString (c_sasAlgo c))
      ZRTP_SAS_TYPE = c_sasAlgo c"
    using wf by (auto simp: commit_wf_def algo_name_roundtrip)
  show ?thesis
    using r v m chain len sizes(3)
    by (simp add: parse_commit_def algos Let_def rd_block_def [of input 0])
qed

section \<open>Hello then Commit\<close>

text \<open>
  A packet sent by one endpoint and received by another: built, numbered, checked and parsed.
\<close>

definition transmit ::
    "zrtp_env \<Rightarrow> zrtp_context \<Rightarrow> channel_context \<Rightarrow> packet \<Rightarrow> u16 \<Rightarrow> channel_context \<Rightarrow>
     (zrtp_error + packet) option" where
  "transmit env ctx chan p n peer = do {
     built \<leftarrow> bzrtp_packetBuild env ctx chan (Some p);
     case built of Inl e \<Rightarrow> Some (Inl e) | Inr (p, _) \<Rightarrow> do {
       numbered \<leftarrow> bzrtp_packetSetSequenceNumber (Some p) n;
       case numbered of Inl e \<Rightarrow> Some (Inl e) | Inr p \<Rightarrow> do {
         w \<leftarrow> packetString p;
         (checked, _) \<leftarrow> bzrtp_packetCheck env (Some peer) w;
         case checked of
           Inl e \<Rightarrow> Some (Inl e)
         | Inr (q, buf, len) \<Rightarrow> bzrtp_packetParser env peer buf len q } } }"

lemma transmitI:
  assumes "bzrtp_packetBuild env ctx chan (Some p) = Some (Inr (p', chan'))"
    and "bzrtp_packetSetSequenceNumber (Some p') n =
      Some (Inr (p'\<lparr>sequenceNumber := n, packetString := Some w\<rparr>))"
    and "bzrtp_packetCheck env (Some peer) w = Some (Inr (q, w, length w), c)"
  shows "transmit env ctx chan p n peer = bzrtp_packetParser env peer w (length w) q"
  using assms by (simp add: transmit_def)

lemma check_hello_received:
  assumes "peerPackets chan HELLO_MESSAGE_STORE_ID = Some q" and "messageData q = HelloData h"
    and "packetString q = Some w" and "length w = unat (messageLength q) + 16"
    and "8 \<le> unat (messageLength q)" and "h_H3 h = sha256 env H2 32"
    and "h_MAC h = hmacSha256 env H2 (take (length w - 24) (drop 12 w)) 8"
  shows "check_hello env chan H2 = Some None"
proof -
  have "\<not> messageLength q < 8" using assms(5) by (simp add: word_less_nat_alt)
  then show ?thesis
    using assms by (simp add: check_hello_def hello_of_def message_mac_def rd_block_def)
qed

lemma commit_name: "messageTypeInttoString MSGTYPE_COMMIT = Some (asc ''Commit  '')"
  by (simp add: messageTypeInttoString_def message_names_def)

lemma commit_transmitted:
  assumes env: "env_ok env" and wf: "commit_wf env c"
    and mtu: "100 + commit_variable env c \<le> mtu ctx" and seq: "peerSequenceNumber peer < n"
    and p: "messageType p = MSGTYPE_COMMIT" "messageData p = CommitData c"
    and chain: "check_hello env peer (c_H2 c) = Some None"
  shows "\<exists>q mac. transmit env ctx chan p n peer = Some (Inr q) \<and>
    messageData q = CommitData (c\<lparr>c_MAC := mac\<rparr>) \<and> messageType q = MSGTYPE_COMMIT"
proof -
  obtain fs vals where fs: "commit_fields env c = Some fs" and ok: "fields_ok fs"
    and fl: "fields_length fs = 64 + commit_variable env c"
    using commit_fields_shape [OF wf] by metis
  define len :: u16 where "len = of_nat (84 + commit_variable env c)"
  have small: "commit_variable env c \<noteq> 0" "commit_variable env c \<le> 2972"
    using wf by (auto simp: commit_wf_def)
  have ulen: "unat len = 84 + commit_variable env c"
    using small by (simp only: len_def unat_of_nat) simp
  have fits: "unat (len + 16) \<le> mtu ctx" using ulen mtu small by (simp add: unat_word_ariths)
  have name: "messageTypeInttoString (messageType p) = Some (asc ''Commit  '')"
    using commit_name p(1) by simp
  have body: "build_message env chan p = do {
      p \<leftarrow> write_content env p len fs; Some (Inr (p, Some (24 + fields_length fs, selfH chan 1))) }"
    using p small(1) fs by (simp add: build_message_def build_commit_def Let_def len_def)
  have ul: "unat len = 20 + fields_length fs" using ulen fl by simp
  from built_fields [OF env ok ul name body fits]
  obtain p' mac where b: "bzrtp_packetBuild env ctx chan (Some p) = Some (Inr (p', chan))"
    and m: "length mac = 8"
    and s: "\<forall>n. bzrtp_packetSetSequenceNumber (Some p') n =
       Some (Inr (p'\<lparr>sequenceNumber := n, packetString := Some (wire 0x10 n (sourceIdentifier p)
         (message_header len (asc ''Commit  '') @ fields_bytes fs @ mac))\<rparr>))"
    by blast
  define w where "w = wire 0x10 n (sourceIdentifier p)
    (message_header len (asc ''Commit  '') @ (fields_bytes fs @ mac))"
  define q :: packet where "q = \<lparr>sequenceNumber = n, sourceIdentifier = sourceIdentifier p,
    messageType = MSGTYPE_COMMIT, messageLength = len, messageData = NoData,
    packetString = None, fragments = []\<rparr>"
  have content: "unat len = 12 + length (fields_bytes fs @ mac)"
    using ul m length_fields_bytes [OF ok] by simp
  have dvd: "4 dvd unat len"
    unfolding ulen by (intro dvd_add commit_variable_dvd) simp
  have "unat len \<le> 3056" using ulen small by simp
  note ch = checked_fields [OF content dvd this commit_name seq w_def q_def]
  obtain pre post where w: "w = pre @ (fields_bytes fs @ mac) @ post" "length pre = 24"
    using ch(4) by blast
  have "parse_commit env peer w (length w) q =
      Some (Inr (q\<lparr>messageData := CommitData (c\<lparr>c_MAC := mac\<rparr>), packetString := Some w\<rparr>))"
    using ulen by (intro parse_commit_at [OF wf fs w m _ chain]) (simp add: q_def)
  then have "bzrtp_packetParser env peer w (length w) q =
      Some (Inr (q\<lparr>messageData := CommitData (c\<lparr>c_MAC := mac\<rparr>), packetString := Some w\<rparr>))"
    by (simp add: bzrtp_packetParser_def q_def)
  moreover have "bzrtp_packetSetSequenceNumber (Some p') n =
      Some (Inr (p'\<lparr>sequenceNumber := n, packetString := Some w\<rparr>))"
    using s unfolding w_def by blast
  ultimately have "transmit env ctx chan p n peer =
      Some (Inr (q\<lparr>messageData := CommitData (c\<lparr>c_MAC := mac\<rparr>), packetString := Some w\<rparr>))"
    using transmitI [OF b _ ch(1)] by metis
  then show ?thesis by (auto simp: q_def)
qed

text \<open>C22: When an endpoint whose hash chain satisfies H3 = SHA-256(H2) sends its Hello and later
  the Commit it creates, the receiver that keeps the parsed Hello accepts both, and gets the
  created Commit with its MAC: the Commit reveals H2, which matches H3 and the MAC of the
  Hello.\<close>

theorem hello_commit_accepted:
  assumes "env_ok env" and "hello_wf (create_hello ctx chan)" and "600 \<le> mtu ctx"
    and "peerSequenceNumber peer < n1" and "n1 < n2" and "peerHelloHash peer = None"
    and "selfH chan 3 = sha256 env (selfH chan 2) 32" and "selfH chan' = selfH chan"
    and "bzrtp_createZrtpPacket env ctx chan' MSGTYPE_COMMIT = Some (Inr (p, ctx'))"
    and "messageData p = CommitData c" and "commit_wf env c"
    and "100 + commit_variable env c \<le> mtu ctx'"
  shows "\<exists>hello q1 q2 mac.
    bzrtp_createZrtpPacket env ctx chan MSGTYPE_HELLO = Some (Inr (hello, ctx)) \<and>
    transmit env ctx chan hello n1 peer = Some (Inr q1) \<and>
    transmit env ctx' chan' p n2
      (peer\<lparr>peerPackets := (peerPackets peer)(HELLO_MESSAGE_STORE_ID := Some q1),
            peerSequenceNumber := n1\<rparr>) = Some (Inr q2) \<and>
    messageData q2 = CommitData (c\<lparr>c_MAC := mac\<rparr>)"
proof -
  let ?h = "create_hello ctx chan"
  let ?p = "empty_packet MSGTYPE_HELLO (selfSSRC chan) (HelloData ?h)"
  define q :: packet where "q = \<lparr>sequenceNumber = n1, sourceIdentifier = sourceIdentifier ?p,
      messageType = MSGTYPE_HELLO, messageLength = of_nat (88 + 4 * algo_count ?h),
      messageData = NoData, packetString = None, fragments = []\<rparr>"
  have pd: "messageType ?p = MSGTYPE_HELLO" "messageData ?p = HelloData ?h"
    by (simp_all add: empty_packet_def)
  from hello_transmitted [OF assms(1-4) pd q_def, of chan]
  obtain p' w mac where h: "bzrtp_packetBuild env ctx chan (Some ?p) = Some (Inr (p', chan))"
    "bzrtp_packetSetSequenceNumber (Some p') n1 =
      Some (Inr (p'\<lparr>sequenceNumber := n1, packetString := Some w\<rparr>))"
    "bzrtp_packetCheck env (Some peer) w = Some (Inr (q, w, length w), Some peer)"
    and lw: "length w = unat (messageLength q) + 16"
    and mac: "mac = hmacSha256 env (selfH chan 2) (take (length w - 24) (drop 12 w)) 8"
    and parsed: "bzrtp_packetParser env peer w (length w) q =
      Some (Inr (q\<lparr>messageData := HelloData (received_hello ?h mac), packetString := Some w\<rparr>))"
    using assms(6) by auto
  let ?q = "q\<lparr>messageData := HelloData (received_hello ?h mac), packetString := Some w\<rparr>"
  let ?peer = "peer\<lparr>peerPackets := (peerPackets peer)(HELLO_MESSAGE_STORE_ID := Some ?q),
            peerSequenceNumber := n1\<rparr>"
  have t1: "transmit env ctx chan ?p n1 peer = Some (Inr ?q)"
    using transmitI [OF h] parsed by simp
  have type: "messageType p = MSGTYPE_COMMIT" and H2: "c_H2 c = selfH chan 2"
    using assms(8,9,10)
    by (auto simp: bzrtp_createZrtpPacket_def create_commit_def empty_packet_def Let_def
        split: bind_splits if_splits prod.splits)
  have "unat (messageLength q) = 88 + 4 * algo_count ?h"
    unfolding q_def using hello_length(1) [OF assms(2) refl] by simp
  then have "check_hello env ?peer (selfH chan 2) = Some None"
    using lw mac assms(7)
    by (intro check_hello_received [of _ ?q "received_hello ?h mac" w])
       (simp_all add: received_hello_def create_hello_def)
  then have "\<exists>q2 mac. transmit env ctx' chan' p n2 ?peer = Some (Inr q2) \<and>
      messageData q2 = CommitData (c\<lparr>c_MAC := mac\<rparr>) \<and> messageType q2 = MSGTYPE_COMMIT"
    using assms(5) H2
    by (intro commit_transmitted [OF assms(1,11,12) _ type assms(10)]) simp_all
  moreover have "bzrtp_createZrtpPacket env ctx chan MSGTYPE_HELLO = Some (Inr (?p, ctx))"
    by (simp add: bzrtp_createZrtpPacket_def)
  ultimately show ?thesis using t1 by blast
qed

text \<open>The Commit of the sample channel.\<close>

definition sample_commit :: commit_message where
  "sample_commit =
     \<lparr>c_H2 = replicate 32 3, c_ZID = replicate 12 1, c_hashAlgo = ZRTP_HASH_S256,
      c_cipherAlgo = ZRTP_CIPHER_AES1, c_authTagAlgo = ZRTP_AUTHTAG_HS32,
      c_keyAgreementAlgo = ZRTP_KEYAGREEMENT_Mult, c_sasAlgo = ZRTP_SAS_B32,
      c_hvi = replicate 32 0, c_nonce = replicate 16 9, c_keyID = replicate 8 0, c_pv = None,
      c_MAC = replicate 8 0\<rparr>"

lemma sample_commit_wf: "commit_wf sample_env sample_commit"
  by (simp add: commit_wf_def sample_commit_def known_algo_def bzrtp_isKem_def
      bzrtp_computeCommitMessageVariableLength_def)

lemma sample_commit_variable: "commit_variable sample_env sample_commit = 16"
  by (simp add: sample_commit_def bzrtp_computeCommitMessageVariableLength_def)

lemma sample_commit_created:
  "bzrtp_createZrtpPacket sample_env sample_ctx sample_chan MSGTYPE_COMMIT =
     Some (Inr (empty_packet MSGTYPE_COMMIT (selfSSRC sample_chan) (CommitData sample_commit),
                sample_ctx))"
  by (simp add: bzrtp_createZrtpPacket_def create_commit_def sample_commit_def sample_chan_def
      sample_ctx_def sample_env_def)

theorem hello_commit_accepted_witness:
  "\<exists>hello q1 q2 mac.
    bzrtp_createZrtpPacket sample_env sample_ctx sample_chan MSGTYPE_HELLO =
      Some (Inr (hello, sample_ctx)) \<and>
    transmit sample_env sample_ctx sample_chan hello 1 sample_chan = Some (Inr q1) \<and>
    transmit sample_env sample_ctx sample_chan
      (empty_packet MSGTYPE_COMMIT (selfSSRC sample_chan) (CommitData sample_commit)) 2
      (sample_chan\<lparr>peerPackets := (peerPackets sample_chan)(HELLO_MESSAGE_STORE_ID := Some q1),
                   peerSequenceNumber := 1\<rparr>) = Some (Inr q2) \<and>
    messageData q2 = CommitData (sample_commit\<lparr>c_MAC := mac\<rparr>)"
proof -
  have "600 \<le> mtu sample_ctx" "peerSequenceNumber sample_chan < 1" "peerHelloHash sample_chan = None"
    "selfH sample_chan 3 = sha256 sample_env (selfH sample_chan 2) 32"
    by (simp_all add: sample_ctx_def sample_chan_def sample_env_def)
  moreover have "100 + commit_variable sample_env sample_commit \<le> mtu sample_ctx"
    unfolding sample_commit_variable by (simp add: sample_ctx_def)
  ultimately show ?thesis
    using hello_commit_accepted [OF sample_env_ok sample_hello_wf, of sample_chan 1 2 sample_chan _
        sample_ctx sample_commit] sample_commit_created sample_commit_wf
    by (simp add: empty_packet_def)
qed

end
