(* ===== verification/Bzrtp_Confirm.thy ===== *)
theory Bzrtp_Confirm
  imports Bzrtp_Commit
begin

text \<open>
  What an accepted message guarantees, for each of the message types that carry a value of the
  hash chain, and the round trip of the encrypted Confirm message.
\<close>

section \<open>Authenticity\<close>

text \<open>
  A stored message is authenticated by a value of the chain when the next value that the
  message carries is its hash, and the MAC that the message carries is the one it keys.
\<close>

definition authenticates :: "zrtp_env \<Rightarrow> bytes \<Rightarrow> packet \<Rightarrow> bytes \<Rightarrow> bytes \<Rightarrow> bool" where
  "authenticates env key p img mac \<longleftrightarrow> sha256 env key 32 = img \<and>
     (\<exists>s. packetString p = Some s \<and> 8 \<le> unat (messageLength p) \<and>
          unat (messageLength p) + 4 \<le> length s \<and>
          mac = hmacSha256 env key (take (unat (messageLength p) - 8) (drop 12 s)) 8)"

definition hello_authentic :: "zrtp_env \<Rightarrow> channel_context \<Rightarrow> bytes \<Rightarrow> bool" where
  "hello_authentic env chan H2 \<longleftrightarrow> (\<exists>p h. peerPackets chan HELLO_MESSAGE_STORE_ID = Some p \<and>
     messageData p = HelloData h \<and> authenticates env H2 p (h_H3 h) (h_MAC h))"

definition commit_authentic :: "zrtp_env \<Rightarrow> channel_context \<Rightarrow> bytes \<Rightarrow> bool" where
  "commit_authentic env chan H1 \<longleftrightarrow> (\<exists>p c. peerPackets chan COMMIT_MESSAGE_STORE_ID = Some p \<and>
     messageData p = CommitData c \<and> authenticates env H1 p (c_H2 c) (c_MAC c))"

definition dhpart_authentic :: "zrtp_env \<Rightarrow> channel_context \<Rightarrow> bytes \<Rightarrow> bool" where
  "dhpart_authentic env chan H0 \<longleftrightarrow> (\<exists>p d. peerPackets chan DHPART_MESSAGE_STORE_ID = Some p \<and>
     messageData p = DHPartData d \<and> authenticates env H0 p (d_H1 d) (d_MAC d))"

lemma message_mac_authenticates:
  "message_mac env key p = Some mac \<Longrightarrow> authenticates env key p (sha256 env key 32) mac"
  by (auto simp: message_mac_def authenticates_def rd_block_def word_less_nat_alt
      split: bind_splits if_splits)

lemma check_hello_authentic:
  assumes "check_hello env chan H2 = Some None" shows "hello_authentic env chan H2"
proof -
  obtain p h mac where *: "peerPackets chan HELLO_MESSAGE_STORE_ID = Some p" "hello_of p = Some h"
    "sha256 env H2 32 = h_H3 h" "message_mac env H2 p = Some mac" "mac = h_MAC h"
    using assms by (auto simp: check_hello_def split: option.splits bind_splits if_splits)
  then have "messageData p = HelloData h"
    by (simp add: hello_of_def split: message_data.splits)
  with * message_mac_authenticates [OF *(4)] show ?thesis
    unfolding hello_authentic_def by (metis (no_types))
qed

lemma check_commit_authentic:
  assumes "check_commit env chan H1 = Some None" shows "commit_authentic env chan H1"
proof -
  obtain p c mac where *: "peerPackets chan COMMIT_MESSAGE_STORE_ID = Some p" "commit_of p = Some c"
    "sha256 env H1 32 = c_H2 c" "message_mac env H1 p = Some mac" "mac = c_MAC c"
    using assms by (auto simp: check_commit_def split: option.splits bind_splits if_splits)
  then have "messageData p = CommitData c"
    by (simp add: commit_of_def split: message_data.splits)
  with * message_mac_authenticates [OF *(4)] show ?thesis
    unfolding commit_authentic_def by (metis (no_types))
qed

lemma check_dhpart_authentic:
  assumes "check_dhpart env chan H0 = Some None" shows "dhpart_authentic env chan H0"
proof -
  obtain p d mac where *: "peerPackets chan DHPART_MESSAGE_STORE_ID = Some p" "dhpart_of p = Some d"
    "sha256 env H0 32 = d_H1 d" "message_mac env H0 p = Some mac" "mac = d_MAC d"
    using assms by (auto simp: check_dhpart_def split: option.splits bind_splits if_splits)
  then have "messageData p = DHPartData d"
    by (simp add: dhpart_of_def split: message_data.splits)
  with * message_mac_authenticates [OF *(4)] show ?thesis
    unfolding dhpart_authentic_def by (metis (no_types))
qed

lemma accepted_commit:
  assumes "parse_commit env chan input len p = Some (Inr q)"
  obtains H2 where "rd_block input 24 32 = Some H2" "hello_authentic env chan H2"
  using assms check_hello_authentic
  by (auto simp: parse_commit_def split: bind_splits option.splits)

lemma accepted_dhpart:
  assumes "parse_dhpart env chan input len p = Some (Inr q)"
  obtains H1 where "rd_block input 24 32 = Some H1"
    "check_dhpart_sender env chan input p H1 = Some None"
  using assms by (auto simp: parse_dhpart_def Let_def split: bind_splits option.splits if_splits)

lemma accepted_dhpart_responder:
  assumes "check_dhpart_sender env chan input p H1 = Some None" and "role chan = BZRTP_ROLE_RESPONDER"
  obtains peer c own where "commit_authentic env chan H1"
    "peerPackets chan COMMIT_MESSAGE_STORE_ID = Some peer" "messageData peer = CommitData c"
    "selfPackets chan HELLO_MESSAGE_STORE_ID = Some own"
    "compute_hvi chan input (messageLength p) own = Some (c_hvi c)"
proof -
  obtain peer c own where *: "check_commit env chan H1 = Some None"
    "peerPackets chan COMMIT_MESSAGE_STORE_ID = Some peer" "commit_of peer = Some c"
    "selfPackets chan HELLO_MESSAGE_STORE_ID = Some own"
    "compute_hvi chan input (messageLength p) own = Some (c_hvi c)"
    using assms by (auto simp: check_dhpart_sender_def split: bind_splits option.splits if_splits)
  then have "messageData peer = CommitData c"
    by (simp add: commit_of_def split: message_data.splits)
  with that * check_commit_authentic show thesis by blast
qed

lemma accepted_confirm:
  assumes "parse_confirm env chan input len p = Some (Inr q)"
  obtains key macKey mac iv cipherText k H0 where
    "peer_confirm_keys chan = Some (key, macKey)" "rd_block input 24 8 = Some mac"
    "rd_block input 32 16 = Some iv"
    "rd_block input 48 (unat (messageLength p - 36)) = Some cipherText"
    "rd_block macKey 0 (unat (hashLength chan)) = Some k"
    "hmacFunction chan k cipherText 8 = mac"
    "rd_block (cipherDecryptionFunction chan key iv cipherText) 0 32 = Some H0"
    "check_confirm_chain env chan H0 = Some None"
  using assms
  by (auto simp: parse_confirm_def Let_def split: option.splits bind_splits if_splits prod.splits)

text \<open>The message that a confirmed value of the chain authenticates depends on the mode.\<close>

definition confirm_authentic :: "zrtp_env \<Rightarrow> channel_context \<Rightarrow> bytes \<Rightarrow> bool" where
  "confirm_authentic env chan H0 \<longleftrightarrow>
     (if keyAgreementAlgo chan = ZRTP_KEYAGREEMENT_Prsh \<or>
         keyAgreementAlgo chan = ZRTP_KEYAGREEMENT_Mult
      then if role chan = BZRTP_ROLE_RESPONDER then commit_authentic env chan (sha256 env H0 32)
           else hello_authentic env chan (sha256 env (sha256 env H0 32) 32)
      else dhpart_authentic env chan H0)"

lemma check_confirm_chain_authentic:
  "check_confirm_chain env chan H0 = Some None \<Longrightarrow> confirm_authentic env chan H0"
  by (auto simp: check_confirm_chain_def confirm_authentic_def Let_def
      intro: check_hello_authentic check_commit_authentic check_dhpart_authentic
      split: role.splits if_splits)

text \<open>C4: A Commit, DHPart or Confirm message is accepted only if the value of the hash chain it
  reveals authenticates the message that the same peer sent before: its SHA-256 is the value in
  that message and the MAC of that message is keyed by it. For a DHPart received by the responder
  the commitment in the Commit is moreover the hash of this DHPart with the own Hello, and a
  Confirm has a valid MAC over its encrypted part under the key of the peer.\<close>

theorem accepted_messages_authentic:
  assumes "bzrtp_packetParser env chan input len p = Some (Inr q)"
  shows "(messageType p = MSGTYPE_COMMIT \<longrightarrow>
      (\<exists>H2. rd_block input 24 32 = Some H2 \<and> hello_authentic env chan H2)) \<and>
    (messageType p \<in> {MSGTYPE_DHPART1, MSGTYPE_DHPART2} \<longrightarrow> role chan = BZRTP_ROLE_RESPONDER \<longrightarrow>
      (\<exists>H1 peer c own. rd_block input 24 32 = Some H1 \<and> commit_authentic env chan H1 \<and>
        peerPackets chan COMMIT_MESSAGE_STORE_ID = Some peer \<and> messageData peer = CommitData c \<and>
        selfPackets chan HELLO_MESSAGE_STORE_ID = Some own \<and>
        compute_hvi chan input (messageLength p) own = Some (c_hvi c))) \<and>
    (messageType p \<in> {MSGTYPE_DHPART1, MSGTYPE_DHPART2} \<longrightarrow> role chan = BZRTP_ROLE_INITIATOR \<longrightarrow>
      (\<exists>H1. rd_block input 24 32 = Some H1 \<and> hello_authentic env chan (sha256 env H1 32))) \<and>
    (messageType p \<in> {MSGTYPE_CONFIRM1, MSGTYPE_CONFIRM2} \<longrightarrow>
      (\<exists>key macKey iv cipherText k H0. peer_confirm_keys chan = Some (key, macKey) \<and>
        rd_block input 32 16 = Some iv \<and>
        rd_block input 48 (unat (messageLength p - 36)) = Some cipherText \<and>
        rd_block macKey 0 (unat (hashLength chan)) = Some k \<and>
        rd_block input 24 8 = Some (hmacFunction chan k cipherText 8) \<and>
        rd_block (cipherDecryptionFunction chan key iv cipherText) 0 32 = Some H0 \<and>
        confirm_authentic env chan H0))"
proof (intro conjI impI)
  assume "messageType p = MSGTYPE_COMMIT"
  then show "\<exists>H2. rd_block input 24 32 = Some H2 \<and> hello_authentic env chan H2"
    using accepted_commit [of env chan input len p q] assms by (auto simp: bzrtp_packetParser_def)
next
  assume t: "messageType p \<in> {MSGTYPE_DHPART1, MSGTYPE_DHPART2}"
    and r: "role chan = BZRTP_ROLE_RESPONDER"
  then have "parse_dhpart env chan input len p = Some (Inr q)"
    using assms by (auto simp: bzrtp_packetParser_def)
  then show "\<exists>H1 peer c own. rd_block input 24 32 = Some H1 \<and> commit_authentic env chan H1 \<and>
        peerPackets chan COMMIT_MESSAGE_STORE_ID = Some peer \<and> messageData peer = CommitData c \<and>
        selfPackets chan HELLO_MESSAGE_STORE_ID = Some own \<and>
        compute_hvi chan input (messageLength p) own = Some (c_hvi c)"
    using accepted_dhpart accepted_dhpart_responder [OF _ r] by metis
next
  assume t: "messageType p \<in> {MSGTYPE_DHPART1, MSGTYPE_DHPART2}"
    and r: "role chan = BZRTP_ROLE_INITIATOR"
  then have "parse_dhpart env chan input len p = Some (Inr q)"
    using assms by (auto simp: bzrtp_packetParser_def)
  then show "\<exists>H1. rd_block input 24 32 = Some H1 \<and> hello_authentic env chan (sha256 env H1 32)"
  proof (rule accepted_dhpart)
    fix H1 assume "rd_block input 24 32 = Some H1"
      and "check_dhpart_sender env chan input p H1 = Some None"
    with r check_hello_authentic show ?thesis by (simp add: check_dhpart_sender_def)
  qed
next
  assume "messageType p \<in> {MSGTYPE_CONFIRM1, MSGTYPE_CONFIRM2}"
  then have "parse_confirm env chan input len p = Some (Inr q)"
    using assms by (auto simp: bzrtp_packetParser_def)
  from accepted_confirm [OF this] check_confirm_chain_authentic
  show "\<exists>key macKey iv cipherText k H0. peer_confirm_keys chan = Some (key, macKey) \<and>
        rd_block input 32 16 = Some iv \<and>
        rd_block input 48 (unat (messageLength p - 36)) = Some cipherText \<and>
        rd_block macKey 0 (unat (hashLength chan)) = Some k \<and>
        rd_block input 24 8 = Some (hmacFunction chan k cipherText 8) \<and>
        rd_block (cipherDecryptionFunction chan key iv cipherText) 0 32 = Some H0 \<and>
        confirm_authentic env chan H0" by metis
qed

text \<open>A channel that holds a Hello whose MAC is keyed by the H2 of the sample Commit.\<close>

definition sample_stored_hello :: packet where
  "sample_stored_hello =
     \<lparr>sequenceNumber = 1, sourceIdentifier = 1, messageType = MSGTYPE_HELLO, messageLength = 88,
      messageData = HelloData (received_hello (create_hello sample_ctx sample_chan)
        (hmacSha256 sample_env (replicate 32 3) (replicate 80 2) 8)),
      packetString = Some (replicate 104 2), fragments = []\<rparr>"

definition sample_peer :: channel_context where
  "sample_peer = sample_chan\<lparr>peerPackets := (\<lambda>_. Some sample_stored_hello)\<rparr>"

lemma sample_check_hello: "check_hello sample_env sample_peer (c_H2 sample_commit) = Some None"
  by (rule check_hello_received [of _ sample_stored_hello
        "received_hello (create_hello sample_ctx sample_chan)
          (hmacSha256 sample_env (replicate 32 3) (replicate 80 2) 8)" "replicate 104 2"])
     (simp_all add: sample_peer_def sample_stored_hello_def sample_commit_def received_hello_def
       create_hello_def, simp_all add: sample_chan_def sample_env_def)

theorem accepted_messages_authentic_witness:
  "\<exists>p input q. messageType p = MSGTYPE_COMMIT \<and>
     bzrtp_packetParser sample_env sample_peer input (length input) p = Some (Inr q) \<and>
     (\<exists>H2. rd_block input 24 32 = Some H2 \<and> hello_authentic sample_env sample_peer H2)"
proof -
  obtain fs where fs: "commit_fields sample_env sample_commit = Some fs"
    using commit_fields_shape [OF sample_commit_wf] by metis
  define input where "input = replicate 24 0 @ (fields_bytes fs @ replicate 8 0) @ ([] :: bytes)"
  define p where "p = (empty_packet MSGTYPE_COMMIT 1 NoData)\<lparr>messageLength := 100\<rparr>"
  have "unat (messageLength p) = 84 + commit_variable sample_env sample_commit"
    by (simp add: p_def sample_commit_variable)
  from parse_commit_at [OF sample_commit_wf fs input_def _ _ this sample_check_hello]
  obtain q where "parse_commit sample_env sample_peer input (length input) p = Some (Inr q)" by simp
  then have "bzrtp_packetParser sample_env sample_peer input (length input) p = Some (Inr q)"
    "messageType p = MSGTYPE_COMMIT"
    by (simp_all add: bzrtp_packetParser_def p_def empty_packet_def)
  with accepted_messages_authentic [of sample_env sample_peer input "length input" p q]
  show ?thesis by blast
qed

section \<open>Confirm\<close>

definition confirm_wf :: "confirm_message \<Rightarrow> bool" where
  "confirm_wf c \<longleftrightarrow> length (cf_H0 c) = 32 \<and> length (cf_CFBIV c) = 16 \<and>
     cf_E c \<le> 1 \<and> cf_V c \<le> 1 \<and> cf_A c \<le> 1 \<and> cf_D c \<le> 1 \<and> cf_sig_len c < 512 \<and>
     (if cf_sig_len c = 0 then cf_signatureBlockType c = replicate 4 0 \<and> cf_signatureBlock c = None
      else length (cf_signatureBlockType c) = 4 \<and>
           (\<exists>b. cf_signatureBlock c = Some b \<and> length b = 4 * (unat (cf_sig_len c) - 1)))"

lemma u8_bit_cases: "(x :: u8) \<le> 1 \<Longrightarrow> x = 0 \<or> x = 1"
proof -
  assume "x \<le> 1"
  then have "unat x \<le> 1" by (simp add: word_le_nat_alt)
  then have "unat x = 0 \<or> unat x = 1" by arith
  then show ?thesis by (auto simp: word_unat_eq_iff)
qed

lemma confirm_flags:
  fixes E V A D :: u8
  assumes "E \<le> 1" and "V \<le> 1" and "A \<le> 1" and "D \<le> 1"
  defines "f \<equiv> push_bit 3 (E AND 1) OR push_bit 2 (V AND 1) OR push_bit 1 (A AND 1) OR (D AND 1)"
  shows "drop_bit 3 (f AND 8) = E \<and> drop_bit 2 (f AND 4) = V \<and> drop_bit 1 (f AND 2) = A \<and>
    f AND 1 = D"
  using u8_bit_cases [OF assms(1)] u8_bit_cases [OF assms(2)] u8_bit_cases [OF assms(3)]
    u8_bit_cases [OF assms(4)] unfolding f_def
  by (elim disjE) simp_all

lemma signature_length:
  assumes "s < (512 :: u16)"
  shows "be16 (ucast (drop_bit 8 s AND 1) AND 1) (ucast s) = s"
proof -
  have "unat (take_bit 9 s) = unat s"
    using assms by (simp add: unsigned_take_bit_eq word_less_nat_alt take_bit_nat_eq_self)
  then have "s = take_bit 9 s" by (simp add: word_unat_eq_iff)
  then obtain r where s: "s = take_bit 9 r" by blast
  have "(1 :: u16) = mask 1" "(1 :: u8) = mask 1" by (simp_all add: mask_eq_exp_minus_1)
  note ones = this
  show ?thesis
  proof (rule bit_word_eqI)
    fix n :: nat
    consider "n < 8" | "n = 8" | "9 \<le> n" by linarith
    then show "bit (be16 (ucast (drop_bit 8 s AND 1) AND 1) (ucast s)) n = bit s n"
      unfolding s be16_def ones by cases (auto simp: bit_simps)
  qed
qed


text \<open>The plain text of a Confirm and its fields.\<close>

lemma confirm_update:
  "c\<lparr>cf_confirm_mac := mac\<rparr> =
     \<lparr>cf_confirm_mac = mac, cf_CFBIV = cf_CFBIV c, cf_H0 = cf_H0 c, cf_sig_len = cf_sig_len c,
      cf_E = cf_E c, cf_V = cf_V c, cf_A = cf_A c, cf_D = cf_D c,
      cf_cacheExpirationInterval = cf_cacheExpirationInterval c,
      cf_signatureBlockType = cf_signatureBlockType c, cf_signatureBlock = cf_signatureBlock c\<rparr>"
  by (cases c) simp

lemma confirm_plain_shape:
  assumes wf: "confirm_wf c"
  shows "\<exists>fs. confirm_plain_fields c = Some fs \<and> fields_ok fs \<and>
    fields_length fs = 40 + 4 * unat (cf_sig_len c) \<and>
    rd_block (fields_bytes fs) 0 32 = Some (cf_H0 c) \<and>
    (\<forall>mac. parse_confirm_plain mac (cf_CFBIV c) (cf_H0 c) (fields_bytes fs) =
       Some (c\<lparr>cf_confirm_mac := mac\<rparr>))"
proof -
  let ?s = "cf_sig_len c"
  define f where "f = push_bit 3 (cf_E c AND 1) OR push_bit 2 (cf_V c AND 1) OR
    push_bit 1 (cf_A c AND 1) OR (cf_D c AND 1)"
  have sizes: "length (cf_H0 c) = 32" "?s < 512" using wf by (auto simp: confirm_wf_def)
  have fl: "drop_bit 3 (f AND 8) = cf_E c \<and> drop_bit 2 (f AND 4) = cf_V c \<and>
      drop_bit 1 (f AND 2) = cf_A c \<and> f AND 1 = cf_D c"
    unfolding f_def using wf by (intro confirm_flags) (auto simp: confirm_wf_def)
  define base :: "(bytes \<times> nat) list" where "base = [(cf_H0 c, 32), ([0], 1), ([ucast (drop_bit 8 ?s AND 1)], 1),
        ([ucast ?s], 1), ([f], 1), (enc32 (cf_cacheExpirationInterval c), 4)]"
  define pl where "pl rest = fields_bytes base @ rest" for rest :: bytes
  have lb: "length (fields_bytes base) = 40" using sizes by (simp add: base_def)
  have rd: "rd8 (pl rest) 33 = Some (ucast (drop_bit 8 ?s AND 1))" "rd8 (pl rest) 34 = Some (ucast ?s)"
    "rd8 (pl rest) 35 = Some f" "rd32 (pl rest) 36 = Some (cf_cacheExpirationInterval c)"
    "rd_block (pl rest) 0 32 = Some (cf_H0 c)" for rest
    using sizes
    by (simp_all add: pl_def base_def rd8_def rd32_def rd_block_def nth_append enc32_def)
  show ?thesis
  proof (cases "?s = 0")
    case True
    then have z: "cf_signatureBlockType c = replicate 4 0" "cf_signatureBlock c = None"
      using wf by (auto simp: confirm_wf_def)
    have "confirm_plain_fields c = Some base"
      using True by (simp add: confirm_plain_fields_def base_def f_def)
    moreover have "parse_confirm_plain mac (cf_CFBIV c) (cf_H0 c) (pl []) =
        Some (c\<lparr>cf_confirm_mac := mac\<rparr>)" for mac
      using rd [of "[]"] fl signature_length [OF sizes(2)] True z
      by (simp add: parse_confirm_plain_def Let_def confirm_update)
    ultimately show ?thesis
      using rd(5) [of "[]"] sizes True by (simp add: pl_def) (simp add: base_def)
  next
    case False
    then obtain b where b: "cf_signatureBlock c = Some b" "length b = 4 * (unat ?s - 1)"
      and ty: "length (cf_signatureBlockType c) = 4" using wf by (auto simp: confirm_wf_def)
    have pos: "0 < ?s" "0 < unat ?s" using False by (auto simp: word_neq_0_conv unat_gt_0)
    let ?fs = "base @ [(cf_signatureBlockType c, 4), (b, (unat ?s - 1) * 4)]"
    have "confirm_plain_fields c = Some ?fs"
      using pos b by (simp add: confirm_plain_fields_def base_def f_def)
    moreover have bytes: "fields_bytes ?fs = pl (cf_signatureBlockType c @ b)"
      using ty b by (simp add: pl_def)
    moreover have "rd_block (pl (cf_signatureBlockType c @ b)) 40 4 = Some (cf_signatureBlockType c)"
      "rd_block (pl (cf_signatureBlockType c @ b)) 44 (4 * (unat ?s - 1)) = Some b"
      using lb ty b by (simp_all add: pl_def rd_block_def)
    then have "parse_confirm_plain mac (cf_CFBIV c) (cf_H0 c) (pl (cf_signatureBlockType c @ b)) =
        Some (c\<lparr>cf_confirm_mac := mac\<rparr>)" for mac
      using rd [of "cf_signatureBlockType c @ b"] fl signature_length [OF sizes(2)] pos b
      by (simp add: parse_confirm_plain_def Let_def confirm_update)
    moreover have "fields_ok ?fs" "fields_length ?fs = 40 + 4 * unat ?s"
      using sizes ty b pos by (simp_all add: base_def)
    ultimately show ?thesis
      using rd(5) [of "cf_signatureBlockType c @ b"] by (intro exI [of _ ?fs]) (simp only: simp_thms)
  qed
qed


text \<open>
  Two channels that agree on the keys and on the crypto functions, in the direction from
  \<open>chan\<close> to \<open>peer\<close>. The two laws of the cipher are that decryption undoes encryption and that
  the cipher text is as long as the plain text; the MAC fills the eight bytes asked for.
\<close>

definition confirm_agreement :: "channel_context \<Rightarrow> channel_context \<Rightarrow> bool" where
  "confirm_agreement chan peer \<longleftrightarrow>
     (\<exists>key macKey. own_confirm_keys chan = Some (key, macKey) \<and>
        peer_confirm_keys peer = Some (key, macKey) \<and> unat (hashLength chan) \<le> length macKey \<and>
        (\<forall>iv x. cipherDecryptionFunction peer key iv (cipherEncryptionFunction chan key iv x) = x \<and>
                length (cipherEncryptionFunction chan key iv x) = length x)) \<and>
     hashLength peer = hashLength chan \<and> hmacFunction peer = hmacFunction chan \<and>
     (\<forall>k d. length (hmacFunction chan k d 8) = 8)"

lemma build_confirm_at:
  assumes wf: "confirm_wf c" and data: "messageData p = ConfirmData c"
    and keys: "own_confirm_keys chan = Some (key, macKey)"
    and k: "unat (hashLength chan) \<le> length macKey"
    and len: "unat len = 76 + 4 * unat (cf_sig_len c)" "len = 76 + cf_sig_len c * 4"
    and fs: "confirm_plain_fields c = Some fs" "fields_ok fs"
      "fields_length fs = 40 + 4 * unat (cf_sig_len c)"
    and ct: "ct = cipherEncryptionFunction chan key (cf_CFBIV c) (fields_bytes fs)"
      "length ct = 40 + 4 * unat (cf_sig_len c)"
    and mac: "mac = hmacFunction chan (take (unat (hashLength chan)) macKey) ct 8" "length mac = 8"
  obtains x y where "length x = 24" "length y = 4"
    "build_confirm env chan p = Some (Inr (p\<lparr>messageLength := len,
       packetString := Some (x @ (mac @ cf_CFBIV c @ ct) @ y)\<rparr>, None))"
proof -
  have iv: "length (cf_CFBIV c) = 16" using wf by (simp add: confirm_wf_def)
  have enc: "unat (len - 36) = 40 + 4 * unat (cf_sig_len c)"
    using len(1) by (simp add: unat_sub_if_size word_le_nat_alt)
  have plain: "copy_fields (fresh_buf env (unat (len - 36))) 0 fs = Some (fields_bytes fs)"
    using copy_fields_at [OF fs(2), of "fresh_buf env (unat (len - 36))" "[]" 0 "[]"] fs(3) enc
    by simp
  have "length (fresh_buf env (12 + unat len + 4)) = 24 + (8 + (16 + (length ct + 4)))"
    using len(1) ct(2) by simp
  then obtain x x1 where x: "fresh_buf env (12 + unat len + 4) = x @ x1" "length x = 24"
    "length x1 = 8 + (16 + (length ct + 4))" by (rule split_at)
  from x(3) obtain m x2 where m: "x1 = m @ x2" "length m = 8" "length x2 = 16 + (length ct + 4)"
    by (rule split_at)
  from m(3) obtain v x3 where v: "x2 = v @ x3" "length v = 16" "length x3 = length ct + 4"
    by (rule split_at)
  from v(3) obtain o' y where y: "x3 = o' @ y" "length o' = length ct" "length y = 4"
    by (rule split_at)
  have w1: "wr_block (fresh_buf env (12 + unat len + 4)) 48 ct = Some ((x @ m @ v) @ ct @ y)"
    using wr_block_at [of "x @ m @ v" 48 o' ct y] x m v y by simp
  have r1: "rd_block ((x @ m @ v) @ ct @ y) 48 (unat (len - 36)) = Some ct"
    using x(2) m(2) v(2) ct(2) enc by (intro rd_block_at) auto
  have w2: "wr_block ((x @ m @ v) @ ct @ y) 24 mac = Some (x @ mac @ v @ ct @ y)"
    using wr_block_at [of x 24 m mac "v @ ct @ y"] x m mac(2) by simp
  have w3: "copy_fields (x @ mac @ v @ ct @ y) 32 [(cf_CFBIV c, 16)] =
      Some (x @ mac @ cf_CFBIV c @ ct @ y)"
    using copy_fields_at [of "[(cf_CFBIV c, 16)]" v "x @ mac" 32 "ct @ y"] x(2) mac(2) v(2) iv
    by simp
  have kk: "rd_block macKey 0 (unat (hashLength chan)) = Some (take (unat (hashLength chan)) macKey)"
    using k by simp
  have "build_confirm env chan p = Some (Inr (p\<lparr>messageLength := len,
       packetString := Some (x @ (mac @ cf_CFBIV c @ ct) @ y)\<rparr>, None))"
    unfolding build_confirm_def keys data option.case prod.case message_data.case Let_def
    using plain w1 r1 w2 w3 kk fs(1)
    by (simp only: len(2) [symmetric] ct(1) [symmetric] mac(1) [symmetric] Option.bind.simps
        append_assoc)
  with that x(2) y(3) show thesis by blast
qed

lemma confirm_length:
  assumes "s < (512 :: u16)"
  shows "unat (76 + s * 4) = 76 + 4 * unat s" and "unat (76 + s * 4 + 16) = 92 + 4 * unat s"
proof -
  have s: "unat s < 512" using assms by (simp add: word_less_nat_alt)
  have a: "unat (s * 4) = 4 * unat s" using s by (simp add: unat_word_ariths)
  show b: "unat (76 + s * 4) = 76 + 4 * unat s"
    using s a by (simp add: unat_word_ariths)
  show "unat (76 + s * 4 + 16) = 92 + 4 * unat s"
    using s b unat_word_ariths(1) [of "76 + s * 4" 16] by simp
qed

lemma parse_confirm_at:
  assumes wf: "confirm_wf c" and keys: "peer_confirm_keys peer = Some (key, macKey)"
    and k: "unat (hashLength peer) \<le> length macKey"
    and len: "unat (messageLength p) = 76 + 4 * unat (cf_sig_len c)"
    and input: "input = pre @ (mac @ cf_CFBIV c @ ct) @ post" "length pre = 24" "length mac = 8"
    and ct: "length ct = 40 + 4 * unat (cf_sig_len c)"
      "cipherDecryptionFunction peer key (cf_CFBIV c) ct = fields_bytes fs"
    and mac: "mac = hmacFunction peer (take (unat (hashLength peer)) macKey) ct 8"
    and fs: "rd_block (fields_bytes fs) 0 32 = Some (cf_H0 c)"
      "parse_confirm_plain mac (cf_CFBIV c) (cf_H0 c) (fields_bytes fs) =
       Some (c\<lparr>cf_confirm_mac := mac\<rparr>)"
    and chain: "check_confirm_chain env peer (cf_H0 c) = Some None"
  shows "parse_confirm env peer input (length input) p = Some (Inr (p\<lparr>messageData :=
    ConfirmData (c\<lparr>cf_confirm_mac := mac\<rparr>), packetString := Some input\<rparr>))"
proof -
  have iv: "length (cf_CFBIV c) = 16" using wf by (simp add: confirm_wf_def)
  have "unat (messageLength p - 36) = 40 + 4 * unat (cf_sig_len c)"
    using len by (simp add: unat_sub_if_size word_le_nat_alt)
  then have rd: "rd_block input 24 8 = Some mac" "rd_block input 32 16 = Some (cf_CFBIV c)"
    "rd_block input 48 (unat (messageLength p - 36)) = Some ct"
    "rd_block input 0 (length input) = Some input"
    unfolding input(1) using input(2,3) iv ct(1) by (simp_all add: rd_block_def)
  have kk: "rd_block macKey 0 (unat (hashLength peer)) = Some (take (unat (hashLength peer)) macKey)"
    using k by simp
  show ?thesis
    unfolding parse_confirm_def keys option.case prod.case Let_def
    by (simp only: rd kk mac [symmetric] ct(2) fs chain Option.bind.simps option.case simp_thms if_False)
qed

text \<open>The packet that is sent for a Confirm: its fields are encrypted with the key \<open>key\<close> and the
  result authenticated with \<open>macKey\<close>.\<close>

lemma confirm_sent:
  fixes len :: u16
  assumes env: "env_ok env" and c: "confirm_wf c"
    and p: "messageType p \<in> {MSGTYPE_CONFIRM1, MSGTYPE_CONFIRM2}" "messageData p = ConfirmData c"
    and mtu: "92 + 4 * unat (cf_sig_len c) \<le> mtu ctx" and name: "messageTypeInttoString (messageType p) = Some name"
    and keys: "own_confirm_keys chan = Some (key, macKey)" "unat (hashLength chan) \<le> length macKey"
    and len: "len = 76 + cf_sig_len c * 4"
    and fs: "confirm_plain_fields c = Some fs" "fields_ok fs" "fields_length fs = 40 + 4 * unat (cf_sig_len c)"
    and ct: "ct = cipherEncryptionFunction chan key (cf_CFBIV c) (fields_bytes fs)" "length ct = 40 + 4 * unat (cf_sig_len c)"
    and mac: "mac = hmacFunction chan (take (unat (hashLength chan)) macKey) ct 8" "length mac = 8"
  shows "\<exists>p'. bzrtp_packetBuild env ctx chan (Some p) = Some (Inr (p', chan)) \<and>
    (\<forall>n. bzrtp_packetSetSequenceNumber (Some p') n =
       Some (Inr (p'\<lparr>sequenceNumber := n, packetString := Some (wire 0x10 n (sourceIdentifier p)
         (message_header len name @ (mac @ cf_CFBIV c @ ct)))\<rparr>)))"
proof -
  have "cf_sig_len c < 512" and iv: "length (cf_CFBIV c) = 16" using c by (simp_all add: confirm_wf_def)
  note ul = confirm_length [OF this(1), folded len]
  let ?b = "mac @ cf_CFBIV c @ ct"
  obtain x y where xy: "length x = 24" "length y = 4" and body: "build_confirm env chan p =
      Some (Inr (p\<lparr>messageLength := len, packetString := Some (x @ ?b @ y)\<rparr>, None))"
    using build_confirm_at [OF c p(2) keys ul(1) len fs ct mac] by metis
  have body': "build_message env chan p = Some (Inr (p\<lparr>messageLength := len, packetString := Some (x @ ?b @ y)\<rparr>, None))"
    using body p(1) by (auto simp: build_message_def)
  have y4: "length y = 0 + 4" and content: "unat len = 12 + length ?b + 0" and fits: "unat (len + 16) \<le> mtu ctx"
    and none: "None = None \<and> (0 :: nat) = 0 \<or> None = Some (24 + length ?b, []) \<and> (0 :: nat) = 8"
    using xy(2) ul mac(2) iv ct(2) mtu by simp_all
  show ?thesis
    using build_and_number [OF env name body' xy(1) y4 none content fits] by (simp add: message_tail_def) metis
qed

text \<open>A Confirm message with or without a signature, built by one side, is decrypted and
  accepted by the other side when both agree on the keys, the cipher is invertible and the H0 it
  reveals fits the chain: the receiver gets exactly the message that was sent, with the MAC that
  was computed over its encrypted part.\<close>

theorem confirm_roundtrip:
  assumes "env_ok env" and "confirm_wf c" and "confirm_agreement chan peer"
    and "messageType p \<in> {MSGTYPE_CONFIRM1, MSGTYPE_CONFIRM2}" and "messageData p = ConfirmData c"
    and "peerSequenceNumber peer < n" and "92 + 4 * unat (cf_sig_len c) \<le> mtu ctx"
    and "check_confirm_chain env peer (cf_H0 c) = Some None"
  shows "\<exists>q mac. transmit env ctx chan p n peer = Some (Inr q) \<and>
    messageData q = ConfirmData (c\<lparr>cf_confirm_mac := mac\<rparr>) \<and> messageType q = messageType p"
proof -
  define len :: u16 where "len = 76 + cf_sig_len c * 4"
  have s: "cf_sig_len c < 512" using assms(2) by (simp add: confirm_wf_def)
  have sn: "unat (cf_sig_len c) < 512" using s by (simp add: word_less_nat_alt)
  note ul = confirm_length [OF s, folded len_def]
  obtain key macKey where keys: "own_confirm_keys chan = Some (key, macKey)"
    "peer_confirm_keys peer = Some (key, macKey)" and k: "unat (hashLength chan) \<le> length macKey"
    and crypt: "\<And>iv x. cipherDecryptionFunction peer key iv (cipherEncryptionFunction chan key iv x) = x"
      "\<And>iv x. length (cipherEncryptionFunction chan key iv x) = length x"
    and same: "hashLength peer = hashLength chan" "hmacFunction peer = hmacFunction chan"
    and l8: "\<And>k d. length (hmacFunction chan k d 8) = 8"
    using assms(3) unfolding confirm_agreement_def by blast
  obtain fs where fs: "confirm_plain_fields c = Some fs" "fields_ok fs"
    "fields_length fs = 40 + 4 * unat (cf_sig_len c)"
    "rd_block (fields_bytes fs) 0 32 = Some (cf_H0 c)"
    "\<And>mac. parse_confirm_plain mac (cf_CFBIV c) (cf_H0 c) (fields_bytes fs) =
       Some (c\<lparr>cf_confirm_mac := mac\<rparr>)"
    using confirm_plain_shape [OF assms(2)] by blast
  define ct where "ct = cipherEncryptionFunction chan key (cf_CFBIV c) (fields_bytes fs)"
  define mac where "mac = hmacFunction chan (take (unat (hashLength chan)) macKey) ct 8"
  have lct: "length ct = 40 + 4 * unat (cf_sig_len c)"
    using crypt(2) length_fields_bytes [OF fs(2)] fs(3) by (simp add: ct_def)
  have m: "length mac = 8" by (simp add: mac_def l8)
  obtain name where name: "messageTypeInttoString (messageType p) = Some name"
    using assms(4) by (auto simp: messageTypeInttoString_def message_names_def)
  obtain p' where b: "bzrtp_packetBuild env ctx chan (Some p) = Some (Inr (p', chan))"
    and s': "\<And>n. bzrtp_packetSetSequenceNumber (Some p') n =
       Some (Inr (p'\<lparr>sequenceNumber := n, packetString := Some (wire 0x10 n (sourceIdentifier p)
         (message_header len name @ (mac @ cf_CFBIV c @ ct)))\<rparr>))"
    using confirm_sent [OF assms(1,2,4,5,7) name keys(1) k len_def fs(1-3) ct_def lct mac_def m] by blast
  have content: "unat len = 12 + length (mac @ cf_CFBIV c @ ct)"
    using ul m lct assms(2) by (simp add: confirm_wf_def)
  define w where "w = wire 0x10 n (sourceIdentifier p)
    (message_header len name @ (mac @ cf_CFBIV c @ ct))"
  define q :: packet where "q = \<lparr>sequenceNumber = n, sourceIdentifier = sourceIdentifier p,
    messageType = messageType p, messageLength = len, messageData = NoData, packetString = None,
    fragments = []\<rparr>"
  have dvd: "4 dvd unat len" unfolding ul(1) by presburger
  have "unat len \<le> 3056" using ul(1) sn by simp
  note ch = checked_fields [OF content dvd this name assms(6) w_def q_def]
  obtain pre post where w: "w = pre @ (mac @ cf_CFBIV c @ ct) @ post" "length pre = 24"
    using ch(4) by blast
  have "parse_confirm env peer w (length w) q = Some (Inr (q\<lparr>messageData :=
      ConfirmData (c\<lparr>cf_confirm_mac := mac\<rparr>), packetString := Some w\<rparr>))"
    using k same ul(1) crypt(1)
    by (intro parse_confirm_at [OF assms(2) keys(2) _ _ w m lct _ _ fs(4,5) assms(8)])
       (simp_all add: q_def ct_def mac_def)
  then have "bzrtp_packetParser env peer w (length w) q = Some (Inr (q\<lparr>messageData :=
      ConfirmData (c\<lparr>cf_confirm_mac := mac\<rparr>), packetString := Some w\<rparr>))"
    using assms(4) by (auto simp: bzrtp_packetParser_def q_def)
  moreover have "bzrtp_packetSetSequenceNumber (Some p') n =
      Some (Inr (p'\<lparr>sequenceNumber := n, packetString := Some w\<rparr>))"
    using s' [of n] by (simp add: w_def)
  ultimately have "transmit env ctx chan p n peer = Some (Inr (q\<lparr>messageData :=
      ConfirmData (c\<lparr>cf_confirm_mac := mac\<rparr>), packetString := Some w\<rparr>))"
    using transmitI [OF b _ ch(1)] by metis
  then show ?thesis by (auto simp: q_def)
qed

text \<open>A signed Confirm from the sample channel to a responder that knows its DHPart.\<close>

definition sample_confirm :: confirm_message where
  "sample_confirm =
     \<lparr>cf_confirm_mac = replicate 8 0, cf_CFBIV = replicate 16 9, cf_H0 = replicate 32 1,
      cf_sig_len = 3, cf_E = 0, cf_V = 1, cf_A = 1, cf_D = 0,
      cf_cacheExpirationInterval = 0xFFFFFFFF, cf_signatureBlockType = asc ''PGP '',
      cf_signatureBlock = Some (replicate 8 7)\<rparr>"

definition sample_stored_dhpart :: packet where
  "sample_stored_dhpart =
     \<lparr>sequenceNumber = 1, sourceIdentifier = 1, messageType = MSGTYPE_DHPART2, messageLength = 88,
      messageData = DHPartData \<lparr>d_H1 = replicate 32 2, d_rs1ID = [], d_rs2ID = [],
        d_auxsecretID = [], d_pbxsecretID = [], d_pv = None,
        d_MAC = hmacSha256 sample_env (replicate 32 1) (replicate 80 2) 8\<rparr>,
      packetString = Some (replicate 104 2), fragments = []\<rparr>"

definition sample_responder :: channel_context where
  "sample_responder = sample_chan\<lparr>role := BZRTP_ROLE_RESPONDER,
     keyAgreementAlgo := ZRTP_KEYAGREEMENT_DH3k, peerPackets := (\<lambda>_. Some sample_stored_dhpart)\<rparr>"

lemma sample_confirm_wf: "confirm_wf sample_confirm"
  by (simp add: confirm_wf_def sample_confirm_def)

lemma sample_agreement: "confirm_agreement sample_chan sample_responder"
  by (simp add: confirm_agreement_def own_confirm_keys_def peer_confirm_keys_def sample_chan_def
      sample_responder_def comp_def)

lemma sample_confirm_chain:
  "check_confirm_chain sample_env sample_responder (cf_H0 sample_confirm) = Some None"
  by (simp add: check_confirm_chain_def check_dhpart_def dhpart_of_def message_mac_def
      sample_responder_def sample_stored_dhpart_def sample_confirm_def)
     (simp add: sample_env_def)

theorem confirm_roundtrip_witness:
  "\<exists>q mac. transmit sample_env sample_ctx sample_chan
      (empty_packet MSGTYPE_CONFIRM2 1 (ConfirmData sample_confirm)) 5 sample_responder =
      Some (Inr q) \<and>
    messageData q = ConfirmData (sample_confirm\<lparr>cf_confirm_mac := mac\<rparr>)"
proof -
  let ?p = "empty_packet MSGTYPE_CONFIRM2 1 (ConfirmData sample_confirm)"
  have "messageType ?p \<in> {MSGTYPE_CONFIRM1, MSGTYPE_CONFIRM2}"
    "messageData ?p = ConfirmData sample_confirm" "peerSequenceNumber sample_responder < 5"
    "92 + 4 * unat (cf_sig_len sample_confirm) \<le> mtu sample_ctx"
    by (simp_all add: empty_packet_def sample_responder_def sample_chan_def sample_confirm_def
        sample_ctx_def)
  from confirm_roundtrip [OF sample_env_ok sample_confirm_wf sample_agreement this
      sample_confirm_chain]
  show ?thesis by blast
qed

end
