(* ===== verification/Bzrtp_Fragment_Spec.thy ===== *)
theory Bzrtp_Fragment_Spec
  imports Bzrtp_Fragment Bzrtp_Confirm "HOL-Library.Multiset"
begin

text \<open>
  The end-to-end statement on fragmentation: a message that is too long for the MTU is split
  by \<open>bzrtp_packetBuild\<close>, sent by \<open>bzrtp_sendPacket\<close> and put together again by
  \<open>bzrtp_packetCheck\<close> in any order of arrival. Below it, the inputs that break the
  reassembly.
\<close>

section \<open>The buffer of a built message\<close>

lemma copy_fields_length: "copy_fields b pos fs = Some b' \<Longrightarrow> length b' = length b"
  by (induction fs arbitrary: b pos) (auto dest: wr_block_length split: bind_splits)

lemma dvd_unat_of_nat: "4 dvd n \<Longrightarrow> 4 dvd unat (of_nat n :: u16)"
  by (simp add: unat_of_nat dvd_mod)

lemma dh_length_dvd: "dh_length a = Some n \<Longrightarrow> 4 dvd n"
  unfolding dh_length_def by (auto split: if_splits)

lemma pv_length_dvd: "4 dvd bzrtp_computeKeyAgreementPublicValueLength f g a t"
  by (auto simp: bzrtp_computeKeyAgreementPublicValueLength_def round4_dvd dh_length_dvd
      split: option.split pv_message.split)

lemma confirm_length_dvd: "4 dvd unat (76 + s * 4 :: u16)"
proof -
  have "76 + s * 4 = (of_nat (76 + unat s * 4) :: u16)" by simp
  then show ?thesis using dvd_unat_of_nat [of "76 + unat s * 4"] by (simp only:) simp
qed

definition built :: "packet \<Rightarrow> packet \<Rightarrow> (nat \<times> bytes) option \<Rightarrow> bool" where
  "built p p1 mac \<longleftrightarrow> messageType p1 = messageType p \<and> fragments p1 = fragments p \<and>
     (\<forall>b. packetString p1 = Some b \<longrightarrow>
        length b = 16 + unat (messageLength p1) \<and> 4 dvd unat (messageLength p1) \<and>
        (\<forall>pos key. mac = Some (pos, key) \<longrightarrow> 24 \<le> pos))"

lemma write_content_built:
  assumes "write_content env p len fs = Some p1" and "4 dvd unat len"
    and "\<And>pos key. mac = Some (pos, key) \<Longrightarrow> 24 \<le> pos"
  shows "built p p1 mac"
  using assms by (auto simp: write_content_def built_def dest: copy_fields_length split: bind_splits)

lemma build_message_built:
  assumes "build_message env chan p = Some (Inr (p1, mac))" and "packetString p = None"
  shows "built p p1 mac"
proof -
  have hello: "built p p1 mac" if "build_hello env chan p = Some (Inr (p1, mac))"
    using that
    by (auto simp: build_hello_def Let_def simp del: of_nat_add of_nat_mult
        intro!: write_content_built dvd_unat_of_nat split: message_data.splits bind_splits)
  have commit: "built p p1 mac" if "build_commit env chan p = Some (Inr (p1, mac))"
    using that commit_variable_dvd
    by (auto simp: build_commit_def Let_def simp del: of_nat_add of_nat_mult
        intro!: write_content_built dvd_unat_of_nat split: message_data.splits bind_splits if_splits)
  have dhpart: "built p p1 mac" if "build_dhpart env chan p = Some (Inr (p1, mac))"
    using that pv_length_dvd
    by (auto simp: build_dhpart_def Let_def dhpart_pv_length_def simp del: of_nat_add of_nat_mult
        intro!: write_content_built dvd_unat_of_nat split: message_data.splits bind_splits if_splits)
  have confirm: "built p p1 mac" if "build_confirm env chan p = Some (Inr (p1, mac))"
    using that confirm_length_dvd
    by (auto simp: build_confirm_def Let_def built_def dest!: copy_fields_length wr_block_length
        split: message_data.splits bind_splits option.splits prod.splits)
  have ack: "built p p1 mac" if "build_ack env p = Some (Inr (p1, mac))"
    using that by (auto simp: build_ack_def intro!: write_content_built split: bind_splits)
  have goclear: "built p p1 mac" if "build_goclear env p = Some (Inr (p1, mac))"
    using that by (auto simp: build_goclear_def intro!: write_content_built
        split: bind_splits message_data.splits)
  have pingack: "built p p1 mac" if "build_pingack env p = Some (Inr (p1, mac))"
    using that by (auto simp: build_pingack_def intro!: write_content_built
        split: bind_splits message_data.splits)
  show ?thesis
    using assms hello commit dhpart confirm ack goclear pingack
    by (cases "messageType p") (auto simp: build_message_def built_def)
qed


lemma wr_block_take: "wr_block b pos s = Some b' \<Longrightarrow> k \<le> pos \<Longrightarrow> take k b' = take k b"
  by (auto simp: wr_block_def min_def split: if_splits)

lemma header_mac_prefix:
  assumes h: "zrtpMessageSetHeader buf len name = Some b1" and w: "write_mac env b1 len mac = Some b2"
    and mac: "\<And>pos key. mac = Some (pos, key) \<Longrightarrow> 24 \<le> pos" and n: "length name = 8"
  shows "length b2 = length buf" and "take 12 (drop 12 b2) = message_header len name"
proof -
  have b1: "length b1 = length buf" using wr_block_length h by (auto simp: zrtpMessageSetHeader_def)
  have b2: "length b2 = length b1" "take 24 b2 = take 24 b1"
    using w mac by (auto simp: write_mac_def dest: wr_block_length wr_block_take [where k = 24]
        split: option.splits if_splits bind_splits prod.splits)
  show "length b2 = length buf" using b1 b2 by simp
  have "rd_block b1 12 12 = Some (message_header len name)"
    using rd_wr_same [OF h [unfolded zrtpMessageSetHeader_def]] n by (simp add: message_header_def)
  then have "take 12 (drop 12 b1) = message_header len name"
    by (simp add: rd_block_def split: if_splits)
  moreover have "take 12 (drop 12 b2) = drop 12 (take 24 b2)" by (simp add: drop_take)
  moreover have "take 12 (drop 12 b1) = drop 12 (take 24 b1)" by (simp add: drop_take)
  ultimately show "take 12 (drop 12 b2) = message_header len name" using b2(2) by simp
qed

lemma build_fragmented:
  assumes p: "packetString p = None" "fragments p = []"
    and build: "bzrtp_packetBuild env ctx chan (Some p) = Some (Inr (p', chan'))"
    and mtu: "mtu ctx < unat (messageLength p' + 16)" "600 \<le> mtu ctx" "mtu ctx \<le> 3072"
    and R: "R = mtu ctx - 24"
  shows "\<exists>buf m name. packetString p' = Some buf \<and> m = take (unat (messageLength p')) (drop 12 buf) \<and>
    messageTypeInttoString (messageType p) = Some name \<and> length m = unat (messageLength p') \<and>
    take 12 m = message_header (messageLength p') name \<and> 4 dvd length m \<and>
    length m + 16 < 65536 \<and> mtu ctx < length m + 16 \<and> messageType p' = messageType p \<and>
    list_all2 (fragment_ready chan R m) [0..<chunks R m] (fragments p') \<and>
    chan' = chan\<lparr>selfMessageSequenceNumber := selfMessageSequenceNumber chan + 1\<rparr>"
proof -
  obtain name p1 mac buf b1 b2 where name: "messageTypeInttoString (messageType p) = Some name"
    and bm: "build_message env chan p = Some (Inr (p1, mac))" and buf: "packetString p1 = Some buf"
    and b1: "zrtpMessageSetHeader buf (messageLength p1) name = Some b1"
    and b2: "write_mac env b1 (messageLength p1) mac = Some b2"
    and rest: "finish_packet env ctx chan (p1\<lparr>packetString := Some b2\<rparr>) b2 =
      Some (Inr (p', chan'))"
    using build by (auto simp: bzrtp_packetBuild_def Let_def split: option.splits sum.splits
        bind_splits)
  note bt = build_message_built [OF bm p(1)]
  then have bp: "length buf = 16 + unat (messageLength p1)" "4 dvd unat (messageLength p1)"
    "\<And>pos key. mac = Some (pos, key) \<Longrightarrow> 24 \<le> pos" "messageType p1 = messageType p"
    "fragments p1 = []"
    using buf p(2) by (auto simp: built_def)
  have len: "messageLength p' = messageLength p1"
    using rest by (auto simp: finish_packet_def zrtpPacketSetHeader_def
        split: if_splits bind_splits sum.splits)
  let ?len = "messageLength p1"
  have small: "unat ?len + 16 < 65536"
  proof (rule ccontr)
    assume "\<not> unat ?len + 16 < 65536"
    moreover have "unat (?len + 16) = (unat ?len + 16) mod 65536" by (simp add: unat_word_ariths)
    ultimately have "unat (?len + 16) \<le> unat ?len + 16 - 65536"
      by (simp add: le_mod_geq)
    then have "unat (?len + 16) \<le> 15" using u16_unat_less [of ?len] by linarith
    then show False using mtu(1,2) len by simp
  qed
  then have len16: "unat (?len + 16) = unat ?len + 16" by (simp add: unat_word_ariths)
  note pre = header_mac_prefix [OF b1 b2 bp(3) length_message_name [OF name]]
  define m where "m = take (unat ?len) (drop 12 b2)"
  have m: "length m = unat ?len" "b2 = take 12 b2 @ m @ drop (12 + unat ?len) b2"
    using pre(1) bp(1) by (simp_all add: m_def)
       (metis append_take_drop_id drop_drop add.commute)
  have big: "mtu ctx < unat ?len + 16" using mtu(1) len len16 by simp
  have l12: "length (take 12 b2) = 12" using pre(1) bp(1) by simp
  have lm: "length m < 65536" using m small by simp
  have ge: "24 < mtu ctx" using mtu(2) by simp
  have ofl: "of_nat (length m) = ?len" using m(1) by simp
  obtain fs where fs: "fragment_loop env ctx chan b2 ?len 0 [] = Some (Inr fs)"
    "list_all2 (fragment_ready chan R m) [0..<chunks R m] fs"
    using fragment_loop_at [OF ge mtu(3) R m(2) l12 lm, of 0 env chan "[]"] by (auto simp: ofl)
  have p': "p' = p1\<lparr>packetString := Some b2, fragments := fs\<rparr>"
    "chan' = chan\<lparr>selfMessageSequenceNumber := selfMessageSequenceNumber chan + 1\<rparr>"
    using rest mtu(1) len fs(1) bp(5) by (simp_all add: finish_packet_def)
  have "take 12 m = message_header ?len name"
    using pre(2) big mtu(2) by (simp add: m_def min_def)
  then show ?thesis
    using name m(1) fs(2) bp(2,4) small big p' len unfolding m_def
    by (intro exI [of _ b2] exI [of _ m] exI [of _ name]) (simp add: m_def)
qed


section \<open>Reception in any order\<close>

text \<open>The results of checking a sequence of packets, and the channel at the end.\<close>

primrec receive_all ::
    "zrtp_env \<Rightarrow> channel_context \<Rightarrow> bytes list \<Rightarrow>
     ((zrtp_error + packet \<times> bytes \<times> nat) list \<times> channel_context) option" where
  "receive_all env chan [] = Some ([], chan)"
| "receive_all env chan (w # ws) = do {
     (r, c) \<leftarrow> bzrtp_packetCheck env (Some chan) w;
     c \<leftarrow> c;
     (rs, c) \<leftarrow> receive_all env c ws;
     Some (r # rs, c) }"

lemma packetCheck_fragment:
  assumes "12 \<le> length body" and "length body \<le> 3056"
  shows "bzrtp_packetCheck env (Some chan) (wire 0x11 n ssrc body) = do {
     (r, chan) \<leftarrow> check_fragment env chan (wire 0x11 n ssrc body) (16 + length body);
     case r of
       Inl e \<Rightarrow> Some (Inl e, Some chan)
     | Inr (buf, len) \<Rightarrow> do {
         res \<leftarrow> check_message buf n;
         case res of
           Inl e \<Rightarrow> Some (Inl e, Some chan)
         | Inr p \<Rightarrow> Some (Inr (p, buf, len), Some chan) } }"
proof -
  let ?w = "wire 0x11 n ssrc body"
  have len: "length ?w = 16 + length body" by simp
  have crc: "rd32 ?w (length ?w - 4) = Some (bzrtp_CRC32 (take (length ?w - 4) ?w))"
    using crc_wire [of "0x11" n ssrc body] unfolding len by (simp del: rd32_in)
  show ?thesis
    unfolding bzrtp_packetCheck_def option.case Let_def
    using assms by (simp only: crc rd16_wire nth_wire One_nat_def Option.bind.simps)
      (simp add: nth_wire)
qed

lemma complete_message:
  assumes "length b = 16 + length m" and "take (length m) (drop 12 b) = m"
    and "take 12 m = message_header len name" and "messageTypeInttoString t = Some name"
    and "length m = unat len" and "4 dvd unat len" and "12 \<le> unat len"
  shows "\<exists>q. check_message b n = Some (Inr q) \<and> messageType q = t \<and> messageLength q = len \<and>
    sequenceNumber q = n \<and> messageData q = NoData \<and> packetString q = None \<and> fragments q = []"
proof -
  note ln = length_message_name [OF assms(4)]
  have b: "b = take 12 b @ message_header len name @ drop 24 b"
  proof -
    have "take 12 (drop 12 b) = take 12 m"
      using assms(2,5,7) by (metis min.absorb1 take_take)
    then have "take 12 (drop 12 b) = message_header len name" using assms(3) by simp
    moreover have "drop 12 (drop 12 b) = drop 24 b" by simp
    ultimately show ?thesis by (metis append_take_drop_id)
  qed
  have l12: "length (take 12 b) = 12" using assms(1) by simp
  have rd: "rd8 b 12 = Some 0x50" "rd8 b 13 = Some 0x5a"
    using assms(1) by (subst b, simp add: rd8_def nth_append message_header_def)+
  have "rd16 b 14 = Some (drop_bit 2 len)"
    using rd16_at [of "take 12 b @ [0x50, 0x5a]" 14 "drop_bit 2 len" "name @ drop 24 b"] l12
    by (subst b) (simp add: message_header_def del: rd16_in)
  moreover have "rd_block b 16 8 = Some name"
    using rd_block_at [of "take 12 b @ [0x50, 0x5a] @ enc16 (drop_bit 2 len)" 16 name 8 "drop 24 b"]
      l12 ln by (subst b) (simp add: message_header_def del: rd_block_in)
  moreover obtain ssrc where "rd32 b 8 = Some ssrc" using assms(1) by simp
  ultimately show ?thesis
    using check_message_at [OF assms(4,6) rd] by simp
qed


definition reassembled ::
    "message_type \<Rightarrow> u16 \<Rightarrow> bytes \<Rightarrow> zrtp_error + packet \<times> bytes \<times> nat \<Rightarrow> bool" where
  "reassembled t len m r \<longleftrightarrow> (\<exists>q b. r = Inr (q, b, length m + 16) \<and> messageType q = t \<and>
     messageLength q = len \<and> length b = 16 + length m \<and> take (length m) (drop 12 b) = m)"

lemma mset_eq_map:
  "mset vs = mset (map w zs) \<Longrightarrow> \<exists>ps. vs = map w ps \<and> mset ps = mset zs"
proof (induction vs arbitrary: zs)
  case (Cons v vs)
  then have "v \<in> set (map w zs)" by (metis list.set_intros(1) mset_eq_setD)
  then obtain z where "z \<in> set zs" "w z = v" by auto
  then obtain xs ys where zs: "zs = xs @ z # ys" by (metis split_list)
  have "mset vs = mset (map w (xs @ ys))" using Cons.prems zs \<open>w z = v\<close> by simp
  then obtain ps where "vs = map w ps" "mset ps = mset (xs @ ys)" using Cons.IH by blast
  then show ?case using zs \<open>w z = v\<close> by (intro exI [of _ "z # ps"]) simp
qed simp

lemma receive_fragments:
  assumes R: "4 \<le> R" "4 dvd R" "R \<le> 3048" and m: "length m + 16 < 65536" "4 dvd length m"
    and head: "take 12 m = message_header len name" "messageTypeInttoString t = Some name"
      "length m = unat len" "12 \<le> unat len"
  shows "distinct ks \<Longrightarrow> ks \<noteq> [] \<Longrightarrow> length ns = length ks \<Longrightarrow> S \<inter> set ks = {} \<Longrightarrow>
    S \<union> set ks = {..<chunks R m} \<Longrightarrow> pending mid R m S chan \<Longrightarrow>
    \<exists>r chan'. receive_all env chan (map2 (\<lambda>k n. wire 0x11 n ssrc (fragment_bytes mid R m k)) ks ns) =
      Some (replicate (length ks - 1) (Inl BZRTP_PARSER_INFO_PACKETFRAGMENT) @ [r], chan') \<and>
      reassembled t len m r \<and> r_messageId (incomingFragmentedPacket chan') = 0 \<and>
      r_fragments (incomingFragmentedPacket chan') = []"
proof (induction ks arbitrary: S chan ns)
  case Nil
  then show ?case by simp
next
  case (Cons k ks)
  obtain n ns' where ns: "ns = n # ns'" "length ns' = length ks"
    using Cons.prems(3) by (cases ns) auto
  have R0: "0 < R" using R(1) by simp
  have k: "k < chunks R m" "k \<notin> S" and S: "S \<subseteq> {..<chunks R m}"
    using Cons.prems(4,5) by auto
  note c = chunk_nonempty [OF R0 R(2) m(2) k(1)]
  let ?w = "wire 0x11 n ssrc (fragment_bytes mid R m k)"
  have body: "12 \<le> length (fragment_bytes mid R m k)" "length (fragment_bytes mid R m k) \<le> 3056"
    using c R(3) by (auto simp: length_fragment_bytes)
  have wlen: "16 + length (fragment_bytes mid R m k) = 24 + length (chunk R m k)"
    by (simp add: length_fragment_bytes)
  note step = check_fragment_at [OF R0 R(2) m(2,1) k S Cons.prems(6) refl refl]
  note pc = packetCheck_fragment [OF body, of env chan n ssrc, unfolded wlen]
  show ?case
  proof (cases ks)
    case Nil
    then have "insert k S = {..<chunks R m}" using Cons.prems(5) by auto
    from step(2) [OF this, of env n ssrc] obtain b chan' where
      cf: "check_fragment env chan ?w (24 + length (chunk R m k)) = Some (Inr (b, length m + 16), chan')"
      and b: "length b = 16 + length m" "take (length m) (drop 12 b) = m"
      and reset: "r_messageId (incomingFragmentedPacket chan') = 0"
        "r_fragments (incomingFragmentedPacket chan') = []" by blast
    obtain q where q: "check_message b n = Some (Inr q)" "messageType q = t" "messageLength q = len"
      using complete_message [OF b head(1,2,3) _ head(4), of n] m(2) head(3) by auto
    have "bzrtp_packetCheck env (Some chan) ?w = Some (Inr (q, b, length m + 16), Some chan')"
      using pc cf q(1) by simp
    then show ?thesis
      using Nil ns reset q b by (auto simp: reassembled_def)
  next
    case (Cons k2 ks2)
    have "k2 \<notin> insert k S" using Cons.prems(1,4) Cons by auto
    then have "insert k S \<noteq> {..<chunks R m}" using Cons.prems(5) Cons by auto
    from step(1) [OF this, of env n ssrc] obtain chan1 where
      cf: "check_fragment env chan ?w (24 + length (chunk R m k)) =
        Some (Inl BZRTP_PARSER_INFO_PACKETFRAGMENT, chan1)"
      and pend: "pending mid R m (insert k S) chan1" by blast
    have "insert k S \<inter> set ks = {}" "insert k S \<union> set ks = {..<chunks R m}"
      using Cons.prems(1,4,5) by auto
    with Cons.IH [OF _ _ ns(2) this pend] Cons.prems(1) Cons obtain r chan' where
      IH: "receive_all env chan1 (map2 (\<lambda>k n. wire 0x11 n ssrc (fragment_bytes mid R m k)) ks ns') =
      Some (replicate (length ks - 1) (Inl BZRTP_PARSER_INFO_PACKETFRAGMENT) @ [r], chan')"
      "reassembled t len m r" "r_messageId (incomingFragmentedPacket chan') = 0"
      "r_fragments (incomingFragmentedPacket chan') = []" by auto
    have "bzrtp_packetCheck env (Some chan) ?w =
        Some (Inl BZRTP_PARSER_INFO_PACKETFRAGMENT, Some chan1)"
      using pc cf by simp
    then show ?thesis
      using IH ns Cons by (intro exI [of _ r] exI [of _ chan']) simp
  qed
qed

text \<open>The fragments of one message, received in any order.\<close>

lemma receive_permuted:
  assumes w: "w = (\<lambda>(k, j). wire 0x11 j ssrc (fragment_bytes mid R m k))" and R: "4 \<le> R" "4 dvd R" "R \<le> 3048" and m: "length m + 16 < 65536" "4 dvd length m"
    and head: "take 12 m = message_header len name" and name: "messageTypeInttoString ty = Some name"
    and lm: "length m = unat len" "600 \<le> length m + 16" and ns: "length ns = chunks R m" "0 < chunks R m"
    and id: "r_messageId (incomingFragmentedPacket peer) < mid"
    and vs: "mset vs = mset (map w (zip [0..<chunks R m] ns))"
  shows "\<exists>r peer'. receive_all env peer vs =
      Some (replicate (chunks R m - 1) (Inl BZRTP_PARSER_INFO_PACKETFRAGMENT) @ [r], peer') \<and>
    reassembled ty len m r \<and> r_messageId (incomingFragmentedPacket peer') = 0 \<and>
    r_fragments (incomingFragmentedPacket peer') = []"
proof -
  obtain ps where ps: "vs = map w ps" "mset ps = mset (zip [0..<chunks R m] ns)"
    using mset_eq_map [OF vs] by blast
  have l: "length ps = chunks R m" using ps(2) ns by (metis length_upt length_zip mset_eq_length
        min.idem minus_nat.diff_0)
  have "mset (map fst ps) = mset (map fst (zip [0..<chunks R m] ns))" using ps(2) by (metis mset_map)
  then have fst: "mset (map fst ps) = mset [0..<chunks R m]" using ns by simp
  then have "distinct (map fst ps)" "set (map fst ps) = {..<chunks R m}"
    by (metis distinct_upt mset_eq_imp_distinct_iff, metis atLeast_upt mset_eq_setD)
  moreover have "vs = map2 (\<lambda>k n. wire 0x11 n ssrc (fragment_bytes mid R m k)) (map fst ps) (map snd ps)"
    by (simp add: ps(1) w zip_map_fst_snd)
  moreover have "map fst ps \<noteq> []" using l ns(2) by auto
  moreover have "pending mid R m {} peer" using id by (simp add: pending_def)
  ultimately show ?thesis
    using receive_fragments [OF R m head name lm(1), of "map fst ps" "map snd ps" "{}" mid peer] lm l by simp
qed

text \<open>C2: A message longer than the MTU is built as fragments; when they are sent and arrive in
  any order, every one but the last to arrive is kept as a fragment and the last one completes
  the message: the check then gives the type, the length and all the bytes of the message that
  was built, and the reassembly state is ready for the next message. The MTU has to be a multiple
  of four between the library's minimum and the longest packet the receiver accepts.\<close>

theorem fragments_reassembled:
  assumes "packetString p = None" and "fragments p = []"
    and "bzrtp_packetBuild env ctx chan (Some p) = Some (Inr (p', chan'))"
    and "mtu ctx < unat (messageLength p' + 16)"
    and "600 \<le> mtu ctx" and "mtu ctx \<le> 3072" and "4 dvd mtu ctx"
    and "r_messageId (incomingFragmentedPacket peer) < selfMessageSequenceNumber chan"
  shows "\<exists>ws p'' chan'' m buf. bzrtp_sendPacket (Some (\<lambda>_. 0)) chan' p' =
      Some (Inr 0, ws, p'', chan'') \<and>
    packetString p' = Some buf \<and> m = take (unat (messageLength p')) (drop 12 buf) \<and>
    (\<forall>vs. mset vs = mset ws \<longrightarrow>
      (\<exists>r peer'. receive_all env peer vs =
        Some (replicate (length ws - 1) (Inl BZRTP_PARSER_INFO_PACKETFRAGMENT) @ [r], peer') \<and>
        reassembled (messageType p) (messageLength p') m r \<and>
        r_messageId (incomingFragmentedPacket peer') = 0 \<and>
        r_fragments (incomingFragmentedPacket peer') = []))"
proof -
  define R where "R = mtu ctx - 24"
  let ?mid = "selfMessageSequenceNumber chan"
  from build_fragmented [OF assms(1-6) R_def] obtain buf m name where
    buf: "packetString p' = Some buf" "m = take (unat (messageLength p')) (drop 12 buf)"
    and name: "messageTypeInttoString (messageType p) = Some name"
    and lm: "length m = unat (messageLength p')"
    and head: "take 12 m = message_header (messageLength p') name"
    and m: "4 dvd length m" "length m + 16 < 65536" "mtu ctx < length m + 16"
    and fs: "list_all2 (fragment_ready chan R m) [0..<chunks R m] (fragments p')"
    and chan': "chan' = chan\<lparr>selfMessageSequenceNumber := selfMessageSequenceNumber chan + 1\<rparr>"
    by blast
  have R: "4 \<le> R" "4 dvd R" "R \<le> 3048" using assms(5-7) by (auto simp: R_def dvd_diff_nat)
  have "0 < length m" using m(3) assms(5) by linarith
  then have "0 < chunks R m" using chunks_bound [of R 0 m] R(1) by simp
  then have K: "[0..<chunks R m] \<noteq> []" by simp
  have ne: "fragments p' \<noteq> []" using fs K by auto
  have "length m < 65536" using m(2) by simp
  from send_fragments_at [OF fs this, of "selfSequenceNumber chan'"] obtain ns fs' n' where
    ns: "length ns = length [0..<chunks R m]" and
    sent: "send_fragments (\<lambda>_. 0) (selfSequenceNumber chan') (fragments p') =
      Some (0, map2 (\<lambda>k j. wire 0x11 j (selfSSRC chan) (fragment_bytes ?mid R m k))
                 [0..<chunks R m] ns, fs', n')" by blast
  define w where "w = (\<lambda>(k, j). wire 0x11 j (selfSSRC chan) (fragment_bytes ?mid R m k))"
  define ws where "ws = map w (zip [0..<chunks R m] ns)"
  have w_ws: "ws = map2 (\<lambda>k j. wire 0x11 j (selfSSRC chan) (fragment_bytes ?mid R m k))
                 [0..<chunks R m] ns" by (simp add: ws_def w_def)
  have send: "bzrtp_sendPacket (Some (\<lambda>_. 0)) chan' p' =
      Some (Inr 0, ws, p'\<lparr>fragments := fs'\<rparr>, chan'\<lparr>selfSequenceNumber := n'\<rparr>)"
    using sent ne unfolding w_ws by (simp add: bzrtp_sendPacket_def)
  have lws: "length ws = chunks R m" using ns by (simp add: ws_def)
  have l600: "600 \<le> length m + 16" using m(3) assms(5) by linarith
  have "\<exists>r peer'. receive_all env peer vs =
        Some (replicate (length ws - 1) (Inl BZRTP_PARSER_INFO_PACKETFRAGMENT) @ [r], peer') \<and>
        reassembled (messageType p) (messageLength p') m r \<and>
        r_messageId (incomingFragmentedPacket peer') = 0 \<and>
        r_fragments (incomingFragmentedPacket peer') = []" if "mset vs = mset ws" for vs
    unfolding lws using that K ns
    by (intro receive_permuted [OF w_def R m(2,1) head name lm l600 _ _ assms(8)]) (simp_all add: ws_def)
  then show ?thesis using send buf by blast
qed

text \<open>Building never fails for want of a fragment.\<close>

lemma build_fragments_exist:
  assumes env: "env_ok env" and ok: "fields_ok fs" and ulen: "unat len = 20 + fields_length fs"
    and name: "messageTypeInttoString (messageType p) = Some name" and p: "fragments p = []"
    and body: "build_message env chan p = do {
      p \<leftarrow> write_content env p len fs; Some (Inr (p, Some (24 + fields_length fs, key))) }"
    and mtu: "24 < mtu ctx" "mtu ctx \<le> 3072" "mtu ctx < unat (len + 16)"
  shows "\<exists>p' chan'. bzrtp_packetBuild env ctx chan (Some p) = Some (Inr (p', chan')) \<and>
    messageLength p' = len"
proof -
  have "unat len = 12 + fields_length fs + 8" using ulen by simp
  from write_content_at [OF ok this] obtain x y where x: "length x = 24" and y: "length y = 8 + 4"
    and w: "write_content env p len fs =
       Some (p\<lparr>messageLength := len, packetString := Some (x @ fields_bytes fs @ y)\<rparr>)"
    by blast
  let ?mac = "Some (24 + length (fields_bytes fs), key)"
  have mac: "?mac = None \<and> (8 :: nat) = 0 \<or> ?mac = Some (24 + length (fields_bytes fs), key) \<and>
      (8 :: nat) = 8" by simp
  have ulen': "unat len = 12 + length (fields_bytes fs) + 8"
    using ulen length_fields_bytes [OF ok] by simp
  note ln = length_message_name [OF name]
  define m where "m = message_header len name @ fields_bytes fs @
    message_tail env len name (fields_bytes fs) ?mac"
  from header_and_mac [OF env x ln mac ulen' y] obtain x' c where x': "length x' = 12"
    and h: "zrtpMessageSetHeader (x @ fields_bytes fs @ y) len name =
      Some (x' @ message_header len name @ fields_bytes fs @ y)"
    and wm: "write_mac env (x' @ message_header len name @ fields_bytes fs @ y) len ?mac =
      Some (x' @ m @ c)" unfolding m_def by blast
  have lm: "length m = unat len"
    using ulen' ln length_hmac [OF env] by (simp add: m_def message_tail_def)
  then have small: "length m < 65536" and ofl: "of_nat (length m) = len" by simp_all
  obtain fs' where "fragment_loop env ctx chan (x' @ m @ c) len 0 [] = Some (Inr fs')"
    using fragment_loop_at [OF mtu(1,2) refl refl x' small, of 0 env chan c "[]"]
    by (auto simp: ofl)
  then have "bzrtp_packetBuild env ctx chan (Some p) = Some (Inr (p\<lparr>messageLength := len,
      packetString := Some (x' @ m @ c), fragments := fs'\<rparr>,
      chan\<lparr>selfMessageSequenceNumber := selfMessageSequenceNumber chan + 1\<rparr>))"
    using name body w h wm mtu(3) p length_fields_bytes [OF ok]
    by (simp add: bzrtp_packetBuild_def finish_packet_def)
  then show ?thesis by auto
qed

text \<open>A Commit with a post-quantum public key of 832 bytes, split into two fragments.\<close>

definition sample_kem_commit :: commit_message where
  "sample_kem_commit = sample_commit\<lparr>c_keyAgreementAlgo := ZRTP_KEYAGREEMENT_K255_MLK512,
     c_hvi := replicate 32 1, c_nonce := replicate 16 0, c_pv := Some (replicate 832 7)\<rparr>"

lemma sample_kem_commit_wf: "commit_wf sample_env sample_kem_commit"
  by (simp add: commit_wf_def sample_kem_commit_def sample_commit_def known_algo_def bzrtp_isKem_def
      bzrtp_computeCommitMessageVariableLength_def round4_def sample_env_def)

lemma sample_kem_commit_variable: "commit_variable sample_env sample_kem_commit = 864"
  by (simp add: sample_kem_commit_def sample_commit_def bzrtp_isKem_def
      bzrtp_computeCommitMessageVariableLength_def round4_def sample_env_def)

lemma sample_kem_commit_built:
  "\<exists>p' chan'. bzrtp_packetBuild sample_env sample_ctx sample_chan
      (Some (empty_packet MSGTYPE_COMMIT 1 (CommitData sample_kem_commit))) =
      Some (Inr (p', chan')) \<and> messageLength p' = 948"
proof -
  let ?p = "empty_packet MSGTYPE_COMMIT 1 (CommitData sample_kem_commit)"
  obtain fs where fs: "commit_fields sample_env sample_kem_commit = Some fs" and ok: "fields_ok fs"
    and fl: "fields_length fs = 64 + commit_variable sample_env sample_kem_commit"
    using commit_fields_shape [OF sample_kem_commit_wf] by metis
  have "build_message sample_env sample_chan ?p = do {
      p \<leftarrow> write_content sample_env ?p 948 fs;
      Some (Inr (p, Some (24 + fields_length fs, selfH sample_chan 1))) }"
    using fs sample_kem_commit_variable
    by (simp add: build_message_def build_commit_def empty_packet_def)
  moreover have "messageTypeInttoString (messageType ?p) = Some (asc ''Commit  '')"
    "fragments ?p = []"
    using commit_name by (simp_all add: empty_packet_def)
  moreover have "unat (948 :: u16) = 20 + fields_length fs"
    using fl sample_kem_commit_variable by simp
  ultimately show ?thesis
    by (intro build_fragments_exist [OF sample_env_ok ok]) (simp_all add: sample_ctx_def)
qed

theorem fragments_reassembled_witness:
  "\<exists>p' chan' ws p'' chan'' m. bzrtp_packetBuild sample_env sample_ctx sample_chan
      (Some (empty_packet MSGTYPE_COMMIT 1 (CommitData sample_kem_commit))) =
      Some (Inr (p', chan')) \<and>
    bzrtp_sendPacket (Some (\<lambda>_. 0)) chan' p' = Some (Inr 0, ws, p'', chan'') \<and>
    (\<exists>r peer'. receive_all sample_env sample_chan (rev ws) =
        Some (replicate (length ws - 1) (Inl BZRTP_PARSER_INFO_PACKETFRAGMENT) @ [r], peer') \<and>
        reassembled MSGTYPE_COMMIT 948 m r)"
proof -
  let ?p = "empty_packet MSGTYPE_COMMIT 1 (CommitData sample_kem_commit)"
  obtain p' chan' where b: "bzrtp_packetBuild sample_env sample_ctx sample_chan (Some ?p) =
      Some (Inr (p', chan'))" and l: "messageLength p' = 948"
    using sample_kem_commit_built by blast
  have "packetString ?p = None" "fragments ?p = []" "messageType ?p = MSGTYPE_COMMIT"
    "mtu sample_ctx < unat (messageLength p' + 16)" "600 \<le> mtu sample_ctx" "mtu sample_ctx \<le> 3072"
    "4 dvd mtu sample_ctx"
    "r_messageId (incomingFragmentedPacket sample_chan) < selfMessageSequenceNumber sample_chan"
    using l by (simp_all add: empty_packet_def sample_ctx_def sample_chan_def)
  with fragments_reassembled [OF _ _ b, of sample_chan] b l show ?thesis
    by (metis mset_rev)
qed

section \<open>Fragments that are not checked\<close>

lemma rd16_body:
  assumes "w = wire f n ssrc (enc16 a @ enc16 b @ enc16 c @ enc16 d @ data)"
  shows "rd16 w 12 = Some a" "rd16 w 14 = Some b" "rd16 w 16 = Some c" "rd16 w 18 = Some d"
  unfolding assms by (subst rd16_wire_body; simp; simp add: rd16_def rd8_def enc16_def)+

text \<open>C30: Neither the offset nor the length of a fragment is compared with the announced length of
  the message. Whatever the channel has received before, a packet with a valid CRC that announces
  a new short message but puts its data behind the end makes the check write outside the
  reassembly buffer; and a first fragment whose message identifier is zero, which is the
  identifier of an idle channel, makes it write through a null pointer.\<close>

theorem fragment_bounds_unchecked:
  assumes "4 \<le> length data" and "length data \<le> 3048"
  shows "(r_messageId (incomingFragmentedPacket chan) < mid \<longrightarrow>
     16 + 4 * unat tot < 12 + 4 * unat off + length data \<longrightarrow>
     bzrtp_packetCheck env (Some chan)
       (wire 0x11 n ssrc (enc16 mid @ enc16 tot @ enc16 off @ enc16 len @ data)) = None) \<and>
    (incomingFragmentedPacket chan =
       \<lparr>r_messageId = 0, r_messageLength = 0, r_packetString = None, r_fragments = []\<rparr> \<longrightarrow>
     bzrtp_packetCheck env (Some chan)
       (wire 0x11 n ssrc (enc16 0 @ enc16 tot @ enc16 off @ enc16 len @ data)) = None)"
proof (intro conjI impI)
  let ?body = "\<lambda>mid. enc16 mid @ enc16 tot @ enc16 off @ enc16 len @ data"
  have size': "12 \<le> length (?body mid)" "length (?body mid) \<le> 3056" for mid
    using assms by simp_all
  {
    assume new: "r_messageId (incomingFragmentedPacket chan) < mid"
      and over: "16 + 4 * unat tot < 12 + 4 * unat off + length data"
    have part: "rd_block (wire 0x11 n ssrc (?body mid)) 20 (16 + length (?body mid) - 24) = Some data"
      by (subst rd_block_wire) (simp_all add: rd_block_def)
    have "store_fragment (wire 0x11 n ssrc (?body mid)) (16 + length (?body mid)) off len
        (start_reassembly env mid tot) = None"
      using part over by (simp add: store_fragment_def start_reassembly_def wr_block_def)
    then have "check_fragment env chan (wire 0x11 n ssrc (?body mid)) (16 + length (?body mid)) = None"
      using rd16_body [OF refl, of "0x11" n ssrc mid tot off len data] new order.asym [OF new]
      by (auto simp: check_fragment_def Let_def simp del: rd16_in)
    then show "bzrtp_packetCheck env (Some chan) (wire 0x11 n ssrc (?body mid)) = None"
      using packetCheck_fragment [OF size', of env chan n ssrc mid] by simp
  }
  assume idle: "incomingFragmentedPacket chan =
       \<lparr>r_messageId = 0, r_messageLength = 0, r_packetString = None, r_fragments = []\<rparr>"
  have "check_fragment env chan (wire 0x11 n ssrc (?body 0)) (16 + length (?body 0)) = None"
    using rd16_body [OF refl, of "0x11" n ssrc 0 tot off len data] idle
    by (simp add: check_fragment_def store_fragment_def del: rd16_in)
  then show "bzrtp_packetCheck env (Some chan) (wire 0x11 n ssrc (?body 0)) = None"
    using packetCheck_fragment [OF size', of env chan n ssrc 0] by simp
qed

theorem fragment_bounds_unchecked_witness:
  "bzrtp_packetCheck sample_env (Some sample_chan)
     (wire 0x11 7 1 (enc16 1 @ enc16 3 @ enc16 1000 @ enc16 1 @ replicate 4 0xFF)) = None \<and>
   bzrtp_packetCheck sample_env (Some sample_chan)
     (wire 0x11 7 1 (enc16 0 @ enc16 3 @ enc16 0 @ enc16 1 @ replicate 4 0xFF)) = None"
proof -
  have "incomingFragmentedPacket sample_chan =
      \<lparr>r_messageId = 0, r_messageLength = 0, r_packetString = None, r_fragments = []\<rparr>"
    by (simp add: sample_chan_def)
  then show ?thesis
    using fragment_bounds_unchecked [of "replicate 4 0xFF" sample_chan 1 3 1000 sample_env 7 1 1]
      fragment_bounds_unchecked [of "replicate 4 0xFF" sample_chan 1 3 0 sample_env 7 1 1] by simp
qed

end
