(* ===== verification/Bzrtp_Crypto_Spec.thy ===== *)
theory Bzrtp_Crypto_Spec
  imports Bzrtp_Crypto "HOL-Library.Sublist"
begin

text \<open>
  The lists of algorithms of a received Hello after the mandatory ones have been added.
\<close>

section \<open>Mandatory algorithms\<close>

lemma keep_algos_inv:
  assumes "distinct out" and "distinct missing" and "set out \<inter> set missing = {}"
    and "length out + length missing \<le> 7"
  shows "\<exists>out' missing'. keep_algos out missing as = (out', missing') \<and>
    distinct (out' @ missing') \<and> length out' + length missing' \<le> 7 \<and>
    set missing \<subseteq> set out' \<union> set missing' \<and> set missing' \<subseteq> set missing \<and>
    (\<exists>rest. out' = out @ rest \<and> subseq rest as)"
  using assms
proof (induction as arbitrary: out missing)
  case Nil
  then show ?case by simp
next
  case (Cons a as)
  show ?case
  proof (cases "length out < 7 \<and> (length out + length missing < 7 \<or> a \<in> set missing) \<and> a \<notin> set out")
    case True
    have rem: "length (removeAll a missing) = length missing - (if a \<in> set missing then 1 else 0)"
      using Cons.prems(2) by (simp add: distinct_remove1_removeAll [symmetric] length_remove1)
    have l: "length (out @ [a]) + length (removeAll a missing) \<le> 7"
      using True Cons.prems(4) rem length_pos_if_in_set [of a missing] by (auto split: if_splits)
    have d: "distinct (out @ [a])" "distinct (removeAll a missing)"
      "set (out @ [a]) \<inter> set (removeAll a missing) = {}"
      using Cons.prems True by (auto simp: distinct_removeAll)
    obtain out' missing' rest where
      IH: "keep_algos (out @ [a]) (removeAll a missing) as = (out', missing')"
      "distinct (out' @ missing')" "length out' + length missing' \<le> 7"
      "set (removeAll a missing) \<subseteq> set out' \<union> set missing'"
      "set missing' \<subseteq> set (removeAll a missing)" "out' = (out @ [a]) @ rest" "subseq rest as"
      using Cons.IH [OF d l] by blast
    have "set missing \<subseteq> set out' \<union> set missing'" using IH(4,6) by auto
    moreover have "out' = out @ (a # rest)" "subseq (a # rest) (a # as)" using IH(6,7) by simp_all
    moreover have "keep_algos out missing (a # as) = (out', missing')" using True IH(1) by simp
    moreover have "set missing' \<subseteq> set missing" using IH(5) by auto
    ultimately show ?thesis using IH(2,3) by blast
  next
    case False
    show ?thesis
    proof (cases "length out < 7")
      case True
      with False have "keep_algos out missing (a # as) = keep_algos out missing as" by auto
      with Cons.IH [OF Cons.prems] show ?thesis by (metis list_emb_Cons)
    next
      case False
      with Cons.prems show ?thesis by auto
    qed
  qed
qed

text \<open>The list of algorithms of a received Hello, after the mandatory ones have been added,
  has no duplicate, fits the array of seven, contains every mandatory algorithm, and otherwise
  only algorithms of the received list, in their order of preference.\<close>

theorem mandatory_algorithms_added:
  "\<exists>kept added. bzrtp_addMandatoryCryptoTypesIfNeeded fam algos = kept @ added \<and>
     distinct (kept @ added) \<and> length (kept @ added) \<le> 7 \<and>
     set (bzrtpUtils_getMandatoryCryptoTypes fam) \<subseteq> set (kept @ added) \<and>
     set added \<subseteq> set (bzrtpUtils_getMandatoryCryptoTypes fam) \<and> subseq kept algos"
proof -
  have "distinct (bzrtpUtils_getMandatoryCryptoTypes fam)"
    "length (bzrtpUtils_getMandatoryCryptoTypes fam) \<le> 7"
    by (cases fam; simp)+
  with keep_algos_inv [of "[]" "bzrtpUtils_getMandatoryCryptoTypes fam" algos]
  obtain kept added where k: "keep_algos [] (bzrtpUtils_getMandatoryCryptoTypes fam) algos = (kept, added)"
    "distinct (kept @ added)" "length (kept @ added) \<le> 7"
    "set (bzrtpUtils_getMandatoryCryptoTypes fam) \<subseteq> set (kept @ added)"
    "set added \<subseteq> set (bzrtpUtils_getMandatoryCryptoTypes fam)" "subseq kept algos"
    by auto
  then have "bzrtp_addMandatoryCryptoTypesIfNeeded fam algos = kept @ added"
    by (simp add: bzrtp_addMandatoryCryptoTypesIfNeeded_def)
  with k(2-6) show ?thesis by blast
qed

end
