(* ===== verification/Bellesip_Message.thy ===== *)
theory Bellesip_Message
  imports Main
begin

text \<open>
  The part of a SIP message that the transactions of belle-sip read and write:
  the request line or the status code, and the headers grouped by name.  The
  headers keep what the transaction code looks at: the value, the tag of From
  and To or the branch of Via (both as \<open>htag\<close>), and the number and method of CSeq.

  \<open>make_ack\<close> is the function of src/belle-sip/src/ict.c, \<open>create_cancel\<close>,
  \<open>should_dialog_be_created\<close> and the matching of a NOTIFY are those of
  src/belle-sip/src/transaction.c, and \<open>copy_headers\<close> is
  \<open>belle_sip_util_copy_headers\<close> of belle_sip_utils.c.
\<close>

section \<open>Messages\<close>

datatype hname = Via | Call_id | From | To | Contact | Route | Max_forwards | Cseq | Event | Other string

datatype header =
    Header (hbody: string) (htag: "string option")
  | Hcseq (hseq: nat) (hmethod: string)

type_synonym headers = "(hname \<times> header) list"

record request =
  r_method :: string
  r_uri :: string
  r_headers :: headers
  r_dialog_queued :: bool

record response =
  s_code :: int
  s_headers :: headers

definition get_headers :: "headers \<Rightarrow> hname \<Rightarrow> header list" where
  "get_headers hs n = map snd (filter (\<lambda>h. fst h = n) hs)"

definition get_header :: "headers \<Rightarrow> hname \<Rightarrow> header option" where
  "get_header hs n = (case get_headers hs n of [] \<Rightarrow> None | h # _ \<Rightarrow> Some h)"

definition set_header :: "headers \<Rightarrow> hname \<Rightarrow> header \<Rightarrow> headers" where
  "set_header hs n h = filter (\<lambda>h. fst h \<noteq> n) hs @ [(n, h)]"

definition add_header :: "headers \<Rightarrow> hname \<Rightarrow> header \<Rightarrow> headers" where
  "add_header hs n h = hs @ [(n, h)]"

text \<open>
  The first header of the name replaces those of the destination, or all of them
  are appended.
\<close>

definition copy_headers :: "headers \<Rightarrow> headers \<Rightarrow> hname \<Rightarrow> bool \<Rightarrow> headers" where
  "copy_headers orig dest n multiple = (case get_headers orig n of
     [] \<Rightarrow> dest
   | h # hs \<Rightarrow> if multiple then foldl (\<lambda>d x. add_header d n x) dest (h # hs)
              else set_header dest n h)"

definition cseq_number :: "headers \<Rightarrow> nat option" where
  "cseq_number hs = (case get_header hs Cseq of Some (Hcseq n _) \<Rightarrow> Some n | _ \<Rightarrow> None)"

section \<open>Requests and responses derived from a request\<close>

text \<open>
  The ACK of a non-2xx final response.  \<open>None\<close>: the request has no CSeq, and the
  code dereferences a null pointer.
\<close>

definition make_ack_headers :: "headers \<Rightarrow> headers \<Rightarrow> headers" where
  "make_ack_headers rq rs =
     (let a = copy_headers rq [] Via False;
          a = copy_headers rq a Call_id False;
          a = copy_headers rq a From False;
          a = copy_headers rs a To False;
          a = copy_headers rq a Contact True;
          a = copy_headers rq a Route True
      in copy_headers rq a Max_forwards False)"

definition make_ack :: "request \<Rightarrow> response \<Rightarrow> request option" where
  "make_ack rq rs = (case cseq_number (r_headers rq) of
     None \<Rightarrow> None
   | Some n \<Rightarrow> Some \<lparr> r_method = ''ACK'', r_uri = r_uri rq,
       r_headers = add_header (make_ack_headers (r_headers rq) (s_headers rs)) Cseq (Hcseq n ''ACK''),
       r_dialog_queued = False \<rparr>)"

definition create_cancel_headers :: "headers \<Rightarrow> headers" where
  "create_cancel_headers rq =
     (let c = copy_headers rq [] Via False;
          c = copy_headers rq c Call_id False;
          c = copy_headers rq c From False;
          c = copy_headers rq c To False;
          c = copy_headers rq c Route True
      in copy_headers rq c Max_forwards False)"

text \<open>
  The body of \<open>belle_sip_client_transaction_create_cancel\<close> after its two guards.
\<close>

definition build_cancel :: "request \<Rightarrow> request option" where
  "build_cancel rq = (case cseq_number (r_headers rq) of
     None \<Rightarrow> None
   | Some n \<Rightarrow> Some \<lparr> r_method = ''CANCEL'', r_uri = r_uri rq,
       r_headers = add_header (create_cancel_headers (r_headers rq)) Cseq (Hcseq n ''CANCEL''),
       r_dialog_queued = False \<rparr>)"

definition should_dialog_be_created :: "request \<Rightarrow> response \<Rightarrow> bool \<Rightarrow> bool" where
  "should_dialog_be_created rq rs to_tag_required =
     (s_code rs \<ge> 101 \<and> s_code rs < 300 \<and>
      (r_method rq = ''INVITE'' \<or> r_method rq = ''SUBSCRIBE'') \<and>
      (case get_header (s_headers rs) To of None \<Rightarrow> False
       | Some to \<Rightarrow> \<not> to_tag_required \<or> htag to \<noteq> None))"

text \<open>
  A response built from a request: the headers of the request in the order of the
  code; for 100 the Timestamp too.
\<close>

definition add_some :: "headers \<Rightarrow> headers \<Rightarrow> hname \<Rightarrow> headers" where
  "add_some orig dest n = (case get_header orig n of None \<Rightarrow> dest | Some h \<Rightarrow> add_header dest n h)"

definition response_create_from_request :: "request \<Rightarrow> int \<Rightarrow> response" where
  "response_create_from_request rq code =
     (let hs = r_headers rq;
          r = (if code = 100 then add_some hs [] (Other ''timestamp'') else []);
          r = foldl (\<lambda>d x. add_header d Via x) r (get_headers hs Via);
          r = add_some hs r From;
          r = add_some hs r To;
          r = add_some hs r Call_id
      in \<lparr> s_code = code, s_headers = add_some hs r Cseq \<rparr>)"

section \<open>Facts about the headers\<close>

lemma get_headers_add [simp]:
  "get_headers (add_header hs n h) m = get_headers hs m @ (if m = n then [h] else [])"
  by (simp add: get_headers_def add_header_def)

lemma get_headers_set [simp]:
  "get_headers (set_header hs n h) m = (if m = n then [h] else get_headers hs m)"
  by (auto simp: get_headers_def set_header_def intro!: arg_cong [where f = "map snd"] filter_cong)

lemma get_headers_Nil [simp]: "get_headers [] n = []"
  by (simp add: get_headers_def)

lemma get_headers_foldl_add [simp]:
  "get_headers (foldl (\<lambda>d x. add_header d n x) hs xs) m = get_headers hs m @ (if m = n then xs else [])"
  by (induction xs arbitrary: hs) auto

lemma get_headers_copy [simp]:
  "get_headers (copy_headers orig dest n multiple) m =
     (if m \<noteq> n \<or> get_headers orig n = [] then get_headers dest m
      else if multiple then get_headers dest m @ get_headers orig n
      else [hd (get_headers orig n)])"
  by (auto simp: copy_headers_def split: list.split)

lemma make_ack_headers_of:
  "make_ack rq rs = Some a \<Longrightarrow>
     get_headers (r_headers a) Via = take 1 (get_headers (r_headers rq) Via) \<and>
     get_headers (r_headers a) Call_id = take 1 (get_headers (r_headers rq) Call_id) \<and>
     get_headers (r_headers a) From = take 1 (get_headers (r_headers rq) From) \<and>
     get_headers (r_headers a) To = take 1 (get_headers (s_headers rs) To) \<and>
     get_headers (r_headers a) Route = get_headers (r_headers rq) Route \<and>
     cseq_number (r_headers a) = cseq_number (r_headers rq) \<and>
     r_method a = ''ACK'' \<and> r_uri a = r_uri rq"
  by (auto simp: make_ack_def make_ack_headers_def cseq_number_def get_header_def Let_def
      take_Suc split: option.splits list.splits header.splits)

end
