(* ===== verification/Bellesip_Transaction.thy ===== *)
theory Bellesip_Transaction
  imports Bellesip_Message "HOL-Library.Monad_Syntax"
begin

text \<open>
  The transaction base class of belle-sip (src/belle-sip/src/transaction.c): its
  state, its timers, the channel it sends through, the termination of a
  transaction, and what it does when its channel fails.

  The C structures inherit by embedding; here they are record extensions, so that
  an operation of the base class is a function on \<open>'a transaction_scheme\<close>.  The virtual
  methods of the class are the fields of a \<open>vptr\<close>, passed to the operations that
  call them.  \<open>None\<close> as the result of an operation is a null pointer that is
  dereferenced or a call of \<open>belle_sip_fatal\<close>.

  What the transaction does to the outside world is recorded, oldest first, in the
  field \<open>out\<close>: messages given to the channel, events given to the listeners, calls
  into the dialog and the provider.  The environment of a step (\<open>env\<close>) holds the
  clock, the timer configuration, the answers of the provider, the channel and the
  dialog layer, and the calls that the listeners make back on the same transaction
  before they return.
\<close>

section \<open>States, timers and channels\<close>

datatype tstate = INIT | CALLING | COMPLETED | CONFIRMED | ACCEPTED | PROCEEDING | TRYING | TERMINATED

datatype tclass = ICT | IST | NICT | NIST

definition is_client :: "tclass \<Rightarrow> bool" where
  "is_client c = (c = ICT \<or> c = NICT)"

fun belle_sip_transaction_state_is_transient :: "tstate \<Rightarrow> bool" where
  "belle_sip_transaction_state_is_transient INIT = True"
| "belle_sip_transaction_state_is_transient TRYING = True"
| "belle_sip_transaction_state_is_transient CALLING = True"
| "belle_sip_transaction_state_is_transient PROCEEDING = True"
| "belle_sip_transaction_state_is_transient _ = False"

abbreviation (input) is_transient :: "tstate \<Rightarrow> bool" where
  "is_transient \<equiv> belle_sip_transaction_state_is_transient"

record timer_config =
  T1 :: int
  T2 :: int
  T3 :: int
  T4 :: int

text \<open>
  A timeout source: its interval, the time it expires, and whether the main loop
  holds it.
\<close>

record source =
  timeout :: int
  expire_ms :: int
  linked :: bool

datatype chan_state = CH_INIT | CH_READY | CH_RETRY | CH_ERROR | CH_DISCONNECTED | CH_OTHER

record channel =
  ch_reliable :: bool
  ch_state :: chan_state
  ch_last_recv :: int
  ch_next_peer :: bool

text \<open>
  Events for the listeners of the provider, and the calls a listener makes on the
  transaction before it returns.  A listener of a response may also close the
  channel.
\<close>

datatype event = Timeout | Io_error | Terminated_event | Response_event response | Request_event request

datatype tu_call = Call_terminate | Call_stop_retransmissions

datatype response_call = Tu tu_call | Close_channel

datatype action =
    Send_request request
  | Send_response response
  | Notify event
  | Dialog_update nat
  | Dialog_check_ack nat
  | Provider_add
  | Provider_remove
  | Queue_in_dialog nat

record env =
  cfg :: timer_config
  now :: int
  tu :: "event \<Rightarrow> tu_call list"
  tu_response :: "response \<Rightarrow> response_call list"
  client_channel :: "channel option"
  return_channel :: "response \<Rightarrow> channel option"
  uris_ok :: "request \<Rightarrow> bool"
  dialog_early_or_confirmed :: "nat \<Rightarrow> bool"
  dialog_match :: "nat \<Rightarrow> response \<Rightarrow> bool"
  find_dialog :: "response \<Rightarrow> nat option"
  new_dialog :: "nat option"
  dialog_absorbs :: "nat \<Rightarrow> bool"
  dialog_busy :: "nat \<Rightarrow> bool"
  dialog_request :: "nat \<Rightarrow> request \<Rightarrow> request"
  dialog_fill :: "response \<Rightarrow> request \<Rightarrow> response"
  dialog_handle_ack :: "nat \<Rightarrow> request \<Rightarrow> bool"

record transaction =
  request :: request
  last_response :: "response option"
  channel :: "channel option"
  dialog :: "nat option"
  call_repair_timer :: "source option"
  branch_id :: string
  state :: tstate
  timed_out :: bool
  sent_by_dialog_queue :: bool
  bg_task :: bool
  out :: "action list"

record 't vptr =
  cls :: tclass
  on_terminate :: "'t \<Rightarrow> 't"
  stop_retransmissions :: "'t \<Rightarrow> 't"

section \<open>Sources and messages\<close>

text \<open>
  \<open>belle_sip_timeout_source_new\<close> followed by \<open>belle_sip_transaction_start_timer\<close>.
\<close>

definition start_timer :: "env \<Rightarrow> int \<Rightarrow> source" where
  "start_timer e v = \<lparr> timeout = v, expire_ms = now e + v, linked = (v \<ge> 0) \<rparr>"

definition emit :: "action \<Rightarrow> 'a transaction_scheme \<Rightarrow> 'a transaction_scheme" where
  "emit a t = t\<lparr>out := out t @ [a]\<rparr>"

definition belle_sip_transaction_set_state ::
  "tstate \<Rightarrow> 'a transaction_scheme \<Rightarrow> 'a transaction_scheme" where
  "belle_sip_transaction_set_state s t = t\<lparr>state := s\<rparr>"

definition queue_message :: "action \<Rightarrow> 'a transaction_scheme \<Rightarrow> 'a transaction_scheme option" where
  "queue_message a t = (case channel t of None \<Rightarrow> None | Some _ \<Rightarrow> Some (emit a t))"

definition channel_is_reliable :: "'a transaction_scheme \<Rightarrow> bool option" where
  "channel_is_reliable t = map_option ch_reliable (channel t)"

definition transaction_end_background_task :: "'a transaction_scheme \<Rightarrow> 'a transaction_scheme" where
  "transaction_end_background_task t = t\<lparr>bg_task := False\<rparr>"

lemma channel_None_same: "channel t = None \<Longrightarrow> t\<lparr>channel := None\<rparr> = t"
  by simp

section \<open>Termination\<close>

text \<open>
  The transaction is already in state TERMINATED when the listeners are told so;
  a call of \<open>belle_sip_transaction_terminate\<close> from such a listener changes nothing.
\<close>

definition belle_sip_provider_set_transaction_terminated ::
  "('a transaction_scheme) vptr \<Rightarrow> 'a transaction_scheme \<Rightarrow> 'a transaction_scheme" where
  "belle_sip_provider_set_transaction_terminated vt t =
     emit Provider_remove (emit (Notify Terminated_event) (on_terminate vt t))"

definition no_final_response :: "'a transaction_scheme \<Rightarrow> bool" where
  "no_final_response t = (case last_response t of None \<Rightarrow> True | Some r \<Rightarrow> s_code r < 200)"

definition terminate_dialog_update :: "'a transaction_scheme \<Rightarrow> 'a transaction_scheme" where
  "terminate_dialog_update t = (case dialog t of
     Some d \<Rightarrow> if no_final_response t then emit (Dialog_update d) t else t | None \<Rightarrow> t)"

definition belle_sip_transaction_terminate ::
  "('a transaction_scheme) vptr \<Rightarrow> 'a transaction_scheme \<Rightarrow> 'a transaction_scheme" where
  "belle_sip_transaction_terminate vt t =
     (let t = t\<lparr>call_repair_timer := None\<rparr>;
          t = (if state t \<noteq> TERMINATED then
                 let t = belle_sip_transaction_set_state TERMINATED t;
                     t = terminate_dialog_update t
                 in belle_sip_provider_set_transaction_terminated vt (on_terminate vt t)
               else t)
      in transaction_end_background_task t)"

fun run_call :: "('a transaction_scheme) vptr \<Rightarrow> tu_call \<Rightarrow> 'a transaction_scheme \<Rightarrow> 'a transaction_scheme" where
  "run_call vt Call_terminate t = belle_sip_transaction_terminate vt t"
| "run_call vt Call_stop_retransmissions t =
     (if is_client (cls vt) then stop_retransmissions vt t else t)"

definition invoke_listeners ::
  "('a transaction_scheme) vptr \<Rightarrow> env \<Rightarrow> event \<Rightarrow> 'a transaction_scheme \<Rightarrow> 'a transaction_scheme" where
  "invoke_listeners vt e ev t = fold (run_call vt) (tu e ev) (emit (Notify ev) t)"

definition notify_timeout ::
  "('a transaction_scheme) vptr \<Rightarrow> env \<Rightarrow> 'a transaction_scheme \<Rightarrow> 'a transaction_scheme" where
  "notify_timeout vt e t = invoke_listeners vt e Timeout t"

section \<open>Errors of the channel\<close>

definition transaction_handle_channel_error ::
  "('a transaction_scheme) vptr \<Rightarrow> env \<Rightarrow> 'a transaction_scheme \<Rightarrow> 'a transaction_scheme" where
  "transaction_handle_channel_error vt e t =
     (let tr_state = state t;
          t = (if tr_state \<noteq> COMPLETED \<and> tr_state \<noteq> CONFIRMED \<and> tr_state \<noteq> ACCEPTED \<and> tr_state \<noteq> TERMINATED
               then invoke_listeners vt e Io_error t else t);
          t = (if timed_out t then notify_timeout vt e t
               else if cls vt = IST \<or> cls vt = ICT then t\<lparr>call_repair_timer := None\<rparr> else t);
          t = (if \<not> timed_out t \<and> is_transient (state t) \<and> (cls vt = IST \<or> cls vt = ICT)
               then t\<lparr>call_repair_timer := Some (start_timer e (32 * T1 (cfg e)))\<rparr>
               else belle_sip_transaction_terminate vt t)
      in t\<lparr>channel := None\<rparr>)"

text \<open>
  \<open>belle_sip_channel_notify_timeout\<close> and \<open>belle_sip_channel_notify_server_error\<close>
  move the channel to the error state.  With another address to try the channel
  goes to the retry state and tells its listeners at once, so that the transaction
  handles the error before the call returns; otherwise the error is notified from
  the main loop later.
\<close>

definition channel_handle_soft_error ::
  "('a transaction_scheme) vptr \<Rightarrow> env \<Rightarrow> channel \<Rightarrow> 'a transaction_scheme \<Rightarrow> 'a transaction_scheme" where
  "channel_handle_soft_error vt e ch t =
     (if ch_next_peer ch
      then (let t = t\<lparr>channel := Some (ch\<lparr>ch_state := CH_RETRY\<rparr>)\<rparr>
            in if state t \<noteq> INIT then transaction_handle_channel_error vt e t else t)
      else t\<lparr>channel := Some (ch\<lparr>ch_state := CH_ERROR\<rparr>)\<rparr>)"

definition belle_sip_channel_notify_timeout ::
  "('a transaction_scheme) vptr \<Rightarrow> env \<Rightarrow> channel \<Rightarrow> 'a transaction_scheme \<Rightarrow> bool \<times> 'a transaction_scheme" where
  "belle_sip_channel_notify_timeout vt e ch t =
     (if ch_state ch \<noteq> CH_READY then (False, t)
      else if now e - ch_last_recv ch \<ge> 60 * 1000 then (True, channel_handle_soft_error vt e ch t)
      else (False, t))"

definition belle_sip_channel_notify_server_error ::
  "('a transaction_scheme) vptr \<Rightarrow> env \<Rightarrow> 'a transaction_scheme \<Rightarrow> 'a transaction_scheme option" where
  "belle_sip_channel_notify_server_error vt e t = (case channel t of
     None \<Rightarrow> None
   | Some ch \<Rightarrow> Some (if ch_state ch = CH_ERROR then t else channel_handle_soft_error vt e ch t))"

definition belle_sip_transaction_notify_timeout ::
  "('a transaction_scheme) vptr \<Rightarrow> env \<Rightarrow> 'a transaction_scheme \<Rightarrow> 'a transaction_scheme option" where
  "belle_sip_transaction_notify_timeout vt e t =
     (if r_method (request t) = ''REGISTER'' then
        (case channel t of None \<Rightarrow> None
         | Some ch \<Rightarrow>
             (case belle_sip_channel_notify_timeout vt e ch t of
                (True, t) \<Rightarrow> Some (t\<lparr>timed_out := True\<rparr>)
              | (False, t) \<Rightarrow> Some (belle_sip_transaction_terminate vt (notify_timeout vt e t))))
      else Some (belle_sip_transaction_terminate vt (notify_timeout vt e t)))"

definition on_channel_state_changed ::
  "('a transaction_scheme) vptr \<Rightarrow> (env \<Rightarrow> 'a transaction_scheme \<Rightarrow> 'a transaction_scheme option) \<Rightarrow>
   env \<Rightarrow> chan_state \<Rightarrow> 'a transaction_scheme \<Rightarrow> 'a transaction_scheme option" where
  "on_channel_state_changed vt send_request e s t = (case s of
     CH_READY \<Rightarrow> if state t = INIT \<and> is_client (cls vt) then send_request e t else Some t
   | CH_DISCONNECTED \<Rightarrow> Some (transaction_handle_channel_error vt e t)
   | CH_ERROR \<Rightarrow> Some (transaction_handle_channel_error vt e t)
   | CH_RETRY \<Rightarrow> Some (if state t \<noteq> INIT then transaction_handle_channel_error vt e t else t)
   | _ \<Rightarrow> Some t)"

end
