(* ===== verification/Bellesip_Roles.thy ===== *)
theory Bellesip_Roles
  imports Bellesip_Transaction
begin

text \<open>
  Client and server transactions of src/belle-sip/src/transaction.c: sending the
  request of a client transaction through the dialog queue and the channel,
  handing a response to the dialog and the listeners, answering a request, and the
  requests derived from a transaction (CANCEL, the authenticated request).

  The virtual methods \<open>send_request\<close>, \<open>send_new_response\<close> and
  \<open>on_request_retransmission\<close> are arguments of the operations that call them.
\<close>

section \<open>Client transactions\<close>

record client_transaction = transaction +
  preset_route :: "string option"
  next_hop :: "string option"

definition client_transaction_init :: "string \<Rightarrow> request \<Rightarrow> (string \<times> request) option" where
  "client_transaction_init token rq = (case get_header (r_headers rq) Via of
     None \<Rightarrow> None
   | Some via \<Rightarrow>
       if r_method rq \<noteq> ''CANCEL'' then
         (let branch = ''z9hG4bK.'' @ token;
              hs = r_headers rq;
              k = length (takeWhile (\<lambda>h. fst h \<noteq> Via) hs)
          in Some (branch, rq\<lparr>r_headers := hs[k := (Via, Header (hbody via) (Some branch))]\<rparr>))
       else map_option (\<lambda>b. (b, rq)) (htag via))"

definition should_create ::
  "env \<Rightarrow> 'a transaction_scheme \<Rightarrow> nat option \<times> 'a transaction_scheme" where
  "should_create e t = (case new_dialog e of
     None \<Rightarrow> (None, t) | Some d \<Rightarrow> (Some d, t\<lparr>dialog := Some d\<rparr>))"

text \<open>
  The dialog a response belongs to, lines 614 to 630 of the code.
\<close>

definition response_dialog ::
  "env \<Rightarrow> response \<Rightarrow> 'a transaction_scheme \<Rightarrow> nat option \<times> 'a transaction_scheme" where
  "response_dialog e resp t = (case dialog t of
     Some d \<Rightarrow>
       if s_code resp \<ge> 101 \<and> s_code resp < 300 \<and> r_method (request t) = ''INVITE'' \<and>
          dialog_early_or_confirmed e d \<and> \<not> dialog_match e d resp
       then (case find_dialog e resp of
               Some d' \<Rightarrow> (Some d', t)
             | None \<Rightarrow> if should_dialog_be_created (request t) resp True then should_create e t else (None, t))
       else (Some d, t)
   | None \<Rightarrow> if should_dialog_be_created (request t) resp False then should_create e t else (None, t))"

fun run_response_call ::
  "('a transaction_scheme) vptr \<Rightarrow> env \<Rightarrow> response_call \<Rightarrow> 'a transaction_scheme \<Rightarrow> 'a transaction_scheme" where
  "run_response_call vt e (Tu c) t = run_call vt c t"
| "run_response_call vt e Close_channel t = (case channel t of
     None \<Rightarrow> t
   | Some ch \<Rightarrow> if ch_state ch = CH_DISCONNECTED then t else transaction_handle_channel_error vt e t)"

definition invoke_response_listeners ::
  "('a transaction_scheme) vptr \<Rightarrow> env \<Rightarrow> response \<Rightarrow> 'a transaction_scheme \<Rightarrow> 'a transaction_scheme" where
  "invoke_response_listeners vt e resp t =
     fold (run_response_call vt e) (tu_response e resp) (emit (Notify (Response_event resp)) t)"

definition report_server_error ::
  "('a transaction_scheme) vptr \<Rightarrow> env \<Rightarrow> response \<Rightarrow> 'a transaction_scheme \<Rightarrow> 'a transaction_scheme option" where
  "report_server_error vt e resp t =
     (if r_method (request t) = ''REGISTER'' \<and> (s_code resp = 500 \<or> s_code resp = 503)
      then belle_sip_channel_notify_server_error vt e t else Some t)"

definition belle_sip_client_transaction_notify_response ::
  "('a transaction_scheme) vptr \<Rightarrow> env \<Rightarrow> response \<Rightarrow> 'a transaction_scheme \<Rightarrow> 'a transaction_scheme option" where
  "belle_sip_client_transaction_notify_response vt e resp t =
     (case response_dialog e resp (t\<lparr>last_response := Some resp\<rparr>) of
        (None, t) \<Rightarrow> report_server_error vt e resp (invoke_response_listeners vt e resp t)
      | (Some d, t) \<Rightarrow>
          (let t = emit (Dialog_update d) t in
           if dialog_absorbs e d then Some t
           else (let t = invoke_response_listeners vt e resp t;
                     t = (if s_code resp \<ge> 200 \<and> s_code resp < 300 \<and> r_method (request t) = ''INVITE''
                          then emit (Dialog_check_ack d) t else t)
                 in report_server_error vt e resp t)))"

text \<open>
  Sending a request, in three parts: the dialog (lines 520 to 550), the next hop
  and the channel.  \<open>Inl\<close> is an early return.
\<close>

definition send_through_dialog ::
  "('a client_transaction_scheme) vptr \<Rightarrow> env \<Rightarrow> 'a client_transaction_scheme \<Rightarrow>
   ((int \<times> 'a client_transaction_scheme) + 'a client_transaction_scheme) option" where
  "send_through_dialog vt e t =
     (if sent_by_dialog_queue t then
        (case dialog t of None \<Rightarrow> None
         | Some d \<Rightarrow> Some (Inr (t\<lparr>request := dialog_request e d (request t)\<rparr>)))
      else if r_dialog_queued (request t) then
        (case dialog t of
           None \<Rightarrow> Some (Inl (-1, belle_sip_transaction_terminate vt t))
         | Some d \<Rightarrow>
             if dialog_busy e d then Some (Inl (0, emit (Queue_in_dialog d) t))
             else Some (Inr (t\<lparr>request := dialog_request e d (request t)\<rparr>)))
      else Some (Inr t))"

definition update_dialog :: "'a transaction_scheme \<Rightarrow> 'a transaction_scheme" where
  "update_dialog t = (case dialog t of None \<Rightarrow> t | Some d \<Rightarrow> emit (Dialog_update d) t)"

definition send_through_channel ::
  "('a client_transaction_scheme) vptr \<Rightarrow>
   (env \<Rightarrow> 'a client_transaction_scheme \<Rightarrow> 'a client_transaction_scheme option) \<Rightarrow>
   env \<Rightarrow> 'a client_transaction_scheme \<Rightarrow> (int \<times> 'a client_transaction_scheme) option" where
  "send_through_channel vt send_request e t =
     (let t = emit Provider_add t in
      case client_channel e of
        None \<Rightarrow> Some (-1, belle_sip_transaction_terminate vt t)
      | Some ch \<Rightarrow>
          (let t = t\<lparr>channel := Some ch\<rparr> in
           if ch_state ch = CH_READY then map_option (Pair 0) (send_request e t) else Some (0, t)))"

definition belle_sip_client_transaction_send_request_to ::
  "('a client_transaction_scheme) vptr \<Rightarrow>
   (env \<Rightarrow> 'a client_transaction_scheme \<Rightarrow> 'a client_transaction_scheme option) \<Rightarrow>
   env \<Rightarrow> string option \<Rightarrow> string \<Rightarrow> 'a client_transaction_scheme \<Rightarrow>
   (int \<times> 'a client_transaction_scheme) option" where
  "belle_sip_client_transaction_send_request_to vt send_request e outbound_proxy hop t =
     (if state t \<noteq> INIT then Some (-1, t)
      else if \<not> uris_ok e (request t) then Some (-1, t)
      else
        (let t = (case outbound_proxy of None \<Rightarrow> t | Some p \<Rightarrow> t\<lparr>preset_route := Some p\<rparr>) in
         case send_through_dialog vt e t of
           None \<Rightarrow> None
         | Some (Inl r) \<Rightarrow> Some r
         | Some (Inr t) \<Rightarrow>
             (let t = update_dialog t;
                  t = (case next_hop t of
                         Some _ \<Rightarrow> t
                       | None \<Rightarrow> t\<lparr>next_hop := Some (case preset_route t of Some p \<Rightarrow> p | None \<Rightarrow> hop)\<rparr>)
              in send_through_channel vt send_request e t)))"

text \<open>
  Before a response reaches the transaction the provider looks for a channel when
  the transaction has lost its own (src/belle-sip/src/provider.c, lines 287 to
  311); without one the transaction does not see the response.
\<close>

definition provider_dispatch_response ::
  "(env \<Rightarrow> response \<Rightarrow> 'a transaction_scheme \<Rightarrow> 'a transaction_scheme option) \<Rightarrow>
   env \<Rightarrow> response \<Rightarrow> 'a transaction_scheme \<Rightarrow> 'a transaction_scheme option" where
  "provider_dispatch_response on_response e resp t =
     (let t = (case channel t of None \<Rightarrow> t\<lparr>channel := client_channel e\<rparr> | Some _ \<Rightarrow> t)
      in case channel t of None \<Rightarrow> Some t | Some _ \<Rightarrow> on_response e resp t)"

definition belle_sip_client_transaction_create_cancel :: "'a transaction_scheme \<Rightarrow> request option option" where
  "belle_sip_client_transaction_create_cancel t =
     (if r_method (request t) = ''ACK'' \<or> r_method (request t) \<noteq> ''INVITE'' then Some None
      else if state t \<noteq> PROCEEDING \<and> state t \<noteq> CALLING then Some None
      else map_option Some (build_cancel (request t)))"

definition remove_header :: "headers \<Rightarrow> hname \<Rightarrow> headers" where
  "remove_header hs n = filter (\<lambda>h. fst h \<noteq> n) hs"

definition incr_cseq :: "headers \<Rightarrow> headers option" where
  "incr_cseq hs = (case get_header hs Cseq of
     Some (Hcseq n m) \<Rightarrow> Some (hs[length (takeWhile (\<lambda>h. fst h \<noteq> Cseq) hs) := (Cseq, Hcseq (n + 1) m)])
   | _ \<Rightarrow> None)"

definition create_authenticated_request ::
  "(request \<Rightarrow> response option \<Rightarrow> request) \<Rightarrow> 'a transaction_scheme \<Rightarrow> request option option" where
  "create_authenticated_request add_authorization t =
     (case incr_cseq (r_headers (request t)) of
        None \<Rightarrow> None
      | Some hs \<Rightarrow>
          if state t \<noteq> COMPLETED \<and> state t \<noteq> TERMINATED then Some None
          else
            (let hs = remove_header hs (Other ''Authorization'');
                 hs = remove_header hs (Other ''Proxy-Authorization'')
             in Some (Some (add_authorization ((request t)\<lparr>r_headers := hs\<rparr>) (last_response t)))))"

definition lower :: "char \<Rightarrow> char" where
  "lower c = (if 65 \<le> (of_char c :: nat) \<and> (of_char c :: nat) \<le> 90 then char_of ((of_char c :: nat) + 32) else c)"

definition package_name :: "headers \<Rightarrow> string option" where
  "package_name hs = map_option hbody (get_header hs Event)"

text \<open>
  Whether a NOTIFY establishes the dialog of a pending SUBSCRIBE.  \<open>None\<close>: one of
  the two requests has no Call-ID, From or To.
\<close>

definition is_notify_matching_pending_subscribe :: "'a transaction_scheme \<Rightarrow> request \<Rightarrow> bool option" where
  "is_notify_matching_pending_subscribe tr notify =
     (if \<not> is_transient (state tr) \<or> r_method (request tr) \<noteq> ''SUBSCRIBE'' then Some False
      else if r_method notify \<noteq> ''NOTIFY'' then Some False
      else case package_name (r_headers (request tr)) of None \<Rightarrow> Some False | Some sub_event \<Rightarrow>
       (case package_name (r_headers notify) of None \<Rightarrow> Some False | Some notif_event \<Rightarrow>
        do { sub_id \<leftarrow> get_header (r_headers (request tr)) Call_id;
             notif_id \<leftarrow> get_header (r_headers notify) Call_id;
             sub_from \<leftarrow> get_header (r_headers (request tr)) From;
             notif_to \<leftarrow> get_header (r_headers notify) To;
             Some (hbody sub_id = hbody notif_id \<and> htag sub_from \<noteq> None \<and> htag notif_to \<noteq> None \<and>
                   htag sub_from = htag notif_to \<and> map lower sub_event = map lower notif_event) }))"

section \<open>Server transactions\<close>

record server_transaction = transaction +
  to_tag :: string

definition check_channel ::
  "env \<Rightarrow> response option \<Rightarrow> 'a transaction_scheme \<Rightarrow> (bool \<times> 'a transaction_scheme) option" where
  "check_channel e resp t = (case channel t of
     Some _ \<Rightarrow> Some (True, t)
   | None \<Rightarrow> (case resp of
        None \<Rightarrow> None
      | Some r \<Rightarrow> (case return_channel e r of
           None \<Rightarrow> Some (False, t)
         | Some ch \<Rightarrow> Some (True, t\<lparr>channel := Some ch\<rparr>))))"

text \<open>
  \<open>_belle_sip_server_transaction_send_response\<close>; the response may be a null pointer.
\<close>

definition server_transaction_queue_response ::
  "env \<Rightarrow> response option \<Rightarrow> 'a transaction_scheme \<Rightarrow> 'a transaction_scheme option" where
  "server_transaction_queue_response e resp t =
     do { (ok, t) \<leftarrow> check_channel e resp t;
          if \<not> ok then Some t
          else do { r \<leftarrow> resp; queue_message (Send_response r) t } }"

text \<open>
  The response as it goes out: a To tag when it is not 100, and the headers a dialog
  requires.
\<close>

definition complete_response :: "env \<Rightarrow> 'a server_transaction_scheme \<Rightarrow> response \<Rightarrow> response option" where
  "complete_response e t resp =
     (if s_code resp = 100 then Some resp
      else case get_header (s_headers resp) To of
        None \<Rightarrow> None
      | Some to \<Rightarrow>
          (let resp = (if htag to = None
                       then resp\<lparr>s_headers := set_header (s_headers resp) To (Header (hbody to) (Some (to_tag t)))\<rparr>
                       else resp)
           in Some (if dialog t \<noteq> None \<and> s_code resp > 100 \<and> s_code resp < 300
                    then dialog_fill e resp (request t) else resp)))"

definition belle_sip_server_transaction_send_response ::
  "(env \<Rightarrow> response \<Rightarrow> 'a server_transaction_scheme \<Rightarrow> (int \<times> 'a server_transaction_scheme) option) \<Rightarrow>
   env \<Rightarrow> response \<Rightarrow> 'a server_transaction_scheme \<Rightarrow> 'a server_transaction_scheme option" where
  "belle_sip_server_transaction_send_response send_new_response e resp t =
     do { (ok, t) \<leftarrow> check_channel e (Some resp) t;
          if \<not> ok then Some t
          else do {
            resp \<leftarrow> complete_response e t resp;
            (ret, t) \<leftarrow> send_new_response e resp t;
            Some (update_dialog (if ret = 0 then t\<lparr>last_response := Some resp\<rparr> else t)) } }"

definition server_transaction_notify ::
  "('a transaction_scheme) vptr \<Rightarrow> env \<Rightarrow> request \<Rightarrow> 'a transaction_scheme \<Rightarrow> 'a transaction_scheme" where
  "server_transaction_notify vt e rq t = invoke_listeners vt e (Request_event rq) t"

definition belle_sip_server_transaction_on_request ::
  "('a transaction_scheme) vptr \<Rightarrow>
   (env \<Rightarrow> 'a transaction_scheme \<Rightarrow> (int \<times> 'a transaction_scheme) option) \<Rightarrow>
   (env \<Rightarrow> 'a transaction_scheme \<Rightarrow> 'a transaction_scheme option) \<Rightarrow>
   env \<Rightarrow> request \<Rightarrow> 'a transaction_scheme \<Rightarrow> 'a transaction_scheme option" where
  "belle_sip_server_transaction_on_request vt process_ack on_request_retransmission e rq t =
     (if r_method rq = ''ACK'' then
        (if cls vt = IST then
           do { (ret, t) \<leftarrow> process_ack e t;
                Some (if ret = 0 then
                        (case dialog t of None \<Rightarrow> t
                         | Some d \<Rightarrow> if dialog_handle_ack e d rq then server_transaction_notify vt e rq t else t)
                      else t) }
         else Some t)
      else if r_method rq = ''CANCEL'' then Some (server_transaction_notify vt e rq t)
      else on_request_retransmission e t)"

end
