(* ===== verification/Bellesip_Machines.thy ===== *)
theory Bellesip_Machines
  imports Bellesip_Roles
begin

text \<open>
  The four transaction machines of RFC 3261 as belle-sip implements them
  (src/belle-sip/src/ict.c, ist.c, nict.c and nist.c), their timers, and the part of
  the main loop that runs an expired timer (src/belle-sip/src/belle_sip_loop.c).

  A timer that is a null pointer in C is \<open>None\<close>.  A callback that returns
  \<open>BELLE_SIP_STOP\<close> leaves the pointer in the transaction but takes the source out
  of the main loop.
\<close>

section \<open>Timer callbacks\<close>

datatype timer_ret = Stop | Continue_without_catchup

text \<open>
  One source in step 4 of \<open>belle_sip_main_loop_iterate\<close>: the callback runs when the
  loop holds the source and its time has come; then the source is removed or armed
  again from the current time.
\<close>

definition unlink :: "source option \<Rightarrow> source option" where
  "unlink = map_option (\<lambda>s. s\<lparr>linked := False\<rparr>)"

definition rearm :: "env \<Rightarrow> source option \<Rightarrow> source option" where
  "rearm e = map_option (\<lambda>s. if timeout s \<ge> 0 then s\<lparr>expire_ms := now e + timeout s, linked := True\<rparr>
                            else s\<lparr>linked := False\<rparr>)"

definition expired :: "env \<Rightarrow> source option \<Rightarrow> bool" where
  "expired e s = (case s of None \<Rightarrow> False | Some s \<Rightarrow> linked s \<and> expire_ms s \<le> now e)"

definition notify_source ::
  "('t \<Rightarrow> source option) \<Rightarrow> ((source option \<Rightarrow> source option) \<Rightarrow> 't \<Rightarrow> 't) \<Rightarrow>
   (env \<Rightarrow> 't \<Rightarrow> (timer_ret \<times> 't) option) \<Rightarrow> env \<Rightarrow> 't \<Rightarrow> 't option" where
  "notify_source get upd callback e t =
     (if expired e (get t) then
        (case callback e t of
           None \<Rightarrow> None
         | Some (Stop, t) \<Rightarrow> Some (upd unlink t)
         | Some (Continue_without_catchup, t) \<Rightarrow> Some (upd (rearm e) t))
      else Some t)"

text \<open>
  \<open>belle_sip_source_set_timeout_int64\<close> on a source whose callback is running: only
  the interval changes.
\<close>

definition set_timeout :: "int \<Rightarrow> source option \<Rightarrow> source option" where
  "set_timeout v = map_option (\<lambda>s. s\<lparr>timeout := v\<rparr>)"

definition client_transaction_on_call_repair_timer ::
  "('a transaction_scheme) vptr \<Rightarrow> env \<Rightarrow> 'a transaction_scheme \<Rightarrow> (timer_ret \<times> 'a transaction_scheme) option" where
  "client_transaction_on_call_repair_timer vt e t = Some (Stop, belle_sip_transaction_terminate vt t)"

section \<open>INVITE client transactions\<close>

record ict = client_transaction +
  timer_A :: "source option"
  timer_B :: "source option"
  timer_D :: "source option"
  timer_M :: "source option"
  ack :: "request option"

definition on_ict_terminate :: "ict \<Rightarrow> ict" where
  "on_ict_terminate t = t\<lparr>timer_A := None, timer_B := None, timer_D := None, timer_M := None, ack := None\<rparr>"

definition ict_stop_retransmissions :: "ict \<Rightarrow> ict" where
  "ict_stop_retransmissions t = t\<lparr>timer_A := None\<rparr>"

definition ict_vptr :: "ict vptr" where
  "ict_vptr = \<lparr> cls = ICT, on_terminate = on_ict_terminate, stop_retransmissions = ict_stop_retransmissions \<rparr>"

definition ict_on_timer_D :: "env \<Rightarrow> ict \<Rightarrow> (timer_ret \<times> ict) option" where
  "ict_on_timer_D e t =
     Some (Stop, if state t = COMPLETED then belle_sip_transaction_terminate ict_vptr t else t)"

definition ict_on_timer_M :: "env \<Rightarrow> ict \<Rightarrow> (timer_ret \<times> ict) option" where
  "ict_on_timer_M e t =
     Some (Stop, if state t = ACCEPTED then belle_sip_transaction_terminate ict_vptr t else t)"

definition ict_make_ack :: "response \<Rightarrow> ict \<Rightarrow> (request \<times> ict) option" where
  "ict_make_ack resp t = (case ack t of
     Some a \<Rightarrow> Some (a, t)
   | None \<Rightarrow> map_option (\<lambda>a. (a, t\<lparr>ack := Some a\<rparr>)) (make_ack (request t) resp))"

definition ict_on_final_failure :: "env \<Rightarrow> response \<Rightarrow> ict \<Rightarrow> ict option" where
  "ict_on_final_failure e resp t =
     do { let t = belle_sip_transaction_set_state COMPLETED t;
          (a, t) \<leftarrow> ict_make_ack resp t;
          t \<leftarrow> queue_message (Send_request a) t;
          t \<leftarrow> belle_sip_client_transaction_notify_response ict_vptr e resp t;
          Some (t\<lparr>timer_D := Some (start_timer e (T1 (cfg e) * 64))\<rparr>) }"

definition ict_on_success :: "env \<Rightarrow> response \<Rightarrow> ict \<Rightarrow> ict option" where
  "ict_on_success e resp t =
     (let t = t\<lparr>timer_M := Some (start_timer e (T1 (cfg e) * 64))\<rparr>;
          t = belle_sip_transaction_set_state ACCEPTED t
      in belle_sip_client_transaction_notify_response ict_vptr e resp t)"

definition ict_on_response_proceeding :: "env \<Rightarrow> response \<Rightarrow> ict \<Rightarrow> ict option" where
  "ict_on_response_proceeding e resp t =
     (let code = s_code resp in
      if code \<ge> 300 then ict_on_final_failure e resp t
      else if code \<ge> 200 then ict_on_success e resp t
      else if code \<ge> 100 then belle_sip_client_transaction_notify_response ict_vptr e resp t
      else Some t)"

definition ict_on_response :: "env \<Rightarrow> response \<Rightarrow> ict \<Rightarrow> ict option" where
  "ict_on_response e resp t =
     (let code = s_code resp in
      case state t of
        CALLING \<Rightarrow> ict_on_response_proceeding e resp (belle_sip_transaction_set_state PROCEEDING t)
      | PROCEEDING \<Rightarrow> ict_on_response_proceeding e resp t
      | ACCEPTED \<Rightarrow>
          if code \<ge> 200 \<and> code < 300 then belle_sip_client_transaction_notify_response ict_vptr e resp t
          else Some t
      | COMPLETED \<Rightarrow>
          (case ack t of
             Some a \<Rightarrow>
               if code \<ge> 300 then queue_message (Send_request a) t
               else if code \<ge> 200 \<and> code < 300 then belle_sip_client_transaction_notify_response ict_vptr e resp t
               else Some t
           | None \<Rightarrow>
               if code \<ge> 200 \<and> code < 300 then belle_sip_client_transaction_notify_response ict_vptr e resp t
               else Some t)
      | _ \<Rightarrow> Some t)"

definition ict_on_timer_A :: "env \<Rightarrow> ict \<Rightarrow> (timer_ret \<times> ict) option" where
  "ict_on_timer_A e t = (case channel t of
     None \<Rightarrow> Some (Stop, t)
   | Some _ \<Rightarrow>
       if state t = CALLING then
         (case timer_A t of None \<Rightarrow> None
          | Some s \<Rightarrow> map_option (Pair Continue_without_catchup)
              (queue_message (Send_request (request t)) (t\<lparr>timer_A := set_timeout (2 * timeout s) (timer_A t)\<rparr>)))
       else Some (Continue_without_catchup, t))"

definition ict_on_timer_B :: "env \<Rightarrow> ict \<Rightarrow> (timer_ret \<times> ict) option" where
  "ict_on_timer_B e t =
     map_option (Pair Stop)
       (if state t = CALLING then belle_sip_transaction_notify_timeout ict_vptr e t else Some t)"

definition ict_send_request :: "env \<Rightarrow> ict \<Rightarrow> ict option" where
  "ict_send_request e t =
     do { let t = belle_sip_transaction_set_state CALLING t;
          reliable \<leftarrow> channel_is_reliable t;
          let t = (if \<not> reliable then t\<lparr>timer_A := Some (start_timer e (T1 (cfg e)))\<rparr> else t);
          let t = t\<lparr>timer_B := Some (start_timer e (T1 (cfg e) * 64))\<rparr>;
          queue_message (Send_request (request t)) t }"

section \<open>Non-INVITE client transactions\<close>

record nict = client_transaction +
  timer_F :: "source option"
  timer_E :: "source option"
  timer_K :: "source option"

definition nict_on_terminate :: "nict \<Rightarrow> nict" where
  "nict_on_terminate t = t\<lparr>timer_F := None, timer_E := None, timer_K := None\<rparr>"

definition nict_stop_retransmissions :: "nict \<Rightarrow> nict" where
  "nict_stop_retransmissions t = t\<lparr>timer_E := None\<rparr>"

definition nict_vptr :: "nict vptr" where
  "nict_vptr = \<lparr> cls = NICT, on_terminate = nict_on_terminate, stop_retransmissions = nict_stop_retransmissions \<rparr>"

definition nict_on_timer_K :: "env \<Rightarrow> nict \<Rightarrow> (timer_ret \<times> nict) option" where
  "nict_on_timer_K e t = Some (Stop, belle_sip_transaction_terminate nict_vptr t)"

definition nict_set_completed :: "env \<Rightarrow> response \<Rightarrow> nict \<Rightarrow> nict option" where
  "nict_set_completed e resp t =
     do { reliable \<leftarrow> channel_is_reliable t;
          let t = belle_sip_transaction_set_state COMPLETED t;
          if timer_K t \<noteq> None then None
          else do {
            t \<leftarrow> belle_sip_client_transaction_notify_response nict_vptr e resp t;
            Some (if \<not> reliable then t\<lparr>timer_K := Some (start_timer e (T4 (cfg e)))\<rparr>
                  else belle_sip_transaction_terminate nict_vptr t) } }"

definition nict_on_response :: "env \<Rightarrow> response \<Rightarrow> nict \<Rightarrow> nict option" where
  "nict_on_response e resp t =
     (let code = s_code resp in
      case state t of
        TRYING \<Rightarrow>
          if code < 200
          then belle_sip_client_transaction_notify_response nict_vptr e resp
                 (belle_sip_transaction_set_state PROCEEDING t)
          else nict_set_completed e resp t
      | PROCEEDING \<Rightarrow> if code \<ge> 200 then nict_set_completed e resp t else Some t
      | _ \<Rightarrow> Some t)"

definition nict_on_timer_F :: "env \<Rightarrow> nict \<Rightarrow> (timer_ret \<times> nict) option" where
  "nict_on_timer_F e t =
     map_option (Pair Stop)
       (if state t = TRYING \<or> state t = PROCEEDING
        then belle_sip_transaction_notify_timeout nict_vptr e t else Some t)"

definition nict_on_timer_E :: "env \<Rightarrow> nict \<Rightarrow> (timer_ret \<times> nict) option" where
  "nict_on_timer_E e t =
     (if state t = TRYING then
        (case timer_E t of None \<Rightarrow> None
         | Some s \<Rightarrow> map_option (Pair Continue_without_catchup)
             (queue_message (Send_request (request t))
                (t\<lparr>timer_E := set_timeout (min (2 * timeout s) (T2 (cfg e))) (timer_E t)\<rparr>)))
      else if state t = PROCEEDING then
        map_option (Pair Continue_without_catchup)
          (queue_message (Send_request (request t)) (t\<lparr>timer_E := set_timeout (T2 (cfg e)) (timer_E t)\<rparr>))
      else Some (Stop, t))"

definition nict_send_request :: "env \<Rightarrow> nict \<Rightarrow> nict option" where
  "nict_send_request e t =
     do { let t = belle_sip_transaction_set_state TRYING t;
          let t = t\<lparr>timer_F := Some (start_timer e (T1 (cfg e) * 64))\<rparr>;
          reliable \<leftarrow> channel_is_reliable t;
          let t = (if \<not> reliable then t\<lparr>timer_E := Some (start_timer e (T1 (cfg e)))\<rparr> else t);
          queue_message (Send_request (request t)) t }"

section \<open>INVITE server transactions\<close>

record ist = server_transaction +
  timer_G :: "source option"
  timer_H :: "source option"
  timer_I :: "source option"
  timer_L :: "source option"

definition ist_on_terminate :: "ist \<Rightarrow> ist" where
  "ist_on_terminate t = t\<lparr>timer_G := None, timer_H := None, timer_I := None, timer_L := None\<rparr>"

definition ist_vptr :: "ist vptr" where
  "ist_vptr = \<lparr> cls = IST, on_terminate = ist_on_terminate, stop_retransmissions = id \<rparr>"

definition ist_on_timer_G :: "env \<Rightarrow> ist \<Rightarrow> (timer_ret \<times> ist) option" where
  "ist_on_timer_G e t =
     (if state t = COMPLETED then
        do { s \<leftarrow> timer_G t;
             t \<leftarrow> server_transaction_queue_response e (last_response t) t;
             Some (Continue_without_catchup,
                   t\<lparr>timer_G := set_timeout (min (2 * timeout s) (T2 (cfg e))) (timer_G t)\<rparr>) }
      else Some (Stop, t))"

definition ist_on_timer_H :: "env \<Rightarrow> ist \<Rightarrow> (timer_ret \<times> ist) option" where
  "ist_on_timer_H e t =
     Some (Stop, if state t = COMPLETED then belle_sip_transaction_terminate ist_vptr t else t)"

definition ist_on_timer_I :: "env \<Rightarrow> ist \<Rightarrow> (timer_ret \<times> ist) option" where
  "ist_on_timer_I e t = Some (Stop, belle_sip_transaction_terminate ist_vptr t)"

definition ist_on_timer_L :: "env \<Rightarrow> ist \<Rightarrow> (timer_ret \<times> ist) option" where
  "ist_on_timer_L e t = Some (Stop, belle_sip_transaction_terminate ist_vptr t)"

definition belle_sip_ist_process_ack :: "env \<Rightarrow> ist \<Rightarrow> (int \<times> ist) option" where
  "belle_sip_ist_process_ack e t = (case state t of
     COMPLETED \<Rightarrow>
       do { let t = belle_sip_transaction_set_state CONFIRMED (t\<lparr>timer_G := None\<rparr>);
            reliable \<leftarrow> channel_is_reliable t;
            Some (-1, if \<not> reliable then t\<lparr>timer_I := Some (start_timer e (T4 (cfg e)))\<rparr>
                      else belle_sip_transaction_terminate ist_vptr t) }
   | ACCEPTED \<Rightarrow> Some (0, t)
   | _ \<Rightarrow> Some (-1, t))"

definition ist_after_response :: "env \<Rightarrow> int \<Rightarrow> ist \<Rightarrow> ist option" where
  "ist_after_response e code t =
     (if code \<ge> 200 \<and> code < 300 then
        Some ((belle_sip_transaction_set_state ACCEPTED t)
              \<lparr>timer_L := Some (start_timer e (64 * T1 (cfg e)))\<rparr>)
      else if code \<ge> 300 then
        do { let t = belle_sip_transaction_set_state COMPLETED t;
             reliable \<leftarrow> channel_is_reliable t;
             let t = (if \<not> reliable then t\<lparr>timer_G := Some (start_timer e (T1 (cfg e)))\<rparr> else t);
             Some (t\<lparr>timer_H := Some (start_timer e (64 * T1 (cfg e)))\<rparr>) }
      else Some t)"

definition ist_send_new_response :: "env \<Rightarrow> response \<Rightarrow> ist \<Rightarrow> (int \<times> ist) option" where
  "ist_send_new_response e resp t =
     (let code = s_code resp in
      case state t of
        PROCEEDING \<Rightarrow>
          do { t \<leftarrow> server_transaction_queue_response e (Some resp) t;
               t \<leftarrow> ist_after_response e code t;
               Some (0, t) }
      | ACCEPTED \<Rightarrow> Some (if code \<ge> 200 \<and> code < 300 then 0 else -1, t)
      | _ \<Rightarrow> Some (-1, t))"

definition ist_on_request_retransmission :: "env \<Rightarrow> ist \<Rightarrow> ist option" where
  "ist_on_request_retransmission e t =
     (if state t = PROCEEDING \<or> state t = COMPLETED
      then server_transaction_queue_response e (last_response t) t else Some t)"

definition server_transaction_on_call_repair_timer :: "env \<Rightarrow> ist \<Rightarrow> (timer_ret \<times> ist) option" where
  "server_transaction_on_call_repair_timer e t =
     map_option (Pair Stop)
       (belle_sip_server_transaction_send_response ist_send_new_response e
          (response_create_from_request (request t) 503) t)"

section \<open>Non-INVITE server transactions\<close>

record nist = server_transaction +
  timer_J :: "source option"

definition nist_on_terminate :: "nist \<Rightarrow> nist" where
  "nist_on_terminate t = t\<lparr>timer_J := None\<rparr>"

definition nist_vptr :: "nist vptr" where
  "nist_vptr = \<lparr> cls = NIST, on_terminate = nist_on_terminate, stop_retransmissions = id \<rparr>"

definition nist_on_timer_J :: "env \<Rightarrow> nist \<Rightarrow> (timer_ret \<times> nist) option" where
  "nist_on_timer_J e t = Some (Stop, belle_sip_transaction_terminate nist_vptr t)"

definition nist_set_completed :: "env \<Rightarrow> nist \<Rightarrow> nist option" where
  "nist_set_completed e t =
     do { reliable \<leftarrow> channel_is_reliable t;
          let tval = (if \<not> reliable then T1 (cfg e) * 64 else 0);
          let t = t\<lparr>timer_J := Some (start_timer e tval)\<rparr>;
          Some (belle_sip_transaction_set_state COMPLETED t) }"

definition nist_send_new_response :: "env \<Rightarrow> response \<Rightarrow> nist \<Rightarrow> (int \<times> nist) option" where
  "nist_send_new_response e resp t =
     (let code = s_code resp;
          proceed = (\<lambda>t. do { t \<leftarrow> (if code \<ge> 200 then nist_set_completed e t else Some t);
                              map_option (Pair 0) (server_transaction_queue_response e (Some resp) t) })
      in case state t of
        TRYING \<Rightarrow>
          if code < 200
          then map_option (Pair 0)
                 (server_transaction_queue_response e (Some resp) (belle_sip_transaction_set_state PROCEEDING t))
          else proceed t
      | PROCEEDING \<Rightarrow> proceed t
      | COMPLETED \<Rightarrow> Some (-1, t)
      | _ \<Rightarrow> Some (0, t))"

definition nist_on_request_retransmission :: "env \<Rightarrow> nist \<Rightarrow> nist option" where
  "nist_on_request_retransmission e t =
     (if state t = PROCEEDING \<or> state t = COMPLETED then
        (case channel t of
           None \<Rightarrow> Some t
         | Some _ \<Rightarrow> do { r \<leftarrow> last_response t; queue_message (Send_response r) t })
      else Some t)"

end
