(* ===== verification/Bellesip_Steps.thy ===== *)
theory Bellesip_Steps
  imports Bellesip_Machines
begin

text \<open>
  Creation of transactions (src/belle-sip/src/provider.c, lines 828 to 884, with the
  constructors of the four classes) and their life as a sequence of events: calls of
  the transaction user, messages handed over by the provider, changes of the channel,
  and timers run by the main loop.  Every event comes with the environment it meets.
\<close>

section \<open>Creation\<close>

definition new_transaction :: "request \<Rightarrow> string \<Rightarrow> nat option \<Rightarrow> tstate \<Rightarrow> transaction" where
  "new_transaction rq branch d s = \<lparr> request = rq, last_response = None, channel = None, dialog = d,
     call_repair_timer = None, branch_id = branch, state = s, timed_out = False,
     sent_by_dialog_queue = False, bg_task = True, out = [] \<rparr>"

definition belle_sip_ict_new :: "string \<Rightarrow> nat option \<Rightarrow> request \<Rightarrow> ict option" where
  "belle_sip_ict_new token d rq = map_option (\<lambda>(branch, rq).
     transaction.extend (new_transaction rq branch d INIT)
       \<lparr> preset_route = None, next_hop = None, timer_A = None, timer_B = None, timer_D = None,
         timer_M = None, ack = None \<rparr>) (client_transaction_init token rq)"

definition belle_sip_nict_new :: "string \<Rightarrow> nat option \<Rightarrow> string option \<Rightarrow> request \<Rightarrow> nict option" where
  "belle_sip_nict_new token d hop rq = map_option (\<lambda>(branch, rq).
     transaction.extend (new_transaction rq branch d INIT)
       \<lparr> preset_route = None, next_hop = hop, timer_F = None, timer_E = None, timer_K = None \<rparr>)
     (client_transaction_init token rq)"

text \<open>
  The branch of a server transaction is that of the Via when it starts with the
  magic cookie, and the one computed by the provider (\<open>rfc2543_branch\<close>) otherwise.
\<close>

definition server_transaction_branch :: "string option \<Rightarrow> request \<Rightarrow> string option" where
  "server_transaction_branch rfc2543_branch rq = do {
     via \<leftarrow> get_header (r_headers rq) Via;
     (case htag via of
        Some b \<Rightarrow> if take 7 b = ''z9hG4bK'' then Some b else rfc2543_branch
      | None \<Rightarrow> rfc2543_branch) }"

definition belle_sip_ist_new :: "string option \<Rightarrow> string \<Rightarrow> nat option \<Rightarrow> request \<Rightarrow> ist option" where
  "belle_sip_ist_new rfc2543_branch tag d rq = map_option (\<lambda>branch.
     transaction.extend (new_transaction rq branch d PROCEEDING)
       \<lparr> to_tag = tag, timer_G = None, timer_H = None, timer_I = None, timer_L = None \<rparr>)
     (server_transaction_branch rfc2543_branch rq)"

definition belle_sip_nist_new :: "string option \<Rightarrow> string \<Rightarrow> nat option \<Rightarrow> request \<Rightarrow> nist option" where
  "belle_sip_nist_new rfc2543_branch tag d rq = map_option (\<lambda>branch.
     transaction.extend (new_transaction rq branch d TRYING) \<lparr> to_tag = tag, timer_J = None \<rparr>)
     (server_transaction_branch rfc2543_branch rq)"

text \<open>
  \<open>belle_sip_provider_create_server_transaction\<close> for an INVITE answers 100 Trying at
  once; for another request it waits for the transaction user.
\<close>

definition create_invite_server_transaction ::
  "env \<Rightarrow> string option \<Rightarrow> string \<Rightarrow> nat option \<Rightarrow> request \<Rightarrow> ist option" where
  "create_invite_server_transaction e rfc2543_branch tag d rq = do {
     t \<leftarrow> belle_sip_ist_new rfc2543_branch tag d rq;
     belle_sip_server_transaction_send_response ist_send_new_response e
       (response_create_from_request rq 100) (emit Provider_add t) }"

definition create_server_transaction ::
  "string option \<Rightarrow> string \<Rightarrow> nat option \<Rightarrow> request \<Rightarrow> nist option" where
  "create_server_transaction rfc2543_branch tag d rq =
     map_option (emit Provider_add) (belle_sip_nist_new rfc2543_branch tag d rq)"

section \<open>Events of the base class\<close>

text \<open>
  A transaction that lost its channel no longer listens to it.  \<open>Received\<close> is a
  message on the channel, which only moves the time of its last reception.
\<close>

definition channel_event ::
  "('a transaction_scheme) vptr \<Rightarrow> (env \<Rightarrow> 'a transaction_scheme \<Rightarrow> 'a transaction_scheme option) \<Rightarrow>
   env \<Rightarrow> chan_state \<Rightarrow> 'a transaction_scheme \<Rightarrow> 'a transaction_scheme option" where
  "channel_event vt send_request e s t = (case channel t of
     None \<Rightarrow> Some t
   | Some ch \<Rightarrow> on_channel_state_changed vt send_request e s (t\<lparr>channel := Some (ch\<lparr>ch_state := s\<rparr>)\<rparr>))"

definition channel_received :: "env \<Rightarrow> 'a transaction_scheme \<Rightarrow> 'a transaction_scheme" where
  "channel_received e t = t\<lparr>channel := map_option (\<lambda>ch. ch\<lparr>ch_last_recv := now e\<rparr>) (channel t)\<rparr>"

text \<open>
  \<open>_belle_sip_dialog_process_queue\<close> sends a transaction that waited in its dialog.
\<close>

definition send_from_dialog_queue ::
  "('a client_transaction_scheme) vptr \<Rightarrow>
   (env \<Rightarrow> 'a client_transaction_scheme \<Rightarrow> 'a client_transaction_scheme option) \<Rightarrow>
   env \<Rightarrow> string \<Rightarrow> 'a client_transaction_scheme \<Rightarrow> (int \<times> 'a client_transaction_scheme) option" where
  "send_from_dialog_queue vt send_request e hop t = (case dialog t of
     None \<Rightarrow> Some (-1, t)
   | Some _ \<Rightarrow> belle_sip_client_transaction_send_request_to vt send_request e None hop
                 (t\<lparr>sent_by_dialog_queue := True\<rparr>))"

text \<open>
  \<open>belle_sip_transaction_reset_dialog\<close> runs when the dialog of the transaction is
  destroyed, \<open>belle_sip_transaction_set_dialog\<close> when it is attached to another one.
\<close>

definition belle_sip_transaction_reset_dialog :: "'a transaction_scheme \<Rightarrow> 'a transaction_scheme" where
  "belle_sip_transaction_reset_dialog t = t\<lparr>dialog := None\<rparr>"

definition belle_sip_transaction_set_dialog ::
  "nat option \<Rightarrow> 'a transaction_scheme \<Rightarrow> 'a transaction_scheme" where
  "belle_sip_transaction_set_dialog d t = (if dialog t = d then t else t\<lparr>dialog := d\<rparr>)"

section \<open>The machines as event handlers\<close>

datatype client_event =
    Send "string option" string
  | Send_queued string
  | Receive response
  | Stop_retransmissions
  | Terminate
  | Channel chan_state
  | Received
  | Repair
  | Dialog_lost
  | Dialog_set "nat option"

datatype server_event =
    Respond response
  | Request request
  | Terminate_server
  | Channel_server chan_state
  | Received_server
  | Repair_server
  | Dialog_lost_server
  | Dialog_set_server "nat option"

datatype ict_event = Ict client_event | Timer_A | Timer_B | Timer_D | Timer_M
datatype nict_event = Nict client_event | Timer_E | Timer_F | Timer_K
datatype ist_event = Ist server_event | Timer_G | Timer_H | Timer_I | Timer_L
datatype nist_event = Nist server_event | Timer_J

fun client_handle ::
  "('a client_transaction_scheme) vptr \<Rightarrow>
   (env \<Rightarrow> 'a client_transaction_scheme \<Rightarrow> 'a client_transaction_scheme option) \<Rightarrow>
   (env \<Rightarrow> response \<Rightarrow> 'a client_transaction_scheme \<Rightarrow> 'a client_transaction_scheme option) \<Rightarrow>
   env \<Rightarrow> client_event \<Rightarrow> 'a client_transaction_scheme \<Rightarrow> 'a client_transaction_scheme option" where
  "client_handle vt snd_rq on_resp e (Send proxy hop) t =
     map_option snd (belle_sip_client_transaction_send_request_to vt snd_rq e proxy hop t)"
| "client_handle vt snd_rq on_resp e (Send_queued hop) t =
     map_option snd (send_from_dialog_queue vt snd_rq e hop t)"
| "client_handle vt snd_rq on_resp e (Receive r) t = provider_dispatch_response on_resp e r t"
| "client_handle vt snd_rq on_resp e Stop_retransmissions t = Some (stop_retransmissions vt t)"
| "client_handle vt snd_rq on_resp e Terminate t = Some (belle_sip_transaction_terminate vt t)"
| "client_handle vt snd_rq on_resp e (Channel s) t = channel_event vt snd_rq e s t"
| "client_handle vt snd_rq on_resp e Received t = Some (channel_received e t)"
| "client_handle vt snd_rq on_resp e Repair t =
     notify_source call_repair_timer call_repair_timer_update (client_transaction_on_call_repair_timer vt) e t"
| "client_handle vt snd_rq on_resp e Dialog_lost t = Some (belle_sip_transaction_reset_dialog t)"
| "client_handle vt snd_rq on_resp e (Dialog_set d) t = Some (belle_sip_transaction_set_dialog d t)"

fun ict_handle :: "env \<Rightarrow> ict_event \<Rightarrow> ict \<Rightarrow> ict option" where
  "ict_handle e (Ict ev) t = client_handle ict_vptr ict_send_request ict_on_response e ev t"
| "ict_handle e Timer_A t = notify_source timer_A timer_A_update ict_on_timer_A e t"
| "ict_handle e Timer_B t = notify_source timer_B timer_B_update ict_on_timer_B e t"
| "ict_handle e Timer_D t = notify_source timer_D timer_D_update ict_on_timer_D e t"
| "ict_handle e Timer_M t = notify_source timer_M timer_M_update ict_on_timer_M e t"

fun nict_handle :: "env \<Rightarrow> nict_event \<Rightarrow> nict \<Rightarrow> nict option" where
  "nict_handle e (Nict ev) t = client_handle nict_vptr nict_send_request nict_on_response e ev t"
| "nict_handle e Timer_E t = notify_source timer_E timer_E_update nict_on_timer_E e t"
| "nict_handle e Timer_F t = notify_source timer_F timer_F_update nict_on_timer_F e t"
| "nict_handle e Timer_K t = notify_source timer_K timer_K_update nict_on_timer_K e t"

text \<open>
  A server transaction never sends a request; the \<open>send_request\<close> method of the
  channel listener is only called on clients.
\<close>

fun ist_handle :: "env \<Rightarrow> ist_event \<Rightarrow> ist \<Rightarrow> ist option" where
  "ist_handle e (Ist (Respond r)) t =
     belle_sip_server_transaction_send_response ist_send_new_response e r t"
| "ist_handle e (Ist (Request rq)) t =
     belle_sip_server_transaction_on_request ist_vptr belle_sip_ist_process_ack
       ist_on_request_retransmission e rq t"
| "ist_handle e (Ist Terminate_server) t = Some (belle_sip_transaction_terminate ist_vptr t)"
| "ist_handle e (Ist (Channel_server s)) t = channel_event ist_vptr (\<lambda>_ _. None) e s t"
| "ist_handle e (Ist Received_server) t = Some (channel_received e t)"
| "ist_handle e (Ist Dialog_lost_server) t = Some (belle_sip_transaction_reset_dialog t)"
| "ist_handle e (Ist (Dialog_set_server d)) t = Some (belle_sip_transaction_set_dialog d t)"
| "ist_handle e (Ist Repair_server) t =
     notify_source call_repair_timer call_repair_timer_update server_transaction_on_call_repair_timer e t"
| "ist_handle e Timer_G t = notify_source timer_G timer_G_update ist_on_timer_G e t"
| "ist_handle e Timer_H t = notify_source timer_H timer_H_update ist_on_timer_H e t"
| "ist_handle e Timer_I t = notify_source timer_I timer_I_update ist_on_timer_I e t"
| "ist_handle e Timer_L t = notify_source timer_L timer_L_update ist_on_timer_L e t"

text \<open>
  The repair timer is only started for INVITE transactions.
\<close>

fun nist_handle :: "env \<Rightarrow> nist_event \<Rightarrow> nist \<Rightarrow> nist option" where
  "nist_handle e (Nist (Respond r)) t =
     belle_sip_server_transaction_send_response nist_send_new_response e r t"
| "nist_handle e (Nist (Request rq)) t =
     belle_sip_server_transaction_on_request nist_vptr (\<lambda>_ t. Some (-1, t))
       nist_on_request_retransmission e rq t"
| "nist_handle e (Nist Terminate_server) t = Some (belle_sip_transaction_terminate nist_vptr t)"
| "nist_handle e (Nist (Channel_server s)) t = channel_event nist_vptr (\<lambda>_ _. None) e s t"
| "nist_handle e (Nist Received_server) t = Some (channel_received e t)"
| "nist_handle e (Nist Dialog_lost_server) t = Some (belle_sip_transaction_reset_dialog t)"
| "nist_handle e (Nist (Dialog_set_server d)) t = Some (belle_sip_transaction_set_dialog d t)"
| "nist_handle e (Nist Repair_server) t = Some t"
| "nist_handle e Timer_J t = notify_source timer_J timer_J_update nist_on_timer_J e t"

section \<open>Reachable states\<close>

text \<open>
  The states a machine can reach by events that are admissible for \<open>ok\<close>.
\<close>

inductive reachable ::
  "(env \<Rightarrow> 'ev \<Rightarrow> 's \<Rightarrow> 's option) \<Rightarrow> (env \<Rightarrow> 'ev \<Rightarrow> 's \<Rightarrow> bool) \<Rightarrow> 's \<Rightarrow> 's \<Rightarrow> bool"
  for handle ok s0 where
  start: "reachable handle ok s0 s0"
| step: "reachable handle ok s0 s \<Longrightarrow> ok e ev s \<Longrightarrow> handle e ev s = Some s' \<Longrightarrow> reachable handle ok s0 s'"

text \<open>
  The contract of a machine: an invariant under which every admissible event is
  handled without undefined behaviour and which it keeps.
\<close>

locale machine =
  fixes handle :: "env \<Rightarrow> 'ev \<Rightarrow> 's \<Rightarrow> 's option"
    and ok :: "env \<Rightarrow> 'ev \<Rightarrow> 's \<Rightarrow> bool"
    and inv :: "'s \<Rightarrow> bool"
  assumes handled: "\<lbrakk>inv s; ok e ev s\<rbrakk> \<Longrightarrow> \<exists>s'. handle e ev s = Some s' \<and> inv s'"
begin

lemma reachable_inv: "reachable handle ok s0 s \<Longrightarrow> inv s0 \<Longrightarrow> inv s"
proof (induction rule: reachable.induct)
  case (step s e ev s')
  then show ?case using handled [of s e ev] by auto
qed

lemma never_stuck: "reachable handle ok s0 s \<Longrightarrow> inv s0 \<Longrightarrow> ok e ev s \<Longrightarrow> handle e ev s \<noteq> None"
  using reachable_inv handled by fastforce

end

end
