(* ===== verification/Bellesip_Inv.thy ===== *)
theory Bellesip_Inv
  imports Bellesip_Steps
begin

text \<open>
  What the operations of the base class keep.  A class of transactions promises that
  its virtual methods only touch its own timers (\<open>transaction_class\<close>); a predicate
  that survives the elementary updates of the base class (\<open>stable\<close>) then survives the
  listeners, the loss of the channel, timeouts and the notification of a response.
  Both contracts are discharged for the four machines in \<open>Bellesip_Invariants\<close>.
\<close>

section \<open>Classes of transactions\<close>

locale transaction_class =
  fixes vt :: "('a transaction_scheme) vptr"
  assumes on_terminate_base: "transaction.truncate (on_terminate vt t) = transaction.truncate t"
    and stop_base: "transaction.truncate (stop_retransmissions vt t) = transaction.truncate t"
begin

lemma on_terminate_simps [simp]:
  "state (on_terminate vt t) = state t"
  "channel (on_terminate vt t) = channel t"
  "request (on_terminate vt t) = request t"
  "out (on_terminate vt t) = out t"
  using on_terminate_base [of t] by (simp_all add: transaction.truncate_def)

lemma stop_simps [simp]:
  "state (stop_retransmissions vt t) = state t"
  "channel (stop_retransmissions vt t) = channel t"
  "request (stop_retransmissions vt t) = request t"
  "out (stop_retransmissions vt t) = out t"
  using stop_base [of t] by (simp_all add: transaction.truncate_def)

lemma terminate_simps [simp]:
  "state (belle_sip_transaction_terminate vt t) = TERMINATED"
  "channel (belle_sip_transaction_terminate vt t) = channel t"
  "request (belle_sip_transaction_terminate vt t) = request t"
  by (auto simp: belle_sip_transaction_terminate_def Let_def transaction_end_background_task_def
      belle_sip_provider_set_transaction_terminated_def belle_sip_transaction_set_state_def
      terminate_dialog_update_def emit_def split: option.split)

lemma run_call_channel [simp]: "channel (run_call vt c t) = channel t"
  by (cases c) auto

lemma run_calls_channel [simp]: "channel (fold (run_call vt) cs t) = channel t"
  by (induction cs arbitrary: t) auto

lemma run_response_calls_channel:
  "Close_channel \<notin> set cs \<Longrightarrow> channel (fold (run_response_call vt e) cs t) = channel t"
proof (induction cs arbitrary: t)
  case (Cons c cs)
  then show ?case by (cases c) auto
qed simp

end

section \<open>Stable predicates\<close>

locale stable = transaction_class vt for vt :: "('a transaction_scheme) vptr" +
  fixes P :: "'a transaction_scheme \<Rightarrow> bool"
  assumes frame:
    "P (t\<lparr>dialog := d\<rparr>) = P t" "P (t\<lparr>call_repair_timer := c\<rparr>) = P t" "P (t\<lparr>bg_task := b\<rparr>) = P t"
    and P_emit [simp]: "P t \<Longrightarrow> P (emit a t)"
    and timed_out_kept: "P t \<Longrightarrow> P (t\<lparr>timed_out := True\<rparr>)"
    and response_kept: "P t \<Longrightarrow> P (t\<lparr>last_response := Some r\<rparr>)"
    and channel_some: "P t \<Longrightarrow> P (t\<lparr>channel := Some ch\<rparr>)"
    and channel_lost: "\<lbrakk>P t; state t = TERMINATED \<or> is_transient (state t) \<and> (cls vt = IST \<or> cls vt = ICT)\<rbrakk>
           \<Longrightarrow> P (t\<lparr>channel := None\<rparr>)"
    and terminated: "P t \<Longrightarrow> P (on_terminate vt (t\<lparr>state := TERMINATED\<rparr>))"
    and stopped: "\<lbrakk>P t; is_client (cls vt)\<rbrakk> \<Longrightarrow> P (stop_retransmissions vt t)"
begin

lemma P_repair_update: "P (call_repair_timer_update f t) = P t"
proof -
  have eq: "call_repair_timer_update f t = t\<lparr>call_repair_timer := f (call_repair_timer t)\<rparr>" by (cases t) simp
  show ?thesis by (subst eq) (rule frame(2))
qed

lemma state_emit [simp]: "state (emit a t) = state t"
  by (simp add: emit_def)

lemma P_on_terminate: "P t \<Longrightarrow> state t = TERMINATED \<Longrightarrow> P (on_terminate vt t)"
  using terminated [of t] by (metis transaction.surjective transaction.update_convs(7))

lemma P_terminate: "P t \<Longrightarrow> P (belle_sip_transaction_terminate vt t)"
proof -
  assume "P t"
  let ?t = "t\<lparr>call_repair_timer := None\<rparr>"
  let ?d = "terminate_dialog_update (?t\<lparr>state := TERMINATED\<rparr>)"
  have "P ?t" using \<open>P t\<close> by (simp add: frame)
  have "?d = (terminate_dialog_update ?t)\<lparr>state := TERMINATED\<rparr>"
    by (simp add: terminate_dialog_update_def no_final_response_def emit_def split: option.split)
  moreover have "P (terminate_dialog_update ?t)"
    using \<open>P ?t\<close> by (simp add: terminate_dialog_update_def split: option.split)
  ultimately have "P (on_terminate vt ?d)" "state (on_terminate vt ?d) = TERMINATED"
    by (simp_all add: terminated)
  then show ?thesis
    using \<open>P ?t\<close> by (simp add: belle_sip_transaction_terminate_def Let_def frame P_on_terminate
        transaction_end_background_task_def belle_sip_provider_set_transaction_terminated_def
        belle_sip_transaction_set_state_def)
qed

lemma P_run_call: "P t \<Longrightarrow> P (run_call vt c t)"
  by (cases c) (auto simp: P_terminate stopped)

lemma P_run_calls: "P t \<Longrightarrow> P (fold (run_call vt) cs t)"
  by (induction cs arbitrary: t) (auto simp: P_run_call)

lemma P_invoke: "P t \<Longrightarrow> P (invoke_listeners vt e ev t)"
  by (simp add: invoke_listeners_def P_run_calls)

lemma P_notify_timeout: "P t \<Longrightarrow> P (notify_timeout vt e t)"
  by (simp add: notify_timeout_def P_invoke)

lemma P_handle_error:
  assumes "P t"
  shows "P (transaction_handle_channel_error vt e t)"
proof -
  define a where "a = (if state t \<noteq> COMPLETED \<and> state t \<noteq> CONFIRMED \<and> state t \<noteq> ACCEPTED \<and> state t \<noteq> TERMINATED
    then invoke_listeners vt e Io_error t else t)"
  define b where "b = (if timed_out a then notify_timeout vt e a
    else if cls vt = IST \<or> cls vt = ICT then a\<lparr>call_repair_timer := None\<rparr> else a)"
  define c where "c = (if \<not> timed_out b \<and> is_transient (state b) \<and> (cls vt = IST \<or> cls vt = ICT)
    then b\<lparr>call_repair_timer := Some (start_timer e (32 * T1 (cfg e)))\<rparr>
    else belle_sip_transaction_terminate vt b)"
  have "P a" using assms by (simp add: a_def P_invoke)
  then have "P b" by (simp add: b_def P_notify_timeout frame)
  then have "P c" by (simp add: c_def P_terminate frame)
  moreover have "state c = TERMINATED \<or> is_transient (state c) \<and> (cls vt = IST \<or> cls vt = ICT)"
    by (auto simp: c_def)
  moreover have "transaction_handle_channel_error vt e t = c\<lparr>channel := None\<rparr>"
    unfolding transaction_handle_channel_error_def Let_def a_def [symmetric] b_def [symmetric]
      c_def [symmetric] by simp
  ultimately show ?thesis by (simp add: channel_lost)
qed

lemma P_soft_error: "P t \<Longrightarrow> P (channel_handle_soft_error vt e ch t)"
  by (simp add: channel_handle_soft_error_def Let_def P_handle_error channel_some)

lemma P_transaction_notify_timeout:
  "P t \<Longrightarrow> belle_sip_transaction_notify_timeout vt e t = Some t' \<Longrightarrow> P t'"
  by (auto simp: belle_sip_transaction_notify_timeout_def belle_sip_channel_notify_timeout_def
      P_terminate P_notify_timeout P_soft_error timed_out_kept split: if_splits option.splits)

lemma P_run_response_call: "P t \<Longrightarrow> P (run_response_call vt e c t)"
  by (cases c) (auto simp: P_run_call P_handle_error split: option.split)

lemma P_run_response_calls: "P t \<Longrightarrow> P (fold (run_response_call vt e) cs t)"
  by (induction cs arbitrary: t) (auto simp: P_run_response_call)

lemma P_response_listeners: "P t \<Longrightarrow> P (invoke_response_listeners vt e r t)"
  by (simp add: invoke_response_listeners_def P_run_response_calls)

lemma P_response_dialog: "P t \<Longrightarrow> P (snd (response_dialog e r t))"
  by (auto simp: response_dialog_def should_create_def frame split: option.split)

lemma P_report: "P t \<Longrightarrow> report_server_error vt e r t = Some t' \<Longrightarrow> P t'"
  by (auto simp: report_server_error_def belle_sip_channel_notify_server_error_def P_soft_error
      split: if_splits option.splits)

lemma P_notify_response:
  assumes "P t" "belle_sip_client_transaction_notify_response vt e r t = Some t'"
  shows "P t'"
proof -
  obtain d u where du: "response_dialog e r (t\<lparr>last_response := Some r\<rparr>) = (d, u)" by force
  then have "P u"
    using P_response_dialog [OF response_kept [OF assms(1)], of e r r] by simp
  then show ?thesis
    using assms(2) du
    by (auto simp: belle_sip_client_transaction_notify_response_def Let_def P_response_listeners
        split: option.splits if_splits elim!: P_report [rotated])
qed

end

sublocale transaction_class \<subseteq> st: stable vt "\<lambda>t. state t = s \<or> state t = TERMINATED" for s
  by unfold_locales (auto simp: emit_def)

sublocale transaction_class \<subseteq> rq: stable vt "\<lambda>t. request t = r" for r
  by unfold_locales (auto simp: emit_def)

sublocale transaction_class \<subseteq> os: stable vt "\<lambda>t. \<exists>ys. out t = x @ ys" for x
  by unfold_locales (auto simp: emit_def)

section \<open>When the notification of a response is defined\<close>

context transaction_class begin

lemma invoke_response_listeners_channel:
  "Close_channel \<notin> set (tu_response e r) \<Longrightarrow> channel (invoke_response_listeners vt e r t) = channel t"
  by (simp add: invoke_response_listeners_def run_response_calls_channel emit_def)

lemma response_dialog_channel: "channel (snd (response_dialog e r t)) = channel t"
  by (auto simp: response_dialog_def should_create_def split: option.split)

lemma response_dialog_request: "request (snd (response_dialog e r t)) = request t"
  by (auto simp: response_dialog_def should_create_def split: option.split)

lemma report_defined:
  "\<lbrakk>r_method (request t) = ''REGISTER'' \<Longrightarrow> s_code r = 500 \<or> s_code r = 503 \<Longrightarrow> channel t \<noteq> None\<rbrakk>
   \<Longrightarrow> \<exists>t'. report_server_error vt e r t = Some t'"
  by (auto simp: report_server_error_def belle_sip_channel_notify_server_error_def split: option.split)

lemma notify_response_defined:
  assumes "channel t \<noteq> None"
    and "r_method (request t) = ''REGISTER'' \<Longrightarrow> s_code r = 500 \<or> s_code r = 503
           \<Longrightarrow> Close_channel \<notin> set (tu_response e r)"
  shows "\<exists>t'. belle_sip_client_transaction_notify_response vt e r t = Some t'"
proof -
  obtain d u where du: "response_dialog e r (t\<lparr>last_response := Some r\<rparr>) = (d, u)" by force
  then have u: "channel u = channel t" "request u = request t"
    using response_dialog_channel [of e r "t\<lparr>last_response := Some r\<rparr>"]
      response_dialog_request [of e r "t\<lparr>last_response := Some r\<rparr>"] by auto
  have rep: "\<exists>t'. report_server_error vt e r v = Some t'"
    if "request v = request t" "Close_channel \<notin> set (tu_response e r) \<Longrightarrow> channel v = channel t" for v
    using report_defined assms that by metis
  have inv: "request (invoke_response_listeners vt e r v) = request v" for v
    using rq.P_response_listeners [of v "request v"] by simp
  show ?thesis
  proof (cases d)
    case None
    then show ?thesis using du u rep [of "invoke_response_listeners vt e r u"]
      by (simp add: belle_sip_client_transaction_notify_response_def inv invoke_response_listeners_channel)
  next
    case (Some k)
    let ?v = "invoke_response_listeners vt e r (emit (Dialog_update k) u)"
    have v: "request ?v = request t" "Close_channel \<notin> set (tu_response e r) \<Longrightarrow> channel ?v = channel t"
      using u by (simp_all add: inv invoke_response_listeners_channel) (simp_all add: emit_def)
    then show ?thesis using du Some rep [of ?v] rep [of "emit (Dialog_check_ack k) ?v"]
      by (simp add: belle_sip_client_transaction_notify_response_def Let_def) (simp add: emit_def)
  qed
qed

end

end
