(* ===== verification/Bellesip_Invariants.thy ===== *)
theory Bellesip_Invariants
  imports Bellesip_Inv
begin

text \<open>
  The invariants of the four machines and the proof that every event an environment
  can offer is handled without undefined behaviour and keeps them.
\<close>

section \<open>Admissible environments\<close>

definition armed :: "source option \<Rightarrow> bool" where
  "armed s = (case s of None \<Rightarrow> False | Some s \<Rightarrow> linked s)"

text \<open>
  The timer configuration is fixed and positive, and the dialog layer, when it
  refreshes a request, keeps its method and its CSeq header
  (\<open>belle_sip_dialog_update_request\<close> rewrites the number, the routes and the URI).
\<close>

definition env_ok :: "timer_config \<Rightarrow> env \<Rightarrow> bool" where
  "env_ok c e = (cfg e = c \<and> 0 < T1 c \<and> 0 < T2 c \<and> 0 \<le> T4 c \<and>
     (\<forall>d r. r_method (dialog_request e d r) = r_method r \<and>
            (cseq_number (r_headers r) \<noteq> None \<longrightarrow> cseq_number (r_headers (dialog_request e d r)) \<noteq> None)))"

text \<open>
  The listener of a response that reports an internal error of the server does not
  close the channel, and a transaction that was sent from the queue of its dialog is
  not sent a second time after the dialog is gone.
\<close>

definition keeps_channel :: "env \<Rightarrow> response \<Rightarrow> bool" where
  "keeps_channel e r = (s_code r = 500 \<or> s_code r = 503 \<longrightarrow> Close_channel \<notin> set (tu_response e r))"

fun client_ok :: "timer_config \<Rightarrow> env \<Rightarrow> client_event \<Rightarrow> 'a transaction_scheme \<Rightarrow> bool" where
  "client_ok c e (Receive r) t = (env_ok c e \<and> keeps_channel e r)"
| "client_ok c e (Send p hop) t = (env_ok c e \<and> (sent_by_dialog_queue t \<longrightarrow> dialog t \<noteq> None))"
| "client_ok c e _ t = env_ok c e"

fun ict_ok :: "timer_config \<Rightarrow> env \<Rightarrow> ict_event \<Rightarrow> ict \<Rightarrow> bool" where
  "ict_ok c e (Ict ev) t = client_ok c e ev t"
| "ict_ok c e _ t = env_ok c e"

fun nict_ok :: "timer_config \<Rightarrow> env \<Rightarrow> nict_event \<Rightarrow> nict \<Rightarrow> bool" where
  "nict_ok c e (Nict ev) t = client_ok c e ev t"
| "nict_ok c e _ t = env_ok c e"

text \<open>
  A response from the transaction user has a To header; only 100 Trying is sent
  without looking at it.
\<close>

fun server_ok :: "timer_config \<Rightarrow> env \<Rightarrow> server_event \<Rightarrow> bool" where
  "server_ok c e (Respond r) = (env_ok c e \<and> (s_code r = 100 \<or> get_header (s_headers r) To \<noteq> None))"
| "server_ok c e _ = env_ok c e"

fun ist_ok :: "timer_config \<Rightarrow> env \<Rightarrow> ist_event \<Rightarrow> ist \<Rightarrow> bool" where
  "ist_ok c e (Ist ev) t = server_ok c e ev"
| "ist_ok c e _ t = env_ok c e"

fun nist_ok :: "timer_config \<Rightarrow> env \<Rightarrow> nist_event \<Rightarrow> nist \<Rightarrow> bool" where
  "nist_ok c e (Nist ev) t = server_ok c e ev"
| "nist_ok c e _ t = env_ok c e"

lemma armed_start [simp]: "0 \<le> v \<Longrightarrow> armed (Some (start_timer e v))"
  by (simp add: armed_def start_timer_def)

lemma armed_None [simp]: "\<not> armed None"
  by (simp add: armed_def)

lemma armed_not_None: "armed s \<Longrightarrow> s \<noteq> None"
  by (cases s) (auto simp: armed_def)

section \<open>Client classes\<close>

locale client_class = stable vt P
  for vt :: "('a client_transaction_scheme) vptr" and P :: "'a client_transaction_scheme \<Rightarrow> bool" +
  fixes send_request :: "env \<Rightarrow> 'a client_transaction_scheme \<Rightarrow> 'a client_transaction_scheme option"
    and on_response :: "env \<Rightarrow> response \<Rightarrow> 'a client_transaction_scheme \<Rightarrow> 'a client_transaction_scheme option"
    and c :: timer_config
  assumes client: "is_client (cls vt)"
    and client_frame: "P (t\<lparr>preset_route := p\<rparr>) = P t" "P (t\<lparr>next_hop := p\<rparr>) = P t"
      "P (t\<lparr>sent_by_dialog_queue := b\<rparr>) = P t"
    and request_kept: "\<lbrakk>env_ok c e; P t\<rbrakk> \<Longrightarrow> P (t\<lparr>request := dialog_request e d (request t)\<rparr>)"
    and sends: "\<lbrakk>env_ok c e; P t; state t = INIT; channel t \<noteq> None\<rbrakk>
      \<Longrightarrow> \<exists>t'. send_request e t = Some t' \<and> P t'"
    and responds: "\<lbrakk>env_ok c e; keeps_channel e r; P t; channel t \<noteq> None\<rbrakk>
      \<Longrightarrow> \<exists>t'. on_response e r t = Some t' \<and> P t'"
begin

lemma P_through_channel:
  assumes "env_ok c e" "P t" "state t = INIT"
  shows "\<exists>i t'. send_through_channel vt send_request e t = Some (i, t') \<and> P t'"
proof (cases "client_channel e")
  case None
  then show ?thesis using assms by (simp add: send_through_channel_def Let_def P_terminate)
next
  case (Some ch)
  let ?t = "(emit Provider_add t)\<lparr>channel := Some ch\<rparr>"
  have "P ?t" "state ?t = INIT" using assms by (simp_all add: channel_some)
  then show ?thesis using Some sends [OF assms(1), of ?t]
    by (auto simp: send_through_channel_def Let_def)
qed

lemma P_through_dialog:
  assumes "env_ok c e" "P t" "sent_by_dialog_queue t \<longrightarrow> dialog t \<noteq> None"
  shows "(\<exists>i t'. send_through_dialog vt e t = Some (Inl (i, t')) \<and> P t') \<or>
         (\<exists>t'. send_through_dialog vt e t = Some (Inr t') \<and> P t' \<and> state t' = state t)"
  using assms by (auto simp: send_through_dialog_def P_terminate request_kept split: option.split)

lemma P_update_dialog: "P t \<Longrightarrow> P (update_dialog t)" "state (update_dialog t) = state t"
  by (simp_all add: update_dialog_def split: option.split)

lemma P_send_to:
  assumes "env_ok c e" "P t" "sent_by_dialog_queue t \<longrightarrow> dialog t \<noteq> None"
  shows "\<exists>i t'. belle_sip_client_transaction_send_request_to vt send_request e p hop t = Some (i, t') \<and> P t'"
proof (cases "state t = INIT \<and> uris_ok e (request t)")
  case True
  define u where "u = (case p of None \<Rightarrow> t | Some p \<Rightarrow> t\<lparr>preset_route := Some p\<rparr>)"
  have u: "P u" "state u = INIT" "sent_by_dialog_queue u \<longrightarrow> dialog u \<noteq> None"
    using assms True by (auto simp: u_def client_frame split: option.splits)
  have eq: "belle_sip_client_transaction_send_request_to vt send_request e p hop t =
    (case send_through_dialog vt e u of None \<Rightarrow> None | Some (Inl r) \<Rightarrow> Some r
     | Some (Inr t) \<Rightarrow> send_through_channel vt send_request e
         (case next_hop (update_dialog t) of Some _ \<Rightarrow> update_dialog t
          | None \<Rightarrow> (update_dialog t)\<lparr>next_hop := Some (case preset_route (update_dialog t) of Some p \<Rightarrow> p | None \<Rightarrow> hop)\<rparr>))"
    unfolding belle_sip_client_transaction_send_request_to_def Let_def u_def using True by simp
  from P_through_dialog [OF assms(1) u(1,3)] show ?thesis
  proof (elim disjE exE conjE)
    fix i t' assume "send_through_dialog vt e u = Some (Inl (i, t'))" "P t'"
    then show ?thesis by (simp add: eq)
  next
    fix t' assume d: "send_through_dialog vt e u = Some (Inr t')" "P t'" "state t' = state u"
    let ?v = "case next_hop (update_dialog t') of Some _ \<Rightarrow> update_dialog t'
      | None \<Rightarrow> (update_dialog t')\<lparr>next_hop := Some (case preset_route (update_dialog t') of Some p \<Rightarrow> p | None \<Rightarrow> hop)\<rparr>"
    have "P ?v" "state ?v = INIT"
      using d u by (simp_all add: client_frame P_update_dialog split: option.split)
    from P_through_channel [OF assms(1) this] show ?thesis by (simp add: eq d)
  qed
next
  case False
  then show ?thesis using assms(2) by (auto simp: belle_sip_client_transaction_send_request_to_def)
qed

lemma P_channel_event:
  assumes "env_ok c e" "P t"
  shows "\<exists>t'. channel_event vt send_request e s t = Some t' \<and> P t'"
proof (cases "channel t")
  case (Some ch)
  let ?t = "t\<lparr>channel := Some (ch\<lparr>ch_state := s\<rparr>)\<rparr>"
  have "P ?t" using assms(2) by (rule channel_some)
  show ?thesis
  proof (cases "s = CH_READY \<and> state t = INIT")
    case True
    then show ?thesis using Some client sends [OF assms(1) \<open>P ?t\<close>]
      by (simp add: channel_event_def on_channel_state_changed_def)
  next
    case False
    then show ?thesis using Some \<open>P ?t\<close>
      by (auto simp: channel_event_def on_channel_state_changed_def P_handle_error split: chan_state.split)
  qed
qed (simp add: channel_event_def assms)

lemma P_client_handle:
  assumes "client_ok c e ev t" "P t"
  shows "\<exists>t'. client_handle vt send_request on_response e ev t = Some t' \<and> P t'"
proof (cases ev)
  case (Send p hop)
  then show ?thesis using P_send_to [of e t p hop] assms by auto
next
  case (Send_queued hop)
  then show ?thesis
    using P_send_to [of e "t\<lparr>sent_by_dialog_queue := True\<rparr>" None hop] assms
    by (auto simp: send_from_dialog_queue_def client_frame split: option.split)
next
  case (Receive r)
  define u where "u = (case channel t of None \<Rightarrow> t\<lparr>channel := client_channel e\<rparr> | Some _ \<Rightarrow> t)"
  have "P u" if "channel u \<noteq> None"
    using that assms(2) by (auto simp: u_def channel_some split: option.splits)
  moreover have "u = t" if "channel u = None"
    using that by (auto simp: u_def split: option.splits)
  ultimately show ?thesis using assms(1,2) Receive responds [of e r u]
    by (auto simp: provider_dispatch_response_def u_def [symmetric] Let_def split: option.split)
next
  case (Channel s)
  then show ?thesis using P_channel_event [of e t s] assms by simp
next
  case Received
  then show ?thesis using assms(2)
    by (cases "channel t") (simp_all add: channel_received_def channel_some channel_None_same)
next
  case Repair
  then show ?thesis using P_terminate [OF assms(2)] assms(2)
    by (simp add: notify_source_def client_transaction_on_call_repair_timer_def P_repair_update)
qed (use assms client in \<open>simp_all add: P_terminate stopped frame
      belle_sip_transaction_reset_dialog_def belle_sip_transaction_set_dialog_def\<close>)

end

end
