(* ===== verification/Bellesip_Clients.thy ===== *)
theory Bellesip_Clients
  imports Bellesip_Invariants
begin

text \<open>
  The invariants of the INVITE and the non-INVITE client transaction.
\<close>

lemmas base_defs = belle_sip_transaction_set_state_def queue_message_def channel_is_reliable_def emit_def

section \<open>INVITE client transactions\<close>

text \<open>
  The states the machine can be in, with the timers each of them runs.  In the state
  COMPLETED timer D is armed last, after the listeners ran; \<open>ict_inv0\<close> is the
  invariant without it.
\<close>

definition ict_inv0 :: "ict \<Rightarrow> bool" where
  "ict_inv0 t = (r_method (request t) = ''INVITE'' \<and> cseq_number (r_headers (request t)) \<noteq> None \<and>
     (case state t of
        INIT \<Rightarrow> timer_A t = None \<and> timer_B t = None \<and> timer_D t = None \<and> timer_M t = None \<and> ack t = None
      | CALLING \<Rightarrow> armed (timer_B t) \<and> timer_D t = None \<and> timer_M t = None \<and> ack t = None
      | PROCEEDING \<Rightarrow> timer_D t = None \<and> timer_M t = None \<and> ack t = None
      | COMPLETED \<Rightarrow> ack t \<noteq> None
      | ACCEPTED \<Rightarrow> armed (timer_M t)
      | TERMINATED \<Rightarrow> timer_A t = None \<and> timer_B t = None \<and> timer_M t = None \<and> ack t = None
      | _ \<Rightarrow> False))"

definition ict_inv :: "ict \<Rightarrow> bool" where
  "ict_inv t = (ict_inv0 t \<and> (state t = COMPLETED \<longrightarrow> armed (timer_D t)))"

lemma ict_vptr_simps [simp]:
  "cls ict_vptr = ICT" "on_terminate ict_vptr = on_ict_terminate"
  "stop_retransmissions ict_vptr = ict_stop_retransmissions"
  by (simp_all add: ict_vptr_def)

interpretation ict: transaction_class ict_vptr
  by unfold_locales (simp_all add: transaction.truncate_def on_ict_terminate_def ict_stop_retransmissions_def)

interpretation ict0: stable ict_vptr ict_inv0
  by unfold_locales
    (auto simp: ict_inv0_def emit_def on_ict_terminate_def ict_stop_retransmissions_def split: tstate.splits)

lemma ict_notify_response:
  assumes "ict_inv0 t" "channel t \<noteq> None"
  shows "\<exists>t'. belle_sip_client_transaction_notify_response ict_vptr e r t = Some t' \<and> ict_inv0 t' \<and>
    (state t' = state t \<or> state t' = TERMINATED)"
proof -
  have "r_method (request t) = ''INVITE''" using assms by (simp add: ict_inv0_def)
  then obtain t' where t': "belle_sip_client_transaction_notify_response ict_vptr e r t = Some t'"
    using ict.notify_response_defined [OF assms(2), of r e] by auto
  with assms ict0.P_notify_response ict.st.P_notify_response [of t "state t"] show ?thesis by metis
qed

lemma ict_final_failure:
  assumes "ict_inv0 t" "state t = PROCEEDING" "channel t \<noteq> None" "0 < T1 (cfg e)"
  shows "\<exists>t'. ict_on_final_failure e r t = Some t' \<and> ict_inv t'"
proof -
  from assms obtain ch n where ch: "channel t = Some ch" "cseq_number (r_headers (request t)) = Some n"
    by (auto simp: ict_inv0_def)
  then obtain a where a: "make_ack (request t) r = Some a" by (simp add: make_ack_def)
  define u where "u = emit (Send_request a) (t\<lparr>state := COMPLETED, ack := Some a\<rparr>)"
  have "ict_inv0 u" "channel u \<noteq> None" "state u = COMPLETED"
    using assms ch by (simp_all add: u_def emit_def ict_inv0_def)
  from ict_notify_response [OF this(1,2), of e r] this(3) obtain t' where
    t': "belle_sip_client_transaction_notify_response ict_vptr e r u = Some t'" "ict_inv0 t'"
      "state t' = COMPLETED \<or> state t' = TERMINATED" by auto
  have "ict_inv (t'\<lparr>timer_D := Some (start_timer e (T1 (cfg e) * 64))\<rparr>)"
    using t'(2,3) assms(4) by (auto simp: ict_inv_def ict_inv0_def)
  moreover have "ack t = None" using assms by (simp add: ict_inv0_def)
  ultimately show ?thesis using a ch t'(1)
    by (simp add: ict_on_final_failure_def ict_make_ack_def base_defs u_def)
qed

interpretation icti: stable ict_vptr ict_inv
  by unfold_locales
    (auto simp: ict_inv_def ict_inv0_def emit_def on_ict_terminate_def ict_stop_retransmissions_def split: tstate.splits)

lemma ict_notify_inv:
  assumes "ict_inv t" "channel t \<noteq> None"
  shows "\<exists>t'. belle_sip_client_transaction_notify_response ict_vptr e r t = Some t' \<and> ict_inv t'"
  using ict_notify_response [of t e r] icti.P_notify_response [OF assms(1), of e r] assms
  unfolding ict_inv_def by blast

lemma ict_proceeding:
  assumes "ict_inv t" "state t = PROCEEDING" "channel t \<noteq> None" "0 < T1 (cfg e)"
  shows "\<exists>t'. ict_on_response_proceeding e r t = Some t' \<and> ict_inv t'"
proof -
  let ?m = "t\<lparr>timer_M := Some (start_timer e (T1 (cfg e) * 64)), state := ACCEPTED\<rparr>"
  have "ict_inv ?m" using assms by (simp add: ict_inv_def ict_inv0_def)
  then have "\<exists>t'. ict_on_success e r t = Some t' \<and> ict_inv t'"
    using ict_notify_inv [of ?m e r] assms(3) by (simp add: ict_on_success_def base_defs)
  moreover have "\<exists>t'. ict_on_final_failure e r t = Some t' \<and> ict_inv t'"
    using ict_final_failure assms by (simp add: ict_inv_def)
  ultimately show ?thesis
    using ict_notify_inv [OF assms(1,3)] assms(1) by (simp add: ict_on_response_proceeding_def Let_def)
qed

lemma ict_response:
  assumes "ict_inv t" "channel t \<noteq> None" "0 < T1 (cfg e)"
  shows "\<exists>t'. ict_on_response e r t = Some t' \<and> ict_inv t'"
proof (cases "state t")
  case CALLING
  then have "ict_inv (t\<lparr>state := PROCEEDING\<rparr>)" using assms(1) by (simp add: ict_inv_def ict_inv0_def)
  then show ?thesis using CALLING ict_proceeding [of "t\<lparr>state := PROCEEDING\<rparr>" e r] assms
    by (simp add: ict_on_response_def base_defs)
next
  case COMPLETED
  then show ?thesis using assms(1,2) ict_notify_inv [OF assms(1,2), of e r]
    by (cases "ack t") (auto simp: ict_on_response_def Let_def queue_message_def)
qed (use assms ict_proceeding [OF assms(1) _ assms(2,3)] ict_notify_inv [OF assms(1,2), of e r]
     in \<open>simp_all add: ict_on_response_def Let_def\<close>)

lemma ict_sends:
  assumes "ict_inv t" "state t = INIT" "channel t \<noteq> None" "0 < T1 (cfg e)"
  shows "\<exists>t'. ict_send_request e t = Some t' \<and> ict_inv t'"
  using assms by (auto simp: ict_send_request_def base_defs Let_def ict_inv_def ict_inv0_def)

interpretation ict_client: client_class ict_vptr ict_inv ict_send_request ict_on_response c for c
proof (unfold_locales, goal_cases)
  case 1 show ?case by (simp add: is_client_def)
next
  case (5 e t d)
  then show ?case by (auto simp: env_ok_def ict_inv_def ict_inv0_def split: tstate.splits)
next
  case (6 e t)
  then show ?case using ict_sends by (simp add: env_ok_def)
next
  case (7 e r t)
  then show ?case using ict_response by (simp add: env_ok_def)
qed (auto simp: ict_inv_def ict_inv0_def split: tstate.splits)

lemma ict_timer_A:
  assumes "ict_inv t"
  shows "\<exists>t'. notify_source timer_A timer_A_update ict_on_timer_A e t = Some t' \<and> ict_inv t'"
  using assms by (auto simp: notify_source_def ict_on_timer_A_def expired_def queue_message_def emit_def
      ict_inv_def ict_inv0_def unlink_def rearm_def set_timeout_def split: option.splits tstate.splits)

lemma ict_timer_B:
  assumes "ict_inv t"
  shows "\<exists>t'. notify_source timer_B timer_B_update ict_on_timer_B e t = Some t' \<and> ict_inv t'"
proof (cases "expired e (timer_B t) \<and> state t = CALLING")
  case True
  let ?t = "belle_sip_transaction_terminate ict_vptr (notify_timeout ict_vptr e t)"
  have "ict_inv ?t" "state ?t = TERMINATED"
    using icti.P_terminate icti.P_notify_timeout assms by simp_all
  then have "ict_inv (timer_B_update unlink ?t)" by (simp add: ict_inv_def ict_inv0_def unlink_def)
  moreover have "r_method (request t) \<noteq> ''REGISTER''" using assms by (simp add: ict_inv_def ict_inv0_def)
  ultimately show ?thesis using True
    by (simp add: notify_source_def ict_on_timer_B_def belle_sip_transaction_notify_timeout_def)
next
  case False
  then show ?thesis using assms
    by (auto simp: notify_source_def ict_on_timer_B_def ict_inv_def ict_inv0_def unlink_def split: tstate.splits)
qed

lemma ict_timer_DM:
  assumes "ict_inv t"
  shows "\<exists>t'. notify_source timer_D timer_D_update ict_on_timer_D e t = Some t' \<and> ict_inv t'"
    and "\<exists>t'. notify_source timer_M timer_M_update ict_on_timer_M e t = Some t' \<and> ict_inv t'"
proof -
  let ?t = "belle_sip_transaction_terminate ict_vptr t"
  have t: "ict_inv ?t" "state ?t = TERMINATED" using icti.P_terminate [OF assms] by simp_all
  then have "ict_inv (timer_D_update unlink ?t)" "ict_inv (timer_M_update unlink ?t)"
    by (simp_all add: ict_inv_def ict_inv0_def unlink_def)
  then show "\<exists>t'. notify_source timer_D timer_D_update ict_on_timer_D e t = Some t' \<and> ict_inv t'"
    and "\<exists>t'. notify_source timer_M timer_M_update ict_on_timer_M e t = Some t' \<and> ict_inv t'"
    using assms by (auto simp: notify_source_def ict_on_timer_D_def ict_on_timer_M_def
        ict_inv_def ict_inv0_def unlink_def split: tstate.splits)
qed

interpretation ict_machine: machine ict_handle "ict_ok c" ict_inv for c
proof
  fix t :: ict and e ev
  assume "ict_inv t" "ict_ok c e ev t"
  then show "\<exists>t'. ict_handle e ev t = Some t' \<and> ict_inv t'"
    by (cases ev) (auto intro: ict_client.P_client_handle ict_timer_A ict_timer_B ict_timer_DM)
qed

section \<open>Non-INVITE client transactions\<close>

text \<open>
  While a request is unanswered the machine has its channel and waits for timer F, or
  for the error of the channel that it reported as dead.  The retransmission interval
  never exceeds the larger of T1 and T2.
\<close>

definition nict_inv0 :: "timer_config \<Rightarrow> nict \<Rightarrow> bool" where
  "nict_inv0 c t = ((case timer_E t of None \<Rightarrow> True | Some s \<Rightarrow> timeout s \<le> max (T1 c) (T2 c)) \<and>
     (case state t of
        INIT \<Rightarrow> timer_E t = None \<and> timer_F t = None \<and> timer_K t = None
      | TRYING \<Rightarrow> channel t \<noteq> None \<and> timer_K t = None \<and> (armed (timer_F t) \<or> timed_out t)
      | PROCEEDING \<Rightarrow> channel t \<noteq> None \<and> timer_K t = None \<and> (armed (timer_F t) \<or> timed_out t)
      | COMPLETED \<Rightarrow> True
      | TERMINATED \<Rightarrow> timer_E t = None \<and> timer_F t = None
      | _ \<Rightarrow> False))"

definition nict_inv :: "timer_config \<Rightarrow> nict \<Rightarrow> bool" where
  "nict_inv c t = (nict_inv0 c t \<and> (state t = COMPLETED \<longrightarrow> armed (timer_K t)))"

lemma nict_vptr_simps [simp]:
  "cls nict_vptr = NICT" "on_terminate nict_vptr = nict_on_terminate"
  "stop_retransmissions nict_vptr = nict_stop_retransmissions"
  by (simp_all add: nict_vptr_def)

interpretation nict: transaction_class nict_vptr
  by unfold_locales (simp_all add: transaction.truncate_def nict_on_terminate_def nict_stop_retransmissions_def)

interpretation nict0: stable nict_vptr "nict_inv0 c" for c
  by unfold_locales
    (auto simp: nict_inv0_def emit_def nict_on_terminate_def nict_stop_retransmissions_def split: tstate.splits)

interpretation nicti: stable nict_vptr "nict_inv c" for c
  by unfold_locales
    (auto simp: nict_inv_def nict_inv0_def emit_def nict_on_terminate_def nict_stop_retransmissions_def split: tstate.splits)

lemma nict_notify_response:
  assumes "channel t \<noteq> None" "keeps_channel e r"
  shows "\<exists>t'. belle_sip_client_transaction_notify_response nict_vptr e r t = Some t' \<and>
    (state t' = state t \<or> state t' = TERMINATED)"
proof -
  obtain t' where t': "belle_sip_client_transaction_notify_response nict_vptr e r t = Some t'"
    using nict.notify_response_defined [OF assms(1), of r e] assms(2) by (auto simp: keeps_channel_def)
  with nict.st.P_notify_response [of t "state t"] show ?thesis by metis
qed

lemma nict_completed:
  assumes "nict_inv c t" "state t = TRYING \<or> state t = PROCEEDING" "keeps_channel e r" "0 \<le> T4 (cfg e)"
  shows "\<exists>t'. nict_set_completed e r t = Some t' \<and> nict_inv c t'"
proof -
  let ?u = "t\<lparr>state := COMPLETED\<rparr>"
  have u: "nict_inv0 c ?u" "channel ?u \<noteq> None" "timer_K t = None"
    using assms(1,2) by (auto simp: nict_inv_def nict_inv0_def)
  from nict_notify_response [OF u(2) assms(3)] obtain t' where
    t': "belle_sip_client_transaction_notify_response nict_vptr e r ?u = Some t'"
      "state t' = COMPLETED \<or> state t' = TERMINATED" by auto
  then have "nict_inv0 c t'" using nict0.P_notify_response u(1) by blast
  then have "nict_inv c (t'\<lparr>timer_K := Some (start_timer e (T4 (cfg e)))\<rparr>)"
    and "nict_inv0 c (belle_sip_transaction_terminate nict_vptr t')"
    using t'(2) assms(4) nict0.P_terminate by (auto simp: nict_inv_def nict_inv0_def)
  then show ?thesis using t'(1) u
    by (auto simp: nict_set_completed_def base_defs nict_inv_def)
qed

lemma nict_response:
  assumes "nict_inv c t" "channel t \<noteq> None" "keeps_channel e r" "0 \<le> T4 (cfg e)"
  shows "\<exists>t'. nict_on_response e r t = Some t' \<and> nict_inv c t'"
proof (cases "state t = TRYING \<and> s_code r < 200")
  case True
  let ?u = "t\<lparr>state := PROCEEDING\<rparr>"
  have "nict_inv c ?u" using assms(1) True by (simp add: nict_inv_def nict_inv0_def)
  then show ?thesis
    using True nict_notify_response [of ?u e r] assms nicti.P_notify_response [of c ?u e r]
    by (auto simp: nict_on_response_def base_defs)
next
  case False
  then show ?thesis using assms nict_completed [OF assms(1) _ assms(3,4)]
    by (auto simp: nict_on_response_def Let_def split: tstate.split)
qed

lemma nict_sends:
  assumes "nict_inv c t" "state t = INIT" "channel t \<noteq> None" "0 < T1 c" "cfg e = c"
  shows "\<exists>t'. nict_send_request e t = Some t' \<and> nict_inv c t'"
  using assms by (auto simp: nict_send_request_def base_defs Let_def nict_inv_def nict_inv0_def)
    (simp add: start_timer_def)

interpretation nict_client: client_class nict_vptr "nict_inv c" nict_send_request nict_on_response c for c
proof (unfold_locales, goal_cases)
  case 1 show ?case by (simp add: is_client_def)
next
  case (6 e t)
  then show ?case using nict_sends by (simp add: env_ok_def)
next
  case (7 e r t)
  then show ?case using nict_response by (simp add: env_ok_def)
qed (auto simp: nict_inv_def nict_inv0_def split: tstate.splits)

lemma nict_timer_E:
  assumes "nict_inv c t" "cfg e = c"
  shows "\<exists>t'. notify_source timer_E timer_E_update nict_on_timer_E e t = Some t' \<and> nict_inv c t'"
  using assms by (auto simp: notify_source_def nict_on_timer_E_def expired_def queue_message_def emit_def
      nict_inv_def nict_inv0_def unlink_def rearm_def set_timeout_def split: option.splits tstate.splits)

lemma notify_timeout_defined:
  "channel t \<noteq> None \<Longrightarrow> \<exists>t'. belle_sip_transaction_notify_timeout vt e t = Some t'"
  unfolding belle_sip_transaction_notify_timeout_def by (auto split: option.split prod.split bool.split)

lemma nict_timer_F:
  assumes "nict_inv c t"
  shows "\<exists>t'. notify_source timer_F timer_F_update nict_on_timer_F e t = Some t' \<and> nict_inv c t'"
proof (cases "expired e (timer_F t) \<and> (state t = TRYING \<or> state t = PROCEEDING)")
  case True
  then obtain ch where ch: "channel t = Some ch" using assms by (auto simp: nict_inv_def nict_inv0_def)
  obtain t' where t': "belle_sip_transaction_notify_timeout nict_vptr e t = Some t'"
    using notify_timeout_defined [of t] ch by blast
  have "nict_inv c t'" by (rule nicti.P_transaction_notify_timeout [OF assms t'])
  moreover have "state t' = TERMINATED \<or> timed_out t'"
    using t' by (auto simp: belle_sip_transaction_notify_timeout_def split: if_splits option.splits
        prod.splits bool.splits)
  ultimately have "nict_inv c (timer_F_update unlink t')"
    by (auto simp: nict_inv_def nict_inv0_def unlink_def split: tstate.splits)
  then show ?thesis using True t' by (simp add: notify_source_def nict_on_timer_F_def)
next
  case False
  then show ?thesis using assms
    by (auto simp: notify_source_def nict_on_timer_F_def nict_inv_def nict_inv0_def unlink_def split: tstate.splits)
qed

lemma nict_timer_K:
  assumes "nict_inv c t"
  shows "\<exists>t'. notify_source timer_K timer_K_update nict_on_timer_K e t = Some t' \<and> nict_inv c t'"
proof -
  let ?t = "belle_sip_transaction_terminate nict_vptr t"
  have "nict_inv c ?t" "state ?t = TERMINATED" using nicti.P_terminate [OF assms] by simp_all
  then have "nict_inv c (timer_K_update unlink ?t)" by (simp add: nict_inv_def nict_inv0_def unlink_def)
  then show ?thesis using assms by (simp add: notify_source_def nict_on_timer_K_def)
qed

interpretation nict_machine: machine nict_handle "nict_ok c" "nict_inv c" for c
proof
  fix t :: nict and e ev
  assume "nict_inv c t" "nict_ok c e ev t"
  then show "\<exists>t'. nict_handle e ev t = Some t' \<and> nict_inv c t'"
    by (cases ev) (auto simp: env_ok_def intro: nict_client.P_client_handle nict_timer_E nict_timer_F nict_timer_K)
qed

end
