(* ===== verification/Bellesip_Servers.thy ===== *)
theory Bellesip_Servers
  imports Bellesip_Clients
begin

text \<open>
  The invariants of the INVITE and the non-INVITE server transaction.
\<close>

section \<open>Server classes\<close>

locale server_class = stable vt P
  for vt :: "('a server_transaction_scheme) vptr" and P :: "'a server_transaction_scheme \<Rightarrow> bool" +
  fixes send_new_response ::
      "env \<Rightarrow> response \<Rightarrow> 'a server_transaction_scheme \<Rightarrow> (int \<times> 'a server_transaction_scheme) option"
    and process_ack :: "env \<Rightarrow> 'a server_transaction_scheme \<Rightarrow> (int \<times> 'a server_transaction_scheme) option"
    and on_retransmission :: "env \<Rightarrow> 'a server_transaction_scheme \<Rightarrow> 'a server_transaction_scheme option"
    and c :: timer_config
  assumes server: "\<not> is_client (cls vt)"
    and sends_new: "\<lbrakk>env_ok c e; P t; channel t \<noteq> None\<rbrakk>
      \<Longrightarrow> \<exists>ret t'. send_new_response e r t = Some (ret, t') \<and>
            P (if ret = 0 then t'\<lparr>last_response := Some r\<rparr> else t')"
    and acks: "\<lbrakk>env_ok c e; P t\<rbrakk> \<Longrightarrow> \<exists>ret t'. process_ack e t = Some (ret, t') \<and> P t'"
    and retransmits: "P t \<Longrightarrow> \<exists>t'. on_retransmission e t = Some t' \<and> P t'"
begin

lemma P_update_dialog: "P t \<Longrightarrow> P (update_dialog t)"
  by (simp add: update_dialog_def split: option.split)

lemma P_check_channel:
  "P t \<Longrightarrow> \<exists>b t'. check_channel e (Some r) t = Some (b, t') \<and> P t' \<and> (b \<longrightarrow> channel t' \<noteq> None)"
  by (auto simp: check_channel_def channel_some split: option.split)

lemma complete_response_defined:
  "s_code r = 100 \<or> get_header (s_headers r) To \<noteq> None \<Longrightarrow> \<exists>r'. complete_response e t r = Some r'"
  by (auto simp: complete_response_def Let_def split: option.split)

lemma P_send_response:
  assumes "env_ok c e" "P t" "s_code r = 100 \<or> get_header (s_headers r) To \<noteq> None"
  shows "\<exists>t'. belle_sip_server_transaction_send_response send_new_response e r t = Some t' \<and> P t'"
proof -
  obtain b u where u: "check_channel e (Some r) t = Some (b, u)" "P u" "b \<longrightarrow> channel u \<noteq> None"
    using P_check_channel [OF assms(2), of e r] by blast
  obtain r' where r': "complete_response e u r = Some r'"
    using complete_response_defined [OF assms(3)] by blast
  show ?thesis
  proof (cases b)
    case True
    then obtain ret v where "send_new_response e r' u = Some (ret, v)"
      "P (if ret = 0 then v\<lparr>last_response := Some r'\<rparr> else v)"
      using sends_new [OF assms(1) u(2), of r'] u(3) by blast
    then show ?thesis using u r' True
      by (simp add: belle_sip_server_transaction_send_response_def P_update_dialog)
  next
    case False
    then show ?thesis using u by (simp add: belle_sip_server_transaction_send_response_def)
  qed
qed

lemma P_on_request:
  assumes "env_ok c e" "P t"
  shows "\<exists>t'. belle_sip_server_transaction_on_request vt process_ack on_retransmission e rq t = Some t' \<and> P t'"
proof -
  obtain ret u where "process_ack e t = Some (ret, u)" "P u" using acks [OF assms] by blast
  moreover obtain v where "on_retransmission e t = Some v" "P v" using retransmits [OF assms(2)] by blast
  ultimately show ?thesis using assms(2)
    by (auto simp: belle_sip_server_transaction_on_request_def server_transaction_notify_def P_invoke
        split: option.split)
qed

lemma P_channel_event: "P t \<Longrightarrow> \<exists>t'. channel_event vt sr e s t = Some t' \<and> P t'"
  using server
  by (auto simp: channel_event_def on_channel_state_changed_def P_handle_error channel_some
      split: option.split chan_state.split)

lemma P_received: "P t \<Longrightarrow> P (channel_received e t)"
  by (cases "channel t") (simp_all add: channel_received_def channel_some channel_None_same)

lemma P_dialog:
  "P t \<Longrightarrow> P (belle_sip_transaction_reset_dialog t)" "P t \<Longrightarrow> P (belle_sip_transaction_set_dialog d t)"
  by (simp_all add: belle_sip_transaction_reset_dialog_def belle_sip_transaction_set_dialog_def frame)

end

section \<open>INVITE server transactions\<close>

text \<open>
  There is always a response to send again; in the state COMPLETED there is a channel
  too, and the interval of timer G never exceeds the larger of T1 and T2.
\<close>

definition ist_inv :: "timer_config \<Rightarrow> ist \<Rightarrow> bool" where
  "ist_inv c t = (get_header (r_headers (request t)) To \<noteq> None \<and> last_response t \<noteq> None \<and>
     (case timer_G t of None \<Rightarrow> True | Some s \<Rightarrow> timeout s \<le> max (T1 c) (T2 c)) \<and>
     (case state t of
        PROCEEDING \<Rightarrow> timer_G t = None \<and> timer_H t = None \<and> timer_I t = None \<and> timer_L t = None
      | ACCEPTED \<Rightarrow> armed (timer_L t)
      | COMPLETED \<Rightarrow> armed (timer_H t) \<and> channel t \<noteq> None
      | CONFIRMED \<Rightarrow> armed (timer_I t)
      | TERMINATED \<Rightarrow> timer_G t = None \<and> timer_H t = None \<and> timer_I t = None \<and> timer_L t = None
      | _ \<Rightarrow> False))"

lemma ist_vptr_simps [simp]:
  "cls ist_vptr = IST" "on_terminate ist_vptr = ist_on_terminate" "stop_retransmissions ist_vptr = id"
  by (simp_all add: ist_vptr_def)

interpretation ist: transaction_class ist_vptr
  by unfold_locales (simp_all add: transaction.truncate_def ist_on_terminate_def)

interpretation isti: stable ist_vptr "ist_inv c" for c
  by unfold_locales (auto simp: ist_inv_def emit_def ist_on_terminate_def split: tstate.splits)

lemma queue_response_some:
  "channel t \<noteq> None \<Longrightarrow> server_transaction_queue_response e (Some r) t = Some (emit (Send_response r) t)"
  by (auto simp: server_transaction_queue_response_def check_channel_def queue_message_def)

lemma ist_sends_new:
  assumes "env_ok c e" "ist_inv c t" "channel t \<noteq> None"
  shows "\<exists>ret t'. ist_send_new_response e r t = Some (ret, t') \<and>
    ist_inv c (if ret = 0 then t'\<lparr>last_response := Some r\<rparr> else t')"
proof (cases "state t")
  case PROCEEDING
  define u where "u = emit (Send_response r) t"
  have u: "ist_inv c u" "state u = PROCEEDING" "channel u \<noteq> None" "cfg e = c" "0 < T1 c"
    using assms PROCEEDING by (simp_all add: u_def env_ok_def) (simp_all add: emit_def)
  then obtain ch where ch: "channel u = Some ch" by blast
  have "\<exists>t'. ist_after_response e (s_code r) u = Some t' \<and> ist_inv c t'"
    using u ch by (auto simp: ist_after_response_def base_defs Let_def ist_inv_def)
      (simp add: start_timer_def)
  then show ?thesis using PROCEEDING assms(3) isti.response_kept
    by (auto simp: ist_send_new_response_def queue_response_some u_def [symmetric])
qed (use assms isti.response_kept in \<open>auto simp: ist_send_new_response_def Let_def\<close>)

lemma ist_acks:
  assumes "env_ok c e" "ist_inv c t"
  shows "\<exists>ret t'. belle_sip_ist_process_ack e t = Some (ret, t') \<and> ist_inv c t'"
proof (cases "state t = COMPLETED")
  case True
  let ?u = "t\<lparr>timer_G := None, state := CONFIRMED\<rparr>"
  obtain ch where ch: "channel t = Some ch" using assms True by (auto simp: ist_inv_def)
  let ?v = "?u\<lparr>timer_I := Some (start_timer e (T4 (cfg e)))\<rparr>"
  have "ist_inv c ?v" using assms True by (auto simp: ist_inv_def env_ok_def)
  moreover have "ist_inv c (belle_sip_transaction_terminate ist_vptr ?u)"
  proof -
    have "ist_inv c (t\<lparr>timer_G := None\<rparr>)" using assms True by (simp add: ist_inv_def)
    then have "ist_inv c (belle_sip_transaction_terminate ist_vptr (t\<lparr>timer_G := None\<rparr>))"
      by (rule isti.P_terminate)
    moreover have "belle_sip_transaction_terminate ist_vptr ?u =
      belle_sip_transaction_terminate ist_vptr (t\<lparr>timer_G := None\<rparr>)"
      using True by (simp add: belle_sip_transaction_terminate_def Let_def belle_sip_transaction_set_state_def)
    ultimately show ?thesis by simp
  qed
  ultimately show ?thesis using True ch by (simp add: belle_sip_ist_process_ack_def base_defs Let_def)
qed (use assms in \<open>auto simp: belle_sip_ist_process_ack_def split: tstate.split\<close>)

lemma ist_last_response_sent:
  assumes "ist_inv c t"
  shows "\<exists>t'. server_transaction_queue_response e (last_response t) t = Some t' \<and> ist_inv c t' \<and>
    state t' = state t \<and> timer_G t' = timer_G t"
  using assms isti.channel_some [OF assms]
  by (auto simp: ist_inv_def server_transaction_queue_response_def check_channel_def queue_message_def emit_def
      split: option.split tstate.splits)

interpretation ist_server: server_class ist_vptr "ist_inv c" ist_send_new_response
    belle_sip_ist_process_ack ist_on_request_retransmission c for c
proof (unfold_locales, goal_cases)
  case 1 show ?case by (simp add: is_client_def)
next
  case (2 e t r)
  then show ?case by (rule ist_sends_new)
next
  case (3 e t)
  then show ?case by (rule ist_acks)
next
  case (4 t e)
  then show ?case using ist_last_response_sent [of c t e] by (auto simp: ist_on_request_retransmission_def)
qed

lemma response_503_has_to:
  "get_header (r_headers rq) To \<noteq> None \<Longrightarrow> get_header (s_headers (response_create_from_request rq 503)) To \<noteq> None"
  by (auto simp: response_create_from_request_def add_some_def Let_def get_header_def split: option.splits list.splits)

lemma ist_repair:
  assumes "env_ok c e" "ist_inv c t"
  shows "\<exists>t'. notify_source call_repair_timer call_repair_timer_update
    server_transaction_on_call_repair_timer e t = Some t' \<and> ist_inv c t'"
proof -
  have "get_header (s_headers (response_create_from_request (request t) 503)) To \<noteq> None"
    using assms(2) by (intro response_503_has_to) (simp add: ist_inv_def)
  then obtain t' where "belle_sip_server_transaction_send_response ist_send_new_response e
      (response_create_from_request (request t) 503) t = Some t'" "ist_inv c t'"
    using ist_server.P_send_response [OF assms, of "response_create_from_request (request t) 503"] by blast
  then show ?thesis using assms(2) isti.P_repair_update [of c unlink t']
    by (simp add: notify_source_def server_transaction_on_call_repair_timer_def)
qed

lemma ist_timer_G:
  assumes "env_ok c e" "ist_inv c t"
  shows "\<exists>t'. notify_source timer_G timer_G_update ist_on_timer_G e t = Some t' \<and> ist_inv c t'"
proof (cases "expired e (timer_G t) \<and> state t = COMPLETED")
  case True
  then obtain s where s: "timer_G t = Some s" by (auto simp: expired_def split: option.splits)
  obtain u where u: "server_transaction_queue_response e (last_response t) t = Some u" "ist_inv c u"
    "state u = COMPLETED" "timer_G u = Some s"
    using ist_last_response_sent [OF assms(2), of e] True s by auto
  then show ?thesis using True s assms(1)
    by (auto simp: notify_source_def ist_on_timer_G_def rearm_def set_timeout_def ist_inv_def env_ok_def)
next
  case False
  then show ?thesis using assms(2)
    by (auto simp: notify_source_def ist_on_timer_G_def expired_def ist_inv_def unlink_def
        split: option.splits tstate.splits)
qed

lemma ist_timers_end:
  assumes "ist_inv c t"
  shows "ist_inv c (timer_H_update unlink (belle_sip_transaction_terminate ist_vptr t))"
    and "ist_inv c (timer_I_update unlink (belle_sip_transaction_terminate ist_vptr t))"
    and "ist_inv c (timer_L_update unlink (belle_sip_transaction_terminate ist_vptr t))"
proof -
  have "ist_inv c (belle_sip_transaction_terminate ist_vptr t)"
    "state (belle_sip_transaction_terminate ist_vptr t) = TERMINATED"
    using isti.P_terminate [OF assms] by simp_all
  then show "ist_inv c (timer_H_update unlink (belle_sip_transaction_terminate ist_vptr t))"
    and "ist_inv c (timer_I_update unlink (belle_sip_transaction_terminate ist_vptr t))"
    and "ist_inv c (timer_L_update unlink (belle_sip_transaction_terminate ist_vptr t))"
    by (simp_all add: ist_inv_def unlink_def)
qed

lemma ist_timer_H:
  assumes "ist_inv c t"
  shows "\<exists>t'. notify_source timer_H timer_H_update ist_on_timer_H e t = Some t' \<and> ist_inv c t'"
proof (cases "state t = COMPLETED")
  case True
  then show ?thesis using assms ist_timers_end [OF assms] by (simp add: notify_source_def ist_on_timer_H_def)
next
  case False
  then have "ist_inv c (timer_H_update unlink t)"
    using assms by (auto simp: ist_inv_def unlink_def split: tstate.splits)
  then show ?thesis using False assms by (simp add: notify_source_def ist_on_timer_H_def)
qed

lemmas ist_pieces = ist_server.P_on_request ist_server.P_send_response ist_server.P_channel_event
  ist_repair ist_timer_G ist_timer_H

interpretation ist_machine: machine ist_handle "ist_ok c" "ist_inv c" for c
proof
  fix t :: ist and e ev
  assume inv: "ist_inv c t" and ok: "ist_ok c e ev t"
  show "\<exists>t'. ist_handle e ev t = Some t' \<and> ist_inv c t'"
  proof (cases ev)
    case (Ist sev)
    then show ?thesis using inv ok
      by (cases sev) (simp_all add: ist_pieces isti.P_terminate ist_server.P_received ist_server.P_dialog)
  qed (use inv ok ist_timers_end [OF inv] in
      \<open>simp_all add: ist_pieces, simp_all add: notify_source_def ist_on_timer_I_def ist_on_timer_L_def\<close>)
qed

section \<open>Non-INVITE server transactions\<close>

definition nist_inv :: "nist \<Rightarrow> bool" where
  "nist_inv t = (case state t of
     TRYING \<Rightarrow> timer_J t = None
   | PROCEEDING \<Rightarrow> timer_J t = None \<and> last_response t \<noteq> None
   | COMPLETED \<Rightarrow> armed (timer_J t) \<and> last_response t \<noteq> None
   | TERMINATED \<Rightarrow> timer_J t = None
   | _ \<Rightarrow> False)"

lemma nist_vptr_simps [simp]:
  "cls nist_vptr = NIST" "on_terminate nist_vptr = nist_on_terminate" "stop_retransmissions nist_vptr = id"
  by (simp_all add: nist_vptr_def)

interpretation nist: transaction_class nist_vptr
  by unfold_locales (simp_all add: transaction.truncate_def nist_on_terminate_def)

interpretation nisti: stable nist_vptr nist_inv
  by unfold_locales (auto simp: nist_inv_def emit_def nist_on_terminate_def split: tstate.splits)

lemma nist_sends_new:
  assumes "env_ok c e" "nist_inv t" "channel t \<noteq> None"
  shows "\<exists>ret t'. nist_send_new_response e r t = Some (ret, t') \<and>
    nist_inv (if ret = 0 then t'\<lparr>last_response := Some r\<rparr> else t')"
proof -
  have "0 < T1 (cfg e)" using assms(1) by (simp add: env_ok_def)
  then show ?thesis using assms(2,3)
    by (cases "state t") (auto simp: nist_send_new_response_def nist_set_completed_def base_defs Let_def
        queue_response_some nist_inv_def)
qed

interpretation nist_server: server_class nist_vptr nist_inv nist_send_new_response
    "\<lambda>_ t. Some (-1, t)" nist_on_request_retransmission c for c
proof (unfold_locales, goal_cases)
  case 1 show ?case by (simp add: is_client_def)
next
  case (2 e t r)
  then show ?case by (rule nist_sends_new)
next
  case (3 e t)
  then show ?case by simp
next
  case (4 t e)
  then show ?case
    by (auto simp: nist_on_request_retransmission_def nist_inv_def queue_message_def emit_def split: option.split)
qed

lemma nist_timer_J:
  assumes "nist_inv t"
  shows "\<exists>t'. notify_source timer_J timer_J_update nist_on_timer_J e t = Some t' \<and> nist_inv t'"
proof -
  have "nist_inv (belle_sip_transaction_terminate nist_vptr t)"
    "state (belle_sip_transaction_terminate nist_vptr t) = TERMINATED"
    using nisti.P_terminate [OF assms] by simp_all
  then have "nist_inv (timer_J_update unlink (belle_sip_transaction_terminate nist_vptr t))"
    by (simp add: nist_inv_def unlink_def)
  then show ?thesis using assms by (simp add: notify_source_def nist_on_timer_J_def)
qed

interpretation nist_machine: machine nist_handle "nist_ok c" nist_inv for c
proof
  fix t :: nist and e ev
  assume inv: "nist_inv t" and ok: "nist_ok c e ev t"
  show "\<exists>t'. nist_handle e ev t = Some t' \<and> nist_inv t'"
  proof (cases ev)
    case (Nist sev)
    then show ?thesis using inv ok
      by (cases sev) (simp_all add: nist_server.P_on_request [of c] nist_server.P_send_response [of c]
          nist_server.P_channel_event nisti.P_terminate nist_server.P_received nist_server.P_dialog)
  qed (use inv in \<open>simp add: nist_timer_J\<close>)
qed

end
