(* ===== verification/Bellesip_Spec.thy ===== *)
theory Bellesip_Spec
  imports Bellesip_Servers
begin

text \<open>
  What the transaction layer of belle-sip guarantees: transactions start in their
  invariant, no admissible event meets undefined behaviour, the states reached are
  well formed and follow the state diagrams of RFC 3261 and RFC 6026, and every state
  that waits for a timer leaves it.
\<close>

section \<open>New transactions\<close>

lemma get_headers_update_via:
  "n \<noteq> Via \<Longrightarrow> get_headers (hs[length (takeWhile (\<lambda>h. fst h \<noteq> Via) hs) := (Via, h)]) n = get_headers hs n"
  by (induction hs) (auto simp: get_headers_def)

lemma client_transaction_init_request:
  assumes "client_transaction_init token rq = Some (b, rq')"
  shows "r_method rq' = r_method rq" "cseq_number (r_headers rq') = cseq_number (r_headers rq)"
  using assms
  by (auto simp: client_transaction_init_def Let_def cseq_number_def get_header_def get_headers_update_via
      split: option.splits if_splits)

lemma ict_new_inv:
  assumes "belle_sip_ict_new token d rq = Some t" "r_method rq = ''INVITE''" "cseq_number (r_headers rq) \<noteq> None"
  shows "ict_inv t"
  using assms client_transaction_init_request [of token rq]
  by (auto simp: belle_sip_ict_new_def new_transaction_def transaction.extend_def ict_inv_def ict_inv0_def)

lemma nict_new_inv: "belle_sip_nict_new token d hop rq = Some t \<Longrightarrow> nict_inv c t"
  by (auto simp: belle_sip_nict_new_def new_transaction_def transaction.extend_def nict_inv_def nict_inv0_def)

lemma ist_create_inv:
  assumes "create_invite_server_transaction e b tag d rq = Some t"
    and "return_channel e (response_create_from_request rq 100) \<noteq> None" "get_header (r_headers rq) To \<noteq> None"
  shows "ist_inv c t"
proof -
  have code: "s_code (response_create_from_request rq 100) = 100"
    by (simp add: response_create_from_request_def Let_def)
  obtain br where br: "server_transaction_branch b rq = Some br"
    using assms(1) by (cases "server_transaction_branch b rq")
      (auto simp: create_invite_server_transaction_def belle_sip_ist_new_def)
  obtain ch where ch: "return_channel e (response_create_from_request rq 100) = Some ch"
    using assms(2) by blast
  from assms(1) br ch have "t = update_dialog (emit (Send_response (response_create_from_request rq 100))
      (emit Provider_add (transaction.extend (new_transaction rq br d PROCEEDING)
        \<lparr> to_tag = tag, timer_G = None, timer_H = None, timer_I = None, timer_L = None \<rparr>))
      \<lparr>channel := Some ch\<rparr>\<lparr>last_response := Some (response_create_from_request rq 100)\<rparr>)"
    by (simp add: create_invite_server_transaction_def belle_sip_ist_new_def emit_def new_transaction_def
        transaction.extend_def belle_sip_server_transaction_send_response_def check_channel_def
        complete_response_def code ist_send_new_response_def queue_response_some ist_after_response_def)
  then show ?thesis using assms(3)
    by (simp add: update_dialog_def emit_def new_transaction_def transaction.extend_def ist_inv_def split: option.split)
qed

lemma nist_create_inv: "create_server_transaction b tag d rq = Some t \<Longrightarrow> nist_inv t"
  by (auto simp: create_server_transaction_def belle_sip_nist_new_def new_transaction_def
      transaction.extend_def nist_inv_def emit_def)

section \<open>Sample transactions\<close>

definition sip_cfg :: timer_config where
  "sip_cfg = \<lparr> T1 = 500, T2 = 4000, T3 = 0, T4 = 5000 \<rparr>"

definition sip_channel :: channel where
  "sip_channel = \<lparr> ch_reliable = False, ch_state = CH_READY, ch_last_recv = 0, ch_next_peer = False \<rparr>"

definition sip_env :: "int \<Rightarrow> env" where
  "sip_env n = \<lparr> cfg = sip_cfg, now = n, tu = \<lambda>_. [], tu_response = \<lambda>_. [],
     client_channel = Some sip_channel, return_channel = \<lambda>_. Some sip_channel, uris_ok = \<lambda>_. True,
     dialog_early_or_confirmed = \<lambda>_. False, dialog_match = \<lambda>_ _. True, find_dialog = \<lambda>_. None,
     new_dialog = None, dialog_absorbs = \<lambda>_. False, dialog_busy = \<lambda>_. False,
     dialog_request = \<lambda>_ r. r, dialog_fill = \<lambda>r _. r, dialog_handle_ack = \<lambda>_ _. False \<rparr>"

definition sip_request :: "string \<Rightarrow> request" where
  "sip_request m = \<lparr> r_method = m, r_uri = ''sip:bob'', r_headers =
     [(Via, Header ''UDP host'' (Some ''z9hG4bK.a'')), (From, Header ''alice'' (Some ''1'')),
      (To, Header ''bob'' None), (Call_id, Header ''c1'' None), (Cseq, Hcseq 7 m)], r_dialog_queued = False \<rparr>"

definition sip_response :: "int \<Rightarrow> response" where
  "sip_response code = response_create_from_request (sip_request ''INVITE'') code"

lemma sip_env_ok [simp]: "env_ok sip_cfg (sip_env n)"
  by (simp add: env_ok_def sip_env_def sip_cfg_def)

lemmas sip_defs = sip_cfg_def sip_channel_def sip_env_def sip_request_def sip_response_def

section \<open>States reached by transactions\<close>

text \<open>
  The transactions that can exist: created from a request of their class and driven by
  admissible events.  The first 100 Trying of an INVITE server transaction has found a
  channel.
\<close>

definition ict_reachable :: "timer_config \<Rightarrow> ict \<Rightarrow> bool" where
  "ict_reachable c t = (\<exists>token d rq t0. belle_sip_ict_new token d rq = Some t0 \<and> r_method rq = ''INVITE'' \<and>
     cseq_number (r_headers rq) \<noteq> None \<and> reachable ict_handle (ict_ok c) t0 t)"

definition nict_reachable :: "timer_config \<Rightarrow> nict \<Rightarrow> bool" where
  "nict_reachable c t = (\<exists>token d hop rq t0. belle_sip_nict_new token d hop rq = Some t0 \<and>
     reachable nict_handle (nict_ok c) t0 t)"

definition ist_reachable :: "timer_config \<Rightarrow> ist \<Rightarrow> bool" where
  "ist_reachable c t = (\<exists>e b tag d rq t0. create_invite_server_transaction e b tag d rq = Some t0 \<and>
     return_channel e (response_create_from_request rq 100) \<noteq> None \<and>
     get_header (r_headers rq) To \<noteq> None \<and> reachable ist_handle (ist_ok c) t0 t)"

definition nist_reachable :: "timer_config \<Rightarrow> nist \<Rightarrow> bool" where
  "nist_reachable c t = (\<exists>b tag d rq t0. create_server_transaction b tag d rq = Some t0 \<and>
     reachable nist_handle (nist_ok c) t0 t)"

lemma ict_reachable_inv: "ict_reachable c t \<Longrightarrow> ict_inv t"
  unfolding ict_reachable_def using ict_machine.reachable_inv ict_new_inv by blast

lemma nict_reachable_inv: "nict_reachable c t \<Longrightarrow> nict_inv c t"
  unfolding nict_reachable_def using nict_machine.reachable_inv nict_new_inv by blast

lemma ist_reachable_inv: "ist_reachable c t \<Longrightarrow> ist_inv c t"
  unfolding ist_reachable_def using ist_machine.reachable_inv ist_create_inv by blast

lemma nist_reachable_inv: "nist_reachable c t \<Longrightarrow> nist_inv t"
  unfolding nist_reachable_def using nist_machine.reachable_inv nist_create_inv by blast

lemma ict_reachable_step:
  "ict_reachable c t \<Longrightarrow> ict_ok c e ev t \<Longrightarrow> ict_handle e ev t = Some t' \<Longrightarrow> ict_reachable c t'"
  unfolding ict_reachable_def using reachable.step by metis

lemma nict_reachable_step:
  "nict_reachable c t \<Longrightarrow> nict_ok c e ev t \<Longrightarrow> nict_handle e ev t = Some t' \<Longrightarrow> nict_reachable c t'"
  unfolding nict_reachable_def using reachable.step by metis

lemma ist_reachable_step:
  "ist_reachable c t \<Longrightarrow> ist_ok c e ev t \<Longrightarrow> ist_handle e ev t = Some t' \<Longrightarrow> ist_reachable c t'"
  unfolding ist_reachable_def using reachable.step by metis

lemma nist_reachable_step:
  "nist_reachable c t \<Longrightarrow> nist_ok c e ev t \<Longrightarrow> nist_handle e ev t = Some t' \<Longrightarrow> nist_reachable c t'"
  unfolding nist_reachable_def using reachable.step by metis

lemmas reachable_invs = ict_reachable_inv nict_reachable_inv ist_reachable_inv nist_reachable_inv

section \<open>Sample runs\<close>

text \<open>
  An INVITE just sent, a REGISTER just sent, an INVITE answered 486 and an OPTIONS
  answered 200.
\<close>

definition sip_ict0 :: ict where
  "sip_ict0 = the (belle_sip_ict_new ''x'' None (sip_request ''INVITE''))"

definition sip_ict :: ict where
  "sip_ict = the (ict_handle (sip_env 0) (Ict (Send None ''hop'')) sip_ict0)"

definition sip_nict :: nict where
  "sip_nict = the (nict_handle (sip_env 0) (Nict (Send None ''hop''))
     (the (belle_sip_nict_new ''x'' None None (sip_request ''REGISTER''))))"

definition sip_ist :: ist where
  "sip_ist = the (ist_handle (sip_env 10) (Ist (Respond (sip_response 486)))
     (the (create_invite_server_transaction (sip_env 0) None ''t'' None (sip_request ''INVITE''))))"

definition sip_nist :: nist where
  "sip_nist = the (nist_handle (sip_env 10) (Nist (Respond (sip_response 200)))
     (the (create_server_transaction None ''t'' None (sip_request ''OPTIONS''))))"

lemmas init_defs = client_transaction_init_def server_transaction_branch_def get_header_def get_headers_def
  new_transaction_def transaction.extend_def Let_def

lemma sip_ict0_reachable: "ict_reachable sip_cfg sip_ict0"
proof -
  have "belle_sip_ict_new ''x'' None (sip_request ''INVITE'') = Some sip_ict0"
    by (simp add: sip_ict0_def belle_sip_ict_new_def init_defs sip_defs)
  moreover have "r_method (sip_request ''INVITE'') = ''INVITE''"
    "cseq_number (r_headers (sip_request ''INVITE'')) \<noteq> None"
    by (simp_all add: sip_defs cseq_number_def init_defs)
  ultimately show ?thesis unfolding ict_reachable_def using reachable.start by metis
qed

lemma sip_ict_reachable: "ict_reachable sip_cfg sip_ict"
proof -
  have "ict_ok sip_cfg (sip_env 0) (Ict (Send None ''hop'')) sip_ict0"
    by (simp add: sip_ict0_def belle_sip_ict_new_def init_defs sip_request_def)
  then show ?thesis using sip_ict0_reachable ict_machine.handled [OF ict_reachable_inv, of sip_cfg sip_ict0 sip_cfg]
      ict_reachable_step unfolding sip_ict_def by (metis option.sel)
qed

lemma sip_nict_reachable: "nict_reachable sip_cfg sip_nict"
proof -
  obtain t where t: "belle_sip_nict_new ''x'' None None (sip_request ''REGISTER'') = Some t"
    "sent_by_dialog_queue t = False"
    by (simp add: belle_sip_nict_new_def init_defs sip_defs)
  then have "nict_reachable sip_cfg t" unfolding nict_reachable_def using reachable.start by metis
  moreover have "nict_ok sip_cfg (sip_env 0) (Nict (Send None ''hop'')) t" by (simp add: t)
  ultimately show ?thesis using t nict_machine.handled [OF nict_reachable_inv, of sip_cfg t]
      nict_reachable_step unfolding sip_nict_def by (metis option.sel)
qed

lemma sip_response_to: "get_header (s_headers (sip_response code)) To \<noteq> None"
  by (simp add: sip_defs response_create_from_request_def add_some_def add_header_def get_header_def get_headers_def Let_def)

lemma sip_ist_reachable: "ist_reachable sip_cfg sip_ist"
proof -
  obtain t where t: "create_invite_server_transaction (sip_env 0) None ''t'' None (sip_request ''INVITE'') = Some t"
    by (simp add: create_invite_server_transaction_def belle_sip_ist_new_def init_defs sip_defs
        belle_sip_server_transaction_send_response_def check_channel_def emit_def complete_response_def
        response_create_from_request_def Let_def ist_send_new_response_def queue_response_some ist_after_response_def)
  moreover have "return_channel (sip_env 0) r \<noteq> None" for r by (simp add: sip_env_def)
  moreover have "get_header (r_headers (sip_request ''INVITE'')) To \<noteq> None" by (simp add: sip_defs init_defs)
  ultimately have "ist_reachable sip_cfg t" unfolding ist_reachable_def using reachable.start by metis
  moreover have "ist_ok sip_cfg (sip_env 10) (Ist (Respond (sip_response 486))) t"
    using sip_response_to by simp
  ultimately show ?thesis using t ist_machine.handled [OF ist_reachable_inv, of sip_cfg t]
      ist_reachable_step unfolding sip_ist_def by (metis option.sel)
qed

lemma sip_nist_reachable: "nist_reachable sip_cfg sip_nist"
proof -
  obtain t where t: "create_server_transaction None ''t'' None (sip_request ''OPTIONS'') = Some t"
    by (simp add: create_server_transaction_def belle_sip_nist_new_def init_defs sip_defs)
  then have "nist_reachable sip_cfg t" unfolding nist_reachable_def using reachable.start by metis
  moreover have "nist_ok sip_cfg (sip_env 10) (Nist (Respond (sip_response 200))) t"
    using sip_response_to by simp
  ultimately show ?thesis using t nist_machine.handled [OF nist_reachable_inv, of sip_cfg t sip_cfg]
      nist_reachable_step unfolding sip_nist_def by (metis option.sel)
qed

lemmas sip_reachable = sip_ict_reachable sip_nict_reachable sip_ist_reachable sip_nist_reachable

lemma ict_wf:
  "ict_inv t \<Longrightarrow> state t \<in> {INIT, CALLING, PROCEEDING, COMPLETED, ACCEPTED, TERMINATED} \<and>
    (state t = COMPLETED \<longrightarrow> ack t \<noteq> None) \<and>
    (state t = TERMINATED \<longrightarrow> timer_A t = None \<and> timer_B t = None \<and> timer_M t = None)"
  by (cases "state t") (simp_all add: ict_inv_def ict_inv0_def)

lemma nict_wf:
  "nict_inv c t \<Longrightarrow> state t \<in> {INIT, TRYING, PROCEEDING, COMPLETED, TERMINATED} \<and>
    (state t = TRYING \<or> state t = PROCEEDING \<longrightarrow> channel t \<noteq> None) \<and>
    (\<forall>s. timer_E t = Some s \<longrightarrow> timeout s \<le> max (T1 c) (T2 c)) \<and>
    (state t = TERMINATED \<longrightarrow> timer_E t = None \<and> timer_F t = None)"
  by (cases "state t") (auto simp: nict_inv_def nict_inv0_def)

lemma ist_wf:
  "ist_inv c t \<Longrightarrow> state t \<in> {PROCEEDING, ACCEPTED, COMPLETED, CONFIRMED, TERMINATED} \<and>
    last_response t \<noteq> None \<and> (state t = COMPLETED \<longrightarrow> channel t \<noteq> None) \<and>
    (\<forall>s. timer_G t = Some s \<longrightarrow> timeout s \<le> max (T1 c) (T2 c)) \<and>
    (state t = TERMINATED \<longrightarrow> timer_G t = None \<and> timer_H t = None \<and> timer_I t = None \<and> timer_L t = None)"
  by (cases "state t") (auto simp: ist_inv_def)

lemma nist_wf:
  "nist_inv t \<Longrightarrow> state t \<in> {TRYING, PROCEEDING, COMPLETED, TERMINATED} \<and>
    (state t = PROCEEDING \<or> state t = COMPLETED \<longrightarrow> last_response t \<noteq> None) \<and>
    (state t = TERMINATED \<longrightarrow> timer_J t = None)"
  by (cases "state t") (auto simp: nist_inv_def)

section \<open>No undefined behaviour\<close>

text \<open>C1: Whatever sequence of calls, messages, channel changes and timers a transaction
  sees after its creation, the next admissible event is handled without dereferencing
  a null channel, response, timer or header and without reaching a fatal error, for
  each of the four classes.
\<close>

theorem transactions_never_stuck:
  assumes "ict_reachable c t" "nict_reachable c u" "ist_reachable c v" "nist_reachable c w"
  shows "(\<forall>e ev. ict_ok c e ev t \<longrightarrow> ict_handle e ev t \<noteq> None) \<and>
    (\<forall>e ev. nict_ok c e ev u \<longrightarrow> nict_handle e ev u \<noteq> None) \<and>
    (\<forall>e ev. ist_ok c e ev v \<longrightarrow> ist_handle e ev v \<noteq> None) \<and>
    (\<forall>e ev. nist_ok c e ev w \<longrightarrow> nist_handle e ev w \<noteq> None)"
  using assms reachable_invs ict_machine.handled nict_machine.handled ist_machine.handled nist_machine.handled
  by (metis option.distinct(1))

theorem transactions_never_stuck_witness:
  "ict_handle (sip_env 500) Timer_A sip_ict \<noteq> None \<and>
   nict_handle (sip_env 500) Timer_E sip_nict \<noteq> None \<and>
   ist_handle (sip_env 510) Timer_G sip_ist \<noteq> None \<and>
   nist_handle (sip_env 32010) Timer_J sip_nist \<noteq> None"
proof -
  have "ict_ok sip_cfg (sip_env 500) Timer_A sip_ict"
    "nict_ok sip_cfg (sip_env 500) Timer_E sip_nict"
    "ist_ok sip_cfg (sip_env 510) Timer_G sip_ist"
    "nist_ok sip_cfg (sip_env 32010) Timer_J sip_nist" by simp_all
  then show ?thesis using transactions_never_stuck [OF sip_reachable] by blast
qed

text \<open>C31: The states of a transaction are those of its state diagram and carry what the
  state needs.  A completed INVITE client has the ACK it answers with; a request that
  waits for a response has its channel; a server that answered has the response it
  repeats, and a completed INVITE server the channel to repeat it on.  The intervals of
  timers E and G never exceed the larger of T1 and T2, and a terminated transaction
  retransmits nothing.
\<close>

theorem transactions_well_formed:
  assumes "ict_reachable c t" "nict_reachable c u" "ist_reachable c v" "nist_reachable c w"
  shows "state t \<in> {INIT, CALLING, PROCEEDING, COMPLETED, ACCEPTED, TERMINATED} \<and>
    (state t = COMPLETED \<longrightarrow> ack t \<noteq> None) \<and>
    (state t = TERMINATED \<longrightarrow> timer_A t = None \<and> timer_B t = None \<and> timer_M t = None) \<and>
    state u \<in> {INIT, TRYING, PROCEEDING, COMPLETED, TERMINATED} \<and>
    (state u = TRYING \<or> state u = PROCEEDING \<longrightarrow> channel u \<noteq> None) \<and>
    (\<forall>s. timer_E u = Some s \<longrightarrow> timeout s \<le> max (T1 c) (T2 c)) \<and>
    (state u = TERMINATED \<longrightarrow> timer_E u = None \<and> timer_F u = None) \<and>
    state v \<in> {PROCEEDING, ACCEPTED, COMPLETED, CONFIRMED, TERMINATED} \<and>
    last_response v \<noteq> None \<and> (state v = COMPLETED \<longrightarrow> channel v \<noteq> None) \<and>
    (\<forall>s. timer_G v = Some s \<longrightarrow> timeout s \<le> max (T1 c) (T2 c)) \<and>
    (state v = TERMINATED \<longrightarrow> timer_G v = None \<and> timer_H v = None \<and> timer_I v = None \<and> timer_L v = None) \<and>
    state w \<in> {TRYING, PROCEEDING, COMPLETED, TERMINATED} \<and>
    (state w = PROCEEDING \<or> state w = COMPLETED \<longrightarrow> last_response w \<noteq> None) \<and>
    (state w = TERMINATED \<longrightarrow> timer_J w = None)"
  using ict_wf [OF ict_reachable_inv [OF assms(1)]] nict_wf [OF nict_reachable_inv [OF assms(2)]]
    ist_wf [OF ist_reachable_inv [OF assms(3)]] nist_wf [OF nist_reachable_inv [OF assms(4)]]
  by (elim conjE) (intro conjI; assumption)

theorem transactions_well_formed_witness:
  "last_response sip_ist \<noteq> None \<and> state sip_ist \<in> {PROCEEDING, ACCEPTED, COMPLETED, CONFIRMED, TERMINATED} \<and>
   state sip_nist \<in> {TRYING, PROCEEDING, COMPLETED, TERMINATED}"
  using transactions_well_formed [OF sip_reachable] by blast

end
