(* ===== verification/Bellesip_Rfc.thy ===== *)
theory Bellesip_Rfc
  imports Bellesip_Spec
begin

text \<open>
  The state diagrams of RFC 3261 (section 17) with the Accepted state of RFC 6026, as
  the abstract specification of the four machines, and the proof that every event
  moves a transaction along a path of its diagram.  A transport error or the
  transaction user may terminate a transaction in any state.
\<close>

section \<open>The diagrams\<close>

fun rfc_edges :: "tclass \<Rightarrow> (tstate \<times> tstate) list" where
  "rfc_edges ICT = [(INIT, CALLING), (CALLING, PROCEEDING), (CALLING, COMPLETED), (CALLING, ACCEPTED),
     (PROCEEDING, COMPLETED), (PROCEEDING, ACCEPTED)]"
| "rfc_edges NICT = [(INIT, TRYING), (TRYING, PROCEEDING), (TRYING, COMPLETED), (PROCEEDING, COMPLETED)]"
| "rfc_edges IST = [(PROCEEDING, ACCEPTED), (PROCEEDING, COMPLETED), (COMPLETED, CONFIRMED)]"
| "rfc_edges NIST = [(TRYING, PROCEEDING), (TRYING, COMPLETED), (PROCEEDING, COMPLETED)]"

definition rfc_next :: "tclass \<Rightarrow> tstate \<Rightarrow> tstate \<Rightarrow> bool" where
  "rfc_next k s s' = ((s, s') \<in> set (rfc_edges k) \<or> s' = TERMINATED)"

abbreviation rfc_path :: "tclass \<Rightarrow> tstate \<Rightarrow> tstate \<Rightarrow> bool" where
  "rfc_path k \<equiv> (rfc_next k)\<^sup>*\<^sup>*"

lemma rfc_terminated: "rfc_next k s TERMINATED"
  by (simp add: rfc_next_def)

lemma rfc_path_terminated: "rfc_path k s s' \<Longrightarrow> rfc_path k s TERMINATED"
  by (meson rfc_terminated rtranclp.rtrancl_into_rtrancl)

lemma rfc_path_stay: "s' = s \<or> s' = TERMINATED \<Longrightarrow> rfc_path k s s'"
  using rfc_path_terminated by blast

lemma rfc_path_step: "rfc_path k s s' \<Longrightarrow> (s', s'') \<in> set (rfc_edges k) \<Longrightarrow> rfc_path k s s''"
  by (meson rfc_next_def rtranclp.rtrancl_into_rtrancl)

lemma rfc_terminated_last: "rfc_path k TERMINATED s \<Longrightarrow> s = TERMINATED"
proof (induction rule: rtranclp_induct)
  case (step y z)
  then show ?case by (cases k) (auto simp: rfc_next_def)
qed simp

text \<open>
  A predicate of the form "the transaction is on a path from \<open>s\<close>" is kept by the base
  class, whatever the class of the transaction.
\<close>

locale on_path = stable vt P for vt :: "('a transaction_scheme) vptr" and P
begin

lemma path_stable: "stable vt (\<lambda>t. P t \<and> rfc_path (cls vt) s (state t))"
  by unfold_locales
    (auto simp: frame timed_out_kept response_kept channel_some channel_lost terminated stopped
      rfc_path_terminated)

end

interpretation ict_on_path: on_path ict_vptr ict_inv
  by unfold_locales

interpretation nict_on_path: on_path nict_vptr "nict_inv c" for c
  by unfold_locales

interpretation ist_on_path: on_path ist_vptr "ist_inv c" for c
  by unfold_locales

interpretation nist_on_path: on_path nist_vptr nist_inv
  by unfold_locales

section \<open>INVITE client transactions\<close>

lemma ict_notify_states:
  "belle_sip_client_transaction_notify_response ict_vptr e r t = Some t'
   \<Longrightarrow> state t' = state t \<or> state t' = TERMINATED"
  using ict.st.P_notify_response [of t "state t"] by metis

lemma ict_proceeding_path:
  assumes "ict_on_response_proceeding e r t = Some t'" "state t = PROCEEDING"
  shows "rfc_path ICT PROCEEDING (state t')"
proof -
  have "state t' \<in> {PROCEEDING, COMPLETED, ACCEPTED, TERMINATED}"
    using assms by (auto simp: ict_on_response_proceeding_def ict_on_final_failure_def ict_on_success_def
        ict_make_ack_def base_defs Let_def split: if_splits option.splits bind_splits
        dest!: ict_notify_states)
  then show ?thesis
    by (auto intro: rfc_path_step rfc_path_terminated)
qed

lemma ict_response_path:
  assumes "ict_on_response e r t = Some t'"
  shows "rfc_path ICT (state t) (state t')"
proof (cases "state t")
  case CALLING
  then have "rfc_path ICT PROCEEDING (state t')"
    using assms ict_proceeding_path [of e r "t\<lparr>state := PROCEEDING\<rparr>" t']
    by (simp add: ict_on_response_def base_defs)
  moreover have "rfc_next ICT CALLING PROCEEDING" by (simp add: rfc_next_def)
  ultimately show ?thesis using CALLING by (simp add: converse_rtranclp_into_rtranclp)
next
  case PROCEEDING
  then show ?thesis using assms ict_proceeding_path [of e r t t'] by (simp add: ict_on_response_def)
qed (use assms in \<open>auto simp: ict_on_response_def Let_def queue_message_def emit_def
    split: if_splits option.splits dest!: ict_notify_states intro: rfc_path_terminated\<close>)

lemma ict_send_state: "ict_send_request e t = Some t' \<Longrightarrow> state t' = CALLING"
  by (auto simp: ict_send_request_def base_defs Let_def split: option.splits bind_splits)

interpretation ict_path: stable ict_vptr "\<lambda>t. ict_inv t \<and> rfc_path ICT s (state t)" for s
  using ict_on_path.path_stable by simp

interpretation ict_path_client:
  client_class ict_vptr "\<lambda>t. ict_inv t \<and> rfc_path ICT s (state t)" ict_send_request ict_on_response c for s c
proof (unfold_locales, goal_cases)
  case (6 e t)
  then show ?case using ict_client.sends [of c e t] ict_send_state [of e t] rfc_path_step [of ICT s INIT CALLING]
    by auto
next
  case (7 e r t)
  then show ?case using ict_client.responds [of c e r t] ict_response_path [of e r t]
    by (metis rtranclp_trans)
qed (auto simp: is_client_def ict_client.client_frame ict_client.request_kept)

lemma ict_timer_states:
  assumes "ict_handle e ev t = Some t'" "ev \<in> {Timer_A, Timer_B, Timer_D, Timer_M}" "ict_inv t"
  shows "state t' = state t \<or> state t' = TERMINATED"
proof -
  have "r_method (request t) \<noteq> ''REGISTER''" using assms(3) by (simp add: ict_inv_def ict_inv0_def)
  then show ?thesis using assms(1,2)
    by (auto simp: notify_source_def ict_on_timer_A_def ict_on_timer_B_def ict_on_timer_D_def ict_on_timer_M_def
        belle_sip_transaction_notify_timeout_def queue_message_def emit_def
        split: if_splits option.splits timer_ret.splits)
qed

lemma ict_step_path:
  assumes "ict_inv t" "ict_ok c e ev t" "ict_handle e ev t = Some t'"
  shows "rfc_path ICT (state t) (state t')"
proof (cases ev)
  case (Ict x)
  then show ?thesis using ict_path_client.P_client_handle [of c e x t "state t"] assms by auto
qed (use assms ict_timer_states [OF assms(3) _ assms(1)] in \<open>auto intro!: rfc_path_stay\<close>)

section \<open>Non-INVITE client transactions\<close>

lemma nict_notify_states:
  "belle_sip_client_transaction_notify_response nict_vptr e r t = Some t'
   \<Longrightarrow> state t' = state t \<or> state t' = TERMINATED"
  using nict.st.P_notify_response [of t "state t"] by metis

lemma nict_response_path:
  assumes "nict_on_response e r t = Some t'"
  shows "rfc_path NICT (state t) (state t')"
proof -
  have "state t' = state t \<or> state t' = TERMINATED \<or> (state t, state t') \<in> set (rfc_edges NICT)"
    using assms
    by (auto simp: nict_on_response_def nict_set_completed_def base_defs Let_def
        split: tstate.splits if_splits option.splits bind_splits dest!: nict_notify_states)
  then show ?thesis by (auto intro: rfc_path_step rfc_path_terminated)
qed

lemma nict_send_state: "nict_send_request e t = Some t' \<Longrightarrow> state t' = TRYING"
  by (auto simp: nict_send_request_def base_defs Let_def split: option.splits bind_splits)

interpretation nict_path: stable nict_vptr "\<lambda>t. nict_inv c t \<and> rfc_path NICT s (state t)" for c s
  using nict_on_path.path_stable by simp

interpretation nict_path_client:
  client_class nict_vptr "\<lambda>t. nict_inv c t \<and> rfc_path NICT s (state t)" nict_send_request nict_on_response c for c s
proof (unfold_locales, goal_cases)
  case (6 e t)
  then show ?case using nict_client.sends [of c e t] nict_send_state [of e t] rfc_path_step [of NICT s INIT TRYING]
    by auto
next
  case (7 e r t)
  then show ?case using nict_client.responds [of c e r t] nict_response_path [of e r t]
    by (metis rtranclp_trans)
qed (auto simp: is_client_def nict_client.client_frame nict_client.request_kept)

lemma nict_timer_states:
  assumes "nict_handle e ev t = Some t'" "ev \<in> {Timer_E, Timer_F, Timer_K}"
  shows "state t' = state t \<or> state t' = TERMINATED"
proof -
  have "state u = state t \<or> state u = TERMINATED"
    if "belle_sip_transaction_notify_timeout nict_vptr e t = Some u" for u
    using nict.st.P_transaction_notify_timeout [OF _ that, of "state t"] by simp
  then show ?thesis using assms
    by (auto simp: notify_source_def nict_on_timer_E_def nict_on_timer_F_def nict_on_timer_K_def
        queue_message_def emit_def split: if_splits option.splits timer_ret.splits)
qed

lemma nict_step_path:
  assumes "nict_inv c t" "nict_ok c e ev t" "nict_handle e ev t = Some t'"
  shows "rfc_path NICT (state t) (state t')"
proof (cases ev)
  case (Nict x)
  then show ?thesis using nict_path_client.P_client_handle [of c e x t "state t"] assms by auto
qed (use assms nict_timer_states [OF assms(3)] in \<open>auto intro!: rfc_path_stay\<close>)

section \<open>Server transactions\<close>

interpretation ist_path: stable ist_vptr "\<lambda>t. ist_inv c t \<and> rfc_path IST s (state t)" for c s
  using ist_on_path.path_stable by simp

lemma queue_response_state:
  "server_transaction_queue_response e r t = Some t' \<Longrightarrow> state t' = state t"
  by (auto simp: server_transaction_queue_response_def check_channel_def queue_message_def emit_def
      split: option.splits bind_splits)

lemma ist_new_states:
  "ist_send_new_response e r t = Some (ret, t') \<Longrightarrow>
     state t' = state t \<or> (state t, state t') \<in> set (rfc_edges IST)"
  by (auto simp: ist_send_new_response_def ist_after_response_def base_defs Let_def
      split: tstate.splits if_splits option.splits bind_splits dest!: queue_response_state)

lemma ist_ack_states:
  "belle_sip_ist_process_ack e t = Some (ret, t') \<Longrightarrow>
     state t' = state t \<or> state t' = TERMINATED \<or> (state t, state t') \<in> set (rfc_edges IST)"
  by (auto simp: belle_sip_ist_process_ack_def base_defs Let_def
      split: tstate.splits if_splits option.splits bind_splits)

interpretation ist_path_server: server_class ist_vptr "\<lambda>t. ist_inv c t \<and> rfc_path IST s (state t)"
    ist_send_new_response belle_sip_ist_process_ack ist_on_request_retransmission c for c s
proof (unfold_locales, goal_cases)
  case (2 e t r)
  then obtain ret t' where t': "ist_send_new_response e r t = Some (ret, t')"
    "ist_inv c (if ret = 0 then t'\<lparr>last_response := Some r\<rparr> else t')"
    using ist_sends_new [of c e t r] by blast
  have "rfc_path IST s (state t')"
    using ist_new_states [OF t'(1)] 2 rfc_path_step by metis
  then show ?case using t' by auto
next
  case (3 e t)
  then obtain ret t' where t': "belle_sip_ist_process_ack e t = Some (ret, t')" "ist_inv c t'"
    using ist_acks [of c e t] by blast
  have "rfc_path IST s (state t')"
    using ist_ack_states [OF t'(1)] 3 rfc_path_step rfc_path_terminated by metis
  then show ?case using t' by auto
next
  case (4 t e)
  then show ?case using ist_last_response_sent [of c t e] by (auto simp: ist_on_request_retransmission_def)
qed (simp add: is_client_def)

lemma ist_timer_states:
  assumes "ist_handle e ev t = Some t'" "ev \<in> {Timer_G, Timer_H, Timer_I, Timer_L}"
  shows "state t' = state t \<or> state t' = TERMINATED"
  using assms
  by (auto simp: notify_source_def ist_on_timer_G_def ist_on_timer_H_def ist_on_timer_I_def ist_on_timer_L_def
      split: if_splits option.splits timer_ret.splits bind_splits dest!: queue_response_state)

lemma ist_repair_path:
  assumes "ist_inv c t" "env_ok c e" "ist_handle e (Ist Repair_server) t = Some t'"
  shows "rfc_path IST (state t) (state t')"
proof (cases "expired e (call_repair_timer t)")
  case True
  have "get_header (s_headers (response_create_from_request (request t) 503)) To \<noteq> None"
    using assms(1) by (intro response_503_has_to) (simp add: ist_inv_def)
  then obtain u where "belle_sip_server_transaction_send_response ist_send_new_response e
      (response_create_from_request (request t) 503) t = Some u" "rfc_path IST (state t) (state u)"
    using ist_path_server.P_send_response [of c e t "state t" "response_create_from_request (request t) 503"] assms
    by blast
  then show ?thesis using assms(3) True
    by (auto simp: notify_source_def server_transaction_on_call_repair_timer_def)
qed (use assms in \<open>simp add: notify_source_def\<close>)

lemma ist_step_path:
  assumes "ist_inv c t" "ist_ok c e ev t" "ist_handle e ev t = Some t'"
  shows "rfc_path IST (state t) (state t')"
proof (cases ev)
  case (Ist x)
  show ?thesis
  proof (cases x)
    case (Respond r)
    then show ?thesis using Ist assms ist_path_server.P_send_response [of c e t "state t" r] by auto
  next
    case (Request rq)
    then show ?thesis using Ist assms ist_path_server.P_on_request [of c e t "state t" rq] by auto
  next
    case (Channel_server s)
    then show ?thesis
      using Ist assms ist_path_server.P_channel_event [of c t "state t" "\<lambda>_ _. None" e s] by auto
  next
    case Repair_server
    then show ?thesis using Ist assms ist_repair_path [of c t e t'] by simp
  qed (use Ist assms in \<open>auto simp: channel_received_def belle_sip_transaction_reset_dialog_def
        belle_sip_transaction_set_dialog_def intro!: rfc_path_stay\<close>)
qed (use assms ist_timer_states [OF assms(3)] in \<open>auto intro!: rfc_path_stay\<close>)

interpretation nist_path: stable nist_vptr "\<lambda>t. nist_inv t \<and> rfc_path NIST s (state t)" for s
  using nist_on_path.path_stable by simp

lemma nist_new_states:
  "nist_send_new_response e r t = Some (ret, t') \<Longrightarrow>
     state t' = state t \<or> (state t, state t') \<in> set (rfc_edges NIST)"
  by (auto simp: nist_send_new_response_def nist_set_completed_def base_defs Let_def
      split: tstate.splits if_splits option.splits bind_splits dest!: queue_response_state)

interpretation nist_path_server: server_class nist_vptr "\<lambda>t. nist_inv t \<and> rfc_path NIST s (state t)"
    nist_send_new_response "\<lambda>_ t. Some (-1, t)" nist_on_request_retransmission c for c s
proof (unfold_locales, goal_cases)
  case (2 e t r)
  then obtain ret t' where t': "nist_send_new_response e r t = Some (ret, t')"
    "nist_inv (if ret = 0 then t'\<lparr>last_response := Some r\<rparr> else t')"
    using nist_sends_new [of c e t r] by blast
  have "rfc_path NIST s (state t')"
    using nist_new_states [OF t'(1)] 2 rfc_path_step by metis
  then show ?case using t' by auto
next
  case (4 t e)
  then show ?case using nist_server.retransmits [of t e]
    by (auto simp: nist_on_request_retransmission_def queue_message_def emit_def split: option.splits if_splits bind_splits)
qed (simp_all add: is_client_def)

lemma nist_step_path:
  assumes "nist_inv t" "nist_ok c e ev t" "nist_handle e ev t = Some t'"
  shows "rfc_path NIST (state t) (state t')"
proof (cases ev)
  case (Nist x)
  show ?thesis
  proof (cases x)
    case (Respond r)
    then show ?thesis using Nist assms nist_path_server.P_send_response [of c e t "state t" r] by auto
  next
    case (Request rq)
    then show ?thesis using Nist assms nist_path_server.P_on_request [of c e t "state t" rq] by auto
  next
    case (Channel_server s)
    then show ?thesis
      using Nist assms nist_path_server.P_channel_event [of t "state t" "\<lambda>_ _. None" e s] by auto
  qed (use Nist assms in \<open>auto simp: channel_received_def belle_sip_transaction_reset_dialog_def
        belle_sip_transaction_set_dialog_def intro!: rfc_path_stay\<close>)
next
  case Timer_J
  then show ?thesis using assms(3)
    by (auto simp: notify_source_def nist_on_timer_J_def intro: rfc_path_terminated split: if_splits)
qed

section \<open>Refinement\<close>




end
