(* ===== verification/Bellesip_Timing.thy ===== *)
theory Bellesip_Timing
  imports Bellesip_Rfc
begin

text \<open>
  The timers of the transactions: every state that waits for a timer leaves it, the
  retransmission schedule of an unanswered INVITE, the acknowledgement of failures,
  and two ways in which the code dereferences a null pointer.
\<close>

section \<open>Waiting states are left\<close>

definition left_by_timer ::
  "(env \<Rightarrow> 'ev \<Rightarrow> 'a transaction_scheme \<Rightarrow> 'a transaction_scheme option) \<Rightarrow> 'ev \<Rightarrow>
   ('a transaction_scheme \<Rightarrow> source option) \<Rightarrow> 'a transaction_scheme \<Rightarrow> bool" where
  "left_by_timer handle ev timer t = (\<exists>s. timer t = Some s \<and> linked s \<and>
     (\<forall>e. expire_ms s \<le> now e \<longrightarrow> (\<exists>t'. handle e ev t = Some t' \<and> state t' = TERMINATED)))"

lemma left_by_timerI:
  assumes "armed (timer t)"
    and "\<And>e. expired e (timer t) \<Longrightarrow> \<exists>t'. handle e ev t = Some t' \<and> state t' = TERMINATED"
  shows "left_by_timer handle ev timer t"
  using assms by (auto simp: left_by_timer_def armed_def expired_def split: option.splits)

lemma ict_left:
  assumes "ict_inv t"
  shows "state t = CALLING \<longrightarrow> left_by_timer ict_handle Timer_B timer_B t"
    and "state t = COMPLETED \<longrightarrow> left_by_timer ict_handle Timer_D timer_D t"
    and "state t = ACCEPTED \<longrightarrow> left_by_timer ict_handle Timer_M timer_M t"
proof -
  have m: "r_method (request t) \<noteq> ''REGISTER''" using assms by (simp add: ict_inv_def ict_inv0_def)
  show "state t = CALLING \<longrightarrow> left_by_timer ict_handle Timer_B timer_B t"
    using assms m by (auto intro!: left_by_timerI simp: ict_inv_def ict_inv0_def notify_source_def
        ict_on_timer_B_def belle_sip_transaction_notify_timeout_def)
  show "state t = COMPLETED \<longrightarrow> left_by_timer ict_handle Timer_D timer_D t"
    using assms by (auto intro!: left_by_timerI simp: ict_inv_def notify_source_def ict_on_timer_D_def)
  show "state t = ACCEPTED \<longrightarrow> left_by_timer ict_handle Timer_M timer_M t"
    using assms by (auto intro!: left_by_timerI simp: ict_inv_def ict_inv0_def notify_source_def ict_on_timer_M_def)
qed

lemma ist_left:
  assumes "ist_inv c t"
  shows "state t = COMPLETED \<longrightarrow> left_by_timer ist_handle Timer_H timer_H t"
    and "state t = CONFIRMED \<longrightarrow> left_by_timer ist_handle Timer_I timer_I t"
    and "state t = ACCEPTED \<longrightarrow> left_by_timer ist_handle Timer_L timer_L t"
  using assms by (auto intro!: left_by_timerI simp: ist_inv_def notify_source_def
      ist_on_timer_H_def ist_on_timer_I_def ist_on_timer_L_def)

lemma nist_left: "nist_inv t \<Longrightarrow> state t = COMPLETED \<longrightarrow> left_by_timer nist_handle Timer_J timer_J t"
  by (auto intro!: left_by_timerI simp: nist_inv_def notify_source_def nist_on_timer_J_def)

lemma nict_error_terminates: "state (transaction_handle_channel_error nict_vptr e t) = TERMINATED"
  by (simp add: transaction_handle_channel_error_def Let_def)

lemma nict_left:
  assumes "nict_inv c t"
  shows "state t = COMPLETED \<longrightarrow> left_by_timer nict_handle Timer_K timer_K t"
    and "state t = TRYING \<or> state t = PROCEEDING \<longrightarrow> timed_out t \<or> armed (timer_F t)"
    and "\<lbrakk>state t = TRYING \<or> state t = PROCEEDING; expired e (timer_F t)\<rbrakk>
      \<Longrightarrow> \<exists>t'. nict_handle e Timer_F t = Some t' \<and> (state t' = TERMINATED \<or> timed_out t')"
    and "channel t \<noteq> None \<Longrightarrow> \<exists>t'. nict_handle e (Nict (Channel CH_ERROR)) t = Some t' \<and> state t' = TERMINATED"
proof -
  show "state t = COMPLETED \<longrightarrow> left_by_timer nict_handle Timer_K timer_K t"
    using assms by (auto intro!: left_by_timerI simp: nict_inv_def notify_source_def nict_on_timer_K_def)
  show "state t = TRYING \<or> state t = PROCEEDING \<longrightarrow> timed_out t \<or> armed (timer_F t)"
    using assms by (auto simp: nict_inv_def nict_inv0_def)
  show "channel t \<noteq> None \<Longrightarrow> \<exists>t'. nict_handle e (Nict (Channel CH_ERROR)) t = Some t' \<and> state t' = TERMINATED"
    by (auto simp: channel_event_def on_channel_state_changed_def nict_error_terminates)
  assume st: "state t = TRYING \<or> state t = PROCEEDING" and ex: "expired e (timer_F t)"
  then have "channel t \<noteq> None" using assms by (auto simp: nict_inv_def nict_inv0_def)
  then obtain u where u: "belle_sip_transaction_notify_timeout nict_vptr e t = Some u"
    using notify_timeout_defined by blast
  then have "state u = TERMINATED \<or> timed_out u"
    by (auto simp: belle_sip_transaction_notify_timeout_def split: if_splits option.splits prod.splits bool.splits)
  then show "\<exists>t'. nict_handle e Timer_F t = Some t' \<and> (state t' = TERMINATED \<or> timed_out t')"
    using st ex u by (auto simp: notify_source_def nict_on_timer_F_def)
qed

text \<open>C18: A transaction never hangs in a state that waits for a timer.  An unanswered
  INVITE, a client that got its final response, and a server that sent its final
  response always have the timer of that state in the main loop, and when it expires
  the transaction terminates.  An unanswered non-INVITE request has timer F, which
  terminates it or reports the channel as dead; the error of the channel then
  terminates it.
\<close>

theorem waiting_states_left:
  assumes "ict_reachable c t" "nict_reachable c u" "ist_reachable c v" "nist_reachable c w"
  shows "(state t = CALLING \<longrightarrow> left_by_timer ict_handle Timer_B timer_B t) \<and>
    (state t = COMPLETED \<longrightarrow> left_by_timer ict_handle Timer_D timer_D t) \<and>
    (state t = ACCEPTED \<longrightarrow> left_by_timer ict_handle Timer_M timer_M t) \<and>
    (state u = COMPLETED \<longrightarrow> left_by_timer nict_handle Timer_K timer_K u) \<and>
    (state u = TRYING \<or> state u = PROCEEDING \<longrightarrow> (timed_out u \<or> armed (timer_F u)) \<and>
       (\<forall>e. expired e (timer_F u) \<longrightarrow>
          (\<exists>u'. nict_handle e Timer_F u = Some u' \<and> (state u' = TERMINATED \<or> timed_out u'))) \<and>
       (\<forall>e. \<exists>u'. nict_handle e (Nict (Channel CH_ERROR)) u = Some u' \<and> state u' = TERMINATED)) \<and>
    (state v = COMPLETED \<longrightarrow> left_by_timer ist_handle Timer_H timer_H v) \<and>
    (state v = CONFIRMED \<longrightarrow> left_by_timer ist_handle Timer_I timer_I v) \<and>
    (state v = ACCEPTED \<longrightarrow> left_by_timer ist_handle Timer_L timer_L v) \<and>
    (state w = COMPLETED \<longrightarrow> left_by_timer nist_handle Timer_J timer_J w)"
proof -
  have inv: "ict_inv t" "nict_inv c u" "ist_inv c v" "nist_inv w" using assms reachable_invs by blast+
  have "state u = TRYING \<or> state u = PROCEEDING \<longrightarrow> channel u \<noteq> None" using nict_wf [OF inv(2)] by blast
  with ict_left [OF inv(1)] nict_left [OF inv(2)] ist_left [OF inv(3)] nist_left [OF inv(4)]
  show ?thesis by blast
qed

lemma sip_states:
  "state sip_ict = CALLING" "state sip_nict = TRYING" "state sip_ist = COMPLETED"
  "state sip_nist = COMPLETED"
  by (simp_all add: sip_ict_def sip_ict0_def sip_nict_def sip_ist_def sip_nist_def sip_defs
      belle_sip_ict_new_def belle_sip_nict_new_def create_invite_server_transaction_def belle_sip_ist_new_def
      create_server_transaction_def belle_sip_nist_new_def init_defs
      belle_sip_client_transaction_send_request_to_def send_through_dialog_def update_dialog_def
      send_through_channel_def ict_send_request_def nict_send_request_def base_defs
      belle_sip_server_transaction_send_response_def check_channel_def complete_response_def
      response_create_from_request_def add_some_def add_header_def set_header_def ist_send_new_response_def
      nist_send_new_response_def nist_set_completed_def server_transaction_queue_response_def
      ist_after_response_def)

theorem waiting_states_left_witness:
  "left_by_timer ict_handle Timer_B timer_B sip_ict \<and> left_by_timer ist_handle Timer_H timer_H sip_ist \<and>
   left_by_timer nist_handle Timer_J timer_J sip_nist \<and>
   (\<exists>u. nict_handle (sip_env 1) (Nict (Channel CH_ERROR)) sip_nict = Some u \<and> state u = TERMINATED)"
  using waiting_states_left [OF sip_reachable] sip_states by blast

section \<open>The schedule of an unanswered INVITE\<close>

text \<open>
  The main loop keeps its timers ordered by the time they expire and sleeps until the
  first one.  \<open>ict_idle n\<close> lets it run \<open>n\<close> timers of a transaction to which nothing else
  happens, and collects the times.
\<close>

definition due :: "source option \<Rightarrow> 'ev \<Rightarrow> (int \<times> 'ev) list" where
  "due s ev = (case s of None \<Rightarrow> [] | Some s \<Rightarrow> if linked s then [(expire_ms s, ev)] else [])"

definition ict_due :: "ict \<Rightarrow> (int \<times> ict_event) list" where
  "ict_due t = due (timer_A t) Timer_A @ due (timer_B t) Timer_B @ due (timer_D t) Timer_D @
     due (timer_M t) Timer_M @ due (call_repair_timer t) (Ict Repair)"

fun earliest :: "(int \<times> 'ev) list \<Rightarrow> (int \<times> 'ev) option" where
  "earliest [] = None"
| "earliest (x # xs) = (case earliest xs of None \<Rightarrow> Some x | Some y \<Rightarrow> if fst y < fst x then Some y else Some x)"

fun ict_idle :: "nat \<Rightarrow> env \<Rightarrow> ict \<Rightarrow> (int list \<times> ict) option" where
  "ict_idle 0 e t = Some ([], t)"
| "ict_idle (Suc n) e t = (case earliest (ict_due t) of
     None \<Rightarrow> Some ([], t)
   | Some (x, ev) \<Rightarrow> (case ict_handle (e\<lparr>now := x\<rparr>) ev t of
       None \<Rightarrow> None
     | Some t' \<Rightarrow> map_option (apfst ((#) x)) (ict_idle n e t')))"

text \<open>
  The transaction after \<open>k\<close> retransmissions of a request sent at time \<open>t0\<close>.
\<close>

definition calling_after :: "nat \<Rightarrow> int \<Rightarrow> int \<Rightarrow> request \<Rightarrow> action list \<Rightarrow> ict \<Rightarrow> bool" where
  "calling_after k t0 v rq pre t = (state t = CALLING \<and> channel t \<noteq> None \<and> request t = rq \<and> dialog t = None \<and>
     timer_A t = Some \<lparr>timeout = v * 2 ^ k, expire_ms = t0 + v * (2 ^ (k + 1) - 1), linked = True\<rparr> \<and>
     timer_B t = Some \<lparr>timeout = v * 64, expire_ms = t0 + v * 64, linked = True\<rparr> \<and>
     timer_D t = None \<and> timer_M t = None \<and> call_repair_timer t = None \<and>
     out t = pre @ replicate (k + 1) (Send_request rq))"

lemma calling_retransmits:
  assumes "calling_after k t0 v rq pre t" "k \<le> 5" "0 < v"
  shows "\<exists>t'. (\<forall>n. ict_idle (Suc n) e t =
      map_option (apfst ((#) (t0 + v * (2 ^ (k + 1) - 1)))) (ict_idle n e t')) \<and>
    calling_after (k + 1) t0 v rq pre t'"
proof -
  let ?x = "t0 + v * (2 ^ (k + 1) - 1)"
  let ?t = "emit (Send_request rq)
    (t\<lparr>timer_A := Some \<lparr>timeout = v * 2 ^ (k + 1), expire_ms = ?x + v * 2 ^ (k + 1), linked = True\<rparr>\<rparr>)"
  have "(2::int) ^ (k + 1) \<le> 2 ^ 6" using assms(2) by (intro power_increasing) auto
  then have le: "v * (2 ^ (k + 1) - 1) < v * 64" using assms(3) by simp
  then have "earliest (ict_due t) = Some (?x, Timer_A)"
    using assms(1) by (simp add: calling_after_def ict_due_def due_def)
  moreover have "ict_handle (e\<lparr>now := ?x\<rparr>) Timer_A t = Some ?t"
    using assms(1,3) by (auto simp: calling_after_def notify_source_def expired_def ict_on_timer_A_def
        queue_message_def set_timeout_def rearm_def emit_def)
  ultimately have "ict_idle (Suc n) e t = map_option (apfst ((#) ?x)) (ict_idle n e ?t)" for n
    by (simp del: ict_handle.simps)
  moreover have "calling_after (k + 1) t0 v rq pre ?t"
    using assms(1) by (simp add: calling_after_def emit_def algebra_simps flip: replicate_append_same)
  ultimately show ?thesis by blast
qed

lemma calling_times_out:
  assumes "calling_after 6 t0 v rq pre t" "0 < v" "tu e Timeout = []" "r_method rq \<noteq> ''REGISTER''"
  shows "\<exists>t'. ict_idle (Suc n) e t = Some ([t0 + v * 64], t') \<and> state t' = TERMINATED \<and>
    out t' = pre @ replicate 7 (Send_request rq) @ [Notify Timeout, Notify Terminated_event, Provider_remove]"
proof -
  let ?t = "belle_sip_transaction_terminate ict_vptr (emit (Notify Timeout) t)"
  have "earliest (ict_due t) = Some (t0 + v * 64, Timer_B)"
    using assms(1,2) by (simp add: calling_after_def ict_due_def due_def)
  moreover have t: "timer_A ?t = None" "timer_B ?t = None" "timer_D ?t = None" "timer_M ?t = None"
    "call_repair_timer ?t = None" "state ?t = TERMINATED"
    "out ?t = pre @ replicate 7 (Send_request rq) @ [Notify Timeout, Notify Terminated_event, Provider_remove]"
    using assms(1) by (simp_all add: belle_sip_transaction_terminate_def Let_def calling_after_def emit_def
        belle_sip_provider_set_transaction_terminated_def terminate_dialog_update_def on_ict_terminate_def
        belle_sip_transaction_set_state_def transaction_end_background_task_def numeral_eq_Suc)
  moreover have "ict_handle (e\<lparr>now := t0 + v * 64\<rparr>) Timer_B t = Some (timer_B_update unlink ?t)"
    using assms by (simp add: calling_after_def notify_source_def expired_def ict_on_timer_B_def
        belle_sip_transaction_notify_timeout_def notify_timeout_def invoke_listeners_def)
  moreover have "ict_idle n e (timer_B_update unlink ?t) = Some ([], timer_B_update unlink ?t)"
    using t by (cases n) (simp_all add: ict_due_def due_def unlink_def)
  ultimately show ?thesis by (simp del: ict_handle.simps)
qed

lemma calling_runs:
  assumes "calling_after 0 t0 v rq pre t" "0 < v" "tu e Timeout = []" "r_method rq \<noteq> ''REGISTER''"
  shows "\<exists>t'. ict_idle (7 + n) e t = Some (map (\<lambda>k. t0 + v * k) [1, 3, 7, 15, 31, 63, 64], t') \<and>
    state t' = TERMINATED \<and>
    out t' = pre @ replicate 7 (Send_request rq) @ [Notify Timeout, Notify Terminated_event, Provider_remove]"
proof -
  obtain t1 where t1: "\<And>n. ict_idle (Suc n) e t = map_option (apfst ((#) (t0 + v * 1))) (ict_idle n e t1)"
    "calling_after 1 t0 v rq pre t1" using calling_retransmits [OF assms(1), of e] assms(2) by auto
  obtain t2 where t2: "\<And>n. ict_idle (Suc n) e t1 = map_option (apfst ((#) (t0 + v * 3))) (ict_idle n e t2)"
    "calling_after 2 t0 v rq pre t2"
    using calling_retransmits [OF t1(2), of e] assms(2) by (auto simp: numeral_eq_Suc)
  obtain t3 where t3: "\<And>n. ict_idle (Suc n) e t2 = map_option (apfst ((#) (t0 + v * 7))) (ict_idle n e t3)"
    "calling_after 3 t0 v rq pre t3" using calling_retransmits [OF t2(2), of e] assms(2) by auto
  obtain t4 where t4: "\<And>n. ict_idle (Suc n) e t3 = map_option (apfst ((#) (t0 + v * 15))) (ict_idle n e t4)"
    "calling_after 4 t0 v rq pre t4" using calling_retransmits [OF t3(2), of e] assms(2) by auto
  obtain t5 where t5: "\<And>n. ict_idle (Suc n) e t4 = map_option (apfst ((#) (t0 + v * 31))) (ict_idle n e t5)"
    "calling_after 5 t0 v rq pre t5" using calling_retransmits [OF t4(2), of e] assms(2) by auto
  obtain t6 where t6: "\<And>n. ict_idle (Suc n) e t5 = map_option (apfst ((#) (t0 + v * 63))) (ict_idle n e t6)"
    "calling_after 6 t0 v rq pre t6" using calling_retransmits [OF t5(2), of e] assms(2) by auto
  have "7 + n = Suc (Suc (Suc (Suc (Suc (Suc (Suc n))))))" by simp
  then show ?thesis
    using calling_times_out [OF t6(2) assms(2-4), of n]
    by (auto simp only: t1(1) t2(1) t3(1) t4(1) t5(1) t6(1) option.map apfst_conv list.map mult_1_right)
qed

text \<open>C19: An INVITE sent over an unreliable channel and never answered is transmitted seven
  times, at the times 0, T1, 3 T1, 7 T1, 15 T1, 31 T1 and 63 T1 after it was first sent;
  at 64 T1 the transaction user is told of the timeout and the transaction is terminated
  and given back to the provider.  Nothing else is sent, whatever the value of T1.
\<close>

theorem invite_timeout_schedule:
  assumes "ict_inv t" "state t = INIT" "dialog t = None" "call_repair_timer t = None"
    and "env_ok c e" "uris_ok e (request t)" "tu e Timeout = []" "\<not> r_dialog_queued (request t)"
      "\<not> sent_by_dialog_queue t" "client_channel e = Some ch" "ch_state ch = CH_READY" "\<not> ch_reliable ch"
  shows "\<exists>t1 t2. ict_handle e (Ict (Send None hop)) t = Some t1 \<and>
    ict_idle (7 + n) e t1 = Some (map (\<lambda>k. now e + T1 c * k) [1, 3, 7, 15, 31, 63, 64], t2) \<and>
    state t2 = TERMINATED \<and>
    out t2 = out t @ [Provider_add] @ replicate 7 (Send_request (request t)) @
      [Notify Timeout, Notify Terminated_event, Provider_remove]"
proof -
  have c: "cfg e = c" "0 < T1 c" using assms(5) by (simp_all add: env_ok_def)
  have i: "timer_A t = None" "timer_D t = None" "timer_M t = None" "r_method (request t) \<noteq> ''REGISTER''"
    using assms(1,2) by (simp_all add: ict_inv_def ict_inv0_def)
  obtain t1 where t1: "ict_handle e (Ict (Send None hop)) t = Some t1"
    "calling_after 0 (now e) (T1 c) (request t) (out t @ [Provider_add]) t1"
    using assms(2-4) assms(6-12) i c
    by (auto simp: belle_sip_client_transaction_send_request_to_def send_through_dialog_def update_dialog_def
        send_through_channel_def ict_send_request_def base_defs Let_def start_timer_def calling_after_def
        split: option.splits)
  from calling_runs [OF t1(2) c(2) assms(7) i(4), of n] t1(1) show ?thesis by auto
qed

theorem invite_timeout_schedule_witness:
  "\<exists>t1 t2. ict_handle (sip_env 0) (Ict (Send None ''hop'')) sip_ict0 = Some t1 \<and>
     ict_idle 7 (sip_env 0) t1 = Some ([500, 1500, 3500, 7500, 15500, 31500, 32000], t2) \<and>
     state t2 = TERMINATED"
proof -
  have s: "state sip_ict0 = INIT" "dialog sip_ict0 = None" "call_repair_timer sip_ict0 = None"
    "\<not> r_dialog_queued (request sip_ict0)" "\<not> sent_by_dialog_queue sip_ict0"
    by (simp_all add: sip_ict0_def belle_sip_ict_new_def init_defs sip_request_def)
  have e: "uris_ok (sip_env 0) (request sip_ict0)" "tu (sip_env 0) Timeout = []"
    "client_channel (sip_env 0) = Some sip_channel" "ch_state sip_channel = CH_READY"
    "\<not> ch_reliable sip_channel" "now (sip_env 0) = 0" "T1 sip_cfg = 500"
    by (simp_all add: sip_defs)
  from invite_timeout_schedule [OF ict_reachable_inv [OF sip_ict0_reachable] s(1-3) sip_env_ok [of 0]
      e(1,2) s(4,5) e(3-5), of "''hop''" 0] e(6,7)
  show ?thesis by (auto simp del: ict_idle.simps ict_handle.simps)
qed

section \<open>Failures are acknowledged\<close>

interpretation ack_kept: stable ict_vptr "\<lambda>t. state t = TERMINATED \<or> ack t = Some a" for a
  by unfold_locales (auto simp: emit_def on_ict_terminate_def ict_stop_retransmissions_def)

lemma ict_failure_run:
  assumes "ict_inv0 t" "state t = PROCEEDING" "channel t \<noteq> None"
  shows "\<exists>a t' rest. make_ack (request t) r = Some a \<and> ict_on_final_failure e r t = Some t' \<and>
    out t' = out t @ Send_request a # rest \<and> (state t' = COMPLETED \<or> state t' = TERMINATED) \<and>
    (state t' = COMPLETED \<longrightarrow> ack t' = Some a)"
proof -
  from assms obtain ch n where ch: "channel t = Some ch" "cseq_number (r_headers (request t)) = Some n"
    by (auto simp: ict_inv0_def)
  then obtain a where a: "make_ack (request t) r = Some a" by (simp add: make_ack_def)
  define u where "u = emit (Send_request a) (t\<lparr>state := COMPLETED, ack := Some a\<rparr>)"
  have u: "ict_inv0 u" "channel u \<noteq> None" "state u = COMPLETED" "ack u = Some a"
    "out u = (out t @ [Send_request a]) @ []"
    using assms ch by (simp_all add: u_def emit_def ict_inv0_def)
  obtain v where v: "belle_sip_client_transaction_notify_response ict_vptr e r u = Some v"
      "state v = COMPLETED \<or> state v = TERMINATED"
    using ict_notify_response [OF u(1,2), of e r] u(3) by auto
  obtain rest where "out v = (out t @ [Send_request a]) @ rest"
    using ict.os.P_notify_response [OF _ v(1), of "out t @ [Send_request a]"] u(5) by blast
  moreover have "state v = TERMINATED \<or> ack v = Some a"
    using ack_kept.P_notify_response [OF _ v(1), of a] u(4) by blast
  moreover have "ack t = None" using assms by (simp add: ict_inv0_def)
  ultimately show ?thesis using a ch v
    by (auto simp: ict_on_final_failure_def ict_make_ack_def base_defs u_def)
qed

text \<open>An INVITE client that waits for its final response and receives one of 300 or
  above sends an ACK at once, before the transaction user hears of the response: the
  request URI, topmost Via, Call-ID, From, Route and CSeq number are those of the
  INVITE and the To header is that of the response, as RFC 3261 requires.  While the
  transaction is completed, every further failure response is answered with the same
  ACK and nothing else happens.
\<close>

theorem failure_acknowledged:
  assumes "ict_reachable c t" "state t = CALLING \<or> state t = PROCEEDING" "channel t \<noteq> None" "300 \<le> s_code r"
  shows "\<exists>a t' rest. make_ack (request t) r = Some a \<and>
    ict_handle e (Ict (Receive r)) t = Some t' \<and> out t' = out t @ Send_request a # rest \<and>
    r_method a = ''ACK'' \<and> r_uri a = r_uri (request t) \<and>
    cseq_number (r_headers a) = cseq_number (r_headers (request t)) \<and>
    get_headers (r_headers a) Via = take 1 (get_headers (r_headers (request t)) Via) \<and>
    get_headers (r_headers a) Call_id = take 1 (get_headers (r_headers (request t)) Call_id) \<and>
    get_headers (r_headers a) From = take 1 (get_headers (r_headers (request t)) From) \<and>
    get_headers (r_headers a) To = take 1 (get_headers (s_headers r) To) \<and>
    get_headers (r_headers a) Route = get_headers (r_headers (request t)) Route \<and>
    (state t' = COMPLETED \<or> state t' = TERMINATED) \<and>
    (\<forall>e' r'. state t' = COMPLETED \<and> channel t' \<noteq> None \<and> 300 \<le> s_code r' \<longrightarrow>
       ict_handle e' (Ict (Receive r')) t' = Some (emit (Send_request a) t'))"
proof -
  let ?u = "t\<lparr>state := PROCEEDING\<rparr>"
  have "ict_inv0 t" using ict_reachable_inv [OF assms(1)] by (simp add: ict_inv_def)
  then have "ict_inv0 ?u" using assms(2) by (auto simp: ict_inv0_def)
  then obtain a t' rest where t': "make_ack (request ?u) r = Some a" "ict_on_final_failure e r ?u = Some t'"
    "out t' = out ?u @ Send_request a # rest" "state t' = COMPLETED \<or> state t' = TERMINATED"
    "state t' = COMPLETED \<longrightarrow> ack t' = Some a"
    using ict_failure_run [of ?u r e] assms(3) by auto
  have same: "?u = t" if "state t = PROCEEDING" using that by simp
  have "ict_on_response e r t = ict_on_response_proceeding e r (if state t = CALLING then ?u else t)"
    using assms(2) by (auto simp: ict_on_response_def base_defs)
  then have "ict_on_response e r t = ict_on_response_proceeding e r ?u"
    using assms(2) same by metis
  then have "ict_on_response e r t = Some t'"
    using t'(2) assms(4) by (simp add: ict_on_response_proceeding_def)
  then have "ict_handle e (Ict (Receive r)) t = Some t'"
    using assms(3) by (auto simp: provider_dispatch_response_def split: option.split)
  moreover have "ict_handle e' (Ict (Receive r')) t' = Some (emit (Send_request a) t')"
    if "state t' = COMPLETED" "channel t' \<noteq> None" "300 \<le> s_code r'" for e' r'
    using that t'(5) by (auto simp: provider_dispatch_response_def ict_on_response_def queue_message_def
        split: option.split)
  ultimately show ?thesis using t' make_ack_headers_of [OF t'(1)] by (intro exI [of _ a] exI [of _ t'] exI [of _ rest]) auto
qed

lemma sip_ict_channel: "channel sip_ict \<noteq> None"
  by (simp add: sip_ict_def sip_ict0_def sip_defs belle_sip_ict_new_def init_defs
      belle_sip_client_transaction_send_request_to_def send_through_dialog_def update_dialog_def
      send_through_channel_def ict_send_request_def base_defs)

theorem failure_acknowledged_witness:
  "\<exists>a t'. ict_handle (sip_env 100) (Ict (Receive (sip_response 486))) sip_ict = Some t' \<and>
     Send_request a \<in> set (out t') \<and> r_method a = ''ACK''"
proof -
  have "300 \<le> s_code (sip_response 486)"
    by (simp add: sip_response_def response_create_from_request_def Let_def)
  from failure_acknowledged [OF sip_ict_reachable _ sip_ict_channel this, of "sip_env 100"] sip_states(1)
  obtain a t' rest where "ict_handle (sip_env 100) (Ict (Receive (sip_response 486))) sip_ict = Some t'"
    "out t' = out sip_ict @ Send_request a # rest" "r_method a = ''ACK''" by blast
  then show ?thesis by (intro exI [of _ a] exI [of _ t']) (simp del: ict_handle.simps)
qed

section \<open>Null pointers\<close>

text \<open>C32: Two admissible situations that the code does not survive.  A REGISTER answered
  with 500 or 503 whose listener closes the channel: the response is reported to the
  channel through the pointer that closing it has cleared.  An INVITE whose first 100
  Trying found no channel and that is received again: there is no response to repeat,
  and the way back is looked up in a null response.
\<close>

theorem transaction_null_pointers:
  assumes "state u = TRYING \<or> state u = PROCEEDING" "r_method (request u) = ''REGISTER''" "dialog u = None"
      "timer_K u = None" "channel u = Some ch" "ch_state ch \<noteq> CH_DISCONNECTED"
      "s_code r = 500 \<or> s_code r = 503" "tu_response e r = [Close_channel]"
    and "create_invite_server_transaction e0 b tag d rq = Some v" "r_method rq = ''INVITE''"
      "return_channel e0 (response_create_from_request rq 100) = None"
  shows "nict_handle e (Nict (Receive r)) u = None \<and> ist_handle e' (Ist (Request rq)) v = None"
proof
  let ?v = "\<lambda>u. invoke_response_listeners nict_vptr e r (u\<lparr>state := COMPLETED, last_response := Some r\<rparr>)"
  have "channel (?v u) = None"
    using assms(5,6,8) by (simp add: invoke_response_listeners_def emit_def transaction_handle_channel_error_def Let_def)
  moreover have "request (?v u) = request u"
    using nict.rq.P_response_listeners [of "u\<lparr>state := COMPLETED, last_response := Some r\<rparr>" "request u" e r] by simp
  ultimately have "report_server_error nict_vptr e r (?v u) = None"
    using assms(2,7) by (auto simp: report_server_error_def belle_sip_channel_notify_server_error_def)
  moreover have "response_dialog e r (u\<lparr>state := COMPLETED, last_response := Some r\<rparr>) =
      (None, u\<lparr>state := COMPLETED, last_response := Some r\<rparr>)"
    using assms(2,3) by (simp add: response_dialog_def should_dialog_be_created_def)
  ultimately have "belle_sip_client_transaction_notify_response nict_vptr e r (u\<lparr>state := COMPLETED\<rparr>) = None"
    by (simp add: belle_sip_client_transaction_notify_response_def)
  then have "nict_set_completed e r u = None"
    using assms(4,5) by (simp add: nict_set_completed_def base_defs)
  then show "nict_handle e (Nict (Receive r)) u = None"
    using assms(1,5,7) by (auto simp: provider_dispatch_response_def nict_on_response_def)
next
  obtain br where br: "server_transaction_branch b rq = Some br"
    using assms(9) by (cases "server_transaction_branch b rq")
      (auto simp: create_invite_server_transaction_def belle_sip_ist_new_def)
  then have "v = emit Provider_add (transaction.extend (new_transaction rq br d PROCEEDING)
      \<lparr> to_tag = tag, timer_G = None, timer_H = None, timer_I = None, timer_L = None \<rparr>)"
    using assms(9,11) by (simp add: create_invite_server_transaction_def belle_sip_ist_new_def emit_def
        belle_sip_server_transaction_send_response_def check_channel_def new_transaction_def transaction.extend_def)
  then show "ist_handle e' (Ist (Request rq)) v = None"
    using assms(10) by (simp add: belle_sip_server_transaction_on_request_def ist_on_request_retransmission_def
        server_transaction_queue_response_def check_channel_def emit_def new_transaction_def transaction.extend_def)
qed

definition sip_closing_env :: env where
  "sip_closing_env = (sip_env 100)\<lparr>tu_response := \<lambda>_. [Close_channel], return_channel := \<lambda>_. None\<rparr>"

theorem transaction_null_pointers_witness:
  "nict_handle sip_closing_env (Nict (Receive (sip_response 503))) sip_nict = None \<and>
   (\<exists>v. create_invite_server_transaction sip_closing_env None ''t'' None (sip_request ''INVITE'') = Some v \<and>
        ist_handle sip_closing_env (Ist (Request (sip_request ''INVITE''))) v = None)"
proof -
  obtain v where v: "create_invite_server_transaction sip_closing_env None ''t'' None (sip_request ''INVITE'') = Some v"
    by (simp add: sip_closing_env_def create_invite_server_transaction_def belle_sip_ist_new_def init_defs sip_defs
        belle_sip_server_transaction_send_response_def check_channel_def emit_def)
  have n: "r_method (request sip_nict) = ''REGISTER''" "dialog sip_nict = None" "timer_K sip_nict = None"
    "channel sip_nict = Some sip_channel" "ch_state sip_channel \<noteq> CH_DISCONNECTED"
    by (simp_all add: sip_nict_def sip_defs belle_sip_nict_new_def init_defs
      belle_sip_client_transaction_send_request_to_def send_through_dialog_def update_dialog_def
      send_through_channel_def nict_send_request_def base_defs)
  have e: "s_code (sip_response 503) = 500 \<or> s_code (sip_response 503) = 503"
    "tu_response sip_closing_env (sip_response 503) = [Close_channel]"
    "r_method (sip_request ''INVITE'') = ''INVITE''"
    "return_channel sip_closing_env (response_create_from_request (sip_request ''INVITE'') 100) = None"
    by (simp_all add: sip_response_def response_create_from_request_def Let_def sip_closing_env_def
        sip_request_def)
  from transaction_null_pointers [OF _ n e(1,2) v e(3,4), of sip_closing_env] sip_states(2) v
  show ?thesis by blast
qed

end
