(* ===== verification/Stun_Message.thy ===== *)
theory Stun_Message
  imports C_Prelude
begin

text \<open>
  STUN and TURN messages of mediastreamer2: the structures of
  \<open>mediastreamer2/include/mediastreamer2/stun.h\<close> and the constructors, setters and getters of
  \<open>mediastreamer2/src/voip/stun.c\<close>.

  A \<open>char *\<close> field is the bytes of its C string (no NUL), \<open>None\<close> for NULL; \<open>cstr\<close> is the
  string that starts at a block of bytes, so that a \<open>strdup\<close> of a block with a NUL inside keeps
  what precedes it. The two members of the union \<open>ip\<close> of an address share their port and are
  otherwise separate fields: the code reads and writes the member that \<open>family\<close> names
  (\<open>v6\<close> for IPv6, \<open>v4\<close> for every other value) and no other. The random numbers
  of transaction identifiers are arguments.
\<close>

section \<open>Constants\<close>

abbreviation (input) MS_STUN_MAGIC_COOKIE :: u32 where "MS_STUN_MAGIC_COOKIE \<equiv> 0x2112A442"

abbreviation (input) MS_STUN_ADDR_FAMILY_IPV4 :: u8 where "MS_STUN_ADDR_FAMILY_IPV4 \<equiv> 0x01"
abbreviation (input) MS_STUN_ADDR_FAMILY_IPV6 :: u8 where "MS_STUN_ADDR_FAMILY_IPV6 \<equiv> 0x02"

abbreviation (input) MS_STUN_TYPE_REQUEST :: u16 where "MS_STUN_TYPE_REQUEST \<equiv> 0x0000"
abbreviation (input) MS_STUN_TYPE_INDICATION :: u16 where "MS_STUN_TYPE_INDICATION \<equiv> 0x0010"
abbreviation (input) MS_STUN_TYPE_SUCCESS_RESPONSE :: u16 where "MS_STUN_TYPE_SUCCESS_RESPONSE \<equiv> 0x0100"
abbreviation (input) MS_STUN_TYPE_ERROR_RESPONSE :: u16 where "MS_STUN_TYPE_ERROR_RESPONSE \<equiv> 0x0110"

abbreviation (input) MS_STUN_METHOD_BINDING :: u16 where "MS_STUN_METHOD_BINDING \<equiv> 0x001"
abbreviation (input) MS_TURN_METHOD_ALLOCATE :: u16 where "MS_TURN_METHOD_ALLOCATE \<equiv> 0x003"
abbreviation (input) MS_TURN_METHOD_REFRESH :: u16 where "MS_TURN_METHOD_REFRESH \<equiv> 0x004"
abbreviation (input) MS_TURN_METHOD_SEND :: u16 where "MS_TURN_METHOD_SEND \<equiv> 0x006"
abbreviation (input) MS_TURN_METHOD_CREATE_PERMISSION :: u16 where "MS_TURN_METHOD_CREATE_PERMISSION \<equiv> 0x008"
abbreviation (input) MS_TURN_METHOD_CHANNEL_BIND :: u16 where "MS_TURN_METHOD_CHANNEL_BIND \<equiv> 0x009"

abbreviation (input) MS_STUN_ATTR_MAPPED_ADDRESS :: u16 where "MS_STUN_ATTR_MAPPED_ADDRESS \<equiv> 0x0001"
abbreviation (input) MS_STUN_ATTR_RESPONSE_ADDRESS :: u16 where "MS_STUN_ATTR_RESPONSE_ADDRESS \<equiv> 0x0002"
abbreviation (input) MS_STUN_ATTR_CHANGE_REQUEST :: u16 where "MS_STUN_ATTR_CHANGE_REQUEST \<equiv> 0x0003"
abbreviation (input) MS_STUN_ATTR_SOURCE_ADDRESS :: u16 where "MS_STUN_ATTR_SOURCE_ADDRESS \<equiv> 0x0004"
abbreviation (input) MS_STUN_ATTR_CHANGED_ADDRESS :: u16 where "MS_STUN_ATTR_CHANGED_ADDRESS \<equiv> 0x0005"
abbreviation (input) MS_STUN_ATTR_USERNAME :: u16 where "MS_STUN_ATTR_USERNAME \<equiv> 0x0006"
abbreviation (input) MS_STUN_ATTR_PASSWORD :: u16 where "MS_STUN_ATTR_PASSWORD \<equiv> 0x0007"
abbreviation (input) MS_STUN_ATTR_MESSAGE_INTEGRITY :: u16 where "MS_STUN_ATTR_MESSAGE_INTEGRITY \<equiv> 0x0008"
abbreviation (input) MS_STUN_ATTR_ERROR_CODE :: u16 where "MS_STUN_ATTR_ERROR_CODE \<equiv> 0x0009"
abbreviation (input) MS_STUN_ATTR_REALM :: u16 where "MS_STUN_ATTR_REALM \<equiv> 0x0014"
abbreviation (input) MS_STUN_ATTR_NONCE :: u16 where "MS_STUN_ATTR_NONCE \<equiv> 0x0015"
abbreviation (input) MS_STUN_ATTR_XOR_MAPPED_ADDRESS :: u16 where "MS_STUN_ATTR_XOR_MAPPED_ADDRESS \<equiv> 0x0020"
abbreviation (input) MS_STUN_ATTR_SOFTWARE :: u16 where "MS_STUN_ATTR_SOFTWARE \<equiv> 0x8022"
abbreviation (input) MS_STUN_ATTR_FINGERPRINT :: u16 where "MS_STUN_ATTR_FINGERPRINT \<equiv> 0x8028"
abbreviation (input) MS_TURN_ATTR_CHANNEL_NUMBER :: u16 where "MS_TURN_ATTR_CHANNEL_NUMBER \<equiv> 0x000C"
abbreviation (input) MS_TURN_ATTR_LIFETIME :: u16 where "MS_TURN_ATTR_LIFETIME \<equiv> 0x000D"
abbreviation (input) MS_TURN_ATTR_XOR_PEER_ADDRESS :: u16 where "MS_TURN_ATTR_XOR_PEER_ADDRESS \<equiv> 0x0012"
abbreviation (input) MS_TURN_ATTR_DATA :: u16 where "MS_TURN_ATTR_DATA \<equiv> 0x0013"
abbreviation (input) MS_TURN_ATTR_XOR_RELAYED_ADDRESS :: u16 where "MS_TURN_ATTR_XOR_RELAYED_ADDRESS \<equiv> 0x0016"
abbreviation (input) MS_TURN_ATTR_REQUESTED_ADDRESS_FAMILY :: u16 where "MS_TURN_ATTR_REQUESTED_ADDRESS_FAMILY \<equiv> 0x0017"
abbreviation (input) MS_TURN_ATTR_REQUESTED_TRANSPORT :: u16 where "MS_TURN_ATTR_REQUESTED_TRANSPORT \<equiv> 0x0019"
abbreviation (input) MS_ICE_ATTR_PRIORITY :: u16 where "MS_ICE_ATTR_PRIORITY \<equiv> 0x0024"
abbreviation (input) MS_ICE_ATTR_USE_CANDIDATE :: u16 where "MS_ICE_ATTR_USE_CANDIDATE \<equiv> 0x0025"
abbreviation (input) MS_ICE_ATTR_ICE_CONTROLLED :: u16 where "MS_ICE_ATTR_ICE_CONTROLLED \<equiv> 0x8029"
abbreviation (input) MS_ICE_ATTR_ICE_CONTROLLING :: u16 where "MS_ICE_ATTR_ICE_CONTROLLING \<equiv> 0x802A"

abbreviation (input) IANA_PROTOCOL_NUMBERS_UDP :: u8 where "IANA_PROTOCOL_NUMBERS_UDP \<equiv> 17"
abbreviation (input) STUN_FLAG_CHANGE_IP :: u32 where "STUN_FLAG_CHANGE_IP \<equiv> 0x04"
abbreviation (input) STUN_FLAG_CHANGE_PORT :: u32 where "STUN_FLAG_CHANGE_PORT \<equiv> 0x02"

abbreviation (input) STUN_MESSAGE_HEADER_LENGTH :: nat where "STUN_MESSAGE_HEADER_LENGTH \<equiv> 20"
abbreviation (input) STUN_MAX_USERNAME_LENGTH :: nat where "STUN_MAX_USERNAME_LENGTH \<equiv> 513"
abbreviation (input) STUN_MAX_REASON_LENGTH :: nat where "STUN_MAX_REASON_LENGTH \<equiv> 127"
abbreviation (input) STUN_MAX_SOFTWARE_LENGTH :: nat where "STUN_MAX_SOFTWARE_LENGTH \<equiv> 763"
abbreviation (input) STUN_MAX_REALM_LENGTH :: nat where "STUN_MAX_REALM_LENGTH \<equiv> 127"
abbreviation (input) STUN_MAX_NONCE_LENGTH :: nat where "STUN_MAX_NONCE_LENGTH \<equiv> 127"

section \<open>Data\<close>

definition cstr :: "bytes \<Rightarrow> bytes" where
  "cstr = takeWhile (\<lambda>c. c \<noteq> 0)"

record MSStunAddress =
  sa_port :: u16
  sa_v4 :: u32
  sa_v6 :: bytes
  sa_fam :: u8

definition stun_addr_zero :: MSStunAddress where
  "stun_addr_zero = \<lparr>sa_port = 0, sa_v4 = 0, sa_v6 = replicate 16 0, sa_fam = 0\<rparr>"

record MSStunMessage =
  sm_type :: u16
  sm_method :: u16
  sm_length :: u16
  sm_tr_id :: bytes
  sm_data :: "bytes option"
  sm_username :: "bytes option"
  sm_password :: "bytes option"
  sm_ha1 :: "bytes option"
  sm_realm :: "bytes option"
  sm_message_integrity :: "bytes option"
  sm_software :: "bytes option"
  sm_nonce :: "bytes option"
  sm_reason :: "bytes option"
  sm_number :: u16
  sm_mapped_address :: MSStunAddress
  sm_xor_mapped_address :: MSStunAddress
  sm_xor_peer_address :: MSStunAddress
  sm_xor_relayed_address :: MSStunAddress
  sm_change_request :: u32
  sm_fingerprint :: u32
  sm_priority :: u32
  sm_ice_controlling :: u64
  sm_ice_controlled :: u64
  sm_lifetime :: u32
  sm_channel_number :: u16
  sm_data_length :: u16
  sm_requested_transport :: u8
  sm_requested_address_family :: u8
  sm_include_username_attribute :: bool
  sm_has_error_code :: bool
  sm_has_message_integrity :: bool
  sm_has_dummy_message_integrity :: bool
  sm_has_fingerprint :: bool
  sm_has_mapped_address :: bool
  sm_has_xor_mapped_address :: bool
  sm_has_xor_peer_address :: bool
  sm_has_xor_relayed_address :: bool
  sm_has_priority :: bool
  sm_has_use_candidate :: bool
  sm_has_ice_controlling :: bool
  sm_has_ice_controlled :: bool
  sm_has_lifetime :: bool
  sm_has_channel_number :: bool
  sm_has_requested_transport :: bool
  sm_has_requested_address_family :: bool
  sm_own_data :: bool

text \<open>\<open>ms_new0(MSStunMessage, 1)\<close>.\<close>

definition stun_message_zero :: MSStunMessage where
  "stun_message_zero =
     \<lparr>sm_type = 0, sm_method = 0, sm_length = 0, sm_tr_id = replicate 12 0, sm_data = None,
      sm_username = None, sm_password = None, sm_ha1 = None, sm_realm = None,
      sm_message_integrity = None, sm_software = None, sm_nonce = None, sm_reason = None,
      sm_number = 0, sm_mapped_address = stun_addr_zero, sm_xor_mapped_address = stun_addr_zero,
      sm_xor_peer_address = stun_addr_zero, sm_xor_relayed_address = stun_addr_zero,
      sm_change_request = 0, sm_fingerprint = 0, sm_priority = 0, sm_ice_controlling = 0,
      sm_ice_controlled = 0, sm_lifetime = 0, sm_channel_number = 0, sm_data_length = 0,
      sm_requested_transport = 0, sm_requested_address_family = 0,
      sm_include_username_attribute = False, sm_has_error_code = False,
      sm_has_message_integrity = False, sm_has_dummy_message_integrity = False,
      sm_has_fingerprint = False, sm_has_mapped_address = False,
      sm_has_xor_mapped_address = False, sm_has_xor_peer_address = False,
      sm_has_xor_relayed_address = False, sm_has_priority = False, sm_has_use_candidate = False,
      sm_has_ice_controlling = False, sm_has_ice_controlled = False, sm_has_lifetime = False,
      sm_has_channel_number = False, sm_has_requested_transport = False,
      sm_has_requested_address_family = False, sm_own_data = False\<rparr>"

section \<open>Addresses\<close>

text \<open>The bytes of \<open>htonl(MS_STUN_MAGIC_COOKIE)\<close> and of the transaction identifier are the mask of
  an IPv6 address. \<open>stun_address_xor\<close> walks them with \<open>octet[i] ^= ...\<close>.\<close>

definition stun_address_xor :: "MSStunAddress \<Rightarrow> bytes \<Rightarrow> MSStunAddress" where
  "stun_address_xor addr tr_id =
     (if sa_fam addr = MS_STUN_ADDR_FAMILY_IPV4
      then addr\<lparr>sa_v4 := sa_v4 addr XOR MS_STUN_MAGIC_COOKIE,
                sa_port := sa_port addr XOR ucast (drop_bit 16 MS_STUN_MAGIC_COOKIE)\<rparr>
      else if sa_fam addr = MS_STUN_ADDR_FAMILY_IPV6
      then addr\<lparr>sa_v6 := map2 (XOR) (sa_v6 addr) (enc32 MS_STUN_MAGIC_COOKIE @ tr_id),
                sa_port := sa_port addr XOR ucast (drop_bit 16 MS_STUN_MAGIC_COOKIE)\<rparr>
      else addr)"

definition ms_stun_address_set_port :: "MSStunAddress \<Rightarrow> u16 \<Rightarrow> MSStunAddress" where
  "ms_stun_address_set_port addr p =
     (if sa_fam addr = MS_STUN_ADDR_FAMILY_IPV4 then addr\<lparr>sa_port := p\<rparr>
      else if sa_fam addr = MS_STUN_ADDR_FAMILY_IPV6 then addr\<lparr>sa_port := p\<rparr>
      else addr)"

text \<open>\<open>TRUE\<close> when the addresses differ, or when their family is unknown.\<close>

definition ms_compare_stun_addresses :: "MSStunAddress \<Rightarrow> MSStunAddress \<Rightarrow> bool" where
  "ms_compare_stun_addresses a1 a2 =
     (if sa_fam a1 \<noteq> sa_fam a2 then True
      else if sa_fam a1 = MS_STUN_ADDR_FAMILY_IPV4
      then \<not> (sa_port a1 = sa_port a2 \<and> sa_v4 a1 = sa_v4 a2)
      else if sa_fam a1 = MS_STUN_ADDR_FAMILY_IPV6
      then \<not> (sa_port a1 = sa_port a2 \<and> sa_v6 a1 = sa_v6 a2)
      else True)"

section \<open>Setters and getters\<close>

definition ms_stun_message_get_length :: "MSStunMessage \<Rightarrow> u16" where
  "ms_stun_message_get_length msg = sm_length msg"

definition ms_stun_message_get_tr_id :: "MSStunMessage \<Rightarrow> bytes" where
  "ms_stun_message_get_tr_id msg = sm_tr_id msg"

definition ms_stun_message_set_tr_id :: "MSStunMessage \<Rightarrow> bytes \<Rightarrow> MSStunMessage" where
  "ms_stun_message_set_tr_id msg tr_id = msg\<lparr>sm_tr_id := tr_id\<rparr>"

text \<open>The three numbers \<open>bctbx_random()\<close> returns, least significant byte first.\<close>

definition ms_stun_message_set_random_tr_id :: "u32 \<times> u32 \<times> u32 \<Rightarrow> MSStunMessage \<Rightarrow> MSStunMessage" where
  "ms_stun_message_set_random_tr_id r msg =
     (case r of (r1, r2, r3) \<Rightarrow>
       ms_stun_message_set_tr_id msg (concat (map (\<lambda>r.
         [ucast r, ucast (drop_bit 8 r), ucast (drop_bit 16 r), ucast (drop_bit 24 r)])
         [r1, r2, r3])))"

definition ms_stun_message_get_username :: "MSStunMessage \<Rightarrow> bytes option" where
  "ms_stun_message_get_username msg = sm_username msg"

definition ms_stun_message_set_username :: "MSStunMessage \<Rightarrow> bytes option \<Rightarrow> MSStunMessage" where
  "ms_stun_message_set_username msg s =
     msg\<lparr>sm_username := map_option cstr s, sm_include_username_attribute := True\<rparr>"

definition ms_stun_message_include_username_attribute :: "MSStunMessage \<Rightarrow> bool \<Rightarrow> MSStunMessage" where
  "ms_stun_message_include_username_attribute msg b = msg\<lparr>sm_include_username_attribute := b\<rparr>"

definition ms_stun_message_get_password :: "MSStunMessage \<Rightarrow> bytes option" where
  "ms_stun_message_get_password msg = sm_password msg"

definition ms_stun_message_set_password :: "MSStunMessage \<Rightarrow> bytes option \<Rightarrow> MSStunMessage" where
  "ms_stun_message_set_password msg s = msg\<lparr>sm_password := map_option cstr s\<rparr>"

definition ms_stun_message_set_ha1 :: "MSStunMessage \<Rightarrow> bytes option \<Rightarrow> MSStunMessage" where
  "ms_stun_message_set_ha1 msg s = msg\<lparr>sm_ha1 := map_option cstr s\<rparr>"

definition ms_stun_message_get_realm :: "MSStunMessage \<Rightarrow> bytes option" where
  "ms_stun_message_get_realm msg = sm_realm msg"

definition ms_stun_message_set_realm :: "MSStunMessage \<Rightarrow> bytes option \<Rightarrow> MSStunMessage" where
  "ms_stun_message_set_realm msg s = msg\<lparr>sm_realm := map_option cstr s\<rparr>"

definition ms_stun_message_set_software :: "MSStunMessage \<Rightarrow> bytes option \<Rightarrow> MSStunMessage" where
  "ms_stun_message_set_software msg s = msg\<lparr>sm_software := map_option cstr s\<rparr>"

definition ms_stun_message_set_nonce :: "MSStunMessage \<Rightarrow> bytes option \<Rightarrow> MSStunMessage" where
  "ms_stun_message_set_nonce msg s = msg\<lparr>sm_nonce := map_option cstr s\<rparr>"

definition ms_stun_message_has_error_code :: "MSStunMessage \<Rightarrow> bool" where
  "ms_stun_message_has_error_code msg = sm_has_error_code msg"

definition ms_stun_message_get_error_code :: "MSStunMessage \<Rightarrow> u16 \<times> bytes option" where
  "ms_stun_message_get_error_code msg = (sm_number msg, sm_reason msg)"

definition ms_stun_message_set_error_code :: "MSStunMessage \<Rightarrow> u16 \<Rightarrow> bytes option \<Rightarrow> MSStunMessage" where
  "ms_stun_message_set_error_code msg n s =
     msg\<lparr>sm_number := n, sm_reason := map_option cstr s, sm_has_error_code := True\<rparr>"

definition ms_stun_message_message_integrity_enabled :: "MSStunMessage \<Rightarrow> bool" where
  "ms_stun_message_message_integrity_enabled msg = sm_has_message_integrity msg"

definition ms_stun_message_enable_message_integrity :: "MSStunMessage \<Rightarrow> bool \<Rightarrow> MSStunMessage" where
  "ms_stun_message_enable_message_integrity msg b = msg\<lparr>sm_has_message_integrity := b\<rparr>"

definition ms_stun_message_get_message_integrity :: "MSStunMessage \<Rightarrow> bytes option" where
  "ms_stun_message_get_message_integrity msg = sm_message_integrity msg"

definition ms_stun_message_fingerprint_enabled :: "MSStunMessage \<Rightarrow> bool" where
  "ms_stun_message_fingerprint_enabled msg = sm_has_fingerprint msg"

definition ms_stun_message_enable_fingerprint :: "MSStunMessage \<Rightarrow> bool \<Rightarrow> MSStunMessage" where
  "ms_stun_message_enable_fingerprint msg b = msg\<lparr>sm_has_fingerprint := b\<rparr>"

definition ms_stun_message_get_mapped_address :: "MSStunMessage \<Rightarrow> MSStunAddress option" where
  "ms_stun_message_get_mapped_address msg =
     (if sm_has_mapped_address msg then Some (sm_mapped_address msg) else None)"

definition ms_stun_message_set_mapped_address :: "MSStunMessage \<Rightarrow> MSStunAddress \<Rightarrow> MSStunMessage" where
  "ms_stun_message_set_mapped_address msg a =
     msg\<lparr>sm_mapped_address := a, sm_has_mapped_address := True\<rparr>"

definition ms_stun_message_get_xor_mapped_address :: "MSStunMessage \<Rightarrow> MSStunAddress option" where
  "ms_stun_message_get_xor_mapped_address msg =
     (if sm_has_xor_mapped_address msg then Some (sm_xor_mapped_address msg) else None)"

definition ms_stun_message_set_xor_mapped_address :: "MSStunMessage \<Rightarrow> MSStunAddress \<Rightarrow> MSStunMessage" where
  "ms_stun_message_set_xor_mapped_address msg a =
     msg\<lparr>sm_xor_mapped_address := a, sm_has_xor_mapped_address := True\<rparr>"

definition ms_stun_message_get_xor_peer_address :: "MSStunMessage \<Rightarrow> MSStunAddress option" where
  "ms_stun_message_get_xor_peer_address msg =
     (if sm_has_xor_peer_address msg then Some (sm_xor_peer_address msg) else None)"

definition ms_stun_message_set_xor_peer_address :: "MSStunMessage \<Rightarrow> MSStunAddress \<Rightarrow> MSStunMessage" where
  "ms_stun_message_set_xor_peer_address msg a =
     msg\<lparr>sm_xor_peer_address := a, sm_has_xor_peer_address := True\<rparr>"

definition ms_stun_message_get_xor_relayed_address :: "MSStunMessage \<Rightarrow> MSStunAddress option" where
  "ms_stun_message_get_xor_relayed_address msg =
     (if sm_has_xor_relayed_address msg then Some (sm_xor_relayed_address msg) else None)"

definition ms_stun_message_set_xor_relayed_address :: "MSStunMessage \<Rightarrow> MSStunAddress \<Rightarrow> MSStunMessage" where
  "ms_stun_message_set_xor_relayed_address msg a =
     msg\<lparr>sm_xor_relayed_address := a, sm_has_xor_relayed_address := True\<rparr>"

definition ms_stun_message_enable_change_ip :: "MSStunMessage \<Rightarrow> bool \<Rightarrow> MSStunMessage" where
  "ms_stun_message_enable_change_ip msg b =
     (if b then msg\<lparr>sm_change_request := sm_change_request msg OR STUN_FLAG_CHANGE_IP\<rparr>
      else msg\<lparr>sm_change_request := sm_change_request msg AND NOT STUN_FLAG_CHANGE_IP\<rparr>)"

definition ms_stun_message_enable_change_port :: "MSStunMessage \<Rightarrow> bool \<Rightarrow> MSStunMessage" where
  "ms_stun_message_enable_change_port msg b =
     (if b then msg\<lparr>sm_change_request := sm_change_request msg OR STUN_FLAG_CHANGE_PORT\<rparr>
      else msg\<lparr>sm_change_request := sm_change_request msg AND NOT STUN_FLAG_CHANGE_PORT\<rparr>)"

definition ms_stun_message_has_priority :: "MSStunMessage \<Rightarrow> bool" where
  "ms_stun_message_has_priority msg = sm_has_priority msg"

definition ms_stun_message_get_priority :: "MSStunMessage \<Rightarrow> u32" where
  "ms_stun_message_get_priority msg = sm_priority msg"

definition ms_stun_message_set_priority :: "MSStunMessage \<Rightarrow> u32 \<Rightarrow> MSStunMessage" where
  "ms_stun_message_set_priority msg v = msg\<lparr>sm_priority := v, sm_has_priority := True\<rparr>"

definition ms_stun_message_use_candidate_enabled :: "MSStunMessage \<Rightarrow> bool" where
  "ms_stun_message_use_candidate_enabled msg = sm_has_use_candidate msg"

definition ms_stun_message_enable_use_candidate :: "MSStunMessage \<Rightarrow> bool \<Rightarrow> MSStunMessage" where
  "ms_stun_message_enable_use_candidate msg b = msg\<lparr>sm_has_use_candidate := b\<rparr>"

definition ms_stun_message_has_ice_controlling :: "MSStunMessage \<Rightarrow> bool" where
  "ms_stun_message_has_ice_controlling msg = sm_has_ice_controlling msg"

definition ms_stun_message_get_ice_controlling :: "MSStunMessage \<Rightarrow> u64" where
  "ms_stun_message_get_ice_controlling msg = sm_ice_controlling msg"

definition ms_stun_message_set_ice_controlling :: "MSStunMessage \<Rightarrow> u64 \<Rightarrow> MSStunMessage" where
  "ms_stun_message_set_ice_controlling msg v =
     msg\<lparr>sm_ice_controlling := v, sm_has_ice_controlling := True\<rparr>"

definition ms_stun_message_has_ice_controlled :: "MSStunMessage \<Rightarrow> bool" where
  "ms_stun_message_has_ice_controlled msg = sm_has_ice_controlled msg"

definition ms_stun_message_get_ice_controlled :: "MSStunMessage \<Rightarrow> u64" where
  "ms_stun_message_get_ice_controlled msg = sm_ice_controlled msg"

definition ms_stun_message_set_ice_controlled :: "MSStunMessage \<Rightarrow> u64 \<Rightarrow> MSStunMessage" where
  "ms_stun_message_set_ice_controlled msg v =
     msg\<lparr>sm_ice_controlled := v, sm_has_ice_controlled := True\<rparr>"

definition ms_stun_message_dummy_message_integrity_enabled :: "MSStunMessage \<Rightarrow> bool" where
  "ms_stun_message_dummy_message_integrity_enabled msg = sm_has_dummy_message_integrity msg"

definition ms_stun_message_enable_dummy_message_integrity :: "MSStunMessage \<Rightarrow> bool \<Rightarrow> MSStunMessage" where
  "ms_stun_message_enable_dummy_message_integrity msg b = msg\<lparr>sm_has_dummy_message_integrity := b\<rparr>"

definition ms_stun_message_has_requested_transport :: "MSStunMessage \<Rightarrow> bool" where
  "ms_stun_message_has_requested_transport msg = sm_has_requested_transport msg"

definition ms_stun_message_get_requested_transport :: "MSStunMessage \<Rightarrow> u8" where
  "ms_stun_message_get_requested_transport msg = sm_requested_transport msg"

definition ms_stun_message_has_requested_address_family :: "MSStunMessage \<Rightarrow> bool" where
  "ms_stun_message_has_requested_address_family msg = sm_has_requested_address_family msg"

definition ms_stun_message_get_requested_address_family :: "MSStunMessage \<Rightarrow> u8" where
  "ms_stun_message_get_requested_address_family msg = sm_requested_address_family msg"

definition ms_stun_message_set_requested_address_family :: "MSStunMessage \<Rightarrow> u8 \<Rightarrow> MSStunMessage" where
  "ms_stun_message_set_requested_address_family msg v =
     msg\<lparr>sm_requested_address_family := v, sm_has_requested_address_family := True\<rparr>"

definition ms_stun_message_has_lifetime :: "MSStunMessage \<Rightarrow> bool" where
  "ms_stun_message_has_lifetime msg = sm_has_lifetime msg"

definition ms_stun_message_get_lifetime :: "MSStunMessage \<Rightarrow> u32" where
  "ms_stun_message_get_lifetime msg = sm_lifetime msg"

definition ms_stun_message_set_lifetime :: "MSStunMessage \<Rightarrow> u32 \<Rightarrow> MSStunMessage" where
  "ms_stun_message_set_lifetime msg v = msg\<lparr>sm_lifetime := v, sm_has_lifetime := True\<rparr>"

definition ms_stun_message_has_channel_number :: "MSStunMessage \<Rightarrow> bool" where
  "ms_stun_message_has_channel_number msg = sm_has_channel_number msg"

definition ms_stun_message_get_channel_number :: "MSStunMessage \<Rightarrow> u16" where
  "ms_stun_message_get_channel_number msg = sm_channel_number msg"

definition ms_stun_message_set_channel_number :: "MSStunMessage \<Rightarrow> u16 \<Rightarrow> MSStunMessage" where
  "ms_stun_message_set_channel_number msg v =
     msg\<lparr>sm_channel_number := v, sm_has_channel_number := True\<rparr>"

definition ms_stun_message_get_data :: "MSStunMessage \<Rightarrow> bytes option" where
  "ms_stun_message_get_data msg = sm_data msg"

definition ms_stun_message_get_data_length :: "MSStunMessage \<Rightarrow> u16" where
  "ms_stun_message_get_data_length msg = sm_data_length msg"

text \<open>The release of a block the message owned is not observable in the message.\<close>

definition ms_stun_message_set_data_2 :: "MSStunMessage \<Rightarrow> bytes option \<Rightarrow> u16 \<Rightarrow> bool \<Rightarrow> MSStunMessage" where
  "ms_stun_message_set_data_2 msg d n with_ownership =
     (let msg = (if sm_data msg \<noteq> None \<and> sm_own_data msg
                 then msg\<lparr>sm_data := None, sm_own_data := False\<rparr> else msg)
      in msg\<lparr>sm_data := d, sm_data_length := n, sm_own_data := with_ownership\<rparr>)"

definition ms_stun_message_set_data :: "MSStunMessage \<Rightarrow> bytes option \<Rightarrow> u16 \<Rightarrow> MSStunMessage" where
  "ms_stun_message_set_data msg d n = ms_stun_message_set_data_2 msg d n True"

section \<open>Constructors and classes of messages\<close>

definition ms_stun_message_create :: "u32 \<times> u32 \<times> u32 \<Rightarrow> u16 \<Rightarrow> u16 \<Rightarrow> MSStunMessage" where
  "ms_stun_message_create r ty me =
     ms_stun_message_set_random_tr_id r (stun_message_zero\<lparr>sm_type := ty, sm_method := me\<rparr>)"

definition ms_stun_binding_request_create :: "u32 \<times> u32 \<times> u32 \<Rightarrow> MSStunMessage" where
  "ms_stun_binding_request_create r = ms_stun_message_create r MS_STUN_TYPE_REQUEST MS_STUN_METHOD_BINDING"

definition ms_stun_binding_success_response_create :: "u32 \<times> u32 \<times> u32 \<Rightarrow> MSStunMessage" where
  "ms_stun_binding_success_response_create r =
     ms_stun_message_create r MS_STUN_TYPE_SUCCESS_RESPONSE MS_STUN_METHOD_BINDING"

definition ms_stun_binding_error_response_create :: "u32 \<times> u32 \<times> u32 \<Rightarrow> MSStunMessage" where
  "ms_stun_binding_error_response_create r =
     ms_stun_message_create r MS_STUN_TYPE_ERROR_RESPONSE MS_STUN_METHOD_BINDING"

definition ms_stun_binding_indication_create :: "u32 \<times> u32 \<times> u32 \<Rightarrow> MSStunMessage" where
  "ms_stun_binding_indication_create r =
     ms_stun_message_create r MS_STUN_TYPE_INDICATION MS_STUN_METHOD_BINDING"

definition ms_stun_message_is_request :: "MSStunMessage \<Rightarrow> bool" where
  "ms_stun_message_is_request msg = (sm_type msg AND 0x0110 = MS_STUN_TYPE_REQUEST)"

definition ms_stun_message_is_success_response :: "MSStunMessage \<Rightarrow> bool" where
  "ms_stun_message_is_success_response msg = (sm_type msg AND 0x0110 = MS_STUN_TYPE_SUCCESS_RESPONSE)"

definition ms_stun_message_is_error_response :: "MSStunMessage \<Rightarrow> bool" where
  "ms_stun_message_is_error_response msg = (sm_type msg AND 0x0110 = MS_STUN_TYPE_ERROR_RESPONSE)"

definition ms_stun_message_is_indication :: "MSStunMessage \<Rightarrow> bool" where
  "ms_stun_message_is_indication msg = (sm_type msg AND 0x0110 = MS_STUN_TYPE_INDICATION)"

definition ms_turn_allocate_request_create :: "u32 \<times> u32 \<times> u32 \<Rightarrow> MSStunMessage" where
  "ms_turn_allocate_request_create r =
     (ms_stun_message_create r MS_STUN_TYPE_REQUEST MS_TURN_METHOD_ALLOCATE)
       \<lparr>sm_requested_transport := IANA_PROTOCOL_NUMBERS_UDP, sm_has_requested_transport := True\<rparr>"

definition ms_turn_refresh_request_create :: "u32 \<times> u32 \<times> u32 \<Rightarrow> u32 \<Rightarrow> MSStunMessage" where
  "ms_turn_refresh_request_create r v =
     ms_stun_message_set_lifetime (ms_stun_message_create r MS_STUN_TYPE_REQUEST MS_TURN_METHOD_REFRESH) v"

definition ms_turn_create_permission_request_create :: "u32 \<times> u32 \<times> u32 \<Rightarrow> MSStunAddress \<Rightarrow> MSStunMessage" where
  "ms_turn_create_permission_request_create r a =
     ms_stun_message_set_xor_peer_address
       (ms_stun_message_create r MS_STUN_TYPE_REQUEST MS_TURN_METHOD_CREATE_PERMISSION) a"

definition ms_turn_send_indication_create :: "u32 \<times> u32 \<times> u32 \<Rightarrow> MSStunAddress \<Rightarrow> MSStunMessage" where
  "ms_turn_send_indication_create r a =
     ms_stun_message_set_xor_peer_address
       (ms_stun_message_create r MS_STUN_TYPE_INDICATION MS_TURN_METHOD_SEND) a"

definition ms_turn_channel_bind_request_create :: "u32 \<times> u32 \<times> u32 \<Rightarrow> MSStunAddress \<Rightarrow> u16 \<Rightarrow> MSStunMessage" where
  "ms_turn_channel_bind_request_create r a n =
     ms_stun_message_set_channel_number
       (ms_stun_message_set_xor_peer_address
         (ms_stun_message_create r MS_STUN_TYPE_REQUEST MS_TURN_METHOD_CHANNEL_BIND) a) n"

section \<open>Basic facts\<close>

definition c_string :: "bytes \<Rightarrow> bool" where
  "c_string s \<longleftrightarrow> 0 \<notin> set s"

lemma cstr_id [simp]: "c_string s \<Longrightarrow> cstr s = s"
  by (auto simp: cstr_def c_string_def takeWhile_eq_all_conv)

lemma c_string_cstr [simp]: "c_string (cstr s)"
  by (auto simp: cstr_def c_string_def dest: set_takeWhileD)

text \<open>Xoring an address twice with the same identifier restores it.\<close>

lemma map2_xor_cancel:
  "length ys = length xs \<Longrightarrow> map2 (XOR) (map2 (XOR) xs ys) ys = (xs :: bytes)"
  by (induction xs ys rule: list_induct2') (auto simp: xor.assoc)

lemma stun_address_xor_involution:
  assumes "length tr_id = 12" "length (sa_v6 a) = 16"
  shows "stun_address_xor (stun_address_xor a tr_id) tr_id = a"
  using assms by (simp add: stun_address_xor_def map2_xor_cancel xor.assoc)

lemma stun_address_xor_same_shape [simp]:
  "sa_fam (stun_address_xor a t) = sa_fam a"
  "length t = 12 \<Longrightarrow> length (sa_v6 a) = 16 \<Longrightarrow> length (sa_v6 (stun_address_xor a t)) = 16"
  by (simp_all add: stun_address_xor_def)

lemma length_random_tr_id:
  "length (sm_tr_id (ms_stun_message_set_random_tr_id r msg)) = 12"
  by (simp add: ms_stun_message_set_random_tr_id_def ms_stun_message_set_tr_id_def split: prod.splits)

lemma ms_compare_stun_addresses_sym:
  "ms_compare_stun_addresses a b = ms_compare_stun_addresses b a"
  by (auto simp: ms_compare_stun_addresses_def)

end
