(* ===== verification/Stun_Encode.thy ===== *)
theory Stun_Encode
  imports Stun_Message
begin

text \<open>
  The encoder of STUN messages of \<open>mediastreamer2/src/voip/stun.c\<close>: a buffer that grows
  by doubling, one writer per attribute, the message integrity and the fingerprint, and
  \<open>ms_stun_message_encode\<close>.

  A position in the buffer is its distance from \<open>buffer\<close>; a write outside the allocated
  block, or through the NULL \<open>lenptr\<close>, is \<open>None\<close>. The content of memory that \<open>malloc\<close> or
  \<open>realloc\<close> returns is the arbitrary function \<open>se_junk\<close>. Sizes are natural numbers: a message is
  far below the range of \<open>size_t\<close>. The growth loop may run forever on an arbitrary encoder
  (a zero \<open>cursize\<close>), hence a partial function; encoders that \<open>stun_message_encoder_init\<close> made
  never do. HMAC-SHA1 and MD5 of bctoolbox are the fields of an environment record.
\<close>

section \<open>The growing buffer\<close>

record StunMessageEncoder =
  se_buffer :: bytes
  se_ptr :: nat
  se_lenptr :: "nat option"
  se_cursize :: nat
  se_remaining :: nat
  se_junk :: "nat \<Rightarrow> u8"

definition stun_message_encoder_init :: "(nat \<Rightarrow> u8) \<Rightarrow> StunMessageEncoder" where
  "stun_message_encoder_init junk =
     \<lparr>se_buffer = map junk [0..<128], se_ptr = 0, se_lenptr = None, se_cursize = 128,
      se_remaining = 128, se_junk = junk\<rparr>"

definition encoder_grow :: "StunMessageEncoder \<Rightarrow> StunMessageEncoder" where
  "encoder_grow e =
     (let offset = se_ptr e; cursize = se_cursize e * 2
      in e\<lparr>se_cursize := cursize,
           se_buffer := se_buffer e @ map (se_junk e) [length (se_buffer e)..<cursize],
           se_lenptr := Some 2,
           se_remaining := cursize - offset\<rparr>)"

partial_function (option) stun_message_encoder_check_size ::
    "StunMessageEncoder \<Rightarrow> nat \<Rightarrow> StunMessageEncoder option" where
  "stun_message_encoder_check_size e sz =
     (if se_remaining e < sz then stun_message_encoder_check_size (encoder_grow e) sz else Some e)"

definition stun_message_encoder_get_message_length :: "StunMessageEncoder \<Rightarrow> nat" where
  "stun_message_encoder_get_message_length e = se_ptr e"

definition stun_message_encoder_memcpy :: "StunMessageEncoder \<Rightarrow> bytes \<Rightarrow> StunMessageEncoder option" where
  "stun_message_encoder_memcpy e src = do {
     e \<leftarrow> stun_message_encoder_check_size e (length src);
     b \<leftarrow> wr_block (se_buffer e) (se_ptr e) src;
     Some (e\<lparr>se_buffer := b, se_remaining := se_remaining e - length src,
             se_ptr := se_ptr e + length src\<rparr>) }"

definition encode8 :: "StunMessageEncoder \<Rightarrow> u8 \<Rightarrow> StunMessageEncoder option" where
  "encode8 e d = stun_message_encoder_memcpy e [d]"

definition encode16 :: "StunMessageEncoder \<Rightarrow> u16 \<Rightarrow> StunMessageEncoder option" where
  "encode16 e d = stun_message_encoder_memcpy e (enc16 d)"

definition encode32 :: "StunMessageEncoder \<Rightarrow> u32 \<Rightarrow> StunMessageEncoder option" where
  "encode32 e d = stun_message_encoder_memcpy e (enc32 d)"

text \<open>\<open>htonq\<close> puts the high half first.\<close>

definition enc64 :: "u64 \<Rightarrow> bytes" where
  "enc64 v = enc32 (ucast (drop_bit 32 v)) @ enc32 (ucast v)"

definition encode64 :: "StunMessageEncoder \<Rightarrow> u64 \<Rightarrow> StunMessageEncoder option" where
  "encode64 e d = stun_message_encoder_memcpy e (enc64 d)"

definition encode :: "StunMessageEncoder \<Rightarrow> bytes \<Rightarrow> StunMessageEncoder option" where
  "encode e src = stun_message_encoder_memcpy e src"

definition encode_message_length :: "StunMessageEncoder \<Rightarrow> nat \<Rightarrow> StunMessageEncoder option" where
  "encode_message_length e len = do {
     p \<leftarrow> se_lenptr e;
     b \<leftarrow> wr_block (se_buffer e) p (enc16 (of_nat len));
     Some (e\<lparr>se_buffer := b\<rparr>) }"

fun encode_padding :: "StunMessageEncoder \<Rightarrow> nat \<Rightarrow> StunMessageEncoder option" where
  "encode_padding e 0 = Some e"
| "encode_padding e (Suc n) = do { e \<leftarrow> encode8 e 0; encode_padding e n }"

section \<open>Message header and attributes\<close>

definition encode_message_header ::
    "StunMessageEncoder \<Rightarrow> u16 \<Rightarrow> u16 \<Rightarrow> bytes \<Rightarrow> StunMessageEncoder option" where
  "encode_message_header e ty me tr_id = do {
     e \<leftarrow> encode16 e (ty OR me);
     let e = e\<lparr>se_lenptr := Some (se_ptr e)\<rparr>;
     e \<leftarrow> encode16 e 0;
     e \<leftarrow> encode32 e MS_STUN_MAGIC_COOKIE;
     encode e tr_id }"

definition encode_addr :: "StunMessageEncoder \<Rightarrow> u16 \<Rightarrow> MSStunAddress \<Rightarrow> StunMessageEncoder option" where
  "encode_addr e ty a = do {
     e \<leftarrow> encode16 e ty;
     e \<leftarrow> (if sa_fam a = MS_STUN_ADDR_FAMILY_IPV6 then encode16 e 20 else encode16 e 8);
     e \<leftarrow> encode8 e 0;
     e \<leftarrow> encode8 e (sa_fam a);
     if sa_fam a = MS_STUN_ADDR_FAMILY_IPV6 then do {
       e \<leftarrow> encode16 e (sa_port a);
       encode e (sa_v6 a) }
     else do {
       e \<leftarrow> encode16 e (sa_port a);
       encode32 e (sa_v4 a) } }"

definition encode_xor_addr ::
    "StunMessageEncoder \<Rightarrow> u16 \<Rightarrow> MSStunAddress \<Rightarrow> bytes \<Rightarrow> StunMessageEncoder option" where
  "encode_xor_addr e ty a tr_id = encode_addr e ty (stun_address_xor a tr_id)"

definition encode_change_request :: "StunMessageEncoder \<Rightarrow> u32 \<Rightarrow> StunMessageEncoder option" where
  "encode_change_request e v = do {
     e \<leftarrow> encode16 e MS_STUN_ATTR_CHANGE_REQUEST;
     e \<leftarrow> encode16 e 4;
     encode32 e v }"

definition encode_string ::
    "StunMessageEncoder \<Rightarrow> u16 \<Rightarrow> bytes \<Rightarrow> nat \<Rightarrow> StunMessageEncoder option" where
  "encode_string e ty s max_length = do {
     let len = (if length s > max_length then max_length else length s);
     let padding = 4 - len mod 4;
     e \<leftarrow> encode16 e ty;
     e \<leftarrow> encode16 e (of_nat len);
     e \<leftarrow> encode e (take len s);
     if padding < 4 then encode_padding e padding else Some e }"

text \<open>The reason is not truncated here.\<close>

definition encode_error_code ::
    "StunMessageEncoder \<Rightarrow> u16 \<Rightarrow> bytes option \<Rightarrow> StunMessageEncoder option" where
  "encode_error_code e number reason = do {
     let reason_len = (case reason of None \<Rightarrow> 0 | Some r \<Rightarrow> length r);
     e \<leftarrow> encode16 e MS_STUN_ATTR_ERROR_CODE;
     e \<leftarrow> encode16 e (4 + of_nat reason_len);
     e \<leftarrow> encode16 e 0;
     e \<leftarrow> encode8 e (ucast (number div 100));
     e \<leftarrow> encode8 e (ucast (number - (number div 100) * 100));
     e \<leftarrow> (case reason of None \<Rightarrow> Some e | Some r \<Rightarrow> encode e r);
     let padding = 4 - reason_len mod 4;
     if padding < 4 then encode_padding e padding else Some e }"

definition encode_priority :: "StunMessageEncoder \<Rightarrow> u32 \<Rightarrow> StunMessageEncoder option" where
  "encode_priority e v = do {
     e \<leftarrow> encode16 e MS_ICE_ATTR_PRIORITY;
     e \<leftarrow> encode16 e 4;
     encode32 e v }"

definition encode_use_candidate :: "StunMessageEncoder \<Rightarrow> StunMessageEncoder option" where
  "encode_use_candidate e = do {
     e \<leftarrow> encode16 e MS_ICE_ATTR_USE_CANDIDATE;
     encode16 e 0 }"

definition encode_ice_control :: "StunMessageEncoder \<Rightarrow> u16 \<Rightarrow> u64 \<Rightarrow> StunMessageEncoder option" where
  "encode_ice_control e ty v = do {
     e \<leftarrow> encode16 e ty;
     e \<leftarrow> encode16 e 8;
     encode64 e v }"

definition encode_requested_transport :: "StunMessageEncoder \<Rightarrow> u8 \<Rightarrow> StunMessageEncoder option" where
  "encode_requested_transport e v = do {
     e \<leftarrow> encode16 e MS_TURN_ATTR_REQUESTED_TRANSPORT;
     e \<leftarrow> encode16 e 4;
     e \<leftarrow> encode8 e v;
     e \<leftarrow> encode8 e 0;
     encode16 e 0 }"

definition encode_requested_address_family :: "StunMessageEncoder \<Rightarrow> u8 \<Rightarrow> StunMessageEncoder option" where
  "encode_requested_address_family e v = do {
     e \<leftarrow> encode16 e MS_TURN_ATTR_REQUESTED_ADDRESS_FAMILY;
     e \<leftarrow> encode16 e 4;
     e \<leftarrow> encode8 e v;
     e \<leftarrow> encode8 e 0;
     encode16 e 0 }"

definition encode_lifetime :: "StunMessageEncoder \<Rightarrow> u32 \<Rightarrow> StunMessageEncoder option" where
  "encode_lifetime e v = do {
     e \<leftarrow> encode16 e MS_TURN_ATTR_LIFETIME;
     e \<leftarrow> encode16 e 4;
     encode32 e v }"

definition encode_channel_number :: "StunMessageEncoder \<Rightarrow> u16 \<Rightarrow> StunMessageEncoder option" where
  "encode_channel_number e v = do {
     e \<leftarrow> encode16 e MS_TURN_ATTR_CHANNEL_NUMBER;
     e \<leftarrow> encode16 e 4;
     e \<leftarrow> encode16 e v;
     encode16 e 0 }"

definition encode_data :: "StunMessageEncoder \<Rightarrow> bytes \<Rightarrow> u16 \<Rightarrow> StunMessageEncoder option" where
  "encode_data e d datalen = do {
     let padding = 4 - unat datalen mod 4;
     e \<leftarrow> encode16 e MS_TURN_ATTR_DATA;
     e \<leftarrow> encode16 e datalen;
     src \<leftarrow> rd_block d 0 (unat datalen);
     e \<leftarrow> encode e src;
     if padding < 4 then encode_padding e padding else Some e }"

section \<open>Integrity and fingerprint\<close>

record stun_env =
  hmacSha1 :: "bytes \<Rightarrow> bytes \<Rightarrow> bytes"
  md5 :: "bytes \<Rightarrow> bytes"

definition ms_stun_calculate_integrity_short_term :: "stun_env \<Rightarrow> bytes \<Rightarrow> bytes \<Rightarrow> bytes" where
  "ms_stun_calculate_integrity_short_term env buf key = hmacSha1 env key buf"

definition hex_digit :: "u8 \<Rightarrow> u8 option" where
  "hex_digit c =
     (if 48 \<le> c \<and> c \<le> 57 then Some (c - 48)
      else if 65 \<le> c \<and> c \<le> 70 then Some (c - 55)
      else if 97 \<le> c \<and> c \<le> 102 then Some (c - 87)
      else None)"

text \<open>\<open>strtol\<close> in base 0 on \<open>0x\<close> and two characters stops at the first that is no digit.\<close>

definition strtol_0x :: "u8 \<Rightarrow> u8 \<Rightarrow> u8" where
  "strtol_0x a b =
     (case hex_digit a of
        None \<Rightarrow> 0
      | Some x \<Rightarrow> (case hex_digit b of None \<Rightarrow> x | Some y \<Rightarrow> 16 * x + y))"

text \<open>The loop over \<open>ha1_text\<close>, at most \<open>n\<close> bytes; the character after the last one is its NUL.\<close>

fun ha1_of_text :: "nat \<Rightarrow> bytes \<Rightarrow> bytes" where
  "ha1_of_text 0 s = []"
| "ha1_of_text (Suc n) [] = replicate (Suc n) 0"
| "ha1_of_text (Suc n) [a] = strtol_0x a 0 # replicate n 0"
| "ha1_of_text (Suc n) (a # b # s) = strtol_0x a b # ha1_of_text n s"

definition ms_stun_calculate_integrity_long_term_from_ha1 :: "stun_env \<Rightarrow> bytes \<Rightarrow> bytes \<Rightarrow> bytes" where
  "ms_stun_calculate_integrity_long_term_from_ha1 env buf ha1_text =
     hmacSha1 env (ha1_of_text 16 ha1_text) buf"

text \<open>\<open>snprintf\<close> keeps 1023 bytes of \<open>username:realm:password\<close>.\<close>

definition ms_stun_calculate_integrity_long_term ::
    "stun_env \<Rightarrow> bytes \<Rightarrow> bytes \<Rightarrow> bytes \<Rightarrow> bytes \<Rightarrow> bytes" where
  "ms_stun_calculate_integrity_long_term env buf realm username password =
     (let ha1_text = take 1023 (username @ [58] @ realm @ [58] @ password)
      in hmacSha1 env (md5 env ha1_text) buf)"

definition encode_integrity :: "StunMessageEncoder \<Rightarrow> bytes \<Rightarrow> StunMessageEncoder option" where
  "encode_integrity e hmac = do {
     e \<leftarrow> encode16 e MS_STUN_ATTR_MESSAGE_INTEGRITY;
     e \<leftarrow> encode16 e 20;
     src \<leftarrow> rd_block hmac 0 20;
     encode e src }"

definition encode_long_term_integrity_from_ha1 ::
    "stun_env \<Rightarrow> StunMessageEncoder \<Rightarrow> bytes \<Rightarrow> StunMessageEncoder option" where
  "encode_long_term_integrity_from_ha1 env e ha1_text = do {
     let message_length = stun_message_encoder_get_message_length e;
     e \<leftarrow> encode_message_length e (message_length - STUN_MESSAGE_HEADER_LENGTH + 24);
     buf \<leftarrow> rd_block (se_buffer e) 0 message_length;
     encode_integrity e (ms_stun_calculate_integrity_long_term_from_ha1 env buf ha1_text) }"

definition encode_long_term_integrity ::
    "stun_env \<Rightarrow> StunMessageEncoder \<Rightarrow> bytes \<Rightarrow> bytes \<Rightarrow> bytes \<Rightarrow> StunMessageEncoder option" where
  "encode_long_term_integrity env e realm username password = do {
     let message_length = stun_message_encoder_get_message_length e;
     e \<leftarrow> encode_message_length e (message_length - STUN_MESSAGE_HEADER_LENGTH + 24);
     buf \<leftarrow> rd_block (se_buffer e) 0 message_length;
     encode_integrity e (ms_stun_calculate_integrity_long_term env buf realm username password) }"

definition dummy_hmac :: bytes where
  "dummy_hmac = map of_char ''hmac-not-implemented''"

definition encode_short_term_integrity ::
    "stun_env \<Rightarrow> StunMessageEncoder \<Rightarrow> bytes \<Rightarrow> bool \<Rightarrow> StunMessageEncoder option" where
  "encode_short_term_integrity env e password dummy = do {
     let message_length = stun_message_encoder_get_message_length e;
     e \<leftarrow> encode_message_length e (message_length - STUN_MESSAGE_HEADER_LENGTH + 24);
     hmac \<leftarrow> (if dummy then Some dummy_hmac
             else do {
               buf \<leftarrow> rd_block (se_buffer e) 0 message_length;
               Some (ms_stun_calculate_integrity_short_term env buf password) });
     encode_integrity e hmac }"

definition crc32_tab :: "u32 list" where
  "crc32_tab = [
    0x00000000, 0x77073096, 0xee0e612c, 0x990951ba, 0x076dc419, 0x706af48f, 0xe963a535, 0x9e6495a3,
    0x0edb8832, 0x79dcb8a4, 0xe0d5e91e, 0x97d2d988, 0x09b64c2b, 0x7eb17cbd, 0xe7b82d07, 0x90bf1d91,
    0x1db71064, 0x6ab020f2, 0xf3b97148, 0x84be41de, 0x1adad47d, 0x6ddde4eb, 0xf4d4b551, 0x83d385c7,
    0x136c9856, 0x646ba8c0, 0xfd62f97a, 0x8a65c9ec, 0x14015c4f, 0x63066cd9, 0xfa0f3d63, 0x8d080df5,
    0x3b6e20c8, 0x4c69105e, 0xd56041e4, 0xa2677172, 0x3c03e4d1, 0x4b04d447, 0xd20d85fd, 0xa50ab56b,
    0x35b5a8fa, 0x42b2986c, 0xdbbbc9d6, 0xacbcf940, 0x32d86ce3, 0x45df5c75, 0xdcd60dcf, 0xabd13d59,
    0x26d930ac, 0x51de003a, 0xc8d75180, 0xbfd06116, 0x21b4f4b5, 0x56b3c423, 0xcfba9599, 0xb8bda50f,
    0x2802b89e, 0x5f058808, 0xc60cd9b2, 0xb10be924, 0x2f6f7c87, 0x58684c11, 0xc1611dab, 0xb6662d3d,
    0x76dc4190, 0x01db7106, 0x98d220bc, 0xefd5102a, 0x71b18589, 0x06b6b51f, 0x9fbfe4a5, 0xe8b8d433,
    0x7807c9a2, 0x0f00f934, 0x9609a88e, 0xe10e9818, 0x7f6a0dbb, 0x086d3d2d, 0x91646c97, 0xe6635c01,
    0x6b6b51f4, 0x1c6c6162, 0x856530d8, 0xf262004e, 0x6c0695ed, 0x1b01a57b, 0x8208f4c1, 0xf50fc457,
    0x65b0d9c6, 0x12b7e950, 0x8bbeb8ea, 0xfcb9887c, 0x62dd1ddf, 0x15da2d49, 0x8cd37cf3, 0xfbd44c65,
    0x4db26158, 0x3ab551ce, 0xa3bc0074, 0xd4bb30e2, 0x4adfa541, 0x3dd895d7, 0xa4d1c46d, 0xd3d6f4fb,
    0x4369e96a, 0x346ed9fc, 0xad678846, 0xda60b8d0, 0x44042d73, 0x33031de5, 0xaa0a4c5f, 0xdd0d7cc9,
    0x5005713c, 0x270241aa, 0xbe0b1010, 0xc90c2086, 0x5768b525, 0x206f85b3, 0xb966d409, 0xce61e49f,
    0x5edef90e, 0x29d9c998, 0xb0d09822, 0xc7d7a8b4, 0x59b33d17, 0x2eb40d81, 0xb7bd5c3b, 0xc0ba6cad,
    0xedb88320, 0x9abfb3b6, 0x03b6e20c, 0x74b1d29a, 0xead54739, 0x9dd277af, 0x04db2615, 0x73dc1683,
    0xe3630b12, 0x94643b84, 0x0d6d6a3e, 0x7a6a5aa8, 0xe40ecf0b, 0x9309ff9d, 0x0a00ae27, 0x7d079eb1,
    0xf00f9344, 0x8708a3d2, 0x1e01f268, 0x6906c2fe, 0xf762575d, 0x806567cb, 0x196c3671, 0x6e6b06e7,
    0xfed41b76, 0x89d32be0, 0x10da7a5a, 0x67dd4acc, 0xf9b9df6f, 0x8ebeeff9, 0x17b7be43, 0x60b08ed5,
    0xd6d6a3e8, 0xa1d1937e, 0x38d8c2c4, 0x4fdff252, 0xd1bb67f1, 0xa6bc5767, 0x3fb506dd, 0x48b2364b,
    0xd80d2bda, 0xaf0a1b4c, 0x36034af6, 0x41047a60, 0xdf60efc3, 0xa867df55, 0x316e8eef, 0x4669be79,
    0xcb61b38c, 0xbc66831a, 0x256fd2a0, 0x5268e236, 0xcc0c7795, 0xbb0b4703, 0x220216b9, 0x5505262f,
    0xc5ba3bbe, 0xb2bd0b28, 0x2bb45a92, 0x5cb36a04, 0xc2d7ffa7, 0xb5d0cf31, 0x2cd99e8b, 0x5bdeae1d,
    0x9b64c2b0, 0xec63f226, 0x756aa39c, 0x026d930a, 0x9c0906a9, 0xeb0e363f, 0x72076785, 0x05005713,
    0x95bf4a82, 0xe2b87a14, 0x7bb12bae, 0x0cb61b38, 0x92d28e9b, 0xe5d5be0d, 0x7cdcefb7, 0x0bdbdf21,
    0x86d3d2d4, 0xf1d4e242, 0x68ddb3f8, 0x1fda836e, 0x81be16cd, 0xf6b9265b, 0x6fb077e1, 0x18b74777,
    0x88085ae6, 0xff0f6a70, 0x66063bca, 0x11010b5c, 0x8f659eff, 0xf862ae69, 0x616bffd3, 0x166ccf45,
    0xa00ae278, 0xd70dd2ee, 0x4e048354, 0x3903b3c2, 0xa7672661, 0xd06016f7, 0x4969474d, 0x3e6e77db,
    0xaed16a4a, 0xd9d65adc, 0x40df0b66, 0x37d83bf0, 0xa9bcae53, 0xdebb9ec5, 0x47b2cf7f, 0x30b5ffe9,
    0xbdbdf21c, 0xcabac28a, 0x53b39330, 0x24b4a3a6, 0xbad03605, 0xcdd70693, 0x54de5729, 0x23d967bf,
    0xb3667a2e, 0xc4614ab8, 0x5d681b02, 0x2a6f2b94, 0xb40bbe37, 0xc30c8ea1, 0x5a05df1b, 0x2d02ef8d]"

definition crc32_step :: "u32 \<Rightarrow> u8 \<Rightarrow> u32" where
  "crc32_step crc p = crc32_tab ! unat ((crc XOR ucast p) AND 0xFF) XOR drop_bit 8 crc"

definition ms_stun_calculate_fingerprint :: "bytes \<Rightarrow> u32" where
  "ms_stun_calculate_fingerprint buf = foldl crc32_step (NOT 0) buf XOR NOT 0"

definition encode_fingerprint :: "StunMessageEncoder \<Rightarrow> StunMessageEncoder option" where
  "encode_fingerprint e = do {
     let message_length = stun_message_encoder_get_message_length e;
     e \<leftarrow> encode_message_length e (message_length - STUN_MESSAGE_HEADER_LENGTH + 8);
     buf \<leftarrow> rd_block (se_buffer e) 0 message_length;
     e \<leftarrow> encode16 e MS_STUN_ATTR_FINGERPRINT;
     e \<leftarrow> encode16 e 4;
     encode32 e (ms_stun_calculate_fingerprint buf XOR 0x5354554E) }"

section \<open>The message\<close>

text \<open>\<open>if (...) encode_...\<close>, and the same on a pointer that may be NULL.\<close>

definition enc_when :: "bool \<Rightarrow> (StunMessageEncoder \<Rightarrow> StunMessageEncoder option) \<Rightarrow>
    StunMessageEncoder \<Rightarrow> StunMessageEncoder option" where
  "enc_when c f e = (if c then f e else Some e)"

definition enc_opt :: "'a option \<Rightarrow> ('a \<Rightarrow> StunMessageEncoder \<Rightarrow> StunMessageEncoder option) \<Rightarrow>
    StunMessageEncoder \<Rightarrow> StunMessageEncoder option" where
  "enc_opt p f e = (case p of None \<Rightarrow> Some e | Some x \<Rightarrow> f x e)"

definition encode_message_integrity ::
    "stun_env \<Rightarrow> MSStunMessage \<Rightarrow> StunMessageEncoder \<Rightarrow> StunMessageEncoder option" where
  "encode_message_integrity env msg e =
     (case sm_ha1 msg of
        Some ha1 \<Rightarrow> encode_long_term_integrity_from_ha1 env e ha1
      | None \<Rightarrow>
         (case (ms_stun_message_get_username msg, ms_stun_message_get_password msg) of
            (Some username, Some password) \<Rightarrow>
              if length username > 0 \<and> length password > 0
              then (case ms_stun_message_get_realm msg of
                      Some realm \<Rightarrow>
                        if length realm > 0 then encode_long_term_integrity env e realm username password
                        else encode_short_term_integrity env e password
                               (ms_stun_message_dummy_message_integrity_enabled msg)
                    | None \<Rightarrow> encode_short_term_integrity env e password
                               (ms_stun_message_dummy_message_integrity_enabled msg))
              else Some e
          | _ \<Rightarrow> Some e))"

definition ms_stun_message_encode ::
    "stun_env \<Rightarrow> (nat \<Rightarrow> u8) \<Rightarrow> MSStunMessage \<Rightarrow> (nat \<times> bytes) option" where
  "ms_stun_message_encode env junk msg = do {
     let e = stun_message_encoder_init junk;
     e \<leftarrow> encode_message_header e (sm_type msg) (sm_method msg) (sm_tr_id msg);
     e \<leftarrow> enc_opt (ms_stun_message_get_mapped_address msg)
            (\<lambda>a e. encode_addr e MS_STUN_ATTR_MAPPED_ADDRESS a) e;
     e \<leftarrow> enc_when (sm_change_request msg \<noteq> 0)
            (\<lambda>e. encode_change_request e (sm_change_request msg)) e;
     e \<leftarrow> enc_opt (sm_username msg)
            (\<lambda>s e. encode_string e MS_STUN_ATTR_USERNAME s STUN_MAX_USERNAME_LENGTH) e;
     e \<leftarrow> enc_opt (sm_realm msg)
            (\<lambda>s e. encode_string e MS_STUN_ATTR_REALM s STUN_MAX_REALM_LENGTH) e;
     e \<leftarrow> enc_opt (sm_nonce msg)
            (\<lambda>s e. encode_string e MS_STUN_ATTR_NONCE s STUN_MAX_NONCE_LENGTH) e;
     e \<leftarrow> enc_when (ms_stun_message_has_error_code msg)
            (\<lambda>e. case ms_stun_message_get_error_code msg of
                   (number, reason) \<Rightarrow> encode_error_code e number reason) e;
     e \<leftarrow> enc_opt (ms_stun_message_get_xor_mapped_address msg)
            (\<lambda>a e. encode_xor_addr e MS_STUN_ATTR_XOR_MAPPED_ADDRESS a (sm_tr_id msg)) e;
     e \<leftarrow> enc_opt (ms_stun_message_get_xor_peer_address msg)
            (\<lambda>a e. encode_xor_addr e MS_TURN_ATTR_XOR_PEER_ADDRESS a (sm_tr_id msg)) e;
     e \<leftarrow> enc_opt (ms_stun_message_get_xor_relayed_address msg)
            (\<lambda>a e. encode_xor_addr e MS_TURN_ATTR_XOR_RELAYED_ADDRESS a (sm_tr_id msg)) e;
     e \<leftarrow> enc_when (ms_stun_message_has_requested_transport msg)
            (\<lambda>e. encode_requested_transport e (ms_stun_message_get_requested_transport msg)) e;
     e \<leftarrow> enc_when (ms_stun_message_has_requested_address_family msg)
            (\<lambda>e. encode_requested_address_family e (ms_stun_message_get_requested_address_family msg)) e;
     e \<leftarrow> enc_when (ms_stun_message_has_lifetime msg)
            (\<lambda>e. encode_lifetime e (ms_stun_message_get_lifetime msg)) e;
     e \<leftarrow> enc_when (ms_stun_message_has_channel_number msg)
            (\<lambda>e. encode_channel_number e (ms_stun_message_get_channel_number msg)) e;
     e \<leftarrow> enc_opt (if ms_stun_message_get_data_length msg > 0 then ms_stun_message_get_data msg else None)
            (\<lambda>d e. encode_data e d (ms_stun_message_get_data_length msg)) e;
     e \<leftarrow> enc_when (ms_stun_message_has_priority msg)
            (\<lambda>e. encode_priority e (ms_stun_message_get_priority msg)) e;
     e \<leftarrow> enc_when (ms_stun_message_use_candidate_enabled msg) encode_use_candidate e;
     e \<leftarrow> enc_when (ms_stun_message_has_ice_controlled msg)
            (\<lambda>e. encode_ice_control e MS_ICE_ATTR_ICE_CONTROLLED (ms_stun_message_get_ice_controlled msg)) e;
     e \<leftarrow> enc_when (ms_stun_message_has_ice_controlling msg)
            (\<lambda>e. encode_ice_control e MS_ICE_ATTR_ICE_CONTROLLING (ms_stun_message_get_ice_controlling msg)) e;
     e \<leftarrow> enc_when (ms_stun_message_message_integrity_enabled msg) (encode_message_integrity env msg) e;
     e \<leftarrow> enc_when (ms_stun_message_fingerprint_enabled msg) encode_fingerprint e;
     let message_length = stun_message_encoder_get_message_length e;
     e \<leftarrow> encode_message_length e (message_length - STUN_MESSAGE_HEADER_LENGTH);
     Some (message_length, se_buffer e) }"

end
