(* ===== verification/Stun_Decode.thy ===== *)
theory Stun_Decode
  imports Stun_Encode
begin

text \<open>
  The parser of STUN messages of \<open>mediastreamer2/src/voip/stun.c\<close>: the decoder with its error
  flag, one reader per attribute, and \<open>ms_stun_message_create_from_buffer_parsing\<close>.

  The decoder reads before it checks: \<open>sd_remaining\<close> goes negative and \<open>sd_error\<close> is raised
  after the bytes were read. \<open>sd_buffer\<close> is the memory object the message is in, which may be
  longer than the message; a read outside that object is \<open>None\<close>, as is the call of \<open>strcmp\<close> on
  a NULL integrity. A result \<open>Some None\<close> of the parser is the return of NULL.
\<close>

section \<open>Decoder\<close>

record StunMessageDecoder =
  sd_buffer :: bytes
  sd_ptr :: nat
  sd_size :: int
  sd_remaining :: int
  sd_error :: bool

definition stun_message_decoder_init :: "bytes \<Rightarrow> int \<Rightarrow> StunMessageDecoder" where
  "stun_message_decoder_init buf bufsize =
     \<lparr>sd_buffer = buf, sd_ptr = 0, sd_size = bufsize, sd_remaining = bufsize, sd_error = False\<rparr>"

text \<open>The pointer moves on and \<open>error\<close> is raised below zero: the tail of every primitive reader.\<close>

definition decoder_advance :: "nat \<Rightarrow> StunMessageDecoder \<Rightarrow> StunMessageDecoder" where
  "decoder_advance n d =
     d\<lparr>sd_ptr := sd_ptr d + n, sd_remaining := sd_remaining d - int n,
       sd_error := sd_error d \<or> sd_remaining d - int n < 0\<rparr>"

definition decode8 :: "StunMessageDecoder \<Rightarrow> (u8 \<times> StunMessageDecoder) option" where
  "decode8 d = do { v \<leftarrow> rd8 (sd_buffer d) (sd_ptr d); Some (v, decoder_advance 1 d) }"

definition decode16 :: "StunMessageDecoder \<Rightarrow> (u16 \<times> StunMessageDecoder) option" where
  "decode16 d = do { v \<leftarrow> rd16 (sd_buffer d) (sd_ptr d); Some (v, decoder_advance 2 d) }"

definition decode32 :: "StunMessageDecoder \<Rightarrow> (u32 \<times> StunMessageDecoder) option" where
  "decode32 d = do { v \<leftarrow> rd32 (sd_buffer d) (sd_ptr d); Some (v, decoder_advance 4 d) }"

text \<open>\<open>ntohq\<close>: the high half comes first.\<close>

definition decode64 :: "StunMessageDecoder \<Rightarrow> (u64 \<times> StunMessageDecoder) option" where
  "decode64 d = do {
     hi \<leftarrow> rd32 (sd_buffer d) (sd_ptr d);
     lo \<leftarrow> rd32 (sd_buffer d) (sd_ptr d + 4);
     Some (push_bit 32 (ucast hi) OR ucast lo, decoder_advance 8 d) }"

text \<open>A pointer to the bytes, which the caller reads.\<close>

definition decode :: "StunMessageDecoder \<Rightarrow> nat \<Rightarrow> nat \<times> StunMessageDecoder" where
  "decode d len = (sd_ptr d, decoder_advance len d)"

definition decoder_fail :: "StunMessageDecoder \<Rightarrow> StunMessageDecoder" where
  "decoder_fail d = d\<lparr>sd_error := True\<rparr>"

section \<open>Header and attributes\<close>

definition decode_message_header ::
    "StunMessageDecoder \<Rightarrow> MSStunMessage \<Rightarrow> (MSStunMessage \<times> StunMessageDecoder) option" where
  "decode_message_header d msg = do {
     (ty, d) \<leftarrow> decode16 d;
     let msg = msg\<lparr>sm_type := ty AND 0x0110, sm_method := ty AND 0x3EEF\<rparr>;
     (len, d) \<leftarrow> decode16 d;
     let msg = msg\<lparr>sm_length := len\<rparr>;
     (magic_cookie, d) \<leftarrow> decode32 d;
     if magic_cookie \<noteq> MS_STUN_MAGIC_COOKIE then Some (msg, decoder_fail d)
     else do {
       let (p, d) = decode d 12;
       tr_id \<leftarrow> rd_block (sd_buffer d) p 12;
       Some (ms_stun_message_set_tr_id msg tr_id, d) } }"

definition decode_attribute_header ::
    "StunMessageDecoder \<Rightarrow> (u16 \<times> u16 \<times> StunMessageDecoder) option" where
  "decode_attribute_header d = do {
     (ty, d) \<leftarrow> decode16 d;
     (len, d) \<leftarrow> decode16 d;
     Some (ty, len, d) }"

definition decode_addr :: "StunMessageDecoder \<Rightarrow> u16 \<Rightarrow> (MSStunAddress \<times> StunMessageDecoder) option" where
  "decode_addr d len =
     (if len \<noteq> 8 \<and> len \<noteq> 20 then Some (stun_addr_zero, decoder_fail d)
      else do {
        (_, d) \<leftarrow> decode8 d;
        (f, d) \<leftarrow> decode8 d;
        if f = MS_STUN_ADDR_FAMILY_IPV6 then do {
          (p, d) \<leftarrow> decode16 d;
          let (q, d) = decode d 16;
          a \<leftarrow> rd_block (sd_buffer d) q 16;
          Some (stun_addr_zero\<lparr>sa_fam := f, sa_port := p, sa_v6 := a\<rparr>, d) }
        else do {
          (p, d) \<leftarrow> decode16 d;
          (a, d) \<leftarrow> decode32 d;
          Some (stun_addr_zero\<lparr>sa_fam := f, sa_port := p, sa_v4 := a\<rparr>, d) } })"

definition decode_xor_addr ::
    "StunMessageDecoder \<Rightarrow> u16 \<Rightarrow> bytes \<Rightarrow> (MSStunAddress \<times> StunMessageDecoder) option" where
  "decode_xor_addr d len tr_id = do {
     (a, d) \<leftarrow> decode_addr d len;
     Some (stun_address_xor a tr_id, d) }"

definition decode_change_request :: "StunMessageDecoder \<Rightarrow> u16 \<Rightarrow> (u32 \<times> StunMessageDecoder) option" where
  "decode_change_request d len = (if len \<noteq> 4 then Some (0, decoder_fail d) else decode32 d)"

text \<open>The string is the bytes of the attribute; its first NUL ends it for the setters.\<close>

definition decode_string ::
    "StunMessageDecoder \<Rightarrow> u16 \<Rightarrow> nat \<Rightarrow> (bytes option \<times> StunMessageDecoder) option" where
  "decode_string d len max_length =
     (if unat len > max_length then Some (None, decoder_fail d)
      else do {
        str \<leftarrow> rd_block (sd_buffer d) (sd_ptr d) (unat len);
        Some (Some str, decoder_advance (unat len) d) })"

definition decode_error_code ::
    "StunMessageDecoder \<Rightarrow> u16 \<Rightarrow> (u16 \<times> bytes option \<times> StunMessageDecoder) option" where
  "decode_error_code d len =
     (if len < 4 \<or> unat len > STUN_MAX_REASON_LENGTH + 4 then Some (0, None, decoder_fail d)
      else do {
        let reason_length = len - 4;
        (_, d) \<leftarrow> decode16 d;
        (clazz, d) \<leftarrow> decode8 d;
        (code, d) \<leftarrow> decode8 d;
        let number = ucast clazz * 100 + ucast code;
        if reason_length > 0 then do {
          let (p, d) = decode d (unat reason_length);
          reason \<leftarrow> rd_block (sd_buffer d) p (unat reason_length);
          Some (number, Some reason, d) }
        else Some (number, None, d) })"

definition decode_message_integrity ::
    "StunMessageDecoder \<Rightarrow> u16 \<Rightarrow> (bytes option \<times> StunMessageDecoder) option" where
  "decode_message_integrity d len =
     (if len \<noteq> 20 then Some (None, decoder_fail d)
      else do {
        let (p, d) = decode d 20;
        hmac \<leftarrow> rd_block (sd_buffer d) p 20;
        Some (Some hmac, d) })"

definition decode_fingerprint :: "StunMessageDecoder \<Rightarrow> u16 \<Rightarrow> (u32 \<times> StunMessageDecoder) option" where
  "decode_fingerprint d len = (if len \<noteq> 4 then Some (0, decoder_fail d) else decode32 d)"

definition decode_priority :: "StunMessageDecoder \<Rightarrow> u16 \<Rightarrow> (u32 \<times> StunMessageDecoder) option" where
  "decode_priority d len = (if len \<noteq> 4 then Some (0, decoder_fail d) else decode32 d)"

definition decode_ice_control :: "StunMessageDecoder \<Rightarrow> u16 \<Rightarrow> (u64 \<times> StunMessageDecoder) option" where
  "decode_ice_control d len = (if len \<noteq> 8 then Some (0, decoder_fail d) else decode64 d)"

definition decode_lifetime :: "StunMessageDecoder \<Rightarrow> u16 \<Rightarrow> (u32 \<times> StunMessageDecoder) option" where
  "decode_lifetime d len = (if len \<noteq> 4 then Some (0, decoder_fail d) else decode32 d)"

definition decode_data :: "StunMessageDecoder \<Rightarrow> u16 \<Rightarrow> (bytes \<times> StunMessageDecoder) option" where
  "decode_data d len = do {
     let (p, d) = decode d (unat len);
     b \<leftarrow> rd_block (sd_buffer d) p (unat len);
     Some (b, d) }"

section \<open>The message\<close>

text \<open>The arm of \<open>MS_STUN_ATTR_MESSAGE_INTEGRITY\<close>: \<open>strcmp\<close> runs on what the reader returned.\<close>

definition decode_integrity_attribute ::
    "StunMessageDecoder \<Rightarrow> MSStunMessage \<Rightarrow> u16 \<Rightarrow> (MSStunMessage \<times> StunMessageDecoder) option" where
  "decode_integrity_attribute d msg len = do {
     (hmac, d) \<leftarrow> decode_message_integrity d len;
     let msg = msg\<lparr>sm_message_integrity := hmac, sm_has_message_integrity := True\<rparr>;
     h \<leftarrow> ms_stun_message_get_message_integrity msg;
     Some (if cstr h = dummy_hmac then msg\<lparr>sm_has_dummy_message_integrity := True\<rparr> else msg, d) }"

text \<open>The \<open>switch\<close> on the type of an attribute; \<open>Some None\<close> is the jump to \<open>error\<close> on an unknown
  attribute that must be understood.\<close>

definition decode_attribute :: "StunMessageDecoder \<Rightarrow> MSStunMessage \<Rightarrow> u16 \<Rightarrow> u16 \<Rightarrow>
    (MSStunMessage \<times> StunMessageDecoder) option option" where
  "decode_attribute d msg ty len =
     (if ty = MS_STUN_ATTR_MAPPED_ADDRESS then do {
        (a, d) \<leftarrow> decode_addr d len;
        Some (Some (ms_stun_message_set_mapped_address msg a, d)) }
      else if ty = MS_STUN_ATTR_CHANGE_REQUEST then do {
        (v, d) \<leftarrow> decode_change_request d len;
        Some (Some (msg\<lparr>sm_change_request := v\<rparr>, d)) }
      else if ty = MS_STUN_ATTR_RESPONSE_ADDRESS \<or> ty = MS_STUN_ATTR_SOURCE_ADDRESS \<or>
              ty = MS_STUN_ATTR_CHANGED_ADDRESS then do {
        (_, d) \<leftarrow> decode_addr d len;
        Some (Some (msg, d)) }
      else if ty = MS_STUN_ATTR_USERNAME then do {
        (s, d) \<leftarrow> decode_string d len STUN_MAX_USERNAME_LENGTH;
        Some (Some (ms_stun_message_set_username msg s, d)) }
      else if ty = MS_STUN_ATTR_PASSWORD then do {
        (_, d) \<leftarrow> decode_string d len STUN_MAX_USERNAME_LENGTH;
        Some (Some (msg, d)) }
      else if ty = MS_STUN_ATTR_MESSAGE_INTEGRITY then do {
        r \<leftarrow> decode_integrity_attribute d msg len;
        Some (Some r) }
      else if ty = MS_STUN_ATTR_ERROR_CODE then do {
        (number, reason, d) \<leftarrow> decode_error_code d len;
        Some (Some (ms_stun_message_set_error_code msg number reason, d)) }
      else if ty = MS_STUN_ATTR_XOR_MAPPED_ADDRESS then do {
        (a, d) \<leftarrow> decode_xor_addr d len (ms_stun_message_get_tr_id msg);
        Some (Some (ms_stun_message_set_xor_mapped_address msg a, d)) }
      else if ty = MS_STUN_ATTR_SOFTWARE then do {
        (s, d) \<leftarrow> decode_string d len STUN_MAX_SOFTWARE_LENGTH;
        Some (Some (ms_stun_message_set_software msg s, d)) }
      else if ty = MS_STUN_ATTR_FINGERPRINT then do {
        (v, d) \<leftarrow> decode_fingerprint d len;
        Some (Some (msg\<lparr>sm_fingerprint := v, sm_has_fingerprint := True\<rparr>, d)) }
      else if ty = MS_ICE_ATTR_PRIORITY then do {
        (v, d) \<leftarrow> decode_priority d len;
        Some (Some (ms_stun_message_set_priority msg v, d)) }
      else if ty = MS_ICE_ATTR_USE_CANDIDATE then
        Some (Some (ms_stun_message_enable_use_candidate msg True, d))
      else if ty = MS_ICE_ATTR_ICE_CONTROLLED then do {
        (v, d) \<leftarrow> decode_ice_control d len;
        Some (Some (ms_stun_message_set_ice_controlled msg v, d)) }
      else if ty = MS_ICE_ATTR_ICE_CONTROLLING then do {
        (v, d) \<leftarrow> decode_ice_control d len;
        Some (Some (ms_stun_message_set_ice_controlling msg v, d)) }
      else if ty = MS_TURN_ATTR_XOR_PEER_ADDRESS then do {
        (a, d) \<leftarrow> decode_xor_addr d len (ms_stun_message_get_tr_id msg);
        Some (Some (ms_stun_message_set_xor_peer_address msg a, d)) }
      else if ty = MS_TURN_ATTR_XOR_RELAYED_ADDRESS then do {
        (a, d) \<leftarrow> decode_xor_addr d len (ms_stun_message_get_tr_id msg);
        Some (Some (ms_stun_message_set_xor_relayed_address msg a, d)) }
      else if ty = MS_TURN_ATTR_LIFETIME then do {
        (v, d) \<leftarrow> decode_lifetime d len;
        Some (Some (ms_stun_message_set_lifetime msg v, d)) }
      else if ty = MS_TURN_ATTR_DATA then do {
        (b, d) \<leftarrow> decode_data d len;
        Some (Some (ms_stun_message_set_data msg (Some b) len, d)) }
      else if ty = MS_STUN_ATTR_REALM then do {
        (s, d) \<leftarrow> decode_string d len STUN_MAX_REALM_LENGTH;
        Some (Some (ms_stun_message_set_realm msg s, d)) }
      else if ty = MS_STUN_ATTR_NONCE then do {
        (s, d) \<leftarrow> decode_string d len STUN_MAX_NONCE_LENGTH;
        Some (Some (ms_stun_message_set_nonce msg s, d)) }
      else if ty \<le> 0x7FFF then Some None
      else Some (Some (msg, snd (decode d (unat len)))))"

fun decode_padding :: "StunMessageDecoder \<Rightarrow> nat \<Rightarrow> StunMessageDecoder option" where
  "decode_padding d 0 = Some d"
| "decode_padding d (Suc n) = do { (_, d) \<leftarrow> decode8 d; decode_padding d n }"

text \<open>One turn of the loop over the attributes.\<close>

definition parse_attribute ::
    "StunMessageDecoder \<Rightarrow> MSStunMessage \<Rightarrow> (MSStunMessage \<times> StunMessageDecoder) option option" where
  "parse_attribute d msg = do {
     (ty, len, d) \<leftarrow> decode_attribute_header d;
     let d = (if int (unat len) > sd_remaining d then decoder_fail d else d);
     if sd_error d then Some None
     else do {
       r \<leftarrow> decode_attribute d msg ty len;
       case r of
         None \<Rightarrow> Some None
       | Some (msg, d) \<Rightarrow>
           if sd_error d then Some None
           else do {
             let padding = 4 - unat len mod 4;
             if padding < 4 then do {
               d \<leftarrow> decode_padding d padding;
               Some (if sd_error d then None else Some (msg, d)) }
             else Some (Some (msg, d)) } } }"

section \<open>Each turn consumes a header\<close>

lemma decoder_advance_simps [simp]:
  "sd_buffer (decoder_advance n d) = sd_buffer d"
  "sd_ptr (decoder_advance n d) = sd_ptr d + n"
  "sd_remaining (decoder_advance n d) = sd_remaining d - int n"
  "sd_error (decoder_advance n d) \<longleftrightarrow> sd_error d \<or> sd_remaining d < int n"
  by (auto simp: decoder_advance_def)

lemma decoder_fail_simps [simp]:
  "sd_buffer (decoder_fail d) = sd_buffer d" "sd_ptr (decoder_fail d) = sd_ptr d"
  "sd_remaining (decoder_fail d) = sd_remaining d" "sd_error (decoder_fail d)"
  by (simp_all add: decoder_fail_def)

text \<open>What every reader does to the decoder: the pointer and the remaining count move
  together, the error flag is never cleared, and it is raised when the count gets negative.\<close>

definition moves :: "StunMessageDecoder \<Rightarrow> StunMessageDecoder \<Rightarrow> bool" where
  "moves d d' \<longleftrightarrow> sd_buffer d' = sd_buffer d \<and> sd_ptr d \<le> sd_ptr d' \<and>
     sd_remaining d' + int (sd_ptr d') = sd_remaining d + int (sd_ptr d) \<and>
     (sd_error d \<longrightarrow> sd_error d') \<and>
     (sd_remaining d' < sd_remaining d \<and> sd_remaining d' < 0 \<longrightarrow> sd_error d')"

lemma moves_refl [simp]: "moves d d"
  by (simp add: moves_def)

lemma moves_trans: "moves d d' \<Longrightarrow> moves d' d'' \<Longrightarrow> moves d d''"
  by (auto simp: moves_def)

lemma moves_advance [simp]: "moves d (decoder_advance n d)"
  by (auto simp: moves_def)

lemma moves_advance_trans [intro]: "moves d d' \<Longrightarrow> moves d (decoder_advance n d')"
  by (rule moves_trans [OF _ moves_advance])

lemma moves_fail [simp]: "moves d (decoder_fail d)"
  by (auto simp: moves_def)

named_theorems reader_moves \<open>every reader moves the decoder forward\<close>

lemma decode_prim_moves [reader_moves]:
  "decode8 d = Some (v8, d') \<Longrightarrow> moves d d'"
  "decode16 d = Some (v16, d') \<Longrightarrow> moves d d'"
  "decode32 d = Some (v32, d') \<Longrightarrow> moves d d'"
  "decode64 d = Some (v64, d') \<Longrightarrow> moves d d'"
  by (auto simp: decode8_def decode16_def decode32_def decode64_def split: bind_splits)

lemma decode_addr_moves [reader_moves]: "decode_addr d len = Some (a, d') \<Longrightarrow> moves d d'"
  unfolding decode_addr_def
  by (auto simp: decode_def Let_def split: if_splits bind_splits prod.splits
      dest!: decode_prim_moves intro: moves_trans moves_advance_trans)

lemma decode_word_moves [reader_moves]:
  "decode_xor_addr d len t = Some (a, d') \<Longrightarrow> moves d d'"
  "decode_change_request d len = Some (v, d') \<Longrightarrow> moves d d'"
  "decode_fingerprint d len = Some (v, d') \<Longrightarrow> moves d d'"
  "decode_priority d len = Some (v, d') \<Longrightarrow> moves d d'"
  "decode_lifetime d len = Some (v, d') \<Longrightarrow> moves d d'"
  "decode_ice_control d len = Some (w, d') \<Longrightarrow> moves d d'"
  by (auto simp: decode_xor_addr_def decode_change_request_def decode_fingerprint_def
      decode_priority_def decode_lifetime_def decode_ice_control_def
      split: if_splits bind_splits prod.splits dest: reader_moves)

lemma decode_block_moves [reader_moves]:
  "decode_string d len k = Some (s, d') \<Longrightarrow> moves d d'"
  "decode_message_integrity d len = Some (s, d') \<Longrightarrow> moves d d'"
  "decode_integrity_attribute d msg len = Some (m, d') \<Longrightarrow> moves d d'"
  "decode_data d len = Some (b, d') \<Longrightarrow> moves d d'"
  by (auto simp: decode_string_def decode_message_integrity_def decode_data_def decode_def
      decode_integrity_attribute_def Let_def split: if_splits bind_splits prod.splits)

lemma decode_error_code_moves [reader_moves]:
  "decode_error_code d len = Some (n, r, d') \<Longrightarrow> moves d d'"
  unfolding decode_error_code_def
  by (auto simp: decode_def Let_def split: if_splits bind_splits prod.splits
      dest!: decode_prim_moves intro: moves_trans moves_advance_trans)

lemma decode_padding_moves [reader_moves]: "decode_padding d n = Some d' \<Longrightarrow> moves d d'"
  by (induction d n rule: decode_padding.induct)
     (auto split: bind_splits prod.splits dest!: decode_prim_moves intro: moves_trans moves_advance_trans)

lemma decode_attribute_moves:
  assumes "decode_attribute d msg ty len = Some (Some (msg', d'))"
  shows "moves d d'"
  using assms unfolding decode_attribute_def
  by (auto simp: decode_def split: if_splits bind_splits prod.splits dest: reader_moves)

lemma decode_attribute_header_moves:
  assumes "decode_attribute_header d = Some (ty, len, d')"
  shows "moves d d' \<and> sd_ptr d' = sd_ptr d + 4"
  using assms
  by (auto simp: decode_attribute_header_def decode16_def split: bind_splits)

text \<open>A turn that goes on leaves no error and has consumed at least the four bytes of a header.\<close>

lemma parse_attribute_moves:
  assumes "parse_attribute d msg = Some (Some (msg', d'))"
  shows "moves d d' \<and> sd_ptr d + 4 \<le> sd_ptr d' \<and> \<not> sd_error d'"
proof -
  obtain ty len d1 where h: "decode_attribute_header d = Some (ty, len, d1)"
    using assms by (auto simp: parse_attribute_def split: bind_splits)
  note h1 = decode_attribute_header_moves [OF h]
  have ok: "\<not> sd_error d1" and fits: "\<not> sd_remaining d1 < int (unat len)"
    using assms h by (auto simp: parse_attribute_def split: if_splits)
  obtain msg2 d2 where a: "decode_attribute d1 msg ty len = Some (Some (msg2, d2))"
    using assms h ok fits by (auto simp: parse_attribute_def split: if_splits bind_splits option.splits)
  have "moves d2 d' \<and> \<not> sd_error d'"
    using assms h ok fits a
    by (auto simp: parse_attribute_def Let_def split: if_splits bind_splits dest: decode_padding_moves)
  with h1 decode_attribute_moves [OF a] show ?thesis
    by (auto simp: moves_def)
qed

section \<open>The loop\<close>

function parse_attributes :: "StunMessageDecoder \<Rightarrow> MSStunMessage \<Rightarrow> MSStunMessage option option" where
  "parse_attributes d msg =
     (if sd_remaining d > 0
      then (case parse_attribute d msg of
              None \<Rightarrow> None
            | Some None \<Rightarrow> Some None
            | Some (Some (msg', d')) \<Rightarrow> parse_attributes d' msg')
      else Some (Some msg))"
  by pat_completeness auto
termination
  by (relation "measure (\<lambda>(d, msg). nat (sd_remaining d))")
     (auto simp: moves_def dest!: parse_attribute_moves)

declare parse_attributes.simps [simp del]

definition ms_stun_message_create_from_buffer_parsing :: "bytes \<Rightarrow> int \<Rightarrow> MSStunMessage option option" where
  "ms_stun_message_create_from_buffer_parsing buf bufsize =
     (if bufsize < int STUN_MESSAGE_HEADER_LENGTH then Some None
      else do {
        let d = stun_message_decoder_init buf bufsize;
        (msg, d) \<leftarrow> decode_message_header d stun_message_zero;
        if sd_error d then Some None
        else if int (unat (ms_stun_message_get_length msg)) + int STUN_MESSAGE_HEADER_LENGTH \<noteq> bufsize
        then Some None
        else parse_attributes d msg })"

end
