(* ===== verification/Stun_Encode_Spec.thy ===== *)
theory Stun_Encode_Spec
  imports Stun_Decode
begin

text \<open>
  What the encoder of STUN messages promises: the wire format as a list of
  type-length-value attributes, and that \<open>ms_stun_message_encode\<close> writes that format, inside
  its buffer, whatever the allocator left in the memory.
\<close>

section \<open>Operations that append to a sink\<close>

definition succeeds :: "'a option \<Rightarrow> ('a \<Rightarrow> bool) \<Rightarrow> bool" where
  "succeeds x P \<longleftrightarrow> (\<exists>v. x = Some v \<and> P v)"

text \<open>\<open>appends ok out f g\<close>: from a sink that is \<open>ok\<close>, \<open>f\<close> succeeds, keeps it \<open>ok\<close>, and adds
  \<open>g\<close> of what was there to its output.\<close>

definition appends :: "('e \<Rightarrow> bool) \<Rightarrow> ('e \<Rightarrow> bytes) \<Rightarrow> ('e \<Rightarrow> 'e option) \<Rightarrow> (bytes \<Rightarrow> bytes) \<Rightarrow> bool" where
  "appends ok out f g \<longleftrightarrow>
     (\<forall>e. ok e \<longrightarrow> (\<exists>e'. f e = Some e' \<and> ok e' \<and> out e' = out e @ g (out e)))"

named_theorems append_rules \<open>operations that append a fixed block\<close>

lemma appends_Some [append_rules]: "appends ok out Some (\<lambda>_. [])"
  by (simp add: appends_def)

lemma appends_bind [append_rules]:
  "appends ok out f (\<lambda>_. a) \<Longrightarrow> appends ok out h (\<lambda>_. b) \<Longrightarrow>
   appends ok out (\<lambda>e. f e \<bind> h) (\<lambda>_. a @ b)"
  unfolding appends_def by fastforce

lemma appends_eq: "appends ok out f (\<lambda>_. a) \<Longrightarrow> a = b \<Longrightarrow> appends ok out f (\<lambda>_. b)"
  by simp

lemma appends_step:
  "appends ok out f g \<Longrightarrow> ok e \<Longrightarrow>
   (\<And>e'. ok e' \<Longrightarrow> out e' = out e @ g (out e) \<Longrightarrow> succeeds (h e') P) \<Longrightarrow>
   succeeds (f e \<bind> h) P"
  unfolding appends_def succeeds_def by fastforce

lemma appends_enc_when:
  "(c \<Longrightarrow> appends ok out f g) \<Longrightarrow> appends ok out (enc_when c f) (\<lambda>w. if c then g w else [])"
  by (auto simp: appends_def enc_when_def)

lemma appends_enc_opt:
  "(\<And>x. p = Some x \<Longrightarrow> appends ok out (f x) (g x)) \<Longrightarrow>
   appends ok out (enc_opt p f) (\<lambda>w. case p of None \<Rightarrow> [] | Some x \<Rightarrow> g x w)"
  by (auto simp: appends_def enc_opt_def split: option.splits)

locale byte_sink =
  fixes put :: "'e \<Rightarrow> bytes \<Rightarrow> 'e option" and out :: "'e \<Rightarrow> bytes" and ok :: "'e \<Rightarrow> bool"
  assumes put_ok: "ok e \<Longrightarrow> \<exists>e'. put e bs = Some e' \<and> ok e' \<and> out e' = out e @ bs"
begin

lemma appends_put: "appends ok out (\<lambda>e. put e bs) (\<lambda>_. bs)"
  using put_ok by (auto simp: appends_def)

lemma puts_ok:
  assumes "ok e"
  shows "succeeds (fold (\<lambda>b x. x \<bind> (\<lambda>e. put e b)) bss (Some e)) (\<lambda>e'. ok e' \<and> out e' = out e @ concat bss)"
  using assms
proof (induction bss arbitrary: e)
  case Nil
  then show ?case by (simp add: succeeds_def)
next
  case (Cons b bss)
  obtain e1 where "put e b = Some e1" "ok e1" "out e1 = out e @ b"
    using put_ok [OF Cons.prems] by blast
  then show ?case using Cons.IH [of e1] by simp
qed

end

section \<open>The growing buffer is such a sink\<close>

definition encoder_ok :: "StunMessageEncoder \<Rightarrow> bool" where
  "encoder_ok e \<longleftrightarrow> length (se_buffer e) = se_cursize e \<and> se_ptr e \<le> se_cursize e \<and>
     se_remaining e = se_cursize e - se_ptr e \<and> 128 \<le> se_cursize e"

definition written :: "StunMessageEncoder \<Rightarrow> bytes" where
  "written e = take (se_ptr e) (se_buffer e)"

lemma encoder_init_ok: "encoder_ok (stun_message_encoder_init junk)"
  "written (stun_message_encoder_init junk) = []"
  by (simp_all add: encoder_ok_def written_def stun_message_encoder_init_def)

lemma encoder_grow_ok:
  assumes "encoder_ok e"
  shows "encoder_ok (encoder_grow e)" "written (encoder_grow e) = written e"
    "se_ptr (encoder_grow e) = se_ptr e" "se_lenptr (encoder_grow e) = Some 2"
    "se_remaining e < se_remaining (encoder_grow e)"
  using assms by (auto simp: encoder_ok_def written_def encoder_grow_def Let_def)

lemma encoder_check_size:
  assumes "encoder_ok e"
  shows "\<exists>e'. stun_message_encoder_check_size e sz = Some e' \<and> encoder_ok e' \<and>
     written e' = written e \<and> se_ptr e' = se_ptr e \<and> sz \<le> se_remaining e' \<and>
     (se_lenptr e' = se_lenptr e \<or> se_lenptr e' = Some 2)"
  using assms
proof (induction "sz - se_remaining e" arbitrary: e rule: less_induct)
  case less
  show ?case
  proof (cases "se_remaining e < sz")
    case False
    then show ?thesis using less.prems by (simp add: stun_message_encoder_check_size.simps)
  next
    case True
    note g = encoder_grow_ok [OF less.prems]
    have "sz - se_remaining (encoder_grow e) < sz - se_remaining e"
      using True g(5) by linarith
    from less.hyps [OF this g(1)] True g show ?thesis
      by (subst stun_message_encoder_check_size.simps) auto
  qed
qed

lemma encoder_memcpy:
  assumes "encoder_ok e"
  shows "\<exists>e'. stun_message_encoder_memcpy e src = Some e' \<and> encoder_ok e' \<and>
     written e' = written e @ src \<and> (se_lenptr e' = se_lenptr e \<or> se_lenptr e' = Some 2)"
proof -
  obtain e1 where e1: "stun_message_encoder_check_size e (length src) = Some e1" "encoder_ok e1"
    "written e1 = written e" "length src \<le> se_remaining e1"
    "se_lenptr e1 = se_lenptr e \<or> se_lenptr e1 = Some 2"
    using encoder_check_size [OF assms, of "length src"] by blast
  then have fits: "se_ptr e1 + length src \<le> length (se_buffer e1)"
    by (auto simp: encoder_ok_def)
  then have m: "stun_message_encoder_memcpy e src = Some (e1\<lparr>
      se_buffer := take (se_ptr e1) (se_buffer e1) @ src @ drop (se_ptr e1 + length src) (se_buffer e1),
      se_remaining := se_remaining e1 - length src, se_ptr := se_ptr e1 + length src\<rparr>)"
    using e1(1) by (simp add: stun_message_encoder_memcpy_def wr_block_def)
  show ?thesis
    unfolding m e1(3) [symmetric] using e1(2,4,5) fits by (auto simp: encoder_ok_def written_def)
qed

interpretation raw: byte_sink stun_message_encoder_memcpy written encoder_ok
  using encoder_memcpy by unfold_locales blast

section \<open>The wire format\<close>

definition stun_pad :: "nat \<Rightarrow> nat" where
  "stun_pad n = (4 - n mod 4) mod 4"

definition tlv :: "u16 \<times> bytes \<Rightarrow> bytes" where
  "tlv a = enc16 (fst a) @ enc16 (of_nat (length (snd a))) @ snd a @ replicate (stun_pad (length (snd a))) 0"

definition tlvs :: "(u16 \<times> bytes) list \<Rightarrow> bytes" where
  "tlvs as = concat (map tlv as)"

lemma tlvs_simps [simp]: "tlvs [] = []" "tlvs (a # as) = tlv a @ tlvs as" "tlvs (as @ bs) = tlvs as @ tlvs bs"
  by (simp_all add: tlvs_def)

definition stun_header :: "u16 \<Rightarrow> bytes \<Rightarrow> u16 \<Rightarrow> bytes" where
  "stun_header ty tr_id len = enc16 ty @ enc16 len @ enc32 MS_STUN_MAGIC_COOKIE @ tr_id"

lemma length_stun_header [simp]: "length tr = 12 \<Longrightarrow> length (stun_header ty tr len) = 20"
  by (simp add: stun_header_def)

definition addr_bytes :: "MSStunAddress \<Rightarrow> bytes" where
  "addr_bytes a = [0, sa_fam a] @ enc16 (sa_port a) @
     (if sa_fam a = MS_STUN_ADDR_FAMILY_IPV6 then sa_v6 a else enc32 (sa_v4 a))"

definition addr_ok :: "MSStunAddress \<Rightarrow> bool" where
  "addr_ok a \<longleftrightarrow> length (sa_v6 a) = 16"

lemma length_addr_bytes:
  "addr_ok a \<Longrightarrow> length (addr_bytes a) = (if sa_fam a = MS_STUN_ADDR_FAMILY_IPV6 then 20 else 8)"
  by (simp add: addr_bytes_def addr_ok_def)

definition error_bytes :: "u16 \<Rightarrow> bytes option \<Rightarrow> bytes" where
  "error_bytes n reason =
     [0, 0, ucast (n div 100), ucast (n - (n div 100) * 100)] @ (case reason of None \<Rightarrow> [] | Some r \<Rightarrow> r)"

text \<open>The attributes of a message in the order the encoder writes them, up to the integrity.\<close>

definition opt_attr :: "u16 \<Rightarrow> bytes option \<Rightarrow> (u16 \<times> bytes) list" where
  "opt_attr ty v = (case v of None \<Rightarrow> [] | Some b \<Rightarrow> [(ty, b)])"

definition if_attr :: "bool \<Rightarrow> u16 \<Rightarrow> bytes \<Rightarrow> (u16 \<times> bytes) list" where
  "if_attr c ty v = (if c then [(ty, v)] else [])"

definition plain_attrs :: "MSStunMessage \<Rightarrow> (u16 \<times> bytes) list" where
  "plain_attrs m =
     (let xa = (\<lambda>a. addr_bytes (stun_address_xor a (sm_tr_id m))) in
      if_attr (sm_has_mapped_address m) MS_STUN_ATTR_MAPPED_ADDRESS (addr_bytes (sm_mapped_address m)) @
      if_attr (sm_change_request m \<noteq> 0) MS_STUN_ATTR_CHANGE_REQUEST (enc32 (sm_change_request m)) @
      opt_attr MS_STUN_ATTR_USERNAME (map_option (take STUN_MAX_USERNAME_LENGTH) (sm_username m)) @
      opt_attr MS_STUN_ATTR_REALM (map_option (take STUN_MAX_REALM_LENGTH) (sm_realm m)) @
      opt_attr MS_STUN_ATTR_NONCE (map_option (take STUN_MAX_NONCE_LENGTH) (sm_nonce m)) @
      if_attr (sm_has_error_code m) MS_STUN_ATTR_ERROR_CODE (error_bytes (sm_number m) (sm_reason m)) @
      if_attr (sm_has_xor_mapped_address m) MS_STUN_ATTR_XOR_MAPPED_ADDRESS (xa (sm_xor_mapped_address m)) @
      if_attr (sm_has_xor_peer_address m) MS_TURN_ATTR_XOR_PEER_ADDRESS (xa (sm_xor_peer_address m)) @
      if_attr (sm_has_xor_relayed_address m) MS_TURN_ATTR_XOR_RELAYED_ADDRESS (xa (sm_xor_relayed_address m)) @
      if_attr (sm_has_requested_transport m) MS_TURN_ATTR_REQUESTED_TRANSPORT [sm_requested_transport m, 0, 0, 0] @
      if_attr (sm_has_requested_address_family m) MS_TURN_ATTR_REQUESTED_ADDRESS_FAMILY
        [sm_requested_address_family m, 0, 0, 0] @
      if_attr (sm_has_lifetime m) MS_TURN_ATTR_LIFETIME (enc32 (sm_lifetime m)) @
      if_attr (sm_has_channel_number m) MS_TURN_ATTR_CHANNEL_NUMBER (enc16 (sm_channel_number m) @ [0, 0]) @
      opt_attr MS_TURN_ATTR_DATA
        (if sm_data_length m > 0 then map_option (take (unat (sm_data_length m))) (sm_data m) else None) @
      if_attr (sm_has_priority m) MS_ICE_ATTR_PRIORITY (enc32 (sm_priority m)) @
      if_attr (sm_has_use_candidate m) MS_ICE_ATTR_USE_CANDIDATE [] @
      if_attr (sm_has_ice_controlled m) MS_ICE_ATTR_ICE_CONTROLLED (enc64 (sm_ice_controlled m)) @
      if_attr (sm_has_ice_controlling m) MS_ICE_ATTR_ICE_CONTROLLING (enc64 (sm_ice_controlling m)))"

text \<open>How the message is authenticated: the function from the bytes that precede the integrity
  attribute to its value, or \<open>None\<close> when the encoder leaves the attribute out.\<close>

definition stun_mac :: "stun_env \<Rightarrow> MSStunMessage \<Rightarrow> (bytes \<Rightarrow> bytes) option" where
  "stun_mac env m =
     (let short = (\<lambda>p. if sm_has_dummy_message_integrity m then (\<lambda>_. dummy_hmac) else hmacSha1 env p) in
      if \<not> sm_has_message_integrity m then None
      else case (sm_ha1 m, sm_username m, sm_password m) of
        (Some h, _, _) \<Rightarrow> Some (hmacSha1 env (ha1_of_text 16 h))
      | (None, Some u, Some p) \<Rightarrow>
          if u \<noteq> [] \<and> p \<noteq> []
          then Some (case sm_realm m of
              None \<Rightarrow> short p
            | Some r \<Rightarrow> if r = [] then short p
                else hmacSha1 env (md5 env (take 1023 (u @ [58] @ r @ [58] @ p))))
          else None
      | _ \<Rightarrow> None)"

definition signed_attrs :: "stun_env \<Rightarrow> MSStunMessage \<Rightarrow> (u16 \<times> bytes) list" where
  "signed_attrs env m =
     (let ps = plain_attrs m; w = tlvs ps;
          hd = stun_header (sm_type m OR sm_method m) (sm_tr_id m) in
      ps @ opt_attr MS_STUN_ATTR_MESSAGE_INTEGRITY
             (map_option (\<lambda>mac. mac (hd (of_nat (length w + 24)) @ w)) (stun_mac env m)))"

definition stun_attrs :: "stun_env \<Rightarrow> MSStunMessage \<Rightarrow> (u16 \<times> bytes) list" where
  "stun_attrs env m =
     (let ss = signed_attrs env m; w = tlvs ss;
          hd = stun_header (sm_type m OR sm_method m) (sm_tr_id m) in
      ss @ if_attr (sm_has_fingerprint m) MS_STUN_ATTR_FINGERPRINT
             (enc32 (ms_stun_calculate_fingerprint (hd (of_nat (length w + 8)) @ w) XOR 0x5354554E)))"

definition stun_wire :: "stun_env \<Rightarrow> MSStunMessage \<Rightarrow> bytes" where
  "stun_wire env m =
     (let w = tlvs (stun_attrs env m)
      in stun_header (sm_type m OR sm_method m) (sm_tr_id m) (of_nat (length w)) @ w)"

section \<open>Each writer appends its attribute\<close>

text \<open>An encoder whose header is written: the length field holds any value, \<open>lenptr\<close> points to it.
  Its output is what follows the header.\<close>

definition ready :: "u16 \<Rightarrow> bytes \<Rightarrow> StunMessageEncoder \<Rightarrow> bool" where
  "ready ty tr e \<longleftrightarrow> encoder_ok e \<and> se_lenptr e = Some 2 \<and> length tr = 12 \<and>
     (\<exists>l. take 20 (written e) = stun_header ty tr l)"

definition body :: "StunMessageEncoder \<Rightarrow> bytes" where
  "body e = drop 20 (written e)"

lemma ready_length: "ready ty tr e \<Longrightarrow> se_ptr e = 20 + length (body e)"
proof -
  assume r: "ready ty tr e"
  then have "length (take 20 (written e)) = 20" by (metis ready_def length_stun_header)
  then have "20 \<le> length (written e)" by simp
  moreover have "length (written e) = se_ptr e"
    using r by (auto simp: ready_def encoder_ok_def written_def)
  ultimately show ?thesis by (simp add: body_def)
qed

interpretation enc: byte_sink stun_message_encoder_memcpy body "ready ty tr" for ty tr
proof
  fix e bs assume r: "ready ty tr e"
  then have e: "encoder_ok e" "se_lenptr e = Some 2" by (auto simp: ready_def)
  obtain e' where e': "stun_message_encoder_memcpy e bs = Some e'" "encoder_ok e'"
    "written e' = written e @ bs" "se_lenptr e' = Some 2"
    using encoder_memcpy [OF e(1), of bs] e(2) by auto
  have len: "20 \<le> length (written e)"
    using ready_length [OF r] e(1) by (simp add: written_def encoder_ok_def)
  have "take 20 (written e') = take 20 (written e)" and "body e' = body e @ bs"
    using len e'(3) by (simp_all add: body_def)
  then have "ready ty tr e'" using r e' by (auto simp: ready_def)
  with e'(1) \<open>body e' = body e @ bs\<close>
  show "\<exists>e'. stun_message_encoder_memcpy e bs = Some e' \<and> ready ty tr e' \<and> body e' = body e @ bs"
    by blast
qed

lemma appends_encode [append_rules]:
  "appends (ready ty tr) body (\<lambda>e. encode8 e b8) (\<lambda>_. [b8])"
  "appends (ready ty tr) body (\<lambda>e. encode16 e b16) (\<lambda>_. enc16 b16)"
  "appends (ready ty tr) body (\<lambda>e. encode32 e b32) (\<lambda>_. enc32 b32)"
  "appends (ready ty tr) body (\<lambda>e. encode64 e b64) (\<lambda>_. enc64 b64)"
  "appends (ready ty tr) body (\<lambda>e. encode e bs) (\<lambda>_. bs)"
  unfolding encode8_def encode16_def encode32_def encode64_def encode_def by (rule enc.appends_put)+

lemma appends_padding [append_rules]:
  "appends (ready ty tr) body (\<lambda>e. encode_padding e n) (\<lambda>_. replicate n 0)"
proof (induction n)
  case 0
  then show ?case by (simp add: appends_def)
next
  case (Suc n)
  from appends_bind [OF appends_encode(1) this, of 0] show ?case by simp
qed

lemma appends_encode_nullable [append_rules]:
  "appends (ready ty tr) body (\<lambda>e. case r of None \<Rightarrow> Some e | Some x \<Rightarrow> encode e x)
     (\<lambda>_. case r of None \<Rightarrow> [] | Some x \<Rightarrow> x)"
  using appends_encode(5) [of ty tr] by (cases r) (simp_all add: appends_def)

lemma stun_pad_cases: "stun_pad n = (if 4 - n mod 4 < 4 then 4 - n mod 4 else 0)"
  by (cases "n mod 4 = 0") (simp_all add: stun_pad_def)

lemma appends_encode_padding [append_rules]:
  "appends (ready ty tr) body (\<lambda>e. if 4 - n mod 4 < 4 then encode_padding e (4 - n mod 4) else Some e)
     (\<lambda>_. replicate (stun_pad n) 0)"
  using appends_padding [of ty tr "4 - n mod 4"] by (auto simp: stun_pad_cases appends_def)

lemma length_enc64 [simp]: "length (enc64 v) = 8"
  by (simp add: enc64_def)

lemma appends_encode_addr:
  assumes "addr_ok a"
  shows "appends (ready ty tr) body (\<lambda>e. encode_addr e t a) (\<lambda>_. tlv (t, addr_bytes a))"
proof (cases "sa_fam a = MS_STUN_ADDR_FAMILY_IPV6")
  case True
  then show ?thesis unfolding encode_addr_def using assms
    by (simp only: if_True simp_thms, intro appends_eq [OF appends_bind])
       (rule append_rules | simp add: tlv_def length_addr_bytes stun_pad_def addr_bytes_def addr_ok_def)+
next
  case False
  then show ?thesis unfolding encode_addr_def using assms
    by (simp only: if_False simp_thms, intro appends_eq [OF appends_bind])
       (rule append_rules | simp add: tlv_def length_addr_bytes stun_pad_def addr_bytes_def addr_ok_def)+
qed

lemma appends_encode_string:
  "appends (ready ty tr) body (\<lambda>e. encode_string e t s k) (\<lambda>_. tlv (t, take k s))"
proof -
  have k: "(if length s > k then k else length s) = length (take k s)"
    "take (length (take k s)) s = take k s" by (auto simp: min_def)
  show ?thesis unfolding encode_string_def Let_def k
    by (rule appends_eq, (rule append_rules)+) (simp add: tlv_def)
qed

lemma appends_encode_error_code:
  "appends (ready ty tr) body (\<lambda>e. encode_error_code e n r) (\<lambda>_. tlv (MS_STUN_ATTR_ERROR_CODE, error_bytes n r))"
proof -
  have p: "stun_pad (Suc (Suc (Suc (Suc l)))) = stun_pad l" for l
  proof -
    have "Suc (Suc (Suc (Suc l))) mod 4 = l mod 4" by presburger
    then show ?thesis by (simp add: stun_pad_def)
  qed
  show ?thesis unfolding encode_error_code_def Let_def
    by (rule appends_eq, (rule append_rules)+)
       (simp add: tlv_def error_bytes_def p stun_pad_def enc16_def split: option.splits)
qed

lemma appends_encode_words:
  "appends (ready ty tr) body (\<lambda>e. encode_change_request e v) (\<lambda>_. tlv (MS_STUN_ATTR_CHANGE_REQUEST, enc32 v))"
  "appends (ready ty tr) body (\<lambda>e. encode_priority e v) (\<lambda>_. tlv (MS_ICE_ATTR_PRIORITY, enc32 v))"
  "appends (ready ty tr) body (\<lambda>e. encode_lifetime e v) (\<lambda>_. tlv (MS_TURN_ATTR_LIFETIME, enc32 v))"
  "appends (ready ty tr) body encode_use_candidate (\<lambda>_. tlv (MS_ICE_ATTR_USE_CANDIDATE, []))"
  "appends (ready ty tr) body (\<lambda>e. encode_ice_control e t w) (\<lambda>_. tlv (t, enc64 w))"
  "appends (ready ty tr) body (\<lambda>e. encode_requested_transport e b)
     (\<lambda>_. tlv (MS_TURN_ATTR_REQUESTED_TRANSPORT, [b, 0, 0, 0]))"
  "appends (ready ty tr) body (\<lambda>e. encode_requested_address_family e b)
     (\<lambda>_. tlv (MS_TURN_ATTR_REQUESTED_ADDRESS_FAMILY, [b, 0, 0, 0]))"
  "appends (ready ty tr) body (\<lambda>e. encode_channel_number e c)
     (\<lambda>_. tlv (MS_TURN_ATTR_CHANNEL_NUMBER, enc16 c @ [0, 0]))"
  unfolding encode_change_request_def encode_priority_def encode_lifetime_def
    encode_use_candidate_def [abs_def] encode_ice_control_def encode_requested_transport_def
    encode_requested_address_family_def encode_channel_number_def
  by (rule appends_eq, (rule append_rules)+, simp add: tlv_def stun_pad_def enc16_def)+

lemma appends_encode_data:
  assumes "unat n \<le> length d"
  shows "appends (ready ty tr) body (\<lambda>e. encode_data e d n) (\<lambda>_. tlv (MS_TURN_ATTR_DATA, take (unat n) d))"
proof -
  have "rd_block d 0 (unat n) = Some (take (unat n) d)" using assms by simp
  then show ?thesis unfolding encode_data_def Let_def
    by (simp only: bind.bind_lunit, intro appends_eq [OF appends_bind])
       (rule append_rules | simp add: tlv_def assms min.absorb2)+
qed

section \<open>Length field, integrity and fingerprint\<close>

lemma succeeds_appends:
  "appends ok out f g \<Longrightarrow> ok e \<Longrightarrow> succeeds (f e) (\<lambda>e'. ok e' \<and> out e' = out e @ g (out e))"
  unfolding appends_def succeeds_def by blast

lemma written_eq: "ready ty tr e \<Longrightarrow> \<exists>l. written e = stun_header ty tr l @ body e"
  by (metis append_take_drop_id body_def ready_def)

lemma read_written: "ready ty tr e \<Longrightarrow> rd_block (se_buffer e) 0 (se_ptr e) = Some (written e)"
  by (simp add: ready_def encoder_ok_def written_def)

lemma encode_message_length_ready:
  assumes "ready ty tr e"
  shows "\<exists>e'. encode_message_length e n = Some e' \<and> ready ty tr e' \<and> se_ptr e' = se_ptr e \<and>
     written e' = stun_header ty tr (of_nat n) @ body e"
proof -
  obtain l where w: "written e = stun_header ty tr l @ body e" using written_eq [OF assms] by blast
  define rest where "rest = drop (se_ptr e) (se_buffer e)"
  have tr: "length tr = 12" and lp: "se_lenptr e = Some 2" and ok: "encoder_ok e"
    using assms by (auto simp: ready_def)
  have buf: "se_buffer e = stun_header ty tr l @ body e @ rest"
    using w by (metis append.assoc append_take_drop_id rest_def written_def)
  let ?b = "stun_header ty tr (of_nat n) @ body e @ rest"
  have "wr_block (se_buffer e) 2 (enc16 (of_nat n)) = Some ?b"
    unfolding buf by (simp add: wr_block_def stun_header_def enc16_def numeral_eq_Suc)
  then have "encode_message_length e n = Some (e\<lparr>se_buffer := ?b\<rparr>)"
    using lp by (simp add: encode_message_length_def)
  moreover have len: "length ?b = length (se_buffer e)" using tr unfolding buf by simp
  moreover have wr: "written (e\<lparr>se_buffer := ?b\<rparr>) = stun_header ty tr (of_nat n) @ body e"
    using ready_length [OF assms] tr by (simp add: written_def)
  moreover have "ready ty tr (e\<lparr>se_buffer := ?b\<rparr>)"
    unfolding ready_def wr using ok lp tr len by (auto simp: encoder_ok_def)
  ultimately show ?thesis by auto
qed

text \<open>The attributes that depend on what precedes them set the length field first.\<close>

lemma appends_patched:
  assumes "\<And>e w. ready ty tr e \<Longrightarrow> body e = w \<Longrightarrow>
    written e = stun_header ty tr (of_nat (length w + k)) @ w \<Longrightarrow>
    succeeds (f (se_ptr e) e) (\<lambda>e'. ready ty tr e' \<and> body e' = w @ g w)"
  shows "appends (ready ty tr) body
    (\<lambda>e. encode_message_length e (stun_message_encoder_get_message_length e - 20 + k) \<bind>
         f (stun_message_encoder_get_message_length e)) g"
  unfolding appends_def
proof (intro allI impI)
  fix e assume r: "ready ty tr e"
  have n: "stun_message_encoder_get_message_length e - 20 + k = length (body e) + k"
    using ready_length [OF r] by (simp add: stun_message_encoder_get_message_length_def)
  obtain e1 where e1: "encode_message_length e (length (body e) + k) = Some e1" "ready ty tr e1"
    "se_ptr e1 = se_ptr e" "written e1 = stun_header ty tr (of_nat (length (body e) + k)) @ body e"
    using encode_message_length_ready [OF r, of "length (body e) + k"] by blast
  have "length tr = 12" using r by (simp add: ready_def)
  then have b: "body e1 = body e" using e1(4) by (simp add: body_def)
  from assms [OF e1(2) b e1(4)] obtain e2 where
    "f (se_ptr e1) e1 = Some e2" "ready ty tr e2" "body e2 = body e @ g (body e)"
    by (auto simp: succeeds_def)
  then show "\<exists>e'. (encode_message_length e (stun_message_encoder_get_message_length e - 20 + k) \<bind>
      f (stun_message_encoder_get_message_length e)) = Some e' \<and> ready ty tr e' \<and> body e' = body e @ g (body e)"
    unfolding n using e1 by (simp add: stun_message_encoder_get_message_length_def)
qed

lemma appends_encode_integrity:
  assumes "length h = 20"
  shows "appends (ready ty tr) body (\<lambda>e. encode_integrity e h) (\<lambda>_. tlv (MS_STUN_ATTR_MESSAGE_INTEGRITY, h))"
proof -
  have "rd_block h 0 20 = Some h" using assms by simp
  then show ?thesis unfolding encode_integrity_def
    by (simp only: bind.bind_lunit, intro appends_eq [OF appends_bind])
       (rule append_rules | simp add: tlv_def assms stun_pad_def)+
qed

lemma length_dummy_hmac: "length dummy_hmac = 20"
  by (simp add: dummy_hmac_def)

definition env_ok :: "stun_env \<Rightarrow> bool" where
  "env_ok env \<longleftrightarrow> (\<forall>k b. length (hmacSha1 env k b) = 20)"

definition mac_attr :: "u16 \<Rightarrow> bytes \<Rightarrow> (bytes \<Rightarrow> bytes) \<Rightarrow> bytes \<Rightarrow> bytes" where
  "mac_attr ty tr mac w =
     tlv (MS_STUN_ATTR_MESSAGE_INTEGRITY, mac (stun_header ty tr (of_nat (length w + 24)) @ w))"

lemma integrity_after:
  assumes "ready ty tr e" "body e = w" "length h = 20"
  shows "succeeds (encode_integrity e h)
    (\<lambda>e'. ready ty tr e' \<and> body e' = w @ tlv (MS_STUN_ATTR_MESSAGE_INTEGRITY, h))"
  using succeeds_appends [OF appends_encode_integrity [OF assms(3)] assms(1)] assms(2) by simp

lemma appends_integrities:
  assumes "env_ok env"
  shows "appends (ready ty tr) body (\<lambda>e. encode_long_term_integrity_from_ha1 env e h)
      (mac_attr ty tr (hmacSha1 env (ha1_of_text 16 h)))"
    and "appends (ready ty tr) body (\<lambda>e. encode_long_term_integrity env e r u p)
      (mac_attr ty tr (hmacSha1 env (md5 env (take 1023 (u @ [58] @ r @ [58] @ p)))))"
    and "appends (ready ty tr) body (\<lambda>e. encode_short_term_integrity env e p dummy)
      (mac_attr ty tr (if dummy then (\<lambda>_. dummy_hmac) else hmacSha1 env p))"
  using assms unfolding encode_long_term_integrity_from_ha1_def encode_long_term_integrity_def
    encode_short_term_integrity_def Let_def env_ok_def mac_attr_def
  by (intro appends_patched; simp add: read_written integrity_after length_dummy_hmac
      ms_stun_calculate_integrity_long_term_from_ha1_def ms_stun_calculate_integrity_long_term_def
      ms_stun_calculate_integrity_short_term_def)+

lemma appends_message_integrity:
  assumes "env_ok env" "sm_has_message_integrity m"
  shows "appends (ready ty tr) body (encode_message_integrity env m)
    (\<lambda>w. case stun_mac env m of None \<Rightarrow> [] | Some mac \<Rightarrow> mac_attr ty tr mac w)"
  using assms appends_integrities(1,2) [OF assms(1), of ty tr]
    appends_integrities(3) [OF assms(1), of ty tr _ True] appends_integrities(3) [OF assms(1), of ty tr _ False]
  by (auto simp: encode_message_integrity_def [abs_def] stun_mac_def Let_def
      ms_stun_message_get_username_def ms_stun_message_get_password_def ms_stun_message_get_realm_def
      ms_stun_message_dummy_message_integrity_enabled_def appends_Some split: option.splits)

lemma appends_fingerprint:
  "appends (ready ty tr) body encode_fingerprint
     (\<lambda>w. tlv (MS_STUN_ATTR_FINGERPRINT, enc32 (ms_stun_calculate_fingerprint
        (stun_header ty tr (of_nat (length w + 8)) @ w) XOR 0x5354554E)))"
  unfolding encode_fingerprint_def [abs_def] Let_def
proof (rule appends_patched)
  fix e w assume r: "ready ty tr e" and w: "body e = w"
    "written e = stun_header ty tr (of_nat (length w + 8)) @ w"
  have "appends (ready ty tr) body (\<lambda>e. encode16 e 0x8028 \<bind> (\<lambda>e. encode16 e 4 \<bind> (\<lambda>e. encode32 e v)))
      (\<lambda>_. tlv (0x8028, enc32 v))" for v
    by (rule appends_eq, (rule append_rules)+) (simp add: tlv_def stun_pad_def)
  from succeeds_appends [OF this r] show
    "succeeds (rd_block (se_buffer e) 0 (se_ptr e) \<bind> (\<lambda>buf. encode16 e 0x8028 \<bind> (\<lambda>e. encode16 e 4 \<bind>
       (\<lambda>e. encode32 e (ms_stun_calculate_fingerprint buf XOR 0x5354554E)))))
      (\<lambda>e'. ready ty tr e' \<and> body e' = w @ tlv (0x8028, enc32 (ms_stun_calculate_fingerprint
         (stun_header ty tr (of_nat (length w + 8)) @ w) XOR 0x5354554E)))"
    using w read_written [OF r] by simp
qed

lemma encode_message_header_ready:
  assumes "length tr = 12"
  shows "\<exists>e. encode_message_header (stun_message_encoder_init junk) ty me tr = Some e \<and>
     ready (ty OR me) tr e \<and> body e = []"
proof -
  let ?e0 = "stun_message_encoder_init junk"
  obtain e1 where e1: "encode16 ?e0 (ty OR me) = Some e1" "encoder_ok e1" "written e1 = enc16 (ty OR me)"
    using encoder_memcpy [OF encoder_init_ok(1), of junk "enc16 (ty OR me)"]
    by (auto simp: encoder_init_ok encode16_def)
  have p1: "se_ptr e1 = 2"
    using e1(2,3) by (auto simp: written_def encoder_ok_def dest!: arg_cong [where f = length])
  let ?e2 = "e1\<lparr>se_lenptr := Some 2\<rparr>"
  have e2: "encoder_ok ?e2" "written ?e2 = enc16 (ty OR me)"
    using e1 by (simp_all add: encoder_ok_def written_def)
  obtain e3 where e3: "encode16 ?e2 0 = Some e3" "encoder_ok e3" "se_lenptr e3 = Some 2"
    "written e3 = enc16 (ty OR me) @ enc16 0"
    using encoder_memcpy [OF e2(1), of "enc16 0"] e2(2) by (auto simp: encode16_def)
  obtain e4 where e4: "encode32 e3 MS_STUN_MAGIC_COOKIE = Some e4" "encoder_ok e4" "se_lenptr e4 = Some 2"
    "written e4 = enc16 (ty OR me) @ enc16 0 @ enc32 MS_STUN_MAGIC_COOKIE"
    using encoder_memcpy [OF e3(2), of "enc32 MS_STUN_MAGIC_COOKIE"] e3(3,4) by (auto simp: encode32_def)
  obtain e5 where e5: "encode e4 tr = Some e5" "encoder_ok e5" "se_lenptr e5 = Some 2"
    "written e5 = stun_header (ty OR me) tr 0"
    using encoder_memcpy [OF e4(2), of tr] e4(3,4) by (auto simp: encode_def stun_header_def)
  have "encode_message_header ?e0 ty me tr = Some e5"
    using e1(1) e3(1) e4(1) e5(1) p1 by (simp add: encode_message_header_def)
  moreover have "ready (ty OR me) tr e5 \<and> body e5 = []"
    using e5 assms by (auto simp: ready_def body_def)
  ultimately show ?thesis by blast
qed

section \<open>The whole message\<close>

text \<open>What the C types of a message guarantee, and that its data block is as long as it says.\<close>

definition message_ok :: "MSStunMessage \<Rightarrow> bool" where
  "message_ok m \<longleftrightarrow> length (sm_tr_id m) = 12 \<and> addr_ok (sm_mapped_address m) \<and>
     addr_ok (sm_xor_mapped_address m) \<and> addr_ok (sm_xor_peer_address m) \<and>
     addr_ok (sm_xor_relayed_address m) \<and>
     (\<forall>d. sm_data m = Some d \<longrightarrow> unat (sm_data_length m) \<le> length d)"

lemma addr_ok_xor: "addr_ok a \<Longrightarrow> length tr = 12 \<Longrightarrow> addr_ok (stun_address_xor a tr)"
  by (simp add: addr_ok_def)

lemmas getter_defs =
  ms_stun_message_get_mapped_address_def ms_stun_message_get_xor_mapped_address_def
  ms_stun_message_get_xor_peer_address_def ms_stun_message_get_xor_relayed_address_def
  ms_stun_message_has_error_code_def ms_stun_message_get_error_code_def
  ms_stun_message_has_requested_transport_def ms_stun_message_get_requested_transport_def
  ms_stun_message_has_requested_address_family_def ms_stun_message_get_requested_address_family_def
  ms_stun_message_has_lifetime_def ms_stun_message_get_lifetime_def
  ms_stun_message_has_channel_number_def ms_stun_message_get_channel_number_def
  ms_stun_message_get_data_def ms_stun_message_get_data_length_def
  ms_stun_message_has_priority_def ms_stun_message_get_priority_def
  ms_stun_message_use_candidate_enabled_def ms_stun_message_has_ice_controlled_def
  ms_stun_message_get_ice_controlled_def ms_stun_message_has_ice_controlling_def
  ms_stun_message_get_ice_controlling_def ms_stun_message_message_integrity_enabled_def
  ms_stun_message_fingerprint_enabled_def

text \<open>A conditional writer appends what the corresponding conditional attribute is on the wire.\<close>

lemma appends_when_attr:
  assumes "appends (ready ty tr) body f (\<lambda>_. tlv (t, v))"
  shows "appends (ready ty tr) body (enc_when c f) (\<lambda>_. tlvs (if_attr c t v))"
  using assms by (auto simp: if_attr_def appends_def enc_when_def)

lemma appends_opt_attr:
  assumes "\<And>x. p = Some x \<Longrightarrow> appends (ready ty tr) body (f x) (\<lambda>_. tlv (t, g x))"
  shows "appends (ready ty tr) body (enc_opt p f) (\<lambda>_. tlvs (opt_attr t (map_option g p)))"
  using assms by (auto simp: opt_attr_def appends_def enc_opt_def split: option.splits)

lemma appends_addr_attr:
  assumes "addr_ok (g a)"
  shows "appends (ready ty tr) body
    (enc_opt (if c then Some a else None) (\<lambda>a e. encode_addr e t (g a))) (\<lambda>_. tlvs (if_attr c t (addr_bytes (g a))))"
  using assms appends_encode_addr [of "g a" ty tr t] by (auto simp: if_attr_def appends_def enc_opt_def)

lemma appends_data_attr:
  assumes "message_ok m"
  shows "appends (ready ty tr) body
    (enc_opt (if sm_data_length m > 0 then sm_data m else None) (\<lambda>d e. encode_data e d (sm_data_length m)))
    (\<lambda>_. tlvs (opt_attr MS_TURN_ATTR_DATA
        (if sm_data_length m > 0 then map_option (take (unat (sm_data_length m))) (sm_data m) else None)))"
  using assms appends_opt_attr [of "if sm_data_length m > 0 then sm_data m else None" ty tr
      "\<lambda>d e. encode_data e d (sm_data_length m)" MS_TURN_ATTR_DATA "take (unat (sm_data_length m))"]
    appends_encode_data
  by (auto simp: message_ok_def split: if_splits)

text \<open>The end of the encoder: integrity, fingerprint and the final length.\<close>

lemma succeeds_mono: "succeeds x P \<Longrightarrow> (\<And>v. P v \<Longrightarrow> Q v) \<Longrightarrow> succeeds x Q"
  by (auto simp: succeeds_def)

definition encode_tail :: "stun_env \<Rightarrow> MSStunMessage \<Rightarrow> StunMessageEncoder \<Rightarrow> (nat \<times> bytes) option" where
  "encode_tail env m e = do {
     e \<leftarrow> enc_when (sm_has_message_integrity m) (encode_message_integrity env m) e;
     e \<leftarrow> enc_when (sm_has_fingerprint m) encode_fingerprint e;
     e' \<leftarrow> encode_message_length e (stun_message_encoder_get_message_length e - 20);
     Some (stun_message_encoder_get_message_length e, se_buffer e') }"

lemma encode_final:
  assumes "ready ty tr e" "body e = w"
  shows "succeeds (do {
      e' \<leftarrow> encode_message_length e (stun_message_encoder_get_message_length e - 20);
      Some (stun_message_encoder_get_message_length e, se_buffer e') })
    (\<lambda>(n, buf). n = 20 + length w \<and> n \<le> length buf \<and> take n buf = stun_header ty tr (of_nat (length w)) @ w)"
proof -
  have n: "stun_message_encoder_get_message_length e - 20 = length w"
    "stun_message_encoder_get_message_length e = 20 + length w"
    using ready_length [OF assms(1)] assms(2) by (simp_all add: stun_message_encoder_get_message_length_def)
  obtain e' where e': "encode_message_length e (length w) = Some e'" "ready ty tr e'"
    "se_ptr e' = se_ptr e" "written e' = stun_header ty tr (of_nat (length w)) @ w"
    using encode_message_length_ready [OF assms(1)] assms(2) by blast
  have "take (20 + length w) (se_buffer e') = stun_header ty tr (of_nat (length w)) @ w"
    "20 + length w \<le> length (se_buffer e')"
    using e' n by (auto simp: written_def ready_def encoder_ok_def stun_message_encoder_get_message_length_def)
  then show ?thesis unfolding n using e'(1) by (simp add: succeeds_def)
qed

lemma signed_attrs_tlvs:
  "tlvs (signed_attrs env m) = (let w = tlvs (plain_attrs m) in
     w @ (if sm_has_message_integrity m
          then (case stun_mac env m of None \<Rightarrow> [] | Some mac \<Rightarrow>
                  mac_attr (sm_type m OR sm_method m) (sm_tr_id m) mac w) else []))"
  by (auto simp: signed_attrs_def Let_def opt_attr_def mac_attr_def stun_mac_def split: option.splits)

lemma encode_tail_writes:
  assumes "env_ok env" "ready (sm_type m OR sm_method m) (sm_tr_id m) e" "body e = tlvs (plain_attrs m)"
  shows "succeeds (encode_tail env m e)
    (\<lambda>(n, buf). n = length (stun_wire env m) \<and> n \<le> length buf \<and> take n buf = stun_wire env m)"
proof -
  have tr: "length (sm_tr_id m) = 12" using assms(2) by (simp add: ready_def)
  show ?thesis unfolding encode_tail_def
  proof (rule appends_step [OF appends_enc_when [OF appends_message_integrity [OF assms(1)]] assms(2)], assumption)
    fix e1 assume e1: "ready (sm_type m OR sm_method m) (sm_tr_id m) e1"
      "body e1 = body e @ (if sm_has_message_integrity m then case stun_mac env m of None \<Rightarrow> []
         | Some mac \<Rightarrow> mac_attr (sm_type m OR sm_method m) (sm_tr_id m) mac (body e) else [])"
    have b1: "body e1 = tlvs (signed_attrs env m)"
      using e1(2) unfolding assms(3) by (simp add: signed_attrs_tlvs Let_def)
    show "succeeds (enc_when (sm_has_fingerprint m) encode_fingerprint e1 \<bind> (\<lambda>e.
        encode_message_length e (stun_message_encoder_get_message_length e - 20) \<bind>
        (\<lambda>e'. Some (stun_message_encoder_get_message_length e, se_buffer e'))))
       (\<lambda>(n, buf). n = length (stun_wire env m) \<and> n \<le> length buf \<and> take n buf = stun_wire env m)"
    proof (rule appends_step [OF appends_enc_when [OF appends_fingerprint] e1(1)])
      fix e2 assume e2: "ready (sm_type m OR sm_method m) (sm_tr_id m) e2"
        "body e2 = body e1 @ (if sm_has_fingerprint m then tlv (0x8028, enc32 (ms_stun_calculate_fingerprint
          (stun_header (sm_type m OR sm_method m) (sm_tr_id m) (of_nat (length (body e1) + 8)) @ body e1) XOR 0x5354554E))
          else [])"
      then have "body e2 = tlvs (stun_attrs env m)"
        by (simp add: b1 stun_attrs_def Let_def if_attr_def)
      from succeeds_mono [OF encode_final [OF e2(1) this]]
      show "succeeds (encode_message_length e2 (stun_message_encoder_get_message_length e2 - 20) \<bind>
          (\<lambda>e'. Some (stun_message_encoder_get_message_length e2, se_buffer e')))
         (\<lambda>(n, buf). n = length (stun_wire env m) \<and> n \<le> length buf \<and> take n buf = stun_wire env m)"
        using tr by (auto simp: stun_wire_def Let_def)
    qed
  qed
qed

lemmas attr_writers = appends_opt_attr [OF appends_encode_string]
  appends_when_attr [OF appends_encode_error_code] appends_encode_words [THEN appends_when_attr]

lemma encode_writes_wire:
  assumes "env_ok env" "message_ok m"
  shows "succeeds (ms_stun_message_encode env junk m)
    (\<lambda>(n, buf). n = length (stun_wire env m) \<and> n \<le> length buf \<and> take n buf = stun_wire env m)"
proof -
  define ty where "ty = sm_type m OR sm_method m"
  define tr where "tr = sm_tr_id m"
  have tr: "length tr = 12" using assms(2) by (simp add: message_ok_def tr_def)
  obtain e0 where e0: "encode_message_header (stun_message_encoder_init junk) (sm_type m) (sm_method m) tr = Some e0"
    "ready ty tr e0" "body e0 = []"
    using encode_message_header_ready [OF tr] unfolding ty_def by blast
  have addrs: "addr_ok (sm_mapped_address m)" "addr_ok (stun_address_xor (sm_xor_mapped_address m) tr)"
    "addr_ok (stun_address_xor (sm_xor_peer_address m) tr)" "addr_ok (stun_address_xor (sm_xor_relayed_address m) tr)"
    using assms(2) addr_ok_xor [OF _ tr] by (auto simp: message_ok_def)
  note writers = attr_writers appends_data_attr [OF assms(2)] appends_addr_attr [where g = "\<lambda>a. a", OF addrs(1)]
    addrs(2-4) [THEN appends_addr_attr [where g = "\<lambda>a. stun_address_xor a tr"]]
  have tail: "succeeds (encode_tail env m e)
      (\<lambda>(n, buf). n = length (stun_wire env m) \<and> n \<le> length buf \<and> take n buf = stun_wire env m)"
    if "ready ty tr e" "body e = tlvs (plain_attrs m)" for e
    using encode_tail_writes [OF assms(1)] that unfolding ty_def tr_def by blast
  show ?thesis
    unfolding ms_stun_message_encode_def Let_def getter_defs encode_xor_addr_def
    by (fold tr_def encode_tail_def, simp only: e0(1) bind.bind_lunit prod.case, insert e0(2))
       ((rule appends_step, rule writers, assumption)+, rule tail, assumption,
         simp add: e0(3) plain_attrs_def tr_def [symmetric])
qed

text \<open>A binding request with credentials, a reflexive address, a priority and a fingerprint.\<close>

definition stun_sample_env :: stun_env where
  "stun_sample_env = \<lparr>hmacSha1 = (\<lambda>k b. replicate 20 (of_nat (length (k @ b)))), md5 = (\<lambda>b. replicate 16 7)\<rparr>"

definition stun_sample :: MSStunMessage where
  "stun_sample = ms_stun_message_enable_fingerprint (ms_stun_message_enable_message_integrity
     (ms_stun_message_set_priority (ms_stun_message_set_xor_mapped_address
       (ms_stun_message_set_password (ms_stun_message_set_username
         (ms_stun_binding_request_create (1, 2, 3)) (Some [97, 58, 98])) (Some [99]))
       (stun_addr_zero\<lparr>sa_fam := MS_STUN_ADDR_FAMILY_IPV4, sa_port := 5060, sa_v4 := 0xC0A80001\<rparr>)) 77) True) True"

lemmas stun_sample_defs = stun_sample_def ms_stun_message_enable_fingerprint_def
  ms_stun_message_enable_message_integrity_def ms_stun_message_set_priority_def
  ms_stun_message_set_xor_mapped_address_def ms_stun_message_set_password_def ms_stun_message_set_username_def
  ms_stun_binding_request_create_def ms_stun_message_create_def ms_stun_message_set_random_tr_id_def
  ms_stun_message_set_tr_id_def stun_message_zero_def stun_addr_zero_def

lemma stun_sample_env_ok: "env_ok stun_sample_env"
  by (simp add: env_ok_def stun_sample_env_def)

lemma stun_sample_ok: "message_ok stun_sample"
  by (simp add: message_ok_def addr_ok_def stun_sample_defs)

text \<open>C9: Encoding a message always succeeds and writes the wire format: the bytes counted by
  the result are the header with the length of the attributes, then the attributes one after
  the other, each padded to four bytes, the integrity computed over the bytes before it with
  the length up to its own end, and the fingerprint likewise. Every write stays inside the
  buffer that grows by doubling, and no byte of uninitialised memory gets into the message.
\<close>

theorem stun_encode_refines:
  assumes "env_ok env" "message_ok m"
  shows "\<exists>buf. ms_stun_message_encode env junk m = Some (length (stun_wire env m), buf) \<and>
    length (stun_wire env m) \<le> length buf \<and> take (length (stun_wire env m)) buf = stun_wire env m"
  using encode_writes_wire [OF assms, of junk] by (auto simp: succeeds_def)

theorem stun_encode_refines_witness:
  "\<exists>buf. ms_stun_message_encode stun_sample_env (\<lambda>i. of_nat i) stun_sample =
     Some (length (stun_wire stun_sample_env stun_sample), buf) \<and>
   take (length (stun_wire stun_sample_env stun_sample)) buf = stun_wire stun_sample_env stun_sample"
  using stun_encode_refines [OF stun_sample_env_ok stun_sample_ok, of "\<lambda>i. of_nat i"] by blast

end
