(* ===== verification/Stun_Roundtrip.thy ===== *)
theory Stun_Roundtrip
  imports Stun_Encode_Spec
begin

text \<open>
  The parser reads back what the encoder wrote: each attribute of the wire format is consumed
  by one turn of the parsing loop, and a whole message comes back with the fields it was sent with.
\<close>

section \<open>Reading inside a message\<close>

text \<open>The bytes \<open>v\<close> stand at offset \<open>p\<close> of \<open>b\<close>.\<close>

definition here :: "bytes \<Rightarrow> nat \<Rightarrow> bytes \<Rightarrow> bool" where
  "here b p v \<longleftrightarrow> (\<exists>pre r. b = pre @ v @ r \<and> length pre = p)"

lemma here_appendD:
  assumes "here b p (u @ v)"
  shows "here b p u" "here b (p + length u) v"
proof -
  obtain pre r where b: "b = pre @ (u @ v) @ r" "length pre = p" using assms by (auto simp: here_def)
  show "here b p u" using b by (auto simp: here_def)
  have "b = (pre @ u) @ v @ r" "length (pre @ u) = p + length u" using b by auto
  then show "here b (p + length u) v" unfolding here_def by blast
qed

lemma here_reads:
  "here b p [c] \<Longrightarrow> rd8 b p = Some c"
  "here b p (enc16 x) \<Longrightarrow> rd16 b p = Some x"
  "here b p (enc32 y) \<Longrightarrow> rd32 b p = Some y"
  "here b p v \<Longrightarrow> rd_block b p (length v) = Some v"
  unfolding here_def using rd16_at rd32_at rd_block_at
  by (fastforce simp: rd8_def nth_append simp del: rd16_in rd32_in rd_block_in)+

text \<open>The decoder at offset \<open>p\<close> of a message of \<open>n\<close> bytes, without error.\<close>

definition dec_at :: "bytes \<Rightarrow> nat \<Rightarrow> nat \<Rightarrow> StunMessageDecoder" where
  "dec_at b n p = \<lparr>sd_buffer = b, sd_ptr = p, sd_size = int n, sd_remaining = int n - int p, sd_error = False\<rparr>"

lemma dec_at_simps [simp]:
  "sd_buffer (dec_at b n p) = b" "sd_ptr (dec_at b n p) = p"
  "sd_remaining (dec_at b n p) = int n - int p" "\<not> sd_error (dec_at b n p)"
  by (simp_all add: dec_at_def)

lemma dec_at_advance [simp]: "p + k \<le> n \<Longrightarrow> decoder_advance k (dec_at b n p) = dec_at b n (p + k)"
  by (auto simp: decoder_advance_def dec_at_def)

lemma dec_at_reads:
  "here b p [c] \<Longrightarrow> p + 1 \<le> n \<Longrightarrow> decode8 (dec_at b n p) = Some (c, dec_at b n (p + 1))"
  "here b p (enc16 x) \<Longrightarrow> p + 2 \<le> n \<Longrightarrow> decode16 (dec_at b n p) = Some (x, dec_at b n (p + 2))"
  "here b p (enc32 y) \<Longrightarrow> p + 4 \<le> n \<Longrightarrow> decode32 (dec_at b n p) = Some (y, dec_at b n (p + 4))"
  by (simp_all add: decode8_def decode16_def decode32_def here_reads)

lemma join64: "push_bit 32 (ucast (ucast (drop_bit 32 v) :: u32)) OR ucast (ucast v :: u32) = (v :: u64)"
  by (rule bit_word_eqI) (auto simp: bit_simps)

lemma dec_at_read64:
  assumes "here b p (enc64 v)" "p + 8 \<le> n"
  shows "decode64 (dec_at b n p) = Some (v, dec_at b n (p + 8))"
  using assms here_appendD [OF assms(1) [unfolded enc64_def]]
  by (simp add: decode64_def here_reads join64)

lemma dec_at_padding:
  "here b p (replicate k 0) \<Longrightarrow> p + k \<le> n \<Longrightarrow> decode_padding (dec_at b n p) k = Some (dec_at b n (p + k))"
proof (induction k arbitrary: p)
  case (Suc k)
  have "here b p ([0] @ replicate k 0)" using Suc.prems by simp
  from here_appendD [OF this] Suc show ?case by (simp add: dec_at_reads)
qed simp

section \<open>One attribute\<close>

lemma length_tlv: "length (tlv (t, v)) = 4 + length v + stun_pad (length v)"
  by (simp add: tlv_def)

lemma unat_length: "length v < 65536 \<Longrightarrow> unat (of_nat (length v) :: u16) = length v"
  by (simp add: unat_of_nat take_bit_nat_eq_self)

lemma uint_length: "length v < 65536 \<Longrightarrow> uint (of_nat (length v) :: u16) = int (length v)"
  by (simp add: uint_nat unat_length)

text \<open>A turn of the loop, once the arm of the attribute's type has read exactly its value.\<close>

lemma parse_attribute_tlv:
  assumes h: "here b p (tlv (t, v))" and n: "p + length (tlv (t, v)) \<le> n" and v: "length v < 65536"
    and arm: "here b (p + 4) v \<Longrightarrow> p + 4 + length v \<le> n \<Longrightarrow>
      decode_attribute (dec_at b n (p + 4)) msg t (of_nat (length v)) =
      Some (Some (msg', dec_at b n (p + 4 + length v)))"
  shows "parse_attribute (dec_at b n p) msg = Some (Some (msg', dec_at b n (p + length (tlv (t, v)))))"
proof -
  have n4: "p + 4 + length v + stun_pad (length v) \<le> n" using n by (simp add: length_tlv)
  note h1 = here_appendD [OF h [unfolded tlv_def]]
  note h2 = here_appendD [OF h1(2)]
  note h3 = here_appendD [OF h2(2)]
  have "p + length (enc16 (fst (t, v))) + length (enc16 (of_nat (length (snd (t, v))) :: u16)) = p + 4" by simp
  note hv = h3 [unfolded this, unfolded snd_conv]
  have hd: "decode_attribute_header (dec_at b n p) = Some (t, of_nat (length v), dec_at b n (p + 4))"
    using h1(1) h2(1) n4 by (simp add: decode_attribute_header_def dec_at_reads) (simp add: eval_nat_numeral)
  have pad: "decode_padding (dec_at b n (p + 4 + length v)) (stun_pad (length v)) =
      Some (dec_at b n (p + length (tlv (t, v))))"
    using dec_at_padding [OF hv(2) n4] by (simp add: length_tlv add.assoc)
  have "p + 4 + length v \<le> n" using n4 by simp
  from arm [OF hv(1) this] hd pad n4 v show ?thesis
    by (auto simp: parse_attribute_def unat_length uint_length stun_pad_cases Let_def length_tlv split: if_splits)
qed

text \<open>\<open>consumes tr as f\<close>: the loop goes over the attributes \<open>as\<close> of a message with transaction
  identifier \<open>tr\<close> and changes the message by \<open>f\<close>.\<close>

definition consumes :: "bytes \<Rightarrow> (u16 \<times> bytes) list \<Rightarrow> (MSStunMessage \<Rightarrow> MSStunMessage) \<Rightarrow> bool" where
  "consumes tr as f \<longleftrightarrow> (\<forall>b n p msg. sm_tr_id msg = tr \<longrightarrow> here b p (tlvs as) \<longrightarrow> p + length (tlvs as) \<le> n \<longrightarrow>
     parse_attributes (dec_at b n p) msg = parse_attributes (dec_at b n (p + length (tlvs as))) (f msg) \<and>
     sm_tr_id (f msg) = tr)"

lemma consumes_Nil: "consumes tr [] (\<lambda>m. m)"
  by (simp add: consumes_def)

lemma consumes_append:
  assumes "consumes tr as f" "consumes tr bs g"
  shows "consumes tr (as @ bs) (\<lambda>m. g (f m))"
  unfolding consumes_def
proof (intro allI impI)
  fix b n p and msg :: MSStunMessage
  assume m: "sm_tr_id msg = tr" and h: "here b p (tlvs (as @ bs))" and n: "p + length (tlvs (as @ bs)) \<le> n"
  note hh = here_appendD [OF h [simplified]]
  have "parse_attributes (dec_at b n p) msg = parse_attributes (dec_at b n (p + length (tlvs as))) (f msg)"
    "sm_tr_id (f msg) = tr"
    using assms(1) m hh(1) n by (auto simp: consumes_def)
  moreover have "parse_attributes (dec_at b n (p + length (tlvs as))) (f msg) =
      parse_attributes (dec_at b n (p + length (tlvs as) + length (tlvs bs))) (g (f msg)) \<and> sm_tr_id (g (f msg)) = tr"
    using assms(2) \<open>sm_tr_id (f msg) = tr\<close> hh(2) n by (auto simp: consumes_def add.assoc)
  ultimately show "parse_attributes (dec_at b n p) msg =
      parse_attributes (dec_at b n (p + length (tlvs (as @ bs)))) (g (f msg)) \<and> sm_tr_id (g (f msg)) = tr"
    by (simp add: add.assoc)
qed

lemma consumes_attr:
  assumes "length v < 65536" "\<And>msg. sm_tr_id msg = tr \<Longrightarrow> sm_tr_id (f msg) = tr"
    and "\<And>b n q msg. sm_tr_id msg = tr \<Longrightarrow> here b q v \<Longrightarrow> q + length v \<le> n \<Longrightarrow>
      decode_attribute (dec_at b n q) msg t (of_nat (length v)) = Some (Some (f msg, dec_at b n (q + length v)))"
  shows "consumes tr [(t, v)] f"
  unfolding consumes_def
proof (intro allI impI)
  fix b n p and msg :: MSStunMessage
  assume m: "sm_tr_id msg = tr" and h: "here b p (tlvs [(t, v)])" and n: "p + length (tlvs [(t, v)]) \<le> n"
  then have "parse_attribute (dec_at b n p) msg = Some (Some (f msg, dec_at b n (p + length (tlv (t, v)))))"
    using assms by (intro parse_attribute_tlv) auto
  moreover have "0 < int n - int p" using n by (simp add: length_tlv)
  ultimately show "parse_attributes (dec_at b n p) msg =
      parse_attributes (dec_at b n (p + length (tlvs [(t, v)]))) (f msg) \<and> sm_tr_id (f msg) = tr"
    using assms(2) [OF m] by (subst parse_attributes.simps) simp
qed

section \<open>The arms of the switch\<close>

text \<open>The member of the union that the family does not name is zero.\<close>

definition addr_canon :: "MSStunAddress \<Rightarrow> bool" where
  "addr_canon a \<longleftrightarrow> addr_ok a \<and>
     (if sa_fam a = MS_STUN_ADDR_FAMILY_IPV6 then sa_v4 a = 0 else sa_v6 a = replicate 16 0)"

lemma addr_canon_xor: "addr_canon a \<Longrightarrow> length tr = 12 \<Longrightarrow> addr_canon (stun_address_xor a tr)"
  by (auto simp: addr_canon_def addr_ok_def stun_address_xor_def)

lemma addr_canon_eq:
  assumes "addr_canon a"
  shows "a = (if sa_fam a = MS_STUN_ADDR_FAMILY_IPV6
     then stun_addr_zero\<lparr>sa_fam := sa_fam a, sa_port := sa_port a, sa_v6 := sa_v6 a\<rparr>
     else stun_addr_zero\<lparr>sa_fam := sa_fam a, sa_port := sa_port a, sa_v4 := sa_v4 a\<rparr>)"
  using assms by (cases a) (auto simp: addr_canon_def stun_addr_zero_def split: if_splits)

lemma decode_addr_at:
  assumes c: "addr_canon a" and h: "here b p (addr_bytes a)" and n: "p + length (addr_bytes a) \<le> n"
  shows "decode_addr (dec_at b n p) (of_nat (length (addr_bytes a))) =
    Some (a, dec_at b n (p + length (addr_bytes a)))"
proof -
  let ?r = "if sa_fam a = MS_STUN_ADDR_FAMILY_IPV6 then sa_v6 a else enc32 (sa_v4 a)"
  have "here b p ([0] @ [sa_fam a] @ enc16 (sa_port a) @ ?r)"
    using h by (simp add: addr_bytes_def)
  note h0 = here_appendD [OF this]
  note h1 = here_appendD [OF h0(2)]
  note h2 = here_appendD [OF h1(2)]
  have ok: "addr_ok a" using c by (simp add: addr_canon_def)
  have pos: "p + length [0 :: u8] + length [sa_fam a] = p + 2"
    "p + length [0 :: u8] + length [sa_fam a] + length (enc16 (sa_port a)) = p + 4" by simp_all
  have rd: "here b p [0]" "here b (p + 1) [sa_fam a]" "here b (p + 2) (enc16 (sa_port a))" "here b (p + 4) ?r"
    using h0 h1 h2 by (simp_all only: pos) (simp_all add: eval_nat_numeral)
  show ?thesis
  proof (cases "sa_fam a = MS_STUN_ADDR_FAMILY_IPV6")
    case True
    have l: "length (sa_v6 a) = 16" using ok by (simp add: addr_ok_def)
    then have "rd_block b (p + 4) 16 = Some (sa_v6 a)" using here_reads(4) [OF rd(4)] True by simp
    then show ?thesis using rd n True ok addr_canon_eq [OF c]
      by (simp add: decode_addr_def length_addr_bytes dec_at_reads decode_def eval_nat_numeral)
  next
    case False
    then show ?thesis using rd n ok addr_canon_eq [OF c]
      by (simp add: decode_addr_def length_addr_bytes dec_at_reads eval_nat_numeral)
  qed
qed

lemma consumes_if:
  assumes "c \<Longrightarrow> consumes tr [(t, v)] f"
  shows "consumes tr (if_attr c t v) (\<lambda>m. if c then f m else m)"
  using assms by (auto simp: if_attr_def consumes_Nil)

lemma consumes_opt:
  assumes "\<And>x. v = Some x \<Longrightarrow> consumes tr [(t, x)] (f x)"
  shows "consumes tr (opt_attr t v) (\<lambda>m. case v of None \<Rightarrow> m | Some x \<Rightarrow> f x m)"
  using assms by (auto simp: opt_attr_def consumes_Nil split: option.splits)

lemma length_addr_bytes_less: "addr_canon a \<Longrightarrow> length (addr_bytes a) < 65536"
  by (simp add: length_addr_bytes addr_canon_def)

lemma consumes_mapped_address:
  assumes "addr_canon a"
  shows "consumes tr [(MS_STUN_ATTR_MAPPED_ADDRESS, addr_bytes a)]
    (\<lambda>m. m\<lparr>sm_mapped_address := a, sm_has_mapped_address := True\<rparr>)"
  by (rule consumes_attr)
     (simp_all add: length_addr_bytes_less assms decode_attribute_def decode_addr_at
       ms_stun_message_set_mapped_address_def)

lemma decode_xor_addr_at:
  assumes "addr_canon a" "length tr = 12" "here b p (addr_bytes (stun_address_xor a tr))"
    "p + length (addr_bytes (stun_address_xor a tr)) \<le> n"
  shows "decode_xor_addr (dec_at b n p) (of_nat (length (addr_bytes (stun_address_xor a tr)))) tr =
    Some (a, dec_at b n (p + length (addr_bytes (stun_address_xor a tr))))"
  using decode_addr_at [OF addr_canon_xor [OF assms(1,2)] assms(3,4)] assms(1,2)
  by (simp add: decode_xor_addr_def stun_address_xor_involution addr_canon_def addr_ok_def)

lemma consumes_xor_addresses:
  assumes "addr_canon a" "length tr = 12"
  shows "consumes tr [(MS_STUN_ATTR_XOR_MAPPED_ADDRESS, addr_bytes (stun_address_xor a tr))]
      (\<lambda>m. m\<lparr>sm_xor_mapped_address := a, sm_has_xor_mapped_address := True\<rparr>)"
    and "consumes tr [(MS_TURN_ATTR_XOR_PEER_ADDRESS, addr_bytes (stun_address_xor a tr))]
      (\<lambda>m. m\<lparr>sm_xor_peer_address := a, sm_has_xor_peer_address := True\<rparr>)"
    and "consumes tr [(MS_TURN_ATTR_XOR_RELAYED_ADDRESS, addr_bytes (stun_address_xor a tr))]
      (\<lambda>m. m\<lparr>sm_xor_relayed_address := a, sm_has_xor_relayed_address := True\<rparr>)"
  by (rule consumes_attr; simp add: length_addr_bytes_less addr_canon_xor assms decode_attribute_def
       decode_xor_addr_at ms_stun_message_set_xor_mapped_address_def ms_stun_message_get_tr_id_def
       ms_stun_message_set_xor_peer_address_def ms_stun_message_set_xor_relayed_address_def)+

lemma decode_string_at:
  assumes "here b p s" "p + length s \<le> n" "length s \<le> k" "length s < 65536"
  shows "decode_string (dec_at b n p) (of_nat (length s)) k = Some (Some s, dec_at b n (p + length s))"
  using assms by (simp add: decode_string_def unat_length here_reads)

lemma consumes_strings:
  assumes "c_string s"
  shows "length s \<le> 513 \<Longrightarrow> consumes tr [(MS_STUN_ATTR_USERNAME, s)]
      (\<lambda>m. m\<lparr>sm_username := Some s, sm_include_username_attribute := True\<rparr>)"
    and "length s \<le> 127 \<Longrightarrow> consumes tr [(MS_STUN_ATTR_REALM, s)] (\<lambda>m. m\<lparr>sm_realm := Some s\<rparr>)"
    and "length s \<le> 127 \<Longrightarrow> consumes tr [(MS_STUN_ATTR_NONCE, s)] (\<lambda>m. m\<lparr>sm_nonce := Some s\<rparr>)"
  using assms
  by (intro consumes_attr; simp add: decode_attribute_def decode_string_at ms_stun_message_set_username_def
      ms_stun_message_set_realm_def ms_stun_message_set_nonce_def)+

lemma consumes_words:
  "consumes tr [(MS_STUN_ATTR_CHANGE_REQUEST, enc32 v)] (\<lambda>m. m\<lparr>sm_change_request := v\<rparr>)"
  "consumes tr [(MS_STUN_ATTR_FINGERPRINT, enc32 v)] (\<lambda>m. m\<lparr>sm_fingerprint := v, sm_has_fingerprint := True\<rparr>)"
  "consumes tr [(MS_ICE_ATTR_PRIORITY, enc32 v)] (\<lambda>m. m\<lparr>sm_priority := v, sm_has_priority := True\<rparr>)"
  "consumes tr [(MS_TURN_ATTR_LIFETIME, enc32 v)] (\<lambda>m. m\<lparr>sm_lifetime := v, sm_has_lifetime := True\<rparr>)"
  "consumes tr [(MS_ICE_ATTR_USE_CANDIDATE, [])] (\<lambda>m. m\<lparr>sm_has_use_candidate := True\<rparr>)"
  "consumes tr [(MS_ICE_ATTR_ICE_CONTROLLED, enc64 w)]
     (\<lambda>m. m\<lparr>sm_ice_controlled := w, sm_has_ice_controlled := True\<rparr>)"
  "consumes tr [(MS_ICE_ATTR_ICE_CONTROLLING, enc64 w)]
     (\<lambda>m. m\<lparr>sm_ice_controlling := w, sm_has_ice_controlling := True\<rparr>)"
  by (rule consumes_attr; simp add: decode_attribute_def decode_change_request_def decode_fingerprint_def
      decode_priority_def decode_lifetime_def decode_ice_control_def dec_at_reads dec_at_read64
      ms_stun_message_set_priority_def ms_stun_message_set_lifetime_def ms_stun_message_enable_use_candidate_def
      ms_stun_message_set_ice_controlled_def ms_stun_message_set_ice_controlling_def)+

lemma consumes_data:
  assumes "length d < 65536" 
  shows "consumes tr [(MS_TURN_ATTR_DATA, d)]
    (\<lambda>m. m\<lparr>sm_data := Some d, sm_data_length := of_nat (length d), sm_own_data := True\<rparr>)"
  using assms
  by (intro consumes_attr) (simp_all add: decode_attribute_def decode_data_def decode_def unat_length here_reads
      ms_stun_message_set_data_def ms_stun_message_set_data_2_def)

lemma consumes_integrity:
  assumes "length h = 20"
  shows "consumes tr [(MS_STUN_ATTR_MESSAGE_INTEGRITY, h)]
    (\<lambda>m. m\<lparr>sm_message_integrity := Some h, sm_has_message_integrity := True,
           sm_has_dummy_message_integrity := sm_has_dummy_message_integrity m \<or> cstr h = dummy_hmac\<rparr>)"
proof (rule consumes_attr)
  fix b n q and msg :: MSStunMessage assume "here b q h" "q + length h \<le> n"
  then show "decode_attribute (dec_at b n q) msg MS_STUN_ATTR_MESSAGE_INTEGRITY (of_nat (length h)) =
    Some (Some (msg\<lparr>sm_message_integrity := Some h, sm_has_message_integrity := True,
           sm_has_dummy_message_integrity := sm_has_dummy_message_integrity msg \<or> cstr h = dummy_hmac\<rparr>,
      dec_at b n (q + length h)))"
    using here_reads(4) [of b q h] assms
    by (cases msg) (simp add: decode_attribute_def decode_integrity_attribute_def decode_message_integrity_def
        decode_def ms_stun_message_get_message_integrity_def Let_def)
qed (use assms in simp_all)

lemma ucast_byte: "unat (x :: u16) < 256 \<Longrightarrow> ucast (ucast x :: u8) = x"
  by (simp add: word_unat_eq_iff unsigned_ucast_eq unsigned_take_bit_eq take_bit_nat_eq_self)

lemma error_number:
  assumes "n < 25600"
  shows "ucast (ucast (n div 100) :: u8) * 100 + ucast (ucast (n - n div 100 * 100) :: u8) = (n :: u16)"
proof -
  have "unat n < 25600" using assms by (simp add: word_less_nat_alt)
  then have "unat (n div 100) < 256" by (simp add: unat_div less_mult_imp_div_less)
  moreover have "unat (n mod 100) < 256" by (simp add: unat_mod order_less_trans [OF mod_less_divisor])
  ultimately show ?thesis by (simp add: ucast_byte minus_div_mult_eq_mod div_mult_mod_eq)
qed

definition reason_ok :: "bytes option \<Rightarrow> bool" where
  "reason_ok r \<longleftrightarrow> (\<forall>s. r = Some s \<longrightarrow> s \<noteq> [] \<and> c_string s \<and> length s \<le> STUN_MAX_REASON_LENGTH)"

lemma decode_error_code_at:
  assumes "k < 25600" "reason_ok r" "here b p (error_bytes k r)" "p + length (error_bytes k r) \<le> n"
  shows "decode_error_code (dec_at b n p) (of_nat (length (error_bytes k r))) =
    Some (k, r, dec_at b n (p + length (error_bytes k r)))"
proof -
  let ?r = "case r of None \<Rightarrow> [] | Some s \<Rightarrow> s"
  let ?c = "ucast (k div 100) :: u8" and ?d = "ucast (k - k div 100 * 100) :: u8"
  have l: "length ?r \<le> 127" "length (error_bytes k r) = 4 + length ?r"
    using assms(2) by (auto simp: reason_ok_def error_bytes_def split: option.splits)
  have "here b p (enc16 0 @ [?c] @ [?d] @ ?r)"
    using assms(3) by (simp add: error_bytes_def enc16_def)
  note h0 = here_appendD [OF this]
  note h1 = here_appendD [OF h0(2)]
  note h2 = here_appendD [OF h1(2)]
  have pos: "p + length (enc16 0) = p + 2" "p + 2 + length [?c] = p + 3" "p + 3 + length [?d] = p + 4" by simp_all
  have rd: "here b p (enc16 0)" "here b (p + 2) [?c]" "here b (p + 3) [?d]" "here b (p + 4) ?r"
    using h0(1) h1(1) h2 by (simp_all only: pos)
  have len1: "unat (of_nat (length (error_bytes k r)) :: u16) = 4 + length ?r"
    using unat_length [of "error_bytes k r"] l by simp
  have len: "unat (of_nat (length (error_bytes k r)) :: u16) = 4 + length ?r"
    "unat (of_nat (length (error_bytes k r)) - 4 :: u16) = length ?r"
    "\<not> of_nat (length (error_bytes k r)) < (4 :: u16)"
    using len1 l(1) by (simp add: len1, simp add: l(2) unat_of_nat take_bit_nat_eq_self,
      unfold word_less_nat_alt len1, simp)
  have pos': "(0 < (of_nat (length (error_bytes k r)) - 4 :: u16)) = (?r \<noteq> [])"
    using len(2) by (simp add: word_less_nat_alt)
  have st: "decode16 (dec_at b n p) = Some (0, dec_at b n (p + 2))"
    "decode8 (dec_at b n (p + 2)) = Some (?c, dec_at b n (p + 3))"
    "decode8 (dec_at b n (p + 3)) = Some (?d, dec_at b n (p + 4))"
    using dec_at_reads(2) [OF rd(1)] dec_at_reads(1) [OF rd(2)] dec_at_reads(1) [OF rd(3)] assms(4) l(2)
    by (simp_all add: eval_nat_numeral)
  show ?thesis
  proof (cases "?r = []")
    case True
    then have "r = None" using assms(2) by (auto simp: reason_ok_def split: option.splits)
    with True rd len pos' l assms(4) show ?thesis
      by (simp add: decode_error_code_def st error_number [OF assms(1)] Let_def del: add_2_eq_Suc')
  next
    case False
    then obtain s where s: "r = Some s" by (auto split: option.splits)
    with False rd len pos' l assms(4) show ?thesis
      by (simp add: decode_error_code_def st error_number [OF assms(1)] Let_def decode_def here_reads add.assoc [symmetric] del: add_2_eq_Suc')
  qed
qed

lemma consumes_error_code:
  assumes "k < 25600" "reason_ok r"
  shows "consumes tr [(MS_STUN_ATTR_ERROR_CODE, error_bytes k r)]
    (\<lambda>m. m\<lparr>sm_number := k, sm_reason := r, sm_has_error_code := True\<rparr>)"
proof (rule consumes_attr)
  show "length (error_bytes k r) < 65536"
    using assms(2) by (auto simp: reason_ok_def error_bytes_def split: option.splits)
  have "map_option cstr r = r"
    using assms(2) by (cases r) (simp_all add: reason_ok_def)
  then show "decode_attribute (dec_at b n q) msg MS_STUN_ATTR_ERROR_CODE (of_nat (length (error_bytes k r))) =
      Some (Some (msg\<lparr>sm_number := k, sm_reason := r, sm_has_error_code := True\<rparr>,
        dec_at b n (q + length (error_bytes k r))))"
    if "here b q (error_bytes k r)" "q + length (error_bytes k r) \<le> n" for b n q and msg :: MSStunMessage
    using decode_error_code_at [OF assms that]
    by (simp add: decode_attribute_def ms_stun_message_set_error_code_def)
qed simp

section \<open>The whole message\<close>

text \<open>The messages whose every field survives: the type and the method within their bits, strings
  within the limits of the parser, an error number whose hundreds fit a byte, no attribute that
  only TURN servers read, and a length that fits its field.\<close>

definition string_ok :: "nat \<Rightarrow> bytes option \<Rightarrow> bool" where
  "string_ok k s \<longleftrightarrow> (\<forall>x. s = Some x \<longrightarrow> c_string x \<and> length x \<le> k)"

definition sendable :: "stun_env \<Rightarrow> MSStunMessage \<Rightarrow> bool" where
  "sendable env m \<longleftrightarrow> message_ok m \<and>
     sm_type m AND 0x0110 = sm_type m \<and> sm_method m AND 0x3EEF = sm_method m \<and>
     addr_canon (sm_mapped_address m) \<and> addr_canon (sm_xor_mapped_address m) \<and>
     addr_canon (sm_xor_peer_address m) \<and> addr_canon (sm_xor_relayed_address m) \<and>
     string_ok STUN_MAX_USERNAME_LENGTH (sm_username m) \<and> string_ok STUN_MAX_REALM_LENGTH (sm_realm m) \<and>
     string_ok STUN_MAX_NONCE_LENGTH (sm_nonce m) \<and> sm_number m < 25600 \<and> reason_ok (sm_reason m) \<and>
     \<not> sm_has_requested_transport m \<and> \<not> sm_has_requested_address_family m \<and> \<not> sm_has_channel_number m \<and>
     length (tlvs (stun_attrs env m)) < 65536"

definition sent_data :: "MSStunMessage \<Rightarrow> bytes option" where
  "sent_data m =
     (if sm_data_length m > 0 then map_option (take (unat (sm_data_length m))) (sm_data m) else None)"

definition sent_mac :: "stun_env \<Rightarrow> MSStunMessage \<Rightarrow> bytes option" where
  "sent_mac env m =
     (let w = tlvs (plain_attrs m) in
      map_option (\<lambda>mac. mac (stun_header (sm_type m OR sm_method m) (sm_tr_id m) (of_nat (length w + 24)) @ w))
        (stun_mac env m))"

definition sent_fingerprint :: "stun_env \<Rightarrow> MSStunMessage \<Rightarrow> u32" where
  "sent_fingerprint env m =
     (let w = tlvs (signed_attrs env m) in
      ms_stun_calculate_fingerprint (stun_header (sm_type m OR sm_method m) (sm_tr_id m)
        (of_nat (length w + 8)) @ w) XOR 0x5354554E)"

text \<open>What the other side has of a message \<open>m\<close>: the fields that were set, the values computed by
  the encoder (the length, the integrity, the fingerprint), and zero elsewhere. The password and
  \<open>ha1\<close> are not sent.\<close>

definition received_with :: "u16 \<Rightarrow> bytes option \<Rightarrow> u32 option \<Rightarrow> MSStunMessage \<Rightarrow> MSStunMessage" where
  "received_with len mac fp m =
     \<lparr>sm_type = sm_type m, sm_method = sm_method m, sm_length = len,
      sm_tr_id = sm_tr_id m, sm_data = sent_data m, sm_username = sm_username m, sm_password = None,
      sm_ha1 = None, sm_realm = sm_realm m, sm_message_integrity = mac, sm_software = None,
      sm_nonce = sm_nonce m, sm_reason = if sm_has_error_code m then sm_reason m else None,
      sm_number = if sm_has_error_code m then sm_number m else 0,
      sm_mapped_address = if sm_has_mapped_address m then sm_mapped_address m else stun_addr_zero,
      sm_xor_mapped_address = if sm_has_xor_mapped_address m then sm_xor_mapped_address m else stun_addr_zero,
      sm_xor_peer_address = if sm_has_xor_peer_address m then sm_xor_peer_address m else stun_addr_zero,
      sm_xor_relayed_address = if sm_has_xor_relayed_address m then sm_xor_relayed_address m else stun_addr_zero,
      sm_change_request = sm_change_request m,
      sm_fingerprint = (case fp of None \<Rightarrow> 0 | Some v \<Rightarrow> v),
      sm_priority = if sm_has_priority m then sm_priority m else 0,
      sm_ice_controlling = if sm_has_ice_controlling m then sm_ice_controlling m else 0,
      sm_ice_controlled = if sm_has_ice_controlled m then sm_ice_controlled m else 0,
      sm_lifetime = if sm_has_lifetime m then sm_lifetime m else 0, sm_channel_number = 0,
      sm_data_length = if sent_data m = None then 0 else sm_data_length m,
      sm_requested_transport = 0, sm_requested_address_family = 0,
      sm_include_username_attribute = (sm_username m \<noteq> None), sm_has_error_code = sm_has_error_code m,
      sm_has_message_integrity = (mac \<noteq> None),
      sm_has_dummy_message_integrity = (case mac of None \<Rightarrow> False | Some h \<Rightarrow> cstr h = dummy_hmac),
      sm_has_fingerprint = (fp \<noteq> None), sm_has_mapped_address = sm_has_mapped_address m,
      sm_has_xor_mapped_address = sm_has_xor_mapped_address m,
      sm_has_xor_peer_address = sm_has_xor_peer_address m,
      sm_has_xor_relayed_address = sm_has_xor_relayed_address m, sm_has_priority = sm_has_priority m,
      sm_has_use_candidate = sm_has_use_candidate m, sm_has_ice_controlling = sm_has_ice_controlling m,
      sm_has_ice_controlled = sm_has_ice_controlled m, sm_has_lifetime = sm_has_lifetime m,
      sm_has_channel_number = False, sm_has_requested_transport = False,
      sm_has_requested_address_family = False, sm_own_data = (sent_data m \<noteq> None)\<rparr>"

definition received :: "stun_env \<Rightarrow> MSStunMessage \<Rightarrow> MSStunMessage" where
  "received env m = received_with (of_nat (length (tlvs (stun_attrs env m)))) (sent_mac env m)
     (if sm_has_fingerprint m then Some (sent_fingerprint env m) else None) m"

lemma sent_mac_length:
  assumes "env_ok env" "sent_mac env m = Some h"
  shows "length h = 20"
  using assms length_dummy_hmac
  by (auto simp: sent_mac_def Let_def stun_mac_def env_ok_def split: option.splits if_splits)

lemma stun_attrs_eq:
  "stun_attrs env m = plain_attrs m @ opt_attr MS_STUN_ATTR_MESSAGE_INTEGRITY (sent_mac env m) @
     if_attr (sm_has_fingerprint m) MS_STUN_ATTR_FINGERPRINT (enc32 (sent_fingerprint env m))"
  by (simp add: stun_attrs_def signed_attrs_def sent_mac_def sent_fingerprint_def Let_def)

text \<open>\<open>reads as x y\<close>: over the attributes \<open>as\<close> the loop goes from the message \<open>x\<close> to \<open>y\<close>.\<close>

definition reads :: "(u16 \<times> bytes) list \<Rightarrow> MSStunMessage \<Rightarrow> MSStunMessage \<Rightarrow> bool" where
  "reads as x y \<longleftrightarrow> (\<forall>b n p. here b p (tlvs as) \<longrightarrow> p + length (tlvs as) \<le> n \<longrightarrow>
     parse_attributes (dec_at b n p) x = parse_attributes (dec_at b n (p + length (tlvs as))) y)"

lemma reads_append:
  assumes "reads as x y" "reads bs y z"
  shows "reads (as @ bs) x z"
  unfolding reads_def
proof (intro allI impI)
  fix b n p assume h: "here b p (tlvs (as @ bs))" and n: "p + length (tlvs (as @ bs)) \<le> n"
  note hh = here_appendD [OF h [unfolded tlvs_simps]]
  show "parse_attributes (dec_at b n p) x = parse_attributes (dec_at b n (p + length (tlvs (as @ bs)))) z"
    using assms hh n by (simp add: reads_def add.assoc [symmetric])
qed

lemma reads_if:
  assumes "consumes tr [(t, v)] f" "sm_tr_id x = tr" "c \<Longrightarrow> f x = y" "\<not> c \<Longrightarrow> x = y"
  shows "reads (if_attr c t v) x y"
  using assms by (auto simp: if_attr_def reads_def consumes_def)

lemma reads_opt:
  assumes "\<And>v. s = Some v \<Longrightarrow> consumes (sm_tr_id x) [(t, v)] (f v)" "\<And>v. s = Some v \<Longrightarrow> f v x = y"
    "s = None \<Longrightarrow> x = y"
  shows "reads (opt_attr t s) x y"
  using assms by (auto simp: opt_attr_def reads_def consumes_def split: option.splits)

lemma received_tr_id [simp]: "sm_tr_id (received_with len mac fp x) = sm_tr_id x"
  by (simp add: received_with_def)

lemmas received_eqs = received_with_def sent_data_def

named_theorems reads_rules \<open>each attribute, read into a message that does not have it\<close>

lemma reads_addresses [reads_rules]:
  assumes "addr_canon a" "length tr = 12" and x: "sm_tr_id x = tr"
  shows "\<not> sm_has_mapped_address x \<Longrightarrow> reads (if_attr c MS_STUN_ATTR_MAPPED_ADDRESS (addr_bytes a))
      (received_with l d f x) (received_with l d f (x\<lparr>sm_mapped_address := a, sm_has_mapped_address := c\<rparr>))"
    and "\<not> sm_has_xor_mapped_address x \<Longrightarrow>
      reads (if_attr c MS_STUN_ATTR_XOR_MAPPED_ADDRESS (addr_bytes (stun_address_xor a tr)))
      (received_with l d f x) (received_with l d f (x\<lparr>sm_xor_mapped_address := a, sm_has_xor_mapped_address := c\<rparr>))"
    and "\<not> sm_has_xor_peer_address x \<Longrightarrow>
      reads (if_attr c MS_TURN_ATTR_XOR_PEER_ADDRESS (addr_bytes (stun_address_xor a tr)))
      (received_with l d f x) (received_with l d f (x\<lparr>sm_xor_peer_address := a, sm_has_xor_peer_address := c\<rparr>))"
    and "\<not> sm_has_xor_relayed_address x \<Longrightarrow>
      reads (if_attr c MS_TURN_ATTR_XOR_RELAYED_ADDRESS (addr_bytes (stun_address_xor a tr)))
      (received_with l d f x) (received_with l d f (x\<lparr>sm_xor_relayed_address := a, sm_has_xor_relayed_address := c\<rparr>))"
  subgoal by (rule reads_if [OF consumes_mapped_address [OF assms(1)] received_tr_id [of l d f x, unfolded x]];
        simp add: received_eqs cong: if_cong split del: if_split)
  subgoal by (rule reads_if [OF consumes_xor_addresses(1) [OF assms(1,2)] received_tr_id [of l d f x, unfolded x]];
        simp add: received_eqs cong: if_cong split del: if_split)
  subgoal by (rule reads_if [OF consumes_xor_addresses(2) [OF assms(1,2)] received_tr_id [of l d f x, unfolded x]];
        simp add: received_eqs cong: if_cong split del: if_split)
  subgoal by (rule reads_if [OF consumes_xor_addresses(3) [OF assms(1,2)] received_tr_id [of l d f x, unfolded x]];
        simp add: received_eqs cong: if_cong split del: if_split)
  done

lemma reads_words [reads_rules]:
  "sm_change_request x = 0 \<Longrightarrow> reads (if_attr (v \<noteq> 0) MS_STUN_ATTR_CHANGE_REQUEST (enc32 v))
     (received_with l d f x) (received_with l d f (x\<lparr>sm_change_request := v\<rparr>))"
  "\<not> sm_has_priority x \<Longrightarrow> reads (if_attr c MS_ICE_ATTR_PRIORITY (enc32 v))
     (received_with l d f x) (received_with l d f (x\<lparr>sm_priority := v, sm_has_priority := c\<rparr>))"
  "\<not> sm_has_lifetime x \<Longrightarrow> reads (if_attr c MS_TURN_ATTR_LIFETIME (enc32 v))
     (received_with l d f x) (received_with l d f (x\<lparr>sm_lifetime := v, sm_has_lifetime := c\<rparr>))"
  "\<not> sm_has_use_candidate x \<Longrightarrow> reads (if_attr c MS_ICE_ATTR_USE_CANDIDATE [])
     (received_with l d f x) (received_with l d f (x\<lparr>sm_has_use_candidate := c\<rparr>))"
  "\<not> sm_has_ice_controlled x \<Longrightarrow> reads (if_attr c MS_ICE_ATTR_ICE_CONTROLLED (enc64 w))
     (received_with l d f x) (received_with l d f (x\<lparr>sm_ice_controlled := w, sm_has_ice_controlled := c\<rparr>))"
  "\<not> sm_has_ice_controlling x \<Longrightarrow> reads (if_attr c MS_ICE_ATTR_ICE_CONTROLLING (enc64 w))
     (received_with l d f x) (received_with l d f (x\<lparr>sm_ice_controlling := w, sm_has_ice_controlling := c\<rparr>))"
  by (rule reads_if, rule consumes_words, rule received_tr_id; simp add: received_eqs cong: if_cong split del: if_split)+

lemma reads_error_code [reads_rules]:
  assumes "k < 25600" "reason_ok r" "\<not> sm_has_error_code x"
  shows "reads (if_attr c MS_STUN_ATTR_ERROR_CODE (error_bytes k r)) (received_with l d f x)
    (received_with l d f (x\<lparr>sm_number := k, sm_reason := r, sm_has_error_code := c\<rparr>))"
  using assms(3)
  by (intro reads_if [OF consumes_error_code [OF assms(1,2)] received_tr_id]; simp add: received_eqs cong: if_cong split del: if_split)

text \<open>The strings are within the limits, so that the encoder did not cut them.\<close>

lemma reads_strings [reads_rules]:
  "string_ok STUN_MAX_USERNAME_LENGTH s \<Longrightarrow> sm_username x = None \<Longrightarrow>
     reads (opt_attr MS_STUN_ATTR_USERNAME (map_option (take STUN_MAX_USERNAME_LENGTH) s))
     (received_with l d f x) (received_with l d f (x\<lparr>sm_username := s\<rparr>))"
  "string_ok STUN_MAX_REALM_LENGTH s \<Longrightarrow> sm_realm x = None \<Longrightarrow>
     reads (opt_attr MS_STUN_ATTR_REALM (map_option (take STUN_MAX_REALM_LENGTH) s))
     (received_with l d f x) (received_with l d f (x\<lparr>sm_realm := s\<rparr>))"
  "string_ok STUN_MAX_NONCE_LENGTH s \<Longrightarrow> sm_nonce x = None \<Longrightarrow>
     reads (opt_attr MS_STUN_ATTR_NONCE (map_option (take STUN_MAX_NONCE_LENGTH) s))
     (received_with l d f x) (received_with l d f (x\<lparr>sm_nonce := s\<rparr>))"
  by (rule reads_opt, rule consumes_strings;
      auto simp: string_ok_def received_eqs cong: if_cong split del: if_split)+

lemma reads_data [reads_rules]:
  assumes "sm_data x = None" "\<And>d. s = Some d \<Longrightarrow> unat n \<le> length d"
  shows "reads (opt_attr MS_TURN_ATTR_DATA (if n > 0 then map_option (take (unat n)) s else None))
    (received_with l d f x) (received_with l d f (x\<lparr>sm_data := s, sm_data_length := n\<rparr>))"
proof (rule reads_opt)
  fix v assume v: "(if n > 0 then map_option (take (unat n)) s else None) = Some v"
  then have len: "length v = unat n" using assms(2) by (auto split: if_splits)
  then show "consumes (sm_tr_id (received_with l d f x)) [(MS_TURN_ATTR_DATA, v)]
     (\<lambda>m. m\<lparr>sm_data := Some v, sm_data_length := of_nat (length v), sm_own_data := True\<rparr>)"
    by (intro consumes_data) simp
  show "(received_with l d f x)\<lparr>sm_data := Some v, sm_data_length := of_nat (length v), sm_own_data := True\<rparr> =
     received_with l d f (x\<lparr>sm_data := s, sm_data_length := n\<rparr>)"
    using v len by (simp add: received_with_def sent_data_def cong: if_cong split: if_split_asm split del: if_split)
next
  assume "(if n > 0 then map_option (take (unat n)) s else None) = None"
  then show "received_with l d f x = received_with l d f (x\<lparr>sm_data := s, sm_data_length := n\<rparr>)"
    using assms(1) by (simp add: received_with_def sent_data_def cong: if_cong split del: if_split)
qed

lemma reads_absent: "\<not> c \<Longrightarrow> reads (if_attr c t v) x x"
  by (simp add: if_attr_def reads_def)

lemma reads_integrity:
  assumes "\<And>h. mac = Some h \<Longrightarrow> length h = 20"
  shows "reads (opt_attr MS_STUN_ATTR_MESSAGE_INTEGRITY mac) (received_with l None f x) (received_with l mac f x)"
  by (rule reads_opt, rule consumes_integrity, rule assms) (simp_all add: received_with_def)

lemma reads_fingerprint:
  "reads (if_attr c MS_STUN_ATTR_FINGERPRINT (enc32 v)) (received_with l d None x)
     (received_with l d (if c then Some v else None) x)"
  by (rule reads_if, rule consumes_words(2), rule received_tr_id) (simp_all add: received_with_def)

lemma reads_plain:
  assumes "sendable env m"
  shows "reads (plain_attrs m)
    (received_with l None None (stun_message_zero\<lparr>sm_type := sm_type m, sm_method := sm_method m, sm_tr_id := sm_tr_id m\<rparr>))
    (received_with l None None m)"
proof -
  define tr where "tr = sm_tr_id m"
  define x where "x = stun_message_zero\<lparr>sm_type := sm_type m, sm_method := sm_method m, sm_tr_id := tr\<rparr>"
  have ok: "length tr = 12" "addr_canon (sm_mapped_address m)" "addr_canon (sm_xor_mapped_address m)"
    "addr_canon (sm_xor_peer_address m)" "addr_canon (sm_xor_relayed_address m)"
    "string_ok STUN_MAX_USERNAME_LENGTH (sm_username m)" "string_ok STUN_MAX_REALM_LENGTH (sm_realm m)"
    "string_ok STUN_MAX_NONCE_LENGTH (sm_nonce m)" "sm_number m < 25600" "reason_ok (sm_reason m)"
    "\<not> sm_has_requested_transport m" "\<not> sm_has_requested_address_family m" "\<not> sm_has_channel_number m"
    "\<And>d. sm_data m = Some d \<Longrightarrow> unat (sm_data_length m) \<le> length d"
    using assms by (simp_all add: sendable_def message_ok_def tr_def)
  have x: "sm_tr_id x = tr" "\<not> sm_has_mapped_address x" "\<not> sm_has_xor_mapped_address x" "\<not> sm_has_xor_peer_address x"
    "\<not> sm_has_xor_relayed_address x" "sm_change_request x = 0" "\<not> sm_has_priority x" "\<not> sm_has_lifetime x"
    "\<not> sm_has_use_candidate x" "\<not> sm_has_ice_controlled x" "\<not> sm_has_ice_controlling x" "\<not> sm_has_error_code x"
    "sm_username x = None" "sm_realm x = None" "sm_nonce x = None" "sm_data x = None"
    by (simp_all add: x_def stun_message_zero_def)
  have last_step: "reads as u v \<Longrightarrow> v = w \<Longrightarrow> reads as u w" for as u v w by simp
  have "reads (plain_attrs m) (received_with l None None x) (received_with l None None m)"
    unfolding plain_attrs_def Let_def tr_def [symmetric]
    by ((rule reads_append, rule reads_rules reads_absent, (rule ok | (simp add: x ok; fail))+)+,
        rule last_step, rule reads_rules, (rule ok | (simp add: x ok; fail))+)
       (simp add: received_eqs x_def tr_def ok stun_message_zero_def cong: if_cong split del: if_split)
  then show ?thesis by (simp add: x_def tr_def)
qed

lemma reads_message:
  assumes "env_ok env" "sendable env m"
  shows "reads (stun_attrs env m)
    (received_with l None None (stun_message_zero\<lparr>sm_type := sm_type m, sm_method := sm_method m, sm_tr_id := sm_tr_id m\<rparr>))
    (received_with l (sent_mac env m) (if sm_has_fingerprint m then Some (sent_fingerprint env m) else None) m)"
  unfolding stun_attrs_eq
  by (rule reads_append [OF reads_plain [OF assms(2)]], rule reads_append [OF reads_integrity reads_fingerprint])
     (rule sent_mac_length [OF assms(1)])

lemma type_method_bits:
  assumes "(ty :: u16) AND 0x0110 = ty" "me AND 0x3EEF = me"
  shows "(ty OR me) AND 0x0110 = ty" "(ty OR me) AND 0x3EEF = me"
proof -
  have "(me AND 0x3EEF) AND 0x0110 = 0" "(ty AND 0x0110) AND 0x3EEF = 0"
    unfolding and.assoc by simp_all
  then have "me AND 0x0110 = 0" "ty AND 0x3EEF = 0" by (simp_all only: assms)
  then show "(ty OR me) AND 0x0110 = ty" "(ty OR me) AND 0x3EEF = me"
    using assms by (simp_all add: bit.conj_disj_distrib2)
qed

lemma decode_header_at:
  assumes "here b 0 (stun_header ty tr len)" "length tr = 12" "20 \<le> n"
  shows "decode_message_header (dec_at b n 0) msg = Some (msg\<lparr>sm_type := ty AND 0x0110, sm_method := ty AND 0x3EEF,
     sm_length := len, sm_tr_id := tr\<rparr>, dec_at b n 20)"
proof -
  note h0 = here_appendD [OF assms(1) [unfolded stun_header_def]]
  note h1 = here_appendD [OF h0(2)]
  note h2 = here_appendD [OF h1(2)]
  have pos: "0 + length (enc16 ty) = 2" "2 + length (enc16 len) = 4" "4 + length (enc32 0x2112A442) = 8" by simp_all
  have rd: "here b 0 (enc16 ty)" "here b 2 (enc16 len)" "here b 4 (enc32 0x2112A442)" "here b 8 tr"
    using h0(1) h1(1) h2 by (simp_all only: pos)
  have "decode16 (dec_at b n 0) = Some (ty, dec_at b n 2)" "decode16 (dec_at b n 2) = Some (len, dec_at b n 4)"
    "decode32 (dec_at b n 4) = Some (0x2112A442, dec_at b n 8)" "rd_block b 8 12 = Some tr"
    using dec_at_reads(2) [OF rd(1), of n] dec_at_reads(2) [OF rd(2), of n] dec_at_reads(3) [OF rd(3), of n]
      here_reads(4) [OF rd(4)] assms(2,3) by (simp_all add: eval_nat_numeral)
  then show ?thesis using assms(3)
    by (simp add: decode_message_header_def decode_def Let_def ms_stun_message_set_tr_id_def)
qed

lemma parse_wire:
  assumes "env_ok env" "sendable env m" and "n = length (stun_wire env m)" "take n buf = stun_wire env m"
  shows "ms_stun_message_create_from_buffer_parsing buf (int n) = Some (Some (received env m))"
proof -
  have tr: "length (sm_tr_id m) = 12" and len: "length (tlvs (stun_attrs env m)) < 65536"
    and bits: "sm_type m AND 0x0110 = sm_type m" "sm_method m AND 0x3EEF = sm_method m"
    using assms(2) by (simp_all add: sendable_def message_ok_def)
  define w where "w = tlvs (stun_attrs env m)"
  define l :: u16 where "l = of_nat (length w)"
  define hd where "hd = stun_header (sm_type m OR sm_method m) (sm_tr_id m) l"
  have hd20: "length hd = 20" using tr by (simp add: hd_def)
  have wire: "stun_wire env m = hd @ w" by (simp add: stun_wire_def w_def hd_def l_def Let_def)
  have n: "n = 20 + length w" and tk: "take n buf = hd @ w" using assms(3,4) hd20 by (simp_all add: wire)
  have buf: "here buf 0 (hd @ w)"
    unfolding here_def tk [symmetric] by (metis append_Nil append_take_drop_id list.size(3))
  note parts = here_appendD [OF buf]
  have ul: "unat l = length w" using len by (simp add: l_def w_def unat_of_nat take_bit_nat_eq_self)
  let ?m0 = "stun_message_zero\<lparr>sm_type := sm_type m, sm_method := sm_method m, sm_length := l, sm_tr_id := sm_tr_id m\<rparr>"
  have hdr: "decode_message_header (stun_message_decoder_init buf (int n)) stun_message_zero = Some (?m0, dec_at buf n 20)"
    using decode_header_at [OF parts(1) [unfolded hd_def] tr, of n] n type_method_bits [OF bits]
    by (simp add: dec_at_def stun_message_decoder_init_def)
  have "received_with l None None (stun_message_zero\<lparr>sm_type := sm_type m, sm_method := sm_method m, sm_tr_id := sm_tr_id m\<rparr>) = ?m0"
    by (simp add: received_eqs stun_message_zero_def)
  then have "parse_attributes (dec_at buf n 20) ?m0 = parse_attributes (dec_at buf n n) (received env m)"
    using reads_message [OF assms(1,2), of l] parts(2) n hd20
    by (simp add: reads_def w_def received_def l_def)
  also have "\<dots> = Some (Some (received env m))"
    by (simp add: parse_attributes.simps)
  finally show ?thesis
    using hdr n ul by (simp add: ms_stun_message_create_from_buffer_parsing_def ms_stun_message_get_length_def Let_def
        uint_nat)
qed

text \<open>C6: A message that was encoded and is then parsed comes back as it was sent: its class
  and method, transaction identifier, addresses (the xored ones restored), strings, error code,
  ICE and TURN attributes and data are those of the sender, the integrity and the fingerprint are
  the values the encoder computed, and what was not set is absent. The parser needs only the
  bytes of the message.
\<close>

theorem stun_roundtrip:
  assumes "env_ok env" "sendable env m"
    and "ms_stun_message_encode env junk m = Some (n, buf)"
  shows "ms_stun_message_create_from_buffer_parsing buf (int n) = Some (Some (received env m))"
proof -
  have "message_ok m" using assms(2) by (simp add: sendable_def)
  from encode_writes_wire [OF assms(1) this, of junk] assms(3) show ?thesis
    by (auto simp: succeeds_def intro!: parse_wire [OF assms(1,2)])
qed

lemma stun_sample_sendable: "sendable stun_sample_env stun_sample"
  unfolding sendable_def
  by (intro conjI stun_sample_ok)
     (simp_all add: stun_sample_defs addr_canon_def addr_ok_def string_ok_def c_string_def cstr_def reason_ok_def
       stun_attrs_eq plain_attrs_def if_attr_def opt_attr_def length_tlv stun_pad_def length_addr_bytes sent_mac_def
       stun_mac_def stun_sample_env_def error_bytes_def)

theorem stun_roundtrip_witness:
  "\<exists>n buf. ms_stun_message_encode stun_sample_env (\<lambda>i. of_nat i) stun_sample = Some (n, buf) \<and>
     ms_stun_message_create_from_buffer_parsing buf (int n) = Some (Some (received stun_sample_env stun_sample)) \<and>
     sm_username (received stun_sample_env stun_sample) = Some [97, 58, 98]"
proof -
  obtain n buf where "ms_stun_message_encode stun_sample_env (\<lambda>i. of_nat i) stun_sample = Some (n, buf)"
    using encode_writes_wire [OF stun_sample_env_ok stun_sample_ok] by (force simp: succeeds_def)
  moreover from stun_roundtrip [OF stun_sample_env_ok stun_sample_sendable this]
  have "ms_stun_message_create_from_buffer_parsing buf (int n) = Some (Some (received stun_sample_env stun_sample))" .
  moreover have "sm_username (received stun_sample_env stun_sample) = Some [97, 58, 98]"
    by (simp add: received_def received_with_def stun_sample_defs cstr_def)
  ultimately show ?thesis by blast
qed

end
