(* ===== verification/Stun_Safety.thy ===== *)
theory Stun_Safety
  imports Stun_Roundtrip
begin

text \<open>
  What the parser of STUN messages does on arbitrary bytes: how far it reads, when it faults,
  and what a message it accepts has in common with the bytes.
\<close>

section \<open>Reads stay close to the message\<close>

lemma prim_defined:
  "sd_ptr d + 1 \<le> length (sd_buffer d) \<Longrightarrow> \<exists>v. decode8 d = Some (v, decoder_advance 1 d)"
  "sd_ptr d + 2 \<le> length (sd_buffer d) \<Longrightarrow> \<exists>v. decode16 d = Some (v, decoder_advance 2 d)"
  "sd_ptr d + 4 \<le> length (sd_buffer d) \<Longrightarrow> \<exists>v. decode32 d = Some (v, decoder_advance 4 d)"
  "sd_ptr d + 8 \<le> length (sd_buffer d) \<Longrightarrow> \<exists>v. decode64 d = Some (v, decoder_advance 8 d)"
  by (simp_all add: decode8_def decode16_def decode32_def decode64_def)

lemma addr_defined:
  assumes "sd_ptr d + 20 \<le> length (sd_buffer d)"
  shows "decode_addr d len \<noteq> None" "decode_xor_addr d len tr \<noteq> None"
proof -
  show "decode_addr d len \<noteq> None"
    using assms by (auto simp: decode_addr_def decode8_def decode16_def decode32_def decode_def)
  then show "decode_xor_addr d len tr \<noteq> None"
    by (auto simp: decode_xor_addr_def split: bind_splits)
qed

lemma word_defined:
  assumes "sd_ptr d + unat len \<le> length (sd_buffer d)"
  shows "decode_change_request d len \<noteq> None" "decode_fingerprint d len \<noteq> None"
    "decode_priority d len \<noteq> None" "decode_lifetime d len \<noteq> None" "decode_ice_control d len \<noteq> None"
  using assms by (auto simp: decode_change_request_def decode_fingerprint_def decode_priority_def
      decode_lifetime_def decode_ice_control_def decode32_def decode64_def)

lemma block_defined:
  assumes "sd_ptr d + unat len \<le> length (sd_buffer d)"
  shows "decode_string d len k \<noteq> None" "decode_data d len \<noteq> None"
    "len = 20 \<Longrightarrow> decode_integrity_attribute d msg len \<noteq> None"
  using assms by (auto simp: decode_string_def decode_data_def decode_def decode_integrity_attribute_def
      decode_message_integrity_def ms_stun_message_get_message_integrity_def Let_def)

lemma error_code_defined:
  assumes "sd_ptr d + unat len \<le> length (sd_buffer d)"
  shows "decode_error_code d len \<noteq> None"
proof -
  have "4 \<le> len \<Longrightarrow> unat (len - 4) + 4 = unat len"
    by (simp add: unat_sub word_le_nat_alt)
  moreover have "4 \<le> len \<Longrightarrow> 4 \<le> unat len" by (simp add: word_le_nat_alt)
  ultimately show ?thesis
    using assms by (auto simp: decode_error_code_def decode8_def decode16_def decode_def Let_def not_less)
qed

text \<open>An arm of the switch faults only on an integrity of the wrong length, provided twelve bytes
  follow the message: an address attribute of eight bytes whose family is IPv6 is read as twenty.\<close>

lemma bind_Some_defined:
  "x \<bind> (\<lambda>v. Some (g v)) \<noteq> None \<longleftrightarrow> x \<noteq> None"
  "y \<bind> (\<lambda>(a, b). Some (h a b)) \<noteq> None \<longleftrightarrow> y \<noteq> None"
  "z \<bind> (\<lambda>(a, b, c). Some (k a b c)) \<noteq> None \<longleftrightarrow> z \<noteq> None"
  by (auto split: bind_splits)

lemma decode_attribute_defined:
  assumes fits: "sd_ptr d + unat len \<le> n" and slack: "n + 12 \<le> length (sd_buffer d)"
    and mac: "ty = MS_STUN_ATTR_MESSAGE_INTEGRITY \<Longrightarrow> len = 20"
  shows "decode_attribute d msg ty len \<noteq> None"
proof -
  have le: "sd_ptr d + unat len \<le> length (sd_buffer d)" using fits slack by simp
  have addr: "decode_addr d len \<noteq> None" "decode_xor_addr d len tr \<noteq> None" for tr
  proof -
    have "len \<noteq> 8 \<and> len \<noteq> 20 \<Longrightarrow> decode_addr d len \<noteq> None" by (simp add: decode_addr_def)
    moreover have "len = 8 \<or> len = 20 \<Longrightarrow> sd_ptr d + 20 \<le> length (sd_buffer d)"
      using fits slack by auto
    ultimately show "decode_addr d len \<noteq> None" using addr_defined(1) by blast
    then show "decode_xor_addr d len tr \<noteq> None" for tr
      by (auto simp: decode_xor_addr_def split: bind_splits)
  qed
  show ?thesis
    using addr word_defined [OF le] block_defined [OF le] error_code_defined [OF le] mac
    by (simp add: decode_attribute_def bind_Some_defined del: not_None_eq)
qed

lemma decode_padding_defined:
  "sd_ptr d + k \<le> length (sd_buffer d) \<Longrightarrow> decode_padding d k \<noteq> None"
proof (induction k arbitrary: d)
  case (Suc k)
  then obtain v where "decode8 d = Some (v, decoder_advance 1 d)" using prim_defined(1) [of d] by auto
  with Suc show ?case by simp
qed simp

definition bad_integrity_at :: "bytes \<Rightarrow> int \<Rightarrow> nat \<Rightarrow> bool" where
  "bad_integrity_at b n p \<longleftrightarrow> (\<exists>len. rd16 b p = Some MS_STUN_ATTR_MESSAGE_INTEGRITY \<and> rd16 b (p + 2) = Some len \<and>
     len \<noteq> 20 \<and> int (p + 4 + unat len) \<le> n)"

text \<open>The decoder inside a message of \<open>n\<close> bytes, past its header.\<close>

definition dec_inside :: "bytes \<Rightarrow> int \<Rightarrow> StunMessageDecoder \<Rightarrow> bool" where
  "dec_inside b n d \<longleftrightarrow> sd_buffer d = b \<and> int (sd_ptr d) + sd_remaining d = n \<and> 20 \<le> sd_ptr d \<and> \<not> sd_error d"

lemma attribute_header_inside:
  assumes d: "dec_inside b n d" and rem: "0 < sd_remaining d" and slack: "n + 12 \<le> int (length b)"
  shows "\<exists>ty len d1. decode_attribute_header d = Some (ty, len, d1) \<and> rd16 b (sd_ptr d) = Some ty \<and>
     rd16 b (sd_ptr d + 2) = Some len \<and> sd_buffer d1 = b \<and> sd_ptr d1 = sd_ptr d + 4 \<and>
     int (sd_ptr d1) + sd_remaining d1 = n"
proof -
  have b: "sd_buffer d = b" "int (sd_ptr d) < n" using d rem by (auto simp: dec_inside_def)
  then have "sd_ptr d + 4 \<le> length b" using slack by linarith
  then obtain ty len where "rd16 b (sd_ptr d) = Some ty" "rd16 b (sd_ptr d + 2) = Some len"
    by fastforce
  then show ?thesis
    using b d by (auto simp: decode_attribute_header_def decode16_def dec_inside_def)
qed

lemma parse_attribute_defined:
  assumes d: "dec_inside b n d" and rem: "0 < sd_remaining d" and slack: "n + 12 \<le> int (length b)"
    and mac: "\<not> bad_integrity_at b n (sd_ptr d)"
  shows "parse_attribute d msg \<noteq> None"
proof -
  obtain ty len d1 where h: "decode_attribute_header d = Some (ty, len, d1)" "rd16 b (sd_ptr d) = Some ty"
    "rd16 b (sd_ptr d + 2) = Some len" "sd_buffer d1 = b" "sd_ptr d1 = sd_ptr d + 4"
    "int (sd_ptr d1) + sd_remaining d1 = n"
    using attribute_header_inside [OF d rem slack] by blast
  show ?thesis
  proof (cases "sd_error d1 \<or> sd_remaining d1 < int (unat len)")
    case True
    then show ?thesis using h(1) by (auto simp: parse_attribute_def)
  next
    case False
    then have inside: "int (sd_ptr d + 4 + unat len) \<le> n" using h(5,6) by linarith
    then have fits: "sd_ptr d1 + unat len \<le> nat n" using h(5) by linarith
    have slack': "nat n + 12 \<le> length (sd_buffer d1)" unfolding h(4) using slack inside by linarith
    have "ty = MS_STUN_ATTR_MESSAGE_INTEGRITY \<Longrightarrow> len = 20"
      using mac h(2,3) inside unfolding bad_integrity_at_def by blast
    then have arm: "decode_attribute d1 msg ty len \<noteq> None"
      using decode_attribute_defined [OF fits slack', of ty msg] by blast
    have "decode_padding d2 (4 - unat len mod 4) \<noteq> None"
      if "decode_attribute d1 msg ty len = Some (Some (m2, d2))" "\<not> sd_error d2" "4 - unat len mod 4 < 4" for m2 d2
    proof -
      have m: "moves d1 d2" by (rule decode_attribute_moves [OF that(1)])
      moreover have "0 \<le> sd_remaining d1" using False by linarith
      ultimately have "0 \<le> sd_remaining d2" using that(2) by (auto simp: moves_def)
      then have "int (sd_ptr d2) \<le> n" "sd_buffer d2 = b" using m h(4,6) by (auto simp: moves_def)
      moreover from this have "sd_ptr d2 + (4 - unat len mod 4) \<le> length b" using slack that(3) by linarith
      ultimately show ?thesis by (simp add: decode_padding_defined del: not_None_eq)
    qed
    with arm h(1) False show ?thesis
      by (auto simp: parse_attribute_def Let_def split: option.splits bind_splits)
  qed
qed

lemma parse_attribute_inside:
  assumes "dec_inside b n d" "parse_attribute d msg = Some (Some (msg', d'))"
  shows "dec_inside b n d'"
  using assms(1) parse_attribute_moves [OF assms(2)] by (auto simp: dec_inside_def moves_def)

lemma parse_attributes_fault:
  assumes "dec_inside b n d" "n + 12 \<le> int (length b)" "parse_attributes d msg = None"
  shows "\<exists>p\<ge>20. bad_integrity_at b n p"
  using assms
proof (induction d msg rule: parse_attributes.induct)
  case (1 d msg)
  have rem: "0 < sd_remaining d" using "1.prems"(3) by (subst (asm) parse_attributes.simps) (auto split: if_splits)
  have "20 \<le> sd_ptr d" using "1.prems"(1) by (simp add: dec_inside_def)
  have run: "(case parse_attribute d msg of None \<Rightarrow> None | Some None \<Rightarrow> Some None
      | Some (Some (msg', d')) \<Rightarrow> parse_attributes d' msg') = None"
    using "1.prems"(3) rem by (subst (asm) parse_attributes.simps) simp
  show ?case
  proof (cases "bad_integrity_at b n (sd_ptr d)")
    case True
    then show ?thesis using \<open>20 \<le> sd_ptr d\<close> by blast
  next
    case False
    then obtain m' d' where p: "parse_attribute d msg = Some (Some (m', d'))"
      using parse_attribute_defined [OF "1.prems"(1) rem "1.prems"(2), of msg] run
      by (auto split: option.splits)
    then have "parse_attributes d' m' = None" using run by simp
    then show ?thesis
      using "1.IH" [OF rem p refl refl parse_attribute_inside [OF "1.prems"(1) p] "1.prems"(2)] by blast
  qed
qed

lemma header_inside:
  assumes "20 \<le> n" "n \<le> int (length b)"
    and "decode_message_header (stun_message_decoder_init b n) msg = Some (msg', d)" "\<not> sd_error d"
  shows "dec_inside b n d"
  using assms
  by (auto simp: decode_message_header_def decode16_def decode32_def decode_def stun_message_decoder_init_def
      dec_inside_def Let_def split: bind_splits if_splits)

lemma header_defined:
  assumes "20 \<le> n" "n \<le> int (length b)"
  shows "decode_message_header (stun_message_decoder_init b n) msg \<noteq> None"
  using assms
  by (auto simp: decode_message_header_def decode16_def decode32_def decode_def stun_message_decoder_init_def
      Let_def)



section \<open>Faults\<close>

lemma parse_after_header:
  assumes "length tr = 12" "length w < 65536" "buf = stun_header ty tr (of_nat (length w)) @ w @ r"
  shows "\<exists>msg. ms_stun_message_create_from_buffer_parsing buf (20 + int (length w)) =
    parse_attributes (dec_at buf (20 + length w) 20) msg"
proof -
  have "here buf 0 (stun_header ty tr (of_nat (length w)))" unfolding assms(3) here_def by (metis append_Nil list.size(3))
  from decode_header_at [OF this assms(1), of "20 + length w" stun_message_zero]
  show ?thesis
    using uint_length [OF assms(2)]
    by (auto simp: ms_stun_message_create_from_buffer_parsing_def stun_message_decoder_init_def
        ms_stun_message_get_length_def dec_at_def Let_def)
qed

text \<open>The loop stops at an attribute that faults.\<close>

lemma parse_first_fault:
  assumes "here buf 20 (enc16 ty @ enc16 len @ v)" "24 + unat len \<le> n"
    and "\<And>msg. here buf 24 v \<Longrightarrow> decode_attribute (dec_at buf n 24) msg ty len = None"
  shows "parse_attributes (dec_at buf n 20) msg = None"
proof -
  note h0 = here_appendD [OF assms(1)]
  note h1 = here_appendD [OF h0(2)]
  have rd: "here buf 22 (enc16 len)" "here buf 24 v" using h1 by simp_all
  have "decode_attribute_header (dec_at buf n 20) = Some (ty, len, dec_at buf n 24)"
    using dec_at_reads(2) [OF h0(1), of n] dec_at_reads(2) [OF rd(1), of n] assms(2)
    by (simp add: decode_attribute_header_def)
  moreover have "\<not> int n - 24 < uint len" using assms(2) uint_nat [of len] by linarith
  ultimately have "parse_attribute (dec_at buf n 20) msg = None"
    using assms(3) [OF rd(2)] by (simp add: parse_attribute_def)
  then show ?thesis using assms(2) by (subst parse_attributes.simps) simp
qed

lemma bad_integrity_faults:
  "len \<noteq> 20 \<Longrightarrow> decode_attribute d msg MS_STUN_ATTR_MESSAGE_INTEGRITY len = None"
  by (simp add: decode_attribute_def decode_integrity_attribute_def decode_message_integrity_def
      ms_stun_message_get_message_integrity_def)

lemma short_ipv6_faults:
  assumes "here buf 24 ([0, MS_STUN_ADDR_FAMILY_IPV6] @ u)" "length buf = 32"
  shows "decode_attribute (dec_at buf 32 24) msg MS_STUN_ATTR_MAPPED_ADDRESS 8 = None"
proof -
  have h: "here buf 24 ([0] @ [2] @ u)" using assms(1) by simp
  have "rd8 buf 24 = Some 0" "rd8 buf 25 = Some 2"
    using here_reads(1) [OF here_appendD(1) [OF h]] here_reads(1) [OF here_appendD(1) [OF here_appendD(2) [OF h]]]
    by simp_all
  then have "decode_addr (dec_at buf 32 24) 8 = None"
    using assms(2) by (auto simp: decode_addr_def decode8_def decode16_def decode_def rd_block_def split: bind_splits)
  then show ?thesis by (simp add: decode_attribute_def)
qed

text \<open>C33: Two kinds of packets make the parser fault. A message whose first attribute is a
  message integrity with any length but twenty makes it call \<open>strcmp\<close> on NULL, whatever follows the
  attribute and the message. And a message that ends with an address attribute of eight bytes with
  the IPv6 family is read past its end.
\<close>

theorem stun_parse_faults:
  assumes "length tr = 12" "length v < 60000" "length v \<noteq> 20" "length u = 6"
  shows "ms_stun_message_create_from_buffer_parsing
      (stun_header ty tr (of_nat (length (tlv (MS_STUN_ATTR_MESSAGE_INTEGRITY, v)))) @
       tlv (MS_STUN_ATTR_MESSAGE_INTEGRITY, v) @ r)
      (20 + int (length (tlv (MS_STUN_ATTR_MESSAGE_INTEGRITY, v)))) = None \<and>
    ms_stun_message_create_from_buffer_parsing
      (stun_header ty tr 12 @ enc16 MS_STUN_ATTR_MAPPED_ADDRESS @ enc16 8 @ [0, MS_STUN_ADDR_FAMILY_IPV6] @ u) 32 = None"
proof (rule conjI)
  define w where "w = tlv (MS_STUN_ATTR_MESSAGE_INTEGRITY, v)"
  define b where "b = stun_header ty tr (of_nat (length w)) @ w @ r"
  have w: "length w < 65536" "24 + length v \<le> 20 + length w"
    using assms(2) by (simp_all add: w_def length_tlv stun_pad_def)
  have u: "unat (of_nat (length v) :: u16) = length v" using unat_length [of v] assms(2) by simp
  then have ne: "of_nat (length v) \<noteq> (20 :: u16)" using assms(3) by auto
  obtain msg where run: "ms_stun_message_create_from_buffer_parsing b (20 + int (length w)) =
      parse_attributes (dec_at b (20 + length w) 20) msg"
    using parse_after_header [OF assms(1) w(1) b_def] by blast
  have "here b 20 w" unfolding b_def here_def using assms(1) length_stun_header by blast
  then have h: "here b 20 (enc16 MS_STUN_ATTR_MESSAGE_INTEGRITY @ enc16 (of_nat (length v)) @ v @
      replicate (stun_pad (length v)) 0)" by (simp add: w_def tlv_def)
  have "parse_attributes (dec_at b (20 + length w) 20) msg = None"
    using parse_first_fault [OF h] bad_integrity_faults [OF ne] w(2) u by simp
  with run show "ms_stun_message_create_from_buffer_parsing
      (stun_header ty tr (of_nat (length (tlv (MS_STUN_ATTR_MESSAGE_INTEGRITY, v)))) @
       tlv (MS_STUN_ATTR_MESSAGE_INTEGRITY, v) @ r)
      (20 + int (length (tlv (MS_STUN_ATTR_MESSAGE_INTEGRITY, v)))) = None"
    unfolding b_def w_def by simp
next
  define w where "w = enc16 MS_STUN_ATTR_MAPPED_ADDRESS @ enc16 8 @ [0, MS_STUN_ADDR_FAMILY_IPV6] @ u"
  define b where "b = stun_header ty tr 12 @ w"
  have w: "length w = 12" using assms(4) by (simp add: w_def)
  have b: "length b = 32" "b = stun_header ty tr (of_nat (length w)) @ w @ []" using assms(1) w by (simp_all add: b_def)
  obtain msg where run: "ms_stun_message_create_from_buffer_parsing b 32 = parse_attributes (dec_at b 32 20) msg"
    using parse_after_header [OF assms(1) _ b(2)] w by auto
  have "here b 20 w" unfolding b(2) here_def using assms(1) length_stun_header by blast
  then have "here b 20 (enc16 MS_STUN_ATTR_MAPPED_ADDRESS @ enc16 8 @ ([0, MS_STUN_ADDR_FAMILY_IPV6] @ u))"
    by (simp add: w_def)
  then have "parse_attributes (dec_at b 32 20) msg = None"
    by (rule parse_first_fault) (simp, rule short_ipv6_faults [OF _ b(1)])
  with run show "ms_stun_message_create_from_buffer_parsing
      (stun_header ty tr 12 @ enc16 MS_STUN_ATTR_MAPPED_ADDRESS @ enc16 8 @ [0, MS_STUN_ADDR_FAMILY_IPV6] @ u) 32 = None"
    unfolding b_def w_def by simp
qed

theorem stun_parse_faults_witness:
  "ms_stun_message_create_from_buffer_parsing
     (stun_header 1 (replicate 12 7) (of_nat (length (tlv (MS_STUN_ATTR_MESSAGE_INTEGRITY, [])))) @
      tlv (MS_STUN_ATTR_MESSAGE_INTEGRITY, []) @ [])
     (20 + int (length (tlv (MS_STUN_ATTR_MESSAGE_INTEGRITY, [])))) = None"
  using stun_parse_faults [of "replicate 12 7" "[]" "replicate 6 0" 1 "[]"] by simp

section \<open>Messages the parser accepts\<close>

text \<open>The header fields are those of the bytes, strings are within their limits, an integrity has
  twenty bytes, a data block has the length it says, and no credential is set.\<close>

definition accepted :: "u16 \<Rightarrow> u16 \<Rightarrow> bytes \<Rightarrow> MSStunMessage \<Rightarrow> bool" where
  "accepted ty len tr m \<longleftrightarrow> sm_type m = ty AND 0x0110 \<and> sm_method m = ty AND 0x3EEF \<and> sm_length m = len \<and>
     sm_tr_id m = tr \<and> message_ok m \<and>
     string_ok STUN_MAX_USERNAME_LENGTH (sm_username m) \<and> string_ok STUN_MAX_REALM_LENGTH (sm_realm m) \<and>
     string_ok STUN_MAX_NONCE_LENGTH (sm_nonce m) \<and> string_ok STUN_MAX_SOFTWARE_LENGTH (sm_software m) \<and>
     string_ok STUN_MAX_REASON_LENGTH (sm_reason m) \<and>
     (sm_has_message_integrity m \<longrightarrow> (\<exists>h. sm_message_integrity m = Some h \<and> length h = 20)) \<and>
     sm_password m = None \<and> sm_ha1 m = None"

lemma decode_addr_ok:
  "decode_addr d len = Some (a, d') \<Longrightarrow> addr_ok a"
  "decode_xor_addr d len tr = Some (a, d') \<Longrightarrow> length tr = 12 \<Longrightarrow> addr_ok a"
proof -
  show 1: "addr_ok a" if "decode_addr d len = Some (a, d')" for a d'
    using that by (auto simp: decode_addr_def addr_ok_def stun_addr_zero_def decode_def
        split: if_splits bind_splits dest!: rd_block_length)
  show "decode_xor_addr d len tr = Some (a, d') \<Longrightarrow> length tr = 12 \<Longrightarrow> addr_ok a"
    by (auto simp: decode_xor_addr_def addr_ok_xor split: bind_splits dest!: 1)
qed

lemma length_cstr: "length (cstr s) \<le> length s"
  by (simp add: cstr_def length_takeWhile_le)

lemma decode_string_ok:
  "decode_string d len k = Some (s, d') \<Longrightarrow> string_ok k (map_option cstr s)"
  using le_trans [OF length_cstr]
  by (auto simp: decode_string_def string_ok_def split: if_splits bind_splits dest!: rd_block_length)

lemma decode_error_code_ok:
  assumes "decode_error_code d len = Some (n, r, d')"
  shows "string_ok STUN_MAX_REASON_LENGTH (map_option cstr r)"
proof -
  have "\<not> len < 4 \<Longrightarrow> unat (len - 4) + 4 = unat len" by (simp add: unat_sub word_le_nat_alt not_less)
  then have "length x \<le> 127" if "r = Some x" for x
    using assms that
    by (auto simp: decode_error_code_def decode_def Let_def split: if_splits bind_splits dest!: rd_block_length)
  then show ?thesis using le_trans [OF length_cstr] by (auto simp: string_ok_def)
qed

lemma decode_block_ok:
  "decode_data d len = Some (b, d') \<Longrightarrow> length b = unat len"
  "decode_integrity_attribute d m len = Some (m', d') \<Longrightarrow>
     \<exists>h c. length h = 20 \<and> m' = m\<lparr>sm_message_integrity := Some h, sm_has_message_integrity := True,
       sm_has_dummy_message_integrity := c\<rparr>"
proof -
  show "decode_data d len = Some (b, d') \<Longrightarrow> length b = unat len"
    by (auto simp: decode_data_def decode_def split: bind_splits dest!: rd_block_length)
  assume a: "decode_integrity_attribute d m len = Some (m', d')"
  then obtain h where h: "length h = 20" "m' = (if cstr h = dummy_hmac
      then m\<lparr>sm_message_integrity := Some h, sm_has_message_integrity := True, sm_has_dummy_message_integrity := True\<rparr>
      else m\<lparr>sm_message_integrity := Some h, sm_has_message_integrity := True\<rparr>)"
    by (auto simp: decode_integrity_attribute_def decode_message_integrity_def decode_def Let_def
        ms_stun_message_get_message_integrity_def split: if_splits bind_splits dest!: rd_block_length)
  have "m' = m\<lparr>sm_message_integrity := Some h, sm_has_message_integrity := True,
       sm_has_dummy_message_integrity := cstr h = dummy_hmac \<or> sm_has_dummy_message_integrity m\<rparr>"
    unfolding h(2) by (cases m) simp
  with h(1) show "\<exists>h c. length h = 20 \<and> m' = m\<lparr>sm_message_integrity := Some h, sm_has_message_integrity := True,
       sm_has_dummy_message_integrity := c\<rparr>" by blast
qed

lemmas setter_defs =
  ms_stun_message_set_mapped_address_def ms_stun_message_set_username_def ms_stun_message_set_error_code_def
  ms_stun_message_set_xor_mapped_address_def ms_stun_message_set_software_def ms_stun_message_set_priority_def
  ms_stun_message_enable_use_candidate_def ms_stun_message_set_ice_controlled_def
  ms_stun_message_set_ice_controlling_def ms_stun_message_set_xor_peer_address_def
  ms_stun_message_set_xor_relayed_address_def ms_stun_message_set_lifetime_def ms_stun_message_set_data_def
  ms_stun_message_set_data_2_def ms_stun_message_set_realm_def ms_stun_message_set_nonce_def

lemma accepted_updates:
  assumes "accepted t l tr m"
  shows "addr_ok a \<Longrightarrow> accepted t l tr (ms_stun_message_set_mapped_address m a)"
    "addr_ok a \<Longrightarrow> accepted t l tr (ms_stun_message_set_xor_mapped_address m a)"
    "addr_ok a \<Longrightarrow> accepted t l tr (ms_stun_message_set_xor_peer_address m a)"
    "addr_ok a \<Longrightarrow> accepted t l tr (ms_stun_message_set_xor_relayed_address m a)"
    "string_ok 513 (map_option cstr s) \<Longrightarrow> accepted t l tr (ms_stun_message_set_username m s)"
    "string_ok 127 (map_option cstr s) \<Longrightarrow> accepted t l tr (ms_stun_message_set_realm m s)"
    "string_ok 127 (map_option cstr s) \<Longrightarrow> accepted t l tr (ms_stun_message_set_nonce m s)"
    "string_ok 763 (map_option cstr s) \<Longrightarrow> accepted t l tr (ms_stun_message_set_software m s)"
    "string_ok 127 (map_option cstr s) \<Longrightarrow> accepted t l tr (ms_stun_message_set_error_code m k s)"
    "length b = unat n \<Longrightarrow> accepted t l tr (ms_stun_message_set_data m (Some b) n)"
    "length h = 20 \<Longrightarrow> accepted t l tr (m\<lparr>sm_message_integrity := Some h, sm_has_message_integrity := True,
       sm_has_dummy_message_integrity := c\<rparr>)"
    "accepted t l tr (ms_stun_message_set_priority m v)" "accepted t l tr (ms_stun_message_set_lifetime m v)"
    "accepted t l tr (m\<lparr>sm_change_request := v\<rparr>)"
    "accepted t l tr (m\<lparr>sm_fingerprint := v, sm_has_fingerprint := True\<rparr>)"
    "accepted t l tr (ms_stun_message_enable_use_candidate m c)"
    "accepted t l tr (ms_stun_message_set_ice_controlled m w)"
    "accepted t l tr (ms_stun_message_set_ice_controlling m w)"
  using assms by (auto simp: accepted_def message_ok_def setter_defs)

lemma decode_attribute_accepted:
  assumes m: "accepted t l tr m" and run: "decode_attribute d m ty len = Some (Some (m', d'))"
  shows "accepted t l tr m'"
proof -
  have tr: "length (ms_stun_message_get_tr_id m) = 12"
    using m by (auto simp: accepted_def message_ok_def ms_stun_message_get_tr_id_def)
  have int: "accepted t l tr m2" if "decode_integrity_attribute d m len = Some (m2, d2)" for m2 d2
    using decode_block_ok(2) [OF that] accepted_updates(11) [OF m] by blast
  show ?thesis
    using run m unfolding decode_attribute_def
    by (auto split: if_splits bind_splits prod.splits
        intro: accepted_updates [OF m] int decode_addr_ok(1) decode_addr_ok(2) [OF _ tr]
          decode_string_ok decode_error_code_ok decode_block_ok(1))
qed

lemma parse_attribute_accepted:
  assumes "accepted t l tr m" "parse_attribute d m = Some (Some (m', d'))"
  shows "accepted t l tr m'"
proof -
  obtain ty len d1 d2 where "decode_attribute d1 m ty len = Some (Some (m', d2))"
    using assms(2) by (auto simp: parse_attribute_def Let_def split: if_splits bind_splits option.splits)
  then show ?thesis by (rule decode_attribute_accepted [OF assms(1)])
qed

lemma parse_attributes_accepted:
  assumes "accepted t l tr m" "parse_attributes d m = Some (Some m')"
  shows "accepted t l tr m'"
  using assms
proof (induction d m rule: parse_attributes.induct)
  case (1 d m)
  show ?case
  proof (cases "0 < sd_remaining d")
    case False
    then show ?thesis using "1.prems" by (subst (asm) parse_attributes.simps) simp
  next
    case True
    have "(case parse_attribute d m of None \<Rightarrow> None | Some None \<Rightarrow> Some None
      | Some (Some (m', d')) \<Rightarrow> parse_attributes d' m') = Some (Some m')"
      using "1.prems"(2) True by (subst (asm) parse_attributes.simps) simp
    then obtain m2 d2 where p: "parse_attribute d m = Some (Some (m2, d2))" "parse_attributes d2 m2 = Some (Some m')"
      by (auto split: option.splits)
    show ?thesis
      by (rule "1.IH" [OF True p(1) refl refl parse_attribute_accepted [OF "1.prems"(1) p(1)] p(2)])
  qed
qed

lemma decode_header_accepted:
  assumes "decode_message_header (stun_message_decoder_init buf n) stun_message_zero = Some (m, d)" "\<not> sd_error d"
  shows "\<exists>ty. rd16 buf 0 = Some ty \<and> rd16 buf 2 = Some (sm_length m) \<and> rd32 buf 4 = Some MS_STUN_MAGIC_COOKIE \<and>
    rd_block buf 8 12 = Some (sm_tr_id m) \<and> accepted ty (sm_length m) (sm_tr_id m) m"
proof -
  obtain ty len tr where h: "rd16 buf 0 = Some ty" "rd16 buf (Suc (Suc 0)) = Some len"
    "rd32 buf (Suc (Suc (Suc (Suc 0)))) = Some MS_STUN_MAGIC_COOKIE"
    "rd_block buf 8 12 = Some tr" "m = stun_message_zero\<lparr>sm_type := ty AND 0x0110, sm_method := ty AND 0x3EEF,
       sm_length := len, sm_tr_id := tr\<rparr>"
    using assms by (auto simp: decode_message_header_def decode16_def decode32_def decode_def
        stun_message_decoder_init_def Let_def ms_stun_message_set_tr_id_def
        split: bind_splits if_splits)
  have "length tr = 12" using rd_block_length [OF h(4)] .
  then have "accepted ty len tr m"
    unfolding h(5) by (simp add: accepted_def message_ok_def stun_message_zero_def addr_ok_def stun_addr_zero_def string_ok_def)
  moreover have "rd16 buf 2 = Some len" "rd32 buf 4 = Some MS_STUN_MAGIC_COOKIE"
    using h(2,3) by (simp_all add: eval_nat_numeral)
  ultimately show ?thesis using h(1,4,5) by simp
qed

text \<open>A message the parser accepts agrees with the bytes it came from: they start with a
  header that has the magic cookie and the length of the buffer, and the class, method, length
  and transaction identifier of the message are those of that header. Its strings are C strings
  within the limits of their attributes, an integrity it claims to have is there with twenty
  bytes, its data block is as long as it says, and it has no credentials.
\<close>

theorem stun_accepted_messages:
  assumes "ms_stun_message_create_from_buffer_parsing buf bufsize = Some (Some msg)"
  shows "\<exists>ty. rd16 buf 0 = Some ty \<and> rd16 buf 2 = Some (sm_length msg) \<and>
    bufsize = 20 + int (unat (sm_length msg)) \<and> rd32 buf 4 = Some MS_STUN_MAGIC_COOKIE \<and>
    rd_block buf 8 12 = Some (sm_tr_id msg) \<and> accepted ty (sm_length msg) (sm_tr_id msg) msg"
proof -
  obtain m d where h: "decode_message_header (stun_message_decoder_init buf bufsize) stun_message_zero = Some (m, d)"
    "\<not> sd_error d" "int (unat (sm_length m)) + 20 = bufsize" "parse_attributes d m = Some (Some msg)"
    using assms by (auto simp: ms_stun_message_create_from_buffer_parsing_def ms_stun_message_get_length_def Let_def
        split: if_splits bind_splits)
  obtain ty where ty: "rd16 buf 0 = Some ty" "rd16 buf 2 = Some (sm_length m)"
    "rd32 buf 4 = Some MS_STUN_MAGIC_COOKIE" "rd_block buf 8 12 = Some (sm_tr_id m)"
    "accepted ty (sm_length m) (sm_tr_id m) m"
    using decode_header_accepted [OF h(1,2)] by blast
  have a: "accepted ty (sm_length m) (sm_tr_id m) msg" by (rule parse_attributes_accepted [OF ty(5) h(4)])
  then have "sm_length msg = sm_length m" "sm_tr_id msg = sm_tr_id m" by (simp_all add: accepted_def)
  with a ty(1-4) h(3) show ?thesis by auto
qed

lemma stun_header_only_parsed:
  "ms_stun_message_create_from_buffer_parsing (stun_header 0x0111 (replicate 12 7) 0) 20 =
     Some (Some (stun_message_zero\<lparr>sm_type := 0x0110, sm_method := 1, sm_tr_id := replicate 12 7\<rparr>))"
  by code_simp

theorem stun_accepted_messages_witness:
  "accepted 0x0111 0 (replicate 12 7)
     (stun_message_zero\<lparr>sm_type := 0x0110, sm_method := 1, sm_tr_id := replicate 12 7\<rparr>)"
proof -
  have "rd16 (stun_header 0x0111 (replicate 12 7) 0) 0 = Some 0x0111" by code_simp
  then show ?thesis
    using stun_accepted_messages [OF stun_header_only_parsed] by (auto simp: stun_message_zero_def)
qed

end
