(* ===== verification/Turn.thy ===== *)
theory Turn
  imports Stun_Decode Ortp_Queue
begin

text \<open>
  The TURN client of \<open>mediastreamer2/src/voip/stun.c\<close>: the context with its state, permissions
  and statistics, the conversions between STUN and socket addresses, and the RTP endpoint that
  sends and receives through the relay.

  Ports of socket addresses are the value of their two bytes in network order, so \<open>htons\<close> and
  \<open>ntohs\<close> between a STUN address and a socket address keep the number. The content of
  \<open>struct sockaddr_storage\<close> that a function does not initialise is an argument. The
  \<open>recv_addr\<close> field of a message block is passed beside the store. The transports below the
  endpoint (the RTP session's sockets and the TURN TCP client) are the fields of an environment
  record. Messages are shorter than
  two to the 31 bytes.
\<close>

section \<open>The context\<close>

datatype MSTurnContextState = TURN_IDLE | CREATING_ALLOCATION | ALLOCATION_CREATED
  | CREATING_PERMISSIONS | PERMISSIONS_CREATED | BINDING_CHANNEL | CHANNEL_BOUND

text \<open>The states are numbered in the order of the enumeration, and the code compares them.\<close>

primrec turn_state_number :: "MSTurnContextState \<Rightarrow> nat" where
  "turn_state_number TURN_IDLE = 0"
| "turn_state_number CREATING_ALLOCATION = 1"
| "turn_state_number ALLOCATION_CREATED = 2"
| "turn_state_number CREATING_PERMISSIONS = 3"
| "turn_state_number PERMISSIONS_CREATED = 4"
| "turn_state_number BINDING_CHANNEL = 5"
| "turn_state_number CHANNEL_BOUND = 6"

instantiation MSTurnContextState :: linorder
begin

definition less_eq_MSTurnContextState :: "MSTurnContextState \<Rightarrow> MSTurnContextState \<Rightarrow> bool" where
  "less_eq_MSTurnContextState a b = (turn_state_number a \<le> turn_state_number b)"

definition less_MSTurnContextState :: "MSTurnContextState \<Rightarrow> MSTurnContextState \<Rightarrow> bool" where
  "less_MSTurnContextState a b = (turn_state_number a < turn_state_number b)"

instance
proof
  fix a b :: MSTurnContextState
  assume "a \<le> b" "b \<le> a"
  then show "a = b" by (cases a; cases b) (simp_all add: less_eq_MSTurnContextState_def)
qed (auto simp: less_eq_MSTurnContextState_def less_MSTurnContextState_def)

end

datatype MSTurnContextType = TURN_RTP | TURN_RTCP

datatype MSTurnContextTransport = TURN_UDP | TURN_TCP | TURN_TLS

record MSTurnContextStatistics =
  nb_send_indication :: u32
  nb_data_indication :: u32
  nb_received_channel_msg :: u32
  nb_sent_channel_msg :: u32
  nb_successful_allocate :: u16
  nb_successful_refresh :: u16
  nb_successful_create_permission :: u16
  nb_successful_channel_bind :: u16

text \<open>\<open>tc_sockfamily\<close> is \<open>rtp_session->rtp.gs.sockfamily\<close>, \<open>None\<close> when \<open>rtp_session\<close> is NULL,
  and \<open>tc_endpoint\<close> whether \<open>endpoint\<close> is set.\<close>

record MSTurnContext =
  tc_sockfamily :: "int option"
  tc_endpoint :: bool
  tc_allowed_peer_addresses :: "MSStunAddress list"
  tc_realm :: "bytes option"
  tc_nonce :: "bytes option"
  tc_username :: "bytes option"
  tc_password :: "bytes option"
  tc_ha1 :: "bytes option"
  tc_root_certificate :: "bytes option"
  tc_lifetime :: u32
  tc_channel_number :: u16
  tc_state :: MSTurnContextState
  tc_type :: MSTurnContextType
  tc_transport :: MSTurnContextTransport
  tc_relay_addr :: MSStunAddress
  tc_server_addr :: sockaddr
  tc_server_addrlen :: nat
  tc_force_rtp_sending_via_relay :: bool
  tc_stats :: MSTurnContextStatistics
  tc_has_tcp_client :: bool
  tc_cn :: "bytes option"

definition sockaddr_zero :: sockaddr where
  "sockaddr_zero = \<lparr>sa_family = 0, sin_port = 0, sin_addr = replicate 4 0, sin6_addr = replicate 16 0\<rparr>"

definition ms_turn_context_new :: "MSTurnContextType \<Rightarrow> int option \<Rightarrow> MSTurnContext" where
  "ms_turn_context_new ty session =
     \<lparr>tc_sockfamily = session, tc_endpoint = False, tc_allowed_peer_addresses = [], tc_realm = None, tc_nonce = None,
      tc_username = None, tc_password = None, tc_ha1 = None, tc_root_certificate = None,
      tc_lifetime = 0, tc_channel_number = 0, tc_state = TURN_IDLE, tc_type = ty,
      tc_transport = TURN_UDP, tc_relay_addr = stun_addr_zero, tc_server_addr = sockaddr_zero,
      tc_server_addrlen = 0, tc_force_rtp_sending_via_relay = False,
      tc_stats = \<lparr>nb_send_indication = 0, nb_data_indication = 0, nb_received_channel_msg = 0,
        nb_sent_channel_msg = 0, nb_successful_allocate = 0, nb_successful_refresh = 0,
        nb_successful_create_permission = 0, nb_successful_channel_bind = 0\<rparr>,
      tc_has_tcp_client = False, tc_cn = None\<rparr>"

definition ms_turn_context_get_state :: "MSTurnContext \<Rightarrow> MSTurnContextState" where
  "ms_turn_context_get_state c = tc_state c"

definition ms_turn_context_state_to_string :: "MSTurnContextState \<Rightarrow> string" where
  "ms_turn_context_state_to_string st = (case st of
       TURN_IDLE \<Rightarrow> ''IDLE''
     | CREATING_ALLOCATION \<Rightarrow> ''CREATING_ALLOCATION''
     | ALLOCATION_CREATED \<Rightarrow> ''ALLOCATIION_CREATED''
     | CREATING_PERMISSIONS \<Rightarrow> ''CREATING_PERMISSIONS''
     | PERMISSIONS_CREATED \<Rightarrow> ''PERMISSIONS_CREATED''
     | BINDING_CHANNEL \<Rightarrow> ''BINDING_CHANNEL''
     | CHANNEL_BOUND \<Rightarrow> ''CHANNEL_BOUND'')"

definition ms_turn_context_set_state :: "MSTurnContext \<Rightarrow> MSTurnContextState \<Rightarrow> MSTurnContext" where
  "ms_turn_context_set_state c st =
     (let c = c\<lparr>tc_state := st\<rparr>; n = tc_stats c in
      if st = ALLOCATION_CREATED
      then c\<lparr>tc_stats := n\<lparr>nb_successful_allocate := nb_successful_allocate n + 1\<rparr>\<rparr>
      else if st = CHANNEL_BOUND
      then c\<lparr>tc_stats := n\<lparr>nb_successful_channel_bind := nb_successful_channel_bind n + 1\<rparr>\<rparr>
      else c)"

definition ms_turn_get_transport_from_string :: "string option \<Rightarrow> MSTurnContextTransport" where
  "ms_turn_get_transport_from_string tp =
     (if tp = None then TURN_UDP else if tp = Some ''tcp'' then TURN_TCP
      else if tp = Some ''tls'' then TURN_TLS else TURN_UDP)"

definition ms_turn_context_get_transport :: "MSTurnContext \<Rightarrow> MSTurnContextTransport" where
  "ms_turn_context_get_transport c = tc_transport c"

definition ms_turn_context_set_transport :: "MSTurnContext \<Rightarrow> MSTurnContextTransport \<Rightarrow> MSTurnContext" where
  "ms_turn_context_set_transport c t = c\<lparr>tc_transport := t\<rparr>"

definition ms_turn_context_get_realm :: "MSTurnContext \<Rightarrow> bytes option" where
  "ms_turn_context_get_realm c = tc_realm c"

definition ms_turn_context_set_realm :: "MSTurnContext \<Rightarrow> bytes option \<Rightarrow> MSTurnContext" where
  "ms_turn_context_set_realm c s = c\<lparr>tc_realm := map_option cstr s\<rparr>"

definition ms_turn_context_get_nonce :: "MSTurnContext \<Rightarrow> bytes option" where
  "ms_turn_context_get_nonce c = tc_nonce c"

definition ms_turn_context_set_nonce :: "MSTurnContext \<Rightarrow> bytes option \<Rightarrow> MSTurnContext" where
  "ms_turn_context_set_nonce c s = c\<lparr>tc_nonce := map_option cstr s\<rparr>"

definition ms_turn_context_get_username :: "MSTurnContext \<Rightarrow> bytes option" where
  "ms_turn_context_get_username c = tc_username c"

definition ms_turn_context_set_username :: "MSTurnContext \<Rightarrow> bytes option \<Rightarrow> MSTurnContext" where
  "ms_turn_context_set_username c s = c\<lparr>tc_username := map_option cstr s\<rparr>"

definition ms_turn_context_get_password :: "MSTurnContext \<Rightarrow> bytes option" where
  "ms_turn_context_get_password c = tc_password c"

definition ms_turn_context_set_password :: "MSTurnContext \<Rightarrow> bytes option \<Rightarrow> MSTurnContext" where
  "ms_turn_context_set_password c s = c\<lparr>tc_password := map_option cstr s\<rparr>"

definition ms_turn_context_get_ha1 :: "MSTurnContext \<Rightarrow> bytes option" where
  "ms_turn_context_get_ha1 c = tc_ha1 c"

definition ms_turn_context_set_ha1 :: "MSTurnContext \<Rightarrow> bytes option \<Rightarrow> MSTurnContext" where
  "ms_turn_context_set_ha1 c s = c\<lparr>tc_ha1 := map_option cstr s\<rparr>"

definition ms_turn_context_get_lifetime :: "MSTurnContext \<Rightarrow> u32" where
  "ms_turn_context_get_lifetime c = tc_lifetime c"

definition ms_turn_context_set_lifetime :: "MSTurnContext \<Rightarrow> u32 \<Rightarrow> MSTurnContext" where
  "ms_turn_context_set_lifetime c v = c\<lparr>tc_lifetime := v\<rparr>"

definition ms_turn_context_get_channel_number :: "MSTurnContext \<Rightarrow> u16" where
  "ms_turn_context_get_channel_number c = tc_channel_number c"

definition ms_turn_context_set_channel_number :: "MSTurnContext \<Rightarrow> u16 \<Rightarrow> MSTurnContext" where
  "ms_turn_context_set_channel_number c v = c\<lparr>tc_channel_number := v\<rparr>"

definition ms_turn_context_set_allocated_relay_addr :: "MSTurnContext \<Rightarrow> MSStunAddress \<Rightarrow> MSTurnContext" where
  "ms_turn_context_set_allocated_relay_addr c a = c\<lparr>tc_relay_addr := a\<rparr>"

definition ms_turn_context_set_force_rtp_sending_via_relay :: "MSTurnContext \<Rightarrow> bool \<Rightarrow> MSTurnContext" where
  "ms_turn_context_set_force_rtp_sending_via_relay c b = c\<lparr>tc_force_rtp_sending_via_relay := b\<rparr>"

definition ms_turn_context_set_root_certificate :: "MSTurnContext \<Rightarrow> bytes option \<Rightarrow> MSTurnContext" where
  "ms_turn_context_set_root_certificate c s = c\<lparr>tc_root_certificate := map_option cstr s\<rparr>"

definition ms_turn_context_set_cn :: "MSTurnContext \<Rightarrow> bytes option \<Rightarrow> MSTurnContext" where
  "ms_turn_context_set_cn c s = c\<lparr>tc_cn := map_option cstr s\<rparr>"

text \<open>The loop over the list of permissions.\<close>

fun peer_in_list :: "MSStunAddress list \<Rightarrow> MSStunAddress \<Rightarrow> bool" where
  "peer_in_list [] peer = False"
| "peer_in_list (a # as) peer = (if \<not> ms_compare_stun_addresses a peer then True else peer_in_list as peer)"

definition ms_turn_context_peer_address_allowed :: "MSTurnContext \<Rightarrow> MSStunAddress \<Rightarrow> bool" where
  "ms_turn_context_peer_address_allowed c peer = peer_in_list (tc_allowed_peer_addresses c) peer"

definition ms_turn_context_allow_peer_address :: "MSTurnContext \<Rightarrow> MSStunAddress \<Rightarrow> MSTurnContext" where
  "ms_turn_context_allow_peer_address c peer =
     (if \<not> ms_turn_context_peer_address_allowed c peer
      then let n = tc_stats c in
        c\<lparr>tc_allowed_peer_addresses := tc_allowed_peer_addresses c @ [peer],
          tc_stats := n\<lparr>nb_successful_create_permission := nb_successful_create_permission n + 1\<rparr>\<rparr>
      else c)"

section \<open>Socket addresses\<close>

text \<open>\<open>memcpy\<close> of the first \<open>n\<close> bytes of a socket address: the family is at offset 0, the port at
  2, an IPv4 address at 4 and an IPv6 address at 8.\<close>

definition memcpy_sockaddr :: "sockaddr \<Rightarrow> sockaddr \<Rightarrow> nat \<Rightarrow> sockaddr" where
  "memcpy_sockaddr dst src n =
     dst\<lparr>sa_family := if n \<ge> 2 then sa_family src else sa_family dst,
         sin_port := if n \<ge> 4 then sin_port src else sin_port dst,
         sin_addr := take (n - 4) (sin_addr src) @ drop (n - 4) (sin_addr dst),
         sin6_addr := take (n - 8) (sin6_addr src) @ drop (n - 8) (sin6_addr dst)\<rparr>"

definition ms_stun_family_to_af :: "int \<Rightarrow> int" where
  "ms_stun_family_to_af f = (if f = 1 then AF_INET else if f = 2 then AF_INET6 else 0)"

definition ms_stun_address_to_sockaddr :: "MSStunAddress \<Rightarrow> sockaddr \<Rightarrow> nat \<Rightarrow> sockaddr \<times> nat" where
  "ms_stun_address_to_sockaddr a addr addrlen =
     (if sa_fam a = MS_STUN_ADDR_FAMILY_IPV4
      then (addr\<lparr>sa_family := AF_INET, sin_port := sa_port a, sin_addr := enc32 (sa_v4 a)\<rparr>, 16)
      else if sa_fam a = MS_STUN_ADDR_FAMILY_IPV6
      then (addr\<lparr>sa_family := AF_INET6, sin_port := sa_port a, sin6_addr := sa_v6 a\<rparr>, 28)
      else (memcpy_sockaddr addr sockaddr_zero addrlen, addrlen))"

definition ms_sockaddr_to_stun_address :: "sockaddr \<Rightarrow> MSStunAddress \<Rightarrow> MSStunAddress option" where
  "ms_sockaddr_to_stun_address addr a =
     (if sa_family addr = AF_INET then do {
        v \<leftarrow> rd32 (sin_addr addr) 0;
        Some (a\<lparr>sa_fam := MS_STUN_ADDR_FAMILY_IPV4, sa_port := sin_port addr, sa_v4 := v\<rparr>) }
      else if sa_family addr = AF_INET6
      then Some (a\<lparr>sa_fam := MS_STUN_ADDR_FAMILY_IPV6, sa_port := sin_port addr, sa_v6 := sin6_addr addr\<rparr>)
      else Some stun_addr_zero)"

text \<open>\<open>bctbx_sockaddr_remove_v4_mapping\<close> of \<open>bctoolbox/src/utils/port.c\<close>, the result being
  another storage than the argument; \<open>IN6_IS_ADDR_V4MAPPED\<close> is the prefix \<open>::ffff:0:0/96\<close>.\<close>

definition v4_mapped :: "bytes \<Rightarrow> bool" where
  "v4_mapped a = (take 12 a = replicate 10 0 @ [0xFF, 0xFF])"

definition bctbx_sockaddr_remove_v4_mapping :: "sockaddr \<Rightarrow> sockaddr \<Rightarrow> sockaddr \<times> nat" where
  "bctbx_sockaddr_remove_v4_mapping v6 result =
     (if sa_family v6 = AF_INET6
      then (if v4_mapped (sin6_addr v6)
            then (result\<lparr>sa_family := AF_INET, sin_addr := drop 12 (sin6_addr v6), sin_port := sin_port v6\<rparr>, 16)
            else (memcpy_sockaddr result v6 28, 28))
      else (memcpy_sockaddr result v6 16, 16))"

definition bctbx_sockaddr_ipv6_to_ipv4 :: "sockaddr \<Rightarrow> sockaddr \<Rightarrow> sockaddr \<times> nat" where
  "bctbx_sockaddr_ipv6_to_ipv4 v6 result = bctbx_sockaddr_remove_v4_mapping v6 result"

text \<open>The addresses of an \<open>addrinfo\<close> list, each in a structure filled with zeros.\<close>

definition convert_to_v4mapped :: "sockaddr list \<Rightarrow> sockaddr list" where
  "convert_to_v4mapped ai = map (\<lambda>a. sockaddr_zero\<lparr>sa_family := AF_INET6,
     sin6_addr := replicate 10 0 @ [0xFF, 0xFF] @ sin_addr a, sin_port := sin_port a\<rparr>) ai"

definition bctbx_sockaddr_ipv4_to_ipv6 :: "sockaddr \<Rightarrow> sockaddr \<Rightarrow> nat \<Rightarrow> sockaddr \<times> nat" where
  "bctbx_sockaddr_ipv4_to_ipv6 v4 result result_len =
     (if sa_family v4 = AF_INET
      then (memcpy_sockaddr result (hd (convert_to_v4mapped [v4])) 28, 28)
      else (result, result_len))"

definition ms_turn_context_set_server_addr :: "MSTurnContext \<Rightarrow> sockaddr \<Rightarrow> nat \<Rightarrow> MSTurnContext option" where
  "ms_turn_context_set_server_addr c addr addrlen =
     (let copied = c\<lparr>tc_server_addr := memcpy_sockaddr (tc_server_addr c) addr addrlen,
                     tc_server_addrlen := addrlen\<rparr> in
      if sa_family addr = AF_INET
      then do {
        fam \<leftarrow> tc_sockfamily c;
        if fam = AF_INET6
        then (case bctbx_sockaddr_ipv4_to_ipv6 addr (tc_server_addr c) (tc_server_addrlen c) of
                (a, n) \<Rightarrow> Some (c\<lparr>tc_server_addr := a, tc_server_addrlen := n\<rparr>))
        else Some copied }
      else Some copied)"

section \<open>Receiving\<close>

text \<open>A transport receives into a message block: the number of bytes (negative on error), the
  store, and the source address with its length.\<close>

record turn_io =
  tcp_recvfrom :: "mem \<Rightarrow> ptr \<Rightarrow> sockaddr \<Rightarrow> nat \<Rightarrow> int \<times> mem \<times> sockaddr \<times> nat"
  rtp_recvfrom :: "bool \<Rightarrow> mem \<Rightarrow> ptr \<Rightarrow> sockaddr \<Rightarrow> nat \<Rightarrow> int \<times> mem \<times> sockaddr \<times> nat"
  tcp_sendto :: "mem \<Rightarrow> ptr \<Rightarrow> sockaddr \<Rightarrow> nat \<Rightarrow> int \<times> mem"
  rtp_sendto :: "bool \<Rightarrow> mem \<Rightarrow> ptr \<Rightarrow> sockaddr \<Rightarrow> nat \<Rightarrow> int \<times> mem"

text \<open>What the endpoint changes: the size it returns, the context, the store, the \<open>recv_addr\<close> of
  the block, and the source address.\<close>

record turn_recv =
  tr_size :: int
  tr_ctx :: MSTurnContext
  tr_mem :: mem
  tr_recv_addr :: ortp_recv_addr_t
  tr_from :: sockaddr
  tr_fromlen :: nat

text \<open>The bytes of the data block of a message block, and where the message starts in it.\<close>

definition block_at :: "mem \<Rightarrow> ptr \<Rightarrow> (ptr \<times> bytes \<times> nat) option" where
  "block_at s p = do {
     m \<leftarrow> mblks s p;
     d \<leftarrow> b_datap m;
     x \<leftarrow> dblks s d;
     Some (d, db_buf x, b_rptr m) }"

definition set_recv_addr :: "sockaddr \<Rightarrow> ortp_recv_addr_t \<Rightarrow> ortp_recv_addr_t" where
  "set_recv_addr sa ra =
     (let ra = ra\<lparr>ra_family := sa_family sa\<rparr> in
      if sa_family sa = AF_INET
      then ra\<lparr>ra_addr := sin_addr sa @ drop 4 (ra_addr ra), ra_port := sin_port sa\<rparr>
      else if sa_family sa = AF_INET6 then ra\<lparr>ra_addr := sin6_addr sa, ra_port := sin_port sa\<rparr>
      else ra)"

text \<open>The innermost block: the data of an indication from a permitted peer replaces the
  message, the address of the relay its destination and the address of the peer its source.\<close>

definition unpack_data_indication ::
    "ptr \<Rightarrow> MSStunAddress \<Rightarrow> bytes \<Rightarrow> u16 \<Rightarrow> turn_recv \<Rightarrow> turn_recv option" where
  "unpack_data_indication msg peer payload len r = do {
     let c = tr_ctx r;
     (d, buf, off) \<leftarrow> block_at (tr_mem r) msg;
     src \<leftarrow> rd_block payload 0 (unat len);
     buf' \<leftarrow> wr_block buf off src;
     s \<leftarrow> upd_d (tr_mem r) d (\<lambda>x. x\<lparr>db_buf := buf'\<rparr>);
     let relay = fst (ms_stun_address_to_sockaddr (tc_relay_addr c) sockaddr_zero 128);
     let known = (sa_family relay = AF_INET \<or> sa_family relay = AF_INET6);
     let msize = (if known then int (unat len) else 0);
     let (from, fromlen) = ms_stun_address_to_sockaddr peer (tr_from r) (tr_fromlen r);
     let n = tc_stats c;
     let c = (if msize > 0 then c\<lparr>tc_stats := n\<lparr>nb_data_indication := nb_data_indication n + 1\<rparr>\<rparr> else c);
     Some (r\<lparr>tr_size := msize, tr_ctx := c, tr_mem := s, tr_recv_addr := set_recv_addr relay (tr_recv_addr r),
             tr_from := from, tr_fromlen := fromlen\<rparr>) }"

definition receive_stun :: "ptr \<Rightarrow> MSStunMessage \<Rightarrow> turn_recv \<Rightarrow> turn_recv option" where
  "receive_stun msg sm r =
     (case (ms_stun_message_get_data sm, ms_stun_message_get_xor_peer_address sm) of
        (Some payload, Some peer) \<Rightarrow>
          if ms_stun_message_is_indication sm \<and> ms_stun_message_get_data_length sm > 0 \<and>
             ms_turn_context_peer_address_allowed (tr_ctx r) (ms_stun_address_set_port peer 0)
          then unpack_data_indication msg peer payload (ms_stun_message_get_data_length sm) r
          else Some r
      | _ \<Rightarrow> Some r)"

text \<open>What is done with the bytes a transport delivered.\<close>

definition receive_packet :: "ptr \<Rightarrow> turn_recv \<Rightarrow> turn_recv option" where
  "receive_packet msg r =
     (if tr_size r \<ge> 12 then do {
        let c = tr_ctx r;
        (_, buf, off) \<leftarrow> block_at (tr_mem r) msg;
        b0 \<leftarrow> rd8 buf off;
        if drop_bit 6 b0 \<noteq> 2 then
          if ms_turn_context_get_state c \<ge> BINDING_CHANNEL \<and> b0 AND 0x40 \<noteq> 0 then do {
            channel \<leftarrow> rd16 buf off;
            datasize \<leftarrow> rd16 buf (off + 2);
            if channel = ms_turn_context_get_channel_number c \<and> tr_size r \<ge> int (unat datasize) + 4
            then do {
              s \<leftarrow> upd_m (tr_mem r) msg (\<lambda>m. m\<lparr>b_rptr := b_rptr m + 4\<rparr>);
              let n = tc_stats c;
              Some (r\<lparr>tr_mem := s,
                tr_ctx := c\<lparr>tc_stats := n\<lparr>nb_received_channel_msg := nb_received_channel_msg n + 1\<rparr>\<rparr>\<rparr>) }
            else Some r }
          else do {
            stunlen \<leftarrow> rd16 buf (off + 2);
            if tr_size r = int (unat stunlen) + 20 then do {
              parsed \<leftarrow> ms_stun_message_create_from_buffer_parsing (drop off buf) (tr_size r);
              case parsed of None \<Rightarrow> Some r | Some sm \<Rightarrow> receive_stun msg sm r }
            else Some r }
        else Some r }
      else Some r)"

definition ms_turn_rtp_endpoint_recvfrom :: "turn_io \<Rightarrow> MSTurnContext \<Rightarrow> mem \<Rightarrow> ptr \<Rightarrow> ortp_recv_addr_t \<Rightarrow>
    sockaddr \<Rightarrow> nat \<Rightarrow> turn_recv option" where
  "ms_turn_rtp_endpoint_recvfrom io c s msg ra from fromlen =
     (let r = \<lparr>tr_size = 0, tr_ctx = c, tr_mem = s, tr_recv_addr = ra, tr_from = from, tr_fromlen = fromlen\<rparr> in
      if tc_sockfamily c = None then Some r
      else let
        r = (if tc_transport c \<noteq> TURN_UDP \<and> tc_has_tcp_client c
             then (case tcp_recvfrom io s msg from fromlen of (n, s, a, l) \<Rightarrow>
                     r\<lparr>tr_size := n, tr_mem := s, tr_from := a, tr_fromlen := l\<rparr>)
             else r);
        r = (if tr_size r = 0
             then (case rtp_recvfrom io (tc_type c = TURN_RTP) (tr_mem r) msg (tr_from r) (tr_fromlen r) of
                     (n, s, a, l) \<Rightarrow> r\<lparr>tr_size := n, tr_mem := s, tr_from := a, tr_fromlen := l\<rparr>)
             else r)
      in receive_packet msg r)"

section \<open>Sending\<close>

definition ms_turn_rtp_endpoint_send_via_turn_relay ::
    "sockaddr \<Rightarrow> MSTurnContext \<Rightarrow> sockaddr \<Rightarrow> nat \<Rightarrow> bool" where
  "ms_turn_rtp_endpoint_send_via_turn_relay storage c from fromlen =
     (if sa_family from = 0 \<or> fromlen = 0 then tc_force_rtp_sending_via_relay c
      else
        let relay = fst (ms_stun_address_to_sockaddr (tc_relay_addr c) sockaddr_zero 128);
            same_v4 = (\<lambda>a. sin_addr relay = sin_addr a \<or>
                           (tc_force_rtp_sending_via_relay c \<and> sin_addr a = replicate 4 0)) in
        if sa_family relay = AF_INET then
          if sa_family from = AF_INET6 then
            let unmapped = fst (bctbx_sockaddr_remove_v4_mapping from storage) in
            if sa_family unmapped = AF_INET then same_v4 unmapped else False
          else same_v4 from
        else if sa_family relay = AF_INET6 then
          sin6_addr relay = sin6_addr from \<or>
          (tc_force_rtp_sending_via_relay c \<and> sin6_addr from = replicate 16 0)
        else False)"

definition ms_turn_rtp_endpoint_should_be_sent_to_turn_server :: "MSTurnContext \<Rightarrow> sockaddr \<Rightarrow> bool" where
  "ms_turn_rtp_endpoint_should_be_sent_to_turn_server c to =
     (let server = tc_server_addr c in
      if sa_family server \<noteq> sa_family to then False
      else if sa_family server = AF_INET then sin_port server = sin_port to \<and> sin_addr server = sin_addr to
      else if sa_family server = AF_INET6 then sin_port server = sin_port to \<and> sin6_addr server = sin6_addr to
      else False)"

text \<open>A ChannelData header of four bytes in front of a duplicate of the message. The message size
  is an \<open>int\<close> that the header holds in sixteen bits.\<close>

definition channel_data :: "MSTurnContext \<Rightarrow> mem \<Rightarrow> ptr \<Rightarrow> nat \<Rightarrow> (ptr \<times> mem) option" where
  "channel_data c s msg msize = do {
     let (header, s) = allocb s 4;
     (d, buf, _) \<leftarrow> block_at s header;
     buf \<leftarrow> wr_block buf 0 (enc16 (ms_turn_context_get_channel_number c));
     buf \<leftarrow> wr_block buf 2 (enc16 (of_nat msize));
     s \<leftarrow> upd_d s d (\<lambda>x. x\<lparr>db_buf := buf\<rparr>);
     s \<leftarrow> upd_m s header (\<lambda>m. m\<lparr>b_wptr := b_wptr m + 4\<rparr>);
     (dup, s) \<leftarrow> dupmsg s msg;
     dup \<leftarrow> dup;
     (_, s) \<leftarrow> concatb s header dup;
     Some (header, s) }"

text \<open>A Send indication around the bytes of the message, in a block of its own. The conversion of
  the destination fills a structure on the stack with the content \<open>junk_addr\<close>.\<close>

definition send_indication :: "stun_env \<Rightarrow> u32 \<times> u32 \<times> u32 \<Rightarrow> sockaddr \<Rightarrow> MSStunAddress \<Rightarrow> mem \<Rightarrow>
    ptr \<Rightarrow> sockaddr \<Rightarrow> (ptr \<times> mem) option" where
  "send_indication env rnd storage junk_addr s msg to = do {
     s \<leftarrow> msgpullup s msg size_max;
     m \<leftarrow> mblks s msg;
     payload \<leftarrow> frag_bytes s m;
     let datalen = of_nat (b_wptr m - b_rptr m);
     peer \<leftarrow> ms_sockaddr_to_stun_address (fst (bctbx_sockaddr_ipv6_to_ipv4 to storage)) junk_addr;
     let sm = ms_stun_message_set_data_2 (ms_turn_send_indication_create rnd peer) (Some payload) datalen False;
     (len, buf) \<leftarrow> ms_stun_message_encode env (junk s) sm;
     let (new_msg, s) = esballoc s (take len buf) FreeUser;
     s \<leftarrow> upd_m s new_msg (\<lambda>x. x\<lparr>b_wptr := b_wptr x + len\<rparr>);
     Some (new_msg, s) }"

record turn_send =
  ts_ret :: int
  ts_ctx :: MSTurnContext
  ts_mem :: mem
  ts_recv_addr :: ortp_recv_addr_t

text \<open>The packet that goes out: the message block and its destination, whether it was forged here,
  and whether it goes through the TCP client.\<close>

record turn_packet =
  tp_msg :: ptr
  tp_to :: sockaddr
  tp_tolen :: nat
  tp_new :: bool
  tp_tcp :: bool

definition route_packet :: "stun_env \<Rightarrow> u32 \<times> u32 \<times> u32 \<Rightarrow> sockaddr \<Rightarrow> MSStunAddress \<Rightarrow> MSTurnContext \<Rightarrow>
    mem \<Rightarrow> ptr \<Rightarrow> nat \<Rightarrow> sockaddr \<times> nat \<Rightarrow> sockaddr \<Rightarrow> nat \<Rightarrow> (turn_packet \<times> MSTurnContext \<times> mem) option" where
  "route_packet env rnd storage junk_addr c s msg msize src to tolen =
     (let tcp = (tc_transport c \<noteq> TURN_UDP); n = tc_stats c;
          direct = \<lparr>tp_msg = msg, tp_to = to, tp_tolen = tolen, tp_new = False, tp_tcp = False\<rparr>;
          relayed = (\<lambda>p. \<lparr>tp_msg = p, tp_to = tc_server_addr c, tp_tolen = tc_server_addrlen c,
                          tp_new = True, tp_tcp = tcp\<rparr>) in
      if ms_turn_rtp_endpoint_should_be_sent_to_turn_server c to then Some (direct\<lparr>tp_tcp := tcp\<rparr>, c, s)
      else if ms_turn_rtp_endpoint_send_via_turn_relay storage c (fst src) (snd src) then
        if ms_turn_context_get_state c \<ge> CHANNEL_BOUND then do {
          (p, s) \<leftarrow> channel_data c s msg msize;
          Some (relayed p, c\<lparr>tc_stats := n\<lparr>nb_sent_channel_msg := nb_sent_channel_msg n + 1\<rparr>\<rparr>, s) }
        else do {
          (p, s) \<leftarrow> send_indication env rnd storage junk_addr s msg to;
          Some (relayed p, c\<lparr>tc_stats := n\<lparr>nb_send_indication := nb_send_indication n + 1\<rparr>\<rparr>, s) }
      else Some (direct, c, s))"

definition recv_addr_zero :: ortp_recv_addr_t where
  "recv_addr_zero = \<lparr>ra_family = 0, ra_addr = replicate 16 0, ra_port = 0\<rparr>"

definition ms_turn_rtp_endpoint_sendto :: "turn_io \<Rightarrow> stun_env \<Rightarrow> u32 \<times> u32 \<times> u32 \<Rightarrow> sockaddr \<Rightarrow>
    MSStunAddress \<Rightarrow> MSTurnContext \<Rightarrow> mem \<Rightarrow> ptr \<Rightarrow> ortp_recv_addr_t \<Rightarrow> sockaddr \<Rightarrow> nat \<Rightarrow> turn_send option" where
  "ms_turn_rtp_endpoint_sendto io env rnd storage junk_addr c s msg ra to tolen = do {
     msize \<leftarrow> msgdsize s (Some msg);
     if tc_sockfamily c = None
     then Some \<lparr>ts_ret = 0, ts_ctx = c, ts_mem = s, ts_recv_addr = ra\<rparr>
     else do {
       let src = ortp_recvaddr_to_sockaddr ra storage;
       (pk, c', s) \<leftarrow> route_packet env rnd storage junk_addr c s msg msize src to tolen;
       let (sub_ret, s) =
         (if tp_tcp pk \<and> tc_has_tcp_client c then tcp_sendto io s (tp_msg pk) (tp_to pk) (tp_tolen pk)
          else rtp_sendto io (tc_type c = TURN_RTP) s (tp_msg pk) (tp_to pk) (tp_tolen pk));
       s \<leftarrow> (if tp_new pk then freemsg s (Some (tp_msg pk)) else Some s);
       Some \<lparr>ts_ret = (if sub_ret > 0 then int msize else sub_ret), ts_ctx = c', ts_mem = s,
              ts_recv_addr = recv_addr_zero\<rparr> } }"

definition ms_turn_context_create_endpoint :: "MSTurnContext \<Rightarrow> MSTurnContext" where
  "ms_turn_context_create_endpoint c = c\<lparr>tc_endpoint := True\<rparr>"

definition ms_turn_rtp_endpoint_close :: "MSTurnContext \<Rightarrow> MSTurnContext" where
  "ms_turn_rtp_endpoint_close c = c\<lparr>tc_sockfamily := None\<rparr>"

end
