(* ===== verification/Turn_Send.thy ===== *)
theory Turn_Send
  imports Turn Stun_Roundtrip Ortp_Mblk_Spec
begin

text \<open>
  Sending through the relay: a message leaves as a ChannelData message or as a Send indication
  around its bytes, in blocks of the endpoint that are released afterwards, and the message itself
  is kept.
\<close>

section \<open>ChannelData messages\<close>

text \<open>A store that grew by one block: the messages it had keep their blocks and their bytes.\<close>

lemma message_kept:
  assumes ok: "refs_ok s ext" and c: "chain s mp ps" and b: "msg_bytes s ps = Some bs"
    and m: "\<And>q. mblks s q \<noteq> None \<Longrightarrow> mblks s' q = mblks s q"
    and d: "\<And>e. dblks s e \<noteq> None \<Longrightarrow> dblks s' e = dblks s e"
  shows "chain s' mp ps" "msg_bytes s' ps = Some bs"
proof -
  have live: "mblks s q \<noteq> None" if "q \<in> set ps" for q
    using c that by (induction ps arbitrary: mp) auto
  show "chain s' mp ps" using c chain_cong [of ps s' s mp] live m by blast
  show "msg_bytes s' ps = Some bs"
    using b live m d refs_ok_dblk [OF ok]
    by (subst msg_bytes_cong [of _ s' s]) (auto intro!: frag_bytes_other, metis option.distinct(1))
qed

lemma msg_bytes_mono:
  assumes "msg_bytes s ps = Some bs" "\<And>q. q \<in> set ps \<Longrightarrow> mblks s' q = mblks s q"
    and "\<And>m b. frag_bytes s m = Some b \<Longrightarrow> frag_bytes s' m = Some b"
  shows "msg_bytes s' ps = Some bs"
  using assms msg_bytes_frag [OF assms(1)]
  by (subst msg_bytes_cong [of _ s' s]) fastforce+

lemma write_two_fields:
  assumes "length b = 4"
  shows "wr_block b 0 (enc16 x) \<bind> (\<lambda>b. wr_block b 2 (enc16 y)) = Some (enc16 x @ enc16 y)"
  using assms by (auto simp: wr_block_def enc16_def numeral_eq_Suc length_Suc_conv)

lemma channel_header:
  assumes ok: "refs_ok s ext" and a: "allocb s 4 = (h, s1)"
  shows "\<exists>x s3. dblks s1 (Suc h) = Some x \<and> block_at s1 h = Some (Suc h, db_buf x, 0) \<and> length (db_buf x) = 4 \<and>
    upd_d s1 (Suc h) (\<lambda>x. x\<lparr>db_buf := w\<rparr>) \<bind> (\<lambda>s. upd_m s h (\<lambda>m. m\<lparr>b_wptr := b_wptr m + 4\<rparr>)) = Some s3 \<and>
    refs_ok s3 ext \<and> mblks s h = None \<and> mblks s3 = (mblks s)(h \<mapsto> mblk_zero\<lparr>b_datap := Some (Suc h), b_wptr := 4\<rparr>) \<and>
    dblks s3 (Suc h) = Some (x\<lparr>db_buf := w\<rparr>) \<and> dblks s (Suc h) = None \<and> (\<forall>e. e \<noteq> Suc h \<longrightarrow> dblks s3 e = dblks s e)"
proof -
  note al = allocb_ok [OF ok a]
  obtain x where x: "dblks s1 (Suc h) = Some x" "length (db_buf x) = 4" using al(5) by blast
  have m1: "mblks s1 h = Some (mblk_zero\<lparr>b_datap := Some (Suc h)\<rparr>)" using al(3) by simp
  let ?s2 = "s1\<lparr>dblks := (dblks s1)(Suc h \<mapsto> x\<lparr>db_buf := w\<rparr>)\<rparr>"
  have ok2: "refs_ok ?s2 ext" using refs_ok_upd_d [OF al(1) x(1), of "x\<lparr>db_buf := w\<rparr>"] by simp
  have u2: "upd_d s1 (Suc h) (\<lambda>x. x\<lparr>db_buf := w\<rparr>) = Some ?s2" using x(1) by (simp add: upd_d_def)
  let ?s3 = "?s2\<lparr>mblks := (mblks ?s2)(h \<mapsto> (mblk_zero\<lparr>b_datap := Some (Suc h), b_wptr := 4\<rparr>))\<rparr>"
  have u3: "upd_m ?s2 h (\<lambda>m. m\<lparr>b_wptr := b_wptr m + 4\<rparr>) = Some ?s3"
    using m1 by (simp add: upd_m_def mblk_zero_def)
  have "refs_ok ?s3 ext" by (rule refs_ok_upd_m [OF ok2 u3]) simp
  moreover have "block_at s1 h = Some (Suc h, db_buf x, 0)"
    using m1 x(1) by (simp add: block_at_def mblk_zero_def)
  ultimately show ?thesis
    using x u2 u3 al(2,3,6,7) by (intro exI [of _ x] exI [of _ ?s3]) simp
qed

lemma concatb_ok:
  assumes ok: "refs_ok s ext" and h: "mblks s h = Some mh" "b_cont mh = None" and c: "chain s (Some q) (q # qs)"
    and b: "msg_bytes s (q # qs) = Some bs" and hb: "frag_bytes s mh = Some hb" and fresh: "h \<notin> set (q # qs)"
  shows "\<exists>s' l. concatb s h q = Some (l, s') \<and> refs_ok s' ext \<and> chain s' (Some h) (h # q # qs) \<and>
    msg_bytes s' (h # q # qs) = Some (hb @ bs) \<and> (\<forall>p. p \<noteq> h \<longrightarrow> mblks s' p = mblks s p) \<and> dblks s' = dblks s"
proof -
  let ?s = "s\<lparr>mblks := (mblks s)(h \<mapsto> mh\<lparr>b_cont := Some q\<rparr>)\<rparr>"
  have u: "upd_m s h (\<lambda>x. x\<lparr>b_cont := Some q\<rparr>) = Some ?s" using h(1) by (simp add: upd_m_def)
  have r: "refs_ok ?s ext" by (rule refs_ok_upd_m [OF ok u]) simp
  have lf: "last_frag s h = Some h" using last_frag_ok [of s h "[]" h] h by simp
  have same: "mblks ?s p = mblks s p" if "p \<in> set (q # qs)" for p using fresh that by auto
  have c': "chain ?s (Some q) (q # qs)"
    using c by (simp only: chain_cong [OF same, of "q # qs"])
  have l2: "last_frag ?s q = Some (last (q # qs))"
    using last_frag_ok [of ?s q "butlast (q # qs)" "last (q # qs)"] c' append_butlast_last_id [of "q # qs"] by simp
  have fr: "frag_bytes ?s m = frag_bytes s m" for m by (simp add: frag_bytes_def)
  have "msg_bytes ?s (q # qs) = Some bs"
    using b msg_bytes_cong [OF same fr, of "q # qs"] by simp
  then have mb: "msg_bytes ?s (h # q # qs) = Some (hb @ bs)" using hb fr by simp
  have "concatb s h q = Some (last (q # qs), ?s)" using lf u l2 by (simp add: concatb_def)
  moreover have "chain ?s (Some h) (h # q # qs)" using c' by simp
  ultimately show ?thesis
    using r mb by (intro exI [of _ ?s] exI [of _ "last (q # qs)"]) (simp del: msg_bytes.simps chain.simps)
qed

lemma channel_data_ok:
  assumes ok: "refs_ok s ext" and c: "chain s (Some mp) (mp # ps)" and b: "msg_bytes s (mp # ps) = Some bs"
  shows "\<exists>h s' qs. channel_data ctx s mp n = Some (h, s') \<and> refs_ok s' ext \<and> chain s' (Some h) (h # qs) \<and>
    msg_bytes s' (h # qs) = Some (enc16 (tc_channel_number ctx) @ enc16 (of_nat n) @ bs) \<and>
    set (h # qs) \<inter> dom (mblks s) = {} \<and> chain s' (Some mp) (mp # ps) \<and> msg_bytes s' (mp # ps) = Some bs"
proof -
  let ?w = "enc16 (tc_channel_number ctx) @ enc16 (of_nat n :: u16)"
  obtain h s1 where a: "allocb s 4 = (h, s1)" by (cases "allocb s 4")
  obtain x s3 where h: "block_at s1 h = Some (Suc h, db_buf x, 0)" "length (db_buf x) = 4"
    "upd_d s1 (Suc h) (\<lambda>x. x\<lparr>db_buf := ?w\<rparr>) \<bind> (\<lambda>s. upd_m s h (\<lambda>m. m\<lparr>b_wptr := b_wptr m + 4\<rparr>)) = Some s3"
    "refs_ok s3 ext" "mblks s h = None"
    "mblks s3 = (mblks s)(h \<mapsto> mblk_zero\<lparr>b_datap := Some (Suc h), b_wptr := 4\<rparr>)"
    "dblks s3 (Suc h) = Some (x\<lparr>db_buf := ?w\<rparr>)" "dblks s (Suc h) = None" "\<forall>e. e \<noteq> Suc h \<longrightarrow> dblks s3 e = dblks s e"
    using channel_header [OF ok a, of ?w] by blast
  let ?mh = "mblk_zero\<lparr>b_datap := Some (Suc h), b_wptr := 4\<rparr>"
  have hdr: "frag_bytes s3 ?mh = Some ?w" using h(7) by (simp add: frag_bytes_def mblk_zero_def)
  have kept3: "chain s3 (Some mp) (mp # ps)" "msg_bytes s3 (mp # ps) = Some bs"
    using message_kept [OF ok c b, of s3] h(5,6,8,9) by (metis fun_upd_other)+
  obtain np s4 qs where d: "dupmsg s3 mp = Some (Some np, s4)" "refs_ok s4 ext" "chain s4 (Some np) (np # qs)"
    "msg_bytes s4 (np # qs) = Some bs" "set (np # qs) \<inter> dom (mblks s3) = {}"
    "\<forall>q \<in> dom (mblks s3). mblks s4 q = mblks s3 q"
    "\<forall>m' b'. frag_bytes s3 m' = Some b' \<longrightarrow> frag_bytes s4 m' = Some b'"
    using dupmsg_ok [OF h(4) kept3] by blast
  have h4: "mblks s4 h = Some ?mh" "h \<notin> set (np # qs)" using d(5,6) h(6) by auto
  obtain s5 l where e: "concatb s4 h np = Some (l, s5)" "refs_ok s5 ext" "chain s5 (Some h) (h # np # qs)"
    "msg_bytes s5 (h # np # qs) = Some (?w @ bs)" "\<forall>p. p \<noteq> h \<longrightarrow> mblks s5 p = mblks s4 p" "dblks s5 = dblks s4"
    using concatb_ok [OF d(2) h4(1) _ d(3,4) d(7) [rule_format, OF hdr] h4(2)] by (auto simp: mblk_zero_def)
  obtain b1 where w: "wr_block (db_buf x) 0 (enc16 (tc_channel_number ctx)) = Some b1"
    "wr_block b1 2 (enc16 (of_nat n)) = Some ?w"
    using write_two_fields [OF h(2)] by (fastforce simp: bind_eq_Some_conv)
  obtain s2 where u: "upd_d s1 (Suc h) (\<lambda>x. x\<lparr>db_buf := ?w\<rparr>) = Some s2"
    "upd_m s2 h (\<lambda>m. m\<lparr>b_wptr := b_wptr m + 4\<rparr>) = Some s3"
    using h(3) by (auto simp: bind_eq_Some_conv)
  have run: "channel_data ctx s mp n = Some (h, s5)"
    using a h(1) w u d(1) e(1) by (simp add: channel_data_def ms_turn_context_get_channel_number_def)
  have live: "q \<in> dom (mblks s)" if "q \<in> set (mp # ps)" for q
    using msg_bytes_datap [OF b that] by blast
  then have same: "mblks s5 q = mblks s3 q" if "q \<in> set (mp # ps)" for q
    using d(6) e(5) h(5,6) that by (metis domIff fun_upd_apply)
  have fr: "frag_bytes s5 m = Some y" if "frag_bytes s3 m = Some y" for m y
    using d(7) e(6) that by (simp add: frag_bytes_def)
  have "chain s5 (Some mp) (mp # ps)" using kept3(1) by (simp only: chain_cong [OF same, of "mp # ps"])
  moreover have "msg_bytes s5 (mp # ps) = Some bs" by (rule msg_bytes_mono [OF kept3(2) same fr])
  moreover have "set (h # np # qs) \<inter> dom (mblks s) = {}" using d(5) h(5,6) by auto
  ultimately show ?thesis using run e(2-4) by (intro exI [of _ h] exI [of _ s5] exI [of _ "np # qs"]) simp
qed

section \<open>Send indications\<close>

lemma esballoc_ok:
  assumes ok: "refs_ok s ext" and a: "esballoc s buf fn = (p, s')"
  shows "refs_ok s' ext" "mblks s p = None" "dblks s (Suc p) = None"
    "mblks s' = (mblks s)(p \<mapsto> mblk_zero\<lparr>b_datap := Some (Suc p)\<rparr>)"
    "dblks s' (Suc p) = Some \<lparr>db_buf = buf, db_freefn = fn, db_ref = 1\<rparr>"
    "\<And>e. e \<noteq> Suc p \<Longrightarrow> dblks s' e = dblks s e"
proof -
  obtain s1 where al: "allocb s 0 = (brk s, s1)" by (simp add: allocb_def new_mblk_def dblk_alloc_def)
  note b = allocb_ok [OF ok al]
  have s1: "s1 = s\<lparr>mblks := (mblks s)(brk s \<mapsto> mblk_zero\<lparr>b_datap := Some (Suc (brk s))\<rparr>),
      dblks := (dblks s)(Suc (brk s) \<mapsto> \<lparr>db_buf = [], db_freefn = FreeNone, db_ref = 1\<rparr>), brk := Suc (Suc (brk s))\<rparr>"
    using al by (auto simp: allocb_def new_mblk_def dblk_alloc_def)
  let ?y = "\<lparr>db_buf = buf, db_freefn = fn, db_ref = 1\<rparr>"
  have e: "p = brk s" "s' = s1\<lparr>dblks := (dblks s1)(Suc (brk s) \<mapsto> ?y)\<rparr>"
    using a by (auto simp: s1 esballoc_def new_mblk_def dblk_alloc2_def)
  have "dblks s1 (Suc (brk s)) = Some \<lparr>db_buf = [], db_freefn = FreeNone, db_ref = 1\<rparr>" by (simp add: s1)
  from refs_ok_upd_d [OF b(1) this, of ?y] show "refs_ok s' ext" unfolding e(2) by simp
  show "mblks s p = None" "dblks s (Suc p) = None" using b(2,6) e(1) by simp_all
  show "mblks s' = (mblks s)(p \<mapsto> mblk_zero\<lparr>b_datap := Some (Suc p)\<rparr>)" "dblks s' (Suc p) = Some ?y"
    using e b(3) by simp_all
  show "dblks s' e = dblks s e" if "e \<noteq> Suc p" for e using that e b(7) by simp
qed

text \<open>The block that holds an encoded message: its bytes are the message, and the messages of the
  store are kept.\<close>

lemma esballoc_message:
  assumes ok: "refs_ok s ext" and c: "chain s (Some mp) ps" and b: "msg_bytes s ps = Some bs"
    and a: "esballoc s w fn = (p, s1)" and n: "n = length w"
  shows "\<exists>s'. upd_m s1 p (\<lambda>x. x\<lparr>b_wptr := b_wptr x + n\<rparr>) = Some s' \<and> refs_ok s' ext \<and> mblks s p = None \<and>
    chain s' (Some p) [p] \<and> msg_bytes s' [p] = Some w \<and> chain s' (Some mp) ps \<and> msg_bytes s' ps = Some bs \<and>
    (\<forall>q. q \<noteq> p \<longrightarrow> mblks s' q = mblks s q)"
proof -
  note e = esballoc_ok [OF ok a]
  let ?m = "mblk_zero\<lparr>b_datap := Some (Suc p), b_wptr := n\<rparr>"
  let ?s = "s1\<lparr>mblks := (mblks s1)(p \<mapsto> ?m)\<rparr>"
  have u: "upd_m s1 p (\<lambda>x. x\<lparr>b_wptr := b_wptr x + n\<rparr>) = Some ?s"
    using e(4) by (simp add: upd_m_def mblk_zero_def)
  have r: "refs_ok ?s ext" by (rule refs_ok_upd_m [OF e(1) u]) simp
  have "mblks ?s q = mblks s q" if "mblks s q \<noteq> None" for q using that e(2,4) by auto
  moreover have "dblks ?s d = dblks s d" if "dblks s d \<noteq> None" for d using that e(3,6) by (cases "d = Suc p") auto
  ultimately have "chain ?s (Some mp) ps" "msg_bytes ?s ps = Some bs"
    using message_kept [OF ok c b, of ?s] by blast+
  moreover have "msg_bytes ?s [p] = Some w" "chain ?s (Some p) [p]"
    using e(5) n by (simp_all add: frag_bytes_def mblk_zero_def rd_block_def)
  ultimately show ?thesis using u r e(2,4) by (intro exI [of _ ?s]) simp
qed

definition turn_indication :: "u32 \<times> u32 \<times> u32 \<Rightarrow> MSStunAddress \<Rightarrow> bytes \<Rightarrow> MSStunMessage" where
  "turn_indication rnd peer bs =
     ms_stun_message_set_data_2 (ms_turn_send_indication_create rnd peer) (Some bs) (of_nat (length bs)) False"

text \<open>A socket address as the code receives it, and the peer address that an indication names for
  it: a mapped IPv4 address is sent as IPv4.\<close>

definition sockaddr_ok :: "sockaddr \<Rightarrow> bool" where
  "sockaddr_ok a \<longleftrightarrow> length (sin_addr a) = 4 \<and> length (sin6_addr a) = 16"

definition stun_v4 :: "bytes \<Rightarrow> u16 \<Rightarrow> MSStunAddress" where
  "stun_v4 b p = stun_addr_zero\<lparr>sa_fam := 1, sa_port := p, sa_v4 := the (rd32 b 0)\<rparr>"

definition turn_peer :: "sockaddr \<Rightarrow> MSStunAddress" where
  "turn_peer to =
     (if sa_family to = AF_INET then stun_v4 (sin_addr to) (sin_port to)
      else if v4_mapped (sin6_addr to) then stun_v4 (drop 12 (sin6_addr to)) (sin_port to)
      else stun_addr_zero\<lparr>sa_fam := 2, sa_port := sin_port to, sa_v6 := sin6_addr to\<rparr>)"

lemma turn_peer_canon: "sockaddr_ok to \<Longrightarrow> addr_canon (turn_peer to)"
  by (simp add: turn_peer_def stun_v4_def sockaddr_ok_def addr_canon_def addr_ok_def stun_addr_zero_def)

lemma peer_conversion:
  assumes "sa_family to = AF_INET \<or> sa_family to = AF_INET6" "sockaddr_ok to" "sockaddr_ok storage" "addr_ok a"
  shows "\<exists>b. ms_sockaddr_to_stun_address (fst (bctbx_sockaddr_ipv6_to_ipv4 to storage)) a = Some b \<and> addr_ok b \<and>
    sa_fam b = sa_fam (turn_peer to) \<and> sa_port b = sa_port (turn_peer to) \<and>
    (if sa_fam b = 2 then sa_v6 b = sa_v6 (turn_peer to) else sa_v4 b = sa_v4 (turn_peer to))"
proof -
  have rd: "\<exists>v. rd32 x 0 = Some v" if "length x = 4" for x
    using that by (auto simp: numeral_eq_Suc length_Suc_conv rd32_def)
  obtain v where v: "rd32 (sin_addr to) 0 = Some v" using rd assms(2) by (auto simp: sockaddr_ok_def)
  obtain u where u: "rd32 (drop 12 (sin6_addr to)) 0 = Some u"
    using rd [of "drop 12 (sin6_addr to)"] assms(2) by (auto simp: sockaddr_ok_def)
  show ?thesis
    using assms v u
    by (auto simp: ms_sockaddr_to_stun_address_def bctbx_sockaddr_ipv6_to_ipv4_def memcpy_sockaddr_def
        bctbx_sockaddr_remove_v4_mapping_def turn_peer_def stun_v4_def AF_INET_def AF_INET6_def addr_ok_def sockaddr_ok_def)
qed

definition random_tr_id :: "u32 \<times> u32 \<times> u32 \<Rightarrow> bytes" where
  "random_tr_id rnd = sm_tr_id (ms_stun_message_set_random_tr_id rnd stun_message_zero)"

lemma length_random_id [simp]: "length (random_tr_id rnd) = 12"
  by (simp add: random_tr_id_def ms_stun_message_set_random_tr_id_def ms_stun_message_set_tr_id_def split: prod.split)

lemma turn_indication_eq:
  "turn_indication rnd peer bs = stun_message_zero\<lparr>sm_type := MS_STUN_TYPE_INDICATION, sm_method := MS_TURN_METHOD_SEND,
     sm_tr_id := random_tr_id rnd, sm_xor_peer_address := peer, sm_has_xor_peer_address := True, sm_data := Some bs,
     sm_data_length := of_nat (length bs), sm_own_data := False\<rparr>"
  by (simp add: turn_indication_def ms_turn_send_indication_create_def ms_stun_message_set_xor_peer_address_def
      ms_stun_message_set_data_2_def ms_stun_message_create_def ms_stun_message_set_random_tr_id_def random_tr_id_def
      ms_stun_message_set_tr_id_def stun_message_zero_def split: prod.split)

lemma indication_wire_cong:
  assumes "sa_fam b = sa_fam a" "sa_port b = sa_port a" "if sa_fam b = 2 then sa_v6 b = sa_v6 a else sa_v4 b = sa_v4 a"
  shows "stun_wire env (turn_indication rnd b bs) = stun_wire env (turn_indication rnd a bs)"
proof -
  have "addr_bytes (stun_address_xor b tr) = addr_bytes (stun_address_xor a tr)" for tr
    using assms by (auto simp: addr_bytes_def stun_address_xor_def)
  then have "plain_attrs (turn_indication rnd b bs) = plain_attrs (turn_indication rnd a bs)"
    by (simp add: plain_attrs_def turn_indication_eq)
  moreover have "stun_mac env (turn_indication rnd b bs) = stun_mac env (turn_indication rnd a bs)"
    by (simp add: stun_mac_def turn_indication_eq stun_message_zero_def)
  ultimately show ?thesis
    by (simp add: stun_wire_def stun_attrs_def signed_attrs_def) (simp add: turn_indication_eq)
qed


lemma turn_indication_ok: "addr_ok peer \<Longrightarrow> message_ok (turn_indication rnd peer bs)"
  by (simp add: message_ok_def turn_indication_eq stun_message_zero_def addr_ok_def stun_addr_zero_def
      unat_of_nat take_bit_nat_eq_self_iff)

lemma send_indication_ok:
  assumes ok: "refs_ok s ext" and c: "chain s (Some mp) (mp # ps)" and b: "msg_bytes s (mp # ps) = Some bs"
    and env: "env_ok env" and fam: "sa_family to = AF_INET \<or> sa_family to = AF_INET6"
    and sa: "sockaddr_ok to" "sockaddr_ok storage" "addr_ok a"
  shows "\<exists>p s'. send_indication env rnd storage a s mp to = Some (p, s') \<and> refs_ok s' ext \<and> p \<noteq> mp \<and>
    chain s' (Some p) [p] \<and> msg_bytes s' [p] = Some (stun_wire env (turn_indication rnd (turn_peer to) bs)) \<and>
    chain s' (Some mp) [mp] \<and> msg_bytes s' [mp] = Some bs"
proof -
  obtain s1 where s1: "msgpullup s mp size_max = Some s1" "refs_ok s1 ext" "chain s1 (Some mp) [mp]"
    "msg_bytes s1 [mp] = Some bs" using msgpullup_ok [OF ok c b, of size_max] by auto
  then obtain m where m: "mblks s1 mp = Some m" "frag_bytes s1 m = Some bs" by (auto simp: bind_eq_Some_conv)
  obtain peer where peer: "ms_sockaddr_to_stun_address (fst (bctbx_sockaddr_ipv6_to_ipv4 to storage)) a = Some peer"
    "addr_ok peer" "stun_wire env (turn_indication rnd peer bs) = stun_wire env (turn_indication rnd (turn_peer to) bs)"
    using peer_conversion [OF fam sa] indication_wire_cong by blast
  let ?w = "stun_wire env (turn_indication rnd (turn_peer to) bs)"
  obtain buf where e: "ms_stun_message_encode env (junk s1) (turn_indication rnd peer bs) = Some (length ?w, buf)"
    "take (length ?w) buf = ?w"
    using encode_writes_wire [OF env turn_indication_ok [OF peer(2), of rnd bs], of "junk s1"]
    by (auto simp: succeeds_def peer(3))
  obtain p s2 where p: "esballoc s1 ?w FreeUser = (p, s2)" by (cases "esballoc s1 ?w FreeUser")
  obtain s' where s': "upd_m s2 p (\<lambda>x. x\<lparr>b_wptr := b_wptr x + length ?w\<rparr>) = Some s'" "refs_ok s' ext"
    "mblks s1 p = None" "chain s' (Some p) [p]" "msg_bytes s' [p] = Some ?w" "chain s' (Some mp) [mp]"
    "msg_bytes s' [mp] = Some bs"
    using esballoc_message [OF s1(2-4) p refl] by blast
  have "of_nat (b_wptr m - b_rptr m) = (of_nat (length bs) :: u16)" using frag_bytes_length [OF m(2)] by simp
  then have "send_indication env rnd storage a s mp to = Some (p, s')"
    using s1(1) m peer(1) e p s'(1) by (simp add: send_indication_def Let_def turn_indication_def)
  then show ?thesis using s' m by (intro exI [of _ p] exI [of _ s']) auto
qed


section \<open>Sending\<close>

lemma freemsg_other:
  assumes ok: "refs_ok s ext" and p: "chain s (Some p) ps" "msg_bytes s ps = Some w"
    and q: "chain s (Some mp) qs" "msg_bytes s qs = Some bs" and dj: "set ps \<inter> set qs = {}"
  shows "\<exists>s'. freemsg s (Some p) = Some s' \<and> refs_ok s' ext \<and> (\<forall>q \<in> set ps. mblks s' q = None) \<and>
    chain s' (Some mp) qs \<and> msg_bytes s' qs = Some bs"
proof -
  obtain s' where s': "freemsg s (Some p) = Some s'" "refs_ok s' ext"
    "mblks s' = (\<lambda>q. if q \<in> set ps then None else mblks s q)"
    "\<forall>e x. dblks s' e = Some x \<longrightarrow> (\<exists>y. dblks s e = Some y \<and> db_buf x = db_buf y)"
    using freemsg_ok [OF ok p(1)] msg_bytes_datap [OF p(2)] by blast
  have same: "mblks s' q = mblks s q" if "q \<in> set qs" for q using that dj s'(3) by auto
  have "msg_bytes s' qs = Some bs" by (rule msg_bytes_free_other [OF s'(2) q(2) same s'(4)])
  moreover have "chain s' (Some mp) qs" using q(1) chain_cong [OF same, of qs] by blast
  ultimately show ?thesis using s' by auto
qed

text \<open>What goes out for a message with the bytes \<open>bs\<close>, and through which transport.\<close>

definition relayed_bytes :: "stun_env \<Rightarrow> u32 \<times> u32 \<times> u32 \<Rightarrow> MSTurnContext \<Rightarrow> sockaddr \<Rightarrow> bytes \<Rightarrow> bytes" where
  "relayed_bytes env rnd c to bs =
     (if tc_state c = CHANNEL_BOUND then enc16 (tc_channel_number c) @ enc16 (of_nat (length bs)) @ bs
      else stun_wire env (turn_indication rnd (turn_peer to) bs))"

definition relay_sendto :: "turn_io \<Rightarrow> MSTurnContext \<Rightarrow> mem \<Rightarrow> ptr \<Rightarrow> int \<times> mem" where
  "relay_sendto io c s p =
     (if tc_transport c \<noteq> TURN_UDP \<and> tc_has_tcp_client c then tcp_sendto io s p (tc_server_addr c) (tc_server_addrlen c)
      else rtp_sendto io (tc_type c = TURN_RTP) s p (tc_server_addr c) (tc_server_addrlen c))"

lemma channel_bound_top: "CHANNEL_BOUND \<le> st \<longleftrightarrow> st = CHANNEL_BOUND"
  by (cases st) (simp_all add: less_eq_MSTurnContextState_def)

lemma route_packet_relayed:
  assumes ok: "refs_ok s ext" and c: "chain s (Some mp) (mp # ps)" and b: "msg_bytes s (mp # ps) = Some bs"
    and env: "env_ok env" and fam: "sa_family to = AF_INET \<or> sa_family to = AF_INET6"
    and sa: "sockaddr_ok to" "sockaddr_ok storage" "addr_ok a"
    and relay: "\<not> ms_turn_rtp_endpoint_should_be_sent_to_turn_server ctx to"
      "ms_turn_rtp_endpoint_send_via_turn_relay storage ctx (fst src) (snd src)"
  shows "\<exists>p ctx' s' qs rs. route_packet env rnd storage a ctx s mp (length bs) src to tolen =
      Some (\<lparr>tp_msg = p, tp_to = tc_server_addr ctx, tp_tolen = tc_server_addrlen ctx, tp_new = True,
             tp_tcp = (tc_transport ctx \<noteq> TURN_UDP)\<rparr>, ctx', s') \<and> refs_ok s' ext \<and>
    chain s' (Some p) (p # qs) \<and> msg_bytes s' (p # qs) = Some (relayed_bytes env rnd ctx to bs) \<and>
    chain s' (Some mp) (mp # rs) \<and> msg_bytes s' (mp # rs) = Some bs \<and> set (p # qs) \<inter> set (mp # rs) = {}"
proof (cases "tc_state ctx = CHANNEL_BOUND")
  case True
  obtain h s' qs where d: "channel_data ctx s mp (length bs) = Some (h, s')" "refs_ok s' ext" "chain s' (Some h) (h # qs)"
    "msg_bytes s' (h # qs) = Some (enc16 (tc_channel_number ctx) @ enc16 (of_nat (length bs)) @ bs)"
    "set (h # qs) \<inter> dom (mblks s) = {}" "chain s' (Some mp) (mp # ps)" "msg_bytes s' (mp # ps) = Some bs"
    using channel_data_ok [OF ok c b] by blast
  have "set (mp # ps) \<subseteq> dom (mblks s)" using msg_bytes_datap [OF b] by blast
  then have "set (h # qs) \<inter> set (mp # ps) = {}" using d(5) by blast
  with True relay d(1-4,6,7) show ?thesis
    by (simp add: route_packet_def relayed_bytes_def ms_turn_context_get_state_def Let_def del: chain.simps msg_bytes.simps)
      blast
next
  case False
  obtain p s' where d: "send_indication env rnd storage a s mp to = Some (p, s')" "refs_ok s' ext" "p \<noteq> mp"
    "chain s' (Some p) [p]" "msg_bytes s' [p] = Some (stun_wire env (turn_indication rnd (turn_peer to) bs))"
    "chain s' (Some mp) [mp]" "msg_bytes s' [mp] = Some bs"
    using send_indication_ok [OF ok c b env fam sa] by blast
  have "set [p] \<inter> set [mp] = {}" using d(3) by simp
  with False relay d(1,2,4-7) show ?thesis
    by (simp add: route_packet_def relayed_bytes_def ms_turn_context_get_state_def channel_bound_top Let_def
        del: chain.simps msg_bytes.simps set_simps) blast
qed


text \<open>A context with a bound channel, and a transport that sends everything.\<close>

definition turn_sample_ctx :: MSTurnContext where
  "turn_sample_ctx = ms_turn_context_set_channel_number (ms_turn_context_set_state
     (ms_turn_context_set_force_rtp_sending_via_relay (ms_turn_context_new TURN_RTP (Some AF_INET)) True)
     CHANNEL_BOUND) 0x4001"

definition turn_sample_io :: turn_io where
  "turn_sample_io = \<lparr>tcp_recvfrom = (\<lambda>s p a n. (0, s, a, n)), rtp_recvfrom = (\<lambda>b s p a n. (0, s, a, n)),
     tcp_sendto = (\<lambda>s p a n. (-1, s)), rtp_sendto = (\<lambda>b s p a n. (9, s))\<rparr>"

definition turn_sample_to :: sockaddr where
  "turn_sample_to = sockaddr_zero\<lparr>sa_family := AF_INET, sin_port := 5060, sin_addr := [10, 0, 0, 1]\<rparr>"

lemmas turn_sample_defs = turn_sample_ctx_def turn_sample_io_def turn_sample_to_def ms_turn_context_new_def
  ms_turn_context_set_channel_number_def ms_turn_context_set_state_def ms_turn_context_set_force_rtp_sending_via_relay_def


end
