(* ===== verification/Turn_Receive.thy ===== *)
theory Turn_Receive
  imports Turn_Send
begin

text \<open>
  Receiving through the relay: ChannelData messages of the bound channel and Data indications from
  permitted peers are unpacked, and nothing else changes what the transport delivered.
\<close>

section \<open>Permissions\<close>

lemma peer_in_list_append: "peer_in_list (xs @ ys) p \<longleftrightarrow> peer_in_list xs p \<or> peer_in_list ys p"
  by (induction xs) auto

lemma allow_peer_address:
  "ms_turn_context_peer_address_allowed (ms_turn_context_allow_peer_address c a) b \<longleftrightarrow>
     ms_turn_context_peer_address_allowed c b \<or>
     \<not> ms_turn_context_peer_address_allowed c a \<and> \<not> ms_compare_stun_addresses a b"
  by (simp add: ms_turn_context_allow_peer_address_def ms_turn_context_peer_address_allowed_def
      peer_in_list_append Let_def)

section \<open>Delivered packets\<close>

text \<open>The bytes a transport wrote into an empty message block, and the bytes of that block once the
  caller has moved \<open>b_wptr\<close> by the size it was given.\<close>

definition delivered :: "mem \<Rightarrow> ptr \<Rightarrow> bytes \<Rightarrow> bool" where
  "delivered s p w =
     (case (mblks s p, block_at s p) of
        (Some m, Some (_, buf, off)) \<Rightarrow> b_wptr m = off \<and> off \<le> length buf \<and> take (length w) (drop off buf) = w
      | _ \<Rightarrow> False)"

definition caller_takes :: "mem \<Rightarrow> ptr \<Rightarrow> int \<Rightarrow> bytes option" where
  "caller_takes s p n = do {
     s \<leftarrow> upd_m s p (\<lambda>m. m\<lparr>b_wptr := b_wptr m + nat n\<rparr>);
     m \<leftarrow> mblks s p;
     frag_bytes s m }"

lemma deliveredE:
  assumes "delivered s p w"
  obtains m d x where "mblks s p = Some m" "b_datap m = Some d" "dblks s d = Some x" "b_wptr m = b_rptr m"
    "block_at s p = Some (d, db_buf x, b_rptr m)" "here (db_buf x) (b_rptr m) w" "b_rptr m + length w \<le> length (db_buf x)"
proof -
  obtain m d x where m: "mblks s p = Some m" "b_datap m = Some d" "dblks s d = Some x" "b_wptr m = b_rptr m"
    "block_at s p = Some (d, db_buf x, b_rptr m)" "take (length w) (drop (b_rptr m) (db_buf x)) = w"
    "b_rptr m \<le> length (db_buf x)"
    using assms by (auto simp: delivered_def block_at_def bind_eq_Some_conv split: option.splits)
  have "length (take (length w) (drop (b_rptr m) (db_buf x))) = length w" using m(6) by simp
  then have l: "b_rptr m + length w \<le> length (db_buf x)" using m(7) by (simp add: min_def split: if_splits)
  have "db_buf x = take (b_rptr m) (db_buf x) @ w @ drop (length w) (drop (b_rptr m) (db_buf x))"
    using m(6) by (metis append_take_drop_id)
  then have "here (db_buf x) (b_rptr m) w" using m(7) unfolding here_def by (metis length_take min.absorb2)
  with m l that show ?thesis by blast
qed

section \<open>ChannelData\<close>

text \<open>The tests on the first byte are tests on the two upper bits of the first field.\<close>

lemma first_byte_bits:
  "drop_bit 6 (ucast (drop_bit 8 (x :: u16)) :: u8) = ucast (drop_bit 14 x)"
  "(ucast (drop_bit 8 x) :: u8) AND 0x40 = 0 \<longleftrightarrow> \<not> bit (drop_bit 14 x) 0"
proof -
  show "drop_bit 6 (ucast (drop_bit 8 (x :: u16)) :: u8) = ucast (drop_bit 14 x)"
    by (rule bit_word_eqI) (auto simp: bit_simps, drule bit_imp_le_length, simp)
  show "(ucast (drop_bit 8 x) :: u8) AND 0x40 = 0 \<longleftrightarrow> \<not> bit (drop_bit 14 x) 0"
    using and_exp_eq_0_iff_not_bit [of "ucast (drop_bit 8 x) :: u8" 6] by (simp add: bit_simps)
qed


text \<open>A packet of twelve bytes on the channel of \<open>turn_sample_ctx\<close>, in a block of an empty store.\<close>

definition turn_sample_recv :: "bytes \<Rightarrow> turn_recv" where
  "turn_sample_recv w = \<lparr>tr_size = int (length w), tr_ctx = turn_sample_ctx,
     tr_mem = \<lparr>mblks = [0 \<mapsto> mblk_zero\<lparr>b_datap := Some 1\<rparr>], dblks = [1 \<mapsto> \<lparr>db_buf = w, db_freefn = FreeNone, db_ref = 1\<rparr>],
       brk = 2, junk = (\<lambda>_. 0)\<rparr>,
     tr_recv_addr = recv_addr_zero, tr_from = sockaddr_zero, tr_fromlen = 0\<rparr>"

lemma turn_sample_delivered: "delivered (tr_mem (turn_sample_recv w)) 0 w"
  by (simp add: delivered_def turn_sample_recv_def block_at_def mblk_zero_def)


section \<open>Data indications\<close>

lemma stun_first_bits:
  assumes "(ty :: u16) AND 0x0110 = ty" "me AND 0x3EEF = me"
  shows "drop_bit 14 (ty OR me) = 0"
proof -
  have "drop_bit 14 (ty OR me) = drop_bit 14 ((ty AND 0x0110) OR (me AND 0x3EEF))" by (simp only: assms)
  then show ?thesis by (simp add: drop_bit_or drop_bit_and)
qed

lemma attr_in_wire: "(ty, v) \<in> set as \<Longrightarrow> length v \<le> length (tlvs as)"
  by (induction as) (auto simp: tlvs_def length_tlv)

lemma unpack_data_indication_ok:
  assumes b: "mblks (tr_mem r) p = Some mb" "b_datap mb = Some dp" "dblks (tr_mem r) dp = Some x" "b_wptr mb = b_rptr mb"
    and n: "b_rptr mb + length bs \<le> length (db_buf x)" "length bs = unat len"
    and rel: "relay = fst (ms_stun_address_to_sockaddr (tc_relay_addr (tr_ctx r)) sockaddr_zero 128)"
      "sa_family relay = AF_INET \<or> sa_family relay = AF_INET6" and ne: "0 < len"
  shows "\<exists>r'. unpack_data_indication p peer bs len r = Some r' \<and> caller_takes (tr_mem r') p (tr_size r') = Some bs \<and>
    (tr_from r', tr_fromlen r') = ms_stun_address_to_sockaddr peer (tr_from r) (tr_fromlen r) \<and>
    tr_recv_addr r' = set_recv_addr relay (tr_recv_addr r) \<and>
    nb_data_indication (tc_stats (tr_ctx r')) = nb_data_indication (tc_stats (tr_ctx r)) + 1"
proof -
  define buf where "buf = take (b_rptr mb) (db_buf x) @ bs @ drop (b_rptr mb + length bs) (db_buf x)"
  have io: "block_at (tr_mem r) p = Some (dp, db_buf x, b_rptr mb)" "rd_block bs 0 (unat len) = Some bs"
    "wr_block (db_buf x) (b_rptr mb) bs = Some buf"
    using b n by (simp_all add: block_at_def buf_def wr_block_def)
  have rd: "rd_block buf (b_rptr mb) (length bs) = Some bs"
    unfolding buf_def using n(1) by (intro rd_block_at) auto
  let ?s = "(tr_mem r)\<lparr>dblks := (dblks (tr_mem r))(dp \<mapsto> x\<lparr>db_buf := buf\<rparr>)\<rparr>"
  have "caller_takes ?s p (int (unat len)) = Some bs"
    using b rd n(2) by (simp add: caller_takes_def upd_m_def frag_bytes_def del: rd_block_in)
  moreover have "upd_d (tr_mem r) dp (\<lambda>x. x\<lparr>db_buf := buf\<rparr>) = Some ?s" using b(3) by (simp add: upd_d_def)
  moreover have "0 < int (unat len)" using ne by (simp add: word_less_def)
  ultimately show ?thesis
    using io rel by (simp add: unpack_data_indication_def Let_def split: prod.split)
qed

lemma receive_stun_wire:
  assumes m: "env_ok env" "sendable env m"
    and r: "delivered (tr_mem r) p (stun_wire env m)" "tr_size r = int (length (stun_wire env m))"
  shows "receive_packet p r = receive_stun p (received env m) r"
proof -
  define w where "w = stun_wire env m"
  define fd where "fd = sm_type m OR sm_method m"
  have bits: "sm_type m AND 0x0110 = sm_type m" "sm_method m AND 0x3EEF = sm_method m"
    and tr: "length (sm_tr_id m) = 12" and len: "length (tlvs (stun_attrs env m)) < 65536"
    using m(2) by (simp_all add: sendable_def message_ok_def)
  define l :: u16 where "l = of_nat (length (tlvs (stun_attrs env m)))"
  have w: "w = enc16 fd @ enc16 l @ (enc32 MS_STUN_MAGIC_COOKIE @ sm_tr_id m) @ tlvs (stun_attrs env m)"
    by (simp add: w_def stun_wire_def stun_header_def fd_def l_def Let_def)
  have lw: "int (length w) = uint l + 20" using w tr uint_length [OF len] by (simp add: l_def)
  obtain mb dp x where mb: "mblks (tr_mem r) p = Some mb" "b_datap mb = Some dp" "dblks (tr_mem r) dp = Some x"
    "b_wptr mb = b_rptr mb" "block_at (tr_mem r) p = Some (dp, db_buf x, b_rptr mb)" "here (db_buf x) (b_rptr mb) w"
    "b_rptr mb + length w \<le> length (db_buf x)"
    using deliveredE [OF r(1) [folded w_def]] .
  note h = here_appendD [OF mb(6) [unfolded w]]
  have f: "rd8 (db_buf x) (b_rptr mb) = Some (ucast (drop_bit 8 fd))" "rd16 (db_buf x) (b_rptr mb + 2) = Some l"
    using here_reads(1) here_appendD(1) [of "db_buf x" "b_rptr mb" "[ucast (drop_bit 8 fd)]"] h(1)
      here_reads(2) [OF here_appendD(1) [OF h(2)]] by (simp_all add: enc16_def)
  have fb: "drop_bit 6 (ucast (drop_bit 8 fd) :: u8) \<noteq> 2" "(ucast (drop_bit 8 fd) :: u8) AND 0x40 = 0"
    using first_byte_bits [of fd] stun_first_bits [OF bits] by (simp_all add: fd_def)
  have ps: "ms_stun_message_create_from_buffer_parsing (drop (b_rptr mb) (db_buf x)) (tr_size r) = Some (Some (received env m))"
    unfolding r(2) using mb(6) by (intro parse_wire [OF m(1,2) refl]) (auto simp: here_def w_def)
  show "receive_packet p r = receive_stun p (received env m) r"
    using mb(5) f fb ps lw r(2) uint_ge_0 [of l] by (simp add: receive_packet_def w_def [symmetric] Let_def)
qed

text \<open>A Data indication from a permitted peer is unpacked: from a block that the transport
  filled with the wire form of an indication with data and a peer address, the caller gets exactly
  the data, the source address is the peer's and the destination the relay's. The indication is
  recognised in every state of the context.\<close>

theorem turn_data_indication:
  assumes m: "env_ok env" "sendable env m" "sm_type m = MS_STUN_TYPE_INDICATION" "sm_has_xor_peer_address m"
    and d: "sm_data m = Some bs" "length bs = unat (sm_data_length m)" "bs \<noteq> []"
    and r: "delivered (tr_mem r) p (stun_wire env m)" "tr_size r = int (length (stun_wire env m))"
      "ms_turn_context_peer_address_allowed (tr_ctx r) (ms_stun_address_set_port (sm_xor_peer_address m) 0)"
      "relay = fst (ms_stun_address_to_sockaddr (tc_relay_addr (tr_ctx r)) sockaddr_zero 128)"
      "sa_family relay = AF_INET \<or> sa_family relay = AF_INET6"
  shows "\<exists>r'. receive_packet p r = Some r' \<and> caller_takes (tr_mem r') p (tr_size r') = Some bs \<and>
    (tr_from r', tr_fromlen r') = ms_stun_address_to_sockaddr (sm_xor_peer_address m) (tr_from r) (tr_fromlen r) \<and>
    tr_recv_addr r' = set_recv_addr relay (tr_recv_addr r) \<and>
    nb_data_indication (tc_stats (tr_ctx r')) = nb_data_indication (tc_stats (tr_ctx r)) + 1"
proof -
  obtain mb dp x where mb: "mblks (tr_mem r) p = Some mb" "b_datap mb = Some dp" "dblks (tr_mem r) dp = Some x"
    "b_wptr mb = b_rptr mb" "b_rptr mb + length (stun_wire env m) \<le> length (db_buf x)"
    using deliveredE [OF r(1)] by metis
  have ne: "0 < sm_data_length m" using d(2,3) by (metis length_0_conv word_greater_zero_iff unat_0)
  then have sd: "sent_data m = Some bs" using d by (simp add: sent_data_def)
  have "(MS_TURN_ATTR_DATA, bs) \<in> set (stun_attrs env m)"
    using sd by (simp add: stun_attrs_eq plain_attrs_def sent_data_def opt_attr_def Let_def)
  then have "length bs \<le> length (stun_wire env m)" using attr_in_wire by (fastforce simp: stun_wire_def Let_def)
  then have room: "b_rptr mb + length bs \<le> length (db_buf x)" using mb(5) by simp
  obtain r' where r': "unpack_data_indication p (sm_xor_peer_address m) bs (sm_data_length m) r = Some r'"
    "caller_takes (tr_mem r') p (tr_size r') = Some bs"
    "(tr_from r', tr_fromlen r') = ms_stun_address_to_sockaddr (sm_xor_peer_address m) (tr_from r) (tr_fromlen r)"
    "tr_recv_addr r' = set_recv_addr relay (tr_recv_addr r)"
    "nb_data_indication (tc_stats (tr_ctx r')) = nb_data_indication (tc_stats (tr_ctx r)) + 1"
    using unpack_data_indication_ok [OF mb(1-4) room d(2) r(4,5) ne] by blast
  have "receive_stun p (received env m) r = Some r'"
    using m(3,4) r(3) r'(1) ne sd
    by (simp add: receive_stun_def received_def received_with_def ms_stun_message_get_data_def
        ms_stun_message_get_xor_peer_address_def ms_stun_message_is_indication_def ms_stun_message_get_data_length_def)
  then show ?thesis using receive_stun_wire [OF m(1,2) r(1,2)] r'(2-5) by auto
qed

lemma turn_indication_sendable:
  assumes "addr_canon peer" "length bs \<le> 65000"
  shows "sendable env (turn_indication rnd peer bs)"
proof -
  let ?m = "turn_indication rnd peer bs"
  have ok: "addr_ok peer" using assms(1) by (simp add: addr_canon_def)
  have u: "unat (of_nat (length bs) :: u16) = length bs" using assms(2) by (intro unat_length) simp
  have a20: "length (addr_bytes (stun_address_xor peer (random_tr_id rnd))) \<le> 20"
    using length_addr_bytes [OF addr_ok_xor [OF ok]] by simp
  have pad: "stun_pad k < 4" for k by (simp add: stun_pad_def)
  have "length (tlvs (stun_attrs env ?m)) < 65536"
    using assms(2) u a20 pad [of "length (addr_bytes (stun_address_xor peer (random_tr_id rnd)))"] pad [of "length bs"]
    by (simp add: stun_attrs_def signed_attrs_def plain_attrs_def turn_indication_eq stun_message_zero_def
        stun_mac_def if_attr_def opt_attr_def length_tlv Let_def)
  then show ?thesis
    using turn_indication_ok [OF ok, of rnd bs] assms(1)
    by (simp add: sendable_def) (simp add: turn_indication_eq stun_message_zero_def string_ok_def reason_ok_def
        addr_canon_def addr_ok_def stun_addr_zero_def)
qed

text \<open>A context that has the permission for 10.0.0.1 and relays at 192.0.2.1.\<close>

definition turn_sample_permitted :: MSTurnContext where
  "turn_sample_permitted = ms_turn_context_allow_peer_address
     (ms_turn_context_set_allocated_relay_addr turn_sample_ctx (stun_v4 [192, 0, 2, 1] 49152)) (stun_v4 [10, 0, 0, 1] 0)"

theorem turn_data_indication_witness:
  "\<exists>r'. receive_packet 0 ((turn_sample_recv (stun_wire stun_sample_env (turn_indication (1, 2, 3) (turn_peer turn_sample_to) [9, 8])))
      \<lparr>tr_ctx := turn_sample_permitted\<rparr>) = Some r' \<and>
    caller_takes (tr_mem r') 0 (tr_size r') = Some [9, 8] \<and> sin_addr (tr_from r') = [10, 0, 0, 1] \<and>
    sin_port (tr_from r') = 5060 \<and> take 4 (ra_addr (tr_recv_addr r')) = [192, 0, 2, 1]"
proof -
  let ?m = "turn_indication (1, 2, 3) (turn_peer turn_sample_to) [9, 8]"
  let ?r = "(turn_sample_recv (stun_wire stun_sample_env ?m))\<lparr>tr_ctx := turn_sample_permitted\<rparr>"
  let ?relay = "fst (ms_stun_address_to_sockaddr (stun_v4 [192, 0, 2, 1] 49152) sockaddr_zero 128)"
  have ok: "sockaddr_ok turn_sample_to" by (simp add: sockaddr_ok_def sockaddr_zero_def turn_sample_to_def)
  have peer: "turn_peer turn_sample_to = stun_v4 [10, 0, 0, 1] 5060" by (simp add: turn_peer_def turn_sample_to_def)
  have snd: "sendable stun_sample_env ?m" using turn_indication_sendable [OF turn_peer_canon [OF ok]] by simp
  have m: "sm_type ?m = MS_STUN_TYPE_INDICATION" "sm_has_xor_peer_address ?m"
    "sm_data ?m = Some [9, 8]" "length [9, 8 :: u8] = unat (sm_data_length ?m)" "[9, 8 :: u8] \<noteq> []"
    by (simp_all add: turn_indication_eq)
  have px: "sm_xor_peer_address ?m = stun_v4 [10, 0, 0, 1] 5060" by (simp add: turn_indication_eq peer)
  have d: "delivered (tr_mem ?r) 0 (stun_wire stun_sample_env ?m)" "tr_size ?r = int (length (stun_wire stun_sample_env ?m))"
    using turn_sample_delivered by simp_all (simp add: turn_sample_recv_def)
  have c: "ms_turn_context_peer_address_allowed (tr_ctx ?r) (ms_stun_address_set_port (sm_xor_peer_address ?m) 0)"
    "?relay = fst (ms_stun_address_to_sockaddr (tc_relay_addr (tr_ctx ?r)) sockaddr_zero 128)"
    "sa_family ?relay = AF_INET \<or> sa_family ?relay = AF_INET6"
    unfolding px by (simp_all add: turn_sample_permitted_def turn_sample_defs ms_turn_context_set_allocated_relay_addr_def
        ms_turn_context_allow_peer_address_def ms_turn_context_peer_address_allowed_def stun_v4_def
        ms_stun_address_set_port_def ms_compare_stun_addresses_def ms_stun_address_to_sockaddr_def stun_addr_zero_def)
  from turn_data_indication [OF stun_sample_env_ok snd m d c] show ?thesis
    unfolding px by (auto simp: stun_v4_def ms_stun_address_to_sockaddr_def turn_sample_recv_def set_recv_addr_def be32_def
        recv_addr_zero_def enc32_def)
qed

section \<open>Everything else\<close>

text \<open>An indication with data from a permitted peer, and a packet that is one.\<close>

definition permitted :: "MSTurnContext \<Rightarrow> MSStunMessage \<Rightarrow> bool" where
  "permitted c sm =
     (ms_stun_message_is_indication sm \<and> ms_stun_message_get_data sm \<noteq> None \<and>
      (case ms_stun_message_get_xor_peer_address sm of None \<Rightarrow> False
       | Some a \<Rightarrow> ms_turn_context_peer_address_allowed c (ms_stun_address_set_port a 0)))"

definition permitted_indication :: "ptr \<Rightarrow> turn_recv \<Rightarrow> bool" where
  "permitted_indication p r =
     (case block_at (tr_mem r) p of
        None \<Rightarrow> False
      | Some (_, buf, off) \<Rightarrow>
          (case ms_stun_message_create_from_buffer_parsing (drop off buf) (tr_size r) of
             Some (Some sm) \<Rightarrow> permitted (tr_ctx r) sm | _ \<Rightarrow> False))"

lemma receive_stun_refused: "\<not> permitted (tr_ctx r) sm \<Longrightarrow> receive_stun p sm r = Some r"
  by (auto simp: permitted_def receive_stun_def split: option.splits)



end
