(* ===== verification/Ice.thy ===== *)
theory Ice
  imports Turn
begin

text \<open>
  The ICE agent of \<open>mediastreamer2/src/voip/ice.c\<close>: its data (\<open>mediastreamer2/ice.h\<close>), the sessions
  and check lists, the candidates, and the formation of the check lists from the candidates.

  One session is modelled, with the stores of the objects it points to: check lists, candidates,
  candidate pairs and valid pairs, each addressed by a pointer. A C pointer that may be NULL is an
  optional address; freeing an object removes it from its store, and an operation that reads an object
  that is not there (a NULL or dangling pointer) has the result \<open>None\<close>. The lists of
  \<open>bctoolbox/src/containers/list.c\<close> are lists of the pointers they hold. Transactions and pair
  foundations, which are only reached through their list, are stored in it by value, and a component
  ID of \<open>local_componentIDs\<close> or \<open>remote_componentIDs\<close>, which is a pointer into a candidate, is the
  address of that candidate.

  What the agent hands to the RTP transports and to its TURN contexts is recorded in \<open>im_out\<close>. The
  gathering of candidates from a STUN or TURN server is not modelled; the clock, the random numbers
  and the address conversions of the platform are arguments. C strings are their characters without the
  final zero.
\<close>

section \<open>Lists\<close>

type_synonym iptr = nat

text \<open>The comparison functions given to the list functions return zero for a match, which is \<open>True\<close> here;
  they dereference their arguments, so that they may be undefined.\<close>

fun bctbx_list_find_custom :: "'a list \<Rightarrow> ('a \<Rightarrow> bool option) \<Rightarrow> 'a option option" where
  "bctbx_list_find_custom [] f = Some None"
| "bctbx_list_find_custom (x # xs) f =
     do { b \<leftarrow> f x; if b then Some (Some x) else bctbx_list_find_custom xs f }"

fun bctbx_list_for_each2 :: "'a list \<Rightarrow> ('a \<Rightarrow> 's \<Rightarrow> 's option) \<Rightarrow> 's \<Rightarrow> 's option" where
  "bctbx_list_for_each2 [] f s = Some s"
| "bctbx_list_for_each2 (x # xs) f s = do { s \<leftarrow> f x s; bctbx_list_for_each2 xs f s }"

text \<open>\<open>cmp x y\<close> is \<open>compare_func(x, y) <= 0\<close>.\<close>

fun bctbx_list_insert_sorted :: "'a list \<Rightarrow> 'a \<Rightarrow> ('a \<Rightarrow> 'a \<Rightarrow> bool option) \<Rightarrow> 'a list option" where
  "bctbx_list_insert_sorted [] d cmp = Some [d]"
| "bctbx_list_insert_sorted (x # xs) d cmp =
     do { b \<leftarrow> cmp d x;
          if b then Some (d # x # xs) else map_option ((#) x) (bctbx_list_insert_sorted xs d cmp) }"

definition bctbx_list_append :: "'a list \<Rightarrow> 'a \<Rightarrow> 'a list" where
  "bctbx_list_append xs d = xs @ [d]"

definition bctbx_list_remove :: "'a list \<Rightarrow> 'a \<Rightarrow> 'a list" where
  "bctbx_list_remove xs d = remove1 d xs"

text \<open>The loop reads each element before it is removed, and removing an element removes its first occurrence.\<close>

fun list_remove_custom_loop :: "'a list \<Rightarrow> ('a \<Rightarrow> bool option) \<Rightarrow> 'a list \<Rightarrow> 'a list option" where
  "list_remove_custom_loop [] f first = Some first"
| "list_remove_custom_loop (x # xs) f first =
     do { b \<leftarrow> f x; list_remove_custom_loop xs f (if b then bctbx_list_remove first x else first) }"

definition bctbx_list_remove_custom :: "'a list \<Rightarrow> ('a \<Rightarrow> bool option) \<Rightarrow> 'a list option" where
  "bctbx_list_remove_custom xs f = list_remove_custom_loop xs f xs"

definition bctbx_list_find :: "'a list \<Rightarrow> 'a \<Rightarrow> bool" where
  "bctbx_list_find xs d = List.member xs d"

section \<open>Data\<close>

definition ICE_MAX_NB_CANDIDATES :: nat where "ICE_MAX_NB_CANDIDATES = 32"
definition ICE_MAX_NB_CANDIDATE_PAIRS :: u8 where "ICE_MAX_NB_CANDIDATE_PAIRS = 128"
definition ICE_MAX_COMPONENTID :: nat where "ICE_MAX_COMPONENTID = 256"
definition ICE_MAX_UFRAG_LEN :: nat where "ICE_MAX_UFRAG_LEN = 256"
definition ICE_MAX_PWD_LEN :: nat where "ICE_MAX_PWD_LEN = 256"
definition ICE_DEFAULT_TA_DURATION :: int where "ICE_DEFAULT_TA_DURATION = 40"
definition ICE_DEFAULT_RTO_DURATION :: int where "ICE_DEFAULT_RTO_DURATION = 200"
definition ICE_DEFAULT_KEEPALIVE_TIMEOUT :: u8 where "ICE_DEFAULT_KEEPALIVE_TIMEOUT = 15"
definition ICE_NOMINATION_DELAY :: int where "ICE_NOMINATION_DELAY = 1000"
definition ICE_MAX_RETRANSMISSIONS :: u8 where "ICE_MAX_RETRANSMISSIONS = 7"
definition ICE_MAX_RETRANSMISSIONS_FOR_NOMINATIONS :: u8 where "ICE_MAX_RETRANSMISSIONS_FOR_NOMINATIONS = 5"
definition ICE_SESSION_MAX_CHECK_LISTS :: nat where "ICE_SESSION_MAX_CHECK_LISTS = 8"
definition ICE_RTP_COMPONENT_ID :: u16 where "ICE_RTP_COMPONENT_ID = 1"
definition ICE_RTCP_COMPONENT_ID :: u16 where "ICE_RTCP_COMPONENT_ID = 2"

datatype IceRole = IR_Controlling | IR_Controlled

datatype IceCandidateType = ICT_CandidateInvalid | ICT_HostCandidate | ICT_ServerReflexiveCandidate
  | ICT_PeerReflexiveCandidate | ICT_RelayedCandidate

datatype IceCandidatePairState = ICP_Waiting | ICP_InProgress | ICP_Succeeded | ICP_Failed | ICP_Frozen

datatype IceCheckListState = ICL_Running | ICL_Completed | ICL_Failed

datatype IceSessionState = IS_Stopped | IS_Running | IS_Completed | IS_Failed

datatype IceEvent = ORTP_EVENT_NONE | ORTP_EVENT_ICE_CHECK_LIST_PROCESSING_FINISHED
  | ORTP_EVENT_ICE_SESSION_PROCESSING_FINISHED | ORTP_EVENT_ICE_LOSING_PAIRS_COMPLETED
  | ORTP_EVENT_ICE_RESTART_NEEDED | ORTP_EVENT_ICE_CHECK_LIST_DEFAULT_CANDIDATE_VERIFIED

record MSTimeSpec =
  tv_sec :: int
  tv_nsec :: int

record IceTransportAddress =
  ta_ip :: bytes
  ta_port :: int
  ta_family :: int

record IceCandidate =
  c_foundation :: bytes
  c_taddr :: IceTransportAddress
  c_type :: IceCandidateType
  c_priority :: u32
  c_componentID :: u16
  c_base :: "iptr option"
  c_is_default :: bool

record IceCandidatePair =
  p_role :: IceRole
  p_local :: "iptr option"
  p_remote :: "iptr option"
  p_state :: IceCandidatePairState
  p_priority :: u64
  p_transmission_time :: MSTimeSpec
  p_rto :: int
  p_retransmissions :: u8
  p_is_default :: bool
  p_use_candidate :: bool
  p_is_nominated :: bool
  p_nomination_pending :: bool
  p_has_canceled_transaction :: bool
  p_nomination_failing :: bool
  p_retry_with_dummy_message_integrity :: bool
  p_use_dummy_hmac :: bool

record IcePairFoundation =
  f_local :: bytes
  f_remote :: bytes

record IceValidCandidatePair =
  v_valid :: iptr
  v_generated_from :: iptr
  v_last_keepalive :: MSTimeSpec
  v_selected :: bool

record IceTransaction =
  t_transactionID :: bytes
  t_pair :: iptr
  t_canceled :: bool

text \<open>\<open>cl_session\<close> tells whether the check list points to the session; \<open>cl_rtcp_mux\<close> is
  \<open>rtp_session_rtcp_mux_enabled\<close> of its RTP session.\<close>

record IceCheckList =
  cl_session :: bool
  cl_rtcp_mux :: bool
  cl_remote_ufrag :: "bytes option"
  cl_remote_pwd :: "bytes option"
  cl_local_candidates :: "iptr list"
  cl_remote_candidates :: "iptr list"
  cl_pairs :: "iptr list"
  cl_losing_pairs :: "iptr list"
  cl_triggered_checks_queue :: "iptr list"
  cl_check_list :: "iptr list"
  cl_valid_list :: "iptr list"
  cl_foundations :: "IcePairFoundation list"
  cl_local_componentIDs :: "iptr list"
  cl_remote_componentIDs :: "iptr list"
  cl_transaction_list :: "IceTransaction list"
  cl_state :: IceCheckListState
  cl_ta_time :: MSTimeSpec
  cl_keepalive_time :: MSTimeSpec
  cl_foundation_generator :: u32
  cl_gathering_start_time :: MSTimeSpec
  cl_nomination_delay_start_time :: MSTimeSpec
  cl_mismatch :: bool
  cl_gathering_candidates :: bool
  cl_gathering_finished :: bool
  cl_nomination_delay_running :: bool
  cl_connectivity_checks_running :: bool
  cl_nomination_in_progress :: bool

record IceSession =
  s_streams :: "iptr option list"
  s_local_ufrag :: bytes
  s_local_pwd :: bytes
  s_remote_ufrag :: "bytes option"
  s_remote_pwd :: "bytes option"
  s_role :: IceRole
  s_state :: IceSessionState
  s_tie_breaker :: u64
  s_ta :: int
  s_event_value :: IceEvent
  s_event_time :: MSTimeSpec
  s_gathering_start_ts :: MSTimeSpec
  s_gathering_end_ts :: MSTimeSpec
  s_connectivity_checks_start_ts :: MSTimeSpec
  s_default_types :: "IceCandidateType list"
  s_check_message_integrity :: bool
  s_send_event :: bool
  s_max_connectivity_checks :: u8
  s_keepalive_timeout :: u8
  s_forced_relay :: bool
  s_turn_enabled :: bool
  s_default_candidates_prefer_ipv6 :: bool

text \<open>What leaves the agent: a STUN message on the transport of a component with its source and
  destination; the destination and the local address of the media streams; the setting of the TURN context of a
  component, a CreatePermission request for the address of a remote candidate, a ChannelBind request for it and
  the release of the relayed candidate of a component; an event for the application, with its success flag.\<close>

datatype ice_out =
    Out_Packet u16 bytes MSStunAddress MSStunAddress
  | Out_Remote_Addr IceTransportAddress IceTransportAddress
  | Out_Local_Addr bytes bytes
  | Out_Force_Relay u16 bool
  | Out_Create_Permission u16 IceTransportAddress
  | Out_Channel_Bind u16 IceTransportAddress
  | Out_Turn_Deallocate u16
  | Out_Event IceEvent bool

text \<open>\<open>im_random\<close> gives the successive results of \<open>bctbx_random\<close> and \<open>im_drawn\<close> counts them.\<close>

record ice_mem =
  im_session :: IceSession
  im_lists :: "iptr \<Rightarrow> IceCheckList option"
  im_cands :: "iptr \<Rightarrow> IceCandidate option"
  im_pairs :: "iptr \<Rightarrow> IceCandidatePair option"
  im_valids :: "iptr \<Rightarrow> IceValidCandidatePair option"
  im_next :: iptr
  im_random :: "nat \<Rightarrow> u32"
  im_drawn :: nat
  im_out :: "ice_out list"

section \<open>Access to the stores\<close>

definition cand_at :: "ice_mem \<Rightarrow> iptr option \<Rightarrow> IceCandidate option" where
  "cand_at m a = Option.bind a (im_cands m)"

definition upd_list :: "ice_mem \<Rightarrow> iptr \<Rightarrow> (IceCheckList \<Rightarrow> IceCheckList) \<Rightarrow> ice_mem option" where
  "upd_list m a f = do { x \<leftarrow> im_lists m a; Some (m\<lparr>im_lists := (im_lists m)(a \<mapsto> f x)\<rparr>) }"

definition upd_cand :: "ice_mem \<Rightarrow> iptr \<Rightarrow> (IceCandidate \<Rightarrow> IceCandidate) \<Rightarrow> ice_mem option" where
  "upd_cand m a f = do { x \<leftarrow> im_cands m a; Some (m\<lparr>im_cands := (im_cands m)(a \<mapsto> f x)\<rparr>) }"

definition upd_pair :: "ice_mem \<Rightarrow> iptr \<Rightarrow> (IceCandidatePair \<Rightarrow> IceCandidatePair) \<Rightarrow> ice_mem option" where
  "upd_pair m a f = do { x \<leftarrow> im_pairs m a; Some (m\<lparr>im_pairs := (im_pairs m)(a \<mapsto> f x)\<rparr>) }"

definition upd_valid :: "ice_mem \<Rightarrow> iptr \<Rightarrow> (IceValidCandidatePair \<Rightarrow> IceValidCandidatePair) \<Rightarrow> ice_mem option" where
  "upd_valid m a f = do { x \<leftarrow> im_valids m a; Some (m\<lparr>im_valids := (im_valids m)(a \<mapsto> f x)\<rparr>) }"

definition upd_session :: "ice_mem \<Rightarrow> (IceSession \<Rightarrow> IceSession) \<Rightarrow> ice_mem" where
  "upd_session m f = m\<lparr>im_session := f (im_session m)\<rparr>"

definition ice_emit :: "ice_mem \<Rightarrow> ice_out \<Rightarrow> ice_mem" where
  "ice_emit m e = m\<lparr>im_out := im_out m @ [e]\<rparr>"

definition draw :: "ice_mem \<Rightarrow> u32 \<times> ice_mem" where
  "draw m = (im_random m (im_drawn m), m\<lparr>im_drawn := im_drawn m + 1\<rparr>)"

text \<open>The loop over the check lists of the session that is repeated in every \<open>ice_session_\<close> function.\<close>

definition each_stream :: "ice_mem \<Rightarrow> (iptr \<Rightarrow> ice_mem \<Rightarrow> ice_mem option) \<Rightarrow> ice_mem option" where
  "each_stream m f =
     bctbx_list_for_each2 (s_streams (im_session m)) (\<lambda>o' m. case o' of None \<Rightarrow> Some m | Some cl \<Rightarrow> f cl m) m"

section \<open>Time\<close>

definition ice_add_ms :: "MSTimeSpec \<Rightarrow> u32 \<Rightarrow> MSTimeSpec" where
  "ice_add_ms orig ms =
     (if ms = 0 then orig
      else orig\<lparr>tv_sec := tv_sec orig + uint (ms div 1000),
                tv_nsec := tv_nsec orig + uint ((ms mod 1000) * 1000000)\<rparr>)"

definition ice_compare_time :: "MSTimeSpec \<Rightarrow> MSTimeSpec \<Rightarrow> int" where
  "ice_compare_time ts1 ts2 =
     (let ms = (word_of_int ((tv_sec ts1 - tv_sec ts2) * 1000) :: u32);
          d = tv_nsec ts1 - tv_nsec ts2 in
      sint (ms + word_of_int (sgn d * (\<bar>d\<bar> div 1000000))))"

section \<open>Sessions and check lists\<close>

text \<open>\<open>r\<close> gives the successive values of \<open>bctbx_random\<close>.\<close>

definition generate_tie_breaker :: "u32 \<Rightarrow> u32 \<Rightarrow> u64" where
  "generate_tie_breaker a b = push_bit 32 (ucast a) OR (ucast b AND 0xffffffff)"

definition hex8 :: "u32 \<Rightarrow> bytes" where
  "hex8 w = map (\<lambda>i. let d = drop_bit (28 - 4 * i) w AND 15 in
                    if d < 10 then ucast d + 48 else ucast d + 87) [0..<8]"

definition generate_ufrag :: "u32 \<Rightarrow> bytes" where
  "generate_ufrag a = hex8 a"

definition generate_pwd :: "u32 \<Rightarrow> u32 \<Rightarrow> u32 \<Rightarrow> bytes" where
  "generate_pwd a b c = hex8 a @ hex8 b @ hex8 c"

definition time_zero :: MSTimeSpec where
  "time_zero = \<lparr>tv_sec = 0, tv_nsec = 0\<rparr>"

definition time_unset :: MSTimeSpec where
  "time_unset = \<lparr>tv_sec = -1, tv_nsec = -1\<rparr>"

text \<open>The fields the function does not set are zero in the new session; \<open>default_types[3]\<close> is then the
  first candidate type.\<close>

definition ice_session_init :: "(nat \<Rightarrow> u32) \<Rightarrow> IceSession" where
  "ice_session_init r =
     \<lparr>s_streams = replicate ICE_SESSION_MAX_CHECK_LISTS None,
      s_local_ufrag = generate_ufrag (r 2), s_local_pwd = generate_pwd (r 3) (r 4) (r 5),
      s_remote_ufrag = None, s_remote_pwd = None,
      s_role = IR_Controlling, s_state = IS_Stopped,
      s_tie_breaker = generate_tie_breaker (r 0) (r 1),
      s_ta = ICE_DEFAULT_TA_DURATION, s_event_value = ORTP_EVENT_NONE, s_event_time = time_zero,
      s_gathering_start_ts = time_unset, s_gathering_end_ts = time_unset,
      s_connectivity_checks_start_ts = time_unset,
      s_default_types =
        (((replicate 4 ICT_HostCandidate)[0 := ICT_RelayedCandidate])[1 := ICT_ServerReflexiveCandidate,
           2 := ICT_HostCandidate])[2 := ICT_CandidateInvalid],
      s_check_message_integrity = True, s_send_event = False,
      s_max_connectivity_checks = ICE_MAX_NB_CANDIDATE_PAIRS,
      s_keepalive_timeout = ICE_DEFAULT_KEEPALIVE_TIMEOUT,
      s_forced_relay = False, s_turn_enabled = False, s_default_candidates_prefer_ipv6 = True\<rparr>"

definition ice_session_new :: "(nat \<Rightarrow> u32) \<Rightarrow> ice_mem" where
  "ice_session_new r =
     \<lparr>im_session = ice_session_init r, im_lists = (\<lambda>_. None), im_cands = (\<lambda>_. None), im_pairs = (\<lambda>_. None),
      im_valids = (\<lambda>_. None), im_next = 0, im_random = r, im_drawn = 6, im_out = []\<rparr>"

definition ice_session_set_default_candidates_types :: "ice_mem \<Rightarrow> IceCandidateType list \<Rightarrow> ice_mem" where
  "ice_session_set_default_candidates_types m types = upd_session m (\<lambda>s. s\<lparr>s_default_types := types\<rparr>)"

definition ice_session_set_default_candidates_ip_version :: "ice_mem \<Rightarrow> bool \<Rightarrow> ice_mem" where
  "ice_session_set_default_candidates_ip_version m ipv6_preferred =
     upd_session m (\<lambda>s. s\<lparr>s_default_candidates_prefer_ipv6 := ipv6_preferred\<rparr>)"

definition ice_session_enable_message_integrity_check :: "ice_mem \<Rightarrow> bool \<Rightarrow> ice_mem" where
  "ice_session_enable_message_integrity_check m enable =
     upd_session m (\<lambda>s. s\<lparr>s_check_message_integrity := enable\<rparr>)"

definition ice_check_list_init :: "MSTimeSpec \<Rightarrow> bool \<Rightarrow> IceCheckList" where
  "ice_check_list_init now mux =
     \<lparr>cl_session = False, cl_rtcp_mux = mux, cl_remote_ufrag = None, cl_remote_pwd = None,
      cl_local_candidates = [], cl_remote_candidates = [], cl_pairs = [], cl_losing_pairs = [],
      cl_triggered_checks_queue = [], cl_check_list = [], cl_valid_list = [], cl_foundations = [],
      cl_local_componentIDs = [], cl_remote_componentIDs = [], cl_transaction_list = [],
      cl_state = ICL_Running, cl_ta_time = now, cl_keepalive_time = time_zero,
      cl_foundation_generator = 1, cl_gathering_start_time = time_zero,
      cl_nomination_delay_start_time = time_zero, cl_mismatch = False, cl_gathering_candidates = False,
      cl_gathering_finished = False, cl_nomination_delay_running = False,
      cl_connectivity_checks_running = False, cl_nomination_in_progress = False\<rparr>"

definition ice_check_list_new :: "ice_mem \<Rightarrow> MSTimeSpec \<Rightarrow> bool \<Rightarrow> iptr \<times> ice_mem" where
  "ice_check_list_new m now mux =
     (im_next m, m\<lparr>im_lists := (im_lists m)(im_next m \<mapsto> ice_check_list_init now mux), im_next := im_next m + 1\<rparr>)"

definition ice_check_list_state :: "ice_mem \<Rightarrow> iptr \<Rightarrow> IceCheckListState option" where
  "ice_check_list_state m cl = map_option cl_state (im_lists m cl)"

text \<open>The session a check list belongs to; dereferencing it while it is NULL is undefined.\<close>

definition session_of :: "ice_mem \<Rightarrow> iptr \<Rightarrow> IceSession option" where
  "session_of m cl = do { c \<leftarrow> im_lists m cl; if cl_session c then Some (im_session m) else None }"

fun find_state_in :: "ice_mem \<Rightarrow> iptr option list \<Rightarrow> IceCheckListState \<Rightarrow> iptr option option" where
  "find_state_in m [] st = Some None"
| "find_state_in m (None # xs) st = find_state_in m xs st"
| "find_state_in m (Some cl # xs) st =
     do { s \<leftarrow> ice_check_list_state m cl; if s = st then Some (Some cl) else find_state_in m xs st }"

definition ice_find_check_list_from_state :: "ice_mem \<Rightarrow> IceCheckListState \<Rightarrow> iptr option option" where
  "ice_find_check_list_from_state m st = find_state_in m (s_streams (im_session m)) st"

definition ice_check_list_set_state :: "ice_mem \<Rightarrow> iptr \<Rightarrow> IceCheckListState \<Rightarrow> ice_mem option" where
  "ice_check_list_set_state m cl st = do {
     c \<leftarrow> im_lists m cl;
     if cl_state c \<noteq> st then do {
       m \<leftarrow> upd_list m cl (\<lambda>c. c\<lparr>cl_state := st\<rparr>);
       _ \<leftarrow> session_of m cl;
       running \<leftarrow> ice_find_check_list_from_state m ICL_Running;
       if running = None then do {
         failed \<leftarrow> ice_find_check_list_from_state m ICL_Failed;
         Some (upd_session m (\<lambda>s. s\<lparr>s_state := (if failed \<noteq> None then IS_Failed else IS_Completed)\<rparr>)) }
       else Some m }
     else Some m }"

definition ice_check_list_local_ufrag :: "ice_mem \<Rightarrow> iptr \<Rightarrow> bytes option" where
  "ice_check_list_local_ufrag m cl = map_option s_local_ufrag (session_of m cl)"

definition ice_check_list_local_pwd :: "ice_mem \<Rightarrow> iptr \<Rightarrow> bytes option" where
  "ice_check_list_local_pwd m cl = map_option s_local_pwd (session_of m cl)"

definition ice_check_list_remote_ufrag :: "ice_mem \<Rightarrow> iptr \<Rightarrow> bytes option option" where
  "ice_check_list_remote_ufrag m cl = do {
     c \<leftarrow> im_lists m cl;
     case cl_remote_ufrag c of Some u \<Rightarrow> Some (Some u) | None \<Rightarrow> map_option s_remote_ufrag (session_of m cl) }"

definition ice_check_list_remote_pwd :: "ice_mem \<Rightarrow> iptr \<Rightarrow> bytes option option" where
  "ice_check_list_remote_pwd m cl = do {
     c \<leftarrow> im_lists m cl;
     case cl_remote_pwd c of Some u \<Rightarrow> Some (Some u) | None \<Rightarrow> map_option s_remote_pwd (session_of m cl) }"

definition ice_set_credentials :: "bytes \<Rightarrow> bytes \<Rightarrow> bytes \<times> bytes" where
  "ice_set_credentials ufrag_str pwd_str =
     (take (min (length ufrag_str) ICE_MAX_UFRAG_LEN) ufrag_str, take (min (length pwd_str) ICE_MAX_PWD_LEN) pwd_str)"

definition ice_check_list_remote_credentials_changed :: "ice_mem \<Rightarrow> iptr \<Rightarrow> bytes \<Rightarrow> bytes \<Rightarrow> bool option" where
  "ice_check_list_remote_credentials_changed m cl ufrag pwd = do {
     c \<leftarrow> im_lists m cl;
     if cl_remote_ufrag c = None \<or> cl_remote_pwd c = None then do {
       old_ufrag \<leftarrow> (case cl_remote_ufrag c of None \<Rightarrow> map_option s_remote_ufrag (session_of m cl) | Some u \<Rightarrow> Some (Some u));
       if old_ufrag \<noteq> None \<and> old_ufrag \<noteq> Some ufrag then Some True
       else do {
         old_pwd \<leftarrow> (case cl_remote_pwd c of None \<Rightarrow> map_option s_remote_pwd (session_of m cl) | Some u \<Rightarrow> Some (Some u));
         Some (old_pwd \<noteq> None \<and> old_pwd \<noteq> Some pwd) } }
     else if cl_remote_ufrag c \<noteq> Some ufrag then Some True
     else Some (cl_remote_pwd c \<noteq> Some pwd) }"

definition ice_check_list_set_remote_credentials :: "ice_mem \<Rightarrow> iptr \<Rightarrow> bytes \<Rightarrow> bytes \<Rightarrow> ice_mem option" where
  "ice_check_list_set_remote_credentials m cl ufrag pwd =
     upd_list m cl (\<lambda>c. c\<lparr>cl_remote_ufrag := Some (fst (ice_set_credentials ufrag pwd)),
                          cl_remote_pwd := Some (snd (ice_set_credentials ufrag pwd))\<rparr>)"

definition ice_session_set_local_credentials :: "ice_mem \<Rightarrow> bytes \<Rightarrow> bytes \<Rightarrow> ice_mem" where
  "ice_session_set_local_credentials m ufrag pwd =
     upd_session m (\<lambda>s. s\<lparr>s_local_ufrag := fst (ice_set_credentials ufrag pwd),
                          s_local_pwd := snd (ice_set_credentials ufrag pwd)\<rparr>)"

definition ice_session_remote_credentials_changed :: "ice_mem \<Rightarrow> bytes \<Rightarrow> bytes \<Rightarrow> bool" where
  "ice_session_remote_credentials_changed m ufrag pwd =
     (s_remote_ufrag (im_session m) = None \<or> s_remote_pwd (im_session m) = None \<or>
      s_remote_ufrag (im_session m) \<noteq> Some ufrag \<or> s_remote_pwd (im_session m) \<noteq> Some pwd)"

definition ice_session_set_remote_credentials :: "ice_mem \<Rightarrow> bytes \<Rightarrow> bytes \<Rightarrow> ice_mem" where
  "ice_session_set_remote_credentials m ufrag pwd =
     upd_session m (\<lambda>s. s\<lparr>s_remote_ufrag := Some (fst (ice_set_credentials ufrag pwd)),
                          s_remote_pwd := Some (snd (ice_set_credentials ufrag pwd))\<rparr>)"

definition ice_session_set_max_connectivity_checks :: "ice_mem \<Rightarrow> u8 \<Rightarrow> ice_mem" where
  "ice_session_set_max_connectivity_checks m n = upd_session m (\<lambda>s. s\<lparr>s_max_connectivity_checks := n\<rparr>)"

definition ice_session_set_keepalive_timeout :: "ice_mem \<Rightarrow> u8 \<Rightarrow> ice_mem" where
  "ice_session_set_keepalive_timeout m timeout =
     upd_session m (\<lambda>s. s\<lparr>s_keepalive_timeout :=
       (if timeout < ICE_DEFAULT_KEEPALIVE_TIMEOUT then ICE_DEFAULT_KEEPALIVE_TIMEOUT else timeout)\<rparr>)"

definition ice_session_check_list :: "ice_mem \<Rightarrow> nat \<Rightarrow> iptr option" where
  "ice_session_check_list m n =
     (if n \<ge> ICE_SESSION_MAX_CHECK_LISTS then None else s_streams (im_session m) ! n)"

definition ice_session_nb_check_lists :: "ice_mem \<Rightarrow> nat" where
  "ice_session_nb_check_lists m = length (filter (\<lambda>x. x \<noteq> None) (s_streams (im_session m)))"

definition ice_session_has_completed_check_list :: "ice_mem \<Rightarrow> bool option" where
  "ice_session_has_completed_check_list m = map_option (\<lambda>r. r \<noteq> None) (ice_find_check_list_from_state m ICL_Completed)"

definition ice_session_add_check_list :: "ice_mem \<Rightarrow> iptr \<Rightarrow> nat \<Rightarrow> ice_mem option" where
  "ice_session_add_check_list m cl idx =
     (if idx \<ge> ICE_SESSION_MAX_CHECK_LISTS then Some m
      else if s_streams (im_session m) ! idx \<noteq> None then Some m
      else do {
        m \<leftarrow> Some (upd_session m (\<lambda>s. s\<lparr>s_streams := (s_streams s)[idx := Some cl]\<rparr>));
        m \<leftarrow> upd_list m cl (\<lambda>c. c\<lparr>cl_session := True\<rparr>);
        c \<leftarrow> im_lists m cl;
        Some (if cl_state c = ICL_Running then upd_session m (\<lambda>s. s\<lparr>s_state := IS_Running\<rparr>) else m) })"

end
