(* ===== verification/Ice_Candidates.thy ===== *)
theory Ice_Candidates
  imports Ice
begin

text \<open>
  Candidates of an ICE check list: their priorities and foundations, the lists of component IDs, the elimination
  of redundant candidates, and the choice of the default ones (\<open>ice.c\<close>, ``Add candidates'' to
  ``Choose default candidates''), and the end of the life of pairs and check lists.
\<close>

section \<open>Comparisons\<close>

text \<open>A comparison function of the code that returns zero is true here.\<close>

definition ice_compare_transport_addresses :: "IceTransportAddress \<Rightarrow> IceTransportAddress \<Rightarrow> bool" where
  "ice_compare_transport_addresses ta1 ta2 =
     (ta_family ta1 = ta_family ta2 \<and> ta_port ta1 = ta_port ta2 \<and> ta_ip ta1 = ta_ip ta2)"

definition ice_compare_candidates :: "IceCandidate \<Rightarrow> IceCandidate \<Rightarrow> bool" where
  "ice_compare_candidates c1 c2 =
     (c_type c1 = c_type c2 \<and> ice_compare_transport_addresses (c_taddr c1) (c_taddr c2) \<and>
      c_componentID c1 = c_componentID c2 \<and> c_priority c1 = c_priority c2)"

definition ice_candidate_is_relay :: "ice_mem \<Rightarrow> iptr \<Rightarrow> bool option" where
  "ice_candidate_is_relay m a = do {
     c \<leftarrow> im_cands m a;
     if c_type c = ICT_RelayedCandidate then Some True
     else (case c_base c of
             None \<Rightarrow> Some False
           | Some b \<Rightarrow> map_option (\<lambda>d. c_type d = ICT_RelayedCandidate) (im_cands m b)) }"

section \<open>Adding candidates\<close>

text \<open>\<open>type_preference_values\<close>; the index of \<open>ICT_CandidateInvalid\<close> is outside of the table.\<close>

fun type_preference_values :: "IceCandidateType \<Rightarrow> u32 option" where
  "type_preference_values ICT_HostCandidate = Some 126"
| "type_preference_values ICT_ServerReflexiveCandidate = Some 100"
| "type_preference_values ICT_PeerReflexiveCandidate = Some 110"
| "type_preference_values ICT_RelayedCandidate = Some 0"
| "type_preference_values ICT_CandidateInvalid = None"

text \<open>\<open>128 - componentID\<close> is a subtraction of type \<open>int\<close> converted to 32 bits.\<close>

definition ice_compute_candidate_priority :: "IceCandidate \<Rightarrow> IceCandidate option" where
  "ice_compute_candidate_priority candidate = do {
     type_preference \<leftarrow> type_preference_values (c_type candidate);
     let local_preference = 65535;
         af_preference = (if ta_family (c_taddr candidate) = AF_INET6 then push_bit 7 1 else 0) in
     Some (candidate\<lparr>c_priority := push_bit 24 type_preference OR push_bit 8 local_preference OR af_preference OR
                                   word_of_int (128 - uint (c_componentID candidate))\<rparr>) }"

definition candidate_type_of :: "bytes \<Rightarrow> IceCandidateType option" where
  "candidate_type_of type =
     (if type = map of_char ''host'' then Some ICT_HostCandidate
      else if type = map of_char ''srflx'' then Some ICT_ServerReflexiveCandidate
      else if type = map of_char ''prflx'' then Some ICT_PeerReflexiveCandidate
      else if type = map of_char ''relay'' then Some ICT_RelayedCandidate
      else None)"

text \<open>An address of 64 characters or more leaves the field \<open>taddr.ip\<close> without a final zero, and the next
  comparison reads past it: undefined. An unknown type gives NULL.\<close>

definition ice_candidate_new ::
  "ice_mem \<Rightarrow> bytes \<Rightarrow> int \<Rightarrow> bytes \<Rightarrow> int \<Rightarrow> u16 \<Rightarrow> (iptr option \<times> ice_mem) option" where
  "ice_candidate_new m type family ip port componentID =
     (case candidate_type_of type of
        None \<Rightarrow> Some (None, m)
      | Some candidate_type \<Rightarrow>
          if length ip \<ge> 64 then None
          else do {
            let a = im_next m;
            c \<leftarrow> ice_compute_candidate_priority
                   \<lparr>c_foundation = [], c_taddr = \<lparr>ta_ip = ip, ta_port = port, ta_family = family\<rparr>,
                    c_type = candidate_type, c_priority = 0, c_componentID = componentID,
                    c_base = (if candidate_type = ICT_HostCandidate then Some a else None), c_is_default = False\<rparr>;
            Some (Some a, m\<lparr>im_cands := (im_cands m)(a \<mapsto> c), im_next := a + 1\<rparr>) })"

definition ice_find_componentID :: "ice_mem \<Rightarrow> u16 \<Rightarrow> iptr \<Rightarrow> bool option" where
  "ice_find_componentID m cid a = map_option (\<lambda>c. c_componentID c = cid) (im_cands m a)"

definition ice_add_componentID :: "ice_mem \<Rightarrow> iptr list \<Rightarrow> iptr \<Rightarrow> iptr list option" where
  "ice_add_componentID m xs a = do {
     c \<leftarrow> im_cands m a;
     elem \<leftarrow> bctbx_list_find_custom xs (ice_find_componentID m (c_componentID c));
     Some (if elem = None then bctbx_list_append xs a else xs) }"

definition ice_remove_componentID :: "ice_mem \<Rightarrow> iptr list \<Rightarrow> u16 \<Rightarrow> iptr list option" where
  "ice_remove_componentID m xs cid = bctbx_list_remove_custom xs (ice_find_componentID m cid)"

definition ice_has_componentID :: "ice_mem \<Rightarrow> iptr list \<Rightarrow> u16 \<Rightarrow> bool option" where
  "ice_has_componentID m xs cid = map_option (\<lambda>e. e \<noteq> None) (bctbx_list_find_custom xs (ice_find_componentID m cid))"

definition ice_free_candidate :: "ice_mem \<Rightarrow> iptr \<Rightarrow> ice_mem" where
  "ice_free_candidate m a = m\<lparr>im_cands := (im_cands m)(a := None)\<rparr>"

definition same_candidate :: "ice_mem \<Rightarrow> IceCandidate \<Rightarrow> iptr \<Rightarrow> bool option" where
  "same_candidate m c a = map_option (\<lambda>d. ice_compare_candidates d c) (im_cands m a)"

definition ice_add_local_candidate ::
  "ice_mem \<Rightarrow> iptr \<Rightarrow> bytes \<Rightarrow> int \<Rightarrow> bytes \<Rightarrow> int \<Rightarrow> u16 \<Rightarrow> iptr option \<Rightarrow> (iptr option \<times> ice_mem) option" where
  "ice_add_local_candidate m cl type family ip port componentID base = do {
     l \<leftarrow> im_lists m cl;
     if length (cl_local_candidates l) \<ge> ICE_MAX_NB_CANDIDATES then Some (None, m)
     else do {
       (candidate, m) \<leftarrow> ice_candidate_new m type family ip port componentID;
       a \<leftarrow> candidate;
       m \<leftarrow> upd_cand m a (\<lambda>c. if c_base c = None then c\<lparr>c_base := base\<rparr> else c);
       c \<leftarrow> im_cands m a;
       elem \<leftarrow> bctbx_list_find_custom (cl_local_candidates l) (same_candidate m c);
       if elem \<noteq> None then Some (None, ice_free_candidate m a)
       else do {
         ids \<leftarrow> ice_add_componentID m (cl_local_componentIDs l) a;
         m \<leftarrow> upd_list m cl (\<lambda>l. l\<lparr>cl_local_componentIDs := ids,
                                   cl_local_candidates := bctbx_list_append (cl_local_candidates l) a\<rparr>);
         Some (Some a, m) } } }"

definition ice_add_remote_candidate ::
  "ice_mem \<Rightarrow> iptr \<Rightarrow> bytes \<Rightarrow> int \<Rightarrow> bytes \<Rightarrow> int \<Rightarrow> u16 \<Rightarrow> u32 \<Rightarrow> bytes \<Rightarrow> bool \<Rightarrow> (iptr option \<times> ice_mem) option" where
  "ice_add_remote_candidate m cl type family ip port componentID priority foundation is_default = do {
     l \<leftarrow> im_lists m cl;
     if length (cl_local_candidates l) \<ge> ICE_MAX_NB_CANDIDATES then Some (None, m)
     else do {
       (candidate, m) \<leftarrow> ice_candidate_new m type family ip port componentID;
       a \<leftarrow> candidate;
       m \<leftarrow> upd_cand m a (\<lambda>c. if priority \<noteq> 0 then c\<lparr>c_priority := priority\<rparr> else c);
       c \<leftarrow> im_cands m a;
       elem \<leftarrow> bctbx_list_find_custom (cl_remote_candidates l) (same_candidate m c);
       if elem \<noteq> None then Some (None, ice_free_candidate m a)
       else do {
         m \<leftarrow> upd_cand m a (\<lambda>c. c\<lparr>c_foundation := take 31 foundation, c_is_default := is_default\<rparr>);
         ids \<leftarrow> ice_add_componentID m (cl_remote_componentIDs l) a;
         m \<leftarrow> upd_list m cl (\<lambda>l. l\<lparr>cl_remote_componentIDs := ids,
                                   cl_remote_candidates := bctbx_list_append (cl_remote_candidates l) a\<rparr>);
         Some (Some a, m) } } }"

section \<open>Mismatch\<close>

definition ice_find_default_candidate_from_componentID :: "ice_mem \<Rightarrow> u16 \<Rightarrow> iptr \<Rightarrow> bool option" where
  "ice_find_default_candidate_from_componentID m cid a =
     map_option (\<lambda>c. c_is_default c \<and> c_componentID c = cid) (im_cands m a)"

text \<open>The argument is the component ID list element, a candidate address.\<close>

definition ice_find_default_remote_candidate_for_componentID :: "iptr \<Rightarrow> iptr \<Rightarrow> ice_mem \<Rightarrow> ice_mem option" where
  "ice_find_default_remote_candidate_for_componentID cl idp m = do {
     l \<leftarrow> im_lists m cl;
     c \<leftarrow> im_cands m idp;
     elem \<leftarrow> bctbx_list_find_custom (cl_remote_candidates l)
               (ice_find_default_candidate_from_componentID m (c_componentID c));
     if elem = None then upd_list m cl (\<lambda>l. l\<lparr>cl_mismatch := True, cl_state := ICL_Failed\<rparr>)
     else Some m }"

definition ice_check_list_check_mismatch :: "iptr \<Rightarrow> ice_mem \<Rightarrow> ice_mem option" where
  "ice_check_list_check_mismatch cl m = do {
     l \<leftarrow> im_lists m cl;
     bctbx_list_for_each2 (cl_remote_componentIDs l) (ice_find_default_remote_candidate_for_componentID cl) m }"

definition ice_session_check_mismatch :: "ice_mem \<Rightarrow> ice_mem option" where
  "ice_session_check_mismatch m = each_stream m ice_check_list_check_mismatch"

section \<open>Foundations\<close>

fun dec_text :: "nat \<Rightarrow> bytes" where
  "dec_text n = (if n < 10 then [of_nat (48 + n)] else dec_text (n div 10) @ [of_nat (48 + n mod 10)])"

declare dec_text.simps [simp del]

text \<open>The list element is \<open>c1\<close>; both bases are read only when the earlier conditions hold.\<close>

definition ice_find_candidate_with_same_foundation :: "ice_mem \<Rightarrow> iptr \<Rightarrow> iptr \<Rightarrow> bool option" where
  "ice_find_candidate_with_same_foundation m a2 a1 =
     (if a1 = a2 then Some False
      else do {
        c1 \<leftarrow> im_cands m a1;
        c2 \<leftarrow> im_cands m a2;
        case (c_base c1, c_base c2) of
          (Some b1, Some b2) \<Rightarrow>
            if c_type c1 = c_type c2
            then do { d1 \<leftarrow> im_cands m b1; d2 \<leftarrow> im_cands m b2; Some (ta_ip (c_taddr d1) = ta_ip (c_taddr d2)) }
            else Some False
        | _ \<Rightarrow> Some False })"

definition ice_compute_candidate_foundation :: "iptr \<Rightarrow> iptr \<Rightarrow> ice_mem \<Rightarrow> ice_mem option" where
  "ice_compute_candidate_foundation cl a m = do {
     l \<leftarrow> im_lists m cl;
     r \<leftarrow> bctbx_list_find_custom (cl_local_candidates l) (ice_find_candidate_with_same_foundation m a);
     other \<leftarrow> (case r of None \<Rightarrow> Some [] | Some b \<Rightarrow> map_option c_foundation (im_cands m b));
     if length other > 0 then upd_cand m a (\<lambda>c. c\<lparr>c_foundation := take 31 other\<rparr>)
     else do {
       m \<leftarrow> upd_cand m a (\<lambda>c. c\<lparr>c_foundation := dec_text (unat (cl_foundation_generator l))\<rparr>);
       upd_list m cl (\<lambda>l. l\<lparr>cl_foundation_generator := cl_foundation_generator l + 1\<rparr>) } }"

definition ice_check_list_compute_candidates_foundations :: "iptr \<Rightarrow> ice_mem \<Rightarrow> ice_mem option" where
  "ice_check_list_compute_candidates_foundations cl m = do {
     l \<leftarrow> im_lists m cl;
     if cl_state l = ICL_Running
     then bctbx_list_for_each2 (cl_local_candidates l) (ice_compute_candidate_foundation cl) m
     else Some m }"

definition ice_session_compute_candidates_foundations :: "ice_mem \<Rightarrow> ice_mem option" where
  "ice_session_compute_candidates_foundations m = each_stream m ice_check_list_compute_candidates_foundations"

section \<open>Redundant candidates\<close>

definition ice_find_redundant_candidate :: "ice_mem \<Rightarrow> iptr \<Rightarrow> iptr \<Rightarrow> bool option" where
  "ice_find_redundant_candidate m a2 a1 =
     (if a1 = a2 then Some False
      else do {
        c1 \<leftarrow> im_cands m a1;
        c2 \<leftarrow> im_cands m a2;
        Some (ice_compare_transport_addresses (c_taddr c1) (c_taddr c2) \<and> c_base c1 = c_base c2) })"

text \<open>The inner loop: the first candidate for which the list holds a redundant one.\<close>

fun find_redundant :: "ice_mem \<Rightarrow> iptr list \<Rightarrow> iptr list \<Rightarrow> (iptr \<times> iptr) option option" where
  "find_redundant m all [] = Some None"
| "find_redundant m all (a # as) = do {
     r \<leftarrow> bctbx_list_find_custom all (ice_find_redundant_candidate m a);
     case r of Some b \<Rightarrow> Some (Some (a, b)) | None \<Rightarrow> find_redundant m all as }"

lemma find_customD: "bctbx_list_find_custom xs f = Some (Some x) \<Longrightarrow> x \<in> set xs \<and> f x = Some True"
  by (induction xs) (auto simp: bind_eq_Some_conv split: if_splits)

lemma find_custom_NoneD: "bctbx_list_find_custom xs f = Some None \<Longrightarrow> x \<in> set xs \<Longrightarrow> f x = Some False"
  by (induction xs) (auto simp: bind_eq_Some_conv split: if_splits)

lemma find_redundantD:
  "find_redundant m all as = Some (Some (a, b)) \<Longrightarrow> a \<in> set as \<and> b \<in> set all \<and> ice_find_redundant_candidate m a b = Some True"
  by (induction as) (auto simp: bind_eq_Some_conv dest: find_customD split: option.splits)

text \<open>The outer loop, until no candidate was removed.\<close>

function eliminate_redundant :: "ice_mem \<Rightarrow> iptr list \<Rightarrow> (iptr list \<times> ice_mem) option" where
  "eliminate_redundant m as =
     (case find_redundant m as as of
        None \<Rightarrow> None
      | Some None \<Rightarrow> Some (as, m)
      | Some (Some (a, b)) \<Rightarrow>
          (case (im_cands m a, im_cands m b) of
             (Some candidate, Some other) \<Rightarrow>
               if c_priority other < c_priority candidate
               then eliminate_redundant (ice_free_candidate m b) (bctbx_list_remove as b)
               else eliminate_redundant (ice_free_candidate m a) (bctbx_list_remove as a)
           | _ \<Rightarrow> None))"
  by pat_completeness auto
termination
  by (relation "measure (\<lambda>(m, as). length as)")
     (auto simp: bctbx_list_remove_def length_remove1 dest!: find_redundantD intro!: diff_less length_pos_if_in_set)

declare eliminate_redundant.simps [simp del]

definition ice_check_list_eliminate_redundant_candidates :: "iptr \<Rightarrow> ice_mem \<Rightarrow> ice_mem option" where
  "ice_check_list_eliminate_redundant_candidates cl m = do {
     l \<leftarrow> im_lists m cl;
     if cl_state l = ICL_Running then do {
       (as, m) \<leftarrow> eliminate_redundant m (cl_local_candidates l);
       upd_list m cl (\<lambda>l. l\<lparr>cl_local_candidates := as\<rparr>) }
     else Some m }"

definition ice_session_eliminate_redundant_candidates :: "ice_mem \<Rightarrow> ice_mem option" where
  "ice_session_eliminate_redundant_candidates m = each_stream m ice_check_list_eliminate_redundant_candidates"

section \<open>Default candidates\<close>

definition ice_find_candidate_from_type_family_and_componentID ::
  "ice_mem \<Rightarrow> IceCandidateType \<Rightarrow> int \<Rightarrow> u16 \<Rightarrow> iptr \<Rightarrow> bool option" where
  "ice_find_candidate_from_type_family_and_componentID m type family cid a =
     map_option (\<lambda>c. c_type c = type \<and> c_componentID c = cid \<and> ta_family (c_taddr c) = family) (im_cands m a)"

fun default_candidate_for :: "ice_mem \<Rightarrow> iptr list \<Rightarrow> bool \<Rightarrow> u16 \<Rightarrow> IceCandidateType list \<Rightarrow> iptr option option" where
  "default_candidate_for m xs v6 cid [] = Some None"
| "default_candidate_for m xs v6 cid (type # types) =
     (if type = ICT_CandidateInvalid then Some None
      else do {
        inet \<leftarrow> bctbx_list_find_custom xs (ice_find_candidate_from_type_family_and_componentID m type AF_INET cid);
        inet6 \<leftarrow> bctbx_list_find_custom xs (ice_find_candidate_from_type_family_and_componentID m type AF_INET6 cid);
        let candidate = (if inet6 \<noteq> None \<and> v6 then inet6
                         else if inet \<noteq> None \<and> \<not> v6 then inet
                         else if inet \<noteq> None then inet else inet6);
        if candidate \<noteq> None then Some candidate else default_candidate_for m xs v6 cid types })"

text \<open>One round of the loop over the component IDs.\<close>

definition choose_default_for :: "iptr \<Rightarrow> iptr list \<Rightarrow> nat \<Rightarrow> ice_mem \<Rightarrow> ice_mem option" where
  "choose_default_for cl xs i m = do {
     s \<leftarrow> session_of m cl;
     r \<leftarrow> default_candidate_for m xs (s_default_candidates_prefer_ipv6 s) (of_nat i) (s_default_types s);
     case r of
       None \<Rightarrow> Some m
     | Some a \<Rightarrow> do {
         m \<leftarrow> upd_cand m a (\<lambda>c. c\<lparr>c_is_default := True\<rparr>);
         c \<leftarrow> im_cands m a;
         Some (if s_turn_enabled s
               then ice_emit m (Out_Force_Relay (of_nat i) (c_type c = ICT_RelayedCandidate)) else m) } }"

definition ice_choose_local_or_remote_default_candidates :: "iptr \<Rightarrow> iptr list \<Rightarrow> ice_mem \<Rightarrow> ice_mem option" where
  "ice_choose_local_or_remote_default_candidates cl xs m =
     bctbx_list_for_each2 [1..<ICE_MAX_COMPONENTID + 1] (choose_default_for cl xs) m"

definition ice_check_list_choose_default_candidates :: "iptr \<Rightarrow> ice_mem \<Rightarrow> ice_mem option" where
  "ice_check_list_choose_default_candidates cl m = do {
     l \<leftarrow> im_lists m cl;
     if cl_state l = ICL_Running then ice_choose_local_or_remote_default_candidates cl (cl_local_candidates l) m
     else Some m }"

definition ice_session_choose_default_candidates :: "ice_mem \<Rightarrow> ice_mem option" where
  "ice_session_choose_default_candidates m = each_stream m ice_check_list_choose_default_candidates"

definition ice_check_list_choose_default_remote_candidates :: "iptr \<Rightarrow> ice_mem \<Rightarrow> ice_mem option" where
  "ice_check_list_choose_default_remote_candidates cl m = do {
     l \<leftarrow> im_lists m cl;
     ice_choose_local_or_remote_default_candidates cl (cl_remote_candidates l) m }"

definition ice_session_choose_default_remote_candidates :: "ice_mem \<Rightarrow> ice_mem option" where
  "ice_session_choose_default_remote_candidates m = each_stream m ice_check_list_choose_default_remote_candidates"

section \<open>Bases of server reflexive candidates\<close>

definition ice_find_host_candidate :: "ice_mem \<Rightarrow> u16 \<Rightarrow> int \<Rightarrow> iptr \<Rightarrow> bool option" where
  "ice_find_host_candidate m cid family a =
     map_option (\<lambda>c. c_type c = ICT_HostCandidate \<and> c_componentID c = cid \<and> ta_family (c_taddr c) = family) (im_cands m a)"

definition ice_set_base_for_srflx_candidate :: "iptr \<Rightarrow> iptr \<Rightarrow> ice_mem \<Rightarrow> ice_mem option" where
  "ice_set_base_for_srflx_candidate base a m = do {
     b \<leftarrow> im_cands m base;
     upd_cand m a (\<lambda>c. if c_type c = ICT_ServerReflexiveCandidate \<and> c_base c = None \<and>
                         c_componentID c = c_componentID b \<and> ta_family (c_taddr c) = ta_family (c_taddr b)
                       then c\<lparr>c_base := Some base\<rparr> else c) }"

definition set_srflx_base_of_family :: "iptr \<Rightarrow> u16 \<Rightarrow> int \<Rightarrow> ice_mem \<Rightarrow> ice_mem option" where
  "set_srflx_base_of_family cl cid family m = do {
     l \<leftarrow> im_lists m cl;
     elem \<leftarrow> bctbx_list_find_custom (cl_local_candidates l) (ice_find_host_candidate m cid family);
     case elem of
       None \<Rightarrow> Some m
     | Some base \<Rightarrow> bctbx_list_for_each2 (cl_local_candidates l) (ice_set_base_for_srflx_candidate base) m }"

definition ice_set_base_for_srflx_candidate_with_componentID :: "iptr \<Rightarrow> iptr \<Rightarrow> ice_mem \<Rightarrow> ice_mem option" where
  "ice_set_base_for_srflx_candidate_with_componentID cl idp m = do {
     c \<leftarrow> im_cands m idp;
     m \<leftarrow> set_srflx_base_of_family cl (c_componentID c) AF_INET m;
     set_srflx_base_of_family cl (c_componentID c) AF_INET6 m }"

definition ice_check_list_set_base_for_srflx_candidates :: "iptr \<Rightarrow> ice_mem \<Rightarrow> ice_mem option" where
  "ice_check_list_set_base_for_srflx_candidates cl m = do {
     l \<leftarrow> im_lists m cl;
     bctbx_list_for_each2 (cl_local_componentIDs l) (ice_set_base_for_srflx_candidate_with_componentID cl) m }"

definition ice_session_set_base_for_srflx_candidates :: "ice_mem \<Rightarrow> ice_mem option" where
  "ice_session_set_base_for_srflx_candidates m = each_stream m ice_check_list_set_base_for_srflx_candidates"

end
