(* ===== verification/Ice_Pairs.thy ===== *)
theory Ice_Pairs
  imports Ice_Candidates
begin

text \<open>
  Candidate pairs of an ICE check list: priorities, formation, pruning and ordering of the check list, the
  foundations and the initial states of the pairs, the queue of triggered checks, selected pairs, and the
  destruction of check lists (\<open>ice.c\<close>).
\<close>

section \<open>Pairs\<close>

definition pair_local :: "ice_mem \<Rightarrow> IceCandidatePair \<Rightarrow> IceCandidate option" where
  "pair_local m p = cand_at m (p_local p)"

definition pair_remote :: "ice_mem \<Rightarrow> IceCandidatePair \<Rightarrow> IceCandidate option" where
  "pair_remote m p = cand_at m (p_remote p)"

definition pair_priority_value :: "IceRole \<Rightarrow> u32 \<Rightarrow> u32 \<Rightarrow> u64" where
  "pair_priority_value role local remote =
     (let G = (case role of IR_Controlling \<Rightarrow> ucast local | IR_Controlled \<Rightarrow> ucast remote);
          D = (case role of IR_Controlling \<Rightarrow> ucast remote | IR_Controlled \<Rightarrow> ucast local) in
      push_bit 32 (min G D) OR push_bit 1 (max G D) OR (if G > D then 1 else 0))"

definition ice_compute_pair_priority :: "IceRole \<Rightarrow> iptr \<Rightarrow> ice_mem \<Rightarrow> ice_mem option" where
  "ice_compute_pair_priority role a m = do {
     p \<leftarrow> im_pairs m a;
     l \<leftarrow> pair_local m p;
     r \<leftarrow> pair_remote m p;
     upd_pair m a (\<lambda>p. p\<lparr>p_priority := pair_priority_value role (c_priority l) (c_priority r)\<rparr>) }"

definition ice_pair_new :: "ice_mem \<Rightarrow> iptr \<Rightarrow> iptr option \<Rightarrow> iptr option \<Rightarrow> (iptr \<times> ice_mem) option" where
  "ice_pair_new m cl local_candidate remote_candidate = do {
     l \<leftarrow> cand_at m local_candidate;
     r \<leftarrow> cand_at m remote_candidate;
     s \<leftarrow> session_of m cl;
     let a = im_next m;
     let p = \<lparr>p_role = s_role s, p_local = local_candidate, p_remote = remote_candidate, p_state = ICP_Frozen,
              p_priority = 0, p_transmission_time = time_zero, p_rto = ICE_DEFAULT_RTO_DURATION,
              p_retransmissions = 0, p_is_default = (c_is_default l \<and> c_is_default r),
              p_use_candidate = False, p_is_nominated = False, p_nomination_pending = False,
              p_has_canceled_transaction = False, p_nomination_failing = False,
              p_retry_with_dummy_message_integrity = (\<not> s_check_message_integrity s),
              p_use_dummy_hmac = False\<rparr>;
     m \<leftarrow> ice_compute_pair_priority (s_role s) a (m\<lparr>im_pairs := (im_pairs m)(a \<mapsto> p), im_next := a + 1\<rparr>);
     Some (a, m) }"

definition ice_pair_set_state :: "ice_mem \<Rightarrow> iptr \<Rightarrow> IceCandidatePairState \<Rightarrow> ice_mem option" where
  "ice_pair_set_state m a st = upd_pair m a (\<lambda>p. if p_state p \<noteq> st then p\<lparr>p_state := st\<rparr> else p)"

text \<open>The conditions on the remote candidates are read only when those on the local ones hold.\<close>

definition ice_find_pair_in_valid_list :: "ice_mem \<Rightarrow> iptr \<Rightarrow> iptr \<Rightarrow> bool option" where
  "ice_find_pair_in_valid_list m pair v = do {
     vp \<leftarrow> im_valids m v;
     vpair \<leftarrow> im_pairs m (v_valid vp);
     p \<leftarrow> im_pairs m pair;
     vl \<leftarrow> pair_local m vpair;
     l \<leftarrow> pair_local m p;
     if ice_compare_transport_addresses (c_taddr vl) (c_taddr l) \<and> c_componentID vl = c_componentID l then do {
       vr \<leftarrow> pair_remote m vpair;
       r \<leftarrow> pair_remote m p;
       Some (ice_compare_transport_addresses (c_taddr vr) (c_taddr r) \<and> c_componentID vr = c_componentID r) }
     else Some False }"

definition ice_free_valid_pair :: "ice_mem \<Rightarrow> iptr \<Rightarrow> ice_mem" where
  "ice_free_valid_pair m v = m\<lparr>im_valids := (im_valids m)(v := None)\<rparr>"

text \<open>The loop that erases the valid pairs with the addresses of a pair: the list function restarts
  from the head of the list, whose elements stay as they are.\<close>

fun erase_valid_pairs :: "iptr \<Rightarrow> iptr list \<Rightarrow> ice_mem \<Rightarrow> (iptr list \<times> ice_mem) option" where
  "erase_valid_pairs pair [] m = Some ([], m)"
| "erase_valid_pairs pair (v # vs) m = do {
     b \<leftarrow> ice_find_pair_in_valid_list m pair v;
     if b then erase_valid_pairs pair vs (ice_free_valid_pair m v)
     else do { (vs, m) \<leftarrow> erase_valid_pairs pair vs m; Some (v # vs, m) } }"

definition ice_free_candidate_pair :: "iptr \<Rightarrow> iptr \<Rightarrow> ice_mem \<Rightarrow> ice_mem option" where
  "ice_free_candidate_pair cl pair m = do {
     m \<leftarrow> upd_list m cl (\<lambda>l. l\<lparr>cl_check_list := removeAll pair (cl_check_list l)\<rparr>);
     l \<leftarrow> im_lists m cl;
     (vs, m) \<leftarrow> erase_valid_pairs pair (cl_valid_list l) m;
     m \<leftarrow> upd_list m cl (\<lambda>l. l\<lparr>cl_valid_list := vs\<rparr>);
     Some (m\<lparr>im_pairs := (im_pairs m)(pair := None)\<rparr>) }"

section \<open>The end of a check list\<close>

definition ice_check_list_destroy :: "iptr \<Rightarrow> ice_mem \<Rightarrow> ice_mem option" where
  "ice_check_list_destroy cl m = do {
     l \<leftarrow> im_lists m cl;
     m \<leftarrow> bctbx_list_for_each2 (cl_pairs l) (ice_free_candidate_pair cl) m;
     l \<leftarrow> im_lists m cl;
     m \<leftarrow> Some (fold (\<lambda>v m. ice_free_valid_pair m v) (cl_valid_list l) m);
     m \<leftarrow> Some (fold (\<lambda>a m. ice_free_candidate m a) (cl_remote_candidates l) m);
     m \<leftarrow> Some (fold (\<lambda>a m. ice_free_candidate m a) (cl_local_candidates l) m);
     Some (m\<lparr>im_lists := (im_lists m)(cl := None)\<rparr>) }"

text \<open>Whether a remaining check list is not completed.\<close>

fun keeps_session_state :: "ice_mem \<Rightarrow> iptr option list \<Rightarrow> bool option" where
  "keeps_session_state m [] = Some False"
| "keeps_session_state m (None # xs) = keeps_session_state m xs"
| "keeps_session_state m (Some cl # xs) = do {
     s \<leftarrow> ice_check_list_state m cl;
     b \<leftarrow> keeps_session_state m xs;
     Some (s \<noteq> ICL_Completed \<or> b) }"

fun clear_first :: "'a \<Rightarrow> 'a option list \<Rightarrow> 'a option list" where
  "clear_first a [] = []"
| "clear_first a (x # xs) = (if x = Some a then None # xs else x # clear_first a xs)"

definition ice_session_remove_check_list :: "ice_mem \<Rightarrow> iptr \<Rightarrow> ice_mem option" where
  "ice_session_remove_check_list m cl = do {
     m \<leftarrow> (if Some cl \<in> set (s_streams (im_session m)) then do {
              m \<leftarrow> ice_check_list_destroy cl m;
              Some (upd_session m (\<lambda>s. s\<lparr>s_streams := clear_first cl (s_streams s)\<rparr>)) }
           else Some m);
     keep \<leftarrow> keeps_session_state m (s_streams (im_session m));
     Some (if keep then m else upd_session m (\<lambda>s. s\<lparr>s_state := IS_Completed\<rparr>)) }"

definition ice_session_remove_check_list_from_idx :: "ice_mem \<Rightarrow> nat \<Rightarrow> ice_mem option" where
  "ice_session_remove_check_list_from_idx m idx =
     (if idx \<ge> ICE_SESSION_MAX_CHECK_LISTS then Some m
      else (case s_streams (im_session m) ! idx of
              None \<Rightarrow> Some m
            | Some cl \<Rightarrow> do {
                m \<leftarrow> ice_check_list_destroy cl m;
                Some (upd_session m (\<lambda>s. s\<lparr>s_streams := (s_streams s)[idx := None]\<rparr>)) }))"

section \<open>The role of the agent\<close>

definition ice_check_list_compute_pair_priorities :: "iptr \<Rightarrow> ice_mem \<Rightarrow> ice_mem option" where
  "ice_check_list_compute_pair_priorities cl m = do {
     l \<leftarrow> im_lists m cl;
     s \<leftarrow> session_of m cl;
     bctbx_list_for_each2 (cl_pairs l) (ice_compute_pair_priority (s_role s)) m }"

definition ice_session_compute_pair_priorities :: "ice_mem \<Rightarrow> ice_mem option" where
  "ice_session_compute_pair_priorities m = each_stream m ice_check_list_compute_pair_priorities"

definition ice_session_set_role :: "ice_mem \<Rightarrow> IceRole \<Rightarrow> ice_mem option" where
  "ice_session_set_role m role =
     (if s_role (im_session m) \<noteq> role
      then ice_session_compute_pair_priorities (upd_session m (\<lambda>s. s\<lparr>s_role := role\<rparr>))
      else Some m)"

section \<open>Forming the pairs\<close>

definition form_pair :: "iptr \<Rightarrow> iptr \<Rightarrow> iptr \<Rightarrow> ice_mem \<Rightarrow> ice_mem option" where
  "form_pair cl local_candidate remote_candidate m = do {
     l \<leftarrow> im_cands m local_candidate;
     r \<leftarrow> im_cands m remote_candidate;
     if c_componentID l = c_componentID r \<and> ta_family (c_taddr l) = ta_family (c_taddr r) then do {
       (pair, m) \<leftarrow> ice_pair_new m cl (Some local_candidate) (Some remote_candidate);
       upd_list m cl (\<lambda>l. l\<lparr>cl_pairs := bctbx_list_append (cl_pairs l) pair\<rparr>) }
     else Some m }"

definition ice_form_candidate_pairs :: "iptr \<Rightarrow> ice_mem \<Rightarrow> ice_mem option" where
  "ice_form_candidate_pairs cl m = do {
     c \<leftarrow> im_lists m cl;
     bctbx_list_for_each2 (cl_local_candidates c)
       (\<lambda>l. bctbx_list_for_each2 (cl_remote_candidates c) (form_pair cl l)) m }"

definition ice_replace_srflx_by_base_in_pair :: "iptr \<Rightarrow> ice_mem \<Rightarrow> ice_mem option" where
  "ice_replace_srflx_by_base_in_pair pair m = do {
     p \<leftarrow> im_pairs m pair;
     l \<leftarrow> pair_local m p;
     upd_pair m pair (\<lambda>p. if c_type l = ICT_ServerReflexiveCandidate then p\<lparr>p_local := c_base l\<rparr> else p) }"

definition ice_compare_pairs :: "ice_mem \<Rightarrow> iptr \<Rightarrow> iptr \<Rightarrow> bool option" where
  "ice_compare_pairs m a2 a1 = do {
     p1 \<leftarrow> im_pairs m a1;
     p2 \<leftarrow> im_pairs m a2;
     l1 \<leftarrow> pair_local m p1;
     l2 \<leftarrow> pair_local m p2;
     if ice_compare_candidates l1 l2 then do {
       r1 \<leftarrow> pair_remote m p1;
       r2 \<leftarrow> pair_remote m p2;
       Some (ice_compare_candidates r1 r2) }
     else Some False }"

definition ice_prune_duplicate_pair :: "iptr \<Rightarrow> iptr \<Rightarrow> ice_mem \<Rightarrow> (bool \<times> ice_mem) option" where
  "ice_prune_duplicate_pair cl pair m = do {
     l \<leftarrow> im_lists m cl;
     other \<leftarrow> bctbx_list_find_custom (cl_pairs l) (ice_compare_pairs m pair);
     case other of
       None \<Rightarrow> Some (False, m)
     | Some other_pair \<Rightarrow> do {
         o' \<leftarrow> im_pairs m other_pair;
         p \<leftarrow> im_pairs m pair;
         if p_priority o' > p_priority p then do {
           m \<leftarrow> upd_list m cl (\<lambda>l. l\<lparr>cl_pairs := bctbx_list_remove (cl_pairs l) pair\<rparr>);
           m \<leftarrow> ice_free_candidate_pair cl pair m;
           Some (True, m) }
         else Some (False, m) } }"

text \<open>The loop goes on from the element before \<open>next\<close>; it stops when there is no next element or the
  removed one was the first.\<close>

fun prune_pairs_loop :: "iptr \<Rightarrow> iptr list \<Rightarrow> ice_mem \<Rightarrow> ice_mem option" where
  "prune_pairs_loop cl [] m = Some m"
| "prune_pairs_loop cl (p # ps) m = do {
     l \<leftarrow> im_lists m cl;
     (removed, m) \<leftarrow> ice_prune_duplicate_pair cl p m;
     if removed \<and> (ps = [] \<or> hd (cl_pairs l) = p) then Some m
     else prune_pairs_loop cl ps m }"

definition ice_compare_pair_priorities :: "ice_mem \<Rightarrow> iptr \<Rightarrow> iptr \<Rightarrow> bool option" where
  "ice_compare_pair_priorities m a1 a2 = do {
     p1 \<leftarrow> im_pairs m a1;
     p2 \<leftarrow> im_pairs m a2;
     Some (p_priority p1 < p_priority p2) }"

definition ice_create_check_list :: "iptr \<Rightarrow> iptr \<Rightarrow> ice_mem \<Rightarrow> ice_mem option" where
  "ice_create_check_list cl pair m = do {
     l \<leftarrow> im_lists m cl;
     xs \<leftarrow> bctbx_list_insert_sorted (cl_check_list l) pair
             (\<lambda>a b. map_option Not (ice_compare_pair_priorities m a b));
     upd_list m cl (\<lambda>l. l\<lparr>cl_check_list := xs\<rparr>) }"

text \<open>The last pairs of the check list are removed one after the other, from the end.\<close>

definition remove_exceeding_pair :: "iptr \<Rightarrow> iptr \<Rightarrow> ice_mem \<Rightarrow> ice_mem option" where
  "remove_exceeding_pair cl pair m = do {
     m \<leftarrow> upd_list m cl (\<lambda>l. l\<lparr>cl_pairs := bctbx_list_remove (cl_pairs l) pair\<rparr>);
     ice_free_candidate_pair cl pair m }"

definition ice_prune_candidate_pairs :: "iptr \<Rightarrow> ice_mem \<Rightarrow> ice_mem option" where
  "ice_prune_candidate_pairs cl m = do {
     l \<leftarrow> im_lists m cl;
     m \<leftarrow> bctbx_list_for_each2 (cl_pairs l) ice_replace_srflx_by_base_in_pair m;
     m \<leftarrow> prune_pairs_loop cl (cl_pairs l) m;
     m \<leftarrow> upd_list m cl (\<lambda>l. l\<lparr>cl_check_list := []\<rparr>);
     l \<leftarrow> im_lists m cl;
     m \<leftarrow> bctbx_list_for_each2 (cl_pairs l) (ice_create_check_list cl) m;
     l \<leftarrow> im_lists m cl;
     s \<leftarrow> session_of m cl;
     let nb_pairs = length (cl_check_list l); mx = unat (s_max_connectivity_checks s) in
     if nb_pairs > mx
     then bctbx_list_for_each2 (take (nb_pairs - mx) (rev (cl_check_list l))) (remove_exceeding_pair cl) m
     else Some m }"

section \<open>Foundations and states of the pairs\<close>

definition pair_foundation :: "ice_mem \<Rightarrow> iptr \<Rightarrow> IcePairFoundation option" where
  "pair_foundation m pair = do {
     p \<leftarrow> im_pairs m pair;
     l \<leftarrow> pair_local m p;
     r \<leftarrow> pair_remote m p;
     Some \<lparr>f_local = take 31 (c_foundation l), f_remote = take 31 (c_foundation r)\<rparr> }"

definition ice_generate_pair_foundations_list :: "iptr \<Rightarrow> iptr \<Rightarrow> ice_mem \<Rightarrow> ice_mem option" where
  "ice_generate_pair_foundations_list cl pair m = do {
     f \<leftarrow> pair_foundation m pair;
     upd_list m cl (\<lambda>l. if f \<in> set (cl_foundations l) then l
                        else l\<lparr>cl_foundations := bctbx_list_append (cl_foundations l) f\<rparr>) }"

record Foundation_Pair_Priority_ComponentID =
  fc_pair :: "iptr option"
  fc_priority :: u64
  fc_componentID :: u16

definition ice_find_lowest_componentid_pair_with_specified_foundation ::
  "ice_mem \<Rightarrow> IcePairFoundation \<Rightarrow> iptr \<Rightarrow> Foundation_Pair_Priority_ComponentID \<Rightarrow>
   Foundation_Pair_Priority_ComponentID option" where
  "ice_find_lowest_componentid_pair_with_specified_foundation m f pair fc = do {
     p \<leftarrow> im_pairs m pair;
     l \<leftarrow> pair_local m p;
     if c_foundation l = f_local f then do {
       r \<leftarrow> pair_remote m p;
       Some (if c_foundation r = f_remote f \<and>
                (fc_componentID fc = 0 \<or> (c_componentID l < fc_componentID fc \<and> p_priority p > fc_priority fc))
             then fc\<lparr>fc_componentID := c_componentID l, fc_priority := p_priority p, fc_pair := Some pair\<rparr>
             else fc) }
     else Some fc }"

definition ice_set_lowest_componentid_pair_with_foundation_to_waiting_state ::
  "iptr \<Rightarrow> IcePairFoundation \<Rightarrow> ice_mem \<Rightarrow> ice_mem option" where
  "ice_set_lowest_componentid_pair_with_foundation_to_waiting_state cl f m = do {
     l \<leftarrow> im_lists m cl;
     fc \<leftarrow> bctbx_list_for_each2 (cl_check_list l)
             (ice_find_lowest_componentid_pair_with_specified_foundation m f)
             \<lparr>fc_pair = None, fc_priority = 0, fc_componentID = 0\<rparr>;
     case fc_pair fc of None \<Rightarrow> Some m | Some p \<Rightarrow> ice_pair_set_state m p ICP_Waiting }"

definition ice_compute_pairs_states :: "iptr \<Rightarrow> ice_mem \<Rightarrow> ice_mem option" where
  "ice_compute_pairs_states cl m = do {
     l \<leftarrow> im_lists m cl;
     bctbx_list_for_each2 (cl_foundations l)
       (ice_set_lowest_componentid_pair_with_foundation_to_waiting_state cl) m }"

section \<open>Starting the checks\<close>

text \<open>For each remote candidate with a relayed local candidate of its component and family, a CreatePermission
  request is made; \<open>ice_get_transport_from_rtp_session_and_componentID\<close> has a transport for the
  components 1 and 2 only. The request itself belongs to the gathering code.\<close>

definition create_turn_permission :: "iptr \<Rightarrow> iptr \<Rightarrow> ice_mem \<Rightarrow> ice_mem option" where
  "create_turn_permission cl a m = do {
     l \<leftarrow> im_lists m cl;
     c \<leftarrow> im_cands m a;
     elem \<leftarrow> bctbx_list_find_custom (cl_local_candidates l)
       (ice_find_candidate_from_type_family_and_componentID m ICT_RelayedCandidate (ta_family (c_taddr c)) (c_componentID c));
     case elem of
       None \<Rightarrow> Some m
     | Some b \<Rightarrow> do {
         d \<leftarrow> im_cands m b;
         Some (if c_base d \<noteq> None \<and> (c_componentID c = 1 \<or> c_componentID c = 2)
               then ice_emit m (Out_Create_Permission (c_componentID c) (c_taddr c)) else m) } }"

definition ice_create_turn_permissions :: "iptr \<Rightarrow> ice_mem \<Rightarrow> ice_mem option" where
  "ice_create_turn_permissions cl m = do {
     l \<leftarrow> im_lists m cl;
     s \<leftarrow> session_of m cl;
     if s_turn_enabled s then bctbx_list_for_each2 (cl_remote_candidates l) (create_turn_permission cl) m
     else Some m }"

definition ice_check_list_pair_candidates :: "iptr \<Rightarrow> ice_mem \<Rightarrow> ice_mem option" where
  "ice_check_list_pair_candidates cl m = do {
     l \<leftarrow> im_lists m cl;
     if cl_state l = ICL_Running then do {
       m \<leftarrow> upd_list m cl (\<lambda>l. l\<lparr>cl_connectivity_checks_running := True\<rparr>);
       m \<leftarrow> ice_create_turn_permissions cl m;
       m \<leftarrow> ice_form_candidate_pairs cl m;
       m \<leftarrow> ice_prune_candidate_pairs cl m;
       l \<leftarrow> im_lists m cl;
       bctbx_list_for_each2 (cl_check_list l) (ice_generate_pair_foundations_list cl) m }
     else Some m }"

definition ice_session_pair_candidates :: "ice_mem \<Rightarrow> ice_mem option" where
  "ice_session_pair_candidates m = do {
     first \<leftarrow> ice_find_check_list_from_state m ICL_Running;
     case first of
       None \<Rightarrow> Some m
     | Some cl \<Rightarrow> do {
         m \<leftarrow> each_stream m ice_check_list_pair_candidates;
         ice_compute_pairs_states cl m } }"

definition ice_session_start_connectivity_checks :: "MSTimeSpec \<Rightarrow> ice_mem \<Rightarrow> ice_mem option" where
  "ice_session_start_connectivity_checks now m = do {
     m \<leftarrow> ice_session_pair_candidates m;
     Some (upd_session m (\<lambda>s. s\<lparr>s_state := IS_Running, s_connectivity_checks_start_ts := now\<rparr>)) }"

end
