(* ===== verification/Ice_Conclude.thy ===== *)
theory Ice_Conclude
  imports Ice_Pairs
begin

text \<open>
  The end of the connectivity checks of an ICE check list: triggered checks, selected and nominated valid pairs,
  nomination, the conclusion of a check list and of the session, losing pairs, restart and reset, and the removal
  of the RTCP component (\<open>ice.c\<close>).
\<close>

section \<open>Triggered checks\<close>

definition ice_check_list_queue_triggered_check :: "iptr \<Rightarrow> iptr \<Rightarrow> ice_mem \<Rightarrow> ice_mem option" where
  "ice_check_list_queue_triggered_check cl pair m =
     upd_list m cl (\<lambda>l. if bctbx_list_find (cl_triggered_checks_queue l) pair then l
                        else l\<lparr>cl_triggered_checks_queue := bctbx_list_append (cl_triggered_checks_queue l) pair\<rparr>)"

definition ice_check_list_pop_triggered_check :: "iptr \<Rightarrow> ice_mem \<Rightarrow> (iptr option \<times> ice_mem) option" where
  "ice_check_list_pop_triggered_check cl m = do {
     l \<leftarrow> im_lists m cl;
     case cl_triggered_checks_queue l of
       [] \<Rightarrow> Some (None, m)
     | p # ps \<Rightarrow> do {
         m \<leftarrow> upd_list m cl (\<lambda>l. l\<lparr>cl_triggered_checks_queue := ps\<rparr>);
         Some (Some p, m) } }"

definition ice_check_list_is_frozen :: "ice_mem \<Rightarrow> iptr \<Rightarrow> bool option" where
  "ice_check_list_is_frozen m cl = do {
     l \<leftarrow> im_lists m cl;
     elem \<leftarrow> bctbx_list_find_custom (cl_check_list l) (\<lambda>a. map_option (\<lambda>p. p_state p \<noteq> ICP_Frozen) (im_pairs m a));
     Some (elem = None) }"

section \<open>Nominated and selected valid pairs\<close>

definition ice_find_nominated_valid_pair_from_componentID :: "ice_mem \<Rightarrow> u16 \<Rightarrow> iptr \<Rightarrow> bool option" where
  "ice_find_nominated_valid_pair_from_componentID m cid v = do {
     vp \<leftarrow> im_valids m v;
     p \<leftarrow> im_pairs m (v_valid vp);
     if p_is_nominated p then map_option (\<lambda>l. c_componentID l = cid) (pair_local m p) else Some False }"

definition ice_find_selected_valid_pair_from_componentID :: "ice_mem \<Rightarrow> u16 \<Rightarrow> iptr \<Rightarrow> bool option" where
  "ice_find_selected_valid_pair_from_componentID m cid v = do {
     vp \<leftarrow> im_valids m v;
     if v_selected vp then do {
       p \<leftarrow> im_pairs m (v_valid vp);
       map_option (\<lambda>l. c_componentID l = cid) (pair_local m p) }
     else Some False }"

definition ice_find_nominated_valid_pair_for_componentID :: "ice_mem \<Rightarrow> iptr \<Rightarrow> iptr \<Rightarrow> bool \<Rightarrow> bool option" where
  "ice_find_nominated_valid_pair_for_componentID m cl idp result = do {
     l \<leftarrow> im_lists m cl;
     c \<leftarrow> im_cands m idp;
     elem \<leftarrow> bctbx_list_find_custom (cl_valid_list l) (ice_find_nominated_valid_pair_from_componentID m (c_componentID c));
     Some (if elem = None then False else result) }"

definition ice_find_selected_valid_pair_for_componentID :: "ice_mem \<Rightarrow> iptr \<Rightarrow> iptr \<Rightarrow> bool \<Rightarrow> bool option" where
  "ice_find_selected_valid_pair_for_componentID m cl idp result = do {
     l \<leftarrow> im_lists m cl;
     c \<leftarrow> im_cands m idp;
     elem \<leftarrow> bctbx_list_find_custom (cl_valid_list l) (ice_find_selected_valid_pair_from_componentID m (c_componentID c));
     Some (if elem = None then False else result) }"

definition ice_check_list_check_completed :: "iptr \<Rightarrow> ice_mem \<Rightarrow> ice_mem option" where
  "ice_check_list_check_completed cl m = do {
     l \<leftarrow> im_lists m cl;
     if cl_state l \<noteq> ICL_Completed then do {
       result \<leftarrow> bctbx_list_for_each2 (cl_local_componentIDs l) (ice_find_selected_valid_pair_for_componentID m cl) True;
       if result then ice_check_list_set_state m cl ICL_Completed else Some m }
     else Some m }"

definition ice_unselect_valid_pair :: "iptr \<Rightarrow> ice_mem \<Rightarrow> ice_mem option" where
  "ice_unselect_valid_pair v m = upd_valid m v (\<lambda>vp. vp\<lparr>v_selected := False\<rparr>)"

definition select_nominated :: "iptr \<Rightarrow> u16 \<Rightarrow> ice_mem \<Rightarrow> ice_mem option" where
  "select_nominated cl cid m = do {
     l \<leftarrow> im_lists m cl;
     elem \<leftarrow> bctbx_list_find_custom (cl_valid_list l) (ice_find_nominated_valid_pair_from_componentID m cid);
     case elem of None \<Rightarrow> Some m | Some v \<Rightarrow> upd_valid m v (\<lambda>vp. vp\<lparr>v_selected := True\<rparr>) }"

definition ice_check_list_select_candidates :: "iptr \<Rightarrow> ice_mem \<Rightarrow> ice_mem option" where
  "ice_check_list_select_candidates cl m = do {
     l \<leftarrow> im_lists m cl;
     if cl_state l \<noteq> ICL_Completed then Some m
     else do {
       m \<leftarrow> bctbx_list_for_each2 (cl_valid_list l) ice_unselect_valid_pair m;
       bctbx_list_for_each2 [1, 2] (select_nominated cl) m } }"

definition ice_session_select_candidates :: "ice_mem \<Rightarrow> ice_mem option" where
  "ice_session_select_candidates m = each_stream m ice_check_list_select_candidates"

definition unselect_other :: "iptr \<Rightarrow> iptr \<Rightarrow> ice_mem \<Rightarrow> ice_mem option" where
  "unselect_other valid_pair it m = do {
     x \<leftarrow> im_valids m it;
     if v_selected x \<and> it \<noteq> valid_pair then do {
       xp \<leftarrow> im_pairs m (v_valid x);
       xl \<leftarrow> pair_local m xp;
       v \<leftarrow> im_valids m valid_pair;
       vp \<leftarrow> im_pairs m (v_valid v);
       vl \<leftarrow> pair_local m vp;
       if c_componentID xl = c_componentID vl then upd_valid m it (\<lambda>x. x\<lparr>v_selected := False\<rparr>) else Some m }
     else Some m }"

definition ice_check_list_set_selected_valid_pair :: "iptr \<Rightarrow> iptr \<Rightarrow> ice_mem \<Rightarrow> ice_mem option" where
  "ice_check_list_set_selected_valid_pair cl valid_pair m = do {
     l \<leftarrow> im_lists m cl;
     m \<leftarrow> bctbx_list_for_each2 (cl_valid_list l) (unselect_other valid_pair) m;
     upd_valid m valid_pair (\<lambda>x. x\<lparr>v_selected := True\<rparr>) }"

text \<open>The results of the accessors: whether they succeed, and the RTP and RTCP candidates they set, both of which
  are asked for by their callers.\<close>

definition ice_check_list_default_local_candidate ::
  "ice_mem \<Rightarrow> iptr \<Rightarrow> (bool \<times> iptr option \<times> iptr option) option" where
  "ice_check_list_default_local_candidate m cl = do {
     l \<leftarrow> im_lists m cl;
     rtp \<leftarrow> bctbx_list_find_custom (cl_local_candidates l) (ice_find_default_candidate_from_componentID m ICE_RTP_COMPONENT_ID);
     if rtp = None then Some (False, None, None)
     else do {
       has \<leftarrow> ice_has_componentID m (cl_local_componentIDs l) ICE_RTCP_COMPONENT_ID;
       if has then do {
         rtcp \<leftarrow> bctbx_list_find_custom (cl_local_candidates l)
                   (ice_find_default_candidate_from_componentID m ICE_RTCP_COMPONENT_ID);
         Some (rtcp \<noteq> None, rtp, rtcp) }
       else Some (True, rtp, None) } }"

definition find_selected :: "ice_mem \<Rightarrow> iptr \<Rightarrow> u16 \<Rightarrow> IceValidCandidatePair option option" where
  "find_selected m cl cid = do {
     l \<leftarrow> im_lists m cl;
     elem \<leftarrow> bctbx_list_find_custom (cl_valid_list l) (ice_find_selected_valid_pair_from_componentID m cid);
     case elem of None \<Rightarrow> Some None | Some v \<Rightarrow> map_option Some (im_valids m v) }"

definition ice_check_list_selected_valid_local_candidate ::
  "ice_mem \<Rightarrow> iptr \<Rightarrow> (bool \<times> iptr option \<times> iptr option) option" where
  "ice_check_list_selected_valid_local_candidate m cl = do {
     l \<leftarrow> im_lists m cl;
     r \<leftarrow> find_selected m cl ICE_RTP_COMPONENT_ID;
     case r of
       None \<Rightarrow> Some (False, None, None)
     | Some v \<Rightarrow> do {
         p \<leftarrow> im_pairs m (v_valid v);
         has \<leftarrow> ice_has_componentID m (cl_local_componentIDs l) ICE_RTCP_COMPONENT_ID;
         if has then do {
           r \<leftarrow> find_selected m cl ICE_RTCP_COMPONENT_ID;
           case r of
             None \<Rightarrow> Some (False, p_local p, None)
           | Some v \<Rightarrow> do { q \<leftarrow> im_pairs m (v_valid v); Some (True, p_local p, p_local q) } }
         else Some (True, p_local p, None) } }"

definition base_candidate :: "ice_mem \<Rightarrow> IceValidCandidatePair \<Rightarrow> iptr option option" where
  "base_candidate m v = do {
     g \<leftarrow> im_pairs m (v_generated_from v);
     if p_local g = None then map_option p_local (im_pairs m (v_valid v)) else Some (p_local g) }"

definition ice_check_list_selected_valid_local_base_candidate ::
  "ice_mem \<Rightarrow> iptr \<Rightarrow> (bool \<times> iptr option \<times> iptr option) option" where
  "ice_check_list_selected_valid_local_base_candidate m cl = do {
     l \<leftarrow> im_lists m cl;
     r \<leftarrow> find_selected m cl 1;
     case r of
       None \<Rightarrow> Some (False, None, None)
     | Some v \<Rightarrow> do {
         rtp \<leftarrow> base_candidate m v;
         r \<leftarrow> find_selected m cl (if cl_rtcp_mux l then 1 else 2);
         case r of
           None \<Rightarrow> Some (False, rtp, None)
         | Some v \<Rightarrow> do { rtcp \<leftarrow> base_candidate m v; Some (True, rtp, rtcp) } } }"

definition ice_check_list_selected_valid_remote_candidate ::
  "ice_mem \<Rightarrow> iptr \<Rightarrow> (bool \<times> iptr option \<times> iptr option) option" where
  "ice_check_list_selected_valid_remote_candidate m cl = do {
     l \<leftarrow> im_lists m cl;
     r \<leftarrow> find_selected m cl 1;
     case r of
       None \<Rightarrow> Some (False, None, None)
     | Some v \<Rightarrow> do {
         p \<leftarrow> im_pairs m (v_valid v);
         if cl_rtcp_mux l then Some (True, p_remote p, None)
         else do {
           r \<leftarrow> find_selected m cl 2;
           case r of
             None \<Rightarrow> Some (False, p_remote p, None)
           | Some v \<Rightarrow> do { q \<leftarrow> im_pairs m (v_valid v); Some (True, p_remote p, p_remote q) } } } }"

definition ice_find_host_pair_identical_to_reflexive_pair :: "ice_mem \<Rightarrow> IceCandidatePair \<Rightarrow> iptr \<Rightarrow> bool option" where
  "ice_find_host_pair_identical_to_reflexive_pair m p2 a1 = do {
     p1 \<leftarrow> im_pairs m a1;
     l1 \<leftarrow> pair_local m p1;
     l2 \<leftarrow> pair_local m p2;
     if ice_compare_transport_addresses (c_taddr l1) (c_taddr l2) \<and> c_componentID l1 = c_componentID l2 then do {
       r1 \<leftarrow> pair_remote m p1;
       r2 \<leftarrow> pair_remote m p2;
       Some (ice_compare_transport_addresses (c_taddr r1) (c_taddr r2) \<and> c_componentID r1 = c_componentID r2 \<and>
             c_type r1 = ICT_HostCandidate) }
     else Some False }"

definition ice_check_list_selected_valid_candidate_type :: "ice_mem \<Rightarrow> iptr \<Rightarrow> IceCandidateType option" where
  "ice_check_list_selected_valid_candidate_type m cl = do {
     l \<leftarrow> im_lists m cl;
     r \<leftarrow> find_selected m cl 1;
     case r of
       None \<Rightarrow> Some ICT_RelayedCandidate
     | Some v \<Rightarrow> do {
         p \<leftarrow> im_pairs m (v_valid v);
         a \<leftarrow> p_local p;
         relay \<leftarrow> ice_candidate_is_relay m a;
         if relay then Some ICT_RelayedCandidate
         else do {
           r \<leftarrow> pair_remote m p;
           if c_type r = ICT_ServerReflexiveCandidate \<or> c_type r = ICT_PeerReflexiveCandidate then do {
             elem \<leftarrow> bctbx_list_find_custom (cl_pairs l) (ice_find_host_pair_identical_to_reflexive_pair m p);
             case elem of
               None \<Rightarrow> Some (c_type r)
             | Some b \<Rightarrow> do { q \<leftarrow> im_pairs m b; map_option c_type (pair_remote m q) } }
           else Some (c_type r) } } }"

section \<open>Nomination\<close>

definition valid_pair_compare :: "ice_mem \<Rightarrow> iptr \<Rightarrow> iptr \<Rightarrow> bool option" where
  "valid_pair_compare m new_pair pair_in_list = do {
     x \<leftarrow> im_valids m pair_in_list;
     y \<leftarrow> im_valids m new_pair;
     p \<leftarrow> im_pairs m (v_valid x);
     q \<leftarrow> im_pairs m (v_valid y);
     Some (p_priority p > p_priority q) }"

fun valid_pairs_for :: "ice_mem \<Rightarrow> u16 \<Rightarrow> iptr list \<Rightarrow> iptr list \<Rightarrow> iptr list option" where
  "valid_pairs_for m cid [] ret = Some ret"
| "valid_pairs_for m cid (v # vs) ret = do {
     vp \<leftarrow> im_valids m v;
     p \<leftarrow> im_pairs m (v_valid vp);
     l \<leftarrow> pair_local m p;
     ret \<leftarrow> (if c_componentID l = cid
             then bctbx_list_insert_sorted ret v (\<lambda>a b. map_option Not (valid_pair_compare m a b)) else Some ret);
     valid_pairs_for m cid vs ret }"

definition ice_get_valid_pairs_for_componentID :: "ice_mem \<Rightarrow> iptr \<Rightarrow> u16 \<Rightarrow> iptr list option" where
  "ice_get_valid_pairs_for_componentID m cl cid = do {
     l \<leftarrow> im_lists m cl;
     valid_pairs_for m cid (cl_valid_list l) [] }"

definition generating_pair :: "ice_mem \<Rightarrow> iptr \<Rightarrow> IceCandidatePair option" where
  "generating_pair m v = do { vp \<leftarrow> im_valids m v; im_pairs m (v_generated_from vp) }"

definition ice_check_list_nominate :: "iptr \<Rightarrow> iptr list \<Rightarrow> ice_mem \<Rightarrow> ice_mem option" where
  "ice_check_list_nominate cl best_valid_list m = do {
     m \<leftarrow> bctbx_list_for_each2 best_valid_list (\<lambda>v m. do {
            vp \<leftarrow> im_valids m v;
            g \<leftarrow> im_pairs m (v_generated_from vp);
            if \<not> p_use_candidate g then do {
              m \<leftarrow> upd_pair m (v_generated_from vp) (\<lambda>p. p\<lparr>p_use_candidate := True\<rparr>);
              ice_check_list_queue_triggered_check cl (v_generated_from vp) m }
            else Some m }) m;
     upd_list m cl (\<lambda>l. l\<lparr>cl_nomination_in_progress := True\<rparr>) }"

text \<open>The loop over the components: \<open>None\<close> inside when a component has no valid pair, otherwise the pairs to
  nominate, whether one of them is relayed, and how many nominations there are to do.\<close>

fun nomination_scan ::
  "ice_mem \<Rightarrow> iptr \<Rightarrow> iptr list \<Rightarrow> iptr list \<times> bool \<times> nat \<Rightarrow> (iptr list \<times> bool \<times> nat) option option" where
  "nomination_scan m cl [] acc = Some (Some acc)"
| "nomination_scan m cl (idp # ids) (best, slow, todo) = do {
     c \<leftarrow> im_cands m idp;
     vs \<leftarrow> ice_get_valid_pairs_for_componentID m cl (c_componentID c);
     if vs = [] then Some None
     else do {
       it \<leftarrow> bctbx_list_find_custom vs (\<lambda>v. map_option (\<lambda>g. \<not> p_nomination_failing g) (generating_pair m v));
       case it of
         None \<Rightarrow> nomination_scan m cl ids (best, slow, todo)
       | Some v \<Rightarrow> do {
           g \<leftarrow> generating_pair m v;
           r \<leftarrow> pair_remote m g;
           relay \<leftarrow> (if c_type r = ICT_RelayedCandidate then Some True
                     else map_option (\<lambda>l. c_type l = ICT_RelayedCandidate) (pair_local m g));
           nomination_scan m cl ids
             (bctbx_list_append best v, slow \<or> relay, if p_use_candidate g then todo else todo + 1) } } }"

definition ice_check_list_perform_nominations :: "MSTimeSpec \<Rightarrow> iptr \<Rightarrow> bool \<Rightarrow> ice_mem \<Rightarrow> ice_mem option" where
  "ice_check_list_perform_nominations now cl nomination_delay_expired m = do {
     l \<leftarrow> im_lists m cl;
     if cl_nomination_in_progress l then Some m
     else do {
       scan \<leftarrow> nomination_scan m cl (cl_local_componentIDs l) ([], False, 0);
       case scan of
         None \<Rightarrow> Some m
       | Some (best, need_more_time, todo) \<Rightarrow>
           if todo > 0 then do {
             m \<leftarrow> (if need_more_time \<and> \<not> cl_nomination_delay_running l
                   then upd_list m cl (\<lambda>l. l\<lparr>cl_nomination_delay_running := True, cl_nomination_delay_start_time := now\<rparr>)
                   else Some m);
             if nomination_delay_expired \<or> \<not> need_more_time then do {
               m \<leftarrow> upd_list m cl (\<lambda>l. l\<lparr>cl_nomination_delay_running := False\<rparr>);
               ice_check_list_nominate cl best m }
             else Some m }
           else Some m } }"

section \<open>Conclusion\<close>

definition ice_pair_stop_retransmissions :: "iptr \<Rightarrow> iptr \<Rightarrow> ice_mem \<Rightarrow> ice_mem option" where
  "ice_pair_stop_retransmissions cl pair m = do {
     p \<leftarrow> im_pairs m pair;
     if p_state p = ICP_InProgress then do {
       m \<leftarrow> ice_pair_set_state m pair ICP_Failed;
       upd_list m cl (\<lambda>l. l\<lparr>cl_triggered_checks_queue := bctbx_list_remove (cl_triggered_checks_queue l) pair\<rparr>) }
     else Some m }"

definition ice_check_list_stop_retransmissions :: "iptr \<Rightarrow> ice_mem \<Rightarrow> ice_mem option" where
  "ice_check_list_stop_retransmissions cl m = do {
     l \<leftarrow> im_lists m cl;
     bctbx_list_for_each2 (cl_check_list l) (ice_pair_stop_retransmissions cl) m }"

definition waiting_or_frozen_of :: "ice_mem \<Rightarrow> u16 \<Rightarrow> iptr \<Rightarrow> bool option" where
  "waiting_or_frozen_of m cid a = do {
     p \<leftarrow> im_pairs m a;
     if p_state p = ICP_Waiting \<or> p_state p = ICP_Frozen
     then map_option (\<lambda>l. c_componentID l = cid) (pair_local m p) else Some False }"

text \<open>The loop of \<open>ice_remove_waiting_and_frozen_pairs_from_list\<close>: \<open>head\<close> tells that the current element is the
  first one of the list, whose removal leaves \<open>next->prev\<close> NULL.\<close>

fun remove_waiting_loop :: "ice_mem \<Rightarrow> u16 \<Rightarrow> bool \<Rightarrow> iptr list \<Rightarrow> iptr list option" where
  "remove_waiting_loop m cid head [] = Some []"
| "remove_waiting_loop m cid head (a # as) = do {
     b \<leftarrow> waiting_or_frozen_of m cid a;
     if b then (if as = [] \<or> head then Some as else remove_waiting_loop m cid head as)
     else map_option ((#) a) (remove_waiting_loop m cid False as) }"

definition ice_remove_waiting_and_frozen_pairs_from_list :: "ice_mem \<Rightarrow> iptr list \<Rightarrow> u16 \<Rightarrow> iptr list option" where
  "ice_remove_waiting_and_frozen_pairs_from_list m xs cid = remove_waiting_loop m cid True xs"

definition cap_retransmissions :: "u16 \<Rightarrow> u64 \<Rightarrow> iptr \<Rightarrow> ice_mem \<Rightarrow> ice_mem option" where
  "cap_retransmissions cid priority pair m = do {
     p \<leftarrow> im_pairs m pair;
     if p_state p = ICP_InProgress then do {
       l \<leftarrow> pair_local m p;
       if c_componentID l = cid \<and> p_priority p < priority
       then upd_pair m pair (\<lambda>p. p\<lparr>p_retransmissions := ICE_MAX_RETRANSMISSIONS\<rparr>) else Some m }
     else Some m }"

definition ice_conclude_waiting_frozen_and_inprogress_pairs :: "iptr \<Rightarrow> iptr \<Rightarrow> ice_mem \<Rightarrow> ice_mem option" where
  "ice_conclude_waiting_frozen_and_inprogress_pairs cl v m = do {
     vp \<leftarrow> im_valids m v;
     p \<leftarrow> im_pairs m (v_valid vp);
     if p_is_nominated p then do {
       c \<leftarrow> pair_local m p;
       l \<leftarrow> im_lists m cl;
       check_list \<leftarrow> ice_remove_waiting_and_frozen_pairs_from_list m (cl_check_list l) (c_componentID c);
       queue \<leftarrow> ice_remove_waiting_and_frozen_pairs_from_list m (cl_triggered_checks_queue l) (c_componentID c);
       m \<leftarrow> upd_list m cl (\<lambda>l. l\<lparr>cl_check_list := check_list, cl_triggered_checks_queue := queue\<rparr>);
       bctbx_list_for_each2 check_list (cap_retransmissions (c_componentID c) (p_priority p)) m }
     else Some m }"

fun find_unsuccessful :: "ice_mem \<Rightarrow> iptr option list \<Rightarrow> iptr option option" where
  "find_unsuccessful m [] = Some None"
| "find_unsuccessful m (None # xs) = find_unsuccessful m xs"
| "find_unsuccessful m (Some cl # xs) =
     do { s \<leftarrow> ice_check_list_state m cl; if s \<noteq> ICL_Completed then Some (Some cl) else find_unsuccessful m xs }"

definition ice_session_find_unsuccessful_check_list :: "ice_mem \<Rightarrow> iptr option option" where
  "ice_session_find_unsuccessful_check_list m = find_unsuccessful m (s_streams (im_session m))"

definition ice_session_find_running_check_list :: "ice_mem \<Rightarrow> iptr option option" where
  "ice_session_find_running_check_list m = find_state_in m (s_streams (im_session m)) ICL_Running"

definition ice_session_contains_check_list :: "ice_mem \<Rightarrow> iptr \<Rightarrow> bool" where
  "ice_session_contains_check_list m cl = (Some cl \<in> set (s_streams (im_session m)))"

definition ice_notify_session_processing_finished :: "MSTimeSpec \<Rightarrow> iptr \<Rightarrow> ice_mem \<Rightarrow> ice_mem option" where
  "ice_notify_session_processing_finished now cl m = do {
     _ \<leftarrow> session_of m cl;
     if \<not> ice_session_contains_check_list m cl then Some m
     else do {
       next_cl \<leftarrow> ice_session_find_running_check_list m;
       if next_cl = None then do {
         bad \<leftarrow> ice_session_find_unsuccessful_check_list m;
         Some (upd_session m (\<lambda>s. s\<lparr>s_state := (if bad = None then IS_Completed else IS_Failed),
                 s_event_time := ice_add_ms now 1000, s_event_value := ORTP_EVENT_ICE_SESSION_PROCESSING_FINISHED,
                 s_send_event := True\<rparr>)) }
       else Some m } }"

text \<open>The part that hands the selected addresses to the RTP session and the TURN contexts.\<close>

definition conclude_turn_component :: "u16 \<Rightarrow> iptr option \<Rightarrow> iptr option \<Rightarrow> ice_mem \<Rightarrow> ice_mem option" where
  "conclude_turn_component cid local_candidate remote_candidate m =
     (case local_candidate of
        None \<Rightarrow> Some m
      | Some a \<Rightarrow> do {
          relay \<leftarrow> ice_candidate_is_relay m a;
          m \<leftarrow> Some (ice_emit m (Out_Force_Relay cid relay));
          if relay \<and> (cid = 1 \<or> remote_candidate \<noteq> None) then do {
            r \<leftarrow> cand_at m remote_candidate;
            Some (ice_emit m (Out_Channel_Bind cid (c_taddr r))) }
          else Some (ice_emit m (Out_Turn_Deallocate cid)) })"

definition conclude_addresses :: "iptr \<Rightarrow> ice_mem \<Rightarrow> ice_mem option" where
  "conclude_addresses cl m = do {
     (result, rtp_remote, rtcp_remote) \<leftarrow> ice_check_list_selected_valid_remote_candidate m cl;
     if \<not> result then Some m
     else do {
       r \<leftarrow> cand_at m rtp_remote;
       r' \<leftarrow> (case rtcp_remote of None \<Rightarrow> Some r | Some a \<Rightarrow> im_cands m a);
       m \<leftarrow> Some (ice_emit m (Out_Remote_Addr (c_taddr r) (c_taddr r')));
       (_, rtp_local, rtcp_local) \<leftarrow> ice_check_list_selected_valid_local_base_candidate m cl;
       m \<leftarrow> (if rtp_local \<noteq> None \<or> rtcp_local \<noteq> None then do {
               ip1 \<leftarrow> (case rtp_local of None \<Rightarrow> Some [] | Some a \<Rightarrow> map_option (\<lambda>c. ta_ip (c_taddr c)) (im_cands m a));
               ip2 \<leftarrow> (case rtcp_local of None \<Rightarrow> Some [] | Some a \<Rightarrow> map_option (\<lambda>c. ta_ip (c_taddr c)) (im_cands m a));
               Some (ice_emit m (Out_Local_Addr ip1 ip2)) }
             else Some m);
       s \<leftarrow> session_of m cl;
       if s_turn_enabled s then do {
         (_, rtp_local, rtcp_local) \<leftarrow> ice_check_list_selected_valid_local_candidate m cl;
         m \<leftarrow> conclude_turn_component 1 rtp_local rtp_remote m;
         conclude_turn_component 2 rtcp_local rtcp_remote m }
       else Some m } }"

text \<open>The branch of \<open>ice_conclude_processing\<close> in which each component has a nominated pair and no pair is losing.\<close>

definition complete_check_list :: "MSTimeSpec \<Rightarrow> iptr \<Rightarrow> ice_mem \<Rightarrow> ice_mem option" where
  "complete_check_list now cl m = do {
     m \<leftarrow> upd_list m cl (\<lambda>l. l\<lparr>cl_state := ICL_Completed, cl_nomination_in_progress := False,
                               cl_nomination_delay_running := False\<rparr>);
     m \<leftarrow> ice_check_list_select_candidates cl m;
     m \<leftarrow> upd_list m cl (\<lambda>l. l\<lparr>cl_connectivity_checks_running := False, cl_keepalive_time := now\<rparr>);
     m \<leftarrow> ice_check_list_stop_retransmissions cl m;
     m \<leftarrow> conclude_addresses cl m;
     ice_notify_session_processing_finished now cl
       (ice_emit m (Out_Event ORTP_EVENT_ICE_CHECK_LIST_PROCESSING_FINISHED True)) }"

definition ice_conclude_processing :: "MSTimeSpec \<Rightarrow> iptr \<Rightarrow> bool \<Rightarrow> ice_mem \<Rightarrow> ice_mem option" where
  "ice_conclude_processing now cl nomination_delay_expired m = do {
     l \<leftarrow> im_lists m cl;
     if cl_state l = ICL_Running then do {
       s \<leftarrow> session_of m cl;
       m \<leftarrow> (if s_role s = IR_Controlling then ice_check_list_perform_nominations now cl nomination_delay_expired m
             else Some m);
       l \<leftarrow> im_lists m cl;
       m \<leftarrow> bctbx_list_for_each2 (cl_valid_list l) (ice_conclude_waiting_frozen_and_inprogress_pairs cl) m;
       result \<leftarrow> bctbx_list_for_each2 (cl_local_componentIDs l) (ice_find_nominated_valid_pair_for_componentID m cl) True;
       if result \<and> length (cl_losing_pairs l) = 0 then complete_check_list now cl m else Some m }
     else Some m }"

end
