(* ===== verification/Ice_Restart.thy ===== *)
theory Ice_Restart
  imports Ice_Conclude
begin

text \<open>
  Losing pairs, restart and reset of an ICE session, and the removal of the RTCP component of a check list
  (\<open>ice.c\<close>).
\<close>

section \<open>Losing pairs\<close>

definition ice_find_candidate_from_transport_address :: "ice_mem \<Rightarrow> IceTransportAddress \<Rightarrow> iptr \<Rightarrow> bool option" where
  "ice_find_candidate_from_transport_address m ta a =
     map_option (\<lambda>c. ice_compare_transport_addresses (c_taddr c) ta) (im_cands m a)"

definition ice_find_candidate_from_transport_address_and_componentID ::
  "ice_mem \<Rightarrow> IceTransportAddress \<Rightarrow> u16 \<Rightarrow> iptr \<Rightarrow> bool option" where
  "ice_find_candidate_from_transport_address_and_componentID m ta cid a =
     map_option (\<lambda>c. c_componentID c = cid \<and> ice_compare_transport_addresses (c_taddr c) ta) (im_cands m a)"

definition ice_find_candidate_from_ip_address :: "ice_mem \<Rightarrow> bytes \<Rightarrow> iptr \<Rightarrow> bool option" where
  "ice_find_candidate_from_ip_address m ipaddr a = map_option (\<lambda>c. ta_ip (c_taddr c) = ipaddr) (im_cands m a)"

definition ice_find_candidate_from_type_and_componentID ::
  "ice_mem \<Rightarrow> IceCandidateType \<Rightarrow> u16 \<Rightarrow> iptr \<Rightarrow> bool option" where
  "ice_find_candidate_from_type_and_componentID m type cid a =
     map_option (\<lambda>c. c_type c = type \<and> c_componentID c = cid) (im_cands m a)"

definition ice_find_pair_from_candidates :: "ice_mem \<Rightarrow> iptr option \<Rightarrow> iptr option \<Rightarrow> iptr \<Rightarrow> bool option" where
  "ice_find_pair_from_candidates m local_candidate remote_candidate a =
     map_option (\<lambda>p. p_local p = local_candidate \<and> p_remote p = remote_candidate) (im_pairs m a)"

text \<open>The accumulator is the pair of \<open>in_progress_candidates\<close> and \<open>failed_candidates\<close>.\<close>

definition ice_check_if_losing_pair_should_cause_restart ::
  "ice_mem \<Rightarrow> IceCandidate \<Rightarrow> iptr \<Rightarrow> bool \<times> bool \<Rightarrow> (bool \<times> bool) option" where
  "ice_check_if_losing_pair_should_cause_restart m losing_remote_candidate a acc = do {
     p \<leftarrow> im_pairs m a;
     r \<leftarrow> pair_remote m p;
     Some (if ice_compare_candidates r losing_remote_candidate
           then (fst acc \<or> p_state p = ICP_InProgress, snd acc \<or> p_state p = ICP_Failed) else acc) }"

definition losing_local_candidate ::
  "iptr \<Rightarrow> u16 \<Rightarrow> int \<Rightarrow> bytes \<Rightarrow> int \<Rightarrow> ice_mem \<Rightarrow> ((iptr option \<times> bool) option \<times> ice_mem) option" where
  "losing_local_candidate cl cid family addr port m = do {
     l \<leftarrow> im_lists m cl;
     elem \<leftarrow> bctbx_list_find_custom (cl_local_candidates l)
       (ice_find_candidate_from_transport_address_and_componentID m \<lparr>ta_ip = take 63 addr, ta_port = port, ta_family = family\<rparr> cid);
     case elem of
       Some a \<Rightarrow> Some (Some (Some a, False), m)
     | None \<Rightarrow> do {
         elem \<leftarrow> bctbx_list_find_custom (cl_remote_candidates l) (ice_find_candidate_from_ip_address m addr);
         srflx \<leftarrow> (if elem \<noteq> None
                   then bctbx_list_find_custom (cl_remote_candidates l)
                          (ice_find_candidate_from_type_and_componentID m ICT_ServerReflexiveCandidate cid)
                   else Some None);
         case srflx of
           None \<Rightarrow> Some (None, m)
         | Some b \<Rightarrow> do {
             (c, m) \<leftarrow> ice_add_local_candidate m cl (map of_char ''relay'') family addr port cid (Some b);
             a \<leftarrow> c;
             m \<leftarrow> ice_compute_candidate_foundation cl a m;
             Some (Some (Some a, True), m) } } }"

definition append_new_pair :: "iptr \<Rightarrow> iptr option \<Rightarrow> iptr option \<Rightarrow> ice_mem \<Rightarrow> (iptr \<times> ice_mem) option" where
  "append_new_pair cl l r m = do {
     (pair, m) \<leftarrow> ice_pair_new m cl l r;
     m \<leftarrow> upd_list m cl (\<lambda>x. x\<lparr>cl_pairs := bctbx_list_append (cl_pairs x) pair\<rparr>);
     Some (pair, m) }"

text \<open>The last part of \<open>ice_add_losing_pair\<close>, once the pair is known.\<close>

definition losing_pair_found :: "MSTimeSpec \<Rightarrow> iptr \<Rightarrow> iptr \<Rightarrow> ice_mem \<Rightarrow> ice_mem option" where
  "losing_pair_found now cl pair m = do {
     l \<leftarrow> im_lists m cl;
     elem \<leftarrow> bctbx_list_find_custom (cl_valid_list l) (ice_find_pair_in_valid_list m pair);
     case elem of
       Some v \<Rightarrow> ice_check_list_set_selected_valid_pair cl v m
     | None \<Rightarrow> do {
         p \<leftarrow> im_pairs m pair;
         r \<leftarrow> pair_remote m p;
         (in_progress, failed) \<leftarrow>
           bctbx_list_for_each2 (cl_check_list l) (ice_check_if_losing_pair_should_cause_restart m r) (False, False);
         if \<not> in_progress \<and> failed then do {
           _ \<leftarrow> session_of m cl;
           Some (upd_session m (\<lambda>s. s\<lparr>s_event_time := ice_add_ms now 1000,
                                       s_event_value := ORTP_EVENT_ICE_RESTART_NEEDED, s_send_event := True\<rparr>)) }
         else if in_progress \<and> \<not> bctbx_list_find (cl_losing_pairs l) pair
         then upd_list m cl (\<lambda>l. l\<lparr>cl_losing_pairs := bctbx_list_append (cl_losing_pairs l) pair\<rparr>)
         else Some m } }"

definition ice_add_losing_pair ::
  "MSTimeSpec \<Rightarrow> iptr \<Rightarrow> u16 \<Rightarrow> int \<Rightarrow> bytes \<Rightarrow> int \<Rightarrow> int \<Rightarrow> bytes \<Rightarrow> int \<Rightarrow> ice_mem \<Rightarrow> ice_mem option" where
  "ice_add_losing_pair now cl cid local_family local_addr local_port remote_family remote_addr remote_port m = do {
     (found, m) \<leftarrow> losing_local_candidate cl cid local_family local_addr local_port m;
     case found of
       None \<Rightarrow> Some m
     | Some (lc, added) \<Rightarrow> do {
         l \<leftarrow> im_lists m cl;
         rc \<leftarrow> bctbx_list_find_custom (cl_remote_candidates l)
           (ice_find_candidate_from_transport_address_and_componentID m
              \<lparr>ta_ip = take 63 remote_addr, ta_port = remote_port, ta_family = remote_family\<rparr> cid);
         if rc = None then Some m
         else do {
           m \<leftarrow> (if added then map_option snd (append_new_pair cl lc rc m) else Some m);
           l \<leftarrow> im_lists m cl;
           elem \<leftarrow> bctbx_list_find_custom (cl_pairs l) (ice_find_pair_from_candidates m lc rc);
           case elem of
             Some pair \<Rightarrow> losing_pair_found now cl pair m
           | None \<Rightarrow>
               if \<not> added then do { (pair, m) \<leftarrow> append_new_pair cl lc rc m; losing_pair_found now cl pair m }
               else Some m } } }"

definition ice_check_list_nb_losing_pairs :: "ice_mem \<Rightarrow> iptr \<Rightarrow> nat option" where
  "ice_check_list_nb_losing_pairs m cl = map_option (\<lambda>l. length (cl_losing_pairs l)) (im_lists m cl)"

definition ice_session_nb_losing_pairs :: "ice_mem \<Rightarrow> nat option" where
  "ice_session_nb_losing_pairs m =
     bctbx_list_for_each2 (s_streams (im_session m))
       (\<lambda>o' n. case o' of None \<Rightarrow> Some n | Some cl \<Rightarrow> map_option (\<lambda>k. n + k) (ice_check_list_nb_losing_pairs m cl)) 0"

section \<open>Restart\<close>

definition ice_check_list_restart :: "MSTimeSpec \<Rightarrow> iptr \<Rightarrow> ice_mem \<Rightarrow> ice_mem option" where
  "ice_check_list_restart now cl m = do {
     l \<leftarrow> im_lists m cl;
     m \<leftarrow> bctbx_list_for_each2 (cl_pairs l) (ice_free_candidate_pair cl) (ice_emit m (Out_Local_Addr [] []));
     l \<leftarrow> im_lists m cl;
     m \<leftarrow> Some (fold (\<lambda>v m. ice_free_valid_pair m v) (cl_valid_list l) m);
     m \<leftarrow> Some (fold (\<lambda>a m. ice_free_candidate m a) (cl_remote_candidates l) m);
     upd_list m cl (\<lambda>l. l\<lparr>cl_remote_ufrag := None, cl_remote_pwd := None, cl_transaction_list := [], cl_foundations := [],
       cl_remote_componentIDs := [], cl_valid_list := [], cl_check_list := [], cl_triggered_checks_queue := [],
       cl_losing_pairs := [], cl_pairs := [], cl_remote_candidates := [], cl_state := ICL_Running,
       cl_mismatch := False, cl_gathering_candidates := False, cl_gathering_finished := False,
       cl_nomination_delay_running := False, cl_ta_time := now, cl_nomination_in_progress := False,
       cl_keepalive_time := time_zero, cl_gathering_start_time := time_zero,
       cl_nomination_delay_start_time := time_zero\<rparr>) }"

definition ice_session_restart :: "MSTimeSpec \<Rightarrow> IceRole \<Rightarrow> ice_mem \<Rightarrow> ice_mem option" where
  "ice_session_restart now role m = do {
     let r = (\<lambda>i. im_random m (im_drawn m + i));
     m \<leftarrow> Some ((upd_session m (\<lambda>s. s\<lparr>s_state := IS_Stopped, s_tie_breaker := generate_tie_breaker (r 0) (r 1),
            s_local_ufrag := generate_ufrag (r 2), s_local_pwd := generate_pwd (r 3) (r 4) (r 5),
            s_remote_ufrag := None, s_remote_pwd := None, s_event_time := time_zero, s_send_event := False\<rparr>))
            \<lparr>im_drawn := im_drawn m + 6\<rparr>);
     m \<leftarrow> each_stream m (ice_check_list_restart now);
     ice_session_set_role m role }"

definition reset_local_candidates :: "iptr \<Rightarrow> ice_mem \<Rightarrow> ice_mem option" where
  "reset_local_candidates cl m = do {
     l \<leftarrow> im_lists m cl;
     upd_list (fold (\<lambda>a m. ice_free_candidate m a) (cl_local_candidates l) m) cl
       (\<lambda>l. l\<lparr>cl_local_candidates := [], cl_local_componentIDs := []\<rparr>) }"

definition ice_session_reset :: "MSTimeSpec \<Rightarrow> IceRole \<Rightarrow> ice_mem \<Rightarrow> ice_mem option" where
  "ice_session_reset now role m = do {
     m \<leftarrow> ice_session_restart now role m;
     each_stream m reset_local_candidates }"

section \<open>Removal of the RTCP component\<close>

definition ice_remove_transaction_with_pair :: "iptr \<Rightarrow> iptr \<Rightarrow> ice_mem \<Rightarrow> ice_mem option" where
  "ice_remove_transaction_with_pair cl pair m =
     upd_list m cl (\<lambda>l. l\<lparr>cl_transaction_list := filter (\<lambda>t. t_pair t \<noteq> pair) (cl_transaction_list l)\<rparr>)"

definition clean_rtcp_pair :: "iptr \<Rightarrow> iptr \<Rightarrow> ice_mem \<Rightarrow> ice_mem option" where
  "clean_rtcp_pair cl pair m = do {
     p \<leftarrow> im_pairs m pair;
     c \<leftarrow> pair_local m p;
     if c_componentID c = ICE_RTCP_COMPONENT_ID then do {
       m \<leftarrow> ice_remove_transaction_with_pair cl pair m;
       m \<leftarrow> upd_list m cl (\<lambda>l. l\<lparr>cl_triggered_checks_queue := remove1 pair (cl_triggered_checks_queue l),
                                 cl_losing_pairs := remove1 pair (cl_losing_pairs l)\<rparr>);
       m \<leftarrow> ice_free_candidate_pair cl pair m;
       upd_list m cl (\<lambda>l. l\<lparr>cl_pairs := remove1 pair (cl_pairs l)\<rparr>) }
     else Some m }"

definition ice_clean_rtcp_candidate_pairs :: "iptr \<Rightarrow> ice_mem \<Rightarrow> ice_mem option" where
  "ice_clean_rtcp_candidate_pairs cl m = do {
     l \<leftarrow> im_lists m cl;
     bctbx_list_for_each2 (cl_pairs l) (clean_rtcp_pair cl) m }"

text \<open>The loop that removes and frees the candidates of a component: what is left of the list.\<close>

fun free_component_candidates :: "u16 \<Rightarrow> iptr list \<Rightarrow> ice_mem \<Rightarrow> (iptr list \<times> ice_mem) option" where
  "free_component_candidates cid [] m = Some ([], m)"
| "free_component_candidates cid (a # as) m = do {
     c \<leftarrow> im_cands m a;
     if c_componentID c = cid then free_component_candidates cid as (ice_free_candidate m a)
     else do { (as, m) \<leftarrow> free_component_candidates cid as m; Some (a # as, m) } }"

definition ice_check_list_remove_rtcp_candidates :: "iptr \<Rightarrow> ice_mem \<Rightarrow> ice_mem option" where
  "ice_check_list_remove_rtcp_candidates cl m = do {
     l \<leftarrow> im_lists m cl;
     ids \<leftarrow> ice_remove_componentID m (cl_local_componentIDs l) ICE_RTCP_COMPONENT_ID;
     m \<leftarrow> upd_list m cl (\<lambda>l. l\<lparr>cl_local_componentIDs := ids\<rparr>);
     m \<leftarrow> ice_clean_rtcp_candidate_pairs cl m;
     (as, m) \<leftarrow> free_component_candidates ICE_RTCP_COMPONENT_ID (cl_local_candidates l) m;
     m \<leftarrow> upd_list m cl (\<lambda>l. l\<lparr>cl_local_candidates := as\<rparr>);
     ids \<leftarrow> ice_remove_componentID m (cl_remote_componentIDs l) ICE_RTCP_COMPONENT_ID;
     m \<leftarrow> upd_list m cl (\<lambda>l. l\<lparr>cl_remote_componentIDs := ids\<rparr>);
     (as, m) \<leftarrow> free_component_candidates ICE_RTCP_COMPONENT_ID (cl_remote_candidates l) m;
     upd_list m cl (\<lambda>l. l\<lparr>cl_remote_candidates := as\<rparr>) }"

end
