(* ===== verification/Ice_Checks.thy ===== *)
theory Ice_Checks
  imports Ice_Restart Stun_Roundtrip
begin

text \<open>
  The connectivity checks of an ICE agent: the binding requests, responses and indications it sends, the tests on
  the requests and responses it receives and what they change in the check list, and the scheduling of checks
  (\<open>ice.c\<close>, ``STUN packets handling'' and ``Global process'').

  The environment gives the HMAC, the uninitialised memory of the encoder and the conversions between the textual
  transport addresses and STUN addresses, which are done by the platform. A packet event holds the socket it came
  from (RTP or RTCP), its bytes, its source and the local address it was received on, both already converted from
  IPv4-mapped IPv6 addresses. Both transports of the RTP session exist. The clock is read once per operation.
  Responses of a STUN or TURN server are part of the gathering, which is not modelled.
\<close>

section \<open>Environment\<close>

record ice_env =
  ie_stun :: stun_env
  ie_junk :: "nat \<Rightarrow> u8"
  ie_to_stun :: "IceTransportAddress \<Rightarrow> MSStunAddress"
  ie_of_stun :: "MSStunAddress \<Rightarrow> IceTransportAddress"

record ice_event =
  ev_rtp :: bool
  ev_packet :: bytes
  ev_source :: MSStunAddress
  ev_recv :: MSStunAddress

definition ice_get_componentID_from_rtp_session :: "ice_event \<Rightarrow> u16" where
  "ice_get_componentID_from_rtp_session ev = (if ev_rtp ev then 1 else 2)"

definition draw3 :: "ice_mem \<Rightarrow> (u32 \<times> u32 \<times> u32) \<times> ice_mem" where
  "draw3 m = ((im_random m (im_drawn m), im_random m (im_drawn m + 1), im_random m (im_drawn m + 2)),
              m\<lparr>im_drawn := im_drawn m + 3\<rparr>)"

text \<open>Encoding a message and sending what it wrote.\<close>

definition send_message :: "ice_env \<Rightarrow> u16 \<Rightarrow> MSStunMessage \<Rightarrow> MSStunAddress \<Rightarrow> MSStunAddress \<Rightarrow> ice_mem \<Rightarrow> ice_mem option" where
  "send_message env cid msg source dest m = do {
     (len, buf) \<leftarrow> ms_stun_message_encode (ie_stun env) (ie_junk env) msg;
     Some (if len > 0 then ice_emit m (Out_Packet cid (take len buf) source dest) else m) }"

section \<open>Transactions\<close>

definition ice_create_transaction :: "iptr \<Rightarrow> iptr \<Rightarrow> bytes \<Rightarrow> ice_mem \<Rightarrow> ice_mem option" where
  "ice_create_transaction cl pair tr_id m =
     upd_list m cl (\<lambda>l. l\<lparr>cl_transaction_list :=
       \<lparr>t_transactionID = tr_id, t_pair = pair, t_canceled = False\<rparr> # cl_transaction_list l\<rparr>)"

definition ice_find_transaction_from_pair :: "iptr \<Rightarrow> IceTransaction \<Rightarrow> bool" where
  "ice_find_transaction_from_pair pair t = (t_pair t = pair \<and> \<not> t_canceled t)"

definition ice_find_transaction :: "ice_mem \<Rightarrow> iptr \<Rightarrow> iptr \<Rightarrow> IceTransaction option option" where
  "ice_find_transaction m cl pair =
     map_option (\<lambda>l. List.find (ice_find_transaction_from_pair pair) (cl_transaction_list l)) (im_lists m cl)"

text \<open>Setting \<open>canceled\<close> of the transaction that was found.\<close>

fun cancel_first :: "iptr \<Rightarrow> IceTransaction list \<Rightarrow> IceTransaction list" where
  "cancel_first pair [] = []"
| "cancel_first pair (t # ts) =
     (if ice_find_transaction_from_pair pair t then t\<lparr>t_canceled := True\<rparr> # ts else t # cancel_first pair ts)"

section \<open>Sending\<close>

text \<open>\<open>retransmission\<close> is what happens to a pair that is in progress: \<open>None\<close> inside when no request is sent.\<close>

definition retransmission :: "MSTimeSpec \<Rightarrow> iptr \<Rightarrow> iptr \<Rightarrow> ice_mem \<Rightarrow> (bool \<times> ice_mem) option" where
  "retransmission now cl pair m = do {
     s \<leftarrow> session_of m cl;
     m \<leftarrow> upd_pair m pair (\<lambda>p. p\<lparr>p_retransmissions := p_retransmissions p + 1\<rparr>);
     p \<leftarrow> im_pairs m pair;
     m \<leftarrow> (if s_role s = IR_Controlling \<and> p_use_candidate p \<and> \<not> p_nomination_failing p \<and>
              p_retransmissions p > ICE_MAX_RETRANSMISSIONS_FOR_NOMINATIONS then do {
             m \<leftarrow> upd_pair m pair (\<lambda>p. p\<lparr>p_nomination_failing := True\<rparr>);
             m \<leftarrow> upd_list m cl (\<lambda>l. l\<lparr>cl_nomination_in_progress := False\<rparr>);
             ice_check_list_perform_nominations now cl False m }
           else Some m);
     if p_retransmissions p > ICE_MAX_RETRANSMISSIONS then do {
       m \<leftarrow> ice_pair_set_state m pair ICP_Failed;
       Some (False, m) }
     else do {
       m \<leftarrow> upd_pair m pair (\<lambda>p. p\<lparr>p_rto := p_rto p * 2\<rparr>);
       Some (True, m) } }"

text \<open>The message of a connectivity check; a NULL credential printed with \<open>%s\<close> is undefined.\<close>

definition binding_request ::
  "ice_mem \<Rightarrow> iptr \<Rightarrow> IceCandidatePair \<Rightarrow> IceCandidate \<Rightarrow> u32 \<times> u32 \<times> u32 \<Rightarrow> MSStunMessage option" where
  "binding_request m cl p local_candidate rnd = do {
     s \<leftarrow> session_of m cl;
     remote_ufrag \<leftarrow> ice_check_list_remote_ufrag m cl;
     ru \<leftarrow> remote_ufrag;
     lu \<leftarrow> ice_check_list_local_ufrag m cl;
     remote_pwd \<leftarrow> ice_check_list_remote_pwd m cl;
     prflx \<leftarrow> type_preference_values ICT_PeerReflexiveCandidate;
     let msg = ms_stun_binding_request_create rnd;
     let msg = ms_stun_message_set_username msg (Some (ru @ [58] @ lu));
     let msg = ms_stun_message_set_password msg remote_pwd;
     let msg = ms_stun_message_enable_message_integrity msg True;
     let msg = ms_stun_message_enable_fingerprint msg True;
     let msg = ms_stun_message_set_priority msg ((c_priority local_candidate AND 0x00ffffff) OR push_bit 24 prflx);
     let msg = (if s_role s = IR_Controlling \<and> p_use_candidate p
                then ms_stun_message_enable_use_candidate msg True else msg);
     Some (case s_role s of
             IR_Controlling \<Rightarrow> ms_stun_message_set_ice_controlling msg (s_tie_breaker s)
           | IR_Controlled \<Rightarrow> ms_stun_message_set_ice_controlled msg (s_tie_breaker s)) }"

text \<open>The encoding and the sending of the request, and the change of state at a first transmission.\<close>

definition transmit_request ::
  "ice_env \<Rightarrow> iptr \<Rightarrow> iptr \<Rightarrow> IceCandidatePair \<Rightarrow> IceCandidate \<Rightarrow> IceCandidate \<Rightarrow> MSStunMessage \<Rightarrow> ice_mem \<Rightarrow> ice_mem option" where
  "transmit_request env cl pair p lc rc msg m = do {
     s \<leftarrow> session_of m cl;
     (len, buf) \<leftarrow> ms_stun_message_encode (ie_stun env) (ie_junk env) msg;
     if len > 0 then do {
       let m = (if s_forced_relay s \<and> c_type rc \<noteq> ICT_RelayedCandidate \<and> c_type lc \<noteq> ICT_RelayedCandidate then m
                else ice_emit m (Out_Packet (c_componentID lc) (take len buf)
                               (ie_to_stun env (c_taddr lc)) (ie_to_stun env (c_taddr rc))));
       if p_state p \<noteq> ICP_InProgress then do {
         m \<leftarrow> upd_pair m pair (\<lambda>p. p\<lparr>p_rto := ICE_DEFAULT_RTO_DURATION, p_retransmissions := 0, p_role := s_role s\<rparr>);
         ice_pair_set_state m pair ICP_InProgress }
       else Some m }
     else Some m }"

definition ice_send_binding_request :: "ice_env \<Rightarrow> MSTimeSpec \<Rightarrow> iptr \<Rightarrow> iptr \<Rightarrow> ice_mem \<Rightarrow> ice_mem option" where
  "ice_send_binding_request env now cl pair m = do {
     transaction \<leftarrow> ice_find_transaction m cl pair;
     p \<leftarrow> im_pairs m pair;
     (go, m) \<leftarrow> (if p_state p = ICP_InProgress
                 then (if transaction = None then Some (False, m) else retransmission now cl pair m)
                 else Some (True, m));
     if \<not> go then Some m
     else do {
       m \<leftarrow> upd_pair m pair (\<lambda>p. p\<lparr>p_transmission_time := now\<rparr>);
       p \<leftarrow> im_pairs m pair;
       lc \<leftarrow> pair_local m p;
       if c_componentID lc \<noteq> 1 \<and> c_componentID lc \<noteq> 2 then Some m
       else do {
         rc \<leftarrow> pair_remote m p;
         let (rnd, m) = draw3 m;
         msg \<leftarrow> binding_request m cl p lc rnd;
         (msg, m) \<leftarrow> (case (p_state p, transaction) of
                        (ICP_InProgress, Some t) \<Rightarrow> Some (ms_stun_message_set_tr_id msg (t_transactionID t), m)
                      | _ \<Rightarrow> do { m \<leftarrow> ice_create_transaction cl pair (ms_stun_message_get_tr_id msg) m; Some (msg, m) });
         let msg = ms_stun_message_enable_dummy_message_integrity msg (p_use_dummy_hmac p);
         transmit_request env cl pair p lc rc msg m } } }"

definition binding_response :: "ice_mem \<Rightarrow> iptr \<Rightarrow> MSStunMessage \<Rightarrow> MSStunAddress \<Rightarrow> u32 \<times> u32 \<times> u32 \<Rightarrow> MSStunMessage option" where
  "binding_response m cl msg dest rnd = do {
     s \<leftarrow> session_of m cl;
     remote_ufrag \<leftarrow> ice_check_list_remote_ufrag m cl;
     ru \<leftarrow> remote_ufrag;
     lu \<leftarrow> ice_check_list_local_ufrag m cl;
     lp \<leftarrow> ice_check_list_local_pwd m cl;
     let response = ms_stun_binding_success_response_create rnd;
     let response = ms_stun_message_set_tr_id response (ms_stun_message_get_tr_id msg);
     let response = ms_stun_message_enable_message_integrity response True;
     let response = ms_stun_message_enable_fingerprint response True;
     let response = ms_stun_message_enable_dummy_message_integrity response
                      (ms_stun_message_dummy_message_integrity_enabled msg);
     let response = ms_stun_message_set_username response (Some (lu @ [58] @ ru));
     let response = (if ms_stun_message_dummy_message_integrity_enabled msg \<and> \<not> s_check_message_integrity s then response
                     else ms_stun_message_include_username_attribute response False);
     let response = ms_stun_message_set_password response (Some lp);
     Some (ms_stun_message_set_xor_mapped_address response dest) }"

definition ice_send_binding_response ::
  "ice_env \<Rightarrow> iptr \<Rightarrow> ice_event \<Rightarrow> MSStunMessage \<Rightarrow> MSStunAddress \<Rightarrow> ice_mem \<Rightarrow> ice_mem option" where
  "ice_send_binding_response env cl ev msg dest m = do {
     let (rnd, m) = draw3 m;
     response \<leftarrow> binding_response m cl msg dest rnd;
     send_message env (ice_get_componentID_from_rtp_session ev) response (ev_recv ev) dest m }"

definition error_response :: "u32 \<times> u32 \<times> u32 \<Rightarrow> u16 \<Rightarrow> bytes \<Rightarrow> MSStunMessage" where
  "error_response rnd error_num error_msg =
     ms_stun_message_set_error_code
       (ms_stun_message_enable_fingerprint (ms_stun_binding_error_response_create rnd) True) error_num (Some error_msg)"

text \<open>The transaction ID of the request \<open>msg\<close> is read for the log only.\<close>

definition ice_send_error_response ::
  "ice_env \<Rightarrow> ice_event \<Rightarrow> MSStunMessage \<Rightarrow> MSStunAddress \<Rightarrow> u16 \<Rightarrow> bytes \<Rightarrow> ice_mem \<Rightarrow> ice_mem option" where
  "ice_send_error_response env ev msg dest error_num error_msg m =
     (let (rnd, m) = draw3 m in
      send_message env (ice_get_componentID_from_rtp_session ev) (error_response rnd error_num error_msg)
        (ev_recv ev) dest m)"

definition ice_send_indication :: "ice_env \<Rightarrow> iptr \<Rightarrow> ice_mem \<Rightarrow> ice_mem option" where
  "ice_send_indication env pair m = do {
     p \<leftarrow> im_pairs m pair;
     lc \<leftarrow> pair_local m p;
     if c_componentID lc \<noteq> 1 \<and> c_componentID lc \<noteq> 2 then Some m
     else do {
       rc \<leftarrow> pair_remote m p;
       let (rnd, m) = draw3 m;
       let indication = ms_stun_message_enable_dummy_message_integrity
             (ms_stun_message_enable_fingerprint (ms_stun_binding_indication_create rnd) True) (p_use_dummy_hmac p);
       send_message env (c_componentID lc) indication (ie_to_stun env (c_taddr lc)) (ie_to_stun env (c_taddr rc)) m } }"

definition ice_send_keepalive_packet_for_componentID :: "ice_env \<Rightarrow> iptr \<Rightarrow> iptr \<Rightarrow> ice_mem \<Rightarrow> ice_mem option" where
  "ice_send_keepalive_packet_for_componentID env cl idp m = do {
     c \<leftarrow> im_cands m idp;
     r \<leftarrow> find_selected m cl (c_componentID c);
     case r of None \<Rightarrow> Some m | Some v \<Rightarrow> ice_send_indication env (v_valid v) m }"

definition ice_check_keep_alive_on_valid_pair :: "ice_env \<Rightarrow> MSTimeSpec \<Rightarrow> iptr \<Rightarrow> ice_mem \<Rightarrow> ice_mem option" where
  "ice_check_keep_alive_on_valid_pair env curtime v m = do {
     vp \<leftarrow> im_valids m v;
     if ice_compare_time curtime (v_last_keepalive vp) \<ge> 3000 then do {
       m \<leftarrow> ice_send_indication env (v_valid vp) m;
       upd_valid m v (\<lambda>vp. vp\<lparr>v_last_keepalive := curtime\<rparr>) }
     else Some m }"

definition ice_send_keepalive_packets :: "ice_env \<Rightarrow> MSTimeSpec \<Rightarrow> iptr \<Rightarrow> ice_mem \<Rightarrow> ice_mem option" where
  "ice_send_keepalive_packets env now cl m = do {
     l \<leftarrow> im_lists m cl;
     case cl_state l of
       ICL_Completed \<Rightarrow>
         bctbx_list_for_each2 (cl_local_componentIDs l) (ice_send_keepalive_packet_for_componentID env cl) m
     | ICL_Running \<Rightarrow> bctbx_list_for_each2 (cl_valid_list l) (ice_check_keep_alive_on_valid_pair env now) m
     | ICL_Failed \<Rightarrow> Some m }"

end
