(* ===== verification/Ice_Receive.thy ===== *)
theory Ice_Receive
  imports Ice_Checks
begin

text \<open>
  What an ICE agent does with the connectivity checks and responses it receives, and the periodic processing of a
  check list (\<open>ice.c\<close>). A test of the code that returns a negative value is false here.
\<close>

definition MS_STUN_ERROR_CODE_BAD_REQUEST :: u16 where "MS_STUN_ERROR_CODE_BAD_REQUEST = 400"
definition MS_STUN_ERROR_CODE_UNAUTHORIZED :: u16 where "MS_STUN_ERROR_CODE_UNAUTHORIZED = 401"
definition MS_ICE_ERROR_CODE_ROLE_CONFLICT :: u16 where "MS_ICE_ERROR_CODE_ROLE_CONFLICT = 487"

section \<open>Tests on a binding request\<close>

definition reject :: "ice_env \<Rightarrow> ice_event \<Rightarrow> MSStunMessage \<Rightarrow> MSStunAddress \<Rightarrow> u16 \<Rightarrow> string \<Rightarrow> ice_mem \<Rightarrow> (bool \<times> ice_mem) option" where
  "reject env ev msg remote_addr error_num error_msg m =
     map_option (Pair False) (ice_send_error_response env ev msg remote_addr error_num (map of_char error_msg) m)"

definition ice_check_received_binding_request_attributes ::
  "ice_env \<Rightarrow> ice_event \<Rightarrow> MSStunMessage \<Rightarrow> MSStunAddress \<Rightarrow> ice_mem \<Rightarrow> (bool \<times> ice_mem) option" where
  "ice_check_received_binding_request_attributes env ev msg remote_addr m =
     (let bad = (\<lambda>text. reject env ev msg remote_addr MS_STUN_ERROR_CODE_BAD_REQUEST text m) in
      if \<not> ms_stun_message_message_integrity_enabled msg then bad ''Missing MESSAGE-INTEGRITY attribute''
      else if ms_stun_message_get_username msg = None then bad ''Missing USERNAME attribute''
      else if \<not> ms_stun_message_fingerprint_enabled msg then bad ''Missing FINGERPRINT attribute''
      else if \<not> ms_stun_message_has_priority msg then bad ''Missing PRIORITY attribute''
      else if \<not> ms_stun_message_has_ice_controlling msg \<and> \<not> ms_stun_message_has_ice_controlled msg
      then bad ''Missing ICE-CONTROLLING or ICE-CONTROLLED attribute''
      else Some (True, m))"

text \<open>The bytes of the packet the integrity is computed over: the length in the header without the fingerprint,
  up to the 24 bytes of the integrity attribute and the 8 of the fingerprint at the end of the packet.\<close>

definition integrity_input :: "bytes \<Rightarrow> MSStunMessage \<Rightarrow> bytes option" where
  "integrity_input packet msg = do {
     b \<leftarrow> wr_block packet 2 (enc16 (ms_stun_message_get_length msg - 8));
     if length b < 32 then None else rd_block b 0 (length b - 24 - 8) }"

definition ice_check_received_binding_request_integrity ::
  "ice_env \<Rightarrow> iptr \<Rightarrow> ice_event \<Rightarrow> MSStunMessage \<Rightarrow> MSStunAddress \<Rightarrow> ice_mem \<Rightarrow> (bool \<times> ice_mem) option" where
  "ice_check_received_binding_request_integrity env cl ev msg remote_addr m = do {
     s \<leftarrow> session_of m cl;
     input \<leftarrow> integrity_input (ev_packet ev) msg;
     pwd \<leftarrow> ice_check_list_local_pwd m cl;
     mi \<leftarrow> ms_stun_message_get_message_integrity msg;
     let hmac = ms_stun_calculate_integrity_short_term (ie_stun env) input pwd;
     if cstr mi \<noteq> cstr hmac
     then (if \<not> s_check_message_integrity s \<and> ms_stun_message_dummy_message_integrity_enabled msg then Some (True, m)
           else reject env ev msg remote_addr MS_STUN_ERROR_CODE_UNAUTHORIZED ''Wrong MESSAGE-INTEGRITY attribute'' m)
     else Some (True, m) }"

text \<open>\<open>strncmp\<close> compares as many characters as there are before the colon.\<close>

definition ice_check_received_binding_request_username ::
  "ice_env \<Rightarrow> iptr \<Rightarrow> ice_event \<Rightarrow> MSStunMessage \<Rightarrow> MSStunAddress \<Rightarrow> ice_mem \<Rightarrow> (bool \<times> ice_mem) option" where
  "ice_check_received_binding_request_username env cl ev msg remote_addr m = do {
     username \<leftarrow> ms_stun_message_get_username msg;
     lu \<leftarrow> ice_check_list_local_ufrag m cl;
     let colon = length (takeWhile (\<lambda>c. c \<noteq> 58) username);
     if colon = length username \<or> take colon username \<noteq> take colon lu
     then reject env ev msg remote_addr MS_STUN_ERROR_CODE_UNAUTHORIZED ''Wrong USERNAME attribute'' m
     else Some (True, m) }"

definition ice_check_received_binding_request_role_conflict ::
  "ice_env \<Rightarrow> iptr \<Rightarrow> ice_event \<Rightarrow> MSStunMessage \<Rightarrow> MSStunAddress \<Rightarrow> ice_mem \<Rightarrow> (bool \<times> ice_mem) option" where
  "ice_check_received_binding_request_role_conflict env cl ev msg remote_addr m = do {
     s \<leftarrow> session_of m cl;
     let conflict = reject env ev msg remote_addr MS_ICE_ERROR_CODE_ROLE_CONFLICT ''Role Conflict'' m;
     if s_role s = IR_Controlling \<and> ms_stun_message_has_ice_controlling msg
     then (if s_tie_breaker s \<ge> ms_stun_message_get_ice_controlling msg then conflict
           else map_option (Pair True) (ice_session_set_role m IR_Controlled))
     else if s_role s = IR_Controlled \<and> ms_stun_message_has_ice_controlled msg
     then (if s_tie_breaker s \<ge> ms_stun_message_get_ice_controlled msg
           then map_option (Pair True) (ice_session_set_role m IR_Controlling)
           else conflict)
     else Some (True, m) }"

section \<open>Effects of a binding request\<close>

fun hex_text :: "nat \<Rightarrow> bytes" where
  "hex_text n =
     (let d = n mod 16; c = of_nat (if d < 10 then 48 + d else 87 + d) in
      if n < 16 then [c] else hex_text (n div 16) @ [c])"

declare hex_text.simps [simp del]

definition ice_find_candidate_from_foundation :: "ice_mem \<Rightarrow> bytes \<Rightarrow> iptr \<Rightarrow> bool option" where
  "ice_find_candidate_from_foundation m foundation a = map_option (\<lambda>c. c_foundation c = foundation) (im_cands m a)"

text \<open>The loop draws numbers until the foundation is not used yet; not returning is \<open>None\<close>.\<close>

partial_function (option) ice_generate_arbitrary_foundation :: "iptr list \<Rightarrow> ice_mem \<Rightarrow> (bytes \<times> ice_mem) option" where
  "ice_generate_arbitrary_foundation xs m =
     (let r = generate_tie_breaker (im_random m (im_drawn m)) (im_random m (im_drawn m + 1));
          foundation = hex_text (unat r);
          m' = m\<lparr>im_drawn := im_drawn m + 2\<rparr> in
      Option.bind (bctbx_list_find_custom xs (ice_find_candidate_from_foundation m foundation))
        (\<lambda>elem. if elem \<noteq> None then ice_generate_arbitrary_foundation xs m' else Some (foundation, m')))"

definition ice_learn_peer_reflexive_candidate ::
  "iptr \<Rightarrow> ice_event \<Rightarrow> MSStunMessage \<Rightarrow> IceTransportAddress \<Rightarrow> ice_mem \<Rightarrow> (iptr option \<times> ice_mem) option" where
  "ice_learn_peer_reflexive_candidate cl ev msg taddr m = do {
     l \<leftarrow> im_lists m cl;
     let cid = ice_get_componentID_from_rtp_session ev;
     elem \<leftarrow> bctbx_list_find_custom (cl_remote_candidates l)
               (ice_find_candidate_from_transport_address_and_componentID m taddr cid);
     if elem = None then do {
       (foundation, m) \<leftarrow> ice_generate_arbitrary_foundation (cl_remote_candidates l) m;
       ice_add_remote_candidate m cl (map of_char ''prflx'') (ta_family taddr) (ta_ip taddr) (ta_port taddr) cid
         (ms_stun_message_get_priority msg) foundation False }
     else Some (None, m) }"

definition wait_and_trigger :: "iptr \<Rightarrow> iptr \<Rightarrow> ice_mem \<Rightarrow> ice_mem option" where
  "wait_and_trigger cl pair m = do {
     m \<leftarrow> ice_pair_set_state m pair ICP_Waiting;
     ice_check_list_queue_triggered_check cl pair m }"

text \<open>The pair is not in the check list, or it is there in some state.\<close>

definition trigger_new_pair :: "iptr \<Rightarrow> iptr \<Rightarrow> iptr \<Rightarrow> ice_mem \<Rightarrow> (iptr \<times> ice_mem) option" where
  "trigger_new_pair cl lc rc m = do {
     l \<leftarrow> im_lists m cl;
     elem \<leftarrow> bctbx_list_find_custom (cl_pairs l) (ice_find_pair_from_candidates m (Some lc) (Some rc));
     (pair, m) \<leftarrow> (case elem of None \<Rightarrow> append_new_pair cl (Some lc) (Some rc) m | Some p \<Rightarrow> Some (p, m));
     l \<leftarrow> im_lists m cl;
     m \<leftarrow> (if bctbx_list_find (cl_check_list l) pair then Some m else ice_create_check_list cl pair m);
     m \<leftarrow> wait_and_trigger cl pair m;
     Some (pair, m) }"

definition trigger_known_pair :: "iptr \<Rightarrow> iptr \<Rightarrow> ice_mem \<Rightarrow> ice_mem option" where
  "trigger_known_pair cl pair m = do {
     p \<leftarrow> im_pairs m pair;
     case p_state p of
       ICP_Waiting \<Rightarrow> wait_and_trigger cl pair m
     | ICP_Frozen \<Rightarrow> wait_and_trigger cl pair m
     | ICP_Failed \<Rightarrow> wait_and_trigger cl pair m
     | ICP_InProgress \<Rightarrow>
         if p_has_canceled_transaction p then Some m
         else do {
           tr \<leftarrow> ice_find_transaction m cl pair;
           if tr = None then Some m
           else do {
             m \<leftarrow> upd_list m cl (\<lambda>l. l\<lparr>cl_transaction_list := cancel_first pair (cl_transaction_list l)\<rparr>);
             m \<leftarrow> wait_and_trigger cl pair m;
             upd_pair m pair (\<lambda>p. p\<lparr>p_has_canceled_transaction := True\<rparr>) } }
     | ICP_Succeeded \<Rightarrow> Some m }"

definition ice_trigger_connectivity_check_on_binding_request ::
  "iptr \<Rightarrow> IceTransportAddress \<Rightarrow> iptr option \<Rightarrow> IceTransportAddress \<Rightarrow> ice_mem \<Rightarrow> (iptr option \<times> ice_mem) option" where
  "ice_trigger_connectivity_check_on_binding_request cl local_taddr prflx_candidate remote_taddr m = do {
     l \<leftarrow> im_lists m cl;
     lc \<leftarrow> bctbx_list_find_custom (cl_local_candidates l) (ice_find_candidate_from_transport_address m local_taddr);
     case lc of
       None \<Rightarrow> Some (None, m)
     | Some lc \<Rightarrow> do {
         rc \<leftarrow> (case prflx_candidate of
                 Some a \<Rightarrow> Some (Some a)
               | None \<Rightarrow> do {
                   c \<leftarrow> im_cands m lc;
                   bctbx_list_find_custom (cl_remote_candidates l)
                     (ice_find_candidate_from_transport_address_and_componentID m remote_taddr (c_componentID c)) });
         case rc of
           None \<Rightarrow> Some (None, m)
         | Some rc \<Rightarrow> do {
             elem \<leftarrow> bctbx_list_find_custom (cl_check_list l) (ice_find_pair_from_candidates m (Some lc) (Some rc));
             case elem of
               None \<Rightarrow> map_option (\<lambda>(p, m). (Some p, m)) (trigger_new_pair cl lc rc m)
             | Some pair \<Rightarrow> map_option (Pair (Some pair)) (trigger_known_pair cl pair m) } } }"

fun lookup_possible_valid_pair :: "ice_mem \<Rightarrow> iptr \<Rightarrow> iptr list \<Rightarrow> iptr option option" where
  "lookup_possible_valid_pair m pair [] = Some None"
| "lookup_possible_valid_pair m pair (v # vs) = do {
     vp \<leftarrow> im_valids m v;
     if pair = v_valid vp then Some (Some pair)
     else if v_generated_from vp = pair then Some (Some (v_valid vp))
     else lookup_possible_valid_pair m pair vs }"

definition ice_update_nominated_flag_on_binding_request :: "iptr \<Rightarrow> MSStunMessage \<Rightarrow> iptr \<Rightarrow> ice_mem \<Rightarrow> ice_mem option" where
  "ice_update_nominated_flag_on_binding_request cl msg pair m = do {
     s \<leftarrow> session_of m cl;
     if ms_stun_message_use_candidate_enabled msg \<and> s_role s = IR_Controlled then do {
       l \<leftarrow> im_lists m cl;
       valid \<leftarrow> lookup_possible_valid_pair m pair (cl_valid_list l);
       p \<leftarrow> im_pairs m pair;
       case p_state p of
         ICP_Succeeded \<Rightarrow> upd_pair m (case valid of Some v \<Rightarrow> v | None \<Rightarrow> pair) (\<lambda>p. p\<lparr>p_is_nominated := True\<rparr>)
       | ICP_Failed \<Rightarrow> Some m
       | _ \<Rightarrow> upd_pair m pair (\<lambda>p. p\<lparr>p_nomination_pending := True\<rparr>) }
     else Some m }"

definition ice_handle_received_binding_request ::
  "ice_env \<Rightarrow> MSTimeSpec \<Rightarrow> iptr \<Rightarrow> ice_event \<Rightarrow> MSStunMessage \<Rightarrow> MSStunAddress \<Rightarrow> ice_mem \<Rightarrow> ice_mem option" where
  "ice_handle_received_binding_request env now cl ev msg remote_addr m = do {
     (ok, m) \<leftarrow> ice_check_received_binding_request_attributes env ev msg remote_addr m;
     if \<not> ok then Some m else do {
     (ok, m) \<leftarrow> ice_check_received_binding_request_integrity env cl ev msg remote_addr m;
     if \<not> ok then Some m else do {
     (ok, m) \<leftarrow> ice_check_received_binding_request_username env cl ev msg remote_addr m;
     if \<not> ok then Some m else do {
     (ok, m) \<leftarrow> ice_check_received_binding_request_role_conflict env cl ev msg remote_addr m;
     if \<not> ok then Some m else do {
       let taddr = ie_of_stun env remote_addr;
       (prflx_candidate, m) \<leftarrow> ice_learn_peer_reflexive_candidate cl ev msg taddr m;
       (pair, m) \<leftarrow> ice_trigger_connectivity_check_on_binding_request cl (ie_of_stun env (ev_recv ev)) prflx_candidate taddr m;
       m \<leftarrow> (case pair of None \<Rightarrow> Some m | Some p \<Rightarrow> ice_update_nominated_flag_on_binding_request cl msg p m);
       m \<leftarrow> ice_send_binding_response env cl ev msg remote_addr m;
       ice_conclude_processing now cl False m } } } } }"

section \<open>Binding responses\<close>

definition ice_find_pair_from_transactionID :: "bytes \<Rightarrow> IceTransaction \<Rightarrow> bool" where
  "ice_find_pair_from_transactionID tr_id t = (t_transactionID t = tr_id)"

definition ice_check_received_binding_response_addresses ::
  "ice_env \<Rightarrow> ice_event \<Rightarrow> iptr \<Rightarrow> MSStunAddress \<Rightarrow> ice_mem \<Rightarrow> (bool \<times> ice_mem) option" where
  "ice_check_received_binding_response_addresses env ev pair remote_addr m = do {
     p \<leftarrow> im_pairs m pair;
     rc \<leftarrow> pair_remote m p;
     lc \<leftarrow> pair_local m p;
     if ms_compare_stun_addresses remote_addr (ie_to_stun env (c_taddr rc)) \<or>
        ms_compare_stun_addresses (ev_recv ev) (ie_to_stun env (c_taddr lc))
     then map_option (Pair False) (ice_pair_set_state m pair ICP_Failed)
     else Some (True, m) }"

definition ice_check_received_binding_response_attributes :: "MSStunMessage \<Rightarrow> bool \<Rightarrow> bool" where
  "ice_check_received_binding_response_attributes msg check_integrity =
     (if \<not> ms_stun_message_message_integrity_enabled msg \<and> check_integrity then False
      else if \<not> ms_stun_message_fingerprint_enabled msg then False
      else ms_stun_message_get_xor_mapped_address msg \<noteq> None)"

definition ice_discover_peer_reflexive_candidate ::
  "ice_env \<Rightarrow> iptr \<Rightarrow> iptr \<Rightarrow> MSStunMessage \<Rightarrow> ice_mem \<Rightarrow> (iptr \<times> ice_mem) option" where
  "ice_discover_peer_reflexive_candidate env cl pair msg m = do {
     l \<leftarrow> im_lists m cl;
     p \<leftarrow> im_pairs m pair;
     lc \<leftarrow> pair_local m p;
     addr \<leftarrow> ms_stun_message_get_xor_mapped_address msg;
     let taddr = ie_of_stun env addr;
     elem \<leftarrow> bctbx_list_find_custom (cl_local_candidates l)
               (ice_find_candidate_from_transport_address_and_componentID m taddr (c_componentID lc));
     case elem of
       Some a \<Rightarrow> Some (a, m)
     | None \<Rightarrow> do {
         (c, m) \<leftarrow> ice_add_local_candidate m cl (map of_char ''prflx'') (ta_family taddr) (ta_ip taddr) (ta_port taddr)
                     (c_componentID lc) (p_local p);
         a \<leftarrow> c;
         m \<leftarrow> ice_compute_candidate_foundation cl a m;
         Some (a, m) } }"

definition ice_compare_valid_pair_priorities :: "ice_mem \<Rightarrow> iptr \<Rightarrow> iptr \<Rightarrow> bool option" where
  "ice_compare_valid_pair_priorities m v1 v2 = do {
     x \<leftarrow> im_valids m v1;
     y \<leftarrow> im_valids m v2;
     ice_compare_pair_priorities m (v_valid x) (v_valid y) }"

definition ice_find_valid_pair :: "ice_mem \<Rightarrow> IceValidCandidatePair \<Rightarrow> iptr \<Rightarrow> bool option" where
  "ice_find_valid_pair m vp2 v1 = do {
     vp1 \<leftarrow> im_valids m v1;
     b \<leftarrow> ice_compare_pairs m (v_valid vp2) (v_valid vp1);
     if b then ice_compare_pairs m (v_generated_from vp2) (v_generated_from vp1) else Some False }"

text \<open>A losing pair that has just become valid is selected.\<close>

definition losing_pair_valid :: "iptr \<Rightarrow> iptr \<Rightarrow> iptr \<Rightarrow> ice_mem \<Rightarrow> ice_mem option" where
  "losing_pair_valid cl losing v m = do {
     m \<leftarrow> upd_list m cl (\<lambda>l. l\<lparr>cl_losing_pairs := bctbx_list_remove (cl_losing_pairs l) losing\<rparr>);
     m \<leftarrow> ice_check_list_set_selected_valid_pair cl v m;
     _ \<leftarrow> session_of m cl;
     n \<leftarrow> ice_session_nb_losing_pairs m;
     if n = 0 then do {
       m \<leftarrow> ice_check_list_set_state m cl ICL_Completed;
       Some (ice_emit m (Out_Event ORTP_EVENT_ICE_LOSING_PAIRS_COMPLETED True)) }
     else Some m }"

definition ice_construct_valid_pair :: "MSTimeSpec \<Rightarrow> iptr \<Rightarrow> iptr \<Rightarrow> iptr \<Rightarrow> ice_mem \<Rightarrow> (iptr \<times> ice_mem) option" where
  "ice_construct_valid_pair now cl candidate succeeded_pair m = do {
     l \<leftarrow> im_lists m cl;
     sp \<leftarrow> im_pairs m succeeded_pair;
     elem \<leftarrow> bctbx_list_find_custom (cl_check_list l) (ice_find_pair_from_candidates m (Some candidate) (p_remote sp));
     (pair, m) \<leftarrow> (case elem of None \<Rightarrow> append_new_pair cl (Some candidate) (p_remote sp) m | Some p \<Rightarrow> Some (p, m));
     let vp = \<lparr>v_valid = pair, v_generated_from = succeeded_pair, v_last_keepalive = now, v_selected = False\<rparr>;
     elem \<leftarrow> bctbx_list_find_custom (cl_valid_list l) (ice_find_valid_pair m vp);
     case elem of
       Some v \<Rightarrow> do { x \<leftarrow> im_valids m v; Some (v_valid x, m) }
     | None \<Rightarrow> do {
         p \<leftarrow> im_pairs m pair;
         let m = (if p_is_default p then ice_emit m (Out_Event ORTP_EVENT_ICE_CHECK_LIST_DEFAULT_CANDIDATE_VERIFIED False) else m);
         let v = im_next m;
         let m = m\<lparr>im_valids := (im_valids m)(v \<mapsto> vp), im_next := v + 1\<rparr>;
         vs \<leftarrow> bctbx_list_insert_sorted (cl_valid_list l) v
                 (\<lambda>a b. map_option Not (ice_compare_valid_pair_priorities m a b));
         m \<leftarrow> upd_list m cl (\<lambda>l. l\<lparr>cl_valid_list := vs\<rparr>);
         losing \<leftarrow> bctbx_list_find_custom (cl_losing_pairs l) (ice_find_pair_from_candidates m (Some candidate) (p_remote sp));
         m \<leftarrow> (case losing of None \<Rightarrow> Some m | Some q \<Rightarrow> losing_pair_valid cl q v m);
         Some (pair, m) } }"

definition ice_compare_pair_foundations :: "ice_mem \<Rightarrow> iptr \<Rightarrow> iptr \<Rightarrow> bool option" where
  "ice_compare_pair_foundations m a1 a2 = do {
     p1 \<leftarrow> im_pairs m a1;
     p2 \<leftarrow> im_pairs m a2;
     l1 \<leftarrow> pair_local m p1;
     l2 \<leftarrow> pair_local m p2;
     if c_foundation l1 = c_foundation l2 then do {
       r1 \<leftarrow> pair_remote m p1;
       r2 \<leftarrow> pair_remote m p2;
       Some (c_foundation r1 = c_foundation r2) }
     else Some False }"

definition ice_change_state_of_frozen_pairs_to_waiting :: "iptr \<Rightarrow> iptr \<Rightarrow> ice_mem \<Rightarrow> ice_mem option" where
  "ice_change_state_of_frozen_pairs_to_waiting succeeded_pair pair m = do {
     p \<leftarrow> im_pairs m pair;
     if pair \<noteq> succeeded_pair \<and> p_state p = ICP_Frozen then do {
       same \<leftarrow> ice_compare_pair_foundations m pair succeeded_pair;
       if same then ice_pair_set_state m pair ICP_Waiting else Some m }
     else Some m }"

definition ice_update_pair_states_on_binding_response :: "iptr \<Rightarrow> iptr \<Rightarrow> ice_mem \<Rightarrow> ice_mem option" where
  "ice_update_pair_states_on_binding_response cl pair m = do {
     m \<leftarrow> ice_pair_set_state m pair ICP_Succeeded;
     l \<leftarrow> im_lists m cl;
     bctbx_list_for_each2 (cl_check_list l) (ice_change_state_of_frozen_pairs_to_waiting pair) m }"

definition ice_update_nominated_flag_on_binding_response :: "iptr \<Rightarrow> iptr \<Rightarrow> iptr \<Rightarrow> ice_mem \<Rightarrow> ice_mem option" where
  "ice_update_nominated_flag_on_binding_response cl valid_pair succeeded_pair m = do {
     s \<leftarrow> session_of m cl;
     p \<leftarrow> im_pairs m succeeded_pair;
     case s_role s of
       IR_Controlling \<Rightarrow>
         if p_use_candidate p
         then upd_pair m valid_pair (\<lambda>p. p\<lparr>p_nomination_failing := False, p_is_nominated := True\<rparr>) else Some m
     | IR_Controlled \<Rightarrow>
         if p_nomination_pending p then do {
           m \<leftarrow> upd_pair m valid_pair (\<lambda>p. p\<lparr>p_is_nominated := True\<rparr>);
           upd_pair m succeeded_pair (\<lambda>p. p\<lparr>p_nomination_pending := False\<rparr>) }
         else Some m }"

text \<open>For a check list that is not gathering candidates.\<close>

text \<open>While candidates are gathered, a response may be that of a STUN or TURN server: the gathering is not
  modelled, and the functions have no result then.\<close>

definition ice_handle_received_binding_response ::
  "ice_env \<Rightarrow> MSTimeSpec \<Rightarrow> iptr \<Rightarrow> ice_event \<Rightarrow> MSStunMessage \<Rightarrow> MSStunAddress \<Rightarrow> ice_mem \<Rightarrow> ice_mem option" where
  "ice_handle_received_binding_response env now cl ev msg remote_addr m = do {
     l \<leftarrow> im_lists m cl;
     if cl_gathering_candidates l then None else
     case List.find (ice_find_pair_from_transactionID (ms_stun_message_get_tr_id msg)) (cl_transaction_list l) of
       None \<Rightarrow> Some m
     | Some t \<Rightarrow> do {
         (ok, m) \<leftarrow> ice_check_received_binding_response_addresses env ev (t_pair t) remote_addr m;
         if \<not> ok then Some m
         else do {
           s \<leftarrow> session_of m cl;
           if \<not> ice_check_received_binding_response_attributes msg (s_check_message_integrity s) then Some m
           else do {
             (candidate, m) \<leftarrow> ice_discover_peer_reflexive_candidate env cl (t_pair t) msg m;
             (valid_pair, m) \<leftarrow> ice_construct_valid_pair now cl candidate (t_pair t) m;
             m \<leftarrow> ice_update_pair_states_on_binding_response cl (t_pair t) m;
             m \<leftarrow> ice_update_nominated_flag_on_binding_response cl valid_pair (t_pair t) m;
             ice_conclude_processing now cl False m } } } }"

definition ice_handle_received_error_response ::
  "MSTimeSpec \<Rightarrow> iptr \<Rightarrow> MSStunMessage \<Rightarrow> ice_mem \<Rightarrow> ice_mem option" where
  "ice_handle_received_error_response now cl msg m = do {
     l \<leftarrow> im_lists m cl;
     if cl_gathering_candidates l then None else
     case List.find (ice_find_pair_from_transactionID (ms_stun_message_get_tr_id msg)) (cl_transaction_list l) of
       None \<Rightarrow> Some m
     | Some t \<Rightarrow> do {
         let code = fst (ms_stun_message_get_error_code msg);
         p \<leftarrow> im_pairs m (t_pair t);
         if ms_stun_message_has_error_code msg \<and> code = MS_STUN_ERROR_CODE_UNAUTHORIZED \<and>
            p_retry_with_dummy_message_integrity p
         then upd_pair m (t_pair t) (\<lambda>p. p\<lparr>p_retry_with_dummy_message_integrity := False, p_use_dummy_hmac := True\<rparr>)
         else do {
           m \<leftarrow> ice_pair_set_state m (t_pair t) ICP_Failed;
           m \<leftarrow> (if ms_stun_message_has_error_code msg \<and> code = MS_ICE_ERROR_CODE_ROLE_CONFLICT then do {
                   _ \<leftarrow> session_of m cl;
                   m \<leftarrow> ice_session_set_role m (case p_role p of IR_Controlling \<Rightarrow> IR_Controlled | IR_Controlled \<Rightarrow> IR_Controlling);
                   wait_and_trigger cl (t_pair t) m }
                 else Some m);
           ice_conclude_processing now cl False m } } }"

text \<open>Success responses with one of the TURN methods are those of a TURN server; what the gathering does of them is
  not modelled, and there is no result.\<close>

definition ice_handle_stun_packet :: "ice_env \<Rightarrow> MSTimeSpec \<Rightarrow> iptr \<Rightarrow> ice_event \<Rightarrow> ice_mem \<Rightarrow> ice_mem option" where
  "ice_handle_stun_packet env now cl ev m = do {
     l \<leftarrow> im_lists m cl;
     if \<not> cl_session l then Some m
     else do {
       r \<leftarrow> ms_stun_message_create_from_buffer_parsing (ev_packet ev) (int (length (ev_packet ev)));
       case r of
         None \<Rightarrow> Some m
       | Some msg \<Rightarrow>
           if ms_stun_message_is_request msg
           then ice_handle_received_binding_request env now cl ev msg (ev_source ev) m
           else if ms_stun_message_is_success_response msg
           then (if sm_method msg = MS_STUN_METHOD_BINDING
                 then ice_handle_received_binding_response env now cl ev msg (ev_source ev) m
                 else if sm_method msg \<in> {MS_TURN_METHOD_ALLOCATE, MS_TURN_METHOD_CREATE_PERMISSION,
                           MS_TURN_METHOD_REFRESH, MS_TURN_METHOD_CHANNEL_BIND} then None
                 else Some m)
           else if ms_stun_message_is_error_response msg
           then ice_handle_received_error_response now cl msg m
           else Some m } }"

section \<open>Scheduling\<close>

definition ice_handle_connectivity_check_retransmission ::
  "ice_env \<Rightarrow> MSTimeSpec \<Rightarrow> iptr \<Rightarrow> iptr \<Rightarrow> ice_mem \<Rightarrow> ice_mem option" where
  "ice_handle_connectivity_check_retransmission env time cl pair m = do {
     l \<leftarrow> im_lists m cl;
     p \<leftarrow> im_pairs m pair;
     if cl_nomination_in_progress l \<and> \<not> p_use_candidate p then Some m
     else if p_state p = ICP_InProgress \<and> ice_compare_time time (p_transmission_time p) \<ge> p_rto p
     then ice_send_binding_request env time cl pair m
     else Some m }"

definition ice_check_list_retransmit_connectivity_checks :: "ice_env \<Rightarrow> MSTimeSpec \<Rightarrow> iptr \<Rightarrow> ice_mem \<Rightarrow> ice_mem option" where
  "ice_check_list_retransmit_connectivity_checks env curtime cl m = do {
     l \<leftarrow> im_lists m cl;
     bctbx_list_for_each2 (cl_check_list l) (ice_handle_connectivity_check_retransmission env curtime cl) m }"

definition ice_check_list_send_triggered_check :: "ice_env \<Rightarrow> MSTimeSpec \<Rightarrow> iptr \<Rightarrow> ice_mem \<Rightarrow> (iptr option \<times> ice_mem) option" where
  "ice_check_list_send_triggered_check env now cl m = do {
     (pair, m) \<leftarrow> ice_check_list_pop_triggered_check cl m;
     case pair of
       None \<Rightarrow> Some (None, m)
     | Some p \<Rightarrow> map_option (Pair pair) (ice_send_binding_request env now cl p m) }"

definition ice_find_pair_from_state :: "ice_mem \<Rightarrow> IceCandidatePairState \<Rightarrow> iptr \<Rightarrow> bool option" where
  "ice_find_pair_from_state m st a = map_option (\<lambda>p. p_state p = st) (im_pairs m a)"

definition ice_check_retransmissions_pending :: "ice_mem \<Rightarrow> iptr \<Rightarrow> bool \<Rightarrow> bool option" where
  "ice_check_retransmissions_pending m a pending =
     map_option (\<lambda>p. pending \<or> (p_state p = ICP_InProgress \<and> p_retransmissions p \<le> ICE_MAX_RETRANSMISSIONS)) (im_pairs m a)"

text \<open>The part common to a completed and a running check list: the retransmissions, then a triggered check when the
  Ta timer has elapsed. The flag tells whether the function goes on.\<close>

definition process_pending_checks :: "ice_env \<Rightarrow> MSTimeSpec \<Rightarrow> iptr \<Rightarrow> ice_mem \<Rightarrow> (bool \<times> ice_mem) option" where
  "process_pending_checks env curtime cl m = do {
     m \<leftarrow> ice_check_list_retransmit_connectivity_checks env curtime cl m;
     l \<leftarrow> im_lists m cl;
     s \<leftarrow> session_of m cl;
     if ice_compare_time curtime (cl_ta_time l) < s_ta s then Some (False, m)
     else do {
       m \<leftarrow> upd_list m cl (\<lambda>l. l\<lparr>cl_ta_time := curtime\<rparr>);
       (pair, m) \<leftarrow> ice_check_list_send_triggered_check env curtime cl m;
       Some (pair = None, m) } }"

definition process_ordinary_check :: "ice_env \<Rightarrow> MSTimeSpec \<Rightarrow> iptr \<Rightarrow> ice_mem \<Rightarrow> ice_mem option" where
  "process_ordinary_check env curtime cl m = do {
     frozen \<leftarrow> ice_check_list_is_frozen m cl;
     if frozen then ice_compute_pairs_states cl m
     else do {
       l \<leftarrow> im_lists m cl;
       elem \<leftarrow> bctbx_list_find_custom (cl_check_list l) (ice_find_pair_from_state m ICP_Waiting);
       case elem of
         Some pair \<Rightarrow> ice_send_binding_request env curtime cl pair m
       | None \<Rightarrow> do {
           elem \<leftarrow> bctbx_list_find_custom (cl_check_list l) (ice_find_pair_from_state m ICP_Frozen);
           case elem of
             Some pair \<Rightarrow> ice_send_binding_request env curtime cl pair m
           | None \<Rightarrow> do {
               pending \<leftarrow> bctbx_list_for_each2 (cl_check_list l) (ice_check_retransmissions_pending m) False;
               if \<not> pending then ice_conclude_processing curtime cl False m else Some m } } } }"

definition process_running :: "ice_env \<Rightarrow> MSTimeSpec \<Rightarrow> iptr \<Rightarrow> ice_mem \<Rightarrow> ice_mem option" where
  "process_running env curtime cl m = do {
     m \<leftarrow> ice_send_keepalive_packets env curtime cl m;
     l \<leftarrow> im_lists m cl;
     (stop, m) \<leftarrow>
       (if cl_nomination_delay_running l \<and>
           ice_compare_time curtime (cl_nomination_delay_start_time l) \<ge> ICE_NOMINATION_DELAY then do {
          m \<leftarrow> ice_conclude_processing curtime cl True m;
          s \<leftarrow> session_of m cl;
          Some (s_state s = IS_Completed, m) }
        else Some (False, m));
     if stop then Some m
     else do {
       (go, m) \<leftarrow> process_pending_checks env curtime cl m;
       if go then process_ordinary_check env curtime cl m else Some m } }"

definition process_completed :: "ice_env \<Rightarrow> MSTimeSpec \<Rightarrow> iptr \<Rightarrow> ice_mem \<Rightarrow> ice_mem option" where
  "process_completed env curtime cl m = do {
     l \<leftarrow> im_lists m cl;
     s \<leftarrow> session_of m cl;
     m \<leftarrow> (if ice_compare_time curtime (cl_keepalive_time l) \<ge> uint (s_keepalive_timeout s) * 1000 then do {
             m \<leftarrow> ice_send_keepalive_packets env curtime cl m;
             upd_list m cl (\<lambda>l. l\<lparr>cl_keepalive_time := curtime\<rparr>) }
           else Some m);
     map_option snd (process_pending_checks env curtime cl m) }"

text \<open>The timeout of the gathering, while there is one, and the requests to STUN and TURN servers are not modelled.\<close>

definition ice_check_list_process :: "ice_env \<Rightarrow> MSTimeSpec \<Rightarrow> iptr \<Rightarrow> ice_mem \<Rightarrow> ice_mem option" where
  "ice_check_list_process env curtime cl m = do {
     l \<leftarrow> im_lists m cl;
     if \<not> cl_session l then Some m
     else if cl_gathering_candidates l then None
     else do {
       let s = im_session m;
       let m = (if s_send_event s \<and> ice_compare_time curtime (s_event_time s) \<ge> 0
                then ice_emit (upd_session m (\<lambda>s. s\<lparr>s_send_event := False\<rparr>))
                       (Out_Event (s_event_value s) (s_state s = IS_Completed))
                else m);
       if s_state s = IS_Stopped \<or> s_state s = IS_Failed then Some m
       else (case cl_state l of
               ICL_Completed \<Rightarrow> process_completed env curtime cl m
             | ICL_Running \<Rightarrow> process_running env curtime cl m
             | ICL_Failed \<Rightarrow> Some m) } }"

end
