(* ===== verification/Ice_Priority.thy ===== *)
theory Ice_Priority
  imports Ice_Receive
begin

text \<open>
  The arithmetic of ICE: priorities of candidates and of pairs against the formulas of RFC 5245, and the clock
  of the timers.
\<close>

section \<open>Disjoint fields of a word\<close>

lemma nat_bit_le: "2 ^ n \<le> b" if "bit b n" for b :: nat
proof (rule ccontr)
  assume "\<not> 2 ^ n \<le> b"
  then have "b div 2 ^ n = 0" by simp
  then show False using that by (simp add: bit_iff_odd)
qed

lemma nat_or_field: "push_bit k a OR b = a * 2 ^ k + b" if "b < 2 ^ k" for a b :: nat
proof -
  have "\<not> bit b n" if "k \<le> n" for n
    using nat_bit_le [of b n] \<open>b < 2 ^ k\<close> that by (meson le_less_trans linorder_not_le one_le_numeral power_increasing)
  then have "push_bit k a OR b = push_bit k a + b"
    by (subst disjunctive_add [symmetric]) (auto simp: bit_push_bit_iff)
  then show ?thesis by (simp add: push_bit_eq_mult)
qed

lemma unat_or_field:
  fixes x y :: "'a::len word"
  assumes "unat y < 2 ^ k" and "unat x * 2 ^ k < 2 ^ LENGTH('a)"
  shows "unat (push_bit k x OR y) = unat x * 2 ^ k + unat y"
proof -
  have "take_bit LENGTH('a) (push_bit k (unat x)) = push_bit k (unat x)"
    using assms(2) by (simp add: take_bit_nat_eq_self_iff push_bit_eq_mult)
  then show ?thesis
    using nat_or_field [OF assms(1), of "unat x"] by (simp add: unsigned_or_eq unsigned_push_bit_eq)
qed

section \<open>Pairs\<close>

lemma unat_min: "unat (min x y) = min (unat x) (unat y)"
  by (simp add: min_def word_le_nat_alt)

lemma unat_max: "unat (max x y) = max (unat x) (unat y)"
  by (simp add: max_def word_le_nat_alt)

lemma unat_pair_priority:
  assumes "unat l < 2 ^ 31" "unat r < 2 ^ 31"
  shows "unat (pair_priority_value IR_Controlling l r) =
    2 ^ 32 * min (unat l) (unat r) + 2 * max (unat l) (unat r) + (if unat l > unat r then 1 else 0)"
proof -
  define G D :: u64 where "G = ucast l" and "D = ucast r"
  have u: "unat G = unat l" "unat D = unat r" by (simp_all add: G_def D_def unsigned_ucast_eq take_bit_nat_eq_self less_le_trans [OF unsigned_less])
  define b :: u64 where "b = (if G > D then 1 else 0)"
  have b: "unat b = (if unat l > unat r then 1 else 0)" by (simp add: b_def word_less_nat_alt u)
  have "unat (push_bit 1 (max G D) OR b) = unat (max G D) * 2 ^ 1 + unat b"
    using assms u by (intro unat_or_field) (auto simp: b unat_max)
  then have inner: "unat (push_bit 1 (max G D) OR b) = 2 * max (unat l) (unat r) + unat b"
    by (simp add: unat_max u)
  have "unat (push_bit 32 (min G D) OR (push_bit 1 (max G D) OR b)) =
      unat (min G D) * 2 ^ 32 + unat (push_bit 1 (max G D) OR b)"
  proof (rule unat_or_field)
    show "unat (push_bit 1 (max G D) OR b) < 2 ^ 32" using assms inner b by auto
    show "unat (min G D) * 2 ^ 32 < 2 ^ LENGTH(64)" using assms u by (auto simp: unat_min min_def)
  qed
  then show ?thesis
    using inner b u by (simp add: pair_priority_value_def Let_def G_def [symmetric] D_def [symmetric] b_def [symmetric]
        unat_min or.assoc)
qed

lemma pair_priority_swap: "pair_priority_value IR_Controlled r l = pair_priority_value IR_Controlling l r"
  by (simp add: pair_priority_value_def)

section \<open>Candidates\<close>

lemma unat_candidate_priority:
  assumes "type_preference_values (c_type c) = Some tp" "1 \<le> unat (c_componentID c)" "unat (c_componentID c) \<le> 128"
    and "ice_compute_candidate_priority c = Some c'"
  shows "unat (c_priority c') = unat tp * 2 ^ 24 + 65535 * 2 ^ 8 +
    ((if ta_family (c_taddr c) = AF_INET6 then 128 else 0) + (128 - unat (c_componentID c)))"
proof -
  define k :: u32 where "k = word_of_int (128 - uint (c_componentID c))"
  have "word_of_int (128 - uint (c_componentID c)) = (of_nat (128 - unat (c_componentID c)) :: u32)"
    using assms(3) by (simp add: of_nat_diff)
  then have k: "unat k = 128 - unat (c_componentID c)"
    by (simp add: k_def unat_of_nat take_bit_nat_eq_self)
  define f :: u32 where "f = (if ta_family (c_taddr c) = AF_INET6 then push_bit 7 1 else 0)"
  define b :: u32 where "b = (if ta_family (c_taddr c) = AF_INET6 then 1 else 0)"
  have fb: "f = push_bit 7 b" by (simp add: f_def b_def)
  have "unat (push_bit 7 b OR k) = unat b * 2 ^ 7 + unat k"
    using k assms(2) by (intro unat_or_field) (auto simp: b_def)
  then have fk: "unat (f OR k) = (if ta_family (c_taddr c) = AF_INET6 then 128 else 0) + (128 - unat (c_componentID c))"
    by (simp add: fb b_def k)
  have "unat (push_bit 8 65535 OR (f OR k)) = 65535 * 2 ^ 8 + unat (f OR k)"
    using unat_or_field [of "f OR k" 8 "65535 :: u32"] fk assms(2) by auto
  moreover have "unat (push_bit 24 tp OR (push_bit 8 65535 OR (f OR k))) =
      unat tp * 2 ^ 24 + unat (push_bit 8 65535 OR (f OR k))"
  proof (rule unat_or_field)
    show "unat (push_bit 8 65535 OR (f OR k)) < 2 ^ 24" using calculation fk assms(2) by auto
    show "unat tp * 2 ^ 24 < 2 ^ LENGTH(32)" using assms(1) by (cases "c_type c") auto
  qed
  ultimately show ?thesis
    using assms(1,4) fk by (auto simp: ice_compute_candidate_priority_def Let_def f_def k_def or.assoc)
qed

lemma word_le_or:
  fixes x y :: "'a::len word"
  shows "y \<le> x OR y"
proof -
  have "uint y \<le> uint y OR uint x" by (rule or_greater_eq) simp
  then show ?thesis by (simp add: word_le_def unsigned_or_eq or.commute)
qed

lemma unat_minus_small:
  assumes "0 < n" "n \<le> 128"
  shows "2 ^ 32 - 128 \<le> unat (- of_nat n :: u32)"
proof -
  have e: "(- of_nat n :: u32) = of_nat (2 ^ 32 - n)" using assms by (simp add: of_nat_diff)
  have "unat (of_nat (2 ^ 32 - n) :: u32) = 2 ^ 32 - n" 
    using assms unfolding unat_of_nat by simp
  then show ?thesis using assms by (simp only: e)
qed

lemma high_component_priority:
  assumes "128 < unat (c_componentID c)" "unat (c_componentID c) \<le> 256"
    and "ice_compute_candidate_priority c = Some c'"
  shows "2 ^ 32 - 128 \<le> unat (c_priority c')"
proof -
  define k :: u32 where "k = word_of_int (128 - uint (c_componentID c))"
  have k: "k = - of_nat (unat (c_componentID c) - 128)" using assms(1) by (simp add: k_def of_nat_diff)
  have "2 ^ 32 - 128 \<le> unat k" unfolding k using assms(1,2) by (intro unat_minus_small) auto
  moreover have "k \<le> c_priority c'"
    using assms(3) unfolding ice_compute_candidate_priority_def k_def [symmetric]
    by (auto simp: Let_def bind_eq_Some_conv word_le_or simp flip: or.assoc)
  ultimately show ?thesis by (simp add: word_le_nat_alt)
qed

section \<open>Properties\<close>

lemma compute_pair_priority_eq:
  assumes "im_pairs m a = Some p" "pair_local m p = Some l" "pair_remote m p = Some r"
  shows "ice_compute_pair_priority role a m =
    Some (m\<lparr>im_pairs := (im_pairs m)(a \<mapsto> p\<lparr>p_priority := pair_priority_value role (c_priority l) (c_priority r)\<rparr>)\<rparr>)"
  using assms by (simp add: ice_compute_pair_priority_def upd_pair_def)



text \<open>A relayed IPv4 candidate of component 200 beats the host candidate of component 1.\<close>

definition sample_candidate :: "IceCandidateType \<Rightarrow> u16 \<Rightarrow> IceCandidate" where
  "sample_candidate type cid =
     \<lparr>c_foundation = [49], c_taddr = \<lparr>ta_ip = [49], ta_port = 5000, ta_family = AF_INET\<rparr>, c_type = type,
      c_priority = 0, c_componentID = cid, c_base = None, c_is_default = False\<rparr>"


definition sample_pair_mem :: "u32 \<Rightarrow> u32 \<Rightarrow> ice_mem" where
  "sample_pair_mem l r = (ice_session_new (\<lambda>_. 0))
     \<lparr>im_cands := [1 \<mapsto> (sample_candidate ICT_HostCandidate 1)\<lparr>c_priority := l\<rparr>,
                   2 \<mapsto> (sample_candidate ICT_HostCandidate 1)\<lparr>c_priority := r\<rparr>],
      im_pairs := [3 \<mapsto> \<lparr>p_role = IR_Controlling, p_local = Some 1, p_remote = Some 2, p_state = ICP_Frozen, p_priority = 0,
        p_transmission_time = time_zero, p_rto = 200, p_retransmissions = 0, p_is_default = False, p_use_candidate = False,
        p_is_nominated = False, p_nomination_pending = False, p_has_canceled_transaction = False,
        p_nomination_failing = False, p_retry_with_dummy_message_integrity = False, p_use_dummy_hmac = False\<rparr>]\<rparr>"


end
