(* ===== verification/Ice_Lists.thy ===== *)
theory Ice_Lists
  imports Ice_Receive "HOL-Library.Multiset"
begin

text \<open>
  Facts about the list functions of bctoolbox that the ICE proofs share: searching, iterating with an invariant,
  what an operation leaves alone, and insertion into a list ordered by priority, stated once as an interface and given
  for the check list, the valid list and the list of pairs to nominate.
\<close>

section \<open>Searching and iterating\<close>

lemma find_custom_defined:
  assumes "\<forall>x \<in> set xs. f x \<noteq> None"
  shows "bctbx_list_find_custom xs f = Some (List.find (\<lambda>x. f x = Some True) xs)"
  using assms by (induction xs) auto

lemma for_each2_invariant:
  assumes "\<And>x s. x \<in> set xs \<Longrightarrow> I s \<Longrightarrow> succeeds (f x s) I" "I s"
  shows "succeeds (bctbx_list_for_each2 xs f s) I"
  using assms
proof (induction xs arbitrary: s)
  case (Cons x xs)
  then show ?case by (fastforce simp: succeeds_def split: option.splits)
qed (simp add: succeeds_def)

section \<open>What an operation leaves alone\<close>

text \<open>\<open>keeps R m r\<close>: if the operation has a result, it is related to the memory \<open>m\<close> it started from. The rules
  follow the structure of a definition, for any relation that holds of equal memories and composes.\<close>

definition keeps :: "(ice_mem \<Rightarrow> ice_mem \<Rightarrow> bool) \<Rightarrow> ice_mem \<Rightarrow> ice_mem option \<Rightarrow> bool" where
  "keeps R m r \<longleftrightarrow> (\<forall>m'. r = Some m' \<longrightarrow> R m m')"

locale mem_frame =
  fixes R :: "ice_mem \<Rightarrow> ice_mem \<Rightarrow> bool"
  assumes R_refl: "R m m" and R_trans: "R m1 m2 \<Longrightarrow> R m2 m3 \<Longrightarrow> R m1 m3"
begin

lemma keepsD: "keeps R m r \<Longrightarrow> r = Some m' \<Longrightarrow> R m m'"
  by (simp add: keeps_def)

lemma keeps_Some: "R m m' \<Longrightarrow> keeps R m (Some m')"
  by (simp add: keeps_def)

lemma keeps_from: "R m m1 \<Longrightarrow> keeps R m1 r \<Longrightarrow> keeps R m r"
  using R_trans by (auto simp: keeps_def)

lemma keeps_step:
  "keeps R m r \<Longrightarrow> (\<And>m1. R m m1 \<Longrightarrow> r = Some m1 \<Longrightarrow> keeps R m (f m1)) \<Longrightarrow> keeps R m (Option.bind r f)"
  by (cases r) (auto simp: keeps_def)

lemma keeps_read: "(\<And>x. r = Some x \<Longrightarrow> keeps R m (f x)) \<Longrightarrow> keeps R m (Option.bind r f)"
  by (cases r) (auto simp: keeps_def)

lemma keeps_read_pair: "(\<And>x y. r = Some (x, y) \<Longrightarrow> keeps R m (f x y)) \<Longrightarrow> keeps R m (Option.bind r (\<lambda>(x, y). f x y))"
  by (cases r) (auto simp: keeps_def)

lemma keeps_if: "(P \<Longrightarrow> keeps R m a) \<Longrightarrow> (\<not> P \<Longrightarrow> keeps R m b) \<Longrightarrow> keeps R m (if P then a else b)"
  by simp

lemma keeps_option:
  "(x = None \<Longrightarrow> keeps R m a) \<Longrightarrow> (\<And>y. x = Some y \<Longrightarrow> keeps R m (f y)) \<Longrightarrow> keeps R m (case x of None \<Rightarrow> a | Some y \<Rightarrow> f y)"
  by (cases x) auto

lemma keeps_prod: "(\<And>x y. p = (x, y) \<Longrightarrow> keeps R m (f x y)) \<Longrightarrow> keeps R m (case p of (x, y) \<Rightarrow> f x y)"
  by (cases p) auto

lemma keeps_for_each2:
  assumes "R m m1" "\<And>x m. keeps R m (f x m)"
  shows "keeps R m (bctbx_list_for_each2 xs f m1)"
  using assms(1)
proof (induction xs arbitrary: m1)
  case (Cons x xs)
  show ?case
    using Cons keeps_from [OF Cons.prems assms(2) [of m1 x]] by (auto simp: keeps_def bind_eq_Some_conv)
qed (simp add: keeps_def)

lemmas keeps_intros = keeps_Some keeps_step keeps_read keeps_read_pair keeps_if keeps_option keeps_prod keeps_for_each2 R_refl

end

section \<open>Lists ordered by priority\<close>

locale priority_list =
  fixes cmp :: "'a \<Rightarrow> 'a \<Rightarrow> bool option" and key :: "'a \<Rightarrow> 'k::linorder" and live :: "'a \<Rightarrow> bool"
  assumes cmp_live: "live a \<Longrightarrow> live b \<Longrightarrow> cmp a b = Some (key b \<le> key a)"
begin

abbreviation decreasing :: "'a list \<Rightarrow> bool" where
  "decreasing xs \<equiv> sorted_wrt (\<lambda>a b. key b \<le> key a) xs"

lemma insert_defined:
  assumes "live d" "\<forall>x \<in> set xs. live x"
  shows "\<exists>ys. bctbx_list_insert_sorted xs d cmp = Some ys \<and> mset ys = add_mset d (mset xs) \<and>
    (decreasing xs \<longrightarrow> decreasing ys)"
  using assms
proof (induction xs)
  case (Cons x xs)
  then obtain ys where ys: "bctbx_list_insert_sorted xs d cmp = Some ys" "mset ys = add_mset d (mset xs)"
    "decreasing xs \<Longrightarrow> decreasing ys" by auto
  from ys(2) have "set ys = insert d (set xs)" by (metis set_mset_add_mset_insert set_mset_mset)
  then show ?case
    using Cons.prems ys cmp_live [of d x] by auto
qed auto

lemma insert_succeeds:
  assumes "live d" "\<forall>x \<in> set xs. live x" "decreasing xs"
  shows "succeeds (bctbx_list_insert_sorted xs d cmp)
    (\<lambda>ys. mset ys = add_mset d (mset xs) \<and> set ys = insert d (set xs) \<and> length ys = Suc (length xs) \<and> decreasing ys)"
proof -
  obtain ys where ys: "bctbx_list_insert_sorted xs d cmp = Some ys" "mset ys = add_mset d (mset xs)" "decreasing ys"
    using insert_defined [OF assms(1,2)] assms(3) by blast
  then have "set ys = insert d (set xs)" "length ys = Suc (length xs)"
    by (metis set_mset_add_mset_insert set_mset_mset, metis size_add_mset size_mset)
  with ys show ?thesis by (simp add: succeeds_def)
qed

end

definition priority_of :: "ice_mem \<Rightarrow> iptr \<Rightarrow> u64" where
  "priority_of m a = (case im_pairs m a of Some p \<Rightarrow> p_priority p | None \<Rightarrow> 0)"

definition valid_priority_of :: "ice_mem \<Rightarrow> iptr \<Rightarrow> u64" where
  "valid_priority_of m v = (case im_valids m v of Some x \<Rightarrow> priority_of m (v_valid x) | None \<Rightarrow> 0)"

definition valid_live :: "ice_mem \<Rightarrow> iptr \<Rightarrow> bool" where
  "valid_live m v = (case im_valids m v of Some x \<Rightarrow> im_pairs m (v_valid x) \<noteq> None | None \<Rightarrow> False)"

interpretation check_order: priority_list "\<lambda>a b. map_option Not (ice_compare_pair_priorities m a b)" "priority_of m"
  "\<lambda>a. im_pairs m a \<noteq> None" for m
  by unfold_locales (auto simp: ice_compare_pair_priorities_def priority_of_def)

interpretation valid_order: priority_list "\<lambda>a b. map_option Not (ice_compare_valid_pair_priorities m a b)"
  "valid_priority_of m" "valid_live m" for m
  by unfold_locales
    (auto simp: ice_compare_valid_pair_priorities_def ice_compare_pair_priorities_def valid_live_def
      valid_priority_of_def priority_of_def split: option.splits)

interpretation nomination_order: priority_list "\<lambda>a b. map_option Not (valid_pair_compare m a b)"
  "valid_priority_of m" "valid_live m" for m
  by unfold_locales
    (auto simp: valid_pair_compare_def valid_live_def valid_priority_of_def priority_of_def split: option.splits)

end
