(* ===== verification/Ice_Candidates_Spec.thy ===== *)
theory Ice_Candidates_Spec
  imports Ice_Lists
begin

text \<open>
  Candidates: the elimination of the redundant ones ends, frees what it removes and keeps a best candidate of each
  group.
\<close>

section \<open>Redundant candidates\<close>

definition same_base_and_address :: "ice_mem \<Rightarrow> iptr \<Rightarrow> iptr \<Rightarrow> bool" where
  "same_base_and_address m a b =
     (case (im_cands m a, im_cands m b) of
        (Some c, Some d) \<Rightarrow> ice_compare_transport_addresses (c_taddr c) (c_taddr d) \<and> c_base c = c_base d
      | _ \<Rightarrow> False)"

definition candidate_priority :: "ice_mem \<Rightarrow> iptr \<Rightarrow> u32" where
  "candidate_priority m a = (case im_cands m a of Some c \<Rightarrow> c_priority c | None \<Rightarrow> 0)"

lemma find_redundant_candidate_eq:
  assumes "im_cands m a \<noteq> None" "im_cands m b \<noteq> None"
  shows "ice_find_redundant_candidate m a b = Some (b \<noteq> a \<and> same_base_and_address m b a)"
  using assms by (auto simp: ice_find_redundant_candidate_def same_base_and_address_def)

lemma same_base_and_address_refl: "im_cands m a \<noteq> None \<Longrightarrow> same_base_and_address m a a"
  by (auto simp: same_base_and_address_def ice_compare_transport_addresses_def)

lemma same_base_and_address_trans:
  "same_base_and_address m a b \<Longrightarrow> same_base_and_address m b c \<Longrightarrow> same_base_and_address m a c"
  by (auto simp: same_base_and_address_def ice_compare_transport_addresses_def split: option.splits)

lemma same_base_and_address_sym: "same_base_and_address m a b \<Longrightarrow> same_base_and_address m b a"
  by (auto simp: same_base_and_address_def ice_compare_transport_addresses_def split: option.splits)

lemma find_redundant_defined:
  assumes "\<forall>a \<in> set all. im_cands m a \<noteq> None" "set as \<subseteq> set all"
  shows "\<exists>r. find_redundant m all as = Some r \<and>
    (r = None \<longrightarrow> (\<forall>a \<in> set as. \<forall>b \<in> set all. b \<noteq> a \<longrightarrow> \<not> same_base_and_address m b a))"
  using assms(2)
proof (induction as)
  case (Cons a as)
  have d: "\<forall>x \<in> set all. ice_find_redundant_candidate m a x \<noteq> None"
    using Cons.prems assms(1) by (auto simp: find_redundant_candidate_eq)
  obtain r where r: "bctbx_list_find_custom all (ice_find_redundant_candidate m a) = Some r"
    using find_custom_defined [OF d] by blast
  show ?case
  proof (cases r)
    case None
    then have "\<forall>b \<in> set all. b \<noteq> a \<longrightarrow> \<not> same_base_and_address m b a"
      using find_custom_NoneD [OF r [unfolded None]] Cons.prems assms(1) by (auto simp: find_redundant_candidate_eq)
    with Cons r None show ?thesis by fastforce
  qed (use r in auto)
qed auto

text \<open>What the loop guarantees: \<open>as'\<close> is left of \<open>as\<close>, the others are freed, no two are redundant and each candidate
  is represented by one that is at least as good.\<close>

definition reduced :: "ice_mem \<Rightarrow> iptr list \<Rightarrow> iptr list \<Rightarrow> ice_mem \<Rightarrow> bool" where
  "reduced m as as' m' \<longleftrightarrow> distinct as' \<and> set as' \<subseteq> set as \<and>
     m' = m\<lparr>im_cands := (\<lambda>a. if a \<in> set as - set as' then None else im_cands m a)\<rparr> \<and>
     (\<forall>a \<in> set as'. \<forall>b \<in> set as'. b \<noteq> a \<longrightarrow> \<not> same_base_and_address m b a) \<and>
     (\<forall>a \<in> set as. \<exists>b \<in> set as'. same_base_and_address m a b \<and> candidate_priority m a \<le> candidate_priority m b)"

lemma reduced_step:
  assumes "distinct as" "d \<in> set as" "k \<in> set as" "k \<noteq> d"
    and "same_base_and_address m d k" "candidate_priority m d \<le> candidate_priority m k"
    and red: "reduced (ice_free_candidate m d) (bctbx_list_remove as d) as' m'"
  shows "reduced m as as' m'"
proof -
  let ?m = "ice_free_candidate m d"
  have s: "set (bctbx_list_remove as d) = set as - {d}" using assms(1) by (simp add: bctbx_list_remove_def)
  have same: "same_base_and_address ?m a b = same_base_and_address m a b" "candidate_priority ?m a = candidate_priority m a"
    if "a \<noteq> d" "b \<noteq> d" for a b
    using that by (simp_all add: same_base_and_address_def candidate_priority_def ice_free_candidate_def)
  have sub: "set as' \<subseteq> set as - {d}" using red by (simp add: reduced_def s)
  have "\<exists>b \<in> set as'. same_base_and_address m a b \<and> candidate_priority m a \<le> candidate_priority m b"
    if "a \<in> set as" "a \<noteq> d" for a
  proof -
    have "a \<in> set (bctbx_list_remove as d)" using that s by simp
    with red obtain b where b: "b \<in> set as'" "same_base_and_address ?m a b" "candidate_priority ?m a \<le> candidate_priority ?m b"
      unfolding reduced_def by blast
    have "b \<noteq> d" using sub b(1) by auto
    then show ?thesis using b same [of a b] same [of b a] that(2) by auto
  qed
  note rep = this
  have "\<exists>b \<in> set as'. same_base_and_address m a b \<and> candidate_priority m a \<le> candidate_priority m b" if "a \<in> set as" for a
  proof (cases "a = d")
    case True
    obtain b where "b \<in> set as'" "same_base_and_address m k b" "candidate_priority m k \<le> candidate_priority m b"
      using rep [OF assms(3,4)] by blast
    then show ?thesis using True assms(5,6) same_base_and_address_trans [of m d k b] by (auto intro: order_trans)
  qed (rule rep [OF that])
  moreover have "\<not> same_base_and_address m b a" if "a \<in> set as'" "b \<in> set as'" "b \<noteq> a" for a b
  proof -
    have "a \<noteq> d" "b \<noteq> d" using sub that by auto
    then show ?thesis using red that same(1) [of b a] unfolding reduced_def by simp
  qed
  moreover have "m' = m\<lparr>im_cands := (\<lambda>a. if a \<in> set as - set as' then None else im_cands m a)\<rparr>"
  proof -
    have "(\<lambda>a. if a \<in> (set as - {d}) - set as' then None else im_cands ?m a) =
        (\<lambda>a. if a \<in> set as - set as' then None else im_cands m a)"
      using sub assms(2) by (auto simp: fun_eq_iff ice_free_candidate_def)
    then show ?thesis using red unfolding reduced_def s by (simp add: ice_free_candidate_def)
  qed
  ultimately show ?thesis using red sub unfolding reduced_def by auto
qed

lemma eliminate_redundant_reduces:
  assumes "distinct as" "\<forall>a \<in> set as. im_cands m a \<noteq> None"
  shows "\<exists>as' m'. eliminate_redundant m as = Some (as', m') \<and> reduced m as as' m'"
  using assms
proof (induction m as rule: eliminate_redundant.induct)
  case (1 m as)
  obtain r where r: "find_redundant m as as = Some r"
    "r = None \<Longrightarrow> \<forall>a \<in> set as. \<forall>b \<in> set as. b \<noteq> a \<longrightarrow> \<not> same_base_and_address m b a"
    using find_redundant_defined [OF "1.prems"(2) order_refl] by blast
  show ?case
  proof (cases r)
    case None
    then have "reduced m as as m"
      using r(2) "1.prems" same_base_and_address_refl by (fastforce simp: reduced_def)
    then show ?thesis using r(1) None by (simp add: eliminate_redundant.simps)
  next
    case (Some ab)
    obtain a b where ab: "ab = (a, b)" by force
    from find_redundantD [OF r(1) [unfolded Some ab]] "1.prems"(2)
    have in_as: "a \<in> set as" "b \<in> set as" and ne: "b \<noteq> a" "same_base_and_address m b a"
      by (auto simp: find_redundant_candidate_eq)
    obtain ca cb where c: "im_cands m a = Some ca" "im_cands m b = Some cb" using in_as "1.prems"(2) by blast
    have prem: "distinct (bctbx_list_remove as x)" "\<forall>y \<in> set (bctbx_list_remove as x). im_cands (ice_free_candidate m x) y \<noteq> None" for x
      using "1.prems" by (auto simp: bctbx_list_remove_def ice_free_candidate_def)
    show ?thesis
    proof (cases "c_priority cb < c_priority ca")
      case True
      then show ?thesis
        using "1.IH"(1) [OF r(1) Some ab [symmetric] refl c True prem] r(1) Some ab c
          reduced_step [OF "1.prems"(1) in_as(2,1) ne(1) [symmetric] ne(2)]
        by (subst eliminate_redundant.simps) (auto simp: candidate_priority_def)
    next
      case False
      then show ?thesis
        using "1.IH"(2) [OF r(1) Some ab [symmetric] refl c False prem] r(1) Some ab c
          reduced_step [OF "1.prems"(1) in_as ne(1) same_base_and_address_sym [OF ne(2)]]
        by (subst eliminate_redundant.simps) (auto simp: candidate_priority_def)
    qed
  qed
qed

text \<open>C35: The elimination of redundant candidates of a running check list ends without touching freed memory. The
  candidates it removes are freed and leave the list, no two of the remaining ones have the same transport address
  and base, and every candidate that was there is represented by one with the same address and base whose priority
  is at least as high.
\<close>

theorem eliminate_redundant_candidates_correct:
  assumes "im_lists m cl = Some l" "cl_state l = ICL_Running" "distinct (cl_local_candidates l)"
    and "\<forall>a \<in> set (cl_local_candidates l). im_cands m a \<noteq> None"
  shows "\<exists>as' m'. ice_check_list_eliminate_redundant_candidates cl m = Some m' \<and>
    im_lists m' cl = Some (l\<lparr>cl_local_candidates := as'\<rparr>) \<and> distinct as' \<and> set as' \<subseteq> set (cl_local_candidates l) \<and>
    (\<forall>a. im_cands m' a = (if a \<in> set (cl_local_candidates l) - set as' then None else im_cands m a)) \<and>
    (\<forall>a \<in> set as'. \<forall>b \<in> set as'. b \<noteq> a \<longrightarrow> \<not> same_base_and_address m b a) \<and>
    (\<forall>a \<in> set (cl_local_candidates l). \<exists>b \<in> set as'.
       same_base_and_address m a b \<and> candidate_priority m a \<le> candidate_priority m b)"
proof -
  obtain as' m' where e: "eliminate_redundant m (cl_local_candidates l) = Some (as', m')" "reduced m (cl_local_candidates l) as' m'"
    using eliminate_redundant_reduces [OF assms(3,4)] by blast
  then show ?thesis
    using assms(1,2)
    by (intro exI [of _ as'])
       (auto simp: ice_check_list_eliminate_redundant_candidates_def reduced_def upd_list_def)
qed

text \<open>A host candidate and a server reflexive candidate with the same address and base.\<close>

definition sample_check_list :: IceCheckList where
  "sample_check_list = (ice_check_list_init time_zero False)\<lparr>cl_session := True, cl_local_candidates := [1, 2]\<rparr>"

definition sample_local_candidate :: "IceCandidateType \<Rightarrow> u32 \<Rightarrow> IceCandidate" where
  "sample_local_candidate type prio =
     \<lparr>c_foundation = [49], c_taddr = \<lparr>ta_ip = [49], ta_port = 5000, ta_family = AF_INET\<rparr>, c_type = type,
      c_priority = prio, c_componentID = 1, c_base = Some 1, c_is_default = False\<rparr>"

theorem eliminate_redundant_candidates_correct_witness:
  "\<exists>as' m'. ice_check_list_eliminate_redundant_candidates 0
     ((ice_session_new (\<lambda>_. 0))\<lparr>im_lists := [0 \<mapsto> sample_check_list],
        im_cands := [1 \<mapsto> sample_local_candidate ICT_HostCandidate 9, 2 \<mapsto> sample_local_candidate ICT_ServerReflexiveCandidate 5]\<rparr>) = Some m' \<and>
     im_lists m' 0 = Some (sample_check_list\<lparr>cl_local_candidates := as'\<rparr>) \<and> set as' \<subseteq> {1, 2} \<and> distinct as'"
  using eliminate_redundant_candidates_correct [of "(ice_session_new (\<lambda>_. 0))\<lparr>im_lists := [0 \<mapsto> sample_check_list],
        im_cands := [1 \<mapsto> sample_local_candidate ICT_HostCandidate 9, 2 \<mapsto> sample_local_candidate ICT_ServerReflexiveCandidate 5]\<rparr>" 0]
  by (fastforce simp: sample_check_list_def ice_check_list_init_def)

end
