(* ===== verification/Ice_Pairs_Spec.thy ===== *)
theory Ice_Pairs_Spec
  imports Ice_Lists
begin

text \<open>
  The check list: how it is formed from the candidates, without access to freed memory, ordered by decreasing priority,
  bounded, and made of the pairs that are left.
\<close>

section \<open>Outcomes\<close>

lemma succeeds_bind: "succeeds r P \<Longrightarrow> (\<And>x. P x \<Longrightarrow> succeeds (f x) Q) \<Longrightarrow> succeeds (Option.bind r f) Q"
  by (cases r) (auto simp: succeeds_def)

lemma succeeds_weaken: "succeeds r P \<Longrightarrow> (\<And>x. P x \<Longrightarrow> Q x) \<Longrightarrow> succeeds r Q"
  by (cases r) (auto simp: succeeds_def)

lemma succeeds_Some [simp]: "succeeds (Some x) P = P x"
  by (simp add: succeeds_def)

section \<open>Live pairs\<close>

text \<open>A local candidate that the pruning may replace has a base that it does not replace.\<close>

definition local_ok :: "ice_mem \<Rightarrow> iptr option \<Rightarrow> bool" where
  "local_ok m a \<longleftrightarrow> (\<exists>c. cand_at m a = Some c \<and> (c_type c = ICT_ServerReflexiveCandidate \<longrightarrow>
     (\<exists>d. cand_at m (c_base c) = Some d \<and> c_type d \<noteq> ICT_ServerReflexiveCandidate)))"

text \<open>A frozen pair of live candidates; with \<open>b\<close>, the local one is not server reflexive.\<close>

definition pair_ok :: "bool \<Rightarrow> ice_mem \<Rightarrow> iptr \<Rightarrow> bool" where
  "pair_ok b m a \<longleftrightarrow> (\<exists>p. im_pairs m a = Some p \<and> p_state p = ICP_Frozen \<and> local_ok m (p_local p) \<and>
     pair_remote m p \<noteq> None \<and> (b \<longrightarrow> (\<exists>c. pair_local m p = Some c \<and> c_type c \<noteq> ICT_ServerReflexiveCandidate)))"

definition candidates_ok :: "ice_mem \<Rightarrow> IceCheckList \<Rightarrow> bool" where
  "candidates_ok m l \<longleftrightarrow> (\<forall>a \<in> set (cl_local_candidates l). local_ok m (Some a)) \<and>
     (\<forall>a \<in> set (cl_remote_candidates l). im_cands m a \<noteq> None)"

text \<open>The state of the formation: the candidates and the rest of the check list \<open>l\<close> are those of \<open>m0\<close>, the pairs are
  \<open>ps\<close> and the list to check is \<open>cs\<close>.\<close>

definition forming :: "bool \<Rightarrow> ice_mem \<Rightarrow> IceCheckList \<Rightarrow> iptr \<Rightarrow> iptr list \<Rightarrow> iptr list \<Rightarrow> ice_mem \<Rightarrow> bool" where
  "forming b m0 l cl ps cs m \<longleftrightarrow> im_lists m cl = Some (l\<lparr>cl_pairs := ps, cl_check_list := cs\<rparr>) \<and>
     im_cands m = im_cands m0 \<and> im_session m = im_session m0 \<and> distinct ps \<and>
     (\<forall>a \<in> set ps. a < im_next m \<and> pair_ok b m a)"

lemma pair_ok_frame:
  "im_cands m' = im_cands m \<Longrightarrow> im_pairs m' a = im_pairs m a \<Longrightarrow> pair_ok b m' a = pair_ok b m a"
  by (simp add: pair_ok_def local_ok_def pair_local_def pair_remote_def cand_at_def)

lemma pair_ok_weaken: "pair_ok b m a \<Longrightarrow> pair_ok False m a"
  by (auto simp: pair_ok_def)

lemma local_ok_cands: "im_cands m' = im_cands m \<Longrightarrow> local_ok m' a = local_ok m a"
  by (simp add: local_ok_def cand_at_def)

lemma forming_session: "forming b m0 l cl ps cs m \<Longrightarrow> cl_session l \<Longrightarrow> session_of m cl = Some (im_session m0)"
  by (simp add: forming_def session_of_def)

lemma forming_list: "forming b m0 l cl ps cs m \<Longrightarrow> im_lists m cl = Some (l\<lparr>cl_pairs := ps, cl_check_list := cs\<rparr>)"
  by (simp add: forming_def)

lemma forming_cands: "forming b m0 l cl ps cs m \<Longrightarrow> im_cands m = im_cands m0"
  by (simp add: forming_def)

lemma forming_pair:
  assumes "forming b m0 l cl ps cs m" "a \<in> set ps"
  obtains p c d where "im_pairs m a = Some p" "pair_local m p = Some c" "pair_remote m p = Some d"
    "p_state p = ICP_Frozen" "local_ok m (p_local p)"
  using assms by (fastforce simp: forming_def pair_ok_def local_ok_def pair_local_def)

text \<open>A change of memory that leaves the candidates, the session and the remaining pairs alone.\<close>

lemma forming_step:
  assumes "forming b m0 l cl ps cs m" "im_lists m' cl = Some (l\<lparr>cl_pairs := ps', cl_check_list := cs'\<rparr>)"
    and "im_cands m' = im_cands m" "im_session m' = im_session m" "im_next m \<le> im_next m'"
    and "distinct ps'" "set ps' \<subseteq> set ps" "\<And>a. a \<in> set ps' \<Longrightarrow> im_pairs m' a = im_pairs m a"
  shows "forming b m0 l cl ps' cs' m'"
  unfolding forming_def
proof (intro conjI ballI)
  fix a assume a: "a \<in> set ps'"
  then have "a \<in> set ps" using assms(7) by blast
  then have "a < im_next m" "pair_ok b m a" using assms(1) by (simp_all add: forming_def)
  then show "a < im_next m'" "pair_ok b m' a"
    using assms(5) pair_ok_frame [OF assms(3) assms(8) [OF a]] by simp_all
qed (use assms in \<open>simp_all add: forming_def\<close>)

section \<open>Formation\<close>

lemma turn_permissions_forming:
  assumes "forming b m0 l cl ps cs m" "cl_session l" "candidates_ok m0 l"
  shows "succeeds (ice_create_turn_permissions cl m) (forming b m0 l cl ps cs)"
proof -
  have step: "succeeds (create_turn_permission cl a m) (forming b m0 l cl ps cs)"
    if "a \<in> set (cl_remote_candidates l)" and f: "forming b m0 l cl ps cs m" for a m
  proof -
    have "im_cands m a \<noteq> None" using that(1) assms(3) forming_cands [OF f] by (simp add: candidates_ok_def)
    then obtain c where c: "im_cands m a = Some c" by blast
    have live: "\<forall>x \<in> set (cl_local_candidates l). im_cands m x \<noteq> None"
      using assms(3) forming_cands [OF f] by (auto simp: candidates_ok_def local_ok_def cand_at_def)
    then have "\<forall>x \<in> set (cl_local_candidates l). ice_find_candidate_from_type_family_and_componentID m type family cid x \<noteq> None"
      for type family cid by (auto simp: ice_find_candidate_from_type_family_and_componentID_def)
    from find_custom_defined [OF this]
    obtain r where r: "bctbx_list_find_custom (cl_local_candidates l)
        (ice_find_candidate_from_type_family_and_componentID m ICT_RelayedCandidate (ta_family (c_taddr c)) (c_componentID c)) = Some r"
      by blast
    have ice_emit: "forming b m0 l cl ps cs (ice_emit m e)" for e
      by (rule forming_step [OF f]) (use f in \<open>simp_all add: ice_emit_def forming_def\<close>)
    show ?thesis
    proof (cases r)
      case (Some x)
      then have "im_cands m x \<noteq> None" using find_customD [OF r [unfolded Some]] live by blast
      then show ?thesis using f c r Some ice_emit by (auto simp: create_turn_permission_def forming_list)
    qed (use f c r in \<open>simp add: create_turn_permission_def forming_list\<close>)
  qed
  show ?thesis
    using for_each2_invariant [of "cl_remote_candidates l" "forming b m0 l cl ps cs", OF step assms(1)]
      forming_session [OF assms(1,2)] assms(1)
    by (simp add: ice_create_turn_permissions_def forming_list)
qed

lemma pair_new_eq:
  assumes "cand_at m lc = Some l" "cand_at m rc = Some r" "session_of m cl = Some s"
  shows "\<exists>p. ice_pair_new m cl lc rc = Some (im_next m, m\<lparr>im_next := Suc (im_next m), im_pairs := (im_pairs m)(im_next m \<mapsto> p)\<rparr>) \<and>
    p_local p = lc \<and> p_remote p = rc \<and> p_state p = ICP_Frozen \<and>
    p_priority p = pair_priority_value (s_role s) (c_priority l) (c_priority r)"
proof -
  have "cand_at (m\<lparr>im_pairs := x, im_next := y\<rparr>) = cand_at m" for x y by (simp add: fun_eq_iff cand_at_def)
  then show ?thesis
    using assms
    by (simp add: ice_pair_new_def ice_compute_pair_priority_def pair_local_def pair_remote_def upd_pair_def Let_def)
      (rule exI, intro conjI, rule refl, simp_all)
qed

lemma form_pair_forming:
  assumes f: "forming False m0 l cl ps cs m" and "cl_session l" "candidates_ok m0 l"
    and "a \<in> set (cl_local_candidates l)" "x \<in> set (cl_remote_candidates l)"
  shows "succeeds (form_pair cl a x m) (\<lambda>m'. \<exists>ps'. forming False m0 l cl ps' cs m')"
proof -
  have la: "local_ok m (Some a)" using assms(3,4) local_ok_cands [OF forming_cands [OF f]] by (simp add: candidates_ok_def)
  then obtain c where c: "cand_at m (Some a) = Some c" by (auto simp: local_ok_def)
  have "cand_at m (Some x) \<noteq> None" using assms(3,5) forming_cands [OF f] by (simp add: candidates_ok_def cand_at_def)
  then obtain d where d: "cand_at m (Some x) = Some d" by blast
  obtain p where p: "ice_pair_new m cl (Some a) (Some x) = Some (im_next m, m\<lparr>im_next := Suc (im_next m), im_pairs := (im_pairs m)(im_next m \<mapsto> p)\<rparr>)"
    "p_local p = Some a" "p_remote p = Some x" "p_state p = ICP_Frozen"
    using pair_new_eq [OF c d forming_session [OF f assms(2)]] by blast
  define m' where "m' = m\<lparr>im_next := Suc (im_next m), im_pairs := (im_pairs m)(im_next m \<mapsto> p),
    im_lists := (im_lists m)(cl \<mapsto> l\<lparr>cl_check_list := cs, cl_pairs := ps @ [im_next m]\<rparr>)\<rparr>"
  have fresh: "\<forall>y \<in> set ps. y < im_next m" "distinct ps" using f by (simp_all add: forming_def)
  have "forming False m0 l cl ps cs (m'\<lparr>im_lists := im_lists m\<rparr>)"
    by (rule forming_step [OF f]) (use fresh forming_list [OF f] in \<open>auto simp: m'_def\<close>)
  then have "\<forall>y \<in> set ps. pair_ok False m' y"
    using pair_ok_frame [of "m'\<lparr>im_lists := im_lists m\<rparr>" m'] by (simp add: forming_def)
  moreover have "pair_ok False m' (im_next m)"
    using p la d by (simp add: pair_ok_def m'_def local_ok_def pair_remote_def cand_at_def)
  ultimately have "forming False m0 l cl (ps @ [im_next m]) cs m'"
    using f fresh by (auto simp: forming_def m'_def less_Suc_eq)
  moreover have "upd_list (m\<lparr>im_next := Suc (im_next m), im_pairs := (im_pairs m)(im_next m \<mapsto> p)\<rparr>) cl
      (\<lambda>l. l\<lparr>cl_pairs := bctbx_list_append (cl_pairs l) (im_next m)\<rparr>) = Some m'"
    using forming_list [OF f] by (simp add: upd_list_def m'_def bctbx_list_append_def)
  ultimately show ?thesis
    using f c d p(1) by (auto simp: form_pair_def cand_at_def)
qed

lemma form_pairs_forming:
  assumes "forming False m0 l cl ps cs m" "cl_session l" "candidates_ok m0 l"
  shows "succeeds (ice_form_candidate_pairs cl m) (\<lambda>m'. \<exists>ps'. forming False m0 l cl ps' cs m')"
proof -
  let ?I = "\<lambda>m'. \<exists>ps'. forming False m0 l cl ps' cs m'"
  have inner: "succeeds (bctbx_list_for_each2 (cl_remote_candidates l) (form_pair cl a) m1) ?I"
    if "a \<in> set (cl_local_candidates l)" "?I m1" for a m1
    by (rule for_each2_invariant [where I = ?I, OF _ that(2)]) (use form_pair_forming [OF _ assms(2,3) that(1)] in blast)
  have "succeeds (bctbx_list_for_each2 (cl_local_candidates l)
      (\<lambda>a. bctbx_list_for_each2 (cl_remote_candidates l) (form_pair cl a)) m) ?I"
    by (rule for_each2_invariant [where I = ?I]) (use inner assms(1) in blast)+
  then show ?thesis using assms(1) by (simp add: ice_form_candidate_pairs_def forming_list)
qed

section \<open>Pruning\<close>

lemma replace_srflx_pair:
  assumes f: "forming False m0 l cl ps cs m" and "a \<in> set ps"
  shows "succeeds (ice_replace_srflx_by_base_in_pair a m)
    (\<lambda>m'. forming False m0 l cl ps cs m' \<and> pair_ok True m' a \<and> (\<forall>x. x \<noteq> a \<longrightarrow> im_pairs m' x = im_pairs m x))"
proof -
  obtain p c d where p: "im_pairs m a = Some p" "pair_local m p = Some c" "pair_remote m p = Some d"
    "p_state p = ICP_Frozen" "local_ok m (p_local p)" by (rule forming_pair [OF assms])
  define q where "q = (if c_type c = ICT_ServerReflexiveCandidate then p\<lparr>p_local := c_base c\<rparr> else p)"
  define m' where "m' = m\<lparr>im_pairs := (im_pairs m)(a \<mapsto> q)\<rparr>"
  have "pair_ok True m' a"
    using p by (auto simp: pair_ok_def m'_def q_def local_ok_def pair_local_def pair_remote_def cand_at_def)
  moreover from this have "pair_ok False m' x" if "x \<in> set ps" for x
    using that f pair_ok_frame [of m' m x] pair_ok_weaken by (cases "x = a") (auto simp: m'_def forming_def)
  then have "forming False m0 l cl ps cs m'" using f by (simp add: forming_def m'_def)
  ultimately show ?thesis
    using p(1,2) by (simp add: ice_replace_srflx_by_base_in_pair_def upd_pair_def m'_def q_def)
qed

lemma replace_srflx_forming:
  assumes "forming False m0 l cl ps cs m" "set xs \<subseteq> set ps" "distinct xs" "\<forall>x \<in> set ps - set xs. pair_ok True m x"
  shows "succeeds (bctbx_list_for_each2 xs ice_replace_srflx_by_base_in_pair m) (forming True m0 l cl ps cs)"
  using assms
proof (induction xs arbitrary: m)
  case Nil
  then show ?case by (simp add: forming_def)
next
  case (Cons a xs)
  have "succeeds (ice_replace_srflx_by_base_in_pair a m)
    (\<lambda>m'. forming False m0 l cl ps cs m' \<and> pair_ok True m' a \<and> (\<forall>x. x \<noteq> a \<longrightarrow> im_pairs m' x = im_pairs m x))"
    using Cons.prems by (intro replace_srflx_pair) auto
  then show ?case
  proof (simp, elim succeeds_bind conjE)
    fix m' assume m': "forming False m0 l cl ps cs m'" "pair_ok True m' a" "\<forall>x. x \<noteq> a \<longrightarrow> im_pairs m' x = im_pairs m x"
    have "im_cands m' = im_cands m" using forming_cands [OF m'(1)] forming_cands [OF Cons.prems(1)] by simp
    from pair_ok_frame [OF this] have "pair_ok True m' x" if "x \<in> set ps - set xs" for x
      using that m'(2,3) Cons.prems(4) by (cases "x = a") auto
    then show "succeeds (bctbx_list_for_each2 xs ice_replace_srflx_by_base_in_pair m') (forming True m0 l cl ps cs)"
      using Cons.prems m'(1) by (intro Cons.IH) auto
  qed
qed

text \<open>Removing a pair from the list of pairs and freeing it, while there is no valid pair.\<close>

lemma remove_pair_forming:
  assumes f: "forming b m0 l cl ps cs m" and "cl_valid_list l = []"
  shows "succeeds (remove_exceeding_pair cl a m)
    (\<lambda>m'. forming b m0 l cl (remove1 a ps) (removeAll a cs) m' \<and> (\<forall>x. x \<noteq> a \<longrightarrow> im_pairs m' x = im_pairs m x))"
proof -
  define m' where "m' = m\<lparr>im_lists := (im_lists m)(cl \<mapsto> l\<lparr>cl_pairs := remove1 a ps, cl_check_list := removeAll a cs\<rparr>),
    im_pairs := (im_pairs m)(a := None)\<rparr>"
  have d: "distinct ps" using f by (simp add: forming_def)
  have "forming b m0 l cl (remove1 a ps) (removeAll a cs) m'"
    by (rule forming_step [OF f]) (use d in \<open>auto simp: m'_def\<close>)
  moreover have "remove_exceeding_pair cl a m = Some m'"
    using forming_list [OF f] assms(2)
    by (cases l) (simp add: remove_exceeding_pair_def ice_free_candidate_pair_def upd_list_def bctbx_list_remove_def m'_def)
  ultimately show ?thesis by (simp add: m'_def)
qed

lemma compare_pairs_defined:
  assumes "forming b m0 l cl ps cs m" "a \<in> set ps" "x \<in> set ps"
  shows "ice_compare_pairs m a x \<noteq> None"
proof -
  obtain p c d where p: "im_pairs m a = Some p" "pair_local m p = Some c" "pair_remote m p = Some d"
    by (rule forming_pair [OF assms(1,2)])
  obtain p' c' d' where "im_pairs m x = Some p'" "pair_local m p' = Some c'" "pair_remote m p' = Some d'"
    by (rule forming_pair [OF assms(1,3)])
  with p show ?thesis by (auto simp: ice_compare_pairs_def)
qed

lemma prune_duplicate_forming:
  assumes f: "forming b m0 l cl ps cs m" and "cl_valid_list l = []" "a \<in> set ps"
  shows "succeeds (ice_prune_duplicate_pair cl a m)
    (\<lambda>(removed, m'). \<exists>ps' cs'. forming b m0 l cl ps' cs' m' \<and> set ps - {a} \<subseteq> set ps')"
proof -
  let ?r = "List.find (\<lambda>x. ice_compare_pairs m a x = Some True) ps"
  have find: "bctbx_list_find_custom ps (ice_compare_pairs m a) = Some ?r"
    using compare_pairs_defined [OF f assms(3)] by (intro find_custom_defined) blast
  have prune: "ice_prune_duplicate_pair cl a m =
    (case ?r of None \<Rightarrow> Some (False, m) | Some x \<Rightarrow> do {
       o' \<leftarrow> im_pairs m x; p \<leftarrow> im_pairs m a;
       if p_priority o' > p_priority p then do { m \<leftarrow> remove_exceeding_pair cl a m; Some (True, m) } else Some (False, m) })"
    using forming_list [OF f] find
    by (simp add: ice_prune_duplicate_pair_def remove_exceeding_pair_def cong: option.case_cong if_cong)
  obtain p where p: "im_pairs m a = Some p" by (rule forming_pair [OF f assms(3)])
  show ?thesis
  proof (cases ?r)
    case (Some x)
    then have "x \<in> set ps" by (auto simp: find_Some_iff)
    then obtain q where q: "im_pairs m x = Some q" by (rule forming_pair [OF f])
    have "succeeds (Option.bind (remove_exceeding_pair cl a m) (\<lambda>m. Some (True, m)))
        (\<lambda>(removed, m'). \<exists>ps' cs'. forming b m0 l cl ps' cs' m' \<and> set ps - {a} \<subseteq> set ps')"
    proof (rule succeeds_bind [OF remove_pair_forming [OF f assms(2)]], elim conjE)
      fix m' assume m': "forming b m0 l cl (remove1 a ps) (removeAll a cs) m'"
      have "set (remove1 a ps) = set ps - {a}" using f by (simp add: forming_def)
      with m' show "succeeds (Some (True, m')) (\<lambda>(removed, m'). \<exists>ps' cs'. forming b m0 l cl ps' cs' m' \<and> set ps - {a} \<subseteq> set ps')"
        by auto
    qed
    then show ?thesis using f p q Some by (auto simp: prune)
  qed (use f in \<open>auto simp: prune\<close>)
qed

lemma prune_loop_forming:
  assumes "forming b m0 l cl ps cs m" "cl_valid_list l = []" "set xs \<subseteq> set ps" "distinct xs"
  shows "succeeds (prune_pairs_loop cl xs m) (\<lambda>m'. \<exists>ps' cs'. forming b m0 l cl ps' cs' m')"
  using assms
proof (induction xs arbitrary: m ps cs)
  case (Cons a xs)
  have "succeeds (ice_prune_duplicate_pair cl a m)
      (\<lambda>(removed, m'). \<exists>ps' cs'. forming b m0 l cl ps' cs' m' \<and> set ps - {a} \<subseteq> set ps')"
    using Cons.prems by (intro prune_duplicate_forming) auto
  then show ?case
    using Cons.IH [OF _ Cons.prems(2)] Cons.prems(3,4) forming_list [OF Cons.prems(1)]
    by (simp, elim succeeds_bind) (fastforce split: prod.splits)
qed auto

section \<open>The ordered list\<close>

definition by_priority :: "ice_mem \<Rightarrow> iptr list \<Rightarrow> bool" where
  "by_priority m xs = sorted_wrt (\<lambda>a b. priority_of m b \<le> priority_of m a) xs"

lemma by_priority_frame: "(\<And>x. x \<in> set xs \<Longrightarrow> im_pairs m' x = im_pairs m x) \<Longrightarrow> by_priority m xs \<Longrightarrow> by_priority m' xs"
  by (simp add: by_priority_def priority_of_def sorted_wrt_iff_nth_less)

lemma forming_check_list:
  assumes f: "forming b m0 l cl ps cs m"
  obtains m' where "upd_list m cl (\<lambda>l. l\<lparr>cl_check_list := cs'\<rparr>) = Some m'" "forming b m0 l cl ps cs' m'" "im_pairs m' = im_pairs m"
proof
  let ?m = "m\<lparr>im_lists := (im_lists m)(cl \<mapsto> l\<lparr>cl_pairs := ps, cl_check_list := cs'\<rparr>)\<rparr>"
  show "upd_list m cl (\<lambda>l. l\<lparr>cl_check_list := cs'\<rparr>) = Some ?m"
    using forming_list [OF f] by (simp add: upd_list_def)
  show "forming b m0 l cl ps cs' ?m"
    by (rule forming_step [OF f]) (use f in \<open>simp_all add: forming_def\<close>)
qed simp

lemma create_check_list_forming:
  assumes f: "forming b m0 l cl ps cs m" and "a \<in> set ps" "set cs \<subseteq> set ps" "by_priority m cs"
  shows "succeeds (ice_create_check_list cl a m) (\<lambda>m'. \<exists>cs'. forming b m0 l cl ps cs' m' \<and>
    mset cs' = add_mset a (mset cs) \<and> by_priority m' cs')"
proof -
  have live: "im_pairs m x \<noteq> None" if "x \<in> set ps" for x using that by (elim forming_pair [OF f]) simp
  have "succeeds (bctbx_list_insert_sorted cs a (\<lambda>a b. map_option Not (ice_compare_pair_priorities m a b)))
    (\<lambda>ys. mset ys = add_mset a (mset cs) \<and> set ys = insert a (set cs) \<and> length ys = Suc (length cs) \<and>
      sorted_wrt (\<lambda>a b. priority_of m b \<le> priority_of m a) ys)"
    using live assms(2-4) by (intro check_order.insert_succeeds) (auto simp: by_priority_def)
  then obtain ys where ys: "bctbx_list_insert_sorted cs a (\<lambda>a b. map_option Not (ice_compare_pair_priorities m a b)) = Some ys"
    "mset ys = add_mset a (mset cs)" "by_priority m ys" by (auto simp: succeeds_def by_priority_def split: option.splits)
  obtain m' where m': "upd_list m cl (\<lambda>l. l\<lparr>cl_check_list := ys\<rparr>) = Some m'" "forming b m0 l cl ps ys m'"
    "im_pairs m' = im_pairs m" by (rule forming_check_list [OF f])
  then show ?thesis
    using ys by_priority_frame [of ys m' m] forming_list [OF f] by (auto simp: ice_create_check_list_def)
qed

lemma create_all_forming:
  assumes "forming b m0 l cl ps cs m" "set xs \<subseteq> set ps" "set cs \<subseteq> set ps" "by_priority m cs"
  shows "succeeds (bctbx_list_for_each2 xs (ice_create_check_list cl) m) (\<lambda>m'. \<exists>cs'. forming b m0 l cl ps cs' m' \<and>
    mset cs' = mset xs + mset cs \<and> by_priority m' cs')"
  using assms
proof (induction xs arbitrary: m cs)
  case (Cons a xs)
  have "succeeds (ice_create_check_list cl a m) (\<lambda>m'. \<exists>cs'. forming b m0 l cl ps cs' m' \<and>
    mset cs' = add_mset a (mset cs) \<and> by_priority m' cs')"
    using Cons.prems by (intro create_check_list_forming) auto
  then show ?case
  proof (simp, elim succeeds_bind exE conjE)
    fix m' cs' assume m': "forming b m0 l cl ps cs' m'" "mset cs' = add_mset a (mset cs)" "by_priority m' cs'"
    then have "set cs' = insert a (set cs)" by (metis set_mset_add_mset_insert set_mset_mset)
    then show "succeeds (bctbx_list_for_each2 xs (ice_create_check_list cl) m') (\<lambda>m'. \<exists>cs'. forming b m0 l cl ps cs' m' \<and>
      mset cs' = add_mset a (mset xs + mset cs) \<and> by_priority m' cs')"
      using Cons.IH [OF m'(1) _ _ m'(3)] Cons.prems m'(2) by simp
  qed
qed auto

text \<open>The pairs beyond the limit are removed from the end.\<close>

lemma remove_exceeding_forming:
  assumes "forming b m0 l cl ps (cs @ rev xs) m" "cl_valid_list l = []" "distinct (cs @ rev xs)"
    and "set ps = set (cs @ rev xs)" "by_priority m cs"
  shows "succeeds (bctbx_list_for_each2 xs (remove_exceeding_pair cl) m)
    (\<lambda>m'. \<exists>ps'. forming b m0 l cl ps' cs m' \<and> set ps' = set cs \<and> by_priority m' cs)"
  using assms
proof (induction xs arbitrary: m ps)
  case (Cons a xs)
  have a: "removeAll a (cs @ rev (a # xs)) = cs @ rev xs" "a \<notin> set cs" using Cons.prems(3) by auto
  have ps: "set (remove1 a ps) = set (cs @ rev xs)"
    using Cons.prems(1,3,4) by (auto simp: forming_def)
  show ?case
  proof (simp, rule succeeds_bind [OF remove_pair_forming [OF Cons.prems(1,2), of a]], elim conjE)
    fix m' assume m': "forming b m0 l cl (remove1 a ps) (removeAll a (cs @ rev (a # xs))) m'"
      "\<forall>x. x \<noteq> a \<longrightarrow> im_pairs m' x = im_pairs m x"
    have "by_priority m' cs" using a(2) m'(2) Cons.prems(5) by (intro by_priority_frame [of cs m' m]) auto
    then show "succeeds (bctbx_list_for_each2 xs (remove_exceeding_pair cl) m')
      (\<lambda>m'. \<exists>ps'. forming b m0 l cl ps' cs m' \<and> set ps' = set cs \<and> by_priority m' cs)"
      using m'(1) Cons.prems(3) by (intro Cons.IH [OF _ Cons.prems(2) _ ps]) (simp_all add: a(1) [simplified])
  qed
qed auto

definition formed :: "bool \<Rightarrow> ice_mem \<Rightarrow> IceCheckList \<Rightarrow> iptr \<Rightarrow> iptr list \<Rightarrow> ice_mem \<Rightarrow> bool" where
  "formed b m0 l cl cs m \<longleftrightarrow> (\<exists>ps. forming b m0 l cl ps cs m \<and> set ps = set cs) \<and> distinct cs \<and> by_priority m cs"

lemma limit_forming:
  assumes f: "formed b m0 l cl cs m" and "cl_valid_list l = []"
  shows "succeeds (if length cs > mx then bctbx_list_for_each2 (take (length cs - mx) (rev cs)) (remove_exceeding_pair cl) m
    else Some m) (\<lambda>m'. formed b m0 l cl (take mx cs) m')"
proof (cases "length cs > mx")
  case True
  obtain ps where ps: "forming b m0 l cl ps cs m" "set ps = set cs" using f by (auto simp: formed_def)
  have split: "take mx cs @ rev (take (length cs - mx) (rev cs)) = cs" using True by (simp add: take_rev)
  have "succeeds (bctbx_list_for_each2 (take (length cs - mx) (rev cs)) (remove_exceeding_pair cl) m)
    (\<lambda>m'. \<exists>ps'. forming b m0 l cl ps' (take mx cs) m' \<and> set ps' = set (take mx cs) \<and> by_priority m' (take mx cs))"
    using f ps assms(2) split
    by (intro remove_exceeding_forming [where ps = ps]) (auto simp: formed_def by_priority_def intro: sorted_wrt_take)
  then show ?thesis
    using True f by (auto simp: formed_def intro: succeeds_weaken)
qed (use f in simp)

lemma order_formed:
  assumes f: "forming b m0 l cl ps [] m"
  shows "succeeds (bctbx_list_for_each2 ps (ice_create_check_list cl) m) (\<lambda>m'. \<exists>cs. formed b m0 l cl cs m')"
proof -
  have "distinct ps" using f by (simp add: forming_def)
  have "succeeds (bctbx_list_for_each2 ps (ice_create_check_list cl) m) (\<lambda>m'. \<exists>cs'. forming b m0 l cl ps cs' m' \<and>
    mset cs' = mset ps + mset [] \<and> by_priority m' cs')"
    using f by (intro create_all_forming) (auto simp: by_priority_def)
  then show ?thesis
  proof (elim succeeds_weaken exE conjE)
    fix m' cs' assume m': "forming b m0 l cl ps cs' m'" "mset cs' = mset ps + mset []" "by_priority m' cs'"
    then have "set ps = set cs'" "distinct cs'"
      using \<open>distinct ps\<close> by (auto dest: mset_eq_setD mset_eq_imp_distinct_iff)
    with m' show "\<exists>cs. formed b m0 l cl cs m'" by (auto simp: formed_def)
  qed
qed

lemma prune_candidates_formed:
  assumes f: "forming False m0 l cl ps cs m" and "cl_session l" "cl_valid_list l = []"
  shows "succeeds (ice_prune_candidate_pairs cl m)
    (\<lambda>m'. \<exists>cs'. formed True m0 l cl cs' m' \<and> length cs' \<le> unat (s_max_connectivity_checks (im_session m0)))"
proof -
  let ?mx = "unat (s_max_connectivity_checks (im_session m0))"
  have ps: "distinct ps" using f by (simp add: forming_def)
  have limit: "succeeds (do {
      l \<leftarrow> im_lists m cl;
      s \<leftarrow> session_of m cl;
      let nb_pairs = length (cl_check_list l); mx = unat (s_max_connectivity_checks s) in
      if nb_pairs > mx
      then bctbx_list_for_each2 (take (nb_pairs - mx) (rev (cl_check_list l))) (remove_exceeding_pair cl) m
      else Some m }) (\<lambda>m'. \<exists>cs'. formed True m0 l cl cs' m' \<and> length cs' \<le> ?mx)"
    if ex: "\<exists>cs. formed True m0 l cl cs m" for m
  proof -
    obtain ps cs where f: "forming True m0 l cl ps cs m" "formed True m0 l cl cs m" using ex by (auto simp: formed_def)
    have "succeeds (if length cs > ?mx then bctbx_list_for_each2 (take (length cs - ?mx) (rev cs)) (remove_exceeding_pair cl) m
      else Some m) (\<lambda>m'. \<exists>cs'. formed True m0 l cl cs' m' \<and> length cs' \<le> ?mx)"
      by (rule succeeds_weaken [OF limit_forming [OF f(2) assms(3)]]) (metis length_take min.cobounded2)
    then show ?thesis
      using forming_list [OF f(1)] forming_session [OF f(1) assms(2)] by (simp add: Let_def split: if_splits)
  qed
  have order: "succeeds (do {
      m \<leftarrow> upd_list m cl (\<lambda>l. l\<lparr>cl_check_list := []\<rparr>);
      l \<leftarrow> im_lists m cl;
      bctbx_list_for_each2 (cl_pairs l) (ice_create_check_list cl) m }) (\<lambda>m'. \<exists>cs. formed True m0 l cl cs m')"
    if ex: "\<exists>ps cs. forming True m0 l cl ps cs m" for m
  proof -
    obtain ps cs where f: "forming True m0 l cl ps cs m" using ex by blast
    obtain m1 where m1: "upd_list m cl (\<lambda>l. l\<lparr>cl_check_list := []\<rparr>) = Some m1" "forming True m0 l cl ps [] m1"
      by (rule forming_check_list [OF f])
    then show ?thesis using order_formed [OF m1(2)] forming_list [OF m1(2)] by simp
  qed
  have "succeeds (bctbx_list_for_each2 ps ice_replace_srflx_by_base_in_pair m) (forming True m0 l cl ps cs)"
    using f ps by (intro replace_srflx_forming) auto
  then have "succeeds (Option.bind (bctbx_list_for_each2 ps ice_replace_srflx_by_base_in_pair m) (prune_pairs_loop cl ps))
      (\<lambda>m'. \<exists>ps' cs'. forming True m0 l cl ps' cs' m')"
    by (rule succeeds_bind) (use ps assms(3) prune_loop_forming in blast)
  from succeeds_bind [OF succeeds_bind [OF this order] limit] show ?thesis
    using forming_list [OF f] by (simp add: ice_prune_candidate_pairs_def bind_assoc)
qed

section \<open>Foundations\<close>

lemma pair_foundation_defined:
  assumes "forming b m0 l cl ps cs m" "a \<in> set ps"
  obtains f where "pair_foundation m a = Some f"
  using forming_pair [OF assms] by (metis (no_types, lifting) pair_foundation_def bind.bind_lunit)

lemma pair_foundation_frame: "im_pairs m' = im_pairs m \<Longrightarrow> im_cands m' = im_cands m \<Longrightarrow> pair_foundation m' = pair_foundation m"
  by (simp add: fun_eq_iff pair_foundation_def pair_local_def pair_remote_def cand_at_def)

lemma generate_foundation_forming:
  assumes f: "forming b m0 (l\<lparr>cl_foundations := fs\<rparr>) cl ps cs m" and "distinct fs" "a \<in> set ps"
  shows "succeeds (ice_generate_pair_foundations_list cl a m)
    (\<lambda>m'. \<exists>fs'. forming b m0 (l\<lparr>cl_foundations := fs'\<rparr>) cl ps cs m' \<and> im_pairs m' = im_pairs m \<and> distinct fs' \<and>
      Some ` set fs' = insert (pair_foundation m a) (Some ` set fs))"
proof -
  obtain g where g: "pair_foundation m a = Some g" by (rule pair_foundation_defined [OF f assms(3)])
  define fs' where "fs' = (if g \<in> set fs then fs else fs @ [g])"
  define m' where "m' = m\<lparr>im_lists := (im_lists m)(cl \<mapsto> l\<lparr>cl_foundations := fs', cl_pairs := ps, cl_check_list := cs\<rparr>)\<rparr>"
  have "forming b m0 (l\<lparr>cl_foundations := fs'\<rparr>) cl ps cs m'"
    using f pair_ok_frame [of m' m] by (simp add: forming_def m'_def)
  moreover have "ice_generate_pair_foundations_list cl a m = Some m'"
    using g forming_list [OF f]
    by (cases l) (simp add: ice_generate_pair_foundations_list_def upd_list_def m'_def fs'_def bctbx_list_append_def)
  moreover have "distinct fs'" "Some ` set fs' = insert (pair_foundation m a) (Some ` set fs)"
    using assms(2) g by (auto simp: fs'_def)
  ultimately show ?thesis by (auto simp: m'_def)
qed

lemma generate_foundations_forming:
  assumes "forming b m0 (l\<lparr>cl_foundations := fs\<rparr>) cl ps cs m" "distinct fs" "set xs \<subseteq> set ps"
  shows "succeeds (bctbx_list_for_each2 xs (ice_generate_pair_foundations_list cl) m)
    (\<lambda>m'. \<exists>fs'. forming b m0 (l\<lparr>cl_foundations := fs'\<rparr>) cl ps cs m' \<and> im_pairs m' = im_pairs m \<and> distinct fs' \<and>
      Some ` set fs' = pair_foundation m ` set xs \<union> Some ` set fs)"
  using assms
proof (induction xs arbitrary: m fs)
  case (Cons a xs)
  have "succeeds (ice_generate_pair_foundations_list cl a m)
    (\<lambda>m'. \<exists>fs'. forming b m0 (l\<lparr>cl_foundations := fs'\<rparr>) cl ps cs m' \<and> im_pairs m' = im_pairs m \<and> distinct fs' \<and>
      Some ` set fs' = insert (pair_foundation m a) (Some ` set fs))"
    using Cons.prems by (intro generate_foundation_forming) auto
  then show ?case
  proof (simp, elim succeeds_bind exE conjE)
    fix m1 fs1 assume m1: "forming b m0 (l\<lparr>cl_foundations := fs1\<rparr>) cl ps cs m1" "im_pairs m1 = im_pairs m" "distinct fs1"
      "Some ` set fs1 = insert (pair_foundation m a) (Some ` set fs)"
    have "pair_foundation m1 = pair_foundation m"
      using m1(2) forming_cands [OF m1(1)] forming_cands [OF Cons.prems(1)] by (intro pair_foundation_frame) simp_all
    then show "succeeds (bctbx_list_for_each2 xs (ice_generate_pair_foundations_list cl) m1)
      (\<lambda>m'. \<exists>fs'. forming b m0 (l\<lparr>cl_foundations := fs'\<rparr>) cl ps cs m' \<and> im_pairs m' = im_pairs m \<and> distinct fs' \<and>
        Some ` set fs' = insert (pair_foundation m a) (pair_foundation m ` set xs \<union> Some ` set fs))"
      using Cons.IH [OF m1(1,3)] Cons.prems(3)
      by (simp only: m1(2,4) list.set insert_subset Un_insert_right)
  qed
qed auto

lemma foundations_formed:
  assumes f: "formed b m0 l cl cs m" and "cl_foundations l = []"
  shows "succeeds (do { l \<leftarrow> im_lists m cl;
      bctbx_list_for_each2 (cl_check_list l) (ice_generate_pair_foundations_list cl) m })
    (\<lambda>m'. \<exists>fs. formed b m0 (l\<lparr>cl_foundations := fs\<rparr>) cl cs m' \<and> distinct fs \<and> Some ` set fs = pair_foundation m' ` set cs)"
proof -
  obtain ps where ps: "forming b m0 l cl ps cs m" "set ps = set cs" using f by (auto simp: formed_def)
  have "l\<lparr>cl_foundations := []\<rparr> = l" using assms(2) by (cases l) simp
  with ps(1) have "forming b m0 (l\<lparr>cl_foundations := []\<rparr>) cl ps cs m" by simp
  then have "succeeds (bctbx_list_for_each2 cs (ice_generate_pair_foundations_list cl) m)
    (\<lambda>m'. \<exists>fs'. forming b m0 (l\<lparr>cl_foundations := fs'\<rparr>) cl ps cs m' \<and> im_pairs m' = im_pairs m \<and> distinct fs' \<and>
      Some ` set fs' = pair_foundation m ` set cs \<union> Some ` set [])"
    using ps(2) by (intro generate_foundations_forming) auto
  then have "succeeds (bctbx_list_for_each2 cs (ice_generate_pair_foundations_list cl) m)
    (\<lambda>m'. \<exists>fs. formed b m0 (l\<lparr>cl_foundations := fs\<rparr>) cl cs m' \<and> distinct fs \<and> Some ` set fs = pair_foundation m' ` set cs)"
  proof (elim succeeds_weaken exE conjE)
    fix m' fs assume m': "forming b m0 (l\<lparr>cl_foundations := fs\<rparr>) cl ps cs m'" "im_pairs m' = im_pairs m" "distinct fs"
      "Some ` set fs = pair_foundation m ` set cs \<union> Some ` set []"
    have "pair_foundation m' = pair_foundation m"
      using m'(2) forming_cands [OF m'(1)] forming_cands [OF ps(1)] by (intro pair_foundation_frame) simp_all
    moreover have "by_priority m' cs" using f m'(2) by_priority_frame [of cs m' m] by (simp add: formed_def)
    then have "formed b m0 (l\<lparr>cl_foundations := fs\<rparr>) cl cs m'" using f m'(1) ps(2) by (auto simp: formed_def)
    ultimately show "\<exists>fs. formed b m0 (l\<lparr>cl_foundations := fs\<rparr>) cl cs m' \<and> distinct fs \<and> Some ` set fs = pair_foundation m' ` set cs"
      using m'(3,4) by auto
  qed
  then show ?thesis using forming_list [OF ps(1)] by simp
qed

lemma pair_candidates_formed:
  assumes "im_lists m cl = Some l" "cl_state l = ICL_Running" "cl_session l" "candidates_ok m l"
    and "cl_pairs l = []" "cl_valid_list l = []" "cl_foundations l = []"
  shows "succeeds (ice_check_list_pair_candidates cl m) (\<lambda>m'. \<exists>cs fs.
    formed True m (l\<lparr>cl_connectivity_checks_running := True, cl_foundations := fs\<rparr>) cl cs m' \<and>
    length cs \<le> unat (s_max_connectivity_checks (im_session m)) \<and> distinct fs \<and> Some ` set fs = pair_foundation m' ` set cs)"
proof -
  let ?l = "l\<lparr>cl_connectivity_checks_running := True\<rparr>" and ?mx = "unat (s_max_connectivity_checks (im_session m))"
  let ?Q = "\<lambda>m'. \<exists>cs fs. formed True m (?l\<lparr>cl_foundations := fs\<rparr>) cl cs m' \<and> length cs \<le> ?mx \<and> distinct fs \<and>
    Some ` set fs = pair_foundation m' ` set cs"
  define m1 where "m1 = m\<lparr>im_lists := (im_lists m)(cl \<mapsto> ?l)\<rparr>"
  have ok: "cl_session ?l" "candidates_ok m ?l" "cl_valid_list ?l = []" "cl_foundations ?l = []"
    using assms by (simp_all add: candidates_ok_def)
  have m1: "forming False m ?l cl [] (cl_check_list l) m1" using assms(5) by (cases l) (simp add: forming_def m1_def)
  have foundations: "succeeds (do { l \<leftarrow> im_lists m' cl;
      bctbx_list_for_each2 (cl_check_list l) (ice_generate_pair_foundations_list cl) m' }) ?Q"
    if "formed True m ?l cl cs m'" "length cs \<le> ?mx" for cs m'
    by (rule succeeds_weaken [OF foundations_formed [OF that(1) ok(4)]]) (use that(2) in blast)
  have "succeeds (do {
      m \<leftarrow> ice_create_turn_permissions cl m1;
      m \<leftarrow> ice_form_candidate_pairs cl m;
      m \<leftarrow> ice_prune_candidate_pairs cl m;
      l \<leftarrow> im_lists m cl;
      bctbx_list_for_each2 (cl_check_list l) (ice_generate_pair_foundations_list cl) m }) ?Q"
  proof (rule succeeds_bind [OF turn_permissions_forming [OF m1 ok(1,2)]], rule succeeds_bind, erule form_pairs_forming [OF _ ok(1,2)],
      elim exE, rule succeeds_bind, erule prune_candidates_formed [OF _ ok(1,3)], elim exE conjE)
  qed (rule foundations)
  then show ?thesis
    using assms(1,2) by (simp add: ice_check_list_pair_candidates_def upd_list_def m1_def)
qed

section \<open>The first states\<close>

text \<open>A pair as the candidates of a peer give it: both candidates are there, the component identifier is not zero and
  the foundations fit in their field.\<close>

definition startable :: "ice_mem \<Rightarrow> iptr \<Rightarrow> bool" where
  "startable m a \<longleftrightarrow> (\<exists>p l r. im_pairs m a = Some p \<and> pair_local m p = Some l \<and> pair_remote m p = Some r \<and>
     c_componentID l \<noteq> 0 \<and> length (c_foundation l) < 32 \<and> length (c_foundation r) < 32)"

lemma lowest_stays:
  assumes "fc_componentID fc \<noteq> 0" "\<forall>a \<in> set cs. startable m a \<and> priority_of m a \<le> fc_priority fc"
  shows "bctbx_list_for_each2 cs (ice_find_lowest_componentid_pair_with_specified_foundation m f) fc = Some fc"
  using assms(2)
proof (induction cs)
  case (Cons a cs)
  then obtain p l r where "im_pairs m a = Some p" "pair_local m p = Some l" "pair_remote m p = Some r" "\<not> fc_priority fc < p_priority p"
    by (auto simp: startable_def priority_of_def not_less)
  then have "ice_find_lowest_componentid_pair_with_specified_foundation m f a fc = Some fc"
    using assms(1) by (simp add: ice_find_lowest_componentid_pair_with_specified_foundation_def)
  then show ?case using Cons by simp
qed simp

lemma lowest_is_first:
  assumes "\<forall>a \<in> set cs. startable m a" "by_priority m cs" "fc_componentID fc = 0" "fc_pair fc = None"
  shows "\<exists>fc'. bctbx_list_for_each2 cs (ice_find_lowest_componentid_pair_with_specified_foundation m f) fc = Some fc' \<and>
    fc_pair fc' = List.find (\<lambda>a. pair_foundation m a = Some f) cs"
  using assms
proof (induction cs)
  case (Cons a cs)
  obtain p l r where p: "im_pairs m a = Some p" "pair_local m p = Some l" "pair_remote m p = Some r"
    "c_componentID l \<noteq> 0" "length (c_foundation l) < 32" "length (c_foundation r) < 32"
    using Cons.prems(1) by (auto simp: startable_def)
  have found: "pair_foundation m a = Some f \<longleftrightarrow> c_foundation l = f_local f \<and> c_foundation r = f_remote f"
    using p by (cases f) (auto simp: pair_foundation_def)
  show ?case
  proof (cases "pair_foundation m a = Some f")
    case True
    let ?fc = "fc\<lparr>fc_componentID := c_componentID l, fc_priority := p_priority p, fc_pair := Some a\<rparr>"
    have "\<forall>b \<in> set cs. startable m b \<and> priority_of m b \<le> fc_priority ?fc"
      using Cons.prems(1,2) p(1) by (auto simp: by_priority_def priority_of_def)
    then have "bctbx_list_for_each2 cs (ice_find_lowest_componentid_pair_with_specified_foundation m f) ?fc = Some ?fc"
      using p(4) by (intro lowest_stays) simp_all
    moreover have "ice_find_lowest_componentid_pair_with_specified_foundation m f a fc = Some ?fc"
      using True p found Cons.prems(3) by (simp add: ice_find_lowest_componentid_pair_with_specified_foundation_def)
    ultimately show ?thesis using True by simp
  next
    case False
    then have "ice_find_lowest_componentid_pair_with_specified_foundation m f a fc = Some fc"
      using p found by (auto simp: ice_find_lowest_componentid_pair_with_specified_foundation_def)
    then show ?thesis using False Cons by (simp add: by_priority_def)
  qed
qed simp

lemma set_waiting_eq:
  assumes "im_lists m cl = Some l" "\<forall>a \<in> set (cl_check_list l). startable m a" "by_priority m (cl_check_list l)"
  shows "ice_set_lowest_componentid_pair_with_foundation_to_waiting_state cl f m =
    (case List.find (\<lambda>a. pair_foundation m a = Some f) (cl_check_list l) of
       None \<Rightarrow> Some m | Some a \<Rightarrow> ice_pair_set_state m a ICP_Waiting)"
  using assms(1) lowest_is_first [OF assms(2,3), of "\<lparr>fc_pair = None, fc_priority = 0, fc_componentID = 0\<rparr>" f]
  by (auto simp: ice_set_lowest_componentid_pair_with_foundation_to_waiting_state_def)

text \<open>A change of states only.\<close>

definition restated :: "ice_mem \<Rightarrow> iptr set \<Rightarrow> ice_mem \<Rightarrow> bool" where
  "restated m W m' \<longleftrightarrow> m' = m\<lparr>im_pairs := \<lambda>a. map_option (\<lambda>p. if a \<in> W then p\<lparr>p_state := ICP_Waiting\<rparr> else p) (im_pairs m a)\<rparr>"

lemma restated_pair:
  assumes "restated m W m'"
  shows "im_lists m' = im_lists m" "startable m' = startable m" "by_priority m' = by_priority m" "pair_foundation m' = pair_foundation m"
proof -
  have local: "pair_local m' p = cand_at m (p_local p)" "pair_remote m' p = cand_at m (p_remote p)" for p
    using assms by (simp_all add: restated_def pair_local_def pair_remote_def cand_at_def)
  show "im_lists m' = im_lists m" using assms by (simp add: restated_def)
  have "startable m' x = startable m x" "pair_foundation m' x = pair_foundation m x" for x
    using assms local
    by (cases "im_pairs m x"; cases "x \<in> W"; simp add: restated_def startable_def pair_foundation_def pair_local_def pair_remote_def)+
  then show "startable m' = startable m" "pair_foundation m' = pair_foundation m" by (simp_all add: fun_eq_iff)
  have "priority_of m' = priority_of m" using assms by (auto simp: restated_def fun_eq_iff priority_of_def split: option.splits)
  then show "by_priority m' = by_priority m" by (simp add: fun_eq_iff by_priority_def)
qed

lemma restated_set_state:
  assumes "restated m W m'" "im_pairs m a \<noteq> None"
  shows "succeeds (ice_pair_set_state m' a ICP_Waiting) (restated m (insert a W))"
  using assms by (auto simp: restated_def ice_pair_set_state_def upd_pair_def fun_eq_iff)

lemma compute_states_restated:
  assumes "im_lists m cl = Some l" "\<forall>a \<in> set (cl_check_list l). startable m a" "by_priority m (cl_check_list l)" "restated m W m'"
  shows "succeeds (bctbx_list_for_each2 fs (ice_set_lowest_componentid_pair_with_foundation_to_waiting_state cl) m')
    (restated m (W \<union> {a. \<exists>f \<in> set fs. List.find (\<lambda>a. pair_foundation m a = Some f) (cl_check_list l) = Some a}))"
  using assms(4)
proof (induction fs arbitrary: W m')
  case (Cons f fs)
  let ?r = "List.find (\<lambda>a. pair_foundation m a = Some f) (cl_check_list l)"
  note same = restated_pair [OF Cons.prems]
  have "ice_set_lowest_componentid_pair_with_foundation_to_waiting_state cl f m' =
    (case ?r of None \<Rightarrow> Some m' | Some a \<Rightarrow> ice_pair_set_state m' a ICP_Waiting)"
    using set_waiting_eq [of m' cl l f] assms(1-3) by (simp add: same)
  moreover have "im_pairs m a \<noteq> None" if "?r = Some a" for a
    using that assms(2) by (auto simp: find_Some_iff startable_def)
  ultimately have "succeeds (ice_set_lowest_componentid_pair_with_foundation_to_waiting_state cl f m') (restated m (W \<union> set_option ?r))"
    using Cons.prems restated_set_state [OF Cons.prems] by (cases ?r) auto
  then show ?case
  proof (simp, elim succeeds_bind)
    fix m1 assume "restated m (W \<union> set_option ?r) m1"
    moreover have "W \<union> {a. ?r = Some a \<or> (\<exists>f \<in> set fs. List.find (\<lambda>a. pair_foundation m a = Some f) (cl_check_list l) = Some a)} =
      W \<union> set_option ?r \<union> {a. \<exists>f \<in> set fs. List.find (\<lambda>a. pair_foundation m a = Some f) (cl_check_list l) = Some a}" by auto
    ultimately show "succeeds (bctbx_list_for_each2 fs (ice_set_lowest_componentid_pair_with_foundation_to_waiting_state cl) m1)
      (restated m (W \<union> {a. ?r = Some a \<or> (\<exists>f \<in> set fs. List.find (\<lambda>a. pair_foundation m a = Some f) (cl_check_list l) = Some a)}))"
      using Cons.IH by simp
  qed
qed simp

lemma find_first_nth:
  assumes "distinct xs" "i < length xs"
  shows "List.find P xs = Some (xs ! i) \<longleftrightarrow> P (xs ! i) \<and> (\<forall>j < i. \<not> P (xs ! j))"
  using assms by (auto simp: find_Some_iff nth_eq_iff_index_eq)

section \<open>Properties\<close>


definition formation_candidate :: "IceCandidateType \<Rightarrow> u32 \<Rightarrow> int \<Rightarrow> iptr \<Rightarrow> IceCandidate" where
  "formation_candidate type prio port a =
     \<lparr>c_foundation = [49], c_taddr = \<lparr>ta_ip = [49], ta_port = port, ta_family = AF_INET\<rparr>, c_type = type,
      c_priority = prio, c_componentID = 1, c_base = Some a, c_is_default = False\<rparr>"

definition formation_list :: IceCheckList where
  "formation_list = (ice_check_list_init time_zero False)\<lparr>cl_session := True, cl_local_candidates := [1, 2], cl_remote_candidates := [3]\<rparr>"

definition formation_agent :: ice_mem where
  "formation_agent = (ice_session_new (\<lambda>_. 0))\<lparr>im_lists := [0 \<mapsto> formation_list], im_next := 4,
     im_cands := [1 \<mapsto> formation_candidate ICT_HostCandidate 9 5000 1, 2 \<mapsto> formation_candidate ICT_ServerReflexiveCandidate 5 6000 1,
       3 \<mapsto> formation_candidate ICT_HostCandidate 7 7000 3]\<rparr>"


text \<open>C34: When the checks of a list start, the first pair of each foundation becomes Waiting and every other pair stays as
  it is. The list being ordered, this is the pair of highest priority: the component identifier, which the
  function is named after and which the standard puts first, does not count. The pairs are of valid candidates (a component
  identifier other than zero, foundations that fit in their field).\<close>

theorem first_pair_of_foundation_waits:
  assumes "im_lists m cl = Some l" "cs = cl_check_list l" "distinct cs" "\<forall>a \<in> set cs. startable m a"
    and "sorted_wrt (\<lambda>a b. priority_of m b \<le> priority_of m a) cs"
    and "\<forall>a \<in> set cs. pair_foundation m a \<in> Some ` set (cl_foundations l)"
  shows "\<exists>m'. ice_compute_pairs_states cl m = Some m' \<and> im_lists m' = im_lists m \<and> im_cands m' = im_cands m \<and>
    (\<forall>i < length cs. \<exists>p. im_pairs m (cs ! i) = Some p \<and> im_pairs m' (cs ! i) =
       Some (if \<forall>j < i. pair_foundation m (cs ! j) \<noteq> pair_foundation m (cs ! i) then p\<lparr>p_state := ICP_Waiting\<rparr> else p))"
proof -
  let ?W = "{a. \<exists>f \<in> set (cl_foundations l). List.find (\<lambda>a. pair_foundation m a = Some f) cs = Some a}"
  have "restated m {} m" by (simp add: restated_def option.map_ident)
  from compute_states_restated [OF assms(1) _ _ this, of "cl_foundations l"]
  obtain m' where m': "ice_compute_pairs_states cl m = Some m'" "restated m ?W m'"
    using assms by (auto simp: by_priority_def ice_compute_pairs_states_def succeeds_def split: option.splits)
  have "\<exists>p. im_pairs m (cs ! i) = Some p \<and> im_pairs m' (cs ! i) =
       Some (if \<forall>j < i. pair_foundation m (cs ! j) \<noteq> pair_foundation m (cs ! i) then p\<lparr>p_state := ICP_Waiting\<rparr> else p)"
    if i: "i < length cs" for i
  proof -
    obtain p where p: "im_pairs m (cs ! i) = Some p" using assms(4) nth_mem [OF i] by (auto simp: startable_def)
    obtain g where g: "pair_foundation m (cs ! i) = Some g" "g \<in> set (cl_foundations l)" using assms(6) nth_mem [OF i] by auto
    have "cs ! i \<in> ?W \<longleftrightarrow> (\<forall>j < i. pair_foundation m (cs ! j) \<noteq> pair_foundation m (cs ! i))"
      using g find_first_nth [OF assms(3) i] by auto
    with p m'(2) show ?thesis by (simp add: restated_def)
  qed
  with m' show ?thesis by (auto simp: restated_def)
qed

definition waiting_pair :: "iptr \<Rightarrow> u64 \<Rightarrow> IceCandidatePair" where
  "waiting_pair a prio = \<lparr>p_role = IR_Controlling, p_local = Some a, p_remote = Some 3, p_state = ICP_Frozen, p_priority = prio,
     p_transmission_time = time_zero, p_rto = 200, p_retransmissions = 0, p_is_default = False, p_use_candidate = False,
     p_is_nominated = False, p_nomination_pending = False, p_has_canceled_transaction = False, p_nomination_failing = False,
     p_retry_with_dummy_message_integrity = False, p_use_dummy_hmac = False\<rparr>"

definition waiting_agent :: ice_mem where
  "waiting_agent = formation_agent\<lparr>im_pairs := [5 \<mapsto> waiting_pair 2 20, 6 \<mapsto> waiting_pair 1 10],
     im_cands := (im_cands formation_agent)(2 \<mapsto> (formation_candidate ICT_HostCandidate 9 5000 2)\<lparr>c_componentID := 2\<rparr>),
     im_lists := [0 \<mapsto> formation_list\<lparr>cl_check_list := [5, 6], cl_foundations := [\<lparr>f_local = [49], f_remote = [49]\<rparr>]\<rparr>]\<rparr>"

theorem first_pair_of_foundation_waits_witness:
  "\<exists>m'. ice_compute_pairs_states 0 waiting_agent = Some m' \<and>
     im_pairs m' 5 = Some ((waiting_pair 2 20)\<lparr>p_state := ICP_Waiting\<rparr>) \<and> im_pairs m' 6 = Some (waiting_pair 1 10)"
proof -
  let ?l = "formation_list\<lparr>cl_check_list := [5, 6], cl_foundations := [\<lparr>f_local = [49], f_remote = [49]\<rparr>]\<rparr>"
  have pairs: "im_pairs waiting_agent 5 = Some (waiting_pair 2 20)" "im_pairs waiting_agent 6 = Some (waiting_pair 1 10)"
    by (simp_all add: waiting_agent_def)
  have l: "im_lists waiting_agent 0 = Some ?l" by (simp add: waiting_agent_def)
  have "startable waiting_agent 5" "startable waiting_agent 6"
    "pair_foundation waiting_agent 5 = Some \<lparr>f_local = [49], f_remote = [49]\<rparr>"
    "pair_foundation waiting_agent 6 = Some \<lparr>f_local = [49], f_remote = [49]\<rparr>"
    by (simp_all add: startable_def pair_foundation_def pair_local_def pair_remote_def cand_at_def waiting_agent_def
      waiting_pair_def formation_agent_def formation_candidate_def)
  moreover have "priority_of waiting_agent 6 \<le> priority_of waiting_agent 5"
    by (simp add: priority_of_def pairs) (simp add: waiting_pair_def)
  ultimately obtain m' where m': "ice_compute_pairs_states 0 waiting_agent = Some m'"
    "\<forall>i < length [5, 6]. \<exists>p. im_pairs waiting_agent ([5, 6] ! i) = Some p \<and> im_pairs m' ([5, 6] ! i) =
       Some (if \<forall>j < i. pair_foundation waiting_agent ([5, 6] ! j) \<noteq> pair_foundation waiting_agent ([5, 6] ! i)
             then p\<lparr>p_state := ICP_Waiting\<rparr> else p)"
    using first_pair_of_foundation_waits [of waiting_agent 0 ?l "[5, 6]", OF l] by auto
  have "im_pairs m' 5 = Some ((waiting_pair 2 20)\<lparr>p_state := ICP_Waiting\<rparr>)" using spec [OF m'(2), of 0] pairs by simp
  moreover have "im_pairs m' 6 = Some (waiting_pair 1 10)"
    using spec [OF m'(2), of 1] pairs \<open>pair_foundation waiting_agent 5 = _\<close> \<open>pair_foundation waiting_agent 6 = _\<close> by auto
  ultimately show ?thesis using m'(1) by simp
qed

end
