(* ===== verification/Ice_Checks_Spec.thy ===== *)
theory Ice_Checks_Spec
  imports Ice_Lists
begin

text \<open>
  The exchange of connectivity checks between two agents: what one agent sends passes the tests of the other, what
  those tests let through, and the fate of an error response. The bytes on the wire go through the encoder and
  the parser of STUN messages.
\<close>

section \<open>Integrity of a received request\<close>

lemma length_tlv_field: "length (tlv (ty, v)) = 4 + length v + stun_pad (length v)"
  by (simp add: tlv_def)

lemma stun_pad_values: "stun_pad n < 4" "stun_pad 0 = 0" "stun_pad 4 = 0" "stun_pad 8 = 0"
  by (simp_all add: stun_pad_def)

lemma wire_split:
  assumes "sm_has_fingerprint x" "sent_mac env x = Some h" "length h = 20"
  shows "\<exists>t. length t = 32 \<and> tlvs (stun_attrs env x) = tlvs (plain_attrs x) @ t"
  using assms by (simp add: stun_attrs_eq opt_attr_def if_attr_def length_tlv_field stun_pad_def)

lemma integrity_input_wire:
  assumes "env_ok env" "sendable env x" "sm_has_fingerprint x" "sent_mac env x = Some h"
  shows "integrity_input (stun_wire env x) (received env x) =
    Some (stun_header (sm_type x OR sm_method x) (sm_tr_id x) (of_nat (length (tlvs (plain_attrs x)) + 24)) @ tlvs (plain_attrs x))"
proof -
  define w where "w = tlvs (plain_attrs x)"
  obtain t where t: "length t = 32" "tlvs (stun_attrs env x) = w @ t"
    using wire_split [OF assms(3,4) sent_mac_length [OF assms(1,4)]] w_def by blast
  have tr: "length (sm_tr_id x) = 12" using assms(2) by (simp add: sendable_def message_ok_def)
  have len: "sm_length (received env x) = of_nat (length w + 32)" by (simp add: received_def received_with_def t)
  let ?h = "\<lambda>k. stun_header (sm_type x OR sm_method x) (sm_tr_id x) (of_nat k)"
  have wire: "stun_wire env x = ?h (length w + 32) @ w @ t" by (simp add: stun_wire_def t Let_def)
  have "wr_block (stun_wire env x) 2 (enc16 (ms_stun_message_get_length (received env x) - 8)) = Some (?h (length w + 24) @ w @ t)"
    unfolding wire by (simp add: wr_block_def stun_header_def ms_stun_message_get_length_def len tr t(1) add.commute)
  then show ?thesis
    using tr t(1) by (simp add: integrity_input_def rd_block_def w_def [symmetric])
qed

section \<open>The request of a check\<close>

definition binding_request_message ::
  "IceSession \<Rightarrow> bytes \<Rightarrow> bytes option \<Rightarrow> bool \<Rightarrow> u32 \<Rightarrow> u32 \<times> u32 \<times> u32 \<Rightarrow> MSStunMessage" where
  "binding_request_message s u w use_candidate prio rnd =
     (ms_stun_binding_request_create rnd)
       \<lparr>sm_username := Some (cstr (u @ [58] @ s_local_ufrag s)), sm_include_username_attribute := True,
        sm_password := map_option cstr w,
        sm_has_message_integrity := True, sm_has_fingerprint := True,
        sm_priority := (prio AND 0x00ffffff) OR push_bit 24 110, sm_has_priority := True,
        sm_has_use_candidate := (s_role s = IR_Controlling \<and> use_candidate),
        sm_ice_controlling := (if s_role s = IR_Controlling then s_tie_breaker s else 0),
        sm_has_ice_controlling := (s_role s = IR_Controlling),
        sm_ice_controlled := (if s_role s = IR_Controlled then s_tie_breaker s else 0),
        sm_has_ice_controlled := (s_role s = IR_Controlled)\<rparr>"

lemmas message_setters = ms_stun_message_set_username_def ms_stun_message_set_password_def
  ms_stun_message_enable_message_integrity_def ms_stun_message_enable_fingerprint_def ms_stun_message_set_priority_def
  ms_stun_message_enable_use_candidate_def ms_stun_message_set_ice_controlling_def ms_stun_message_set_ice_controlled_def
  ms_stun_binding_request_create_def ms_stun_message_create_def ms_stun_message_set_random_tr_id_def
  ms_stun_message_set_tr_id_def stun_message_zero_def ms_stun_message_enable_dummy_message_integrity_def

lemma binding_request_eq:
  assumes "session_of m cl = Some s" "ice_check_list_remote_ufrag m cl = Some (Some u)" "ice_check_list_remote_pwd m cl = Some w"
  shows "binding_request m cl p lc rnd = Some (binding_request_message s u w (p_use_candidate p) (c_priority lc) rnd)"
  using assms
  by (cases rnd; cases "s_role s")
     (simp_all add: binding_request_def binding_request_message_def ice_check_list_local_ufrag_def message_setters Let_def)

definition credentials_ok :: "bytes \<Rightarrow> bytes \<Rightarrow> bytes \<Rightarrow> bool" where
  "credentials_ok u lu w \<longleftrightarrow> c_string u \<and> c_string lu \<and> c_string w \<and> 58 \<notin> set u \<and> length u \<le> 256 \<and> length lu \<le> 256 \<and> w \<noteq> []"

lemma binding_request_message_mac:
  assumes "credentials_ok u (s_local_ufrag s) w"
  shows "stun_mac env (binding_request_message s u (Some w) uc prio rnd) = Some (hmacSha1 env w)"
    and "sm_username (binding_request_message s u (Some w) uc prio rnd) = Some (u @ [58] @ s_local_ufrag s)"
proof -
  have "c_string (u @ 58 # s_local_ufrag s)" using assms by (simp add: credentials_ok_def c_string_def)
  then show "stun_mac env (binding_request_message s u (Some w) uc prio rnd) = Some (hmacSha1 env w)"
    "sm_username (binding_request_message s u (Some w) uc prio rnd) = Some (u @ [58] @ s_local_ufrag s)"
    using assms by (cases rnd; simp add: stun_mac_def binding_request_message_def message_setters credentials_ok_def)+
qed

lemma binding_request_message_sendable:
  assumes "env_ok env" "credentials_ok u (s_local_ufrag s) w"
  shows "sendable env (binding_request_message s u (Some w) uc prio rnd)"
proof -
  let ?x = "binding_request_message s u (Some w) uc prio rnd"
  have u: "c_string (u @ 58 # s_local_ufrag s)" "length (u @ 58 # s_local_ufrag s) \<le> 513"
    using assms(2) by (simp_all add: credentials_ok_def c_string_def)
  obtain h where h: "sent_mac env ?x = Some h" using binding_request_message_mac [OF assms(2)] by (simp add: sent_mac_def Let_def)
  obtain t where t: "length t = 32" "tlvs (stun_attrs env ?x) = tlvs (plain_attrs ?x) @ t"
    using wire_split [OF _ h sent_mac_length [OF assms(1) h]] by (auto simp: binding_request_message_def)
  have "length (tlvs (plain_attrs ?x)) \<le> 1000"
    using u stun_pad_values(1) [of "Suc (length u + length (s_local_ufrag s))"]
    by (cases rnd) (simp add: plain_attrs_def binding_request_message_def message_setters if_attr_def opt_attr_def length_tlv_field stun_pad_values(2-))
  with t have "length (tlvs (stun_attrs env ?x)) < 65536" by simp
  then show ?thesis
    using u binding_request_message_mac(2) [OF assms(2)]
    by (cases rnd) (simp add: sendable_def message_ok_def binding_request_message_def message_setters stun_addr_zero_def addr_ok_def
        addr_canon_def string_ok_def reason_ok_def)
qed

lemma session_of_frame [simp]:
  "session_of (m\<lparr>im_pairs := x\<rparr>) cl = session_of m cl" "session_of (m\<lparr>im_drawn := k\<rparr>) cl = session_of m cl"
  by (simp_all add: session_of_def cong: if_cong)

lemma remote_credentials_frame [simp]:
  "ice_check_list_remote_ufrag (m\<lparr>im_pairs := x\<rparr>) cl = ice_check_list_remote_ufrag m cl"
  "ice_check_list_remote_ufrag (m\<lparr>im_drawn := k\<rparr>) cl = ice_check_list_remote_ufrag m cl"
  "ice_check_list_remote_pwd (m\<lparr>im_pairs := x\<rparr>) cl = ice_check_list_remote_pwd m cl"
  "ice_check_list_remote_pwd (m\<lparr>im_drawn := k\<rparr>) cl = ice_check_list_remote_pwd m cl"
  by (simp_all add: ice_check_list_remote_ufrag_def ice_check_list_remote_pwd_def cong: option.case_cong)

lemma pair_ends_frame [simp]:
  "pair_local (m\<lparr>im_pairs := x\<rparr>) p = pair_local m p" "pair_remote (m\<lparr>im_pairs := x\<rparr>) p = pair_remote m p"
  "pair_local m (p\<lparr>p_transmission_time := t\<rparr>) = pair_local m p" "pair_remote m (p\<lparr>p_transmission_time := t\<rparr>) = pair_remote m p"
  by (simp_all add: pair_local_def pair_remote_def cand_at_def)

lemma session_of_upd_list: "upd_list m cl f = Some m' \<Longrightarrow> (\<And>l. cl_session (f l) = cl_session l) \<Longrightarrow> session_of m' cl = session_of m cl"
  by (auto simp: upd_list_def session_of_def bind_eq_Some_conv)

text \<open>The state of an agent that can send a first check for a pair.\<close>

definition can_check :: "ice_mem \<Rightarrow> iptr \<Rightarrow> iptr \<Rightarrow> bytes \<Rightarrow> bytes \<Rightarrow> IceCandidate \<Rightarrow> IceCandidate \<Rightarrow> IceCandidatePair \<Rightarrow> bool" where
  "can_check m cl pair u w lc rc p \<longleftrightarrow>
     session_of m cl = Some (im_session m) \<and> \<not> s_forced_relay (im_session m) \<and>
     ice_check_list_remote_ufrag m cl = Some (Some u) \<and> ice_check_list_remote_pwd m cl = Some (Some w) \<and>
     credentials_ok u (s_local_ufrag (im_session m)) w \<and>
     im_pairs m pair = Some p \<and> p_state p \<noteq> ICP_InProgress \<and> \<not> p_use_dummy_hmac p \<and>
     pair_local m p = Some lc \<and> pair_remote m p = Some rc \<and> c_componentID lc \<in> {1, 2}"

lemma encode_wire:
  assumes "env_ok env" "sendable env x"
  obtains n buf where "ms_stun_message_encode env rubbish x = Some (n, buf)" "0 < n" "take n buf = stun_wire env x"
proof -
  have "message_ok x" using assms(2) by (simp add: sendable_def)
  then obtain n buf where "ms_stun_message_encode env rubbish x = Some (n, buf)" "n = length (stun_wire env x)" "take n buf = stun_wire env x"
    using encode_writes_wire [OF assms(1), of x rubbish] by (auto simp: succeeds_def split: option.splits)
  moreover have "0 < length (stun_wire env x)" by (simp add: stun_wire_def Let_def stun_header_def enc16_def)
  ultimately show thesis using that by blast
qed

definition next_check_message :: "ice_mem \<Rightarrow> bytes \<Rightarrow> bytes \<Rightarrow> IceCandidate \<Rightarrow> IceCandidatePair \<Rightarrow> MSStunMessage" where
  "next_check_message m u w lc p = binding_request_message (im_session m) u (Some w) (p_use_candidate p) (c_priority lc)
     (im_random m (im_drawn m), im_random m (im_drawn m + 1), im_random m (im_drawn m + 2))"

text \<open>The memory after a first transmission.\<close>

definition after_check :: "ice_mem \<Rightarrow> iptr \<Rightarrow> iptr \<Rightarrow> IceCheckList \<Rightarrow> IceCandidatePair \<Rightarrow> MSTimeSpec \<Rightarrow> bytes \<Rightarrow> ice_out \<Rightarrow> ice_mem" where
  "after_check m cl pair l p now tr_id packet =
     m\<lparr>im_pairs := (im_pairs m)(pair \<mapsto> p\<lparr>p_transmission_time := now, p_rto := ICE_DEFAULT_RTO_DURATION, p_retransmissions := 0,
          p_role := s_role (im_session m), p_state := ICP_InProgress\<rparr>),
       im_lists := (im_lists m)(cl \<mapsto> l\<lparr>cl_transaction_list :=
          \<lparr>t_transactionID = tr_id, t_pair = pair, t_canceled = False\<rparr> # cl_transaction_list l\<rparr>),
       im_drawn := im_drawn m + 3, im_out := im_out m @ [packet]\<rparr>"

lemma transmit_first:
  assumes "env_ok (ie_stun env)" "sendable (ie_stun env) x" "session_of m cl = Some (im_session m)" "\<not> s_forced_relay (im_session m)"
    and "im_pairs m pair = Some p" "p_state p \<noteq> ICP_InProgress"
  shows "transmit_request env cl pair p lc rc x m = Some (m
    \<lparr>im_pairs := (im_pairs m)(pair \<mapsto> p\<lparr>p_rto := ICE_DEFAULT_RTO_DURATION, p_retransmissions := 0,
       p_role := s_role (im_session m), p_state := ICP_InProgress\<rparr>),
     im_out := im_out m @ [Out_Packet (c_componentID lc) (stun_wire (ie_stun env) x)
       (ie_to_stun env (c_taddr lc)) (ie_to_stun env (c_taddr rc))]\<rparr>)"
proof -
  obtain n buf where "ms_stun_message_encode (ie_stun env) (ie_junk env) x = Some (n, buf)" "0 < n"
    "take n buf = stun_wire (ie_stun env) x" using encode_wire [OF assms(1,2)] by blast
  then show ?thesis
    using assms(3-) by (simp add: transmit_request_def ice_emit_def upd_pair_def ice_pair_set_state_def)
qed

lemma send_check:
  assumes "env_ok (ie_stun env)" "can_check m cl pair u w lc rc p" "im_lists m cl = Some l"
  shows "ice_send_binding_request env now cl pair m =
    Some (after_check m cl pair l p now (sm_tr_id (next_check_message m u w lc p))
      (Out_Packet (c_componentID lc) (stun_wire (ie_stun env) (next_check_message m u w lc p))
        (ie_to_stun env (c_taddr lc)) (ie_to_stun env (c_taddr rc))))"
proof -
  define x where "x = next_check_message m u w lc p"
  note a = assms(2) [unfolded can_check_def]
  have dummy: "ms_stun_message_enable_dummy_message_integrity x False = x"
    by (simp add: x_def next_check_message_def binding_request_message_def message_setters)
  have snd: "sendable (ie_stun env) x"
    unfolding x_def next_check_message_def using binding_request_message_sendable [OF assms(1)] a by blast
  have l: "cl_session l" using a assms(3) by (auto simp: session_of_def split: if_splits)
  let ?p = "p\<lparr>p_transmission_time := now\<rparr>"
  define m2 where "m2 = m\<lparr>im_pairs := (im_pairs m)(pair \<mapsto> ?p), im_drawn := im_drawn m + 3\<rparr>"
  define m3 where "m3 = m2\<lparr>im_lists := (im_lists m)(cl \<mapsto> l\<lparr>cl_transaction_list :=
          \<lparr>t_transactionID = sm_tr_id x, t_pair = pair, t_canceled = False\<rparr> # cl_transaction_list l\<rparr>)\<rparr>"
  have req: "binding_request m2 cl ?p lc
      (im_random m (im_drawn m), im_random m (im_drawn m + 1), im_random m (im_drawn m + 2)) = Some x"
    using a unfolding x_def next_check_message_def m2_def by (subst binding_request_eq) auto
  have create: "ice_create_transaction cl pair (ms_stun_message_get_tr_id x) m2 = Some m3"
    using assms(3) by (simp add: ice_create_transaction_def upd_list_def m3_def m2_def ms_stun_message_get_tr_id_def)
  have comp: "\<not> (c_componentID lc \<noteq> 1 \<and> c_componentID lc \<noteq> 2)" using a by auto
  have "ice_send_binding_request env now cl pair m = transmit_request env cl pair ?p lc rc x m3"
    using a req [unfolded m2_def] create [unfolded m2_def] comp dummy assms(3)
    by (cases "p_state p")
       (auto simp: ice_send_binding_request_def ice_find_transaction_def draw3_def upd_pair_def eval_nat_numeral)
  also have "\<dots> = Some (after_check m cl pair l p now (sm_tr_id x) (Out_Packet (c_componentID lc)
      (stun_wire (ie_stun env) x) (ie_to_stun env (c_taddr lc)) (ie_to_stun env (c_taddr rc))))"
    using a l transmit_first [OF assms(1) snd, of m3 cl pair ?p]
    by (simp add: m3_def m2_def session_of_def after_check_def)
  finally show ?thesis by (simp add: x_def)
qed

section \<open>Acceptance of a check\<close>

lemma username_prefix:
  assumes "(58 :: u8) \<notin> set u"
  shows "takeWhile (\<lambda>c. c \<noteq> 58) (u @ 58 # v) = u"
proof -
  have "takeWhile (\<lambda>c. c \<noteq> 58) u = u" using assms by (auto simp: takeWhile_eq_all_conv)
  then show ?thesis by (simp add: takeWhile_tail)
qed

lemma received_fields:
  "sm_type (received env x) = sm_type x" "sm_username (received env x) = sm_username x" "sm_tr_id (received env x) = sm_tr_id x"
  "sm_has_message_integrity (received env x) = (sent_mac env x \<noteq> None)" "sm_has_fingerprint (received env x) = sm_has_fingerprint x"
  "sm_has_priority (received env x) = sm_has_priority x" "sm_has_ice_controlling (received env x) = sm_has_ice_controlling x"
  "sm_has_ice_controlled (received env x) = sm_has_ice_controlled x" "sm_message_integrity (received env x) = sent_mac env x"
  "sm_has_use_candidate (received env x) = sm_has_use_candidate x" "sm_has_error_code (received env x) = sm_has_error_code x"
  by (simp_all add: received_def received_with_def)

lemma binding_request_message_fields:
  "sm_type (binding_request_message s u w uc prio rnd) = 0" "sm_has_fingerprint (binding_request_message s u w uc prio rnd)"
  "sm_has_priority (binding_request_message s u w uc prio rnd)"
  "sm_has_ice_controlling (binding_request_message s u w uc prio rnd) = (s_role s = IR_Controlling)"
  "sm_has_ice_controlled (binding_request_message s u w uc prio rnd) = (s_role s = IR_Controlled)"
  "sm_has_use_candidate (binding_request_message s u w uc prio rnd) = (s_role s = IR_Controlling \<and> uc)"
  by (cases rnd; simp add: binding_request_message_def ms_stun_binding_request_create_def ms_stun_message_create_def
      ms_stun_message_set_random_tr_id_def ms_stun_message_set_tr_id_def)+

lemmas message_getters = ms_stun_message_is_request_def ms_stun_message_message_integrity_enabled_def
  ms_stun_message_get_username_def ms_stun_message_fingerprint_enabled_def ms_stun_message_has_priority_def
  ms_stun_message_has_ice_controlling_def ms_stun_message_has_ice_controlled_def
  ms_stun_message_get_message_integrity_def ms_stun_message_use_candidate_enabled_def ms_stun_message_get_tr_id_def

lemma check_passes_tests:
  assumes "env_ok e" "credentials_ok u (s_local_ufrag s) w" "x = binding_request_message s u (Some w) uc prio rnd"
    and "session_of m cl = Some s'" "s_local_ufrag s' = u" "s_local_pwd s' = w" "s_role s' \<noteq> s_role s" "ie_stun env = e"
    and "ev_packet ev = stun_wire e x" "msg = received e x"
  shows "ice_check_received_binding_request_attributes env ev msg src m = Some (True, m)"
    and "ice_check_received_binding_request_integrity env cl ev msg src m = Some (True, m)"
    and "ice_check_received_binding_request_username env cl ev msg src m = Some (True, m)"
    and "ice_check_received_binding_request_role_conflict env cl ev msg src m = Some (True, m)"
proof -
  have snd: "sendable e x" unfolding assms(3) by (rule binding_request_message_sendable [OF assms(1,2)])
  have mac: "sent_mac e x = Some (hmacSha1 e w
      (stun_header (sm_type x OR sm_method x) (sm_tr_id x) (of_nat (length (tlvs (plain_attrs x)) + 24)) @ tlvs (plain_attrs x)))"
    using binding_request_message_mac(1) [OF assms(2), of e] by (simp add: sent_mac_def Let_def assms(3))
  have fields: "sm_username x = Some (u @ [58] @ s_local_ufrag s)" "sm_has_priority x" "sm_has_fingerprint x"
    "sm_has_ice_controlling x = (s_role s = IR_Controlling)" "sm_has_ice_controlled x = (s_role s = IR_Controlled)"
    unfolding assms(3) by (simp_all add: binding_request_message_fields binding_request_message_mac(2) [OF assms(2)])
  note input = integrity_input_wire [OF assms(1) snd fields(3) mac]
  have colon: "58 \<notin> set u" using assms(2) by (simp add: credentials_ok_def)
  show "ice_check_received_binding_request_attributes env ev msg src m = Some (True, m)"
    using fields mac by (cases "s_role s")
      (simp_all add: ice_check_received_binding_request_attributes_def message_getters received_fields assms(10))
  show "ice_check_received_binding_request_integrity env cl ev msg src m = Some (True, m)"
    using input mac assms(4,6,8,9)
    by (simp add: ice_check_received_binding_request_integrity_def message_getters received_fields assms(10)
        ice_check_list_local_pwd_def ms_stun_calculate_integrity_short_term_def)
  show "ice_check_received_binding_request_username env cl ev msg src m = Some (True, m)"
    using fields assms(4,5) username_prefix [OF colon]
    by (simp add: ice_check_received_binding_request_username_def message_getters received_fields assms(10) ice_check_list_local_ufrag_def)
  show "ice_check_received_binding_request_role_conflict env cl ev msg src m = Some (True, m)"
    using fields assms(4,7)
    by (auto simp: ice_check_received_binding_request_role_conflict_def message_getters received_fields assms(10) Let_def)
qed

text \<open>C12: A connectivity check reaches its goal. An agent that sends a check for a pair writes one packet to the
  remote candidate and remembers the transaction; the peer, which has as local credentials the ones the agent has as
  remote credentials and the other role, parses the packet as a request, and all four tests on a received request
  (mandatory attributes, message integrity, user name, role conflict) succeed without changing its state or sending
  an error.
\<close>

theorem connectivity_check_accepted:
  assumes "env_ok (ie_stun env)" "can_check m cl pair u w lc rc p"
    and "session_of m2 cl2 = Some s2" "s_local_ufrag s2 = u" "s_local_pwd s2 = w" "s_role s2 \<noteq> s_role (im_session m)"
    and "ie_stun env2 = ie_stun env"
  shows "\<exists>m' packet msg t. ice_send_binding_request env now cl pair m = Some m' \<and>
    im_out m' = im_out m @ [Out_Packet (c_componentID lc) packet (ie_to_stun env (c_taddr lc)) (ie_to_stun env (c_taddr rc))] \<and>
    ice_find_transaction m' cl pair = Some (Some t) \<and> t_transactionID t = ms_stun_message_get_tr_id msg \<and>
    ms_stun_message_create_from_buffer_parsing packet (int (length packet)) = Some (Some msg) \<and>
    ms_stun_message_is_request msg \<and>
    (let ev = \<lparr>ev_rtp = rtp, ev_packet = packet, ev_source = src, ev_recv = dst\<rparr> in
     ice_check_received_binding_request_attributes env2 ev msg src m2 = Some (True, m2) \<and>
     ice_check_received_binding_request_integrity env2 cl2 ev msg src m2 = Some (True, m2) \<and>
     ice_check_received_binding_request_username env2 cl2 ev msg src m2 = Some (True, m2) \<and>
     ice_check_received_binding_request_role_conflict env2 cl2 ev msg src m2 = Some (True, m2))"
proof -
  obtain l where l: "im_lists m cl = Some l"
    using assms(2) by (auto simp: can_check_def session_of_def bind_eq_Some_conv)
  have cred: "credentials_ok u (s_local_ufrag (im_session m)) w" using assms(2) by (simp add: can_check_def)
  define x where "x = next_check_message m u w lc p"
  note x = x_def [unfolded next_check_message_def]
  have snd: "sendable (ie_stun env) x" unfolding x by (rule binding_request_message_sendable [OF assms(1) cred])
  have parse: "ms_stun_message_create_from_buffer_parsing (stun_wire (ie_stun env) x) (int (length (stun_wire (ie_stun env) x))) =
      Some (Some (received (ie_stun env) x))"
    by (rule parse_wire [OF assms(1) snd refl]) simp
  note tests = check_passes_tests [OF assms(1) cred x assms(3-7) _ refl,
      of "\<lparr>ev_rtp = rtp, ev_packet = stun_wire (ie_stun env) x, ev_source = src, ev_recv = dst\<rparr>" src]
  have "ms_stun_message_is_request (received (ie_stun env) x)"
    by (simp add: message_getters received_fields x binding_request_message_fields)
  then show ?thesis
    unfolding send_check [OF assms(1,2) l] x_def [symmetric] Let_def
    using parse tests
    by (intro exI [of _ "stun_wire (ie_stun env) x"] exI [of _ "received (ie_stun env) x"] exI conjI refl)
       (auto simp: after_check_def ice_find_transaction_def ice_find_transaction_from_pair_def message_getters received_fields)
qed

text \<open>Two agents on the same HMAC, the first with one pair to check.\<close>

definition sample_ice_env :: ice_env where
  "sample_ice_env = \<lparr>ie_stun = stun_sample_env, ie_junk = (\<lambda>i. of_nat i), ie_to_stun = (\<lambda>_. stun_addr_zero),
     ie_of_stun = (\<lambda>a. \<lparr>ta_ip = [49], ta_port = uint (sa_port a), ta_family = AF_INET\<rparr>)\<rparr>"

definition sample_agent :: "IceRole \<Rightarrow> bytes \<Rightarrow> bytes \<Rightarrow> bytes \<Rightarrow> bytes \<Rightarrow> ice_mem" where
  "sample_agent role lu lp ru rp = (ice_session_new (\<lambda>_. 0))
     \<lparr>im_session := (ice_session_init (\<lambda>_. 0))\<lparr>s_role := role, s_local_ufrag := lu, s_local_pwd := lp,
        s_remote_ufrag := Some ru, s_remote_pwd := Some rp, s_streams := [Some 0]\<rparr>,
      im_lists := [0 \<mapsto> (ice_check_list_init time_zero True)\<lparr>cl_session := True\<rparr>],
      im_cands := [1 \<mapsto> \<lparr>c_foundation = [49], c_taddr = \<lparr>ta_ip = [49], ta_port = 5000, ta_family = AF_INET\<rparr>,
        c_type = ICT_HostCandidate, c_priority = 1, c_componentID = 1, c_base = Some 1, c_is_default = False\<rparr>],
      im_pairs := [3 \<mapsto> \<lparr>p_role = role, p_local = Some 1, p_remote = Some 1, p_state = ICP_Waiting, p_priority = 0,
        p_transmission_time = time_zero, p_rto = 200, p_retransmissions = 0, p_is_default = False, p_use_candidate = False,
        p_is_nominated = False, p_nomination_pending = False, p_has_canceled_transaction = False,
        p_nomination_failing = False, p_retry_with_dummy_message_integrity = False, p_use_dummy_hmac = False\<rparr>]\<rparr>"

theorem connectivity_check_accepted_witness:
  "\<exists>m' packet msg. ice_send_binding_request sample_ice_env time_zero 0 3 (sample_agent IR_Controlling [97] [112] [98] [113]) = Some m' \<and>
     im_out m' = [Out_Packet 1 packet stun_addr_zero stun_addr_zero] \<and>
     ms_stun_message_create_from_buffer_parsing packet (int (length packet)) = Some (Some msg) \<and>
     ice_check_received_binding_request_integrity sample_ice_env 0
       \<lparr>ev_rtp = True, ev_packet = packet, ev_source = stun_addr_zero, ev_recv = stun_addr_zero\<rparr> msg stun_addr_zero
       (sample_agent IR_Controlled [98] [113] [97] [112]) = Some (True, sample_agent IR_Controlled [98] [113] [97] [112])"
proof -
  let ?m = "sample_agent IR_Controlling [97] [112] [98] [113]" and ?m2 = "sample_agent IR_Controlled [98] [113] [97] [112]"
  obtain lc p where *: "can_check ?m 0 3 [98] [113] lc lc p" "c_componentID lc = 1"
    by (simp add: can_check_def sample_agent_def session_of_def ice_check_list_remote_ufrag_def ice_check_list_remote_pwd_def
        ice_check_list_init_def ice_session_init_def credentials_ok_def c_string_def pair_local_def pair_remote_def cand_at_def)
  have "session_of ?m2 0 = Some (im_session ?m2)" "s_local_ufrag (im_session ?m2) = [98]" "s_local_pwd (im_session ?m2) = [113]"
    "s_role (im_session ?m2) \<noteq> s_role (im_session ?m)" "im_out ?m = []"
    by (simp_all add: sample_agent_def session_of_def ice_session_new_def)
  then show ?thesis
    using connectivity_check_accepted [of sample_ice_env ?m 0 3 "[98]" "[113]" lc lc p ?m2 0 _ sample_ice_env time_zero True stun_addr_zero stun_addr_zero]
      * stun_sample_env_ok
    by (fastforce simp: sample_ice_env_def Let_def)
qed

section \<open>Weak tests\<close>

text \<open>C39: What the tests on a received request do not see. A user name passes as soon as the part before its first
  colon is any prefix of the local user name fragment, the empty one included, because only that many characters are
  compared. And as the two message integrity values are compared as C strings, every value that begins with a zero
  byte passes when the right one begins with a zero byte: whoever sends it does not need to know the password.
\<close>

theorem request_tests_too_weak:
  assumes "session_of m cl = Some s" "58 \<notin> set (s_local_ufrag s)"
    and "ms_stun_message_get_username msg = Some (take k (s_local_ufrag s) @ [58] @ v)"
    and "integrity_input (ev_packet ev) msg = Some input"
    and "hmacSha1 (ie_stun env) (s_local_pwd s) input = 0 # right" "ms_stun_message_get_message_integrity msg = Some (0 # wrong)"
  shows "ice_check_received_binding_request_username env cl ev msg src m = Some (True, m) \<and>
    ice_check_received_binding_request_integrity env cl ev msg src m = Some (True, m)"
proof -
  have "58 \<notin> set (take k (s_local_ufrag s))" using assms(2) by (meson in_set_takeD)
  from username_prefix [OF this, of v] show ?thesis
    using assms
    by (simp add: ice_check_received_binding_request_username_def ice_check_received_binding_request_integrity_def
        ice_check_list_local_ufrag_def ice_check_list_local_pwd_def ms_stun_calculate_integrity_short_term_def cstr_def min_def)
qed

definition zero_hmac_env :: ice_env where
  "zero_hmac_env = sample_ice_env\<lparr>ie_stun := \<lparr>hmacSha1 = (\<lambda>k b. 0 # replicate 19 1), md5 = (\<lambda>b. replicate 16 7)\<rparr>\<rparr>"

definition forged_request :: MSStunMessage where
  "forged_request = stun_message_zero\<lparr>sm_username := Some [58, 120], sm_length := 32, sm_message_integrity := Some (0 # replicate 19 9)\<rparr>"

theorem request_tests_too_weak_witness:
  "ice_check_received_binding_request_username zero_hmac_env 0
     \<lparr>ev_rtp = True, ev_packet = replicate 52 0, ev_source = stun_addr_zero, ev_recv = stun_addr_zero\<rparr> forged_request
     stun_addr_zero (sample_agent IR_Controlled [98] [113] [97] [112]) = Some (True, sample_agent IR_Controlled [98] [113] [97] [112]) \<and>
   ice_check_received_binding_request_integrity zero_hmac_env 0
     \<lparr>ev_rtp = True, ev_packet = replicate 52 0, ev_source = stun_addr_zero, ev_recv = stun_addr_zero\<rparr> forged_request
     stun_addr_zero (sample_agent IR_Controlled [98] [113] [97] [112]) = Some (True, sample_agent IR_Controlled [98] [113] [97] [112]) \<and>
   hmacSha1 (ie_stun zero_hmac_env) [113] (replicate 20 0) \<noteq> 0 # replicate 19 9"
proof -
  let ?m = "sample_agent IR_Controlled [98] [113] [97] [112]"
  have "session_of ?m 0 = Some (im_session ?m)" "s_local_ufrag (im_session ?m) = [98]" "s_local_pwd (im_session ?m) = [113]"
    by (simp_all add: sample_agent_def session_of_def)
  moreover have "\<exists>b. integrity_input (replicate 52 0) forged_request = Some b"
    by (simp add: integrity_input_def wr_block_def rd_block_def enc16_def)
  ultimately show ?thesis
    using request_tests_too_weak [of ?m 0 "im_session ?m" forged_request 0 "[120]"
        "\<lparr>ev_rtp = True, ev_packet = replicate 52 0, ev_source = stun_addr_zero, ev_recv = stun_addr_zero\<rparr>" _ zero_hmac_env
        "replicate 19 1" "replicate 19 9" stun_addr_zero]
    by (auto simp: zero_hmac_env_def forged_request_def message_getters)
qed

section \<open>Error responses\<close>

lemma error_response_sendable:
  assumes "env_ok e" "num < 25600" "text \<noteq> []" "c_string text" "length text \<le> STUN_MAX_REASON_LENGTH"
  shows "sendable e (error_response rnd num text)"
proof -
  have "length (tlvs (stun_attrs e (error_response rnd num text))) < 65536"
    using assms stun_pad_values(1) [of "length (error_bytes num (Some text))"]
    by (cases rnd) (simp add: stun_attrs_eq sent_mac_def stun_mac_def Let_def plain_attrs_def if_attr_def opt_attr_def length_tlv_field stun_pad_values(2-)
        error_response_def message_setters ms_stun_message_set_error_code_def ms_stun_binding_error_response_create_def error_bytes_def)
  then show ?thesis
    using assms
    by (cases rnd) (simp add: sendable_def message_ok_def error_response_def message_setters stun_addr_zero_def addr_ok_def
        addr_canon_def string_ok_def reason_ok_def ms_stun_message_set_error_code_def ms_stun_binding_error_response_create_def)
qed

lemma error_response_fields:
  "sm_type (error_response rnd num text) = 0x0110" "sm_tr_id (error_response rnd num text) = sm_tr_id (ms_stun_binding_error_response_create rnd)"
  by (cases rnd; simp add: error_response_def message_setters ms_stun_message_set_error_code_def ms_stun_binding_error_response_create_def)+

lemma unknown_error_response_ignored:
  assumes "ms_stun_message_create_from_buffer_parsing (ev_packet ev) (int (length (ev_packet ev))) = Some (Some msg)"
    and "sm_type msg = 0x0110" "im_lists m cl = Some l" "\<forall>t \<in> set (cl_transaction_list l). t_transactionID t \<noteq> sm_tr_id msg"
    and "\<not> cl_gathering_candidates l"
  shows "ice_handle_stun_packet env now cl ev m = Some m"
proof -
  have "List.find (ice_find_pair_from_transactionID (ms_stun_message_get_tr_id msg)) (cl_transaction_list l) = None"
    using assms(4) by (auto simp: find_None_iff ice_find_pair_from_transactionID_def ms_stun_message_get_tr_id_def)
  then show ?thesis
    using assms(1-3,5)
    by (simp add: ice_handle_stun_packet_def ms_stun_message_is_request_def ms_stun_message_is_success_response_def
        ms_stun_message_is_error_response_def ice_handle_received_error_response_def)
qed

text \<open>C38: An error response has no effect. Whatever request it answers, the response an agent sends carries a transaction
  ID drawn at random and not that of the request, although a comment says that the ID is copied; unless it happens to
  be the ID of another transaction, the agent that sent the request, once its gathering is over, finds no transaction for
  it and changes nothing.
  In particular a response 487 does not make it switch its role, so that a role conflict it has to repair lasts.
\<close>

theorem error_response_ignored:
  assumes "env_ok (ie_stun env)" "num < 25600" "text \<noteq> []" "c_string text" "length text \<le> 127"
    and "rnd = (im_random m (im_drawn m), im_random m (im_drawn m + 1), im_random m (im_drawn m + 2))"
    and "im_lists peer cl = Some l"
    and "\<forall>t \<in> set (cl_transaction_list l). t_transactionID t \<noteq> sm_tr_id (ms_stun_binding_error_response_create rnd)"
    and "\<not> cl_gathering_candidates l"
  shows "\<exists>m' packet. ice_send_error_response env ev request dest num text m = Some m' \<and>
    im_out m' = im_out m @ [Out_Packet (ice_get_componentID_from_rtp_session ev) packet (ev_recv ev) dest] \<and>
    ice_handle_stun_packet env' now cl \<lparr>ev_rtp = rtp, ev_packet = packet, ev_source = src, ev_recv = dst\<rparr> peer = Some peer"
proof -
  define x where "x = error_response rnd num text"
  have snd: "sendable (ie_stun env) x" unfolding x_def by (rule error_response_sendable [OF assms(1-5)])
  obtain n buf where enc: "ms_stun_message_encode (ie_stun env) (ie_junk env) x = Some (n, buf)" "0 < n"
    "take n buf = stun_wire (ie_stun env) x" using encode_wire [OF assms(1) snd] by blast
  have "ice_handle_stun_packet env' now cl \<lparr>ev_rtp = rtp, ev_packet = stun_wire (ie_stun env) x, ev_source = src, ev_recv = dst\<rparr> peer = Some peer"
  proof (rule unknown_error_response_ignored [OF _ _ assms(7)])
    show "ms_stun_message_create_from_buffer_parsing (ev_packet \<lparr>ev_rtp = rtp, ev_packet = stun_wire (ie_stun env) x, ev_source = src, ev_recv = dst\<rparr>)
        (int (length (ev_packet \<lparr>ev_rtp = rtp, ev_packet = stun_wire (ie_stun env) x, ev_source = src, ev_recv = dst\<rparr>))) =
        Some (Some (received (ie_stun env) x))"
      using parse_wire [OF assms(1) snd refl, of "stun_wire (ie_stun env) x"] by simp
  qed (use assms(8,9) in \<open>simp_all add: received_fields x_def error_response_fields\<close>)
  moreover have "ice_send_error_response env ev request dest num text m =
      Some (ice_emit (m\<lparr>im_drawn := im_drawn m + 3\<rparr>) (Out_Packet (ice_get_componentID_from_rtp_session ev) (stun_wire (ie_stun env) x) (ev_recv ev) dest))"
    using enc by (simp add: ice_send_error_response_def draw3_def send_message_def x_def assms(6))
  ultimately show ?thesis by (auto simp: ice_emit_def)
qed

theorem error_response_ignored_witness:
  "\<exists>m' packet. ice_send_error_response sample_ice_env \<lparr>ev_rtp = True, ev_packet = [], ev_source = stun_addr_zero, ev_recv = stun_addr_zero\<rparr>
       stun_message_zero stun_addr_zero MS_ICE_ERROR_CODE_ROLE_CONFLICT (map of_char ''Role Conflict'')
       (sample_agent IR_Controlling [98] [113] [97] [112]) = Some m' \<and>
     im_out m' = [Out_Packet 1 packet stun_addr_zero stun_addr_zero] \<and>
     ice_handle_stun_packet sample_ice_env time_zero 0
       \<lparr>ev_rtp = True, ev_packet = packet, ev_source = stun_addr_zero, ev_recv = stun_addr_zero\<rparr>
       (sample_agent IR_Controlling [97] [112] [98] [113]) = Some (sample_agent IR_Controlling [97] [112] [98] [113])"
proof -
  let ?m = "sample_agent IR_Controlling [98] [113] [97] [112]"
  have "im_out ?m = []" by (simp add: sample_agent_def ice_session_new_def)
  then show ?thesis
    using error_response_ignored [of sample_ice_env MS_ICE_ERROR_CODE_ROLE_CONFLICT "map of_char ''Role Conflict''" _ ?m
        "sample_agent IR_Controlling [97] [112] [98] [113]" 0 "(ice_check_list_init time_zero True)\<lparr>cl_session := True\<rparr>"
        "\<lparr>ev_rtp = True, ev_packet = [], ev_source = stun_addr_zero, ev_recv = stun_addr_zero\<rparr>" stun_message_zero stun_addr_zero
        sample_ice_env time_zero True stun_addr_zero stun_addr_zero]
      stun_sample_env_ok
    by (auto simp: MS_ICE_ERROR_CODE_ROLE_CONFLICT_def c_string_def sample_ice_env_def sample_agent_def
        ice_check_list_init_def ice_get_componentID_from_rtp_session_def)
qed

end
