(* ===== verification/Ice_Conclude_Spec.thy ===== *)
theory Ice_Conclude_Spec
  imports Ice_Lists
begin

text \<open>
  The conclusion of a check list: what is removed from it when a pair is nominated, and that a completed check list
  has exactly one selected valid pair for each of its components, which is a nominated one.
\<close>

section \<open>Removal of waiting and frozen pairs\<close>

lemma remove_waiting_inside:
  assumes "\<forall>a \<in> set as. waiting_or_frozen_of m cid a = Some (W a)"
  shows "remove_waiting_loop m cid False as = Some (filter (\<lambda>a. \<not> W a) as)"
  using assms by (induction as) auto

text \<open>C40: When a pair is nominated, the pairs of its component that are Waiting or Frozen have to leave the check list
  and the queue of triggered checks. The loop removes them all only if the first element of the list stays: when the
  first element is to be removed, it is the only one that is, because the element after it has no predecessor any
  more and the loop takes this for the end of the list.
\<close>

theorem remove_waiting_stops_at_head:
  assumes "\<forall>a \<in> set xs. waiting_or_frozen_of m cid a = Some (W a)"
  shows "ice_remove_waiting_and_frozen_pairs_from_list m xs cid =
    Some (case xs of [] \<Rightarrow> [] | x # r \<Rightarrow> if W x then r else x # filter (\<lambda>a. \<not> W a) r)"
  using assms remove_waiting_inside [of _ m cid W]
  by (cases xs) (auto simp: ice_remove_waiting_and_frozen_pairs_from_list_def)

definition sample_pair :: "iptr \<Rightarrow> IceCandidatePairState \<Rightarrow> IceCandidatePair" where
  "sample_pair a st =
     \<lparr>p_role = IR_Controlling, p_local = Some a, p_remote = Some a, p_state = st, p_priority = 0,
      p_transmission_time = time_zero, p_rto = 200, p_retransmissions = 0, p_is_default = False, p_use_candidate = False,
      p_is_nominated = False, p_nomination_pending = False, p_has_canceled_transaction = False,
      p_nomination_failing = False, p_retry_with_dummy_message_integrity = False, p_use_dummy_hmac = False\<rparr>"

definition sample_rtp_candidate :: IceCandidate where
  "sample_rtp_candidate =
     \<lparr>c_foundation = [49], c_taddr = \<lparr>ta_ip = [49], ta_port = 5000, ta_family = AF_INET\<rparr>, c_type = ICT_HostCandidate,
      c_priority = 1, c_componentID = 1, c_base = None, c_is_default = False\<rparr>"

text \<open>Three waiting pairs: two of them are left.\<close>

theorem remove_waiting_stops_at_head_witness:
  "ice_remove_waiting_and_frozen_pairs_from_list
     ((ice_session_new (\<lambda>_. 0))\<lparr>im_cands := [0 \<mapsto> sample_rtp_candidate],
       im_pairs := [1 \<mapsto> sample_pair 0 ICP_Waiting, 2 \<mapsto> sample_pair 0 ICP_Frozen, 3 \<mapsto> sample_pair 0 ICP_Waiting]\<rparr>)
     [1, 2, 3] 1 = Some [2, 3]"
  using remove_waiting_stops_at_head [of "[1, 2, 3]" "(ice_session_new (\<lambda>_. 0))\<lparr>im_cands := [0 \<mapsto> sample_rtp_candidate],
       im_pairs := [1 \<mapsto> sample_pair 0 ICP_Waiting, 2 \<mapsto> sample_pair 0 ICP_Frozen, 3 \<mapsto> sample_pair 0 ICP_Waiting]\<rparr>" 1 "\<lambda>_. True"]
  by (simp add: waiting_or_frozen_of_def sample_pair_def sample_rtp_candidate_def pair_local_def cand_at_def)

section \<open>What the operations leave alone\<close>

text \<open>The part of the memory that decides which valid pairs are nominated and selected.\<close>

definition pair_view :: "IceCandidatePair \<Rightarrow> iptr option \<times> iptr option \<times> bool" where
  "pair_view p = (p_local p, p_remote p, p_is_nominated p)"

definition list_view :: "IceCheckList \<Rightarrow> iptr list \<times> iptr list \<times> iptr list \<times> IceCheckListState" where
  "list_view l = (cl_valid_list l, cl_local_componentIDs l, cl_losing_pairs l, cl_state l)"

definition same_nominations :: "ice_mem \<Rightarrow> ice_mem \<Rightarrow> bool" where
  "same_nominations m m' \<longleftrightarrow> im_cands m' = im_cands m \<and> im_valids m' = im_valids m \<and>
     (\<forall>a. map_option pair_view (im_pairs m' a) = map_option pair_view (im_pairs m a)) \<and>
     (\<forall>a. map_option list_view (im_lists m' a) = map_option list_view (im_lists m a))"

interpretation nom: mem_frame same_nominations
  by unfold_locales (simp_all add: same_nominations_def)

lemma nom_upd_pair: "same_nominations m m1 \<Longrightarrow> (\<And>p. pair_view (f p) = pair_view p) \<Longrightarrow> keeps same_nominations m (upd_pair m1 a f)"
  by (auto simp: keeps_def upd_pair_def same_nominations_def bind_eq_Some_conv) (metis option.map(2))

lemma nom_upd_list: "same_nominations m m1 \<Longrightarrow> (\<And>l. list_view (f l) = list_view l) \<Longrightarrow> keeps same_nominations m (upd_list m1 a f)"
  by (auto simp: keeps_def upd_list_def same_nominations_def bind_eq_Some_conv) (metis option.map(2))

lemma nom_emit: "same_nominations m m1 \<Longrightarrow> same_nominations m (ice_emit m1 e)"
  by (simp add: ice_emit_def same_nominations_def)

lemma nom_upd_session: "same_nominations m m1 \<Longrightarrow> same_nominations m (upd_session m1 f)"
  by (simp add: upd_session_def same_nominations_def)

lemmas nom_leaves = nom_upd_pair nom_upd_list nom_emit nom_upd_session

lemma nom_set_state: "same_nominations m m1 \<Longrightarrow> keeps same_nominations m (ice_pair_set_state m1 a st)"
  unfolding ice_pair_set_state_def by (intro nom_leaves) (simp_all add: pair_view_def)

lemma nom_queue: "same_nominations m m1 \<Longrightarrow> keeps same_nominations m (ice_check_list_queue_triggered_check cl p m1)"
  unfolding ice_check_list_queue_triggered_check_def by (intro nom_leaves) (simp_all add: list_view_def)

lemma nom_nominate: "same_nominations m m1 \<Longrightarrow> keeps same_nominations m (ice_check_list_nominate cl vs m1)"
  unfolding ice_check_list_nominate_def
  by (intro nom.keeps_intros nom_leaves nom_queue) (simp_all add: pair_view_def list_view_def)

lemma nom_perform_nominations:
  "same_nominations m m1 \<Longrightarrow> keeps same_nominations m (ice_check_list_perform_nominations now cl b m1)"
  unfolding ice_check_list_perform_nominations_def
  by (intro nom.keeps_intros nom_leaves nom_nominate) (simp_all add: list_view_def)

lemma nom_conclude_waiting:
  "same_nominations m m1 \<Longrightarrow> keeps same_nominations m (ice_conclude_waiting_frozen_and_inprogress_pairs cl v m1)"
  unfolding ice_conclude_waiting_frozen_and_inprogress_pairs_def cap_retransmissions_def
  by (intro nom.keeps_intros nom_leaves) (simp_all add: pair_view_def list_view_def)

lemma nom_stop_retransmissions:
  "same_nominations m m1 \<Longrightarrow> keeps same_nominations m (ice_check_list_stop_retransmissions cl m1)"
  unfolding ice_check_list_stop_retransmissions_def ice_pair_stop_retransmissions_def
  by (intro nom.keeps_intros nom_leaves nom_set_state) (simp_all add: pair_view_def list_view_def)

lemma nom_conclude_addresses: "same_nominations m m1 \<Longrightarrow> keeps same_nominations m (conclude_addresses cl m1)"
  unfolding conclude_addresses_def conclude_turn_component_def
  by (intro nom.keeps_intros nom_leaves) simp_all

lemma nom_notify: "same_nominations m m1 \<Longrightarrow> keeps same_nominations m (ice_notify_session_processing_finished now cl m1)"
  unfolding ice_notify_session_processing_finished_def
  by (intro nom.keeps_intros nom_leaves) simp_all

section \<open>Selection\<close>

definition valid_component :: "ice_mem \<Rightarrow> iptr \<Rightarrow> u16 option" where
  "valid_component m v = do {
     vp \<leftarrow> im_valids m v;
     p \<leftarrow> im_pairs m (v_valid vp);
     map_option c_componentID (pair_local m p) }"

definition valid_nominated :: "ice_mem \<Rightarrow> iptr \<Rightarrow> bool" where
  "valid_nominated m v \<longleftrightarrow> (\<exists>vp p. im_valids m v = Some vp \<and> im_pairs m (v_valid vp) = Some p \<and> p_is_nominated p)"

definition valid_selected :: "ice_mem \<Rightarrow> iptr \<Rightarrow> bool" where
  "valid_selected m v \<longleftrightarrow> (\<exists>vp. im_valids m v = Some vp \<and> v_selected vp)"

lemma find_nominated_True:
  "ice_find_nominated_valid_pair_from_componentID m cid v = Some True \<Longrightarrow> valid_nominated m v \<and> valid_component m v = Some cid"
  by (auto simp: ice_find_nominated_valid_pair_from_componentID_def valid_nominated_def valid_component_def
      bind_eq_Some_conv split: if_splits)

text \<open>Two memories that differ in the selected flags only.\<close>

definition only_selected :: "ice_mem \<Rightarrow> ice_mem \<Rightarrow> bool" where
  "only_selected m m' \<longleftrightarrow> im_cands m' = im_cands m \<and> im_pairs m' = im_pairs m \<and> im_lists m' = im_lists m \<and>
     (\<forall>v. map_option v_valid (im_valids m' v) = map_option v_valid (im_valids m v))"

lemma only_selected_find:
  assumes "only_selected m m'"
  shows "ice_find_nominated_valid_pair_from_componentID m' = ice_find_nominated_valid_pair_from_componentID m"
proof (intro ext)
  fix cid v
  have "map_option v_valid (im_valids m' v) = map_option v_valid (im_valids m v)" using assms by (simp add: only_selected_def)
  moreover have "pair_local m' = pair_local m"
    using assms by (intro ext) (simp add: pair_local_def cand_at_def only_selected_def)
  ultimately show "ice_find_nominated_valid_pair_from_componentID m' cid v = ice_find_nominated_valid_pair_from_componentID m cid v"
    using assms
    by (cases "im_valids m v"; cases "im_valids m' v")
       (auto simp: ice_find_nominated_valid_pair_from_componentID_def only_selected_def cong: if_cong)
qed

lemma unselect_all:
  assumes "bctbx_list_for_each2 vs ice_unselect_valid_pair m = Some m'"
  shows "only_selected m m' \<and> (\<forall>v \<in> set vs. \<not> valid_selected m' v) \<and>
    (\<forall>v. \<not> valid_selected m v \<longrightarrow> \<not> valid_selected m' v)"
  using assms
proof (induction vs arbitrary: m)
  case (Cons v vs)
  then obtain m1 where m1: "ice_unselect_valid_pair v m = Some m1" "bctbx_list_for_each2 vs ice_unselect_valid_pair m1 = Some m'"
    by (auto simp: bind_eq_Some_conv)
  then have "only_selected m m1" "\<not> valid_selected m1 v" "\<forall>w. \<not> valid_selected m w \<longrightarrow> \<not> valid_selected m1 w"
    by (auto simp: ice_unselect_valid_pair_def upd_valid_def only_selected_def valid_selected_def bind_eq_Some_conv split: if_splits)
  with Cons.IH [OF m1(2)] show ?case by (auto simp: only_selected_def)
qed (simp add: only_selected_def)

lemma select_nominated_step:
  assumes "select_nominated cl cid m = Some m'" "im_lists m cl = Some l"
  shows "only_selected m m' \<and> (\<forall>v. valid_selected m' v \<longleftrightarrow> valid_selected m v \<or>
    bctbx_list_find_custom (cl_valid_list l) (ice_find_nominated_valid_pair_from_componentID m cid) = Some (Some v))"
proof -
  obtain r where r: "bctbx_list_find_custom (cl_valid_list l) (ice_find_nominated_valid_pair_from_componentID m cid) = Some r"
    using assms by (auto simp: select_nominated_def bind_eq_Some_conv)
  show ?thesis
  proof (cases r)
    case None
    then show ?thesis using assms r by (auto simp: select_nominated_def only_selected_def)
  next
    case (Some w)
    then obtain x where "im_valids m w = Some x" "m' = m\<lparr>im_valids := (im_valids m)(w \<mapsto> x\<lparr>v_selected := True\<rparr>)\<rparr>"
      using assms r by (auto simp: select_nominated_def upd_valid_def bind_eq_Some_conv)
    then show ?thesis using r Some by (auto simp: only_selected_def valid_selected_def)
  qed
qed

lemma select_candidates_selects:
  assumes "ice_check_list_select_candidates cl m = Some m'" "im_lists m cl = Some l" "cl_state l = ICL_Completed"
  shows "only_selected m m' \<and> (\<forall>v \<in> set (cl_valid_list l). valid_selected m' v \<longleftrightarrow>
    (\<exists>cid \<in> {1, 2}. bctbx_list_find_custom (cl_valid_list l) (ice_find_nominated_valid_pair_from_componentID m cid) = Some (Some v)))"
proof -
  obtain m1 m2 where s: "bctbx_list_for_each2 (cl_valid_list l) ice_unselect_valid_pair m = Some m1"
    "select_nominated cl 1 m1 = Some m2" "select_nominated cl 2 m2 = Some m'"
    using assms by (auto simp: ice_check_list_select_candidates_def bind_eq_Some_conv)
  note u = unselect_all [OF s(1)]
  then have l1: "im_lists m1 cl = Some l" using assms(2) by (simp add: only_selected_def)
  note s1 = select_nominated_step [OF s(2) l1]
  then have l2: "im_lists m2 cl = Some l" using l1 by (simp add: only_selected_def)
  note s2 = select_nominated_step [OF s(3) l2]
  have "only_selected m m2" using u s1 by (simp add: only_selected_def)
  then show ?thesis
    using u s1 s2 only_selected_find [of m m1] only_selected_find [of m m2] by (auto simp: only_selected_def)
qed

lemma nominated_for_all:
  assumes "bctbx_list_for_each2 ids (ice_find_nominated_valid_pair_for_componentID m cl) b = Some True"
    and "im_lists m cl = Some l" "idp \<in> set ids" "im_cands m idp = Some c"
  shows "\<exists>v. bctbx_list_find_custom (cl_valid_list l)
    (ice_find_nominated_valid_pair_from_componentID m (c_componentID c)) = Some (Some v)"
proof -
  have b: "b'" if "bctbx_list_for_each2 ids (ice_find_nominated_valid_pair_for_componentID m cl) b' = Some True" for ids b'
    using that
    by (induction ids arbitrary: b') (fastforce simp: ice_find_nominated_valid_pair_for_componentID_def bind_eq_Some_conv split: if_splits)+
  show ?thesis
    using assms(1,3)
  proof (induction ids arbitrary: b)
    case (Cons i ids)
    then obtain b1 where b1: "ice_find_nominated_valid_pair_for_componentID m cl i b = Some b1"
      "bctbx_list_for_each2 ids (ice_find_nominated_valid_pair_for_componentID m cl) b1 = Some True"
      by (auto simp: bind_eq_Some_conv)
    with b [OF b1(2)] Cons assms(2,4) show ?case
      by (auto simp: ice_find_nominated_valid_pair_for_componentID_def bind_eq_Some_conv split: if_splits)
  qed simp
qed

section \<open>The conclusion\<close>

lemma same_nominations_find:
  assumes "same_nominations m m'"
  shows "ice_find_nominated_valid_pair_from_componentID m' = ice_find_nominated_valid_pair_from_componentID m"
    and "valid_component m' = valid_component m" "valid_nominated m' v = valid_nominated m v" "valid_selected m' v = valid_selected m v"
proof -
  have c: "im_cands m' = im_cands m" "im_valids m' = im_valids m" using assms by (simp_all add: same_nominations_def)
  have view: "map_option pair_view (im_pairs m' a) = map_option pair_view (im_pairs m a)" for a
    using assms by (simp add: same_nominations_def)
  have p: "\<exists>p'. im_pairs m' a = Some p' \<and> pair_view p' = pair_view p" if "im_pairs m a = Some p" for a p
    using view [of a] that by (cases "im_pairs m' a") auto
  have n: "im_pairs m' a = None" if "im_pairs m a = None" for a using view [of a] that by simp
  have *: "ice_find_nominated_valid_pair_from_componentID m' cid v = ice_find_nominated_valid_pair_from_componentID m cid v"
    "valid_component m' v = valid_component m v" "valid_nominated m' v = valid_nominated m v" for cid v
    using p n c
    by (cases "im_valids m v"; cases "im_pairs m (v_valid (the (im_valids m v)))";
        force simp: ice_find_nominated_valid_pair_from_componentID_def valid_component_def valid_nominated_def
          pair_view_def pair_local_def cand_at_def)+
  show "ice_find_nominated_valid_pair_from_componentID m' = ice_find_nominated_valid_pair_from_componentID m"
    "valid_component m' = valid_component m" "valid_nominated m' v = valid_nominated m v" "valid_selected m' v = valid_selected m v"
    by (simp_all add: fun_eq_iff * valid_selected_def c)
qed

lemma only_selected_component:
  assumes "only_selected m m'"
  shows "valid_component m' v = valid_component m v" "valid_nominated m' v = valid_nominated m v"
proof -
  have "map_option v_valid (im_valids m' v) = map_option v_valid (im_valids m v)" using assms by (simp add: only_selected_def)
  then show "valid_component m' v = valid_component m v" "valid_nominated m' v = valid_nominated m v"
    using assms
    by (cases "im_valids m v"; cases "im_valids m' v";
        auto simp: valid_component_def valid_nominated_def only_selected_def pair_local_def cand_at_def)+
qed

lemma find_nominated_lists [simp]:
  "ice_find_nominated_valid_pair_from_componentID (m\<lparr>im_lists := x\<rparr>) = ice_find_nominated_valid_pair_from_componentID m"
  by (intro ext) (simp add: ice_find_nominated_valid_pair_from_componentID_def pair_local_def cand_at_def cong: if_cong)

text \<open>A successful conclusion passes through the selection of the nominated pairs, and keeps it.\<close>

lemma completeE:
  assumes "complete_check_list now cl m = Some m'" "im_lists m cl = Some l"
    and "l1 = l\<lparr>cl_state := ICL_Completed, cl_nomination_in_progress := False, cl_nomination_delay_running := False\<rparr>"
    and "m1 = m\<lparr>im_lists := (im_lists m)(cl \<mapsto> l1)\<rparr>"
  obtains m2 where "ice_check_list_select_candidates cl m1 = Some m2" "same_nominations m2 m'"
proof -
  have "upd_list m cl (\<lambda>l. l\<lparr>cl_state := ICL_Completed, cl_nomination_in_progress := False,
      cl_nomination_delay_running := False\<rparr>) = Some m1" using assms(2-4) by (simp add: upd_list_def)
  with assms(1) obtain m2 where m2: "ice_check_list_select_candidates cl m1 = Some m2"
    "do { m \<leftarrow> upd_list m2 cl (\<lambda>l. l\<lparr>cl_connectivity_checks_running := False, cl_keepalive_time := now\<rparr>);
         m \<leftarrow> ice_check_list_stop_retransmissions cl m;
         m \<leftarrow> conclude_addresses cl m;
         ice_notify_session_processing_finished now cl
           (ice_emit m (Out_Event ORTP_EVENT_ICE_CHECK_LIST_PROCESSING_FINISHED True)) } = Some m'"
    unfolding complete_check_list_def by (cases "ice_check_list_select_candidates cl m1") auto
  have "same_nominations m2 m'"
    by (rule nom.keepsD [OF _ m2(2)])
       (intro nom.keeps_intros nom_leaves nom_stop_retransmissions nom_conclude_addresses nom_notify; simp add: list_view_def)
  with m2(1) show thesis by (rule that)
qed

lemma concludeE:
  assumes "ice_conclude_processing now cl b m = Some m'" "im_lists m cl = Some l" "cl_state l = ICL_Running"
    and "im_lists m' cl = Some l'" "cl_state l' = ICL_Completed"
  obtains m2 l2 where "same_nominations m m2" "im_lists m2 cl = Some l2" "cl_valid_list l2 = cl_valid_list l"
    "bctbx_list_for_each2 (cl_local_componentIDs l) (ice_find_nominated_valid_pair_for_componentID m2 cl) True = Some True"
    "complete_check_list now cl m2 = Some m'"
proof -
  obtain s m1 l1 m2 r where c: "session_of m cl = Some s"
    "(if s_role s = IR_Controlling then ice_check_list_perform_nominations now cl b m else Some m) = Some m1"
    "im_lists m1 cl = Some l1"
    "bctbx_list_for_each2 (cl_valid_list l1) (ice_conclude_waiting_frozen_and_inprogress_pairs cl) m1 = Some m2"
    "bctbx_list_for_each2 (cl_local_componentIDs l1) (ice_find_nominated_valid_pair_for_componentID m2 cl) True = Some r"
    and last_step: "(if r \<and> length (cl_losing_pairs l1) = 0 then complete_check_list now cl m2 else Some m2) = Some m'"
    using assms(1-3) unfolding ice_conclude_processing_def by (auto simp: bind_eq_Some_conv)
  have m1: "same_nominations m m1"
    using c(2) nom.keepsD [OF nom_perform_nominations [OF nom.R_refl]] nom.R_refl by (auto split: if_splits)
  have m2: "same_nominations m m2"
    using nom.keepsD [OF nom.keeps_for_each2 [OF m1 nom_conclude_waiting [OF nom.R_refl]] c(4)] .
  have "map_option list_view (im_lists m1 cl) = map_option list_view (im_lists m cl)"
    "map_option list_view (im_lists m2 cl) = map_option list_view (im_lists m cl)"
    using m1 m2 by (simp_all add: same_nominations_def)
  then obtain l2 where l2: "im_lists m2 cl = Some l2" "list_view l2 = list_view l" and l1: "list_view l1 = list_view l"
    using assms(2) c(3) by auto
  have "r" "complete_check_list now cl m2 = Some m'"
    using last_step l2 assms(3-5) by (auto simp: list_view_def split: if_splits)
  with m2 l2 l1 c(5) show thesis by (intro that [of m2 l2]) (auto simp: list_view_def)
qed

text \<open>C10: When the processing of a running check list concludes with the state Completed, then for each of its
  RTP and RTCP components there is exactly one selected pair in the valid list, and it is a nominated one: the media
  streams use the pair the agents agreed on, never a pair that is merely valid and never two.
\<close>

theorem conclude_selects_nominated_pair:
  assumes "ice_conclude_processing now cl b m = Some m'" "im_lists m cl = Some l" "cl_state l = ICL_Running"
    and "im_lists m' cl = Some l'" "cl_state l' = ICL_Completed"
    and "idp \<in> set (cl_local_componentIDs l)" "im_cands m idp = Some c" "c_componentID c \<in> {1, 2}"
  shows "\<exists>v. valid_nominated m' v \<and>
    {w \<in> set (cl_valid_list l'). valid_selected m' w \<and> valid_component m' w = Some (c_componentID c)} = {v}"
proof -
  obtain m2 l2 where s: "same_nominations m m2" "im_lists m2 cl = Some l2" "cl_valid_list l2 = cl_valid_list l"
    "bctbx_list_for_each2 (cl_local_componentIDs l) (ice_find_nominated_valid_pair_for_componentID m2 cl) True = Some True"
    "complete_check_list now cl m2 = Some m'"
    using concludeE [OF assms(1-5)] by blast
  define l3 where "l3 = l2\<lparr>cl_state := ICL_Completed, cl_nomination_in_progress := False, cl_nomination_delay_running := False\<rparr>"
  define m3 where "m3 = m2\<lparr>im_lists := (im_lists m2)(cl \<mapsto> l3)\<rparr>"
  obtain m4 where m4: "ice_check_list_select_candidates cl m3 = Some m4" "same_nominations m4 m'"
    using completeE [OF s(5,2) l3_def m3_def] by blast
  let ?F = "\<lambda>cid. bctbx_list_find_custom (cl_valid_list l2) (ice_find_nominated_valid_pair_from_componentID m3 cid)"
  have l3: "im_lists m3 cl = Some l3" "cl_state l3 = ICL_Completed" "cl_valid_list l3 = cl_valid_list l2"
    by (simp_all add: m3_def l3_def)
  have "im_cands m2 idp = Some c" using s(1) assms(7) by (simp add: same_nominations_def)
  from nominated_for_all [OF s(4) s(2) assms(6) this]
  obtain v where v: "?F (c_componentID c) = Some (Some v)" by (auto simp: m3_def)
  have sel: "only_selected m3 m4" "\<And>w. w \<in> set (cl_valid_list l2) \<Longrightarrow>
      valid_selected m4 w \<longleftrightarrow> (\<exists>cid \<in> {1, 2}. ?F cid = Some (Some w))"
    using select_candidates_selects [OF m4(1) l3(1,2)] by (simp_all add: l3(3))
  have "map_option list_view (im_lists m' cl) = Some (list_view l3)"
    using m4(2) sel(1) l3(1) by (simp add: same_nominations_def only_selected_def)
  then have vl: "cl_valid_list l' = cl_valid_list l2" using assms(4) l3(3) by (simp add: list_view_def)
  have F: "w \<in> set (cl_valid_list l2) \<and> valid_nominated m' w \<and> valid_component m' w = Some cid" if "?F cid = Some (Some w)" for w cid
    using find_customD [OF that] find_nominated_True [of m3 cid w]
    by (simp add: same_nominations_find(2,3) [OF m4(2)] only_selected_component [OF sel(1)])
  have "w = v" if w: "w \<in> set (cl_valid_list l2)" "valid_selected m' w" "valid_component m' w = Some (c_componentID c)" for w
  proof -
    obtain cid where cid: "?F cid = Some (Some w)" using sel(2) [OF w(1)] w(2) same_nominations_find(4) [OF m4(2)] by blast
    with F [OF cid] w(3) v show ?thesis by simp
  qed
  moreover have "valid_selected m' v" using F [OF v] v assms(8) sel(2) same_nominations_find(4) [OF m4(2)] by auto
  ultimately show ?thesis using F [OF v] by (intro exI [of _ v]) (auto simp: vl)
qed

text \<open>A controlled agent whose only pair has been nominated.\<close>

definition sample_conclusion_list :: IceCheckList where
  "sample_conclusion_list = (ice_check_list_init time_zero True)\<lparr>cl_session := True, cl_local_candidates := [1],
     cl_remote_candidates := [2], cl_local_componentIDs := [1], cl_pairs := [3], cl_check_list := [3], cl_valid_list := [4]\<rparr>"

definition sample_conclusion :: ice_mem where
  "sample_conclusion = (ice_session_new (\<lambda>_. 0))
     \<lparr>im_session := (ice_session_init (\<lambda>_. 0))\<lparr>s_role := IR_Controlled, s_streams := [Some 0]\<rparr>,
      im_lists := [0 \<mapsto> sample_conclusion_list],
      im_cands := [1 \<mapsto> sample_rtp_candidate, 2 \<mapsto> sample_rtp_candidate],
      im_pairs := [3 \<mapsto> (sample_pair 1 ICP_Succeeded)\<lparr>p_remote := Some 2, p_is_nominated := True\<rparr>],
      im_valids := [4 \<mapsto> \<lparr>v_valid = 3, v_generated_from = 3, v_last_keepalive = time_zero, v_selected = False\<rparr>]\<rparr>"

lemma sample_conclusion_completes:
  "\<exists>m' l'. ice_conclude_processing time_zero 0 False sample_conclusion = Some m' \<and> im_lists m' 0 = Some l' \<and>
     cl_state l' = ICL_Completed"
  by (simp add: sample_conclusion_def sample_conclusion_list_def ice_session_new_def ice_session_init_def ice_check_list_init_def sample_pair_def
      sample_rtp_candidate_def ice_conclude_processing_def complete_check_list_def session_of_def
      ice_conclude_waiting_frozen_and_inprogress_pairs_def ice_remove_waiting_and_frozen_pairs_from_list_def
      waiting_or_frozen_of_def pair_local_def pair_remote_def cand_at_def upd_list_def upd_valid_def cap_retransmissions_def
      ice_find_nominated_valid_pair_for_componentID_def ice_find_nominated_valid_pair_from_componentID_def
      ice_check_list_select_candidates_def ice_unselect_valid_pair_def select_nominated_def
      ice_check_list_stop_retransmissions_def ice_pair_stop_retransmissions_def conclude_addresses_def
      ice_check_list_selected_valid_remote_candidate_def find_selected_def ice_find_selected_valid_pair_from_componentID_def
      ice_check_list_selected_valid_local_base_candidate_def base_candidate_def ice_emit_def
      ice_notify_session_processing_finished_def ice_session_contains_check_list_def ice_session_find_running_check_list_def
      ice_check_list_state_def ice_session_find_unsuccessful_check_list_def upd_session_def)

theorem conclude_selects_nominated_pair_witness:
  "\<exists>m' l' v. ice_conclude_processing time_zero 0 False sample_conclusion = Some m' \<and> im_lists m' 0 = Some l' \<and>
     cl_state l' = ICL_Completed \<and> valid_nominated m' v \<and>
     {w \<in> set (cl_valid_list l'). valid_selected m' w \<and> valid_component m' w = Some 1} = {v}"
proof -
  obtain m' l' where m': "ice_conclude_processing time_zero 0 False sample_conclusion = Some m'" "im_lists m' 0 = Some l'"
    "cl_state l' = ICL_Completed"
    using sample_conclusion_completes by blast
  have "\<exists>v. valid_nominated m' v \<and>
      {w \<in> set (cl_valid_list l'). valid_selected m' w \<and> valid_component m' w = Some (c_componentID sample_rtp_candidate)} = {v}"
    by (rule conclude_selects_nominated_pair [OF m'(1) _ _ m'(2,3), of sample_conclusion_list 1])
       (simp_all add: sample_conclusion_def sample_conclusion_list_def sample_rtp_candidate_def ice_check_list_init_def)
  with m' show ?thesis by (auto simp: sample_rtp_candidate_def)
qed

end
