(* ===== verification/Spec2Isabelle.thy ===== *)
theory Spec2Isabelle
  imports Ortp_Mblk_Spec Ortp_Queue_Spec Ortp_Rtp_Ext_Spec Ortp_Rtcp_Sdes Bzrtp_Fragment_Spec Bzrtp_Crypto_Spec
    Bellesip_Timing Stun_Safety Turn_Receive Ice_Priority Ice_Candidates_Spec Ice_Pairs_Spec Ice_Checks_Spec Ice_Conclude_Spec
begin

text \<open>
  A verification development for the linphone SDK.

  \<^bold>\<open>The program.\<close>  The SDK is a stack of C and C++ libraries.  oRTP (src/ortp) moves media:
  it reads RTP and RTCP packets from sockets into reference-counted message blocks, orders
  RTP packets in a jitter queue, asks for lost ones, and walks RTCP reports.  bzrtp
  (src/bzrtp) negotiates the keys of that media with ZRTP messages that travel on the same
  port.  belle-sip (src/belle-sip) is the signalling: it runs the SIP transactions that
  set calls up.  mediastreamer2 (src/mediastreamer2) finds a path for the media: its ICE agent
  pairs the addresses of both sides and checks the pairs with STUN messages, through a TURN
  relay where there is no other way.  liblinphone puts these parts together into calls.  The
  development follows the data: message blocks, queues, RTP, RTCP, ZRTP, SIP, then STUN, TURN
  and ICE.

  \<^bold>\<open>Conventions.\<close>  A function that reads or writes through pointers is a HOL function into
  an option: \<open>None\<close> is an access outside an object, a null pointer, or a call of a fatal
  error; termination is part of every definition (\<open>fun\<close> or \<open>function\<close> with its proof,
  \<open>partial_function (option)\<close> for the loops over linked blocks, where \<open>None\<close> is also a run
  that does not end).  Integers keep their width (\<open>8 word\<close> to \<open>64 word\<close>); where the code
  computes with \<open>int\<close> far from its limits (SIP times and status codes) they are \<open>int\<close>.
  Error codes are values.  What the sources only call (cryptography, random numbers, the
  clock, sockets) is an argument with the laws it needs as named hypotheses.

  \<^bold>\<open>Theories and sources.\<close>
  \<^item> \<open>C_Prelude\<close>: machine integers, bounds-checked buffers, network byte order.
  \<^item> \<open>Ortp_Mblk\<close>: \<open>mblk_t\<close> and \<open>dblk_t\<close> of ortp/src/str_utils.c on an explicit heap with
    reference counts.  \<open>Ortp_Mblk_Props\<close> has the heap invariant (every count is the number
    of owners) and \<open>Ortp_Mblk_Spec\<close> the content of a message after \<open>msgpullup\<close>,
    insertion, copying and appending, and that a duplicate outlives its original.
  \<^item> \<open>Ortp_Queue\<close>, \<open>Ortp_Queue_Props\<close>, \<open>Ortp_Queue_Spec\<close>: \<open>queue_t\<close> as a doubly linked list
    on the same heap, and the block allocator.  The queue refines a list; a block handed out by
    the allocator has no other owner.
  \<^item> \<open>Ortp_Rtp\<close>, \<open>Ortp_Rtp_Props\<close>, \<open>Ortp_Rtp_Spec\<close>: the jitter queue and the retransmission
    requests of ortp/src/rtpsession.c.  The queue stays sorted modulo 16 bits and bounded;
    the NACK names the missing packets.
  \<^item> \<open>Ortp_Rtp_Parse\<close>, \<open>Ortp_Rtp_Parse_Spec\<close>: reception in ortp/src/rtpparse.c: which packets
    are refused, when a new source replaces the old one, extended sequence numbers.
  \<^item> \<open>Ortp_Rtp_Ext\<close>, \<open>Ortp_Rtp_Ext_Spec\<close>: header extensions of RFC 8285, audio levels,
    frame marking.
  \<^item> \<open>Ortp_Rtcp\<close>, \<open>Ortp_Rtcp_Spec\<close>, \<open>Ortp_Rtcp_Sdes\<close>: ortp/src/rtcpparse.c: the walk over
    compound packets, every accessor, the SDES parser.
  \<^item> \<open>Bzrtp_Crypto\<close>, \<open>Bzrtp_Crypto_Spec\<close>: algorithm tables and CRC of bzrtp/src/cryptoUtils.c.
  \<^item> \<open>Bzrtp_Packet\<close>, \<open>Bzrtp_Parse\<close>, \<open>Bzrtp_Build\<close>, \<open>Bzrtp_Wire\<close>, \<open>Bzrtp_Hello\<close>,
    \<open>Bzrtp_Exchange\<close>, \<open>Bzrtp_Commit\<close>, \<open>Bzrtp_Confirm\<close>, \<open>Bzrtp_Fragment\<close>,
    \<open>Bzrtp_Fragment_Spec\<close>: bzrtp/src/packetParser.c.  Messages are created, built, cut into
    fragments, reassembled, checked and parsed; the messages of an honest peer come back as
    they were created, and a message is accepted only when the hash chain authenticates the
    one before.
  \<^item> \<open>Bellesip_Message\<close>, \<open>Bellesip_Transaction\<close>, \<open>Bellesip_Roles\<close>, \<open>Bellesip_Machines\<close>,
    \<open>Bellesip_Steps\<close>: belle-sip/src/transaction.c, ict.c, nict.c, ist.c, nist.c, with the
    parts of provider.c, channel.c and belle_sip_loop.c that they run in.  C structures that
    embed their base are record extensions; virtual methods are the fields of a \<open>vptr\<close>.
    \<open>Bellesip_Inv\<close> and \<open>Bellesip_Invariants\<close> state what a class of transactions and a stable
    predicate promise and what follows for the base class; \<open>Bellesip_Clients\<close> and
    \<open>Bellesip_Servers\<close> give the four invariants.  \<open>Bellesip_Spec\<close>, \<open>Bellesip_Rfc\<close> and
    \<open>Bellesip_Timing\<close> show that no event meets undefined behaviour, that the machines follow
    the diagrams of RFC 3261 and RFC 6026, that no state waits forever for a timer, the
    schedule of retransmissions, and the acknowledgement of failures.
  \<^item> \<open>Stun_Message\<close>, \<open>Stun_Encode\<close>, \<open>Stun_Decode\<close>: mediastreamer2/src/voip/stun.c up to the
    TURN context: the message structure with its setters and constructors, the encoder with
    its growing buffer, integrity and fingerprint, and the parser with its error flag.
    \<open>Stun_Encode_Spec\<close> gives the wire format as a list of attributes and shows that the
    encoder refines it (\<open>byte_sink\<close> is the contract of a buffer that is appended to);
    \<open>Stun_Roundtrip\<close> that the parser reads it back; \<open>Stun_Safety\<close> what the parser does on
    arbitrary bytes.
  \<^item> \<open>Turn\<close>: the rest of stun.c: the TURN context with its permissions, and the endpoint that
    oRTP sends and receives through, on the heap of \<open>Ortp_Mblk\<close>, with the socket address
    conversions of bctoolbox/src/utils/port.c.  \<open>Turn_Send\<close> shows what leaves through the
    relay and that the message and the heap survive it; \<open>Turn_Receive\<close> that the other side
    unpacks it, and nothing from a peer without permission.
  \<^item> \<open>Ice\<close>, \<open>Ice_Candidates\<close>, \<open>Ice_Pairs\<close>, \<open>Ice_Conclude\<close>, \<open>Ice_Restart\<close>, \<open>Ice_Checks\<close>,
    \<open>Ice_Receive\<close>: the ICE agent of mediastreamer2/src/voip/ice.c with the lists of
    bctoolbox/src/containers/list.c.  A session with the stores of its check lists, candidates,
    pairs and valid pairs; freeing removes an object from its store, so that a dangling pointer
    gives \<open>None\<close>.  In order: data, sessions and check lists; candidates, priorities, foundations,
    defaults; pairs and the formation of the check list; nomination, selection and conclusion;
    losing pairs, restart and removal of RTCP; sending of checks with the encoder of
    \<open>Stun_Encode\<close>; the handlers of received messages with its parser, and the periodic
    \<open>ice_check_list_process\<close>.  \<open>Ice_Lists\<close> has the rules the proofs share.  \<open>Ice_Priority\<close>
    compares the priorities with the formulas of RFC 5245; \<open>Ice_Candidates_Spec\<close> shows that the
    elimination of redundant candidates ends and what it leaves; \<open>Ice_Pairs_Spec\<close> that a check list
    is formed without undefined access, ordered and bounded, and which pairs start; \<open>Ice_Checks_Spec\<close>
    that a check passes the tests of the peer with the matching credentials, and what else passes
    them; \<open>Ice_Conclude_Spec\<close> that a completed list has one selected and nominated pair for each
    component.

  \<^bold>\<open>Interfaces.\<close>  Locales state the contracts between the parts and are interpreted on the
  definitions of the model: field encodings (\<open>C_Prelude\<close>), the queue as a list, classes of
  transactions, stable predicates, client and server classes, machines with an invariant, lists
  that are kept in the order of a priority (the check list, the valid list and the pairs to
  nominate), and relations on the memory of the agent that an operation keeps.

  \<^bold>\<open>Bounds and parameters.\<close>  Fragmentation is shown for every MTU from 600 to 3072 that is a
  multiple of four and every message of at most 3056 bytes, the range in which the peer
  accepts the packets.  \<open>ict_idle n\<close> runs \<open>n\<close> timers; seven are enough to end an unanswered
  INVITE and the statement holds for every larger number.  Freshly allocated memory has
  arbitrary content, given as an argument.  The calls a listener makes back on its
  transaction before it returns are arguments: any sequence of terminations and stopped
  retransmissions, and for a response also the closing of the channel.

  \<^bold>\<open>Findings.\<close>  Some properties state what the code does where it departs from its intent:
  a padded append that overruns its block, sequence number gaps at the wrap, elements of
  header extensions and RTCP reports read past their end, fragments of ZRTP messages written
  outside the reassembly buffer, null channels and responses in SIP transactions, ICE error
  responses that their receiver ignores, tests of ICE requests that compare only a part, and
  ICE pairs that stay in a list they should leave.

  \<^bold>\<open>Not modelled.\<close>  Sockets, threads and locks, the scheduler, payload profiles and the
  floating-point jitter estimator of oRTP; the key derivation, the SQLite cache and most of
  the channel state machine of bzrtp; the SIP grammar, dialogs, channels, TLS and DNS of
  belle-sip; the TURN TCP client, the gathering of ICE candidates from STUN and TURN servers,
  filters and codecs of mediastreamer2; liblinphone, the rest of bctoolbox and lime; vendored libraries, wrappers,
  testers and build files.  These are input and output, numerical code, third-party code, or
  large state spaces on top of the parts above.
\<close>

end
